(* ===== verification/Prelude.thy ===== *)
theory Prelude
  imports Complex_Main "HOL-Library.Multiset"
begin

text \<open>
  Shared vocabulary of the development: the HTTP exceptions the NestJS services throw, as values
  of a sum type; chains of guard clauses; repository tables as lists of rows with the queries
  and writes the services make through TypeORM; JavaScript's \<open>Math.round\<close> and truthiness of
  nullable ids.  Every component theory imports this one.
\<close>

named_theorems guard_simps "unfolding rules for chains of guard clauses"
named_theorems table_simps "lookups and writes on repository tables"

section \<open>Exceptions as values\<close>

text \<open>
  \<open>InternalServerError\<close> is an exception that is no \<open>HttpException\<close>, such as a read of a property of
  \<open>null\<close>.  A thrown \<open>HttpException\<close> is its class and the reason for which it is thrown; the reasons are
  grouped by the component that throws them and stand for the message texts of the source.
\<close>

datatype (plugins only: code) sla_reason =
    InvalidSchedule | CalendarIncomplete | CalendarStuck

datatype (plugins only: code) access_reason =
    NotAvailableOvertime | NoTicketAccess | SpecializedAssigneeNotAuthorized
  | AssigneeIsRequester | StaffRequired | OvertimeClockInRequired | AlreadyAcquired
  | ImageStatusLocked | ImageNotOwned

datatype (plugins only: code) update_reason =
    TicketCancelled | UseCancelTicket | ReopenNotPermitted | NotOwnTicket
  | EndUserOperational | SelfCloseNeedsResolved | EditNeedsOpen | TerminalTicket
  | AssignedStaffOnly | RestrictedFields | ResolutionNotAllowed | TypeWhileEscalated
  | TypeNotPermitted | SpecializedFirst | CategoryRequired | CategoryBeforeIssue
  | PriorityNotAllowed

datatype (plugins only: code) status_reason =
    DuplicateAdminOnly | ReturnEscalationFirst | EscalationPending | EscalationAccepted
  | StatusNotAssigned | TransitionNotAllowed | PriorityBeforeProgress | DuplicateCombined
  | DuplicateReason | DuplicateOfRequired | OriginalNotFound | PriorityBeforeResolved
  | IssueBeforeResolved | JustificationRequired | InvalidResolutionDate
  | NoLongerEditable | TicketChanged

datatype (plugins only: code) duplicate_reason =
    DuplicateSourceStatus | DuplicateOverdue | DuplicateSelf | DuplicateOfDuplicate
  | OriginalClosed | OriginalRequester | OriginalNotEarlier | SourceOrOriginalGone
  | HasDependants

datatype (plugins only: code) assign_reason =
    AssignerRole | AssignSnapshotChanged | AssignDuplicate | AssignClosed | TechnicianNotFound
  | SuperAdminAssignee | AttendanceRequired | EscalationAdminOnly | EscalationFocalOnly
  | LowerLevelEscalate | AssigneeBusy | NoLongerEligible | TicketNotFound | LockBusy

datatype (plugins only: code) escalation_reason =
    EscalateRole | EscalationAlreadyPending | EscalateTerminal | FocalNotFound
  | FocalNotDesignated | FocalNotPresent | EscalationNotFound | NotEscalationTarget
  | EscalationProcessed | CancelledEscalation | ReturnReasonRequired

datatype (plugins only: code) cancel_reason =
    CancelReasonLength | CancelVersion | CancelActive | CancelCapability | CancelStatus
  | CancelNotOwn | CancelNotFound | CancelChanged

datatype (plugins only: code) calendar_reason =
    DateRequired | PastOfficeDay

datatype (plugins only: code) routing_reason =
    CategoryInvalid | CategoryMismatch | IssueInvalid | IssueMismatch | NoMatchingCategory
  | RequesterNotFound | IssueRequired | OvertimeProxy | FilerInactive | AdminAssignOnly
  | AssigneeInactive | AssigneeNotStaff

datatype (plugins only: code) image_reason =
    ImageInvalid | ImageMissing | ImageTooLarge | TooManyImages | InactiveAccount | ImageGone
  | InternalNoteDenied | CommentEmpty | CommentNotFound | CommentNotOwn | MentionsInternalOnly
  | MentionInvalid

datatype (plugins only: code) correction_reason =
    OverrideCapability | OverrideStatus | OverrideUnrecorded | OverrideReasonShort
  | OverrideProofRequired | OverrideDateInvalid | OverrideBeforeStart | OverrideAfterRecorded
  | OverrideFuture | CorrectionCapability | CorrectionRequester | CorrectionSuperAdmin
  | CorrectionChanged | CorrectionStatus | CorrectionSame | CorrectionOwn | CorrectionStaff
  | CorrectionUnassigned | ProxyUnverified | ProxyOtherUnit

datatype (plugins only: code) rating_reason =
    RatingRequesterOnly | RatingStatus | RatingSubmitted | RatingConsent | RatingField
  | RatingContact | RatingAge | RatingLikertCount | RatingLikertValue | RatingRange

datatype (plugins only: code) attendance_reason =
    PastAttendance | FutureAttendance | AttendanceManage | RestoreToday | AttendanceNotFound
  | AlreadyDtr | DtrOffline | NoEmployeeCode | NoClockIn | AttendanceFields

datatype (plugins only: code) duty_reason =
    DutyAdminRequired | DutyLogNotFound | DutyLogAutomatic | DutyStaff | DutyTypeInvalid
  | DutyExceptionNotFound | DutyExceptionRoster | DutyExceptionDuplicate | RosterOdOnly
  | RosterNoOdOnly | RosterNoVenue | RosterStaff | NoRosterMembers | CoverageNotFound
  | CoverageNotPending | CoverageConflict | CoverageTickets | CoverageAttendance | CoverageToday
  | CoverageCandidate | CoverageNotActive | NoReplacement | ReplacementFailed

datatype (plugins only: code) meeting_reason =
    MeetingScheduler | MeetingNotFound | MeetingHistorical | MeetingPurposeOnly | MeetingActiveDuty
  | MeetingReopened | MeetingPast | MeetingFinish | MeetingTimes | MeetingCrossesNoon | MeetingTaken
  | MeetingDelete | RelieverStatus | RelieverPast | RelieverReason | RelieverNone | RelieverRoster
  | RelieverOdOnly | RelieverBusy | RelieverAttendance | RelieverTickets | MeetingCancelled
  | MeetingNotToday | MeetingNoReliever

datatype (plugins only: code) document_reason =
    DocNotFound | DocFileType | DocNoAssignment | DocSubmitted | DocFileName | DocPeriod | DocTypeInvalid
  | DocGoogleUrl | DocGoogleExport | DocGoogleSize | DocSelfReference | DocNotReady | DocReferenceExists
  | DocReferenceNotFound | DocAssignmentExists | DocAssignmentNotFound | DocLinked | DocNotCompliant
  | DocRemarks | DocHardDelete | DocProcessing | DocVersionNotFound | DocNotOwner | DocNotReturned
  | DocIdentical | DocAccess | DocPreview | DocTypeExists | DocTypeNotFound | DocVersionsDiffer

datatype (plugins only: code) kpi_reason =
    KpiManage | KpiUnitNotFound | KpiMasterNotFound | KpiCodeExists | KpiUnitDenied | KpiMonth | KpiYear
  | KpiUnitInvalid | KpiLocked | KpiYesNo | KpiRowNotFound | KpiThresholdNotFound | KpiRuleNotFound

datatype (plugins only: code) issuance_reason =
    RegisterInvalid | LifecycleInvalid | ApplicabilityInvalid | DecisionInvalid | ScopeInvalid
  | NotApplicableIncluded | StatusReasonRequired | DomainsInvalid | AmendedNumberRequired | AmendedNotFound
  | AmendsItself | IncludeNeedsActive | IncludeNeedsApplicable | IncludeNeedsDomain | IncludeNeedsSource
  | IssuanceNumberExists | IssuanceNotFound | LinksUnavailable | LinkDocumentNotFound | LinkDocumentNotReady
  | AttachmentMissing | AttachmentType | AttachmentContent | AttachmentElsewhere | AttachmentNotFound | LastSource
  | DomainFields | DomainExists | DomainNotFound | DomainInUse | SourceTypeInvalid | SourceUrlRequired
  | SourceLinked | SourceNotFound | RelatedToItself | RelationshipTypeInvalid | AlreadyAmends
  | RelationshipExists | RelationshipNotFound | AssessmentYear | AssessmentQuarter | AssessmentStatusInvalid
  | ReadinessInvalid | AssessmentNotFound | EvidenceLabel | EvidenceTarget | EvidenceDocument
  | EvidenceVersion | EvidenceVersionAlone | EvidenceNotFound | ActionRequired | ActionStatusInvalid
  | ActionNotFound | DecisionReasonRequired

datatype (plugins only: code) mov_reason =
    ArtifactNotFound | ReportStatusInvalid | ReportImmutable | ReportDelete | ReportYear | ReportQuarter
  | RegisterScopeInvalid | NoAssessmentPlan

datatype (plugins only: code) report_reason =
    ReportAccess | ReportStaffScope | ReportKeys | TemplateName | TemplateRevision | TemplateNotFound
  | TemplateChanged | TooManyTemplates | TemplateNameTaken | ReportCalendar | ReportPeriodInvalid
  | ReportConfigInvalid

datatype (plugins only: code) reason =
    Sla sla_reason | Access access_reason | Update update_reason | StatusChange status_reason
  | Duplicate duplicate_reason | Assign assign_reason | Escalate escalation_reason
  | Cancel cancel_reason | Calendar calendar_reason | Routing routing_reason
  | Image image_reason | Correction correction_reason | Rating rating_reason
  | Attendance attendance_reason | Duty duty_reason | Meeting meeting_reason
  | Doc document_reason | Kpi kpi_reason | Issue issuance_reason | Mov mov_reason | Report report_reason

datatype (plugins only: code) http_error =
    BadRequest reason
  | Forbidden reason
  | NotFound reason
  | Conflict reason
  | ServiceUnavailable reason
  | InternalServerError

section \<open>Results\<close>

text \<open>\<open>await\<close> of a call that may throw: the first error ends the handler.\<close>

type_synonym 'a result = "http_error + 'a"

fun and_then :: "'e + 'a \<Rightarrow> ('a \<Rightarrow> 'e + 'b) \<Rightarrow> 'e + 'b" where
  "and_then (Inl e) f = Inl e"
| "and_then (Inr x) f = f x"

lemma and_then_Inr_iff: "and_then m f = Inr y \<longleftrightarrow> (\<exists>x. m = Inr x \<and> f x = Inr y)"
  by (cases m) auto

lemma and_then_InrE [elim]:
  assumes "and_then m f = Inr y"
  obtains x where "m = Inr x" "f x = Inr y"
  using assms by (auto simp: and_then_Inr_iff)

text \<open>\<open>ensures P m\<close>: if \<open>m\<close> does not throw, its value satisfies \<open>P\<close>.\<close>

definition ensures :: "('a \<Rightarrow> bool) \<Rightarrow> 'e + 'a \<Rightarrow> bool" where
  "ensures P m \<longleftrightarrow> (\<forall>x. m = Inr x \<longrightarrow> P x)"

lemma ensures_simps:
  "ensures P (Inr x) \<longleftrightarrow> P x" "ensures P (Inl e)"
  "ensures P (and_then m f) \<longleftrightarrow> (\<forall>y. m = Inr y \<longrightarrow> ensures P (f y))"
  by (cases m; simp add: ensures_def)+

lemma ensuresD: "ensures P m \<Longrightarrow> m = Inr x \<Longrightarrow> P x"
  by (simp add: ensures_def)

section \<open>Guard clauses\<close>

text \<open>
  The handlers start with a chain of \<open>if (condition) throw new ...Exception(...)\<close>.  Such a chain
  is a list of conditions with their exceptions, in the order of the source; the first condition
  that holds decides.
\<close>

fun first_error :: "(bool \<times> 'e) list \<Rightarrow> 'e option" where
  "first_error [] = None"
| "first_error ((c, e) # gs) = (if c then Some e else first_error gs)"

lemma first_error_None_iff: "first_error gs = None \<longleftrightarrow> (\<forall>g \<in> set gs. \<not> fst g)"
  by (induction gs rule: first_error.induct) auto

lemma first_error_Some_member: "first_error gs = Some e \<Longrightarrow> (True, e) \<in> set gs"
  by (induction gs rule: first_error.induct) (auto split: if_splits)

lemma first_error_append:
  "first_error (gs @ hs) = (case first_error gs of None \<Rightarrow> first_error hs | Some e \<Rightarrow> Some e)"
proof (induction gs)
  case (Cons g gs)
  then show ?case by (cases g) simp
qed simp

lemma first_error_None_Cons [guard_simps]:
  "first_error ((c, e) # gs) = None \<longleftrightarrow> \<not> c \<and> first_error gs = None"
  by simp

declare first_error.simps(1) [guard_simps]

text \<open>A chain of guards followed by the rest of the handler.\<close>

definition guarded :: "'e option \<Rightarrow> 'e + 'a \<Rightarrow> 'e + 'a" where
  "guarded g rest = (case g of Some e \<Rightarrow> Inl e | None \<Rightarrow> rest)"

lemma guarded_simps [simp]: "guarded None m = m" "guarded (Some e) m = Inl e"
  by (simp_all add: guarded_def)

lemma ensures_guarded: "ensures P (guarded g m) \<longleftrightarrow> (g = None \<longrightarrow> ensures P m)"
  by (cases g) (simp_all add: ensures_simps)

lemma guarded_Inr_iff: "guarded g m = Inr x \<longleftrightarrow> g = None \<and> m = Inr x"
  by (cases g) auto

section \<open>Nullable ids\<close>

text \<open>
  \<open>if (id)\<close> on a nullable number is false for \<open>null\<close>, \<open>undefined\<close> and \<open>0\<close>.
\<close>

fun truthy :: "nat option \<Rightarrow> bool" where
  "truthy None = False"
| "truthy (Some n) = (n \<noteq> 0)"

lemma truthy_iff: "truthy x \<longleftrightarrow> (\<exists>n. x = Some n \<and> n \<noteq> 0)"
  by (cases x) auto

text \<open>\<open>Number(x)\<close> of a nullable id, as the comparisons \<open>Number(a) === Number(b)\<close> use it:
  \<open>Number(null)\<close> is 0.\<close>

fun number :: "nat option \<Rightarrow> nat" where
  "number None = 0"
| "number (Some n) = n"

section \<open>Texts\<close>

text \<open>\<open>String.prototype.trim\<close> on the characters HOL strings have: white space and line ends.\<close>

definition js_space :: "char \<Rightarrow> bool" where
  "js_space c \<longleftrightarrow> (of_char c :: nat) \<in> {9, 10, 11, 12, 13, 32, 160}"

definition trim :: "string \<Rightarrow> string" where
  "trim s = rev (dropWhile js_space (rev (dropWhile js_space s)))"

text \<open>\<open>!s?.trim()\<close> of an optional text.\<close>

definition blank :: "string option \<Rightarrow> bool" where
  "blank s = (case s of None \<Rightarrow> True | Some x \<Rightarrow> trim x = [])"

section \<open>Rounding\<close>

text \<open>\<open>new Date(x)\<close> drops the fraction of a millisecond.\<close>

definition date_of_rat :: "rat \<Rightarrow> int" where
  "date_of_rat x = (if 0 \<le> x then \<lfloor>x\<rfloor> else \<lceil>x\<rceil>)"

lemma date_of_rat_of_int [simp]: "date_of_rat (of_int n) = n"
  by (simp add: date_of_rat_def)

text \<open>\<open>Math.round\<close>: to the nearest integer, halves towards plus infinity.\<close>

definition js_round :: "rat \<Rightarrow> int" where
  "js_round x = \<lfloor>x + 1 / 2\<rfloor>"

lemma js_round_of_int [simp]: "js_round (of_int n) = n"
  by (simp add: js_round_def floor_unique)

lemma js_round_nonneg: "0 \<le> x \<Longrightarrow> 0 \<le> js_round x"
  by (simp add: js_round_def)

lemma js_round_mono: "x \<le> y \<Longrightarrow> js_round x \<le> js_round y"
  by (simp add: js_round_def floor_mono)

section \<open>Counting the points of an interval\<close>

text \<open>
  \<open>count_in W a b\<close> counts the integers of \<open>[a, b)\<close> that satisfy \<open>W\<close>; with \<open>W\<close> the working
  seconds of a calendar it is the business time between two instants.
\<close>

definition count_in :: "(int \<Rightarrow> bool) \<Rightarrow> int \<Rightarrow> int \<Rightarrow> int" where
  "count_in W a b = int (card ({a..<b} \<inter> Collect W))"

lemma count_in_nonneg [simp]: "0 \<le> count_in W a b"
  by (simp add: count_in_def)

lemma count_in_empty [simp]: "b \<le> a \<Longrightarrow> count_in W a b = 0"
  by (simp add: count_in_def)

lemma count_in_split:
  assumes "a \<le> b" "b \<le> c"
  shows "count_in W a c = count_in W a b + count_in W b c"
proof -
  have "{a..<c} \<inter> Collect W = ({a..<b} \<inter> Collect W) \<union> ({b..<c} \<inter> Collect W)" using assms by auto
  moreover have "({a..<b} \<inter> Collect W) \<inter> ({b..<c} \<inter> Collect W) = {}" by auto
  ultimately show ?thesis by (simp add: count_in_def card_Un_disjoint)
qed

lemma count_in_none: "(\<And>k. a \<le> k \<Longrightarrow> k < b \<Longrightarrow> \<not> W k) \<Longrightarrow> count_in W a b = 0"
proof -
  assume "\<And>k. a \<le> k \<Longrightarrow> k < b \<Longrightarrow> \<not> W k"
  then have "{a..<b} \<inter> Collect W = {}" by auto
  then show ?thesis by (simp add: count_in_def)
qed

lemma count_in_all:
  assumes "\<And>k. a \<le> k \<Longrightarrow> k < b \<Longrightarrow> W k" "a \<le> b"
  shows "count_in W a b = b - a"
proof -
  have "{a..<b} \<inter> Collect W = {a..<b}" using assms by auto
  then show ?thesis using assms(2) by (simp add: count_in_def)
qed

lemma count_in_le: "a \<le> b \<Longrightarrow> count_in W a b \<le> b - a"
proof -
  assume "a \<le> b"
  have "card ({a..<b} \<inter> Collect W) \<le> card {a..<b}" by (rule card_mono) auto
  with \<open>a \<le> b\<close> show ?thesis by (simp add: count_in_def)
qed

lemma count_in_mono: "b \<le> c \<Longrightarrow> count_in W a b \<le> count_in W a c"
proof (cases "a \<le> b")
  case True
  then show "b \<le> c \<Longrightarrow> ?thesis" by (simp add: count_in_split [of a b c])
qed simp

lemma count_in_antimono: "a \<le> b \<Longrightarrow> count_in W b c \<le> count_in W a c"
proof (cases "b \<le> c")
  case True
  then show "a \<le> b \<Longrightarrow> ?thesis" by (simp add: count_in_split [of a b c])
qed simp

lemma count_in_0_iff: "count_in W a b = 0 \<longleftrightarrow> (\<forall>k. a \<le> k \<longrightarrow> k < b \<longrightarrow> \<not> W k)"
proof
  assume "count_in W a b = 0"
  then have "{a..<b} \<inter> Collect W = {}" by (simp add: count_in_def)
  then show "\<forall>k. a \<le> k \<longrightarrow> k < b \<longrightarrow> \<not> W k" by auto
qed (simp add: count_in_none)

lemma count_in_step: "count_in W a (a + 1) = (if W a then 1 else 0)"
proof -
  have "{a..<a + 1} \<inter> Collect W = (if W a then {a} else {})" by auto
  then show ?thesis by (simp add: count_in_def)
qed

text \<open>The least instant by which \<open>n\<close> points have been counted is unique.\<close>

lemma count_in_unique:
  assumes "count_in W a b = count_in W a c" "a \<le> b" "a \<le> c" "W (b - 1)" "W (c - 1)" "a < b" "a < c"
  shows "b = c"
proof (rule ccontr)
  have strict: "count_in W a x < count_in W a y" if "a \<le> x" "x < y" "W (y - 1)" for x y
  proof -
    have "count_in W (y - 1) y = 1" using count_in_step [of W "y - 1"] that by simp
    moreover have "count_in W a y = count_in W a (y - 1) + count_in W (y - 1) y"
      using that by (intro count_in_split) auto
    moreover have "count_in W a x \<le> count_in W a (y - 1)" using that by (intro count_in_mono) simp
    ultimately show ?thesis by simp
  qed
  assume "b \<noteq> c"
  then consider "b < c" | "c < b" by linarith
  then show False using strict [of b c] strict [of c b] assms by cases auto
qed

section \<open>Repository tables\<close>

text \<open>
  A table is the list of its rows; \<open>key\<close> reads a row's primary key.  \<open>find_row\<close> is
  \<open>repo.findOne({ where: { id } })\<close>, \<open>save_row\<close> is \<open>repo.save(row)\<close>: it replaces the row with
  the same key and inserts a new one at the end.
\<close>

definition find_row :: "('r \<Rightarrow> 'k) \<Rightarrow> 'r list \<Rightarrow> 'k \<Rightarrow> 'r option" where
  "find_row key rows k = List.find (\<lambda>r. key r = k) rows"

fun save_row :: "('r \<Rightarrow> 'k) \<Rightarrow> 'r list \<Rightarrow> 'r \<Rightarrow> 'r list" where
  "save_row key [] r = [r]"
| "save_row key (x # xs) r = (if key x = key r then r # xs else x # save_row key xs r)"

fun save_rows :: "('r \<Rightarrow> 'k) \<Rightarrow> 'r list \<Rightarrow> 'r list \<Rightarrow> 'r list" where
  "save_rows key rows [] = rows"
| "save_rows key rows (r # rs) = save_rows key (save_row key rows r) rs"

text \<open>\<open>repo.count({ where })\<close>.\<close>

definition count_rows :: "('r \<Rightarrow> bool) \<Rightarrow> 'r list \<Rightarrow> nat" where
  "count_rows P rows = length (filter P rows)"

text \<open>\<open>repo.findOne({ where, order: { column: 'ASC' } })\<close>: the first row with the least value.\<close>

fun oldest_by :: "('r \<Rightarrow> int) \<Rightarrow> 'r list \<Rightarrow> 'r option" where
  "oldest_by f [] = None"
| "oldest_by f (r # rs) =
     (case oldest_by f rs of
        None \<Rightarrow> Some r
      | Some s \<Rightarrow> if f r \<le> f s then Some r else Some s)"

definition table_ok :: "('r \<Rightarrow> 'k) \<Rightarrow> 'r list \<Rightarrow> bool" where
  "table_ok key rows \<longleftrightarrow> distinct (map key rows)"

lemma find_row_Some: "find_row key rows k = Some r \<Longrightarrow> r \<in> set rows \<and> key r = k"
  by (auto simp: find_row_def find_Some_iff)

lemma find_row_save_same [table_simps]: "find_row key (save_row key rows r) (key r) = Some r"
  by (induction rows) (auto simp: find_row_def)

lemma find_row_save_other [table_simps]:
  "k \<noteq> key r \<Longrightarrow> find_row key (save_row key rows r) k = find_row key rows k"
  by (induction rows) (auto simp: find_row_def)

lemma set_save_row_subset: "set (save_row key rows r) \<subseteq> insert r (set rows)"
  by (induction rows) auto

lemma in_save_row: "r \<in> set (save_row key rows r)"
  by (induction rows) auto

lemma keys_save_row:
  "key ` set (save_row key rows r) = insert (key r) (key ` set rows)"
proof (induction rows)
  case (Cons x xs)
  then show ?case by (cases "key x = key r") auto
qed simp

lemma table_ok_save_row [table_simps]: "table_ok key rows \<Longrightarrow> table_ok key (save_row key rows r)"
proof (induction rows)
  case (Cons x xs)
  have "key x \<notin> set (map key (save_row key xs r))" if "key x \<noteq> key r"
    using that Cons.prems keys_save_row [of key xs r] by (auto simp: table_ok_def)
  with Cons show ?case by (auto simp: table_ok_def)
qed (simp add: table_ok_def)

lemma save_row_other_member:
  "x \<in> set rows \<Longrightarrow> key x \<noteq> key r \<Longrightarrow> x \<in> set (save_row key rows r)"
  by (induction rows) auto

lemma table_ok_save_rows [table_simps]: "table_ok key rows \<Longrightarrow> table_ok key (save_rows key rows rs)"
  by (induction rs arbitrary: rows) (auto simp: table_simps)

lemma set_save_rows_subset: "set (save_rows key rows rs) \<subseteq> set rs \<union> set rows"
proof (induction rs arbitrary: rows)
  case (Cons r rs)
  then show ?case using set_save_row_subset [of key rows r] by fastforce
qed simp

lemma find_row_save_rows_other:
  "k \<notin> key ` set rs \<Longrightarrow> find_row key (save_rows key rows rs) k = find_row key rows k"
  by (induction rs arbitrary: rows) (auto simp: table_simps)

lemma find_row_table_ok:
  "table_ok key rows \<Longrightarrow> r \<in> set rows \<Longrightarrow> find_row key rows (key r) = Some r"
proof (induction rows)
  case (Cons x xs)
  then show ?case by (auto simp: table_ok_def find_row_def image_iff)
qed simp

lemma count_rows_zero_iff: "count_rows P rows = 0 \<longleftrightarrow> (\<forall>r \<in> set rows. \<not> P r)"
  by (auto simp: count_rows_def filter_empty_conv)

lemma oldest_by_Some:
  "oldest_by f rows = Some r \<Longrightarrow> r \<in> set rows \<and> (\<forall>s \<in> set rows. f r \<le> f s)"
proof (induction rows arbitrary: r)
  case (Cons x xs)
  show ?case
  proof (cases "oldest_by f xs")
    case None
    then have "xs = []" by (cases xs) (auto split: option.splits if_splits)
    with Cons.prems show ?thesis by simp
  next
    case (Some s)
    with Cons.IH [OF Some] Cons.prems show ?thesis by (auto split: if_splits)
  qed
qed simp

lemma oldest_by_None_iff: "oldest_by f rows = None \<longleftrightarrow> rows = []"
  by (cases rows) (auto split: option.splits)

section \<open>The repository interface\<close>

text \<open>
  What the services rely on when they go through a repository: a saved row is the one a later
  lookup by its key returns, other keys are untouched, and keys stay unique.
\<close>

locale repository =
  fixes key :: "'r \<Rightarrow> 'k"
    and lookup :: "'r list \<Rightarrow> 'k \<Rightarrow> 'r option"
    and save :: "'r list \<Rightarrow> 'r \<Rightarrow> 'r list"
  assumes lookup_save_same: "lookup (save rows r) (key r) = Some r"
    and lookup_save_other: "k \<noteq> key r \<Longrightarrow> lookup (save rows r) k = lookup rows k"
    and lookup_key: "lookup rows k = Some r \<Longrightarrow> key r = k"
begin

lemma save_then_save: "lookup (save (save rows r) s) (key r) = (if key r = key s then Some s else Some r)"
  by (metis lookup_save_other lookup_save_same)

lemma save_same_row: "lookup rows (key r) = Some r \<Longrightarrow> lookup (save rows r) = lookup rows"
proof
  fix k
  assume "lookup rows (key r) = Some r"
  then show "lookup (save rows r) k = lookup rows k"
    by (cases "k = key r") (auto simp: lookup_save_same lookup_save_other)
qed

end

interpretation table: repository key "find_row key" "save_row key" for key :: "'r \<Rightarrow> 'k"
  by unfold_locales (auto simp: table_simps dest: find_row_Some)

end
