(* ===== verification/Roles.thy ===== *)
theory Roles
  imports Prelude
begin

text \<open>
  Accounts, roles and the role-capability cache (\<open>RoleCapabilitiesHttpClient\<close>).  The two roles the
  code names in conditions are constructors, every other role is staff and known by its value.  The
  cache maps a role to the capability columns that are set in its row; a role without a row has none.
\<close>

datatype (plugins only: code) user_role = SUPER_ADMIN | USER | STAFF string

datatype (plugins only: code) capability =
    CapFocal | CapIto | CapDesktop | CapItSupport | CapPantawidIct | CapSpecializedSupport
  | CapEscalationFocal | CapTicketSettingsFocal | CapAllTickets | CapTicketFocal
  | CapTicketModuleAccess | CapTicketCancellation | CapResolutionTimeOverride
  | CapRequesterCorrection | CapDutyViewer | CapDutyAdmin | CapAttendanceEligible | CapAttendanceManage
  | CapAttendanceAccess | CapDocumentsDelete | CapDocumentsAccess
  | CapKpiManage | CapIssuancesReview | CapTicketReportsAccess | CapTicketReportsManage

type_synonym capability_cache = "user_role \<Rightarrow> capability list option"

definition has_capability :: "capability_cache \<Rightarrow> capability \<Rightarrow> user_role \<Rightarrow> bool" where
  "has_capability caps c role = (case caps role of Some cs \<Rightarrow> c \<in> set cs | None \<Rightarrow> False)"

definition isFocal :: "capability_cache \<Rightarrow> user_role \<Rightarrow> bool" where
  "isFocal caps = has_capability caps CapFocal"

definition isSpecializedSupport :: "capability_cache \<Rightarrow> user_role \<Rightarrow> bool" where
  "isSpecializedSupport caps = has_capability caps CapSpecializedSupport"

definition isAttendanceManage :: "capability_cache \<Rightarrow> user_role \<Rightarrow> bool" where
  "isAttendanceManage caps = has_capability caps CapAttendanceManage"

definition isAttendanceAccess :: "capability_cache \<Rightarrow> user_role \<Rightarrow> bool" where
  "isAttendanceAccess caps = has_capability caps CapAttendanceAccess"

definition isEscalationFocal :: "capability_cache \<Rightarrow> user_role \<Rightarrow> bool" where
  "isEscalationFocal caps = has_capability caps CapEscalationFocal"

definition isTechnician :: "capability_cache \<Rightarrow> user_role \<Rightarrow> bool" where
  "isTechnician caps role \<longleftrightarrow> has_capability caps CapDesktop role
     \<or> has_capability caps CapItSupport role \<or> has_capability caps CapPantawidIct role"

definition isSeniorTech :: "capability_cache \<Rightarrow> user_role \<Rightarrow> bool" where
  "isSeniorTech caps role \<longleftrightarrow> caps role \<noteq> None \<and> has_capability caps CapFocal role
     \<and> (has_capability caps CapDesktop role \<or> has_capability caps CapItSupport role
        \<or> has_capability caps CapPantawidIct role)"

definition isTicketSettingsFocal :: "capability_cache \<Rightarrow> user_role \<Rightarrow> bool" where
  "isTicketSettingsFocal caps = has_capability caps CapTicketSettingsFocal"

definition isAllTickets :: "capability_cache \<Rightarrow> user_role \<Rightarrow> bool" where
  "isAllTickets caps = has_capability caps CapAllTickets"

definition isTicketFocal :: "capability_cache \<Rightarrow> user_role \<Rightarrow> bool" where
  "isTicketFocal caps = has_capability caps CapTicketFocal"

definition isTicketModuleAccess :: "capability_cache \<Rightarrow> user_role \<Rightarrow> bool" where
  "isTicketModuleAccess caps = has_capability caps CapTicketModuleAccess"

definition isTicketCancellation :: "capability_cache \<Rightarrow> user_role \<Rightarrow> bool" where
  "isTicketCancellation caps = has_capability caps CapTicketCancellation"

lemma isSeniorTech_iff: "isSeniorTech caps role \<longleftrightarrow> isFocal caps role \<and> isTechnician caps role"
  by (auto simp: isSeniorTech_def isFocal_def isTechnician_def has_capability_def split: option.splits)

text \<open>\<open>isOvertimeStaff\<close> and the account record of the users service.\<close>

definition isOvertimeStaff :: "user_role option \<Rightarrow> bool" where
  "isOvertimeStaff role = (case role of None \<Rightarrow> False | Some r \<Rightarrow> r \<noteq> USER \<and> r \<noteq> SUPER_ADMIN)"

record account =
  acc_id :: nat
  acc_role :: user_role
  acc_active :: bool
  acc_autoAssignmentEligible :: bool
  acc_units :: "nat list"
  acc_staffId :: string

type_synonym users_client = "nat \<Rightarrow> account option"

end
