(* ===== verification/ManilaTime.thy ===== *)
theory ManilaTime
  imports Prelude
begin

text \<open>
  Dates of the ticketing service.  A JavaScript \<open>Date\<close> is its epoch value in milliseconds, an
  integer.  Asia/Manila is UTC+8 without daylight saving, so a Manila calendar date
  (\<open>YYYY-MM-DD\<close>) is the number of days since 1970-01-01 of the shifted clock; the order of the
  date strings is the order of these numbers.  A time-of-day column (\<open>HH:MM:SS\<close>) is a value of
  type \<open>clock\<close>, ordered as its fixed-width strings are.
\<close>

named_theorems manila_simps "equations for Manila dates and clocks"

type_synonym date = int
type_synonym day = int

abbreviation day_ms :: int where "day_ms \<equiv> 86400000"
abbreviation manila_offset_ms :: int where "manila_offset_ms \<equiv> 28800000"

section \<open>Times of day\<close>

datatype clock = Clock (clock_hh: nat) (clock_mm: nat) (clock_ss: nat)

instantiation clock :: linorder
begin

definition less_eq_clock :: "clock \<Rightarrow> clock \<Rightarrow> bool" where
  "a \<le> b \<longleftrightarrow> clock_hh a < clock_hh b \<or> clock_hh a = clock_hh b \<and>
     (clock_mm a < clock_mm b \<or> clock_mm a = clock_mm b \<and> clock_ss a \<le> clock_ss b)"

definition less_clock :: "clock \<Rightarrow> clock \<Rightarrow> bool" where
  "a < b \<longleftrightarrow> clock_hh a < clock_hh b \<or> clock_hh a = clock_hh b \<and>
     (clock_mm a < clock_mm b \<or> clock_mm a = clock_mm b \<and> clock_ss a < clock_ss b)"

instance
  by standard (auto simp: less_eq_clock_def less_clock_def clock.expand)

end

lemma clock_less_iff [manila_simps]:
  "Clock h m s < Clock h' m' s' \<longleftrightarrow> h < h' \<or> h = h' \<and> (m < m' \<or> m = m' \<and> s < s')"
  by (simp add: less_clock_def)

lemma clock_le_iff [manila_simps]:
  "Clock h m s \<le> Clock h' m' s' \<longleftrightarrow> h < h' \<or> h = h' \<and> (m < m' \<or> m = m' \<and> s \<le> s')"
  by (simp add: less_eq_clock_def)

definition clock_ok :: "clock \<Rightarrow> bool" where
  "clock_ok c \<longleftrightarrow> clock_hh c \<le> 24 \<and> clock_mm c < 60 \<and> clock_ss c < 60"

fun clock_seconds :: "clock \<Rightarrow> int" where
  "clock_seconds (Clock h m s) = int h * 3600 + int m * 60 + int s"

lemma clock_less_seconds:
  "clock_ok a \<Longrightarrow> clock_ok b \<Longrightarrow> a < b \<longleftrightarrow> clock_seconds a < clock_seconds b"
  by (cases a; cases b) (auto simp: manila_simps clock_ok_def)

section \<open>Manila dates\<close>

definition getManilaDateString :: "date \<Rightarrow> day" where
  "getManilaDateString value = (value + manila_offset_ms) div day_ms"

text \<open>Milliseconds since Manila midnight.\<close>

definition manila_ms :: "date \<Rightarrow> int" where
  "manila_ms value = (value + manila_offset_ms) mod day_ms"

definition getManilaTimeString :: "date \<Rightarrow> clock" where
  "getManilaTimeString value =
     (let s = manila_ms value div 1000
      in Clock (nat (s div 3600)) (nat (s div 60 mod 60)) (nat (s mod 60)))"

text \<open>\<open>new Date(`${date}T00:00:00+08:00`)\<close>.\<close>

definition manila_midnight :: "day \<Rightarrow> date" where
  "manila_midnight d = d * day_ms - manila_offset_ms"

definition createManilaDate :: "day \<Rightarrow> clock \<Rightarrow> date" where
  "createManilaDate d time = manila_midnight d + clock_seconds time * 1000"

definition addManilaDays :: "day \<Rightarrow> int \<Rightarrow> day" where
  "addManilaDays d n = getManilaDateString (manila_midnight d + n * day_ms)"

text \<open>Day of the week of a date, Sunday = 0 (1970-01-01 was a Thursday).\<close>

definition day_of_week :: "day \<Rightarrow> int" where
  "day_of_week d = (d + 4) mod 7"

definition getManilaWeekStart :: "date \<Rightarrow> date" where
  "getManilaWeekStart now =
     (let d = getManilaDateString now
      in manila_midnight d - max (day_of_week d) 0 * 24 * 60 * 60 * 1000)"

text \<open>\<open>weeklyPerformancePeriod\<close>: from Monday midnight in Manila up to now.\<close>

record performance_period =
  period_start :: date
  period_end :: date

definition weeklyPerformancePeriod :: "date \<Rightarrow> performance_period" where
  "weeklyPerformancePeriod now =
     (let calendar = getManilaDateString now * day_ms;
          daysSinceMonday = (day_of_week (calendar div day_ms) + 6) mod 7
      in \<lparr>period_start = calendar - daysSinceMonday * day_ms - manila_offset_ms, period_end = now\<rparr>)"

section \<open>Laws\<close>

lemma manila_ms_bounds: "0 \<le> manila_ms t" "manila_ms t < day_ms"
  by (simp_all add: manila_ms_def)

lemma manila_split: "t = manila_midnight (getManilaDateString t) + manila_ms t"
  using div_mult_mod_eq [of "t + manila_offset_ms" day_ms]
  unfolding manila_midnight_def getManilaDateString_def manila_ms_def by linarith

lemma getManilaDateString_at [manila_simps]:
  "0 \<le> x \<Longrightarrow> x < day_ms \<Longrightarrow> getManilaDateString (manila_midnight d + x) = d"
  by (simp add: manila_midnight_def getManilaDateString_def)

lemma manila_ms_at [manila_simps]:
  "0 \<le> x \<Longrightarrow> x < day_ms \<Longrightarrow> manila_ms (manila_midnight d + x) = x"
  by (simp add: manila_midnight_def manila_ms_def)

lemma getManilaDateString_midnight [manila_simps]: "getManilaDateString (manila_midnight d) = d"
  using getManilaDateString_at [of 0 d] by simp

lemma manila_midnight_add [manila_simps]: "manila_midnight d + n * day_ms = manila_midnight (d + n)"
  by (simp add: manila_midnight_def algebra_simps)

lemma addManilaDays_eq [manila_simps]: "addManilaDays d n = d + n"
  by (simp add: addManilaDays_def manila_simps)

lemma day_of_week_bounds: "0 \<le> day_of_week d" "day_of_week d < 7"
  by (simp_all add: day_of_week_def)

lemma getManilaDateString_mono: "s \<le> t \<Longrightarrow> getManilaDateString s \<le> getManilaDateString t"
  by (simp add: getManilaDateString_def zdiv_mono1)

lemma getManilaTimeString_ok: "clock_ok (getManilaTimeString t)"
proof -
  define s where "s = manila_ms t div 1000"
  have "0 \<le> s" "s < 86400" using manila_ms_bounds [of t] by (simp_all add: s_def)
  then have "s div 3600 \<le> 24" "s div 60 mod 60 < 60" "s mod 60 < 60" by linarith+
  then show ?thesis
    by (simp add: getManilaTimeString_def s_def [symmetric] clock_ok_def Let_def nat_less_iff nat_le_iff)
qed

lemma clock_seconds_getManilaTimeString: "clock_seconds (getManilaTimeString t) = manila_ms t div 1000"
proof -
  define s where "s = manila_ms t div 1000"
  have "0 \<le> s" using manila_ms_bounds [of t] by (simp add: s_def)
  moreover have "s = s div 3600 * 3600 + (s div 60 mod 60 * 60 + s mod 60)"
    using zmod_zmult2_eq [of 60 s 60] div_mult_mod_eq [of s 3600] by simp
  ultimately have "int (nat (s div 3600)) * 3600 + int (nat (s div 60 mod 60)) * 60 + int (nat (s mod 60)) = s"
    by (simp add: pos_imp_zdiv_nonneg_iff)
  then show ?thesis by (simp add: getManilaTimeString_def s_def [symmetric] Let_def)
qed

text \<open>Formatting an instant and building a date again loses only its milliseconds.\<close>

lemma createManilaDate_getManilaTimeString:
  "createManilaDate (getManilaDateString t) (getManilaTimeString t) = t - manila_ms t mod 1000"
proof -
  have "manila_ms t div 1000 * 1000 = manila_ms t - manila_ms t mod 1000"
    by (simp add: minus_mod_eq_div_mult)
  then show ?thesis
    by (subst manila_split [of t])
      (simp add: createManilaDate_def clock_seconds_getManilaTimeString)
qed

lemma weekStart_bounds:
  "getManilaWeekStart now \<le> now" "now < getManilaWeekStart now + 7 * day_ms"
proof -
  let ?d = "getManilaDateString now"
  have split: "now = manila_midnight ?d + manila_ms now" by (rule manila_split)
  have b: "0 \<le> day_of_week ?d" "day_of_week ?d < 7" by (simp_all add: day_of_week_bounds)
  note m = manila_ms_bounds [of now]
  show "getManilaWeekStart now \<le> now" "now < getManilaWeekStart now + 7 * day_ms"
    using split b m by (auto simp: getManilaWeekStart_def Let_def max_def)
qed

lemma weekStart_sunday: "day_of_week (getManilaDateString (getManilaWeekStart now)) = 0"
proof -
  let ?d = "getManilaDateString now"
  have "getManilaWeekStart now = manila_midnight (?d - day_of_week ?d)"
    using day_of_week_bounds [of ?d]
    by (simp add: getManilaWeekStart_def Let_def max_def manila_midnight_def algebra_simps)
  then show ?thesis by (simp add: manila_simps day_of_week_def) presburger
qed

end
