(* ===== verification/Calendar.thy ===== *)
theory Calendar
  imports ManilaTime
begin

text \<open>
  The working calendar: the singleton ticketing configuration with its two schedule modes, and
  the office-day table of the attendance service, whose default is Monday to Friday and whose
  overtime days are not working days for ordinary tickets.
\<close>

section \<open>Ticketing configuration\<close>

datatype schedule_mode = OFFICE_HOURS | CWW | OTHER_MODE

datatype assignment_strategy = CURRENT_AUTO | CAPPED_ROUND_ROBIN

text \<open>
  \<open>overtimeSlaDate\<close> is the per-ticket calculation context that \<open>ticketCalendar\<close> sets; it is not a
  column.
\<close>

record ticketing_config =
  overtimeSlaDate :: "day option"
  assignmentStrategy :: assignment_strategy
  roundRobinCapHours :: nat
  autoCloseDays :: nat
  scheduleMode :: schedule_mode
  officeClockin :: clock
  officeClockout :: clock
  cwwClockinStart :: clock
  cwwClockinEnd :: clock
  cwwClockoutStart :: clock
  cwwClockoutEnd :: clock
  isFlagCeremonyPaused :: bool

text \<open>The column defaults.\<close>

definition default_config :: ticketing_config where
  "default_config = \<lparr>overtimeSlaDate = None, assignmentStrategy = CURRENT_AUTO,
     roundRobinCapHours = 80, autoCloseDays = 3, scheduleMode = OFFICE_HOURS,
     officeClockin = Clock 8 0 0, officeClockout = Clock 17 0 0,
     cwwClockinStart = Clock 7 0 0, cwwClockinEnd = Clock 8 0 0,
     cwwClockoutStart = Clock 18 0 0, cwwClockoutEnd = Clock 19 0 0,
     isFlagCeremonyPaused = False\<rparr>"

section \<open>Office days\<close>

record office_day =
  od_date :: day
  isOfficeDayFlag :: bool
  isOvertime :: bool
  od_notes :: "string option"
  od_setById :: nat

record set_office_day_dto =
  dto_date :: "day option"
  dto_isOfficeDay :: bool
  dto_isOvertime :: "bool option"
  dto_notes :: "string option"

definition isOfficeDay :: "office_day list \<Rightarrow> day \<Rightarrow> bool" where
  "isOfficeDay rows d =
     (case find_row od_date rows d of
        Some record \<Rightarrow> isOfficeDayFlag record \<and> \<not> isOvertime record
      | None \<Rightarrow> 1 \<le> day_of_week d \<and> day_of_week d \<le> 5)"

definition isOvertimeDay :: "office_day list \<Rightarrow> day \<Rightarrow> bool" where
  "isOvertimeDay rows d = (case find_row od_date rows d of Some record \<Rightarrow> isOvertime record | None \<Rightarrow> False)"

definition upsert_office_day :: "office_day option \<Rightarrow> day \<Rightarrow> set_office_day_dto \<Rightarrow> nat \<Rightarrow> office_day" where
  "upsert_office_day found d dto setById =
     (case found of
        Some record \<Rightarrow> record\<lparr>isOfficeDayFlag := dto_isOfficeDay dto,
          isOvertime := (case dto_isOvertime dto of Some b \<Rightarrow> b | None \<Rightarrow> isOvertime record),
          od_notes := (case dto_notes dto of Some n \<Rightarrow> Some n | None \<Rightarrow> od_notes record),
          od_setById := setById\<rparr>
      | None \<Rightarrow> \<lparr>od_date = d, isOfficeDayFlag = dto_isOfficeDay dto,
          isOvertime = (case dto_isOvertime dto of Some b \<Rightarrow> b | None \<Rightarrow> False),
          od_notes = dto_notes dto, od_setById = setById\<rparr>)"

text \<open>\<open>_d.setHours(_d.getHours() + 8)\<close> read in UTC is the Manila date.\<close>

definition setOfficeDay ::
  "office_day list \<Rightarrow> date \<Rightarrow> set_office_day_dto \<Rightarrow> nat \<Rightarrow> http_error + office_day list" where
  "setOfficeDay rows now dto setById =
     (case dto_date dto of
        None \<Rightarrow> Inl (BadRequest (Calendar DateRequired))
      | Some d \<Rightarrow>
          if d < getManilaDateString now then Inl (BadRequest (Calendar PastOfficeDay))
          else Inr (save_row od_date rows (upsert_office_day (find_row od_date rows d) d dto setById)))"

section \<open>Laws\<close>

lemma isOvertimeDay_not_office: "isOvertimeDay rows d \<Longrightarrow> \<not> isOfficeDay rows d"
  by (simp add: isOvertimeDay_def isOfficeDay_def split: option.splits)

lemma upsert_office_day_key:
  "od_date (upsert_office_day (find_row od_date rows d) d dto by) = d"
  by (cases "find_row od_date rows d") (auto simp: upsert_office_day_def dest: find_row_Some)

lemma upsert_office_day_flags:
  "isOfficeDayFlag (upsert_office_day f d dto by) = dto_isOfficeDay dto"
  "dto_isOvertime dto = Some b \<Longrightarrow> isOvertime (upsert_office_day f d dto by) = b"
  by (cases f; simp add: upsert_office_day_def)+

lemma setOfficeDay_Inr:
  assumes "setOfficeDay rows now dto by = Inr rows'"
  obtains d where "dto_date dto = Some d" "getManilaDateString now \<le> d"
    "rows' = save_row od_date rows (upsert_office_day (find_row od_date rows d) d dto by)"
  using assms by (cases "dto_date dto") (auto simp: setOfficeDay_def split: if_splits)

lemma setOfficeDay_lookup:
  assumes "setOfficeDay rows now dto by = Inr rows'" "dto_date dto = Some d"
  shows "isOfficeDay rows' d \<longleftrightarrow> dto_isOfficeDay dto
    \<and> \<not> isOvertime (upsert_office_day (find_row od_date rows d) d dto by)"
proof -
  let ?r = "upsert_office_day (find_row od_date rows d) d dto by"
  from assms have "rows' = save_row od_date rows ?r" by (auto elim: setOfficeDay_Inr)
  then have "find_row od_date rows' d = Some ?r"
    using find_row_save_same [of od_date rows ?r] by (simp add: upsert_office_day_key)
  then show ?thesis by (simp add: isOfficeDay_def upsert_office_day_flags)
qed

lemma setOfficeDay_other_days:
  assumes "setOfficeDay rows now dto by = Inr rows'" "dto_date dto \<noteq> Some d"
  shows "isOfficeDay rows' d = isOfficeDay rows d"
proof -
  from assms obtain e where "rows' = save_row od_date rows (upsert_office_day (find_row od_date rows e) e dto by)"
    "d \<noteq> e" by (auto elim: setOfficeDay_Inr)
  then show ?thesis by (simp add: isOfficeDay_def find_row_save_other upsert_office_day_key)
qed

text \<open>The past never changes: a successful write leaves every earlier day as it was.\<close>

lemma setOfficeDay_past:
  assumes "setOfficeDay rows now dto by = Inr rows'" "d < getManilaDateString now"
  shows "isOfficeDay rows' d = isOfficeDay rows d"
proof -
  from assms have "dto_date dto \<noteq> Some d"
    by (auto elim: setOfficeDay_Inr)
  with assms show ?thesis by (intro setOfficeDay_other_days) auto
qed

end
