(* ===== verification/Tickets.thy ===== *)
theory Tickets
  imports Roles Calendar
begin

text \<open>
  The ticket aggregate (\<open>ticket.entity.ts\<close>, \<open>ticket-issue-type.entity.ts\<close>, the pause ledger and
  interruption history it carries) and the pure helper functions of \<open>ticket.service.ts\<close> and the
  policy files beside it.  Ids are natural numbers, texts are strings, a nullable column is an
  option.  A date inside a JSON column is a string that may fail to parse.
\<close>

section \<open>Entities\<close>

datatype (plugins only: code) ticket_type =
    DESKTOP_SUPPORT | IT_SUPPORT | PANTAWID_ICT_SUPPORT | SPECIALIZED_CONCERNS

datatype (plugins only: code) ticket_status =
    OPEN | ASSIGNED | IN_PROGRESS | RESOLVED | CLOSED | FREEZE | PAUSE | DUPLICATE | CANCELLED

datatype (plugins only: code) ticket_priority = LOW | MEDIUM | HIGH | URGENT | CRITICAL

text \<open>A date string: \<open>Iso t\<close> is \<open>new Date(t).toISOString()\<close>, \<open>Spelled s t\<close> another text \<open>s\<close> that parses
  to \<open>t\<close>, and \<open>Unparsable\<close> parses to NaN.\<close>

datatype (plugins only: code) iso_date = Iso date | Spelled string date | Unparsable string

fun date_parse :: "iso_date \<Rightarrow> date option" where
  "date_parse (Iso t) = Some t"
| "date_parse (Spelled _ t) = Some t"
| "date_parse (Unparsable _) = None"

text \<open>A JSON number, \<open>None\<close> where \<open>Number.isFinite\<close> fails.\<close>

type_synonym json_number = "rat option"

record sla_pause_credit =
  credit_startAt :: iso_date
  credit_endAt :: iso_date
  creditedSeconds :: json_number

record sla_pause_ledger =
  clockStartedAt :: "iso_date option"
  legacySeconds :: json_number
  ledger_intervals :: "sla_pause_credit list"

datatype (plugins only: code) interruption_kind = Kind_pause | Kind_freeze

record ticket_interruption =
  int_kind :: interruption_kind
  int_startAt :: iso_date
  int_endAt :: "iso_date option"

record interruption_history =
  history_version :: int
  capturedFrom :: iso_date
  complete :: bool
  history_intervals :: "ticket_interruption list"

record issue_type =
  it_id :: nat
  it_key :: string
  it_slaHours :: "rat option"
  it_allowablePauseHours :: "int option"
  it_maxFreezeHours :: "int option"
  it_isActive :: bool
  it_isDeleted :: bool
  it_categoryId :: "nat option"

record ticket =
  ticket_id :: nat
  ticket_subject :: string
  ticket_description :: string
  ticketType :: ticket_type
  overtimeDate :: "day option"
  ticket_overtimeSlaDate :: "day option"
  status :: ticket_status
  cancelledAt :: "date option"
  cancelledById :: "nat option"
  cancellationReason :: "string option"
  priority :: "ticket_priority option"
  categoryId :: "nat option"
  issueTypeId :: "nat option"
  issueType :: string
  issueTypeConfig :: "issue_type option"
  createdById :: "nat option"
  requesterId :: nat
  assignedToId :: "nat option"
  resolutionNotes :: "string option"
  resolutionSteps :: "string option"
  resolutionDate :: "date option"
  resolvedAt :: "date option"
  resolutionTimeOverride :: "date option"
  duplicateOfId :: "nat option"
  slaDeadline :: "date option"
  slaStartedAt :: "date option"
  slaPausedAt :: "date option"
  accumulatedPauseSeconds :: int
  slaPauseLedger :: "sla_pause_ledger option"
  interruptionHistory :: "interruption_history option"
  isSlaWaiting :: bool
  lastAssignedAt :: "date option"
  satisfactionRating :: "rat option"
  satisfactionComment :: "string option"
  satisfactionSubmittedAt :: "date option"
  userClosed :: bool
  isKbGenerationPending :: bool
  hasUnreadUser :: bool
  hasUnreadTechnician :: bool
  createdAt :: date
  updatedAt :: date

section \<open>Status and SLA helpers\<close>

definition isTicketReopening :: "ticket_status \<Rightarrow> ticket_status option \<Rightarrow> bool" where
  "isTicketReopening currentStatus requestedStatus \<longleftrightarrow>
     requestedStatus = Some OPEN \<and> currentStatus \<noteq> OPEN"

definition shouldInitializeSlaDeadline :: "date option \<Rightarrow> bool" where
  "shouldInitializeSlaDeadline deadline \<longleftrightarrow> deadline = None"

definition capManualPauseBusinessSeconds :: "ticket_status \<Rightarrow> int \<Rightarrow> int option \<Rightarrow> int" where
  "capManualPauseBusinessSeconds previousStatus businessSeconds allowablePauseHours =
     (case allowablePauseHours of
        Some h \<Rightarrow> if previousStatus = PAUSE then min businessSeconds (max 0 h * 3600) else businessSeconds
      | None \<Rightarrow> businessSeconds)"

definition getSlaClockStartedAt :: "ticket \<Rightarrow> date" where
  "getSlaClockStartedAt t =
     (case slaStartedAt t of Some d \<Rightarrow> d
      | None \<Rightarrow> (case lastAssignedAt t of Some d \<Rightarrow> d | None \<Rightarrow> createdAt t))"

definition getSlaHoursIncludingCreditedPause :: "rat \<Rightarrow> int \<Rightarrow> rat" where
  "getSlaHoursIncludingCreditedPause slaHours pausedSeconds =
     max 0 slaHours + max 0 (of_int pausedSeconds) / 3600"

definition getEffectiveResolvedAt :: "ticket \<Rightarrow> date option" where
  "getEffectiveResolvedAt t =
     (case resolutionTimeOverride t of Some d \<Rightarrow> Some d | None \<Rightarrow> resolvedAt t)"

definition hasMetResolvedTicketSla :: "ticket \<Rightarrow> rat \<Rightarrow> rat \<Rightarrow> bool" where
  "hasMetResolvedTicketSla t activeHours slaHours =
     (case (getEffectiveResolvedAt t, slaDeadline t) of
        (Some r, Some d) \<Rightarrow> r \<le> d
      | _ \<Rightarrow> activeHours \<le> slaHours)"

text \<open>\<open>issueTypeConfig?.slaHours\<close> where the code tests it for truth: absent, null and 0 are false.\<close>

definition configuredSlaHours :: "ticket \<Rightarrow> rat option" where
  "configuredSlaHours t =
     (case issueTypeConfig t of
        Some it \<Rightarrow> (case it_slaHours it of Some h \<Rightarrow> if h = 0 then None else Some h | None \<Rightarrow> None)
      | None \<Rightarrow> None)"

definition configuredPauseHours :: "ticket \<Rightarrow> int option" where
  "configuredPauseHours t = (case issueTypeConfig t of Some it \<Rightarrow> it_allowablePauseHours it | None \<Rightarrow> None)"

definition configuredFreezeHours :: "ticket \<Rightarrow> int option" where
  "configuredFreezeHours t = (case issueTypeConfig t of Some it \<Rightarrow> it_maxFreezeHours it | None \<Rightarrow> None)"

definition ticketCalendar :: "ticketing_config \<Rightarrow> ticket \<Rightarrow> ticketing_config" where
  "ticketCalendar config t =
     (case ticket_overtimeSlaDate t of
        Some d \<Rightarrow> config\<lparr>overtimeSlaDate := Some d\<rparr>
      | None \<Rightarrow> config)"

section \<open>Satisfaction ratings\<close>

text \<open>\<open>Number.EPSILON\<close> is \<open>2 ^ -52\<close>.\<close>

definition roundRating :: "rat \<Rightarrow> rat" where
  "roundRating v = of_int \<lfloor>(v + 1 / 2 ^ 52) * 100\<rfloor> / 100"

datatype (plugins only: code) likert = Number_answer rat | Text_answer string

fun numeric_likert :: "likert list \<Rightarrow> rat list" where
  "numeric_likert [] = []"
| "numeric_likert (Number_answer v # xs) =
     (if 1 \<le> v \<and> v \<le> 5 then v # numeric_likert xs else numeric_likert xs)"
| "numeric_likert (Text_answer _ # xs) = numeric_likert xs"

definition deriveSatisfactionRating :: "likert list \<Rightarrow> rat option" where
  "deriveSatisfactionRating answers =
     (let numeric = numeric_likert answers
      in if 0 < length numeric
         then Some (roundRating (foldl (+) 0 numeric / of_nat (length numeric)))
         else None)"

section \<open>Duplicate tickets\<close>

definition assertValidDuplicateSource :: "ticket \<Rightarrow> bool \<Rightarrow> http_error option" where
  "assertValidDuplicateSource t isOverdue = first_error [
     (status t \<notin> {OPEN, ASSIGNED, IN_PROGRESS} \<or> resolvedAt t \<noteq> None \<or> resolutionTimeOverride t \<noteq> None,
      BadRequest (Duplicate DuplicateSourceStatus)),
     (isOverdue, BadRequest (Duplicate DuplicateOverdue))]"

definition assertValidDuplicateOriginal :: "ticket \<Rightarrow> ticket \<Rightarrow> http_error option" where
  "assertValidDuplicateOriginal t original = first_error [
     (ticket_id original = ticket_id t, BadRequest (Duplicate DuplicateSelf)),
     (status original = DUPLICATE \<or> duplicateOfId original \<noteq> None,
      BadRequest (Duplicate DuplicateOfDuplicate)),
     (status original \<in> {CLOSED, CANCELLED}, BadRequest (Duplicate OriginalClosed)),
     (requesterId original \<noteq> requesterId t, BadRequest (Duplicate OriginalRequester)),
     (createdAt t \<le> createdAt original, BadRequest (Duplicate OriginalNotEarlier))]"

section \<open>Cancellation and attachments\<close>

definition assertTicketCancellationAllowed ::
  "ticket \<Rightarrow> nat \<Rightarrow> user_role \<Rightarrow> bool \<Rightarrow> http_error option" where
  "assertTicketCancellationAllowed t actorId actorRole hasCapability = first_error [
     (\<not> hasCapability, Forbidden (Cancel CancelCapability)),
     (status t \<notin> {OPEN, ASSIGNED, IN_PROGRESS}, BadRequest (Cancel CancelStatus)),
     (actorRole = USER \<and> \<not> (requesterId t = actorId \<or> number (createdById t) = actorId),
      Forbidden (Cancel CancelNotOwn))]"

record ticket_comment =
  comment_id :: nat
  comment_ticketId :: nat
  comment_text :: string
  comment_userId :: "nat option"
  comment_isInternal :: bool
  attachmentPath :: "string option"
  attachmentPaths :: "string list option"

definition commentImagePaths :: "ticket_comment \<Rightarrow> string list" where
  "commentImagePaths c =
     rev (remdups (rev ((case attachmentPaths c of Some ps \<Rightarrow> ps | None \<Rightarrow> [])
       @ (case attachmentPath c of Some p \<Rightarrow> if p = [] then [] else [p] | None \<Rightarrow> []))))"

text \<open>\<open>ticket.createdById ?? ticket.requesterId\<close>.\<close>

definition filerId :: "ticket \<Rightarrow> nat" where
  "filerId t = (case createdById t of Some n \<Rightarrow> n | None \<Rightarrow> requesterId t)"

definition isDescriptionAttachment :: "ticket \<Rightarrow> ticket_comment \<Rightarrow> bool" where
  "isDescriptionAttachment t c \<longleftrightarrow> comment_text c = ''[Initial Ticket Attachment]''
     \<and> \<not> comment_isInternal c \<and> number (comment_userId c) = filerId t"

definition assertImageReplacementAllowed ::
  "ticket \<Rightarrow> ticket_comment \<Rightarrow> nat \<Rightarrow> user_role \<Rightarrow> http_error option" where
  "assertImageReplacementAllowed t c actorId role =
     (let allowed = (if role = USER then [OPEN, ASSIGNED, IN_PROGRESS]
                     else [OPEN, ASSIGNED, IN_PROGRESS, PAUSE, FREEZE, RESOLVED]);
          owns = (if isDescriptionAttachment t c
                  then filerId t = actorId \<or> requesterId t = actorId
                  else number (comment_userId c) = actorId)
      in first_error [
           (status t \<notin> set allowed, Forbidden (Access ImageStatusLocked)),
           (\<not> owns, Forbidden (Access ImageNotOwned))])"

section \<open>Laws\<close>

lemma capManualPauseBusinessSeconds_le: "capManualPauseBusinessSeconds s b h \<le> b"
  by (simp add: capManualPauseBusinessSeconds_def split: option.splits)

lemma capManualPauseBusinessSeconds_nonneg: "0 \<le> b \<Longrightarrow> 0 \<le> capManualPauseBusinessSeconds s b h"
  by (simp add: capManualPauseBusinessSeconds_def split: option.splits)

lemma numeric_likert_bounds: "v \<in> set (numeric_likert xs) \<Longrightarrow> 1 \<le> v \<and> v \<le> 5"
  by (induction xs rule: numeric_likert.induct) (auto split: if_splits)

lemma foldl_plus_sum_list: "foldl (+) a xs = a + sum_list (xs :: rat list)"
  by (induction xs arbitrary: a) (auto simp: add.assoc)

lemma sum_list_bounds:
  fixes xs :: "rat list"
  assumes "\<And>x. x \<in> set xs \<Longrightarrow> lo \<le> x \<and> x \<le> hi"
  shows "of_nat (length xs) * lo \<le> sum_list xs \<and> sum_list xs \<le> of_nat (length xs) * hi"
  using assms
proof (induction xs)
  case (Cons x xs)
  then have "of_nat (length xs) * lo \<le> sum_list xs" "sum_list xs \<le> of_nat (length xs) * hi"
    "lo \<le> x" "x \<le> hi" by auto
  then show ?case by (simp add: distrib_right)
qed simp

lemma roundRating_bounds:
  assumes "1 \<le> v" "v \<le> 5"
  shows "1 \<le> roundRating v" "roundRating v \<le> 5"
proof -
  have "(100 :: int) \<le> \<lfloor>(v + 1 / 2 ^ 52) * 100\<rfloor>" using assms by (simp add: le_floor_iff)
  then have "(100 :: rat) \<le> of_int \<lfloor>(v + 1 / 2 ^ 52) * 100\<rfloor>" by (metis of_int_le_iff of_int_numeral)
  then show "1 \<le> roundRating v" by (simp add: roundRating_def)
  have "\<lfloor>(v + 1 / 2 ^ 52) * 100\<rfloor> < (501 :: int)" using assms by (simp add: floor_less_iff)
  then have "\<lfloor>(v + 1 / 2 ^ 52) * 100\<rfloor> \<le> (500 :: int)" by simp
  then have "(of_int \<lfloor>(v + 1 / 2 ^ 52) * 100\<rfloor> :: rat) \<le> of_int 500" by (simp only: of_int_le_iff)
  then have "(of_int \<lfloor>(v + 1 / 2 ^ 52) * 100\<rfloor> :: rat) \<le> 500" by simp
  then show "roundRating v \<le> 5" by (simp add: roundRating_def)
qed

lemma deriveSatisfactionRating_bounds:
  assumes "deriveSatisfactionRating xs = Some r"
  shows "1 \<le> r \<and> r \<le> 5"
proof -
  let ?ns = "numeric_likert xs"
  let ?m = "sum_list ?ns / of_nat (length ?ns)"
  from assms have len: "0 < length ?ns" and r: "r = roundRating ?m"
    by (auto simp: deriveSatisfactionRating_def Let_def foldl_plus_sum_list split: if_splits)
  have "of_nat (length ?ns) * 1 \<le> sum_list ?ns \<and> sum_list ?ns \<le> of_nat (length ?ns) * 5"
    by (rule sum_list_bounds) (rule numeric_likert_bounds)
  with len have "1 \<le> ?m" "?m \<le> 5"
    by (simp_all add: pos_le_divide_eq pos_divide_le_eq mult.commute)
  then show ?thesis using r roundRating_bounds by simp
qed

lemma deriveSatisfactionRating_None_iff:
  "deriveSatisfactionRating xs = None \<longleftrightarrow> (\<forall>v. Number_answer v \<in> set xs \<longrightarrow> \<not> (1 \<le> v \<and> v \<le> 5))"
proof -
  have "numeric_likert xs = [] \<longleftrightarrow> (\<forall>v. Number_answer v \<in> set xs \<longrightarrow> \<not> (1 \<le> v \<and> v \<le> 5))"
    by (induction xs rule: numeric_likert.induct) auto
  then show ?thesis by (simp add: deriveSatisfactionRating_def Let_def)
qed

end
