(* ===== verification/SlaPause.thy ===== *)
theory SlaPause
  imports Tickets
begin

text \<open>
  The pause ledger (\<open>ticket-sla-pause.ts\<close>): every pause that is credited to a ticket's SLA is an
  interval of the ledger saved with the ticket, and \<open>accumulatedPauseSeconds\<close> is the sum of the
  credits.  A ledger that does not agree with the ticket is not used.  \<open>resolutionTiming\<close> takes the
  business-time measure as an argument, as the source does.
\<close>

section \<open>The ledger\<close>

definition usable_credit :: "sla_pause_credit \<Rightarrow> bool" where
  "usable_credit i =
     (case (creditedSeconds i, date_parse (credit_startAt i), date_parse (credit_endAt i)) of
        (Some s, Some a, Some b) \<Rightarrow> \<not> s < 0 \<and> \<not> b < a
      | _ \<Rightarrow> False)"

definition credit_value :: "sla_pause_credit \<Rightarrow> rat" where
  "credit_value i = (case creditedSeconds i of Some s \<Rightarrow> s | None \<Rightarrow> 0)"

definition ledger_clock :: "ticket \<Rightarrow> iso_date option" where
  "ledger_clock t = map_option Iso (slaStartedAt t)"

definition usablePauseLedger :: "ticket \<Rightarrow> sla_pause_ledger option" where
  "usablePauseLedger t =
     (case slaPauseLedger t of
        None \<Rightarrow> None
      | Some ledger \<Rightarrow>
          if clockStartedAt ledger \<noteq> ledger_clock t then None
          else (case legacySeconds ledger of
              None \<Rightarrow> None
            | Some legacy \<Rightarrow>
                if legacy < 0 \<or> \<not> list_all usable_credit (ledger_intervals ledger) then None
                else (let total = legacy + foldl (+) 0 (map credit_value (ledger_intervals ledger))
                  in if \<bar>total - of_int (accumulatedPauseSeconds t)\<bar> < 1 then Some ledger else None)))"

definition ledger_for_credit :: "ticket \<Rightarrow> sla_pause_ledger" where
  "ledger_for_credit t =
     (case usablePauseLedger t of
        Some ledger \<Rightarrow> ledger
      | None \<Rightarrow> \<lparr>clockStartedAt = ledger_clock t,
          legacySeconds = Some (max 0 (of_int (accumulatedPauseSeconds t))), ledger_intervals = []\<rparr>)"

definition already_credited :: "sla_pause_ledger \<Rightarrow> date \<Rightarrow> date \<Rightarrow> bool" where
  "already_credited ledger start end \<longleftrightarrow> list_ex
     (\<lambda>i. credit_startAt i = Iso start \<and> credit_endAt i = Iso end) (ledger_intervals ledger)"

definition creditTicketPause :: "ticket \<Rightarrow> date \<Rightarrow> date \<Rightarrow> rat \<Rightarrow> ticket" where
  "creditTicketPause t start end seconds =
     (let ledger = ledger_for_credit t
      in if already_credited ledger start end then t
         else let credited = max 0 (js_round seconds)
           in t\<lparr>slaPauseLedger := Some (ledger\<lparr>ledger_intervals := ledger_intervals ledger @
                    [\<lparr>credit_startAt = Iso start, credit_endAt = Iso end,
                      creditedSeconds = Some (of_int credited)\<rparr>]\<rparr>),
                accumulatedPauseSeconds := accumulatedPauseSeconds t + credited\<rparr>)"

section \<open>Resolution timing\<close>

record resolution_timing =
  elapsedCalendarHours :: rat
  elapsedBusinessHours :: rat
  creditedPauseHours :: rat
  activeHours :: rat
  pauseCount :: "nat option"
  estimated :: bool

type_synonym business_measure = "date \<Rightarrow> date \<Rightarrow> http_error + int"

text \<open>The loop over the ledger's intervals: the paused seconds and the count.\<close>

fun paused_in :: "business_measure \<Rightarrow> date \<Rightarrow> date \<Rightarrow> sla_pause_credit list \<Rightarrow> rat \<Rightarrow> nat
    \<Rightarrow> http_error + rat \<times> nat" where
  "paused_in businessSeconds start end [] paused n = Inr (paused, n)"
| "paused_in businessSeconds start end (i # is) paused n =
     (case (date_parse (credit_startAt i), date_parse (credit_endAt i)) of
        (Some a, Some b) \<Rightarrow>
          (let pauseStart = max start a; pauseEnd = min end b
           in if pauseEnd \<le> pauseStart then paused_in businessSeconds start end is paused n
              else (case businessSeconds pauseStart pauseEnd of
                  Inl e \<Rightarrow> Inl e
                | Inr s \<Rightarrow> paused_in businessSeconds start end is
                             (paused + min (credit_value i) (of_int s)) (n + 1)))
      | _ \<Rightarrow> paused_in businessSeconds start end is paused n)"

definition elapsed_seconds :: "business_measure \<Rightarrow> date \<Rightarrow> date \<Rightarrow> http_error + int" where
  "elapsed_seconds businessSeconds start end =
     (if start < end then businessSeconds start end else Inr 0)"

definition legacy_pause :: "ticket \<Rightarrow> rat" where
  "legacy_pause t =
     (case usablePauseLedger t of
        Some ledger \<Rightarrow> (case legacySeconds ledger of Some s \<Rightarrow> s | None \<Rightarrow> 0)
      | None \<Rightarrow> max 0 (of_int (accumulatedPauseSeconds t)))"

definition ledger_credits :: "ticket \<Rightarrow> sla_pause_credit list" where
  "ledger_credits t =
     (case usablePauseLedger t of Some ledger \<Rightarrow> ledger_intervals ledger | None \<Rightarrow> [])"

definition resolutionTiming ::
  "ticket \<Rightarrow> date \<Rightarrow> business_measure \<Rightarrow> http_error + resolution_timing option" where
  "resolutionTiming t end businessSeconds =
     (case slaStartedAt t of
        None \<Rightarrow> Inr None
      | Some start \<Rightarrow>
          (case elapsed_seconds businessSeconds start end of
             Inl e \<Rightarrow> Inl e
           | Inr elapsed \<Rightarrow>
               (case paused_in businessSeconds start end (ledger_credits t) (legacy_pause t) 0 of
                  Inl e \<Rightarrow> Inl e
                | Inr (credited, n) \<Rightarrow>
                    (let paused = min (of_int elapsed) (max 0 credited)
                     in Inr (Some
                       \<lparr>elapsedCalendarHours = max 0 (of_int (end - start)) / 3600000,
                        elapsedBusinessHours = of_int elapsed / 3600,
                        creditedPauseHours = paused / 3600,
                        activeHours = max 0 (of_int elapsed - paused) / 3600,
                        pauseCount = (if 0 < legacy_pause t then None else Some n),
                        estimated = (resolutionTimeOverride t \<noteq> None \<and> 0 < legacy_pause t)\<rparr>)))))"

section \<open>Laws\<close>

lemma foldl_credits: "foldl (+) a (map credit_value xs) = a + sum_list (map credit_value xs)"
  by (rule foldl_plus_sum_list)

text \<open>What a usable ledger is, without the nesting of the checks.\<close>

lemma usablePauseLedger_Some_iff:
  "usablePauseLedger t = Some l \<longleftrightarrow> slaPauseLedger t = Some l \<and> clockStartedAt l = ledger_clock t
     \<and> (\<exists>legacy. legacySeconds l = Some legacy \<and> 0 \<le> legacy
          \<and> list_all usable_credit (ledger_intervals l)
          \<and> \<bar>legacy + sum_list (map credit_value (ledger_intervals l))
               - of_int (accumulatedPauseSeconds t)\<bar> < 1)"
  by (auto simp: usablePauseLedger_def Let_def foldl_credits not_less split: option.splits if_splits)

lemma usable_is_stored:
  "usablePauseLedger t = Some l \<Longrightarrow> slaPauseLedger t = Some l \<and> ledger_for_credit t = l"
  by (simp add: ledger_for_credit_def) (simp add: usablePauseLedger_Some_iff)

text \<open>The two cases of a credit, which the proofs below share.\<close>

lemma creditTicketPause_cases:
  obtains (again) "already_credited (ledger_for_credit t) start end"
      "creditTicketPause t start end seconds = t"
  | (credit) "\<not> already_credited (ledger_for_credit t) start end"
      "creditTicketPause t start end seconds =
         t\<lparr>slaPauseLedger := Some (ledger_for_credit t\<lparr>ledger_intervals :=
             ledger_intervals (ledger_for_credit t) @ [\<lparr>credit_startAt = Iso start, credit_endAt = Iso end,
               creditedSeconds = Some (of_int (max 0 (js_round seconds)))\<rparr>]\<rparr>),
           accumulatedPauseSeconds := accumulatedPauseSeconds t + max 0 (js_round seconds)\<rparr>"
  by (cases "already_credited (ledger_for_credit t) start end")
    (simp_all add: creditTicketPause_def Let_def)

lemma already_credited_usable:
  "already_credited (ledger_for_credit t) start end \<Longrightarrow> usablePauseLedger t = Some (ledger_for_credit t)"
  by (cases "usablePauseLedger t") (auto simp: ledger_for_credit_def already_credited_def)

lemma ledger_for_credit_agrees:
  assumes "0 \<le> accumulatedPauseSeconds t"
  obtains legacy where "legacySeconds (ledger_for_credit t) = Some legacy" "0 \<le> legacy"
    "list_all usable_credit (ledger_intervals (ledger_for_credit t))"
    "clockStartedAt (ledger_for_credit t) = ledger_clock t"
    "\<bar>legacy + sum_list (map credit_value (ledger_intervals (ledger_for_credit t)))
       - of_int (accumulatedPauseSeconds t)\<bar> < 1"
proof (cases "usablePauseLedger t")
  case None
  with that assms show ?thesis by (auto simp: ledger_for_credit_def)
next
  case (Some l)
  with that show ?thesis by (auto simp: ledger_for_credit_def usablePauseLedger_Some_iff)
qed

text \<open>After a credit the ledger is usable: the sum of its credits is the accumulated pause.\<close>

lemma creditTicketPause_usable:
  assumes "0 \<le> accumulatedPauseSeconds t" "start \<le> end"
  shows "usablePauseLedger (creditTicketPause t start end seconds) \<noteq> None"
proof (cases rule: creditTicketPause_cases [of t start "end" seconds])
  case again
  with already_credited_usable show ?thesis by fastforce
next
  case credit
  obtain legacy where L: "legacySeconds (ledger_for_credit t) = Some legacy" "0 \<le> legacy"
    "list_all usable_credit (ledger_intervals (ledger_for_credit t))"
    "clockStartedAt (ledger_for_credit t) = ledger_clock t"
    "\<bar>legacy + sum_list (map credit_value (ledger_intervals (ledger_for_credit t)))
       - of_int (accumulatedPauseSeconds t)\<bar> < 1"
    using ledger_for_credit_agrees [OF assms(1)] by blast
  let ?t = "creditTicketPause t start end seconds"
  have "usablePauseLedger ?t = slaPauseLedger ?t"
    unfolding credit(2) using L assms(2)
    by (simp add: usablePauseLedger_Some_iff ledger_clock_def usable_credit_def credit_value_def
        algebra_simps)
  then show ?thesis by (simp add: credit(2))
qed

lemma creditTicketPause_accumulated:
  "accumulatedPauseSeconds t \<le> accumulatedPauseSeconds (creditTicketPause t start end seconds)
   \<and> accumulatedPauseSeconds (creditTicketPause t start end seconds)
       \<le> accumulatedPauseSeconds t + max 0 (js_round seconds)"
  by (cases rule: creditTicketPause_cases [of t start "end" seconds]) simp_all

text \<open>A credit touches the ledger and its total only.\<close>

lemma creditTicketPause_frame:
  "creditTicketPause t start end seconds =
     t\<lparr>slaPauseLedger := slaPauseLedger (creditTicketPause t start end seconds),
       accumulatedPauseSeconds := accumulatedPauseSeconds (creditTicketPause t start end seconds)\<rparr>"
  by (cases rule: creditTicketPause_cases [of t start "end" seconds]) simp_all

lemma creditTicketPause_fields [simp]:
  "ticket_id (creditTicketPause t a b s) = ticket_id t"
  "status (creditTicketPause t a b s) = status t"
  "slaStartedAt (creditTicketPause t a b s) = slaStartedAt t"
  "slaPausedAt (creditTicketPause t a b s) = slaPausedAt t"
  "slaDeadline (creditTicketPause t a b s) = slaDeadline t"
  "isSlaWaiting (creditTicketPause t a b s) = isSlaWaiting t"
  "assignedToId (creditTicketPause t a b s) = assignedToId t"
  "interruptionHistory (creditTicketPause t a b s) = interruptionHistory t"
  "issueTypeConfig (creditTicketPause t a b s) = issueTypeConfig t"
  "ticket_overtimeSlaDate (creditTicketPause t a b s) = ticket_overtimeSlaDate t"
  "createdAt (creditTicketPause t a b s) = createdAt t"
  "resolvedAt (creditTicketPause t a b s) = resolvedAt t"
  "lastAssignedAt (creditTicketPause t a b s) = lastAssignedAt t"
  by (subst creditTicketPause_frame; simp)+

text \<open>Crediting the same interval twice credits it once.\<close>

lemma creditTicketPause_once:
  assumes "0 \<le> accumulatedPauseSeconds t" "start \<le> end"
  shows "creditTicketPause (creditTicketPause t start end s) start end s' = creditTicketPause t start end s"
proof -
  let ?t = "creditTicketPause t start end s"
  have "ledger_for_credit ?t = the (slaPauseLedger ?t)"
    using creditTicketPause_usable [OF assms, of s] usable_is_stored by fastforce
  moreover have "already_credited (the (slaPauseLedger ?t)) start end"
  proof (cases rule: creditTicketPause_cases [of t start "end" s])
    case again
    then show ?thesis
      using already_credited_usable [OF again(1)] by (simp add: usablePauseLedger_Some_iff)
  next
    case credit
    then show ?thesis by (simp add: already_credited_def)
  qed
  ultimately show ?thesis by (simp add: creditTicketPause_def [of ?t])
qed

lemma paused_in_Inr_mono:
  assumes "paused_in bs start end is p n = Inr (p', n')"
    "list_all usable_credit is" "\<And>a b s. a < b \<Longrightarrow> bs a b = Inr s \<Longrightarrow> 0 \<le> s"
  shows "p \<le> p' \<and> n \<le> n' \<and> n' \<le> n + length is"
  using assms(1,2)
proof (induction "is" arbitrary: p n)
  case (Cons i "is")
  obtain a b where ab: "date_parse (credit_startAt i) = Some a" "date_parse (credit_endAt i) = Some b"
    and v: "0 \<le> credit_value i"
    using Cons.prems(2)
    by (auto simp: usable_credit_def credit_value_def split: option.splits)
  show ?case
  proof (cases "min end b \<le> max start a")
    case True
    with Cons ab show ?thesis by (fastforce simp: Let_def)
  next
    case False
    with Cons.prems(1) ab obtain s where s: "bs (max start a) (min end b) = Inr s"
      "paused_in bs start end is (p + min (credit_value i) (of_int s)) (n + 1) = Inr (p', n')"
      by (auto simp: Let_def split: sum.splits)
    with False assms(3) have "0 \<le> s" by (metis linorder_not_le)
    then have "0 \<le> min (credit_value i) (of_int s)" using v by simp
    with Cons.IH [OF s(2)] Cons.prems(2) show ?thesis by auto
  qed
qed auto

text \<open>The report is a partition: active and credited hours add up to the elapsed business hours.\<close>

lemma resolutionTiming_partition:
  assumes "resolutionTiming t end businessSeconds = Inr (Some r)"
    "\<And>a b s. a < b \<Longrightarrow> businessSeconds a b = Inr s \<Longrightarrow> 0 \<le> s"
  shows "activeHours r + creditedPauseHours r = elapsedBusinessHours r
    \<and> 0 \<le> activeHours r \<and> 0 \<le> creditedPauseHours r
    \<and> creditedPauseHours r \<le> elapsedBusinessHours r \<and> 0 \<le> elapsedCalendarHours r"
proof -
  from assms(1) obtain start elapsed credited n where
    e: "elapsed_seconds businessSeconds start end = Inr elapsed" and
    r: "elapsedBusinessHours r = of_int elapsed / 3600"
      "creditedPauseHours r = min (of_int elapsed) (max 0 credited) / 3600"
      "activeHours r = max 0 (of_int elapsed - min (of_int elapsed) (max 0 credited)) / 3600"
      "elapsedCalendarHours r = max 0 (of_int (end - start)) / 3600000"
    by (auto simp: resolutionTiming_def Let_def split: option.splits sum.splits)
  have "0 \<le> elapsed" using e assms(2) by (auto simp: elapsed_seconds_def split: if_splits)
  then have "(0 :: rat) \<le> of_int elapsed" by simp
  then show ?thesis unfolding r by (auto simp: min_def max_def add_divide_distrib [symmetric] divide_right_mono)
qed

end
