(* ===== verification/Interruptions.thy ===== *)
theory Interruptions
  imports Tickets
begin

text \<open>
  The interruption history (\<open>ticket-interruptions.ts\<close>): the pause and freeze episodes of a ticket,
  in order, the last one open while the ticket is paused or frozen.  A history whose intervals are
  unreadable, out of order or overlapping is not used, and the next transition starts a new one.
\<close>

section \<open>Recording\<close>

definition newInterruptionHistory :: "date \<Rightarrow> interruption_history" where
  "newInterruptionHistory now =
     \<lparr>history_version = 1, capturedFrom = Iso now, complete = True, history_intervals = []\<rparr>"

fun intervals_usable :: "date \<Rightarrow> ticket_interruption list \<Rightarrow> bool" where
  "intervals_usable lastEnd [] = True"
| "intervals_usable lastEnd (i # is) =
     (case date_parse (int_startAt i) of
        None \<Rightarrow> False
      | Some start \<Rightarrow> \<not> start < lastEnd \<and>
          (case int_endAt i of
             None \<Rightarrow> is = []
           | Some e \<Rightarrow> (case date_parse e of
               None \<Rightarrow> False
             | Some end \<Rightarrow> \<not> end < start \<and> intervals_usable end is)))"

definition usableInterruptionHistory :: "interruption_history option \<Rightarrow> interruption_history option" where
  "usableInterruptionHistory v =
     (case v of
        None \<Rightarrow> None
      | Some h \<Rightarrow>
          if history_version h \<noteq> 1 then None
          else (case date_parse (capturedFrom h) of
              None \<Rightarrow> None
            | Some from \<Rightarrow> if intervals_usable from (history_intervals h) then Some h else None))"

definition interruptionKind :: "ticket_status \<Rightarrow> interruption_kind option" where
  "interruptionKind s = (if s = PAUSE then Some Kind_pause else if s = FREEZE then Some Kind_freeze else None)"

text \<open>Closing the last interval, when it is open, at \<open>max now start\<close>.\<close>

definition close_interval :: "date \<Rightarrow> ticket_interruption \<Rightarrow> ticket_interruption" where
  "close_interval now i =
     (if int_endAt i = None
      then i\<lparr>int_endAt := Some (Iso (case date_parse (int_startAt i) of Some s \<Rightarrow> max now s | None \<Rightarrow> now))\<rparr>
      else i)"

definition close_last :: "date \<Rightarrow> ticket_interruption list \<Rightarrow> ticket_interruption list" where
  "close_last now is = (if is = [] then [] else butlast is @ [close_interval now (last is)])"

definition history_for_transition :: "ticket \<Rightarrow> date \<Rightarrow> interruption_history" where
  "history_for_transition t now =
     (case usableInterruptionHistory (interruptionHistory t) of
        Some h \<Rightarrow> h
      | None \<Rightarrow> \<lparr>history_version = 1, capturedFrom = Iso now, complete = False, history_intervals = []\<rparr>)"

definition recordInterruptionTransition ::
  "ticket \<Rightarrow> ticket_status \<Rightarrow> ticket_status \<Rightarrow> date \<Rightarrow> ticket" where
  "recordInterruptionTransition t from to now =
     (if from = to then t
      else if interruptionKind from = None \<and> interruptionKind to = None then t
      else let h = history_for_transition t now;
               closed = close_last now (history_intervals h)
           in t\<lparr>interruptionHistory := Some (h\<lparr>history_intervals :=
                  (case interruptionKind to of
                     Some k \<Rightarrow> closed @ [\<lparr>int_kind = k, int_startAt = Iso now, int_endAt = None\<rparr>]
                   | None \<Rightarrow> closed)\<rparr>)\<rparr>)"

section \<open>Laws\<close>

definition history_open :: "interruption_history option \<Rightarrow> interruption_kind option" where
  "history_open v =
     (case usableInterruptionHistory v of
        None \<Rightarrow> None
      | Some h \<Rightarrow> if history_intervals h \<noteq> [] \<and> int_endAt (last (history_intervals h)) = None
                 then Some (int_kind (last (history_intervals h))) else None)"

text \<open>The last instant that a usable history mentions.\<close>

definition interval_last :: "ticket_interruption \<Rightarrow> date" where
  "interval_last i =
     (case (int_endAt i, date_parse (int_startAt i)) of
        (Some e, _) \<Rightarrow> (case date_parse e of Some x \<Rightarrow> x | None \<Rightarrow> 0)
      | (None, Some s) \<Rightarrow> s
      | (None, None) \<Rightarrow> 0)"

definition history_last :: "interruption_history option \<Rightarrow> date option" where
  "history_last v = map_option (\<lambda>h. if history_intervals h = []
       then (case date_parse (capturedFrom h) of Some x \<Rightarrow> x | None \<Rightarrow> 0)
       else interval_last (last (history_intervals h)))
     (usableInterruptionHistory v)"

lemma usableInterruptionHistory_Some_iff:
  "usableInterruptionHistory v = Some h \<longleftrightarrow> v = Some h \<and> history_version h = 1
     \<and> (\<exists>from. date_parse (capturedFrom h) = Some from \<and> intervals_usable from (history_intervals h))"
  by (auto simp: usableInterruptionHistory_def split: option.splits if_splits)

lemma intervals_usable_snoc:
  assumes "intervals_usable from is" "is \<noteq> [] \<Longrightarrow> int_endAt (last is) \<noteq> None"
    "date_parse (int_startAt i) = Some s" "int_endAt i = None"
    "(if is = [] then from else interval_last (last is)) \<le> s"
  shows "intervals_usable from (is @ [i])"
  using assms
proof (induction "is" arbitrary: "from")
  case (Cons x xs)
  show ?case
  proof (cases "xs = []")
    case True
    with Cons.prems show ?thesis
      by (auto simp: interval_last_def split: option.splits)
  next
    case False
    from Cons.prems(1) False obtain a e b where x: "date_parse (int_startAt x) = Some a" "\<not> a < from"
      "int_endAt x = Some e" "date_parse e = Some b" "\<not> b < a" "intervals_usable b xs"
      by (auto split: option.splits)
    have "intervals_usable b (xs @ [i])"
      using Cons.IH [OF x(6)] Cons.prems False by simp
    with x show ?thesis by simp
  qed
qed simp

lemma close_last_usable:
  "intervals_usable from is \<Longrightarrow> intervals_usable from (close_last now is)"
proof (induction "is" arbitrary: "from")
  case (Cons x xs)
  show ?case
  proof (cases "xs = []")
    case True
    with Cons.prems show ?thesis
      by (auto simp: close_last_def close_interval_def split: option.splits)
  next
    case False
    with Cons.prems obtain a e b where x: "date_parse (int_startAt x) = Some a" "\<not> a < from"
      "int_endAt x = Some e" "date_parse e = Some b" "\<not> b < a" "intervals_usable b xs"
      by (auto split: option.splits)
    with Cons.IH [OF x(6)] False show ?thesis by (simp add: close_last_def)
  qed
qed (simp add: close_last_def)

lemma close_last_ended: "is \<noteq> [] \<Longrightarrow> int_endAt (last (close_last now is)) \<noteq> None"
  by (simp add: close_last_def close_interval_def)

lemma close_last_Nil_iff [simp]: "close_last now is = [] \<longleftrightarrow> is = []"
  by (simp add: close_last_def)

lemma last_usable: "intervals_usable from is \<Longrightarrow> is \<noteq> [] \<Longrightarrow>
    date_parse (int_startAt (last is)) \<noteq> None \<and> (int_endAt (last is) \<noteq> None \<longrightarrow>
      date_parse (the (int_endAt (last is))) \<noteq> None)"
  by (induction "from" "is" rule: intervals_usable.induct) (auto split: option.splits if_splits)

lemma interval_last_close:
  assumes "intervals_usable from is" "is \<noteq> []" "interval_last (last is) \<le> now"
  shows "interval_last (last (close_last now is)) \<le> now"
  using assms last_usable [OF assms(1,2)]
  by (auto simp: close_last_def close_interval_def interval_last_def split: option.splits)

lemma history_for_transition_usable:
  obtains "from" where "date_parse (capturedFrom (history_for_transition t now)) = Some from"
    "history_version (history_for_transition t now) = 1"
    "intervals_usable from (history_intervals (history_for_transition t now))"
    "(case history_last (interruptionHistory t) of Some l \<Rightarrow> l \<le> now | None \<Rightarrow> True) \<Longrightarrow>
       (if history_intervals (history_for_transition t now) = [] then from
        else interval_last (last (history_intervals (history_for_transition t now)))) \<le> now"
proof (cases "usableInterruptionHistory (interruptionHistory t)")
  case None
  with that show ?thesis by (simp add: history_for_transition_def)
next
  case (Some h)
  then obtain "from" where "history_version h = 1" "date_parse (capturedFrom h) = Some from"
    "intervals_usable from (history_intervals h)"
    by (auto simp: usableInterruptionHistory_Some_iff)
  moreover have "history_for_transition t now = h" using Some by (simp add: history_for_transition_def)
  ultimately show ?thesis
    using that [of "from"] Some by (cases "history_intervals h = []") (auto simp: history_last_def)
qed

text \<open>
  A transition into or out of a pause or freeze leaves a usable history, whose open episode is the
  one of the new status: the clock must not have run backwards behind the history.
\<close>

lemma recordInterruptionTransition_open:
  assumes "from \<noteq> to" "interruptionKind from \<noteq> None \<or> interruptionKind to \<noteq> None"
    "case history_last (interruptionHistory t) of Some l \<Rightarrow> l \<le> now | None \<Rightarrow> True"
  shows "usableInterruptionHistory (interruptionHistory (recordInterruptionTransition t from to now)) \<noteq> None
    \<and> history_open (interruptionHistory (recordInterruptionTransition t from to now)) = interruptionKind to"
proof -
  let ?h = "history_for_transition t now"
  let ?c = "close_last now (history_intervals ?h)"
  obtain f where f: "date_parse (capturedFrom ?h) = Some f" "history_version ?h = 1"
    "intervals_usable f (history_intervals ?h)"
    "(if history_intervals ?h = [] then f else interval_last (last (history_intervals ?h))) \<le> now"
    using history_for_transition_usable [of t now] assms(3) by metis
  have cu: "intervals_usable f ?c" using f(3) by (rule close_last_usable)
  have ce: "?c \<noteq> [] \<Longrightarrow> int_endAt (last ?c) \<noteq> None" by (simp add: close_last_ended)
  have cl: "(if ?c = [] then f else interval_last (last ?c)) \<le> now"
    using f(4) interval_last_close [OF f(3)] by (simp split: if_splits)
  show ?thesis
  proof (cases "interruptionKind to")
    case None
    with assms(1,2) have "interruptionHistory (recordInterruptionTransition t from to now)
        = Some (?h\<lparr>history_intervals := ?c\<rparr>)"
      by (auto simp: recordInterruptionTransition_def Let_def)
    with f cu have "usableInterruptionHistory (interruptionHistory (recordInterruptionTransition t from to now))
        = Some (?h\<lparr>history_intervals := ?c\<rparr>)"
      by (simp add: usableInterruptionHistory_Some_iff)
    with None ce show ?thesis by (auto simp: history_open_def)
  next
    case (Some k)
    let ?i = "\<lparr>int_kind = k, int_startAt = Iso now, int_endAt = None\<rparr>"
    have "interruptionHistory (recordInterruptionTransition t from to now)
        = Some (?h\<lparr>history_intervals := ?c @ [?i]\<rparr>)"
      using assms(1) Some by (simp add: recordInterruptionTransition_def Let_def)
    moreover have "intervals_usable f (?c @ [?i])"
      by (rule intervals_usable_snoc [OF cu _ _ _ cl]) (simp_all add: ce close_last_ended)
    ultimately have "usableInterruptionHistory (interruptionHistory (recordInterruptionTransition t from to now))
        = Some (?h\<lparr>history_intervals := ?c @ [?i]\<rparr>)"
      using f by (simp add: usableInterruptionHistory_Some_iff)
    with Some show ?thesis by (simp add: history_open_def)
  qed
qed

lemma recordInterruptionTransition_other:
  "interruptionKind from = None \<Longrightarrow> interruptionKind to = None
     \<Longrightarrow> recordInterruptionTransition t from to now = t"
  by (simp add: recordInterruptionTransition_def)

lemma recordInterruptionTransition_fields [simp]:
  "ticket_id (recordInterruptionTransition t a b n) = ticket_id t"
  "status (recordInterruptionTransition t a b n) = status t"
  "slaStartedAt (recordInterruptionTransition t a b n) = slaStartedAt t"
  "slaPausedAt (recordInterruptionTransition t a b n) = slaPausedAt t"
  "slaDeadline (recordInterruptionTransition t a b n) = slaDeadline t"
  "isSlaWaiting (recordInterruptionTransition t a b n) = isSlaWaiting t"
  "assignedToId (recordInterruptionTransition t a b n) = assignedToId t"
  "accumulatedPauseSeconds (recordInterruptionTransition t a b n) = accumulatedPauseSeconds t"
  "slaPauseLedger (recordInterruptionTransition t a b n) = slaPauseLedger t"
  "requesterId (recordInterruptionTransition t a b n) = requesterId t"
  by (simp_all add: recordInterruptionTransition_def Let_def)

end
