(* ===== verification/SlaClock.thy ===== *)
theory SlaClock
  imports Calendar
begin

text \<open>
  The business-time clock of \<open>TicketService\<close>: \<open>calculateSlaDeadline\<close> walks the working blocks of
  the calendar until the SLA hours are used up, \<open>calculateBusinessSeconds\<close> measures the working
  time between two instants.  The parameters are \<open>office\<close>, the office days of the attendance
  service, and \<open>h24\<close>: whether the ICU library renders midnight as hour 24 under
  \<open>hour12: false\<close> in locale en-US (the ECMA-402 editions differ).  Hours are exact rationals
  where the code computes with doubles.  The loop guards of the code are the fuel of the loops.
\<close>

named_theorems sla_simps "equations of the business-time clock on whole seconds"

section \<open>The schedule of a configuration\<close>

text \<open>\<open>parseTime\<close> reads \<open>HH:MM\<close> and drops the seconds.\<close>

definition parseTime :: "clock \<Rightarrow> rat" where
  "parseTime c = of_nat (clock_hh c) + of_nat (clock_mm c) / 60"

definition shiftStartHour :: "ticketing_config \<Rightarrow> rat" where
  "shiftStartHour config =
     (if scheduleMode config = CWW then parseTime (cwwClockinStart config)
      else parseTime (officeClockin config))"

definition shiftEndHour :: "ticketing_config \<Rightarrow> rat" where
  "shiftEndHour config =
     (if scheduleMode config = CWW then parseTime (cwwClockoutStart config)
      else parseTime (officeClockout config))"

definition invalid_schedule :: "rat \<Rightarrow> rat \<Rightarrow> bool" where
  "invalid_schedule shiftStart shiftEnd \<longleftrightarrow>
     shiftStart < 0 \<or> 24 < shiftEnd \<or> shiftEnd \<le> shiftStart \<or> (12 \<le> shiftStart \<and> shiftEnd \<le> 13)"

text \<open>The working blocks before and after the lunch hour.\<close>

definition work_blocks :: "rat \<Rightarrow> rat \<Rightarrow> (rat \<times> rat) list" where
  "work_blocks shiftStart shiftEnd =
     (if shiftStart < 12 then [(shiftStart, min shiftEnd 12)] else []) @
     (if 13 < shiftEnd then [(max shiftStart 13, shiftEnd)] else [])"

text \<open>\<open>blocks.findIndex((b) => manilaHour < b.end)\<close>.\<close>

definition current_block :: "rat \<Rightarrow> (rat \<times> rat) list \<Rightarrow> (rat \<times> rat) option" where
  "current_block manilaHour blocks = List.find (\<lambda>b. manilaHour < snd b) blocks"

section \<open>Instants as Manila hours\<close>

definition getManilaHour :: "bool \<Rightarrow> date \<Rightarrow> rat" where
  "getManilaHour h24 d =
     (let s = manila_ms d div 1000; hour = s div 3600
      in of_int (if h24 \<and> hour = 0 then 24 else hour)
         + of_int (s div 60 mod 60) / 60 + of_int (s mod 60) / 3600)"

definition createManilaHour :: "day \<Rightarrow> int \<Rightarrow> rat \<Rightarrow> date" where
  "createManilaHour baseDate addDays hourFloat =
     manila_midnight (baseDate + addDays)
     + \<lfloor>hourFloat\<rfloor> * 3600000 + js_round (frac hourFloat * 60) * 60000"

definition advanceToNextDayStart :: "rat \<Rightarrow> date \<Rightarrow> date" where
  "advanceToNextDayStart shiftStart d = createManilaHour (getManilaDateString d) 1 shiftStart"

text \<open>\<open>setMilliseconds(0)\<close>.\<close>

definition zeroMilliseconds :: "date \<Rightarrow> date" where
  "zeroMilliseconds d = d - d mod 1000"

definition is_sla_day :: "(day \<Rightarrow> bool) \<Rightarrow> ticketing_config \<Rightarrow> day \<Rightarrow> bool" where
  "is_sla_day office config d \<longleftrightarrow> overtimeSlaDate config = Some d \<or> office d"

section \<open>Deadlines\<close>

text \<open>One iteration of the loop of \<open>calculateSlaDeadline\<close>: the next \<open>current\<close> and
  \<open>remainingHours\<close>.\<close>

definition deadline_step ::
  "bool \<Rightarrow> (day \<Rightarrow> bool) \<Rightarrow> ticketing_config \<Rightarrow> date \<Rightarrow> rat \<Rightarrow> date \<times> rat" where
  "deadline_step h24 office config current remainingHours =
     (let shiftStart = shiftStartHour config; shiftEnd = shiftEndHour config;
          dateString = getManilaDateString current;
          manilaHour = getManilaHour h24 current
      in if \<not> is_sla_day office config dateString
         then (advanceToNextDayStart shiftStart current, remainingHours)
         else case current_block manilaHour (work_blocks shiftStart shiftEnd) of
             None \<Rightarrow> (advanceToNextDayStart shiftStart current, remainingHours)
           | Some (blockStart, blockEnd) \<Rightarrow>
               if manilaHour < blockStart
               then (createManilaHour dateString 0 blockStart, remainingHours)
               else let availableHoursInBlock = blockEnd - manilaHour
                 in if remainingHours \<le> availableHoursInBlock
                    then (current + js_round (remainingHours * 3600 * 1000), 0)
                    else (createManilaHour dateString 0 blockEnd,
                          remainingHours - availableHoursInBlock))"

text \<open>The guard counts down the iterations that are left of the 200000 the code allows.\<close>

fun deadline_loop ::
  "bool \<Rightarrow> (day \<Rightarrow> bool) \<Rightarrow> ticketing_config \<Rightarrow> nat \<Rightarrow> date \<Rightarrow> rat \<Rightarrow> http_error + date" where
  "deadline_loop h24 office config guard current remainingHours =
     (if remainingHours \<le> 0 then Inr current
      else if guard = 0 then Inl (ServiceUnavailable (Sla CalendarIncomplete))
      else let (current', remaining') = deadline_step h24 office config current remainingHours
           in deadline_loop h24 office config (guard - 1) current' remaining')"

declare deadline_loop.simps [simp del]

definition calculateSlaDeadline ::
  "bool \<Rightarrow> (day \<Rightarrow> bool) \<Rightarrow> date \<Rightarrow> rat \<Rightarrow> ticketing_config \<Rightarrow> http_error + date" where
  "calculateSlaDeadline h24 office start slaHours config =
     (let start = zeroMilliseconds start
      in if slaHours \<le> 0 then Inr start
         else if invalid_schedule (shiftStartHour config) (shiftEndHour config)
         then Inl (BadRequest (Sla InvalidSchedule))
         else deadline_loop h24 office config 200000 start slaHours)"

section \<open>Business seconds\<close>

text \<open>One iteration of \<open>calculateBusinessSeconds\<close>: the next \<open>current\<close> and \<open>seconds\<close>, and
  whether the iteration breaks out of the loop.\<close>

definition business_step ::
  "bool \<Rightarrow> (day \<Rightarrow> bool) \<Rightarrow> ticketing_config \<Rightarrow> date \<Rightarrow> date \<Rightarrow> rat \<Rightarrow> date \<times> rat \<times> bool" where
  "business_step h24 office config end current seconds =
     (let shiftStart = shiftStartHour config; shiftEnd = shiftEndHour config;
          dateString = getManilaDateString current;
          manilaHour = getManilaHour h24 current
      in if \<not> is_sla_day office config dateString
         then (advanceToNextDayStart shiftStart current, seconds, False)
         else case current_block manilaHour (work_blocks shiftStart shiftEnd) of
             None \<Rightarrow> (advanceToNextDayStart shiftStart current, seconds, False)
           | Some (blockStart, blockEnd) \<Rightarrow>
               if manilaHour < blockStart
               then (let current' = createManilaHour dateString 0 blockStart
                     in (current', seconds, end \<le> current'))
               else
                 let endManilaHour = getManilaHour h24 end;
                     endsToday = (dateString = getManilaDateString end);
                     effectiveEndHour =
                       (if endsToday \<and> endManilaHour < blockEnd then endManilaHour else blockEnd);
                     hoursThisBlock = effectiveEndHour - manilaHour;
                     seconds' = (if 0 < hoursThisBlock then seconds + hoursThisBlock * 3600 else seconds)
                 in if endsToday \<and> endManilaHour \<le> blockEnd then (current, seconds', True)
                    else (createManilaHour dateString 0 blockEnd, seconds', False))"

fun business_loop ::
  "bool \<Rightarrow> (day \<Rightarrow> bool) \<Rightarrow> ticketing_config \<Rightarrow> date \<Rightarrow> nat \<Rightarrow> date \<Rightarrow> rat \<Rightarrow> http_error + int" where
  "business_loop h24 office config end guard current seconds =
     (if end \<le> current then Inr (js_round seconds)
      else if guard = 0 then Inl (ServiceUnavailable (Sla CalendarStuck))
      else let (current', seconds', break) = business_step h24 office config end current seconds
           in if break then Inr (js_round seconds')
              else business_loop h24 office config end (guard - 1) current' seconds')"

declare business_loop.simps [simp del]

definition maxIterations :: "date \<Rightarrow> date \<Rightarrow> nat" where
  "maxIterations start end = nat (\<lceil>(of_int (end - start) :: rat) / of_int day_ms\<rceil> * 5 + 10)"

definition calculateBusinessSeconds ::
  "bool \<Rightarrow> (day \<Rightarrow> bool) \<Rightarrow> date \<Rightarrow> date \<Rightarrow> ticketing_config \<Rightarrow> http_error + int" where
  "calculateBusinessSeconds h24 office start end config =
     (let start = zeroMilliseconds start; end = zeroMilliseconds end
      in if end \<le> start then Inr 0
         else if invalid_schedule (shiftStartHour config) (shiftEndHour config)
         then Inl (BadRequest (Sla InvalidSchedule))
         else business_loop h24 office config end (maxIterations start end) start 0)"

end
