(* ===== verification/SlaClockFacts.thy ===== *)
theory SlaClockFacts
  imports SlaClock
begin

text \<open>
  Correctness of the business-time clock.  On whole seconds the two loops of \<open>SlaClock\<close> are walks
  from block to block (\<open>walk_of\<close>); the specification counts the working seconds of the calendar
  (\<open>business_count\<close>).  \<open>calculateBusinessSeconds\<close> returns exactly that count and never exceeds its
  iteration limit; \<open>calculateSlaDeadline\<close> returns the least instant by which the SLA hours have
  been worked, and returns whenever the calendar has enough working time in the 39998 days its
  iteration limit pays for.  The locale \<open>business_clock\<close> states what the SLA handlers use of the clock.
\<close>

section \<open>Whole seconds\<close>

definition sec_day :: "int \<Rightarrow> int" where
  "sec_day k = (k + 28800) div 86400"

definition sec_of_day :: "int \<Rightarrow> int" where
  "sec_of_day k = (k + 28800) mod 86400"

definition minute_seconds :: "clock \<Rightarrow> int" where
  "minute_seconds c = int (clock_hh c) * 3600 + int (clock_mm c) * 60"

definition start_seconds :: "ticketing_config \<Rightarrow> int" where
  "start_seconds config =
     (if scheduleMode config = CWW then minute_seconds (cwwClockinStart config)
      else minute_seconds (officeClockin config))"

definition end_seconds :: "ticketing_config \<Rightarrow> int" where
  "end_seconds config =
     (if scheduleMode config = CWW then minute_seconds (cwwClockoutStart config)
      else minute_seconds (officeClockout config))"

definition hours_of :: "int \<Rightarrow> rat" where
  "hours_of s = of_int s / 3600"

definition sec_blocks :: "int \<Rightarrow> int \<Rightarrow> (int \<times> int) list" where
  "sec_blocks a b =
     (if a < 43200 then [(a, min b 43200)] else []) @
     (if 46800 < b then [(max a 46800, b)] else [])"

definition schedule_ok :: "ticketing_config \<Rightarrow> bool" where
  "schedule_ok config \<longleftrightarrow> \<not> invalid_schedule (shiftStartHour config) (shiftEndHour config)"

lemma hours_of_simps [sla_simps]:
  "hours_of x < hours_of y \<longleftrightarrow> x < y" "hours_of x \<le> hours_of y \<longleftrightarrow> x \<le> y"
  "hours_of x = hours_of y \<longleftrightarrow> x = y" "hours_of x - hours_of y = hours_of (x - y)"
  by (simp_all add: hours_of_def divide_right_mono diff_divide_distrib)

lemma hours_of_numeral:
  "hours_of 0 = 0" "hours_of 43200 = 12" "hours_of 46800 = 13" "hours_of 86400 = 24"
  by (simp_all add: hours_of_def)

lemma hours_of_min_max: "min (hours_of x) (hours_of y) = hours_of (min x y)"
  "max (hours_of x) (hours_of y) = hours_of (max x y)"
  by (simp_all add: min_def max_def sla_simps)

lemma parseTime_seconds: "parseTime c = hours_of (minute_seconds c)"
  by (simp add: parseTime_def minute_seconds_def hours_of_def add_divide_distrib)

lemma shift_hours_seconds [sla_simps]:
  "shiftStartHour config = hours_of (start_seconds config)"
  "shiftEndHour config = hours_of (end_seconds config)"
  by (simp_all add: shiftStartHour_def shiftEndHour_def start_seconds_def end_seconds_def parseTime_seconds)

lemma work_blocks_seconds [sla_simps]:
  "work_blocks (hours_of a) (hours_of b) = map (map_prod hours_of hours_of) (sec_blocks a b)"
  using hours_of_simps(1) [of a 43200] hours_of_simps(1) [of 46800 b]
    hours_of_min_max(1) [of b 43200] hours_of_min_max(2) [of a 46800]
  by (simp add: work_blocks_def sec_blocks_def hours_of_numeral)

lemma current_block_seconds [sla_simps]:
  "current_block (hours_of s) (map (map_prod hours_of hours_of) bs)
   = map_option (map_prod hours_of hours_of) (List.find (\<lambda>b. s < snd b) bs)"
  by (induction bs) (auto simp: current_block_def sla_simps)

lemma schedule_ok_seconds [sla_simps]:
  "schedule_ok config \<longleftrightarrow> 0 \<le> start_seconds config \<and> start_seconds config < end_seconds config
     \<and> end_seconds config \<le> 86400
     \<and> (start_seconds config < 43200 \<or> 46800 < end_seconds config)"
  using hours_of_simps(1) [of "start_seconds config" 0] hours_of_simps(1) [of 86400 "end_seconds config"]
    hours_of_simps(2) [of "end_seconds config" "start_seconds config"]
    hours_of_simps(2) [of 43200 "start_seconds config"] hours_of_simps(2) [of "end_seconds config" 46800]
  by (auto simp: schedule_ok_def invalid_schedule_def shift_hours_seconds hours_of_numeral not_less not_le)

lemma getManilaDateString_seconds [sla_simps]: "getManilaDateString (1000 * k) = sec_day k"
  using div_mult_mult1 [of 1000 "k + 28800" 86400]
  by (simp add: getManilaDateString_def sec_day_def algebra_simps)

lemma manila_ms_seconds: "manila_ms (1000 * k) = 1000 * sec_of_day k"
  using mult_mod_right [of 1000 "k + 28800" 86400]
  by (simp add: manila_ms_def sec_of_day_def algebra_simps)

lemma sec_of_day_bounds: "0 \<le> sec_of_day k" "sec_of_day k < 86400"
  by (simp_all add: sec_of_day_def)

lemma sec_split: "k = sec_day k * 86400 + sec_of_day k - 28800"
  using div_mult_mod_eq [of "k + 28800" 86400] unfolding sec_day_def sec_of_day_def by linarith

lemma sec_day_at: "0 \<le> s \<Longrightarrow> s < 86400 \<Longrightarrow> sec_day (d * 86400 + s - 28800) = d"
  by (simp add: sec_day_def)

lemma sec_of_day_at: "0 \<le> s \<Longrightarrow> s < 86400 \<Longrightarrow> sec_of_day (d * 86400 + s - 28800) = s"
  by (simp add: sec_of_day_def)

lemma getManilaHour_seconds [sla_simps]:
  assumes "\<not> (h24 \<and> sec_of_day k < 3600)"
  shows "getManilaHour h24 (1000 * k) = hours_of (sec_of_day k)"
proof -
  let ?s = "sec_of_day k"
  have nz: "\<not> (h24 \<and> ?s div 3600 = 0)"
    using assms sec_of_day_bounds [of k] by (auto simp: zdiv_eq_0_iff)
  have "?s = ?s div 3600 * 3600 + (?s div 60 mod 60 * 60 + ?s mod 60)"
    using zmod_zmult2_eq [of 60 ?s 60] div_mult_mod_eq [of ?s 3600] by simp
  then have "(of_int ?s :: rat) = of_int (?s div 3600) * 3600 + (of_int (?s div 60 mod 60) * 60 + of_int (?s mod 60))"
    by (metis of_int_add of_int_mult of_int_numeral)
  then show ?thesis using nz
    by (simp add: getManilaHour_def Let_def manila_ms_seconds hours_of_def add_divide_distrib)
qed

text \<open>Minute-aligned hours survive the conversion to hour and minute digits.\<close>

lemma createManilaHour_seconds [sla_simps]:
  "createManilaHour d n (hours_of (60 * m)) = 1000 * ((d + n) * 86400 + 60 * m - 28800)"
proof -
  have h: "hours_of (60 * m) = of_int m / 60" by (simp add: hours_of_def)
  have fl: "\<lfloor>hours_of (60 * m)\<rfloor> = m div 60"
    using floor_divide_of_int_eq [where 'a = rat, of m 60] by (simp add: h)
  have "(of_int m :: rat) = of_int (m div 60) * 60 + of_int (m mod 60)"
    by (metis div_mult_mod_eq of_int_add of_int_mult of_int_numeral)
  moreover have "frac (hours_of (60 * m)) * 60 = (hours_of (60 * m) - of_int (m div 60)) * 60"
    by (simp add: frac_def fl)
  moreover have "\<dots> = of_int m - of_int (m div 60) * 60" by (simp add: h left_diff_distrib)
  ultimately have "frac (hours_of (60 * m)) * 60 = of_int (m mod 60)" by simp
  then have r: "js_round (frac (hours_of (60 * m)) * 60) = m mod 60" by (metis js_round_of_int)
  have "m div 60 * 3600000 + m mod 60 * 60000 = 60000 * (m div 60 * 60 + m mod 60)" by (simp only: distrib_left)
  also have "\<dots> = 60000 * m" by simp
  finally show ?thesis
    unfolding createManilaHour_def fl r manila_midnight_def by (simp add: distrib_left)
qed

lemma minute_aligned: "\<exists>m. start_seconds config = 60 * m" "\<exists>m. end_seconds config = 60 * m"
proof -
  have "\<exists>m. minute_seconds c = 60 * m" for c
    by (rule exI [of _ "int (clock_hh c) * 60 + int (clock_mm c)"]) (simp add: minute_seconds_def)
  then show "\<exists>m. start_seconds config = 60 * m" "\<exists>m. end_seconds config = 60 * m"
    by (simp_all add: start_seconds_def end_seconds_def)
qed

lemma blocks_aligned:
  assumes "(x, y) \<in> set (sec_blocks (start_seconds config) (end_seconds config))"
  shows "\<exists>m. x = 60 * m" "\<exists>m. y = 60 * m"
proof -
  obtain m n where "start_seconds config = 60 * m" "end_seconds config = 60 * n"
    using minute_aligned [of config] by auto
  moreover have "43200 = 60 * (720 :: int)" "46800 = 60 * (780 :: int)" by simp_all
  ultimately show "\<exists>m. x = 60 * m" "\<exists>m. y = 60 * m"
    using assms by (auto simp: sec_blocks_def min_def max_def split: if_splits)
qed

lemma createManilaHour_block:
  assumes "(x, y) \<in> set (sec_blocks (start_seconds config) (end_seconds config))"
  shows "createManilaHour d n (hours_of x) = 1000 * ((d + n) * 86400 + x - 28800)"
    "createManilaHour d n (hours_of y) = 1000 * ((d + n) * 86400 + y - 28800)"
  using blocks_aligned [OF assms] createManilaHour_seconds by metis+

lemma createManilaHour_start:
  "createManilaHour d n (hours_of (start_seconds config)) = 1000 * ((d + n) * 86400 + start_seconds config - 28800)"
  using minute_aligned(1) [of config] createManilaHour_seconds by metis

lemma zeroMilliseconds_seconds: "zeroMilliseconds t = 1000 * (t div 1000)"
  by (simp add: zeroMilliseconds_def minus_mod_eq_mult_div)


section \<open>The specification: counting working seconds\<close>

definition working_second :: "(day \<Rightarrow> bool) \<Rightarrow> ticketing_config \<Rightarrow> int \<Rightarrow> bool" where
  "working_second office config k \<longleftrightarrow>
     is_sla_day office config (sec_day k) \<and>
     (\<exists>(x, y) \<in> set (sec_blocks (start_seconds config) (end_seconds config)).
        x \<le> sec_of_day k \<and> sec_of_day k < y)"

definition business_count :: "(day \<Rightarrow> bool) \<Rightarrow> ticketing_config \<Rightarrow> int \<Rightarrow> int \<Rightarrow> int" where
  "business_count office config a b = count_in (working_second office config) a b"

text \<open>Midnight is read as hour 24 only where no instant the walk visits lies in hour 0.\<close>

definition hours_readable :: "bool \<Rightarrow> ticketing_config \<Rightarrow> int \<Rightarrow> bool" where
  "hours_readable h24 config k \<longleftrightarrow>
     (h24 \<longrightarrow> 3600 \<le> start_seconds config \<and> end_seconds config < 86400 \<and> 3600 \<le> sec_of_day k)"

text \<open>The walk of one iteration on whole seconds: where it goes when it does not stop in a block.\<close>

definition next_start :: "ticketing_config \<Rightarrow> int \<Rightarrow> int" where
  "next_start config k = (sec_day k + 1) * 86400 + start_seconds config - 28800"

definition at_second :: "int \<Rightarrow> int \<Rightarrow> int" where
  "at_second k s = sec_day k * 86400 + s - 28800"

definition phase :: "ticketing_config \<Rightarrow> int \<Rightarrow> int" where
  "phase config k = 1 + sum_list (map (\<lambda>(x, y).
     (if sec_of_day k < x then 1 else 0) + (if sec_of_day k < y then 1 else 0))
     (sec_blocks (start_seconds config) (end_seconds config)))"

text \<open>The iterations the walk may still need to pass the end of day \<open>d\<close>.\<close>

definition walk_measure :: "ticketing_config \<Rightarrow> day \<Rightarrow> int \<Rightarrow> int" where
  "walk_measure config d k = 5 * (d - sec_day k) + phase config k"

datatype walk = SkipDay | ToBlock int int | InBlock int int

definition walk_of :: "(day \<Rightarrow> bool) \<Rightarrow> ticketing_config \<Rightarrow> int \<Rightarrow> walk" where
  "walk_of office config k =
     (if \<not> is_sla_day office config (sec_day k) then SkipDay
      else case List.find (\<lambda>b. sec_of_day k < snd b) (sec_blocks (start_seconds config) (end_seconds config)) of
          None \<Rightarrow> SkipDay
        | Some (x, y) \<Rightarrow> if sec_of_day k < x then ToBlock x y else InBlock x y)"

lemma phase_bounds: "1 \<le> phase config k" "phase config k \<le> 5"
  by (auto simp: phase_def sec_blocks_def)

lemma at_second_props:
  assumes "0 \<le> s" "s < 86400"
  shows "sec_day (at_second k s) = sec_day k" "sec_of_day (at_second k s) = s"
  using assms by (simp_all add: at_second_def sec_day_at sec_of_day_at)

lemma at_second_self: "at_second k (sec_of_day k) = k"
  using sec_split [of k] by (simp add: at_second_def)

lemma at_second_le: "at_second k s \<le> at_second k t \<longleftrightarrow> s \<le> t" "at_second k s < at_second k t \<longleftrightarrow> s < t"
  by (simp_all add: at_second_def)

lemma between_same_day:
  assumes "at_second k u \<le> j" "j < at_second k v" "0 \<le> u" "v \<le> 86400"
  shows "sec_day j = sec_day k" "u \<le> sec_of_day j" "sec_of_day j < v"
proof -
  have j: "j = sec_day k * 86400 + (j + 28800 - sec_day k * 86400) - 28800" by simp
  have b: "0 \<le> j + 28800 - sec_day k * 86400" "j + 28800 - sec_day k * 86400 < 86400"
    using assms by (simp_all add: at_second_def)
  show "sec_day j = sec_day k" using sec_day_at [OF b, of "sec_day k"] by simp
  have "sec_of_day j = j + 28800 - sec_day k * 86400" using sec_of_day_at [OF b, of "sec_day k"] by simp
  then show "u \<le> sec_of_day j" "sec_of_day j < v" using assms by (simp_all add: at_second_def)
qed

lemma next_start_props:
  assumes "schedule_ok config"
  shows "sec_day (next_start config k) = sec_day k + 1"
    "sec_of_day (next_start config k) = start_seconds config" "k < next_start config k"
proof -
  have s: "0 \<le> start_seconds config" "start_seconds config < 86400" using assms by (auto simp: sla_simps)
  show "sec_day (next_start config k) = sec_day k + 1"
    using sec_day_at [OF s, of "sec_day k + 1"] by (simp add: next_start_def)
  show "sec_of_day (next_start config k) = start_seconds config"
    using sec_of_day_at [OF s, of "sec_day k + 1"] by (simp add: next_start_def)
  show "k < next_start config k"
    using sec_split [of k] sec_of_day_bounds [of k] s by (simp add: next_start_def)
qed

lemma before_next_start:
  assumes "k \<le> j" "j < next_start config k" "schedule_ok config"
  shows "sec_day j = sec_day k \<and> sec_of_day k \<le> sec_of_day j
    \<or> sec_of_day j < start_seconds config"
proof (cases "j < at_second k 86400")
  case True
  have "at_second k (sec_of_day k) \<le> j" using assms(1) by (simp add: at_second_self)
  from between_same_day [OF this True] sec_of_day_bounds [of k] show ?thesis by simp
next
  case False
  have s: "0 \<le> start_seconds config" "start_seconds config < 86400" using assms(3) by (auto simp: sla_simps)
  have "j = (sec_day k + 1) * 86400 + (j + 28800 - (sec_day k + 1) * 86400) - 28800" by simp
  moreover have "0 \<le> j + 28800 - (sec_day k + 1) * 86400" using False by (simp add: at_second_def)
  moreover have "j + 28800 - (sec_day k + 1) * 86400 < start_seconds config"
    using assms(2) by (simp add: next_start_def)
  ultimately have "sec_of_day j = j + 28800 - (sec_day k + 1) * 86400"
    using sec_of_day_at [of "j + 28800 - (sec_day k + 1) * 86400" "sec_day k + 1"] s by simp
  then show ?thesis using assms(2) by (simp add: next_start_def)
qed

lemma block_bounds:
  assumes "(x, y) \<in> set (sec_blocks (start_seconds config) (end_seconds config))" "schedule_ok config"
  shows "0 \<le> x" "x < y" "y \<le> 86400" "start_seconds config \<le> x" "y \<le> end_seconds config"
  using assms by (auto simp: sec_blocks_def sla_simps split: if_splits)

lemma find_block:
  assumes "List.find (\<lambda>b. s < snd b) (sec_blocks a e) = Some (x, y)"
  shows "(x, y) \<in> set (sec_blocks a e)" "s < y"
    "(x', y') \<in> set (sec_blocks a e) \<Longrightarrow> y' \<le> s \<or> (x', y') = (x, y) \<or> y \<le> x'"
  using assms by (auto simp: sec_blocks_def split: if_splits)

lemma skip_no_work:
  assumes "walk_of office config k = SkipDay" "schedule_ok config" "k \<le> j" "j < next_start config k"
  shows "\<not> working_second office config j"
proof -
  have none: "\<not> (\<exists>(x, y) \<in> set (sec_blocks (start_seconds config) (end_seconds config)). x \<le> t \<and> t < y)"
    if "t < start_seconds config" for t
    using that block_bounds(4) [OF _ assms(2)] by force
  have "\<not> is_sla_day office config (sec_day k) \<or>
    (\<forall>(x, y) \<in> set (sec_blocks (start_seconds config) (end_seconds config)). y \<le> sec_of_day k)"
    using assms(1) by (fastforce simp: walk_of_def find_None_iff split: if_splits option.splits)
  then show ?thesis
    using before_next_start [OF assms(3,4,2)] none by (fastforce simp: working_second_def)
qed

lemma to_block_no_work:
  assumes "walk_of office config k = ToBlock x y" "schedule_ok config" "k \<le> j" "j < at_second k x"
  shows "\<not> working_second office config j"
proof -
  from assms(1) have f: "List.find (\<lambda>b. sec_of_day k < snd b)
      (sec_blocks (start_seconds config) (end_seconds config)) = Some (x, y)" and "sec_of_day k < x"
    by (auto simp: walk_of_def split: if_splits option.splits prod.splits)
  have kj: "at_second k (sec_of_day k) \<le> j" using assms(3) by (simp add: at_second_self)
  note b = block_bounds [OF find_block(1) [OF f] assms(2)]
  have "sec_of_day k \<le> sec_of_day j" "sec_of_day j < x"
    using between_same_day [OF kj assms(4)] sec_of_day_bounds [of k] b by auto
  then show ?thesis using find_block(3) [OF f] b by (fastforce simp: working_second_def)
qed

lemma in_block_work:
  assumes "walk_of office config k = InBlock x y" "schedule_ok config" "k \<le> j" "j < at_second k y"
  shows "working_second office config j"
proof -
  from assms(1) have f: "List.find (\<lambda>b. sec_of_day k < snd b)
      (sec_blocks (start_seconds config) (end_seconds config)) = Some (x, y)"
    and x: "x \<le> sec_of_day k" and d: "is_sla_day office config (sec_day k)"
    by (auto simp: walk_of_def split: if_splits option.splits prod.splits)
  have kj: "at_second k (sec_of_day k) \<le> j" using assms(3) by (simp add: at_second_self)
  note b = block_bounds [OF find_block(1) [OF f] assms(2)]
  have "sec_day j = sec_day k" "sec_of_day k \<le> sec_of_day j" "sec_of_day j < y"
    using between_same_day [OF kj assms(4)] sec_of_day_bounds [of k] b by auto
  then show ?thesis using find_block(1) [OF f] x d
    unfolding working_second_def by (intro conjI bexI [of _ "(x, y)"]) auto
qed

lemma walk_block_facts:
  assumes "walk_of office config k \<in> {ToBlock x y, InBlock x y}" "schedule_ok config"
  shows "(x, y) \<in> set (sec_blocks (start_seconds config) (end_seconds config))"
    "sec_of_day k < y" "0 \<le> x" "x < y" "y \<le> 86400"
    "start_seconds config \<le> x" "y \<le> end_seconds config"
proof -
  from assms(1) have f: "List.find (\<lambda>b. sec_of_day k < snd b)
      (sec_blocks (start_seconds config) (end_seconds config)) = Some (x, y)"
    by (auto simp: walk_of_def split: if_splits option.splits prod.splits)
  show "(x, y) \<in> set (sec_blocks (start_seconds config) (end_seconds config))" "sec_of_day k < y"
    by (rule find_block [OF f])+
  from block_bounds [OF this(1) assms(2)]
  show "0 \<le> x" "x < y" "y \<le> 86400" "start_seconds config \<le> x" "y \<le> end_seconds config" by auto
qed

text \<open>Every move of the walk makes the measure smaller.\<close>

lemma measure_next_start:
  assumes "schedule_ok config"
  shows "walk_measure config d (next_start config k) < walk_measure config d k"
proof -
  have "phase config (next_start config k) \<le> 4"
    using assms next_start_props(2) [OF assms, of k]
    by (auto simp: phase_def sec_blocks_def sla_simps)
  then show ?thesis
    using next_start_props(1) [OF assms, of k] phase_bounds(1) [of config k] by (simp add: walk_measure_def)
qed

lemma measure_within_day:
  assumes "schedule_ok config" "sec_of_day k < s" "s \<le> 86400"
    "(x, y) \<in> set (sec_blocks (start_seconds config) (end_seconds config))" "s = x \<or> s = y"
  shows "walk_measure config d (at_second k s) < walk_measure config d k"
proof (cases "s = 86400")
  case True
  have "at_second k s = (sec_day k + 1) * 86400 + 0 - 28800" by (simp add: at_second_def True)
  then have "sec_day (at_second k s) = sec_day k + 1"
    using sec_day_at [of 0 "sec_day k + 1"] by (simp only:)
  then show ?thesis
    using phase_bounds(2) [of config "at_second k s"] phase_bounds(1) [of config k]
    by (simp add: walk_measure_def)
next
  case False
  then have s: "0 \<le> s" "s < 86400" using assms sec_of_day_bounds(1) [of k] by auto
  have "phase config (at_second k s) < phase config k"
    using assms(1,2,4,5) at_second_props(2) [OF s, of k]
    by (auto simp: phase_def sec_blocks_def sla_simps split: if_splits)
  then show ?thesis using at_second_props(1) [OF s, of k] by (simp add: walk_measure_def)
qed


lemma hours_readable_next_start:
  "hours_readable h24 config k \<Longrightarrow> schedule_ok config \<Longrightarrow> hours_readable h24 config (next_start config k)"
  by (simp add: hours_readable_def next_start_props)

lemma hours_readable_at_second:
  assumes "hours_readable h24 config k" "schedule_ok config"
    "(x, y) \<in> set (sec_blocks (start_seconds config) (end_seconds config))" "s = x \<or> s = y"
  shows "hours_readable h24 config (at_second k s)"
proof -
  have "0 \<le> s" "s \<le> 86400" "start_seconds config \<le> s" "s \<le> end_seconds config"
    using block_bounds [OF assms(3,2)] assms(4) by auto
  then show ?thesis using assms(1) at_second_props(2) [of s k]
    by (auto simp: hours_readable_def)
qed

lemma readable_hour: "hours_readable h24 config k \<Longrightarrow> getManilaHour h24 (1000 * k) = hours_of (sec_of_day k)"
  by (intro getManilaHour_seconds) (auto simp: hours_readable_def)

lemma js_round_hours_of: "js_round (3600000 * hours_of n) = 1000 * n"
proof -
  have "3600000 * hours_of n = (of_int (1000 * n) :: rat)" by (simp add: hours_of_def)
  then show ?thesis by (simp only: js_round_of_int)
qed

text \<open>The iteration of the deadline loop on whole seconds.\<close>

definition second_step :: "(day \<Rightarrow> bool) \<Rightarrow> ticketing_config \<Rightarrow> int \<Rightarrow> int \<Rightarrow> int \<times> int" where
  "second_step office config k n =
    (case walk_of office config k of
       SkipDay \<Rightarrow> (next_start config k, n)
     | ToBlock x y \<Rightarrow> (at_second k x, n)
     | InBlock x y \<Rightarrow> if n \<le> y - sec_of_day k then (k + n, 0)
         else (at_second k y, n - (y - sec_of_day k)))"

lemma deadline_step_seconds:
  assumes "schedule_ok config" "hours_readable h24 config k"
  shows "deadline_step h24 office config (1000 * k) (hours_of n)
    = map_prod ((*) 1000) hours_of (second_step office config k n)"
proof -
  have adv: "advanceToNextDayStart (shiftStartHour config) (1000 * k) = 1000 * next_start config k"
    by (simp add: advanceToNextDayStart_def shift_hours_seconds getManilaDateString_seconds
        createManilaHour_start next_start_def)
  show ?thesis
  proof (cases "is_sla_day office config (sec_day k)")
    case False
    then show ?thesis
      by (simp add: deadline_step_def second_step_def walk_of_def Let_def getManilaDateString_seconds adv)
  next
    case True
    show ?thesis
    proof (cases "List.find (\<lambda>b. sec_of_day k < snd b) (sec_blocks (start_seconds config) (end_seconds config))")
      case None
      with True show ?thesis
        by (simp add: deadline_step_def second_step_def walk_of_def Let_def getManilaDateString_seconds adv
            readable_hour [OF assms(2)] shift_hours_seconds work_blocks_seconds current_block_seconds)
          (simp add: adv [unfolded shift_hours_seconds])
    next
      case (Some b)
      obtain x y where b: "b = (x, y)" by (cases b)
      have xy: "(x, y) \<in> set (sec_blocks (start_seconds config) (end_seconds config))"
        using find_block(1) Some b by blast
      from True Some b show ?thesis
        by (simp add: deadline_step_def second_step_def walk_of_def Let_def getManilaDateString_seconds
            readable_hour [OF assms(2)] shift_hours_seconds work_blocks_seconds current_block_seconds
            hours_of_simps createManilaHour_block [OF xy] js_round_hours_of at_second_def distrib_left hours_of_numeral)
    qed
  qed
qed

lemma business_split:
  "a \<le> b \<Longrightarrow> b \<le> c \<Longrightarrow> business_count office config a c = business_count office config a b + business_count office config b c"
  unfolding business_count_def by (rule count_in_split)

lemma walk_skip_count:
  assumes "walk_of office config k = SkipDay" "schedule_ok config" "e \<le> next_start config k"
  shows "business_count office config k e = 0"
  unfolding business_count_def
  using skip_no_work [OF assms(1,2)] assms(3) by (intro count_in_none) auto

lemma walk_to_block_count:
  assumes "walk_of office config k = ToBlock x y" "schedule_ok config" "e \<le> at_second k x"
  shows "business_count office config k e = 0"
  unfolding business_count_def
  using to_block_no_work [OF assms(1,2)] assms(3) by (intro count_in_none) auto

lemma walk_in_block_count:
  assumes "walk_of office config k = InBlock x y" "schedule_ok config" "k \<le> e" "e \<le> at_second k y"
  shows "business_count office config k e = e - k"
  unfolding business_count_def
  using in_block_work [OF assms(1,2)] assms(3,4) by (intro count_in_all) auto

lemma to_block_moves:
  assumes "walk_of office config k = ToBlock x y"
  shows "k < at_second k x"
proof -
  have "sec_of_day k < x" using assms by (auto simp: walk_of_def split: if_splits option.splits prod.splits)
  then show ?thesis using at_second_le(2) [of k "sec_of_day k" x] by (simp add: at_second_self)
qed

lemma in_block_moves:
  assumes "walk_of office config k = InBlock x y"
  shows "k < at_second k y" "at_second k y - k = y - sec_of_day k"
proof -
  have "sec_of_day k < y"
    using assms by (auto simp: walk_of_def find_block(2) split: if_splits option.splits prod.splits)
  moreover show "at_second k y - k = y - sec_of_day k" using sec_split [of k] by (simp add: at_second_def)
  ultimately show "k < at_second k y" by simp
qed

lemma hours_of_pos: "hours_of n \<le> 0 \<longleftrightarrow> n \<le> 0"
  using hours_of_simps(2) [of n 0] by (simp add: hours_of_numeral)

lemma second_step_spec:
  assumes "second_step office config k n = (k', n')" "schedule_ok config" "0 < n"
  shows "k < k'" "0 \<le> n'" "business_count office config k k' = n - n'"
    "n' = 0 \<Longrightarrow> working_second office config (k' - 1)"
    "0 < n' \<Longrightarrow> walk_measure config d k' < walk_measure config d k"
    "0 < n' \<Longrightarrow> hours_readable h24 config k \<Longrightarrow> hours_readable h24 config k'"
proof -
  have "k < k' \<and> 0 \<le> n' \<and> business_count office config k k' = n - n'
    \<and> (n' = 0 \<longrightarrow> working_second office config (k' - 1))
    \<and> (0 < n' \<longrightarrow> walk_measure config d k' < walk_measure config d k
         \<and> (hours_readable h24 config k \<longrightarrow> hours_readable h24 config k'))"
  proof (cases "walk_of office config k")
    case SkipDay
    with assms show ?thesis
      using walk_skip_count [OF SkipDay assms(2)] next_start_props(3) [OF assms(2)]
        measure_next_start [OF assms(2)] hours_readable_next_start [OF _ assms(2)]
      by (auto simp: second_step_def)
  next
    case (ToBlock x y)
    note f = walk_block_facts [OF _ assms(2), of office k x y]
    have "sec_of_day k < x" using to_block_moves [OF ToBlock] at_second_le(2) at_second_self by metis
    with ToBlock assms f show ?thesis
      using walk_to_block_count [OF ToBlock assms(2), of "at_second k x"] to_block_moves [OF ToBlock]
        measure_within_day [OF assms(2), of k x x y d] hours_readable_at_second [OF _ assms(2), of h24 k x y x]
      by (auto simp: second_step_def)
  next
    case (InBlock x y)
    note f = walk_block_facts [OF _ assms(2), of office k x y]
    note m = in_block_moves [OF InBlock]
    show ?thesis
    proof (cases "n \<le> y - sec_of_day k")
      case True
      with InBlock assms m show ?thesis
        using walk_in_block_count [OF InBlock assms(2), of "k + n"]
          in_block_work [OF InBlock assms(2), of "k + n - 1"]
        by (auto simp: second_step_def)
    next
      case False
      with InBlock assms f m show ?thesis
        using walk_in_block_count [OF InBlock assms(2), of "at_second k y"]
          measure_within_day [OF assms(2), of k y x y d] hours_readable_at_second [OF _ assms(2), of h24 k x y y]
        by (auto simp: second_step_def)
    qed
  qed
  then show "k < k'" "0 \<le> n'" "business_count office config k k' = n - n'"
    "n' = 0 \<Longrightarrow> working_second office config (k' - 1)"
    "0 < n' \<Longrightarrow> walk_measure config d k' < walk_measure config d k"
    "0 < n' \<Longrightarrow> hours_readable h24 config k \<Longrightarrow> hours_readable h24 config k'" by auto
qed

lemma deadline_loop_done: "n \<le> 0 \<Longrightarrow> deadline_loop h24 office config guard c (hours_of n) = Inr c"
  by (subst deadline_loop.simps) (simp add: hours_of_pos)

lemma deadline_loop_step:
  assumes "0 < n" "0 < guard" "schedule_ok config" "hours_readable h24 config k"
    "second_step office config k n = (k', n')"
  shows "deadline_loop h24 office config guard (1000 * k) (hours_of n)
    = deadline_loop h24 office config (guard - 1) (1000 * k') (hours_of n')"
  using assms by (subst deadline_loop.simps) (simp add: hours_of_pos deadline_step_seconds)

text \<open>The deadline loop on whole seconds: every result is the instant by which \<open>n\<close> working seconds
  have passed, and its last second is a working one.\<close>

lemma deadline_loop_correct:
  assumes "deadline_loop h24 office config guard (1000 * k) (hours_of n) = Inr dl"
    "schedule_ok config" "hours_readable h24 config k" "0 < n"
  shows "\<exists>e. dl = 1000 * e \<and> k < e \<and> business_count office config k e = n
    \<and> working_second office config (e - 1)"
  using assms
proof (induction guard arbitrary: k n)
  case 0
  then show ?case by (simp add: deadline_loop.simps [of _ _ _ 0] hours_of_pos)
next
  case (Suc guard)
  obtain k' n' where st: "second_step office config k n = (k', n')" by fastforce
  note spec = second_step_spec [OF st Suc.prems(2,4)]
  have loop: "deadline_loop h24 office config guard (1000 * k') (hours_of n') = Inr dl"
    using Suc.prems deadline_loop_step [OF _ _ _ _ st, of "Suc guard" h24] by simp
  show ?case
  proof (cases "n' = 0")
    case True
    with loop deadline_loop_done [of n'] spec show ?thesis by (intro exI [of _ k']) simp
  next
    case False
    with spec(2) have "0 < n'" by simp
    from Suc.IH [OF loop Suc.prems(2) spec(6) this] this Suc.prems(3)
    obtain e where "dl = 1000 * e" "k' < e" "business_count office config k' e = n'"
      "working_second office config (e - 1)" by blast
    with spec(1,3) business_split [of k k' e office config] show ?thesis by (intro exI [of _ e]) auto
  qed
qed

text \<open>The guard suffices when the working seconds lie within the days it pays for.\<close>

lemma deadline_loop_returns:
  assumes "schedule_ok config" "hours_readable h24 config k"
    "n \<le> business_count office config k ((d + 1) * 86400 - 28800)"
    "walk_measure config d k \<le> int guard"
  shows "\<exists>dl. deadline_loop h24 office config guard (1000 * k) (hours_of n) = Inr dl"
  using assms
proof (induction guard arbitrary: k n)
  case 0
  have "\<not> sec_day k \<le> d" using "0.prems"(4) phase_bounds(1) [of config k] by (simp add: walk_measure_def)
  then have "(d + 1) * 86400 - 28800 \<le> k" using sec_split [of k] sec_of_day_bounds(1) [of k] by simp
  with "0.prems"(3) have "n \<le> 0" by (simp add: business_count_def)
  then show ?case by (simp add: deadline_loop_done)
next
  case (Suc guard)
  show ?case
  proof (cases "0 < n")
    case True
    obtain k' n' where st: "second_step office config k n = (k', n')" by fastforce
    note spec = second_step_spec [OF st Suc.prems(1) True]
    let ?E = "(d + 1) * 86400 - 28800"
    have "n' \<le> business_count office config k' ?E"
    proof (cases "k' \<le> ?E")
      case True
      with business_split [of k k' ?E office config] spec(1,3) Suc.prems(3) show ?thesis by simp
    next
      case False
      then have "business_count office config k ?E \<le> business_count office config k k'"
        unfolding business_count_def by (intro count_in_mono) simp
      with spec(3) Suc.prems(3) have "n' \<le> 0" by simp
      then show ?thesis unfolding business_count_def by (rule order_trans) simp
    qed
    then have "\<exists>dl. deadline_loop h24 office config guard (1000 * k') (hours_of n') = Inr dl"
      using Suc.IH [OF Suc.prems(1) spec(6)] spec(2) spec(5) [of d] Suc.prems(2,4)
        deadline_loop_done [of n']
      by (cases "n' = 0") auto
    then show ?thesis
      using deadline_loop_step [OF True _ Suc.prems(1,2) st, of "Suc guard"] by simp
  qed (simp add: deadline_loop_done)
qed


lemma rat_seconds: "of_int a + hours_of b * 3600 = (of_int (a + b) :: rat)"
  by (simp add: hours_of_def)

text \<open>One iteration of the measuring loop on whole seconds.\<close>

definition second_measure ::
  "(day \<Rightarrow> bool) \<Rightarrow> ticketing_config \<Rightarrow> int \<Rightarrow> int \<Rightarrow> int \<Rightarrow> int \<times> int \<times> bool" where
  "second_measure office config e k a =
    (case walk_of office config k of
       SkipDay \<Rightarrow> (next_start config k, a, False)
     | ToBlock x y \<Rightarrow> (at_second k x, a, e \<le> at_second k x)
     | InBlock x y \<Rightarrow>
         let ends_here = (sec_day e = sec_day k \<and> sec_of_day e \<le> y)
         in (if ends_here then k else at_second k y,
             a + (if ends_here then e - k else y - sec_of_day k), ends_here))"

lemma business_step_seconds:
  assumes "schedule_ok config" "hours_readable h24 config k" "k < e"
  shows "business_step h24 office config (1000 * e) (1000 * k) (of_int a)
    = (case second_measure office config e k a of (k', a', brk) \<Rightarrow> (1000 * k', of_int a', brk))"
proof -
  have adv: "advanceToNextDayStart (hours_of (start_seconds config)) (1000 * k) = 1000 * next_start config k"
    by (simp add: advanceToNextDayStart_def getManilaDateString_seconds createManilaHour_start next_start_def)
  show ?thesis
  proof (cases "walk_of office config k")
    case SkipDay
    then have "\<not> is_sla_day office config (sec_day k) \<or>
      List.find (\<lambda>b. sec_of_day k < snd b) (sec_blocks (start_seconds config) (end_seconds config)) = None"
      by (auto simp: walk_of_def split: if_splits option.splits)
    with SkipDay show ?thesis
      by (auto simp: business_step_def second_measure_def Let_def getManilaDateString_seconds
          shift_hours_seconds readable_hour [OF assms(2)] work_blocks_seconds current_block_seconds adv)
  next
    case (ToBlock x y)
    then have d: "is_sla_day office config (sec_day k)" "sec_of_day k < x"
      and f: "List.find (\<lambda>b. sec_of_day k < snd b) (sec_blocks (start_seconds config) (end_seconds config)) = Some (x, y)"
      by (auto simp: walk_of_def split: if_splits option.splits prod.splits)
    with ToBlock show ?thesis
      by (simp add: business_step_def second_measure_def Let_def getManilaDateString_seconds
          shift_hours_seconds readable_hour [OF assms(2)] work_blocks_seconds current_block_seconds
          hours_of_simps createManilaHour_block [OF find_block(1) [OF f]] at_second_def) arith
  next
    case (InBlock x y)
    then have d: "is_sla_day office config (sec_day k)" "\<not> sec_of_day k < x"
      and f: "List.find (\<lambda>b. sec_of_day k < snd b) (sec_blocks (start_seconds config) (end_seconds config)) = Some (x, y)"
      by (auto simp: walk_of_def split: if_splits option.splits prod.splits)
    note y = find_block(2) [OF f]
    show ?thesis
    proof (cases "sec_day e = sec_day k")
      case True
      then have diff: "sec_of_day e - sec_of_day k = e - k"
        using sec_split [of e] sec_split [of k] by simp
      with assms(2,3) True have "hours_readable h24 config e" by (auto simp: hours_readable_def)
      from InBlock d f y True diff assms(3) show ?thesis
        by (simp add: business_step_def second_measure_def Let_def getManilaDateString_seconds
            shift_hours_seconds readable_hour [OF assms(2)] readable_hour [OF \<open>hours_readable h24 config e\<close>]
            work_blocks_seconds current_block_seconds hours_of_simps
            createManilaHour_block [OF find_block(1) [OF f]] at_second_def rat_seconds)
          (auto simp: hours_of_def)
    next
      case False
      with InBlock d f y show ?thesis
        by (simp add: business_step_def second_measure_def Let_def getManilaDateString_seconds
            shift_hours_seconds readable_hour [OF assms(2)] work_blocks_seconds current_block_seconds
            hours_of_simps createManilaHour_block [OF find_block(1) [OF f]] at_second_def rat_seconds)
    qed
  qed
qed

lemma second_measure_spec:
  assumes "second_measure office config e k a = (k', a', brk)" "schedule_ok config" "k < e"
  shows "brk \<Longrightarrow> a' = a + business_count office config k e"
    "\<not> brk \<Longrightarrow> a' + business_count office config k' e = a + business_count office config k e"
    "\<not> brk \<Longrightarrow> walk_measure config d k' < walk_measure config d k"
    "\<not> brk \<Longrightarrow> hours_readable h24 config k \<Longrightarrow> hours_readable h24 config k'"
proof -
  have "(brk \<longrightarrow> a' = a + business_count office config k e)
    \<and> (\<not> brk \<longrightarrow> a' + business_count office config k' e = a + business_count office config k e
         \<and> walk_measure config d k' < walk_measure config d k
         \<and> (hours_readable h24 config k \<longrightarrow> hours_readable h24 config k'))"
  proof (cases "walk_of office config k")
    case SkipDay
    let ?k = "next_start config k"
    have "business_count office config k e = business_count office config ?k e"
    proof (cases "?k \<le> e")
      case True
      then show ?thesis
        using business_split [of k ?k e office config] next_start_props(3) [OF assms(2), of k]
          walk_skip_count [OF SkipDay assms(2), of ?k] by simp
    next
      case False
      then show ?thesis
        using walk_skip_count [OF SkipDay assms(2), of e] by (simp add: business_count_def)
    qed
    with SkipDay assms show ?thesis
      using measure_next_start [OF assms(2)] hours_readable_next_start [OF _ assms(2)]
      by (auto simp: second_measure_def)
  next
    case (ToBlock x y)
    let ?k = "at_second k x"
    note f = walk_block_facts [OF _ assms(2), of office k x y]
    note m = to_block_moves [OF ToBlock]
    have s: "sec_of_day k < x" using m at_second_le(2) at_second_self by metis
    have "business_count office config k e = (if e \<le> ?k then 0 else business_count office config ?k e)"
      using business_split [of k ?k e office config] m
        walk_to_block_count [OF ToBlock assms(2), of ?k] walk_to_block_count [OF ToBlock assms(2), of e] by simp
    with ToBlock assms f s show ?thesis
      using measure_within_day [OF assms(2), of k x x y d] hours_readable_at_second [OF _ assms(2), of h24 k x y x]
      by (auto simp: second_measure_def)
  next
    case (InBlock x y)
    let ?k = "at_second k y"
    note f = walk_block_facts [OF _ assms(2), of office k x y]
    note m = in_block_moves [OF InBlock]
    show ?thesis
    proof (cases "sec_day e = sec_day k \<and> sec_of_day e \<le> y")
      case True
      then have "e \<le> ?k" using sec_split [of e] by (simp add: at_second_def)
      then have "business_count office config k e = e - k"
        using walk_in_block_count [OF InBlock assms(2), of e] assms(3) by simp
      with InBlock True assms show ?thesis by (auto simp: second_measure_def)
    next
      case False
      have "?k \<le> e"
      proof (cases "sec_day e = sec_day k")
        case True
        with False show ?thesis using sec_split [of e] by (simp add: at_second_def)
      next
        case neq: False
        have "sec_day k \<le> sec_day e" using assms(3) by (simp add: sec_day_def zdiv_mono1)
        with neq have "(sec_day k + 1) * 86400 \<le> sec_day e * 86400" by simp
        then show ?thesis
          using sec_split [of e] sec_of_day_bounds(1) [of e] f(5) InBlock by (simp add: at_second_def)
      qed
      then have "business_count office config k e = y - sec_of_day k + business_count office config ?k e"
        using business_split [of k ?k e office config] m walk_in_block_count [OF InBlock assms(2), of ?k] by simp
      with InBlock False assms f show ?thesis
        using measure_within_day [OF assms(2), of k y x y d] hours_readable_at_second [OF _ assms(2), of h24 k x y y]
        by (auto simp: second_measure_def)
    qed
  qed
  then show "brk \<Longrightarrow> a' = a + business_count office config k e"
    "\<not> brk \<Longrightarrow> a' + business_count office config k' e = a + business_count office config k e"
    "\<not> brk \<Longrightarrow> walk_measure config d k' < walk_measure config d k"
    "\<not> brk \<Longrightarrow> hours_readable h24 config k \<Longrightarrow> hours_readable h24 config k'" by auto
qed

lemma business_loop_counts:
  assumes "schedule_ok config" "hours_readable h24 config k" "k < e \<Longrightarrow> walk_measure config (sec_day e) k \<le> int guard"
  shows "business_loop h24 office config (1000 * e) guard (1000 * k) (of_int a)
    = Inr (a + business_count office config k e)"
  using assms
proof (induction guard arbitrary: k a)
  case 0
  have "e \<le> k"
  proof (rule ccontr)
    assume "\<not> e \<le> k"
    then have "sec_day k \<le> sec_day e" by (simp add: sec_day_def zdiv_mono1)
    with \<open>\<not> e \<le> k\<close> "0.prems"(3) phase_bounds(1) [of config k] show False by (simp add: walk_measure_def)
  qed
  then show ?case by (subst business_loop.simps) (simp add: business_count_def)
next
  case (Suc guard)
  show ?case
  proof (cases "k < e")
    case True
    obtain k' a' brk where st: "second_measure office config e k a = (k', a', brk)" by (metis prod_cases3)
    note spec = second_measure_spec [OF st Suc.prems(1) True]
    have "business_loop h24 office config (1000 * e) (Suc guard) (1000 * k) (of_int a)
      = (if brk then Inr (js_round (of_int a')) else business_loop h24 office config (1000 * e) guard (1000 * k') (of_int a'))"
      using True by (subst business_loop.simps)
        (simp add: business_step_seconds [OF Suc.prems(1,2) True] st)
    also have "\<dots> = Inr (a + business_count office config k e)"
    proof (cases brk)
      case False
      have "walk_measure config (sec_day e) k' \<le> int guard"
        using spec(3) [OF False, of "sec_day e"] Suc.prems(3) [OF True] by simp
      with False Suc.IH [OF Suc.prems(1) spec(4) [OF False Suc.prems(2)], of a'] spec(2) [OF False]
      show ?thesis by simp
    next
      case True
      then show ?thesis by (simp only: if_True js_round_of_int spec(1) [OF True])
    qed
    finally show ?thesis .
  next
    case False
    then show ?thesis by (subst business_loop.simps) (simp add: business_count_def)
  qed
qed

lemma maxIterations_enough:
  assumes "s < e"
  shows "walk_measure config (sec_day e) s \<le> int (maxIterations (1000 * s) (1000 * e))"
proof -
  have eq: "(of_int (1000 * e - 1000 * s) :: rat) / of_int day_ms = of_int (e - s) / of_int 86400"
    by (simp add: field_simps)
  define c where "c = \<lceil>(of_int (e - s) :: rat) / of_int 86400\<rceil>"
  have "c = - ((- (e - s)) div 86400)" unfolding c_def by (rule ceiling_divide_eq_div)
  moreover have "sec_day e - sec_day s \<le> - ((- (e - s)) div 86400) + 1"
    unfolding sec_day_def by linarith
  ultimately have "sec_day e - sec_day s \<le> c + 1" by (simp only:)
  then have "5 * (sec_day e - sec_day s) + phase config s \<le> c * 5 + 10"
    using phase_bounds(2) [of config s] by simp
  also have "\<dots> \<le> int (nat (c * 5 + 10))" by simp
  finally show ?thesis unfolding walk_measure_def maxIterations_def eq c_def .
qed

section \<open>The clock meets its specification\<close>

theorem calculateBusinessSeconds_counts:
  assumes "schedule_ok config" "hours_readable h24 config (start div 1000)"
  shows "calculateBusinessSeconds h24 office start end config
    = Inr (business_count office config (start div 1000) (end div 1000))"
proof (cases "end div 1000 \<le> start div 1000")
  case True
  then show ?thesis
    by (simp add: calculateBusinessSeconds_def Let_def zeroMilliseconds_seconds business_count_def)
next
  case False
  then have "business_loop h24 office config (1000 * (end div 1000))
      (maxIterations (1000 * (start div 1000)) (1000 * (end div 1000))) (1000 * (start div 1000)) (of_int 0)
    = Inr (0 + business_count office config (start div 1000) (end div 1000))"
    using assms maxIterations_enough by (intro business_loop_counts) auto
  with False assms(1) show ?thesis
    by (simp add: calculateBusinessSeconds_def Let_def zeroMilliseconds_seconds schedule_ok_def)
qed

theorem calculateSlaDeadline_spends:
  assumes "calculateSlaDeadline h24 office start (hours_of n) config = Inr deadline"
    "hours_readable h24 config (start div 1000)" "0 < n"
  shows "\<exists>e. deadline = 1000 * e \<and> start div 1000 < e
    \<and> business_count office config (start div 1000) e = n \<and> working_second office config (e - 1)"
proof -
  have ok: "schedule_ok config"
    and loop: "deadline_loop h24 office config 200000 (1000 * (start div 1000)) (hours_of n) = Inr deadline"
    using assms by (auto simp: calculateSlaDeadline_def Let_def zeroMilliseconds_seconds hours_of_pos
        schedule_ok_def split: if_splits)
  from deadline_loop_correct [OF loop ok assms(2,3)] show ?thesis .
qed

theorem calculateSlaDeadline_returns:
  assumes "schedule_ok config" "hours_readable h24 config (start div 1000)"
    "n \<le> business_count office config (start div 1000) ((sec_day (start div 1000) + 39999) * 86400 - 28800)"
  shows "\<exists>deadline. calculateSlaDeadline h24 office start (hours_of n) config = Inr deadline"
proof (cases "0 < n")
  case True
  have "\<exists>dl. deadline_loop h24 office config 200000 (1000 * (start div 1000)) (hours_of n) = Inr dl"
    using assms phase_bounds(2) [of config "start div 1000"]
    by (intro deadline_loop_returns [where d = "sec_day (start div 1000) + 39998"])
      (simp_all add: walk_measure_def add.commute)
  with True assms(1) show ?thesis
    by (simp add: calculateSlaDeadline_def Let_def zeroMilliseconds_seconds hours_of_pos schedule_ok_def)
qed (simp add: calculateSlaDeadline_def Let_def hours_of_pos)

section \<open>The clock on whole seconds\<close>

text \<open>
  For a start at a whole second and a budget of whole seconds the deadline is computed by integer
  arithmetic alone.
\<close>

fun walk_loop :: "(day \<Rightarrow> bool) \<Rightarrow> ticketing_config \<Rightarrow> nat \<Rightarrow> int \<Rightarrow> int \<Rightarrow> http_error + int" where
  "walk_loop office config guard k n =
     (if n \<le> 0 then Inr k
      else if guard = 0 then Inl (ServiceUnavailable (Sla CalendarIncomplete))
      else case second_step office config k n of
          (k', n') \<Rightarrow> walk_loop office config (guard - 1) k' n')"

declare walk_loop.simps [simp del]

fun in_milliseconds :: "http_error + int \<Rightarrow> http_error + date" where
  "in_milliseconds (Inl e) = Inl e"
| "in_milliseconds (Inr k) = Inr (1000 * k)"

lemma walk_loop_done: "n \<le> 0 \<Longrightarrow> walk_loop office config guard k n = Inr k"
  by (simp add: walk_loop.simps)

lemma deadline_loop_walk:
  assumes "schedule_ok config" "hours_readable h24 config k"
  shows "deadline_loop h24 office config guard (1000 * k) (hours_of n)
    = in_milliseconds (walk_loop office config guard k n)"
  using assms
proof (induction guard arbitrary: k n)
  case 0
  show ?case
    by (simp add: deadline_loop.simps [of _ _ _ 0] walk_loop.simps [of _ _ 0] hours_of_pos)
next
  case (Suc guard)
  obtain k' n' where st: "second_step office config k n = (k', n')" by fastforce
  show ?case
  proof (cases "0 < n")
    case True
    note spec = second_step_spec [OF st Suc.prems(1) True]
    have "deadline_loop h24 office config (Suc guard) (1000 * k) (hours_of n)
      = deadline_loop h24 office config guard (1000 * k') (hours_of n')"
      using deadline_loop_step [OF True _ Suc.prems st, of "Suc guard"] by simp
    moreover have "walk_loop office config (Suc guard) k n = walk_loop office config guard k' n'"
      using True st by (simp add: walk_loop.simps [of _ _ "Suc guard"])
    moreover have "deadline_loop h24 office config guard (1000 * k') (hours_of n')
      = in_milliseconds (walk_loop office config guard k' n')"
      using Suc.IH [OF Suc.prems(1) spec(6) [OF _ Suc.prems(2)]] spec(2)
      by (cases "n' = 0") (simp_all add: deadline_loop_done walk_loop_done)
    ultimately show ?thesis by simp
  next
    case False
    then show ?thesis
      by (simp add: deadline_loop_done walk_loop.simps [of _ _ "Suc guard"])
  qed
qed

lemma calculateSlaDeadline_walk:
  assumes "schedule_ok config" "hours_readable h24 config k"
  shows "calculateSlaDeadline h24 office (1000 * k) (hours_of n) config
    = in_milliseconds (walk_loop office config 200000 k n)"
  using assms
  by (simp add: calculateSlaDeadline_def Let_def zeroMilliseconds_def hours_of_pos schedule_ok_def
      deadline_loop_walk) (simp add: walk_loop.simps)

lemmas walk_eval = walk_loop.simps second_step_def walk_of_def sec_blocks_def start_seconds_def
  end_seconds_def minute_seconds_def default_config_def is_sla_day_def isOfficeDay_def find_row_def
  day_of_week_def sec_day_def sec_of_day_def next_start_def at_second_def

lemma default_schedule_ok: "schedule_ok default_config"
  by (simp add: sla_simps start_seconds_def end_seconds_def minute_seconds_def default_config_def)

section \<open>The clock as an interface\<close>

text \<open>
  What the SLA handlers rely on: a deadline is the first instant by which the budget of business
  seconds is spent, and the measure counts working seconds.  \<open>readable\<close> marks the instants whose
  hour of day the clock reads correctly.
\<close>

locale business_clock =
  fixes readable :: "int \<Rightarrow> bool"
    and working :: "int \<Rightarrow> bool"
    and elapsed :: "int \<Rightarrow> int \<Rightarrow> int option"
    and deadline :: "int \<Rightarrow> int \<Rightarrow> int option"
  assumes deadline_spends: "readable s \<Longrightarrow> 0 < n \<Longrightarrow> deadline s n = Some d \<Longrightarrow>
      s < d \<and> count_in working s d = n \<and> working (d - 1)"
    and elapsed_counts: "readable s \<Longrightarrow> elapsed s e = Some c \<Longrightarrow> c = count_in working s e"
begin

lemma elapsed_deadline:
  assumes "readable s" "0 < n" "deadline s n = Some d" "elapsed s d = Some c"
  shows "c = n"
  using deadline_spends [OF assms(1-3)] elapsed_counts [OF assms(1,4)] by simp

lemma deadline_first:
  assumes "readable s" "0 < n" "deadline s n = Some d" "s \<le> t" "t < d"
  shows "count_in working s t < n"
proof -
  note d = deadline_spends [OF assms(1-3)]
  have "count_in working s d = count_in working s (d - 1) + count_in working (d - 1) d"
    using d by (intro count_in_split) auto
  moreover have "count_in working (d - 1) d = 1" using count_in_step [of working "d - 1"] d by simp
  moreover have "count_in working s t \<le> count_in working s (d - 1)" using assms by (intro count_in_mono) simp
  ultimately show ?thesis using d by simp
qed

lemma deadline_mono:
  assumes "readable s" "0 < n" "n \<le> m" "deadline s n = Some d" "deadline s m = Some d'"
  shows "d \<le> d'"
proof (rule ccontr)
  assume "\<not> d \<le> d'"
  moreover have "s < d'" "count_in working s d' = m"
    using deadline_spends [of s m d'] assms by auto
  ultimately have "m < n" using deadline_first [of s n d d'] assms by simp
  with assms(3) show False by simp
qed

text \<open>Crediting the business time of a pause moves the deadline so that the business time left at
  the resume equals the business time that was left at the pause.\<close>

lemma pause_neutral:
  assumes "readable s" "readable p" "0 < n" "deadline s n = Some d" "s \<le> p" "p < d" "p \<le> r"
    "elapsed p r = Some c" "deadline s (n + c) = Some d'"
  shows "r < d'" "count_in working r d' = count_in working p d"
proof -
  note d = deadline_spends [OF assms(1,3,4)]
  have c: "c = count_in working p r" by (rule elapsed_counts [OF assms(2,8)])
  then have "0 < n + c" using assms(3) count_in_nonneg [of working p r] by linarith
  note d' = deadline_spends [OF assms(1) this assms(9)]
  have sd: "count_in working s d = count_in working s p + count_in working p d"
    using assms by (intro count_in_split) auto
  have sr: "count_in working s r = count_in working s p + count_in working p r"
    using assms by (intro count_in_split) auto
  have "count_in working s p < n" using deadline_first [OF assms(1,3,4,5,6)] .
  with sr have "count_in working s r < n + c" by (simp add: c)
  then show "r < d'" using d' count_in_mono [of d' r working s] by (cases "r < d'") auto
  then have "count_in working s d' = count_in working s r + count_in working r d'"
    using assms by (intro count_in_split) auto
  with d d' sd sr c show "count_in working r d' = count_in working p d" by simp
qed

end

text \<open>The code's clock, read in whole seconds.\<close>

definition code_elapsed ::
  "bool \<Rightarrow> (day \<Rightarrow> bool) \<Rightarrow> ticketing_config \<Rightarrow> int \<Rightarrow> int \<Rightarrow> int option" where
  "code_elapsed h24 office config s e =
     (case calculateBusinessSeconds h24 office (1000 * s) (1000 * e) config of
        Inr c \<Rightarrow> Some c | Inl _ \<Rightarrow> None)"

definition code_deadline ::
  "bool \<Rightarrow> (day \<Rightarrow> bool) \<Rightarrow> ticketing_config \<Rightarrow> int \<Rightarrow> int \<Rightarrow> int option" where
  "code_deadline h24 office config s n =
     (case calculateSlaDeadline h24 office (1000 * s) (hours_of n) config of
        Inr d \<Rightarrow> Some (d div 1000) | Inl _ \<Rightarrow> None)"

lemma code_deadline_spends:
  assumes "hours_readable h24 config s" "0 < n" "code_deadline h24 office config s n = Some d"
  shows "s < d \<and> count_in (working_second office config) s d = n \<and> working_second office config (d - 1)"
  using assms calculateSlaDeadline_spends [of h24 office "1000 * s" n config]
  by (fastforce simp: code_deadline_def business_count_def split: sum.splits)

lemma code_elapsed_counts:
  assumes "hours_readable h24 config s" "code_elapsed h24 office config s e = Some c"
  shows "c = count_in (working_second office config) s e"
proof (cases "schedule_ok config")
  case True
  with assms calculateBusinessSeconds_counts [of config h24 "1000 * s" office "1000 * e"]
  show ?thesis by (simp add: code_elapsed_def business_count_def)
next
  case False
  with assms(2) show ?thesis
    by (auto simp: code_elapsed_def calculateBusinessSeconds_def zeroMilliseconds_seconds
        schedule_ok_def Let_def split: if_splits)
qed

interpretation sla: business_clock "hours_readable h24 config" "working_second office config"
    "code_elapsed h24 office config" "code_deadline h24 office config"
  for h24 office config
  using code_deadline_spends code_elapsed_counts by unfold_locales blast+

end
