(* ===== verification/Store.thy ===== *)
theory Store
  imports SlaPause Interruptions SlaClockFacts
begin

text \<open>
  The state of the ticketing service: its tables, and what a handler reads besides them.  A handler
  is a function from the environment and the tables to a result and the tables it leaves; a
  \<open>throw\<close> keeps the writes made before it.  One handler reads the clock once (\<open>env_now\<close>).  Event
  rows that the source writes without awaiting are written where the source starts them.
\<close>

section \<open>Rows\<close>

datatype (plugins only: code) escalation_status = PENDING | ACCEPTED | RETURNED | ESC_CANCELLED

record escalation =
  esc_id :: nat
  esc_ticketId :: nat
  escalatedById :: nat
  escalatedToId :: nat
  esc_status :: escalation_status
  esc_notes :: "string option"
  returnReason :: "string option"
  proofFiles :: "string list option"
  esc_createdAt :: date

text \<open>The status fields of an event's JSON \<open>meta\<close>.\<close>

record ticket_event =
  ev_ticketId :: nat
  ev_type :: string
  ev_actorId :: "nat option"
  ev_from :: "ticket_status option"
  ev_to :: "ticket_status option"
  ev_technicianId :: "nat option"
  ev_createdAt :: date

record status_justification =
  just_ticketId :: nat
  just_status :: ticket_status
  justification :: string
  just_createdBy :: nat

record category =
  cat_id :: nat
  cat_isIt :: bool
  cat_isDesktop :: bool
  cat_isPantawid :: bool
  cat_isSpecialized :: bool
  cat_isActive :: bool
  cat_isDeleted :: bool

datatype (plugins only: code) attendance_status = PRESENT | ABSENT | HALF_DAY | OUT_OF_OFFICE

record attendance =
  att_userId :: nat
  att_date :: day
  att_status :: attendance_status
  clockInTime :: "date option"
  isManualOverride :: bool

text \<open>An escalation focal is configured for one ticket type or, with \<open>None\<close>, for \<open>'all'\<close>.\<close>

record escalation_focal =
  focal_userId :: nat
  focal_ticketType :: "ticket_type option"

text \<open>The append-only evidence for a corrected resolution time.\<close>

record resolution_override =
  ovr_ticketId :: nat
  recordedResolvedAt :: date
  previousEffectiveResolvedAt :: "date option"
  verifiedResolvedAt :: date
  ovr_reason :: string
  ovr_proofFiles :: "string list"
  ovr_createdById :: nat

text \<open>\<open>keywords\<close> is the JSON list; the first keyword is the legacy column.\<close>

record keyword_rule =
  rule_id :: nat
  rule_keyword :: string
  rule_keywords :: "string list option"
  targetTicketType :: ticket_type
  targetCategoryId :: "nat option"
  targetIssueTypeId :: "nat option"
  rule_isActive :: bool

record db =
  db_tickets :: "ticket list"
  db_escalations :: "escalation list"
  db_events :: "ticket_event list"
  db_justifications :: "status_justification list"
  db_categories :: "category list"
  db_issueTypes :: "issue_type list"
  db_config :: "ticketing_config option"
  db_officeDays :: "office_day list"
  db_attendance :: "attendance list"
  db_focals :: "escalation_focal list"
  db_users :: "account list"
  db_comments :: "ticket_comment list"
  db_overrides :: "resolution_override list"
  db_keywordRules :: "keyword_rule list"

text \<open>\<open>env_blocked\<close> is \<open>DutyService.blockedTechnicianIds\<close>, \<open>env_freshId\<close> the id the database gives the
  next new row, \<open>env_idText\<close> the text of an id or a number in a template literal.\<close>

record env =
  env_now :: date
  env_h24 :: bool
  env_caps :: capability_cache
  env_getUserById :: users_client
  env_blocked :: "day \<Rightarrow> nat list"
  env_freshId :: nat
  env_idText :: "nat \<Rightarrow> string"

section \<open>Reading\<close>

definition env_today :: "env \<Rightarrow> day" where
  "env_today env = getManilaDateString (env_now env)"

definition office_of :: "db \<Rightarrow> day \<Rightarrow> bool" where
  "office_of db = isOfficeDay (db_officeDays db)"

text \<open>\<open>ticketRepo.findOne({ where: { id } })\<close>: without relations \<open>issueTypeConfig\<close> is undefined, with
  them it is the issue-type row.\<close>

definition without_relations :: "ticket \<Rightarrow> ticket" where
  "without_relations t = t\<lparr>issueTypeConfig := None\<rparr>"

definition with_relations :: "db \<Rightarrow> ticket \<Rightarrow> ticket" where
  "with_relations db t = t\<lparr>issueTypeConfig :=
     (case issueTypeId t of Some n \<Rightarrow> find_row it_id (db_issueTypes db) n | None \<Rightarrow> None)\<rparr>"

definition find_ticket :: "db \<Rightarrow> nat \<Rightarrow> ticket option" where
  "find_ticket db n = find_row ticket_id (db_tickets db) n"

text \<open>\<open>getTicketSlaHours\<close>.\<close>

definition config_slaHours :: "issue_type option \<Rightarrow> rat" where
  "config_slaHours it = (case it of Some i \<Rightarrow> (case it_slaHours i of Some h \<Rightarrow> h | None \<Rightarrow> 0) | None \<Rightarrow> 0)"

definition getIssueTypeById :: "db \<Rightarrow> nat \<Rightarrow> issue_type option" where
  "getIssueTypeById db n =
     (case find_row it_id (db_issueTypes db) n of
        Some i \<Rightarrow> if it_isDeleted i then None else Some i
      | None \<Rightarrow> None)"

definition getTicketSlaHours :: "db \<Rightarrow> issue_type option \<Rightarrow> nat option \<Rightarrow> rat" where
  "getTicketSlaHours db config issueId =
     (let slaHours = config_slaHours config;
          slaHours = (case issueId of
              Some n \<Rightarrow> if slaHours = 0 then config_slaHours (getIssueTypeById db n) else slaHours
            | None \<Rightarrow> slaHours)
      in if slaHours = 0 \<and> issueId = None then 4 else slaHours)"

text \<open>\<open>calculateTicketSlaDeadline\<close>; without a configuration row the SLA hours are calendar hours.\<close>

definition calculateTicketSlaDeadline :: "env \<Rightarrow> db \<Rightarrow> ticket \<Rightarrow> date \<Rightarrow> date option result" where
  "calculateTicketSlaDeadline env db t start =
     (let slaHours = getTicketSlaHours db (issueTypeConfig t) (issueTypeId t)
      in if slaHours = 0 then Inr None
         else case db_config db of
             Some config \<Rightarrow> and_then
               (calculateSlaDeadline (env_h24 env) (office_of db) start slaHours (ticketCalendar config t))
               (\<lambda>d. Inr (Some d))
           | None \<Rightarrow> Inr (Some (date_of_rat (of_int start + slaHours * 60 * 60 * 1000))))"

text \<open>\<open>calculateBusinessSeconds(start, end, ticketCalendar(config, ticket))\<close>, and the recomputed
  deadline with the pause that has been credited.\<close>

definition ticket_business_seconds ::
  "env \<Rightarrow> db \<Rightarrow> ticketing_config \<Rightarrow> ticket \<Rightarrow> date \<Rightarrow> date \<Rightarrow> int result" where
  "ticket_business_seconds env db config t start end =
     calculateBusinessSeconds (env_h24 env) (office_of db) start end (ticketCalendar config t)"

definition credited_deadline ::
  "env \<Rightarrow> db \<Rightarrow> ticketing_config \<Rightarrow> ticket \<Rightarrow> rat \<Rightarrow> int \<Rightarrow> date result" where
  "credited_deadline env db config t slaHours pausedSeconds =
     calculateSlaDeadline (env_h24 env) (office_of db) (getSlaClockStartedAt t)
       (getSlaHoursIncludingCreditedPause slaHours pausedSeconds) (ticketCalendar config t)"

definition getLatestEscalation :: "db \<Rightarrow> nat \<Rightarrow> escalation option" where
  "getLatestEscalation db n =
     oldest_by (\<lambda>e. - esc_createdAt e) (filter (\<lambda>e. esc_ticketId e = n) (db_escalations db))"

definition getLatestActiveEscalation :: "db \<Rightarrow> nat \<Rightarrow> escalation option" where
  "getLatestActiveEscalation db n =
     (case getLatestEscalation db n of
        Some e \<Rightarrow> if esc_status e \<in> {PENDING, ACCEPTED} then Some e else None
      | None \<Rightarrow> None)"

text \<open>\<open>count({ where: [{ assignedToId, status }, ...] })\<close> over the given statuses.\<close>

definition count_active :: "db \<Rightarrow> nat \<Rightarrow> ticket_status list \<Rightarrow> nat" where
  "count_active db user ss =
     count_rows (\<lambda>t. assignedToId t = Some user \<and> status t \<in> set ss) (db_tickets db)"

text \<open>The count of work that is not queued: assigned and paused tickets only when not waiting.\<close>

definition count_running :: "db \<Rightarrow> nat \<Rightarrow> ticket_status list \<Rightarrow> nat" where
  "count_running db user ss =
     count_rows (\<lambda>t. assignedToId t = Some user
       \<and> (status t = IN_PROGRESS \<or> status t \<in> set ss \<and> \<not> isSlaWaiting t)) (db_tickets db)"

section \<open>Writing\<close>

text \<open>\<open>repo.save\<close> sets the \<open>updated_at\<close> column.\<close>

definition stamp :: "env \<Rightarrow> ticket \<Rightarrow> ticket" where
  "stamp env t = t\<lparr>updatedAt := env_now env\<rparr>"

definition save_ticket :: "env \<Rightarrow> ticket \<Rightarrow> db \<Rightarrow> db" where
  "save_ticket env t db = db\<lparr>db_tickets := save_row ticket_id (db_tickets db) (stamp env t)\<rparr>"

fun save_tickets :: "env \<Rightarrow> ticket list \<Rightarrow> db \<Rightarrow> db" where
  "save_tickets env [] db = db"
| "save_tickets env (t # ts) db = save_tickets env ts (save_ticket env t db)"

definition save_escalation :: "escalation \<Rightarrow> db \<Rightarrow> db" where
  "save_escalation e db = db\<lparr>db_escalations := save_row esc_id (db_escalations db) e\<rparr>"

definition logEvent ::
  "env \<Rightarrow> nat \<Rightarrow> string \<Rightarrow> nat option \<Rightarrow> ticket_status option \<Rightarrow> ticket_status option
    \<Rightarrow> nat option \<Rightarrow> db \<Rightarrow> db" where
  "logEvent env ticket eventType actor from_status to_status technician db = db\<lparr>db_events := db_events db @
     [\<lparr>ev_ticketId = ticket, ev_type = eventType, ev_actorId = actor, ev_from = from_status,
       ev_to = to_status, ev_technicianId = technician, ev_createdAt = env_now env\<rparr>]\<rparr>"

definition save_justification :: "status_justification \<Rightarrow> db \<Rightarrow> db" where
  "save_justification j db = db\<lparr>db_justifications := db_justifications db @ [j]\<rparr>"

section \<open>Laws\<close>

definition db_ok :: "db \<Rightarrow> bool" where
  "db_ok db \<longleftrightarrow> table_ok ticket_id (db_tickets db) \<and> table_ok esc_id (db_escalations db)"

lemma stamp_fields [simp]:
  "ticket_id (stamp env t) = ticket_id t" "status (stamp env t) = status t"
  "updatedAt (stamp env t) = env_now env" "assignedToId (stamp env t) = assignedToId t"
  "slaPausedAt (stamp env t) = slaPausedAt t" "slaStartedAt (stamp env t) = slaStartedAt t"
  "slaDeadline (stamp env t) = slaDeadline t" "isSlaWaiting (stamp env t) = isSlaWaiting t"
  "accumulatedPauseSeconds (stamp env t) = accumulatedPauseSeconds t"
  "requesterId (stamp env t) = requesterId t" "createdById (stamp env t) = createdById t"
  "ticketType (stamp env t) = ticketType t" "priority (stamp env t) = priority t"
  "lastAssignedAt (stamp env t) = lastAssignedAt t" "duplicateOfId (stamp env t) = duplicateOfId t"
  "interruptionHistory (stamp env t) = interruptionHistory t"
  "slaPauseLedger (stamp env t) = slaPauseLedger t" "overtimeDate (stamp env t) = overtimeDate t"
  "issueTypeConfig (stamp env t) = issueTypeConfig t" "createdAt (stamp env t) = createdAt t"
  by (simp_all add: stamp_def)

lemma find_save_ticket_same [table_simps]:
  "find_ticket (save_ticket env t db) (ticket_id t) = Some (stamp env t)"
  using find_row_save_same [of ticket_id "db_tickets db" "stamp env t"]
  by (simp add: find_ticket_def save_ticket_def)

lemma find_save_ticket_other [table_simps]:
  "n \<noteq> ticket_id t \<Longrightarrow> find_ticket (save_ticket env t db) n = find_ticket db n"
  by (simp add: find_ticket_def save_ticket_def find_row_save_other)

lemma find_save_tickets_other [table_simps]:
  "n \<notin> ticket_id ` set ts \<Longrightarrow> find_ticket (save_tickets env ts db) n = find_ticket db n"
  by (induction ts arbitrary: db) (auto simp: table_simps)

lemma save_ticket_frame [table_simps]:
  "db_escalations (save_ticket env t db) = db_escalations db"
  "db_events (save_ticket env t db) = db_events db"
  "db_justifications (save_ticket env t db) = db_justifications db"
  "db_config (save_ticket env t db) = db_config db"
  "db_issueTypes (save_ticket env t db) = db_issueTypes db"
  "db_officeDays (save_ticket env t db) = db_officeDays db"
  "db_attendance (save_ticket env t db) = db_attendance db"
  by (simp_all add: save_ticket_def)

lemma logEvent_frame [table_simps]:
  "db_tickets (logEvent env n ty a f u k db) = db_tickets db"
  "find_ticket (logEvent env n ty a f u k db) m = find_ticket db m"
  "db_escalations (logEvent env n ty a f u k db) = db_escalations db"
  "db_config (logEvent env n ty a f u k db) = db_config db"
  "db_justifications (logEvent env n ty a f u k db) = db_justifications db"
  by (simp_all add: logEvent_def find_ticket_def)

lemma db_ok_save_ticket [table_simps]: "db_ok db \<Longrightarrow> db_ok (save_ticket env t db)"
  by (simp add: db_ok_def save_ticket_def table_ok_save_row)

lemma db_ok_save_tickets [table_simps]: "db_ok db \<Longrightarrow> db_ok (save_tickets env ts db)"
  by (induction ts arbitrary: db) (simp_all add: table_simps)

lemma db_ok_save_escalation [table_simps]: "db_ok db \<Longrightarrow> db_ok (save_escalation e db)"
  by (simp add: db_ok_def save_escalation_def table_ok_save_row)

lemma db_ok_logEvent [table_simps]: "db_ok (logEvent env n ty a f u k db) = db_ok db"
  by (simp add: db_ok_def logEvent_def)

lemma find_ticket_id: "find_ticket db n = Some t \<Longrightarrow> ticket_id t = n"
  by (auto simp: find_ticket_def dest: find_row_Some)

lemma find_ticket_member: "find_ticket db n = Some t \<Longrightarrow> t \<in> set (db_tickets db)"
  by (auto simp: find_ticket_def dest: find_row_Some)

text \<open>The most recent escalation decides: any other of the ticket is no younger.\<close>

lemma getLatestEscalation_Some:
  assumes "getLatestEscalation db n = Some e"
  shows "e \<in> set (db_escalations db) \<and> esc_ticketId e = n
    \<and> (\<forall>e' \<in> set (db_escalations db). esc_ticketId e' = n \<longrightarrow> esc_createdAt e' \<le> esc_createdAt e)"
  using oldest_by_Some [OF assms [unfolded getLatestEscalation_def]] by auto

lemma getLatestEscalation_None:
  "getLatestEscalation db n = None \<longleftrightarrow> (\<forall>e \<in> set (db_escalations db). esc_ticketId e \<noteq> n)"
  by (auto simp: getLatestEscalation_def oldest_by_None_iff filter_empty_conv)

end
