(* ===== verification/Attendance.thy ===== *)
theory Attendance
  imports Store
begin

text \<open>
  The automatic-assignment pool of the attendance service (\<open>attendance.service.ts\<close>): who may
  receive a ticket that nobody assigned by hand.  \<open>Pool_of\<close> is a ticket type, \<open>Pool_all\<close> the
  pool \<open>'all'\<close>.  The servers run with \<open>TZ=Asia/Manila\<close>, so local clock times are Manila times.
\<close>

datatype (plugins only: code) pool = Pool_of ticket_type | Pool_all

text \<open>Membership of a role in \<open>getRoleGroups()\<close>, with the technician roles for the pool \<open>'all'\<close>.\<close>

definition pool_role :: "capability_cache \<Rightarrow> pool \<Rightarrow> user_role \<Rightarrow> bool" where
  "pool_role caps p role \<longleftrightarrow> role \<noteq> SUPER_ADMIN \<and>
     (case p of
        Pool_all \<Rightarrow> isTechnician caps role
      | Pool_of DESKTOP_SUPPORT \<Rightarrow> has_capability caps CapDesktop role
      | Pool_of IT_SUPPORT \<Rightarrow> has_capability caps CapItSupport role
      | Pool_of PANTAWID_ICT_SUPPORT \<Rightarrow> has_capability caps CapPantawidIct role
      | Pool_of SPECIALIZED_CONCERNS \<Rightarrow> False)"

definition attendance_row :: "db \<Rightarrow> nat \<Rightarrow> day \<Rightarrow> attendance option" where
  "attendance_row db user d = List.find (\<lambda>a. att_userId a = user \<and> att_date a = d) (db_attendance db)"

definition present_row :: "db \<Rightarrow> nat \<Rightarrow> day \<Rightarrow> attendance option" where
  "present_row db user d =
     List.find (\<lambda>a. att_userId a = user \<and> att_date a = d \<and> att_status a = PRESENT) (db_attendance db)"

definition getAvailableTechnicians :: "env \<Rightarrow> db \<Rightarrow> pool \<Rightarrow> day \<Rightarrow> account list" where
  "getAvailableTechnicians env db p d =
     filter (\<lambda>u. case attendance_row db (acc_id u) d of
         None \<Rightarrow> True
       | Some a \<Rightarrow> att_status a = PRESENT \<or> att_status a = HALF_DAY)
       (filter (\<lambda>u. acc_active u \<and> pool_role (env_caps env) p (acc_role u)) (db_users db))"

definition shift_active :: "env \<Rightarrow> db \<Rightarrow> day \<Rightarrow> attendance \<Rightarrow> bool" where
  "shift_active env db d a =
     (case clockInTime a of
        None \<Rightarrow> isManualOverride a
      | Some clockIn \<Rightarrow>
          let isCWW = (case db_config db of Some c \<Rightarrow> scheduleMode c = CWW | None \<Rightarrow> False);
              stdClockOut = (case db_config db of Some c \<Rightarrow> officeClockout c | None \<Rightarrow> Clock 17 0 0)
          in if isCWW then env_now env \<le> clockIn + 11 * 3600 * 1000
             else env_now env \<le> createManilaDate d (Clock (clock_hh stdClockOut) (clock_mm stdClockOut) 0))"

definition getPresentTechnicians :: "env \<Rightarrow> db \<Rightarrow> pool \<Rightarrow> day \<Rightarrow> account list" where
  "getPresentTechnicians env db p d =
     filter (\<lambda>u. case present_row db (acc_id u) d of
         None \<Rightarrow> False
       | Some a \<Rightarrow> d \<noteq> env_today env \<or> shift_active env db d a)
       (getAvailableTechnicians env db p d)"

definition getAutoAssignmentTechnicians :: "env \<Rightarrow> db \<Rightarrow> pool \<Rightarrow> day \<Rightarrow> account list" where
  "getAutoAssignmentTechnicians env db p d =
     (if isOvertimeDay (db_officeDays db) d then []
      else filter (\<lambda>u. acc_active u \<and> acc_autoAssignmentEligible u
               \<and> pool_role (env_caps env) p (acc_role u)
               \<and> \<not> isSeniorTech (env_caps env) (acc_role u)
               \<and> acc_id u \<notin> set (env_blocked env d))
             (getPresentTechnicians env db p d))"

definition hasOvertimeClockIn :: "db \<Rightarrow> nat \<Rightarrow> day \<Rightarrow> bool" where
  "hasOvertimeClockIn db user d =
     (case present_row db user d of Some a \<Rightarrow> clockInTime a \<noteq> None | None \<Rightarrow> False)"

text \<open>\<open>getAttendanceForDate\<close> joins the user and leaves out end users and super admins.\<close>

definition getAttendanceForDate :: "db \<Rightarrow> day \<Rightarrow> attendance list" where
  "getAttendanceForDate db d =
     filter (\<lambda>a. att_date a = d \<and>
       (case find_row acc_id (db_users db) (att_userId a) of
          Some u \<Rightarrow> acc_role u \<noteq> USER \<and> acc_role u \<noteq> SUPER_ADMIN
        | None \<Rightarrow> False)) (db_attendance db)"

definition canAutomaticallyAssign :: "env \<Rightarrow> db \<Rightarrow> nat \<Rightarrow> pool \<Rightarrow> day \<Rightarrow> nat \<Rightarrow> bool" where
  "canAutomaticallyAssign env db technicianId p d requester \<longleftrightarrow>
     technicianId \<noteq> requester \<and>
     list_ex (\<lambda>u. acc_id u = technicianId) (getAutoAssignmentTechnicians env db p d)"

section \<open>Choosing from the pool\<close>

text \<open>The \<open>let min = Infinity; for (const tech of techs) if (key < min)\<close> loops: the first candidate with
  the least key.\<close>

definition keep_least :: "('a \<Rightarrow> int) \<Rightarrow> 'a option \<Rightarrow> 'a \<Rightarrow> 'a option" where
  "keep_least key best x = (case best of None \<Rightarrow> Some x | Some b \<Rightarrow> if key x < key b then Some x else Some b)"

definition pick_least :: "('a \<Rightarrow> int) \<Rightarrow> 'a list \<Rightarrow> 'a option" where
  "pick_least key xs = foldl (keep_least key) None xs"

definition getWeeklySlaLoad :: "env \<Rightarrow> db \<Rightarrow> nat \<Rightarrow> rat" where
  "getWeeklySlaLoad env db technicianId =
     (let weekStart = getManilaWeekStart (env_now env)
      in foldl (+) 0 (map (\<lambda>t. config_slaHours (issueTypeConfig (with_relations db t)))
           (filter (\<lambda>t. assignedToId t = Some technicianId \<and>
               (case lastAssignedAt t of Some d \<Rightarrow> weekStart \<le> d | None \<Rightarrow> False)) (db_tickets db))))"

text \<open>The last assignment of a technician: MySQL sorts NULL last in descending order.\<close>

definition lastAssignedTime :: "db \<Rightarrow> nat \<Rightarrow> date" where
  "lastAssignedTime db technicianId =
     (let ds = [d. t \<leftarrow> db_tickets db, assignedToId t = Some technicianId, d \<leftarrow> (case lastAssignedAt t of Some d \<Rightarrow> [d] | None \<Rightarrow> [])]
      in if ds = [] then 0 else foldl max (hd ds) (tl ds))"

definition config_strategy :: "db \<Rightarrow> assignment_strategy" where
  "config_strategy db = (case db_config db of Some c \<Rightarrow> assignmentStrategy c | None \<Rightarrow> CURRENT_AUTO)"

definition config_cap :: "db \<Rightarrow> nat" where
  "config_cap db = (case db_config db of
     Some c \<Rightarrow> if roundRobinCapHours c = 0 then 80 else roundRobinCapHours c | None \<Rightarrow> 80)"

definition capped_round_robin :: "env \<Rightarrow> db \<Rightarrow> account list \<Rightarrow> account option" where
  "capped_round_robin env db techs =
     pick_least (\<lambda>u. lastAssignedTime db (acc_id u))
       (filter (\<lambda>u. getWeeklySlaLoad env db (acc_id u) < of_nat (config_cap db)) techs)"

definition hasBreachedActiveTicket :: "env \<Rightarrow> db \<Rightarrow> nat \<Rightarrow> bool" where
  "hasBreachedActiveTicket env db technicianId =
     list_ex (\<lambda>t. assignedToId t = Some technicianId \<and> status t = IN_PROGRESS \<and> slaPausedAt t = None
         \<and> (case slaDeadline t of Some d \<Rightarrow> d < env_now env | None \<Rightarrow> False)) (db_tickets db)"

section \<open>The interface of a choice\<close>

text \<open>What the assignment handlers rely on when they select a technician by a key.\<close>

locale least_choice =
  fixes key :: "'a \<Rightarrow> int"
    and select :: "'a list \<Rightarrow> 'a option"
  assumes select_member: "select xs = Some x \<Longrightarrow> x \<in> set xs"
    and select_least: "select xs = Some x \<Longrightarrow> y \<in> set xs \<Longrightarrow> key x \<le> key y"
    and select_some: "xs \<noteq> [] \<Longrightarrow> select xs \<noteq> None"
begin

lemma select_filter:
  "select (filter P xs) = Some x \<Longrightarrow> x \<in> set xs \<and> P x \<and> (\<forall>y \<in> set xs. P y \<longrightarrow> key x \<le> key y)"
  using select_member [of "filter P xs" x] select_least [of "filter P xs" x] by auto

lemma select_None_iff: "select xs = None \<longleftrightarrow> xs = []"
proof
  show "xs = []" if "select xs = None" using that select_some by blast
  show "select xs = None" if "xs = []"
    using that select_member [of "[]"] by (cases "select []") auto
qed

end

lemma keep_least_Some: "keep_least key (Some b) x = Some (if key x < key b then x else b)"
  by (simp add: keep_least_def)

lemma foldl_keep_least:
  "\<exists>x. foldl (keep_least key) (Some b) xs = Some x \<and> x \<in> insert b (set xs)
     \<and> (\<forall>y \<in> insert b (set xs). key x \<le> key y)"
proof (induction xs arbitrary: b)
  case (Cons a xs)
  let ?c = "if key a < key b then a else b"
  from Cons.IH [of ?c] obtain x where x: "foldl (keep_least key) (Some ?c) xs = Some x"
    "x \<in> insert ?c (set xs)" "\<forall>y \<in> insert ?c (set xs). key x \<le> key y" by blast
  have "key x \<le> key a \<and> key x \<le> key b" using x(3) by (auto split: if_splits)
  with x show ?case by (intro exI [of _ x]) (auto simp: keep_least_Some split: if_splits)
qed simp

lemma pick_least_spec:
  "pick_least key xs = Some x \<Longrightarrow> x \<in> set xs \<and> (\<forall>y \<in> set xs. key x \<le> key y)"
  using foldl_keep_least [of key "hd xs" "tl xs"]
  by (cases xs) (auto simp: pick_least_def keep_least_def [of key None])

lemma pick_least_Some: "xs \<noteq> [] \<Longrightarrow> pick_least key xs \<noteq> None"
  using foldl_keep_least [of key "hd xs" "tl xs"]
  by (cases xs) (auto simp: pick_least_def keep_least_def [of key None])

interpretation least: least_choice key "pick_least key" for key :: "'a \<Rightarrow> int"
  by unfold_locales (auto dest: pick_least_spec simp: pick_least_Some)

section \<open>Laws\<close>

lemma getAutoAssignmentTechnicians_member:
  assumes "u \<in> set (getAutoAssignmentTechnicians env db p d)"
  shows "u \<in> set (db_users db) \<and> acc_active u \<and> acc_autoAssignmentEligible u
    \<and> pool_role (env_caps env) p (acc_role u) \<and> \<not> isSeniorTech (env_caps env) (acc_role u)
    \<and> acc_id u \<notin> set (env_blocked env d) \<and> present_row db (acc_id u) d \<noteq> None
    \<and> \<not> isOvertimeDay (db_officeDays db) d"
  using assms
  by (auto simp: getAutoAssignmentTechnicians_def getPresentTechnicians_def getAvailableTechnicians_def
      split: if_splits option.splits)

lemma getAutoAssignmentTechnicians_specialized:
  "getAutoAssignmentTechnicians env db (Pool_of SPECIALIZED_CONCERNS) d = []"
  by (simp add: getAutoAssignmentTechnicians_def pool_role_def)

lemma canAutomaticallyAssign_member:
  assumes "canAutomaticallyAssign env db n p d requester"
  shows "n \<noteq> requester \<and> (\<exists>u \<in> set (getAutoAssignmentTechnicians env db p d). acc_id u = n)"
  using assms by (auto simp: canAutomaticallyAssign_def list_ex_iff)

lemma present_row_Some:
  assumes "present_row db n d = Some a"
  shows "a \<in> set (db_attendance db) \<and> att_userId a = n \<and> att_date a = d \<and> att_status a = PRESENT"
  using assms by (auto simp: present_row_def find_Some_iff)

lemma capped_round_robin_Some:
  assumes "capped_round_robin env db techs = Some u"
  shows "u \<in> set techs \<and> getWeeklySlaLoad env db (acc_id u) < of_nat (config_cap db)"
  using least.select_filter [OF assms [unfolded capped_round_robin_def]] by simp

end
