(* ===== verification/SlaProjection.thy ===== *)
theory SlaProjection
  imports Store
begin

text \<open>
  What a reader is shown of a ticket's SLA (\<open>projectTicketSlaState\<close>, \<open>getScheduledSlaResumeAt\<close>), the
  SQL filter of the ticket lists, and the active resolution hours of reports.  The projection also
  replaces the deadline of a paused ticket by the one it would have if it resumed.
\<close>

section \<open>The scheduled resume\<close>

text \<open>\<open>for (let dayOffset = 1; dayOffset <= 14; dayOffset++)\<close>.\<close>

definition day_offsets :: "int list" where
  "day_offsets = [1..14]"

definition getScheduledSlaResumeAt ::
  "(day \<Rightarrow> bool) \<Rightarrow> ticketing_config \<Rightarrow> date \<Rightarrow> date option" where
  "getScheduledSlaResumeAt office config now =
     (if isFlagCeremonyPaused config then None
      else let resumeTime = (if scheduleMode config = CWW then cwwClockinEnd config else officeClockin config);
               clockoutTime = (if scheduleMode config = CWW then cwwClockoutEnd config else officeClockout config);
               today = getManilaDateString now;
               working = (\<lambda>d. overtimeSlaDate config = Some d \<or> office d)
           in if working today \<and> getManilaTimeString now < clockoutTime
              then Some (createManilaDate today resumeTime)
              else map_option (\<lambda>offset. createManilaDate (addManilaDays today offset) resumeTime)
                     (List.find (\<lambda>offset. working (addManilaDays today offset)) day_offsets))"

section \<open>The projection\<close>

record sla_state =
  isOverdue :: bool
  isNearingSLA :: bool
  slaPaused :: bool
  slaResumeAt :: "date option"
  slaResumeCanBeEarly :: bool

definition breachedBeforeSchedulePause :: "ticket \<Rightarrow> bool" where
  "breachedBeforeSchedulePause t =
     (case (slaPausedAt t, slaDeadline t) of (Some p, Some d) \<Rightarrow> d \<le> p | _ \<Rightarrow> False)"

definition isSchedulePaused :: "ticket \<Rightarrow> bool" where
  "isSchedulePaused t \<longleftrightarrow> slaPausedAt t \<noteq> None \<and> slaStartedAt t \<noteq> None \<and> \<not> isSlaWaiting t
     \<and> \<not> breachedBeforeSchedulePause t \<and> status t = IN_PROGRESS"

definition isStatusPaused :: "ticket \<Rightarrow> bool" where
  "isStatusPaused t \<longleftrightarrow> slaPausedAt t \<noteq> None \<and> \<not> isSlaWaiting t \<and> status t \<in> {FREEZE, PAUSE}"

definition resumeAfterHours :: "ticket \<Rightarrow> int option" where
  "resumeAfterHours t = (if status t = FREEZE then configuredFreezeHours t else configuredPauseHours t)"

definition status_resume_at ::
  "env \<Rightarrow> db \<Rightarrow> ticketing_config option \<Rightarrow> ticket \<Rightarrow> date option result" where
  "status_resume_at env db config t =
     (case (slaPausedAt t, resumeAfterHours t) of
        (Some pausedAt, Some hours) \<Rightarrow>
          if hours \<le> 0 then Inr None
          else (case (status t = PAUSE, config) of
              (True, Some c) \<Rightarrow> and_then
                 (calculateSlaDeadline (env_h24 env) (office_of db) pausedAt (of_int hours) c)
                 (\<lambda>d. Inr (Some d))
            | _ \<Rightarrow> Inr (Some (pausedAt + hours * 60 * 60 * 1000)))
      | _ \<Rightarrow> Inr None)"

text \<open>\<open>given\<close> is the optional argument \<open>scheduledResumeAt\<close>: \<open>None\<close> when it is undefined.\<close>

definition projected_resume_at ::
  "env \<Rightarrow> db \<Rightarrow> ticketing_config option \<Rightarrow> ticket \<Rightarrow> date \<Rightarrow> date option option \<Rightarrow> date option result" where
  "projected_resume_at env db config t now given =
     (if isStatusPaused t then status_resume_at env db config t
      else case (isSchedulePaused t, config) of
          (True, Some c) \<Rightarrow> Inr (case given of Some r \<Rightarrow> r
                               | None \<Rightarrow> getScheduledSlaResumeAt (office_of db) c now)
        | _ \<Rightarrow> Inr None)"

definition projected_deadline ::
  "env \<Rightarrow> db \<Rightarrow> ticketing_config option \<Rightarrow> ticket \<Rightarrow> date \<Rightarrow> date option \<Rightarrow> date \<Rightarrow> date result" where
  "projected_deadline env db config t now resumeAt deadline =
     (case (slaPausedAt t, configuredSlaHours t, config) of
        (Some pausedAt, Some slaHours, Some c) \<Rightarrow>
          if isSlaWaiting t \<or> isSchedulePaused t \<or> isStatusPaused t
          then let projectionAt = (case resumeAt of Some r \<Rightarrow> if now < r then r else now | None \<Rightarrow> now)
               in and_then (calculateBusinessSeconds (env_h24 env) (office_of db) pausedAt projectionAt c)
                    (\<lambda>seconds. calculateSlaDeadline (env_h24 env) (office_of db) (getSlaClockStartedAt t)
                       (getSlaHoursIncludingCreditedPause slaHours (accumulatedPauseSeconds t
                          + capManualPauseBusinessSeconds (status t) seconds (configuredPauseHours t))) c)
          else Inr deadline
      | _ \<Rightarrow> Inr deadline)"

definition original_sla_ms :: "ticket \<Rightarrow> date \<Rightarrow> rat" where
  "original_sla_ms t deadline =
     (case configuredSlaHours t of
        Some h \<Rightarrow> h * 3600 * 1000
      | None \<Rightarrow> of_int (deadline - getSlaClockStartedAt t))"

definition running_flags :: "ticket \<Rightarrow> date \<Rightarrow> date \<Rightarrow> bool \<times> bool" where
  "running_flags t deadline now =
     (if isSchedulePaused t \<or> isStatusPaused t \<or> isSlaWaiting t then (False, False)
      else let comparisonTime = (case getEffectiveResolvedAt t of Some r \<Rightarrow> r | None \<Rightarrow> now)
           in if deadline < comparisonTime then (True, False)
              else (False, getEffectiveResolvedAt t = None
                      \<and> of_int (deadline - now) \<le> original_sla_ms t deadline * (4 / 10)))"

definition idle_state :: "bool \<Rightarrow> date option \<Rightarrow> bool \<Rightarrow> sla_state" where
  "idle_state paused resumeAt early = \<lparr>isOverdue = False, isNearingSLA = False, slaPaused = paused,
     slaResumeAt = resumeAt, slaResumeCanBeEarly = early\<rparr>"

definition clocked_state :: "ticket \<Rightarrow> date \<Rightarrow> date \<Rightarrow> bool \<Rightarrow> date option \<Rightarrow> bool \<Rightarrow> sla_state" where
  "clocked_state t deadline now paused resumeAt early =
     \<lparr>isOverdue = fst (running_flags t deadline now), isNearingSLA = snd (running_flags t deadline now),
      slaPaused = paused, slaResumeAt = resumeAt, slaResumeCanBeEarly = early\<rparr>"

definition projectTicketSlaState ::
  "env \<Rightarrow> db \<Rightarrow> ticket \<Rightarrow> ticketing_config option \<Rightarrow> date \<Rightarrow> date option option
    \<Rightarrow> (ticket \<times> sla_state) result" where
  "projectTicketSlaState env db t config0 now given0 =
     (let config = map_option (\<lambda>c. ticketCalendar c t) config0;
          given = (if ticket_overtimeSlaDate t \<noteq> None then None else given0);
          paused = isSchedulePaused t \<or> isStatusPaused t;
          canBeEarly = (isSchedulePaused t \<and> (case config of Some c \<Rightarrow> scheduleMode c = CWW | None \<Rightarrow> False))
      in if status t \<in> {DUPLICATE, CANCELLED} then Inr (t, idle_state False None False)
         else and_then (projected_resume_at env db config t now given) (\<lambda>resumeAt.
           case (slaStartedAt t, slaDeadline t) of
             (Some _, Some d) \<Rightarrow>
               and_then (projected_deadline env db config t now resumeAt d) (\<lambda>deadline.
                 Inr (t\<lparr>slaDeadline := Some deadline\<rparr>,
                   clocked_state t deadline now paused resumeAt canBeEarly))
           | _ \<Rightarrow> Inr (t, idle_state paused resumeAt canBeEarly)))"

section \<open>The SQL filter\<close>

datatype (plugins only: code) active_sla_state = Overdue | Nearing_sla | On_track

text \<open>\<open>TIMESTAMPDIFF(SECOND, a, b)\<close> truncates towards zero.\<close>

definition timestampdiff_seconds :: "date \<Rightarrow> date \<Rightarrow> int" where
  "timestampdiff_seconds a b = (if a \<le> b then (b - a) div 1000 else - ((a - b) div 1000))"

definition total_sla_seconds :: "ticket \<Rightarrow> date \<Rightarrow> date \<Rightarrow> rat" where
  "total_sla_seconds t started deadline =
     (case issueTypeConfig t of
        Some i \<Rightarrow> (case it_slaHours i of
            Some h \<Rightarrow> h * 3600 | None \<Rightarrow> of_int (timestampdiff_seconds started deadline))
      | None \<Rightarrow> of_int (timestampdiff_seconds started deadline))"

definition activeTicketSlaFilter :: "active_sla_state option \<Rightarrow> date \<Rightarrow> ticket \<Rightarrow> bool" where
  "activeTicketSlaFilter slaState now t =
     (case slaState of
        None \<Rightarrow> True
      | Some s \<Rightarrow>
          (case (slaDeadline t, slaStartedAt t) of
             (Some d, Some started) \<Rightarrow>
               status t = IN_PROGRESS \<and> slaPausedAt t = None \<and> \<not> isSlaWaiting t \<and>
               (let remaining = of_int (timestampdiff_seconds now d);
                    limit = total_sla_seconds t started d * (4 / 10)
                in case s of
                     Overdue \<Rightarrow> d \<le> now
                   | Nearing_sla \<Rightarrow> now < d \<and> remaining \<le> limit
                   | On_track \<Rightarrow> now < d \<and> limit < remaining)
           | _ \<Rightarrow> False))"

section \<open>Reports\<close>

text \<open>\<open>calculateTicketActiveResolutionHours\<close>: the timing it stores on the ticket and the hours.\<close>

definition active_measure :: "env \<Rightarrow> db \<Rightarrow> ticketing_config option \<Rightarrow> business_measure" where
  "active_measure env db config start end =
     (case config of
        Some c \<Rightarrow> calculateBusinessSeconds (env_h24 env) (office_of db) start end c
      | None \<Rightarrow> Inr (max 0 (js_round (of_int (end - start) / 1000))))"

definition calculateTicketActiveResolutionHours ::
  "env \<Rightarrow> db \<Rightarrow> ticket \<Rightarrow> date \<Rightarrow> ticketing_config option \<Rightarrow> resolution_timing option result" where
  "calculateTicketActiveResolutionHours env db t resolved config =
     resolutionTiming t resolved (active_measure env db (map_option (\<lambda>c. ticketCalendar c t) config))"

record builder_sla =
  builder_met :: "bool option"
  builder_activeHours :: "rat option"
  builder_estimated :: bool

definition getBuilderSlaResult :: "env \<Rightarrow> db \<Rightarrow> ticket \<Rightarrow> date \<Rightarrow> ticketing_config \<Rightarrow> builder_sla result" where
  "getBuilderSlaResult env db t end config =
     and_then (case slaStartedAt t of
         Some s \<Rightarrow> if s \<le> end then calculateTicketActiveResolutionHours env db t end (Some config) else Inr None
       | None \<Rightarrow> Inr None)
       (\<lambda>timing.
         let hours = map_option activeHours timing;
             allowance = (if slaDeadline t \<noteq> None then 0
                          else if config_slaHours (issueTypeConfig t) \<noteq> 0 then config_slaHours (issueTypeConfig t)
                          else if issueTypeId t = None then 4 else 0)
         in Inr \<lparr>builder_met = (if slaDeadline t \<noteq> None \<or> (hours \<noteq> None \<and> 0 < allowance)
                     then Some (hasMetResolvedTicketSla t (case hours of Some h \<Rightarrow> h | None \<Rightarrow> 0) allowance)
                     else None),
                 builder_activeHours = hours,
                 builder_estimated = (case timing of Some r \<Rightarrow> estimated r | None \<Rightarrow> False)\<rparr>)"

section \<open>Laws\<close>

lemma getScheduledSlaResumeAt_working:
  assumes "getScheduledSlaResumeAt office config now = Some r"
  shows "\<exists>d. r = createManilaDate d (if scheduleMode config = CWW then cwwClockinEnd config else officeClockin config)
     \<and> (overtimeSlaDate config = Some d \<or> office d)
     \<and> getManilaDateString now \<le> d \<and> d \<le> getManilaDateString now + 14"
proof -
  let ?w = "\<lambda>d. overtimeSlaDate config = Some d \<or> office d"
  let ?T = "if scheduleMode config = CWW then cwwClockinEnd config else officeClockin config"
  let ?today = "getManilaDateString now"
  consider (today) "r = createManilaDate ?today ?T" "?w ?today"
    | (later) k where "r = createManilaDate (addManilaDays ?today k) ?T"
        "List.find (\<lambda>k. ?w (addManilaDays ?today k)) day_offsets = Some k"
    using assms by (auto simp: getScheduledSlaResumeAt_def Let_def split: if_splits)
  then show ?thesis
  proof cases
    case today
    then show ?thesis by (intro exI [of _ ?today]) simp
  next
    case later
    from later(2) have k: "k \<in> set day_offsets" "?w (addManilaDays ?today k)"
      by (auto simp: find_Some_iff)
    from k(1) have "1 \<le> k" "k \<le> 14" by (simp_all add: day_offsets_def)
    with k(2) later(1) show ?thesis by (intro exI [of _ "addManilaDays ?today k"]) (auto simp: manila_simps)
  qed
qed

lemma projectTicketSlaState_cases:
  assumes "projectTicketSlaState env db t config now given = Inr (t', s)"
  obtains (administrative) "status t \<in> {DUPLICATE, CANCELLED}" "t' = t" "\<not> isOverdue s" "\<not> isNearingSLA s"
      "\<not> slaPaused s"
  | (no_clock) "status t \<notin> {DUPLICATE, CANCELLED}" "slaStartedAt t = None \<or> slaDeadline t = None" "t' = t"
      "\<not> isOverdue s" "\<not> isNearingSLA s" "slaPaused s = (isSchedulePaused t \<or> isStatusPaused t)"
  | (clock) d d' r where "status t \<notin> {DUPLICATE, CANCELLED}" "slaDeadline t = Some d"
      "slaStartedAt t \<noteq> None"
      "projected_deadline env db (map_option (\<lambda>c. ticketCalendar c t) config) t now r d = Inr d'"
      "t' = t\<lparr>slaDeadline := Some d'\<rparr>" "isOverdue s = fst (running_flags t d' now)"
      "isNearingSLA s = snd (running_flags t d' now)"
      "slaPaused s = (isSchedulePaused t \<or> isStatusPaused t)"
proof (cases "status t \<in> {DUPLICATE, CANCELLED}")
  case True
  with assms have "t' = t" "s = idle_state False None False"
    by (simp_all add: projectTicketSlaState_def Let_def)
  with True show ?thesis by (intro administrative) (simp_all add: idle_state_def)
next
  case False
  let ?c = "map_option (\<lambda>c. ticketCalendar c t) config"
  let ?p = "isSchedulePaused t \<or> isStatusPaused t"
  from assms False obtain r e where
    body: "(case (slaStartedAt t, slaDeadline t) of
        (Some _, Some d) \<Rightarrow> and_then (projected_deadline env db ?c t now r d) (\<lambda>deadline.
            Inr (t\<lparr>slaDeadline := Some deadline\<rparr>, clocked_state t deadline now ?p r e))
      | _ \<Rightarrow> Inr (t, idle_state ?p r e)) = Inr (t', s)"
    unfolding projectTicketSlaState_def Let_def if_not_P [OF False] by (elim and_then_InrE) blast
  show ?thesis
  proof (cases "slaStartedAt t = None \<or> slaDeadline t = None")
    case True
    with body have "t' = t" "s = idle_state ?p r e" by (auto split: option.splits)
    with True False show ?thesis by (intro no_clock) (simp_all add: idle_state_def)
  next
    case nn: False
    then obtain d s0 where d: "slaDeadline t = Some d" "slaStartedAt t = Some s0" by auto
    from body obtain d' where d': "projected_deadline env db ?c t now r d = Inr d'"
      "t' = t\<lparr>slaDeadline := Some d'\<rparr>" "s = clocked_state t d' now ?p r e"
      unfolding d by (simp only: prod.case option.case) (elim and_then_InrE, simp)
    with False d show ?thesis by (intro clock) (simp_all add: clocked_state_def)
  qed
qed

lemma projectTicketSlaState_frame:
  assumes "projectTicketSlaState env db t config now given = Inr (t', s)"
  shows "t' = t\<lparr>slaDeadline := slaDeadline t'\<rparr>"
  using assms by (cases rule: projectTicketSlaState_cases) auto

lemma running_flags_exclusive: "\<not> (fst (running_flags t d now) \<and> snd (running_flags t d now))"
  by (simp add: running_flags_def Let_def)

lemma projected_deadline_running:
  assumes "\<not> isSlaWaiting t" "\<not> isSchedulePaused t" "\<not> isStatusPaused t"
  shows "projected_deadline env db config t now r d = Inr d"
  using assms by (simp add: projected_deadline_def split: option.splits)

end
