(* ===== verification/Access.thy ===== *)
theory Access
  imports Attendance SlaProjection
begin

text \<open>
  Who may do what with a ticket: role checks over the capability cache, the rule that a ticket is
  not worked on by the person it was filed for, read access, internal notes, overtime tickets, the
  status a frozen ticket returns to, and \<open>getTicketById\<close>, the view of a ticket on which every
  handler works.
\<close>

section \<open>Roles and assignees\<close>

definition canViewAllTicketsInTicketing :: "capability_cache \<Rightarrow> user_role option \<Rightarrow> bool" where
  "canViewAllTicketsInTicketing caps role = (case role of None \<Rightarrow> False | Some r \<Rightarrow> isAllTickets caps r)"

definition isDirectAssignableRictmsStaff :: "user_role \<Rightarrow> bool" where
  "isDirectAssignableRictmsStaff role \<longleftrightarrow> role \<noteq> USER \<and> role \<noteq> SUPER_ADMIN"

definition assertSpecializedAssigneeEligibility ::
  "capability_cache \<Rightarrow> ticket_type \<Rightarrow> account option \<Rightarrow> http_error option" where
  "assertSpecializedAssigneeEligibility caps ty assignee =
     (if ty \<noteq> SPECIALIZED_CONCERNS then None
      else case assignee of
          None \<Rightarrow> Some (BadRequest (Access SpecializedAssigneeNotAuthorized))
        | Some u \<Rightarrow>
            if \<not> acc_active u \<or> \<not> isDirectAssignableRictmsStaff (acc_role u)
               \<or> \<not> isSpecializedSupport caps (acc_role u)
            then Some (BadRequest (Access SpecializedAssigneeNotAuthorized)) else None)"

definition assertRequesterAssignmentSeparation ::
  "ticket_type \<Rightarrow> nat \<Rightarrow> nat option \<Rightarrow> nat option \<Rightarrow> http_error option" where
  "assertRequesterAssignmentSeparation ty assignee requester creator =
     (if ty = SPECIALIZED_CONCERNS then None
      else if assignee = number requester \<or> assignee = number creator
      then Some (Forbidden (Access AssigneeIsRequester)) else None)"

definition canViewEscalatedQueue :: "capability_cache \<Rightarrow> user_role option \<Rightarrow> bool" where
  "canViewEscalatedQueue caps role = (case role of None \<Rightarrow> False | Some r \<Rightarrow> isEscalationFocal caps r)"

definition isOvertimeAdministrator :: "capability_cache \<Rightarrow> user_role option \<Rightarrow> bool" where
  "isOvertimeAdministrator caps role =
     (case role of
        None \<Rightarrow> False
      | Some r \<Rightarrow> if r = USER then False
                  else r = SUPER_ADMIN \<or> isTicketSettingsFocal caps r \<or> isTicketFocal caps r)"

section \<open>Read access\<close>

definition canAccessTicketByEscalation :: "db \<Rightarrow> nat \<Rightarrow> nat \<Rightarrow> bool" where
  "canAccessTicketByEscalation db n viewer \<longleftrightarrow> viewer \<noteq> 0 \<and>
     list_ex (\<lambda>e. esc_ticketId e = n \<and> (escalatedById e = viewer \<or> escalatedToId e = viewer))
       (db_escalations db)"

definition overtime_read :: "env \<Rightarrow> db \<Rightarrow> ticket \<Rightarrow> day \<Rightarrow> nat \<Rightarrow> user_role \<Rightarrow> bool" where
  "overtime_read env db t ot viewer role \<longleftrightarrow>
     isOvertimeAdministrator (env_caps env) (Some role)
     \<or> viewer \<in> {requesterId t, number (createdById t), number (assignedToId t)}
     \<or> (status t = OPEN \<and> \<not> truthy (assignedToId t) \<and> isOvertimeStaff (Some role)
          \<and> hasOvertimeClockIn db viewer ot)
     \<or> (isOvertimeStaff (Some role) \<and> canAccessTicketByEscalation db (ticket_id t) viewer)"

definition ordinary_read :: "env \<Rightarrow> db \<Rightarrow> ticket \<Rightarrow> nat \<Rightarrow> user_role \<Rightarrow> bool" where
  "ordinary_read env db t viewer role \<longleftrightarrow>
     canViewAllTicketsInTicketing (env_caps env) (Some role)
     \<or> requesterId t = viewer \<or> number (assignedToId t) = viewer
     \<or> (truthy (createdById t) \<and> number (createdById t) = viewer)
     \<or> canAccessTicketByEscalation db (ticket_id t) viewer"

definition assertTicketReadAccess ::
  "env \<Rightarrow> db \<Rightarrow> ticket \<Rightarrow> nat option \<Rightarrow> user_role option \<Rightarrow> http_error option" where
  "assertTicketReadAccess env db t viewerId viewerRole =
     (case (viewerRole, viewerId) of
        (Some role, Some viewer) \<Rightarrow>
          if viewer = 0 then None
          else (case overtimeDate t of
              Some ot \<Rightarrow> if overtime_read env db t ot viewer role then None
                         else Some (Forbidden (Access NotAvailableOvertime))
            | None \<Rightarrow> if ordinary_read env db t viewer role then None
                      else Some (Forbidden (Access NoTicketAccess)))
      | _ \<Rightarrow> None)"

definition canClaimOvertime :: "env \<Rightarrow> db \<Rightarrow> ticket \<Rightarrow> nat \<Rightarrow> user_role \<Rightarrow> bool" where
  "canClaimOvertime env db t user role \<longleftrightarrow>
     (case overtimeDate t of
        None \<Rightarrow> False
      | Some ot \<Rightarrow> status t = OPEN \<and> \<not> truthy (assignedToId t) \<and> requesterId t \<noteq> user
          \<and> isOvertimeStaff (Some role)
          \<and> (ticketType t \<noteq> SPECIALIZED_CONCERNS \<or> isSpecializedSupport (env_caps env) role)
          \<and> hasOvertimeClockIn db user ot)"

text \<open>\<open>ticket.createdBy?.role !== UserRole.USER\<close> on the enriched ticket.\<close>

definition creator_is_user :: "env \<Rightarrow> ticket \<Rightarrow> bool" where
  "creator_is_user env t =
     (case createdById t of
        Some n \<Rightarrow> (case env_getUserById env n of Some u \<Rightarrow> acc_role u = USER | None \<Rightarrow> False)
      | None \<Rightarrow> False)"

definition canViewInternalNotes ::
  "env \<Rightarrow> ticket \<Rightarrow> user_role option \<Rightarrow> nat option \<Rightarrow> escalation option \<Rightarrow> bool" where
  "canViewInternalNotes env t viewerRole viewerId activeEscalation =
     (case (viewerRole, viewerId) of
        (Some role, Some viewer) \<Rightarrow>
          if viewer = 0 \<or> role = USER then False
          else isTicketSettingsFocal (env_caps env) role
            \<or> requesterId t = viewer \<or> number (assignedToId t) = viewer
            \<or> (case activeEscalation of
                 Some e \<Rightarrow> escalatedById e = viewer \<or> escalatedToId e = viewer | None \<Rightarrow> False)
            \<or> (truthy (createdById t) \<and> number (createdById t) = viewer
                \<and> number (createdById t) \<noteq> requesterId t \<and> \<not> creator_is_user env t)
      | _ \<Rightarrow> False)"

section \<open>The status a frozen ticket returns to\<close>

abbreviation validReturnStatuses :: "ticket_status set" where
  "validReturnStatuses \<equiv> {OPEN, ASSIGNED, IN_PROGRESS, RESOLVED}"

definition status_events :: "db \<Rightarrow> nat \<Rightarrow> ticket_event list" where
  "status_events db n = take 50 (sort_key (\<lambda>e. - ev_createdAt e)
     (filter (\<lambda>e. ev_ticketId e = n \<and> ev_type e = ''status_changed'') (db_events db)))"

definition valid_status :: "ticket_status option \<Rightarrow> ticket_status option" where
  "valid_status s = (case s of Some x \<Rightarrow> if x \<in> validReturnStatuses then Some x else None | None \<Rightarrow> None)"

fun recorded_return :: "ticket_event list \<Rightarrow> ticket_status option" where
  "recorded_return [] = None"
| "recorded_return (e # es) =
     (case valid_status (ev_from e) of
        Some s \<Rightarrow> Some s
      | None \<Rightarrow> (case List.find (\<lambda>d. valid_status (ev_to d) \<noteq> None) es of
            Some d \<Rightarrow> valid_status (ev_to d) | None \<Rightarrow> None))"

definition resolveFrozenReturnStatus :: "db \<Rightarrow> ticket \<Rightarrow> ticket_status" where
  "resolveFrozenReturnStatus db t =
     (case recorded_return (dropWhile (\<lambda>e. ev_to e \<noteq> Some FREEZE) (status_events db (ticket_id t))) of
        Some s \<Rightarrow> s
      | None \<Rightarrow> if truthy (assignedToId t) then IN_PROGRESS else OPEN)"

section \<open>getTicketById\<close>

text \<open>
  \<open>enrichTicketsWithUsers\<close>: an accepted escalation makes its target the assignee of a ticket that
  is not terminal, in every view and so in every later save of that view.
\<close>

definition latest_accepted :: "db \<Rightarrow> nat \<Rightarrow> escalation option" where
  "latest_accepted db n = oldest_by (\<lambda>e. - esc_createdAt e)
     (filter (\<lambda>e. esc_ticketId e = n \<and> esc_status e = ACCEPTED) (db_escalations db))"

definition enrich :: "db \<Rightarrow> ticket \<Rightarrow> ticket" where
  "enrich db t =
     (case latest_accepted db (ticket_id t) of
        Some e \<Rightarrow> if status t \<in> {RESOLVED, CLOSED, DUPLICATE, CANCELLED} then t
                   else t\<lparr>assignedToId := Some (escalatedToId e)\<rparr>
      | None \<Rightarrow> t)"

text \<open>The repair of legacy rows: a ticket in progress is not queued and has a running clock.\<close>

definition repair_flags :: "ticket \<Rightarrow> ticket" where
  "repair_flags t =
     (let t = (if status t = IN_PROGRESS \<and> isSlaWaiting t
               then t\<lparr>isSlaWaiting := False, slaPausedAt := None\<rparr> else t)
      in if status t = IN_PROGRESS \<and> slaStartedAt t = None
         then t\<lparr>slaStartedAt := Some (case lastAssignedAt t of Some d \<Rightarrow> d | None \<Rightarrow> createdAt t)\<rparr> else t)"

definition repair_deadline :: "env \<Rightarrow> db \<Rightarrow> ticket \<Rightarrow> ticket result" where
  "repair_deadline env db t =
     (case (status t = IN_PROGRESS \<and> slaDeadline t = None \<and> truthy (assignedToId t), slaStartedAt t) of
        (True, Some start) \<Rightarrow> and_then (calculateTicketSlaDeadline env db t start)
           (\<lambda>d. Inr (t\<lparr>slaDeadline := d\<rparr>))
      | _ \<Rightarrow> Inr t)"

record ticket_view =
  view_ticket :: ticket
  view_sla :: sla_state
  view_internalNotes :: bool

definition getTicketById ::
  "env \<Rightarrow> db \<Rightarrow> nat \<Rightarrow> user_role option \<Rightarrow> nat option \<Rightarrow> ticket_view result" where
  "getTicketById env db n viewerRole viewerId =
     (case find_ticket db n of
        None \<Rightarrow> Inl (NotFound (Assign TicketNotFound))
      | Some row \<Rightarrow>
          let t = enrich db (with_relations db row)
          in guarded (assertTicketReadAccess env db t viewerId viewerRole)
               (and_then (repair_deadline env db (repair_flags t)) (\<lambda>t.
                 and_then (projectTicketSlaState env db t (db_config db) (env_now env) None) (\<lambda>(t, state).
                   and_then
                     (case (getEffectiveResolvedAt t, db_config db) of
                        (Some r, Some c) \<Rightarrow>
                          if status t \<in> {RESOLVED, CLOSED}
                          then calculateTicketActiveResolutionHours env db t r (Some c) else Inr None
                      | _ \<Rightarrow> Inr None)
                     (\<lambda>timing. Inr \<lparr>view_ticket = t, view_sla = state,
                        view_internalNotes = canViewInternalNotes env t viewerRole viewerId
                          (getLatestActiveEscalation db (ticket_id t))\<rparr>)))))"

definition getFrozenReturnStatus :: "db \<Rightarrow> nat \<Rightarrow> ticket_status result" where
  "getFrozenReturnStatus db n =
     (case find_ticket db n of
        None \<Rightarrow> Inl (NotFound (Assign TicketNotFound))
      | Some t \<Rightarrow> Inr (resolveFrozenReturnStatus db t))"

section \<open>Laws\<close>

lemma resolveFrozenReturnStatus_valid: "resolveFrozenReturnStatus db t \<in> validReturnStatuses"
proof -
  have "s \<in> validReturnStatuses" if "valid_status x = Some s" for x s
    using that by (auto simp: valid_status_def split: option.splits if_splits)
  moreover have "s \<in> validReturnStatuses" if "recorded_return es = Some s" for es s
    using that calculation by (cases es) (auto split: option.splits)
  ultimately show ?thesis
    by (auto simp: resolveFrozenReturnStatus_def split: option.splits)
qed

lemma enrich_fields [simp]:
  "ticket_id (enrich db t) = ticket_id t" "status (enrich db t) = status t"
  "updatedAt (enrich db t) = updatedAt t" "requesterId (enrich db t) = requesterId t"
  "createdById (enrich db t) = createdById t" "overtimeDate (enrich db t) = overtimeDate t"
  "ticketType (enrich db t) = ticketType t" "slaPauseLedger (enrich db t) = slaPauseLedger t"
  "accumulatedPauseSeconds (enrich db t) = accumulatedPauseSeconds t"
  "interruptionHistory (enrich db t) = interruptionHistory t"
  by (auto simp: enrich_def split: option.splits)

lemma with_relations_fields [simp]:
  "ticket_id (with_relations db t) = ticket_id t" "status (with_relations db t) = status t"
  "updatedAt (with_relations db t) = updatedAt t" "requesterId (with_relations db t) = requesterId t"
  "assignedToId (with_relations db t) = assignedToId t" "overtimeDate (with_relations db t) = overtimeDate t"
  "createdById (with_relations db t) = createdById t" "ticketType (with_relations db t) = ticketType t"
  "accumulatedPauseSeconds (with_relations db t) = accumulatedPauseSeconds t"
  "interruptionHistory (with_relations db t) = interruptionHistory t"
  "slaPauseLedger (with_relations db t) = slaPauseLedger t"
  by (simp_all add: with_relations_def)

lemma repair_flags_fields [simp]:
  "ticket_id (repair_flags t) = ticket_id t" "status (repair_flags t) = status t"
  "updatedAt (repair_flags t) = updatedAt t" "requesterId (repair_flags t) = requesterId t"
  "assignedToId (repair_flags t) = assignedToId t" "overtimeDate (repair_flags t) = overtimeDate t"
  "createdById (repair_flags t) = createdById t" "ticketType (repair_flags t) = ticketType t"
  "accumulatedPauseSeconds (repair_flags t) = accumulatedPauseSeconds t"
  "interruptionHistory (repair_flags t) = interruptionHistory t"
  "slaPauseLedger (repair_flags t) = slaPauseLedger t"
  by (simp_all add: repair_flags_def Let_def)

lemma repair_deadline_frame:
  "repair_deadline env db t = Inr t' \<Longrightarrow> \<exists>d. t' = t\<lparr>slaDeadline := d\<rparr>"
  by (auto simp: repair_deadline_def and_then_Inr_iff split: option.splits bool.splits
      intro: exI [of _ "slaDeadline t"])

text \<open>What a view is: the stored row after enrichment and repair, with a projected deadline.\<close>

lemma getTicketById_Inr:
  assumes "getTicketById env db n role viewer = Inr v"
  obtains row d where "find_ticket db n = Some row"
    "assertTicketReadAccess env db (enrich db (with_relations db row)) viewer role = None"
    "view_ticket v = repair_flags (enrich db (with_relations db row))\<lparr>slaDeadline := d\<rparr>"
proof -
  from assms obtain row where row: "find_ticket db n = Some row"
    by (auto simp: getTicketById_def split: option.splits)
  let ?t = "enrich db (with_relations db row)"
  from assms row have acc: "assertTicketReadAccess env db ?t viewer role = None"
    by (simp add: getTicketById_def Let_def guarded_Inr_iff)
  from assms row acc obtain t1 t2 s where
    t1: "repair_deadline env db (repair_flags ?t) = Inr t1" and
    t2: "projectTicketSlaState env db t1 (db_config db) (env_now env) None = Inr (t2, s)" and
    v: "view_ticket v = t2"
    unfolding getTicketById_def by (auto simp: Let_def and_then_Inr_iff)
  from repair_deadline_frame [OF t1] projectTicketSlaState_frame [OF t2]
  have "t2 = repair_flags ?t\<lparr>slaDeadline := slaDeadline t2\<rparr>" by auto
  with that [OF row acc] v show ?thesis by metis
qed

lemma getTicketById_fields:
  assumes "getTicketById env db n role viewer = Inr v"
  obtains row where "find_ticket db n = Some row"
    "ticket_id (view_ticket v) = n" "status (view_ticket v) = status row"
    "updatedAt (view_ticket v) = updatedAt row" "requesterId (view_ticket v) = requesterId row"
    "createdById (view_ticket v) = createdById row" "ticketType (view_ticket v) = ticketType row"
    "accumulatedPauseSeconds (view_ticket v) = accumulatedPauseSeconds row"
    "interruptionHistory (view_ticket v) = interruptionHistory row"
    "slaPauseLedger (view_ticket v) = slaPauseLedger row"
proof (rule getTicketById_Inr [OF assms])
  fix row d
  assume *: "find_ticket db n = Some row"
    "view_ticket v = repair_flags (enrich db (with_relations db row))\<lparr>slaDeadline := d\<rparr>"
  show thesis by (rule that [OF *(1)]) (simp_all add: *(2) find_ticket_id [OF *(1)])
qed

text \<open>A reader who is allowed to see an ordinary ticket is involved in it or may see all tickets.\<close>

lemma assertTicketReadAccess_ordinary:
  assumes "overtimeDate t = None" "viewer \<noteq> 0"
  shows "assertTicketReadAccess env db t (Some viewer) (Some role) = None \<longleftrightarrow>
    isAllTickets (env_caps env) role \<or> requesterId t = viewer \<or> assignedToId t = Some viewer
    \<or> createdById t = Some viewer
    \<or> (\<exists>e \<in> set (db_escalations db). esc_ticketId e = ticket_id t
         \<and> (escalatedById e = viewer \<or> escalatedToId e = viewer))"
  using assms
  by (cases "assignedToId t"; cases "createdById t")
    (auto simp: assertTicketReadAccess_def ordinary_read_def canViewAllTicketsInTicketing_def
      canAccessTicketByEscalation_def list_ex_iff)

lemma internal_notes_need_staff:
  "canViewInternalNotes env t role viewer e \<Longrightarrow> \<exists>r. role = Some r \<and> r \<noteq> USER"
  by (auto simp: canViewInternalNotes_def split: option.splits if_splits)

end
