(* ===== verification/UpdateRules.thy ===== *)
theory UpdateRules
  imports Access
begin

text \<open>
  The rules of \<open>updateTicket\<close> that only read the tables: the guards on the actor, the routing
  correction, the matrix of status transitions and the start, stop and credit of the SLA clock.
  A field of the request that is absent is \<open>None\<close>; for the two ids that may be cleared,
  \<open>Some None\<close> is null or the empty string.
\<close>

section \<open>The request\<close>

record update_dto =
  dto_subject :: "string option"
  dto_description :: "string option"
  dto_status :: "ticket_status option"
  dto_priority :: "ticket_priority option"
  dto_resolutionNotes :: "string option"
  dto_resolutionSteps :: "string option"
  dto_resolutionDate :: "iso_date option option"
  dto_issueTypeId :: "nat option option"
  dto_duplicateOfId :: "nat option"
  dto_ticketType :: "ticket_type option"
  dto_generateKb :: "bool option"
  dto_categoryId :: "nat option option"
  dto_statusJustification :: "string option"

definition empty_update :: update_dto where
  "empty_update = \<lparr>dto_subject = None, dto_description = None, dto_status = None, dto_priority = None,
     dto_resolutionNotes = None, dto_resolutionSteps = None, dto_resolutionDate = None,
     dto_issueTypeId = None, dto_duplicateOfId = None, dto_ticketType = None, dto_generateKb = None,
     dto_categoryId = None, dto_statusJustification = None\<rparr>"

section \<open>Who may update\<close>

definition accepted_of :: "escalation option \<Rightarrow> escalation option" where
  "accepted_of latest = (case latest of
     Some e \<Rightarrow> if esc_status e = ACCEPTED then Some e else None | None \<Rightarrow> None)"

definition returning_frozen :: "ticket \<Rightarrow> update_dto \<Rightarrow> ticket_status option \<Rightarrow> bool" where
  "returning_frozen t dto frozenReturn \<longleftrightarrow> status t = FREEZE \<and> dto_status dto = frozenReturn"

definition entry_guard :: "ticket \<Rightarrow> update_dto \<Rightarrow> user_role \<Rightarrow> ticket_status option \<Rightarrow> http_error option" where
  "entry_guard t dto role frozenReturn = first_error [
     (status t = CANCELLED, Forbidden (Update TicketCancelled)),
     (dto_status dto = Some CANCELLED, BadRequest (Update UseCancelTicket)),
     (isTicketReopening (status t) (dto_status dto) \<and> \<not> returning_frozen t dto frozenReturn
        \<and> role \<noteq> SUPER_ADMIN, BadRequest (Update ReopenNotPermitted))]"

definition requester_operational :: "update_dto \<Rightarrow> bool" where
  "requester_operational dto \<longleftrightarrow> dto_priority dto \<noteq> None
     \<or> (dto_status dto \<noteq> None \<and> dto_status dto \<noteq> Some CLOSED)
     \<or> dto_resolutionNotes dto \<noteq> None \<or> dto_resolutionSteps dto \<noteq> None \<or> dto_resolutionDate dto \<noteq> None
     \<or> dto_issueTypeId dto \<noteq> None \<or> dto_duplicateOfId dto \<noteq> None \<or> dto_ticketType dto \<noteq> None
     \<or> dto_generateKb dto \<noteq> None \<or> dto_categoryId dto \<noteq> None \<or> dto_statusJustification dto \<noteq> None"

definition user_guard :: "ticket \<Rightarrow> update_dto \<Rightarrow> nat \<Rightarrow> http_error option" where
  "user_guard t dto actor = first_error [
     (requesterId t \<noteq> actor, Forbidden (Update NotOwnTicket)),
     (requester_operational dto, Forbidden (Update EndUserOperational)),
     (dto_status dto = Some CLOSED \<and> status t \<noteq> RESOLVED, Forbidden (Update SelfCloseNeedsResolved)),
     (dto_status dto \<noteq> Some CLOSED \<and> status t \<noteq> OPEN, Forbidden (Update EditNeedsOpen))]"

definition isTicketStatusAdmin :: "capability_cache \<Rightarrow> user_role \<Rightarrow> bool" where
  "isTicketStatusAdmin caps role \<longleftrightarrow> isTicketSettingsFocal caps role \<or> isTicketFocal caps role"

definition isAcceptedEscalationOperator ::
  "capability_cache \<Rightarrow> escalation option \<Rightarrow> nat \<Rightarrow> user_role \<Rightarrow> bool" where
  "isAcceptedEscalationOperator caps accepted actor role =
     (case accepted of
        Some e \<Rightarrow> isTicketSettingsFocal caps role \<or> escalatedToId e = actor | None \<Rightarrow> False)"

definition isEligibleAssignedOperator :: "capability_cache \<Rightarrow> ticket \<Rightarrow> nat \<Rightarrow> user_role \<Rightarrow> bool" where
  "isEligibleAssignedOperator caps t actor role \<longleftrightarrow> assignedToId t = Some actor
     \<and> (ticketType t \<noteq> SPECIALIZED_CONCERNS \<or> isSpecializedSupport caps role)"

definition canUpdateOperationalFields ::
  "capability_cache \<Rightarrow> ticket \<Rightarrow> escalation option \<Rightarrow> nat \<Rightarrow> user_role \<Rightarrow> bool" where
  "canUpdateOperationalFields caps t accepted actor role =
     (if accepted \<noteq> None then isAcceptedEscalationOperator caps accepted actor role
      else isTicketStatusAdmin caps role \<or> isEligibleAssignedOperator caps t actor role)"

definition operator_guard ::
  "capability_cache \<Rightarrow> ticket \<Rightarrow> update_dto \<Rightarrow> escalation option \<Rightarrow> nat \<Rightarrow> user_role \<Rightarrow> http_error option" where
  "operator_guard caps t dto accepted actor role =
     (let limited = (\<not> isTicketModuleAccess caps role \<and> \<not> isTicketStatusAdmin caps role
                     \<and> \<not> isAcceptedEscalationOperator caps accepted actor role);
          restricted = (dto_subject dto \<noteq> None \<or> dto_description dto \<noteq> None \<or> dto_ticketType dto \<noteq> None
                     \<or> dto_categoryId dto \<noteq> None \<or> dto_issueTypeId dto \<noteq> None);
          resolution = (dto_resolutionNotes dto \<noteq> None \<or> dto_resolutionSteps dto \<noteq> None
                     \<or> dto_resolutionDate dto \<noteq> None \<or> dto_generateKb dto \<noteq> None)
      in first_error [
           (status t \<in> {DUPLICATE, CANCELLED}, Forbidden (Update TerminalTicket)),
           (limited \<and> \<not> isEligibleAssignedOperator caps t actor role, Forbidden (Update AssignedStaffOnly)),
           (limited \<and> restricted, Forbidden (Update RestrictedFields)),
           (resolution \<and> \<not> canUpdateOperationalFields caps t accepted actor role,
              Forbidden (Update ResolutionNotAllowed))])"

text \<open>\<open>if (dto.subject) ticket.subject = dto.subject.trim()\<close>.\<close>

definition text_edit :: "string option \<Rightarrow> string \<Rightarrow> string" where
  "text_edit new old = (case new of Some s \<Rightarrow> if s = [] then old else trim s | None \<Rightarrow> old)"

definition apply_texts :: "update_dto \<Rightarrow> ticket \<Rightarrow> ticket" where
  "apply_texts dto t = t\<lparr>ticket_subject := text_edit (dto_subject dto) (ticket_subject t),
     ticket_description := text_edit (dto_description dto) (ticket_description t)\<rparr>"

section \<open>Routing\<close>

definition categorySupportsTicketType :: "category \<Rightarrow> ticket_type \<Rightarrow> bool" where
  "categorySupportsTicketType c ty =
     (case ty of IT_SUPPORT \<Rightarrow> cat_isIt c | DESKTOP_SUPPORT \<Rightarrow> cat_isDesktop c
      | PANTAWID_ICT_SUPPORT \<Rightarrow> cat_isPantawid c | SPECIALIZED_CONCERNS \<Rightarrow> cat_isSpecialized c)"

definition live_issue :: "db \<Rightarrow> nat \<Rightarrow> issue_type option" where
  "live_issue db n = (case find_row it_id (db_issueTypes db) n of
     Some i \<Rightarrow> if it_isDeleted i \<or> \<not> it_isActive i then None else Some i | None \<Rightarrow> None)"

definition validateRoutingSelection ::
  "db \<Rightarrow> ticket_type \<Rightarrow> nat \<Rightarrow> nat option \<Rightarrow> (category \<times> issue_type option) result" where
  "validateRoutingSelection db ty categ issue =
     (case find_row cat_id (db_categories db) categ of
        None \<Rightarrow> Inl (BadRequest (Routing CategoryInvalid))
      | Some c \<Rightarrow>
          if cat_isDeleted c \<or> \<not> cat_isActive c then Inl (BadRequest (Routing CategoryInvalid))
          else if \<not> categorySupportsTicketType c ty then Inl (BadRequest (Routing CategoryMismatch))
          else (case issue of
              None \<Rightarrow> Inr (c, None)
            | Some n \<Rightarrow> (case live_issue db n of
                None \<Rightarrow> Inl (BadRequest (Routing IssueInvalid))
              | Some i \<Rightarrow> if it_categoryId i \<noteq> Some (cat_id c) then Inl (BadRequest (Routing IssueMismatch))
                         else Inr (c, Some i))))"

definition recalculateTicketSlaAfterRoutingChange ::
  "env \<Rightarrow> db \<Rightarrow> ticket \<Rightarrow> issue_type option \<Rightarrow> ticket result" where
  "recalculateTicketSlaAfterRoutingChange env db t issue =
     (case (truthy (assignedToId t), slaStartedAt t) of
        (True, Some start) \<Rightarrow>
          let target = (case issue of Some i \<Rightarrow> config_slaHours (Some i) | None \<Rightarrow> 4);
              credited = getSlaHoursIncludingCreditedPause target (accumulatedPauseSeconds t)
          in if target \<le> 0 then Inr (t\<lparr>slaDeadline := None\<rparr>)
             else (case db_config db of
                 Some c \<Rightarrow> and_then
                   (calculateSlaDeadline (env_h24 env) (office_of db) start credited (ticketCalendar c t))
                   (\<lambda>d. Inr (t\<lparr>slaDeadline := Some d\<rparr>))
               | None \<Rightarrow> Inr (t\<lparr>slaDeadline := Some (date_of_rat (of_int start + credited * 60 * 60 * 1000))\<rparr>))
      | _ \<Rightarrow> Inr (t\<lparr>slaDeadline := None\<rparr>))"

definition type_change_guard ::
  "env \<Rightarrow> ticket \<Rightarrow> update_dto \<Rightarrow> escalation option \<Rightarrow> nat \<Rightarrow> user_role \<Rightarrow> http_error option" where
  "type_change_guard env t dto latest actor role =
     (case dto_ticketType dto of
        None \<Rightarrow> None
      | Some ty \<Rightarrow>
          let caps = env_caps env;
              escalated = (case latest of Some e \<Rightarrow> esc_status e \<noteq> RETURNED | None \<Rightarrow> False);
              acceptedFocal = (case latest of
                  Some e \<Rightarrow> esc_status e = ACCEPTED \<and> escalatedToId e = actor | None \<Rightarrow> False)
          in first_error [
               (escalated \<and> \<not> isTicketSettingsFocal caps role \<and> \<not> acceptedFocal,
                  Forbidden (Update TypeWhileEscalated)),
               (\<not> escalated \<and> \<not> isTicketSettingsFocal caps role \<and> assignedToId t \<noteq> Some actor,
                  Forbidden (Update TypeNotPermitted)),
               (ty = SPECIALIZED_CONCERNS \<and> truthy (assignedToId t)
                  \<and> assertSpecializedAssigneeEligibility caps ty
                       (env_getUserById env (number (assignedToId t))) \<noteq> None,
                  BadRequest (Update SpecializedFirst))])"

text \<open>The validated issue: an issue inherited from the previous routing is dropped when it does not fit.\<close>

definition validated_issue ::
  "db \<Rightarrow> ticket \<Rightarrow> update_dto \<Rightarrow> ticket_type \<Rightarrow> nat option \<Rightarrow> nat option
    \<Rightarrow> (nat option \<times> issue_type option) result" where
  "validated_issue db t dto ty nextCategory nextIssue =
     (case nextCategory of
        None \<Rightarrow> if nextIssue \<noteq> None then Inl (BadRequest (Update CategoryBeforeIssue)) else Inr (None, None)
      | Some c \<Rightarrow>
          (case validateRoutingSelection db ty c nextIssue of
             Inr v \<Rightarrow> Inr (nextIssue, snd v)
           | Inl e \<Rightarrow>
               if nextIssue \<noteq> None \<and> dto_issueTypeId dto = None
                  \<and> (ty \<noteq> ticketType t \<or> nextCategory \<noteq> categoryId t)
               then and_then (validateRoutingSelection db ty c None) (\<lambda>v. Inr (None, None))
               else Inl e))"

definition routed :: "ticket \<Rightarrow> ticket_type \<Rightarrow> nat option \<Rightarrow> nat option \<Rightarrow> issue_type option \<Rightarrow> ticket" where
  "routed t ty categ issueId issue = t\<lparr>ticketType := ty, categoryId := categ, issueTypeId := issueId,
     issueTypeConfig := issue, issueType := (case issue of Some i \<Rightarrow> it_key i | None \<Rightarrow> ''other'')\<rparr>"

definition apply_routing ::
  "env \<Rightarrow> db \<Rightarrow> ticket \<Rightarrow> update_dto \<Rightarrow> escalation option \<Rightarrow> nat \<Rightarrow> user_role \<Rightarrow> ticket result" where
  "apply_routing env db t dto latest actor role =
     (if dto_ticketType dto = None \<and> dto_categoryId dto = None \<and> dto_issueTypeId dto = None then Inr t
      else
        let nextType = (case dto_ticketType dto of Some ty \<Rightarrow> ty | None \<Rightarrow> ticketType t);
            changed = (nextType \<noteq> ticketType t);
            nextCategory = (case dto_categoryId dto of
                Some c \<Rightarrow> c | None \<Rightarrow> if changed then None else categoryId t);
            nextIssue = (case dto_issueTypeId dto of
                Some i \<Rightarrow> i | None \<Rightarrow> if changed then None else issueTypeId t)
        in guarded (type_change_guard env t dto latest actor role)
           (guarded (first_error [(dto_categoryId dto = Some None, BadRequest (Update CategoryRequired))])
             (and_then (validated_issue db t dto nextType nextCategory nextIssue) (\<lambda>(issueId, issue).
               let t' = routed t nextType nextCategory issueId issue
               in if issueTypeId t \<noteq> issueId then recalculateTicketSlaAfterRoutingChange env db t' issue
                  else Inr t'))))"

section \<open>Priority and status\<close>

definition apply_priority :: "update_dto \<Rightarrow> bool \<Rightarrow> ticket \<Rightarrow> ticket result" where
  "apply_priority dto allowed t =
     (case dto_priority dto of
        None \<Rightarrow> Inr t
      | Some p \<Rightarrow> if \<not> allowed then Inl (Forbidden (Update PriorityNotAllowed))
                  else Inr (t\<lparr>priority := Some p\<rparr>))"

text \<open>The matrix of transitions.\<close>

definition ALLOWED_TRANSITIONS ::
  "capability_cache \<Rightarrow> user_role \<Rightarrow> ticket_status option \<Rightarrow> ticket_status \<Rightarrow> ticket_status list" where
  "ALLOWED_TRANSITIONS caps role frozenReturn s =
     (let admin = isTicketStatusAdmin caps role;
          dup = (if isTicketSettingsFocal caps role then [DUPLICATE] else [])
      in case s of
           OPEN \<Rightarrow> if admin then FREEZE # dup else []
         | ASSIGNED \<Rightarrow> if admin then [IN_PROGRESS, FREEZE] @ dup @ [OPEN] else [IN_PROGRESS]
         | IN_PROGRESS \<Rightarrow> if admin then [RESOLVED, PAUSE, FREEZE] @ dup else [RESOLVED, PAUSE]
         | PAUSE \<Rightarrow> [IN_PROGRESS, RESOLVED]
         | RESOLVED \<Rightarrow> [CLOSED]
         | FREEZE \<Rightarrow> if admin then [OPEN, ASSIGNED, IN_PROGRESS, RESOLVED]
                     else (case frozenReturn of Some r \<Rightarrow> [r] | None \<Rightarrow> [])
         | CLOSED \<Rightarrow> [] | DUPLICATE \<Rightarrow> [] | CANCELLED \<Rightarrow> [])"

definition allowed_transitions ::
  "capability_cache \<Rightarrow> user_role \<Rightarrow> ticket \<Rightarrow> update_dto \<Rightarrow> ticket_status option \<Rightarrow> ticket_status list" where
  "allowed_transitions caps role t dto frozenReturn =
     (let allowed = ALLOWED_TRANSITIONS caps role frozenReturn (status t)
      in if role \<noteq> SUPER_ADMIN \<and> \<not> returning_frozen t dto frozenReturn then remove1 OPEN allowed else allowed)"

definition status_guard ::
  "capability_cache \<Rightarrow> ticket \<Rightarrow> update_dto \<Rightarrow> ticket_status \<Rightarrow> escalation option \<Rightarrow> bool \<Rightarrow> nat \<Rightarrow> user_role
    \<Rightarrow> ticket_status option \<Rightarrow> http_error option" where
  "status_guard caps t dto s latest eligibleAssigned actor role frozenReturn =
     (let settings = isTicketSettingsFocal caps role;
          activeEscalation = (case latest of Some e \<Rightarrow> esc_status e \<in> {PENDING, ACCEPTED} | None \<Rightarrow> False);
          pending = (case latest of Some e \<Rightarrow> esc_status e = PENDING | None \<Rightarrow> False);
          accepted = accepted_of latest
      in first_error [
           (s = DUPLICATE \<and> \<not> settings, Forbidden (StatusChange DuplicateAdminOnly)),
           (s = DUPLICATE \<and> activeEscalation, BadRequest (StatusChange ReturnEscalationFirst)),
           (pending, Forbidden (StatusChange EscalationPending)),
           (accepted \<noteq> None \<and> \<not> isAcceptedEscalationOperator caps accepted actor role,
              Forbidden (StatusChange EscalationAccepted)),
           (accepted = None \<and> \<not> isTicketStatusAdmin caps role \<and> \<not> eligibleAssigned,
              Forbidden (StatusChange StatusNotAssigned)),
           (s \<notin> set (allowed_transitions caps role t dto frozenReturn),
              Forbidden (StatusChange TransitionNotAllowed)),
           (s = IN_PROGRESS \<and> priority t = None, BadRequest (StatusChange PriorityBeforeProgress))])"

section \<open>Marking a duplicate\<close>

definition duplicate_extra_fields :: "update_dto \<Rightarrow> bool" where
  "duplicate_extra_fields dto \<longleftrightarrow> dto_subject dto \<noteq> None \<or> dto_description dto \<noteq> None
     \<or> dto_priority dto \<noteq> None \<or> dto_resolutionNotes dto \<noteq> None \<or> dto_resolutionSteps dto \<noteq> None
     \<or> dto_resolutionDate dto \<noteq> None \<or> dto_issueTypeId dto \<noteq> None \<or> dto_ticketType dto \<noteq> None
     \<or> dto_generateKb dto \<noteq> None \<or> dto_categoryId dto \<noteq> None"

definition mark_duplicate :: "db \<Rightarrow> ticket \<Rightarrow> bool \<Rightarrow> update_dto \<Rightarrow> ticket result" where
  "mark_duplicate db t overdue dto =
     guarded (first_error [(duplicate_extra_fields dto, BadRequest (StatusChange DuplicateCombined))])
     (guarded (assertValidDuplicateSource t overdue)
     (guarded (first_error [
        (case dto_statusJustification dto of
           None \<Rightarrow> True | Some j \<Rightarrow> trim j = [] \<or> 2000 < length (trim j), BadRequest (StatusChange DuplicateReason)),
        (dto_duplicateOfId dto = None, BadRequest (StatusChange DuplicateOfRequired))])
     (case find_ticket db (number (dto_duplicateOfId dto)) of
        None \<Rightarrow> Inl (BadRequest (StatusChange OriginalNotFound))
      | Some original \<Rightarrow> guarded (assertValidDuplicateOriginal t original)
          (Inr (t\<lparr>duplicateOfId := dto_duplicateOfId dto, status := DUPLICATE,
                  slaPausedAt := None, isSlaWaiting := False\<rparr>)))))"

section \<open>The SLA clock at a status change\<close>

text \<open>\<open>this.configRepo.findOne\<close> followed by a use of the configuration: without the row the read of its
  properties fails.\<close>

definition the_config :: "db \<Rightarrow> ticketing_config result" where
  "the_config db = (case db_config db of Some c \<Rightarrow> Inr c | None \<Rightarrow> Inl InternalServerError)"

text \<open>
  Crediting an open pause: the business seconds since \<open>slaPausedAt\<close>, capped for a manual pause, go to
  the ledger and the deadline is recomputed when \<open>recompute\<close> holds of the ticket.
\<close>

definition credit_open_pause ::
  "env \<Rightarrow> db \<Rightarrow> ticket \<Rightarrow> date \<Rightarrow> ticket_status \<Rightarrow> bool \<Rightarrow> ticket result" where
  "credit_open_pause env db t pausedAt original recompute =
     and_then (the_config db) (\<lambda>config.
     and_then (ticket_business_seconds env db config t pausedAt (env_now env)) (\<lambda>seconds.
       let capped = capManualPauseBusinessSeconds original seconds (configuredPauseHours t);
           t' = creditTicketPause t pausedAt (env_now env) (of_int capped)
       in case (recompute, configuredSlaHours t') of
            (True, Some slaHours) \<Rightarrow> and_then
              (credited_deadline env db config t' slaHours (accumulatedPauseSeconds t'))
              (\<lambda>d. Inr (t'\<lparr>slaDeadline := Some d\<rparr>))
          | _ \<Rightarrow> Inr t'))"

abbreviation pausing_statuses :: "ticket_status set" where
  "pausing_statuses \<equiv> {FREEZE, PAUSE, OPEN}"

definition sla_transition :: "env \<Rightarrow> db \<Rightarrow> ticket \<Rightarrow> ticket_status \<Rightarrow> ticket result" where
  "sla_transition env db t s =
     (let wasPaused = (status t \<in> pausing_statuses \<or> isSlaWaiting t);
          willBePaused = (s \<in> pausing_statuses)
      in if s = IN_PROGRESS \<and> slaStartedAt t = None
         then (let t' = t\<lparr>slaStartedAt := Some (env_now env), accumulatedPauseSeconds := 0,
                          slaPausedAt := None, isSlaWaiting := False\<rparr>
               in and_then (calculateTicketSlaDeadline env db t' (env_now env))
                    (\<lambda>d. Inr (t'\<lparr>slaDeadline := d\<rparr>)))
         else if willBePaused \<and> \<not> wasPaused then Inr (t\<lparr>slaPausedAt := Some (env_now env)\<rparr>)
         else (case (wasPaused \<and> \<not> willBePaused, slaPausedAt t) of
             (True, Some pausedAt) \<Rightarrow> and_then (credit_open_pause env db t pausedAt (status t) True)
               (\<lambda>t'. Inr (t'\<lparr>slaPausedAt := None, isSlaWaiting := False\<rparr>))
           | _ \<Rightarrow> Inr t))"

definition enter_status :: "ticket_status \<Rightarrow> ticket \<Rightarrow> ticket" where
  "enter_status s t =
     (if s = IN_PROGRESS then t\<lparr>status := s, isSlaWaiting := False, slaPausedAt := None\<rparr>
      else t\<lparr>status := s\<rparr>)"

text \<open>The end of a pause that is still open when the ticket reaches a terminal state.\<close>

definition terminal_unpause :: "env \<Rightarrow> db \<Rightarrow> ticket_status \<Rightarrow> ticket_status \<Rightarrow> ticket \<Rightarrow> ticket result" where
  "terminal_unpause env db original s t =
     (if s \<notin> {RESOLVED, CLOSED, DUPLICATE} then Inr t
      else and_then
        (case slaPausedAt t of
           None \<Rightarrow> Inr t
         | Some pausedAt \<Rightarrow> credit_open_pause env db t pausedAt original (slaDeadline t \<noteq> None))
        (\<lambda>t'. Inr (t'\<lparr>slaPausedAt := None, isSlaWaiting := False\<rparr>)))"

definition change_guard :: "ticket \<Rightarrow> update_dto \<Rightarrow> ticket_status \<Rightarrow> http_error option" where
  "change_guard t dto s = first_error [
     (s = RESOLVED \<and> priority t = None \<and> dto_priority dto = None,
        BadRequest (StatusChange PriorityBeforeResolved)),
     (s = RESOLVED \<and> issueTypeId t = None, BadRequest (StatusChange IssueBeforeResolved)),
     (s \<in> {FREEZE, PAUSE} \<and> blank (dto_statusJustification dto),
        BadRequest (StatusChange JustificationRequired))]"

section \<open>Resolution fields\<close>

definition apply_resolution_texts :: "update_dto \<Rightarrow> ticket \<Rightarrow> ticket" where
  "apply_resolution_texts dto t = t\<lparr>
     resolutionNotes := (case dto_resolutionNotes dto of Some n \<Rightarrow> Some n | None \<Rightarrow> resolutionNotes t),
     resolutionSteps := (case dto_resolutionSteps dto of
        Some s \<Rightarrow> if trim s = [] then None else Some (trim s) | None \<Rightarrow> resolutionSteps t)\<rparr>"

definition apply_resolution_date :: "update_dto \<Rightarrow> ticket \<Rightarrow> ticket result" where
  "apply_resolution_date dto t =
     (case dto_resolutionDate dto of
        None \<Rightarrow> Inr t
      | Some None \<Rightarrow> Inr (t\<lparr>resolutionDate := None\<rparr>)
      | Some (Some d) \<Rightarrow> (case date_parse d of
          None \<Rightarrow> Inl (BadRequest (StatusChange InvalidResolutionDate))
        | Some x \<Rightarrow> Inr (t\<lparr>resolutionDate := Some x\<rparr>)))"

definition mark_kb :: "update_dto \<Rightarrow> ticket \<Rightarrow> ticket" where
  "mark_kb dto t =
     (if dto_status dto = Some RESOLVED \<and> dto_generateKb dto = Some True
         \<and> (case resolutionNotes t of Some n \<Rightarrow> n \<noteq> [] | None \<Rightarrow> False)
      then t\<lparr>isKbGenerationPending := True\<rparr> else t)"

definition apply_resolution :: "update_dto \<Rightarrow> ticket \<Rightarrow> ticket result" where
  "apply_resolution dto t =
     and_then (apply_resolution_date dto (apply_resolution_texts dto t)) (\<lambda>t. Inr (mark_kb dto t))"

end
