(* ===== verification/Queue.thy ===== *)
theory Queue
  imports Store
begin

text \<open>
  The per-technician queue.  A ticket assigned to a busy technician waits (\<open>isSlaWaiting\<close>); when the
  technician is free the oldest waiting ticket is promoted and its SLA clock starts.  A promotion is
  a conditional update: it is prepared from one read of the tables and takes effect only if the row
  still is what was read.
\<close>

definition oldest_waiting :: "db \<Rightarrow> nat \<Rightarrow> ticket_status list \<Rightarrow> ticket option" where
  "oldest_waiting db tech ss = oldest_by createdAt
     (filter (\<lambda>t. assignedToId t = Some tech \<and> isSlaWaiting t \<and> status t \<in> set ss) (db_tickets db))"

section \<open>Promotion to In Progress\<close>

text \<open>The columns an update sets, prepared from the ticket that was read.\<close>

definition promoted_ticket :: "env \<Rightarrow> db \<Rightarrow> ticket \<Rightarrow> ticket result" where
  "promoted_ticket env db t =
     (let now = env_now env;
          t' = (recordInterruptionTransition (without_relations t) (status t) IN_PROGRESS now)
                 \<lparr>isSlaWaiting := False, status := IN_PROGRESS, lastAssignedAt := Some now,
                  accumulatedPauseSeconds := 0, slaPausedAt := None, slaStartedAt := Some now\<rparr>
      in and_then (calculateTicketSlaDeadline env db t' now) (\<lambda>d. Inr (t'\<lparr>slaDeadline := d\<rparr>)))"

text \<open>\<open>UPDATE ... WHERE id AND is_sla_waiting AND status = previous AND assigned_to_id = tech AND
  interruption_history <=> previous\<close>.\<close>

definition commit_promotion :: "env \<Rightarrow> ticket \<Rightarrow> ticket \<Rightarrow> nat \<Rightarrow> db \<Rightarrow> bool \<times> db" where
  "commit_promotion env seen new tech db =
     (case find_ticket db (ticket_id seen) of
        None \<Rightarrow> (False, db)
      | Some row \<Rightarrow>
          if isSlaWaiting row \<and> status row = status seen \<and> assignedToId row = Some tech
             \<and> interruptionHistory row = interruptionHistory seen
          then (True, save_ticket env (row\<lparr>isSlaWaiting := False, status := IN_PROGRESS,
                  lastAssignedAt := lastAssignedAt new, slaStartedAt := slaStartedAt new,
                  slaDeadline := slaDeadline new, accumulatedPauseSeconds := accumulatedPauseSeconds new,
                  slaPausedAt := slaPausedAt new, interruptionHistory := interruptionHistory new\<rparr>) db)
          else (False, db))"

definition unpauseNextWaitingTicketAndSetInProgress :: "env \<Rightarrow> nat \<Rightarrow> db \<Rightarrow> bool result \<times> db" where
  "unpauseNextWaitingTicketAndSetInProgress env tech db =
     (case oldest_waiting db tech [ASSIGNED, PAUSE] of
        None \<Rightarrow> (Inr False, db)
      | Some t \<Rightarrow>
          (case promoted_ticket env db t of
             Inl e \<Rightarrow> (Inl e, db)
           | Inr new \<Rightarrow>
               (case commit_promotion env t new tech db of
                  (False, db') \<Rightarrow> (Inr False, db')
                | (True, db') \<Rightarrow> (Inr True, logEvent env (ticket_id t) ''queue_promoted'' None
                     (Some (status t)) (Some IN_PROGRESS) (Some tech) db'))))"

section \<open>Unstacking without a change of status\<close>

definition unstacked_ticket :: "env \<Rightarrow> db \<Rightarrow> ticket \<Rightarrow> ticket result" where
  "unstacked_ticket env db t =
     (let now = env_now env;
          t' = (without_relations t)\<lparr>isSlaWaiting := False, lastAssignedAt := Some now, slaPausedAt := None\<rparr>
      in if status t = IN_PROGRESS \<and> slaStartedAt t = None
         then (let t'' = t'\<lparr>slaStartedAt := Some now, accumulatedPauseSeconds := 0\<rparr>
               in and_then (calculateTicketSlaDeadline env db t'' now) (\<lambda>d. Inr (t''\<lparr>slaDeadline := d\<rparr>)))
         else Inr t')"

definition commit_unstack :: "env \<Rightarrow> ticket \<Rightarrow> ticket \<Rightarrow> db \<Rightarrow> bool \<times> db" where
  "commit_unstack env seen new db =
     (case find_ticket db (ticket_id seen) of
        None \<Rightarrow> (False, db)
      | Some row \<Rightarrow>
          if isSlaWaiting row
          then (True, save_ticket env (row\<lparr>isSlaWaiting := False,
                  lastAssignedAt := lastAssignedAt new, slaStartedAt := slaStartedAt new,
                  slaDeadline := slaDeadline new, accumulatedPauseSeconds := accumulatedPauseSeconds new,
                  slaPausedAt := slaPausedAt new\<rparr>) db)
          else (False, db))"

definition unpauseNextWaitingTicket :: "env \<Rightarrow> nat \<Rightarrow> db \<Rightarrow> bool result \<times> db" where
  "unpauseNextWaitingTicket env tech db =
     (case oldest_waiting db tech [ASSIGNED, IN_PROGRESS, PAUSE] of
        None \<Rightarrow> (Inr False, db)
      | Some t \<Rightarrow>
          (case unstacked_ticket env db t of
             Inl e \<Rightarrow> (Inl e, db)
           | Inr new \<Rightarrow>
               (case commit_unstack env t new db of
                  (False, db') \<Rightarrow> (Inr False, db')
                | (True, db') \<Rightarrow> (Inr True, logEvent env (ticket_id t) ''queue_promoted'' None
                     (Some (status t)) (Some (status t)) (Some tech) db'))))"

section \<open>Laws\<close>

lemma oldest_waiting_Some:
  assumes "oldest_waiting db tech ss = Some t"
  shows "t \<in> set (db_tickets db) \<and> assignedToId t = Some tech \<and> isSlaWaiting t \<and> status t \<in> set ss
    \<and> (\<forall>u \<in> set (db_tickets db). assignedToId u = Some tech \<longrightarrow> isSlaWaiting u \<longrightarrow> status u \<in> set ss
          \<longrightarrow> createdAt t \<le> createdAt u)"
  using oldest_by_Some [OF assms [unfolded oldest_waiting_def]] by auto

lemma oldest_waiting_None_iff:
  "oldest_waiting db tech ss = None \<longleftrightarrow>
     (\<forall>t \<in> set (db_tickets db). \<not> (assignedToId t = Some tech \<and> isSlaWaiting t \<and> status t \<in> set ss))"
  by (auto simp: oldest_waiting_def oldest_by_None_iff filter_empty_conv)

lemma promoted_ticket_fields:
  assumes "promoted_ticket env db t = Inr new"
  shows "status new = IN_PROGRESS \<and> \<not> isSlaWaiting new \<and> slaPausedAt new = None
    \<and> slaStartedAt new = Some (env_now env) \<and> accumulatedPauseSeconds new = 0
    \<and> lastAssignedAt new = Some (env_now env) \<and> ticket_id new = ticket_id t
    \<and> interruptionHistory new = interruptionHistory
        (recordInterruptionTransition (without_relations t) (status t) IN_PROGRESS (env_now env))"
  using assms by (auto simp: promoted_ticket_def Let_def and_then_Inr_iff without_relations_def)

text \<open>On the tables it was read from, a promotion is committed.\<close>

lemma commit_promotion_same:
  assumes "table_ok ticket_id (db_tickets db)" "oldest_waiting db tech [ASSIGNED, PAUSE] = Some t"
  shows "commit_promotion env t new tech db = (True, save_ticket env (t\<lparr>isSlaWaiting := False,
     status := IN_PROGRESS, lastAssignedAt := lastAssignedAt new, slaStartedAt := slaStartedAt new,
     slaDeadline := slaDeadline new, accumulatedPauseSeconds := accumulatedPauseSeconds new,
     slaPausedAt := slaPausedAt new, interruptionHistory := interruptionHistory new\<rparr>) db)"
proof -
  note t = oldest_waiting_Some [OF assms(2)]
  then have "find_ticket db (ticket_id t) = Some t"
    using assms(1) by (simp add: find_ticket_def find_row_table_ok)
  with t show ?thesis by (simp add: commit_promotion_def)
qed

text \<open>The three outcomes of a promotion.\<close>

lemma promotion_cases:
  assumes "table_ok ticket_id (db_tickets db)"
  obtains (empty) "oldest_waiting db tech [ASSIGNED, PAUSE] = None"
      "unpauseNextWaitingTicketAndSetInProgress env tech db = (Inr False, db)"
  | (failed) t e where "oldest_waiting db tech [ASSIGNED, PAUSE] = Some t"
      "unpauseNextWaitingTicketAndSetInProgress env tech db = (Inl e, db)"
  | (promoted) t t' where "oldest_waiting db tech [ASSIGNED, PAUSE] = Some t"
      "unpauseNextWaitingTicketAndSetInProgress env tech db =
         (Inr True, logEvent env (ticket_id t) ''queue_promoted'' None (Some (status t))
            (Some IN_PROGRESS) (Some tech) (save_ticket env t' db))"
      "ticket_id t' = ticket_id t" "status t' = IN_PROGRESS" "\<not> isSlaWaiting t'" "slaPausedAt t' = None"
      "slaStartedAt t' = Some (env_now env)" "accumulatedPauseSeconds t' = 0" "assignedToId t' = Some tech"
      "slaPauseLedger t' = slaPauseLedger t"
      "interruptionHistory t' = interruptionHistory
        (recordInterruptionTransition (without_relations t) (status t) IN_PROGRESS (env_now env))"
proof (cases "oldest_waiting db tech [ASSIGNED, PAUSE]")
  case None
  then show ?thesis by (intro empty) (simp_all add: unpauseNextWaitingTicketAndSetInProgress_def)
next
  case (Some t)
  show ?thesis
  proof (cases "promoted_ticket env db t")
    case (Inl e)
    with Some show ?thesis by (intro failed) (simp_all add: unpauseNextWaitingTicketAndSetInProgress_def)
  next
    case (Inr new)
    note f = promoted_ticket_fields [OF Inr]
    note w = oldest_waiting_Some [OF Some]
    let ?t' = "t\<lparr>isSlaWaiting := False, status := IN_PROGRESS, lastAssignedAt := lastAssignedAt new,
      slaStartedAt := slaStartedAt new, slaDeadline := slaDeadline new,
      accumulatedPauseSeconds := accumulatedPauseSeconds new, slaPausedAt := slaPausedAt new,
      interruptionHistory := interruptionHistory new\<rparr>"
    have "unpauseNextWaitingTicketAndSetInProgress env tech db =
         (Inr True, logEvent env (ticket_id t) ''queue_promoted'' None (Some (status t))
            (Some IN_PROGRESS) (Some tech) (save_ticket env ?t' db))"
      using Some Inr by (simp add: unpauseNextWaitingTicketAndSetInProgress_def
          commit_promotion_same [OF assms Some])
    then show ?thesis
      by (rule promoted [of t ?t', OF Some]) (use f w in simp_all)
  qed
qed

text \<open>A promotion whose row changed in between writes nothing.\<close>

lemma commit_promotion_changed:
  assumes "find_ticket db (ticket_id seen) = Some row"
    "status row \<noteq> status seen \<or> assignedToId row \<noteq> Some tech \<or> \<not> isSlaWaiting row
       \<or> interruptionHistory row \<noteq> interruptionHistory seen"
  shows "commit_promotion env seen new tech db = (False, db)"
  using assms by (auto simp: commit_promotion_def)

lemma promotion_db_ok:
  assumes "db_ok db"
  shows "db_ok (snd (unpauseNextWaitingTicketAndSetInProgress env tech db))"
proof -
  have "table_ok ticket_id (db_tickets db)" using assms by (simp add: db_ok_def)
  then show ?thesis
    using assms by (cases rule: promotion_cases [of db tech env]) (auto simp: table_simps)
qed

end
