(* ===== verification/UpdateTicket.thy ===== *)
theory UpdateTicket
  imports UpdateRules Queue
begin

text \<open>
  \<open>updateTicket\<close>: the writes of a status change (justification, queue push-back), the automatic
  reassignment of a reopened ticket, the guarded save, the events and the queue hand-off when work
  ends.  The result carries the tables even when the handler throws, because the justification and
  the push-back are saved before the ticket is.
\<close>

section \<open>Writes of a status change\<close>

definition record_justification :: "env \<Rightarrow> ticket \<Rightarrow> update_dto \<Rightarrow> ticket_status \<Rightarrow> nat \<Rightarrow> db \<Rightarrow> db" where
  "record_justification env t dto s actor db =
     (case dto_statusJustification dto of
        Some j \<Rightarrow> if s \<in> {FREEZE, PAUSE}
          then save_justification \<lparr>just_ticketId = ticket_id t, just_status = s,
                 justification = trim j, just_createdBy = actor\<rparr> db
          else db
      | None \<Rightarrow> db)"

text \<open>A resumed ticket takes precedence: the assigned, not yet queued tickets go to the queue.\<close>

definition pushed_back :: "env \<Rightarrow> ticket \<Rightarrow> ticket" where
  "pushed_back env t = t\<lparr>isSlaWaiting := True,
     slaPausedAt := (case slaPausedAt t of None \<Rightarrow> Some (env_now env) | Some d \<Rightarrow> Some d)\<rparr>"

definition pushback_targets :: "db \<Rightarrow> ticket \<Rightarrow> ticket list" where
  "pushback_targets db t = filter (\<lambda>u. assignedToId u = assignedToId t \<and> status u = ASSIGNED
     \<and> ticket_id u \<noteq> ticket_id t \<and> \<not> isSlaWaiting u) (db_tickets db)"

definition push_back_queue :: "env \<Rightarrow> ticket \<Rightarrow> ticket_status \<Rightarrow> ticket_status \<Rightarrow> db \<Rightarrow> db" where
  "push_back_queue env t original s db =
     (if s = IN_PROGRESS \<and> original \<in> {FREEZE, PAUSE} \<and> truthy (assignedToId t)
      then save_tickets env (map (pushed_back env) (pushback_targets db t)) db
      else db)"

section \<open>Reopening\<close>

definition choose_for_reopened :: "env \<Rightarrow> db \<Rightarrow> ticket \<Rightarrow> account option" where
  "choose_for_reopened env db t =
     (if ticketType t \<noteq> SPECIALIZED_CONCERNS
         \<and> (ticketType t = PANTAWID_ICT_SUPPORT \<or> office_of db (env_today env))
      then let eligible = filter (\<lambda>u. \<not> isSeniorTech (env_caps env) (acc_role u))
                 (getAutoAssignmentTechnicians env db (Pool_of (ticketType t)) (env_today env))
           in (case config_strategy db of
                 CAPPED_ROUND_ROBIN \<Rightarrow> capped_round_robin env db eligible
               | CURRENT_AUTO \<Rightarrow>
                   pick_least (\<lambda>u. int (count_active db (acc_id u) [ASSIGNED, IN_PROGRESS])) eligible)
      else None)"

definition reopened :: "ticket \<Rightarrow> ticket" where
  "reopened t = t\<lparr>assignedToId := None, lastAssignedAt := None, isSlaWaiting := False,
     slaDeadline := None, accumulatedPauseSeconds := 0, slaPausedAt := None\<rparr>"

text \<open>The ticket, and the technician it was automatically given to.\<close>

definition reopen_ticket :: "env \<Rightarrow> db \<Rightarrow> ticket_status \<Rightarrow> ticket \<Rightarrow> ticket \<times> nat option" where
  "reopen_ticket env db s t =
     (if s \<noteq> OPEN then (t, None)
      else (case choose_for_reopened env db (reopened t) of
          None \<Rightarrow> (reopened t, None)
        | Some u \<Rightarrow> ((reopened t)\<lparr>assignedToId := Some (acc_id u), status := ASSIGNED,
                       lastAssignedAt := Some (env_now env)\<rparr>, Some (acc_id u))))"

definition confirm_assignment :: "env \<Rightarrow> db \<Rightarrow> ticket \<times> nat option \<Rightarrow> ticket \<times> nat option" where
  "confirm_assignment env db ta =
     (case ta of
        (t, Some tech) \<Rightarrow>
          if canAutomaticallyAssign env db tech (Pool_of (ticketType t)) (env_today env) (requesterId t)
          then (t, Some tech)
          else (t\<lparr>assignedToId := None, status := OPEN, lastAssignedAt := None\<rparr>, None)
      | (t, None) \<Rightarrow> (t, None))"

section \<open>The status change\<close>

text \<open>The else branch of \<open>dto.status === DUPLICATE\<close>: the tables it leaves and, if it does not throw,
  the ticket and the automatic assignment.\<close>

definition change_status ::
  "env \<Rightarrow> ticket \<Rightarrow> update_dto \<Rightarrow> ticket_status \<Rightarrow> nat \<Rightarrow> db \<Rightarrow> (ticket \<times> nat option) result \<times> db" where
  "change_status env t dto s actor db =
     (case change_guard t dto s of
        Some e \<Rightarrow> (Inl e, db)
      | None \<Rightarrow>
          let db1 = record_justification env t dto s actor db
          in (case sla_transition env db1 t s of
                Inl e \<Rightarrow> (Inl e, db1)
              | Inr t1 \<Rightarrow>
                  let db2 = push_back_queue env t (status t) s db1;
                      (t2, auto) = reopen_ticket env db2 s (enter_status s t1);
                      t3 = (if s = RESOLVED \<and> resolvedAt t2 = None then t2\<lparr>resolvedAt := Some (env_now env)\<rparr> else t2)
                  in (and_then (terminal_unpause env db2 (status t) s t3) (\<lambda>t4. Inr (t4, auto)), db2)))"

definition apply_status ::
  "env \<Rightarrow> ticket_view \<Rightarrow> ticket \<Rightarrow> update_dto \<Rightarrow> escalation option \<Rightarrow> bool \<Rightarrow> nat \<Rightarrow> user_role
    \<Rightarrow> ticket_status option \<Rightarrow> db \<Rightarrow> (ticket \<times> nat option) result \<times> db" where
  "apply_status env v t dto latest eligibleAssigned actor role frozenReturn db =
     (case dto_status dto of
        None \<Rightarrow> (Inr (t, None), db)
      | Some s \<Rightarrow>
          (case status_guard (env_caps env) t dto s latest eligibleAssigned actor role frozenReturn of
             Some e \<Rightarrow> (Inl e, db)
           | None \<Rightarrow>
               if s = DUPLICATE
               then (and_then (mark_duplicate db t (isOverdue (view_sla v)) dto) (\<lambda>t. Inr (t, None)), db)
               else change_status env t dto s actor db))"

section \<open>Saving\<close>

definition persistTicketUpdate :: "env \<Rightarrow> ticket \<Rightarrow> date \<Rightarrow> db \<Rightarrow> ticket result \<times> db" where
  "persistTicketUpdate env t expectedUpdatedAt db =
     (case find_ticket db (ticket_id t) of
        None \<Rightarrow> (Inl (Conflict (StatusChange NoLongerEditable)), db)
      | Some current \<Rightarrow>
          if status current = CANCELLED then (Inl (Conflict (StatusChange NoLongerEditable)), db)
          else if updatedAt current \<noteq> expectedUpdatedAt then (Inl (Conflict (StatusChange TicketChanged)), db)
          else (Inr (stamp env t), save_ticket env t db))"

text \<open>The checks \<open>persistDuplicateTicket\<close> repeats on the locked rows.\<close>

definition duplicate_source_now :: "env \<Rightarrow> db \<Rightarrow> ticket \<Rightarrow> ticket result" where
  "duplicate_source_now env db source =
     repair_deadline env db (repair_flags (if issueTypeId source = None then without_relations source
                                           else with_relations db source))"

definition locked_duplicate_guard :: "env \<Rightarrow> db \<Rightarrow> ticket \<Rightarrow> ticket \<Rightarrow> nat \<Rightarrow> user_role \<Rightarrow> http_error option" where
  "locked_duplicate_guard env db source original actor role =
     (case assertTicketReadAccess env db source (Some actor) (Some role) of
        Some e \<Rightarrow> Some e
      | None \<Rightarrow> (case assertTicketReadAccess env db original (Some actor) (Some role) of
            Some e \<Rightarrow> Some e
          | None \<Rightarrow> assertValidDuplicateOriginal source original))"

definition duplicate_checks ::
  "env \<Rightarrow> ticket \<Rightarrow> ticket \<Rightarrow> date \<Rightarrow> nat \<Rightarrow> user_role \<Rightarrow> db \<Rightarrow> unit result" where
  "duplicate_checks env source original expectedUpdatedAt actor role db =
     guarded (first_error [(updatedAt source \<noteq> expectedUpdatedAt, Conflict (StatusChange TicketChanged))])
     (guarded (locked_duplicate_guard env db source original actor role)
     (and_then (duplicate_source_now env db source) (\<lambda>src.
       guarded (first_error [
         (getLatestActiveEscalation db (ticket_id src) \<noteq> None,
            BadRequest (StatusChange ReturnEscalationFirst)),
         (0 < count_rows (\<lambda>u. duplicateOfId u = Some (ticket_id src)) (db_tickets db),
            BadRequest (Duplicate HasDependants))])
       (and_then (projectTicketSlaState env db src (db_config db) (env_now env) None)
         (\<lambda>(src, state). guarded (assertValidDuplicateSource src (isOverdue state)) (Inr ()))))))"

definition persistDuplicateTicket ::
  "env \<Rightarrow> ticket \<Rightarrow> date \<Rightarrow> nat \<Rightarrow> user_role \<Rightarrow> db \<Rightarrow> ticket result \<times> db" where
  "persistDuplicateTicket env t expectedUpdatedAt actor role db =
     (case (find_ticket db (ticket_id t), find_ticket db (number (duplicateOfId t))) of
        (Some source, Some original) \<Rightarrow>
          (case duplicate_checks env source original expectedUpdatedAt actor role db of
             Inl e \<Rightarrow> (Inl e, db)
           | Inr _ \<Rightarrow>
                (Inr (t\<lparr>updatedAt := env_now env, resolvedAt := None\<rparr>),
                 logEvent env (ticket_id source) ''status_changed'' (Some actor) (Some (status source))
                   (Some DUPLICATE) None
                   (save_ticket env (source\<lparr>status := DUPLICATE, duplicateOfId := Some (ticket_id original),
                      slaPausedAt := None, isSlaWaiting := False\<rparr>) db)))
      | _ \<Rightarrow> (Inl (BadRequest (Duplicate SourceOrOriginalGone)), db))"

section \<open>Handing the queue on\<close>

definition pickup_candidate :: "env \<Rightarrow> db \<Rightarrow> nat \<Rightarrow> ticket \<Rightarrow> bool" where
  "pickup_candidate env db tech t \<longleftrightarrow> status t = OPEN \<and> assignedToId t = None
     \<and> (case overtimeDate t of None \<Rightarrow> True
        | Some ot \<Rightarrow> ot < env_today env \<and> office_of db (env_today env))
     \<and> ticketType t \<noteq> SPECIALIZED_CONCERNS \<and> requesterId t \<noteq> tech"

text \<open>Overtime carry-overs first, then by age.\<close>

definition next_open_ticket :: "env \<Rightarrow> db \<Rightarrow> nat \<Rightarrow> ticket option" where
  "next_open_ticket env db tech =
     (let cands = filter (pickup_candidate env db tech) (db_tickets db);
          carry = filter (\<lambda>t. overtimeDate t \<noteq> None) cands
      in oldest_by createdAt (if carry = [] then cands else carry))"

definition weekly_cap_reached :: "env \<Rightarrow> db \<Rightarrow> nat \<Rightarrow> bool" where
  "weekly_cap_reached env db tech \<longleftrightarrow> config_strategy db = CAPPED_ROUND_ROBIN
     \<and> of_nat (config_cap db) \<le> getWeeklySlaLoad env db tech"

definition picked_up :: "env \<Rightarrow> db \<Rightarrow> nat \<Rightarrow> ticket \<Rightarrow> ticket result" where
  "picked_up env db tech t =
     (let t' = (without_relations t)\<lparr>assignedToId := Some tech, status := IN_PROGRESS, isSlaWaiting := False,
                 lastAssignedAt := Some (env_now env), slaStartedAt := Some (env_now env),
                 accumulatedPauseSeconds := 0, slaPausedAt := None\<rparr>
      in and_then (calculateTicketSlaDeadline env db t' (env_now env)) (\<lambda>d. Inr (t'\<lparr>slaDeadline := d\<rparr>)))"

definition pick_up_open :: "env \<Rightarrow> nat \<Rightarrow> db \<Rightarrow> db" where
  "pick_up_open env tech db =
     (case next_open_ticket env db tech of
        None \<Rightarrow> db
      | Some t \<Rightarrow>
          if weekly_cap_reached env db tech then db
          else (case picked_up env db tech t of
              Inl _ \<Rightarrow> db
            | Inr t' \<Rightarrow>
                if \<not> canAutomaticallyAssign env db tech Pool_all (env_today env) (requesterId t) then db
                else (let db' = save_ticket env t' db
                      in if env_getUserById env tech = None then db'
                         else logEvent env (ticket_id t) ''auto_assigned'' None None None (Some tech) db')))"

definition is_senior_user :: "env \<Rightarrow> nat \<Rightarrow> bool" where
  "is_senior_user env tech = (case env_getUserById env tech of
     Some u \<Rightarrow> isSeniorTech (env_caps env) (acc_role u) | None \<Rightarrow> False)"

text \<open>The second attempt and the pick-up, for technicians who are present and free.\<close>

definition handoff_or_pickup :: "env \<Rightarrow> nat \<Rightarrow> db \<Rightarrow> db" where
  "handoff_or_pickup env tech db =
     (if is_senior_user env tech
         \<or> \<not> list_ex (\<lambda>u. acc_id u = tech) (getAutoAssignmentTechnicians env db Pool_all (env_today env))
         \<or> 0 < count_running db tech [ASSIGNED]
      then db
      else (case unpauseNextWaitingTicketAndSetInProgress env tech db of
          (Inl _, db') \<Rightarrow> db'
        | (Inr True, db') \<Rightarrow> db'
        | (Inr False, db') \<Rightarrow> pick_up_open env tech db'))"

definition queue_handoff :: "env \<Rightarrow> nat \<Rightarrow> db \<Rightarrow> db" where
  "queue_handoff env tech db =
     (if count_running db tech [ASSIGNED, PAUSE] = 0
      then (case unpauseNextWaitingTicketAndSetInProgress env tech db of
          (Inl _, db') \<Rightarrow> db'
        | (Inr True, db') \<Rightarrow> db'
        | (Inr False, db') \<Rightarrow> handoff_or_pickup env tech db')
      else handoff_or_pickup env tech db)"

definition update_events ::
  "env \<Rightarrow> update_dto \<Rightarrow> nat \<Rightarrow> ticket_status \<Rightarrow> ticket \<Rightarrow> nat option \<Rightarrow> db \<Rightarrow> db" where
  "update_events env dto actor original saved auto db =
     (let db1 = (case auto of
            Some tech \<Rightarrow> logEvent env (ticket_id saved) ''auto_assigned'' None None None (Some tech) db
          | None \<Rightarrow> db)
      in case dto_status dto of
           None \<Rightarrow> db1
         | Some s \<Rightarrow>
             if s \<in> {FREEZE, PAUSE} \<and> original = s
             then logEvent env (ticket_id saved) ''status_extended'' (Some actor) (Some original) (Some s) None db1
             else if s \<noteq> DUPLICATE
             then logEvent env (ticket_id saved) ''status_changed'' (Some actor) (Some original) (Some s) None db1
             else db1)"

text \<open>The technician whose queue is handed on: the assignee, when the requested status ends the work.\<close>

definition handoff_of :: "update_dto \<Rightarrow> ticket \<Rightarrow> nat option" where
  "handoff_of dto saved =
     (case dto_status dto of
        Some s \<Rightarrow> if s \<in> {RESOLVED, CLOSED, DUPLICATE, FREEZE} \<and> truthy (assignedToId saved)
                  then assignedToId saved else None
      | None \<Rightarrow> None)"

definition after_update ::
  "env \<Rightarrow> update_dto \<Rightarrow> nat \<Rightarrow> ticket_status \<Rightarrow> ticket \<Rightarrow> nat option \<Rightarrow> db \<Rightarrow> db" where
  "after_update env dto actor original saved auto db =
     (case handoff_of dto saved of
        Some tech \<Rightarrow> queue_handoff env tech (update_events env dto actor original saved auto db)
      | None \<Rightarrow> update_events env dto actor original saved auto db)"

section \<open>The handler\<close>

definition user_update :: "env \<Rightarrow> ticket \<Rightarrow> update_dto \<Rightarrow> nat \<Rightarrow> db \<Rightarrow> ticket result \<times> db" where
  "user_update env t dto actor db =
     (case user_guard t dto actor of
        Some e \<Rightarrow> (Inl e, db)
      | None \<Rightarrow>
          if dto_status dto = Some CLOSED
          then (let t' = t\<lparr>status := CLOSED, userClosed := True,
                          resolvedAt := (case resolvedAt t of Some d \<Rightarrow> Some d | None \<Rightarrow> Some (env_now env))\<rparr>
                in (Inr (stamp env t'),
                    logEvent env (ticket_id t) ''closed'' (Some actor) None None None (save_ticket env t' db)))
          else persistTicketUpdate env (apply_texts dto t) (updatedAt t) db)"

text \<open>The operator's request up to the status: texts, routing, priority.\<close>

definition prepare_update ::
  "env \<Rightarrow> db \<Rightarrow> ticket \<Rightarrow> update_dto \<Rightarrow> escalation option \<Rightarrow> nat \<Rightarrow> user_role \<Rightarrow> ticket result" where
  "prepare_update env db t dto latest actor role =
     guarded (operator_guard (env_caps env) t dto (accepted_of latest) actor role)
       (and_then (apply_routing env db (apply_texts dto t) dto latest actor role)
         (apply_priority dto (canUpdateOperationalFields (env_caps env) t (accepted_of latest) actor role)))"

text \<open>The end of the request: resolution fields, the confirmed assignment, the interruption record and
  the guarded save.\<close>

definition finish_update ::
  "env \<Rightarrow> update_dto \<Rightarrow> nat \<Rightarrow> user_role \<Rightarrow> ticket_status \<Rightarrow> date \<Rightarrow> ticket \<times> nat option \<Rightarrow> db
    \<Rightarrow> ticket result \<times> db" where
  "finish_update env dto actor role original expectedUpdatedAt ta db =
     (case apply_resolution dto (fst ta) of
        Inl e \<Rightarrow> (Inl e, db)
      | Inr t1 \<Rightarrow>
          let (t2, auto) = confirm_assignment env db (t1, snd ta);
              t3 = recordInterruptionTransition t2 original (status t2) (env_now env)
          in (case (if dto_status dto = Some DUPLICATE
                    then persistDuplicateTicket env t3 expectedUpdatedAt actor role db
                    else persistTicketUpdate env t3 expectedUpdatedAt db) of
                (Inl e, db') \<Rightarrow> (Inl e, db')
              | (Inr saved, db') \<Rightarrow> (Inr saved, after_update env dto actor original saved auto db')))"

definition operator_update ::
  "env \<Rightarrow> ticket_view \<Rightarrow> update_dto \<Rightarrow> escalation option \<Rightarrow> nat \<Rightarrow> user_role \<Rightarrow> ticket_status option
    \<Rightarrow> db \<Rightarrow> ticket result \<times> db" where
  "operator_update env v dto latest actor role frozenReturn db =
     (let t = view_ticket v
      in case prepare_update env db t dto latest actor role of
           Inl e \<Rightarrow> (Inl e, db)
         | Inr t1 \<Rightarrow>
             (case apply_status env v t1 dto latest (isEligibleAssignedOperator (env_caps env) t actor role)
                     actor role frozenReturn db of
                (Inl e, db1) \<Rightarrow> (Inl e, db1)
              | (Inr ta, db1) \<Rightarrow> finish_update env dto actor role (status t) (updatedAt t) ta db1))"

definition updateTicket ::
  "env \<Rightarrow> nat \<Rightarrow> update_dto \<Rightarrow> nat \<Rightarrow> user_role \<Rightarrow> db \<Rightarrow> ticket result \<times> db" where
  "updateTicket env n dto actor role db =
     (case getTicketById env db n (Some role) (Some actor) of
        Inl e \<Rightarrow> (Inl e, db)
      | Inr v \<Rightarrow>
          let t = view_ticket v;
              frozenReturn = (if status t = FREEZE then Some (resolveFrozenReturnStatus db t) else None);
              latest = getLatestEscalation db n
          in (case entry_guard t dto role frozenReturn of
                Some e \<Rightarrow> (Inl e, db)
              | None \<Rightarrow> if role = USER then user_update env t dto actor db
                        else operator_update env v dto latest actor role frozenReturn db))"

end
