(* ===== verification/Invariant.thy ===== *)
theory Invariant
  imports Access
begin

text \<open>
  The well-formedness of tickets that every handler keeps, and the frame of the SLA clock: which
  columns the clock operations touch.
\<close>

named_theorems wf_simps "well-formedness of written rows"

section \<open>Well-formed tickets\<close>

definition ticket_wf :: "ticket \<Rightarrow> bool" where
  "ticket_wf t \<longleftrightarrow> 0 \<le> accumulatedPauseSeconds t
     \<and> (status t = IN_PROGRESS \<longrightarrow> slaStartedAt t \<noteq> None \<and> \<not> isSlaWaiting t)
     \<and> (status t \<in> {RESOLVED, CLOSED, DUPLICATE, CANCELLED} \<longrightarrow> slaPausedAt t = None \<and> \<not> isSlaWaiting t)
     \<and> (status t \<in> {RESOLVED, CLOSED} \<longrightarrow> resolvedAt t \<noteq> None)
     \<and> (status t = DUPLICATE \<longrightarrow> duplicateOfId t \<noteq> None)
     \<and> (status t = CANCELLED \<longrightarrow> cancelledAt t \<noteq> None)"

definition db_wf :: "db \<Rightarrow> bool" where
  "db_wf db \<longleftrightarrow> db_ok db \<and> (\<forall>t \<in> set (db_tickets db). ticket_wf t)"

lemma ticket_wf_stamp [wf_simps]: "ticket_wf (stamp env t) = ticket_wf t"
  by (simp add: ticket_wf_def stamp_def)

lemma db_wf_find: "db_wf db \<Longrightarrow> find_ticket db n = Some t \<Longrightarrow> ticket_wf t"
  by (auto simp: db_wf_def dest: find_ticket_member)

lemma db_wf_save [wf_simps]:
  assumes "db_wf db" "ticket_wf t"
  shows "db_wf (save_ticket env t db)"
  using assms set_save_row_subset [of ticket_id "db_tickets db" "stamp env t"]
  by (auto simp: db_wf_def save_ticket_def db_ok_def table_ok_save_row wf_simps)

lemma db_wf_saves [wf_simps]:
  "db_wf db \<Longrightarrow> (\<And>t. t \<in> set ts \<Longrightarrow> ticket_wf t) \<Longrightarrow> db_wf (save_tickets env ts db)"
  by (induction ts arbitrary: db) (auto simp: wf_simps)

lemma db_wf_frame [wf_simps]:
  "db_wf (logEvent env n ty a f u k db) = db_wf db"
  "db_wf (save_justification j db) = db_wf db"
  "db_wf db \<Longrightarrow> db_wf (save_escalation e db)"
  by (simp_all add: db_wf_def db_ok_def logEvent_def save_justification_def save_escalation_def
      table_ok_save_row)

section \<open>The frame of the SLA clock\<close>

text \<open>\<open>clock_frame t t'\<close>: the two tickets differ in the columns of the clock only.\<close>

definition unclocked :: "ticket \<Rightarrow> ticket" where
  "unclocked t = t\<lparr>slaDeadline := None, slaStartedAt := None, slaPausedAt := None,
     accumulatedPauseSeconds := 0, slaPauseLedger := None, isSlaWaiting := False\<rparr>"

definition clock_frame :: "ticket \<Rightarrow> ticket \<Rightarrow> bool" where
  "clock_frame t t' \<longleftrightarrow> unclocked t' = unclocked t"

lemma clock_frame_refl [simp]: "clock_frame t t"
  by (simp add: clock_frame_def)

lemma clock_frame_trans: "clock_frame t u \<Longrightarrow> clock_frame u v \<Longrightarrow> clock_frame t v"
  by (simp add: clock_frame_def)

lemma unclocked_update [simp]:
  "unclocked (t\<lparr>slaDeadline := a\<rparr>) = unclocked t" "unclocked (t\<lparr>slaStartedAt := b\<rparr>) = unclocked t"
  "unclocked (t\<lparr>slaPausedAt := c\<rparr>) = unclocked t" "unclocked (t\<lparr>accumulatedPauseSeconds := d\<rparr>) = unclocked t"
  "unclocked (t\<lparr>slaPauseLedger := e\<rparr>) = unclocked t" "unclocked (t\<lparr>isSlaWaiting := f\<rparr>) = unclocked t"
  by (simp_all add: unclocked_def)

lemma clock_frame_update [simp]:
  "clock_frame t (u\<lparr>slaDeadline := a\<rparr>) = clock_frame t u" "clock_frame t (u\<lparr>slaStartedAt := b\<rparr>) = clock_frame t u"
  "clock_frame t (u\<lparr>slaPausedAt := c\<rparr>) = clock_frame t u"
  "clock_frame t (u\<lparr>accumulatedPauseSeconds := d\<rparr>) = clock_frame t u"
  "clock_frame t (u\<lparr>slaPauseLedger := e\<rparr>) = clock_frame t u" "clock_frame t (u\<lparr>isSlaWaiting := f\<rparr>) = clock_frame t u"
  by (simp_all add: clock_frame_def)

lemma clock_frame_field:
  assumes "clock_frame t t'" "\<And>u. f (unclocked u) = f u"
  shows "f t' = f t"
  using assms by (metis clock_frame_def)

lemma clock_frame_fields:
  assumes "clock_frame t t'"
  shows "ticket_id t' = ticket_id t" "status t' = status t" "assignedToId t' = assignedToId t"
    "requesterId t' = requesterId t" "createdById t' = createdById t" "ticketType t' = ticketType t"
    "priority t' = priority t" "issueTypeId t' = issueTypeId t" "issueTypeConfig t' = issueTypeConfig t"
    "resolvedAt t' = resolvedAt t" "duplicateOfId t' = duplicateOfId t" "cancelledAt t' = cancelledAt t"
    "updatedAt t' = updatedAt t" "lastAssignedAt t' = lastAssignedAt t" "createdAt t' = createdAt t"
    "interruptionHistory t' = interruptionHistory t" "overtimeDate t' = overtimeDate t"
    "ticket_overtimeSlaDate t' = ticket_overtimeSlaDate t" "userClosed t' = userClosed t"
  by (rule clock_frame_field [OF assms]; simp add: unclocked_def)+

lemma creditTicketPause_clock_frame [simp]: "clock_frame t (creditTicketPause t a b s)"
proof (cases rule: creditTicketPause_cases [of t a b s])
  case again
  then show ?thesis by (simp only: clock_frame_refl)
next
  case credit
  show ?thesis unfolding credit(2) by (simp only: clock_frame_update clock_frame_refl)
qed

section \<open>Views of tickets\<close>

lemma enrich_wf: "ticket_wf t \<Longrightarrow> ticket_wf (enrich db t)"
  by (simp add: enrich_def ticket_wf_def split: option.splits)

lemma with_relations_wf: "ticket_wf (with_relations db t) = ticket_wf t"
  by (simp add: with_relations_def ticket_wf_def)

lemma without_relations_wf: "ticket_wf (without_relations t) = ticket_wf t"
  by (simp add: without_relations_def ticket_wf_def)

lemma repair_flags_id:
  assumes "ticket_wf t"
  shows "repair_flags t = t"
proof -
  have *: "\<not> (status t = IN_PROGRESS \<and> isSlaWaiting t)" "\<not> (status t = IN_PROGRESS \<and> slaStartedAt t = None)"
    using assms by (simp_all add: ticket_wf_def)
  show ?thesis unfolding repair_flags_def Let_def if_not_P [OF *(1)] if_not_P [OF *(2)] ..
qed

lemma slaDeadline_wf [simp]: "ticket_wf (t\<lparr>slaDeadline := d\<rparr>) = ticket_wf t"
  by (simp add: ticket_wf_def)

text \<open>On well-formed tables the view of a ticket is its row, enriched, with a projected deadline.\<close>

lemma view_wf:
  assumes "getTicketById env db n role viewer = Inr v" "db_wf db"
  obtains row d where "find_ticket db n = Some row" "ticket_wf row" "ticket_wf (view_ticket v)"
    "view_ticket v = enrich db (with_relations db row)\<lparr>slaDeadline := d\<rparr>"
proof (rule getTicketById_Inr [OF assms(1)])
  fix row d
  assume row: "find_ticket db n = Some row"
    and v: "view_ticket v = repair_flags (enrich db (with_relations db row))\<lparr>slaDeadline := d\<rparr>"
  from db_wf_find [OF assms(2) row] have wf: "ticket_wf row" .
  then have wf': "ticket_wf (enrich db (with_relations db row))" by (simp add: enrich_wf with_relations_wf)
  with v have "view_ticket v = enrich db (with_relations db row)\<lparr>slaDeadline := d\<rparr>"
    by (simp add: repair_flags_id)
  with that row wf wf' show thesis by simp
qed

end
