(* ===== verification/UpdateFacts.thy ===== *)
theory UpdateFacts
  imports UpdateTicket Invariant
begin

text \<open>
  Facts about \<open>updateTicket\<close>, piece by piece: what each step may change, that well-formedness is
  kept, which rows a handler touches when it succeeds and when it throws.
\<close>

section \<open>The columns a routing or text edit leaves alone\<close>

definition same_core :: "ticket \<Rightarrow> ticket \<Rightarrow> bool" where
  "same_core t t' \<longleftrightarrow> ticket_id t' = ticket_id t \<and> status t' = status t
     \<and> accumulatedPauseSeconds t' = accumulatedPauseSeconds t \<and> slaStartedAt t' = slaStartedAt t
     \<and> slaPausedAt t' = slaPausedAt t \<and> isSlaWaiting t' = isSlaWaiting t \<and> resolvedAt t' = resolvedAt t
     \<and> duplicateOfId t' = duplicateOfId t \<and> cancelledAt t' = cancelledAt t
     \<and> interruptionHistory t' = interruptionHistory t \<and> requesterId t' = requesterId t
     \<and> assignedToId t' = assignedToId t \<and> slaPauseLedger t' = slaPauseLedger t"

lemma same_core_refl [simp]: "same_core t t"
  by (simp add: same_core_def)

lemma same_core_trans: "same_core t u \<Longrightarrow> same_core u v \<Longrightarrow> same_core t v"
  by (simp add: same_core_def)

lemma same_core_wf: "same_core t t' \<Longrightarrow> ticket_wf t \<Longrightarrow> ticket_wf t'"
  by (simp add: same_core_def ticket_wf_def)

lemma apply_texts_core: "same_core t (apply_texts dto t)"
  by (simp add: same_core_def apply_texts_def)

lemma recalculate_core:
  "ensures (same_core t) (recalculateTicketSlaAfterRoutingChange env db t issue)"
  by (simp add: recalculateTicketSlaAfterRoutingChange_def same_core_def Let_def ensures_simps
      split: option.split bool.split)

lemma routed_core: "same_core t (routed t ty categ issueId issue)"
  by (simp add: same_core_def routed_def)

lemma apply_routing_core: "ensures (same_core t) (apply_routing env db t dto latest actor role)"
proof -
  have "ensures (same_core t) (recalculateTicketSlaAfterRoutingChange env db
      (routed t ty categ issueId issue) issue)" for ty categ issueId issue
    using ensuresD [OF recalculate_core] same_core_trans [OF routed_core] unfolding ensures_def by blast
  then show ?thesis
    by (simp add: apply_routing_def Let_def ensures_simps ensures_guarded routed_core split: prod.split)
qed

lemma apply_priority_core: "ensures (same_core t) (apply_priority dto allowed t)"
  by (simp add: apply_priority_def same_core_def ensures_simps split: option.split)

lemma prepare_update_core: "ensures (same_core t) (prepare_update env db t dto latest actor role)"
proof -
  have "ensures (same_core t) (apply_priority dto allowed u)"
    if "apply_routing env db (apply_texts dto t) dto latest actor role = Inr u" for u allowed
    using same_core_trans [OF same_core_trans [OF apply_texts_core ensuresD [OF apply_routing_core that]]]
      ensuresD [OF apply_priority_core] unfolding ensures_def by blast
  then show ?thesis by (simp add: prepare_update_def ensures_simps ensures_guarded)
qed

lemma apply_resolution_core: "ensures (same_core t) (apply_resolution dto t)"
proof -
  have "same_core t (apply_resolution_texts dto t)"
    by (simp add: same_core_def apply_resolution_texts_def)
  moreover have "ensures (same_core u) (apply_resolution_date dto u)" for u
    by (simp add: apply_resolution_date_def same_core_def ensures_simps split: option.split)
  moreover have "same_core u (mark_kb dto u)" for u by (simp add: mark_kb_def same_core_def)
  ultimately show ?thesis
    unfolding apply_resolution_def ensures_simps by (metis ensures_def same_core_trans)
qed

section \<open>The clock operations\<close>

lemma credit_open_pause_ok:
  "ensures (\<lambda>t'. clock_frame t t' \<and> slaStartedAt t' = slaStartedAt t \<and> slaPausedAt t' = slaPausedAt t
      \<and> isSlaWaiting t' = isSlaWaiting t \<and> accumulatedPauseSeconds t \<le> accumulatedPauseSeconds t')
    (credit_open_pause env db t pausedAt original r)"
  using creditTicketPause_accumulated
  by (simp add: credit_open_pause_def Let_def ensures_simps split: option.split bool.split)

lemmas credit_open_pause_spec = ensuresD [OF credit_open_pause_ok]

lemma sla_transition_ok:
  "ensures (\<lambda>t'. clock_frame t t' \<and> (0 \<le> accumulatedPauseSeconds t \<longrightarrow> 0 \<le> accumulatedPauseSeconds t')
      \<and> (s = IN_PROGRESS \<longrightarrow> slaStartedAt t' \<noteq> None)
      \<and> (slaStartedAt t \<noteq> None \<longrightarrow> slaStartedAt t' = slaStartedAt t))
    (sla_transition env db t s)"
proof (cases "s = IN_PROGRESS \<and> slaStartedAt t = None")
  case True
  then show ?thesis by (simp add: sla_transition_def Let_def ensures_simps)
next
  case False
  then show ?thesis
    unfolding sla_transition_def Let_def if_not_P [OF False]
    by (auto simp: ensures_simps dest!: credit_open_pause_spec split: option.split bool.split)
qed

lemmas sla_transition_spec = ensuresD [OF sla_transition_ok]

lemma terminal_unpause_ok:
  "ensures (\<lambda>t'. clock_frame t t' \<and> (0 \<le> accumulatedPauseSeconds t \<longrightarrow> 0 \<le> accumulatedPauseSeconds t')
      \<and> slaStartedAt t' = slaStartedAt t
      \<and> (s \<in> {RESOLVED, CLOSED, DUPLICATE} \<longrightarrow> slaPausedAt t' = None \<and> \<not> isSlaWaiting t')
      \<and> (s \<notin> {RESOLVED, CLOSED, DUPLICATE} \<longrightarrow> t' = t))
    (terminal_unpause env db original s t)"
  by (auto simp: terminal_unpause_def ensures_simps dest!: credit_open_pause_spec split: option.split)

lemmas terminal_unpause_spec = ensuresD [OF terminal_unpause_ok]

section \<open>The side writes\<close>

lemma record_justification_frame [simp]:
  "db_tickets (record_justification env t dto s actor db) = db_tickets db"
  "db_escalations (record_justification env t dto s actor db) = db_escalations db"
  "db_events (record_justification env t dto s actor db) = db_events db"
  "db_wf (record_justification env t dto s actor db) = db_wf db"
  "find_ticket (record_justification env t dto s actor db) n = find_ticket db n"
  by (auto simp: record_justification_def save_justification_def db_wf_def db_ok_def find_ticket_def
      split: option.splits)

lemma save_tickets_frame [simp]:
  "db_escalations (save_tickets env ts db) = db_escalations db"
  "db_events (save_tickets env ts db) = db_events db"
  by (induction ts arbitrary: db) (simp_all add: table_simps)

lemma pushed_back_wf: "ticket_wf t \<Longrightarrow> status t = ASSIGNED \<Longrightarrow> ticket_wf (pushed_back env t)"
  by (simp add: ticket_wf_def pushed_back_def)

lemma push_back_queue_frame [simp]:
  "db_escalations (push_back_queue env t original s db) = db_escalations db"
  "db_events (push_back_queue env t original s db) = db_events db"
  by (simp_all add: push_back_queue_def)

lemma push_back_queue_self [simp]:
  "find_ticket (push_back_queue env t original s db) (ticket_id t) = find_ticket db (ticket_id t)"
proof -
  have "ticket_id t \<notin> ticket_id ` set (map (pushed_back env) (pushback_targets db t))"
    by (auto simp: pushback_targets_def pushed_back_def)
  then show ?thesis by (simp add: push_back_queue_def find_save_tickets_other)
qed

lemma push_back_queue_wf: "db_wf db \<Longrightarrow> db_wf (push_back_queue env t original s db)"
  by (auto simp: push_back_queue_def pushback_targets_def db_wf_def intro!: db_wf_saves [unfolded db_wf_def]
      pushed_back_wf)

section \<open>Changing the status\<close>

lemma reopen_ticket_spec:
  assumes "reopen_ticket env db s t = (t', auto)"
  shows "ticket_id t' = ticket_id t \<and> resolvedAt t' = resolvedAt t \<and> cancelledAt t' = cancelledAt t
    \<and> duplicateOfId t' = duplicateOfId t \<and> slaStartedAt t' = slaStartedAt t
    \<and> requesterId t' = requesterId t \<and> interruptionHistory t' = interruptionHistory t
    \<and> (s \<noteq> OPEN \<longrightarrow> t' = t \<and> auto = None)
    \<and> (s = OPEN \<longrightarrow> accumulatedPauseSeconds t' = 0 \<and> (status t' = status t \<or> status t' = ASSIGNED))
    \<and> (auto \<noteq> None \<longrightarrow> status t' = ASSIGNED \<and> assignedToId t' = auto)"
  using assms by (auto simp: reopen_ticket_def reopened_def split: if_splits option.splits)

lemma change_status_cases:
  assumes "change_status env t dto s actor db = (r, db')"
  obtains (refused) e where "r = Inl e" "db' = db"
  | (clock_failed) e where "r = Inl e" "db' = record_justification env t dto s actor db"
      "change_guard t dto s = None"
  | (changed) t1 t2 auto t3 where "change_guard t dto s = None"
      "sla_transition env (record_justification env t dto s actor db) t s = Inr t1"
      "db' = push_back_queue env t (status t) s (record_justification env t dto s actor db)"
      "reopen_ticket env db' s (enter_status s t1) = (t2, auto)"
      "t3 = (if s = RESOLVED \<and> resolvedAt t2 = None then t2\<lparr>resolvedAt := Some (env_now env)\<rparr> else t2)"
      "r = and_then (terminal_unpause env db' (status t) s t3) (\<lambda>t4. Inr (t4, auto))"
proof (cases "change_guard t dto s")
  case (Some e)
  with assms show ?thesis by (intro refused [of e]) (auto simp: change_status_def)
next
  case None
  let ?db1 = "record_justification env t dto s actor db"
  show ?thesis
  proof (cases "sla_transition env ?db1 t s")
    case (Inl e)
    with assms None show ?thesis by (intro clock_failed [of e]) (auto simp: change_status_def Let_def)
  next
    case (Inr t1)
    let ?db2 = "push_back_queue env t (status t) s ?db1"
    obtain t2 auto where ra: "reopen_ticket env ?db2 s (enter_status s t1) = (t2, auto)" by fastforce
    from assms None Inr ra show ?thesis
      by (intro changed [of t1 t2 auto "if s = RESOLVED \<and> resolvedAt t2 = None
            then t2\<lparr>resolvedAt := Some (env_now env)\<rparr> else t2"])
        (auto simp: change_status_def Let_def)
  qed
qed

lemma enter_status_fields [simp]:
  "status (enter_status s t) = s" "ticket_id (enter_status s t) = ticket_id t"
  "resolvedAt (enter_status s t) = resolvedAt t" "cancelledAt (enter_status s t) = cancelledAt t"
  "duplicateOfId (enter_status s t) = duplicateOfId t" "slaStartedAt (enter_status s t) = slaStartedAt t"
  "requesterId (enter_status s t) = requesterId t"
  "accumulatedPauseSeconds (enter_status s t) = accumulatedPauseSeconds t"
  "interruptionHistory (enter_status s t) = interruptionHistory t"
  by (simp_all add: enter_status_def)

lemma change_status_tables:
  assumes "change_status env t dto s actor db = (r, db')"
  shows "find_ticket db' (ticket_id t) = find_ticket db (ticket_id t)
    \<and> db_escalations db' = db_escalations db \<and> db_events db' = db_events db \<and> (db_wf db \<longrightarrow> db_wf db')"
  using assms by (cases rule: change_status_cases) (auto intro: push_back_queue_wf)

text \<open>A successful change of status leaves a well-formed ticket in the requested status, or one
  reopened and assigned again.\<close>

lemma change_status_ticket:
  assumes "change_status env t dto s actor db = (Inr (t', auto), db')" "ticket_wf t"
    "s \<notin> {DUPLICATE, CANCELLED}" "s = CLOSED \<longrightarrow> resolvedAt t \<noteq> None"
  shows "ticket_wf t' \<and> ticket_id t' = ticket_id t \<and> (status t' = s \<or> s = OPEN \<and> status t' = ASSIGNED)
    \<and> requesterId t' = requesterId t \<and> (auto \<noteq> None \<longrightarrow> s = OPEN \<and> status t' = ASSIGNED)"
  using assms(1)
proof (cases rule: change_status_cases)
  case (changed t1 t2 a t3)
  note c1 = sla_transition_spec [OF changed(2)]
  note f1 = clock_frame_fields [OF conjunct1 [OF c1]]
  note r = reopen_ticket_spec [OF changed(4)]
  from changed(6) [symmetric] have tu: "terminal_unpause env db' (status t) s t3 = Inr t'" and a: "a = auto"
    by (auto elim!: and_then_InrE)
  note c4 = terminal_unpause_spec [OF tu]
  note f4 = clock_frame_fields [OF conjunct1 [OF c4]]
  have acc: "0 \<le> accumulatedPauseSeconds t2"
    using r c1 assms(2) by (cases "s = OPEN") (auto simp: ticket_wf_def)
  have t3: "status t3 = status t2" "ticket_id t3 = ticket_id t2" "requesterId t3 = requesterId t2"
    "slaStartedAt t3 = slaStartedAt t2" "accumulatedPauseSeconds t3 = accumulatedPauseSeconds t2"
    "isSlaWaiting t3 = isSlaWaiting t2" "s = RESOLVED \<Longrightarrow> resolvedAt t3 \<noteq> None"
    "s \<noteq> RESOLVED \<Longrightarrow> resolvedAt t3 = resolvedAt t2"
    using changed(5) by auto
  have st: "status t' = s \<or> s = OPEN \<and> status t' = ASSIGNED" using f4 t3 r by auto
  have ip: "status t' = IN_PROGRESS \<Longrightarrow> slaStartedAt t' \<noteq> None \<and> \<not> isSlaWaiting t'"
    using st c4 t3 r c1 by (auto simp: enter_status_def)
  have fin: "slaPausedAt t' = None \<and> \<not> isSlaWaiting t' \<and> resolvedAt t' \<noteq> None"
    if st': "status t' \<in> {RESOLVED, CLOSED}"
  proof -
    from st st' have s: "s = status t'" by auto
    with st' have "s \<noteq> OPEN" by auto
    with r have "t2 = enter_status s t1" by blast
    then have "resolvedAt t2 = resolvedAt t" using f1(10) by simp
    moreover have "resolvedAt t' = resolvedAt t3" by (rule f4(10))
    moreover have "s = RESOLVED \<or> s = CLOSED" using s st' by blast
    ultimately have "resolvedAt t' \<noteq> None" using t3(7,8) assms(4) by (metis ticket_status.distinct)
    moreover have "slaPausedAt t' = None \<and> \<not> isSlaWaiting t'" using c4 s st' by blast
    ultimately show ?thesis by blast
  qed
  have "ticket_wf t'" unfolding ticket_wf_def
    using acc t3 c4 ip fin st assms(3) by auto
  with st f4 t3 r f1 a show ?thesis by auto
qed simp_all

section \<open>The queue hand-off\<close>

lemma in_progress_wf:
  "status t = IN_PROGRESS \<Longrightarrow> slaStartedAt t \<noteq> None \<Longrightarrow> \<not> isSlaWaiting t \<Longrightarrow> 0 \<le> accumulatedPauseSeconds t
     \<Longrightarrow> ticket_wf t"
  by (simp add: ticket_wf_def)

lemma db_wf_ok: "db_wf db \<Longrightarrow> db_ok db"
  by (simp add: db_wf_def)

lemma db_wf_table: "db_wf db \<Longrightarrow> table_ok ticket_id (db_tickets db)"
  by (simp add: db_wf_def db_ok_def)

lemma promotion_wf:
  assumes "db_wf db"
  shows "db_wf (snd (unpauseNextWaitingTicketAndSetInProgress env tech db))"
  using db_wf_table [OF assms]
proof (cases rule: promotion_cases [of db tech env])
  case (promoted t t')
  then have "ticket_wf t'" by (intro in_progress_wf) simp_all
  with promoted(2) assms show ?thesis by (simp add: wf_simps)
qed (simp_all add: assms)

lemma find_member_eq:
  "db_ok db \<Longrightarrow> t \<in> set (db_tickets db) \<Longrightarrow> find_ticket db (ticket_id t) = Some t"
  by (simp add: find_ticket_def db_ok_def find_row_table_ok)

text \<open>A promotion changes only a ticket that is assigned or paused, a pick-up only an open one.\<close>

lemma promotion_keeps:
  assumes "db_ok db" "find_ticket db n = Some row" "status row \<notin> {ASSIGNED, PAUSE}"
  shows "find_ticket (snd (unpauseNextWaitingTicketAndSetInProgress env tech db)) n = Some row"
proof -
  have "table_ok ticket_id (db_tickets db)" using assms(1) by (simp add: db_ok_def)
  then show ?thesis
  proof (cases rule: promotion_cases [of db tech env])
    case (promoted t t')
    note w = oldest_waiting_Some [OF promoted(1)]
    then have "find_ticket db (ticket_id t) = Some t" using assms(1) find_member_eq by blast
    with w assms(2,3) have "n \<noteq> ticket_id t" by auto
    with promoted(2,3) assms(2) show ?thesis by (simp add: table_simps)
  qed (simp_all add: assms)
qed

lemma next_open_ticket_Some:
  assumes "next_open_ticket env db tech = Some t"
  shows "t \<in> set (db_tickets db) \<and> pickup_candidate env db tech t"
  using oldest_by_Some [OF assms [unfolded next_open_ticket_def Let_def]] by (auto split: if_splits)

lemma picked_up_ok:
  "ensures (\<lambda>t'. ticket_id t' = ticket_id t \<and> status t' = IN_PROGRESS \<and> assignedToId t' = Some tech
      \<and> slaStartedAt t' = Some (env_now env) \<and> \<not> isSlaWaiting t' \<and> accumulatedPauseSeconds t' = 0
      \<and> slaPausedAt t' = None)
    (picked_up env db tech t)"
  by (simp add: picked_up_def Let_def ensures_simps without_relations_def)

lemma pick_up_open_cases:
  obtains (idle) "pick_up_open env tech db = db"
  | (picked) t t' where "next_open_ticket env db tech = Some t" "picked_up env db tech t = Inr t'"
      "\<not> weekly_cap_reached env db tech"
      "canAutomaticallyAssign env db tech Pool_all (env_today env) (requesterId t)"
      "pick_up_open env tech db = save_ticket env t' db
       \<or> pick_up_open env tech db = logEvent env (ticket_id t) ''auto_assigned'' None None None (Some tech)
           (save_ticket env t' db)"
proof (cases "next_open_ticket env db tech")
  case None
  then show ?thesis by (intro idle) (simp add: pick_up_open_def)
next
  case (Some t)
  show ?thesis
  proof (cases "weekly_cap_reached env db tech
      \<or> \<not> canAutomaticallyAssign env db tech Pool_all (env_today env) (requesterId t)
      \<or> (\<exists>e. picked_up env db tech t = Inl e)")
    case True
    with Some show ?thesis by (intro idle) (auto simp: pick_up_open_def split: sum.split)
  next
    case False
    then obtain t' where t': "picked_up env db tech t = Inr t'" by (cases "picked_up env db tech t") auto
    show ?thesis
      by (rule picked [OF Some t']) (use False Some t' in \<open>auto simp: pick_up_open_def Let_def\<close>)
  qed
qed

lemma pick_up_open_wf:
  assumes "db_wf db"
  shows "db_wf (pick_up_open env tech db)"
proof (cases rule: pick_up_open_cases [of env tech db])
  case (picked t t')
  have "ticket_wf t'" using ensuresD [OF picked_up_ok picked(2)] by (intro in_progress_wf) simp_all
  with picked(5) assms show ?thesis by (auto simp: wf_simps)
qed (simp add: assms)

lemma pick_up_open_keeps:
  assumes "db_ok db" "find_ticket db n = Some row" "status row \<noteq> OPEN"
  shows "find_ticket (pick_up_open env tech db) n = Some row"
proof (cases rule: pick_up_open_cases [of env tech db])
  case (picked t t')
  note nt = next_open_ticket_Some [OF picked(1)]
  then have "find_ticket db (ticket_id t) = Some t" using assms(1) find_member_eq by blast
  with nt assms(2,3) have "n \<noteq> ticket_id t" by (auto simp: pickup_candidate_def)
  moreover have "ticket_id t' = ticket_id t" using ensuresD [OF picked_up_ok picked(2)] by simp
  ultimately show ?thesis using picked(5) assms(2) by (auto simp: table_simps)
qed (simp add: assms)

text \<open>The hand-off is a promotion, a pick-up, or one after the other.\<close>

lemma queue_handoff_induct:
  assumes "P db" "\<And>d. P d \<Longrightarrow> P (snd (unpauseNextWaitingTicketAndSetInProgress env tech d))"
    "\<And>d. P d \<Longrightarrow> P (pick_up_open env tech d)"
  shows "P (queue_handoff env tech db)"
proof -
  let ?u = "unpauseNextWaitingTicketAndSetInProgress env tech"
  have step: "P (case ?u d of (Inl _, d') \<Rightarrow> d' | (Inr True, d') \<Rightarrow> d' | (Inr False, d') \<Rightarrow> f d')"
    if "P d" "\<And>d. P d \<Longrightarrow> P (f d)" for d f
  proof -
    obtain r d' where u: "?u d = (r, d')" by fastforce
    with assms(2) [OF that(1)] have "P d'" by simp
    then show ?thesis using that(2) unfolding u by (simp split: sum.split bool.split)
  qed
  have ho: "P (handoff_or_pickup env tech d)" if "P d" for d
    unfolding handoff_or_pickup_def using step [OF that assms(3)] that by simp
  show ?thesis
    unfolding queue_handoff_def using step [OF assms(1) ho] ho [OF assms(1)] by simp
qed

lemma queue_handoff_wf: "db_wf db \<Longrightarrow> db_wf (queue_handoff env tech db)"
  by (rule queue_handoff_induct) (simp_all add: promotion_wf pick_up_open_wf)

lemma promotion_ok: "db_ok db \<Longrightarrow> db_ok (snd (unpauseNextWaitingTicketAndSetInProgress env tech db))"
  by (rule promotion_db_ok)

lemma pick_up_open_ok: "db_ok db \<Longrightarrow> db_ok (pick_up_open env tech db)"
  by (cases rule: pick_up_open_cases [of env tech db]) (auto simp: table_simps)

lemma queue_handoff_keeps:
  assumes "db_ok db" "find_ticket db n = Some row" "status row \<notin> {ASSIGNED, PAUSE, OPEN}"
  shows "find_ticket (queue_handoff env tech db) n = Some row"
proof -
  have "db_ok (queue_handoff env tech db) \<and> find_ticket (queue_handoff env tech db) n = Some row"
    by (rule queue_handoff_induct)
      (use assms in \<open>auto simp: promotion_ok pick_up_open_ok intro: promotion_keeps pick_up_open_keeps\<close>)
  then show ?thesis ..
qed

text \<open>After a save: events, and the hand-off when the ticket no longer occupies its technician.\<close>

lemma update_events_frame:
  "db_tickets (update_events env dto actor original saved auto db) = db_tickets db"
  "db_escalations (update_events env dto actor original saved auto db) = db_escalations db"
  by (auto simp: update_events_def Let_def table_simps split: option.split)

lemma after_update_cases:
  obtains (events) d where "after_update env dto actor original saved auto db = d"
      "db_tickets d = db_tickets db" "db_escalations d = db_escalations db"
  | (handoff) d s tech where "after_update env dto actor original saved auto db = queue_handoff env tech d"
      "db_tickets d = db_tickets db" "db_escalations d = db_escalations db"
      "dto_status dto = Some s" "s \<in> {RESOLVED, CLOSED, DUPLICATE, FREEZE}"
proof (cases "handoff_of dto saved")
  case None
  show ?thesis
    by (rule events [OF _ update_events_frame]) (simp add: after_update_def None)
next
  case (Some tech)
  then obtain s where "dto_status dto = Some s" "s \<in> {RESOLVED, CLOSED, DUPLICATE, FREEZE}"
    by (auto simp: handoff_of_def split: option.splits if_splits)
  then show ?thesis
    by (rule handoff [OF _ update_events_frame, rotated]) (simp add: after_update_def Some)
qed

lemma same_tickets_wf: "db_tickets d = db_tickets db \<Longrightarrow> db_escalations d = db_escalations db
    \<Longrightarrow> db_wf d = db_wf db \<and> db_ok d = db_ok db \<and> find_ticket d n = find_ticket db n"
  by (simp add: db_wf_def db_ok_def find_ticket_def)

lemma after_update_wf:
  assumes "db_wf db"
  shows "db_wf (after_update env dto actor original saved auto db)"
  by (rule after_update_cases [of env dto actor original saved auto db])
    (use assms same_tickets_wf queue_handoff_wf in metis)+

lemma after_update_keeps:
  assumes "db_ok db" "find_ticket db n = Some row"
    "\<And>s. dto_status dto = Some s \<Longrightarrow> s \<in> {RESOLVED, CLOSED, DUPLICATE, FREEZE} \<Longrightarrow> status row = s"
  shows "find_ticket (after_update env dto actor original saved auto db) n = Some row"
proof (rule after_update_cases [of env dto actor original saved auto db])
  fix d assume "after_update env dto actor original saved auto db = d" "db_tickets d = db_tickets db"
    "db_escalations d = db_escalations db"
  with assms(2) show ?thesis by (simp add: find_ticket_def)
next
  fix d s tech
  assume d: "after_update env dto actor original saved auto db = queue_handoff env tech d"
    "db_tickets d = db_tickets db" "db_escalations d = db_escalations db"
    and s: "dto_status dto = Some s" "s \<in> {RESOLVED, CLOSED, DUPLICATE, FREEZE}"
  from same_tickets_wf [OF d(2,3)] assms(1,2) have "db_ok d" "find_ticket d n = Some row" by simp_all
  moreover have "status row \<notin> {ASSIGNED, PAUSE, OPEN}" using assms(3) [OF s] s(2) by auto
  ultimately show ?thesis unfolding d(1) by (rule queue_handoff_keeps)
qed

end
