(* ===== verification/UpdateProps.thy ===== *)
theory UpdateProps
  imports UpdateFacts
begin

text \<open>
  The theorems about \<open>updateTicket\<close> as a whole: the status machine, well-formedness, what a failed
  update may leave behind, and the optimistic lock.
\<close>

section \<open>Saving\<close>

lemma persistTicketUpdate_cases:
  assumes "persistTicketUpdate env t expected db = (r, db')"
  obtains (conflict) e where "r = Inl e" "db' = db"
  | (saved) current where "find_ticket db (ticket_id t) = Some current" "status current \<noteq> CANCELLED"
      "updatedAt current = expected" "r = Inr (stamp env t)" "db' = save_ticket env t db"
  using assms by (auto simp: persistTicketUpdate_def split: option.splits if_splits)

lemma persistDuplicateTicket_cases:
  assumes "persistDuplicateTicket env t expected actor role db = (r, db')"
  obtains (refused) e where "r = Inl e" "db' = db"
  | (marked) source original where "find_ticket db (ticket_id t) = Some source"
      "find_ticket db (number (duplicateOfId t)) = Some original"
      "updatedAt source = expected" "assertValidDuplicateOriginal source original = None"
      "count_rows (\<lambda>u. duplicateOfId u = Some (ticket_id t)) (db_tickets db) = 0"
      "getLatestActiveEscalation db (ticket_id t) = None"
      "r = Inr (t\<lparr>updatedAt := env_now env, resolvedAt := None\<rparr>)"
      "db' = logEvent env (ticket_id source) ''status_changed'' (Some actor) (Some (status source))
         (Some DUPLICATE) None (save_ticket env (source\<lparr>status := DUPLICATE,
           duplicateOfId := Some (ticket_id original), slaPausedAt := None, isSlaWaiting := False\<rparr>) db)"
proof (cases "find_ticket db (ticket_id t)")
  case None
  with assms show ?thesis by (intro refused) (auto simp: persistDuplicateTicket_def)
next
  case (Some source)
  show ?thesis
  proof (cases "find_ticket db (number (duplicateOfId t))")
    case None
    with assms Some show ?thesis by (intro refused) (auto simp: persistDuplicateTicket_def)
  next
    case so: (Some original)
    show ?thesis
    proof (cases "duplicate_checks env source original expected actor role db")
      case (Inl e)
      with assms Some so show ?thesis by (intro refused [of e]) (auto simp: persistDuplicateTicket_def)
    next
      case (Inr u)
      then obtain src where g: "updatedAt source = expected"
        "locked_duplicate_guard env db source original actor role = None"
        "duplicate_source_now env db source = Inr src"
        "getLatestActiveEscalation db (ticket_id src) = None"
        "count_rows (\<lambda>u. duplicateOfId u = Some (ticket_id src)) (db_tickets db) = 0"
        unfolding duplicate_checks_def by (auto simp: guarded_Inr_iff and_then_Inr_iff split: if_splits)
      have "ticket_id src = ticket_id source"
        using repair_deadline_frame [OF g(3) [unfolded duplicate_source_now_def]]
        by (auto simp: without_relations_def)
      then have "ticket_id src = ticket_id t" using find_ticket_id [OF Some] by simp
      moreover have "assertValidDuplicateOriginal source original = None"
        using g(2) by (auto simp: locked_duplicate_guard_def split: option.splits)
      moreover have "persistDuplicateTicket env t expected actor role db =
          (Inr (t\<lparr>updatedAt := env_now env, resolvedAt := None\<rparr>),
           logEvent env (ticket_id source) ''status_changed'' (Some actor) (Some (status source))
             (Some DUPLICATE) None (save_ticket env (source\<lparr>status := DUPLICATE,
               duplicateOfId := Some (ticket_id original), slaPausedAt := None, isSlaWaiting := False\<rparr>) db))"
        using Inr Some so by (simp add: persistDuplicateTicket_def)
      ultimately show ?thesis using marked [OF Some so] assms g by simp
    qed
  qed
qed

section \<open>The guards on the status\<close>

lemma status_guard_None:
  assumes "status_guard caps t dto s latest el actor role fr = None"
  shows "s \<in> set (ALLOWED_TRANSITIONS caps role fr (status t))
    \<and> (s = IN_PROGRESS \<longrightarrow> priority t \<noteq> None)
    \<and> (case latest of Some e \<Rightarrow> esc_status e \<noteq> PENDING | None \<Rightarrow> True)"
proof -
  from assms have "s \<in> set (allowed_transitions caps role t dto fr)" "s = IN_PROGRESS \<longrightarrow> priority t \<noteq> None"
    "\<not> (case latest of Some e \<Rightarrow> esc_status e = PENDING | None \<Rightarrow> False)"
    by (auto simp: status_guard_def Let_def split: if_splits)
  then show ?thesis
    by (auto simp: allowed_transitions_def Let_def dest: set_remove1_subset [THEN subsetD]
        split: if_splits option.splits)
qed

lemma ALLOWED_TRANSITIONS_targets:
  assumes "s \<in> set (ALLOWED_TRANSITIONS caps role fr cur)" "\<And>r. fr = Some r \<Longrightarrow> r \<in> validReturnStatuses"
  shows "(s = CLOSED \<longrightarrow> cur = RESOLVED) \<and> s \<noteq> CANCELLED \<and> cur \<notin> {CLOSED, DUPLICATE, CANCELLED} \<and> s \<noteq> cur"
  using assms
  by (cases cur) (auto simp: ALLOWED_TRANSITIONS_def Let_def split: if_splits option.splits)

section \<open>The operator's path\<close>

lemma row_duplicate_wf:
  "ticket_wf t \<Longrightarrow> ticket_wf (t\<lparr>status := DUPLICATE, duplicateOfId := Some n, slaPausedAt := None,
     isSlaWaiting := False\<rparr>)"
  by (simp add: ticket_wf_def)

lemma mark_duplicate_ok:
  "ensures (\<lambda>t'. ticket_id t' = ticket_id t) (mark_duplicate db t overdue dto)"
  by (simp add: mark_duplicate_def ensures_guarded ensures_simps split: option.split)

text \<open>What applying the status gives, for the proofs below: \<open>outcome\<close> collects the facts.\<close>

definition status_outcome :: "update_dto \<Rightarrow> ticket \<Rightarrow> ticket \<times> nat option \<Rightarrow> bool" where
  "status_outcome dto t ta \<longleftrightarrow> ticket_id (fst ta) = ticket_id t
     \<and> (dto_status dto = None \<longrightarrow> fst ta = t \<and> snd ta = None)
     \<and> (dto_status dto = Some DUPLICATE \<longrightarrow> snd ta = None)
     \<and> (dto_status dto \<noteq> Some DUPLICATE \<longrightarrow> ticket_wf (fst ta))
     \<and> (\<forall>s. dto_status dto = Some s \<longrightarrow> s \<noteq> DUPLICATE \<longrightarrow>
          (status (fst ta) = s \<or> s = OPEN \<and> status (fst ta) = ASSIGNED)
          \<and> (snd ta \<noteq> None \<longrightarrow> s = OPEN \<and> status (fst ta) = ASSIGNED))"

lemma apply_status_tables:
  assumes "apply_status env v t dto latest el actor role fr db = (r, db')"
  shows "find_ticket db' (ticket_id t) = find_ticket db (ticket_id t)
    \<and> db_escalations db' = db_escalations db \<and> db_events db' = db_events db \<and> (db_wf db \<longrightarrow> db_wf db')"
  using assms change_status_tables
  by (auto simp: apply_status_def split: option.splits if_splits)

lemma apply_status_spec:
  assumes "apply_status env v t dto latest el actor role fr db = (Inr ta, db')" "ticket_wf t"
    "dto_status dto \<noteq> Some CANCELLED" "\<And>x. fr = Some x \<Longrightarrow> x \<in> validReturnStatuses"
  shows "status_outcome dto t ta \<and> (\<forall>s. dto_status dto = Some s \<longrightarrow>
    s \<in> set (ALLOWED_TRANSITIONS (env_caps env) role fr (status t)))"
proof (cases "dto_status dto")
  case None
  with assms show ?thesis by (auto simp: apply_status_def status_outcome_def)
next
  case (Some s)
  with assms(1) have g: "status_guard (env_caps env) t dto s latest el actor role fr = None"
    by (auto simp: apply_status_def split: option.splits)
  note allowed = status_guard_None [OF g]
  note targets = ALLOWED_TRANSITIONS_targets [OF conjunct1 [OF allowed] assms(4)]
  show ?thesis
  proof (cases "s = DUPLICATE")
    case True
    with assms(1) Some g obtain t' where "mark_duplicate db t (isOverdue (view_sla v)) dto = Inr t'"
      "ta = (t', None)"
      by (auto simp: apply_status_def dest!: sym [of _ "Inr ta"] elim!: and_then_InrE)
    with Some True allowed ensuresD [OF mark_duplicate_ok] show ?thesis
      by (auto simp: status_outcome_def)
  next
    case False
    with assms(1) Some g have c: "change_status env t dto s actor db = (Inr (fst ta, snd ta), db')"
      by (simp add: apply_status_def)
    have "s = CLOSED \<longrightarrow> resolvedAt t \<noteq> None" using targets assms(2) by (auto simp: ticket_wf_def)
    with change_status_ticket [OF c assms(2)] False Some assms(3) allowed show ?thesis
      by (auto simp: status_outcome_def)
  qed
qed

lemma confirm_assignment_spec:
  assumes "confirm_assignment env db (t, auto) = (t', auto')"
  shows "t' = t \<and> auto' = auto
    \<or> auto \<noteq> None \<and> t' = t\<lparr>assignedToId := None, status := OPEN, lastAssignedAt := None\<rparr> \<and> auto' = None"
  using assms by (auto simp: confirm_assignment_def split: option.splits if_splits)

lemma reverted_wf:
  "ticket_wf t \<Longrightarrow> ticket_wf (t\<lparr>assignedToId := None, status := OPEN, lastAssignedAt := None\<rparr>)"
  by (simp add: ticket_wf_def)

lemma record_wf: "ticket_wf t \<Longrightarrow> ticket_wf (recordInterruptionTransition t a b now)"
  by (simp add: recordInterruptionTransition_def Let_def ticket_wf_def)

text \<open>The two ways in which the end of the handler can go.\<close>

lemma finish_update_cases:
  assumes "finish_update env dto actor role original expected ta db = (r, db')" "status_outcome dto t ta"
  obtains (failed) e where "r = Inl e" "db' = db"
  | (updated) t3 auto current where "dto_status dto \<noteq> Some DUPLICATE" "ticket_wf t3" "ticket_id t3 = ticket_id t"
      "dto_status dto = None \<longrightarrow> status t3 = status t"
      "\<forall>s. dto_status dto = Some s \<longrightarrow> status t3 = s \<or> s = OPEN \<and> status t3 = ASSIGNED"
      "find_ticket db (ticket_id t) = Some current" "status current \<noteq> CANCELLED"
      "updatedAt current = expected" "r = Inr (stamp env t3)"
      "db' = after_update env dto actor original (stamp env t3) auto (save_ticket env t3 db)"
  | (duplicated) source original' t3 where "dto_status dto = Some DUPLICATE"
      "find_ticket db (ticket_id t) = Some source" "updatedAt source = expected"
      "find_ticket db (ticket_id original') = Some original'"
      "assertValidDuplicateOriginal source original' = None"
      "count_rows (\<lambda>u. duplicateOfId u = Some (ticket_id t)) (db_tickets db) = 0"
      "r = Inr t3"
      "db' = after_update env dto actor original t3 None
         (logEvent env (ticket_id source) ''status_changed'' (Some actor) (Some (status source))
           (Some DUPLICATE) None (save_ticket env (source\<lparr>status := DUPLICATE,
             duplicateOfId := Some (ticket_id original'), slaPausedAt := None, isSlaWaiting := False\<rparr>) db))"
proof (cases "apply_resolution dto (fst ta)")
  case (Inl e)
  with assms(1) show ?thesis by (intro failed [of e]) (auto simp: finish_update_def)
next
  case (Inr t1)
  note core = ensuresD [OF apply_resolution_core Inr]
  note out = assms(2) [unfolded status_outcome_def]
  obtain t2 auto where c: "confirm_assignment env db (t1, snd ta) = (t2, auto)" by fastforce
  note conf = confirm_assignment_spec [OF c]
  define t3 where "t3 = recordInterruptionTransition t2 original (status t2) (env_now env)"
  have id: "ticket_id t3 = ticket_id t"
    using conf core out by (auto simp: t3_def same_core_def)
  show ?thesis
  proof (cases "dto_status dto = Some DUPLICATE")
    case True
    with out have "snd ta = None" by blast
    with conf have auto: "auto = None" by auto
    obtain rp dbp where p: "persistDuplicateTicket env t3 expected actor role db = (rp, dbp)" by fastforce
    from assms(1) Inr c True p have res: "(case (rp, dbp) of (Inl e, db') \<Rightarrow> (Inl e, db')
        | (Inr saved, db') \<Rightarrow> (Inr saved, after_update env dto actor original saved auto db')) = (r, db')"
      by (simp add: finish_update_def t3_def)
    from p show ?thesis
    proof (cases rule: persistDuplicateTicket_cases)
      case (refused e)
      with res failed show ?thesis by auto
    next
      case (marked source original')
      note key = find_ticket_id [OF marked(2)]
      from res marked(7,8) auto have
        "r = Inr (t3\<lparr>updatedAt := env_now env, resolvedAt := None\<rparr>)"
        "db' = after_update env dto actor original (t3\<lparr>updatedAt := env_now env, resolvedAt := None\<rparr>) None dbp"
        by auto
      then show ?thesis
        by (intro duplicated [of source original' "t3\<lparr>updatedAt := env_now env, resolvedAt := None\<rparr>"])
          (use marked True id key in simp_all)
    qed
  next
    case False
    with out have wf: "ticket_wf (fst ta)" by blast
    have wf3: "ticket_wf t3"
      unfolding t3_def using conf reverted_wf record_wf same_core_wf [OF core wf] by auto
    have st1: "status t1 = status (fst ta)" using core by (simp add: same_core_def)
    have sn: "dto_status dto = None \<longrightarrow> status t3 = status t"
      using conf out st1 by (auto simp: t3_def)
    have ss: "\<forall>s. dto_status dto = Some s \<longrightarrow> status t3 = s \<or> s = OPEN \<and> status t3 = ASSIGNED"
      using conf out st1 False by (auto simp: t3_def)
    obtain rp dbp where p: "persistTicketUpdate env t3 expected db = (rp, dbp)" by fastforce
    from assms(1) Inr c False p have res: "(case (rp, dbp) of (Inl e, db') \<Rightarrow> (Inl e, db')
        | (Inr saved, db') \<Rightarrow> (Inr saved, after_update env dto actor original saved auto db')) = (r, db')"
      by (simp add: finish_update_def t3_def)
    from p show ?thesis
    proof (cases rule: persistTicketUpdate_cases)
      case (conflict e)
      with res failed show ?thesis by auto
    next
      case (saved current)
      with res have "r = Inr (stamp env t3)"
        "db' = after_update env dto actor original (stamp env t3) auto (save_ticket env t3 db)" by auto
      with saved updated [OF False wf3 id sn ss, of current auto] id show ?thesis by simp
    qed
  qed
qed

section \<open>The whole handler\<close>

definition frozen_of :: "db \<Rightarrow> ticket \<Rightarrow> ticket_status option" where
  "frozen_of db t = (if status t = FREEZE then Some (resolveFrozenReturnStatus db t) else None)"

lemma frozen_of_valid: "frozen_of db t = Some x \<Longrightarrow> x \<in> validReturnStatuses"
  using resolveFrozenReturnStatus_valid by (auto simp: frozen_of_def split: if_splits)

lemma updateTicket_cases:
  assumes "updateTicket env n dto actor role db = (r, db')"
  obtains (refused) e where "r = Inl e" "db' = db"
  | (user) v where "getTicketById env db n (Some role) (Some actor) = Inr v" "role = USER"
      "user_update env (view_ticket v) dto actor db = (r, db')"
  | (status_failed) v t1 e where "getTicketById env db n (Some role) (Some actor) = Inr v" "role \<noteq> USER"
      "prepare_update env db (view_ticket v) dto (getLatestEscalation db n) actor role = Inr t1"
      "apply_status env v t1 dto (getLatestEscalation db n)
         (isEligibleAssignedOperator (env_caps env) (view_ticket v) actor role) actor role
         (frozen_of db (view_ticket v)) db = (Inl e, db')" "r = Inl e"
  | (operator) v t1 ta db1 where "getTicketById env db n (Some role) (Some actor) = Inr v" "role \<noteq> USER"
      "entry_guard (view_ticket v) dto role (frozen_of db (view_ticket v)) = None"
      "prepare_update env db (view_ticket v) dto (getLatestEscalation db n) actor role = Inr t1"
      "apply_status env v t1 dto (getLatestEscalation db n)
         (isEligibleAssignedOperator (env_caps env) (view_ticket v) actor role) actor role
         (frozen_of db (view_ticket v)) db = (Inr ta, db1)"
      "finish_update env dto actor role (status (view_ticket v)) (updatedAt (view_ticket v)) ta db1 = (r, db')"
proof (cases "getTicketById env db n (Some role) (Some actor)")
  case (Inl e)
  with assms show ?thesis by (intro refused [of e]) (auto simp: updateTicket_def)
next
  case (Inr v)
  show ?thesis
  proof (cases "entry_guard (view_ticket v) dto role (frozen_of db (view_ticket v))")
    case (Some e)
    with Inr assms show ?thesis
      by (intro refused [of e]) (auto simp: updateTicket_def frozen_of_def Let_def)
  next
    case None
    show ?thesis
    proof (cases "role = USER")
      case True
      with Inr None assms show ?thesis
        by (intro user) (auto simp: updateTicket_def frozen_of_def Let_def)
    next
      case False
      with Inr None assms have o: "operator_update env v dto (getLatestEscalation db n) actor role
          (frozen_of db (view_ticket v)) db = (r, db')"
        by (simp add: updateTicket_def frozen_of_def Let_def)
      show ?thesis
      proof (cases "prepare_update env db (view_ticket v) dto (getLatestEscalation db n) actor role")
        case (Inl e)
        with o show ?thesis by (intro refused [of e]) (auto simp: operator_update_def Let_def)
      next
        case p: (Inr t1)
        obtain ra db1 where a: "apply_status env v t1 dto (getLatestEscalation db n)
         (isEligibleAssignedOperator (env_caps env) (view_ticket v) actor role) actor role
         (frozen_of db (view_ticket v)) db = (ra, db1)" by fastforce
        show ?thesis
        proof (cases ra)
          case (Inl e)
          with o p a have "r = Inl e" "db' = db1" by (auto simp: operator_update_def Let_def)
          with status_failed [OF Inr False p] a Inl show ?thesis by simp
        next
          case ra: (Inr ta)
          with o p a have "finish_update env dto actor role (status (view_ticket v))
              (updatedAt (view_ticket v)) ta db1 = (r, db')" by (simp add: operator_update_def Let_def)
          with operator [OF Inr False None p] a ra show ?thesis by simp
        qed
      qed
    qed
  qed
qed

lemma entry_guard_status: "entry_guard t dto role fr = None \<Longrightarrow> dto_status dto \<noteq> Some CANCELLED \<and> status t \<noteq> CANCELLED"
  by (auto simp: entry_guard_def split: if_splits)

text \<open>The facts of the operator's path on well-formed tables.\<close>

lemma operator_outcome:
  assumes "getTicketById env db n (Some role) (Some actor) = Inr v"
    "prepare_update env db (view_ticket v) dto latest actor role = Inr t1"
    "apply_status env v t1 dto latest el actor role (frozen_of db (view_ticket v)) db = (Inr ta, db1)"
    "entry_guard (view_ticket v) dto role (frozen_of db (view_ticket v)) = None" "db_wf db"
  obtains row where "find_ticket db n = Some row" "status_outcome dto t1 ta" "ticket_id t1 = n"
    "status t1 = status row" "status (view_ticket v) = status row" "updatedAt (view_ticket v) = updatedAt row"
    "find_ticket db1 n = Some row" "db_wf db1" "db_escalations db1 = db_escalations db"
    "\<And>s. dto_status dto = Some s \<Longrightarrow>
       s \<in> set (ALLOWED_TRANSITIONS (env_caps env) role (frozen_of db (view_ticket v)) (status row))"
proof -
  obtain row d where view: "find_ticket db n = Some row" "ticket_wf (view_ticket v)"
    "view_ticket v = enrich db (with_relations db row)\<lparr>slaDeadline := d\<rparr>"
    using view_wf [OF assms(1,5)] by metis
  note core = ensuresD [OF prepare_update_core assms(2)]
  have t1: "ticket_wf t1" "ticket_id t1 = n" "status t1 = status row"
    using core view same_core_wf [OF core view(2)] find_ticket_id [OF view(1)]
    by (auto simp: same_core_def)
  have st: "status (view_ticket v) = status row" "updatedAt (view_ticket v) = updatedAt row"
    by (simp_all add: view(3))
  note spec = apply_status_spec [OF assms(3) t1(1) conjunct1 [OF entry_guard_status [OF assms(4)]]
      frozen_of_valid]
  note tables = apply_status_tables [OF assms(3)]
  show thesis
    by (rule that [OF view(1) conjunct1 [OF spec] t1(2,3) st]) (use tables t1 view(1) assms(5) spec in auto)
qed

lemma user_update_cases:
  assumes "user_update env t dto actor db = (r, db')"
  obtains (failed) e where "r = Inl e" "db' = db"
  | (closed) t' where "dto_status dto = Some CLOSED" "status t = RESOLVED"
      "t' = t\<lparr>status := CLOSED, userClosed := True,
         resolvedAt := (case resolvedAt t of Some d \<Rightarrow> Some d | None \<Rightarrow> Some (env_now env))\<rparr>"
      "r = Inr (stamp env t')"
      "db' = logEvent env (ticket_id t) ''closed'' (Some actor) None None None (save_ticket env t' db)"
  | (edited) current where "dto_status dto = None" "status t = OPEN"
      "find_ticket db (ticket_id t) = Some current" "updatedAt current = updatedAt t"
      "r = Inr (stamp env (apply_texts dto t))" "db' = save_ticket env (apply_texts dto t) db"
proof (cases "user_guard t dto actor")
  case (Some e)
  with assms show ?thesis by (intro failed [of e]) (auto simp: user_update_def)
next
  case None
  then have g: "\<not> requester_operational dto" "dto_status dto = Some CLOSED \<longrightarrow> status t = RESOLVED"
    "dto_status dto \<noteq> Some CLOSED \<longrightarrow> status t = OPEN"
    by (auto simp: user_guard_def split: if_splits)
  show ?thesis
  proof (cases "dto_status dto = Some CLOSED")
    case True
    with assms None g show ?thesis by (intro closed) (auto simp: user_update_def Let_def)
  next
    case False
    with g have ds: "dto_status dto = None" "status t = OPEN" by (auto simp: requester_operational_def)
    from assms None False have "persistTicketUpdate env (apply_texts dto t) (updatedAt t) db = (r, db')"
      by (simp add: user_update_def)
    then show ?thesis
    proof (cases rule: persistTicketUpdate_cases)
      case (saved current)
      with ds show ?thesis
        by (intro edited [of current]) (simp_all add: apply_texts_def)
    qed (use failed in auto)
  qed
qed

lemma closed_wf:
  "ticket_wf t \<Longrightarrow> status t = RESOLVED \<Longrightarrow> ticket_wf (t\<lparr>status := CLOSED, userClosed := True,
     resolvedAt := (case resolvedAt t of Some d \<Rightarrow> Some d | None \<Rightarrow> Some now)\<rparr>)"
  by (auto simp: ticket_wf_def)

lemma duplicate_row_saved:
  "find_ticket (save_ticket env (source\<lparr>status := DUPLICATE, duplicateOfId := Some k, slaPausedAt := None,
     isSlaWaiting := False\<rparr>) db) (ticket_id source) = Some (stamp env (source\<lparr>status := DUPLICATE,
     duplicateOfId := Some k, slaPausedAt := None, isSlaWaiting := False\<rparr>))"
  using find_save_ticket_same [of env "source\<lparr>status := DUPLICATE, duplicateOfId := Some k,
    slaPausedAt := None, isSlaWaiting := False\<rparr>" db] by simp

lemma updateTicket_keeps_wf:
  assumes "db_wf db" "updateTicket env n dto actor role db = (r, db')"
  shows "db_wf db'"
  using assms(2)
proof (cases rule: updateTicket_cases)
  case refused
  with assms show ?thesis by simp
next
  case (user v)
  obtain row d where view: "find_ticket db n = Some row" "ticket_wf (view_ticket v)"
    using view_wf [OF user(1) assms(1)] by metis
  from user(3) show ?thesis
  proof (cases rule: user_update_cases)
    case failed
    with assms show ?thesis by simp
  next
    case (closed t')
    with view closed_wf have "ticket_wf t'" by blast
    with closed(5) assms(1) show ?thesis by (simp add: wf_simps)
  next
    case edited
    with view same_core_wf [OF apply_texts_core] assms(1) show ?thesis by (simp add: wf_simps)
  qed
next
  case (status_failed v t1 e)
  with apply_status_tables assms(1) show ?thesis by blast
next
  case (operator v t1 ta db1)
  obtain row where o: "status_outcome dto t1 ta" "ticket_id t1 = n" "db_wf db1"
    using operator_outcome [OF operator(1,4,5,3) assms(1)] by metis
  from operator(6) o(1) show ?thesis
  proof (cases rule: finish_update_cases)
    case failed
    with o show ?thesis by simp
  next
    case (updated t3 auto current)
    with o(3) show ?thesis by (simp add: after_update_wf wf_simps)
  next
    case (duplicated source original' t3)
    with o(3) db_wf_find [OF o(3)] row_duplicate_wf show ?thesis by (simp add: after_update_wf wf_simps)
  qed
qed

section \<open>Properties\<close>

lemma find_saved_row:
  assumes "ticket_id t3 = n" "db_wf db"
    "\<And>s. dto_status dto = Some s \<Longrightarrow> s \<in> {RESOLVED, CLOSED, DUPLICATE, FREEZE} \<Longrightarrow> status t3 = s"
  shows "find_ticket (after_update env dto actor original saved auto (save_ticket env t3 db)) n
    = Some (stamp env t3)"
proof -
  have "find_ticket (save_ticket env t3 db) n = Some (stamp env t3)"
    using find_save_ticket_same [of env t3 db] assms(1) by simp
  moreover have "db_ok (save_ticket env t3 db)" using assms(2) by (simp add: db_wf_ok table_simps)
  ultimately show ?thesis using assms(3) by (intro after_update_keeps) simp_all
qed

lemma operator_stored:
  assumes "getTicketById env db n (Some role) (Some actor) = Inr v" "role \<noteq> USER" "db_wf db"
    "prepare_update env db (view_ticket v) dto latest actor role = Inr t1"
    "apply_status env v t1 dto latest el actor role (frozen_of db (view_ticket v)) db = (Inr ta, db1)"
    "entry_guard (view_ticket v) dto role (frozen_of db (view_ticket v)) = None"
    "finish_update env dto actor role (status (view_ticket v)) (updatedAt (view_ticket v)) ta db1 = (Inr saved, db')"
  obtains row stored where "find_ticket db n = Some row" "find_ticket db' n = Some stored"
    "dto_status dto = None \<longrightarrow> status stored = status row"
    "\<forall>s. dto_status dto = Some s \<longrightarrow> (status stored = s \<or> s = OPEN \<and> status stored = ASSIGNED)
       \<and> s \<in> set (ALLOWED_TRANSITIONS (env_caps env) role (frozen_of db (view_ticket v)) (status row))"
proof -
  obtain row where o: "find_ticket db n = Some row" "status_outcome dto t1 ta" "ticket_id t1 = n"
    "status t1 = status row" "db_wf db1"
    "\<And>s. dto_status dto = Some s \<Longrightarrow>
       s \<in> set (ALLOWED_TRANSITIONS (env_caps env) role (frozen_of db (view_ticket v)) (status row))"
    using operator_outcome [OF assms(1,4,5,6,3)] by metis
  from assms(7) o(2) show thesis
  proof (cases rule: finish_update_cases)
    case failed
    then show thesis by simp
  next
    case (updated t3 auto current)
    have "find_ticket db' n = Some (stamp env t3)"
      unfolding updated(10)
      by (rule find_saved_row) (use updated(3,5) o(3,5) in auto)
    with updated o show thesis by (intro that [OF o(1), of "stamp env t3"]) auto
  next
    case (duplicated source original' t3)
    let ?s = "source\<lparr>status := DUPLICATE, duplicateOfId := Some (ticket_id original'), slaPausedAt := None,
      isSlaWaiting := False\<rparr>"
    have id: "ticket_id source = n" using find_ticket_id [OF duplicated(2)] o(3) by simp
    have "find_ticket db' n = Some (stamp env ?s)"
      unfolding duplicated(8)
      by (rule after_update_keeps)
        (use duplicated(1) o(5) duplicate_row_saved [where env = env and source = source and k = "ticket_id original'"
            and db = db1] id
          in \<open>auto simp: table_simps db_wf_ok\<close>)
    with duplicated(1) o show thesis by (intro that [OF o(1), of "stamp env ?s"]) auto
  qed
qed

lemma user_stored:
  assumes "getTicketById env db n (Some role) (Some actor) = Inr v" "db_wf db"
    "user_update env (view_ticket v) dto actor db = (Inr saved, db')"
  obtains row stored where "find_ticket db n = Some row" "find_ticket db' n = Some stored"
    "dto_status dto = None \<longrightarrow> status stored = status row"
    "\<forall>s. dto_status dto = Some s \<longrightarrow> status stored = s \<and> s = CLOSED \<and> status row = RESOLVED"
proof -
  obtain row d where view: "find_ticket db n = Some row"
    "view_ticket v = enrich db (with_relations db row)\<lparr>slaDeadline := d\<rparr>"
    using view_wf [OF assms(1,2)] by metis
  then have row: "ticket_id (view_ticket v) = n" "status (view_ticket v) = status row"
    using find_ticket_id [OF view(1)] by (simp_all add: view(2))
  from assms(3) show thesis
  proof (cases rule: user_update_cases)
    case (closed t')
    have "find_ticket db' n = Some (stamp env t')"
      using closed(3,5) row(1) find_save_ticket_same [of env t' db] by (simp add: table_simps)
    moreover have "status (stamp env t') = CLOSED" by (simp add: closed(3))
    ultimately show thesis using closed(1,2) row(2) by (intro that [OF view(1), of "stamp env t'"]) simp_all
  next
    case (edited current)
    let ?t = "apply_texts dto (view_ticket v)"
    have t: "ticket_id ?t = n" "status ?t = status row" using row by (simp_all add: apply_texts_def)
    have "find_ticket db' n = Some (stamp env ?t)"
      using edited(6) find_save_ticket_same [of env ?t db] t(1) by simp
    with edited(1) t(2) show thesis by (intro that [OF view(1), of "stamp env ?t"]) simp_all
  qed simp
qed

lemma updateTicket_step:
  assumes "db_wf db" "updateTicket env n dto actor role db = (Inr saved, db')"
  obtains v row stored where "getTicketById env db n (Some role) (Some actor) = Inr v"
    "find_ticket db n = Some row" "find_ticket db' n = Some stored"
    "dto_status dto = None \<longrightarrow> status stored = status row"
    "\<forall>s. dto_status dto = Some s \<longrightarrow>
        (status stored = s \<or> s = OPEN \<and> status stored = ASSIGNED)
        \<and> (if role = USER then s = CLOSED \<and> status row = RESOLVED
           else s \<in> set (ALLOWED_TRANSITIONS (env_caps env) role (frozen_of db (view_ticket v)) (status row)))"
  using assms(2)
proof (cases rule: updateTicket_cases)
  case (user v)
  obtain row stored where "find_ticket db n = Some row" "find_ticket db' n = Some stored"
    "dto_status dto = None \<longrightarrow> status stored = status row"
    "\<forall>s. dto_status dto = Some s \<longrightarrow> status stored = s \<and> s = CLOSED \<and> status row = RESOLVED"
    by (rule user_stored [OF user(1) assms(1) user(3)])
  then show thesis using user(2) by (intro that [OF user(1), of row stored]) auto
next
  case (operator v t1 ta db1)
  obtain row stored where "find_ticket db n = Some row" "find_ticket db' n = Some stored"
    "dto_status dto = None \<longrightarrow> status stored = status row"
    "\<forall>s. dto_status dto = Some s \<longrightarrow> (status stored = s \<or> s = OPEN \<and> status stored = ASSIGNED)
       \<and> s \<in> set (ALLOWED_TRANSITIONS (env_caps env) role (frozen_of db (view_ticket v)) (status row))"
    by (rule operator_stored [OF operator(1,2) assms(1) operator(4,5,3,6)])
  then show thesis using operator(2) by (intro that [OF operator(1)]) simp_all
qed simp_all

lemma updateTicket_error_frame:
  assumes "db_wf db" "updateTicket env n dto actor role db = (Inl e, db')"
  shows "find_ticket db' n = find_ticket db n \<and> db_escalations db' = db_escalations db
    \<and> db_events db' = db_events db"
  using assms(2)
proof (cases rule: updateTicket_cases)
  case (user v)
  from user(3) show ?thesis by (cases rule: user_update_cases) simp_all
next
  case (status_failed v t1 e')
  have "ticket_id t1 = n"
    using ensuresD [OF prepare_update_core status_failed(3)] getTicketById_fields [OF status_failed(1)]
    by (metis same_core_def)
  with apply_status_tables [OF status_failed(4)] show ?thesis by simp
next
  case (operator v t1 ta db1)
  obtain row where o: "find_ticket db n = Some row" "status_outcome dto t1 ta" "find_ticket db1 n = Some row"
      "db_escalations db1 = db_escalations db" "ticket_id t1 = n"
    using operator_outcome [OF operator(1,4,5,3) assms(1)] by metis
  from operator(6) o(2) have "db' = db1" by (cases rule: finish_update_cases) simp_all
  with o apply_status_tables [OF operator(5)] show ?thesis by simp
qed simp

lemma terminal_no_transitions:
  "st \<in> {CLOSED, DUPLICATE, CANCELLED} \<Longrightarrow> ALLOWED_TRANSITIONS caps role fr st = []"
  by (auto simp: ALLOWED_TRANSITIONS_def Let_def)

text \<open>C3: the status machine of \<open>updateTicket\<close>. A successful update leaves the ticket in its status when
  none is requested; otherwise the requested status was in the transition matrix of the actor's role for
  the stored status (for an end user: closing a resolved ticket), and the stored ticket has that status,
  except that a reopened ticket may have been assigned again at once.\<close>

theorem updateTicket_transition:
  assumes "db_wf db" "updateTicket env n dto actor role db = (Inr saved, db')"
  shows "\<exists>v row stored. getTicketById env db n (Some role) (Some actor) = Inr v
    \<and> find_ticket db n = Some row \<and> find_ticket db' n = Some stored
    \<and> (dto_status dto = None \<longrightarrow> status stored = status row)
    \<and> (\<forall>s. dto_status dto = Some s \<longrightarrow>
        (status stored = s \<or> s = OPEN \<and> status stored = ASSIGNED)
        \<and> (if role = USER then s = CLOSED \<and> status row = RESOLVED
           else s \<in> set (ALLOWED_TRANSITIONS (env_caps env) role (frozen_of db (view_ticket v)) (status row))))"
proof (rule updateTicket_step [OF assms])
  fix v row stored
  assume "getTicketById env db n (Some role) (Some actor) = Inr v"
    "find_ticket db n = Some row" "find_ticket db' n = Some stored"
    "dto_status dto = None \<longrightarrow> status stored = status row"
    "\<forall>s. dto_status dto = Some s \<longrightarrow>
        (status stored = s \<or> s = OPEN \<and> status stored = ASSIGNED)
        \<and> (if role = USER then s = CLOSED \<and> status row = RESOLVED
           else s \<in> set (ALLOWED_TRANSITIONS (env_caps env) role (frozen_of db (view_ticket v)) (status row)))"
  then show ?thesis by (intro exI [of _ v] exI [of _ row] exI [of _ stored]) (simp only: simp_thms)
qed

text \<open>Terminal statuses. Once a ticket is closed, duplicate or cancelled, every update that requests a
  status is refused and the ticket's row stays as it was, whatever the role of the actor.\<close>

lemma updateTicket_terminal:
  assumes "db_wf db" "find_ticket db n = Some row" "status row \<in> {CLOSED, DUPLICATE, CANCELLED}"
    "dto_status dto \<noteq> None"
  shows "(\<exists>e. fst (updateTicket env n dto actor role db) = Inl e)
    \<and> find_ticket (snd (updateTicket env n dto actor role db)) n = Some row"
proof -
  obtain r db' where u: "updateTicket env n dto actor role db = (r, db')" by fastforce
  show ?thesis
  proof (cases r)
    case (Inl e)
    with u updateTicket_error_frame [OF assms(1)] assms(2) show ?thesis by simp
  next
    case (Inr saved)
    obtain s where s: "dto_status dto = Some s" using assms(4) by blast
    show ?thesis
    proof (rule updateTicket_step [OF assms(1) u [unfolded Inr]])
      fix v row' stored
      assume row': "find_ticket db n = Some row'" and "\<forall>s. dto_status dto = Some s \<longrightarrow>
        (status stored = s \<or> s = OPEN \<and> status stored = ASSIGNED)
        \<and> (if role = USER then s = CLOSED \<and> status row' = RESOLVED
           else s \<in> set (ALLOWED_TRANSITIONS (env_caps env) role (frozen_of db (view_ticket v)) (status row')))"
      with s have "if role = USER then s = CLOSED \<and> status row' = RESOLVED
        else s \<in> set (ALLOWED_TRANSITIONS (env_caps env) role (frozen_of db (view_ticket v)) (status row'))"
        by blast
      then show ?thesis
        using assms(2,3) row' terminal_no_transitions [OF assms(3)] by (auto split: if_splits)
    qed
  qed
qed

text \<open>A failed update changes neither the ticket it is about nor the escalations nor the event log; what it
  may leave behind is a justification row and other tickets pushed back to the queue.\<close>

lemma updateTicket_failed:
  assumes "db_wf db" "updateTicket env n dto actor role db = (Inl e, db')"
  shows "find_ticket db' n = find_ticket db n \<and> db_escalations db' = db_escalations db
    \<and> db_events db' = db_events db"
  by (rule updateTicket_error_frame [OF assms])

text \<open>C25: no lost update. After a save of a ticket, a second writer that read an earlier version of it gets a
  Conflict and writes nothing.\<close>

theorem persistTicketUpdate_no_lost_update:
  assumes "persistTicketUpdate env1 t1 expected1 db = (Inr s1, db1)" "ticket_id t2 = ticket_id t1"
    "env_now env1 \<noteq> expected2"
  shows "\<exists>r. persistTicketUpdate env2 t2 expected2 db1 = (Inl (Conflict r), db1)"
  using assms(1)
proof (cases rule: persistTicketUpdate_cases)
  case (saved current)
  then have "find_ticket db1 (ticket_id t2) = Some (stamp env1 t1)"
    using assms(2) find_save_ticket_same [of env1 t1 db] by simp
  with assms(3) show ?thesis by (simp add: persistTicketUpdate_def)
qed simp

end
