(* ===== verification/Uploads.thy ===== *)
theory Uploads
  imports Tickets "HOL-Library.Word"
begin

text \<open>
  Uploaded images: the signature check \<open>validateImageUpload\<close> on the bytes of the buffer, and the name
  under which an accepted image is stored.  Bytes are 8-bit words.  An original file name has no
  directory part (the upload middleware strips it).
\<close>

type_synonym byte = "8 word"

record upload =
  mimetype :: string
  originalname :: string
  buffer :: "byte list"

text \<open>\<open>toLowerCase\<close> on the characters of HOL strings, which are those of Latin-1.\<close>

definition lower_char :: "char \<Rightarrow> char" where
  "lower_char c = (let n = of_char c :: nat
     in if 65 \<le> n \<and> n \<le> 90 \<or> 192 \<le> n \<and> n \<le> 222 \<and> n \<noteq> 215 then char_of (n + 32) else c)"

definition toLowerCase :: "string \<Rightarrow> string" where
  "toLowerCase s = map lower_char s"

text \<open>\<open>path.extname\<close>: from the last dot, unless the name starts there.\<close>

definition extname :: "string \<Rightarrow> string" where
  "extname s =
     (let suffix = takeWhile (\<lambda>c. c \<noteq> CHR ''.'') (rev s)
      in if length suffix + 1 < length s then CHR ''.'' # rev suffix else [])"

definition allowedMimeTypes :: "string \<Rightarrow> string list" where
  "allowedMimeTypes ext =
     (if ext = ''.jpg'' \<or> ext = ''.jpeg'' then [''image/jpeg'']
      else if ext = ''.png'' then [''image/png'']
      else if ext = ''.heic'' \<or> ext = ''.heif'' then [''image/heic'', ''image/heif'']
      else if ext = ''.webp'' then [''image/webp'']
      else [])"

text \<open>\<open>buffer.subarray(a, b)\<close> and \<open>toString('ascii')\<close>, which drops the high bit of each byte.\<close>

definition subarray :: "byte list \<Rightarrow> nat \<Rightarrow> nat \<Rightarrow> byte list" where
  "subarray bs a b = take (b - a) (drop a bs)"

definition ascii :: "byte list \<Rightarrow> string" where
  "ascii bs = map (\<lambda>b. char_of (unat (take_bit 7 b))) bs"

definition isJpeg :: "byte list \<Rightarrow> bool" where
  "isJpeg bs \<longleftrightarrow> 3 \<le> length bs \<and> take 3 bs = [0xFF, 0xD8, 0xFF]"

definition isPng :: "byte list \<Rightarrow> bool" where
  "isPng bs \<longleftrightarrow> 8 \<le> length bs \<and> subarray bs 0 8 = [0x89, 0x50, 0x4E, 0x47, 0x0D, 0x0A, 0x1A, 0x0A]"

definition isWebp :: "byte list \<Rightarrow> bool" where
  "isWebp bs \<longleftrightarrow> 12 \<le> length bs \<and> ascii (subarray bs 0 4) = ''RIFF'' \<and> ascii (subarray bs 8 12) = ''WEBP''"

definition isHeif :: "byte list \<Rightarrow> bool" where
  "isHeif bs \<longleftrightarrow> 12 \<le> length bs \<and> ascii (subarray bs 4 8) = ''ftyp''
     \<and> ascii (subarray bs 8 12) \<in> {''heic'', ''heix'', ''hevc'', ''hevx'', ''mif1'', ''msf1''}"

definition upload_mime :: "upload \<Rightarrow> string" where
  "upload_mime f = toLowerCase (mimetype f)"

definition valid_image :: "upload \<Rightarrow> bool" where
  "valid_image f \<longleftrightarrow> upload_mime f \<in> set (allowedMimeTypes (toLowerCase (extname (originalname f))))
     \<and> (isJpeg (buffer f) \<and> upload_mime f = ''image/jpeg''
        \<or> isPng (buffer f) \<and> upload_mime f = ''image/png''
        \<or> isWebp (buffer f) \<and> upload_mime f = ''image/webp''
        \<or> isHeif (buffer f) \<and> upload_mime f \<in> {''image/heic'', ''image/heif''})"

definition validateImageUpload :: "upload \<Rightarrow> http_error option" where
  "validateImageUpload f = (if valid_image f then None else Some (BadRequest (Image ImageInvalid)))"

text \<open>\<open>for (const f of files) this.validateImageUpload(f)\<close>.\<close>

definition validate_images :: "upload list \<Rightarrow> http_error option" where
  "validate_images fs = first_error (map (\<lambda>f. (\<not> valid_image f, BadRequest (Image ImageInvalid))) fs)"

text \<open>\<open>mime.split('/')[1]\<close> and the stored name; \<open>uuid\<close> is what \<open>randomUUID\<close> returned.\<close>

definition mime_subtype :: "string \<Rightarrow> string" where
  "mime_subtype m = takeWhile (\<lambda>c. c \<noteq> CHR ''/'') (tl (dropWhile (\<lambda>c. c \<noteq> CHR ''/'') m))"

definition createSafeImageFilename :: "string \<Rightarrow> upload \<Rightarrow> string" where
  "createSafeImageFilename uuid f =
     uuid @ ''.'' @ (if upload_mime f = ''image/jpeg'' then ''jpg'' else mime_subtype (upload_mime f))"

text \<open>The stored paths of a list of images under a directory, one fresh name for each.\<close>

definition stored_paths :: "string \<Rightarrow> (string \<times> upload) list \<Rightarrow> string list" where
  "stored_paths dir fs = map (\<lambda>(uuid, f). dir @ ''/'' @ createSafeImageFilename uuid f) fs"

section \<open>Laws\<close>

lemma validate_images_None: "validate_images fs = None \<longleftrightarrow> (\<forall>f \<in> set fs. valid_image f)"
  by (auto simp: validate_images_def first_error_None_iff)

lemma valid_image_mime:
  assumes "valid_image f"
  shows "upload_mime f \<in> {''image/jpeg'', ''image/png'', ''image/webp'', ''image/heic'', ''image/heif''}"
  using assms by (auto simp: valid_image_def)

text \<open>The stored extension is one of five and the bytes carry the signature it stands for.\<close>

lemma stored_extension:
  assumes "valid_image f"
  shows "\<exists>ext. createSafeImageFilename uuid f = uuid @ ''.'' @ ext
    \<and> (ext = ''jpg'' \<and> isJpeg (buffer f) \<or> ext = ''png'' \<and> isPng (buffer f)
       \<or> ext = ''webp'' \<and> isWebp (buffer f) \<or> ext \<in> {''heic'', ''heif''} \<and> isHeif (buffer f))"
proof -
  from assms consider
      (jpg) "upload_mime f = ''image/jpeg''" "isJpeg (buffer f)"
    | (png) "upload_mime f = ''image/png''" "isPng (buffer f)"
    | (webp) "upload_mime f = ''image/webp''" "isWebp (buffer f)"
    | (heic) "upload_mime f = ''image/heic''" "isHeif (buffer f)"
    | (heif) "upload_mime f = ''image/heif''" "isHeif (buffer f)"
    by (auto simp: valid_image_def)
  then show ?thesis
    by cases (simp_all add: createSafeImageFilename_def mime_subtype_def)
qed

text \<open>The signatures exclude one another: JPEG, PNG and the ASCII containers differ in the first byte or in bytes 4 to 7.\<close>

lemma isJpeg_first: "isJpeg bs \<Longrightarrow> bs ! 0 = 0xFF"
  by (cases bs) (auto simp: isJpeg_def)

lemma isPng_first: "isPng bs \<Longrightarrow> bs ! 0 = 0x89"
  by (cases bs) (auto simp: isPng_def subarray_def)

lemma jpeg_png_disjoint: "\<not> (isJpeg bs \<and> isPng bs)"
  using isJpeg_first [of bs] isPng_first [of bs] by auto

text \<open>No stored name can leave its directory.\<close>

lemma stored_name_flat:
  assumes "valid_image f" "CHR ''/'' \<notin> set uuid"
  shows "CHR ''/'' \<notin> set (createSafeImageFilename uuid f)"
  using stored_extension [OF assms(1), of uuid] assms(2) by auto

end
