(* ===== verification/Keywords.thy ===== *)
theory Keywords
  imports UpdateRules Uploads
begin

text \<open>
  The keyword rules of \<open>ticket-settings.service.ts\<close>: \<open>matchKeywordRules\<close> with its fuzzy word match, and
  the edit distance it computes by a table, proved to be the least number of edits.
\<close>

section \<open>The edit distance\<close>

text \<open>One row of the matrix from the row above: \<open>left\<close> is the entry to the left, the list the entries above,
  starting with the one above and to the left.\<close>

fun lev_cells :: "'a \<Rightarrow> 'a list \<Rightarrow> nat list \<Rightarrow> nat \<Rightarrow> nat list" where
  "lev_cells c (d # ds) (diag # up # row) left =
     (let v = min (up + 1) (min (left + 1) (diag + (if c = d then 0 else 1)))
      in v # lev_cells c ds (up # row) v)"
| "lev_cells c ds row left = []"

definition lev_row :: "'a \<Rightarrow> 'a list \<Rightarrow> nat \<Rightarrow> nat list \<Rightarrow> nat list" where
  "lev_row c b i row = i # lev_cells c b row i"

text \<open>The rows for \<open>a[i - 1]\<close>, \<open>a[i]\<close> and so on; only the last row is read again.\<close>

fun lev_rows :: "'a list \<Rightarrow> 'a list \<Rightarrow> nat \<Rightarrow> nat list \<Rightarrow> nat list" where
  "lev_rows [] b i row = row"
| "lev_rows (c # cs) b i row = lev_rows cs b (Suc i) (lev_row c b i row)"

definition levenshtein :: "'a list \<Rightarrow> 'a list \<Rightarrow> nat" where
  "levenshtein a b =
     (if a = [] then length b else if b = [] then length a
      else lev_rows a b 1 [0..<Suc (length b)] ! length b)"

section \<open>Matching\<close>

fun includes_text :: "string \<Rightarrow> string \<Rightarrow> bool" where
  "includes_text [] kw = (kw = [])"
| "includes_text (c # cs) kw = (take (length kw) (c # cs) = kw \<or> includes_text cs kw)"

text \<open>\<open>split(/\s+/).filter(Boolean)\<close>; \<open>word\<close> is the reversed word being read.\<close>

fun split_words :: "string \<Rightarrow> string \<Rightarrow> string list" where
  "split_words word [] = (if word = [] then [] else [rev word])"
| "split_words word (c # cs) =
     (if js_space c then (if word = [] then split_words [] cs else rev word # split_words [] cs)
      else split_words (c # word) cs)"

definition words_of :: "string \<Rightarrow> string list" where
  "words_of s = split_words [] s"

definition allowedTypos :: "string \<Rightarrow> nat" where
  "allowedTypos w = (if 6 \<le> length w then 2 else if 4 \<le> length w then 1 else 0)"

definition word_found :: "string list \<Rightarrow> string \<Rightarrow> bool" where
  "word_found textWords w \<longleftrightarrow> list_ex (\<lambda>t. t = w \<or> levenshtein w t \<le> allowedTypos w) textWords"

definition fuzzyMatch :: "string \<Rightarrow> string \<Rightarrow> bool" where
  "fuzzyMatch kw lowerText \<longleftrightarrow> includes_text lowerText kw
     \<or> (let kwWords = words_of kw
        in kwWords \<noteq> [] \<and> length (filter (word_found (words_of lowerText)) kwWords) = length kwWords)"

section \<open>The rules\<close>

definition rule_target_valid :: "db \<Rightarrow> keyword_rule \<Rightarrow> bool" where
  "rule_target_valid db r =
     (case (case targetCategoryId r of Some n \<Rightarrow> find_row cat_id (db_categories db) n | None \<Rightarrow> None) of
        None \<Rightarrow> False
      | Some c \<Rightarrow>
          \<not> cat_isDeleted c \<and> cat_isActive c \<and> categorySupportsTicketType c (targetTicketType r)
          \<and> (case targetIssueTypeId r of
               None \<Rightarrow> True
             | Some n \<Rightarrow> (case live_issue db n of
                 None \<Rightarrow> False | Some i \<Rightarrow> it_categoryId i = Some (cat_id c))))"

definition rule_keyword_list :: "keyword_rule \<Rightarrow> string list" where
  "rule_keyword_list r = (case rule_keywords r of Some ks \<Rightarrow> ks | None \<Rightarrow> [rule_keyword r])"

definition keyword_pairs :: "keyword_rule list \<Rightarrow> (keyword_rule \<times> string) list" where
  "keyword_pairs rules = sort_key (\<lambda>p. - int (length (snd p)))
     (concat (map (\<lambda>r. map (\<lambda>kw. (r, kw)) (rule_keyword_list r)) rules))"

text \<open>The loop over the pairs; an empty keyword is no \<open>matchedKw\<close>.\<close>

fun matched_rules :: "string \<Rightarrow> string \<Rightarrow> (keyword_rule \<times> string) list \<Rightarrow> keyword_rule list" where
  "matched_rules text matchedKw [] = []"
| "matched_rules text matchedKw ((r, kw) # ps) =
     (if matchedKw \<noteq> [] \<and> length kw < length matchedKw then []
      else if matchedKw \<noteq> [] \<and> kw \<noteq> matchedKw then matched_rules text matchedKw ps
      else if fuzzyMatch kw text then r # matched_rules text kw ps
      else matched_rules text matchedKw ps)"

definition choose_rule :: "ticket_type option \<Rightarrow> keyword_rule list \<Rightarrow> keyword_rule option" where
  "choose_rule current matched =
     (case matched of
        [] \<Rightarrow> None
      | first # _ \<Rightarrow>
          (case (case current of Some ty \<Rightarrow> List.find (\<lambda>r. targetTicketType r = ty) matched | None \<Rightarrow> None) of
             Some r \<Rightarrow> Some r
           | None \<Rightarrow> if list_all (\<lambda>r. targetTicketType r = targetTicketType first) matched then Some first
                     else None))"

definition matchKeywordRules :: "db \<Rightarrow> string \<Rightarrow> ticket_type option \<Rightarrow> keyword_rule option" where
  "matchKeywordRules db text current =
     choose_rule current (matched_rules (toLowerCase text) []
       (keyword_pairs (filter (rule_target_valid db) (filter rule_isActive (db_keywordRules db)))))"

section \<open>The distance is the least number of edits\<close>

text \<open>An edit script turns its source into its target.\<close>

datatype 'a edit = Keep 'a | Replace 'a 'a | Insert 'a | Delete 'a

fun source :: "'a edit list \<Rightarrow> 'a list" where
  "source [] = []"
| "source (Keep x # es) = x # source es"
| "source (Replace x y # es) = x # source es"
| "source (Insert y # es) = source es"
| "source (Delete x # es) = x # source es"

fun target :: "'a edit list \<Rightarrow> 'a list" where
  "target [] = []"
| "target (Keep x # es) = x # target es"
| "target (Replace x y # es) = y # target es"
| "target (Insert y # es) = y # target es"
| "target (Delete x # es) = target es"

fun edits :: "'a edit list \<Rightarrow> nat" where
  "edits [] = 0"
| "edits (Keep x # es) = edits es"
| "edits (Replace x y # es) = Suc (edits es)"
| "edits (Insert y # es) = Suc (edits es)"
| "edits (Delete x # es) = Suc (edits es)"

lemma script_append:
  "source (es @ fs) = source es @ source fs" "target (es @ fs) = target es @ target fs"
  "edits (es @ fs) = edits es + edits fs"
  by (induction es rule: edits.induct) auto

lemma script_rev: "source (rev es) = rev (source es)" "target (rev es) = rev (target es)" "edits (rev es) = edits es"
  by (induction es rule: edits.induct) (auto simp: script_append)

text \<open>The textbook recursion, on the ends of the words.\<close>

fun distance :: "'a list \<Rightarrow> 'a list \<Rightarrow> nat" where
  "distance [] ys = length ys"
| "distance xs [] = length xs"
| "distance (x # xs) (y # ys) =
     min (distance xs (y # ys) + 1) (min (distance (x # xs) ys + 1) (distance xs ys + (if x = y then 0 else 1)))"

lemma distance_Nil2 [simp]: "distance xs [] = length xs"
  by (cases xs) simp_all

lemma min3_bounds:
  fixes a b c :: nat
  shows "min a (min b c) \<le> a" "min a (min b c) \<le> b" "min a (min b c) \<le> c"
    "min a (min b c) = a \<or> min a (min b c) = b \<or> min a (min b c) = c"
  by (auto simp: min_def)

lemmas distance_Cons_bounds = min3_bounds [of "distance xs (y # ys) + 1" "distance (x # xs) ys + 1"
    "distance xs ys + (if x = y then 0 else 1)", folded distance.simps(3)] for x xs y ys

lemma distance_steps:
  "distance (x # xs) ys \<le> Suc (distance xs ys)" "distance xs (y # ys) \<le> Suc (distance xs ys)"
  "distance (x # xs) (x # ys) \<le> distance xs ys" "distance (x # xs) (y # ys) \<le> Suc (distance xs ys)"
proof -
  show "distance (x # xs) ys \<le> Suc (distance xs ys)"
  proof (cases ys)
    case (Cons z zs)
    then show ?thesis using distance_Cons_bounds(1) [of x xs z zs] by (simp del: distance.simps)
  qed simp
  show "distance xs (y # ys) \<le> Suc (distance xs ys)"
  proof (cases xs)
    case (Cons z zs)
    then show ?thesis using distance_Cons_bounds(2) [of z zs y ys] by (simp del: distance.simps)
  qed simp
  show "distance (x # xs) (x # ys) \<le> distance xs ys"
    using distance_Cons_bounds(3) [of x xs x ys] by (simp del: distance.simps)
  show "distance (x # xs) (y # ys) \<le> Suc (distance xs ys)"
    using distance_Cons_bounds(3) [of x xs y ys] by (simp del: distance.simps split: if_splits)
qed

lemma distance_le_edits: "distance (source es) (target es) \<le> edits es"
proof (induction es rule: edits.induct)
  case (2 x es)
  then show ?case using distance_steps(3) [of x "source es" "target es"] by (simp del: distance.simps)
next
  case (3 x y es)
  then show ?case using distance_steps(4) [of x "source es" y "target es"] by (simp del: distance.simps)
next
  case (4 y es)
  then show ?case using distance_steps(2) [of "source es" y "target es"] by (simp del: distance.simps)
next
  case (5 x es)
  then show ?case using distance_steps(1) [of x "source es" "target es"] by (simp del: distance.simps)
qed simp

lemma insert_script: "source (map Insert ys) = []" "target (map Insert ys) = ys" "edits (map Insert ys) = length ys"
  by (induction ys) auto

lemma delete_script: "source (map Delete xs) = xs" "target (map Delete xs) = []" "edits (map Delete xs) = length xs"
  by (induction xs) auto

lemma distance_script: "\<exists>es. source es = xs \<and> target es = ys \<and> edits es = distance xs ys"
proof (induction xs ys rule: distance.induct)
  case (1 ys)
  show ?case by (rule exI [of _ "map Insert ys"]) (simp add: insert_script)
next
  case (2 v va)
  show ?case by (rule exI [of _ "map Delete (v # va)"]) (simp add: delete_script)
next
  case (3 x xs y ys)
  then obtain es1 es2 es3 where
    e1: "source es1 = xs" "target es1 = y # ys" "edits es1 = distance xs (y # ys)" and
    e2: "source es2 = x # xs" "target es2 = ys" "edits es2 = distance (x # xs) ys" and
    e3: "source es3 = xs" "target es3 = ys" "edits es3 = distance xs ys" by metis
  let ?r = "if x = y then Keep x # es3 else Replace x y # es3"
  consider "distance (x # xs) (y # ys) = distance xs (y # ys) + 1"
    | "distance (x # xs) (y # ys) = distance (x # xs) ys + 1"
    | "distance (x # xs) (y # ys) = distance xs ys + (if x = y then 0 else 1)"
    using distance_Cons_bounds(4) [of x xs y ys] by blast
  then show ?case
  proof cases
    case 1
    with e1 show ?thesis by (intro exI [of _ "Delete x # es1"]) (simp del: distance.simps(3))
  next
    case 2
    with e2 show ?thesis by (intro exI [of _ "Insert y # es2"]) (simp del: distance.simps(3))
  next
    case 3
    with e3 show ?thesis by (intro exI [of _ ?r]) (simp del: distance.simps(3))
  qed
qed

text \<open>The matrix holds the distances of the reversed prefixes.\<close>

definition prefix_row :: "'a list \<Rightarrow> 'a list \<Rightarrow> nat \<Rightarrow> nat list" where
  "prefix_row ra b k = map (\<lambda>j. distance ra (rev (take j b))) [k..<Suc (length b)]"

lemma prefix_row_Cons: "k \<le> length b \<Longrightarrow> prefix_row ra b k = distance ra (rev (take k b)) # prefix_row ra b (Suc k)"
  unfolding prefix_row_def by (subst upt_conv_Cons) auto

lemma prefix_row_end: "prefix_row ra b (Suc (length b)) = []"
  by (simp add: prefix_row_def)

lemma lev_cells_prefix:
  "k \<le> length b \<Longrightarrow> lev_cells c (drop k b) (prefix_row ra b k) (distance (c # ra) (rev (take k b)))
     = prefix_row (c # ra) b (Suc k)"
proof (induction "length b - k" arbitrary: k)
  case 0
  then have k: "k = length b" by simp
  show ?case unfolding k by (simp add: prefix_row_end)
next
  case (Suc m)
  then have k: "k < length b" by simp
  then have d: "drop k b = b ! k # drop (Suc k) b" by (simp add: Cons_nth_drop_Suc)
  have t: "rev (take (Suc k) b) = b ! k # rev (take k b)" using k by (simp add: take_Suc_conv_app_nth)
  have r1: "prefix_row ra b k = distance ra (rev (take k b)) # distance ra (rev (take (Suc k) b))
      # prefix_row ra b (Suc (Suc k))"
    using k prefix_row_Cons [of k b ra] prefix_row_Cons [of "Suc k" b ra] by simp
  have r2: "prefix_row ra b (Suc k) = distance ra (rev (take (Suc k) b)) # prefix_row ra b (Suc (Suc k))"
    using k by (intro prefix_row_Cons) simp
  have v: "min (distance ra (rev (take (Suc k) b)) + 1) (min (distance (c # ra) (rev (take k b)) + 1)
        (distance ra (rev (take k b)) + (if c = b ! k then 0 else 1))) = distance (c # ra) (rev (take (Suc k) b))"
    unfolding t by simp
  have "lev_cells c (drop k b) (prefix_row ra b k) (distance (c # ra) (rev (take k b))) =
      distance (c # ra) (rev (take (Suc k) b))
      # lev_cells c (drop (Suc k) b) (prefix_row ra b (Suc k)) (distance (c # ra) (rev (take (Suc k) b)))"
    unfolding d r1 lev_cells.simps(1) Let_def v r2 ..
  also have "\<dots> = distance (c # ra) (rev (take (Suc k) b)) # prefix_row (c # ra) b (Suc (Suc k))"
    using Suc by simp
  also have "\<dots> = prefix_row (c # ra) b (Suc k)"
    using k prefix_row_Cons [of "Suc k" b "c # ra"] by simp
  finally show ?case .
qed

lemma lev_row_prefix: "lev_row c b (Suc (length ra)) (prefix_row ra b 0) = prefix_row (c # ra) b 0"
  using lev_cells_prefix [of 0 b c ra] prefix_row_Cons [of 0 b "c # ra"] by (simp add: lev_row_def)

lemma lev_rows_prefix:
  "lev_rows as b (Suc (length ra)) (prefix_row ra b 0) = prefix_row (rev as @ ra) b 0"
proof (induction as arbitrary: ra)
  case (Cons c as)
  have "lev_rows (c # as) b (Suc (length ra)) (prefix_row ra b 0)
      = lev_rows as b (Suc (length (c # ra))) (prefix_row (c # ra) b 0)"
    by (simp add: lev_row_prefix)
  also have "\<dots> = prefix_row (rev as @ c # ra) b 0" by (rule Cons)
  finally show ?case by simp
qed simp

lemma levenshtein_distance: "levenshtein a b = distance (rev a) (rev b)"
proof -
  have init: "[0..<Suc (length b)] = prefix_row [] b 0"
    unfolding prefix_row_def by (rule nth_equalityI) (auto simp: min_def simp del: upt_Suc)
  have last: "prefix_row ra b 0 ! length b = distance ra (rev b)" for ra
    unfolding prefix_row_def by (simp del: upt_Suc)
  have "lev_rows a b 1 [0..<Suc (length b)] ! length b = distance (rev a) (rev b)"
    using lev_rows_prefix [of a b "[]"] last [of "rev a"] unfolding init by simp
  then show ?thesis by (auto simp: levenshtein_def)
qed

text \<open>The number of edits of a cheapest script.\<close>

lemma levenshtein_least:
  "(\<exists>es. source es = a \<and> target es = b \<and> edits es = levenshtein a b)
     \<and> (\<forall>es. source es = a \<longrightarrow> target es = b \<longrightarrow> levenshtein a b \<le> edits es)"
proof
  obtain es where "source es = rev a" "target es = rev b" "edits es = levenshtein a b"
    using distance_script [of "rev a" "rev b"] unfolding levenshtein_distance by blast
  then show "\<exists>es. source es = a \<and> target es = b \<and> edits es = levenshtein a b"
    by (intro exI [of _ "rev es"]) (simp add: script_rev)
  show "\<forall>es. source es = a \<longrightarrow> target es = b \<longrightarrow> levenshtein a b \<le> edits es"
    using distance_le_edits [of "rev es" for es] by (auto simp: levenshtein_distance script_rev)
qed

section \<open>What a match is\<close>

lemma includes_iff: "includes_text text kw \<longleftrightarrow> (\<exists>u v. text = u @ kw @ v)"
proof (induction "text")
  case (Cons c cs)
  have "take (length kw) (c # cs) = kw \<longleftrightarrow> (\<exists>v. c # cs = kw @ v)"
    by (metis append_eq_conv_conj append_take_drop_id)
  moreover have "(\<exists>u v. c # cs = u @ kw @ v) \<longleftrightarrow> (\<exists>v. c # cs = kw @ v) \<or> (\<exists>u v. cs = u @ kw @ v)"
  proof
    assume "\<exists>u v. c # cs = u @ kw @ v"
    then obtain u v where "c # cs = u @ kw @ v" by blast
    then show "(\<exists>v. c # cs = kw @ v) \<or> (\<exists>u v. cs = u @ kw @ v)" by (cases u) auto
  next
    assume "(\<exists>v. c # cs = kw @ v) \<or> (\<exists>u v. cs = u @ kw @ v)"
    then show "\<exists>u v. c # cs = u @ kw @ v"
    proof
      assume "\<exists>u v. cs = u @ kw @ v"
      then obtain u v where "cs = u @ kw @ v" by blast
      then have "c # cs = (c # u) @ kw @ v" by simp
      then show ?thesis by blast
    next
      assume "\<exists>v. c # cs = kw @ v"
      then show ?thesis by (metis append_Nil)
    qed
  qed
  ultimately show ?case using Cons by simp
qed simp

lemma fuzzyMatch_iff:
  "fuzzyMatch kw text \<longleftrightarrow> (\<exists>u v. text = u @ kw @ v)
     \<or> words_of kw \<noteq> [] \<and> (\<forall>w \<in> set (words_of kw). \<exists>t \<in> set (words_of text). t = w \<or> levenshtein w t \<le> allowedTypos w)"
proof -
  have "length (filter P xs) = length xs \<longleftrightarrow> (\<forall>x \<in> set xs. P x)" for P and xs :: "string list"
    by (induction xs) (auto, (metis Suc_n_not_le_n length_filter_le)+)
  then show ?thesis by (auto simp: fuzzyMatch_def includes_iff Let_def word_found_def list_ex_iff)
qed

lemma matched_rules_member:
  "r \<in> set (matched_rules text m ps) \<Longrightarrow> \<exists>kw. (r, kw) \<in> set ps \<and> fuzzyMatch kw text"
  by (induction "text" m ps rule: matched_rules.induct) (auto split: if_splits)

lemma choose_rule_member: "choose_rule current ms = Some r \<Longrightarrow> r \<in> set ms"
  by (cases ms) (auto simp: choose_rule_def find_Some_iff split: option.splits if_splits)

text \<open>A rule that shifts a ticket is active, has a live target tuple and matches by one of its keywords.\<close>

lemma matchKeywordRules_Some:
  assumes "matchKeywordRules db text current = Some r"
  shows "r \<in> set (db_keywordRules db) \<and> rule_isActive r \<and> rule_target_valid db r
    \<and> (\<exists>kw \<in> set (rule_keyword_list r). fuzzyMatch kw (toLowerCase text))"
proof -
  from choose_rule_member [OF assms [unfolded matchKeywordRules_def]] matched_rules_member
  obtain kw where "(r, kw) \<in> set (keyword_pairs (filter (rule_target_valid db) (filter rule_isActive (db_keywordRules db))))"
    "fuzzyMatch kw (toLowerCase text)" by metis
  then show ?thesis by (auto simp: keyword_pairs_def)
qed

text \<open>Such a rule passes the routing validation of the new ticket.\<close>

lemma rule_target_valid_routing:
  assumes "rule_target_valid db r"
  obtains categ c where "targetCategoryId r = Some categ"
    "\<exists>issue. validateRoutingSelection db (targetTicketType r) categ (targetIssueTypeId r) = Inr (c, issue)"
proof -
  from assms obtain categ c where *: "targetCategoryId r = Some categ" "find_row cat_id (db_categories db) categ = Some c"
    "\<not> cat_isDeleted c" "cat_isActive c" "categorySupportsTicketType c (targetTicketType r)"
    by (auto simp: rule_target_valid_def split: option.splits)
  show thesis
  proof (cases "targetIssueTypeId r")
    case None
    with * show thesis by (intro that [OF *(1), of c]) (simp add: validateRoutingSelection_def)
  next
    case (Some n)
    with assms * obtain i where "live_issue db n = Some i" "it_categoryId i = Some (cat_id c)"
      by (auto simp: rule_target_valid_def split: option.splits)
    with Some * show thesis by (intro that [OF *(1), of c]) (simp add: validateRoutingSelection_def)
  qed
qed

end
