(* ===== verification/Assignment.thy ===== *)
theory Assignment
  imports UpdateFacts
begin

text \<open>
  Giving tickets to people: the manual (re)assignment \<open>assignTicket\<close>, the claim of an overtime
  ticket, the pick-up when a technician's attendance is recorded, and the return of the tickets of
  a technician who is not available.
\<close>

section \<open>Manual assignment\<close>

record assign_dto =
  to_assignedToId :: nat
  to_expectedUpdatedAt :: "iso_date option"
  to_expectedStatus :: "ticket_status option"
  to_expectedAssignedToId :: "nat option option"

definition assertAssignmentSnapshot :: "ticket \<Rightarrow> assign_dto \<Rightarrow> http_error option" where
  "assertAssignmentSnapshot t dto =
     (let changed = (case to_expectedUpdatedAt dto of
                None \<Rightarrow> False
              | Some d \<Rightarrow> d \<noteq> Unparsable [] \<and> date_parse d \<noteq> Some (updatedAt t))
            \<or> (case to_expectedStatus dto of None \<Rightarrow> False | Some s \<Rightarrow> s \<noteq> status t)
            \<or> (case to_expectedAssignedToId dto of None \<Rightarrow> False | Some a \<Rightarrow> a \<noteq> assignedToId t)
      in if changed then Some (Conflict (Assign AssignSnapshotChanged)) else None)"

definition assigner_guard :: "capability_cache \<Rightarrow> user_role \<Rightarrow> http_error option" where
  "assigner_guard caps role = first_error [
     (\<not> isTicketFocal caps role \<and> \<not> isTicketSettingsFocal caps role \<and> \<not> isAllTickets caps role
        \<and> \<not> isTechnician caps role, Forbidden (Assign AssignerRole))]"

definition assignable_guard :: "ticket \<Rightarrow> http_error option" where
  "assignable_guard t = first_error [
     (status t \<in> {DUPLICATE, CANCELLED}, Forbidden (Assign AssignDuplicate)),
     (status t \<in> {RESOLVED, CLOSED}, Forbidden (Assign AssignClosed))]"

definition attendance_guard :: "env \<Rightarrow> db \<Rightarrow> nat \<Rightarrow> http_error option" where
  "attendance_guard env db user =
     (case List.find (\<lambda>a. att_userId a = user) (getAttendanceForDate db (env_today env)) of
        Some a \<Rightarrow> if att_status a \<in> {PRESENT, OUT_OF_OFFICE} then None
                  else Some (BadRequest (Assign AttendanceRequired))
      | None \<Rightarrow> Some (BadRequest (Assign AttendanceRequired)))"

definition accepted_escalation_guard ::
  "capability_cache \<Rightarrow> db \<Rightarrow> ticket \<Rightarrow> nat \<Rightarrow> user_role \<Rightarrow> http_error option" where
  "accepted_escalation_guard caps db t technician role =
     (case accepted_of (getLatestEscalation db (ticket_id t)) of
        None \<Rightarrow> None
      | Some _ \<Rightarrow> first_error [
          (\<not> isTicketSettingsFocal caps role, Forbidden (Assign EscalationAdminOnly)),
          (\<not> list_ex (\<lambda>f. focal_userId f = technician
              \<and> (focal_ticketType f = None \<or> focal_ticketType f = Some (ticketType t))) (db_focals db),
           Forbidden (Assign EscalationFocalOnly))])"

definition busy_count :: "db \<Rightarrow> nat \<Rightarrow> nat" where
  "busy_count db user = count_active db user [ASSIGNED, IN_PROGRESS, PAUSE]"

definition load_guard :: "capability_cache \<Rightarrow> db \<Rightarrow> user_role \<Rightarrow> account \<Rightarrow> http_error option" where
  "load_guard caps db role technician = first_error [
     (isTechnician caps role \<and> \<not> isFocal caps role \<and> \<not> isFocal caps (acc_role technician),
      Forbidden (Assign LowerLevelEscalate)),
     (\<not> (isTicketSettingsFocal caps role \<or> isFocal caps role) \<and> 0 < busy_count db (acc_id technician),
      BadRequest (Assign AssigneeBusy))]"

definition assign_checks :: "env \<Rightarrow> db \<Rightarrow> ticket \<Rightarrow> assign_dto \<Rightarrow> user_role \<Rightarrow> account result" where
  "assign_checks env db t dto role =
     (let user = to_assignedToId dto; caps = env_caps env
      in guarded (assertAssignmentSnapshot t dto)
        (guarded (assignable_guard t)
        (guarded (assertRequesterAssignmentSeparation (ticketType t) user (Some (requesterId t)) (createdById t))
          (case env_getUserById env user of
             None \<Rightarrow> Inl (NotFound (Assign TechnicianNotFound))
           | Some technician \<Rightarrow>
               guarded (first_error [(acc_role technician = SUPER_ADMIN, BadRequest (Assign SuperAdminAssignee))])
              (guarded (assertSpecializedAssigneeEligibility caps (ticketType t) (Some technician))
              (guarded (attendance_guard env db user)
              (guarded (accepted_escalation_guard caps db t (acc_id technician) role)
              (guarded (load_guard caps db role technician)
                 (Inr technician)))))))))"

text \<open>The new owner, and the status the work gets there.\<close>

definition owned :: "env \<Rightarrow> ticket \<Rightarrow> nat \<Rightarrow> nat \<Rightarrow> ticket" where
  "owned env t user busy =
     (let t = t\<lparr>assignedToId := Some user, lastAssignedAt := Some (env_now env)\<rparr>;
          t = (if overtimeDate t = Some (env_today env) \<and> ticket_overtimeSlaDate t = None
               then t\<lparr>ticket_overtimeSlaDate := Some (env_today env)\<rparr> else t)
      in if status t \<in> {OPEN, ASSIGNED, IN_PROGRESS}
         then t\<lparr>status := (if busy = 0 then IN_PROGRESS else ASSIGNED)\<rparr> else t)"

definition queue_behind :: "env \<Rightarrow> ticket \<Rightarrow> ticket" where
  "queue_behind env t =
     (let t = t\<lparr>isSlaWaiting := True\<rparr>
      in if slaStartedAt t \<noteq> None \<and> slaPausedAt t = None then t\<lparr>slaPausedAt := Some (env_now env)\<rparr> else t)"

definition start_now :: "env \<Rightarrow> db \<Rightarrow> bool \<Rightarrow> ticket \<Rightarrow> ticket result" where
  "start_now env db wasSchedulePaused t =
     (let t = t\<lparr>isSlaWaiting := False\<rparr>
      in if status t = IN_PROGRESS \<and> slaStartedAt t = None
         then (let t = t\<lparr>slaStartedAt := Some (env_now env), accumulatedPauseSeconds := 0, slaPausedAt := None\<rparr>
               in and_then (calculateTicketSlaDeadline env db t (env_now env))
                    (\<lambda>d. Inr (t\<lparr>slaDeadline := d\<rparr>)))
         else Inr (t\<lparr>slaPausedAt := (if wasSchedulePaused then slaPausedAt t else None)\<rparr>))"

definition reassigned_ticket :: "env \<Rightarrow> db \<Rightarrow> ticket \<Rightarrow> nat \<Rightarrow> ticket result" where
  "reassigned_ticket env db t user =
     (let busy = busy_count db user; t' = owned env t user busy
      in if 0 < busy then Inr (queue_behind env t')
         else start_now env db (slaPausedAt t \<noteq> None \<and> \<not> isSlaWaiting t) t')"

text \<open>Moving work away may free the previous owner.\<close>

definition previous_owner :: "ticket \<Rightarrow> nat \<Rightarrow> nat option" where
  "previous_owner t user = (case assignedToId t of
     Some p \<Rightarrow> if p \<noteq> 0 \<and> p \<noteq> user then Some p else None | None \<Rightarrow> None)"

definition release_previous :: "env \<Rightarrow> nat option \<Rightarrow> db \<Rightarrow> unit result \<times> db" where
  "release_previous env previous db =
     (case previous of
        None \<Rightarrow> (Inr (), db)
      | Some p \<Rightarrow>
          if 0 < count_running db p [ASSIGNED, PAUSE] then (Inr (), db)
          else (case unpauseNextWaitingTicketAndSetInProgress env p db of
              (Inl e, db') \<Rightarrow> (Inl e, db')
            | (Inr _, db') \<Rightarrow> (Inr (), db')))"

definition commit_assignment :: "env \<Rightarrow> ticket \<Rightarrow> ticket \<Rightarrow> nat \<Rightarrow> nat option \<Rightarrow> db \<Rightarrow> ticket result \<times> db" where
  "commit_assignment env old new user actorId db =
     (case release_previous env (previous_owner old user) (save_ticket env new db) of
        (Inl e, db') \<Rightarrow> (Inl e, db')
      | (Inr _, db') \<Rightarrow> (Inr (stamp env new),
          logEvent env (ticket_id new)
            (if previous_owner old user \<noteq> None then ''manually_reassigned'' else ''manually_assigned'')
            actorId None None (Some user) db'))"

definition assignTicketInternal ::
  "env \<Rightarrow> nat \<Rightarrow> assign_dto \<Rightarrow> user_role \<Rightarrow> nat option \<Rightarrow> (ticket_type \<times> day) option \<Rightarrow> db \<Rightarrow> ticket result \<times> db" where
  "assignTicketInternal env n dto role actorId automaticPool db =
     (case assigner_guard (env_caps env) role of
        Some e \<Rightarrow> (Inl e, db)
      | None \<Rightarrow>
     (case getTicketById env db n (Some role) actorId of
        Inl e \<Rightarrow> (Inl e, db)
      | Inr v \<Rightarrow>
     (case assign_checks env db (view_ticket v) dto role of
        Inl e \<Rightarrow> (Inl e, db)
      | Inr technician \<Rightarrow>
     (case reassigned_ticket env db (view_ticket v) (to_assignedToId dto) of
        Inl e \<Rightarrow> (Inl e, db)
      | Inr t' \<Rightarrow>
          if (case automaticPool of
                None \<Rightarrow> False
              | Some (ty, d) \<Rightarrow>
                  \<not> canAutomaticallyAssign env db (to_assignedToId dto) (Pool_of ty) d (requesterId t'))
          then (Inl (Conflict (Assign NoLongerEligible)), db)
          else commit_assignment env (view_ticket v) t' (to_assignedToId dto) actorId db))))"

section \<open>Overtime tickets\<close>

definition claimed :: "env \<Rightarrow> db \<Rightarrow> ticket \<Rightarrow> nat \<Rightarrow> ticket result" where
  "claimed env db t user =
     (let busy = 0 < busy_count db user; now = env_now env;
          t = t\<lparr>assignedToId := Some user, lastAssignedAt := Some now,
             ticket_overtimeSlaDate := (if overtimeDate t = Some (env_today env) then Some (env_today env) else None),
             status := (if busy then ASSIGNED else IN_PROGRESS), isSlaWaiting := busy,
             slaStartedAt := (if busy then None else Some now)\<rparr>
      in if busy then Inr (t\<lparr>slaDeadline := None\<rparr>)
         else and_then (calculateTicketSlaDeadline env db t now) (\<lambda>d. Inr (t\<lparr>slaDeadline := d\<rparr>)))"

definition claim_guard :: "env \<Rightarrow> db \<Rightarrow> ticket \<Rightarrow> nat \<Rightarrow> user_role \<Rightarrow> http_error option" where
  "claim_guard env db t user role = first_error [
     (overtimeDate t = None \<or> status t \<noteq> OPEN \<or> truthy (assignedToId t), Conflict (Access AlreadyAcquired)),
     ((case List.find (\<lambda>u. acc_id u = user \<and> acc_active u) (db_users db) of
         None \<Rightarrow> True | Some u \<Rightarrow> acc_role u \<noteq> role)
        \<or> \<not> canClaimOvertime env db t user role,
      Forbidden (Access OvertimeClockInRequired))]"

text \<open>The claim is one transaction; the event and the view come after it.\<close>

definition claimOvertimeTicket :: "env \<Rightarrow> nat \<Rightarrow> nat \<Rightarrow> user_role \<Rightarrow> db \<Rightarrow> ticket_view result \<times> db" where
  "claimOvertimeTicket env n user role db =
     (case find_ticket db n of
        None \<Rightarrow> (Inl (NotFound (Assign TicketNotFound)), db)
      | Some t \<Rightarrow>
     (case claim_guard env db (without_relations t) user role of
        Some e \<Rightarrow> (Inl e, db)
      | None \<Rightarrow>
     (case claimed env db (without_relations t) user of
        Inl e \<Rightarrow> (Inl e, db)
      | Inr t' \<Rightarrow>
          let db' = logEvent env n ''manually_assigned'' (Some user) None None (Some user) (save_ticket env t' db)
          in (getTicketById env db' n (Some role) (Some user), db'))))"

section \<open>Pick-up when attendance is recorded\<close>

definition technician_type :: "capability_cache \<Rightarrow> user_role \<Rightarrow> ticket_type option" where
  "technician_type caps role =
     (if has_capability caps CapDesktop role then Some DESKTOP_SUPPORT
      else if has_capability caps CapItSupport role then Some IT_SUPPORT
      else if has_capability caps CapPantawidIct role then Some PANTAWID_ICT_SUPPORT
      else None)"

definition pendingTypes :: "ticket_type \<Rightarrow> ticket_type list" where
  "pendingTypes ty =
     (if ty = DESKTOP_SUPPORT then [DESKTOP_SUPPORT, IT_SUPPORT, PANTAWID_ICT_SUPPORT]
      else if ty = IT_SUPPORT then [IT_SUPPORT, DESKTOP_SUPPORT, PANTAWID_ICT_SUPPORT]
      else [PANTAWID_ICT_SUPPORT, DESKTOP_SUPPORT, IT_SUPPORT])"

definition unassigned_for :: "ticket_type list \<Rightarrow> nat \<Rightarrow> ticket \<Rightarrow> bool" where
  "unassigned_for tys tech t \<longleftrightarrow> status t = OPEN \<and> assignedToId t = None \<and> ticketType t \<in> set tys
     \<and> requesterId t \<noteq> tech"

definition carried_over :: "day \<Rightarrow> ticket \<Rightarrow> bool" where
  "carried_over today t = (case overtimeDate t of Some ot \<Rightarrow> ot < today | None \<Rightarrow> False)"

text \<open>The loop over the support types: the oldest ticket of the first type that has one.\<close>

fun first_pending :: "db \<Rightarrow> day \<Rightarrow> bool \<Rightarrow> nat \<Rightarrow> ticket_type list \<Rightarrow> ticket option" where
  "first_pending db today office tech [] = None"
| "first_pending db today office tech (ty # tys) =
     (case oldest_by createdAt (filter (\<lambda>t. unassigned_for [ty] tech t
           \<and> (overtimeDate t = None \<or> carried_over today t \<and> office)) (db_tickets db)) of
        Some t \<Rightarrow> Some t
      | None \<Rightarrow> first_pending db today office tech tys)"

definition pending_ticket :: "env \<Rightarrow> db \<Rightarrow> nat \<Rightarrow> ticket_type \<Rightarrow> ticket option" where
  "pending_ticket env db tech ty =
     (let today = env_today env; office = office_of db today
      in case (if office then oldest_by createdAt
                 (filter (\<lambda>t. unassigned_for (pendingTypes ty) tech t \<and> carried_over today t) (db_tickets db))
               else None) of
           Some t \<Rightarrow> Some t
         | None \<Rightarrow> first_pending db today office tech (pendingTypes ty))"

definition login_allowed :: "env \<Rightarrow> db \<Rightarrow> nat \<Rightarrow> ticket_type \<Rightarrow> bool" where
  "login_allowed env db tech ty \<longleftrightarrow>
     (ty = PANTAWID_ICT_SUPPORT \<or> office_of db (env_today env))
     \<and> list_ex (\<lambda>u. acc_id u = tech) (getAutoAssignmentTechnicians env db (Pool_of ty) (env_today env))
     \<and> \<not> weekly_cap_reached env db tech
     \<and> (config_strategy db = CAPPED_ROUND_ROBIN \<or> busy_count db tech = 0)"

definition started_for :: "env \<Rightarrow> db \<Rightarrow> nat \<Rightarrow> ticket \<Rightarrow> ticket result" where
  "started_for env db tech t =
     (let now = env_now env; busy = 0 < busy_count db tech;
          breached = hasBreachedActiveTicket env db tech;
          t = (without_relations t)\<lparr>assignedToId := Some tech,
             status := (if \<not> busy \<or> breached then IN_PROGRESS else ASSIGNED),
             lastAssignedAt := Some now, isSlaWaiting := (busy \<and> \<not> breached), slaPausedAt := None\<rparr>
      in if \<not> busy \<or> breached
         then (let t = t\<lparr>slaStartedAt := Some now, accumulatedPauseSeconds := 0\<rparr>
               in and_then (calculateTicketSlaDeadline env db t now) (\<lambda>d. Inr (t\<lparr>slaDeadline := d\<rparr>)))
         else Inr (t\<lparr>slaStartedAt := None, slaDeadline := None\<rparr>))"

text \<open>Every error is caught and logged.\<close>

definition assignPendingTicketsOnLoginInternal :: "env \<Rightarrow> nat \<Rightarrow> db \<Rightarrow> db" where
  "assignPendingTicketsOnLoginInternal env tech db =
     (case env_getUserById env tech of
        None \<Rightarrow> db
      | Some u \<Rightarrow>
     (case technician_type (env_caps env) (acc_role u) of
        None \<Rightarrow> db
      | Some ty \<Rightarrow>
          if isSeniorTech (env_caps env) (acc_role u) \<or> \<not> login_allowed env db tech ty then db
          else (case pending_ticket env db tech ty of
              None \<Rightarrow> db
            | Some t \<Rightarrow>
                if overtimeDate t \<noteq> None
                   \<and> (\<not> office_of db (env_today env) \<or> isOvertimeDay (db_officeDays db) (env_today env)) then db
                else (case started_for env db tech t of
                    Inl _ \<Rightarrow> db
                  | Inr t' \<Rightarrow>
                      if \<not> canAutomaticallyAssign env db tech (Pool_of ty) (env_today env) (requesterId t) then db
                      else logEvent env (ticket_id t) ''auto_assigned'' None None None (Some tech)
                             (save_ticket env t' db)))))"

section \<open>Technicians who are not available\<close>

definition returned_specialized :: "env \<Rightarrow> ticket \<Rightarrow> ticket" where
  "returned_specialized env t =
     t\<lparr>assignedToId := None, status := OPEN, lastAssignedAt := None, isSlaWaiting := False,
       slaPausedAt := (if slaDeadline t \<noteq> None \<and> slaPausedAt t = None then Some (env_now env)
                       else slaPausedAt t)\<rparr>"

definition returned_open :: "ticket \<Rightarrow> ticket" where
  "returned_open t =
     t\<lparr>assignedToId := None, status := OPEN, lastAssignedAt := None, isSlaWaiting := False,
       slaStartedAt := None, slaDeadline := None, slaPausedAt := None\<rparr>"

definition replacement_for :: "env \<Rightarrow> db \<Rightarrow> ticket \<Rightarrow> account option" where
  "replacement_for env db t =
     (let today = env_today env
      in if ticketType t = PANTAWID_ICT_SUPPORT \<or> office_of db today
         then List.find (\<lambda>u. count_active db (acc_id u) [ASSIGNED, IN_PROGRESS] = 0
                \<and> canAutomaticallyAssign env db (acc_id u) (Pool_of (ticketType t)) today (requesterId t))
              (filter (\<lambda>u. \<not> isSeniorTech (env_caps env) (acc_role u))
                 (getAutoAssignmentTechnicians env db (Pool_of (ticketType t)) today))
         else None)"

definition reassign_one :: "env \<Rightarrow> ticket \<Rightarrow> db \<Rightarrow> db" where
  "reassign_one env t db =
     (if ticketType t = SPECIALIZED_CONCERNS
      then logEvent env (ticket_id t) ''unassigned'' None None None None
             (save_ticket env (returned_specialized env t) db)
      else (let db1 = save_ticket env (returned_open t) db
            in case replacement_for env db1 t of
                 None \<Rightarrow> db1
               | Some u \<Rightarrow> logEvent env (ticket_id t) ''auto_reassigned'' None None None (Some (acc_id u))
                   (save_ticket env ((returned_open t)\<lparr>assignedToId := Some (acc_id u), status := ASSIGNED,
                      lastAssignedAt := Some (env_now env)\<rparr>) db1)))"

fun reassign_each :: "env \<Rightarrow> ticket list \<Rightarrow> db \<Rightarrow> db" where
  "reassign_each env [] db = db"
| "reassign_each env (t # ts) db = reassign_each env ts (reassign_one env t db)"

definition unavailable_work :: "db \<Rightarrow> nat \<Rightarrow> ticket list" where
  "unavailable_work db tech = map without_relations (filter (\<lambda>t. assignedToId t = Some tech
     \<and> (status t = ASSIGNED \<or> status t = IN_PROGRESS \<and> ticketType t = SPECIALIZED_CONCERNS)) (db_tickets db))"

definition reassignUnavailableTechnicianTicketsInternal :: "env \<Rightarrow> nat \<Rightarrow> db \<Rightarrow> db" where
  "reassignUnavailableTechnicianTicketsInternal env tech db = reassign_each env (unavailable_work db tech) db"

section \<open>Attendance alerts\<close>

text \<open>\<open>hasCurrentDtrData\<close> is what \<open>getDtrSystemStatus\<close> says of the current day's clock records.  The
  list is in the order of the tickets; the source sorts it by staff name for display.\<close>

datatype (plugins only: code) attendance_state = State_absent | State_half_day | State_assumed_late

record assignment_alert =
  alert_userId :: nat
  alert_state :: attendance_state
  alert_tickets :: "nat list"

definition attendance_state_of ::
  "ticketing_config \<Rightarrow> bool \<Rightarrow> date \<Rightarrow> attendance option \<Rightarrow> attendance_state option" where
  "attendance_state_of config hasCurrentDtrData now att =
     (let currentTime = getManilaTimeString now;
          expectedClockIn = (if scheduleMode config = CWW then cwwClockinEnd config else officeClockin config);
          workdayEnd = (if scheduleMode config = CWW then cwwClockoutEnd config else officeClockout config)
      in case att of
           Some a \<Rightarrow> if att_status a = ABSENT then Some State_absent
                     else if att_status a = HALF_DAY then Some State_half_day else None
         | None \<Rightarrow> if hasCurrentDtrData \<and> expectedClockIn \<le> currentTime
                   then Some (if workdayEnd \<le> currentTime then State_absent else State_assumed_late)
                   else None)"

definition assigned_users :: "ticket list \<Rightarrow> nat list" where
  "assigned_users ts = rev (remdups (rev (filter (\<lambda>n. n \<noteq> 0) (map (\<lambda>t. number (assignedToId t)) ts))))"

definition alert_for ::
  "env \<Rightarrow> db \<Rightarrow> ticketing_config \<Rightarrow> bool \<Rightarrow> ticket list \<Rightarrow> nat \<Rightarrow> assignment_alert option" where
  "alert_for env db config hasCurrentDtrData ts user =
     (case find_row acc_id (db_users db) user of
        None \<Rightarrow> None
      | Some u \<Rightarrow>
          if acc_role u \<in> {USER, SUPER_ADMIN} then None
          else (case attendance_state_of config hasCurrentDtrData (env_now env)
                       (attendance_row db user (env_today env)) of
              None \<Rightarrow> None
            | Some s \<Rightarrow> Some \<lparr>alert_userId = user, alert_state = s,
                alert_tickets = map ticket_id (filter (\<lambda>t. number (assignedToId t) = user) ts)\<rparr>))"

definition getAttendanceAssignmentAlerts :: "env \<Rightarrow> bool \<Rightarrow> db \<Rightarrow> assignment_alert list" where
  "getAttendanceAssignmentAlerts env hasCurrentDtrData db =
     (case db_config db of
        None \<Rightarrow> []
      | Some config \<Rightarrow>
          if \<not> office_of db (env_today env) then []
          else (let ts = sort_key createdAt (filter (\<lambda>t. status t \<in> {ASSIGNED, IN_PROGRESS}) (db_tickets db))
                in List.map_filter (alert_for env db config hasCurrentDtrData ts) (assigned_users ts)))"

record reassign_report =
  reassigned_count :: nat
  remaining_count :: nat
  failed_tickets :: "nat list"

definition free_replacement :: "env \<Rightarrow> db \<Rightarrow> nat \<Rightarrow> ticket \<Rightarrow> account option" where
  "free_replacement env db user t =
     List.find (\<lambda>u. acc_id u \<noteq> user \<and> acc_id u \<noteq> requesterId t \<and> acc_id u \<noteq> number (createdById t)
         \<and> \<not> isSeniorTech (env_caps env) (acc_role u)
         \<and> count_active db (acc_id u) [ASSIGNED, IN_PROGRESS, PAUSE] = 0)
       (getAutoAssignmentTechnicians env db (Pool_of (ticketType t)) (env_today env))"

text \<open>One ticket of the alert: \<open>None\<close> when it is skipped, otherwise whether it was reassigned.\<close>

definition auto_reassign_one ::
  "env \<Rightarrow> nat \<Rightarrow> nat \<Rightarrow> user_role \<Rightarrow> nat \<Rightarrow> db \<Rightarrow> bool option \<times> db" where
  "auto_reassign_one env user actor role n db =
     (case find_ticket db n of
        None \<Rightarrow> (None, db)
      | Some t \<Rightarrow>
          if ticketType t = SPECIALIZED_CONCERNS \<or> number (assignedToId t) \<noteq> user
             \<or> status t \<notin> {ASSIGNED, IN_PROGRESS} then (None, db)
          else (case free_replacement env db user t of
              None \<Rightarrow> (Some False, db)
            | Some u \<Rightarrow>
                (case assignTicketInternal env n
                     \<lparr>to_assignedToId = acc_id u, to_expectedUpdatedAt = Some (Iso (updatedAt t)),
                      to_expectedStatus = Some (status t), to_expectedAssignedToId = Some (Some user)\<rparr>
                     role (Some actor) (Some (ticketType t, env_today env)) db of
                   (Inl _, db') \<Rightarrow> (Some False, db')
                 | (Inr _, db') \<Rightarrow> (Some True, db'))))"

fun auto_reassign_each ::
  "env \<Rightarrow> nat \<Rightarrow> nat \<Rightarrow> user_role \<Rightarrow> nat list \<Rightarrow> db \<Rightarrow> (nat \<times> nat list) \<times> db" where
  "auto_reassign_each env user actor role [] db = ((0, []), db)"
| "auto_reassign_each env user actor role (n # ns) db =
     (case auto_reassign_one env user actor role n db of
        (r, db1) \<Rightarrow>
          (case auto_reassign_each env user actor role ns db1 of
             ((done_count, failed), db2) \<Rightarrow>
               (((if r = Some True then done_count + 1 else done_count),
                 (if r = Some False then n # failed else failed)), db2)))"

definition autoReassignAttendanceAlertTickets ::
  "env \<Rightarrow> bool \<Rightarrow> nat \<Rightarrow> nat \<Rightarrow> user_role \<Rightarrow> db \<Rightarrow> reassign_report result \<times> db" where
  "autoReassignAttendanceAlertTickets env hasCurrentDtrData user actor role db =
     (if \<not> isTicketFocal (env_caps env) role \<and> \<not> isTicketSettingsFocal (env_caps env) role
      then (Inl (Forbidden (Assign AssignerRole)), db)
      else (case List.find (\<lambda>a. alert_userId a = user)
                   (getAttendanceAssignmentAlerts env hasCurrentDtrData db) of
          None \<Rightarrow> (Inr \<lparr>reassigned_count = 0, remaining_count = 0, failed_tickets = []\<rparr>, db)
        | Some a \<Rightarrow>
            (case auto_reassign_each env user actor role (alert_tickets a) db of
               ((done_count, failed), db') \<Rightarrow>
                 (Inr \<lparr>reassigned_count = done_count,
                       remaining_count = count_active db' user [ASSIGNED, IN_PROGRESS],
                       failed_tickets = failed\<rparr>, db'))))"

end
