(* ===== verification/AssignmentFacts.thy ===== *)
theory AssignmentFacts
  imports Assignment
begin

text \<open>
  Facts about assignment: what each handler writes, that well-formed tables stay well-formed, and
  who can come to own a ticket.
\<close>

section \<open>The reassigned ticket\<close>

lemma owned_fields [simp]:
  "ticket_id (owned env t user busy) = ticket_id t" "assignedToId (owned env t user busy) = Some user"
  "requesterId (owned env t user busy) = requesterId t" "createdById (owned env t user busy) = createdById t"
  "ticketType (owned env t user busy) = ticketType t"
  "slaStartedAt (owned env t user busy) = slaStartedAt t" "slaPausedAt (owned env t user busy) = slaPausedAt t"
  "accumulatedPauseSeconds (owned env t user busy) = accumulatedPauseSeconds t"
  "interruptionHistory (owned env t user busy) = interruptionHistory t"
  "slaPauseLedger (owned env t user busy) = slaPauseLedger t"
  "status (owned env t user busy) =
     (if status t \<in> {OPEN, ASSIGNED, IN_PROGRESS} then (if busy = 0 then IN_PROGRESS else ASSIGNED) else status t)"
  by (simp_all add: owned_def Let_def)

lemma queue_behind_fields [simp]:
  "ticket_id (queue_behind env t) = ticket_id t" "assignedToId (queue_behind env t) = assignedToId t"
  "requesterId (queue_behind env t) = requesterId t" "status (queue_behind env t) = status t"
  "createdById (queue_behind env t) = createdById t" "ticketType (queue_behind env t) = ticketType t"
  "isSlaWaiting (queue_behind env t)" "slaStartedAt (queue_behind env t) = slaStartedAt t"
  "accumulatedPauseSeconds (queue_behind env t) = accumulatedPauseSeconds t"
  "slaStartedAt t \<noteq> None \<Longrightarrow> slaPausedAt (queue_behind env t) \<noteq> None"
  by (auto simp: queue_behind_def Let_def)

lemma start_now_ok:
  "ensures (\<lambda>t'. ticket_id t' = ticket_id t \<and> assignedToId t' = assignedToId t \<and> requesterId t' = requesterId t
      \<and> createdById t' = createdById t \<and> ticketType t' = ticketType t
      \<and> status t' = status t \<and> \<not> isSlaWaiting t' \<and> (status t = IN_PROGRESS \<longrightarrow> slaStartedAt t' \<noteq> None)
      \<and> (slaStartedAt t \<noteq> None \<longrightarrow> slaStartedAt t' = slaStartedAt t)
      \<and> (0 \<le> accumulatedPauseSeconds t \<longrightarrow> 0 \<le> accumulatedPauseSeconds t'))
    (start_now env db sp t)"
  by (auto simp: start_now_def Let_def ensures_simps)

text \<open>The outcome of giving \<open>t\<close> to \<open>user\<close>.\<close>

definition handed_over :: "db \<Rightarrow> ticket \<Rightarrow> nat \<Rightarrow> ticket \<Rightarrow> bool" where
  "handed_over db t user t' \<longleftrightarrow> ticket_id t' = ticket_id t \<and> assignedToId t' = Some user
     \<and> requesterId t' = requesterId t \<and> createdById t' = createdById t \<and> ticketType t' = ticketType t
     \<and> (isSlaWaiting t' \<longleftrightarrow> 0 < busy_count db user)
     \<and> status t' = (if status t \<in> {OPEN, ASSIGNED, IN_PROGRESS}
                    then (if busy_count db user = 0 then IN_PROGRESS else ASSIGNED) else status t)
     \<and> (status t' = IN_PROGRESS \<longrightarrow> slaStartedAt t' \<noteq> None)
     \<and> (0 < busy_count db user \<longrightarrow> slaStartedAt t \<noteq> None \<longrightarrow> slaPausedAt t' \<noteq> None)
     \<and> (slaStartedAt t \<noteq> None \<longrightarrow> slaStartedAt t' = slaStartedAt t)
     \<and> (0 \<le> accumulatedPauseSeconds t \<longrightarrow> 0 \<le> accumulatedPauseSeconds t')"

lemma reassigned_ticket_ok:
  "ensures (handed_over db t user) (reassigned_ticket env db t user)"
proof (cases "0 < busy_count db user")
  case True
  then show ?thesis
    by (simp add: reassigned_ticket_def Let_def ensures_simps handed_over_def)
next
  case False
  let ?u = "owned env t user (busy_count db user)"
  have "ensures (handed_over db t user) (start_now env db sp ?u)" for sp
    unfolding ensures_def
  proof (intro allI impI)
    fix t' assume "start_now env db sp ?u = Inr t'"
    from ensuresD [OF start_now_ok this] False
    show "handed_over db t user t'" by (auto simp: handed_over_def)
  qed
  then show ?thesis using False by (simp add: reassigned_ticket_def Let_def)
qed

lemma handed_over_wf:
  assumes "handed_over db t user t'" "ticket_wf t" "status t \<notin> {RESOLVED, CLOSED, DUPLICATE, CANCELLED}"
  shows "ticket_wf t'"
  using assms unfolding ticket_wf_def handed_over_def by (auto split: if_splits)

section \<open>The handler\<close>

lemma guarded_ensures: "(g = None \<Longrightarrow> ensures P m) \<Longrightarrow> ensures P (guarded g m)"
  by (simp add: ensures_guarded)

lemma assign_checks_ok:
  "ensures (\<lambda>technician. env_getUserById env (to_assignedToId dto) = Some technician
      \<and> acc_role technician \<noteq> SUPER_ADMIN
      \<and> status t \<notin> {RESOLVED, CLOSED, DUPLICATE, CANCELLED}
      \<and> assertAssignmentSnapshot t dto = None
      \<and> assertRequesterAssignmentSeparation (ticketType t) (to_assignedToId dto) (Some (requesterId t)) (createdById t) = None
      \<and> assertSpecializedAssigneeEligibility (env_caps env) (ticketType t) (Some technician) = None
      \<and> attendance_guard env db (to_assignedToId dto) = None
      \<and> accepted_escalation_guard (env_caps env) db t (acc_id technician) role = None
      \<and> load_guard (env_caps env) db role technician = None)
    (assign_checks env db t dto role)"
  by (simp add: assign_checks_def Let_def ensures_guarded ensures_simps assignable_guard_def split: option.split)

lemma assignTicketInternal_cases:
  assumes "assignTicketInternal env n dto role actorId pool db = (r, db')"
  obtains (refused) e where "r = Inl e" "db' = db"
  | (committed) v technician t' where "assigner_guard (env_caps env) role = None"
      "getTicketById env db n (Some role) actorId = Inr v"
      "assign_checks env db (view_ticket v) dto role = Inr technician"
      "reassigned_ticket env db (view_ticket v) (to_assignedToId dto) = Inr t'"
      "\<And>ty d. pool = Some (ty, d) \<Longrightarrow>
         canAutomaticallyAssign env db (to_assignedToId dto) (Pool_of ty) d (requesterId t')"
      "commit_assignment env (view_ticket v) t' (to_assignedToId dto) actorId db = (r, db')"
proof (cases "assigner_guard (env_caps env) role")
  case (Some e)
  with assms show ?thesis by (intro refused [of e]) (simp_all add: assignTicketInternal_def)
next
  case ag: None
  show ?thesis
  proof (cases "getTicketById env db n (Some role) actorId")
    case (Inl e)
    with assms ag show ?thesis by (intro refused [of e]) (simp_all add: assignTicketInternal_def)
  next
    case v: (Inr v)
    show ?thesis
    proof (cases "assign_checks env db (view_ticket v) dto role")
      case (Inl e)
      with assms ag v show ?thesis by (intro refused [of e]) (simp_all add: assignTicketInternal_def)
    next
      case ch: (Inr technician)
      show ?thesis
      proof (cases "reassigned_ticket env db (view_ticket v) (to_assignedToId dto)")
        case (Inl e)
        with assms ag v ch show ?thesis by (intro refused [of e]) (simp_all add: assignTicketInternal_def)
      next
        case t': (Inr t')
        note def = assms [unfolded assignTicketInternal_def, simplified ag v ch t' option.case sum.case]
        show ?thesis
        proof (cases "case pool of None \<Rightarrow> False | Some (ty, d) \<Rightarrow>
            \<not> canAutomaticallyAssign env db (to_assignedToId dto) (Pool_of ty) d (requesterId t')")
          case True
          with def show ?thesis by (intro refused [of "Conflict (Assign NoLongerEligible)"]) simp_all
        next
          case False
          with def show ?thesis by (intro committed [OF ag v ch t']) (auto split: option.splits)
        qed
      qed
    qed
  qed
qed

lemma release_previous_wf: "db_wf db \<Longrightarrow> db_wf (snd (release_previous env p db))"
  using promotion_wf [of db env "the p"]
  by (auto simp: release_previous_def split: option.split prod.split sum.split)

lemma commit_assignment_snd:
  "snd (commit_assignment env old new user actorId db) =
     (let released = release_previous env (previous_owner old user) (save_ticket env new db)
      in case fst released of
           Inl e \<Rightarrow> snd released
         | Inr _ \<Rightarrow> logEvent env (ticket_id new)
            (if previous_owner old user \<noteq> None then ''manually_reassigned'' else ''manually_assigned'')
            actorId None None (Some user) (snd released))"
  by (simp add: commit_assignment_def Let_def split: prod.split sum.split)

lemma commit_assignment_wf:
  assumes "db_wf db" "ticket_wf new"
  shows "db_wf (snd (commit_assignment env old new user actorId db))"
proof -
  have "db_wf (snd (release_previous env p (save_ticket env new db)))" for p
    by (intro release_previous_wf db_wf_save assms)
  then show ?thesis by (simp add: commit_assignment_snd Let_def wf_simps split: sum.split)
qed

lemma assignTicketInternal_outcome:
  assumes "assignTicketInternal env n dto role actorId pool db = (r, db')" "db_wf db"
  obtains (refused) e where "r = Inl e" "db' = db"
  | (committed) v row technician t' where "getTicketById env db n (Some role) actorId = Inr v"
      "find_ticket db n = Some row" "ticket_wf (view_ticket v)"
      "assign_checks env db (view_ticket v) dto role = Inr technician"
      "handed_over db (view_ticket v) (to_assignedToId dto) t'" "ticket_wf t'"
      "commit_assignment env (view_ticket v) t' (to_assignedToId dto) actorId db = (r, db')"
  using assms(1)
proof (cases rule: assignTicketInternal_cases)
  case (refused e)
  then show ?thesis by (intro that(1))
next
  case (committed v technician t')
  obtain row where row: "find_ticket db n = Some row" and wf: "ticket_wf (view_ticket v)"
    by (rule view_wf [OF committed(2) assms(2)])
  have ho: "handed_over db (view_ticket v) (to_assignedToId dto) t'"
    by (rule ensuresD [OF reassigned_ticket_ok committed(4)])
  have "ticket_wf t'"
    using handed_over_wf [OF ho wf] ensuresD [OF assign_checks_ok committed(3)] by blast
  with committed row wf ho show ?thesis by (intro that(2))
qed

lemma assignTicketInternal_wf:
  assumes "db_wf db"
  shows "db_wf (snd (assignTicketInternal env n dto role actorId pool db))"
proof -
  obtain r db' where a: "assignTicketInternal env n dto role actorId pool db = (r, db')" by fastforce
  then show ?thesis using assms
  proof (cases rule: assignTicketInternal_outcome)
    case (committed v row technician t')
    with commit_assignment_wf [OF assms, of t' env "view_ticket v" "to_assignedToId dto" actorId]
    show ?thesis by (simp add: a)
  qed (simp add: a assms)
qed

section \<open>What a successful assignment stores\<close>

lemma release_previous_keeps:
  assumes "db_ok db" "find_ticket db n = Some row" "assignedToId row = Some user" "previous \<noteq> Some user"
  shows "find_ticket (snd (release_previous env previous db)) n = Some row"
proof (cases previous)
  case (Some p)
  have "table_ok ticket_id (db_tickets db)" using assms(1) by (simp add: db_ok_def)
  then have "find_ticket (snd (unpauseNextWaitingTicketAndSetInProgress env p db)) n = Some row"
  proof (cases rule: promotion_cases [of db p env])
    case (promoted t t')
    note w = oldest_waiting_Some [OF promoted(1)]
    then have "find_ticket db (ticket_id t) = Some t" using assms(1) find_member_eq by blast
    with w assms Some have "n \<noteq> ticket_id t" by auto
    with promoted(2,3) assms(2) show ?thesis by (simp add: table_simps)
  qed (simp_all add: assms)
  then show ?thesis
    using Some assms(2) by (cases "unpauseNextWaitingTicketAndSetInProgress env p db")
      (auto simp: release_previous_def split: sum.split)
qed (simp add: release_previous_def assms)

lemma assignTicketInternal_stored:
  assumes "assignTicketInternal env n dto role actorId pool db = (Inr saved, db')" "db_wf db"
  obtains v row technician where "getTicketById env db n (Some role) actorId = Inr v"
    "find_ticket db n = Some row" "assign_checks env db (view_ticket v) dto role = Inr technician"
    "handed_over db (view_ticket v) (to_assignedToId dto) saved" "find_ticket db' n = Some saved"
  using assms
proof (cases rule: assignTicketInternal_outcome)
  case (committed v row technician t')
  let ?user = "to_assignedToId dto"
  let ?prev = "previous_owner (view_ticket v) ?user"
  let ?db1 = "save_ticket env t' db"
  have id: "ticket_id t' = n"
    by (rule getTicketById_fields [OF committed(1)]) (use committed(5) in \<open>simp add: handed_over_def\<close>)
  have "find_ticket ?db1 n = Some (stamp env t')" using find_save_ticket_same [of env t' db] id by simp
  moreover have "db_ok ?db1" using db_wf_ok [OF assms(2)] by (simp add: table_simps)
  moreover have "assignedToId (stamp env t') = Some ?user" using committed(5) by (simp add: handed_over_def)
  moreover have "?prev \<noteq> Some ?user" by (auto simp: previous_owner_def split: option.splits if_splits)
  ultimately have keep: "find_ticket (snd (release_previous env ?prev ?db1)) n = Some (stamp env t')"
    using release_previous_keeps by blast
  obtain r2 db2 where rel: "release_previous env ?prev ?db1 = (r2, db2)" by fastforce
  with committed(7) have "saved = stamp env t' \<and> find_ticket db' n = find_ticket db2 n"
    by (cases r2) (auto simp: commit_assignment_def table_simps)
  moreover have "handed_over db (view_ticket v) ?user (stamp env t')"
    using committed(5) by (simp add: handed_over_def)
  ultimately show ?thesis using that [OF committed(1,2,4)] keep rel by simp
qed simp

lemma attendance_guard_None:
  assumes "attendance_guard env db user = None"
  obtains a where "a \<in> set (db_attendance db)" "att_userId a = user" "att_date a = env_today env"
    "att_status a \<in> {PRESENT, OUT_OF_OFFICE}"
proof (cases "List.find (\<lambda>a. att_userId a = user) (getAttendanceForDate db (env_today env))")
  case (Some a)
  then have "a \<in> set (getAttendanceForDate db (env_today env)) \<and> att_userId a = user"
    by (auto simp: find_Some_iff)
  with Some assms that [of a] show ?thesis
    by (simp add: attendance_guard_def getAttendanceForDate_def split: if_splits)
qed (use assms in \<open>simp add: attendance_guard_def\<close>)

lemma separation_None:
  "assertRequesterAssignmentSeparation ty user (Some r) c = None \<Longrightarrow> ty \<noteq> SPECIALIZED_CONCERNS
     \<Longrightarrow> user \<noteq> r \<and> c \<noteq> Some user"
  by (auto simp: assertRequesterAssignmentSeparation_def split: if_splits)

lemma specialized_None:
  "assertSpecializedAssigneeEligibility caps SPECIALIZED_CONCERNS (Some u) = None \<Longrightarrow>
     acc_active u \<and> isSpecializedSupport caps (acc_role u)"
  by (auto simp: assertSpecializedAssigneeEligibility_def split: if_splits)

lemma assign_success_facts:
  assumes "assignTicketInternal env n dto role actorId pool db = (Inr saved, db')" "db_wf db"
  shows "\<exists>row technician. find_ticket db n = Some row \<and> find_ticket db' n = Some saved
    \<and> env_getUserById env (to_assignedToId dto) = Some technician \<and> acc_role technician \<noteq> SUPER_ADMIN
    \<and> assignedToId saved = Some (to_assignedToId dto)
    \<and> status row \<notin> {RESOLVED, CLOSED, DUPLICATE, CANCELLED}
    \<and> (ticketType row \<noteq> SPECIALIZED_CONCERNS \<longrightarrow>
         to_assignedToId dto \<noteq> requesterId row \<and> createdById row \<noteq> Some (to_assignedToId dto))
    \<and> (ticketType row = SPECIALIZED_CONCERNS \<longrightarrow>
         acc_active technician \<and> isSpecializedSupport (env_caps env) (acc_role technician))
    \<and> (\<exists>a \<in> set (db_attendance db). att_userId a = to_assignedToId dto \<and> att_date a = env_today env
         \<and> att_status a \<in> {PRESENT, OUT_OF_OFFICE})
    \<and> (isSlaWaiting saved \<longleftrightarrow> 0 < busy_count db (to_assignedToId dto))
    \<and> status saved = (if status row \<in> {OPEN, ASSIGNED, IN_PROGRESS}
         then (if busy_count db (to_assignedToId dto) = 0 then IN_PROGRESS else ASSIGNED) else status row)"
  using assms
proof (rule assignTicketInternal_stored)
  fix v row technician
  assume a: "getTicketById env db n (Some role) actorId = Inr v" "find_ticket db n = Some row"
    "assign_checks env db (view_ticket v) dto role = Inr technician"
    "handed_over db (view_ticket v) (to_assignedToId dto) saved" "find_ticket db' n = Some saved"
  note c = ensuresD [OF assign_checks_ok a(3)]
  have f: "status (view_ticket v) = status row" "ticketType (view_ticket v) = ticketType row"
    "requesterId (view_ticket v) = requesterId row" "createdById (view_ticket v) = createdById row"
    using getTicketById_fields [OF a(1)] a(2) by (metis option.inject)+
  from c have ag: "attendance_guard env db (to_assignedToId dto) = None" by blast
  obtain att where at: "att \<in> set (db_attendance db)" "att_userId att = to_assignedToId dto"
    "att_date att = env_today env" "att_status att \<in> {PRESENT, OUT_OF_OFFICE}"
    by (rule attendance_guard_None [OF ag])
  have sep: "ticketType row \<noteq> SPECIALIZED_CONCERNS \<longrightarrow>
      to_assignedToId dto \<noteq> requesterId row \<and> createdById row \<noteq> Some (to_assignedToId dto)"
    using c separation_None f by metis
  have spec: "ticketType row = SPECIALIZED_CONCERNS \<longrightarrow>
      acc_active technician \<and> isSpecializedSupport (env_caps env) (acc_role technician)"
    using c specialized_None f by metis
  show ?thesis
    using a(2,5) c f at sep spec a(4) unfolding handed_over_def
    by (intro exI [of _ row] exI [of _ technician] conjI) (simp_all, blast?)
qed

section \<open>Claims, pick-ups and returns keep the tables well-formed\<close>

lemma claimed_ok:
  "ensures (\<lambda>t'. ticket_id t' = ticket_id t \<and> assignedToId t' = Some user \<and> requesterId t' = requesterId t
      \<and> accumulatedPauseSeconds t' = accumulatedPauseSeconds t \<and> status t' \<in> {ASSIGNED, IN_PROGRESS}
      \<and> (status t' = IN_PROGRESS \<longleftrightarrow> busy_count db user = 0) \<and> (isSlaWaiting t' \<longleftrightarrow> 0 < busy_count db user)
      \<and> slaStartedAt t' = (if 0 < busy_count db user then None else Some (env_now env)))
    (claimed env db t user)"
  by (simp add: claimed_def Let_def ensures_simps)

lemma claimOvertimeTicket_cases:
  assumes "claimOvertimeTicket env n user role db = (r, db')"
  obtains (refused) e where "r = Inl e" "db' = db"
  | (claim) t t' where "find_ticket db n = Some t" "claim_guard env db (without_relations t) user role = None"
      "claimed env db (without_relations t) user = Inr t'"
      "db' = logEvent env n ''manually_assigned'' (Some user) None None (Some user) (save_ticket env t' db)"
      "r = getTicketById env db' n (Some role) (Some user)"
proof (cases "find_ticket db n")
  case None
  with assms show ?thesis by (intro refused) (auto simp: claimOvertimeTicket_def)
next
  case t: (Some t)
  show ?thesis
  proof (cases "claim_guard env db (without_relations t) user role")
    case (Some e)
    with assms t show ?thesis by (intro refused [of e]) (simp_all add: claimOvertimeTicket_def)
  next
    case g: None
    show ?thesis
    proof (cases "claimed env db (without_relations t) user")
      case (Inl e)
      with assms t g show ?thesis by (intro refused [of e]) (simp_all add: claimOvertimeTicket_def)
    next
      case (Inr t')
      with assms t g show ?thesis
        by (intro claim [OF t g Inr]) (auto simp: claimOvertimeTicket_def Let_def)
    qed
  qed
qed

lemma claimOvertimeTicket_wf:
  assumes "db_wf db"
  shows "db_wf (snd (claimOvertimeTicket env n user role db))"
proof -
  obtain r db' where c: "claimOvertimeTicket env n user role db = (r, db')" by fastforce
  then show ?thesis
  proof (cases rule: claimOvertimeTicket_cases)
    case (claim t t')
    have "0 \<le> accumulatedPauseSeconds (without_relations t)"
      using db_wf_find [OF assms claim(1)] by (simp add: ticket_wf_def without_relations_def)
    with ensuresD [OF claimed_ok claim(3)] have "ticket_wf t'" by (auto simp: ticket_wf_def)
    with claim(4) c assms show ?thesis by (simp add: wf_simps)
  qed (simp add: c assms)
qed

lemma started_for_ok:
  "ensures (\<lambda>t'. ticket_id t' = ticket_id t \<and> assignedToId t' = Some tech \<and> requesterId t' = requesterId t
      \<and> ticketType t' = ticketType t \<and> status t' \<in> {ASSIGNED, IN_PROGRESS} \<and> slaPausedAt t' = None
      \<and> (status t' = IN_PROGRESS \<longrightarrow> slaStartedAt t' = Some (env_now env) \<and> \<not> isSlaWaiting t')
      \<and> (0 \<le> accumulatedPauseSeconds t \<longrightarrow> 0 \<le> accumulatedPauseSeconds t'))
    (started_for env db tech t)"
proof (cases "0 < busy_count db tech \<and> \<not> hasBreachedActiveTicket env db tech")
  case True
  then show ?thesis by (simp add: started_for_def Let_def ensures_simps without_relations_def)
next
  case False
  then have start: "\<not> 0 < busy_count db tech \<or> hasBreachedActiveTicket env db tech" by simp
  show ?thesis
    unfolding started_for_def Let_def if_P [OF start] using False
    by (simp add: ensures_simps without_relations_def)
qed

lemma first_pending_Some:
  "first_pending db today office tech tys = Some t \<Longrightarrow> t \<in> set (db_tickets db) \<and> unassigned_for tys tech t"
proof (induction tys)
  case (Cons ty tys)
  let ?o = "oldest_by createdAt (filter (\<lambda>t. unassigned_for [ty] tech t
           \<and> (overtimeDate t = None \<or> carried_over today t \<and> office)) (db_tickets db))"
  show ?case
  proof (cases ?o)
    case None
    with Cons show ?thesis by (auto simp: unassigned_for_def)
  next
    case (Some u)
    with Cons.prems have "u = t" by simp
    with oldest_by_Some [OF Some] show ?thesis by (auto simp: unassigned_for_def)
  qed
qed simp

lemma pending_ticket_Some:
  assumes "pending_ticket env db tech ty = Some t"
  shows "t \<in> set (db_tickets db) \<and> unassigned_for (pendingTypes ty) tech t"
  using assms first_pending_Some [of db _ _ tech "pendingTypes ty" t]
  by (auto simp: pending_ticket_def Let_def split: option.splits if_splits dest: oldest_by_Some)

lemma login_cases:
  obtains (idle) "assignPendingTicketsOnLoginInternal env tech db = db"
  | (picked) u ty t t' where "env_getUserById env tech = Some u" "\<not> isSeniorTech (env_caps env) (acc_role u)"
      "login_allowed env db tech ty" "pending_ticket env db tech ty = Some t"
      "started_for env db tech t = Inr t'"
      "canAutomaticallyAssign env db tech (Pool_of ty) (env_today env) (requesterId t)"
      "assignPendingTicketsOnLoginInternal env tech db =
         logEvent env (ticket_id t) ''auto_assigned'' None None None (Some tech) (save_ticket env t' db)"
proof (cases "assignPendingTicketsOnLoginInternal env tech db = db")
  case False
  then obtain u where u: "env_getUserById env tech = Some u"
    by (cases "env_getUserById env tech") (simp_all add: assignPendingTicketsOnLoginInternal_def)
  with False obtain ty where ty: "technician_type (env_caps env) (acc_role u) = Some ty"
    by (cases "technician_type (env_caps env) (acc_role u)")
      (simp_all add: assignPendingTicketsOnLoginInternal_def)
  have g: "\<not> isSeniorTech (env_caps env) (acc_role u)" "login_allowed env db tech ty"
    using False u ty by (simp_all add: assignPendingTicketsOnLoginInternal_def split: if_splits)
  with False u ty obtain t where t: "pending_ticket env db tech ty = Some t"
    by (cases "pending_ticket env db tech ty") (simp_all add: assignPendingTicketsOnLoginInternal_def)
  with False u ty g obtain t' where t': "started_for env db tech t = Inr t'"
    by (cases "started_for env db tech t")
      (simp_all add: assignPendingTicketsOnLoginInternal_def split: if_splits)
  have can: "canAutomaticallyAssign env db tech (Pool_of ty) (env_today env) (requesterId t)"
    using False u ty g t t' by (simp add: assignPendingTicketsOnLoginInternal_def split: if_splits)
  show ?thesis
    by (rule picked [OF u g t t' can])
      (use False u ty g t t' can in \<open>simp add: assignPendingTicketsOnLoginInternal_def split: if_splits\<close>)
qed (rule idle)

lemma queued_or_started_wf:
  "0 \<le> accumulatedPauseSeconds t \<Longrightarrow> status t \<in> {ASSIGNED, IN_PROGRESS}
     \<Longrightarrow> (status t = IN_PROGRESS \<longrightarrow> slaStartedAt t \<noteq> None \<and> \<not> isSlaWaiting t) \<Longrightarrow> ticket_wf t"
  by (auto simp: ticket_wf_def)

lemma login_wf:
  assumes "db_wf db"
  shows "db_wf (assignPendingTicketsOnLoginInternal env tech db)"
proof (cases rule: login_cases [of env tech db])
  case (picked u ty t t')
  have "ticket_wf t" using pending_ticket_Some [OF picked(4)] assms by (simp add: db_wf_def)
  then have "0 \<le> accumulatedPauseSeconds t" by (simp add: ticket_wf_def)
  with ensuresD [OF started_for_ok picked(5)] have "ticket_wf t'"
    by (intro queued_or_started_wf) simp_all
  with picked(7) assms show ?thesis by (simp add: wf_simps)
qed (simp add: assms)

lemma reassign_one_wf:
  assumes "db_wf db" "ticket_wf t"
  shows "db_wf (reassign_one env t db)"
proof -
  have "ticket_wf (returned_specialized env t)" "ticket_wf (returned_open t)"
    "ticket_wf ((returned_open t)\<lparr>assignedToId := a, status := ASSIGNED, lastAssignedAt := d\<rparr>)" for a d
    using assms(2) by (simp_all add: ticket_wf_def returned_specialized_def returned_open_def)
  then show ?thesis using assms(1) by (simp add: reassign_one_def Let_def wf_simps split: option.split)
qed

lemma reassign_each_wf:
  "db_wf db \<Longrightarrow> (\<And>t. t \<in> set ts \<Longrightarrow> ticket_wf t) \<Longrightarrow> db_wf (reassign_each env ts db)"
  by (induction ts arbitrary: db) (simp_all add: reassign_one_wf)

lemma reassignUnavailable_wf:
  assumes "db_wf db"
  shows "db_wf (reassignUnavailableTechnicianTicketsInternal env tech db)"
proof -
  have "ticket_wf t" if "t \<in> set (unavailable_work db tech)" for t
    using that assms by (auto simp: unavailable_work_def db_wf_def without_relations_wf)
  then show ?thesis
    unfolding reassignUnavailableTechnicianTicketsInternal_def by (intro reassign_each_wf assms)
qed

lemma auto_reassign_one_wf:
  "db_wf db \<Longrightarrow> db_wf (snd (auto_reassign_one env user actor role n db))"
proof -
  assume wf: "db_wf db"
  have "db_wf (snd (case assignTicketInternal env n dto r a p db of
      (Inl _, db') \<Rightarrow> (Some False, db') | (Inr _, db') \<Rightarrow> (Some True, db')))" for dto r a p
    using assignTicketInternal_wf [OF wf, of env n dto r a p]
    by (cases "assignTicketInternal env n dto r a p db") (auto split: sum.split)
  then show ?thesis using wf by (simp add: auto_reassign_one_def split: option.split)
qed

lemma auto_reassign_each_wf:
  "db_wf db \<Longrightarrow> db_wf (snd (auto_reassign_each env user actor role ns db))"
proof (induction ns arbitrary: db)
  case (Cons n ns)
  obtain r d1 where o: "auto_reassign_one env user actor role n db = (r, d1)" by fastforce
  obtain p d2 where e: "auto_reassign_each env user actor role ns d1 = (p, d2)" by fastforce
  from auto_reassign_one_wf [OF Cons.prems, of env user actor role n] o have "db_wf d1" by simp
  from Cons.IH [OF this] e have "db_wf d2" by simp
  with o e show ?case by (cases p) simp
qed simp

lemma autoReassign_wf:
  assumes "db_wf db"
  shows "db_wf (snd (autoReassignAttendanceAlertTickets env dtr user actor role db))"
proof -
  have "db_wf d" if "auto_reassign_each env user actor role ns db = (p, d)" for ns p d
    using auto_reassign_each_wf [OF assms, of env user actor role ns] that by simp
  then show ?thesis using assms
    by (auto simp: autoReassignAttendanceAlertTickets_def split: option.split prod.split)
qed

section \<open>Who the automatic pick-up serves\<close>

text \<open>The technician is in the pool of their own support type today; the ticket is one that nobody holds, not
  their own and not a specialized concern.\<close>

lemma pendingTypes_general: "SPECIALIZED_CONCERNS \<notin> set (pendingTypes ty)"
  by (auto simp: pendingTypes_def)

lemma login_pick_facts:
  assumes "find_ticket (assignPendingTicketsOnLoginInternal env tech db) n = Some t'"
    "find_ticket db n = Some t" "t' \<noteq> t" "db_ok db"
  shows "status t = OPEN \<and> assignedToId t = None \<and> assignedToId t' = Some tech \<and> requesterId t \<noteq> tech
    \<and> ticketType t \<noteq> SPECIALIZED_CONCERNS
    \<and> (\<exists>u \<in> set (db_users db). acc_id u = tech \<and> acc_active u \<and> acc_autoAssignmentEligible u
         \<and> \<not> isSeniorTech (env_caps env) (acc_role u))"
proof (cases rule: login_cases [of env tech db])
  case idle
  with assms show ?thesis by simp
next
  case (picked u ty p p')
  note pt = pending_ticket_Some [OF picked(4)]
  have fp: "find_ticket db (ticket_id p) = Some p" using pt find_member_eq [OF assms(4)] by blast
  note s = ensuresD [OF started_for_ok picked(5)]
  have n: "n = ticket_id p"
  proof (rule ccontr)
    assume "n \<noteq> ticket_id p"
    with picked(7) s assms(1-3) show False by (simp add: table_simps)
  qed
  with fp assms(2) have "p = t" by simp
  have "t' = stamp env p'"
    using assms(1) picked(7) n s find_save_ticket_same [of env p' db] by (simp add: table_simps)
  then have "assignedToId t' = Some tech" using s by simp
  moreover have "\<exists>u \<in> set (getAutoAssignmentTechnicians env db (Pool_of ty) (env_today env)). acc_id u = tech"
    using canAutomaticallyAssign_member [OF picked(6)] by blast
  ultimately show ?thesis
    using pt \<open>p = t\<close> pendingTypes_general [of ty] getAutoAssignmentTechnicians_member
    unfolding unassigned_for_def by metis
qed

end
