(* ===== verification/Escalations.thy ===== *)
theory Escalations
  imports AssignmentFacts Uploads
begin

text \<open>
  Escalations: a technician asks a designated focal to take a ticket over; the focal accepts, which
  makes the focal the assignee and starts the work, or returns the request with a reason.  At the
  end \<open>cancelTicket\<close>, which also cancels the ticket's open escalations.
\<close>

section \<open>Escalating\<close>

record escalate_dto =
  esc_to :: nat
  esc_dto_notes :: "string option"

definition escalator_guard :: "capability_cache \<Rightarrow> user_role \<Rightarrow> http_error option" where
  "escalator_guard caps role = first_error [
     (\<not> isTicketFocal caps role \<and> \<not> isTicketSettingsFocal caps role \<and> \<not> isAllTickets caps role
        \<and> \<not> isTechnician caps role, Forbidden (Escalate EscalateRole))]"

definition escalatable_guard :: "db \<Rightarrow> nat \<Rightarrow> ticket \<Rightarrow> http_error option" where
  "escalatable_guard db n t = first_error [
     ((case getLatestEscalation db n of Some e \<Rightarrow> esc_status e = PENDING | None \<Rightarrow> False),
      BadRequest (Escalate EscalationAlreadyPending)),
     (status t \<in> {CLOSED, DUPLICATE, RESOLVED, CANCELLED}, Forbidden (Escalate EscalateTerminal))]"

text \<open>The users service, or the read-only view of active users when it does not answer.\<close>

definition user_or_view :: "env \<Rightarrow> db \<Rightarrow> nat \<Rightarrow> account option" where
  "user_or_view env db n =
     (case env_getUserById env n of
        Some u \<Rightarrow> Some u
      | None \<Rightarrow> List.find (\<lambda>u. acc_id u = n \<and> acc_active u) (db_users db))"

definition is_focal_for :: "db \<Rightarrow> ticket_type \<Rightarrow> nat \<Rightarrow> bool" where
  "is_focal_for db ty user \<longleftrightarrow> list_ex (\<lambda>f. focal_userId f = user
     \<and> (focal_ticketType f = None \<or> focal_ticketType f = Some ty)) (db_focals db)"

definition is_present_today :: "env \<Rightarrow> db \<Rightarrow> nat \<Rightarrow> bool" where
  "is_present_today env db user \<longleftrightarrow> list_ex (\<lambda>a. att_userId a = user \<and> att_status a = PRESENT)
     (getAttendanceForDate db (env_today env))"

definition focal_checks :: "env \<Rightarrow> db \<Rightarrow> ticket \<Rightarrow> nat \<Rightarrow> account result" where
  "focal_checks env db t to_user =
     (case user_or_view env db to_user of
        None \<Rightarrow> Inl (NotFound (Escalate FocalNotFound))
      | Some focal \<Rightarrow>
          guarded (assertSpecializedAssigneeEligibility (env_caps env) (ticketType t) (Some focal))
         (guarded (first_error [
            (\<not> is_focal_for db (ticketType t) (acc_id focal), Forbidden (Escalate FocalNotDesignated)),
            (\<not> is_present_today env db (acc_id focal), BadRequest (Escalate FocalNotPresent))])
           (Inr focal)))"

definition proof_paths :: "env \<Rightarrow> nat \<Rightarrow> (string \<times> upload) list \<Rightarrow> string list" where
  "proof_paths env n proofs = stored_paths (''escalation-proofs/'' @ env_idText env n) proofs"

definition new_escalation :: "env \<Rightarrow> nat \<Rightarrow> escalate_dto \<Rightarrow> (string \<times> upload) list \<Rightarrow> nat \<Rightarrow> escalation" where
  "new_escalation env n dto proofs actor =
     \<lparr>esc_id = env_freshId env, esc_ticketId = n, escalatedById = actor, escalatedToId = esc_to dto,
      esc_status = PENDING, esc_notes = esc_dto_notes dto, returnReason = None,
      proofFiles = (if proofs = [] then None else Some (proof_paths env n proofs)),
      esc_createdAt = env_now env\<rparr>"

definition escalateTicketInternal ::
  "env \<Rightarrow> nat \<Rightarrow> escalate_dto \<Rightarrow> (string \<times> upload) list \<Rightarrow> nat \<Rightarrow> user_role \<Rightarrow> db \<Rightarrow> escalation result \<times> db" where
  "escalateTicketInternal env n dto proofs actor role db =
     (case guarded (escalator_guard (env_caps env) role)
             (and_then (getTicketById env db n (Some role) (Some actor)) (\<lambda>v.
               guarded (escalatable_guard db n (view_ticket v))
                 (and_then (focal_checks env db (view_ticket v) (esc_to dto)) (\<lambda>focal.
                   guarded (validate_images (map snd proofs)) (Inr focal))))) of
        Inl e \<Rightarrow> (Inl e, db)
      | Inr focal \<Rightarrow>
          let e = new_escalation env n dto proofs actor
          in (Inr e, logEvent env n ''escalated'' (Some actor) None None None (save_escalation e db)))"

section \<open>Accepting\<close>

definition find_escalation :: "db \<Rightarrow> nat \<Rightarrow> nat \<Rightarrow> escalation option" where
  "find_escalation db n eid = List.find (\<lambda>e. esc_id e = eid \<and> esc_ticketId e = n) (db_escalations db)"

definition target_guard :: "escalation \<Rightarrow> nat \<Rightarrow> http_error option" where
  "target_guard e actor = first_error [
     (escalatedToId e \<noteq> actor, Forbidden (Escalate NotEscalationTarget)),
     (esc_status e \<noteq> PENDING, BadRequest (Escalate EscalationProcessed))]"

definition accepting_user :: "env \<Rightarrow> db \<Rightarrow> ticket \<Rightarrow> nat \<Rightarrow> account option" where
  "accepting_user env db t actor =
     (if ticketType t = SPECIALIZED_CONCERNS then user_or_view env db actor else env_getUserById env actor)"

definition taken_over :: "env \<Rightarrow> db \<Rightarrow> ticket \<Rightarrow> nat \<Rightarrow> ticket result" where
  "taken_over env db t actor =
     (let now = env_now env;
          t1 = t\<lparr>assignedToId := Some actor, lastAssignedAt := Some now, isSlaWaiting := False\<rparr>
      in if status t \<in> {RESOLVED, CLOSED} then Inr t1
         else (let t2 = recordInterruptionTransition (t1\<lparr>status := IN_PROGRESS\<rparr>) (status t) IN_PROGRESS now
               in if slaStartedAt t2 = None
                  then (let t3 = t2\<lparr>slaStartedAt := Some now, accumulatedPauseSeconds := 0, slaPausedAt := None\<rparr>
                        in and_then (calculateTicketSlaDeadline env db t3 now) (\<lambda>d. Inr (t3\<lparr>slaDeadline := d\<rparr>)))
                  else Inr t2))"

definition acceptance_events :: "env \<Rightarrow> ticket \<Rightarrow> nat \<Rightarrow> db \<Rightarrow> db" where
  "acceptance_events env t actor db =
     (let n = ticket_id t;
          db1 = (if status t \<in> {RESOLVED, CLOSED} then db
                 else logEvent env n ''status_changed'' (Some actor) (Some (status t)) (Some IN_PROGRESS) None db);
          db2 = (if assignedToId t = Some actor then db1
                 else logEvent env n (if truthy (assignedToId t) then ''manually_reassigned'' else ''manually_assigned'')
                        (Some actor) None None (Some actor) db1)
      in logEvent env n ''escalation_accepted'' (Some actor) None None None db2)"

text \<open>The escalation is saved before the ticket; an error of the clock in between leaves it accepted.\<close>

definition accept_guard :: "env \<Rightarrow> db \<Rightarrow> ticket \<Rightarrow> nat \<Rightarrow> http_error option" where
  "accept_guard env db t actor =
     (if status t = CANCELLED then Some (BadRequest (Escalate CancelledEscalation))
      else assertSpecializedAssigneeEligibility (env_caps env) (ticketType t) (accepting_user env db t actor))"

definition acceptEscalationInternal :: "env \<Rightarrow> nat \<Rightarrow> nat \<Rightarrow> nat \<Rightarrow> db \<Rightarrow> escalation result \<times> db" where
  "acceptEscalationInternal env n eid actor db =
     (case find_escalation db n eid of
        None \<Rightarrow> (Inl (NotFound (Escalate EscalationNotFound)), db)
      | Some e \<Rightarrow>
     (case target_guard e actor of
        Some err \<Rightarrow> (Inl err, db)
      | None \<Rightarrow>
     (case find_ticket db n of
        None \<Rightarrow> (Inl (NotFound (Assign TicketNotFound)), db)
      | Some row \<Rightarrow>
     (case accept_guard env db (without_relations row) actor of
        Some err \<Rightarrow> (Inl err, db)
      | None \<Rightarrow>
          let e' = e\<lparr>esc_status := ACCEPTED\<rparr>; t = without_relations row; db1 = save_escalation e' db
          in (case taken_over env db1 t actor of
                Inl err \<Rightarrow> (Inl err, db1)
              | Inr t' \<Rightarrow> (Inr e', acceptance_events env t actor (save_ticket env t' db1)))))))"

section \<open>Returning and supplementing\<close>

definition returnEscalationInternal ::
  "env \<Rightarrow> nat \<Rightarrow> nat \<Rightarrow> string option \<Rightarrow> nat \<Rightarrow> db \<Rightarrow> escalation result \<times> db" where
  "returnEscalationInternal env n eid why actor db =
     (case find_escalation db n eid of
        None \<Rightarrow> (Inl (NotFound (Escalate EscalationNotFound)), db)
      | Some e \<Rightarrow>
     (case target_guard e actor of
        Some err \<Rightarrow> (Inl err, db)
      | None \<Rightarrow>
          if blank why then (Inl (BadRequest (Escalate ReturnReasonRequired)), db)
          else (let e' = e\<lparr>esc_status := RETURNED, returnReason := map_option trim why\<rparr>
                in (Inr e', save_escalation e' (logEvent env n ''escalation_returned'' (Some actor) None None None db)))))"

definition proof_guard :: "escalation \<Rightarrow> nat \<Rightarrow> http_error option" where
  "proof_guard e actor = first_error [
     (escalatedById e \<noteq> actor, Forbidden (Escalate NotEscalationTarget)),
     (esc_status e \<noteq> PENDING, BadRequest (Escalate EscalationProcessed))]"

definition supplemented ::
  "env \<Rightarrow> nat \<Rightarrow> string option \<Rightarrow> (string \<times> upload) list \<Rightarrow> escalation \<Rightarrow> escalation result" where
  "supplemented env n notes proofs e =
     (let e = (case notes of
            None \<Rightarrow> e
          | Some s \<Rightarrow> e\<lparr>esc_notes := (if trim s = [] then None else Some (trim s))\<rparr>);
          old = (case proofFiles e of Some ps \<Rightarrow> ps | None \<Rightarrow> [])
      in if proofs = [] then Inr e
         else guarded (validate_images (map snd proofs))
             (guarded (first_error [(5 < length old + length proofs, BadRequest (Image TooManyImages))])
               (Inr (e\<lparr>proofFiles := Some (old @ proof_paths env n proofs)\<rparr>))))"

definition updateEscalationProof ::
  "env \<Rightarrow> nat \<Rightarrow> nat \<Rightarrow> string option \<Rightarrow> (string \<times> upload) list \<Rightarrow> nat \<Rightarrow> db \<Rightarrow> escalation result \<times> db" where
  "updateEscalationProof env n eid notes proofs actor db =
     (case find_escalation db n eid of
        None \<Rightarrow> (Inl (NotFound (Escalate EscalationNotFound)), db)
      | Some e \<Rightarrow>
     (case guarded (proof_guard e actor) (supplemented env n notes proofs e) of
        Inl err \<Rightarrow> (Inl err, db)
      | Inr e' \<Rightarrow> (Inr e', save_escalation e' db)))"

section \<open>Cancelling a ticket\<close>

record cancel_dto =
  cancel_reason_text :: string
  cancel_expectedUpdatedAt :: iso_date

definition cancel_request_guard :: "env \<Rightarrow> cancel_dto \<Rightarrow> nat \<Rightarrow> http_error option" where
  "cancel_request_guard env dto actor =
     (let why = trim (cancel_reason_text dto)
      in first_error [
        (why = [] \<or> 1500 < length why, BadRequest (Cancel CancelReasonLength)),
        (date_parse (cancel_expectedUpdatedAt dto) = None, BadRequest (Cancel CancelVersion)),
        ((case env_getUserById env actor of Some u \<Rightarrow> \<not> acc_active u | None \<Rightarrow> True),
         Forbidden (Cancel CancelActive))])"

definition actor_role :: "env \<Rightarrow> nat \<Rightarrow> user_role" where
  "actor_role env actor = (case env_getUserById env actor of Some u \<Rightarrow> acc_role u | None \<Rightarrow> USER)"

definition cancelled_row :: "env \<Rightarrow> cancel_dto \<Rightarrow> nat \<Rightarrow> ticket \<Rightarrow> ticket" where
  "cancelled_row env dto actor t =
     t\<lparr>interruptionHistory := interruptionHistory
           (recordInterruptionTransition t (status t) CANCELLED (env_now env)),
       status := CANCELLED, cancelledAt := Some (env_now env), cancelledById := Some actor,
       cancellationReason := Some (trim (cancel_reason_text dto)), slaPausedAt := None,
       isSlaWaiting := False, isKbGenerationPending := False\<rparr>"

definition closed_escalation :: "nat \<Rightarrow> escalation \<Rightarrow> escalation" where
  "closed_escalation n e =
     (if esc_ticketId e = n \<and> esc_status e \<in> {PENDING, ACCEPTED} then e\<lparr>esc_status := ESC_CANCELLED\<rparr> else e)"

definition cancel_escalations :: "nat \<Rightarrow> db \<Rightarrow> db" where
  "cancel_escalations n db = db\<lparr>db_escalations := map (closed_escalation n) (db_escalations db)\<rparr>"

text \<open>The transaction, and then the hand-off whose failure is only reported.\<close>

definition cancel_commit :: "env \<Rightarrow> cancel_dto \<Rightarrow> nat \<Rightarrow> ticket \<Rightarrow> db \<Rightarrow> db" where
  "cancel_commit env dto actor t db =
     logEvent env (ticket_id t) ''status_changed'' (Some actor) (Some (status t)) (Some CANCELLED) None
       (cancel_escalations (ticket_id t) (save_ticket env (cancelled_row env dto actor t) db))"

definition cancel_handoff :: "env \<Rightarrow> nat option \<Rightarrow> db \<Rightarrow> bool \<times> db" where
  "cancel_handoff env assignee db =
     (case assignee of
        None \<Rightarrow> (False, db)
      | Some tech \<Rightarrow>
          if tech = 0 \<or> 0 < count_rows (\<lambda>t. assignedToId t = Some tech \<and> status t = IN_PROGRESS
               \<and> \<not> isSlaWaiting t) (db_tickets db) then (False, db)
          else (case unpauseNextWaitingTicketAndSetInProgress env tech db of
              (Inl _, db') \<Rightarrow> (True, db') | (Inr _, db') \<Rightarrow> (False, db')))"

definition cancelTicket :: "env \<Rightarrow> nat \<Rightarrow> cancel_dto \<Rightarrow> nat \<Rightarrow> db \<Rightarrow> bool result \<times> db" where
  "cancelTicket env n dto actor db =
     (case cancel_request_guard env dto actor of
        Some e \<Rightarrow> (Inl e, db)
      | None \<Rightarrow>
     (case find_ticket db n of
        None \<Rightarrow> (Inl (NotFound (Cancel CancelNotFound)), db)
      | Some row \<Rightarrow>
     (case assertTicketCancellationAllowed row actor (actor_role env actor)
             (isTicketCancellation (env_caps env) (actor_role env actor)) of
        Some e \<Rightarrow> (Inl e, db)
      | None \<Rightarrow>
          if date_parse (cancel_expectedUpdatedAt dto) \<noteq> Some (updatedAt row)
          then (Inl (Conflict (Cancel CancelChanged)), db)
          else (case cancel_handoff env (assignedToId row) (cancel_commit env dto actor row db) of
              (pending, db') \<Rightarrow> (Inr pending, db')))))"

end
