(* ===== verification/EscalationFacts.thy ===== *)
theory EscalationFacts
  imports Escalations
begin

text \<open>
  Facts about escalations and cancellation: an escalation is decided once and only by its target, the
  tables stay well-formed, and a cancelled ticket leaves no open escalation behind.
\<close>

section \<open>Escalation rows\<close>

lemma save_row_member: "r \<in> set (save_row key rows r)"
  by (induction rows) auto

lemma find_escalation_Some:
  "find_escalation db n eid = Some e \<Longrightarrow> e \<in> set (db_escalations db) \<and> esc_id e = eid \<and> esc_ticketId e = n"
  by (auto simp: find_escalation_def find_Some_iff)

lemma find_escalation_table_ok:
  assumes "table_ok esc_id (db_escalations db)" "e \<in> set (db_escalations db)"
  shows "find_escalation db (esc_ticketId e) (esc_id e) = Some e"
proof -
  have "e' = e" if "e' \<in> set (db_escalations db)" "esc_id e' = esc_id e" for e'
    using assms that by (simp add: table_ok_def distinct_map inj_on_def)
  moreover obtain e' where e': "find_escalation db (esc_ticketId e) (esc_id e) = Some e'"
    using assms(2) by (cases "find_escalation db (esc_ticketId e) (esc_id e)")
      (auto simp: find_escalation_def find_None_iff)
  ultimately show ?thesis using find_escalation_Some [OF e'] by simp
qed

lemma find_escalation_saved:
  assumes "table_ok esc_id (db_escalations db)"
  shows "find_escalation (save_escalation e db) (esc_ticketId e) (esc_id e) = Some e"
proof -
  have "table_ok esc_id (db_escalations (save_escalation e db))"
    using assms by (simp add: save_escalation_def table_ok_save_row)
  moreover have "e \<in> set (db_escalations (save_escalation e db))"
    by (simp add: save_escalation_def save_row_member)
  ultimately show ?thesis by (rule find_escalation_table_ok)
qed

lemma find_escalation_frame [simp]:
  "find_escalation (save_ticket env t db) n eid = find_escalation db n eid"
  "find_escalation (logEvent env m ty a f u k db) n eid = find_escalation db n eid"
  by (simp_all add: find_escalation_def save_ticket_def logEvent_def)

lemma acceptance_events_frame [simp]:
  "find_escalation (acceptance_events env t a db) n eid = find_escalation db n eid"
  "find_ticket (acceptance_events env t a db) n = find_ticket db n"
  "db_wf (acceptance_events env t a db) = db_wf db"
  by (simp_all add: acceptance_events_def Let_def table_simps wf_simps)

lemma find_ticket_save_escalation [simp]: "find_ticket (save_escalation e db) n = find_ticket db n"
  by (simp add: find_ticket_def save_escalation_def)

section \<open>Escalating\<close>

lemma focal_checks_ok:
  "ensures (\<lambda>focal. user_or_view env db user = Some focal \<and> is_focal_for db (ticketType t) (acc_id focal)
      \<and> is_present_today env db (acc_id focal)
      \<and> assertSpecializedAssigneeEligibility (env_caps env) (ticketType t) (Some focal) = None)
    (focal_checks env db t user)"
  by (auto simp: focal_checks_def ensures_simps ensures_guarded split: option.split if_splits)

lemma escalate_cases:
  assumes "escalateTicketInternal env n dto proofs actor role db = (r, db')"
  obtains (refused) err where "r = Inl err" "db' = db"
  | (escalated) v focal where "getTicketById env db n (Some role) (Some actor) = Inr v"
      "escalatable_guard db n (view_ticket v) = None"
      "focal_checks env db (view_ticket v) (esc_to dto) = Inr focal"
      "\<forall>f \<in> set (map snd proofs). valid_image f"
      "r = Inr (new_escalation env n dto proofs actor)"
      "db' = logEvent env n ''escalated'' (Some actor) None None None
         (save_escalation (new_escalation env n dto proofs actor) db)"
proof -
  let ?m = "guarded (escalator_guard (env_caps env) role)
             (and_then (getTicketById env db n (Some role) (Some actor)) (\<lambda>v.
               guarded (escalatable_guard db n (view_ticket v))
                 (and_then (focal_checks env db (view_ticket v) (esc_to dto)) (\<lambda>focal.
                   guarded (validate_images (map snd proofs)) (Inr focal)))))"
  show ?thesis
  proof (cases ?m)
    case (Inl err)
    with assms show ?thesis by (intro refused [of err]) (auto simp: escalateTicketInternal_def)
  next
    case (Inr focal)
    then obtain v where v: "getTicketById env db n (Some role) (Some actor) = Inr v"
      "escalatable_guard db n (view_ticket v) = None"
      "focal_checks env db (view_ticket v) (esc_to dto) = Inr focal" "validate_images (map snd proofs) = None"
      by (auto simp: guarded_Inr_iff and_then_Inr_iff)
    have "r = Inr (new_escalation env n dto proofs actor)
      \<and> db' = logEvent env n ''escalated'' (Some actor) None None None
         (save_escalation (new_escalation env n dto proofs actor) db)"
      using assms unfolding escalateTicketInternal_def Inr by (auto simp: Let_def)
    then show ?thesis
      using v(4) by (intro escalated [OF v(1-3)]) (simp_all add: validate_images_None)
  qed
qed

lemma escalate_wf: "db_wf db \<Longrightarrow> db_wf (snd (escalateTicketInternal env n dto proofs actor role db))"
proof -
  assume wf: "db_wf db"
  obtain r db' where e: "escalateTicketInternal env n dto proofs actor role db = (r, db')" by fastforce
  then show ?thesis by (cases rule: escalate_cases) (simp_all add: e wf wf_simps)
qed

section \<open>Accepting and returning\<close>

lemma taken_over_ok:
  "ensures (\<lambda>t'. ticket_id t' = ticket_id t \<and> assignedToId t' = Some actor \<and> \<not> isSlaWaiting t'
      \<and> status t' = (if status t \<in> {RESOLVED, CLOSED} then status t else IN_PROGRESS)
      \<and> (status t' = IN_PROGRESS \<longrightarrow> slaStartedAt t' \<noteq> None)
      \<and> (status t \<in> {RESOLVED, CLOSED} \<longrightarrow> slaPausedAt t' = slaPausedAt t \<and> resolvedAt t' = resolvedAt t)
      \<and> (0 \<le> accumulatedPauseSeconds t \<longrightarrow> 0 \<le> accumulatedPauseSeconds t'))
    (taken_over env db t actor)"
proof (cases "status t \<in> {RESOLVED, CLOSED}")
  case True
  then show ?thesis unfolding taken_over_def Let_def if_P [OF True]
    using True by (auto simp: ensures_simps)
next
  case False
  then show ?thesis
    unfolding taken_over_def Let_def if_not_P [OF False]
    by (simp add: ensures_simps)
qed

lemma accept_cases:
  assumes "acceptEscalationInternal env n eid actor db = (r, db')"
  obtains (refused) err where "r = Inl err" "db' = db"
  | (clock_failed) err e where "find_escalation db n eid = Some e" "target_guard e actor = None"
      "r = Inl err" "db' = save_escalation (e\<lparr>esc_status := ACCEPTED\<rparr>) db"
  | (accepted) e row t' where "find_escalation db n eid = Some e" "target_guard e actor = None"
      "find_ticket db n = Some row" "accept_guard env db (without_relations row) actor = None"
      "taken_over env (save_escalation (e\<lparr>esc_status := ACCEPTED\<rparr>) db) (without_relations row) actor = Inr t'"
      "r = Inr (e\<lparr>esc_status := ACCEPTED\<rparr>)"
      "db' = acceptance_events env (without_relations row) actor
         (save_ticket env t' (save_escalation (e\<lparr>esc_status := ACCEPTED\<rparr>) db))"
proof (cases "find_escalation db n eid")
  case None
  with assms show ?thesis by (intro refused) (auto simp: acceptEscalationInternal_def)
next
  case e: (Some e)
  show ?thesis
  proof (cases "target_guard e actor")
    case (Some err)
    with assms e show ?thesis by (intro refused [of err]) (auto simp: acceptEscalationInternal_def)
  next
    case g: None
    show ?thesis
    proof (cases "find_ticket db n")
      case None
      with assms e g show ?thesis by (intro refused) (auto simp: acceptEscalationInternal_def)
    next
      case row: (Some row)
      show ?thesis
      proof (cases "accept_guard env db (without_relations row) actor")
        case (Some err)
        with assms e g row show ?thesis by (intro refused [of err]) (auto simp: acceptEscalationInternal_def)
      next
        case ag: None
        let ?db1 = "save_escalation (e\<lparr>esc_status := ACCEPTED\<rparr>) db"
        show ?thesis
        proof (cases "taken_over env ?db1 (without_relations row) actor")
          case (Inl err)
          with assms e g row ag show ?thesis
            by (intro clock_failed [OF e g, of err]) (auto simp: acceptEscalationInternal_def Let_def)
        next
          case (Inr t')
          with assms e g row ag show ?thesis
            by (intro accepted [OF e g row ag Inr]) (auto simp: acceptEscalationInternal_def Let_def)
        qed
      qed
    qed
  qed
qed

lemma taken_over_wf:
  assumes "taken_over env db t actor = Inr t'" "ticket_wf t"
  shows "ticket_wf t'"
  using ensuresD [OF taken_over_ok assms(1)] assms(2)
  by (auto simp: ticket_wf_def split: if_splits)

lemma accept_wf:
  assumes "db_wf db"
  shows "db_wf (snd (acceptEscalationInternal env n eid actor db))"
proof -
  obtain r db' where a: "acceptEscalationInternal env n eid actor db = (r, db')" by fastforce
  then show ?thesis
  proof (cases rule: accept_cases)
    case (accepted e row t')
    have "ticket_wf (without_relations row)"
      using db_wf_find [OF assms accepted(3)] by (simp add: without_relations_wf)
    with accepted(5) have "ticket_wf t'" by (rule taken_over_wf)
    with a accepted(7) assms show ?thesis by (simp add: wf_simps)
  qed (simp_all add: a assms wf_simps)
qed

lemma return_cases:
  assumes "returnEscalationInternal env n eid why actor db = (r, db')"
  obtains (refused) err where "r = Inl err" "db' = db"
  | (returned) e where "find_escalation db n eid = Some e" "target_guard e actor = None" "\<not> blank why"
      "r = Inr (e\<lparr>esc_status := RETURNED, returnReason := map_option trim why\<rparr>)"
      "db' = save_escalation (e\<lparr>esc_status := RETURNED, returnReason := map_option trim why\<rparr>)
         (logEvent env n ''escalation_returned'' (Some actor) None None None db)"
  using assms
  by (auto simp: returnEscalationInternal_def Let_def split: option.splits if_splits)

lemma return_wf: "db_wf db \<Longrightarrow> db_wf (snd (returnEscalationInternal env n eid why actor db))"
proof -
  assume wf: "db_wf db"
  obtain r db' where e: "returnEscalationInternal env n eid why actor db = (r, db')" by fastforce
  then show ?thesis by (cases rule: return_cases) (simp_all add: e wf wf_simps)
qed

lemma updateEscalationProof_wf: "db_wf db \<Longrightarrow> db_wf (snd (updateEscalationProof env n eid notes proofs actor db))"
  by (simp add: updateEscalationProof_def wf_simps split: option.split sum.split)

text \<open>A decision is final: once accepted or returned, the escalation refuses every further decision.\<close>

lemma decided_escalation_refuses:
  assumes "find_escalation db n eid = Some e" "esc_status e \<noteq> PENDING"
  shows "\<exists>err. acceptEscalationInternal env n eid actor db = (Inl err, db)"
    "\<exists>err. returnEscalationInternal env n eid why actor db = (Inl err, db)"
proof -
  have "target_guard e actor \<noteq> None" using assms(2) by (simp add: target_guard_def)
  then show "\<exists>err. acceptEscalationInternal env n eid actor db = (Inl err, db)"
    "\<exists>err. returnEscalationInternal env n eid why actor db = (Inl err, db)"
    using assms(1) by (auto simp: acceptEscalationInternal_def returnEscalationInternal_def)
qed

lemma accepted_is_decided:
  assumes "acceptEscalationInternal env n eid actor db = (Inr e', db')" "db_wf db"
  shows "find_escalation db' n eid = Some e' \<and> esc_status e' = ACCEPTED \<and> escalatedToId e' = actor"
  using assms(1)
proof (cases rule: accept_cases)
  case (accepted e row t')
  note f = find_escalation_Some [OF accepted(1)]
  have "table_ok esc_id (db_escalations db)" using db_wf_ok [OF assms(2)] by (simp add: db_ok_def)
  from find_escalation_saved [OF this, of "e\<lparr>esc_status := ACCEPTED\<rparr>"] f
  have "find_escalation (save_escalation (e\<lparr>esc_status := ACCEPTED\<rparr>) db) n eid = Some (e\<lparr>esc_status := ACCEPTED\<rparr>)"
    by simp
  with accepted(2,6,7) show ?thesis by (auto simp: target_guard_def split: if_splits)
qed simp_all

lemma returned_is_decided:
  assumes "returnEscalationInternal env n eid why actor db = (Inr e', db')" "db_wf db"
  shows "find_escalation db' n eid = Some e' \<and> esc_status e' = RETURNED \<and> escalatedToId e' = actor"
  using assms(1)
proof (cases rule: return_cases)
  case (returned e)
  note f = find_escalation_Some [OF returned(1)]
  let ?e = "e\<lparr>esc_status := RETURNED, returnReason := map_option trim why\<rparr>"
  let ?db = "logEvent env n ''escalation_returned'' (Some actor) None None None db"
  have "table_ok esc_id (db_escalations ?db)" using db_wf_ok [OF assms(2)]
    by (simp add: db_ok_def logEvent_def)
  from find_escalation_saved [OF this, of ?e] f
  have "find_escalation (save_escalation ?e ?db) n eid = Some ?e" by simp
  with returned(2,4,5) show ?thesis by (auto simp: target_guard_def split: if_splits)
qed simp_all

text \<open>What an accepted escalation does to its ticket.\<close>

lemma accept_stores:
  assumes "acceptEscalationInternal env n eid actor db = (Inr e', db')"
  shows "\<exists>row stored. find_ticket db n = Some row \<and> find_ticket db' n = Some stored
    \<and> assignedToId stored = Some actor \<and> \<not> isSlaWaiting stored \<and> status row \<noteq> CANCELLED
    \<and> status stored = (if status row \<in> {RESOLVED, CLOSED} then status row else IN_PROGRESS)
    \<and> (status stored = IN_PROGRESS \<longrightarrow> slaStartedAt stored \<noteq> None)"
  using assms
proof (cases rule: accept_cases)
  case (accepted e row t')
  let ?db1 = "save_escalation (e\<lparr>esc_status := ACCEPTED\<rparr>) db"
  note to = ensuresD [OF taken_over_ok accepted(5)]
  have wr: "status (without_relations row) = status row" "ticket_id (without_relations row) = n"
    using find_ticket_id [OF accepted(3)] by (simp_all add: without_relations_def)
  have st: "find_ticket db' n = Some (stamp env t')"
    using find_save_ticket_same [of env t' ?db1] to wr accepted(7) by simp
  have "status row \<noteq> CANCELLED" using accepted(4) wr by (auto simp: accept_guard_def split: if_splits)
  with st to wr accepted(3) show ?thesis by simp
qed simp_all

section \<open>Cancellation\<close>

lemma cancelled_row_fields [simp]:
  "ticket_id (cancelled_row env dto actor t) = ticket_id t" "status (cancelled_row env dto actor t) = CANCELLED"
  "cancelledAt (cancelled_row env dto actor t) = Some (env_now env)"
  "cancelledById (cancelled_row env dto actor t) = Some actor"
  "cancellationReason (cancelled_row env dto actor t) = Some (trim (cancel_reason_text dto))"
  "cancelledById (stamp env (cancelled_row env dto actor t)) = Some actor"
  "cancellationReason (stamp env (cancelled_row env dto actor t)) = Some (trim (cancel_reason_text dto))"
  "slaPausedAt (cancelled_row env dto actor t) = None" "\<not> isSlaWaiting (cancelled_row env dto actor t)"
  "accumulatedPauseSeconds (cancelled_row env dto actor t) = accumulatedPauseSeconds t"
  "assignedToId (cancelled_row env dto actor t) = assignedToId t"
  by (simp_all add: cancelled_row_def stamp_def)

lemma cancel_escalations_frame [simp]:
  "db_tickets (cancel_escalations n db) = db_tickets db" "db_events (cancel_escalations n db) = db_events db"
  "find_ticket (cancel_escalations n db) m = find_ticket db m"
  by (simp_all add: cancel_escalations_def find_ticket_def)

lemma closed_escalation_fields [simp]:
  "esc_id (closed_escalation n e) = esc_id e" "esc_ticketId (closed_escalation n e) = esc_ticketId e"
  by (simp_all add: closed_escalation_def)

lemma closed_escalation_status: "esc_ticketId e = n \<Longrightarrow> esc_status (closed_escalation n e) \<notin> {PENDING, ACCEPTED}"
  by (simp add: closed_escalation_def)

lemma cancel_escalations_ids:
  "map esc_id (db_escalations (cancel_escalations n db)) = map esc_id (db_escalations db)"
  by (simp add: cancel_escalations_def)

lemma cancel_escalations_ok [simp]: "db_ok (cancel_escalations n db) = db_ok db"
  unfolding db_ok_def table_ok_def cancel_escalations_ids cancel_escalations_frame(1) ..

lemma cancel_escalations_wf [simp]: "db_wf (cancel_escalations n db) = db_wf db"
  by (simp add: db_wf_def)

lemma cancel_escalations_closed:
  assumes "e \<in> set (db_escalations (cancel_escalations n db))" "esc_ticketId e = n"
  shows "esc_status e \<notin> {PENDING, ACCEPTED}"
proof -
  from assms(1) obtain e0 where "e = closed_escalation n e0" by (auto simp: cancel_escalations_def)
  with assms(2) closed_escalation_status [of e0 n] show ?thesis by simp
qed

lemma cancel_commit_wf:
  assumes "db_wf db" "ticket_wf t"
  shows "db_wf (cancel_commit env dto actor t db)"
proof -
  have "0 \<le> accumulatedPauseSeconds t" using assms(2) unfolding ticket_wf_def by (elim conjE)
  then have "ticket_wf (cancelled_row env dto actor t)"
    unfolding ticket_wf_def cancelled_row_fields by simp
  with assms(1) show ?thesis
    unfolding cancel_commit_def db_wf_frame(1) cancel_escalations_wf by (intro db_wf_save)
qed

lemma cancel_handoff_cases:
  obtains (idle) "snd (cancel_handoff env assignee db) = db"
  | (handoff) tech where "assignee = Some tech"
      "snd (cancel_handoff env assignee db) = snd (unpauseNextWaitingTicketAndSetInProgress env tech db)"
proof (cases assignee)
  case None
  then show ?thesis by (intro idle) (simp add: cancel_handoff_def)
next
  case (Some tech)
  have "snd (cancel_handoff env assignee db) = db \<or>
    snd (cancel_handoff env assignee db) = snd (unpauseNextWaitingTicketAndSetInProgress env tech db)"
    using Some by (cases "unpauseNextWaitingTicketAndSetInProgress env tech db")
      (auto simp: cancel_handoff_def split: sum.split)
  with idle handoff [OF Some] show ?thesis by blast
qed

lemma cancel_handoff_wf: "db_wf db \<Longrightarrow> db_wf (snd (cancel_handoff env a db))"
  by (cases rule: cancel_handoff_cases [of env a db]) (simp_all add: promotion_wf)

lemma promotion_escalations [simp]:
  "db_escalations (snd (unpauseNextWaitingTicketAndSetInProgress env tech db)) = db_escalations db"
  by (auto simp: unpauseNextWaitingTicketAndSetInProgress_def commit_promotion_def table_simps
      split: option.split sum.split)

lemma cancelTicket_cases:
  assumes "cancelTicket env n dto actor db = (r, db')"
  obtains (refused) e where "r = Inl e" "db' = db"
  | (cancelled) row pending where "find_ticket db n = Some row"
      "cancel_request_guard env dto actor = None"
      "assertTicketCancellationAllowed row actor (actor_role env actor)
         (isTicketCancellation (env_caps env) (actor_role env actor)) = None"
      "date_parse (cancel_expectedUpdatedAt dto) = Some (updatedAt row)" "r = Inr pending"
      "db' = snd (cancel_handoff env (assignedToId row) (cancel_commit env dto actor row db))"
proof (cases "cancel_request_guard env dto actor")
  case (Some e)
  with assms show ?thesis by (intro refused [of e]) (auto simp: cancelTicket_def)
next
  case g: None
  show ?thesis
  proof (cases "find_ticket db n")
    case None
    with assms g show ?thesis by (intro refused) (auto simp: cancelTicket_def)
  next
    case row: (Some row)
    show ?thesis
    proof (cases "assertTicketCancellationAllowed row actor (actor_role env actor)
         (isTicketCancellation (env_caps env) (actor_role env actor))")
      case (Some e)
      with assms g row show ?thesis by (intro refused [of e]) (auto simp: cancelTicket_def)
    next
      case ok: None
      show ?thesis
      proof (cases "date_parse (cancel_expectedUpdatedAt dto) = Some (updatedAt row)")
        case False
        with assms g row ok show ?thesis by (intro refused) (auto simp: cancelTicket_def)
      next
        case True
        obtain p d where h: "cancel_handoff env (assignedToId row) (cancel_commit env dto actor row db) = (p, d)"
          by fastforce
        with assms g row ok True show ?thesis
          by (intro cancelled [OF row g ok True, of p]) (auto simp: cancelTicket_def)
      qed
    qed
  qed
qed

lemma cancelTicket_wf:
  assumes "db_wf db"
  shows "db_wf (snd (cancelTicket env n dto actor db))"
proof -
  obtain r db' where c: "cancelTicket env n dto actor db = (r, db')" by fastforce
  then show ?thesis
  proof (cases rule: cancelTicket_cases)
    case (cancelled row pending)
    with c assms show ?thesis
      by (simp add: cancel_handoff_wf cancel_commit_wf db_wf_find [OF assms cancelled(1)])
  qed (simp add: c assms)
qed

lemma cancelTicket_stores:
  assumes "cancelTicket env n dto actor db = (Inr pending, db')" "db_wf db"
  shows "\<exists>row stored. find_ticket db n = Some row \<and> find_ticket db' n = Some stored
    \<and> status row \<in> {OPEN, ASSIGNED, IN_PROGRESS} \<and> status stored = CANCELLED
    \<and> cancelledById stored = Some actor \<and> cancellationReason stored = Some (trim (cancel_reason_text dto))
    \<and> cancellationReason stored \<noteq> Some [] \<and> slaPausedAt stored = None \<and> \<not> isSlaWaiting stored
    \<and> isTicketCancellation (env_caps env) (actor_role env actor)
    \<and> (actor_role env actor = USER \<longrightarrow> requesterId row = actor \<or> number (createdById row) = actor)
    \<and> (\<forall>e \<in> set (db_escalations db'). esc_ticketId e = n \<longrightarrow> esc_status e \<notin> {PENDING, ACCEPTED})"
  using assms(1)
proof (cases rule: cancelTicket_cases)
  case (cancelled row p)
  let ?c = "cancelled_row env dto actor row"
  let ?db = "cancel_commit env dto actor row db"
  have id: "ticket_id row = n" by (rule find_ticket_id [OF cancelled(1)])
  have st: "find_ticket ?db n = Some (stamp env ?c)"
    using find_save_ticket_same [of env ?c db] id by (simp add: cancel_commit_def table_simps)
  have wf: "db_wf ?db" by (rule cancel_commit_wf [OF assms(2) db_wf_find [OF assms(2) cancelled(1)]])
  have keep: "find_ticket db' n = Some (stamp env ?c)" unfolding cancelled(6)
  proof (cases rule: cancel_handoff_cases [of env "assignedToId row" ?db])
    case idle
    with st show "find_ticket (snd (cancel_handoff env (assignedToId row) ?db)) n = Some (stamp env ?c)" by simp
  next
    case (handoff tech)
    have "find_ticket (snd (unpauseNextWaitingTicketAndSetInProgress env tech ?db)) n = Some (stamp env ?c)"
      by (rule promotion_keeps [OF db_wf_ok [OF wf] st]) simp
    with handoff show "find_ticket (snd (cancel_handoff env (assignedToId row) ?db)) n = Some (stamp env ?c)"
      by simp
  qed
  have esc: "db_escalations db' = db_escalations (cancel_escalations n db)"
  proof -
    have "db_escalations db' = db_escalations ?db" unfolding cancelled(6)
      by (cases rule: cancel_handoff_cases [of env "assignedToId row" ?db]) simp_all
    then show ?thesis using id by (simp add: cancel_commit_def table_simps cancel_escalations_def)
  qed
  have allowed: "isTicketCancellation (env_caps env) (actor_role env actor)"
    "status row \<in> {OPEN, ASSIGNED, IN_PROGRESS}"
    "actor_role env actor = USER \<longrightarrow> requesterId row = actor \<or> number (createdById row) = actor"
    using cancelled(3) by (auto simp: assertTicketCancellationAllowed_def split: if_splits)
  have "trim (cancel_reason_text dto) \<noteq> []"
    using cancelled(2) by (auto simp: cancel_request_guard_def Let_def split: if_splits)
  then show ?thesis
    using cancelled(1) keep allowed cancel_escalations_closed [of _ n db] unfolding esc
    apply -
    apply (rule exI [of _ row], rule exI [of _ "stamp env ?c"])
    by (intro conjI) simp_all
qed simp_all

end
