(* ===== verification/PauseNeutral.thy ===== *)
theory PauseNeutral
  imports SlaPause SlaClockFacts
begin

text \<open>
  A credited pause costs no business time: the interface \<open>business_clock\<close> of the SLA clock, used
  on the ticket's columns.  The SLA hours are whole seconds (\<open>hours_of n\<close>), which is what the
  deadline arithmetic of the clock is exact for.
\<close>

section \<open>The clock only reads whole seconds\<close>

lemma zeroMilliseconds_whole [simp]: "zeroMilliseconds (1000 * k) = 1000 * k"
  by (simp add: zeroMilliseconds_seconds)

lemma calculateBusinessSeconds_whole:
  "calculateBusinessSeconds h24 office (1000 * (a div 1000)) (1000 * (b div 1000)) config
     = calculateBusinessSeconds h24 office a b config"
  by (simp add: calculateBusinessSeconds_def zeroMilliseconds_seconds [of a] zeroMilliseconds_seconds [of b])

lemma calculateSlaDeadline_whole:
  "calculateSlaDeadline h24 office (1000 * (a div 1000)) h config = calculateSlaDeadline h24 office a h config"
  by (simp add: calculateSlaDeadline_def zeroMilliseconds_seconds [of a])

lemma code_elapsed_eq:
  "calculateBusinessSeconds h24 office a b config = Inr c
     \<Longrightarrow> code_elapsed h24 office config (a div 1000) (b div 1000) = Some c"
  by (simp add: code_elapsed_def calculateBusinessSeconds_whole)

lemma code_deadline_eq:
  "calculateSlaDeadline h24 office a (hours_of n) config = Inr d
     \<Longrightarrow> code_deadline h24 office config (a div 1000) n = Some (d div 1000)"
  by (simp add: code_deadline_def calculateSlaDeadline_whole)

lemma credited_hours:
  assumes "0 \<le> n" "0 \<le> a"
  shows "getSlaHoursIncludingCreditedPause (hours_of n) a = hours_of (n + a)"
proof -
  have "max 0 (hours_of n) = hours_of n" using assms by (simp add: hours_of_def)
  moreover have "max 0 (of_int a) / 3600 = (of_int a / 3600 :: rat)" using assms by simp
  ultimately show ?thesis
    by (simp add: getSlaHoursIncludingCreditedPause_def hours_of_def add_divide_distrib)
qed

lemma div_1000_bounds: "1000 * (x div 1000) \<le> x" "x < 1000 * (x div 1000) + 1000" for x :: int
  using mult_div_mod_eq [of 1000 x] pos_mod_bound [of 1000 x] pos_mod_sign [of 1000 x] by linarith+

section \<open>Pause neutrality\<close>

lemma credit_neutral:
  assumes "hours_readable h24 config (start div 1000)" "hours_readable h24 config (p div 1000)"
    and "0 < n" "0 \<le> a"
    and "calculateSlaDeadline h24 office start (getSlaHoursIncludingCreditedPause (hours_of n) a) config = Inr d"
    and "start \<le> p" "p < d" "p \<le> r"
    and "calculateBusinessSeconds h24 office p r config = Inr c"
    and "calculateSlaDeadline h24 office start (getSlaHoursIncludingCreditedPause (hours_of n) (a + c)) config = Inr d'"
  shows "r < d' \<and> business_count office config (r div 1000) (d' div 1000)
    = business_count office config (p div 1000) (d div 1000)"
proof -
  let ?W = "working_second office config"
  have c: "0 \<le> c"
    using sla.elapsed_counts [OF assms(2) code_elapsed_eq [OF assms(9)]] count_in_nonneg by metis
  have h: "getSlaHoursIncludingCreditedPause (hours_of n) a = hours_of (n + a)"
    "getSlaHoursIncludingCreditedPause (hours_of n) (a + c) = hours_of (n + a + c)"
    using credited_hours [of n a] credited_hours [of n "a + c"] assms(3,4) c by (simp_all add: add.assoc)
  have D: "code_deadline h24 office config (start div 1000) (n + a) = Some (d div 1000)"
    "code_deadline h24 office config (start div 1000) (n + a + c) = Some (d' div 1000)"
    using assms(5,10) code_deadline_eq unfolding h by blast+
  obtain e where e: "d = 1000 * e"
    using calculateSlaDeadline_spends [of h24 office start "n + a" config d] assms(1,3,4,5) h by auto
  obtain e' where e': "d' = 1000 * e'"
    using calculateSlaDeadline_spends [of h24 office start "n + a + c" config d'] assms(1,3,4,10) h c by auto
  have "p div 1000 < e" using assms(7) div_1000_bounds [of p] unfolding e by linarith
  then have p: "p div 1000 < d div 1000" by (simp add: e)
  have n: "0 < n + a" using assms(3,4) by simp
  note neutral = sla.pause_neutral [OF assms(1,2) n D(1) _ p _ code_elapsed_eq [OF assms(9)] D(2)]
  have "start div 1000 \<le> p div 1000" "p div 1000 \<le> r div 1000"
    using assms(6,8) by (simp_all add: zdiv_mono1)
  with neutral have rd: "r div 1000 < d' div 1000"
    "count_in ?W (r div 1000) (d' div 1000) = count_in ?W (p div 1000) (d div 1000)" by blast+
  from rd(1) have "r < d'" using div_1000_bounds [of r] unfolding e' by simp
  with rd(2) show ?thesis unfolding business_count_def by blast
qed

text \<open>
  On a ticket: its stored deadline is the deadline of its SLA hours and the pause credited so far,
  it is paused at \<open>p\<close> before that deadline, and the business seconds of the pause are credited at \<open>r\<close>.
\<close>

definition deadline_current :: "bool \<Rightarrow> (day \<Rightarrow> bool) \<Rightarrow> ticketing_config \<Rightarrow> ticket \<Rightarrow> int \<Rightarrow> date \<Rightarrow> bool" where
  "deadline_current h24 office calendar t n d \<longleftrightarrow> configuredSlaHours t = Some (hours_of n) \<and> 0 < n
     \<and> 0 \<le> accumulatedPauseSeconds t \<and> slaDeadline t = Some d
     \<and> calculateSlaDeadline h24 office (getSlaClockStartedAt t)
         (getSlaHoursIncludingCreditedPause (hours_of n) (accumulatedPauseSeconds t)) calendar = Inr d"

lemma creditTicketPause_adds:
  "\<not> already_credited (ledger_for_credit t) p r \<Longrightarrow> 0 \<le> c \<Longrightarrow>
     accumulatedPauseSeconds (creditTicketPause t p r (of_int c)) = accumulatedPauseSeconds t + c"
  by (simp add: creditTicketPause_def Let_def)

lemma calculateBusinessSeconds_nonneg:
  assumes "calculateBusinessSeconds h24 office p r config = Inr c" "hours_readable h24 config (p div 1000)"
  shows "0 \<le> c"
  using sla.elapsed_counts [OF assms(2) code_elapsed_eq [OF assms(1)]] count_in_nonneg by metis

lemma ticket_pause_neutral:
  assumes "deadline_current h24 office calendar t n d"
    and "hours_readable h24 calendar (getSlaClockStartedAt t div 1000)" "hours_readable h24 calendar (p div 1000)"
    and "getSlaClockStartedAt t \<le> p" "p < d" "p \<le> r" "\<not> already_credited (ledger_for_credit t) p r"
    and "calculateBusinessSeconds h24 office p r calendar = Inr c"
    and "calculateSlaDeadline h24 office (getSlaClockStartedAt t) (getSlaHoursIncludingCreditedPause
      (hours_of n) (accumulatedPauseSeconds (creditTicketPause t p r (of_int c)))) calendar = Inr d'"
  shows "r < d' \<and> business_count office calendar (r div 1000) (d' div 1000)
    = business_count office calendar (p div 1000) (d div 1000)"
proof -
  have "0 \<le> c" using calculateBusinessSeconds_nonneg [OF assms(8,3)] .
  with assms(9) creditTicketPause_adds [OF assms(7)]
  have "calculateSlaDeadline h24 office (getSlaClockStartedAt t) (getSlaHoursIncludingCreditedPause
      (hours_of n) (accumulatedPauseSeconds t + c)) calendar = Inr d'" by simp
  moreover from assms(1) have "0 < n" "0 \<le> accumulatedPauseSeconds t"
    "calculateSlaDeadline h24 office (getSlaClockStartedAt t)
       (getSlaHoursIncludingCreditedPause (hours_of n) (accumulatedPauseSeconds t)) calendar = Inr d"
    by (simp_all add: deadline_current_def)
  ultimately show ?thesis using credit_neutral [OF assms(2,3)] assms(4-6,8) by blast
qed

end
