(* ===== verification/Schedule.thy ===== *)
theory Schedule
  imports EscalationFacts PauseNeutral
begin

text \<open>
  The work schedule: outside working hours the clock of a ticket in progress is stopped by the marker
  \<open>slaPausedAt\<close>; at the start of the next working period the pause is credited and the marker
  cleared (\<open>applySlaResume\<close> and the batch operations around it), and a change of the office calendar
  recomputes the deadlines of running clocks.
\<close>

section \<open>Resuming one ticket\<close>

definition breached_at :: "ticket \<Rightarrow> date \<Rightarrow> bool" where
  "breached_at t pausedAt = (case slaDeadline t of Some d \<Rightarrow> d \<le> pausedAt | None \<Rightarrow> False)"

text \<open>The pause is credited; a ticket with a deadline and configured SLA hours gets the extended deadline.\<close>

definition credited_resume ::
  "env \<Rightarrow> db \<Rightarrow> ticketing_config \<Rightarrow> ticket \<Rightarrow> date \<Rightarrow> date \<Rightarrow> ticket result" where
  "credited_resume env db config t pausedAt resumeAt =
     (let end = max pausedAt resumeAt
      in and_then (ticket_business_seconds env db config t pausedAt end) (\<lambda>seconds.
           let t' = creditTicketPause t pausedAt end (of_int seconds)
           in case (slaDeadline t, configuredSlaHours t) of
                (Some _, Some hours) \<Rightarrow>
                  and_then (credited_deadline env db config t' hours (accumulatedPauseSeconds t'))
                    (\<lambda>d. Inr (t'\<lparr>slaDeadline := Some d, slaPausedAt := None\<rparr>))
              | _ \<Rightarrow> Inr (t'\<lparr>slaPausedAt := None\<rparr>)))"

text \<open>\<open>Inr None\<close> when the ticket is not paused (\<open>applySlaResume\<close> returns false).\<close>

definition applySlaResume ::
  "env \<Rightarrow> db \<Rightarrow> ticketing_config \<Rightarrow> ticket \<Rightarrow> date \<Rightarrow> ticket option result" where
  "applySlaResume env db config t resumeAt =
     (case slaPausedAt t of
        None \<Rightarrow> Inr None
      | Some pausedAt \<Rightarrow>
          if breached_at t pausedAt then Inr (Some (t\<lparr>slaPausedAt := None\<rparr>))
          else and_then (credited_resume env db config t pausedAt resumeAt) (\<lambda>t'. Inr (Some t')))"

section \<open>Batches\<close>

text \<open>The loops over the selected tickets collect what has to be saved; an error saves nothing.\<close>

fun collect_changed :: "(ticket \<Rightarrow> ticket option result) \<Rightarrow> ticket list \<Rightarrow> ticket list result" where
  "collect_changed f [] = Inr []"
| "collect_changed f (t # ts) =
     and_then (f t) (\<lambda>r. and_then (collect_changed f ts) (\<lambda>rest.
       Inr (case r of Some t' \<Rightarrow> t' # rest | None \<Rightarrow> rest)))"

fun log_each :: "env \<Rightarrow> string \<Rightarrow> ticket list \<Rightarrow> db \<Rightarrow> db" where
  "log_each env eventType [] db = db"
| "log_each env eventType (t # ts) db =
     log_each env eventType ts (logEvent env (ticket_id t) eventType None None None None db)"

definition save_changed :: "env \<Rightarrow> string option \<Rightarrow> ticket list result \<Rightarrow> db \<Rightarrow> nat result \<times> db" where
  "save_changed env eventType changed db =
     (case changed of
        Inl e \<Rightarrow> (Inl e, db)
      | Inr ts \<Rightarrow> (Inr (length ts),
          case eventType of
            None \<Rightarrow> save_tickets env ts db
          | Some ty \<Rightarrow> log_each env ty ts (save_tickets env ts db)))"

definition paused_work :: "db \<Rightarrow> (ticket \<Rightarrow> bool) \<Rightarrow> ticket list" where
  "paused_work db P = map (with_relations db) (filter (\<lambda>t. status t = IN_PROGRESS \<and> \<not> isSlaWaiting t
     \<and> slaPausedAt t \<noteq> None \<and> P t) (db_tickets db))"

definition resumeAllActiveTickets :: "env \<Rightarrow> nat option \<Rightarrow> date \<Rightarrow> db \<Rightarrow> nat result \<times> db" where
  "resumeAllActiveTickets env technicianId resumeAt db =
     (case db_config db of
        None \<Rightarrow> (Inr 0, db)
      | Some config \<Rightarrow>
          save_changed env (Some ''sla_schedule_resumed'')
            (collect_changed (\<lambda>t. applySlaResume env db config t resumeAt)
               (paused_work db (\<lambda>t. truthy technicianId \<longrightarrow> assignedToId t = technicianId))) db)"

definition pauseAllActiveTickets :: "env \<Rightarrow> nat option \<Rightarrow> db \<Rightarrow> nat \<times> db" where
  "pauseAllActiveTickets env technicianId db =
     (let ts = map (\<lambda>t. (enrich db (without_relations t))\<lparr>slaPausedAt := Some (env_now env)\<rparr>)
                 (filter (\<lambda>t. status t = IN_PROGRESS \<and> slaStartedAt t \<noteq> None \<and> \<not> isSlaWaiting t
                    \<and> slaPausedAt t = None \<and> (truthy technicianId \<longrightarrow> assignedToId t = technicianId))
                   (db_tickets db))
      in (length ts, log_each env ''sla_schedule_paused'' ts (save_tickets env ts db)))"

text \<open>CWW: a technician's tickets resume at the recorded clock-in, clamped to the clock-in window.  A later
  attendance row of a user replaces an earlier one.\<close>

definition clock_in_of :: "env \<Rightarrow> db \<Rightarrow> day \<Rightarrow> nat \<Rightarrow> date option" where
  "clock_in_of env db today user =
     (case List.find (\<lambda>a. att_userId a = user \<and> att_date a = today \<and> att_status a \<in> {PRESENT, HALF_DAY})
             (rev (db_attendance db)) of
        Some a \<Rightarrow> Some (case clockInTime a of Some d \<Rightarrow> d | None \<Rightarrow> env_now env)
      | None \<Rightarrow> None)"

definition cww_resume_at :: "env \<Rightarrow> db \<Rightarrow> ticketing_config \<Rightarrow> nat \<Rightarrow> date option" where
  "cww_resume_at env db config user =
     (let today = env_today env
      in case clock_in_of env db today user of
           None \<Rightarrow> None
         | Some recorded \<Rightarrow> Some (max (createManilaDate today (cwwClockinStart config))
             (min recorded (createManilaDate today (cwwClockinEnd config)))))"

definition cww_resume_one :: "env \<Rightarrow> db \<Rightarrow> ticketing_config \<Rightarrow> ticket \<Rightarrow> ticket option result" where
  "cww_resume_one env db config t =
     (case assignedToId t of
        None \<Rightarrow> Inr None
      | Some user \<Rightarrow>
          (case cww_resume_at env db config user of
             None \<Rightarrow> Inr None
           | Some resumeAt \<Rightarrow> if user = 0 then Inr None else applySlaResume env db config t resumeAt))"

definition resumeCwwPresentTechnicianTickets :: "env \<Rightarrow> db \<Rightarrow> nat result \<times> db" where
  "resumeCwwPresentTechnicianTickets env db =
     (case db_config db of
        None \<Rightarrow> (Inr 0, db)
      | Some config \<Rightarrow>
          if scheduleMode config \<noteq> CWW \<or> isFlagCeremonyPaused config
             \<or> getManilaTimeString (env_now env) < cwwClockinStart config
             \<or> cwwClockinEnd config \<le> getManilaTimeString (env_now env)
             \<or> \<not> office_of db (env_today env)
          then (Inr 0, db)
          else save_changed env (Some ''sla_schedule_resumed'')
                 (collect_changed (cww_resume_one env db config)
                    (paused_work db (\<lambda>t. case assignedToId t of
                        Some u \<Rightarrow> clock_in_of env db (env_today env) u \<noteq> None | None \<Rightarrow> False))) db)"

section \<open>Overtime days\<close>

definition in_working_hours :: "ticketing_config \<Rightarrow> clock \<Rightarrow> bool" where
  "in_working_hours config time \<longleftrightarrow>
     (let start = (if scheduleMode config = CWW then cwwClockinStart config else officeClockin config);
          end = (if scheduleMode config = CWW then cwwClockoutStart config else officeClockout config)
      in start \<le> time \<and> time < end \<and> \<not> (Clock 12 0 0 \<le> time \<and> time < Clock 13 0 0))"

definition overtime_step :: "env \<Rightarrow> db \<Rightarrow> ticketing_config \<Rightarrow> ticket \<Rightarrow> ticket option result" where
  "overtime_step env db config t =
     (if ticket_overtimeSlaDate t = Some (env_today env)
         \<and> in_working_hours config (getManilaTimeString (env_now env))
      then applySlaResume env db config t (env_now env)
      else if slaPausedAt t = None \<and> slaStartedAt t \<noteq> None
      then Inr (Some (t\<lparr>slaPausedAt := Some (env_now env)\<rparr>))
      else Inr None)"

definition processOvertimeSlaSchedule :: "env \<Rightarrow> ticketing_config \<Rightarrow> db \<Rightarrow> nat result \<times> db" where
  "processOvertimeSlaSchedule env config db =
     save_changed env None
       (collect_changed (overtime_step env db config)
          (map (with_relations db)
             (filter (\<lambda>t. status t = IN_PROGRESS \<and> \<not> isSlaWaiting t) (db_tickets db)))) db"

section \<open>Recomputing deadlines\<close>

definition adjusted_deadline :: "env \<Rightarrow> db \<Rightarrow> ticketing_config \<Rightarrow> ticket \<Rightarrow> date option result" where
  "adjusted_deadline env db config t =
     (case (slaStartedAt t, configuredSlaHours t, slaPausedAt t) of
        (Some start, Some hours, None) \<Rightarrow>
          and_then (calculateSlaDeadline (env_h24 env) (office_of db) start
              (getSlaHoursIncludingCreditedPause hours (accumulatedPauseSeconds t)) (ticketCalendar config t))
            (\<lambda>d. Inr (if slaDeadline t = Some d then None else Some d))
      | _ \<Rightarrow> Inr None)"

text \<open>Each ticket is saved as it is found; an error stops the loop and keeps the earlier saves.\<close>

fun recalculate_each :: "env \<Rightarrow> db \<Rightarrow> ticketing_config \<Rightarrow> ticket list \<Rightarrow> db \<Rightarrow> unit result \<times> db" where
  "recalculate_each env db0 config [] db = (Inr (), db)"
| "recalculate_each env db0 config (t # ts) db =
     (case adjusted_deadline env db0 config t of
        Inl e \<Rightarrow> (Inl e, db)
      | Inr None \<Rightarrow> recalculate_each env db0 config ts db
      | Inr (Some d) \<Rightarrow> recalculate_each env db0 config ts
          (logEvent env (ticket_id t) ''sla_deadline_adjusted'' None None None None
             (save_ticket env (t\<lparr>slaDeadline := Some d\<rparr>) db)))"

definition recalculateActiveSlaDeadlines :: "env \<Rightarrow> db \<Rightarrow> unit result \<times> db" where
  "recalculateActiveSlaDeadlines env db =
     (case db_config db of
        None \<Rightarrow> (Inr (), db)
      | Some config \<Rightarrow> recalculate_each env db config
          (map (with_relations db) (filter (\<lambda>t. status t = IN_PROGRESS) (db_tickets db))) db)"

end
