(* ===== verification/ScheduleFacts.thy ===== *)
theory ScheduleFacts
  imports Schedule
begin

text \<open>
  Facts about the work schedule: resuming touches the clock only and costs no business time, a breach
  before the pause stays a breach, and the batch operations keep the tables well-formed.
\<close>

section \<open>One ticket\<close>

lemma credited_resume_ok:
  "ensures (\<lambda>t'. clock_frame t t' \<and> slaPausedAt t' = None \<and> slaStartedAt t' = slaStartedAt t
      \<and> isSlaWaiting t' = isSlaWaiting t \<and> accumulatedPauseSeconds t \<le> accumulatedPauseSeconds t')
    (credited_resume env db config t p r)"
  using creditTicketPause_accumulated
  by (simp add: credited_resume_def Let_def ensures_simps split: option.split)

lemma applySlaResume_ok:
  "ensures (\<lambda>r. \<forall>t'. r = Some t' \<longrightarrow> clock_frame t t' \<and> slaPausedAt t' = None
      \<and> slaStartedAt t' = slaStartedAt t \<and> isSlaWaiting t' = isSlaWaiting t
      \<and> accumulatedPauseSeconds t \<le> accumulatedPauseSeconds t')
    (applySlaResume env db config t resumeAt)"
  using ensuresD [OF credited_resume_ok]
  by (simp add: applySlaResume_def ensures_simps split: option.split)

lemma running_clock_wf:
  assumes "clock_frame t t'" "ticket_wf t" "status t = IN_PROGRESS" "slaStartedAt t' = slaStartedAt t"
    "isSlaWaiting t' = isSlaWaiting t" "accumulatedPauseSeconds t \<le> accumulatedPauseSeconds t'"
  shows "ticket_wf t'"
proof (rule in_progress_wf)
  have s: "slaStartedAt t \<noteq> None" "\<not> isSlaWaiting t" "0 \<le> accumulatedPauseSeconds t"
    using assms(2,3) unfolding ticket_wf_def by blast+
  show "status t' = IN_PROGRESS" using clock_frame_fields(2) [OF assms(1)] assms(3) by simp
  show "slaStartedAt t' \<noteq> None" "\<not> isSlaWaiting t'" "0 \<le> accumulatedPauseSeconds t'"
    using s assms(4-6) by auto
qed

lemma applySlaResume_wf:
  assumes "applySlaResume env db config t resumeAt = Inr (Some t')" "ticket_wf t" "status t = IN_PROGRESS"
  shows "ticket_wf t'"
  using ensuresD [OF applySlaResume_ok assms(1)] running_clock_wf [OF _ assms(2,3)] by blast

lemma paused_marker_wf: "ticket_wf t \<Longrightarrow> status t = IN_PROGRESS \<Longrightarrow> ticket_wf (t\<lparr>slaPausedAt := d\<rparr>)"
  by (rule running_clock_wf [of t]) simp_all

section \<open>Batches\<close>

lemma collect_changed_member:
  "collect_changed f ts = Inr out \<Longrightarrow> t' \<in> set out \<Longrightarrow> \<exists>t \<in> set ts. f t = Inr (Some t')"
proof (induction ts arbitrary: out)
  case (Cons t ts)
  from Cons.prems(1) obtain r rest where r: "f t = Inr r" "collect_changed f ts = Inr rest"
    "out = (case r of Some t' \<Rightarrow> t' # rest | None \<Rightarrow> rest)"
    by (auto simp: and_then_Inr_iff)
  with Cons.prems(2) consider "f t = Inr (Some t')" | "t' \<in> set rest" by (cases r) auto
  then show ?case using Cons.IH [OF r(2)] by cases auto
qed simp

lemma log_each_wf [simp]: "db_wf (log_each env ty ts db) = db_wf db"
  by (induction ts arbitrary: db) (simp_all add: wf_simps)

lemma log_each_tickets [simp]: "db_tickets (log_each env ty ts db) = db_tickets db"
  by (induction ts arbitrary: db) (simp_all add: table_simps)

lemma log_each_find [simp]: "find_ticket (log_each env ty ts db) n = find_ticket db n"
  by (simp add: find_ticket_def)

lemma save_changed_wf:
  assumes "db_wf db" "\<And>ts t. changed = Inr ts \<Longrightarrow> t \<in> set ts \<Longrightarrow> ticket_wf t"
  shows "db_wf (snd (save_changed env ty changed db))"
  using assms by (auto simp: save_changed_def wf_simps split: sum.split option.split)

lemma paused_work_member:
  assumes "db_wf db" "t \<in> set (paused_work db P)"
  shows "ticket_wf t \<and> status t = IN_PROGRESS"
  using assms by (auto simp: paused_work_def db_wf_def with_relations_wf)

lemma resumeAllActiveTickets_wf:
  assumes "db_wf db"
  shows "db_wf (snd (resumeAllActiveTickets env tech resumeAt db))"
proof (cases "db_config db")
  case (Some config)
  have "ticket_wf t'" if "collect_changed (\<lambda>t. applySlaResume env db config t resumeAt) (paused_work db P) = Inr ts"
    "t' \<in> set ts" for P ts t'
    using collect_changed_member [OF that] paused_work_member [OF assms] applySlaResume_wf by blast
  then show ?thesis using Some
    by (simp add: resumeAllActiveTickets_def) (rule save_changed_wf [OF assms])
qed (simp add: resumeAllActiveTickets_def assms)

lemma cww_resume_one_wf:
  assumes "cww_resume_one env db config t = Inr (Some t')" "ticket_wf t" "status t = IN_PROGRESS"
  shows "ticket_wf t'"
  using assms(1) applySlaResume_wf [OF _ assms(2,3)]
  by (auto simp: cww_resume_one_def split: option.splits if_splits)

lemma resumeCww_wf:
  assumes "db_wf db"
  shows "db_wf (snd (resumeCwwPresentTechnicianTickets env db))"
proof (cases "db_config db")
  case (Some config)
  have "ticket_wf t'" if "collect_changed (cww_resume_one env db config) (paused_work db P) = Inr ts"
    "t' \<in> set ts" for P ts t'
    using collect_changed_member [OF that] paused_work_member [OF assms] cww_resume_one_wf by blast
  then have "db_wf (snd (save_changed env ty (collect_changed (cww_resume_one env db config) (paused_work db P)) db))"
    for ty P by (rule save_changed_wf [OF assms])
  with Some show ?thesis using assms by (simp add: resumeCwwPresentTechnicianTickets_def)
qed (simp add: resumeCwwPresentTechnicianTickets_def assms)

lemma pauseAllActiveTickets_wf:
  assumes "db_wf db"
  shows "db_wf (snd (pauseAllActiveTickets env tech db))"
proof -
  have "ticket_wf ((enrich db (without_relations t))\<lparr>slaPausedAt := d\<rparr>)"
    if "t \<in> set (db_tickets db)" "status t = IN_PROGRESS" for t d
  proof (rule paused_marker_wf)
    show "ticket_wf (enrich db (without_relations t))"
      using that assms by (intro enrich_wf) (simp add: db_wf_def without_relations_wf)
    show "status (enrich db (without_relations t)) = IN_PROGRESS"
      using that by (simp add: without_relations_def)
  qed
  then show ?thesis
    unfolding pauseAllActiveTickets_def Let_def by (auto simp: wf_simps assms intro!: db_wf_saves)
qed

lemma overtime_step_wf:
  assumes "overtime_step env db config t = Inr (Some t')" "ticket_wf t" "status t = IN_PROGRESS"
  shows "ticket_wf t'"
  using assms(1) applySlaResume_wf [OF _ assms(2,3)] paused_marker_wf [OF assms(2,3)]
  by (auto simp: overtime_step_def split: if_splits)

lemma processOvertimeSlaSchedule_wf:
  assumes "db_wf db"
  shows "db_wf (snd (processOvertimeSlaSchedule env config db))"
  unfolding processOvertimeSlaSchedule_def
proof (rule save_changed_wf [OF assms])
  fix ts t'
  assume c: "collect_changed (overtime_step env db config)
      (map (with_relations db) (filter (\<lambda>t. status t = IN_PROGRESS \<and> \<not> isSlaWaiting t) (db_tickets db))) = Inr ts"
    "t' \<in> set ts"
  from collect_changed_member [OF this] obtain u where
    u: "u \<in> with_relations db ` set (filter (\<lambda>t. status t = IN_PROGRESS \<and> \<not> isSlaWaiting t) (db_tickets db))"
      "overtime_step env db config u = Inr (Some t')" unfolding set_map by blast
  from u(1) have "ticket_wf u \<and> status u = IN_PROGRESS"
    by (rule imageE) (use assms in \<open>simp add: db_wf_def with_relations_wf\<close>)
  with u(2) show "ticket_wf t'" using overtime_step_wf by blast
qed

lemma recalculate_each_wf:
  "db_wf db \<Longrightarrow> (\<And>t. t \<in> set ts \<Longrightarrow> ticket_wf t) \<Longrightarrow> db_wf (snd (recalculate_each env db0 config ts db))"
  by (induction ts arbitrary: db) (simp_all add: wf_simps split: sum.split option.split)

lemma recalculateActiveSlaDeadlines_wf:
  assumes "db_wf db"
  shows "db_wf (snd (recalculateActiveSlaDeadlines env db))"
proof (cases "db_config db")
  case (Some config)
  show ?thesis
    unfolding recalculateActiveSlaDeadlines_def Some option.case
    by (rule recalculate_each_wf [OF assms]) (use assms in \<open>auto simp: db_wf_def with_relations_wf\<close>)
qed (simp add: recalculateActiveSlaDeadlines_def assms)

section \<open>Resuming costs no business time\<close>

lemma applySlaResume_neutral:
  assumes "applySlaResume env db config t resumeAt = Inr (Some t')" "slaPausedAt t = Some p"
    and "deadline_current (env_h24 env) (office_of db) (ticketCalendar config t) t n d"
    and "hours_readable (env_h24 env) (ticketCalendar config t) (getSlaClockStartedAt t div 1000)"
      "hours_readable (env_h24 env) (ticketCalendar config t) (p div 1000)"
    and "getSlaClockStartedAt t \<le> p" "p < d"
    and "\<not> already_credited (ledger_for_credit t) p (max p resumeAt)"
  shows "\<exists>d'. slaDeadline t' = Some d' \<and> max p resumeAt < d'
    \<and> business_count (office_of db) (ticketCalendar config t) (max p resumeAt div 1000) (d' div 1000)
      = business_count (office_of db) (ticketCalendar config t) (p div 1000) (d div 1000)"
proof -
  let ?r = "max p resumeAt"
  from assms(3) have dl: "slaDeadline t = Some d" "configuredSlaHours t = Some (hours_of n)"
    by (simp_all add: deadline_current_def)
  then have nb: "\<not> breached_at t p" using assms(7) by (simp add: breached_at_def)
  from assms(1,2) nb have "credited_resume env db config t p resumeAt = Inr t'"
    by (auto simp: applySlaResume_def and_then_Inr_iff)
  then obtain s d' where s: "ticket_business_seconds env db config t p ?r = Inr s"
    and d': "credited_deadline env db config (creditTicketPause t p ?r (of_int s)) (hours_of n)
        (accumulatedPauseSeconds (creditTicketPause t p ?r (of_int s))) = Inr d'"
    and t': "t' = creditTicketPause t p ?r (of_int s)\<lparr>slaDeadline := Some d', slaPausedAt := None\<rparr>"
    by (auto simp: credited_resume_def Let_def dl and_then_Inr_iff)
  let ?c = "creditTicketPause t p ?r (of_int s)"
  have fr: "clock_frame t ?c" by simp
  have cal: "ticketCalendar config ?c = ticketCalendar config t"
    using clock_frame_fields(18) [OF fr] by (simp add: ticketCalendar_def)
  have start: "getSlaClockStartedAt ?c = getSlaClockStartedAt t"
    unfolding getSlaClockStartedAt_def creditTicketPause_fields(3)
      clock_frame_fields(14) [OF fr] clock_frame_fields(15) [OF fr] ..
  have "slaDeadline t' = Some d'" unfolding t' by simp
  moreover have "?r < d' \<and> business_count (office_of db) (ticketCalendar config t) (?r div 1000) (d' div 1000)
      = business_count (office_of db) (ticketCalendar config t) (p div 1000) (d div 1000)"
    using ticket_pause_neutral [OF assms(3-7) _ assms(8) s [unfolded ticket_business_seconds_def]]
      d' [unfolded credited_deadline_def cal start] by simp
  ultimately show ?thesis by blast
qed

text \<open>A deadline that was missed before the pause is not moved.\<close>

lemma applySlaResume_breached:
  assumes "slaPausedAt t = Some p" "slaDeadline t = Some d" "d \<le> p"
  shows "applySlaResume env db config t resumeAt = Inr (Some (t\<lparr>slaPausedAt := None\<rparr>))"
  using assms by (simp add: applySlaResume_def breached_at_def)

text \<open>Recomputing is idempotent: after a successful pass no running ticket needs another.\<close>

lemma adjusted_deadline_stable:
  assumes "adjusted_deadline env db config t = Inr (Some d)"
  shows "adjusted_deadline env db config (t\<lparr>slaDeadline := Some d\<rparr>) = Inr None"
  using assms
  by (auto simp: adjusted_deadline_def configuredSlaHours_def ticketCalendar_def and_then_Inr_iff
      split: option.splits if_splits)

end
