(* ===== verification/Comments.thy ===== *)
theory Comments
  imports ScheduleFacts
begin

text \<open>
  Comments and their images: \<open>addComment\<close> with internal notes, mentions and unread flags,
  \<open>getInternalNoteMentionCandidates\<close>, and \<open>replaceCommentImage\<close>, which exchanges one image of a comment.
  Writing the uploaded bytes to disk is not modelled; the stored paths are.
\<close>

section \<open>Writes\<close>

text \<open>\<open>ticketRepo.update(id, columns)\<close>: the update date column is set with the columns.\<close>

definition update_ticket_columns :: "env \<Rightarrow> nat \<Rightarrow> (ticket \<Rightarrow> ticket) \<Rightarrow> db \<Rightarrow> db" where
  "update_ticket_columns env n f db =
     (case find_ticket db n of Some row \<Rightarrow> save_ticket env (f row) db | None \<Rightarrow> db)"

text \<open>Every new row gets its own id.\<close>

definition next_id :: "env \<Rightarrow> env" where
  "next_id env = env\<lparr>env_freshId := Suc (env_freshId env)\<rparr>"

definition flag_technician :: "ticket \<Rightarrow> ticket" where
  "flag_technician t = t\<lparr>hasUnreadTechnician := True\<rparr>"

definition flag_user :: "ticket \<Rightarrow> ticket" where
  "flag_user t = t\<lparr>hasUnreadUser := True\<rparr>"

definition save_comment :: "ticket_comment \<Rightarrow> db \<Rightarrow> db" where
  "save_comment c db = db\<lparr>db_comments := db_comments db @ [c]\<rparr>"

definition with_images :: "string list \<Rightarrow> ticket_comment \<Rightarrow> ticket_comment" where
  "with_images paths c = c\<lparr>attachmentPath := None, attachmentPaths := Some paths\<rparr>"

definition update_comment_images :: "nat \<Rightarrow> string list \<Rightarrow> db \<Rightarrow> db" where
  "update_comment_images cid paths db =
     db\<lparr>db_comments := map (\<lambda>c. if comment_id c = cid then with_images paths c else c) (db_comments db)\<rparr>"

section \<open>Mentions\<close>

text \<open>The ids of the users that may be mentioned; the labels by which the source sorts them are not
  modelled.\<close>

definition mention_candidate :: "env \<Rightarrow> db \<Rightarrow> ticket \<Rightarrow> nat option \<Rightarrow> account \<Rightarrow> bool" where
  "mention_candidate env db t actor u \<longleftrightarrow>
     (overtimeDate t \<noteq> None \<longrightarrow> assertTicketReadAccess env db t (Some (acc_id u)) (Some (acc_role u)) = None)
     \<and> acc_active u \<and> acc_role u \<noteq> USER \<and> Some (acc_id u) \<noteq> actor
     \<and> canViewInternalNotes env t (Some (acc_role u)) (Some (acc_id u))
         (getLatestActiveEscalation db (ticket_id t))"

definition getInternalNoteMentionCandidates ::
  "env \<Rightarrow> db \<Rightarrow> nat \<Rightarrow> user_role \<Rightarrow> nat option \<Rightarrow> nat list result" where
  "getInternalNoteMentionCandidates env db n role actor =
     (case find_ticket db n of
        None \<Rightarrow> Inl (NotFound (Assign TicketNotFound))
      | Some row \<Rightarrow>
          let t = enrich db (without_relations row)
          in guarded (assertTicketReadAccess env db t actor (Some role))
            (guarded (first_error [
               (\<not> canViewInternalNotes env t (Some role) actor (getLatestActiveEscalation db n),
                Forbidden (Image InternalNoteDenied))])
              (Inr (map acc_id (filter (mention_candidate env db t actor) (db_users db))))))"

section \<open>Adding a comment\<close>

record comment_dto =
  dto_content :: "string option"
  dto_comment :: "string option"
  dto_isInternal :: bool
  dto_mentionedUserIds :: "nat list"

definition initial_upload :: "bool \<Rightarrow> comment_dto \<Rightarrow> ticket \<Rightarrow> nat \<Rightarrow> bool" where
  "initial_upload trusted dto t actor \<longleftrightarrow> trusted \<and> filerId t = actor
     \<and> dto_content dto = Some ''[Initial Ticket Attachment]'' \<and> \<not> dto_isInternal dto"

definition commentText :: "comment_dto \<Rightarrow> upload list \<Rightarrow> string" where
  "commentText dto files =
     (let s = trim (case dto_content dto of Some s \<Rightarrow> s
                    | None \<Rightarrow> (case dto_comment dto of Some s \<Rightarrow> s | None \<Rightarrow> ''''))
      in if s \<noteq> [] then s else if files \<noteq> [] then ''[Image attachment]'' else [])"

definition requestedMentionIds :: "comment_dto \<Rightarrow> nat \<Rightarrow> nat list" where
  "requestedMentionIds dto actor =
     filter (\<lambda>u. u \<noteq> actor) (rev (remdups (rev (dto_mentionedUserIds dto))))"

definition mention_guard :: "env \<Rightarrow> db \<Rightarrow> nat \<Rightarrow> comment_dto \<Rightarrow> nat \<Rightarrow> user_role \<Rightarrow> nat list result" where
  "mention_guard env db n dto actor role =
     (let wanted = requestedMentionIds dto actor
      in if wanted = [] then Inr []
         else and_then (getInternalNoteMentionCandidates env db n role (Some actor)) (\<lambda>allowed.
           if list_ex (\<lambda>u. u \<notin> set allowed) wanted then Inl (BadRequest (Image MentionInvalid))
           else Inr wanted))"

definition comment_guard :: "bool \<Rightarrow> comment_dto \<Rightarrow> ticket_view \<Rightarrow> nat \<Rightarrow> user_role \<Rightarrow> upload list \<Rightarrow> http_error option" where
  "comment_guard trusted dto v actor role files = first_error [
     (dto_isInternal dto \<and> \<not> view_internalNotes v, Forbidden (Image InternalNoteDenied)),
     (role = USER \<and> requesterId (view_ticket v) \<noteq> actor \<and> \<not> initial_upload trusted dto (view_ticket v) actor,
      Forbidden (Image CommentNotOwn)),
     (commentText dto files = [], BadRequest (Image CommentEmpty)),
     (requestedMentionIds dto actor \<noteq> [] \<and> \<not> dto_isInternal dto, BadRequest (Image MentionsInternalOnly))]"

definition attachment_guard :: "upload list \<Rightarrow> http_error option" where
  "attachment_guard files =
     (if 5 < length files then Some (BadRequest (Image TooManyImages)) else validate_images files)"

definition comment_paths :: "env \<Rightarrow> nat \<Rightarrow> (string \<times> upload) list \<Rightarrow> string list" where
  "comment_paths env n files = stored_paths (''comment-attachments/'' @ env_idText env n) files"

definition new_comment :: "env \<Rightarrow> nat \<Rightarrow> comment_dto \<Rightarrow> nat \<Rightarrow> (string \<times> upload) list \<Rightarrow> ticket_comment" where
  "new_comment env n dto actor files =
     \<lparr>comment_id = env_freshId env, comment_ticketId = n, comment_text = commentText dto (map snd files),
      comment_userId = Some actor, comment_isInternal = dto_isInternal dto, attachmentPath = None,
      attachmentPaths = Some (comment_paths env n files)\<rparr>"

definition commit_comment ::
  "env \<Rightarrow> bool \<Rightarrow> nat \<Rightarrow> comment_dto \<Rightarrow> ticket \<Rightarrow> nat \<Rightarrow> user_role \<Rightarrow> ticket_comment \<Rightarrow> db \<Rightarrow> db" where
  "commit_comment env trusted n dto t actor role c db =
     (let description = trusted \<and> isDescriptionAttachment t c;
          db1 = save_comment c db;
          db2 = (if \<not> description \<and> role = USER then update_ticket_columns env n flag_technician db1
                 else if \<not> description \<and> \<not> dto_isInternal dto then update_ticket_columns env n flag_user db1
                 else db1)
      in logEvent env n (if description then ''description_attachment_added'' else ''comment_added'')
           (Some actor) None None None db2)"

definition comment_checks ::
  "env \<Rightarrow> bool \<Rightarrow> nat \<Rightarrow> comment_dto \<Rightarrow> nat \<Rightarrow> user_role \<Rightarrow> upload list \<Rightarrow> db \<Rightarrow> (ticket_view \<times> nat list) result" where
  "comment_checks env trusted n dto actor role files db =
     and_then (getTicketById env db n (Some role) (Some actor)) (\<lambda>v.
       guarded (comment_guard trusted dto v actor role files)
         (and_then (mention_guard env db n dto actor role) (\<lambda>mentioned.
           guarded (attachment_guard files) (Inr (v, mentioned)))))"

definition addComment ::
  "env \<Rightarrow> nat \<Rightarrow> comment_dto \<Rightarrow> nat \<Rightarrow> user_role \<Rightarrow> (string \<times> upload) list \<Rightarrow> bool \<Rightarrow> db
    \<Rightarrow> ticket_comment result \<times> db" where
  "addComment env n dto actor role files trusted db =
     (case comment_checks env trusted n dto actor role (map snd files) db of
        Inl e \<Rightarrow> (Inl e, db)
      | Inr (v, mentioned) \<Rightarrow>
          let c = new_comment env n dto actor files
          in (Inr c, commit_comment env trusted n dto (view_ticket v) actor role c db))"

text \<open>Who is notified of a comment: \<open>(recipients, type)\<close> in the order of the source.\<close>

definition proxyFilerId :: "env \<Rightarrow> ticket \<Rightarrow> nat option" where
  "proxyFilerId env t =
     (if truthy (createdById t) \<and> createdById t \<noteq> Some (requesterId t) \<and> \<not> creator_is_user env t
      then createdById t else None)"

definition participantIds :: "env \<Rightarrow> ticket \<Rightarrow> nat \<Rightarrow> nat list" where
  "participantIds env t actor =
     filter (\<lambda>u. u \<noteq> 0 \<and> u \<noteq> actor) [number (assignedToId t), number (proxyFilerId env t)]"

definition public_recipients :: "ticket \<Rightarrow> nat \<Rightarrow> user_role \<Rightarrow> nat list" where
  "public_recipients t actor role =
     (if role = USER \<or> requesterId t = actor
      then (if truthy (assignedToId t) \<and> assignedToId t \<noteq> Some actor then [number (assignedToId t)] else [])
      else if requesterId t \<noteq> 0 then [requesterId t] else [])"

definition comment_notifications ::
  "env \<Rightarrow> ticket \<Rightarrow> bool \<Rightarrow> nat \<Rightarrow> user_role \<Rightarrow> nat list \<Rightarrow> (nat list \<times> string) list" where
  "comment_notifications env t internal actor role mentioned =
     (if internal
      then [(filter (\<lambda>u. u \<notin> set mentioned) (rev (remdups (rev (participantIds env t actor)))), ''internal_note_added''),
            (mentioned, ''internal_note_mentioned'')]
      else [(public_recipients t actor role, ''comment_added'')])"

section \<open>Replacing an image\<close>

definition image_guard :: "env \<Rightarrow> upload option \<Rightarrow> nat \<Rightarrow> http_error option" where
  "image_guard env file actor =
     (case file of
        None \<Rightarrow> Some (BadRequest (Image ImageMissing))
      | Some f \<Rightarrow> first_error [
          (buffer f = [], BadRequest (Image ImageMissing)),
          (10 * 1024 * 1024 < length (buffer f), BadRequest (Image ImageTooLarge)),
          (\<not> valid_image f, BadRequest (Image ImageInvalid)),
          ((case env_getUserById env actor of Some u \<Rightarrow> \<not> acc_active u | None \<Rightarrow> True),
           Forbidden (Image InactiveAccount))])"

definition find_comment :: "db \<Rightarrow> nat \<Rightarrow> nat \<Rightarrow> ticket_comment option" where
  "find_comment db n cid = List.find (\<lambda>c. comment_id c = cid \<and> comment_ticketId c = n) (db_comments db)"

text \<open>The locked row has no \<open>createdBy\<close> relation, so the filer's role is unknown to \<open>canViewInternalNotes\<close>.\<close>

definition replace_guard :: "env \<Rightarrow> db \<Rightarrow> ticket \<Rightarrow> ticket_comment \<Rightarrow> nat \<Rightarrow> user_role \<Rightarrow> http_error option" where
  "replace_guard env db t c actor role =
     (case assertImageReplacementAllowed t c actor role of
        Some e \<Rightarrow> Some e
      | None \<Rightarrow> first_error [
          (comment_isInternal c \<and> \<not> canViewInternalNotes (env\<lparr>env_getUserById := \<lambda>_. None\<rparr>) t (Some role) (Some actor)
              (getLatestActiveEscalation db (ticket_id t)),
           Forbidden (Image InternalNoteDenied))])"

text \<open>\<open>paths.indexOf(expectedPath)\<close>.\<close>

fun indexOf :: "'a list \<Rightarrow> 'a \<Rightarrow> nat option" where
  "indexOf [] x = None"
| "indexOf (y # ys) x = (if y = x then Some 0 else map_option Suc (indexOf ys x))"

definition commit_image :: "env \<Rightarrow> nat \<Rightarrow> nat \<Rightarrow> nat \<Rightarrow> string list \<Rightarrow> db \<Rightarrow> db" where
  "commit_image env n cid actor paths db =
     logEvent env n ''attachment_replaced'' (Some actor) None None None (update_comment_images cid paths db)"

definition replacement_path :: "env \<Rightarrow> nat \<Rightarrow> string \<Rightarrow> upload \<Rightarrow> string" where
  "replacement_path env n uuid f =
     ''comment-attachments/'' @ env_idText env n @ ''/'' @ createSafeImageFilename uuid f"

definition locked_replace ::
  "env \<Rightarrow> db \<Rightarrow> nat \<Rightarrow> nat \<Rightarrow> string \<Rightarrow> string \<Rightarrow> upload \<Rightarrow> nat \<Rightarrow> string list result" where
  "locked_replace env db n cid expectedPath uuid f actor =
     (case find_ticket db n of
        None \<Rightarrow> Inl (NotFound (Assign TicketNotFound))
      | Some row \<Rightarrow>
          let t = without_relations row; role = actor_role env actor
          in guarded (assertTicketReadAccess env db t (Some actor) (Some role))
            (case find_comment db n cid of
               None \<Rightarrow> Inl (NotFound (Image CommentNotFound))
             | Some c \<Rightarrow>
                 guarded (replace_guard env db t c actor role)
                   (case indexOf (commentImagePaths c) expectedPath of
                      None \<Rightarrow> Inl (Conflict (Image ImageGone))
                    | Some i \<Rightarrow> Inr ((commentImagePaths c)[i := replacement_path env n uuid f]))))"

definition replaceCommentImage ::
  "env \<Rightarrow> nat \<Rightarrow> nat \<Rightarrow> string \<Rightarrow> string \<Rightarrow> upload option \<Rightarrow> nat \<Rightarrow> db \<Rightarrow> unit result \<times> db" where
  "replaceCommentImage env n cid expectedPath uuid file actor db =
     (case image_guard env file actor of
        Some e \<Rightarrow> (Inl e, db)
      | None \<Rightarrow>
          (case locked_replace env db n cid expectedPath uuid (the file) actor of
             Inl e \<Rightarrow> (Inl e, db)
           | Inr paths \<Rightarrow> (Inr (), commit_image env n cid actor paths db)))"

section \<open>Laws\<close>

lemma update_ticket_columns_wf [wf_simps]:
  assumes "db_wf db" "\<And>t. ticket_wf t \<Longrightarrow> ticket_wf (f t)"
  shows "db_wf (update_ticket_columns env n f db)"
  using assms by (auto simp: update_ticket_columns_def wf_simps db_wf_find split: option.split)

lemma flag_wf [wf_simps]:
  "ticket_wf (flag_technician t) = ticket_wf t" "ticket_wf (flag_user t) = ticket_wf t"
  by (simp_all add: flag_technician_def flag_user_def ticket_wf_def)

lemma comment_frame [simp]:
  "db_wf (save_comment c db) = db_wf db" "db_wf (update_comment_images cid paths db) = db_wf db"
  "db_tickets (save_comment c db) = db_tickets db"
  "db_tickets (update_comment_images cid paths db) = db_tickets db"
  by (simp_all add: db_wf_def db_ok_def save_comment_def update_comment_images_def)

lemma commit_comment_wf: "db_wf db \<Longrightarrow> db_wf (commit_comment env trusted n dto t actor role c db)"
  by (simp add: commit_comment_def Let_def wf_simps)

lemma addComment_wf: "db_wf db \<Longrightarrow> db_wf (snd (addComment env n dto actor role files trusted db))"
  by (simp add: addComment_def Let_def commit_comment_wf split: sum.split prod.split)

lemma replaceCommentImage_wf: "db_wf db \<Longrightarrow> db_wf (snd (replaceCommentImage env n cid ex uuid file actor db))"
  by (simp add: replaceCommentImage_def commit_image_def wf_simps split: option.split sum.split)

text \<open>Who writes an internal note can read internal notes, so is no end user.\<close>

lemma getTicketById_internalNotes:
  assumes "getTicketById env db n role viewer = Inr v" "view_internalNotes v"
  shows "\<exists>r. role = Some r \<and> r \<noteq> USER"
proof -
  from assms(1) obtain row where row: "find_ticket db n = Some row"
    by (auto simp: getTicketById_def split: option.splits)
  from assms(1) obtain t where
    "view_internalNotes v = canViewInternalNotes env t role viewer (getLatestActiveEscalation db (ticket_id t))"
    unfolding getTicketById_def row by (auto simp: Let_def guarded_Inr_iff and_then_Inr_iff)
  with assms(2) internal_notes_need_staff show ?thesis by metis
qed

lemma comment_checks_Inr:
  assumes "comment_checks env trusted n dto actor role files db = Inr (v, mentioned)"
  shows "getTicketById env db n (Some role) (Some actor) = Inr v"
    "comment_guard trusted dto v actor role files = None"
    "mention_guard env db n dto actor role = Inr mentioned" "attachment_guard files = None"
  using assms unfolding comment_checks_def and_then_Inr_iff guarded_Inr_iff by blast+

lemma addComment_cases:
  assumes "addComment env n dto actor role files trusted db = (r, db')"
  obtains (refused) e where "r = Inl e" "db' = db"
  | (added) v mentioned where
      "comment_checks env trusted n dto actor role (map snd files) db = Inr (v, mentioned)"
      "r = Inr (new_comment env n dto actor files)"
      "db' = commit_comment env trusted n dto (view_ticket v) actor role (new_comment env n dto actor files) db"
proof (cases "comment_checks env trusted n dto actor role (map snd files) db")
  case (Inl e)
  with assms show ?thesis by (intro refused [of e]) (simp_all add: addComment_def)
next
  case (Inr p)
  obtain v m where "p = (v, m)" by fastforce
  with Inr assms show ?thesis by (intro added [of v m]) (auto simp: addComment_def Let_def)
qed

lemma internal_note_by_staff:
  assumes "addComment env n dto actor role files trusted db = (Inr c, db')" "dto_isInternal dto"
  shows "role \<noteq> USER"
  using assms(1)
proof (cases rule: addComment_cases)
  case (added v mentioned)
  note ok = comment_checks_Inr [OF added(1)]
  from ok(2) assms(2) have "view_internalNotes v" by (simp add: comment_guard_def split: if_splits)
  with getTicketById_internalNotes [OF ok(1)] show ?thesis by simp
qed simp

lemma indexOf_Some:
  "indexOf xs x = Some i \<Longrightarrow> i < length xs \<and> xs ! i = x"
  by (induction xs arbitrary: i) (auto split: if_splits)

lemma commentImagePaths_distinct: "distinct (commentImagePaths c)"
  by (simp add: commentImagePaths_def)

lemma commentImagePaths_with_images: "distinct ps \<Longrightarrow> commentImagePaths (with_images ps c) = ps"
  by (simp add: commentImagePaths_def with_images_def distinct_remdups_id)

lemma locked_replace_Inr:
  assumes "locked_replace env db n cid ex uuid f actor = Inr paths"
  obtains row c i where "find_ticket db n = Some row" "find_comment db n cid = Some c"
    "assertTicketReadAccess env db (without_relations row) (Some actor) (Some (actor_role env actor)) = None"
    "replace_guard env db (without_relations row) c actor (actor_role env actor) = None"
    "indexOf (commentImagePaths c) ex = Some i"
    "paths = (commentImagePaths c)[i := replacement_path env n uuid f]"
proof -
  from assms obtain row where row: "find_ticket db n = Some row"
    by (auto simp: locked_replace_def split: option.splits)
  note a1 = assms [unfolded locked_replace_def row option.case Let_def guarded_Inr_iff]
  then obtain c where c: "find_comment db n cid = Some c" by (auto split: option.splits)
  note a2 = a1 [unfolded c option.case guarded_Inr_iff]
  then obtain i where "indexOf (commentImagePaths c) ex = Some i"
    by (auto split: option.splits)
  then have i: "indexOf (commentImagePaths c) ex = Some i" .
  have *: "assertTicketReadAccess env db (without_relations row) (Some actor) (Some (actor_role env actor)) = None"
    "replace_guard env db (without_relations row) c actor (actor_role env actor) = None"
    "paths = (commentImagePaths c)[i := replacement_path env n uuid f]"
    using a2 unfolding i option.case sum.inject by blast+
  show thesis by (rule that [OF row c *(1,2) i *(3)])
qed

lemma replace_cases:
  assumes "replaceCommentImage env n cid ex uuid file actor db = (r, db')"
  obtains (refused) e where "r = Inl e" "db' = db"
  | (replaced) f paths where "file = Some f" "image_guard env (Some f) actor = None"
      "locked_replace env db n cid ex uuid f actor = Inr paths" "r = Inr ()"
      "db' = commit_image env n cid actor paths db"
proof (cases "image_guard env file actor")
  case (Some e)
  with assms show ?thesis by (intro refused [of e]) (simp_all add: replaceCommentImage_def)
next
  case g: None
  then obtain f where f: "file = Some f" by (auto simp: image_guard_def split: option.splits)
  show ?thesis
  proof (cases "locked_replace env db n cid ex uuid f actor")
    case (Inl e)
    with assms f g show ?thesis by (intro refused [of e]) (simp_all add: replaceCommentImage_def)
  next
    case (Inr paths)
    with assms f g show ?thesis by (intro replaced [of f paths]) (simp_all add: replaceCommentImage_def)
  qed
qed

text \<open>A replacement changes one slot of one comment.\<close>

lemma replaceCommentImage_one_slot:
  assumes "replaceCommentImage env n cid ex uuid file actor db = (Inr (), db')"
  shows "\<exists>c i f. find_comment db n cid = Some c \<and> file = Some f \<and> valid_image f
    \<and> i < length (commentImagePaths c) \<and> commentImagePaths c ! i = ex
    \<and> db_comments db' = map (\<lambda>d. if comment_id d = cid
         then with_images ((commentImagePaths c)[i := replacement_path env n uuid f]) d else d) (db_comments db)
    \<and> db_tickets db' = db_tickets db"
  using assms
proof (cases rule: replace_cases)
  case (replaced f paths)
  from replaced(3) obtain row c i where c: "find_comment db n cid = Some c"
    "indexOf (commentImagePaths c) ex = Some i"
    "paths = (commentImagePaths c)[i := replacement_path env n uuid f]"
    by (rule locked_replace_Inr)
  have "valid_image f" using replaced(2) by (simp add: image_guard_def split: if_splits)
  moreover have "db_comments db' = map (\<lambda>d. if comment_id d = cid
      then with_images ((commentImagePaths c)[i := replacement_path env n uuid f]) d else d) (db_comments db)"
    unfolding replaced(5) c(3) commit_image_def by (simp add: logEvent_def update_comment_images_def)
  moreover have "db_tickets db' = db_tickets db"
    unfolding replaced(5) commit_image_def by (simp add: logEvent_def)
  ultimately show ?thesis using c(1) replaced(1) indexOf_Some [OF c(2)]
    apply -
    apply (rule exI [of _ c], rule exI [of _ i], rule exI [of _ f])
    by (intro conjI) (simp_all only:)
qed simp

end
