(* ===== verification/Corrections.thy ===== *)
theory Corrections
  imports Comments
begin

text \<open>
  Corrections of the record: the requester (\<open>correctTicketRequester\<close>, for a requester who has an
  account), the assignee (\<open>correctTicketAssignee\<close>), the resolution time (\<open>overrideResolutionTime\<close>,
  which appends evidence and never changes \<open>resolvedAt\<close>); the client's rating
  (\<open>submitSatisfaction\<close>) and \<open>markTicketViewed\<close>.  The unit snapshot of a corrected requester and the
  stored CSAT form text are not modelled.
\<close>

definition isTicketRequesterCorrection :: "capability_cache \<Rightarrow> user_role \<Rightarrow> bool" where
  "isTicketRequesterCorrection caps = has_capability caps CapRequesterCorrection"

definition isTicketResolutionTimeOverride :: "capability_cache \<Rightarrow> user_role \<Rightarrow> bool" where
  "isTicketResolutionTimeOverride caps = has_capability caps CapResolutionTimeOverride"

section \<open>The requester\<close>

record requester_dto =
  rq_requesterId :: "nat option"
  rq_expectedUpdatedAt :: iso_date

definition shares_unit :: "account \<Rightarrow> account \<Rightarrow> bool" where
  "shares_unit actor requester =
     (case acc_units actor of [] \<Rightarrow> False | u # _ \<Rightarrow> u \<noteq> 0 \<and> u \<in> set (acc_units requester))"

definition assertProxyRequesterAllowed ::
  "env \<Rightarrow> nat \<Rightarrow> user_role option \<Rightarrow> account \<Rightarrow> http_error option" where
  "assertProxyRequesterAllowed env actor role requester =
     (if acc_id requester = actor \<or> role \<noteq> Some USER then None
      else (case env_getUserById env actor of
          None \<Rightarrow> Some (BadRequest (Correction ProxyUnverified))
        | Some a \<Rightarrow> if shares_unit a requester then None else Some (Forbidden (Correction ProxyOtherUnit))))"

definition requester_checks :: "env \<Rightarrow> requester_dto \<Rightarrow> nat \<Rightarrow> user_role \<Rightarrow> account result" where
  "requester_checks env dto actor role =
     (if \<not> isTicketRequesterCorrection (env_caps env) role then Inl (Forbidden (Correction CorrectionCapability))
      else if \<not> truthy (rq_requesterId dto) then Inl (BadRequest (Correction CorrectionRequester))
      else (case env_getUserById env (number (rq_requesterId dto)) of
          None \<Rightarrow> Inl (BadRequest (Correction CorrectionRequester))
        | Some u \<Rightarrow>
            guarded (first_error [
              (\<not> acc_active u, BadRequest (Correction CorrectionRequester)),
              (acc_role u = SUPER_ADMIN, BadRequest (Correction CorrectionSuperAdmin))])
           (guarded (assertProxyRequesterAllowed env actor (Some role) u) (Inr u))))"

definition correctable :: "ticket_status \<Rightarrow> bool" where
  "correctable s \<longleftrightarrow> s \<in> {ASSIGNED, IN_PROGRESS, RESOLVED}"

definition requester_guard ::
  "env \<Rightarrow> db \<Rightarrow> ticket \<Rightarrow> requester_dto \<Rightarrow> account \<Rightarrow> nat \<Rightarrow> user_role \<Rightarrow> http_error option" where
  "requester_guard env db t dto requester actor role =
     (case first_error [
        (date_parse (rq_expectedUpdatedAt dto) \<noteq> Some (updatedAt t), Conflict (Correction CorrectionChanged)),
        (\<not> correctable (status t), BadRequest (Correction CorrectionStatus)),
        (requesterId t = acc_id requester, BadRequest (Correction CorrectionSame))] of
        Some e \<Rightarrow> Some e
      | None \<Rightarrow>
     (case assertTicketReadAccess env db t (Some actor) (Some role) of
        Some e \<Rightarrow> Some e
      | None \<Rightarrow>
          if truthy (assignedToId t)
          then assertRequesterAssignmentSeparation (ticketType t) (number (assignedToId t))
                 (Some (acc_id requester)) None
          else None))"

definition with_requester :: "nat \<Rightarrow> ticket \<Rightarrow> ticket" where
  "with_requester n t = t\<lparr>requesterId := n\<rparr>"

text \<open>The view at the end is read after the commit; an actor who no longer may see the ticket gets an
  error although the correction is stored.\<close>

definition correctTicketRequester ::
  "env \<Rightarrow> nat \<Rightarrow> requester_dto \<Rightarrow> nat \<Rightarrow> user_role \<Rightarrow> db \<Rightarrow> ticket_view result \<times> db" where
  "correctTicketRequester env n dto actor role db =
     (case requester_checks env dto actor role of
        Inl e \<Rightarrow> (Inl e, db)
      | Inr requester \<Rightarrow>
     (case find_ticket db n of
        None \<Rightarrow> (Inl (NotFound (Assign TicketNotFound)), db)
      | Some row \<Rightarrow>
     (case requester_guard env db (without_relations row) dto requester actor role of
        Some e \<Rightarrow> (Inl e, db)
      | None \<Rightarrow>
          let db' = logEvent env n ''requester_corrected'' (Some actor) None None None
                (save_ticket env (with_requester (number (rq_requesterId dto)) (without_relations row)) db)
          in (getTicketById env db' n (Some role) (Some actor), db'))))"

section \<open>The assignee\<close>

record assignee_dto =
  as_assignedToId :: nat
  as_expectedUpdatedAt :: iso_date

definition assignee_option :: "capability_cache \<Rightarrow> ticket \<Rightarrow> account \<Rightarrow> bool" where
  "assignee_option caps t u \<longleftrightarrow> acc_active u \<and> isDirectAssignableRictmsStaff (acc_role u)
     \<and> (ticketType t \<noteq> SPECIALIZED_CONCERNS \<or> isSpecializedSupport caps (acc_role u))
     \<and> (ticketType t = SPECIALIZED_CONCERNS \<or> acc_id u \<noteq> requesterId t)"

text \<open>The accounts offered for a correction (the source sorts them by name).\<close>

definition getAssigneeCorrectionOptions :: "env \<Rightarrow> db \<Rightarrow> nat \<Rightarrow> account list result" where
  "getAssigneeCorrectionOptions env db n =
     (case find_ticket db n of
        None \<Rightarrow> Inl (NotFound (Assign TicketNotFound))
      | Some t \<Rightarrow> Inr (filter (assignee_option (env_caps env) t) (db_users db)))"

definition own_ticket :: "ticket \<Rightarrow> nat \<Rightarrow> bool" where
  "own_ticket t actor \<longleftrightarrow> ticketType t \<noteq> SPECIALIZED_CONCERNS
     \<and> (actor = requesterId t \<or> actor = number (createdById t))"

definition assignee_authorized :: "env \<Rightarrow> ticket \<Rightarrow> nat \<Rightarrow> nat \<Rightarrow> account result" where
  "assignee_authorized env t user actor =
     (if own_ticket t actor then Inl (Forbidden (Correction CorrectionOwn))
      else (case env_getUserById env user of
          None \<Rightarrow> Inl (BadRequest (Correction CorrectionStaff))
        | Some u \<Rightarrow>
            guarded (first_error [(\<not> acc_active u \<or> \<not> isDirectAssignableRictmsStaff (acc_role u),
               BadRequest (Correction CorrectionStaff))])
           (guarded (assertSpecializedAssigneeEligibility (env_caps env) (ticketType t) (Some u)) (Inr u))))"

definition assignee_guard :: "ticket \<Rightarrow> assignee_dto \<Rightarrow> nat \<Rightarrow> http_error option" where
  "assignee_guard t dto actor = first_error [
     (date_parse (as_expectedUpdatedAt dto) \<noteq> Some (updatedAt t), Conflict (Correction CorrectionChanged)),
     (\<not> correctable (status t), BadRequest (Correction CorrectionStatus)),
     (\<not> truthy (assignedToId t), BadRequest (Correction CorrectionUnassigned)),
     (own_ticket t actor, Forbidden (Correction CorrectionOwn)),
     (number (assignedToId t) = as_assignedToId dto, BadRequest (Correction CorrectionSame)),
     (ticketType t \<noteq> SPECIALIZED_CONCERNS \<and> as_assignedToId dto = requesterId t,
      Forbidden (Access AssigneeIsRequester))]"

definition with_assignee :: "nat \<Rightarrow> ticket \<Rightarrow> ticket" where
  "with_assignee user t = t\<lparr>assignedToId := Some user\<rparr>"

definition active_correction :: "ticket \<Rightarrow> bool" where
  "active_correction t \<longleftrightarrow> status t \<in> {ASSIGNED, IN_PROGRESS}"

definition queued_correction :: "env \<Rightarrow> ticket \<Rightarrow> ticket" where
  "queued_correction env t =
     (let t = t\<lparr>status := ASSIGNED, isSlaWaiting := True\<rparr>
      in if slaStartedAt t \<noteq> None \<and> slaPausedAt t = None then t\<lparr>slaPausedAt := Some (env_now env)\<rparr> else t)"

text \<open>The clock of a ticket that was stopped by the work schedule stays stopped.\<close>

definition started_correction :: "env \<Rightarrow> db \<Rightarrow> bool \<Rightarrow> ticket \<Rightarrow> ticket result" where
  "started_correction env db wasSchedulePaused t =
     (let t = t\<lparr>status := IN_PROGRESS, isSlaWaiting := False\<rparr>
      in if slaStartedAt t = None
         then (let t = t\<lparr>slaStartedAt := Some (env_now env), accumulatedPauseSeconds := 0, slaPausedAt := None\<rparr>
               in and_then (calculateTicketSlaDeadline env db t (env_now env))
                    (\<lambda>d. Inr (t\<lparr>slaDeadline := d\<rparr>)))
         else Inr (t\<lparr>slaPausedAt := (if wasSchedulePaused then slaPausedAt t else None)\<rparr>))"

definition corrected_ticket :: "env \<Rightarrow> db \<Rightarrow> ticket \<Rightarrow> nat \<Rightarrow> ticket result" where
  "corrected_ticket env db t user =
     (if \<not> active_correction t then Inr (with_assignee user t)
      else (let t' = (with_assignee user t)\<lparr>lastAssignedAt := Some (env_now env)\<rparr>
            in if busy_count db user = 0 \<and> \<not> isSlaWaiting t
               then started_correction env db (slaPausedAt t \<noteq> None \<and> \<not> isSlaWaiting t) t'
               else Inr (queued_correction env t')))"

text \<open>A free assignee's waiting ticket is promoted, and so is the next ticket of a previous owner who
  has nothing left to do.\<close>

definition promote_if :: "env \<Rightarrow> bool \<Rightarrow> nat \<Rightarrow> db \<Rightarrow> unit result \<times> db" where
  "promote_if env c tech db =
     (if c then (case unpauseNextWaitingTicketAndSetInProgress env tech db of
          (Inl e, db') \<Rightarrow> (Inl e, db') | (Inr _, db') \<Rightarrow> (Inr (), db'))
      else (Inr (), db))"

definition promote_after_correction :: "env \<Rightarrow> db \<Rightarrow> ticket \<Rightarrow> nat \<Rightarrow> db \<Rightarrow> unit result \<times> db" where
  "promote_after_correction env db t user db1 =
     (case promote_if env (active_correction t \<and> busy_count db user = 0 \<and> isSlaWaiting t) user db1 of
        (Inl e, db2) \<Rightarrow> (Inl e, db2)
      | (Inr _, db2) \<Rightarrow>
          if active_correction t then release_previous env (assignedToId t) db2 else (Inr (), db2))"

definition locked_assignee_checks ::
  "env \<Rightarrow> db \<Rightarrow> ticket \<Rightarrow> assignee_dto \<Rightarrow> nat \<Rightarrow> ticket result" where
  "locked_assignee_checks env db t dto actor =
     and_then (assignee_authorized env t (as_assignedToId dto) actor) (\<lambda>_.
       guarded (assignee_guard t dto actor) (corrected_ticket env db t (as_assignedToId dto)))"

definition correctTicketAssignee ::
  "env \<Rightarrow> nat \<Rightarrow> assignee_dto \<Rightarrow> nat \<Rightarrow> user_role \<Rightarrow> db \<Rightarrow> ticket_view result \<times> db" where
  "correctTicketAssignee env n dto actor role db =
     (if \<not> isTicketRequesterCorrection (env_caps env) role
      then (Inl (Forbidden (Correction CorrectionCapability)), db)
      else
     (case find_ticket db n of
        None \<Rightarrow> (Inl (NotFound (Assign TicketNotFound)), db)
      | Some row \<Rightarrow>
     (case locked_assignee_checks env db (without_relations row) dto actor of
        Inl e \<Rightarrow> (Inl e, db)
      | Inr t' \<Rightarrow>
     (case promote_after_correction env db (without_relations row) (as_assignedToId dto) (save_ticket env t' db) of
        (Inl e, db') \<Rightarrow> (Inl e, db')
      | (Inr _, db') \<Rightarrow>
          let db'' = logEvent env n ''assignee_corrected'' (Some actor) None None None db'
          in (getTicketById env db'' n (Some role) (Some actor), db'')))))"

section \<open>The resolution time\<close>

record override_dto =
  od_verifiedResolvedAt :: iso_date
  od_reason :: "string option"

definition override_reason :: "override_dto \<Rightarrow> string" where
  "override_reason dto = trim (case od_reason dto of Some s \<Rightarrow> s | None \<Rightarrow> [])"

definition earliestValidResolution :: "ticket \<Rightarrow> date" where
  "earliestValidResolution t = (case slaStartedAt t of Some d \<Rightarrow> d | None \<Rightarrow> createdAt t)"

definition override_time_guard :: "env \<Rightarrow> ticket \<Rightarrow> date \<Rightarrow> date \<Rightarrow> http_error option" where
  "override_time_guard env t recorded verified = first_error [
     (verified < earliestValidResolution t, BadRequest (Correction OverrideBeforeStart)),
     (recorded < verified, BadRequest (Correction OverrideAfterRecorded)),
     (env_now env < verified, BadRequest (Correction OverrideFuture))]"

definition override_checks :: "env \<Rightarrow> ticket \<Rightarrow> override_dto \<Rightarrow> upload list \<Rightarrow> (date \<times> date) result" where
  "override_checks env t dto proofs =
     (if status t \<notin> {RESOLVED, CLOSED} then Inl (BadRequest (Correction OverrideStatus))
      else (case resolvedAt t of
          None \<Rightarrow> Inl (BadRequest (Correction OverrideUnrecorded))
        | Some recorded \<Rightarrow>
            guarded (first_error [
              (length (override_reason dto) < 10, BadRequest (Correction OverrideReasonShort)),
              (proofs = [], BadRequest (Correction OverrideProofRequired))])
           (guarded (validate_images proofs)
             (case date_parse (od_verifiedResolvedAt dto) of
                None \<Rightarrow> Inl (BadRequest (Correction OverrideDateInvalid))
              | Some verified \<Rightarrow> guarded (override_time_guard env t recorded verified) (Inr (recorded, verified))))))"

definition new_override ::
  "env \<Rightarrow> nat \<Rightarrow> ticket \<Rightarrow> date \<Rightarrow> date \<Rightarrow> override_dto \<Rightarrow> (string \<times> upload) list \<Rightarrow> nat \<Rightarrow> resolution_override" where
  "new_override env n t recorded verified dto proofs actor =
     \<lparr>ovr_ticketId = n, recordedResolvedAt = recorded,
      previousEffectiveResolvedAt = getEffectiveResolvedAt t, verifiedResolvedAt = verified,
      ovr_reason = override_reason dto,
      ovr_proofFiles = stored_paths (''resolution-time-overrides/'' @ env_idText env n) proofs,
      ovr_createdById = actor\<rparr>"

definition save_override :: "resolution_override \<Rightarrow> db \<Rightarrow> db" where
  "save_override r db = db\<lparr>db_overrides := db_overrides db @ [r]\<rparr>"

definition with_override :: "date \<Rightarrow> ticket \<Rightarrow> ticket" where
  "with_override d t = t\<lparr>resolutionTimeOverride := Some d\<rparr>"

definition commit_override :: "env \<Rightarrow> nat \<Rightarrow> resolution_override \<Rightarrow> nat \<Rightarrow> db \<Rightarrow> db" where
  "commit_override env n r actor db =
     logEvent env n ''resolution_time_overridden'' (Some actor) None None None
       (update_ticket_columns env n (with_override (verifiedResolvedAt r)) (save_override r db))"

definition overrideResolutionTime ::
  "env \<Rightarrow> nat \<Rightarrow> override_dto \<Rightarrow> (string \<times> upload) list \<Rightarrow> nat \<Rightarrow> user_role \<Rightarrow> db \<Rightarrow> ticket_view result \<times> db" where
  "overrideResolutionTime env n dto proofs actor role db =
     (if \<not> isTicketResolutionTimeOverride (env_caps env) role
      then (Inl (Forbidden (Correction OverrideCapability)), db)
      else
     (case getTicketById env db n (Some role) (Some actor) of
        Inl e \<Rightarrow> (Inl e, db)
      | Inr v \<Rightarrow>
     (case override_checks env (view_ticket v) dto (map snd proofs) of
        Inl e \<Rightarrow> (Inl e, db)
      | Inr (recorded, verified) \<Rightarrow>
          let db' = commit_override env n
                (new_override env n (view_ticket v) recorded verified dto proofs actor) actor db
          in (getTicketById env db' n (Some role) (Some actor), db'))))"

section \<open>The rating\<close>

record csat_form =
  consentGiven :: bool
  unitSection :: string
  dateOfTransaction :: string
  clientFirstName :: string
  clientLastName :: string
  csat_sex :: string
  contactNumber :: string
  csat_age :: "rat option"
  technicianName :: string
  csat_likert :: "likert list"

record satisfaction_dto =
  sat_rating :: "rat option"
  sat_comment :: "string option"
  sat_form :: "csat_form option"

definition digit :: "char \<Rightarrow> bool" where
  "digit c \<longleftrightarrow> (let k = of_char c :: nat in 48 \<le> k \<and> k \<le> 57)"

fun likert_valid :: "likert \<Rightarrow> bool" where
  "likert_valid (Number_answer v) \<longleftrightarrow> v \<in> {1, 2, 3, 4, 5}"
| "likert_valid (Text_answer s) \<longleftrightarrow> s = ''NA''"

definition is_integer :: "rat \<Rightarrow> bool" where
  "is_integer r \<longleftrightarrow> of_int \<lfloor>r\<rfloor> = r"

definition form_guard :: "csat_form \<Rightarrow> http_error option" where
  "form_guard f = first_error [
     (\<not> consentGiven f, BadRequest (Rating RatingConsent)),
     (trim (unitSection f) = [] \<or> trim (dateOfTransaction f) = [] \<or> trim (clientFirstName f) = []
        \<or> trim (clientLastName f) = [] \<or> csat_sex f = [], BadRequest (Rating RatingField)),
     (\<not> (length (contactNumber f) = 10 \<and> list_all digit (contactNumber f)), BadRequest (Rating RatingContact)),
     ((case csat_age f of Some a \<Rightarrow> \<not> is_integer a \<or> a < 0 \<or> 120 < a | None \<Rightarrow> False),
      BadRequest (Rating RatingAge)),
     (trim (technicianName f) = [], BadRequest (Rating RatingField)),
     (length (csat_likert f) \<noteq> 9, BadRequest (Rating RatingLikertCount)),
     (\<not> list_all likert_valid (csat_likert f), BadRequest (Rating RatingLikertValue))]"

definition satisfaction_guard :: "ticket \<Rightarrow> nat \<Rightarrow> http_error option" where
  "satisfaction_guard t requester = first_error [
     (requesterId t \<noteq> requester, Forbidden (Rating RatingRequesterOnly)),
     (status t \<notin> {RESOLVED, CLOSED}, BadRequest (Rating RatingStatus)),
     (satisfactionSubmittedAt t \<noteq> None, BadRequest (Rating RatingSubmitted))]"

text \<open>The rating and the comment that are stored.\<close>

definition satisfaction_values :: "satisfaction_dto \<Rightarrow> (rat option \<times> string option) result" where
  "satisfaction_values dto =
     (case sat_form dto of
        Some f \<Rightarrow> guarded (form_guard f) (Inr (deriveSatisfactionRating (csat_likert f), None))
      | None \<Rightarrow>
          let rating = (case sat_rating dto of Some r \<Rightarrow> r | None \<Rightarrow> 0)
          in guarded (first_error [(rating < 1 \<or> 5 < rating, BadRequest (Rating RatingRange))])
               (Inr (Some (roundRating rating), sat_comment dto)))"

definition rated :: "env \<Rightarrow> rat option \<Rightarrow> string option \<Rightarrow> ticket \<Rightarrow> ticket" where
  "rated env rating remark t = t\<lparr>satisfactionRating := rating, satisfactionComment := remark,
     satisfactionSubmittedAt := Some (env_now env), status := CLOSED\<rparr>"

definition submitSatisfaction :: "env \<Rightarrow> nat \<Rightarrow> satisfaction_dto \<Rightarrow> nat \<Rightarrow> db \<Rightarrow> ticket result \<times> db" where
  "submitSatisfaction env n dto requester db =
     (case find_ticket db n of
        None \<Rightarrow> (Inl (NotFound (Assign TicketNotFound)), db)
      | Some row \<Rightarrow>
          let t = enrich db (without_relations row)
          in (case guarded (satisfaction_guard t requester) (satisfaction_values dto) of
                Inl e \<Rightarrow> (Inl e, db)
              | Inr (rating, remark) \<Rightarrow>
                  let t' = rated env rating remark t
                  in (Inr (stamp env t'), logEvent env n ''rated'' (Some requester) None None None
                       (logEvent env n ''closed'' (Some requester) None None None (save_ticket env t' db)))))"

section \<open>Opening a ticket\<close>

definition seen_by_user :: "ticket \<Rightarrow> ticket" where
  "seen_by_user t = t\<lparr>hasUnreadUser := False\<rparr>"

definition seen_by_staff :: "ticket \<Rightarrow> ticket" where
  "seen_by_staff t = t\<lparr>hasUnreadTechnician := False\<rparr>"

definition opened_by_assignee :: "env \<Rightarrow> db \<Rightarrow> ticket \<Rightarrow> ticket result" where
  "opened_by_assignee env db t =
     (let t = t\<lparr>status := IN_PROGRESS, isSlaWaiting := False, slaPausedAt := None,
            slaStartedAt := Some (env_now env), accumulatedPauseSeconds := 0\<rparr>
      in and_then (calculateTicketSlaDeadline env db t (env_now env)) (\<lambda>d. Inr (t\<lparr>slaDeadline := d\<rparr>)))"

definition starts_on_view :: "ticket \<Rightarrow> nat \<Rightarrow> bool" where
  "starts_on_view t viewer \<longleftrightarrow> status t = ASSIGNED \<and> assignedToId t = Some viewer \<and> \<not> isSlaWaiting t
     \<and> priority t \<noteq> None"

text \<open>The ticket that is started was read before its unread flag was cleared, and is saved whole.\<close>

definition markTicketViewed :: "env \<Rightarrow> nat \<Rightarrow> nat \<Rightarrow> user_role \<Rightarrow> db \<Rightarrow> ticket option result \<times> db" where
  "markTicketViewed env n viewer role db =
     (case getTicketById env db n (Some role) (Some viewer) of
        Inl e \<Rightarrow> (Inl e, db)
      | Inr v \<Rightarrow>
          let t = view_ticket v;
              db1 = update_ticket_columns env n (if role = USER then seen_by_user else seen_by_staff) db
          in if \<not> starts_on_view t viewer then (Inr None, db1)
             else (case opened_by_assignee env db1 t of
                 Inl e \<Rightarrow> (Inl e, db1)
               | Inr t' \<Rightarrow> (Inr (Some (stamp env t')),
                   logEvent env n ''status_changed'' (Some viewer) (Some ASSIGNED) (Some IN_PROGRESS) None
                     (save_ticket env t' db1))))"

end
