(* ===== verification/CorrectionFacts.thy ===== *)
theory CorrectionFacts
  imports Corrections
begin

text \<open>
  What the corrections, the rating and the opening of a ticket store, and that they keep the tables
  well-formed.
\<close>

section \<open>Frames\<close>

lemma with_requester_fields [simp]:
  "ticket_wf (with_requester n t) = ticket_wf t" "ticket_id (with_requester n t) = ticket_id t"
  "requesterId (with_requester n t) = n"
  by (simp_all add: with_requester_def ticket_wf_def)

lemma with_assignee_fields [simp]:
  "ticket_wf (with_assignee n t) = ticket_wf t" "ticket_id (with_assignee n t) = ticket_id t"
  "assignedToId (with_assignee n t) = Some n" "status (with_assignee n t) = status t"
  "slaPausedAt (with_assignee n t) = slaPausedAt t" "slaStartedAt (with_assignee n t) = slaStartedAt t"
  "accumulatedPauseSeconds (with_assignee n t) = accumulatedPauseSeconds t"
  by (simp_all add: with_assignee_def ticket_wf_def)

lemma with_override_fields [simp]:
  "ticket_wf (with_override d t) = ticket_wf t" "ticket_id (with_override d t) = ticket_id t"
  "resolvedAt (with_override d t) = resolvedAt t" "status (with_override d t) = status t"
  "resolutionTimeOverride (with_override d t) = Some d"
  by (simp_all add: with_override_def ticket_wf_def)

lemma seen_fields [simp]:
  "ticket_wf (seen_by_user t) = ticket_wf t" "ticket_wf (seen_by_staff t) = ticket_wf t"
  by (simp_all add: seen_by_user_def seen_by_staff_def ticket_wf_def)

lemma rated_fields [simp]:
  "ticket_id (rated env r c t) = ticket_id t" "status (rated env r c t) = CLOSED"
  "satisfactionRating (rated env r c t) = r" "satisfactionSubmittedAt (rated env r c t) = Some (env_now env)"
  "satisfactionComment (rated env r c t) = c" "assignedToId (rated env r c t) = assignedToId t"
  by (simp_all add: rated_def)

lemma rated_wf: "ticket_wf t \<Longrightarrow> status t \<in> {RESOLVED, CLOSED} \<Longrightarrow> ticket_wf (rated env r c t)"
  by (auto simp: rated_def ticket_wf_def)

lemma save_override_frame [simp]:
  "db_wf (save_override r db) = db_wf db" "find_ticket (save_override r db) n = find_ticket db n"
  by (simp_all add: db_wf_def db_ok_def save_override_def find_ticket_def)

section \<open>The requester\<close>

lemma correctTicketRequester_cases:
  assumes "correctTicketRequester env n dto actor role db = (r, db')"
  obtains (refused) e where "r = Inl e" "db' = db"
  | (corrected) requester row where "requester_checks env dto actor role = Inr requester"
      "find_ticket db n = Some row"
      "requester_guard env db (without_relations row) dto requester actor role = None"
      "r = getTicketById env db' n (Some role) (Some actor)"
      "db' = logEvent env n ''requester_corrected'' (Some actor) None None None
         (save_ticket env (with_requester (number (rq_requesterId dto)) (without_relations row)) db)"
proof (cases "requester_checks env dto actor role")
  case (Inl e)
  with assms show ?thesis by (intro refused [of e]) (auto simp: correctTicketRequester_def)
next
  case c: (Inr requester)
  show ?thesis
  proof (cases "find_ticket db n")
    case None
    with assms c show ?thesis by (intro refused) (auto simp: correctTicketRequester_def)
  next
    case row: (Some row)
    show ?thesis
    proof (cases "requester_guard env db (without_relations row) dto requester actor role")
      case (Some e)
      with assms c row show ?thesis by (intro refused [of e]) (auto simp: correctTicketRequester_def)
    next
      case None
      with assms c row show ?thesis
        by (intro corrected [OF c row None]) (auto simp: correctTicketRequester_def Let_def)
    qed
  qed
qed

lemma correctTicketRequester_wf:
  assumes "db_wf db"
  shows "db_wf (snd (correctTicketRequester env n dto actor role db))"
proof -
  obtain r db' where c: "correctTicketRequester env n dto actor role db = (r, db')" by fastforce
  then show ?thesis
  proof (cases rule: correctTicketRequester_cases)
    case (corrected requester row)
    with c assms db_wf_find [OF assms corrected(2)] show ?thesis
      by (simp add: wf_simps without_relations_wf)
  qed (simp add: c assms)
qed

lemma requester_checks_Inr:
  assumes "requester_checks env dto actor role = Inr u"
  shows "isTicketRequesterCorrection (env_caps env) role" "env_getUserById env (number (rq_requesterId dto)) = Some u"
    "acc_active u" "acc_role u \<noteq> SUPER_ADMIN"
  using assms by (auto simp: requester_checks_def guarded_Inr_iff split: if_splits option.splits)

lemma requester_guard_None:
  assumes "requester_guard env db t dto u actor role = None"
  shows "date_parse (rq_expectedUpdatedAt dto) = Some (updatedAt t)" "status t \<in> {ASSIGNED, IN_PROGRESS, RESOLVED}"
    "requesterId t \<noteq> acc_id u"
    "ticketType t \<noteq> SPECIALIZED_CONCERNS \<Longrightarrow> assignedToId t \<noteq> Some (acc_id u) \<or> acc_id u = 0"
  using assms
  by (auto simp: requester_guard_def correctable_def assertRequesterAssignmentSeparation_def
      split: if_splits option.splits)

section \<open>The assignee\<close>

lemma queued_correction_fields [simp]:
  "status (queued_correction env t) = ASSIGNED" "isSlaWaiting (queued_correction env t)"
  "ticket_id (queued_correction env t) = ticket_id t" "assignedToId (queued_correction env t) = assignedToId t"
  "accumulatedPauseSeconds (queued_correction env t) = accumulatedPauseSeconds t"
  "resolvedAt (queued_correction env t) = resolvedAt t"
  by (simp_all add: queued_correction_def Let_def)

lemma started_correction_ok:
  "ensures (\<lambda>t'. status t' = IN_PROGRESS \<and> \<not> isSlaWaiting t' \<and> slaStartedAt t' \<noteq> None
     \<and> ticket_id t' = ticket_id t \<and> assignedToId t' = assignedToId t
     \<and> accumulatedPauseSeconds t' \<in> {0, accumulatedPauseSeconds t}) (started_correction env db p t)"
  by (auto simp: started_correction_def Let_def ensures_simps)

lemma corrected_ticket_ok:
  assumes "corrected_ticket env db t user = Inr t'" "ticket_wf t"
  shows "ticket_wf t'" "ticket_id t' = ticket_id t" "assignedToId t' = Some user"
    "status t = RESOLVED \<Longrightarrow> t' = with_assignee user t"
proof -
  let ?t = "(with_assignee user t)\<lparr>lastAssignedAt := Some (env_now env)\<rparr>"
  have nn: "0 \<le> accumulatedPauseSeconds t" using assms(2) unfolding ticket_wf_def by (elim conjE)
  have "ticket_wf t' \<and> ticket_id t' = ticket_id t \<and> assignedToId t' = Some user
    \<and> (status t = RESOLVED \<longrightarrow> t' = with_assignee user t)"
  proof (cases "active_correction t")
    case False
    with assms show ?thesis by (auto simp: corrected_ticket_def)
  next
    case act: True
    show ?thesis
    proof (cases "busy_count db user = 0 \<and> \<not> isSlaWaiting t")
      case True
      with act assms(1) have
        "started_correction env db (slaPausedAt t \<noteq> None \<and> \<not> isSlaWaiting t) ?t = Inr t'"
        by (simp add: corrected_ticket_def Let_def)
      from ensuresD [OF started_correction_ok this] nn act show ?thesis
        by (auto simp: ticket_wf_def active_correction_def)
    next
      case False
      with act assms(1) have t': "t' = queued_correction env ?t"
        by (simp add: corrected_ticket_def Let_def del: queued_correction_fields)
      from act nn show ?thesis unfolding t' by (auto simp: ticket_wf_def active_correction_def)
    qed
  qed
  then show "ticket_wf t'" "ticket_id t' = ticket_id t" "assignedToId t' = Some user"
    "status t = RESOLVED \<Longrightarrow> t' = with_assignee user t" by simp_all
qed

lemma promote_if_cases:
  obtains "snd (promote_if env c tech db) = db"
  | "snd (promote_if env c tech db) = snd (unpauseNextWaitingTicketAndSetInProgress env tech db)"
proof (cases c)
  case True
  then have "snd (promote_if env c tech db) = snd (unpauseNextWaitingTicketAndSetInProgress env tech db)"
    by (simp add: promote_if_def split: prod.split sum.split)
  with that show ?thesis by blast
qed (simp add: that promote_if_def)

lemma promote_if_wf: "db_wf db \<Longrightarrow> db_wf (snd (promote_if env c tech db))"
  by (cases rule: promote_if_cases [of env c tech db]) (simp_all add: promotion_wf)

lemma promote_after_correction_wf:
  assumes "db_wf db1"
  shows "db_wf (snd (promote_after_correction env db t user db1))"
  using promote_if_wf [OF assms, of env "active_correction t \<and> busy_count db user = 0 \<and> isSlaWaiting t" user]
  by (cases "promote_if env (active_correction t \<and> busy_count db user = 0 \<and> isSlaWaiting t) user db1")
    (auto simp: promote_after_correction_def release_previous_wf split: sum.split)

lemma locked_assignee_checks_Inr:
  assumes "locked_assignee_checks env db t dto actor = Inr t'"
  shows "corrected_ticket env db t (as_assignedToId dto) = Inr t'" "assignee_guard t dto actor = None"
    "\<exists>u. assignee_authorized env t (as_assignedToId dto) actor = Inr u"
  using assms unfolding locked_assignee_checks_def and_then_Inr_iff guarded_Inr_iff by blast+

lemma correctTicketAssignee_cases:
  assumes "correctTicketAssignee env n dto actor role db = (r, db')"
  obtains (refused) e where "r = Inl e" "db' = db"
  | (failed) e row t' where "isTicketRequesterCorrection (env_caps env) role" "find_ticket db n = Some row"
      "locked_assignee_checks env db (without_relations row) dto actor = Inr t'" "r = Inl e"
      "db' = snd (promote_after_correction env db (without_relations row) (as_assignedToId dto) (save_ticket env t' db))"
  | (corrected) row t' where "isTicketRequesterCorrection (env_caps env) role" "find_ticket db n = Some row"
      "locked_assignee_checks env db (without_relations row) dto actor = Inr t'"
      "r = getTicketById env db' n (Some role) (Some actor)"
      "db' = logEvent env n ''assignee_corrected'' (Some actor) None None None
         (snd (promote_after_correction env db (without_relations row) (as_assignedToId dto) (save_ticket env t' db)))"
proof (cases "isTicketRequesterCorrection (env_caps env) role")
  case False
  with assms show ?thesis by (intro refused) (auto simp: correctTicketAssignee_def)
next
  case cap: True
  show ?thesis
  proof (cases "find_ticket db n")
    case None
    with assms cap show ?thesis by (intro refused) (auto simp: correctTicketAssignee_def)
  next
    case row: (Some row)
    show ?thesis
    proof (cases "locked_assignee_checks env db (without_relations row) dto actor")
      case (Inl e)
      with assms cap row show ?thesis by (intro refused [of e]) (auto simp: correctTicketAssignee_def)
    next
      case t': (Inr t')
      obtain q d where p: "promote_after_correction env db (without_relations row) (as_assignedToId dto)
          (save_ticket env t' db) = (q, d)" by fastforce
      show ?thesis
      proof (cases q)
        case (Inl e)
        with assms cap row t' p show ?thesis
          by (intro failed [OF cap row t', of e]) (auto simp: correctTicketAssignee_def)
      next
        case (Inr u)
        with assms cap row t' p show ?thesis
          by (intro corrected [OF cap row t']) (auto simp: correctTicketAssignee_def Let_def)
      qed
    qed
  qed
qed

lemma correctTicketAssignee_wf:
  assumes "db_wf db"
  shows "db_wf (snd (correctTicketAssignee env n dto actor role db))"
proof -
  obtain r db' where c: "correctTicketAssignee env n dto actor role db = (r, db')" by fastforce
  have *: "db_wf (save_ticket env t' db)" if "find_ticket db n = Some row"
    "locked_assignee_checks env db (without_relations row) dto actor = Inr t'" for row t'
    using corrected_ticket_ok(1) [OF locked_assignee_checks_Inr(1) [OF that(2)]] db_wf_find [OF assms that(1)] assms
    by (simp add: without_relations_wf wf_simps)
  from c show ?thesis
  proof (cases rule: correctTicketAssignee_cases)
    case (failed e row t')
    with c * show ?thesis by (simp add: promote_after_correction_wf)
  next
    case (corrected row t')
    with c * show ?thesis by (simp add: promote_after_correction_wf wf_simps)
  qed (simp add: c assms)
qed

section \<open>The resolution time\<close>

lemma override_checks_Inr:
  assumes "override_checks env t dto proofs = Inr (recorded, verified)"
  shows "status t \<in> {RESOLVED, CLOSED}" "resolvedAt t = Some recorded" "10 \<le> length (override_reason dto)"
    "proofs \<noteq> []" "\<forall>f \<in> set proofs. valid_image f" "date_parse (od_verifiedResolvedAt dto) = Some verified"
    "earliestValidResolution t \<le> verified" "verified \<le> recorded" "verified \<le> env_now env"
  using assms
  by (auto simp: override_checks_def guarded_Inr_iff override_time_guard_def validate_images_None
      split: if_splits option.splits)

lemma overrideResolutionTime_cases:
  assumes "overrideResolutionTime env n dto proofs actor role db = (r, db')"
  obtains (refused) e where "r = Inl e" "db' = db"
  | (overridden) v recorded verified where "isTicketResolutionTimeOverride (env_caps env) role"
      "getTicketById env db n (Some role) (Some actor) = Inr v"
      "override_checks env (view_ticket v) dto (map snd proofs) = Inr (recorded, verified)"
      "db' = commit_override env n (new_override env n (view_ticket v) recorded verified dto proofs actor) actor db"
proof (cases "isTicketResolutionTimeOverride (env_caps env) role")
  case False
  with assms show ?thesis by (intro refused) (auto simp: overrideResolutionTime_def)
next
  case cap: True
  show ?thesis
  proof (cases "getTicketById env db n (Some role) (Some actor)")
    case (Inl e)
    with assms cap show ?thesis by (intro refused [of e]) (auto simp: overrideResolutionTime_def)
  next
    case v: (Inr v)
    show ?thesis
    proof (cases "override_checks env (view_ticket v) dto (map snd proofs)")
      case (Inl e)
      with assms cap v show ?thesis by (intro refused [of e]) (auto simp: overrideResolutionTime_def)
    next
      case (Inr p)
      obtain a b where "p = (a, b)" by fastforce
      with assms cap v Inr show ?thesis
        by (intro overridden [OF cap v, of a b]) (auto simp: overrideResolutionTime_def Let_def)
    qed
  qed
qed

lemma overrideResolutionTime_wf:
  assumes "db_wf db"
  shows "db_wf (snd (overrideResolutionTime env n dto proofs actor role db))"
proof -
  obtain r db' where c: "overrideResolutionTime env n dto proofs actor role db = (r, db')" by fastforce
  then show ?thesis
  proof (cases rule: overrideResolutionTime_cases)
    case (overridden v a b)
    with c assms show ?thesis by (simp add: commit_override_def wf_simps)
  qed (simp add: c assms)
qed

lemma find_update_columns_same:
  assumes "find_ticket db n = Some row" "ticket_id (f row) = n"
  shows "find_ticket (update_ticket_columns env n f db) n = Some (stamp env (f row))"
  using find_save_ticket_same [of env "f row" db] assms by (simp add: update_ticket_columns_def)

text \<open>A correction keeps the recorded time, dates the verified time between the start of the work and the
  recorded resolution, and only appends to the evidence.\<close>

lemma overrideResolutionTime_stores:
  assumes "overrideResolutionTime env n dto proofs actor role db = (r, db')" "db_wf db" "db' \<noteq> db"
  shows "\<exists>row stored o'. find_ticket db n = Some row \<and> find_ticket db' n = Some stored
    \<and> status row \<in> {RESOLVED, CLOSED} \<and> status stored = status row \<and> resolvedAt stored = resolvedAt row
    \<and> db_overrides db' = db_overrides db @ [o'] \<and> recordedResolvedAt o' = the (resolvedAt row)
    \<and> resolutionTimeOverride stored = Some (verifiedResolvedAt o')
    \<and> earliestValidResolution row \<le> verifiedResolvedAt o' \<and> verifiedResolvedAt o' \<le> recordedResolvedAt o'
    \<and> verifiedResolvedAt o' \<le> env_now env \<and> 10 \<le> length (ovr_reason o') \<and> ovr_createdById o' = actor
    \<and> length (ovr_proofFiles o') = length proofs \<and> proofs \<noteq> []"
  using assms(1)
proof (cases rule: overrideResolutionTime_cases)
  case (overridden v recorded verified)
  obtain row d where row: "find_ticket db n = Some row"
    and v: "view_ticket v = enrich db (with_relations db row)\<lparr>slaDeadline := d\<rparr>"
    using view_wf [OF overridden(2) assms(2)] by metis
  let ?o = "new_override env n (view_ticket v) recorded verified dto proofs actor"
  have same: "status (view_ticket v) = status row" "resolvedAt (view_ticket v) = resolvedAt row"
    "slaStartedAt (view_ticket v) = slaStartedAt row" "createdAt (view_ticket v) = createdAt row"
    by (simp_all add: v enrich_def with_relations_def split: option.split)
  note ok = override_checks_Inr [OF overridden(3), unfolded same]
  have early: "earliestValidResolution (view_ticket v) = earliestValidResolution row"
    unfolding earliestValidResolution_def same ..
  have st: "find_ticket db' n = Some (stamp env (with_override verified row))"
    using find_update_columns_same [of "save_override ?o db" n row "with_override verified" env] row
      find_ticket_id [OF row]
    by (simp add: overridden(4) commit_override_def table_simps new_override_def)
  have hist: "db_overrides db' = db_overrides db @ [?o]"
    by (auto simp: overridden(4) commit_override_def logEvent_def update_ticket_columns_def save_ticket_def
        save_override_def split: option.split)
  have o_fields: "recordedResolvedAt ?o = recorded" "verifiedResolvedAt ?o = verified"
    "ovr_reason ?o = override_reason dto" "ovr_createdById ?o = actor"
    "length (ovr_proofFiles ?o) = length proofs"
    by (simp_all add: new_override_def stored_paths_def)
  have keep: "resolvedAt (stamp env (with_override verified row)) = resolvedAt row"
    "resolutionTimeOverride (stamp env (with_override verified row)) = Some verified"
    by (simp_all add: stamp_def)
  show ?thesis
    apply (rule exI [of _ row], rule exI [of _ "stamp env (with_override verified row)"], rule exI [of _ ?o])
    unfolding o_fields keep
    using row st hist ok early by (intro conjI) auto
qed (use assms(3) in simp)

section \<open>The rating\<close>

lemma satisfaction_values_bounds:
  assumes "satisfaction_values dto = Inr (Some r, c)"
  shows "1 \<le> r \<and> r \<le> 5"
proof (cases "sat_form dto")
  case (Some f)
  with assms show ?thesis
    by (auto simp: satisfaction_values_def guarded_Inr_iff dest: deriveSatisfactionRating_bounds)
next
  case None
  with assms show ?thesis
    by (auto simp: satisfaction_values_def guarded_Inr_iff Let_def intro: roundRating_bounds split: if_splits)
qed

lemma submitSatisfaction_cases:
  assumes "submitSatisfaction env n dto requester db = (r, db')"
  obtains (refused) e where "r = Inl e" "db' = db"
  | (rated) row rating remark where "find_ticket db n = Some row"
      "satisfaction_guard (enrich db (without_relations row)) requester = None"
      "satisfaction_values dto = Inr (rating, remark)"
      "r = Inr (stamp env (rated env rating remark (enrich db (without_relations row))))"
      "db' = logEvent env n ''rated'' (Some requester) None None None
         (logEvent env n ''closed'' (Some requester) None None None
            (save_ticket env (rated env rating remark (enrich db (without_relations row))) db))"
proof (cases "find_ticket db n")
  case None
  with assms show ?thesis by (intro refused) (auto simp: submitSatisfaction_def)
next
  case row: (Some row)
  show ?thesis
  proof (cases "guarded (satisfaction_guard (enrich db (without_relations row)) requester) (satisfaction_values dto)")
    case (Inl e)
    with assms row show ?thesis by (intro refused [of e]) (auto simp: submitSatisfaction_def Let_def)
  next
    case ok: (Inr p)
    obtain a b where p: "p = (a, b)" by fastforce
    with ok have "satisfaction_guard (enrich db (without_relations row)) requester = None"
      "satisfaction_values dto = Inr (a, b)" by (simp_all add: guarded_Inr_iff)
    with assms row p show ?thesis
      by (intro rated [OF row]) (auto simp: submitSatisfaction_def Let_def)
  qed
qed

lemma satisfaction_guard_None:
  assumes "satisfaction_guard t requester = None"
  shows "requesterId t = requester" "status t \<in> {RESOLVED, CLOSED}" "satisfactionSubmittedAt t = None"
  using assms by (auto simp: satisfaction_guard_def split: if_splits)

lemma submitSatisfaction_wf:
  assumes "db_wf db"
  shows "db_wf (snd (submitSatisfaction env n dto requester db))"
proof -
  obtain r db' where c: "submitSatisfaction env n dto requester db = (r, db')" by fastforce
  then show ?thesis
  proof (cases rule: submitSatisfaction_cases)
    case (rated row rating remark)
    have "ticket_wf (enrich db (without_relations row))"
      using db_wf_find [OF assms rated(1)] by (simp add: enrich_wf without_relations_wf)
    from rated_wf [OF this] satisfaction_guard_None(2) [OF rated(2)]
    show ?thesis using c rated(5) assms by (simp add: wf_simps)
  qed (simp add: c assms)
qed

text \<open>A rating is given once, by the requester, of a resolved ticket, between 1 and 5, and it closes the ticket.\<close>

lemma submitSatisfaction_stores:
  assumes "submitSatisfaction env n dto requester db = (Inr t, db')"
  shows "\<exists>row stored. find_ticket db n = Some row \<and> requesterId row = requester
    \<and> status row \<in> {RESOLVED, CLOSED} \<and> satisfactionSubmittedAt row = None
    \<and> find_ticket db' n = Some stored \<and> status stored = CLOSED
    \<and> satisfactionSubmittedAt stored = Some (env_now env)
    \<and> (case satisfactionRating stored of Some q \<Rightarrow> 1 \<le> q \<and> q \<le> 5 | None \<Rightarrow> True)"
  using assms
proof (cases rule: submitSatisfaction_cases)
  case (rated row rating remark)
  let ?t = "enrich db (without_relations row)"
  note g = satisfaction_guard_None [OF rated(2)]
  have same: "satisfactionSubmittedAt ?t = satisfactionSubmittedAt row" "ticket_id ?t = n"
    using find_ticket_id [OF rated(1)] by (simp_all add: enrich_def without_relations_def split: option.split)
  have st: "find_ticket db' n = Some (stamp env (Corrections.rated env rating remark ?t))"
    using find_save_ticket_same [of env "Corrections.rated env rating remark ?t" db] same
    by (simp add: rated(5) table_simps)
  have f: "satisfactionSubmittedAt (stamp env u) = satisfactionSubmittedAt u"
    "satisfactionRating (stamp env u) = satisfactionRating u" for u
    by (simp_all add: stamp_def)
  have b: "case rating of Some q \<Rightarrow> 1 \<le> q \<and> q \<le> 5 | None \<Rightarrow> True"
    using satisfaction_values_bounds rated(3) by (auto split: option.split)
  show ?thesis
    apply (rule exI [of _ row], rule exI [of _ "stamp env (Corrections.rated env rating remark ?t)"])
    using rated(1) g b st unfolding f same by (intro conjI) (simp_all add: without_relations_def)
qed simp

section \<open>Opening a ticket\<close>

lemma opened_by_assignee_ok:
  "ensures (\<lambda>t'. status t' = IN_PROGRESS \<and> \<not> isSlaWaiting t' \<and> slaStartedAt t' = Some (env_now env)
     \<and> ticket_id t' = ticket_id t \<and> accumulatedPauseSeconds t' = 0 \<and> hasUnreadTechnician t' = hasUnreadTechnician t
     \<and> assignedToId t' = assignedToId t)
   (opened_by_assignee env db t)"
  by (auto simp: opened_by_assignee_def Let_def ensures_simps)

lemma markTicketViewed_cases:
  assumes "markTicketViewed env n viewer role db = (r, db')"
  obtains (refused) e where "r = Inl e" "db' = db"
  | (seen) "fst (markTicketViewed env n viewer role db) = r"
      "db' = update_ticket_columns env n (if role = USER then seen_by_user else seen_by_staff) db"
  | (started) v t' where "getTicketById env db n (Some role) (Some viewer) = Inr v"
      "starts_on_view (view_ticket v) viewer"
      "opened_by_assignee env (update_ticket_columns env n (if role = USER then seen_by_user else seen_by_staff) db)
         (view_ticket v) = Inr t'"
      "r = Inr (Some (stamp env t'))"
      "db' = logEvent env n ''status_changed'' (Some viewer) (Some ASSIGNED) (Some IN_PROGRESS) None
         (save_ticket env t' (update_ticket_columns env n (if role = USER then seen_by_user else seen_by_staff) db))"
proof (cases "getTicketById env db n (Some role) (Some viewer)")
  case (Inl e)
  with assms show ?thesis by (intro refused [of e]) (auto simp: markTicketViewed_def)
next
  case v: (Inr v)
  let ?db = "update_ticket_columns env n (if role = USER then seen_by_user else seen_by_staff) db"
  show ?thesis
  proof (cases "starts_on_view (view_ticket v) viewer")
    case False
    with assms v show ?thesis by (intro seen) (auto simp: markTicketViewed_def Let_def)
  next
    case st: True
    show ?thesis
    proof (cases "opened_by_assignee env ?db (view_ticket v)")
      case (Inl e)
      with assms v st show ?thesis by (intro seen) (auto simp: markTicketViewed_def Let_def)
    next
      case (Inr t')
      with assms v st show ?thesis by (intro started [OF v st Inr]) (auto simp: markTicketViewed_def Let_def)
    qed
  qed
qed

lemma markTicketViewed_wf:
  assumes "db_wf db"
  shows "db_wf (snd (markTicketViewed env n viewer role db))"
proof -
  obtain r db' where c: "markTicketViewed env n viewer role db = (r, db')" by fastforce
  have *: "db_wf (update_ticket_columns env n (if role = USER then seen_by_user else seen_by_staff) db)"
    using assms by (intro update_ticket_columns_wf) simp_all
  from c show ?thesis
  proof (cases rule: markTicketViewed_cases)
    case (started v t')
    have "ticket_wf t'" using ensuresD [OF opened_by_assignee_ok started(3)] by (intro in_progress_wf) simp_all
    with c started(5) * show ?thesis by (simp add: wf_simps)
  qed (use c * assms in simp_all)
qed

end
