(* ===== verification/Cron.thy ===== *)
theory Cron
  imports CorrectionFacts
begin

text \<open>
  The scheduled tasks (\<open>ticket-cron.service.ts\<close>) and the end-of-day absences of
  \<open>attendance.service.ts\<close>.  A task that catches the error of one ticket goes on with the next; a
  task that does not, ends.  What the DTR database answers is a parameter; reminder mails and
  notifications are not modelled.
\<close>

section \<open>State kept between runs\<close>

record dtr_status =
  dtr_isOnline :: bool
  lastSuccessfulSyncDate :: "day option"

record cron_state =
  advancedOverdueTickets :: "nat list"
  finalizedAbsenceDates :: "day list"
  absenceFinalizationAttempts :: "(day \<times> date) list"
  dtr_state :: dtr_status

text \<open>\<open>HH:MM:00\<close>: the Manila time of day without its seconds.\<close>

definition minute_time :: "env \<Rightarrow> clock" where
  "minute_time env = (case getManilaTimeString (env_now env) of Clock h m s \<Rightarrow> Clock h m 0)"

text \<open>A task that does not catch: its first error ends what follows it.\<close>

definition and_task :: "unit result \<times> db \<Rightarrow> (db \<Rightarrow> unit result \<times> db) \<Rightarrow> unit result \<times> db" where
  "and_task p f = (case p of (Inl e, db) \<Rightarrow> (Inl e, db) | (Inr _, db) \<Rightarrow> f db)"

definition drop_result :: "'a result \<times> db \<Rightarrow> unit result \<times> db" where
  "drop_result p = (case p of (Inl e, db) \<Rightarrow> (Inl e, db) | (Inr _, db) \<Rightarrow> (Inr (), db))"

section \<open>Clock records\<close>

definition addHoursToTime :: "clock \<Rightarrow> nat \<Rightarrow> clock" where
  "addHoursToTime t n = (case t of Clock h m s \<Rightarrow> Clock ((h + n) mod 24) m 0)"

text \<open>Whether \<open>processDtrSyncs\<close> synchronises: the two windows of the day.\<close>

definition dtr_window :: "ticketing_config \<Rightarrow> clock \<Rightarrow> bool" where
  "dtr_window config currentTime =
     (let cww = (scheduleMode config = CWW);
          morningStart = (if cww then cwwClockinStart config else officeClockin config);
          morningEnd = addHoursToTime (if cww then cwwClockinEnd config else officeClockin config) 2;
          lateEnd = (if cww then cwwClockoutEnd config else officeClockout config)
      in morningStart \<le> currentTime \<and> currentTime \<le> morningEnd
         \<or> morningEnd < currentTime \<and> currentTime \<le> lateEnd)"

section \<open>Absences\<close>

definition absent_row :: "nat \<Rightarrow> day \<Rightarrow> attendance" where
  "absent_row user d = \<lparr>att_userId = user, att_date = d, att_status = ABSENT, clockInTime = None,
     isManualOverride = False\<rparr>"

definition eligible_staff :: "env \<Rightarrow> db \<Rightarrow> account list" where
  "eligible_staff env db = filter (\<lambda>u. acc_active u
     \<and> has_capability (env_caps env) CapAttendanceEligible (acc_role u) \<and> acc_staffId u \<noteq> []) (db_users db)"

definition missing_staff :: "env \<Rightarrow> db \<Rightarrow> day \<Rightarrow> account list" where
  "missing_staff env db d =
     filter (\<lambda>u. \<not> list_ex (\<lambda>a. att_userId a = acc_id u \<and> att_date a = d) (db_attendance db)) (eligible_staff env db)"

definition add_attendance :: "attendance list \<Rightarrow> db \<Rightarrow> db" where
  "add_attendance rows db = db\<lparr>db_attendance := db_attendance db @ rows\<rparr>"

definition markMissingAttendanceAsAbsent :: "env \<Rightarrow> dtr_status \<Rightarrow> day \<Rightarrow> db \<Rightarrow> nat \<times> db" where
  "markMissingAttendanceAsAbsent env dtr d db =
     (if isOvertimeDay (db_officeDays db) d \<or> \<not> dtr_isOnline dtr \<or> lastSuccessfulSyncDate dtr \<noteq> Some d
         \<or> \<not> office_of db d
      then (0, db)
      else (let missing = missing_staff env db d
            in (length missing, add_attendance (map (\<lambda>u. absent_row (acc_id u) d) missing) db)))"

definition workdayEnd :: "ticketing_config \<Rightarrow> clock" where
  "workdayEnd config = (if scheduleMode config = CWW then cwwClockoutEnd config else officeClockout config)"

definition last_attempt :: "cron_state \<Rightarrow> day \<Rightarrow> date" where
  "last_attempt st d = (case map_of (absenceFinalizationAttempts st) d of Some t \<Rightarrow> t | None \<Rightarrow> 0)"

definition finalize_day :: "day \<Rightarrow> cron_state \<Rightarrow> cron_state" where
  "finalize_day d st = st\<lparr>finalizedAbsenceDates := [d],
     absenceFinalizationAttempts := filter (\<lambda>p. fst p \<noteq> d) (absenceFinalizationAttempts st)\<rparr>"

definition note_attempt :: "day \<Rightarrow> date \<Rightarrow> cron_state \<Rightarrow> cron_state" where
  "note_attempt d now st =
     st\<lparr>absenceFinalizationAttempts := (d, now) # filter (\<lambda>p. fst p \<noteq> d) (absenceFinalizationAttempts st)\<rparr>"

definition synced_today :: "dtr_status \<Rightarrow> day \<Rightarrow> bool" where
  "synced_today dtr d \<longleftrightarrow> dtr_isOnline dtr \<and> lastSuccessfulSyncDate dtr = Some d"

text \<open>\<open>sync\<close> is what \<open>syncAttendanceWithDTR\<close> does: from the status it finds, the status after it and
  the tables with the clock records it found.  The attendance service keeps that status.\<close>

definition finish_absences :: "env \<Rightarrow> day \<Rightarrow> cron_state \<Rightarrow> db \<Rightarrow> cron_state \<times> db" where
  "finish_absences env today st db =
     (if synced_today (dtr_state st) today
      then (finalize_day today st, snd (markMissingAttendanceAsAbsent env (dtr_state st) today db))
      else (st, db))"

definition synchronise ::
  "(dtr_status \<Rightarrow> db \<Rightarrow> dtr_status \<times> db) \<Rightarrow> cron_state \<Rightarrow> db \<Rightarrow> cron_state \<times> db" where
  "synchronise sync st db = (case sync (dtr_state st) db of (dtr, db') \<Rightarrow> (st\<lparr>dtr_state := dtr\<rparr>, db'))"

definition processEndOfDayAbsences ::
  "env \<Rightarrow> (dtr_status \<Rightarrow> db \<Rightarrow> dtr_status \<times> db) \<Rightarrow> ticketing_config \<Rightarrow> cron_state \<Rightarrow> db \<Rightarrow> cron_state \<times> db" where
  "processEndOfDayAbsences env sync config st db =
     (let today = env_today env
      in if minute_time env < workdayEnd config \<or> today \<in> set (finalizedAbsenceDates st) \<or> \<not> office_of db today
         then (st, db)
         else if synced_today (dtr_state st) today then finish_absences env today st db
         else if env_now env - last_attempt st today < 5 * 60 * 1000 then (st, db)
         else (case synchronise sync (note_attempt today (env_now env) st) db of
                 (st', db') \<Rightarrow> finish_absences env today st' db'))"

section \<open>The SLA schedule\<close>

definition pause_all :: "env \<Rightarrow> db \<Rightarrow> unit result \<times> db" where
  "pause_all env db = (Inr (), snd (pauseAllActiveTickets env None db))"

definition processSlaSchedules :: "env \<Rightarrow> ticketing_config \<Rightarrow> db \<Rightarrow> unit result \<times> db" where
  "processSlaSchedules env config db =
     (let today = env_today env; currentTime = minute_time env
      in if isFlagCeremonyPaused config then (Inr (), db)
         else if isOvertimeDay (db_officeDays db) today then drop_result (processOvertimeSlaSchedule env config db)
         else if \<not> office_of db today then pause_all env db
         else if Clock 12 0 0 \<le> currentTime \<and> currentTime < Clock 13 0 0 then pause_all env db
         else (case scheduleMode config of
             OFFICE_HOURS \<Rightarrow>
               if officeClockin config \<le> currentTime \<and> currentTime < officeClockout config
               then drop_result (resumeAllActiveTickets env None (createManilaDate today (officeClockin config)) db)
               else pause_all env db
           | CWW \<Rightarrow>
               if cwwClockinStart config \<le> currentTime \<and> currentTime < cwwClockinEnd config
               then drop_result (resumeCwwPresentTechnicianTickets env db)
               else if cwwClockinEnd config \<le> currentTime \<and> currentTime < cwwClockoutEnd config
               then drop_result (resumeAllActiveTickets env None (createManilaDate today (cwwClockinEnd config)) db)
               else pause_all env db
           | OTHER_MODE \<Rightarrow> (Inr (), db)))"

section \<open>Overdue tickets advance the queue\<close>

definition overdue_active :: "env \<Rightarrow> ticket \<Rightarrow> bool" where
  "overdue_active env t \<longleftrightarrow> status t = IN_PROGRESS \<and> slaStartedAt t \<noteq> None \<and> \<not> isSlaWaiting t
     \<and> (case slaDeadline t of
          None \<Rightarrow> False
        | Some d \<Rightarrow> (case slaPausedAt t of None \<Rightarrow> True | Some p \<Rightarrow> d \<le> p) \<and> d < env_now env)"

text \<open>Each newly detected breach promotes one queued ticket; an error ends the task.\<close>

fun advance_each :: "env \<Rightarrow> ticket list \<Rightarrow> nat list \<Rightarrow> db \<Rightarrow> unit result \<times> nat list \<times> db" where
  "advance_each env [] advanced db = (Inr (), advanced, db)"
| "advance_each env (t # ts) advanced db =
     (if \<not> truthy (assignedToId t) \<or> ticket_id t \<in> set advanced then advance_each env ts advanced db
      else (case unpauseNextWaitingTicketAndSetInProgress env (number (assignedToId t)) db of
          (Inl e, db') \<Rightarrow> (Inl e, advanced, db')
        | (Inr promoted, db') \<Rightarrow>
            advance_each env ts (if promoted then ticket_id t # advanced else advanced) db'))"

definition processOverdueTicketsUnpauseNext ::
  "env \<Rightarrow> cron_state \<Rightarrow> db \<Rightarrow> unit result \<times> cron_state \<times> db" where
  "processOverdueTicketsUnpauseNext env st db =
     (let overdue = filter (overdue_active env) (db_tickets db);
          kept = filter (\<lambda>n. n \<in> ticket_id ` set overdue) (advancedOverdueTickets st)
      in case advance_each env overdue kept db of
           (r, advanced, db') \<Rightarrow> (r, st\<lparr>advancedOverdueTickets := advanced\<rparr>, db'))"

section \<open>Automatic status changes\<close>

definition request_status :: "ticket_status \<Rightarrow> update_dto" where
  "request_status s = empty_update\<lparr>dto_status := Some s\<rparr>"

definition system_actor :: "ticket \<Rightarrow> nat" where
  "system_actor t = (if truthy (assignedToId t) then number (assignedToId t) else 1)"

definition stale_resolved :: "env \<Rightarrow> ticket \<Rightarrow> bool" where
  "stale_resolved env t \<longleftrightarrow> status t = RESOLVED
     \<and> (case getEffectiveResolvedAt t of Some d \<Rightarrow> d < env_now env - 3 * day_ms | None \<Rightarrow> False)"

fun close_each :: "env \<Rightarrow> ticket list \<Rightarrow> db \<Rightarrow> db" where
  "close_each env [] db = db"
| "close_each env (t # ts) db =
     close_each env ts (snd (updateTicket env (ticket_id t) (request_status CLOSED) (system_actor t) SUPER_ADMIN db))"

definition processAutoClosure :: "env \<Rightarrow> db \<Rightarrow> db" where
  "processAutoClosure env db =
     close_each env (map (\<lambda>t. enrich db (without_relations t)) (filter (stale_resolved env) (db_tickets db))) db"

definition has_category :: "db \<Rightarrow> ticket \<Rightarrow> bool" where
  "has_category db t =
     (case categoryId t of Some n \<Rightarrow> find_row cat_id (db_categories db) n \<noteq> None | None \<Rightarrow> False)"

definition system_note :: "env \<Rightarrow> string \<Rightarrow> int \<Rightarrow> string \<Rightarrow> comment_dto" where
  "system_note env limit hours change =
     \<lparr>dto_content = Some (''System Note: Ticket has reached its maximum allowable '' @ limit @ '' time (''
        @ env_idText env (nat hours) @ ''h) and has been automatically '' @ change
        @ ''. The SLA clock has resumed.''),
      dto_comment = None, dto_isInternal = True, dto_mentionedUserIds = []\<rparr>"

text \<open>The update and, if it succeeds, the note; every error of either is caught.\<close>

definition automatic_change :: "env \<Rightarrow> ticket \<Rightarrow> ticket_status \<Rightarrow> comment_dto \<Rightarrow> db \<Rightarrow> db" where
  "automatic_change env t s note db =
     (case updateTicket env (ticket_id t) (request_status s) (system_actor t) SUPER_ADMIN db of
        (Inl _, db') \<Rightarrow> db'
      | (Inr _, db') \<Rightarrow> snd (addComment env (ticket_id t) note 1 SUPER_ADMIN [] False db'))"

definition allowable_pause_hours :: "ticket \<Rightarrow> int" where
  "allowable_pause_hours t = (case configuredPauseHours t of Some h \<Rightarrow> h | None \<Rightarrow> 48)"

definition pause_limit_reached :: "env \<Rightarrow> db \<Rightarrow> ticketing_config \<Rightarrow> ticket \<Rightarrow> bool result" where
  "pause_limit_reached env db config t =
     (case slaPausedAt t of
        None \<Rightarrow> Inr False
      | Some pausedAt \<Rightarrow>
          if \<not> has_category db t then Inr False
          else and_then (ticket_business_seconds env db config t pausedAt (env_now env))
                 (\<lambda>seconds. Inr (allowable_pause_hours t * 60 * 60 \<le> seconds)))"

fun unpause_each :: "env \<Rightarrow> ticketing_config \<Rightarrow> ticket list \<Rightarrow> db \<Rightarrow> unit result \<times> db" where
  "unpause_each env config [] db = (Inr (), db)"
| "unpause_each env config (t # ts) db =
     (case pause_limit_reached env db config t of
        Inl e \<Rightarrow> (Inl e, db)
      | Inr False \<Rightarrow> unpause_each env config ts db
      | Inr True \<Rightarrow> unpause_each (next_id env) config ts
          (automatic_change env t IN_PROGRESS
             (system_note env ''pause'' (allowable_pause_hours t) ''unpaused'') db))"

definition processAutoUnpause :: "env \<Rightarrow> db \<Rightarrow> unit result \<times> db" where
  "processAutoUnpause env db =
     (case db_config db of
        None \<Rightarrow> (Inr (), db)
      | Some config \<Rightarrow> unpause_each env config
          (map (with_relations db) (filter (\<lambda>t. status t = PAUSE) (db_tickets db))) db)"

definition freeze_limit_reached :: "env \<Rightarrow> db \<Rightarrow> ticket \<Rightarrow> bool" where
  "freeze_limit_reached env db t =
     (case (slaPausedAt t, configuredFreezeHours t) of
        (Some pausedAt, Some hours) \<Rightarrow> has_category db t \<and> hours * 60 * 60 * 1000 \<le> env_now env - pausedAt
      | _ \<Rightarrow> False)"

definition unfreeze_one :: "env \<Rightarrow> ticket \<Rightarrow> db \<Rightarrow> db" where
  "unfreeze_one env t db =
     (case getFrozenReturnStatus db (ticket_id t) of
        Inl _ \<Rightarrow> db
      | Inr s \<Rightarrow> automatic_change env t s
          (system_note env ''hold'' (case configuredFreezeHours t of Some h \<Rightarrow> h | None \<Rightarrow> 0) ''unfrozen'') db)"

fun unfreeze_each :: "env \<Rightarrow> ticket list \<Rightarrow> db \<Rightarrow> db" where
  "unfreeze_each env [] db = db"
| "unfreeze_each env (t # ts) db =
     unfreeze_each (next_id env) ts (if freeze_limit_reached env db t then unfreeze_one env t db else db)"

definition processAutoUnfreeze :: "env \<Rightarrow> db \<Rightarrow> db" where
  "processAutoUnfreeze env db =
     unfreeze_each env (map (with_relations db) (filter (\<lambda>t. status t = FREEZE) (db_tickets db))) db"

section \<open>Percentage alerts\<close>

text \<open>Tickets whose clock runs, or ran into its deadline before it was paused.\<close>

definition alert_clock :: "ticket \<Rightarrow> (date \<times> rat) option" where
  "alert_clock t =
     (case (slaDeadline t, slaStartedAt t, configuredSlaHours t) of
        (Some d, Some _, Some hours) \<Rightarrow>
          if (case slaPausedAt t of Some p \<Rightarrow> p < d | None \<Rightarrow> False) \<or> isSlaWaiting t then None
          else Some (d, hours)
      | _ \<Rightarrow> None)"

definition elapsed_sla_seconds ::
  "env \<Rightarrow> db \<Rightarrow> ticketing_config \<Rightarrow> ticket \<Rightarrow> date \<Rightarrow> rat \<Rightarrow> rat result" where
  "elapsed_sla_seconds env db config t d limit =
     (if env_now env \<le> d
      then and_then (ticket_business_seconds env db config t (env_now env) d) (\<lambda>s. Inr (max 0 (limit - of_int s)))
      else and_then (ticket_business_seconds env db config t d (env_now env)) (\<lambda>s. Inr (limit + of_int s)))"

definition sla_percentage :: "env \<Rightarrow> db \<Rightarrow> ticketing_config \<Rightarrow> ticket \<Rightarrow> rat option result" where
  "sla_percentage env db config t =
     (case alert_clock t of
        None \<Rightarrow> Inr None
      | Some (d, hours) \<Rightarrow>
          let limit = hours * 60 * 60
          in and_then (elapsed_sla_seconds env db config t d limit) (\<lambda>elapsed. Inr (Some (elapsed / limit * 100))))"

definition alert_type :: "nat \<Rightarrow> string" where
  "alert_type threshold = (if threshold = 75 then ''sla_alert_75''
     else if threshold = 100 then ''sla_alert_100'' else ''sla_alert_150'')"

definition alerted :: "db \<Rightarrow> nat \<Rightarrow> string \<Rightarrow> bool" where
  "alerted db n ty \<longleftrightarrow> list_ex (\<lambda>e. ev_ticketId e = n \<and> ev_type e = ty) (db_events db)"

fun alert_thresholds :: "env \<Rightarrow> nat \<Rightarrow> rat \<Rightarrow> nat list \<Rightarrow> db \<Rightarrow> db" where
  "alert_thresholds env n percentage [] db = db"
| "alert_thresholds env n percentage (k # ks) db =
     alert_thresholds env n percentage ks
       (if percentage < of_nat k \<or> alerted db n (alert_type k) then db
        else logEvent env n (alert_type k) None None None None db)"

fun alert_each :: "env \<Rightarrow> (nat \<Rightarrow> bool) \<Rightarrow> ticketing_config \<Rightarrow> ticket list \<Rightarrow> db \<Rightarrow> unit result \<times> db" where
  "alert_each env hasEmail config [] db = (Inr (), db)"
| "alert_each env hasEmail config (t # ts) db =
     (case sla_percentage env db config t of
        Inl e \<Rightarrow> (Inl e, db)
      | Inr None \<Rightarrow> alert_each env hasEmail config ts db
      | Inr (Some percentage) \<Rightarrow> alert_each env hasEmail config ts
          (if truthy (assignedToId t) \<and> hasEmail (number (assignedToId t))
           then alert_thresholds env (ticket_id t) percentage [75, 100, 150] db else db))"

text \<open>\<open>hasEmail\<close> tells whether the users service knows a mail address of the assignee.\<close>

definition processPercentageAlerts :: "env \<Rightarrow> (nat \<Rightarrow> bool) \<Rightarrow> db \<Rightarrow> unit result \<times> db" where
  "processPercentageAlerts env hasEmail db =
     (case db_config db of
        None \<Rightarrow> (Inr (), db)
      | Some config \<Rightarrow> alert_each env hasEmail config
          (map (\<lambda>t. enrich db (with_relations db t))
             (filter (\<lambda>t. status t = IN_PROGRESS \<and> assignedToId t \<noteq> None) (db_tickets db))) db)"

section \<open>The minute and the hour\<close>

text \<open>After the clock records have been synchronised: the absences, the schedule, the pause limits and
  the overdue tickets, in this order.  An error ends the run.\<close>

definition handleScheduleTasks ::
  "env \<Rightarrow> (dtr_status \<Rightarrow> db \<Rightarrow> dtr_status \<times> db) \<Rightarrow> cron_state \<Rightarrow> db \<Rightarrow> unit result \<times> cron_state \<times> db" where
  "handleScheduleTasks env sync st db =
     (case db_config db of
        None \<Rightarrow> (Inr (), st, db)
      | Some config \<Rightarrow>
          let (st0, db1) = (if dtr_window config (minute_time env) then synchronise sync st db else (st, db));
              (st1, db2) = processEndOfDayAbsences env sync config st0 db1
          in (case and_task (processSlaSchedules env config db2) (processAutoUnpause env) of
                (Inl e, db3) \<Rightarrow> (Inl e, st1, db3)
              | (Inr _, db3) \<Rightarrow> processOverdueTicketsUnpauseNext env st1 db3))"

definition handleHourlyTasks :: "env \<Rightarrow> (nat \<Rightarrow> bool) \<Rightarrow> db \<Rightarrow> unit result \<times> db" where
  "handleHourlyTasks env hasEmail db =
     processPercentageAlerts env hasEmail (processAutoUnfreeze env (processAutoClosure env db))"

end
