(* ===== verification/CronFacts.thy ===== *)
theory CronFacts
  imports Cron UpdateProps
begin

text \<open>
  The scheduled tasks keep the tables well-formed; outside working hours they stop every running
  clock; an overdue ticket advances the queue once; an alert is recorded once per ticket and threshold.
\<close>

section \<open>Well-formedness\<close>

lemma updateTicket_wf: "db_wf db \<Longrightarrow> db_wf (snd (updateTicket env n dto actor role db))"
  using updateTicket_keeps_wf by (metis prod.collapse)

lemma and_task_wf: "db_wf (snd p) \<Longrightarrow> (\<And>db. db_wf db \<Longrightarrow> db_wf (snd (f db))) \<Longrightarrow> db_wf (snd (and_task p f))"
  by (cases p) (simp add: and_task_def split: sum.split)

lemma snd_drop_result [simp]: "snd (drop_result p) = snd p"
  by (cases p) (simp add: drop_result_def split: sum.split)

lemma add_attendance_frame [simp]:
  "db_wf (add_attendance rows db) = db_wf db" "db_tickets (add_attendance rows db) = db_tickets db"
  by (simp_all add: db_wf_def db_ok_def add_attendance_def)

lemma markMissing_wf [simp]: "db_wf (snd (markMissingAttendanceAsAbsent env dtr d db)) = db_wf db"
  by (simp add: markMissingAttendanceAsAbsent_def Let_def)

lemma finish_absences_wf [simp]: "db_wf (snd (finish_absences env d st db)) = db_wf db"
  by (simp add: finish_absences_def)

lemma synchronise_db [simp]: "snd (synchronise sync st db) = snd (sync (dtr_state st) db)"
  by (simp add: synchronise_def split: prod.split)

lemma processEndOfDayAbsences_wf:
  assumes "db_wf db" "\<And>s. db_wf (snd (sync s db))"
  shows "db_wf (snd (processEndOfDayAbsences env sync config st db))"
proof -
  have "db_wf d" if "synchronise sync s db = (s', d)" for s s' d
    using assms(2) synchronise_db [of sync s db] that by (metis snd_conv)
  then show ?thesis using assms(1) by (simp add: processEndOfDayAbsences_def Let_def split: prod.split)
qed

lemma processSlaSchedules_wf:
  assumes "db_wf db"
  shows "db_wf (snd (processSlaSchedules env config db))"
proof -
  note wfs = processOvertimeSlaSchedule_wf [OF assms] resumeAllActiveTickets_wf [OF assms]
    resumeCww_wf [OF assms] pauseAllActiveTickets_wf [OF assms]
  show ?thesis
    by (simp add: processSlaSchedules_def pause_all_def Let_def wfs assms split: schedule_mode.split)
qed

lemma advance_each_wf: "db_wf db \<Longrightarrow> db_wf (snd (snd (advance_each env ts advanced db)))"
proof (induction env ts advanced db rule: advance_each.induct)
  case (2 env t ts advanced db)
  obtain r d where p: "unpauseNextWaitingTicketAndSetInProgress env (number (assignedToId t)) db = (r, d)"
    by fastforce
  with promotion_wf [OF 2(3), of env "number (assignedToId t)"] have d: "db_wf d" by simp
  show ?case
  proof (cases "\<not> truthy (assignedToId t) \<or> ticket_id t \<in> set advanced")
    case True
    with 2(1) [OF True 2(3)] show ?thesis by simp
  next
    case False
    with 2(2) [OF False p [symmetric]] p d show ?thesis by (cases r) simp_all
  qed
qed simp

lemma processOverdue_wf: "db_wf db \<Longrightarrow> db_wf (snd (snd (processOverdueTicketsUnpauseNext env st db)))"
  using advance_each_wf
  by (simp add: processOverdueTicketsUnpauseNext_def Let_def split: prod.split) (metis snd_conv)

lemma close_each_wf: "db_wf db \<Longrightarrow> db_wf (close_each env ts db)"
  by (induction env ts db rule: close_each.induct) (simp_all add: updateTicket_wf)

lemma processAutoClosure_wf: "db_wf db \<Longrightarrow> db_wf (processAutoClosure env db)"
  by (simp add: processAutoClosure_def close_each_wf)

lemma automatic_change_wf:
  assumes "db_wf db"
  shows "db_wf (automatic_change env t s note db)"
proof -
  obtain r d where u: "updateTicket env (ticket_id t) (request_status s) (system_actor t) SUPER_ADMIN db = (r, d)"
    by fastforce
  then have "db_wf d" using updateTicket_keeps_wf assms by blast
  then show ?thesis by (cases r) (simp_all add: automatic_change_def u addComment_wf)
qed

lemma unpause_each_wf: "db_wf db \<Longrightarrow> db_wf (snd (unpause_each env config ts db))"
  by (induction env config ts db rule: unpause_each.induct)
    (simp_all add: automatic_change_wf split: sum.split bool.split)

lemma processAutoUnpause_wf: "db_wf db \<Longrightarrow> db_wf (snd (processAutoUnpause env db))"
  by (simp add: processAutoUnpause_def unpause_each_wf split: option.split)

lemma unfreeze_one_wf: "db_wf db \<Longrightarrow> db_wf (unfreeze_one env t db)"
  by (simp add: unfreeze_one_def automatic_change_wf split: sum.split)

lemma unfreeze_each_wf: "db_wf db \<Longrightarrow> db_wf (unfreeze_each env ts db)"
  by (induction env ts db rule: unfreeze_each.induct) (simp_all add: unfreeze_one_wf)

lemma processAutoUnfreeze_wf: "db_wf db \<Longrightarrow> db_wf (processAutoUnfreeze env db)"
  by (simp add: processAutoUnfreeze_def unfreeze_each_wf)

lemma alert_thresholds_wf [simp]: "db_wf (alert_thresholds env n p ks db) = db_wf db"
  by (induction env n p ks db rule: alert_thresholds.induct) (simp_all add: wf_simps)

lemma alert_each_wf: "db_wf db \<Longrightarrow> db_wf (snd (alert_each env hasEmail config ts db))"
  by (induction env hasEmail config ts db rule: alert_each.induct)
    (simp_all del: alert_thresholds.simps split: sum.split option.split)

lemma processPercentageAlerts_wf: "db_wf db \<Longrightarrow> db_wf (snd (processPercentageAlerts env hasEmail db))"
  by (simp add: processPercentageAlerts_def alert_each_wf split: option.split)

lemma handleHourlyTasks_wf: "db_wf db \<Longrightarrow> db_wf (snd (handleHourlyTasks env hasEmail db))"
  by (simp add: handleHourlyTasks_def processPercentageAlerts_wf processAutoUnfreeze_wf processAutoClosure_wf)

lemma handleScheduleTasks_wf:
  assumes "db_wf db" "\<And>s d. db_wf d \<Longrightarrow> db_wf (snd (sync s d))"
  shows "db_wf (snd (snd (handleScheduleTasks env sync st db)))"
proof (cases "db_config db")
  case (Some config)
  obtain st0 db1 where 1: "(if dtr_window config (minute_time env) then synchronise sync st db else (st, db))
      = (st0, db1)" by fastforce
  then have "db1 = snd (sync (dtr_state st) db) \<or> db1 = db" by (metis snd_conv synchronise_db)
  with assms have wf1: "db_wf db1" by blast
  obtain st1 db2 where 2: "processEndOfDayAbsences env sync config st0 db1 = (st1, db2)" by fastforce
  have wf2: "db_wf db2"
    using processEndOfDayAbsences_wf [where sync = sync and db = db1, OF wf1 assms(2) [OF wf1],
        where env = env and config = config and st = st0] by (simp add: 2)
  obtain r db3 where 3: "and_task (processSlaSchedules env config db2) (processAutoUnpause env) = (r, db3)"
    by fastforce
  have wf3: "db_wf db3"
    using and_task_wf [where f = "processAutoUnpause env", OF processSlaSchedules_wf [OF wf2, of env config]
        processAutoUnpause_wf] by (simp add: 3)
  show ?thesis
  proof (cases r)
    case (Inl e)
    with wf3 show ?thesis by (simp add: handleScheduleTasks_def Some 1 2 3)
  next
    case (Inr u)
    with processOverdue_wf [OF wf3] show ?thesis by (simp add: handleScheduleTasks_def Some 1 2 3)
  qed
qed (simp add: handleScheduleTasks_def assms)

section \<open>The schedule stops the clocks\<close>

lemma find_row_save_rows_hit:
  "find_ticket (save_tickets env ts db) n = Some u \<Longrightarrow>
     find_ticket db n = Some u \<or> (\<exists>t \<in> set ts. ticket_id t = n \<and> u = stamp env t)"
proof (induction ts arbitrary: db)
  case (Cons t ts)
  from Cons(1) [of "save_ticket env t db"] Cons(2) show ?case
    by (cases "n = ticket_id t") (auto simp: table_simps)
qed simp

lemma save_tickets_covers:
  assumes "t \<in> set ts"
  shows "\<exists>u \<in> set ts. ticket_id u = ticket_id t \<and> find_ticket (save_tickets env ts db) (ticket_id t) = Some (stamp env u)"
  using assms
proof (induction ts arbitrary: db t)
  case (Cons a ts)
  show ?case
  proof (cases "\<exists>t' \<in> set ts. ticket_id t' = ticket_id t")
    case True
    then obtain t' where t': "t' \<in> set ts" "ticket_id t' = ticket_id t" by blast
    from Cons(1) [OF t'(1), of "save_ticket env a db"] t'(2) show ?thesis by auto
  next
    case False
    with Cons(2) have "t = a" by auto
    moreover from False have "ticket_id t \<notin> ticket_id ` set ts" by auto
    ultimately show ?thesis by (intro bexI [of _ a]) (simp_all add: table_simps)
  qed
qed simp

definition stopped :: "env \<Rightarrow> db \<Rightarrow> ticket \<Rightarrow> ticket" where
  "stopped env db t = (enrich db (without_relations t))\<lparr>slaPausedAt := Some (env_now env)\<rparr>"

definition running_clock :: "ticket \<Rightarrow> bool" where
  "running_clock t \<longleftrightarrow> status t = IN_PROGRESS \<and> slaPausedAt t = None"

lemma stopped_fields [simp]:
  "ticket_id (stopped env db t) = ticket_id t" "slaPausedAt (stopped env db t) = Some (env_now env)"
  by (simp_all add: stopped_def without_relations_def)

lemma stopped_not_running: "\<not> running_clock (stamp env (stopped env db t))"
  by (simp add: running_clock_def)

definition pausable :: "nat option \<Rightarrow> ticket \<Rightarrow> bool" where
  "pausable technicianId t \<longleftrightarrow> status t = IN_PROGRESS \<and> slaStartedAt t \<noteq> None \<and> \<not> isSlaWaiting t
     \<and> slaPausedAt t = None \<and> (truthy technicianId \<longrightarrow> assignedToId t = technicianId)"

lemma pauseAll_eq:
  "pauseAllActiveTickets env tech db =
     (length (filter (pausable tech) (db_tickets db)),
      log_each env ''sla_schedule_paused'' (map (stopped env db) (filter (pausable tech) (db_tickets db)))
        (save_tickets env (map (stopped env db) (filter (pausable tech) (db_tickets db))) db))"
  unfolding pauseAllActiveTickets_def Let_def stopped_def pausable_def by simp

lemma pauseAll_stops:
  assumes "db_wf db" "find_ticket (snd (pauseAllActiveTickets env None db)) n = Some u"
  shows "\<not> running_clock u"
proof -
  let ?ts = "map (stopped env db) (filter (pausable None) (db_tickets db))"
  have f: "find_ticket (save_tickets env ?ts db) n = Some u"
    using assms(2) unfolding pauseAll_eq snd_conv log_each_find .
  from find_row_save_rows_hit [OF f] show ?thesis
  proof
    assume u: "find_ticket db n = Some u"
    show ?thesis
    proof
      assume run: "running_clock u"
      have "ticket_wf u" by (rule db_wf_find [OF assms(1) u])
      then have "status u = IN_PROGRESS \<longrightarrow> slaStartedAt u \<noteq> None \<and> \<not> isSlaWaiting u"
        unfolding ticket_wf_def by (elim conjE)
      with run have "pausable None u" by (auto simp: pausable_def running_clock_def)
      with find_ticket_member [OF u] have "stopped env db u \<in> set ?ts" by auto
      from save_tickets_covers [OF this, of env db]
      obtain v where v: "v \<in> set ?ts" "find_ticket (save_tickets env ?ts db) (ticket_id u) = Some (stamp env v)"
        by auto
      with f find_ticket_id [OF u] have "u = stamp env v" by simp
      with v(1) run show False using stopped_not_running by auto
    qed
  next
    assume "\<exists>t \<in> set ?ts. ticket_id t = n \<and> u = stamp env t"
    then show ?thesis using stopped_not_running by auto
  qed
qed

text \<open>Outside working hours the schedule task leaves no clock running.\<close>

definition off_hours :: "env \<Rightarrow> ticketing_config \<Rightarrow> db \<Rightarrow> bool" where
  "off_hours env config db \<longleftrightarrow>
     (let time = minute_time env
      in \<not> isFlagCeremonyPaused config \<and> \<not> isOvertimeDay (db_officeDays db) (env_today env)
         \<and> (\<not> office_of db (env_today env)
            \<or> Clock 12 0 0 \<le> time \<and> time < Clock 13 0 0
            \<or> scheduleMode config = OFFICE_HOURS \<and> (time < officeClockin config \<or> officeClockout config \<le> time)
            \<or> scheduleMode config = CWW \<and> (time < cwwClockinStart config \<and> time < cwwClockinEnd config
                 \<or> cwwClockoutEnd config \<le> time \<and> cwwClockinEnd config \<le> time)))"

lemma processSlaSchedules_off_hours:
  assumes "off_hours env config db"
  shows "processSlaSchedules env config db = pause_all env db"
  using assms
  by (auto simp: off_hours_def processSlaSchedules_def Let_def split: schedule_mode.split)

lemma off_hours_stops:
  assumes "db_wf db" "off_hours env config db"
    "find_ticket (snd (processSlaSchedules env config db)) n = Some u"
  shows "\<not> running_clock u"
  using pauseAll_stops [OF assms(1)] assms(3)
  unfolding processSlaSchedules_off_hours [OF assms(2)] pause_all_def by simp

section \<open>Alerts are recorded once\<close>

definition alert_count :: "db \<Rightarrow> nat \<Rightarrow> string \<Rightarrow> nat" where
  "alert_count db n ty = length (filter (\<lambda>e. ev_ticketId e = n \<and> ev_type e = ty) (db_events db))"

lemma alerted_iff: "alerted db n ty \<longleftrightarrow> 0 < alert_count db n ty"
  by (auto simp: alerted_def alert_count_def list_ex_iff filter_empty_conv)

lemma alert_count_log: "alert_count (logEvent env n ty a f u k db) m ty' =
    alert_count db m ty' + (if n = m \<and> ty = ty' then 1 else 0)"
  by (simp add: alert_count_def logEvent_def)

lemma alert_thresholds_once:
  "alert_count (alert_thresholds env m p ks db) n ty \<le> max 1 (alert_count db n ty)"
proof (induction env m p ks db rule: alert_thresholds.induct)
  case (2 env m p k ks db)
  let ?db = "if p < of_nat k \<or> alerted db m (alert_type k) then db
    else logEvent env m (alert_type k) None None None None db"
  have "alert_count ?db n ty \<le> max 1 (alert_count db n ty)"
    by (auto simp: alerted_iff alert_count_log)
  with 2 show ?case by simp
qed simp

lemma alert_each_once:
  "alert_count (snd (alert_each env hasEmail config ts db)) n ty \<le> max 1 (alert_count db n ty)"
proof (induction env hasEmail config ts db rule: alert_each.induct)
  case (2 env hasEmail config t ts db)
  show ?case
  proof (cases "sla_percentage env db config t")
    case r: (Inr p)
    show ?thesis
    proof (cases p)
      case None
      with 2(1) [OF r None] r show ?thesis by simp
    next
      case (Some q)
      let ?db = "if truthy (assignedToId t) \<and> hasEmail (number (assignedToId t))
           then alert_thresholds env (ticket_id t) q [75, 100, 150] db else db"
      have "alert_count ?db n ty \<le> max 1 (alert_count db n ty)"
        using alert_thresholds_once [of env "ticket_id t" q "[75, 100, 150]" db n ty] by (simp del: alert_thresholds.simps)
      with 2(2) [OF r Some] r Some show ?thesis by (simp del: alert_thresholds.simps)
    qed
  qed simp
qed simp

lemma processPercentageAlerts_once:
  "alert_count (snd (processPercentageAlerts env hasEmail db)) n ty \<le> max 1 (alert_count db n ty)"
  unfolding processPercentageAlerts_def by (cases "db_config db") (simp, simp only: option.case alert_each_once)

section \<open>A breach advances the queue once\<close>

lemma advance_each_all_advanced:
  assumes "\<And>t. t \<in> set ts \<Longrightarrow> truthy (assignedToId t) \<Longrightarrow> ticket_id t \<in> set advanced"
  shows "advance_each env ts advanced db = (Inr (), advanced, db)"
  using assms by (induction ts) auto

end
