(* ===== verification/Creation.thy ===== *)
theory Creation
  imports Keywords CronFacts
begin

text \<open>
  \<open>createTicketInternal\<close>: the requester and the filer, the shift by keyword rules, the routing
  validation, and the assignment: to the filer on an overtime day, by a ticket administrator, or from
  the fallback chain of the technician pools.  A requester who has no account yet, the unit snapshot,
  mails and notifications are not modelled.
\<close>

section \<open>The request\<close>

record create_dto =
  cr_subject :: string
  cr_description :: string
  cr_ticketType :: ticket_type
  cr_priority :: "ticket_priority option"
  cr_categoryId :: "nat option"
  cr_requesterId :: "nat option"
  cr_assignedToId :: "nat option"
  cr_issueTypeId :: "nat option"

definition requested_for :: "create_dto \<Rightarrow> nat \<Rightarrow> nat" where
  "requested_for dto caller = (if truthy (cr_requesterId dto) then number (cr_requesterId dto) else caller)"

text \<open>The users service, or the read-only view, whose units need the configured users database.\<close>

definition requester_account :: "env \<Rightarrow> bool \<Rightarrow> db \<Rightarrow> nat \<Rightarrow> account result" where
  "requester_account env usersDatabase db n =
     (case env_getUserById env n of
        Some u \<Rightarrow> Inr u
      | None \<Rightarrow>
          (case List.find (\<lambda>u. acc_id u = n \<and> acc_active u) (db_users db) of
             None \<Rightarrow> Inl (BadRequest (Routing RequesterNotFound))
           | Some u \<Rightarrow> if usersDatabase then Inr u else Inl (ServiceUnavailable (Correction ProxyUnverified))))"

text \<open>The issue an end user sends is ignored.\<close>

definition selected_issue :: "create_dto \<Rightarrow> user_role option \<Rightarrow> nat option" where
  "selected_issue dto role = (if role = Some USER then None else cr_issueTypeId dto)"

definition create_guard :: "db \<Rightarrow> create_dto \<Rightarrow> user_role option \<Rightarrow> http_error option" where
  "create_guard db dto role = first_error [
     (role \<noteq> None \<and> role \<noteq> Some USER \<and> cr_issueTypeId dto = None, BadRequest (Routing IssueRequired)),
     ((case selected_issue dto role of Some n \<Rightarrow> live_issue db n = None | None \<Rightarrow> False),
      BadRequest (Routing IssueInvalid))]"

section \<open>Routing\<close>

record routing =
  rt_type :: ticket_type
  rt_category :: "nat option"
  rt_issue :: "nat option"
  rt_shifted :: bool

definition or_else :: "'a option \<Rightarrow> 'a option \<Rightarrow> 'a option" where
  "or_else a b = (case a of Some x \<Rightarrow> Some x | None \<Rightarrow> b)"

definition shifted_routing :: "db \<Rightarrow> create_dto \<Rightarrow> user_role option \<Rightarrow> routing" where
  "shifted_routing db dto role =
     (let plain = \<lparr>rt_type = cr_ticketType dto, rt_category = cr_categoryId dto,
                   rt_issue = selected_issue dto role, rt_shifted = False\<rparr>
      in if cr_ticketType dto = SPECIALIZED_CONCERNS then plain
         else (case matchKeywordRules db (cr_subject dto @ '' '' @ cr_description dto) (Some (cr_ticketType dto)) of
             None \<Rightarrow> plain
           | Some r \<Rightarrow> \<lparr>rt_type = targetTicketType r, rt_category = or_else (targetCategoryId r) (cr_categoryId dto),
                         rt_issue = or_else (targetIssueTypeId r) (selected_issue dto role), rt_shifted = True\<rparr>))"

definition validated_routing :: "db \<Rightarrow> routing \<Rightarrow> (nat \<times> issue_type option) result" where
  "validated_routing db rt =
     (case rt_category rt of
        None \<Rightarrow> Inl (BadRequest (Routing NoMatchingCategory))
      | Some categ \<Rightarrow>
          and_then (validateRoutingSelection db (rt_type rt) categ (rt_issue rt)) (\<lambda>(_, issue). Inr (categ, issue)))"

section \<open>Assignment\<close>

text \<open>To whom the new ticket goes, and how: \<open>pl_pool\<close> is the pool of an automatic choice.\<close>

record placement =
  pl_assignedTo :: "nat option"
  pl_start :: bool
  pl_waiting :: bool
  pl_pool :: "pool option"
  pl_overtime :: "day option"

definition unplaced :: placement where
  "unplaced = \<lparr>pl_assignedTo = None, pl_start = False, pl_waiting = False, pl_pool = None, pl_overtime = None\<rparr>"

definition overtime_filer :: "user_role option \<Rightarrow> nat \<Rightarrow> nat \<Rightarrow> bool" where
  "overtime_filer role requester caller \<longleftrightarrow> isOvertimeStaff role \<and> requester \<noteq> caller"

definition place_overtime ::
  "env \<Rightarrow> db \<Rightarrow> create_dto \<Rightarrow> ticket_type \<Rightarrow> nat \<Rightarrow> nat \<Rightarrow> user_role option \<Rightarrow> placement result" where
  "place_overtime env db dto ty requester caller role =
     (let filer = overtime_filer role requester caller
      in guarded (first_error [
           (cr_assignedToId dto \<noteq> None \<and> (\<not> filer \<or> cr_assignedToId dto \<noteq> Some caller),
            BadRequest (Routing OvertimeProxy))])
         (if \<not> filer then Inr unplaced
          else (case env_getUserById env caller of
              None \<Rightarrow> Inl (Forbidden (Routing FilerInactive))
            | Some u \<Rightarrow>
                guarded (first_error [(\<not> acc_active u, Forbidden (Routing FilerInactive))])
               (guarded (assertSpecializedAssigneeEligibility (env_caps env) ty (Some u))
                 (Inr (unplaced\<lparr>pl_assignedTo := Some caller, pl_start := (busy_count db caller = 0),
                    pl_waiting := (0 < busy_count db caller), pl_overtime := Some (env_today env)\<rparr>))))))"

text \<open>Work starts at once for a technician who is free or whose running ticket has breached.\<close>

definition placed_with :: "env \<Rightarrow> db \<Rightarrow> nat \<Rightarrow> pool option \<Rightarrow> placement" where
  "placed_with env db user p =
     (let busy = 0 < busy_count db user; breached = hasBreachedActiveTicket env db user
      in unplaced\<lparr>pl_assignedTo := Some user, pl_start := (\<not> busy \<or> breached),
           pl_waiting := (busy \<and> \<not> breached), pl_pool := p\<rparr>)"

definition manual_guard ::
  "env \<Rightarrow> db \<Rightarrow> nat \<Rightarrow> ticket_type \<Rightarrow> nat \<Rightarrow> nat \<Rightarrow> user_role option \<Rightarrow> http_error option" where
  "manual_guard env db user ty requester caller role =
     (if (case role of None \<Rightarrow> True | Some r \<Rightarrow> \<not> isTicketSettingsFocal (env_caps env) r)
      then Some (Forbidden (Routing AdminAssignOnly))
      else (case assertRequesterAssignmentSeparation ty user (Some requester) (Some caller) of
          Some e \<Rightarrow> Some e
        | None \<Rightarrow>
       (case env_getUserById env user of
          None \<Rightarrow> Some (BadRequest (Routing AssigneeInactive))
        | Some u \<Rightarrow>
       (case first_error [
            (\<not> acc_active u, BadRequest (Routing AssigneeInactive)),
            (\<not> isDirectAssignableRictmsStaff (acc_role u), BadRequest (Routing AssigneeNotStaff))] of
          Some e \<Rightarrow> Some e
        | None \<Rightarrow>
       (case assertSpecializedAssigneeEligibility (env_caps env) ty (Some u) of
          Some e \<Rightarrow> Some e
        | None \<Rightarrow> attendance_guard env db user)))))"

definition fallbackChain :: "ticket_type \<Rightarrow> pool list" where
  "fallbackChain ty =
     (case ty of
        IT_SUPPORT \<Rightarrow> [Pool_of IT_SUPPORT, Pool_of DESKTOP_SUPPORT, Pool_of PANTAWID_ICT_SUPPORT]
      | DESKTOP_SUPPORT \<Rightarrow> [Pool_of DESKTOP_SUPPORT, Pool_of IT_SUPPORT, Pool_of PANTAWID_ICT_SUPPORT]
      | PANTAWID_ICT_SUPPORT \<Rightarrow> [Pool_of PANTAWID_ICT_SUPPORT, Pool_all]
      | SPECIALIZED_CONCERNS \<Rightarrow> [Pool_of SPECIALIZED_CONCERNS])"

definition eligible_for :: "env \<Rightarrow> db \<Rightarrow> nat \<Rightarrow> pool \<Rightarrow> account list" where
  "eligible_for env db requester p =
     filter (\<lambda>u. \<not> isSeniorTech (env_caps env) (acc_role u) \<and> acc_id u \<noteq> requester)
       (getAutoAssignmentTechnicians env db p (env_today env))"

definition flag_ceremony :: "db \<Rightarrow> bool" where
  "flag_ceremony db = (case db_config db of Some c \<Rightarrow> isFlagCeremonyPaused c | None \<Rightarrow> False)"

definition choose_technician :: "env \<Rightarrow> db \<Rightarrow> account list \<Rightarrow> account option" where
  "choose_technician env db eligible =
     (if flag_ceremony db then None
      else (case config_strategy db of
          CAPPED_ROUND_ROBIN \<Rightarrow> capped_round_robin env db eligible
        | CURRENT_AUTO \<Rightarrow> List.find (\<lambda>u. count_active db (acc_id u) [ASSIGNED, IN_PROGRESS] = 0) eligible))"

fun auto_pick :: "env \<Rightarrow> db \<Rightarrow> nat \<Rightarrow> pool list \<Rightarrow> (nat \<times> pool) option" where
  "auto_pick env db requester [] = None"
| "auto_pick env db requester (p # ps) =
     (if p \<noteq> Pool_of PANTAWID_ICT_SUPPORT \<and> \<not> office_of db (env_today env)
      then auto_pick env db requester ps
      else (case choose_technician env db (eligible_for env db requester p) of
          Some u \<Rightarrow> Some (acc_id u, p)
        | None \<Rightarrow> auto_pick env db requester ps))"

definition place_automatically :: "env \<Rightarrow> db \<Rightarrow> ticket_type \<Rightarrow> nat \<Rightarrow> placement" where
  "place_automatically env db ty requester =
     (if ty = SPECIALIZED_CONCERNS then unplaced
      else (case auto_pick env db requester (fallbackChain ty) of
          None \<Rightarrow> unplaced
        | Some (user, p) \<Rightarrow> placed_with env db user (Some p)))"

definition place ::
  "env \<Rightarrow> db \<Rightarrow> create_dto \<Rightarrow> ticket_type \<Rightarrow> nat \<Rightarrow> nat \<Rightarrow> user_role option \<Rightarrow> placement result" where
  "place env db dto ty requester caller role =
     (if isOvertimeDay (db_officeDays db) (env_today env)
      then place_overtime env db dto ty requester caller role
      else (case cr_assignedToId dto of
          Some user \<Rightarrow> guarded (manual_guard env db user ty requester caller role) (Inr (placed_with env db user None))
        | None \<Rightarrow> Inr (place_automatically env db ty requester)))"

section \<open>The ticket\<close>

definition placed_status :: "placement \<Rightarrow> ticket_status" where
  "placed_status pl = (if truthy (pl_assignedTo pl) then (if pl_start pl then IN_PROGRESS else ASSIGNED) else OPEN)"

definition placed_waiting :: "db \<Rightarrow> placement \<Rightarrow> bool" where
  "placed_waiting db pl =
     (if \<not> truthy (pl_assignedTo pl) then True
      else if \<not> pl_waiting pl \<and> \<not> pl_start pl then 0 < busy_count db (number (pl_assignedTo pl))
      else pl_waiting pl)"

definition new_ticket ::
  "env \<Rightarrow> db \<Rightarrow> create_dto \<Rightarrow> routing \<Rightarrow> nat \<Rightarrow> issue_type option \<Rightarrow> placement \<Rightarrow> nat \<Rightarrow> nat \<Rightarrow> ticket" where
  "new_ticket env db dto rt categ issue pl requester caller =
     \<lparr>ticket_id = env_freshId env, ticket_subject = trim (cr_subject dto),
      ticket_description = trim (cr_description dto), ticketType = rt_type rt,
      overtimeDate = (if isOvertimeDay (db_officeDays db) (env_today env) then Some (env_today env) else None),
      ticket_overtimeSlaDate = pl_overtime pl, status = placed_status pl, cancelledAt = None,
      cancelledById = None, cancellationReason = None, priority = cr_priority dto, categoryId = Some categ,
      issueTypeId = rt_issue rt, issueType = (case issue of Some i \<Rightarrow> it_key i | None \<Rightarrow> ''other''),
      issueTypeConfig = None, createdById = Some caller, requesterId = requester,
      assignedToId = pl_assignedTo pl, resolutionNotes = None, resolutionSteps = None, resolutionDate = None,
      resolvedAt = None, resolutionTimeOverride = None, duplicateOfId = None, slaDeadline = None,
      slaStartedAt = (if placed_status pl = IN_PROGRESS then Some (env_now env) else None), slaPausedAt = None,
      accumulatedPauseSeconds = 0, slaPauseLedger = None,
      interruptionHistory = Some (newInterruptionHistory (env_now env)), isSlaWaiting = placed_waiting db pl,
      lastAssignedAt = (if truthy (pl_assignedTo pl) then Some (env_now env) else None),
      satisfactionRating = None, satisfactionComment = None, satisfactionSubmittedAt = None, userClosed = False,
      isKbGenerationPending = False, hasUnreadUser = False, hasUnreadTechnician = False,
      createdAt = env_now env, updatedAt = env_now env\<rparr>"

definition new_deadline :: "env \<Rightarrow> db \<Rightarrow> ticket \<Rightarrow> date option result" where
  "new_deadline env db t =
     (case slaStartedAt t of Some start \<Rightarrow> calculateTicketSlaDeadline env db t start | None \<Rightarrow> Inr None)"

text \<open>An automatic choice that is no longer eligible leaves the ticket open.\<close>

definition confirmed_placement :: "env \<Rightarrow> db \<Rightarrow> create_dto \<Rightarrow> nat \<Rightarrow> placement \<Rightarrow> bool" where
  "confirmed_placement env db dto requester pl =
     (case (cr_assignedToId dto, pl_assignedTo pl, pl_pool pl) of
        (None, Some user, Some p) \<Rightarrow> user = 0 \<or> canAutomaticallyAssign env db user p (env_today env) requester
      | _ \<Rightarrow> True)"

definition left_open :: "ticket \<Rightarrow> ticket" where
  "left_open t = t\<lparr>assignedToId := None, status := OPEN, lastAssignedAt := None, slaStartedAt := None,
     slaDeadline := None, isSlaWaiting := True\<rparr>"

record created =
  cr_ticket :: ticket
  cr_autoShifted :: bool
  cr_autoAssigned :: bool

definition placed_ticket ::
  "env \<Rightarrow> db \<Rightarrow> create_dto \<Rightarrow> routing \<Rightarrow> nat \<Rightarrow> issue_type option \<Rightarrow> nat \<Rightarrow> nat \<Rightarrow> placement \<Rightarrow> ticket result" where
  "placed_ticket env db dto rt categ issue requester caller pl =
     (let t = new_ticket env db dto rt categ issue pl requester caller
      in and_then (new_deadline env db t) (\<lambda>d.
           Inr (if confirmed_placement env db dto requester pl then t\<lparr>slaDeadline := d\<rparr> else left_open t)))"

definition prepare_creation ::
  "env \<Rightarrow> bool \<Rightarrow> create_dto \<Rightarrow> nat \<Rightarrow> user_role option \<Rightarrow> db \<Rightarrow> (routing \<times> ticket) result" where
  "prepare_creation env usersDatabase dto caller role db =
     (let requester = requested_for dto caller
      in and_then (requester_account env usersDatabase db requester) (\<lambda>account.
           guarded (assertProxyRequesterAllowed env caller role account)
          (guarded (create_guard db dto role)
            (and_then (validated_routing db (shifted_routing db dto role)) (\<lambda>(categ, issue).
               and_then (place env db dto (rt_type (shifted_routing db dto role)) requester caller role) (\<lambda>pl.
                 and_then (placed_ticket env db dto (shifted_routing db dto role) categ issue requester caller pl)
                   (\<lambda>t. Inr (shifted_routing db dto role, t))))))))"

definition creation_events :: "env \<Rightarrow> create_dto \<Rightarrow> nat \<Rightarrow> ticket \<Rightarrow> db \<Rightarrow> db" where
  "creation_events env dto caller t db =
     (let db1 = logEvent env (ticket_id t) ''created'' (Some caller) None None None db;
          manual = (cr_assignedToId dto \<noteq> None \<or> ticket_overtimeSlaDate t \<noteq> None)
      in if truthy (assignedToId t)
         then logEvent env (ticket_id t) (if manual then ''manually_assigned'' else ''auto_assigned'')
                (if manual then Some caller else None) None None (assignedToId t) db1
         else db1)"

definition initial_comment :: comment_dto where
  "initial_comment = \<lparr>dto_content = Some ''[Initial Ticket Attachment]'', dto_comment = None,
     dto_isInternal = False, dto_mentionedUserIds = []\<rparr>"

text \<open>The images become one comment; its errors are only logged.\<close>

definition attach_images ::
  "env \<Rightarrow> nat \<Rightarrow> nat \<Rightarrow> user_role option \<Rightarrow> (string \<times> upload) list \<Rightarrow> db \<Rightarrow> db" where
  "attach_images env n caller role images db =
     (if images = [] then db
      else snd (addComment env n initial_comment caller (case role of Some r \<Rightarrow> r | None \<Rightarrow> USER) images True db))"

definition createTicketInternal ::
  "env \<Rightarrow> bool \<Rightarrow> create_dto \<Rightarrow> nat \<Rightarrow> user_role option \<Rightarrow> (string \<times> upload) list \<Rightarrow> db \<Rightarrow> created result \<times> db" where
  "createTicketInternal env usersDatabase dto caller role images db =
     (case prepare_creation env usersDatabase dto caller role db of
        Inl e \<Rightarrow> (Inl e, db)
      | Inr (rt, t) \<Rightarrow>
          (Inr \<lparr>cr_ticket = stamp env t, cr_autoShifted = rt_shifted rt,
              cr_autoAssigned = (truthy (assignedToId t) \<and> overtimeDate t = None)\<rparr>,
           attach_images (next_id env) (ticket_id t) caller role images
             (creation_events env dto caller t (save_ticket env t db))))"

end
