(* ===== verification/CreationFacts.thy ===== *)
theory CreationFacts
  imports Creation
begin

text \<open>
  What a new ticket is: well-formed, open exactly when nobody has it, never assigned to its requester
  (specialized concerns apart), routed by a validated tuple, and given automatically only to a technician of
  the pool of the day.
\<close>

section \<open>Placement\<close>

lemma unplaced_fields [simp]:
  "pl_assignedTo unplaced = None" "\<not> pl_start unplaced" "\<not> pl_waiting unplaced" "pl_pool unplaced = None"
  "pl_overtime unplaced = None"
  by (simp_all add: unplaced_def)

lemma placed_with_fields [simp]:
  "pl_assignedTo (placed_with env db user p) = Some user" "pl_pool (placed_with env db user p) = p"
  "pl_overtime (placed_with env db user p) = None"
  "pl_start (placed_with env db user p) \<longleftrightarrow> \<not> pl_waiting (placed_with env db user p)"
  by (auto simp: placed_with_def Let_def)

lemma eligible_for_member:
  assumes "u \<in> set (eligible_for env db requester p)"
  shows "acc_id u \<noteq> requester" "u \<in> set (getAutoAssignmentTechnicians env db p (env_today env))"
  using assms by (simp_all add: eligible_for_def)

lemma choose_technician_member: "choose_technician env db us = Some u \<Longrightarrow> u \<in> set us"
  by (auto simp: choose_technician_def find_Some_iff dest: capped_round_robin_Some
      split: if_splits assignment_strategy.splits)

lemma auto_pick_Some:
  assumes "auto_pick env db requester ps = Some (user, p)"
  shows "p \<in> set ps \<and> canAutomaticallyAssign env db user p (env_today env) requester"
  using assms
proof (induction ps)
  case (Cons q ps)
  show ?case
  proof (cases "q \<noteq> Pool_of PANTAWID_ICT_SUPPORT \<and> \<not> office_of db (env_today env)")
    case True
    with Cons show ?thesis by simp
  next
    case False
    show ?thesis
    proof (cases "choose_technician env db (eligible_for env db requester q)")
      case None
      with Cons False show ?thesis by simp
    next
      case (Some u)
      with Cons False have u: "user = acc_id u" "p = q" by auto
      from eligible_for_member [OF choose_technician_member [OF Some]] u show ?thesis
        by (auto simp: canAutomaticallyAssign_def list_ex_iff)
    qed
  qed
qed simp

text \<open>No automatic choice is refused again.\<close>

lemma place_automatically_confirmed:
  "cr_assignedToId dto = None \<Longrightarrow> confirmed_placement env db dto requester (place_automatically env db ty requester)"
  by (auto simp: confirmed_placement_def place_automatically_def dest: auto_pick_Some split: option.split)

lemma place_cases:
  assumes "place env db dto ty requester caller role = Inr pl"
  obtains (nobody) "pl_assignedTo pl = None"
  | (filer) "overtime_filer role requester caller" "isOvertimeDay (db_officeDays db) (env_today env)"
      "pl_assignedTo pl = Some caller" "pl_waiting pl \<longleftrightarrow> \<not> pl_start pl" "pl_pool pl = None"
  | (manual) user where "cr_assignedToId dto = Some user" "pl = placed_with env db user None"
      "manual_guard env db user ty requester caller role = None"
  | (automatic) user p where "cr_assignedToId dto = None" "pl = placed_with env db user (Some p)"
      "p \<in> set (fallbackChain ty)" "ty \<noteq> SPECIALIZED_CONCERNS"
      "canAutomaticallyAssign env db user p (env_today env) requester"
proof (cases "isOvertimeDay (db_officeDays db) (env_today env)")
  case True
  with assms have p: "place_overtime env db dto ty requester caller role = Inr pl" by (simp add: place_def)
  show ?thesis
  proof (cases "overtime_filer role requester caller")
    case False
    with p show ?thesis by (intro nobody) (auto simp: place_overtime_def Let_def guarded_Inr_iff)
  next
    case filer': True
    with p have "pl_assignedTo pl = Some caller" "pl_waiting pl \<longleftrightarrow> \<not> pl_start pl" "pl_pool pl = None"
      by (auto simp: place_overtime_def Let_def guarded_Inr_iff split: option.splits)
    with filer [OF filer' True] show ?thesis by simp
  qed
next
  case False
  show ?thesis
  proof (cases "cr_assignedToId dto")
    case (Some user)
    with False assms show ?thesis by (intro manual [OF Some]) (auto simp: place_def guarded_Inr_iff)
  next
    case None
    with False assms have pl: "pl = place_automatically env db ty requester" by (simp add: place_def)
    show ?thesis
    proof (cases "ty = SPECIALIZED_CONCERNS \<or> auto_pick env db requester (fallbackChain ty) = None")
      case True
      then show ?thesis by (intro nobody) (auto simp: pl place_automatically_def)
    next
      case False
      then obtain user p where "auto_pick env db requester (fallbackChain ty) = Some (user, p)" by auto
      with False auto_pick_Some [OF this] None show ?thesis
        by (intro automatic [of user p]) (auto simp: pl place_automatically_def)
    qed
  qed
qed

lemma manual_guard_None:
  assumes "manual_guard env db user ty requester caller role = None"
  shows "\<exists>r. role = Some r \<and> isTicketSettingsFocal (env_caps env) r"
    "ty \<noteq> SPECIALIZED_CONCERNS \<Longrightarrow> user \<noteq> requester \<and> user \<noteq> caller" "attendance_guard env db user = None"
  using assms
  by (auto simp: manual_guard_def assertRequesterAssignmentSeparation_def split: option.splits if_splits)

text \<open>Nobody is given a ticket that was requested for them, specialized concerns apart.\<close>

lemma place_separated:
  assumes "place env db dto ty requester caller role = Inr pl" "ty \<noteq> SPECIALIZED_CONCERNS"
  shows "pl_assignedTo pl \<noteq> Some requester"
  using assms(1)
proof (cases rule: place_cases)
  case (manual user)
  with manual_guard_None(2) [OF manual(3) assms(2)] show ?thesis by simp
next
  case (automatic user p)
  then show ?thesis by (auto simp: canAutomaticallyAssign_def)
qed (auto simp: overtime_filer_def)

lemma place_waiting:
  assumes "place env db dto ty requester caller role = Inr pl" "truthy (pl_assignedTo pl)"
  shows "pl_waiting pl \<longleftrightarrow> \<not> pl_start pl"
  using assms(1) assms(2) by (cases rule: place_cases) auto

section \<open>The new ticket\<close>

lemma new_ticket_fields [simp]:
  "ticket_id (new_ticket env db dto rt categ issue pl requester caller) = env_freshId env"
  "ticketType (new_ticket env db dto rt categ issue pl requester caller) = rt_type rt"
  "status (new_ticket env db dto rt categ issue pl requester caller) = placed_status pl"
  "requesterId (new_ticket env db dto rt categ issue pl requester caller) = requester"
  "createdById (new_ticket env db dto rt categ issue pl requester caller) = Some caller"
  "assignedToId (new_ticket env db dto rt categ issue pl requester caller) = pl_assignedTo pl"
  "isSlaWaiting (new_ticket env db dto rt categ issue pl requester caller) = placed_waiting db pl"
  "categoryId (new_ticket env db dto rt categ issue pl requester caller) = Some categ"
  "issueTypeId (new_ticket env db dto rt categ issue pl requester caller) = rt_issue rt"
  "slaStartedAt (new_ticket env db dto rt categ issue pl requester caller) =
     (if placed_status pl = IN_PROGRESS then Some (env_now env) else None)"
  by (simp_all add: new_ticket_def)

lemma new_ticket_wf:
  assumes "truthy (pl_assignedTo pl) \<Longrightarrow> pl_waiting pl \<longleftrightarrow> \<not> pl_start pl"
  shows "ticket_wf (new_ticket env db dto rt categ issue pl requester caller)"
proof -
  have "accumulatedPauseSeconds (new_ticket env db dto rt categ issue pl requester caller) = 0"
    by (simp add: new_ticket_def)
  moreover have "placed_status pl \<in> {OPEN, ASSIGNED, IN_PROGRESS}" by (simp add: placed_status_def)
  moreover have "placed_status pl = IN_PROGRESS \<Longrightarrow> \<not> placed_waiting db pl"
    using assms by (auto simp: placed_status_def placed_waiting_def split: if_splits)
  ultimately show ?thesis by (auto simp: ticket_wf_def)
qed

lemma left_open_fields [simp]:
  "ticket_id (left_open t) = ticket_id t" "status (left_open t) = OPEN" "assignedToId (left_open t) = None"
  "isSlaWaiting (left_open t)" "requesterId (left_open t) = requesterId t" "ticketType (left_open t) = ticketType t"
  "categoryId (left_open t) = categoryId t" "issueTypeId (left_open t) = issueTypeId t"
  "createdById (left_open t) = createdById t" "slaStartedAt (left_open t) = None"
  by (simp_all add: left_open_def)

lemma left_open_wf: "ticket_wf t \<Longrightarrow> ticket_wf (left_open t)"
  by (simp add: ticket_wf_def left_open_def)

text \<open>What the preparation returns.\<close>

lemma prepare_creation_Inr:
  assumes "prepare_creation env usersDatabase dto caller role db = Inr (rt, t)"
  obtains account categ issue pl d where
    "requester_account env usersDatabase db (requested_for dto caller) = Inr account"
    "assertProxyRequesterAllowed env caller role account = None" "create_guard db dto role = None"
    "rt = shifted_routing db dto role" "validated_routing db rt = Inr (categ, issue)"
    "place env db dto (rt_type rt) (requested_for dto caller) caller role = Inr pl"
    "t = (if confirmed_placement env db dto (requested_for dto caller) pl
          then (new_ticket env db dto rt categ issue pl (requested_for dto caller) caller)\<lparr>slaDeadline := d\<rparr>
          else left_open (new_ticket env db dto rt categ issue pl (requested_for dto caller) caller))"
proof -
  let ?rt = "shifted_routing db dto role" and ?who = "requested_for dto caller"
  from assms [unfolded prepare_creation_def Let_def and_then_Inr_iff guarded_Inr_iff]
  obtain account p where A: "requester_account env usersDatabase db ?who = Inr account"
      "assertProxyRequesterAllowed env caller role account = None" "create_guard db dto role = None"
    and p: "validated_routing db ?rt = Inr p"
      "(case p of (categ, issue) \<Rightarrow> and_then (place env db dto (rt_type ?rt) ?who caller role) (\<lambda>pl.
         and_then (placed_ticket env db dto ?rt categ issue ?who caller pl) (\<lambda>t. Inr (?rt, t)))) = Inr (rt, t)"
    by blast
  obtain categ issue where ci: "p = (categ, issue)" by fastforce
  from p(2) [unfolded ci prod.case and_then_Inr_iff] obtain pl where
    pl: "place env db dto (rt_type ?rt) ?who caller role = Inr pl"
      "placed_ticket env db dto ?rt categ issue ?who caller pl = Inr t" "rt = ?rt" by blast
  from pl(2) [unfolded placed_ticket_def Let_def and_then_Inr_iff] obtain d where
    "t = (if confirmed_placement env db dto ?who pl
          then (new_ticket env db dto ?rt categ issue pl ?who caller)\<lparr>slaDeadline := d\<rparr>
          else left_open (new_ticket env db dto ?rt categ issue pl ?who caller))" by blast
  with that [OF A] p(1) pl ci show thesis by blast
qed

lemma prepared_wf:
  assumes "prepare_creation env usersDatabase dto caller role db = Inr (rt, t)"
  shows "ticket_wf t \<and> ticket_id t = env_freshId env"
  using assms
proof (cases rule: prepare_creation_Inr)
  case (1 account categ issue pl d)
  have "ticket_wf (new_ticket env db dto rt categ issue pl (requested_for dto caller) caller)"
    by (rule new_ticket_wf) (rule place_waiting [OF 1(6)])
  with left_open_wf [OF this] show ?thesis unfolding 1(7) by simp
qed

lemma creation_events_frame [simp]:
  "db_wf (creation_events env dto caller t db) = db_wf db"
  "db_tickets (creation_events env dto caller t db) = db_tickets db"
  "find_ticket (creation_events env dto caller t db) n = find_ticket db n"
  by (simp_all add: creation_events_def Let_def wf_simps table_simps)

lemma attach_images_wf: "db_wf db \<Longrightarrow> db_wf (attach_images env n caller role images db)"
  by (simp add: attach_images_def addComment_wf)

lemma createTicket_cases:
  assumes "createTicketInternal env usersDatabase dto caller role images db = (r, db')"
  obtains (refused) e where "r = Inl e" "db' = db"
  | (created) rt t where "prepare_creation env usersDatabase dto caller role db = Inr (rt, t)"
      "r = Inr \<lparr>cr_ticket = stamp env t, cr_autoShifted = rt_shifted rt,
              cr_autoAssigned = (truthy (assignedToId t) \<and> overtimeDate t = None)\<rparr>"
      "db' = attach_images (next_id env) (ticket_id t) caller role images
             (creation_events env dto caller t (save_ticket env t db))"
proof (cases "prepare_creation env usersDatabase dto caller role db")
  case (Inl e)
  with assms show ?thesis by (intro refused [of e]) (auto simp: createTicketInternal_def)
next
  case (Inr p)
  obtain rt t where "p = (rt, t)" by fastforce
  with Inr assms show ?thesis by (intro created [of rt t]) (auto simp: createTicketInternal_def)
qed

lemma createTicket_wf:
  assumes "db_wf db"
  shows "db_wf (snd (createTicketInternal env usersDatabase dto caller role images db))"
proof -
  obtain r db' where c: "createTicketInternal env usersDatabase dto caller role images db = (r, db')" by fastforce
  then show ?thesis
  proof (cases rule: createTicket_cases)
    case (created rt t)
    with c assms prepared_wf [OF created(1)] show ?thesis
      by (simp add: attach_images_wf wf_simps)
  qed (simp add: c assms)
qed

section \<open>What is promised of a new ticket\<close>

lemma created_ticket_facts:
  assumes "prepare_creation env usersDatabase dto caller role db = Inr (rt, t)"
  shows "requesterId t = requested_for dto caller" "createdById t = Some caller"
    "status t \<in> {OPEN, ASSIGNED, IN_PROGRESS}" "status t = OPEN \<longleftrightarrow> \<not> truthy (assignedToId t)"
    "ticketType t \<noteq> SPECIALIZED_CONCERNS \<Longrightarrow> assignedToId t \<noteq> Some (requesterId t)"
    "status t = IN_PROGRESS \<longleftrightarrow> slaStartedAt t \<noteq> None"
    "\<exists>categ c issue. categoryId t = Some categ
       \<and> validateRoutingSelection db (ticketType t) categ (issueTypeId t) = Inr (c, issue)"
proof -
  have "requesterId t = requested_for dto caller \<and> createdById t = Some caller
    \<and> status t \<in> {OPEN, ASSIGNED, IN_PROGRESS} \<and> (status t = OPEN \<longleftrightarrow> \<not> truthy (assignedToId t))
    \<and> (ticketType t \<noteq> SPECIALIZED_CONCERNS \<longrightarrow> assignedToId t \<noteq> Some (requesterId t))
    \<and> (status t = IN_PROGRESS \<longleftrightarrow> slaStartedAt t \<noteq> None)
    \<and> (\<exists>categ c issue. categoryId t = Some categ
       \<and> validateRoutingSelection db (ticketType t) categ (issueTypeId t) = Inr (c, issue))"
    using assms
  proof (cases rule: prepare_creation_Inr)
    case (1 account categ issue pl d)
    have routing: "\<exists>c issue. validateRoutingSelection db (rt_type rt) categ (rt_issue rt) = Inr (c, issue)"
      using 1(5) by (auto simp: validated_routing_def and_then_Inr_iff split: option.splits)
    have sep: "rt_type rt \<noteq> SPECIALIZED_CONCERNS \<longrightarrow> pl_assignedTo pl \<noteq> Some (requested_for dto caller)"
      using place_separated [OF 1(6)] by blast
    show ?thesis unfolding 1(7) using routing sep by (auto simp: placed_status_def)
  qed
  then show "requesterId t = requested_for dto caller" "createdById t = Some caller"
    "status t \<in> {OPEN, ASSIGNED, IN_PROGRESS}" "status t = OPEN \<longleftrightarrow> \<not> truthy (assignedToId t)"
    "ticketType t \<noteq> SPECIALIZED_CONCERNS \<Longrightarrow> assignedToId t \<noteq> Some (requesterId t)"
    "status t = IN_PROGRESS \<longleftrightarrow> slaStartedAt t \<noteq> None"
    "\<exists>categ c issue. categoryId t = Some categ
       \<and> validateRoutingSelection db (ticketType t) categ (issueTypeId t) = Inr (c, issue)"
    by blast+
qed

end
