(* ===== verification/Evolution.thy ===== *)
theory Evolution
  imports CreationFacts "HOL-Library.Sublist"
begin

text \<open>
  What no operation undoes: tickets are never deleted, a closed or cancelled ticket keeps its status,
  and the event log and the evidence of corrected resolution times only grow.  One lemma per handler,
  from rules for the primitive writes.
\<close>

named_theorems evolve_intros "evolution along the primitive writes"

section \<open>The relation\<close>

definition finished :: "ticket \<Rightarrow> bool" where
  "finished t \<longleftrightarrow> status t \<in> {CLOSED, CANCELLED}"

definition evolves :: "db \<Rightarrow> db \<Rightarrow> bool" where
  "evolves db db' \<longleftrightarrow> prefix (db_events db) (db_events db') \<and> prefix (db_overrides db) (db_overrides db')
     \<and> (\<forall>n row. find_ticket db n = Some row \<longrightarrow>
          (\<exists>row'. find_ticket db' n = Some row' \<and> (finished row \<longrightarrow> status row' = status row)))"

lemma evolves_refl [evolve_intros]: "evolves db db"
  by (simp add: evolves_def)

lemma evolves_trans:
  assumes "evolves a b" "evolves b c"
  shows "evolves a c"
proof -
  have "\<exists>row''. find_ticket c n = Some row'' \<and> (finished row \<longrightarrow> status row'' = status row)"
    if row: "find_ticket a n = Some row" for n row
  proof -
    from assms(1) row obtain row' where row': "find_ticket b n = Some row'"
      "finished row \<longrightarrow> status row' = status row" unfolding evolves_def by blast
    from assms(2) row'(1) obtain row'' where "find_ticket c n = Some row''"
      "finished row' \<longrightarrow> status row'' = status row'" unfolding evolves_def by blast
    with row'(2) show ?thesis by (auto simp: finished_def)
  qed
  with assms show ?thesis unfolding evolves_def by (blast intro: prefix_order.trans)
qed

lemma evolves_found: "evolves db db' \<Longrightarrow> find_ticket db n = Some row
    \<Longrightarrow> \<exists>row'. find_ticket db' n = Some row' \<and> (finished row \<longrightarrow> status row' = status row)"
  by (simp add: evolves_def)

section \<open>Primitive writes\<close>

lemma overrides_frame [simp]:
  "db_overrides (save_ticket env t db) = db_overrides db"
  "db_overrides (logEvent env n ty a f u k db) = db_overrides db"
  "db_overrides (save_escalation e db) = db_overrides db" "db_events (save_escalation e db) = db_events db"
  "db_overrides (save_tickets env ts db) = db_overrides db"
  "db_overrides (record_justification env t dto s actor db) = db_overrides db"
  "db_overrides (save_comment c db) = db_overrides db" "db_events (save_comment c db) = db_events db"
  "db_overrides (update_comment_images cid paths db) = db_overrides db"
  "db_events (update_comment_images cid paths db) = db_events db"
  "db_overrides (cancel_escalations n db) = db_overrides db"
  "db_overrides (add_attendance rows db) = db_overrides db" "db_events (add_attendance rows db) = db_events db"
  "db_events (save_override r db) = db_events db" "db_overrides (save_override r db) = db_overrides db @ [r]"
proof -
  show "db_overrides (save_tickets env ts db) = db_overrides db"
    by (induction ts arbitrary: db) (simp_all add: save_ticket_def)
qed (auto simp: save_ticket_def logEvent_def save_escalation_def record_justification_def save_justification_def
    save_comment_def update_comment_images_def cancel_escalations_def add_attendance_def save_override_def
    split: option.split)

lemma find_ticket_frame [simp]:
  "find_ticket (save_comment c db) n = find_ticket db n"
  "find_ticket (update_comment_images cid paths db) n = find_ticket db n"
  "find_ticket (add_attendance rows db) n = find_ticket db n"
  by (simp_all add: find_ticket_def)

lemma evolves_save [evolve_intros]:
  assumes "evolves db d" "\<And>row. find_ticket d (ticket_id t) = Some row \<Longrightarrow> finished row \<Longrightarrow> status t = status row"
  shows "evolves db (save_ticket env t d)"
proof -
  have "\<exists>row'. find_ticket (save_ticket env t d) n = Some row' \<and> (finished row \<longrightarrow> status row' = status row)"
    if row: "find_ticket d n = Some row" for n row
    using row assms(2) by (cases "n = ticket_id t") (auto simp: table_simps)
  then have "evolves d (save_ticket env t d)" unfolding evolves_def by (simp add: table_simps)
  with assms(1) show ?thesis by (rule evolves_trans)
qed

lemma evolves_same_tickets:
  assumes "evolves db d" "db_tickets d' = db_tickets d" "prefix (db_events d) (db_events d')"
    "prefix (db_overrides d) (db_overrides d')"
  shows "evolves db d'"
proof -
  have "evolves d d'" using assms by (simp add: evolves_def find_ticket_def)
  with assms(1) show ?thesis by (rule evolves_trans)
qed

lemma evolves_log [evolve_intros]: "evolves db d \<Longrightarrow> evolves db (logEvent env n ty a f u k d)"
  by (erule evolves_same_tickets) (simp_all add: table_simps logEvent_def)

lemma evolves_frames [evolve_intros]:
  "evolves db d \<Longrightarrow> evolves db (save_escalation e d)"
  "evolves db d \<Longrightarrow> evolves db (save_comment c d)"
  "evolves db d \<Longrightarrow> evolves db (update_comment_images cid paths d)"
  "evolves db d \<Longrightarrow> evolves db (cancel_escalations n d)"
  "evolves db d \<Longrightarrow> evolves db (add_attendance rows d)"
  "evolves db d \<Longrightarrow> evolves db (save_override r d)"
  "evolves db d \<Longrightarrow> evolves db (record_justification env t dto s actor d)"
  by (erule evolves_same_tickets; simp add: save_escalation_def save_override_def)+

lemma finished_stamp [simp]: "finished (stamp env t) = finished t"
  by (simp add: finished_def)

lemma evolves_saves [evolve_intros]:
  assumes "evolves db d" "\<And>t. t \<in> set ts \<Longrightarrow> \<not> finished t"
    "\<And>t row. t \<in> set ts \<Longrightarrow> find_ticket d (ticket_id t) = Some row \<Longrightarrow> \<not> finished row"
  shows "evolves db (save_tickets env ts d)"
  using assms
proof (induction ts arbitrary: d)
  case (Cons t ts)
  have "evolves db (save_tickets env ts (save_ticket env t d))"
  proof (rule Cons.IH)
    show "evolves db (save_ticket env t d)" using Cons.prems by (intro evolves_save) auto
    show "\<not> finished u" if "u \<in> set ts" for u using that Cons.prems by simp
    show "\<not> finished row" if "u \<in> set ts" "find_ticket (save_ticket env t d) (ticket_id u) = Some row" for u row
      using that Cons.prems by (cases "ticket_id u = ticket_id t") (auto simp: table_simps)
  qed
  then show ?case by simp
qed simp

lemma find_own: "db_wf db \<Longrightarrow> t \<in> set (db_tickets db) \<Longrightarrow> find_ticket db (ticket_id t) = Some t"
  using find_member_eq db_wf_ok by blast

section \<open>The queue\<close>

lemma promotion_evolves:
  assumes "db_wf db"
  shows "evolves db (snd (unpauseNextWaitingTicketAndSetInProgress env tech db))"
  using db_wf_table [OF assms]
proof (cases rule: promotion_cases [of db tech env])
  case (promoted t t')
  note w = oldest_waiting_Some [OF promoted(1)]
  then have "find_ticket db (ticket_id t) = Some t" using assms by (intro find_own) auto
  with w promoted(2,3) show ?thesis
    by (auto intro!: evolve_intros simp: finished_def)
qed (simp_all add: evolves_refl)

lemma pick_up_open_evolves:
  assumes "db_wf db"
  shows "evolves db (pick_up_open env tech db)"
proof (cases rule: pick_up_open_cases [of env tech db])
  case (picked t t')
  note nt = next_open_ticket_Some [OF picked(1)]
  then have "find_ticket db (ticket_id t) = Some t" using assms by (intro find_own) auto
  moreover have "ticket_id t' = ticket_id t" using ensuresD [OF picked_up_ok picked(2)] by simp
  ultimately have "evolves db (save_ticket env t' db)" using nt
    by (intro evolve_intros) (auto simp: finished_def pickup_candidate_def)
  with picked(5) show ?thesis by (auto intro: evolve_intros)
qed (simp add: evolves_refl)

lemma queue_handoff_evolves:
  assumes "db_wf d" "evolves db d"
  shows "evolves db (queue_handoff env tech d)"
proof -
  have "db_wf (queue_handoff env tech d) \<and> evolves db (queue_handoff env tech d)"
    by (rule queue_handoff_induct)
      (use assms in \<open>auto simp: promotion_wf pick_up_open_wf intro: evolves_trans promotion_evolves pick_up_open_evolves\<close>)
  then show ?thesis ..
qed

lemma release_previous_evolves:
  assumes "db_wf d" "evolves db d"
  shows "evolves db (snd (release_previous env p d))"
proof (cases p)
  case (Some q)
  have "evolves db (snd (unpauseNextWaitingTicketAndSetInProgress env q d))"
    using assms promotion_evolves evolves_trans by blast
  with Some assms(2) show ?thesis
    by (cases "unpauseNextWaitingTicketAndSetInProgress env q d") (auto simp: release_previous_def split: sum.split)
qed (simp add: release_previous_def assms)

section \<open>updateTicket\<close>

lemma push_back_queue_evolves:
  assumes "db_wf d" "evolves db d"
  shows "evolves db (push_back_queue env t original s d)"
proof -
  have "\<not> finished u" "find_ticket d (ticket_id u) = Some row \<Longrightarrow> \<not> finished row"
    if u: "u \<in> set (map (pushed_back env) (pushback_targets d t))" for u row
  proof -
    from u obtain v where v: "v \<in> set (db_tickets d)" "status v = ASSIGNED" "u = pushed_back env v"
      by (auto simp: pushback_targets_def)
    then show "\<not> finished u" by (simp add: finished_def pushed_back_def)
    assume "find_ticket d (ticket_id u) = Some row"
    moreover have "find_ticket d (ticket_id u) = Some v"
      using find_own [OF assms(1) v(1)] by (simp add: v(3) pushed_back_def)
    ultimately show "\<not> finished row" using v(2) by (simp add: finished_def)
  qed
  then have "evolves db (save_tickets env (map (pushed_back env) (pushback_targets d t)) d)"
    by (intro evolves_saves [OF assms(2)]) blast+
  then show ?thesis using assms(2) by (simp add: push_back_queue_def)
qed

lemma change_status_evolves:
  assumes "change_status env t dto s actor db = (r, db')" "db_wf db"
  shows "evolves db db'"
  using assms(1)
proof (cases rule: change_status_cases)
  case (changed t1 t2 auto t3)
  show ?thesis unfolding changed(3)
    by (intro push_back_queue_evolves) (simp_all add: assms(2) evolve_intros)
qed (simp_all add: evolve_intros)

lemma apply_status_evolves:
  assumes "apply_status env v t dto latest el actor role fr db = (r, db')" "db_wf db"
  shows "evolves db db'"
  using assms change_status_evolves
  by (auto simp: apply_status_def intro: evolves_refl split: option.splits if_splits)

lemma update_events_evolves: "evolves db d \<Longrightarrow> evolves db (update_events env dto actor original saved auto d)"
  by (auto simp: update_events_def Let_def intro!: evolve_intros split: option.split)

lemma after_update_evolves:
  assumes "db_wf d" "evolves db d"
  shows "evolves db (after_update env dto actor original saved auto d)"
proof -
  let ?e = "update_events env dto actor original saved auto d"
  have "db_wf ?e" using same_tickets_wf [OF update_events_frame] assms(1) by blast
  then show ?thesis
    by (auto simp: after_update_def intro!: queue_handoff_evolves update_events_evolves assms(2) split: option.split)
qed

lemma user_update_evolves:
  assumes "user_update env (view_ticket v) dto actor db = (r, db')" "db_wf db"
    "getTicketById env db n role viewer = Inr v"
  shows "evolves db db'"
proof -
  obtain row where row: "find_ticket db n = Some row" "ticket_id (view_ticket v) = n"
    "status (view_ticket v) = status row" using getTicketById_fields [OF assms(3)] by metis
  from assms(1) show ?thesis
  proof (cases rule: user_update_cases)
    case (closed t')
    have "ticket_id t' = n" using row by (simp add: closed(3))
    with row closed(2) show ?thesis unfolding closed(5) by (intro evolve_intros) (simp_all add: finished_def)
  next
    case (edited current)
    have "ticket_id (apply_texts dto (view_ticket v)) = n" using row by (simp add: apply_texts_def)
    with row edited(2) show ?thesis unfolding edited(6) by (intro evolve_intros) (simp_all add: finished_def)
  qed (simp add: evolves_refl)
qed

lemma finished_no_transitions: "finished row \<Longrightarrow> ALLOWED_TRANSITIONS caps role fr (status row) = []"
  by (rule terminal_no_transitions) (auto simp: finished_def)

lemma finish_update_evolves:
  assumes "finish_update env dto actor role original expected ta d = (r, db')" "status_outcome dto t1 ta"
    "db_wf d" "evolves db d" "find_ticket d (ticket_id t1) = Some row" "status t1 = status row"
    "\<And>s. dto_status dto = Some s \<Longrightarrow> \<not> finished row"
  shows "evolves db db'"
  using assms(1,2)
proof (cases rule: finish_update_cases)
  case (updated t3 auto current)
  have "evolves db (save_ticket env t3 d)"
  proof (rule evolves_save [OF assms(4)])
    fix r assume "find_ticket d (ticket_id t3) = Some r" "finished r"
    with updated(3) assms(5) have "r = row" "finished row" by auto
    with assms(6,7) updated(4) show "status t3 = status r" by (cases "dto_status dto") auto
  qed
  then show ?thesis unfolding updated(10)
    by (intro after_update_evolves) (simp_all add: wf_simps assms(3) updated(2))
next
  case (duplicated source original' t3)
  from duplicated(2) assms(5) have "source = row" by simp
  with duplicated(1) assms(7) have nf: "\<not> finished source" by auto
  have id: "ticket_id source = ticket_id t1" by (rule find_ticket_id [OF duplicated(2)])
  let ?s = "source\<lparr>status := DUPLICATE, duplicateOfId := Some (ticket_id original'), slaPausedAt := None,
      isSlaWaiting := False\<rparr>"
  have wf: "ticket_wf ?s" using db_wf_find [OF assms(3) duplicated(2)] by (simp add: ticket_wf_def)
  have "evolves db (save_ticket env ?s d)"
    by (rule evolves_save [OF assms(4)]) (use duplicated(2) id nf in auto)
  then show ?thesis unfolding duplicated(8)
    by (intro after_update_evolves evolves_log) (simp_all add: wf_simps assms(3) wf)
qed (simp add: assms(4))

lemma updateTicket_evolves:
  assumes "db_wf db"
  shows "evolves db (snd (updateTicket env n dto actor role db))"
proof -
  obtain r db' where u: "updateTicket env n dto actor role db = (r, db')" by fastforce
  then have "evolves db db'"
  proof (cases rule: updateTicket_cases)
    case (user v)
    then show ?thesis using user_update_evolves assms by blast
  next
    case (status_failed v t1 e)
    then show ?thesis using apply_status_evolves assms by blast
  next
    case (operator v t1 ta db1)
    obtain row where o: "status_outcome dto t1 ta" "ticket_id t1 = n"
      "status t1 = status row" "find_ticket db1 n = Some row" "db_wf db1"
      "\<And>s. dto_status dto = Some s \<Longrightarrow>
         s \<in> set (ALLOWED_TRANSITIONS (env_caps env) role (frozen_of db (view_ticket v)) (status row))"
      using operator_outcome [OF operator(1,4,5,3) assms] by metis
    show ?thesis
    proof (rule finish_update_evolves [OF operator(6) o(1,5)])
      show "evolves db db1" by (rule apply_status_evolves [OF operator(5) assms])
      show "find_ticket db1 (ticket_id t1) = Some row" "status t1 = status row" using o by simp_all
      show "\<not> finished row" if "dto_status dto = Some s" for s
        using o(6) [OF that] finished_no_transitions [of row] by auto
    qed
  qed (simp add: evolves_refl)
  with u show ?thesis by simp
qed

end
