(* ===== verification/History.thy ===== *)
theory History
  imports Evolution
begin

text \<open>
  What no operation undoes, continued: assignment, escalation, cancellation, comments, corrections,
  creation, the work schedule and the scheduled tasks.
\<close>

section \<open>Tickets at work\<close>

definition unfinished :: "db \<Rightarrow> nat \<Rightarrow> bool" where
  "unfinished db n \<longleftrightarrow> (\<forall>row. find_ticket db n = Some row \<longrightarrow> \<not> finished row)"

lemma unfinished_save [simp]: "\<not> finished t \<Longrightarrow> unfinished db n \<Longrightarrow> unfinished (save_ticket env t db) n"
  by (cases "n = ticket_id t") (auto simp: unfinished_def table_simps)

lemma unfinished_log [simp]: "unfinished (logEvent env m ty a f u k db) n = unfinished db n"
  by (simp add: unfinished_def table_simps)

lemma unfinished_row: "find_ticket db n = Some row \<Longrightarrow> \<not> finished row \<Longrightarrow> unfinished db n"
  by (simp add: unfinished_def)

lemma unfinished_own: "db_wf db \<Longrightarrow> t \<in> set (db_tickets db) \<Longrightarrow> \<not> finished t \<Longrightarrow> unfinished db (ticket_id t)"
  by (rule unfinished_row [OF find_own])

lemma evolves_work:
  "evolves db d \<Longrightarrow> unfinished d (ticket_id t) \<Longrightarrow> evolves db (save_ticket env t d)"
  by (rule evolves_save) (simp_all add: unfinished_def)

lemma evolves_kept:
  "evolves db d \<Longrightarrow> find_ticket d (ticket_id t) = Some row \<Longrightarrow> finished row \<longrightarrow> status t = status row
     \<Longrightarrow> evolves db (save_ticket env t d)"
  by (rule evolves_save) auto

section \<open>Assignment\<close>

lemma handed_over_finished: "handed_over db t user t' \<Longrightarrow> finished t \<Longrightarrow> status t' = status t"
  by (auto simp: handed_over_def finished_def)

lemma commit_assignment_evolves:
  assumes "db_wf db" "ticket_wf new" "find_ticket db (ticket_id new) = Some row" "\<not> finished row"
  shows "evolves db (snd (commit_assignment env old new user actorId db))"
proof -
  have "evolves db (save_ticket env new db)"
    by (rule evolves_work [OF evolves_refl]) (use assms in \<open>simp add: unfinished_def\<close>)
  then have "evolves db (snd (release_previous env p (save_ticket env new db)))" for p
    by (intro release_previous_evolves) (simp_all add: wf_simps assms)
  then show ?thesis by (simp add: commit_assignment_snd Let_def evolve_intros split: sum.split)
qed

lemma assignTicketInternal_evolves:
  assumes "db_wf db"
  shows "evolves db (snd (assignTicketInternal env n dto role actorId pool db))"
proof -
  obtain r db' where a: "assignTicketInternal env n dto role actorId pool db = (r, db')" by fastforce
  then show ?thesis using assms
  proof (cases rule: assignTicketInternal_outcome)
    case (committed v row technician t')
    have f: "ticket_id (view_ticket v) = n" "status (view_ticket v) = status row"
      using getTicketById_fields [OF committed(1)] committed(2) by (metis option.inject)+
    have "ticket_id t' = n" using committed(5) f by (simp add: handed_over_def)
    moreover have "\<not> finished row"
      using ensuresD [OF assign_checks_ok committed(4)] f by (simp add: finished_def)
    ultimately have "evolves db (snd (commit_assignment env (view_ticket v) t' (to_assignedToId dto) actorId db))"
      using committed(2) by (intro commit_assignment_evolves [OF assms committed(6)]) simp_all
    with committed(7) show ?thesis by (simp add: a)
  qed (simp add: a evolves_refl)
qed

lemma claimOvertimeTicket_evolves: "evolves db (snd (claimOvertimeTicket env n user role db))"
proof -
  obtain r db' where c: "claimOvertimeTicket env n user role db = (r, db')" by fastforce
  then show ?thesis
  proof (cases rule: claimOvertimeTicket_cases)
    case (claim t t')
    have "status t = OPEN"
      using claim(2) by (auto simp: claim_guard_def without_relations_def split: if_splits)
    then have "unfinished db n" using claim(1) by (simp add: unfinished_def finished_def)
    moreover have "ticket_id t' = n"
      using ensuresD [OF claimed_ok claim(3)] find_ticket_id [OF claim(1)] by (simp add: without_relations_def)
    ultimately have "evolves db (save_ticket env t' db)" by (intro evolves_work evolves_refl) simp
    with claim(4) show ?thesis by (simp add: c evolves_log)
  qed (simp add: c evolves_refl)
qed

lemma login_evolves:
  assumes "db_wf db"
  shows "evolves db (assignPendingTicketsOnLoginInternal env tech db)"
proof (cases rule: login_cases [of env tech db])
  case (picked u ty t t')
  have t: "t \<in> set (db_tickets db)" "status t = OPEN"
    using pending_ticket_Some [OF picked(4)] by (simp_all add: unassigned_for_def)
  then have "unfinished db (ticket_id t)" using unfinished_own [OF assms] by (simp add: finished_def)
  with ensuresD [OF started_for_ok picked(5)] have "evolves db (save_ticket env t' db)"
    by (intro evolves_work evolves_refl) simp
  with picked(7) show ?thesis by (simp add: evolves_log)
qed (simp add: evolves_refl)

lemma returned_fields [simp]:
  "ticket_id (returned_specialized env t) = ticket_id t" "ticket_id (returned_open t) = ticket_id t"
  "status (returned_specialized env t) = OPEN" "status (returned_open t) = OPEN"
  by (simp_all add: returned_specialized_def returned_open_def)

lemma reassign_one_evolves:
  assumes "unfinished d (ticket_id t)" "evolves db d"
  shows "evolves db (reassign_one env t d)"
    and "unfinished d n \<Longrightarrow> unfinished (reassign_one env t d) n"
  using assms
  by (auto simp: reassign_one_def Let_def finished_def intro!: evolves_log evolves_work split: option.split)

lemma reassign_each_evolves:
  "(\<And>t. t \<in> set ts \<Longrightarrow> unfinished d (ticket_id t)) \<Longrightarrow> evolves db d \<Longrightarrow> evolves db (reassign_each env ts d)"
  by (induction ts arbitrary: d) (simp_all add: reassign_one_evolves)

lemma reassignUnavailable_evolves:
  assumes "db_wf db"
  shows "evolves db (reassignUnavailableTechnicianTicketsInternal env tech db)"
proof -
  have "unfinished db (ticket_id t)" if "t \<in> set (unavailable_work db tech)" for t
    using that unfinished_own [OF assms]
    by (auto simp: unavailable_work_def without_relations_def finished_def)
  then show ?thesis
    unfolding reassignUnavailableTechnicianTicketsInternal_def by (intro reassign_each_evolves evolves_refl)
qed

lemma auto_reassign_one_evolves:
  assumes "db_wf db"
  shows "evolves db (snd (auto_reassign_one env user actor role n db))"
proof -
  have "evolves db (snd (case assignTicketInternal env n dto r a p db of
      (Inl _, db') \<Rightarrow> (Some False, db') | (Inr _, db') \<Rightarrow> (Some True, db')))" for dto r a p
    using assignTicketInternal_evolves [OF assms, of env n dto r a p]
    by (cases "assignTicketInternal env n dto r a p db") (auto split: sum.split)
  then show ?thesis by (simp add: auto_reassign_one_def evolves_refl split: option.split)
qed

lemma auto_reassign_each_evolves:
  "db_wf db \<Longrightarrow> evolves db (snd (auto_reassign_each env user actor role ns db))"
proof (induction ns arbitrary: db)
  case (Cons n ns)
  obtain r d1 where o: "auto_reassign_one env user actor role n db = (r, d1)" by fastforce
  obtain p d2 where e: "auto_reassign_each env user actor role ns d1 = (p, d2)" by fastforce
  from auto_reassign_one_wf [OF Cons.prems, of env user actor role n] o have "db_wf d1" by simp
  from Cons.IH [OF this] e have "evolves d1 d2" by simp
  moreover have "evolves db d1" using auto_reassign_one_evolves [OF Cons.prems, of env user actor role n] o by simp
  ultimately have "evolves db d2" by (rule evolves_trans [rotated])
  with o e show ?case by (cases p) simp
qed (simp add: evolves_refl)

lemma autoReassign_evolves:
  assumes "db_wf db"
  shows "evolves db (snd (autoReassignAttendanceAlertTickets env dtr user actor role db))"
proof -
  have "evolves db d" if "auto_reassign_each env user actor role ns db = (p, d)" for ns p d
    using auto_reassign_each_evolves [OF assms, of env user actor role ns] that by simp
  then show ?thesis
    by (auto simp: autoReassignAttendanceAlertTickets_def evolves_refl split: option.split prod.split)
qed

section \<open>Escalation and cancellation\<close>

lemma escalate_evolves: "evolves db (snd (escalateTicketInternal env n dto proofs actor role db))"
proof -
  obtain r db' where e: "escalateTicketInternal env n dto proofs actor role db = (r, db')" by fastforce
  then show ?thesis by (cases rule: escalate_cases) (simp_all add: e evolve_intros)
qed

lemma acceptance_events_evolves: "evolves db d \<Longrightarrow> evolves db (acceptance_events env t a d)"
  by (simp add: acceptance_events_def Let_def evolves_log)

lemma accept_evolves: "evolves db (snd (acceptEscalationInternal env n eid actor db))"
proof -
  obtain r db' where a: "acceptEscalationInternal env n eid actor db = (r, db')" by fastforce
  then show ?thesis
  proof (cases rule: accept_cases)
    case (accepted e row t')
    note to = ensuresD [OF taken_over_ok accepted(5)]
    have w: "status (without_relations row) = status row" "ticket_id (without_relations row) = n"
      using find_ticket_id [OF accepted(3)] by (simp_all add: without_relations_def)
    have nc: "status row \<noteq> CANCELLED" using accepted(4) w by (auto simp: accept_guard_def split: if_splits)
    have "evolves db (save_ticket env t' (save_escalation (e\<lparr>esc_status := ACCEPTED\<rparr>) db))"
      by (rule evolves_kept [of _ _ _ row])
        (use to w nc accepted(3) in \<open>auto simp: finished_def evolves_frames evolves_refl\<close>)
    with accepted(7) show ?thesis by (simp add: a acceptance_events_evolves)
  qed (simp_all add: a evolve_intros)
qed

lemma return_evolves: "evolves db (snd (returnEscalationInternal env n eid why actor db))"
proof -
  obtain r db' where e: "returnEscalationInternal env n eid why actor db = (r, db')" by fastforce
  then show ?thesis by (cases rule: return_cases) (simp_all add: e evolve_intros)
qed

lemma updateEscalationProof_evolves: "evolves db (snd (updateEscalationProof env n eid notes proofs actor db))"
  by (simp add: updateEscalationProof_def evolve_intros split: option.split sum.split)

lemma cancelTicket_evolves:
  assumes "db_wf db"
  shows "evolves db (snd (cancelTicket env n dto actor db))"
proof -
  obtain r db' where c: "cancelTicket env n dto actor db = (r, db')" by fastforce
  then show ?thesis
  proof (cases rule: cancelTicket_cases)
    case (cancelled row pending)
    have id: "ticket_id row = n" by (rule find_ticket_id [OF cancelled(1)])
    have "status row \<in> {OPEN, ASSIGNED, IN_PROGRESS}"
      using cancelled(3) by (auto simp: assertTicketCancellationAllowed_def split: if_splits)
    then have "unfinished db n" using cancelled(1) by (auto simp: unfinished_def finished_def)
    then have "evolves db (save_ticket env (cancelled_row env dto actor row) db)"
      using id by (intro evolves_work evolves_refl) simp
    then have e: "evolves db (cancel_commit env dto actor row db)"
      unfolding cancel_commit_def by (intro evolves_log evolves_frames)
    have w: "db_wf (cancel_commit env dto actor row db)"
      by (rule cancel_commit_wf [OF assms db_wf_find [OF assms cancelled(1)]])
    have "evolves db (snd (cancel_handoff env (assignedToId row) (cancel_commit env dto actor row db)))"
      by (cases rule: cancel_handoff_cases [of env "assignedToId row" "cancel_commit env dto actor row db"])
        (use e w promotion_evolves evolves_trans in auto)
    with cancelled(6) show ?thesis by (simp add: c)
  qed (simp add: c evolves_refl)
qed

section \<open>Comments and corrections\<close>

lemma update_columns_evolves [evolve_intros]:
  assumes "evolves db d" "\<And>t. ticket_id (f t) = ticket_id t" "\<And>t. finished t \<Longrightarrow> status (f t) = status t"
  shows "evolves db (update_ticket_columns env n f d)"
proof (cases "find_ticket d n")
  case (Some row)
  with find_ticket_id [OF Some] assms have "evolves db (save_ticket env (f row) d)"
    by (intro evolves_kept [of _ _ _ row]) simp_all
  with Some show ?thesis by (simp add: update_ticket_columns_def)
qed (simp add: update_ticket_columns_def assms)

lemma column_fields [simp]:
  "ticket_id (flag_technician t) = ticket_id t" "status (flag_technician t) = status t"
  "ticket_id (flag_user t) = ticket_id t" "status (flag_user t) = status t"
  "ticket_id (seen_by_user t) = ticket_id t" "status (seen_by_user t) = status t"
  "ticket_id (seen_by_staff t) = ticket_id t" "status (seen_by_staff t) = status t"
  "ticket_id (with_requester u t) = ticket_id t" "status (with_requester u t) = status t"
  by (simp_all add: flag_technician_def flag_user_def seen_by_user_def seen_by_staff_def with_requester_def)

lemma commit_comment_evolves: "evolves db d \<Longrightarrow> evolves db (commit_comment env trusted n dto t actor role c d)"
  by (simp add: commit_comment_def Let_def evolve_intros)

lemma addComment_evolves: "evolves db d \<Longrightarrow> evolves db (snd (addComment env n dto actor role files trusted d))"
  by (simp add: addComment_def Let_def commit_comment_evolves split: sum.split prod.split)

lemma replaceCommentImage_evolves: "evolves db (snd (replaceCommentImage env n cid ex uuid file actor db))"
  by (simp add: replaceCommentImage_def commit_image_def evolve_intros split: option.split sum.split)

lemma correctTicketRequester_evolves: "evolves db (snd (correctTicketRequester env n dto actor role db))"
proof -
  obtain r db' where c: "correctTicketRequester env n dto actor role db = (r, db')" by fastforce
  then show ?thesis
  proof (cases rule: correctTicketRequester_cases)
    case (corrected requester row)
    have "ticket_id row = n" by (rule find_ticket_id [OF corrected(2)])
    with corrected(2) have
      "evolves db (save_ticket env (with_requester (number (rq_requesterId dto)) (without_relations row)) db)"
      by (intro evolves_kept [of _ _ _ row] evolves_refl) (simp_all add: without_relations_def)
    with corrected(5) show ?thesis by (simp add: c evolves_log)
  qed (simp add: c evolves_refl)
qed

lemma overrideResolutionTime_evolves: "evolves db (snd (overrideResolutionTime env n dto proofs actor role db))"
proof -
  obtain r db' where c: "overrideResolutionTime env n dto proofs actor role db = (r, db')" by fastforce
  then show ?thesis
    by (cases rule: overrideResolutionTime_cases) (simp_all add: c commit_override_def evolve_intros)
qed

lemma submitSatisfaction_evolves: "evolves db (snd (submitSatisfaction env n dto requester db))"
proof -
  obtain r db' where c: "submitSatisfaction env n dto requester db = (r, db')" by fastforce
  then show ?thesis
  proof (cases rule: submitSatisfaction_cases)
    case (rated row rating remark)
    let ?t = "enrich db (without_relations row)"
    note g = satisfaction_guard_None [OF rated(2)]
    have f: "status ?t = status row" "ticket_id ?t = n"
      using find_ticket_id [OF rated(1)] by (simp_all add: without_relations_def)
    have nc: "status row \<noteq> CANCELLED" using g f by auto
    have "evolves db (save_ticket env (Corrections.rated env rating remark ?t) db)"
      by (rule evolves_kept [of _ _ _ row, OF evolves_refl])
        (use f nc rated(1) in \<open>auto simp: finished_def\<close>)
    with rated(5) show ?thesis by (simp add: c evolves_log)
  qed (simp add: c evolves_refl)
qed

lemma corrected_assignee_save:
  assumes "db_wf db" "find_ticket db n = Some row"
    "locked_assignee_checks env db (without_relations row) dto actor = Inr t'"
  shows "db_wf (save_ticket env t' db)" "evolves db (save_ticket env t' db)"
proof -
  note ok = locked_assignee_checks_Inr [OF assms(3)]
  have "ticket_wf (without_relations row)" using db_wf_find [OF assms(1,2)] by (simp add: without_relations_wf)
  note t = corrected_ticket_ok [OF ok(1) this]
  have w: "status (without_relations row) = status row" "ticket_id (without_relations row) = n"
    using find_ticket_id [OF assms(2)] by (simp_all add: without_relations_def)
  show "db_wf (save_ticket env t' db)" by (rule db_wf_save [OF assms(1) t(1)])
  have "status row \<in> {ASSIGNED, IN_PROGRESS, RESOLVED}" using ok(2) w
    by (auto simp: assignee_guard_def correctable_def split: if_splits)
  then have "unfinished db n" using assms(2) by (auto simp: unfinished_def finished_def)
  with t(2) w show "evolves db (save_ticket env t' db)" by (intro evolves_work evolves_refl) simp
qed

lemma promote_if_evolves: "db_wf db \<Longrightarrow> evolves db (snd (promote_if env c tech db))"
  by (cases rule: promote_if_cases [of env c tech db]) (simp_all add: promotion_evolves evolves_refl)

lemma promote_after_correction_evolves:
  assumes "db_wf d" "evolves db d"
  shows "evolves db (snd (promote_after_correction env db0 t user d))"
proof -
  let ?c = "active_correction t \<and> busy_count db0 user = 0 \<and> isSlaWaiting t"
  obtain q d2 where p: "promote_if env ?c user d = (q, d2)" by fastforce
  have "db_wf d2" "evolves d d2"
    using promote_if_wf [OF assms(1), of env ?c user] promote_if_evolves [OF assms(1), of env ?c user] p by simp_all
  then have "db_wf d2" "evolves db d2" using assms(2) by (simp_all add: evolves_trans)
  then show ?thesis using p by (auto simp: promote_after_correction_def release_previous_evolves split: sum.split)
qed

lemma correctTicketAssignee_evolves:
  assumes "db_wf db"
  shows "evolves db (snd (correctTicketAssignee env n dto actor role db))"
proof -
  obtain r db' where c: "correctTicketAssignee env n dto actor role db = (r, db')" by fastforce
  note p = promote_after_correction_evolves [OF corrected_assignee_save [OF assms]]
  from c show ?thesis
  proof (cases rule: correctTicketAssignee_cases)
    case (failed e row t')
    with c p show ?thesis by simp
  next
    case (corrected row t')
    with c p show ?thesis by (simp add: evolves_log)
  qed (simp add: c evolves_refl)
qed

lemma markTicketViewed_evolves:
  assumes "db_wf db"
  shows "evolves db (snd (markTicketViewed env n viewer role db))"
proof -
  let ?f = "if role = USER then seen_by_user else seen_by_staff"
  let ?d = "update_ticket_columns env n ?f db"
  have d: "evolves db ?d" by (rule update_columns_evolves [OF evolves_refl]) simp_all
  obtain r db' where c: "markTicketViewed env n viewer role db = (r, db')" by fastforce
  then show ?thesis
  proof (cases rule: markTicketViewed_cases)
    case (started v t')
    obtain row where row: "find_ticket db n = Some row" "ticket_id (view_ticket v) = n"
      "status (view_ticket v) = status row" using getTicketById_fields [OF started(1)] by metis
    have "ticket_id t' = n" using ensuresD [OF opened_by_assignee_ok started(3)] row by simp
    moreover have "status row = ASSIGNED" using started(2) row by (simp add: starts_on_view_def)
    then have "find_ticket ?d n = Some (stamp env (?f row))" "status (?f row) = ASSIGNED"
      using find_update_columns_same [OF row(1), of ?f env] find_ticket_id [OF row(1)] by (simp_all del: if_split)
    then have "unfinished ?d n" by (simp add: unfinished_def finished_def)
    ultimately have "evolves db (save_ticket env t' ?d)" by (intro evolves_work d) simp
    with started(5) show ?thesis by (simp add: c evolves_log)
  qed (simp_all add: c d evolves_refl)
qed

section \<open>Creation\<close>

text \<open>The id the database generates is not in use.\<close>

definition fresh_id :: "env \<Rightarrow> db \<Rightarrow> bool" where
  "fresh_id env db \<longleftrightarrow> find_ticket db (env_freshId env) = None"

lemma createTicket_evolves:
  assumes "fresh_id env db"
  shows "evolves db (snd (createTicketInternal env usersDatabase dto caller role images db))"
proof -
  obtain r db' where c: "createTicketInternal env usersDatabase dto caller role images db = (r, db')" by fastforce
  then show ?thesis
  proof (cases rule: createTicket_cases)
    case (created rt t)
    have "ticket_id t = env_freshId env" using prepared_wf [OF created(1)] by simp
    then have "evolves db (save_ticket env t db)"
      using assms by (intro evolves_work evolves_refl) (simp add: unfinished_def fresh_id_def)
    then have "evolves db (creation_events env dto caller t (save_ticket env t db))"
      by (simp add: creation_events_def Let_def evolves_log)
    with created(3) show ?thesis by (simp add: c attach_images_def addComment_evolves)
  qed (simp add: c evolves_refl)
qed

section \<open>The work schedule\<close>

lemma log_each_evolves [evolve_intros]: "evolves db d \<Longrightarrow> evolves db (log_each env ty ts d)"
  by (induction ts arbitrary: d) (simp_all add: evolves_log)

lemma save_changed_evolves:
  assumes "\<And>ts t. changed = Inr ts \<Longrightarrow> t \<in> set ts \<Longrightarrow> status t = IN_PROGRESS \<and> unfinished db (ticket_id t)"
  shows "evolves db (snd (save_changed env ty changed db))"
proof -
  have "evolves db (save_tickets env ts db)" if "changed = Inr ts" for ts
    by (rule evolves_saves [OF evolves_refl])
      (use assms [OF that] in \<open>auto simp: finished_def unfinished_def\<close>)
  then show ?thesis by (auto simp: save_changed_def evolves_refl intro: log_each_evolves split: sum.split option.split)
qed

text \<open>A batch over tickets in progress that only moves their clock.\<close>

lemma batch_evolves:
  assumes "db_wf db" "\<And>t. t \<in> set ts \<Longrightarrow> \<exists>row \<in> set (db_tickets db). ticket_id t = ticket_id row
      \<and> status t = status row \<and> status row = IN_PROGRESS"
    "\<And>t t'. t \<in> set ts \<Longrightarrow> f t = Inr (Some t') \<Longrightarrow> ticket_id t' = ticket_id t \<and> status t' = status t"
  shows "evolves db (snd (save_changed env ty (collect_changed f ts) db))"
proof (rule save_changed_evolves)
  fix out t' assume o: "collect_changed f ts = Inr out" "t' \<in> set out"
  from collect_changed_member [OF this] obtain t where t: "t \<in> set ts" "f t = Inr (Some t')" by blast
  from assms(2) [OF t(1)] obtain row where "row \<in> set (db_tickets db)" "ticket_id t = ticket_id row"
    "status t = status row" "status row = IN_PROGRESS" by blast
  with assms(3) [OF t] unfinished_own [OF assms(1)]
  show "status t' = IN_PROGRESS \<and> unfinished db (ticket_id t')" by (simp add: finished_def)
qed

lemma applySlaResume_same: "applySlaResume env db config t resumeAt = Inr (Some t')
    \<Longrightarrow> ticket_id t' = ticket_id t \<and> status t' = status t"
  using ensuresD [OF applySlaResume_ok] clock_frame_fields by metis

lemma paused_work_rows:
  "t \<in> set (paused_work db P) \<Longrightarrow> \<exists>row \<in> set (db_tickets db). ticket_id t = ticket_id row
     \<and> status t = status row \<and> status row = IN_PROGRESS"
  by (auto simp: paused_work_def with_relations_def)

lemma resumeAll_evolves: "db_wf db \<Longrightarrow> evolves db (snd (resumeAllActiveTickets env tech resumeAt db))"
  unfolding resumeAllActiveTickets_def
  by (auto simp: evolves_refl split: option.split intro!: batch_evolves paused_work_rows applySlaResume_same)

lemma cww_resume_one_same: "cww_resume_one env db config t = Inr (Some t')
    \<Longrightarrow> ticket_id t' = ticket_id t \<and> status t' = status t"
  by (auto simp: cww_resume_one_def dest: applySlaResume_same split: option.splits if_splits)

lemma resumeCww_evolves: "db_wf db \<Longrightarrow> evolves db (snd (resumeCwwPresentTechnicianTickets env db))"
  unfolding resumeCwwPresentTechnicianTickets_def
  by (auto simp: evolves_refl split: option.split intro!: batch_evolves paused_work_rows cww_resume_one_same)

lemma stopped_same [simp]: "ticket_id (stopped env db t) = ticket_id t" "status (stopped env db t) = status t"
  by (simp_all add: stopped_def without_relations_def)

lemma pauseAll_evolves:
  assumes "db_wf db"
  shows "evolves db (snd (pauseAllActiveTickets env tech db))"
proof -
  let ?ts = "map (stopped env db) (filter (pausable tech) (db_tickets db))"
  have "evolves db (save_tickets env ?ts db)"
    by (rule evolves_saves [OF evolves_refl])
      (auto simp: pausable_def finished_def dest: unfinished_own [OF assms] simp: unfinished_def
        dest!: find_own [OF assms])
  then show ?thesis unfolding pauseAll_eq by (simp add: log_each_evolves)
qed

lemma overtime_step_same: "overtime_step env db config t = Inr (Some t')
    \<Longrightarrow> ticket_id t' = ticket_id t \<and> status t' = status t"
  by (auto simp: overtime_step_def dest: applySlaResume_same split: if_splits)

lemma processOvertime_evolves:
  assumes "db_wf db"
  shows "evolves db (snd (processOvertimeSlaSchedule env config db))"
  unfolding processOvertimeSlaSchedule_def
proof (rule batch_evolves [OF assms])
  fix t assume "t \<in> set (map (with_relations db)
      (filter (\<lambda>t. status t = IN_PROGRESS \<and> \<not> isSlaWaiting t) (db_tickets db)))"
  then obtain row where "row \<in> set (db_tickets db)" "status row = IN_PROGRESS" "t = with_relations db row"
    by auto
  then show "\<exists>row \<in> set (db_tickets db). ticket_id t = ticket_id row \<and> status t = status row
      \<and> status row = IN_PROGRESS" by (intro bexI [of _ row]) (simp_all add: with_relations_def)
qed (rule overtime_step_same)

lemma recalculate_each_evolves:
  "(\<And>t. t \<in> set ts \<Longrightarrow> status t = IN_PROGRESS \<and> unfinished d (ticket_id t)) \<Longrightarrow> evolves db d
     \<Longrightarrow> evolves db (snd (recalculate_each env db0 config ts d))"
proof (induction ts arbitrary: d)
  case (Cons t ts)
  show ?case
  proof (cases "adjusted_deadline env db0 config t")
    case (Inr r)
    show ?thesis
    proof (cases r)
      case None
      with Inr Cons show ?thesis by simp
    next
      case (Some v)
      let ?t = "t\<lparr>slaDeadline := Some v\<rparr>"
      let ?d = "logEvent env (ticket_id t) ''sla_deadline_adjusted'' None None None None (save_ticket env ?t d)"
      have "evolves db ?d"
        by (rule evolves_log [OF evolves_work]) (use Cons.prems in auto)
      moreover have "status u = IN_PROGRESS \<and> unfinished ?d (ticket_id u)" if "u \<in> set ts" for u
        using Cons.prems(1) [of u] Cons.prems(1) [of t] that by (simp add: finished_def)
      ultimately have "evolves db (snd (recalculate_each env db0 config ts ?d))" by (rule Cons.IH [rotated])
      with Inr Some show ?thesis by simp
    qed
  qed (simp add: Cons.prems)
qed simp

lemma in_progress_rows:
  assumes "db_wf db" "t \<in> set (map (with_relations db) (filter (\<lambda>t. status t = IN_PROGRESS) (db_tickets db)))"
  shows "status t = IN_PROGRESS \<and> unfinished db (ticket_id t)"
proof -
  from assms(2) obtain row where "row \<in> set (db_tickets db)" "status row = IN_PROGRESS" "t = with_relations db row"
    by auto
  with unfinished_own [OF assms(1), of row] show ?thesis by (simp add: finished_def with_relations_def)
qed

lemma recalculate_evolves: "db_wf db \<Longrightarrow> evolves db (snd (recalculateActiveSlaDeadlines env db))"
  unfolding recalculateActiveSlaDeadlines_def
  by (auto simp: evolves_refl split: option.split simp del: set_map set_filter
      intro!: recalculate_each_evolves in_progress_rows)

section \<open>The scheduled tasks\<close>

lemma processEndOfDayAbsences_evolves:
  assumes "\<And>s. evolves db (snd (sync s db))"
  shows "evolves db (snd (processEndOfDayAbsences env sync config st db))"
proof -
  have f: "evolves db d \<Longrightarrow> evolves db (snd (finish_absences env today s d))" for today s d
    by (simp add: finish_absences_def markMissingAttendanceAsAbsent_def Let_def evolves_frames)
  have "evolves db d" if "synchronise sync s db = (s', d)" for s s' d
    using assms synchronise_db [of sync s db] that by (metis snd_conv)
  then show ?thesis by (simp add: processEndOfDayAbsences_def Let_def f evolves_refl split: prod.split)
qed

lemma processSlaSchedules_evolves:
  assumes "db_wf db"
  shows "evolves db (snd (processSlaSchedules env config db))"
proof -
  note e = processOvertime_evolves [OF assms] resumeAll_evolves [OF assms] resumeCww_evolves [OF assms]
    pauseAll_evolves [OF assms] evolves_refl
  show ?thesis by (simp add: processSlaSchedules_def pause_all_def Let_def e split: schedule_mode.split)
qed

lemma advance_each_evolves:
  "db_wf d \<Longrightarrow> evolves db d \<Longrightarrow> evolves db (snd (snd (advance_each env ts advanced d)))"
proof (induction env ts advanced d rule: advance_each.induct)
  case (2 env t ts advanced d)
  obtain r d' where p: "unpauseNextWaitingTicketAndSetInProgress env (number (assignedToId t)) d = (r, d')"
    by fastforce
  have d': "db_wf d'" "evolves db d'"
    using promotion_wf [OF 2(3), of env "number (assignedToId t)"] p
      evolves_trans [OF 2(4) promotion_evolves [OF 2(3), of env "number (assignedToId t)"]] by simp_all
  show ?case
  proof (cases "\<not> truthy (assignedToId t) \<or> ticket_id t \<in> set advanced")
    case True
    with 2(1) [OF True 2(3,4)] show ?thesis by simp
  next
    case False
    with 2(2) [OF False p [symmetric]] p d' show ?thesis by (cases r) simp_all
  qed
qed simp

lemma processOverdue_evolves:
  assumes "db_wf db"
  shows "evolves db (snd (snd (processOverdueTicketsUnpauseNext env st db)))"
proof -
  have "evolves db d" if "advance_each env ts a db = (r, b, d)" for ts a r b d
    using advance_each_evolves [OF assms evolves_refl, of env ts a] that by simp
  then show ?thesis by (simp add: processOverdueTicketsUnpauseNext_def Let_def split: prod.split)
qed

lemma close_each_evolves: "db_wf d \<Longrightarrow> evolves db d \<Longrightarrow> evolves db (close_each env ts d)"
proof (induction env ts d rule: close_each.induct)
  case (2 env t ts d)
  show ?case unfolding close_each.simps
    by (rule 2(1) [OF updateTicket_wf [OF 2(2)] evolves_trans [OF 2(3) updateTicket_evolves [OF 2(2)]]])
qed simp

lemma automatic_change_evolves:
  assumes "db_wf d" "evolves db d"
  shows "evolves db (automatic_change env t s note d)"
proof -
  obtain r d' where u: "updateTicket env (ticket_id t) (request_status s) (system_actor t) SUPER_ADMIN d = (r, d')"
    by fastforce
  with evolves_trans [OF assms(2) updateTicket_evolves [OF assms(1)]] have "evolves db d'" by (metis snd_conv)
  with u show ?thesis by (simp add: automatic_change_def addComment_evolves split: sum.split)
qed

lemma unpause_each_evolves: "db_wf d \<Longrightarrow> evolves db d \<Longrightarrow> evolves db (snd (unpause_each env config ts d))"
  by (induction env config ts d rule: unpause_each.induct)
    (simp_all add: automatic_change_wf automatic_change_evolves split: sum.split bool.split)

lemma unfreeze_each_evolves: "db_wf d \<Longrightarrow> evolves db d \<Longrightarrow> evolves db (unfreeze_each env ts d)"
  by (induction env ts d rule: unfreeze_each.induct)
    (simp_all add: unfreeze_one_wf unfreeze_one_def automatic_change_wf automatic_change_evolves split: sum.split)

lemma alert_thresholds_evolves: "evolves db d \<Longrightarrow> evolves db (alert_thresholds env n p ks d)"
  by (induction env n p ks d rule: alert_thresholds.induct) (simp_all add: evolves_log)

lemma alert_each_evolves: "evolves db d \<Longrightarrow> evolves db (snd (alert_each env hasEmail config ts d))"
  by (induction env hasEmail config ts d rule: alert_each.induct)
    (simp_all add: alert_thresholds_evolves del: alert_thresholds.simps split: sum.split option.split)

lemma handleHourlyTasks_evolves:
  assumes "db_wf db"
  shows "evolves db (snd (handleHourlyTasks env hasEmail db))"
proof -
  note w = processAutoClosure_wf [OF assms, of env]
  have "evolves db (processAutoClosure env db)"
    unfolding processAutoClosure_def by (rule close_each_evolves [OF assms evolves_refl])
  then have "evolves db (processAutoUnfreeze env (processAutoClosure env db))"
    unfolding processAutoUnfreeze_def by (rule unfreeze_each_evolves [OF w])
  then show ?thesis
    by (simp add: handleHourlyTasks_def processPercentageAlerts_def alert_each_evolves split: option.split)
qed

lemma handleScheduleTasks_evolves:
  assumes "db_wf db" "\<And>s d. db_wf d \<Longrightarrow> db_wf (snd (sync s d)) \<and> evolves d (snd (sync s d))"
  shows "evolves db (snd (snd (handleScheduleTasks env sync st db)))"
proof (cases "db_config db")
  case (Some config)
  obtain st0 db1 where s: "(if dtr_window config (minute_time env) then synchronise sync st db else (st, db))
      = (st0, db1)" by fastforce
  then have eq: "db1 = snd (sync (dtr_state st) db) \<or> db1 = db" by (metis snd_conv synchronise_db)
  have d1: "db_wf db1" "evolves db db1"
    using eq assms(1) assms(2) [OF assms(1)] evolves_refl by auto
  obtain st1 db2 where a: "processEndOfDayAbsences env sync config st0 db1 = (st1, db2)" by fastforce
  have d2: "db_wf db2" "evolves db db2"
    using processEndOfDayAbsences_wf [OF d1(1)] assms(2) [OF d1(1)] a
      evolves_trans [OF d1(2) processEndOfDayAbsences_evolves] by (metis snd_conv)+
  obtain q db3 where p: "and_task (processSlaSchedules env config db2) (processAutoUnpause env) = (q, db3)"
    by fastforce
  have d3: "db_wf db3" "evolves db db3"
  proof -
    obtain q1 da where sch: "processSlaSchedules env config db2 = (q1, da)" by fastforce
    have da: "db_wf da" "evolves db da"
      using processSlaSchedules_wf [OF d2(1), of env config]
        evolves_trans [OF d2(2) processSlaSchedules_evolves [OF d2(1), of env config]] sch by simp_all
    have "db_wf (snd (processAutoUnpause env da))" "evolves db (snd (processAutoUnpause env da))"
      using processAutoUnpause_wf [OF da(1)] unpause_each_evolves [OF da] da
      by (simp_all add: processAutoUnpause_def split: option.split)
    with da p sch show "db_wf db3" "evolves db db3"
      by (auto simp: and_task_def split: sum.splits)
  qed
  have "evolves db (snd (snd (processOverdueTicketsUnpauseNext env st1 db3)))"
    by (rule evolves_trans [OF d3(2) processOverdue_evolves [OF d3(1)]])
  then show ?thesis using Some s a p d3
    by (auto simp: handleScheduleTasks_def split: sum.split)
qed (simp add: handleScheduleTasks_def evolves_refl)

end
