(* ===== verification/AttendanceRecords.thy ===== *)
theory AttendanceRecords
  imports CronFacts
begin

text \<open>
  The attendance records (\<open>attendance.service.ts\<close>): the synchronisation with the clock records of the
  DTR view, the manual decision of an administrator, its withdrawal, and the shift a member of staff
  sees.  A published \<open>attendance.verified\<close> event is delivered as \<open>assignPendingTicketsOnLogin\<close>
  (\<open>TicketService.onModuleInit\<close>).  A row is identified by user and date; who set it and its notes are
  read by nothing and left out.
\<close>

section \<open>Rows\<close>

definition att_key :: "attendance \<Rightarrow> nat \<times> day" where
  "att_key a = (att_userId a, att_date a)"

definition save_attendance :: "attendance \<Rightarrow> db \<Rightarrow> db" where
  "save_attendance a db = db\<lparr>db_attendance := save_row att_key (db_attendance db) a\<rparr>"

section \<open>Synchronising with the clock records\<close>

text \<open>The DTR view has one row per employee for a day.  \<open>dtr_rows\<close> is \<open>None\<close> when the query fails.\<close>

record dtr_record =
  empCode :: string
  workDate :: day
  firstClockInTime :: "date option"

record dtr_view =
  dtr_enabled :: bool
  dtr_rows :: "dtr_record list option"

definition synced_row :: "nat \<Rightarrow> day \<Rightarrow> date \<Rightarrow> attendance option \<Rightarrow> attendance" where
  "synced_row user today clockIn found =
     (case found of
        Some a \<Rightarrow> a\<lparr>clockInTime := Some clockIn, att_status := PRESENT\<rparr>
      | None \<Rightarrow> \<lparr>att_userId = user, att_date = today, att_status = PRESENT, clockInTime = Some clockIn,
          isManualOverride = False\<rparr>)"

text \<open>\<open>None\<close> when the record changes nothing: no clock-in, an unknown employee, a manual decision, or the
  row already says so.\<close>

definition record_arrival :: "db \<Rightarrow> day \<Rightarrow> account list \<Rightarrow> dtr_record \<Rightarrow> attendance option" where
  "record_arrival db today techs r =
     (case (firstClockInTime r, List.find (\<lambda>u. acc_staffId u = empCode r) techs) of
        (Some clockIn, Some tech) \<Rightarrow>
          (case attendance_row db (acc_id tech) today of
             None \<Rightarrow> Some (synced_row (acc_id tech) today clockIn None)
           | Some a \<Rightarrow>
               if isManualOverride a \<or> (clockInTime a = Some clockIn \<and> att_status a = PRESENT) then None
               else Some (synced_row (acc_id tech) today clockIn (Some a)))
      | _ \<Rightarrow> None)"

text \<open>Each arrival is saved and then announced, so the pick-ups run in the order of the clock-ins.\<close>

fun arrivals :: "env \<Rightarrow> day \<Rightarrow> account list \<Rightarrow> dtr_record list \<Rightarrow> db \<Rightarrow> db" where
  "arrivals env today techs [] db = db"
| "arrivals env today techs (r # rs) db =
     arrivals env today techs rs
       (case record_arrival db today techs r of
          None \<Rightarrow> db
        | Some a \<Rightarrow> assignPendingTicketsOnLoginInternal env (att_userId a) (save_attendance a db))"

definition chronological :: "dtr_record list \<Rightarrow> dtr_record list" where
  "chronological rs = sort_key (\<lambda>r. case firstClockInTime r of Some t \<Rightarrow> t | None \<Rightarrow> 0) rs"

definition todays_records :: "day \<Rightarrow> account list \<Rightarrow> dtr_record list \<Rightarrow> dtr_record list" where
  "todays_records today techs rs =
     filter (\<lambda>r. workDate r = today \<and> empCode r \<in> acc_staffId ` set techs) rs"

definition syncAttendanceWithDTR :: "env \<Rightarrow> dtr_view \<Rightarrow> dtr_status \<Rightarrow> db \<Rightarrow> dtr_status \<times> db" where
  "syncAttendanceWithDTR env view dtr db =
     (let today = env_today env; techs = eligible_staff env db
      in if \<not> dtr_enabled view then (dtr\<lparr>dtr_isOnline := False\<rparr>, db)
         else if techs = [] then (dtr, db)
         else (case dtr_rows view of
             None \<Rightarrow> (dtr\<lparr>dtr_isOnline := False\<rparr>, db)
           | Some rs \<Rightarrow> (dtr\<lparr>dtr_isOnline := True, lastSuccessfulSyncDate := Some today\<rparr>,
               arrivals env today techs (chronological (todays_records today techs rs)) db)))"

section \<open>Manual decisions\<close>

record attendance_dto =
  set_userId :: nat
  set_date :: day
  set_status :: attendance_status
  set_clockInTime :: "iso_date option"

definition attendance_day_guard :: "env \<Rightarrow> day \<Rightarrow> http_error option" where
  "attendance_day_guard env d = first_error [
     (d < env_today env, BadRequest (Attendance PastAttendance)),
     (env_today env < d, BadRequest (Attendance FutureAttendance))]"

definition manage_guard :: "env \<Rightarrow> user_role option \<Rightarrow> http_error option" where
  "manage_guard env role = (case role of
     Some r \<Rightarrow> if isAttendanceManage (env_caps env) r then None else Some (Forbidden (Attendance AttendanceManage))
   | None \<Rightarrow> None)"

text \<open>An empty \<open>clockInTime\<close> is not a date and clears the clock-in.\<close>

definition decided_row :: "attendance_dto \<Rightarrow> attendance option \<Rightarrow> attendance" where
  "decided_row dto found =
     (case found of
        Some a \<Rightarrow> a\<lparr>att_status := set_status dto, isManualOverride := True,
          clockInTime := (case set_clockInTime dto of None \<Rightarrow> clockInTime a | Some t \<Rightarrow> date_parse t)\<rparr>
      | None \<Rightarrow> \<lparr>att_userId = set_userId dto, att_date = set_date dto, att_status = set_status dto,
          clockInTime = (case set_clockInTime dto of None \<Rightarrow> None | Some t \<Rightarrow> date_parse t),
          isManualOverride = True\<rparr>)"

definition set_checks :: "env \<Rightarrow> attendance_dto \<Rightarrow> user_role option \<Rightarrow> unit result" where
  "set_checks env dto role =
     guarded (first_error [(set_userId dto = 0, BadRequest (Attendance AttendanceFields))])
       (guarded (attendance_day_guard env (set_date dto)) (guarded (manage_guard env role) (Inr ())))"

text \<open>An unavailable technician keeps the tickets: \<open>attendance.unavailable\<close> has no subscriber.\<close>

definition setAttendance :: "env \<Rightarrow> attendance_dto \<Rightarrow> user_role option \<Rightarrow> db \<Rightarrow> attendance result \<times> db" where
  "setAttendance env dto role db =
     (case set_checks env dto role of
        Inl e \<Rightarrow> (Inl e, db)
      | Inr _ \<Rightarrow>
          let a = decided_row dto (attendance_row db (set_userId dto) (set_date dto));
              db' = save_attendance a db
          in (Inr a, if set_status dto = PRESENT
                     then assignPendingTicketsOnLoginInternal env (set_userId dto) db' else db'))"

definition deleteAttendance :: "nat \<Rightarrow> day \<Rightarrow> db \<Rightarrow> db" where
  "deleteAttendance user d db =
     (case attendance_row db user d of
        None \<Rightarrow> db
      | Some a \<Rightarrow> db\<lparr>db_attendance := remove1 a (db_attendance db)\<rparr>)"

definition dtr_clock_in :: "dtr_view \<Rightarrow> day \<Rightarrow> string \<Rightarrow> date result" where
  "dtr_clock_in view d code =
     (case dtr_rows view of
        None \<Rightarrow> Inl InternalServerError
      | Some rs \<Rightarrow>
          (case List.find (\<lambda>r. workDate r = d \<and> empCode r = code) rs of
             None \<Rightarrow> Inl (BadRequest (Attendance NoClockIn))
           | Some r \<Rightarrow> (case firstClockInTime r of
               None \<Rightarrow> Inl (BadRequest (Attendance NoClockIn)) | Some t \<Rightarrow> Inr t)))"

definition restore_checks ::
  "env \<Rightarrow> dtr_view \<Rightarrow> dtr_status \<Rightarrow> nat \<Rightarrow> day \<Rightarrow> user_role option \<Rightarrow> db \<Rightarrow> (attendance \<times> date) result" where
  "restore_checks env view dtr user d role db =
     guarded (first_error [(d \<noteq> env_today env, BadRequest (Attendance RestoreToday))])
    (guarded (manage_guard env role)
      (case attendance_row db user d of
         None \<Rightarrow> Inl (NotFound (Attendance AttendanceNotFound))
       | Some a \<Rightarrow>
           guarded (first_error [
             (\<not> isManualOverride a, BadRequest (Attendance AlreadyDtr)),
             (\<not> dtr_isOnline dtr, BadRequest (Attendance DtrOffline))])
          (case List.find (\<lambda>u. acc_id u = user \<and> acc_active u) (db_users db) of
             None \<Rightarrow> Inl (BadRequest (Attendance NoEmployeeCode))
           | Some u \<Rightarrow>
               if acc_staffId u = [] then Inl (BadRequest (Attendance NoEmployeeCode))
               else and_then (dtr_clock_in view d (acc_staffId u)) (\<lambda>t. Inr (a, t)))))"

definition restored_row :: "attendance \<Rightarrow> date \<Rightarrow> attendance" where
  "restored_row a t = a\<lparr>att_status := PRESENT, clockInTime := Some t, isManualOverride := False\<rparr>"

definition restoreAttendanceFromDtr ::
  "env \<Rightarrow> dtr_view \<Rightarrow> dtr_status \<Rightarrow> nat \<Rightarrow> day \<Rightarrow> user_role option \<Rightarrow> db \<Rightarrow> attendance result \<times> db" where
  "restoreAttendanceFromDtr env view dtr user d role db =
     (case restore_checks env view dtr user d role db of
        Inl e \<Rightarrow> (Inl e, db)
      | Inr (a, t) \<Rightarrow> (Inr (restored_row a t),
          assignPendingTicketsOnLoginInternal env user (save_attendance (restored_row a t) db)))"

section \<open>Reports\<close>

definition getNonAttendantStaff :: "db \<Rightarrow> day \<Rightarrow> account list" where
  "getNonAttendantStaff db d =
     (if isOvertimeDay (db_officeDays db) d then []
      else filter (\<lambda>u. \<not> list_ex (\<lambda>a. att_userId a = acc_id u \<and> att_date a = d
               \<and> att_status a \<in> {PRESENT, HALF_DAY}) (db_attendance db))
             (filter (\<lambda>u. acc_active u \<and> acc_role u \<noteq> USER) (db_users db)))"

definition getStaffLoginsMonthly :: "env \<Rightarrow> db \<Rightarrow> account list" where
  "getStaffLoginsMonthly env db =
     filter (\<lambda>u. acc_role u \<noteq> SUPER_ADMIN \<and> acc_role u \<noteq> USER
         \<and> \<not> (has_capability (env_caps env) CapDesktop (acc_role u)
              \<or> has_capability (env_caps env) CapItSupport (acc_role u)
              \<or> has_capability (env_caps env) CapPantawidIct (acc_role u)))
       (filter acc_active (db_users db))"

record shift =
  sh_clockIn :: "date option"
  sh_clockOut :: "date option"
  sh_status :: "attendance_status option"

text \<open>\<open>setHours(h, m, 0, 0)\<close> on a date of the Manila day \<open>d\<close>.\<close>

definition at_minute :: "day \<Rightarrow> clock \<Rightarrow> date" where
  "at_minute d c = createManilaDate d (Clock (clock_hh c) (clock_mm c) 0)"

definition config_clock :: "db \<Rightarrow> (ticketing_config \<Rightarrow> clock) \<Rightarrow> clock \<Rightarrow> clock" where
  "config_clock db f fallback = (case db_config db of Some c \<Rightarrow> f c | None \<Rightarrow> fallback)"

definition shift_end :: "env \<Rightarrow> db \<Rightarrow> date \<Rightarrow> date" where
  "shift_end env db clockIn =
     (let d = getManilaDateString clockIn
      in if (case db_config db of Some c \<Rightarrow> scheduleMode c = CWW | None \<Rightarrow> False)
         then if clockIn < at_minute d (config_clock db cwwClockinStart (Clock 7 0 0))
              then at_minute d (config_clock db cwwClockoutStart (Clock 18 0 0))
              else if clockIn \<le> at_minute d (config_clock db cwwClockinEnd (Clock 8 0 0))
              then clockIn + 11 * 3600 * 1000
              else at_minute d (config_clock db cwwClockoutEnd (Clock 19 0 0))
         else at_minute (env_today env) (config_clock db officeClockout (Clock 17 0 0)))"

definition getMyShift :: "env \<Rightarrow> db \<Rightarrow> nat \<Rightarrow> shift" where
  "getMyShift env db user =
     (case attendance_row db user (env_today env) of
        None \<Rightarrow> \<lparr>sh_clockIn = None, sh_clockOut = None, sh_status = None\<rparr>
      | Some a \<Rightarrow>
          (case clockInTime a of
             None \<Rightarrow> \<lparr>sh_clockIn = None, sh_clockOut = None, sh_status = Some (att_status a)\<rparr>
           | Some t \<Rightarrow> \<lparr>sh_clockIn = Some t, sh_clockOut = Some (shift_end env db t),
               sh_status = Some (att_status a)\<rparr>))"

section \<open>Laws\<close>

lemma attendance_row_find: "attendance_row db user d = find_row att_key (db_attendance db) (user, d)"
  by (simp add: attendance_row_def find_row_def att_key_def)

lemma attendance_row_save:
  "attendance_row (save_attendance a db) user d =
     (if att_userId a = user \<and> att_date a = d then Some a else attendance_row db user d)"
proof (cases "att_key a = (user, d)")
  case True
  then show ?thesis using find_row_save_same [of att_key "db_attendance db" a]
    by (simp add: attendance_row_find save_attendance_def) (simp add: att_key_def)
next
  case False
  then have "find_row att_key (save_row att_key (db_attendance db) a) (user, d)
      = find_row att_key (db_attendance db) (user, d)" by (intro find_row_save_other) simp
  with False show ?thesis by (auto simp: attendance_row_find save_attendance_def att_key_def)
qed

lemma save_attendance_frame [simp]:
  "db_wf (save_attendance a db) = db_wf db" "db_tickets (save_attendance a db) = db_tickets db"
  "db_events (save_attendance a db) = db_events db" "db_overrides (save_attendance a db) = db_overrides db"
  by (simp_all add: db_wf_def db_ok_def save_attendance_def)

lemma login_attendance [simp]:
  "db_attendance (assignPendingTicketsOnLoginInternal env tech db) = db_attendance db"
  by (cases rule: login_cases [of env tech db]) (simp_all add: save_ticket_def logEvent_def)

lemma attendance_row_login [simp]:
  "attendance_row (assignPendingTicketsOnLoginInternal env tech db) user d = attendance_row db user d"
  by (simp add: attendance_row_def)

lemma attendance_row_Some:
  "attendance_row db user d = Some a \<Longrightarrow> att_userId a = user \<and> att_date a = d"
  by (auto simp: attendance_row_def find_Some_iff)

text \<open>A stored arrival: whose row it writes, and what it replaces.\<close>

lemma record_arrival_Some:
  assumes "record_arrival db today techs r = Some a"
  obtains tech t where "firstClockInTime r = Some t" "tech \<in> set techs" "acc_staffId tech = empCode r"
    "att_userId a = acc_id tech" "att_date a = today" "att_status a = PRESENT" "clockInTime a = Some t"
    "\<And>old. attendance_row db (acc_id tech) today = Some old \<Longrightarrow> \<not> isManualOverride old"
    "\<not> isManualOverride a"
proof -
  from assms obtain t where t: "firstClockInTime r = Some t"
    by (cases "firstClockInTime r") (simp_all add: record_arrival_def)
  from assms t obtain tech where f: "List.find (\<lambda>u. acc_staffId u = empCode r) techs = Some tech"
    by (cases "List.find (\<lambda>u. acc_staffId u = empCode r) techs") (simp_all add: record_arrival_def)
  then have m: "tech \<in> set techs" "acc_staffId tech = empCode r" by (auto simp: find_Some_iff)
  show ?thesis
  proof (cases "attendance_row db (acc_id tech) today")
    case None
    with assms t f show ?thesis by (intro that [OF t m]) (auto simp: record_arrival_def synced_row_def)
  next
    case (Some old)
    with attendance_row_Some [OF Some] assms t f show ?thesis
      by (intro that [OF t m]) (auto simp: record_arrival_def synced_row_def split: if_splits)
  qed
qed

text \<open>A manual decision survives every synchronisation, and other days are never touched.\<close>

lemma arrivals_manual:
  "attendance_row db user d = Some a \<Longrightarrow> isManualOverride a
     \<Longrightarrow> attendance_row (arrivals env today techs rs db) user d = Some a"
proof (induction rs arbitrary: db)
  case (Cons r rs)
  show ?case
  proof (cases "record_arrival db today techs r")
    case None
    with Cons show ?thesis by simp
  next
    case (Some b)
    from Some have "\<not> (att_userId b = user \<and> att_date b = d)"
      by (rule record_arrival_Some) (use Cons.prems in auto)
    then have "attendance_row (assignPendingTicketsOnLoginInternal env (att_userId b) (save_attendance b db)) user d
        = Some a" using Cons.prems(1) by (auto simp: attendance_row_save)
    from Cons.IH [OF this Cons.prems(2)] Some show ?thesis by simp
  qed
qed simp

lemma arrivals_other_day:
  "d \<noteq> today \<Longrightarrow> attendance_row (arrivals env today techs rs db) user d = attendance_row db user d"
proof (induction rs arbitrary: db)
  case (Cons r rs)
  show ?case
  proof (cases "record_arrival db today techs r")
    case None
    with Cons show ?thesis by simp
  next
    case (Some b)
    from Some have "att_date b = today" by (rule record_arrival_Some)
    with Some Cons show ?thesis by (simp add: attendance_row_save)
  qed
qed simp

lemma sync_manual:
  assumes "attendance_row db user d = Some a" "isManualOverride a"
  shows "attendance_row (snd (syncAttendanceWithDTR env view dtr db)) user d = Some a"
  using assms by (simp add: syncAttendanceWithDTR_def Let_def arrivals_manual split: option.split)

lemma sync_other_day:
  "d \<noteq> env_today env \<Longrightarrow>
     attendance_row (snd (syncAttendanceWithDTR env view dtr db)) user d = attendance_row db user d"
  by (simp add: syncAttendanceWithDTR_def Let_def arrivals_other_day split: option.split)

lemma setAttendance_stored:
  assumes "setAttendance env dto role db = (Inr a, db')"
  shows "attendance_row db' (set_userId dto) (set_date dto) = Some a" "att_status a = set_status dto"
    "isManualOverride a" "set_date dto = env_today env"
    "\<And>user d. (user, d) \<noteq> (set_userId dto, set_date dto) \<Longrightarrow> attendance_row db' user d = attendance_row db user d"
proof -
  let ?a = "decided_row dto (attendance_row db (set_userId dto) (set_date dto))"
  have a: "a = ?a" and db': "db' = (if set_status dto = PRESENT
      then assignPendingTicketsOnLoginInternal env (set_userId dto) (save_attendance ?a db) else save_attendance ?a db)"
    using assms by (auto simp: setAttendance_def Let_def split: sum.splits)
  have k: "att_userId ?a = set_userId dto" "att_date ?a = set_date dto"
    by (cases "attendance_row db (set_userId dto) (set_date dto)";
        auto simp: decided_row_def dest: attendance_row_Some)+
  have row: "attendance_row db' user d = attendance_row (save_attendance ?a db) user d" for user d
    unfolding db' by simp
  show "attendance_row db' (set_userId dto) (set_date dto) = Some a"
    unfolding row a attendance_row_save using k by simp
  show "att_status a = set_status dto" "isManualOverride a"
    unfolding a by (simp_all add: decided_row_def split: option.split)
  show "set_date dto = env_today env"
    using assms by (auto simp: setAttendance_def set_checks_def attendance_day_guard_def guarded_Inr_iff
        split: sum.splits if_splits)
  show "attendance_row db' user d = attendance_row db user d" if "(user, d) \<noteq> (set_userId dto, set_date dto)" for user d
    unfolding row attendance_row_save using k that by auto
qed

lemma attendance_wf:
  assumes "db_wf db"
  shows "db_wf (snd (syncAttendanceWithDTR env view dtr db))" "db_wf (snd (setAttendance env dto role db))"
    "db_wf (deleteAttendance user d db)" "db_wf (snd (restoreAttendanceFromDtr env view dtr user d role db))"
proof -
  have arr: "db_wf db \<Longrightarrow> db_wf (arrivals env today techs rs db)" for today techs rs db
    by (induction rs arbitrary: db) (simp_all add: login_wf split: option.split)
  show "db_wf (snd (syncAttendanceWithDTR env view dtr db))"
    using assms by (simp add: syncAttendanceWithDTR_def Let_def arr split: option.split)
  show "db_wf (snd (setAttendance env dto role db))"
    using assms by (simp add: setAttendance_def Let_def login_wf split: sum.split)
  show "db_wf (deleteAttendance user d db)"
    using assms by (simp add: deleteAttendance_def db_wf_def db_ok_def split: option.split)
  show "db_wf (snd (restoreAttendanceFromDtr env view dtr user d role db))"
    using assms by (simp add: restoreAttendanceFromDtr_def login_wf split: sum.split prod.split)
qed

end
