(* ===== verification/System.thy ===== *)
theory System
  imports History AttendanceRecords
begin

text \<open>
  The ticketing service as one transition system: a request of a client, the minute and the hour of the
  scheduler, and the changes the rest of the platform makes to the accounts, the configuration and the
  calendar.  Requests that touch the same ticket are serialised by the service's locks, so a step is one
  whole handler.
\<close>

section \<open>Requests\<close>

datatype (plugins only: code) request =
    CreateTicket bool create_dto nat "user_role option" "(string \<times> upload) list"
  | UpdateTicket nat update_dto nat user_role
  | AssignTicket nat assign_dto user_role "nat option" "(ticket_type \<times> day) option"
  | ClaimOvertimeTicket nat nat user_role
  | ReassignAlertTickets bool nat nat user_role
  | EscalateTicket nat escalate_dto "(string \<times> upload) list" nat user_role
  | AcceptEscalation nat nat nat
  | ReturnEscalation nat nat "string option" nat
  | UpdateEscalationProof nat nat "string option" "(string \<times> upload) list" nat
  | CancelTicket nat cancel_dto nat
  | AddComment nat comment_dto nat user_role "(string \<times> upload) list" bool
  | ReplaceCommentImage nat nat string string "upload option" nat
  | CorrectRequester nat requester_dto nat user_role
  | CorrectAssignee nat assignee_dto nat user_role
  | OverrideResolutionTime nat override_dto "(string \<times> upload) list" nat user_role
  | SubmitSatisfaction nat satisfaction_dto nat
  | MarkViewed nat nat user_role
  | SetAttendance attendance_dto "user_role option"
  | DeleteAttendance nat day
  | RestoreAttendance dtr_view nat day "user_role option"
  | RecalculateDeadlines

fun perform :: "env \<Rightarrow> dtr_status \<Rightarrow> request \<Rightarrow> db \<Rightarrow> db" where
  "perform env dtr (CreateTicket udb dto caller role images) db =
     snd (createTicketInternal env udb dto caller role images db)"
| "perform env dtr (UpdateTicket n dto actor role) db = snd (updateTicket env n dto actor role db)"
| "perform env dtr (AssignTicket n dto role actor pool) db = snd (assignTicketInternal env n dto role actor pool db)"
| "perform env dtr (ClaimOvertimeTicket n user role) db = snd (claimOvertimeTicket env n user role db)"
| "perform env dtr (ReassignAlertTickets current user actor role) db =
     snd (autoReassignAttendanceAlertTickets env current user actor role db)"
| "perform env dtr (EscalateTicket n dto proofs actor role) db =
     snd (escalateTicketInternal env n dto proofs actor role db)"
| "perform env dtr (AcceptEscalation n eid actor) db = snd (acceptEscalationInternal env n eid actor db)"
| "perform env dtr (ReturnEscalation n eid why actor) db = snd (returnEscalationInternal env n eid why actor db)"
| "perform env dtr (UpdateEscalationProof n eid notes proofs actor) db =
     snd (updateEscalationProof env n eid notes proofs actor db)"
| "perform env dtr (CancelTicket n dto actor) db = snd (cancelTicket env n dto actor db)"
| "perform env dtr (AddComment n dto actor role files trusted) db =
     snd (addComment env n dto actor role files trusted db)"
| "perform env dtr (ReplaceCommentImage n cid path uuid file actor) db =
     snd (replaceCommentImage env n cid path uuid file actor db)"
| "perform env dtr (CorrectRequester n dto actor role) db = snd (correctTicketRequester env n dto actor role db)"
| "perform env dtr (CorrectAssignee n dto actor role) db = snd (correctTicketAssignee env n dto actor role db)"
| "perform env dtr (OverrideResolutionTime n dto proofs actor role) db =
     snd (overrideResolutionTime env n dto proofs actor role db)"
| "perform env dtr (SubmitSatisfaction n dto requester) db = snd (submitSatisfaction env n dto requester db)"
| "perform env dtr (MarkViewed n viewer role) db = snd (markTicketViewed env n viewer role db)"
| "perform env dtr (SetAttendance dto role) db = snd (setAttendance env dto role db)"
| "perform env dtr (DeleteAttendance user d) db = deleteAttendance user d db"
| "perform env dtr (RestoreAttendance view user d role) db =
     snd (restoreAttendanceFromDtr env view dtr user d role db)"
| "perform env dtr RecalculateDeadlines db = snd (recalculateActiveSlaDeadlines env db)"

lemma perform_wf: "db_wf db \<Longrightarrow> db_wf (perform env dtr q db)"
  by (cases q) (simp_all only: perform.simps createTicket_wf updateTicket_wf assignTicketInternal_wf
    claimOvertimeTicket_wf autoReassign_wf escalate_wf accept_wf return_wf updateEscalationProof_wf cancelTicket_wf
    addComment_wf replaceCommentImage_wf correctTicketRequester_wf correctTicketAssignee_wf
    overrideResolutionTime_wf submitSatisfaction_wf markTicketViewed_wf attendance_wf
    recalculateActiveSlaDeadlines_wf)

text \<open>The error a request is answered with.\<close>

definition failure :: "'a result \<Rightarrow> http_error option" where
  "failure r = (case r of Inl e \<Rightarrow> Some e | Inr _ \<Rightarrow> None)"

fun refusal :: "env \<Rightarrow> dtr_status \<Rightarrow> request \<Rightarrow> db \<Rightarrow> http_error option" where
  "refusal env dtr (CreateTicket udb dto caller role images) db =
     failure (fst (createTicketInternal env udb dto caller role images db))"
| "refusal env dtr (UpdateTicket n dto actor role) db = failure (fst (updateTicket env n dto actor role db))"
| "refusal env dtr (AssignTicket n dto role actor pool) db =
     failure (fst (assignTicketInternal env n dto role actor pool db))"
| "refusal env dtr (ClaimOvertimeTicket n user role) db = failure (fst (claimOvertimeTicket env n user role db))"
| "refusal env dtr (ReassignAlertTickets current user actor role) db =
     failure (fst (autoReassignAttendanceAlertTickets env current user actor role db))"
| "refusal env dtr (EscalateTicket n dto proofs actor role) db =
     failure (fst (escalateTicketInternal env n dto proofs actor role db))"
| "refusal env dtr (AcceptEscalation n eid actor) db = failure (fst (acceptEscalationInternal env n eid actor db))"
| "refusal env dtr (ReturnEscalation n eid why actor) db =
     failure (fst (returnEscalationInternal env n eid why actor db))"
| "refusal env dtr (UpdateEscalationProof n eid notes proofs actor) db =
     failure (fst (updateEscalationProof env n eid notes proofs actor db))"
| "refusal env dtr (CancelTicket n dto actor) db = failure (fst (cancelTicket env n dto actor db))"
| "refusal env dtr (AddComment n dto actor role files trusted) db =
     failure (fst (addComment env n dto actor role files trusted db))"
| "refusal env dtr (ReplaceCommentImage n cid path uuid file actor) db =
     failure (fst (replaceCommentImage env n cid path uuid file actor db))"
| "refusal env dtr (CorrectRequester n dto actor role) db =
     failure (fst (correctTicketRequester env n dto actor role db))"
| "refusal env dtr (CorrectAssignee n dto actor role) db =
     failure (fst (correctTicketAssignee env n dto actor role db))"
| "refusal env dtr (OverrideResolutionTime n dto proofs actor role) db =
     failure (fst (overrideResolutionTime env n dto proofs actor role db))"
| "refusal env dtr (SubmitSatisfaction n dto requester) db =
     failure (fst (submitSatisfaction env n dto requester db))"
| "refusal env dtr (MarkViewed n viewer role) db = failure (fst (markTicketViewed env n viewer role db))"
| "refusal env dtr (SetAttendance dto role) db = failure (fst (setAttendance env dto role db))"
| "refusal env dtr (DeleteAttendance user d) db = None"
| "refusal env dtr (RestoreAttendance view user d role) db =
     failure (fst (restoreAttendanceFromDtr env view dtr user d role db))"
| "refusal env dtr RecalculateDeadlines db = failure (fst (recalculateActiveSlaDeadlines env db))"

text \<open>The requests whose writes come after every check: an error leaves the tables as they were.  The others
  read a view after their commit, or save a justification, a pushed-back queue or a decision first.\<close>

fun checks_first :: "request \<Rightarrow> bool" where
  "checks_first (CreateTicket udb dto caller role images) = True"
| "checks_first (EscalateTicket n dto proofs actor role) = True"
| "checks_first (ReturnEscalation n eid why actor) = True"
| "checks_first (UpdateEscalationProof n eid notes proofs actor) = True"
| "checks_first (CancelTicket n dto actor) = True"
| "checks_first (AddComment n dto actor role files trusted) = True"
| "checks_first (ReplaceCommentImage n cid path uuid file actor) = True"
| "checks_first (SubmitSatisfaction n dto requester) = True"
| "checks_first (SetAttendance dto role) = True"
| "checks_first (RestoreAttendance view user d role) = True"
| "checks_first _ = False"

lemma failure_Some: "failure r = Some e \<longleftrightarrow> r = Inl e"
  by (cases r) (simp_all add: failure_def)

lemma failed_requests_frame:
  "fst (createTicketInternal env udb dto caller crole images db) = Inl e
     \<Longrightarrow> snd (createTicketInternal env udb dto caller crole images db) = db"
  "fst (escalateTicketInternal env n edto proofs actor role db) = Inl e
     \<Longrightarrow> snd (escalateTicketInternal env n edto proofs actor role db) = db"
  "fst (returnEscalationInternal env n eid why actor db) = Inl e
     \<Longrightarrow> snd (returnEscalationInternal env n eid why actor db) = db"
  "fst (updateEscalationProof env n eid notes proofs actor db) = Inl e
     \<Longrightarrow> snd (updateEscalationProof env n eid notes proofs actor db) = db"
  "fst (cancelTicket env n cdto actor db) = Inl e \<Longrightarrow> snd (cancelTicket env n cdto actor db) = db"
  "fst (addComment env n adto actor role proofs trusted db) = Inl e
     \<Longrightarrow> snd (addComment env n adto actor role proofs trusted db) = db"
  "fst (replaceCommentImage env n cid path uuid file actor db) = Inl e
     \<Longrightarrow> snd (replaceCommentImage env n cid path uuid file actor db) = db"
  "fst (submitSatisfaction env n sdto requester db) = Inl e
     \<Longrightarrow> snd (submitSatisfaction env n sdto requester db) = db"
  "fst (setAttendance env tdto orole db) = Inl e \<Longrightarrow> snd (setAttendance env tdto orole db) = db"
  "fst (restoreAttendanceFromDtr env view dtr user d orole db) = Inl e
     \<Longrightarrow> snd (restoreAttendanceFromDtr env view dtr user d orole db) = db"
proof -
  show "snd (createTicketInternal env udb dto caller crole images db) = db"
    if "fst (createTicketInternal env udb dto caller crole images db) = Inl e"
    using that by (simp add: createTicketInternal_def split: sum.splits prod.splits)
  show "snd (escalateTicketInternal env n edto proofs actor role db) = db"
    if "fst (escalateTicketInternal env n edto proofs actor role db) = Inl e"
    by (cases rule: escalate_cases [OF prod.collapse [symmetric], of env n edto proofs actor role db])
      (use that in simp_all)
  show "snd (returnEscalationInternal env n eid why actor db) = db"
    if "fst (returnEscalationInternal env n eid why actor db) = Inl e"
    by (cases rule: return_cases [OF prod.collapse [symmetric], of env n eid why actor db]) (use that in simp_all)
  show "snd (updateEscalationProof env n eid notes proofs actor db) = db"
    if "fst (updateEscalationProof env n eid notes proofs actor db) = Inl e"
    using that by (simp add: updateEscalationProof_def split: option.splits sum.splits)
  show "snd (cancelTicket env n cdto actor db) = db" if "fst (cancelTicket env n cdto actor db) = Inl e"
    by (cases rule: cancelTicket_cases [OF prod.collapse [symmetric], of env n cdto actor db])
      (use that in simp_all)
  show "snd (addComment env n adto actor role proofs trusted db) = db"
    if "fst (addComment env n adto actor role proofs trusted db) = Inl e"
    by (cases rule: addComment_cases [OF prod.collapse [symmetric], of env n adto actor role proofs trusted db])
      (use that in simp_all)
  show "snd (replaceCommentImage env n cid path uuid file actor db) = db"
    if "fst (replaceCommentImage env n cid path uuid file actor db) = Inl e"
    using that by (simp add: replaceCommentImage_def split: option.splits sum.splits)
  show "snd (submitSatisfaction env n sdto requester db) = db"
    if "fst (submitSatisfaction env n sdto requester db) = Inl e"
    by (cases rule: submitSatisfaction_cases [OF prod.collapse [symmetric], of env n sdto requester db])
      (use that in simp_all)
  show "snd (setAttendance env tdto orole db) = db" if "fst (setAttendance env tdto orole db) = Inl e"
    using that by (simp add: setAttendance_def Let_def split: sum.splits)
  show "snd (restoreAttendanceFromDtr env view dtr user d orole db) = db"
    if "fst (restoreAttendanceFromDtr env view dtr user d orole db) = Inl e"
    using that by (simp add: restoreAttendanceFromDtr_def split: sum.splits prod.splits)
qed

lemma refused_frame: "checks_first q \<Longrightarrow> refusal env dtr q db = Some e \<Longrightarrow> perform env dtr q db = db"
  by (cases q) (simp_all add: failure_Some failed_requests_frame)

section \<open>Attendance adds no history\<close>

lemma arrivals_evolves: "db_wf d \<Longrightarrow> evolves db d \<Longrightarrow> evolves db (arrivals env today techs rs d)"
proof (induction rs arbitrary: d)
  case (Cons r rs)
  show ?case
  proof (cases "record_arrival d today techs r")
    case (Some a)
    have "evolves db (save_attendance a d)" by (rule evolves_same_tickets [OF Cons.prems(2)]) simp_all
    moreover have "db_wf (save_attendance a d)" using Cons.prems(1) by simp
    ultimately show ?thesis
      using Some Cons.IH login_wf evolves_trans [OF _ login_evolves] by simp
  qed (use Cons in simp)
qed simp

lemma sync_evolves: "db_wf db \<Longrightarrow> evolves db (snd (syncAttendanceWithDTR env view dtr db))"
  by (simp add: syncAttendanceWithDTR_def Let_def evolves_refl arrivals_evolves split: option.split)

lemma save_attendance_evolves: "evolves db (save_attendance a db)"
  by (rule evolves_same_tickets [OF evolves_refl]) simp_all

lemma pick_up_after: "db_wf db \<Longrightarrow> evolves db (assignPendingTicketsOnLoginInternal env u (save_attendance a db))"
  by (rule evolves_trans [OF save_attendance_evolves login_evolves]) simp

lemma attendance_evolves:
  assumes "db_wf db"
  shows "evolves db (snd (setAttendance env dto role db))" "evolves db (deleteAttendance user d db)"
    "evolves db (snd (restoreAttendanceFromDtr env view dtr user d role db))"
proof -
  show "evolves db (snd (setAttendance env dto role db))"
    using assms by (simp add: setAttendance_def Let_def pick_up_after save_attendance_evolves evolves_refl split: sum.split)
  show "evolves db (deleteAttendance user d db)"
    by (cases "attendance_row db user d")
      (auto simp: deleteAttendance_def intro: evolves_refl evolves_same_tickets [OF evolves_refl])
  show "evolves db (snd (restoreAttendanceFromDtr env view dtr user d role db))"
    using assms by (simp add: restoreAttendanceFromDtr_def pick_up_after evolves_refl split: sum.split prod.split)
qed

lemma perform_evolves: "db_wf db \<Longrightarrow> fresh_id env db \<Longrightarrow> evolves db (perform env dtr q db)"
  by (cases q) (simp_all only: perform.simps createTicket_evolves updateTicket_evolves
    assignTicketInternal_evolves claimOvertimeTicket_evolves autoReassign_evolves escalate_evolves
    accept_evolves return_evolves updateEscalationProof_evolves cancelTicket_evolves
    addComment_evolves [OF evolves_refl] replaceCommentImage_evolves correctTicketRequester_evolves
    correctTicketAssignee_evolves overrideResolutionTime_evolves submitSatisfaction_evolves
    markTicketViewed_evolves attendance_evolves recalculate_evolves)

section \<open>Steps\<close>

text \<open>What the other services change: everything but the tickets and what belongs to them.\<close>

definition same_work :: "db \<Rightarrow> db \<Rightarrow> bool" where
  "same_work db db' \<longleftrightarrow> db_tickets db' = db_tickets db \<and> db_escalations db' = db_escalations db
     \<and> db_events db' = db_events db \<and> db_overrides db' = db_overrides db"

lemma same_work_wf: "same_work db db' \<Longrightarrow> db_wf db' = db_wf db"
  by (simp add: same_work_def db_wf_def db_ok_def)

lemma same_work_evolves: "same_work db db' \<Longrightarrow> evolves db db'"
  by (rule evolves_same_tickets [OF evolves_refl]) (simp_all add: same_work_def)

type_synonym system = "cron_state \<times> db"

inductive step :: "system \<Rightarrow> system \<Rightarrow> bool" where
  request: "fresh_id env db \<Longrightarrow> step (st, db) (st, perform env (dtr_state st) q db)"
| minute: "handleScheduleTasks env (syncAttendanceWithDTR env view) st db = (r, st', db') \<Longrightarrow> step (st, db) (st', db')"
| hour: "handleHourlyTasks env hasEmail db = (r, db') \<Longrightarrow> step (st, db) (st, db')"
| platform: "same_work db db' \<Longrightarrow> step (st, db) (st, db')"

inductive_cases stepE: "step (st, db) (st', db')"

inductive_simps step_pair: "step (st, db) s'"

lemma step_wf:
  assumes "step s s'" "db_wf (snd s)"
  shows "db_wf (snd s')"
  using assms
proof (cases rule: step.cases)
  case (minute env view st db r st' db')
  with assms(2) handleScheduleTasks_wf [of db "syncAttendanceWithDTR env view" env st] attendance_wf(1)
  show ?thesis by simp
next
  case (hour env hasEmail db r db' st)
  with assms(2) handleHourlyTasks_wf [of db env hasEmail] show ?thesis by simp
qed (simp_all add: perform_wf same_work_wf)

lemma step_evolves:
  assumes "step s s'" "db_wf (snd s)"
  shows "evolves (snd s) (snd s')"
  using assms
proof (cases rule: step.cases)
  case (minute env view st db r st' db')
  with assms(2) handleScheduleTasks_evolves [of db "syncAttendanceWithDTR env view" env st]
    attendance_wf(1) sync_evolves
  show ?thesis by simp
next
  case (hour env hasEmail db r db' st)
  with assms(2) handleHourlyTasks_evolves [of db env hasEmail] show ?thesis by simp
qed (simp_all add: perform_evolves same_work_evolves)

section \<open>Runs\<close>

text \<open>What a component promises of every step, it promises of every run.\<close>

locale transition_contract =
  fixes move :: "'s \<Rightarrow> 's \<Rightarrow> bool"
    and inv :: "'s \<Rightarrow> bool"
    and rel :: "'s \<Rightarrow> 's \<Rightarrow> bool"
  assumes move_inv: "move s s' \<Longrightarrow> inv s \<Longrightarrow> inv s'"
    and move_rel: "move s s' \<Longrightarrow> inv s \<Longrightarrow> rel s s'"
    and rel_refl: "rel s s"
    and rel_trans: "rel s t \<Longrightarrow> rel t u \<Longrightarrow> rel s u"
begin

lemma run_inv: "move\<^sup>*\<^sup>* s s' \<Longrightarrow> inv s \<Longrightarrow> inv s'"
  by (induction rule: rtranclp_induct) (simp_all add: move_inv)

lemma run_rel:
  assumes "move\<^sup>*\<^sup>* s s'" "inv s"
  shows "rel s s'"
  using assms(1)
proof (induction rule: rtranclp_induct)
  case (step t u)
  have "inv t" by (rule run_inv [OF step(1) assms(2)])
  from rel_trans [OF step(3) move_rel [OF step(2) this]] show ?case .
qed (rule rel_refl)

end

interpretation service: transition_contract step "\<lambda>s. db_wf (snd s)" "\<lambda>s s'. evolves (snd s) (snd s')"
  by unfold_locales (auto intro: step_wf step_evolves evolves_refl evolves_trans)

abbreviation runs :: "system \<Rightarrow> system \<Rightarrow> bool" where
  "runs \<equiv> step\<^sup>*\<^sup>*"

text \<open>A fresh installation: no tickets.\<close>

definition initial :: "db \<Rightarrow> bool" where
  "initial db \<longleftrightarrow> db_tickets db = [] \<and> db_escalations db = [] \<and> db_events db = [] \<and> db_overrides db = []"

lemma initial_wf: "initial db \<Longrightarrow> db_wf db"
  by (simp add: initial_def db_wf_def db_ok_def table_ok_def)

definition reachable :: "system \<Rightarrow> bool" where
  "reachable s \<longleftrightarrow> (\<exists>st db. initial db \<and> runs (st, db) s)"

lemma reachable_wf: "reachable s \<Longrightarrow> db_wf (snd s)"
  unfolding reachable_def using service.run_inv initial_wf by fastforce

lemma reachable_step: "reachable s \<Longrightarrow> step s s' \<Longrightarrow> reachable s'"
  unfolding reachable_def by (meson rtranclp.rtrancl_into_rtrancl)

section \<open>The ledger\<close>

text \<open>The specification the service refines: a ledger of final outcomes and a log.  A move of the ledger may
  enter an outcome for a ticket that has none and append to the log; it takes nothing back.\<close>

record ledger =
  outcome :: "nat \<rightharpoonup> ticket_status"
  ledger_log :: "ticket_event list"
  evidence :: "resolution_override list"

definition ledger_of :: "db \<Rightarrow> ledger" where
  "ledger_of db = \<lparr>outcome = (\<lambda>n. case find_ticket db n of
       Some t \<Rightarrow> if finished t then Some (status t) else None | None \<Rightarrow> None),
     ledger_log = db_events db, evidence = db_overrides db\<rparr>"

definition ledger_move :: "ledger \<Rightarrow> ledger \<Rightarrow> bool" where
  "ledger_move l l' \<longleftrightarrow> outcome l \<subseteq>\<^sub>m outcome l' \<and> prefix (ledger_log l) (ledger_log l')
     \<and> prefix (evidence l) (evidence l')"

lemma evolves_ledger:
  assumes "evolves a b"
  shows "ledger_move (ledger_of a) (ledger_of b)"
proof -
  have "outcome (ledger_of a) \<subseteq>\<^sub>m outcome (ledger_of b)"
    unfolding map_le_def
  proof
    fix n assume "n \<in> dom (outcome (ledger_of a))"
    then obtain t where t: "find_ticket a n = Some t" "finished t"
      by (auto simp: ledger_of_def split: option.splits if_splits)
    with evolves_found [OF assms t(1)] obtain t' where "find_ticket b n = Some t'" "status t' = status t" by blast
    with t show "outcome (ledger_of a) n = outcome (ledger_of b) n" by (simp add: ledger_of_def finished_def)
  qed
  with assms show ?thesis by (simp add: ledger_move_def ledger_of_def evolves_def)
qed

end
