(* ===== verification/Samples.thy ===== *)
theory Samples
  imports UpdateProps System
begin

text \<open>
  Concrete tables for the witnesses: an administrator, a technician and an end user, a few tickets,
  and no configuration row, so that SLA hours are calendar hours.
\<close>

abbreviation admin_role :: user_role where "admin_role \<equiv> STAFF ''admin''"
abbreviation tech_role :: user_role where "tech_role \<equiv> STAFF ''tech''"

definition demo_caps :: capability_cache where
  "demo_caps role =
     (if role = admin_role then Some [CapTicketSettingsFocal, CapAllTickets, CapTicketModuleAccess,
                                      CapTicketCancellation, CapRequesterCorrection, CapResolutionTimeOverride]
      else if role = tech_role then Some [CapItSupport, CapTicketModuleAccess]
      else None)"

definition demo_users :: "account list" where
  "demo_users =
     [\<lparr>acc_id = 1, acc_role = admin_role, acc_active = True, acc_autoAssignmentEligible = False, acc_units = [1],
       acc_staffId = []\<rparr>,
      \<lparr>acc_id = 2, acc_role = tech_role, acc_active = True, acc_autoAssignmentEligible = True, acc_units = [1],
       acc_staffId = []\<rparr>,
      \<lparr>acc_id = 3, acc_role = USER, acc_active = True, acc_autoAssignmentEligible = False, acc_units = [1],
       acc_staffId = []\<rparr>,
      \<lparr>acc_id = 4, acc_role = tech_role, acc_active = True, acc_autoAssignmentEligible = True, acc_units = [1],
       acc_staffId = []\<rparr>]"

definition demo_env :: env where
  "demo_env = \<lparr>env_now = 5000000, env_h24 = False, env_caps = demo_caps,
     env_getUserById = find_row acc_id demo_users, env_blocked = (\<lambda>_. []), env_freshId = 90, env_idText = (\<lambda>_. ''t'')\<rparr>"

definition demo_issue :: issue_type where
  "demo_issue = \<lparr>it_id = 7, it_key = ''printer'', it_slaHours = Some 4, it_allowablePauseHours = Some 48,
     it_maxFreezeHours = None, it_isActive = True, it_isDeleted = False, it_categoryId = Some 5\<rparr>"

definition blank_ticket :: "nat \<Rightarrow> ticket" where
  "blank_ticket n = \<lparr>ticket_id = n, ticket_subject = ''s'', ticket_description = ''d'',
     ticketType = IT_SUPPORT, overtimeDate = None, ticket_overtimeSlaDate = None, status = OPEN,
     cancelledAt = None, cancelledById = None, cancellationReason = None, priority = None,
     categoryId = Some 5, issueTypeId = Some 7, issueType = ''printer'', issueTypeConfig = None,
     createdById = Some 3, requesterId = 3, assignedToId = None, resolutionNotes = None,
     resolutionSteps = None, resolutionDate = None, resolvedAt = None, resolutionTimeOverride = None,
     duplicateOfId = None, slaDeadline = None, slaStartedAt = None, slaPausedAt = None,
     accumulatedPauseSeconds = 0, slaPauseLedger = None, interruptionHistory = None, isSlaWaiting = True,
     lastAssignedAt = None, satisfactionRating = None, satisfactionComment = None,
     satisfactionSubmittedAt = None, userClosed = False, isKbGenerationPending = False,
     hasUnreadUser = False, hasUnreadTechnician = False, createdAt = 1000 * int n,
     updatedAt = 1000 * int n\<rparr>"

definition assigned_ticket :: "nat \<Rightarrow> nat \<Rightarrow> ticket" where
  "assigned_ticket n tech = (blank_ticket n)\<lparr>status := ASSIGNED, assignedToId := Some tech,
     lastAssignedAt := Some 2000, priority := Some HIGH\<rparr>"

definition running_ticket :: "nat \<Rightarrow> nat \<Rightarrow> ticket" where
  "running_ticket n tech = (assigned_ticket n tech)\<lparr>status := IN_PROGRESS, isSlaWaiting := False,
     slaStartedAt := Some 2000, slaDeadline := Some (2000 + 4 * 3600 * 1000)\<rparr>"

definition demo_db :: "ticket list \<Rightarrow> db" where
  "demo_db ts = \<lparr>db_tickets = ts, db_escalations = [], db_events = [], db_justifications = [],
     db_categories = [\<lparr>cat_id = 5, cat_isIt = True, cat_isDesktop = False, cat_isPantawid = False,
       cat_isSpecialized = False, cat_isActive = True, cat_isDeleted = False\<rparr>],
     db_issueTypes = [demo_issue], db_config = None, db_officeDays = [],
     db_attendance = [\<lparr>att_userId = 2, att_date = 0, att_status = PRESENT, clockInTime = Some 1000,
                        isManualOverride = False\<rparr>,
                      \<lparr>att_userId = 4, att_date = 0, att_status = PRESENT, clockInTime = Some 1000,
                        isManualOverride = False\<rparr>],
     db_focals = [], db_users = demo_users, db_comments = [], db_overrides = [], db_keywordRules = []\<rparr>"

definition resolve_update :: update_dto where
  "resolve_update = empty_update\<lparr>dto_status := Some RESOLVED\<rparr>"

definition result_ok :: "'e + 'a \<Rightarrow> bool" where
  "result_ok m = (case m of Inl _ \<Rightarrow> False | Inr _ \<Rightarrow> True)"

lemma result_ok_cases: "result_ok (fst p) \<Longrightarrow> \<exists>x d. p = (Inr x, d)"
  by (cases p; cases "fst p") (auto simp: result_ok_def)

lemma result_bad_cases: "\<not> result_ok (fst p) \<Longrightarrow> \<exists>e d. p = (Inl e, d)"
  by (cases p; cases "fst p") (auto simp: result_ok_def)

section \<open>Requests and richer tables\<close>

definition jpeg_upload :: upload where
  "jpeg_upload = \<lparr>mimetype = ''image/jpeg'', originalname = ''a.jpg'', buffer = [0xFF, 0xD8, 0xFF]\<rparr>"

definition assign_to_two :: assign_dto where
  "assign_to_two = \<lparr>to_assignedToId = 2, to_expectedUpdatedAt = None, to_expectedStatus = None,
     to_expectedAssignedToId = None\<rparr>"

definition overtime_db :: db where
  "overtime_db = demo_db [(blank_ticket 11)\<lparr>overtimeDate := Some 0\<rparr>]"

definition pending_escalation :: escalation where
  "pending_escalation = \<lparr>esc_id = 21, esc_ticketId = 11, escalatedById = 2, escalatedToId = 4,
     esc_status = PENDING, esc_notes = None, returnReason = None, proofFiles = None, esc_createdAt = 3000\<rparr>"

definition escalated_db :: db where
  "escalated_db = (demo_db [running_ticket 11 2])\<lparr>db_escalations := [pending_escalation],
     db_focals := [\<lparr>focal_userId = 4, focal_ticketType = None\<rparr>]\<rparr>"

definition cancel_request :: cancel_dto where
  "cancel_request = \<lparr>cancel_reason_text = ''not needed'', cancel_expectedUpdatedAt = Iso 11000\<rparr>"

definition empty_cancel :: cancel_dto where
  "empty_cancel = \<lparr>cancel_reason_text = '' '', cancel_expectedUpdatedAt = Iso 11000\<rparr>"

definition image_comment :: ticket_comment where
  "image_comment = \<lparr>comment_id = 31, comment_ticketId = 11, comment_text = ''see'', comment_userId = Some 3,
     comment_isInternal = False, attachmentPath = None, attachmentPaths = Some [''a'', ''b'']\<rparr>"

definition commented_db :: db where
  "commented_db = (demo_db [blank_ticket 11])\<lparr>db_comments := [image_comment]\<rparr>"

definition staff_note :: comment_dto where
  "staff_note = \<lparr>dto_content = Some ''hello'', dto_comment = None, dto_isInternal = True,
     dto_mentionedUserIds = []\<rparr>"

definition new_requester :: requester_dto where
  "new_requester = \<lparr>rq_requesterId = Some 4, rq_expectedUpdatedAt = Iso 11000\<rparr>"

definition resolved_ticket :: "nat \<Rightarrow> ticket" where
  "resolved_ticket n = (running_ticket n 2)\<lparr>status := RESOLVED, resolvedAt := Some 900000\<rparr>"

definition correct_time :: override_dto where
  "correct_time = \<lparr>od_verifiedResolvedAt = Iso 800000, od_reason = Some ''measured on site''\<rparr>"

definition five_stars :: satisfaction_dto where
  "five_stars = \<lparr>sat_rating = Some 5, sat_comment = None, sat_form = None\<rparr>"

definition filing :: create_dto where
  "filing = \<lparr>cr_subject = ''s'', cr_description = ''d'', cr_ticketType = IT_SUPPORT, cr_priority = None,
     cr_categoryId = Some 5, cr_requesterId = None, cr_assignedToId = None, cr_issueTypeId = Some 7\<rparr>"

definition rules_db :: db where
  "rules_db = (demo_db [])\<lparr>db_keywordRules := [\<lparr>rule_id = 1, rule_keyword = ''printer'', rule_keywords = None,
     targetTicketType = IT_SUPPORT, targetCategoryId = Some 5, targetIssueTypeId = Some 7,
     rule_isActive = True\<rparr>]\<rparr>"

definition queued_ticket :: "nat \<Rightarrow> nat \<Rightarrow> ticket" where
  "queued_ticket n tech = (assigned_ticket n tech)\<lparr>isSlaWaiting := True\<rparr>"

definition paused_clock_ticket :: ticket where
  "paused_clock_ticket = (running_ticket 11 2)\<lparr>issueTypeConfig := Some demo_issue, slaStartedAt := Some 0,
     slaDeadline := Some 14400000, slaPausedAt := Some 3600000\<rparr>"

definition office_dto :: set_office_day_dto where
  "office_dto = \<lparr>dto_date = Some 2, dto_isOfficeDay = True, dto_isOvertime = None, dto_notes = None\<rparr>"

definition absent_dto :: attendance_dto where
  "absent_dto = \<lparr>set_userId = 2, set_date = 0, set_status = ABSENT, set_clockInTime = None\<rparr>"

definition absent_db :: db where
  "absent_db = (demo_db [])\<lparr>db_attendance := [\<lparr>att_userId = 2, att_date = 0, att_status = ABSENT,
     clockInTime = None, isManualOverride = True\<rparr>]\<rparr>"

definition dtr_sample :: dtr_view where
  "dtr_sample = \<lparr>dtr_enabled = True,
     dtr_rows = Some [\<lparr>empCode = ''e2'', workDate = 0, firstClockInTime = Some 100\<rparr>]\<rparr>"

definition synced_status :: dtr_status where
  "synced_status = \<lparr>dtr_isOnline = True, lastSuccessfulSyncDate = Some 0\<rparr>"

definition idle_cron :: cron_state where
  "idle_cron = \<lparr>advancedOverdueTickets = [], finalizedAbsenceDates = [], absenceFinalizationAttempts = [],
     dtr_state = synced_status\<rparr>"

definition staffed_db :: db where
  "staffed_db = (demo_db [])\<lparr>db_users := map (acc_staffId_update (\<lambda>_. ''e1'')) demo_users\<rparr>"

definition eligible_env :: env where
  "eligible_env = demo_env\<lparr>env_caps := \<lambda>_. Some [CapAttendanceEligible]\<rparr>"

definition evening_env :: env where
  "evening_env = demo_env\<lparr>env_now := 43200000\<rparr>"

end
