(* ===== verification/ClockProps.thy ===== *)
theory ClockProps
  imports ScheduleFacts SlaProjection
begin

text \<open>
  The theorems about time: the SLA clock against its reference, pauses and their credit, the
  interruption history, what a reader is shown, and Manila dates.
\<close>

section \<open>The SLA clock\<close>

text \<open>C18: the measure is the reference count. For a valid schedule, \<open>calculateBusinessSeconds\<close>, which walks
  from block to block, returns the number of seconds between the two instants that lie on an SLA day within
  the working hours and outside the noon break.\<close>

theorem business_seconds_reference:
  assumes "schedule_ok config" "hours_readable h24 config (start div 1000)"
  shows "calculateBusinessSeconds h24 office start end config
    = Inr (business_count office config (start div 1000) (end div 1000))"
  using assms by (rule calculateBusinessSeconds_counts)


text \<open>C24: the deadline loop ends. For a valid schedule the 200000 iterations are enough whenever the budget
  fits into the working seconds of the next 39999 days (over a century): the call returns a deadline.\<close>

theorem sla_deadline_returns:
  assumes "schedule_ok config" "hours_readable h24 config (start div 1000)"
    "n \<le> business_count office config (start div 1000) ((sec_day (start div 1000) + 39999) * 86400 - 28800)"
  shows "\<exists>deadline. calculateSlaDeadline h24 office start (hours_of n) config = Inr deadline"
  using assms by (rule calculateSlaDeadline_returns)

section \<open>Pauses\<close>

text \<open>C28: a work-schedule pause costs no business time. When \<open>applySlaResume\<close> resumes a ticket whose deadline
  is current and was not missed before the pause, the business time from the resume to the new deadline is
  the business time that was left at the pause.\<close>

theorem schedule_pause_neutral:
  assumes "applySlaResume env db config t resumeAt = Inr (Some t')" "slaPausedAt t = Some p"
    and "deadline_current (env_h24 env) (office_of db) (ticketCalendar config t) t n d"
    and "hours_readable (env_h24 env) (ticketCalendar config t) (getSlaClockStartedAt t div 1000)"
      "hours_readable (env_h24 env) (ticketCalendar config t) (p div 1000)"
    and "getSlaClockStartedAt t \<le> p" "p < d"
    and "\<not> already_credited (ledger_for_credit t) p (max p resumeAt)"
  shows "\<exists>d'. slaDeadline t' = Some d' \<and> max p resumeAt < d'
    \<and> business_count (office_of db) (ticketCalendar config t) (max p resumeAt div 1000) (d' div 1000)
      = business_count (office_of db) (ticketCalendar config t) (p div 1000) (d div 1000)"
  using assms by (rule applySlaResume_neutral)

text \<open>A breach is never forgiven. A ticket whose deadline had passed when the schedule paused it keeps that
  deadline and its accumulated pause: the resume only clears the marker.\<close>

lemma breach_not_forgiven:
  assumes "slaPausedAt t = Some p" "slaDeadline t = Some d" "d \<le> p"
  shows "applySlaResume env db config t resumeAt = Inr (Some (t\<lparr>slaPausedAt := None\<rparr>))"
  using assms by (rule applySlaResume_breached)

text \<open>An interval is credited once. Crediting the same pause interval a second time, with whatever value,
  changes nothing.\<close>

lemma pause_credited_once:
  assumes "0 \<le> accumulatedPauseSeconds t" "start \<le> end"
  shows "creditTicketPause (creditTicketPause t start end s) start end s' = creditTicketPause t start end s"
  using assms by (rule creditTicketPause_once)

text \<open>The interruption history follows the status. After a transition into or out of a pause or freeze whose
  instant is not before the last one recorded, the history is usable and its open episode is that of the new
  status.\<close>

lemma interruption_history_follows:
  assumes "from \<noteq> to" "interruptionKind from \<noteq> None \<or> interruptionKind to \<noteq> None"
    "case history_last (interruptionHistory t) of Some l \<Rightarrow> l \<le> now | None \<Rightarrow> True"
  shows "usableInterruptionHistory (interruptionHistory (recordInterruptionTransition t from to now)) \<noteq> None
    \<and> history_open (interruptionHistory (recordInterruptionTransition t from to now)) = interruptionKind to"
  using assms by (rule recordInterruptionTransition_open)

section \<open>What a reader is shown\<close>

text \<open>A stopped clock never shows an alarm. A ticket shown as paused, one that waits in a queue, and a
  duplicate or cancelled one are shown neither overdue nor nearing their deadline, and no ticket is shown as
  both; the projection changes the deadline only.\<close>

lemma stopped_clock_no_alarm:
  assumes "projectTicketSlaState env db t config now given = Inr (t', s)"
  shows "t' = t\<lparr>slaDeadline := slaDeadline t'\<rparr> \<and> \<not> (isOverdue s \<and> isNearingSLA s)
    \<and> (slaPaused s \<or> isSlaWaiting t \<or> status t \<in> {DUPLICATE, CANCELLED} \<longrightarrow> \<not> isOverdue s \<and> \<not> isNearingSLA s)"
proof
  show "t' = t\<lparr>slaDeadline := slaDeadline t'\<rparr>" by (rule projectTicketSlaState_frame [OF assms])
  show "\<not> (isOverdue s \<and> isNearingSLA s)
    \<and> (slaPaused s \<or> isSlaWaiting t \<or> status t \<in> {DUPLICATE, CANCELLED} \<longrightarrow> \<not> isOverdue s \<and> \<not> isNearingSLA s)"
    using assms
  proof (cases rule: projectTicketSlaState_cases)
    case (clock d d' r)
    then show ?thesis using running_flags_exclusive [of t d' now] by (auto simp: running_flags_def)
  qed simp_all
qed

text \<open>The announced resume is a working moment. The resume time a reader is told is the start of work of a
  day within the next two weeks that is an office day or the ticket's own overtime day.\<close>

lemma announced_resume_working:
  assumes "getScheduledSlaResumeAt office config now = Some r"
  shows "\<exists>d. r = createManilaDate d (if scheduleMode config = CWW then cwwClockinEnd config else officeClockin config)
     \<and> (overtimeSlaDate config = Some d \<or> office d)
     \<and> getManilaDateString now \<le> d \<and> d \<le> getManilaDateString now + 14"
  using assms by (rule getScheduledSlaResumeAt_working)

section \<open>Dates\<close>

text \<open>Manila dates round-trip. Formatting an instant as a Manila date and time of day and building a date
  from the two returns the instant without its milliseconds.\<close>

lemma manila_roundtrip:
  "createManilaDate (getManilaDateString t) (getManilaTimeString t) = t - manila_ms t mod 1000"
  by (rule createManilaDate_getManilaTimeString)

text \<open>Setting an office day reads back, and the past stays. After a successful \<open>setOfficeDay\<close> the day is an
  office day exactly if it was declared one and is not an overtime day, and every other day, in particular
  every day before today, is what it was.\<close>

lemma office_day_reads_back:
  assumes "setOfficeDay rows now dto by = Inr rows'"
  shows "\<exists>d. dto_date dto = Some d \<and> getManilaDateString now \<le> d
    \<and> isOfficeDay rows' d = (dto_isOfficeDay dto \<and> \<not> isOvertimeDay rows' d)
    \<and> (\<forall>e. e \<noteq> d \<longrightarrow> isOfficeDay rows' e = isOfficeDay rows e)"
proof -
  from assms obtain d where d: "dto_date dto = Some d" "getManilaDateString now \<le> d"
    "rows' = save_row od_date rows (upsert_office_day (find_row od_date rows d) d dto by)"
    by (rule setOfficeDay_Inr)
  let ?r = "upsert_office_day (find_row od_date rows d) d dto by"
  have "find_row od_date rows' d = Some ?r"
    using find_row_save_same [of od_date rows ?r] d(3) by (simp add: upsert_office_day_key)
  then have "isOfficeDay rows' d = (dto_isOfficeDay dto \<and> \<not> isOvertimeDay rows' d)"
    by (simp add: isOfficeDay_def isOvertimeDay_def upsert_office_day_flags)
  with d setOfficeDay_other_days [OF assms] show ?thesis by auto
qed

end
