(* ===== verification/WorkProps.thy ===== *)
theory WorkProps
  imports History ClockProps
begin

text \<open>
  The theorems about the work on tickets: who comes to own a ticket, the queue, escalations,
  cancellation, comments, corrections, ratings, creation and the keyword routing.
\<close>

section \<open>Owners\<close>

text \<open>C27: a manual assignment reaches an eligible person and nobody else's ticket. The assignee is an existing
  account that is not a super admin, is marked present or out of office today, is neither requester nor
  filer of an ordinary ticket and holds the specialized capability for a specialized one; the work starts
  exactly if the assignee is free, and otherwise waits.\<close>

theorem assignment_reaches_eligible:
  assumes "assignTicketInternal env n dto role actorId pool db = (Inr saved, db')" "db_wf db"
  shows "\<exists>row technician. find_ticket db n = Some row \<and> find_ticket db' n = Some saved
    \<and> env_getUserById env (to_assignedToId dto) = Some technician \<and> acc_role technician \<noteq> SUPER_ADMIN
    \<and> assignedToId saved = Some (to_assignedToId dto)
    \<and> status row \<notin> {RESOLVED, CLOSED, DUPLICATE, CANCELLED}
    \<and> (ticketType row \<noteq> SPECIALIZED_CONCERNS \<longrightarrow>
         to_assignedToId dto \<noteq> requesterId row \<and> createdById row \<noteq> Some (to_assignedToId dto))
    \<and> (ticketType row = SPECIALIZED_CONCERNS \<longrightarrow>
         acc_active technician \<and> isSpecializedSupport (env_caps env) (acc_role technician))
    \<and> (\<exists>a \<in> set (db_attendance db). att_userId a = to_assignedToId dto \<and> att_date a = env_today env
         \<and> att_status a \<in> {PRESENT, OUT_OF_OFFICE})
    \<and> (isSlaWaiting saved \<longleftrightarrow> 0 < busy_count db (to_assignedToId dto))
    \<and> status saved = (if status row \<in> {OPEN, ASSIGNED, IN_PROGRESS}
         then (if busy_count db (to_assignedToId dto) = 0 then IN_PROGRESS else ASSIGNED) else status row)"
  using assms by (rule assign_success_facts)

text \<open>The pick-up at attendance takes only free tickets. A ticket changed by
  \<open>assignPendingTicketsOnLogin\<close> was open and unassigned, was not the technician's own request nor a
  specialized concern, and now belongs to that technician, who is active, opted in and no senior.\<close>

lemma login_takes_free_tickets:
  assumes "find_ticket (assignPendingTicketsOnLoginInternal env tech db) n = Some t'"
    "find_ticket db n = Some t" "t' \<noteq> t" "db_ok db"
  shows "status t = OPEN \<and> assignedToId t = None \<and> assignedToId t' = Some tech \<and> requesterId t \<noteq> tech
    \<and> ticketType t \<noteq> SPECIALIZED_CONCERNS
    \<and> (\<exists>u \<in> set (db_users db). acc_id u = tech \<and> acc_active u \<and> acc_autoAssignmentEligible u
         \<and> \<not> isSeniorTech (env_caps env) (acc_role u))"
  using assms by (rule login_pick_facts)

lemma claim_stores:
  assumes "claimOvertimeTicket env n user role db = (r, db')" "db' \<noteq> db"
  obtains row stored where "find_ticket db n = Some row" "status row = OPEN" "\<not> truthy (assignedToId row)"
    "requesterId row \<noteq> user" "overtimeDate row \<noteq> None" "find_ticket db' n = Some stored"
    "assignedToId stored = Some user" "status stored \<in> {ASSIGNED, IN_PROGRESS}"
  using assms(1)
proof (cases rule: claimOvertimeTicket_cases)
  case (claim t t')
  let ?t = "without_relations t"
  have same: "status ?t = status t" "assignedToId ?t = assignedToId t" "requesterId ?t = requesterId t"
    "overtimeDate ?t = overtimeDate t" "ticket_id ?t = n"
    using find_ticket_id [OF claim(1)] by (simp_all add: without_relations_def)
  have g: "status t = OPEN" "\<not> truthy (assignedToId t)" "requesterId t \<noteq> user" "overtimeDate t \<noteq> None"
    using claim(2) by (auto simp: claim_guard_def canClaimOvertime_def same split: if_splits option.splits)
  note c = ensuresD [OF claimed_ok claim(3), unfolded same]
  have st: "find_ticket db' n = Some (stamp env t')"
    using find_save_ticket_same [of env t' db] c claim(4) by (simp add: table_simps)
  show thesis by (rule that [OF claim(1) g st]) (use c in auto)
qed (use assms(2) in simp)

text \<open>An overtime ticket is claimed once. A claim that writes takes an open, unassigned overtime ticket of
  somebody else and gives it to the claimant; after it, every further claim of the ticket, by anybody, is
  refused and changes nothing.\<close>

lemma overtime_claimed_once:
  assumes "claimOvertimeTicket env n user role db = (r, db')" "db' \<noteq> db"
  shows "(\<exists>row stored. find_ticket db n = Some row \<and> status row = OPEN \<and> \<not> truthy (assignedToId row)
      \<and> requesterId row \<noteq> user \<and> find_ticket db' n = Some stored \<and> assignedToId stored = Some user)
    \<and> (\<exists>e. claimOvertimeTicket env' n user' role' db' = (Inl (Conflict e), db'))"
  using assms
proof (rule claim_stores)
  fix row stored
  assume a: "find_ticket db n = Some row" "status row = OPEN" "\<not> truthy (assignedToId row)"
    "requesterId row \<noteq> user" "find_ticket db' n = Some stored" "assignedToId stored = Some user"
    "status stored \<in> {ASSIGNED, IN_PROGRESS}"
  have "claim_guard env' db' (without_relations stored) user' role' = Some (Conflict (Access AlreadyAcquired))"
    using a(7) by (auto simp: claim_guard_def without_relations_def)
  with a show ?thesis by (auto simp: claimOvertimeTicket_def)
qed

text \<open>The capped round robin is fair within its cap. The technician it selects is a candidate whose weekly
  load is under the cap, and of the candidates under the cap the one whose last assignment is oldest.\<close>

lemma round_robin_oldest_under_cap:
  assumes "capped_round_robin env db techs = Some u"
  shows "u \<in> set techs \<and> getWeeklySlaLoad env db (acc_id u) < of_nat (config_cap db)
    \<and> (\<forall>v \<in> set techs. getWeeklySlaLoad env db (acc_id v) < of_nat (config_cap db) \<longrightarrow>
         lastAssignedTime db (acc_id u) \<le> lastAssignedTime db (acc_id v))"
  using least.select_filter [OF assms [unfolded capped_round_robin_def]] by simp

section \<open>The queue\<close>

text \<open>A freed technician gets the oldest waiting ticket. A promotion that does not fail reports whether the
  technician had a waiting ticket; if so, the oldest by creation is now in progress, not waiting, with a
  clock that starts now and no pause, and every other ticket is as it was; if not, nothing changed.\<close>

lemma promotion_serves_oldest:
  assumes "db_ok db" "unpauseNextWaitingTicketAndSetInProgress env tech db = (Inr promoted, db')"
  shows "(promoted \<longleftrightarrow> (\<exists>t \<in> set (db_tickets db). assignedToId t = Some tech \<and> isSlaWaiting t
        \<and> status t \<in> {ASSIGNED, PAUSE}))
    \<and> (if promoted then \<exists>t t'. t \<in> set (db_tickets db) \<and> assignedToId t = Some tech \<and> isSlaWaiting t
        \<and> (\<forall>u \<in> set (db_tickets db). assignedToId u = Some tech \<longrightarrow> isSlaWaiting u
              \<longrightarrow> status u \<in> {ASSIGNED, PAUSE} \<longrightarrow> createdAt t \<le> createdAt u)
        \<and> find_ticket db' (ticket_id t) = Some t' \<and> status t' = IN_PROGRESS \<and> \<not> isSlaWaiting t'
        \<and> slaStartedAt t' = Some (env_now env) \<and> slaPausedAt t' = None \<and> assignedToId t' = Some tech
        \<and> (\<forall>m. m \<noteq> ticket_id t \<longrightarrow> find_ticket db' m = find_ticket db m)
       else db' = db)"
proof -
  have "table_ok ticket_id (db_tickets db)" using assms(1) by (simp add: db_ok_def)
  then show ?thesis
  proof (cases rule: promotion_cases [of db tech env])
    case empty
    with assms(2) oldest_waiting_None_iff [of db tech "[ASSIGNED, PAUSE]"] show ?thesis by auto
  next
    case (failed t e)
    with assms(2) show ?thesis by simp
  next
    case (promoted t t')
    note w = oldest_waiting_Some [OF promoted(1)]
    have db': "db' = logEvent env (ticket_id t) ''queue_promoted'' None (Some (status t)) (Some IN_PROGRESS)
        (Some tech) (save_ticket env t' db)" and p: "promoted"
      using assms(2) promoted(2) by auto
    have st: "find_ticket db' (ticket_id t) = Some (stamp env t')"
      using find_save_ticket_same [of env t' db] promoted(3) by (simp add: db' table_simps)
    have other: "find_ticket db' m = find_ticket db m" if "m \<noteq> ticket_id t" for m
      using that promoted(3) by (simp add: db' table_simps)
    have ex: "\<exists>t \<in> set (db_tickets db). assignedToId t = Some tech \<and> isSlaWaiting t \<and> status t \<in> {ASSIGNED, PAUSE}"
      using w by (intro bexI [of _ t]) auto
    have least: "\<forall>u \<in> set (db_tickets db). assignedToId u = Some tech \<longrightarrow> isSlaWaiting u
        \<longrightarrow> status u \<in> {ASSIGNED, PAUSE} \<longrightarrow> createdAt t \<le> createdAt u" using w by simp
    show ?thesis
      unfolding if_P [OF p]
      apply (rule conjI, use p ex in blast)
      apply (rule exI [of _ t], rule exI [of _ "stamp env t'"])
      using w least promoted(4-9) st other by (intro conjI) simp_all
  qed
qed


definition clock_answers :: "env \<Rightarrow> db \<Rightarrow> bool" where
  "clock_answers env db \<longleftrightarrow> (\<forall>t. \<exists>d. calculateTicketSlaDeadline env db t (env_now env) = Inr d)"

lemma clock_answers_unconfigured: "db_config db = None \<Longrightarrow> clock_answers env db"
  by (simp add: clock_answers_def calculateTicketSlaDeadline_def Let_def)

lemma clock_frame_tables:
  assumes "db_config d = db_config db" "db_officeDays d = db_officeDays db" "db_issueTypes d = db_issueTypes db"
  shows "clock_answers env d = clock_answers env db"
proof -
  have o: "office_of d = office_of db" using assms(2) by (simp add: office_of_def)
  have "getIssueTypeById d = getIssueTypeById db" using assms(3) by (simp add: getIssueTypeById_def fun_eq_iff)
  then have "getTicketSlaHours d = getTicketSlaHours db" by (intro ext) (simp only: getTicketSlaHours_def)
  with o assms(1) show ?thesis by (simp only: clock_answers_def calculateTicketSlaDeadline_def)
qed

lemma clock_answers_frame [simp]:
  "clock_answers env (save_ticket e t db) = clock_answers env db"
  "clock_answers env (logEvent e n ty a f u k db) = clock_answers env db"
  by (rule clock_frame_tables; simp add: save_ticket_def logEvent_def)+






section \<open>Escalations\<close>

text \<open>Accepting an escalation hands over the ticket. After a successful acceptance the ticket belongs to the
  focal who accepted, is not queued, and is in progress with a started clock unless it was already resolved or
  closed; the ticket was not cancelled.\<close>

lemma acceptance_hands_over:
  assumes "acceptEscalationInternal env n eid actor db = (Inr e', db')"
  shows "\<exists>row stored. find_ticket db n = Some row \<and> find_ticket db' n = Some stored
    \<and> assignedToId stored = Some actor \<and> \<not> isSlaWaiting stored \<and> status row \<noteq> CANCELLED
    \<and> status stored = (if status row \<in> {RESOLVED, CLOSED} then status row else IN_PROGRESS)
    \<and> (status stored = IN_PROGRESS \<longrightarrow> slaStartedAt stored \<noteq> None)"
  using assms by (rule accept_stores)

text \<open>A decision on an escalation is final. Once it was accepted or returned, by its target, every further
  acceptance or return by anybody is refused and changes nothing.\<close>

lemma escalation_decided_once:
  assumes "db_wf db" "acceptEscalationInternal env n eid actor db = (Inr e', db')
    \<or> returnEscalationInternal env n eid why actor db = (Inr e', db')"
  shows "escalatedToId e' = actor
    \<and> (\<exists>err. acceptEscalationInternal env2 n eid actor2 db' = (Inl err, db'))
    \<and> (\<exists>err. returnEscalationInternal env2 n eid why2 actor2 db' = (Inl err, db'))"
proof -
  have "find_escalation db' n eid = Some e' \<and> esc_status e' \<noteq> PENDING \<and> escalatedToId e' = actor"
    using assms(2) accepted_is_decided [OF _ assms(1)] returned_is_decided [OF _ assms(1)] by fastforce
  with decided_escalation_refuses show ?thesis by blast
qed

section \<open>Cancellation\<close>

text \<open>What a cancellation does. It needs the capability and a ticket that is open, assigned or in progress, for
  an end user an own one; it stores the reason and the actor, stops the clock, takes the ticket out of the
  queue and closes its pending and accepted escalations.\<close>

lemma cancellation_stores:
  assumes "cancelTicket env n dto actor db = (Inr pending, db')" "db_wf db"
  shows "\<exists>row stored. find_ticket db n = Some row \<and> find_ticket db' n = Some stored
    \<and> status row \<in> {OPEN, ASSIGNED, IN_PROGRESS} \<and> status stored = CANCELLED
    \<and> cancelledById stored = Some actor \<and> cancellationReason stored = Some (trim (cancel_reason_text dto))
    \<and> cancellationReason stored \<noteq> Some [] \<and> slaPausedAt stored = None \<and> \<not> isSlaWaiting stored
    \<and> isTicketCancellation (env_caps env) (actor_role env actor)
    \<and> (actor_role env actor = USER \<longrightarrow> requesterId row = actor \<or> number (createdById row) = actor)
    \<and> (\<forall>e \<in> set (db_escalations db'). esc_ticketId e = n \<longrightarrow> esc_status e \<notin> {PENDING, ACCEPTED})"
  using assms by (rule cancelTicket_stores)

end
