(* ===== verification/RecordProps.thy ===== *)
theory RecordProps
  imports History
begin

text \<open>
  The theorems about the record of a ticket: who reads it, its comments and images, the corrections of
  requester, assignee and resolution time, the rating, its creation and the keyword routing.
\<close>

section \<open>Reading\<close>

text \<open>An end user reads own tickets only. If a viewer whose role may not see all tickets is shown an ordinary
  ticket, the viewer requested it, filed it, works on it, or is party to one of its escalations.\<close>

lemma reader_is_involved:
  assumes "getTicketById env db n (Some role) (Some viewer) = Inr v" "find_ticket db n = Some row"
    "overtimeDate row = None" "viewer \<noteq> 0" "\<not> isAllTickets (env_caps env) role"
  shows "requesterId row = viewer \<or> createdById row = Some viewer \<or> assignedToId row = Some viewer
    \<or> (\<exists>e \<in> set (db_escalations db). esc_ticketId e = n \<and> (escalatedById e = viewer \<or> escalatedToId e = viewer))"
proof -
  from assms(1) obtain row' where row': "find_ticket db n = Some row'"
    "assertTicketReadAccess env db (enrich db (with_relations db row')) (Some viewer) (Some role) = None"
    by (rule getTicketById_Inr)
  let ?t = "enrich db (with_relations db row)"
  have acc: "assertTicketReadAccess env db ?t (Some viewer) (Some role) = None" using row' assms(2) by simp
  have id: "ticket_id row = n" by (rule find_ticket_id [OF assms(2)])
  have owner: "assignedToId ?t = assignedToId row \<or>
      (\<exists>e \<in> set (db_escalations db). esc_ticketId e = n \<and> assignedToId ?t = Some (escalatedToId e))"
  proof (cases "latest_accepted db n")
    case None
    then show ?thesis by (simp add: enrich_def id)
  next
    case (Some e)
    then have "e \<in> set (db_escalations db)" "esc_ticketId e = n"
      using oldest_by_Some [OF Some [unfolded latest_accepted_def]] by auto
    then show ?thesis using Some by (auto simp: enrich_def id)
  qed
  show ?thesis
    using assertTicketReadAccess_ordinary [of ?t viewer env db role] acc assms(3-5) owner id by auto
qed

section \<open>Comments and images\<close>

text \<open>Internal notes are written by staff. Whoever adds an internal note has a role other than end user.\<close>

lemma internal_notes_by_staff:
  assumes "addComment env n dto actor role files trusted db = (Inr c, db')" "dto_isInternal dto"
  shows "role \<noteq> USER"
  using assms by (rule internal_note_by_staff)

text \<open>Replacing an image touches one slot. A successful replacement needs a valid image and an image that is
  still there; it puts the new path in exactly that slot of exactly that comment, and changes no ticket.\<close>

lemma image_replaced_in_place:
  assumes "replaceCommentImage env n cid ex uuid file actor db = (Inr (), db')"
  shows "\<exists>c i f. find_comment db n cid = Some c \<and> file = Some f \<and> valid_image f
    \<and> i < length (commentImagePaths c) \<and> commentImagePaths c ! i = ex
    \<and> db_comments db' = map (\<lambda>d. if comment_id d = cid
         then with_images ((commentImagePaths c)[i := replacement_path env n uuid f]) d else d) (db_comments db)
    \<and> db_tickets db' = db_tickets db"
  using assms by (rule replaceCommentImage_one_slot)

text \<open>An accepted upload is what its stored name says. The stored name of a valid image is the generated id
  with one of five extensions, the bytes carry the signature of that format, and the name has no directory
  separator unless the id has one.\<close>

lemma stored_image_is_genuine:
  assumes "valid_image f"
  shows "(\<exists>ext. createSafeImageFilename uuid f = uuid @ ''.'' @ ext
      \<and> (ext = ''jpg'' \<and> isJpeg (buffer f) \<or> ext = ''png'' \<and> isPng (buffer f)
         \<or> ext = ''webp'' \<and> isWebp (buffer f) \<or> ext \<in> {''heic'', ''heif''} \<and> isHeif (buffer f)))
    \<and> (CHR ''/'' \<notin> set uuid \<longrightarrow> CHR ''/'' \<notin> set (createSafeImageFilename uuid f))"
  using stored_extension [OF assms] stored_name_flat [OF assms] by blast

section \<open>Corrections\<close>

text \<open>A corrected requester is separate from the work. A requester correction that writes was made with the
  capability on the version the actor saw; the ticket was assigned, in progress or resolved; the new
  requester is another active account that is no super admin and, for an ordinary ticket, not its assignee;
  status and assignee stay.\<close>

lemma requester_correction_separates:
  assumes "correctTicketRequester env n dto actor role db = (r, db')" "db' \<noteq> db"
  shows "\<exists>row stored u. find_ticket db n = Some row \<and> find_ticket db' n = Some stored
    \<and> isTicketRequesterCorrection (env_caps env) role
    \<and> env_getUserById env (requesterId stored) = Some u \<and> acc_active u \<and> acc_role u \<noteq> SUPER_ADMIN
    \<and> date_parse (rq_expectedUpdatedAt dto) = Some (updatedAt row)
    \<and> status row \<in> {ASSIGNED, IN_PROGRESS, RESOLVED} \<and> acc_id u \<noteq> requesterId row
    \<and> (ticketType row \<noteq> SPECIALIZED_CONCERNS \<longrightarrow> assignedToId row \<noteq> Some (acc_id u) \<or> acc_id u = 0)
    \<and> status stored = status row \<and> assignedToId stored = assignedToId row"
  using assms(1)
proof (cases rule: correctTicketRequester_cases)
  case (corrected u row)
  let ?t = "without_relations row"
  let ?new = "with_requester (number (rq_requesterId dto)) ?t"
  have same: "status ?t = status row" "assignedToId ?t = assignedToId row" "requesterId ?t = requesterId row"
    "updatedAt ?t = updatedAt row" "ticketType ?t = ticketType row" "ticket_id ?t = n"
    using find_ticket_id [OF corrected(2)] by (simp_all add: without_relations_def)
  note c = requester_checks_Inr [OF corrected(1)] and g = requester_guard_None [OF corrected(3), unfolded same]
  have new: "status ?new = status row" "assignedToId ?new = assignedToId row" "ticket_id ?new = n"
    using same by (simp_all add: with_requester_def)
  have "find_ticket db' n = Some (stamp env ?new)"
    using find_save_ticket_same [of env ?new db] new corrected(5) by (simp add: table_simps)
  moreover have "requesterId (stamp env ?new) = number (rq_requesterId dto)" by (simp add: stamp_def)
  ultimately show ?thesis using corrected(2) c g new
    by (intro exI [of _ row] exI [of _ "stamp env ?new"] exI [of _ u] conjI) (simp_all, blast?)
qed (use assms(2) in simp)

text \<open>A corrected resolution time is evidence, not a rewrite. The correction keeps the recorded resolution and
  the status, lies between the start of the work and the recorded resolution and not in the future, and only
  appends to the evidence, with a reason of at least ten characters and at least one proof image.\<close>

lemma resolution_correction_appends:
  assumes "overrideResolutionTime env n dto proofs actor role db = (r, db')" "db_wf db" "db' \<noteq> db"
  shows "\<exists>row stored o'. find_ticket db n = Some row \<and> find_ticket db' n = Some stored
    \<and> status row \<in> {RESOLVED, CLOSED} \<and> status stored = status row \<and> resolvedAt stored = resolvedAt row
    \<and> db_overrides db' = db_overrides db @ [o'] \<and> recordedResolvedAt o' = the (resolvedAt row)
    \<and> resolutionTimeOverride stored = Some (verifiedResolvedAt o')
    \<and> earliestValidResolution row \<le> verifiedResolvedAt o' \<and> verifiedResolvedAt o' \<le> recordedResolvedAt o'
    \<and> verifiedResolvedAt o' \<le> env_now env \<and> 10 \<le> length (ovr_reason o') \<and> ovr_createdById o' = actor
    \<and> length (ovr_proofFiles o') = length proofs \<and> proofs \<noteq> []"
  using assms by (rule overrideResolutionTime_stores)

text \<open>A ticket is rated once, by its requester, from one to five. A rating that is stored comes from the
  requester of a resolved or closed ticket that was not rated; it closes the ticket, the rating is between 1
  and 5, and a second submission by anybody is refused.\<close>

lemma rated_once_in_range:
  assumes "submitSatisfaction env n dto requester db = (Inr t, db')"
  shows "(\<exists>row stored. find_ticket db n = Some row \<and> requesterId row = requester
      \<and> status row \<in> {RESOLVED, CLOSED} \<and> satisfactionSubmittedAt row = None
      \<and> find_ticket db' n = Some stored \<and> status stored = CLOSED
      \<and> (case satisfactionRating stored of Some q \<Rightarrow> 1 \<le> q \<and> q \<le> 5 | None \<Rightarrow> True))
    \<and> (\<exists>e. submitSatisfaction env' n dto' requester' db' = (Inl e, db'))"
proof -
  obtain row stored where s: "find_ticket db n = Some row" "requesterId row = requester"
    "status row \<in> {RESOLVED, CLOSED}" "satisfactionSubmittedAt row = None" "find_ticket db' n = Some stored"
    "status stored = CLOSED" "satisfactionSubmittedAt stored = Some (env_now env)"
    "case satisfactionRating stored of Some q \<Rightarrow> 1 \<le> q \<and> q \<le> 5 | None \<Rightarrow> True"
    using submitSatisfaction_stores [OF assms] by blast
  have "satisfactionSubmittedAt (enrich db' (without_relations stored)) = Some (env_now env)"
    using s(7) by (simp add: enrich_def without_relations_def split: option.split)
  then have "satisfaction_guard (enrich db' (without_relations stored)) requester' \<noteq> None"
    using satisfaction_guard_None(3) by fastforce
  then have "\<exists>e. submitSatisfaction env' n dto' requester' db' = (Inl e, db')"
    using s(5) by (auto simp: submitSatisfaction_def)
  with s show ?thesis by blast
qed

section \<open>Creation and routing\<close>

text \<open>What a new ticket is. It belongs to the requester it was filed for and its filer; it is open exactly if
  nobody works on it and has a running clock exactly if it is in progress; an ordinary ticket is not assigned
  to its own requester; its category and issue type pass the routing validation.\<close>

lemma new_ticket_is_consistent:
  assumes "createTicketInternal env usersDatabase dto caller role images db = (Inr c, db')"
  shows "requesterId (cr_ticket c) = requested_for dto caller \<and> createdById (cr_ticket c) = Some caller
    \<and> status (cr_ticket c) \<in> {OPEN, ASSIGNED, IN_PROGRESS}
    \<and> (status (cr_ticket c) = OPEN \<longleftrightarrow> \<not> truthy (assignedToId (cr_ticket c)))
    \<and> (status (cr_ticket c) = IN_PROGRESS \<longleftrightarrow> slaStartedAt (cr_ticket c) \<noteq> None)
    \<and> (ticketType (cr_ticket c) \<noteq> SPECIALIZED_CONCERNS \<longrightarrow>
         assignedToId (cr_ticket c) \<noteq> Some (requesterId (cr_ticket c)))
    \<and> (\<exists>categ k issue. categoryId (cr_ticket c) = Some categ
         \<and> validateRoutingSelection db (ticketType (cr_ticket c)) categ (issueTypeId (cr_ticket c)) = Inr (k, issue))"
  using assms
proof (cases rule: createTicket_cases)
  case (created rt t)
  have "cr_ticket c = stamp env t" using created(2) by simp
  moreover have "createdById (stamp env t) = createdById t" "categoryId (stamp env t) = categoryId t"
    "issueTypeId (stamp env t) = issueTypeId t" "ticketType (stamp env t) = ticketType t"
    "slaStartedAt (stamp env t) = slaStartedAt t" "requesterId (stamp env t) = requesterId t"
    "assignedToId (stamp env t) = assignedToId t" "status (stamp env t) = status t"
    by (simp_all add: stamp_def)
  ultimately show ?thesis using created_ticket_facts [OF created(1)] by simp
qed simp

text \<open>C36: the word distance is the least number of edits. \<open>levenshtein\<close>, computed with two rows of the table,
  is the length of a cheapest script of insertions, deletions and substitutions between the two words, and
  no script is cheaper.\<close>

theorem levenshtein_least_script:
  "(\<exists>es. source es = a \<and> target es = b \<and> edits es = levenshtein a b)
     \<and> (\<forall>es. source es = a \<longrightarrow> target es = b \<longrightarrow> levenshtein a b \<le> edits es)"
  by (rule levenshtein_least)

text \<open>The two-row table is the recursive distance. \<open>levenshtein\<close> equals the textbook recursion on the
  reversed words.\<close>

lemma levenshtein_recursive: "levenshtein a b = distance (rev a) (rev b)"
  by (rule levenshtein_distance)

text \<open>Keyword routing picks an active rule that matches. The rule chosen for a text is active, its target is
  a live category and issue type that support the ticket type, and one of its keywords occurs in the
  lowercased text, literally or word by word within the allowed typos.\<close>

lemma keyword_rule_matches:
  assumes "matchKeywordRules db text current = Some r"
  shows "r \<in> set (db_keywordRules db) \<and> rule_isActive r \<and> rule_target_valid db r
    \<and> (\<exists>kw \<in> set (rule_keyword_list r). fuzzyMatch kw (toLowerCase text))"
  using assms by (rule matchKeywordRules_Some)

end
