(* ===== verification/RoutineProps.thy ===== *)
theory RoutineProps
  imports System
begin

text \<open>
  The theorems about the scheduled tasks and the attendance records.
\<close>

section \<open>The schedule\<close>

text \<open>No clock runs outside working hours. After the schedule task ran outside working hours (on no overtime
  day and without a flag-ceremony pause) no ticket has a running clock.\<close>

lemma off_hours_clock_stopped:
  assumes "db_wf db" "off_hours env config db"
    "find_ticket (snd (processSlaSchedules env config db)) n = Some t"
  shows "\<not> running_clock t"
  using assms by (rule off_hours_stops)

text \<open>An alert is sent once. However often the percentage task runs, a ticket has at most one alert event of a
  threshold, unless the log already held more.\<close>

lemma percentage_alert_once:
  "alert_count (snd (processPercentageAlerts env hasEmail db)) n ty \<le> max 1 (alert_count db n ty)"
  by (rule processPercentageAlerts_once)

lemma overdue_assigned_advance:
  assumes "\<And>t. t \<in> set (db_tickets db) \<Longrightarrow> overdue_active env t \<Longrightarrow> truthy (assignedToId t)
      \<Longrightarrow> ticket_id t \<in> set (advancedOverdueTickets st)"
  shows "snd (snd (processOverdueTicketsUnpauseNext env st db)) = db"
proof -
  let ?o = "filter (overdue_active env) (db_tickets db)"
  let ?k = "filter (\<lambda>n. n \<in> ticket_id ` set ?o) (advancedOverdueTickets st)"
  have "advance_each env ?o ?k db = (Inr (), ?k, db)"
    by (rule advance_each_all_advanced) (use assms in auto)
  then show ?thesis by (simp add: processOverdueTicketsUnpauseNext_def Let_def)
qed

text \<open>A breach advances the queue once. When every assigned overdue ticket is remembered as having advanced its
  technician's queue, the overdue task changes nothing.\<close>

lemma breach_advances_once:
  assumes "\<And>t. t \<in> set (db_tickets db) \<Longrightarrow> overdue_active env t \<Longrightarrow> truthy (assignedToId t)
      \<Longrightarrow> ticket_id t \<in> set (advancedOverdueTickets st)"
  shows "snd (snd (processOverdueTicketsUnpauseNext env st db)) = db"
  using assms by (rule overdue_assigned_advance)

section \<open>Attendance\<close>

text \<open>A manual attendance decision is authoritative. No synchronisation with the clock records changes a row
  that was set by hand, and none changes a row of another day.\<close>

lemma manual_attendance_stays:
  assumes "attendance_row db user d = Some a" "isManualOverride a \<or> d \<noteq> env_today env"
  shows "attendance_row (snd (syncAttendanceWithDTR env view dtr db)) user d = Some a"
  using assms sync_manual [of db user d a env view dtr] sync_other_day [of d env view dtr db user] by auto

text \<open>A manual decision reads back. After \<open>setAttendance\<close> succeeds, for today only, the user's row has the
  given status and is marked manual, and every other row is as it was.\<close>

lemma attendance_reads_back:
  assumes "setAttendance env dto role db = (Inr a, db')"
  shows "attendance_row db' (set_userId dto) (env_today env) = Some a \<and> att_status a = set_status dto
    \<and> isManualOverride a \<and> set_date dto = env_today env
    \<and> (\<forall>user d. (user, d) \<noteq> (set_userId dto, env_today env) \<longrightarrow> attendance_row db' user d = attendance_row db user d)"
  using setAttendance_stored [OF assms] by simp

lemma attendance_row_add:
  "attendance_row (add_attendance rows db) user d =
     (case attendance_row db user d of Some a \<Rightarrow> Some a
      | None \<Rightarrow> List.find (\<lambda>a. att_userId a = user \<and> att_date a = d) rows)"
proof -
  have "List.find P (xs @ ys) = (case List.find P xs of Some x \<Rightarrow> Some x | None \<Rightarrow> List.find P ys)" for P and xs ys :: "attendance list"
    by (induction xs) auto
  then show ?thesis by (simp add: attendance_row_def add_attendance_def)
qed

lemma missing_row:
  assumes "attendance_row db user d = None" "u \<in> set (eligible_staff env db)" "acc_id u = user"
  shows "List.find (\<lambda>a. att_userId a = user \<and> att_date a = d)
      (map (\<lambda>u. absent_row (acc_id u) d) (missing_staff env db d)) = Some (absent_row user d)"
proof -
  have "\<not> list_ex (\<lambda>a. att_userId a = acc_id u \<and> att_date a = d) (db_attendance db)"
    using assms(1,3) by (auto simp: attendance_row_def find_None_iff list_ex_iff)
  then have m: "u \<in> set (missing_staff env db d)" using assms(2) by (simp add: missing_staff_def)
  have "List.find (\<lambda>a. att_userId a = user \<and> att_date a = d) (map (\<lambda>u. absent_row (acc_id u) d) us)
      = Some (absent_row user d)" if "u \<in> set us" for us
    using that assms(3) by (induction us) (auto simp: absent_row_def)
  from this [OF m] show ?thesis .
qed

text \<open>The end of the day accounts for everybody. Once the clock records of an ordinary office day have been
  synchronised, the finalisation gives every eligible member of staff without a row an absence, and keeps
  every row there is.\<close>

lemma absences_complete:
  assumes "dtr_isOnline dtr" "lastSuccessfulSyncDate dtr = Some d" "office_of db d"
    "\<not> isOvertimeDay (db_officeDays db) d" "u \<in> set (eligible_staff env db)"
  shows "attendance_row (snd (markMissingAttendanceAsAbsent env dtr d db)) (acc_id u) d =
    (case attendance_row db (acc_id u) d of Some a \<Rightarrow> Some a | None \<Rightarrow> Some (absent_row (acc_id u) d))"
proof -
  have "snd (markMissingAttendanceAsAbsent env dtr d db) =
      add_attendance (map (\<lambda>u. absent_row (acc_id u) d) (missing_staff env db d)) db"
    using assms(1-4) by (simp add: markMissingAttendanceAsAbsent_def Let_def)
  then show ?thesis
    using missing_row [OF _ assms(5) refl] by (simp add: attendance_row_add split: option.split)
qed

end
