(* ===== verification/Witnesses.thy ===== *)
theory Witnesses
  imports Samples WorkProps RecordProps RoutineProps
begin

text \<open>
  The properties at concrete inputs: for each theorem with hypotheses, a run of the model on the sample
  tables on which they hold.
\<close>

section \<open>Updating\<close>

lemma resolve_run: "result_ok (fst (updateTicket demo_env 11 resolve_update 2 tech_role (demo_db [running_ticket 11 2])))"
  by code_simp

lemma demo_db_wf:
  "db_wf (demo_db [running_ticket 11 2])" "db_wf (demo_db [(running_ticket 11 2)\<lparr>status := CLOSED, resolvedAt := Some 5\<rparr>])"
  "db_wf (demo_db [running_ticket 11 2, assigned_ticket 12 2])"
  "db_wf (demo_db [running_ticket 11 2, assigned_ticket 12 4])"
  by (simp_all add: db_wf_def db_ok_def table_ok_def ticket_wf_def demo_db_def running_ticket_def
      assigned_ticket_def blank_ticket_def)

lemma updateTicket_transition_witness:
  "\<exists>stored. find_ticket (snd (updateTicket demo_env 11 resolve_update 2 tech_role (demo_db [running_ticket 11 2]))) 11
     = Some stored \<and> status stored = RESOLVED"
proof -
  obtain saved db' where u: "updateTicket demo_env 11 resolve_update 2 tech_role (demo_db [running_ticket 11 2])
      = (Inr saved, db')"
    using result_ok_cases [OF resolve_run] by blast
  have "dto_status resolve_update = Some RESOLVED" by (simp add: resolve_update_def)
  with updateTicket_transition [OF demo_db_wf(1) u] u show ?thesis by auto
qed

lemma persistTicketUpdate_no_lost_update_witness:
  "\<exists>s db1 r. persistTicketUpdate demo_env (running_ticket 11 2) 11000 (demo_db [running_ticket 11 2]) = (Inr s, db1)
     \<and> persistTicketUpdate demo_env (running_ticket 11 2) 11000 db1 = (Inl (Conflict r), db1)"
proof -
  have "result_ok (fst (persistTicketUpdate demo_env (running_ticket 11 2) 11000 (demo_db [running_ticket 11 2])))"
    by code_simp
  then obtain s db1 where u: "persistTicketUpdate demo_env (running_ticket 11 2) 11000
      (demo_db [running_ticket 11 2]) = (Inr s, db1)"
    using result_ok_cases by blast
  have "env_now demo_env \<noteq> 11000" by (simp add: demo_env_def)
  with persistTicketUpdate_no_lost_update [OF u refl] u show ?thesis by blast
qed

section \<open>Time\<close>

lemma business_seconds_reference_witness:
  "calculateBusinessSeconds False (\<lambda>_. True) 0 5000000 default_config
     = Inr (business_count (\<lambda>_. True) default_config 0 5000)"
  using business_seconds_reference [of default_config False 0 "\<lambda>_. True" 5000000] default_schedule_ok
  by (simp add: hours_readable_def)

abbreviation demo_office :: "day \<Rightarrow> bool" where "demo_office \<equiv> office_of (demo_db [])"

lemma demo_office_day: "demo_office 0"
  by (simp add: office_of_def demo_db_def isOfficeDay_def find_row_def day_of_week_def)

lemma demo_deadline:
  "calculateSlaDeadline False demo_office 0 (hours_of 14400) default_config = Inr 14400000"
  "calculateSlaDeadline False demo_office 0 (hours_of 18000) default_config = Inr 21600000"
  "calculateSlaDeadline False demo_office 3600000 (hours_of 3600) default_config = Inr 7200000"
  using calculateSlaDeadline_walk [of default_config False 0 demo_office 14400]
    calculateSlaDeadline_walk [of default_config False 0 demo_office 18000]
    calculateSlaDeadline_walk [of default_config False 3600 demo_office 3600] default_schedule_ok demo_office_day
  by (simp_all add: hours_readable_def walk_eval)


lemma first_second_works: "working_second (\<lambda>_. True) default_config 0"
  by code_simp

lemma sla_deadline_returns_witness:
  "\<exists>deadline. calculateSlaDeadline False (\<lambda>_. True) 0 (hours_of 1) default_config = Inr deadline"
proof -
  let ?W = "working_second (\<lambda>_. True) default_config"
  have "count_in ?W 0 1 = 1" using count_in_step [of ?W 0] first_second_works by simp
  moreover have "count_in ?W 0 1 \<le> count_in ?W 0 ((sec_day 0 + 39999) * 86400 - 28800)"
    by (rule count_in_mono) (simp add: sec_day_def)
  ultimately have "1 \<le> business_count (\<lambda>_. True) default_config (0 div 1000)
      ((sec_day (0 div 1000) + 39999) * 86400 - 28800)" by (simp add: business_count_def)
  from sla_deadline_returns [OF default_schedule_ok _ this] show ?thesis
    by (simp add: hours_readable_def)
qed

lemma paused_clock_fields:
  "\<not> already_credited (ledger_for_credit paused_clock_ticket) 3600000 7200000"
  "slaPausedAt paused_clock_ticket = Some 3600000" "getSlaClockStartedAt paused_clock_ticket = 0"
  "slaDeadline paused_clock_ticket = Some 14400000" "accumulatedPauseSeconds paused_clock_ticket = 0"
  by code_simp+

lemma paused_clock_calendar:
  "ticketCalendar default_config paused_clock_ticket = default_config"
  "configuredSlaHours paused_clock_ticket = Some (hours_of 14400)"
  by (simp_all add: ticketCalendar_def default_config_def paused_clock_ticket_def running_ticket_def
      assigned_ticket_def blank_ticket_def configuredSlaHours_def demo_issue_def hours_of_def)

lemma demo_current:
  "deadline_current False demo_office (ticketCalendar default_config paused_clock_ticket)
     paused_clock_ticket 14400 14400000"
  using demo_deadline(1) credited_hours [of 14400 0]
  by (simp add: deadline_current_def paused_clock_calendar paused_clock_fields)

lemma demo_seconds: "calculateBusinessSeconds False demo_office 3600000 7200000 default_config = Inr 3600"
proof -
  have "business_count demo_office default_config 3600 7200 = 3600"
    using calculateSlaDeadline_spends [OF demo_deadline(3)] by (auto simp: hours_readable_def)
  then show ?thesis
    using calculateBusinessSeconds_counts [OF default_schedule_ok, of False 3600000 demo_office 7200000]
    by (simp add: hours_readable_def)
qed

lemma pause_run: "\<exists>t'. applySlaResume demo_env (demo_db []) default_config paused_clock_ticket 7200000 = Inr (Some t')"
proof -
  let ?c = "creditTicketPause paused_clock_ticket 3600000 7200000 3600"
  have acc: "accumulatedPauseSeconds ?c = 3600"
    using creditTicketPause_adds [OF paused_clock_fields(1), of 3600] by (simp add: paused_clock_fields)
  have fr: "clock_frame paused_clock_ticket ?c" by simp
  have cal: "ticketCalendar default_config ?c = default_config"
    using clock_frame_fields(18) [OF fr] paused_clock_calendar(1) by (simp add: ticketCalendar_def)
  have start: "getSlaClockStartedAt ?c = 0"
    using paused_clock_fields(3) unfolding getSlaClockStartedAt_def creditTicketPause_fields(3)
      clock_frame_fields(14) [OF fr] clock_frame_fields(15) [OF fr] .
  have "credited_deadline demo_env (demo_db []) default_config ?c (hours_of 14400) 3600 = Inr 21600000"
    using demo_deadline(2) credited_hours [of 14400 3600]
    by (simp add: credited_deadline_def cal start demo_env_def)
  moreover have "ticket_business_seconds demo_env (demo_db []) default_config paused_clock_ticket 3600000 7200000
      = Inr 3600" using demo_seconds by (simp add: ticket_business_seconds_def paused_clock_calendar demo_env_def)
  ultimately show ?thesis
    by (simp add: applySlaResume_def paused_clock_fields breached_at_def credited_resume_def Let_def
        paused_clock_calendar acc)
qed

lemma schedule_pause_neutral_witness:
  "\<exists>t' d'. applySlaResume demo_env (demo_db []) default_config paused_clock_ticket 7200000 = Inr (Some t')
     \<and> slaDeadline t' = Some d' \<and> 7200000 < d'"
proof -
  obtain t' where r: "applySlaResume demo_env (demo_db []) default_config paused_clock_ticket 7200000 = Inr (Some t')"
    using pause_run by blast
  have "env_h24 demo_env = False" by (simp add: demo_env_def)
  with schedule_pause_neutral [OF r paused_clock_fields(2), of 14400 14400000] demo_current paused_clock_fields(1,3)
  obtain d' where "slaDeadline t' = Some d'" "7200000 < d'" by (auto simp: hours_readable_def)
  with r show ?thesis by blast
qed

section \<open>Work\<close>

lemma demo_wf:
  "db_wf (demo_db [])" "db_wf (demo_db [blank_ticket 11])" "db_wf (demo_db [resolved_ticket 11])"
  "db_wf (demo_db [queued_ticket 11 2, queued_ticket 12 2])" "db_wf escalated_db"
  by (simp_all add: db_wf_def db_ok_def table_ok_def ticket_wf_def demo_db_def running_ticket_def queued_ticket_def
      assigned_ticket_def blank_ticket_def resolved_ticket_def escalated_db_def pending_escalation_def)

lemma run_cases: "result_ok (fst p) \<Longrightarrow> (\<And>x d. p = (Inr x, d) \<Longrightarrow> thesis) \<Longrightarrow> thesis"
  using result_ok_cases by blast

lemma assignment_reaches_eligible_witness:
  "\<exists>saved db'. assignTicketInternal demo_env 11 assign_to_two admin_role (Some 1) None (demo_db [blank_ticket 11])
     = (Inr saved, db') \<and> assignedToId saved = Some 2"
proof -
  have "result_ok (fst (assignTicketInternal demo_env 11 assign_to_two admin_role (Some 1) None
      (demo_db [blank_ticket 11])))" by code_simp
  then obtain saved db' where u: "assignTicketInternal demo_env 11 assign_to_two admin_role (Some 1) None
      (demo_db [blank_ticket 11]) = (Inr saved, db')" by (rule run_cases)
  with assignment_reaches_eligible [OF u demo_wf(2)] show ?thesis by (auto simp: assign_to_two_def)
qed

lemma find_blank: "find_ticket (demo_db [blank_ticket 11]) 11 = Some (blank_ticket 11)"
  by (simp add: find_ticket_def find_row_def demo_db_def blank_ticket_def)


lemma accept_run:
  obtains e' db' where "acceptEscalationInternal demo_env 11 21 4 escalated_db = (Inr e', db')"
proof -
  have "result_ok (fst (acceptEscalationInternal demo_env 11 21 4 escalated_db))" by code_simp
  then show thesis by (rule run_cases) (rule that)
qed

section \<open>Records\<close>

lemma jpeg_upload_valid: "valid_image jpeg_upload"
  by (simp add: valid_image_def jpeg_upload_def upload_mime_def toLowerCase_def lower_char_def extname_def
      allowedMimeTypes_def isJpeg_def Let_def)

lemma correction_run:
  "db_overrides (snd (overrideResolutionTime demo_env 11 correct_time [(''u'', jpeg_upload)] 1 admin_role
     (demo_db [resolved_ticket 11]))) \<noteq> []"
proof -
  let ?db = "demo_db [resolved_ticket 11]"
  have "case getTicketById demo_env ?db 11 (Some admin_role) (Some 1) of Inl _ \<Rightarrow> False
    | Inr v \<Rightarrow> status (view_ticket v) = RESOLVED \<and> resolvedAt (view_ticket v) = Some 900000
        \<and> slaStartedAt (view_ticket v) = Some 2000" by code_simp
  then obtain v where v: "getTicketById demo_env ?db 11 (Some admin_role) (Some 1) = Inr v"
    "status (view_ticket v) = RESOLVED" "resolvedAt (view_ticket v) = Some 900000"
    "slaStartedAt (view_ticket v) = Some 2000" by (auto split: sum.splits)
  have "override_checks demo_env (view_ticket v) correct_time [jpeg_upload] = Inr (900000, 800000)"
    using v(2-4) validate_images_None [of "[jpeg_upload]"]
    by (simp add: override_checks_def jpeg_upload_valid correct_time_def override_reason_def override_time_guard_def
        earliestValidResolution_def demo_env_def trim_def js_space_def)
  moreover have "isTicketResolutionTimeOverride (env_caps demo_env) admin_role" by code_simp
  ultimately show ?thesis using v(1)
    by (simp add: overrideResolutionTime_def commit_override_def update_ticket_columns_def Let_def split: option.split)
qed

lemma levenshtein_least_script_witness: "levenshtein ''cat'' ''at'' \<le> 1"
proof -
  have "source [Delete (CHR ''c''), Keep (CHR ''a''), Keep (CHR ''t'')] = ''cat''"
    "target [Delete (CHR ''c''), Keep (CHR ''a''), Keep (CHR ''t'')] = ''at''"
    "edits [Delete (CHR ''c''), Keep (CHR ''a''), Keep (CHR ''t'')] = 1" by simp_all
  with levenshtein_least_script [of "''cat''" "''at''"] show ?thesis by metis
qed

section \<open>Routine\<close>

end
