(* ===== verification/Accounts.thy ===== *)
theory Accounts
  imports Roles ManilaTime "HOL-Library.List_Lexorder" "HOL-Library.Char_ord"
begin

text \<open>
  The accounts of the users service as the sign-in sees them: their rows with the columns of the second
  factor, trusted devices, revoked token ids, the security configuration and the policy that decides
  which accounts may use the application (\<^verbatim>\<open>user.entity.ts\<close>, \<^verbatim>\<open>security-config.service.ts\<close>,
  \<^verbatim>\<open>outbound-email-policy.service.ts\<close>).  Names and other profile columns are left out.
\<close>

section \<open>Errors\<close>

datatype (plugins only: code) auth_reason =
    Deactivated | InvalidCredentials | TempToken | AccountGone | MfaSettingsChanged | GoogleDisabled
  | GoogleToken | GoogleEmail | GoogleNotConfigured | AccessNotApproved | AccessUnverified | DomainNotAllowed
  | RefreshInvalid | RefreshUnavailable | MfaPending | TokenRevoked | SamePassword | WrongPassword
  | PasswordMissing | GooglePassword | EmailPolicy | MailFailed | EmailTaken | RecoveryIdentity
  | RecoveryFields | RecoveryAuthority | RecoveryChanged | RecoveryUnavailable | MfaChanged | ConfigInvalid

datatype (plugins only: code) mfa_failure_code =
    MFA_INVALID_CODE | MFA_CHALLENGE_EXHAUSTED | MFA_CHALLENGE_UNAVAILABLE | MFA_CHALLENGE_EXPIRED
  | MFA_ACCOUNT_LOCKED | MFA_ACCOUNT_UNAVAILABLE | MFA_RESEND_COOLDOWN

text \<open>\<open>StillDrawing\<close> is no error: the loop that draws a code has not found one among the draws it is given.\<close>

datatype (plugins only: code) auth_error =
    Unauthorized auth_reason
  | NotAllowed auth_reason
  | Malformed auth_reason
  | UserNotFound
  | Clash auth_reason
  | Unavailable auth_reason
  | MfaFailure mfa_failure_code
  | Unexpected
  | StillDrawing

type_synonym 'a auth_result = "auth_error + 'a"

section \<open>Tables\<close>

datatype (plugins only: code) auth_provider = LOCAL | GOOGLE

record member =
  m_id :: nat
  m_email :: string
  passwordHash :: string
  mfaCode :: "string option"
  mfaExpiresAt :: "date option"
  mfaLastVerifiedAt :: "date option"
  mfaAttempts :: nat
  mfaChallengeAttempts :: nat
  mfaLockedUntil :: "date option"
  m_staffId :: "string option"
  authProvider :: auth_provider
  googleSub :: "string option"
  m_role :: user_role
  m_active :: bool
  m_units :: "nat list"
  lastLogin :: "date option"
  m_updatedAt :: date

record trusted_device =
  dev_userId :: nat
  deviceToken :: string
  dev_expiresAt :: date

record revoked_token =
  tokenJti :: string
  revoked_expiresAt :: date

record security_config =
  defaultPassword :: string
  mfaTestMode :: bool
  vaptMode :: bool
  googleSignInEnabled :: bool
  idleLockMinutes :: int
  allowedEmailDomains :: "string list"
  unitRestriction :: bool
  allowedUnitIds :: "nat list option"

record role_row =
  rr_role :: user_role
  isSecuritySettingsAccess :: bool
  isUserManagementRolesManage :: bool
  isUserManagementAdmin :: bool
  isUserManagementView :: bool

text \<open>The explicit audit entry of an unlock: who, whose account, why.\<close>

record unlock_entry =
  un_actor :: nat
  un_target :: nat
  un_reason :: string

text \<open>\<open>ad_units\<close> pairs a unit's id with its \<open>active\<close> flag; \<open>ad_vapt\<close> is the process variable \<open>VAPT_MODE\<close>.\<close>

record auth_db =
  ad_users :: "member list"
  ad_devices :: "trusted_device list"
  ad_blacklist :: "revoked_token list"
  ad_config :: "security_config option"
  ad_roles :: "role_row list"
  ad_units :: "(nat \<times> bool) list"
  ad_audit :: "unlock_entry list"
  ad_vapt :: bool

text \<open>The payload of a token, and what Google says of an identity token.\<close>

record claims =
  cl_sub :: nat
  cl_role :: user_role
  cl_jti :: "string option"
  cl_isTemp :: bool
  cl_exp :: date

record google_payload =
  gp_sub :: string
  gp_email :: "string option"
  gp_verified :: bool

text \<open>
  What the handlers use of the outside: the clock; bcrypt; the collation by which the database compares
  mails; the token library (signing, verifying, decoding); Google's verification (\<open>None\<close>: it throws); the
  random source; the mail queue, the ticketing service's mail switch (\<open>None\<close>: no answer); the recovery
  digest and the presence of its secret and of the audit database.
\<close>

record auth_env =
  au_now :: date
  au_compare :: "string \<Rightarrow> string \<Rightarrow> bool"
  au_hash :: "string \<Rightarrow> string"
  au_sameText :: "string \<Rightarrow> string \<Rightarrow> bool"
  au_sign :: "claims \<Rightarrow> string"
  au_signRefresh :: "claims \<Rightarrow> string"
  au_verify :: "string \<Rightarrow> claims option"
  au_verifyRefresh :: "string \<Rightarrow> claims option"
  au_decode :: "string \<Rightarrow> claims option"
  au_accessTtl :: int
  au_refreshTtl :: int
  au_googleClient :: bool
  au_google :: "string \<Rightarrow> google_payload option option"
  au_draws :: "string list"
  au_uuid :: string
  au_freshId :: nat
  au_mailQueued :: bool
  au_authEmails :: "bool option"
  au_recoveryDigest :: "nat \<times> string option \<times> date option \<times> nat \<times> nat \<times> date option \<times> date \<Rightarrow> string"
  au_secret :: bool
  au_auditDatabase :: bool

section \<open>Rows\<close>

definition find_member :: "auth_db \<Rightarrow> nat \<Rightarrow> member option" where
  "find_member db n = find_row m_id (ad_users db) n"

text \<open>Every write of a row sets \<open>updated_at\<close>.\<close>

definition save_member :: "auth_env \<Rightarrow> member \<Rightarrow> auth_db \<Rightarrow> auth_db" where
  "save_member env m db = db\<lparr>ad_users := save_row m_id (ad_users db) (m\<lparr>m_updatedAt := au_now env\<rparr>)\<rparr>"

definition findOne :: "auth_db \<Rightarrow> nat \<Rightarrow> member auth_result" where
  "findOne db n = (case find_member db n of Some m \<Rightarrow> Inr m | None \<Rightarrow> Inl UserNotFound)"

definition findByEmail :: "auth_env \<Rightarrow> auth_db \<Rightarrow> string \<Rightarrow> member option" where
  "findByEmail env db email = List.find (\<lambda>m. au_sameText env (m_email m) email) (ad_users db)"

definition findByGoogleSub :: "auth_db \<Rightarrow> string \<Rightarrow> member option" where
  "findByGoogleSub db sub = List.find (\<lambda>m. googleSub m = Some sub) (ad_users db)"

definition recordLogin :: "auth_env \<Rightarrow> nat \<Rightarrow> auth_db \<Rightarrow> auth_db" where
  "recordLogin env n db =
     (case find_member db n of Some m \<Rightarrow> save_member env (m\<lparr>lastLogin := Some (au_now env)\<rparr>) db | None \<Rightarrow> db)"

definition find_role :: "auth_db \<Rightarrow> user_role \<Rightarrow> role_row option" where
  "find_role db role = find_row rr_role (ad_roles db) role"

section \<open>Security configuration\<close>

definition DEFAULT_ALLOWED_EMAIL_DOMAINS :: "string list" where
  "DEFAULT_ALLOWED_EMAIL_DOMAINS = [''dswd.gov.ph'', ''gmail.com'', ''yahoo.com'', ''yahoomail.com'',
     ''hotmail.com'', ''rocketmail.com'', ''outlook.com'', ''icloud.com'', ''aol.com'']"

definition default_security_config :: security_config where
  "default_security_config = \<lparr>defaultPassword = ''Changeme123!@#'', mfaTestMode = False, vaptMode = False,
     googleSignInEnabled = True, idleLockMinutes = 15, allowedEmailDomains = DEFAULT_ALLOWED_EMAIL_DOMAINS,
     unitRestriction = False, allowedUnitIds = Some []\<rparr>"

definition readable_config :: "security_config \<Rightarrow> security_config" where
  "readable_config c = c\<lparr>
     allowedEmailDomains := (if allowedEmailDomains c = [] then DEFAULT_ALLOWED_EMAIL_DOMAINS
                             else allowedEmailDomains c),
     idleLockMinutes := (if idleLockMinutes c < 1 \<or> 1440 < idleLockMinutes c then 15 else idleLockMinutes c)\<rparr>"

definition getConfig :: "auth_db \<Rightarrow> security_config \<times> auth_db" where
  "getConfig db =
     (case ad_config db of
        Some c \<Rightarrow> (readable_config c, db)
      | None \<Rightarrow> (readable_config default_security_config, db\<lparr>ad_config := Some default_security_config\<rparr>))"

text \<open>A domain: at least two labels, separated by dots, of letters, digits and inner hyphens.\<close>

definition label_char :: "char \<Rightarrow> bool" where
  "label_char c \<longleftrightarrow> (CHR ''a'' \<le> c \<and> c \<le> CHR ''z'') \<or> (CHR ''0'' \<le> c \<and> c \<le> CHR ''9'')"

definition domain_label :: "string \<Rightarrow> bool" where
  "domain_label l \<longleftrightarrow> l \<noteq> [] \<and> length l \<le> 63 \<and> label_char (hd l) \<and> label_char (last l)
     \<and> list_all (\<lambda>c. label_char c \<or> c = CHR ''-'') l"

fun split_on :: "char \<Rightarrow> string \<Rightarrow> string list" where
  "split_on d [] = [[]]"
| "split_on d (c # cs) =
     (case split_on d cs of
        [] \<Rightarrow> [[c]]
      | w # ws \<Rightarrow> if c = d then [] # w # ws else (c # w) # ws)"

definition email_domain :: "string \<Rightarrow> bool" where
  "email_domain s \<longleftrightarrow> 2 \<le> length (split_on (CHR ''.'') s) \<and> list_all domain_label (split_on (CHR ''.'') s)"

definition lower_ascii :: "string \<Rightarrow> string" where
  "lower_ascii s = map (\<lambda>c. if CHR ''A'' \<le> c \<and> c \<le> CHR ''Z'' then char_of (of_char c + 32 :: nat) else c) s"

definition normalizeAllowedEmailDomains :: "string list \<Rightarrow> string list" where
  "normalizeAllowedEmailDomains domains =
     sort (remdups (filter email_domain
       (map (\<lambda>s. dropWhile (\<lambda>c. c = CHR ''@'') (lower_ascii (trim s))) domains)))"

definition isEmailDomainAllowed :: "security_config \<Rightarrow> string \<Rightarrow> bool" where
  "isEmailDomainAllowed config email =
     (last (split_on (CHR ''@'') (lower_ascii (trim email)))
        \<in> set (normalizeAllowedEmailDomains (allowedEmailDomains config)))"

record config_dto =
  cf_restriction :: "bool option"
  cf_unitIds :: "nat list option"
  cf_idleLock :: "int option"
  cf_defaultPassword :: "string option"
  cf_mfaTestMode :: "bool option"
  cf_vaptMode :: "bool option"
  cf_googleSignIn :: "bool option"
  cf_domains :: "string list option"

text \<open>\<open>Number.isSafeInteger\<close> of a positive number.\<close>

definition safe_id :: "nat \<Rightarrow> bool" where
  "safe_id n \<longleftrightarrow> 1 \<le> n \<and> int n < 2 ^ 53"

text \<open>Units that are not active may stay selected but may not be added.\<close>

definition unit_ids_valid :: "auth_db \<Rightarrow> security_config \<Rightarrow> nat list \<Rightarrow> bool" where
  "unit_ids_valid db config ids \<longleftrightarrow> list_all (\<lambda>n. case map_of (ad_units db) n of
       None \<Rightarrow> False
     | Some act \<Rightarrow> act \<or> (case allowedUnitIds config of Some old \<Rightarrow> n \<in> set old | None \<Rightarrow> False)) ids"

definition config_checks :: "auth_db \<Rightarrow> security_config \<Rightarrow> config_dto \<Rightarrow> auth_error option" where
  "config_checks db config dto = first_error [
     ((case cf_unitIds dto of None \<Rightarrow> False
       | Some ids \<Rightarrow> 1000 < length ids \<or> \<not> list_all safe_id ids \<or> \<not> distinct ids
           \<or> \<not> unit_ids_valid db config ids), Malformed ConfigInvalid),
     ((case cf_domains dto of None \<Rightarrow> False | Some ds \<Rightarrow> normalizeAllowedEmailDomains ds = []),
      Malformed DomainNotAllowed)]"

definition or_keep :: "'a option \<Rightarrow> 'a \<Rightarrow> 'a" where
  "or_keep new old = (case new of Some x \<Rightarrow> x | None \<Rightarrow> old)"

definition updated_config :: "security_config \<Rightarrow> config_dto \<Rightarrow> security_config" where
  "updated_config config dto = config\<lparr>
     allowedUnitIds := (case cf_unitIds dto of Some ids \<Rightarrow> Some (sort ids) | None \<Rightarrow> allowedUnitIds config),
     unitRestriction := or_keep (cf_restriction dto) (unitRestriction config),
     idleLockMinutes := or_keep (cf_idleLock dto) (idleLockMinutes config),
     defaultPassword := or_keep (cf_defaultPassword dto) (defaultPassword config),
     mfaTestMode := or_keep (cf_mfaTestMode dto) (mfaTestMode config),
     vaptMode := or_keep (cf_vaptMode dto) (vaptMode config),
     googleSignInEnabled := or_keep (cf_googleSignIn dto) (googleSignInEnabled config),
     allowedEmailDomains := (case cf_domains dto of
        Some ds \<Rightarrow> normalizeAllowedEmailDomains ds | None \<Rightarrow> allowedEmailDomains config)\<rparr>"

text \<open>The process variable \<open>VAPT_MODE\<close> is set before the domains are checked.\<close>

definition updateConfig :: "config_dto \<Rightarrow> auth_db \<Rightarrow> security_config auth_result \<times> auth_db" where
  "updateConfig dto db =
     (if (case cf_idleLock dto of Some n \<Rightarrow> n < 1 \<or> 1440 < n | None \<Rightarrow> False)
      then (Inl (Malformed ConfigInvalid), db)
      else (case getConfig db of (config, db1) \<Rightarrow>
        (case config_checks db config dto of
           Some e \<Rightarrow> (Inl e, if e = Malformed DomainNotAllowed
                            then db1\<lparr>ad_vapt := or_keep (cf_vaptMode dto) (ad_vapt db1)\<rparr> else db1)
         | None \<Rightarrow>
             (Inr (updated_config config dto),
              db1\<lparr>ad_config := Some (updated_config config dto),
                 ad_vapt := or_keep (cf_vaptMode dto) (ad_vapt db1)\<rparr>))))"

section \<open>Which accounts may use the application\<close>

datatype (plugins only: code) access_decision =
    RestrictionDisabled | UnitAllowed | SecurityAdminExempt | NoUnitsSelected | RecipientNotEligible
  | UnitNotAllowed | PolicyUnavailable

definition access_allowed :: "access_decision \<Rightarrow> bool" where
  "access_allowed d \<longleftrightarrow> (d = RestrictionDisabled \<or> d = UnitAllowed \<or> d = SecurityAdminExempt)"

definition unit_approved :: "auth_db \<Rightarrow> nat list \<Rightarrow> member \<Rightarrow> bool" where
  "unit_approved db allowedIds m \<longleftrightarrow> list_ex (\<lambda>u. map_of (ad_units db) u = Some True \<and> u \<in> set allowedIds) (m_units m)"

definition evaluateApproval :: "auth_db \<Rightarrow> member \<Rightarrow> security_config \<Rightarrow> bool \<Rightarrow> access_decision" where
  "evaluateApproval db m config exemptSecurityManagers =
     (if exemptSecurityManagers \<and> (case find_role db (m_role m) of Some r \<Rightarrow> isSecuritySettingsAccess r | None \<Rightarrow> False)
      then SecurityAdminExempt
      else (case allowedUnitIds config of
          None \<Rightarrow> PolicyUnavailable
        | Some ids \<Rightarrow> if ids = [] then NoUnitsSelected
                     else if unit_approved db ids m then UnitAllowed else UnitNotAllowed))"

definition decideAccountAccess :: "auth_db \<Rightarrow> nat \<Rightarrow> access_decision" where
  "decideAccountAccess db n =
     (case ad_config db of
        None \<Rightarrow> PolicyUnavailable
      | Some config \<Rightarrow>
          (case find_member db n of
             None \<Rightarrow> RecipientNotEligible
           | Some m \<Rightarrow> if \<not> m_active m then RecipientNotEligible
                       else if \<not> unitRestriction config then RestrictionDisabled
                       else evaluateApproval db m config True))"

definition assertAccountAccess :: "auth_db \<Rightarrow> nat \<Rightarrow> auth_error option" where
  "assertAccountAccess db n =
     (let d = decideAccountAccess db n
      in if d = PolicyUnavailable then Some (Unavailable AccessUnverified)
         else if \<not> access_allowed d then Some (Unauthorized AccessNotApproved) else None)"

definition decide_mail :: "auth_env \<Rightarrow> auth_db \<Rightarrow> string \<Rightarrow> bool \<Rightarrow> access_decision" where
  "decide_mail env db recipientEmail security =
     (case ad_config db of
        None \<Rightarrow> PolicyUnavailable
      | Some config \<Rightarrow>
          if \<not> unitRestriction config then RestrictionDisabled
          else (case allowedUnitIds config of
              None \<Rightarrow> PolicyUnavailable
            | Some ids \<Rightarrow>
                if ids = [] \<and> \<not> security then NoUnitsSelected
                else (case filter (\<lambda>m. lower_ascii (m_email m) = lower_ascii (trim recipientEmail) \<and> m_active m) (ad_users db) of
                    [m] \<Rightarrow> evaluateApproval db m config security
                  | _ \<Rightarrow> RecipientNotEligible)))"

end
