(* ===== verification/SignIn.thy ===== *)
theory SignIn
  imports Accounts
begin

text \<open>
  Signing in: password, Google identity, the mailed code of the second factor with its counters and
  locks, trusted devices, tokens, their rotation and revocation, password changes and the unlock by an
  account manager (\<^verbatim>\<open>auth.service.ts\<close>, \<^verbatim>\<open>mfa-policy.ts\<close>, \<^verbatim>\<open>mfa-recovery-policy.ts\<close>, the sign-in part of
  \<^verbatim>\<open>users.service.ts\<close>, \<^verbatim>\<open>jwt.strategy.ts\<close>, \<^verbatim>\<open>ticketing-jwt.strategy.ts\<close>).  The event \<open>user.login\<close> and the
  contents of mails are not modelled.
\<close>

section \<open>The mailed code\<close>

definition MFA_CODE_TTL_MS :: int where
  "MFA_CODE_TTL_MS = 15 * 60 * 1000"

definition MFA_RESEND_INTERVAL_SECONDS :: int where
  "MFA_RESEND_INTERVAL_SECONDS = 60"

definition lock_ms :: int where
  "lock_ms = 15 * 60 * 1000"

definition mfa_locked :: "date \<Rightarrow> member \<Rightarrow> bool" where
  "mfa_locked now m \<longleftrightarrow> (case mfaLockedUntil m of Some l \<Rightarrow> now < l | None \<Rightarrow> False)"

definition retryAfterSeconds :: "date \<Rightarrow> date \<Rightarrow> int" where
  "retryAfterSeconds now expiration =
     - (- (expiration - MFA_CODE_TTL_MS + MFA_RESEND_INTERVAL_SECONDS * 1000 - now) div 1000)"

definition code_guard :: "date \<Rightarrow> bool \<Rightarrow> member \<Rightarrow> auth_error option" where
  "code_guard now resend m = first_error [
     (\<not> m_active m, MfaFailure MFA_ACCOUNT_UNAVAILABLE),
     (mfa_locked now m, MfaFailure MFA_ACCOUNT_LOCKED),
     (resend \<and> (mfaCode m = None \<or> (case mfaExpiresAt m of Some x \<Rightarrow> x \<le> now | None \<Rightarrow> True)),
      MfaFailure MFA_CHALLENGE_UNAVAILABLE),
     (resend \<and> (case mfaExpiresAt m of Some x \<Rightarrow> 0 < retryAfterSeconds now x | None \<Rightarrow> False),
      MfaFailure MFA_RESEND_COOLDOWN)]"

definition with_code :: "string \<Rightarrow> date \<Rightarrow> bool \<Rightarrow> member \<Rightarrow> member" where
  "with_code code expires resend m =
     (let m1 = m\<lparr>mfaCode := Some code, mfaExpiresAt := Some expires\<rparr>;
          m2 = (if resend then m1 else m1\<lparr>mfaChallengeAttempts := 0\<rparr>)
      in if mfaLockedUntil m \<noteq> None then m2\<lparr>mfaAttempts := 0, mfaLockedUntil := None\<rparr> else m2)"

definition updateMfaCode :: "auth_env \<Rightarrow> nat \<Rightarrow> string \<Rightarrow> date \<Rightarrow> bool \<Rightarrow> auth_db \<Rightarrow> unit auth_result \<times> auth_db" where
  "updateMfaCode env n code expires resend db =
     (case find_member db n of
        None \<Rightarrow> (Inl (MfaFailure MFA_ACCOUNT_UNAVAILABLE), db)
      | Some m \<Rightarrow>
          (case code_guard (au_now env) resend m of
             Some e \<Rightarrow> (Inl e, db)
           | None \<Rightarrow> (Inr (), save_member env (with_code code expires resend m) db)))"

definition challenge_guard :: "date \<Rightarrow> member \<Rightarrow> auth_error option" where
  "challenge_guard now m = first_error [
     (\<not> m_active m, MfaFailure MFA_ACCOUNT_UNAVAILABLE),
     (mfa_locked now m, MfaFailure MFA_ACCOUNT_LOCKED),
     (mfaCode m = None \<or> mfaExpiresAt m = None, MfaFailure MFA_CHALLENGE_UNAVAILABLE),
     ((case mfaExpiresAt m of Some x \<Rightarrow> x < now | None \<Rightarrow> False), MfaFailure MFA_CHALLENGE_EXPIRED)]"

text \<open>A wrong code is counted twice: for this code (three) and since the last success (nine).\<close>

definition failed_guess :: "date \<Rightarrow> member \<Rightarrow> member" where
  "failed_guess now m =
     (let attempts = (if mfaLockedUntil m \<noteq> None then 0 else mfaAttempts m) + 1;
          challengeAttempts = (if mfaLockedUntil m \<noteq> None then 0 else mfaChallengeAttempts m) + 1;
          lockedUntil = (if 9 \<le> attempts then Some (now + lock_ms) else None);
          m1 = m\<lparr>mfaAttempts := attempts, mfaChallengeAttempts := challengeAttempts, mfaLockedUntil := lockedUntil\<rparr>
      in if lockedUntil \<noteq> None \<or> 3 \<le> challengeAttempts then m1\<lparr>mfaCode := None, mfaExpiresAt := None\<rparr> else m1)"

definition guess_error :: "member \<Rightarrow> auth_error" where
  "guess_error m =
     MfaFailure (if mfaLockedUntil m \<noteq> None then MFA_ACCOUNT_LOCKED
                 else if mfaCode m = None then MFA_CHALLENGE_EXHAUSTED else MFA_INVALID_CODE)"

definition verified :: "date \<Rightarrow> member \<Rightarrow> member" where
  "verified now m = m\<lparr>mfaCode := None, mfaExpiresAt := None, mfaLastVerifiedAt := Some now, mfaAttempts := 0,
     mfaChallengeAttempts := 0, mfaLockedUntil := None\<rparr>"

definition consumeMfaChallenge :: "auth_env \<Rightarrow> nat \<Rightarrow> string \<Rightarrow> auth_db \<Rightarrow> unit auth_result \<times> auth_db" where
  "consumeMfaChallenge env n code db =
     (case find_member db n of
        None \<Rightarrow> (Inl (MfaFailure MFA_ACCOUNT_UNAVAILABLE), db)
      | Some m \<Rightarrow>
          (case challenge_guard (au_now env) m of
             Some e \<Rightarrow> (Inl e, db)
           | None \<Rightarrow>
               if mfaCode m \<noteq> Some code
               then (Inl (guess_error (failed_guess (au_now env) m)), save_member env (failed_guess (au_now env) m) db)
               else (Inr (), save_member env (verified (au_now env) m) db)))"

section \<open>Recovery by an account manager\<close>

definition mfaRecoveryRequired :: "date \<Rightarrow> member \<Rightarrow> bool" where
  "mfaRecoveryRequired now m \<longleftrightarrow> 0 < mfaAttempts m \<or> 0 < mfaChallengeAttempts m \<or> mfa_locked now m"

definition mfaRecoveryVersion :: "auth_env \<Rightarrow> member \<Rightarrow> string auth_result" where
  "mfaRecoveryVersion env m =
     (if \<not> au_secret env then Inl (Unavailable RecoveryUnavailable)
      else Inr (au_recoveryDigest env (m_id m, mfaCode m, mfaExpiresAt m, mfaAttempts m, mfaChallengeAttempts m,
                  mfaLockedUntil m, m_updatedAt m)))"

definition hex_digest :: "string \<Rightarrow> bool" where
  "hex_digest s \<longleftrightarrow> length s = 64 \<and> list_all (\<lambda>c. (CHR ''a'' \<le> c \<and> c \<le> CHR ''f'') \<or> (CHR ''0'' \<le> c \<and> c \<le> CHR ''9'')) s"

definition role_flag :: "role_row option \<Rightarrow> (role_row \<Rightarrow> bool) \<Rightarrow> bool" where
  "role_flag r f = (case r of Some x \<Rightarrow> f x | None \<Rightarrow> False)"

definition assertMfaRecoveryAuthority ::
  "member option \<Rightarrow> member \<Rightarrow> role_row option \<Rightarrow> role_row option \<Rightarrow> auth_error option" where
  "assertMfaRecoveryAuthority actor target actorCap targetCap =
     (case actor of
        None \<Rightarrow> Some (NotAllowed RecoveryIdentity)
      | Some a \<Rightarrow>
          let elevated = role_flag actorCap isUserManagementRolesManage;
              admin = role_flag actorCap isUserManagementAdmin;
              limited = role_flag actorCap isUserManagementView
          in first_error [
             (\<not> m_active a \<or> \<not> m_active target \<or> m_id a = m_id target, NotAllowed RecoveryIdentity),
             (\<not> elevated \<and> \<not> admin \<and> \<not> limited, NotAllowed RecoveryAuthority),
             (m_role target = SUPER_ADMIN \<and> m_role a \<noteq> SUPER_ADMIN, NotAllowed RecoveryAuthority),
             (\<not> admin \<and> \<not> elevated \<and> m_role target \<noteq> USER, NotAllowed RecoveryAuthority),
             (admin \<and> \<not> elevated \<and> (role_flag targetCap isUserManagementAdmin \<or> m_role target = SUPER_ADMIN),
              NotAllowed RecoveryAuthority)])"

record unlock_dto =
  ul_reason :: string
  ul_identityVerified :: bool
  ul_version :: string

definition unlock_fields :: "nat \<Rightarrow> nat \<Rightarrow> unlock_dto \<Rightarrow> auth_error option" where
  "unlock_fields target actor dto =
     (let why = trim (ul_reason dto)
      in first_error [
        (\<not> safe_id actor \<or> \<not> safe_id target, Malformed RecoveryFields),
        (\<not> ul_identityVerified dto \<or> length why < 10 \<or> 500 < length why \<or> \<not> hex_digest (ul_version dto),
         Malformed RecoveryFields)])"

definition recovered :: "member \<Rightarrow> member" where
  "recovered m = m\<lparr>mfaCode := None, mfaExpiresAt := None, mfaLastVerifiedAt := None, mfaAttempts := 0,
     mfaChallengeAttempts := 0, mfaLockedUntil := None\<rparr>"

definition commit_unlock :: "auth_env \<Rightarrow> member \<Rightarrow> nat \<Rightarrow> unlock_dto \<Rightarrow> auth_db \<Rightarrow> auth_db" where
  "commit_unlock env m actor dto db =
     (let db1 = save_member env (recovered m) db
      in db1\<lparr>ad_devices := filter (\<lambda>d. dev_userId d \<noteq> m_id m) (ad_devices db1),
           ad_audit := ad_audit db1 @ [\<lparr>un_actor = actor, un_target = m_id m, un_reason = trim (ul_reason dto)\<rparr>]\<rparr>)"

definition unlockMfa :: "auth_env \<Rightarrow> nat \<Rightarrow> nat \<Rightarrow> unlock_dto \<Rightarrow> auth_db \<Rightarrow> bool auth_result \<times> auth_db" where
  "unlockMfa env targetId actorId dto db =
     (case unlock_fields targetId actorId dto of
        Some e \<Rightarrow> (Inl e, db)
      | None \<Rightarrow>
     (case find_member db targetId of
        None \<Rightarrow> (Inl UserNotFound, db)
      | Some target \<Rightarrow>
          let actor = find_member db actorId;
              actorCap = (case actor of Some a \<Rightarrow> find_role db (m_role a) | None \<Rightarrow> None)
          in (case assertMfaRecoveryAuthority actor target actorCap (find_role db (m_role target)) of
                Some e \<Rightarrow> (Inl e, db)
              | None \<Rightarrow>
                  if \<not> mfaRecoveryRequired (au_now env) target then (Inr False, db)
                  else (case mfaRecoveryVersion env target of
                      Inl e \<Rightarrow> (Inl e, db)
                    | Inr v \<Rightarrow>
                        if v \<noteq> ul_version dto then (Inl (Clash RecoveryChanged), db)
                        else if \<not> au_auditDatabase env then (Inl Unexpected, db)
                        else (Inr True, commit_unlock env target actorId dto db)))))"

section \<open>Trusted devices\<close>

definition findTrustedDevice :: "auth_db \<Rightarrow> nat \<Rightarrow> string \<Rightarrow> trusted_device option" where
  "findTrustedDevice db n token =
     (if token = [] then None
      else List.find (\<lambda>d. dev_userId d = n \<and> deviceToken d = token) (ad_devices db))"

definition isTrustedDeviceActive :: "trusted_device option \<Rightarrow> date \<Rightarrow> bool" where
  "isTrustedDeviceActive d now = (case d of Some d \<Rightarrow> now < dev_expiresAt d | None \<Rightarrow> False)"

definition device_key :: "trusted_device \<Rightarrow> nat \<times> string" where
  "device_key d = (dev_userId d, deviceToken d)"

definition trusted_member :: "date \<Rightarrow> date option \<Rightarrow> member option \<Rightarrow> bool" where
  "trusted_member now verifiedAt found =
     (case found of
        None \<Rightarrow> False
      | Some m \<Rightarrow> m_active m \<and> verifiedAt \<noteq> None \<and> mfaLastVerifiedAt m = verifiedAt
                  \<and> \<not> mfaRecoveryRequired now m \<and> mfaCode m = None)"

definition addTrustedDevice :: "auth_env \<Rightarrow> nat \<Rightarrow> string \<Rightarrow> date option \<Rightarrow> auth_db \<Rightarrow> unit auth_result \<times> auth_db" where
  "addTrustedDevice env n token verifiedAt db =
     (if \<not> trusted_member (au_now env) verifiedAt (find_member db n) then (Inl (NotAllowed MfaChanged), db)
      else (Inr (), db\<lparr>ad_devices := save_row device_key (ad_devices db)
              \<lparr>dev_userId = n, deviceToken = token, dev_expiresAt = au_now env + 7 * 24 * 60 * 60 * 1000\<rparr>\<rparr>))"

section \<open>Tokens\<close>

record tokens =
  accessToken :: string
  refreshToken :: string

definition token_claims :: "auth_env \<Rightarrow> member \<Rightarrow> int \<Rightarrow> claims" where
  "token_claims env m ttl = \<lparr>cl_sub = m_id m, cl_role = m_role m, cl_jti = Some (au_uuid env), cl_isTemp = False,
     cl_exp = au_now env + ttl\<rparr>"

definition generateTokens :: "auth_env \<Rightarrow> auth_db \<Rightarrow> member \<Rightarrow> tokens auth_result" where
  "generateTokens env db m =
     guarded (assertAccountAccess db (m_id m))
       (Inr \<lparr>accessToken = au_sign env (token_claims env m (if ad_vapt db then 6 * 3600 * 1000 else au_accessTtl env)),
          refreshToken = au_signRefresh env
            (token_claims env m (if ad_vapt db then 12 * 3600 * 1000 else au_refreshTtl env))\<rparr>)"

definition revoked :: "auth_db \<Rightarrow> string \<Rightarrow> bool" where
  "revoked db jti = list_ex (\<lambda>t. tokenJti t = jti) (ad_blacklist db)"

definition revoke :: "string \<Rightarrow> date \<Rightarrow> auth_db \<Rightarrow> auth_db" where
  "revoke jti expires db =
     (if revoked db jti then db
      else db\<lparr>ad_blacklist := ad_blacklist db @ [\<lparr>tokenJti = jti, revoked_expiresAt = expires\<rparr>]\<rparr>)"

text \<open>The checks inside the \<open>try\<close> of \<open>refresh\<close>, and how its \<open>catch\<close> maps their errors.\<close>

definition refresh_checks :: "auth_env \<Rightarrow> auth_db \<Rightarrow> string \<Rightarrow> (member \<times> string \<times> date) auth_result" where
  "refresh_checks env db token =
     (case au_verifyRefresh env token of
        None \<Rightarrow> Inl (Unauthorized RefreshInvalid)
      | Some c \<Rightarrow>
          (case cl_jti c of
             None \<Rightarrow> Inl (Unauthorized TokenRevoked)
           | Some jti \<Rightarrow>
               if revoked db jti then Inl (Unauthorized TokenRevoked)
               else and_then (findOne db (cl_sub c)) (\<lambda>m.
                 if \<not> m_active m then Inl (Unauthorized Deactivated)
                 else guarded (assertAccountAccess db (m_id m)) (Inr (m, jti, cl_exp c)))))"

definition refresh_error :: "auth_error \<Rightarrow> auth_error" where
  "refresh_error e = (case e of
     Unauthorized _ \<Rightarrow> Unauthorized RefreshInvalid
   | UserNotFound \<Rightarrow> Unauthorized RefreshInvalid
   | _ \<Rightarrow> Unavailable RefreshUnavailable)"

definition refresh :: "auth_env \<Rightarrow> string \<Rightarrow> auth_db \<Rightarrow> tokens auth_result \<times> auth_db" where
  "refresh env token db =
     (case refresh_checks env db token of
        Inl e \<Rightarrow> (Inl (refresh_error e), db)
      | Inr (m, jti, expires) \<Rightarrow>
          (case generateTokens env db m of
             Inl e \<Rightarrow> (Inl (refresh_error e), db)
           | Inr ts \<Rightarrow> (Inr ts, revoke jti expires db)))"

text \<open>\<open>logout\<close> decodes the token without verifying it.\<close>

definition logout :: "auth_env \<Rightarrow> string \<Rightarrow> auth_db \<Rightarrow> auth_db" where
  "logout env token db =
     (case au_decode env token of
        Some c \<Rightarrow> (case cl_jti c of Some jti \<Rightarrow> revoke jti (cl_exp c) db | None \<Rightarrow> db)
      | None \<Rightarrow> db)"

text \<open>The guard of every request: of the users service, and of the ticketing service, which asks the users
  service for the access decision only.\<close>

definition validate :: "auth_db \<Rightarrow> claims \<Rightarrow> member auth_result" where
  "validate db c =
     (if cl_isTemp c then Inl (Unauthorized MfaPending)
      else (case find_member db (cl_sub c) of
          None \<Rightarrow> Inl (Unauthorized Deactivated)
        | Some m \<Rightarrow>
            if \<not> m_active m then Inl (Unauthorized Deactivated)
            else if (case cl_jti c of Some jti \<Rightarrow> revoked db jti | None \<Rightarrow> False)
            then Inl (Unauthorized TokenRevoked)
            else guarded (assertAccountAccess db (m_id m)) (Inr m)))"

definition ticketing_validate :: "auth_db \<Rightarrow> claims \<Rightarrow> (nat \<times> user_role) auth_result" where
  "ticketing_validate db c =
     (if cl_isTemp c then Inl (Unauthorized MfaPending)
      else if \<not> safe_id (cl_sub c) then Inl (Unauthorized TempToken)
      else guarded (assertAccountAccess db (cl_sub c)) (Inr (cl_sub c, cl_role c)))"

end
