(* ===== verification/Sessions.thy ===== *)
theory Sessions
  imports SignIn
begin

text \<open>
  The handlers of \<^verbatim>\<open>auth.service.ts\<close>: login by password and by Google, the second factor, password changes
  and generated passwords.
\<close>

section \<open>The second factor\<close>

text \<open>The loop \<open>do code = random while (code === user.mfaCode)\<close> over the numbers drawn.\<close>

fun draw_code :: "string list \<Rightarrow> string option \<Rightarrow> string auth_result" where
  "draw_code [] old = Inl StillDrawing"
| "draw_code (c # cs) old = (if Some c = old then draw_code cs old else Inr c)"

definition checkRequiresMfa :: "auth_env \<Rightarrow> auth_db \<Rightarrow> bool \<Rightarrow> bool auth_result" where
  "checkRequiresMfa env db temporaryMode =
     (if ad_vapt db then Inr False
      else if temporaryMode then Inr True
      else (case au_authEmails env of Some b \<Rightarrow> Inr b | None \<Rightarrow> Inl (Unavailable EmailPolicy)))"

record challenge =
  tempToken :: string
  testModeCode :: "string option"
  ch_user :: nat

definition temp_claims :: "auth_env \<Rightarrow> nat \<Rightarrow> claims" where
  "temp_claims env n = \<lparr>cl_sub = n, cl_role = USER, cl_jti = None, cl_isTemp = True,
     cl_exp = au_now env + MFA_CODE_TTL_MS\<rparr>"

text \<open>\<open>m\<close> is the row the caller read.  The code is stored before the mail is queued.\<close>

definition startMfaChallenge ::
  "auth_env \<Rightarrow> member \<Rightarrow> bool \<Rightarrow> bool \<Rightarrow> string option \<Rightarrow> auth_db \<Rightarrow> challenge auth_result \<times> auth_db" where
  "startMfaChallenge env m testMode resend given db =
     (case assertAccountAccess db (m_id m) of
        Some e \<Rightarrow> (Inl e, db)
      | None \<Rightarrow>
     (case draw_code (au_draws env) (mfaCode m) of
        Inl e \<Rightarrow> (Inl e, db)
      | Inr code \<Rightarrow>
     (case updateMfaCode env (m_id m) code (au_now env + MFA_CODE_TTL_MS) resend db of
        (Inl e, db') \<Rightarrow> (Inl e, db')
      | (Inr _, db') \<Rightarrow>
          let temp = (case given of Some t \<Rightarrow> t | None \<Rightarrow> au_sign env (temp_claims env (m_id m)))
          in if testMode
             then (Inr \<lparr>tempToken = temp, testModeCode = Some code, ch_user = m_id m\<rparr>, db')
             else if \<not> au_mailQueued env then (Inl (Unavailable MailFailed), db')
             else (Inr \<lparr>tempToken = temp, testModeCode = None, ch_user = m_id m\<rparr>, db'))))"

definition mfaUserIdFromToken :: "auth_env \<Rightarrow> string \<Rightarrow> nat auth_result" where
  "mfaUserIdFromToken env token =
     (case au_verify env token of
        None \<Rightarrow> Inl (Unauthorized TempToken)
      | Some c \<Rightarrow> if \<not> cl_isTemp c \<or> \<not> safe_id (cl_sub c) then Inl (Unauthorized TempToken)
                  else Inr (cl_sub c))"

section \<open>Signing in\<close>

datatype (plugins only: code) sign_in =
    MfaChallenge challenge
  | Session tokens bool

definition validateUser :: "auth_env \<Rightarrow> auth_db \<Rightarrow> string \<Rightarrow> string \<Rightarrow> member option" where
  "validateUser env db email password =
     (case findByEmail env db email of
        None \<Rightarrow> None
      | Some m \<Rightarrow> if m_active m \<and> au_compare env password (passwordHash m) then Some m else None)"

text \<open>What both ways of signing in do once the account is known; \<open>trusted\<close> is the check of the device.\<close>

definition session_of :: "auth_env \<Rightarrow> security_config \<Rightarrow> member \<Rightarrow> auth_db \<Rightarrow> sign_in auth_result" where
  "session_of env config m db =
     and_then (generateTokens env db m)
       (\<lambda>ts. Inr (Session ts (au_compare env (defaultPassword config) (passwordHash m))))"

definition mfa_step ::
  "auth_env \<Rightarrow> bool \<Rightarrow> security_config \<Rightarrow> member \<Rightarrow> auth_db \<Rightarrow> sign_in auth_result \<times> auth_db" where
  "mfa_step env trusted config m db =
     (case checkRequiresMfa env db (mfaTestMode config) of
        Inl e \<Rightarrow> (Inl e, db)
      | Inr required \<Rightarrow>
          if required \<and> \<not> trusted
          then (case startMfaChallenge env m (mfaTestMode config) False None db of
              (r, db') \<Rightarrow> (and_then r (\<lambda>c. Inr (MfaChallenge c)), db'))
          else (session_of env config m db, db))"

definition account_guard :: "auth_env \<Rightarrow> auth_db \<Rightarrow> member \<Rightarrow> auth_error option" where
  "account_guard env db m =
     (if mfa_locked (au_now env) m then Some (MfaFailure MFA_ACCOUNT_LOCKED) else assertAccountAccess db (m_id m))"

definition login :: "auth_env \<Rightarrow> string \<Rightarrow> string \<Rightarrow> string option \<Rightarrow> auth_db \<Rightarrow> sign_in auth_result \<times> auth_db" where
  "login env email password device db =
     (if (case findByEmail env db email of Some m \<Rightarrow> \<not> m_active m | None \<Rightarrow> False)
      then (Inl (Unauthorized Deactivated), db)
      else (case validateUser env db email password of
          None \<Rightarrow> (Inl (Unauthorized InvalidCredentials), db)
        | Some m \<Rightarrow>
            (case account_guard env db m of
               Some e \<Rightarrow> (Inl e, db)
             | None \<Rightarrow>
                 (case getConfig (recordLogin env (m_id m) db) of
                    (config, db1) \<Rightarrow>
                      mfa_step env
                        (case device of None \<Rightarrow> False
                         | Some token \<Rightarrow> isTrustedDeviceActive (findTrustedDevice db1 (m_id m) token) (au_now env))
                        config m db1))))"

definition getPublicConfig :: "auth_db \<Rightarrow> bool \<times> auth_db" where
  "getPublicConfig db = (case getConfig db of (config, db') \<Rightarrow> (googleSignInEnabled config, db'))"

definition verifyGoogleIdToken :: "auth_env \<Rightarrow> string \<Rightarrow> google_payload auth_result" where
  "verifyGoogleIdToken env token =
     (if \<not> au_googleClient env then Inl (Malformed GoogleNotConfigured)
      else (case au_google env token of
          None \<Rightarrow> Inl Unexpected
        | Some None \<Rightarrow> Inl (Unauthorized GoogleToken)
        | Some (Some p) \<Rightarrow>
            (case gp_email p of
               None \<Rightarrow> Inl (Unauthorized GoogleEmail)
             | Some e \<Rightarrow> if e = [] \<or> \<not> gp_verified p then Inl (Unauthorized GoogleEmail) else Inr p)))"

definition linkGoogleIdentity :: "auth_env \<Rightarrow> member \<Rightarrow> string \<Rightarrow> auth_db \<Rightarrow> member \<times> auth_db" where
  "linkGoogleIdentity env m sub db =
     (let m' = m\<lparr>googleSub := Some sub, authProvider := GOOGLE, m_updatedAt := au_now env\<rparr>
      in (m', save_member env m' db))"

definition createGoogleUser :: "auth_env \<Rightarrow> string \<Rightarrow> string \<Rightarrow> string \<Rightarrow> auth_db \<Rightarrow> member auth_result \<times> auth_db" where
  "createGoogleUser env email sub password db =
     (if findByEmail env db email \<noteq> None then (Inl (Clash EmailTaken), db)
      else let m = \<lparr>m_id = au_freshId env, m_email = email, passwordHash = au_hash env password, mfaCode = None,
                    mfaExpiresAt = None, mfaLastVerifiedAt = None, mfaAttempts = 0, mfaChallengeAttempts = 0,
                    mfaLockedUntil = None, m_staffId = None, authProvider = GOOGLE, googleSub = Some sub,
                    m_role = USER, m_active = True, m_units = [], lastLogin = None, m_updatedAt = au_now env\<rparr>
           in (Inr m, db\<lparr>ad_users := save_row m_id (ad_users db) m\<rparr>))"

text \<open>The account of a Google identity: linked before, linked now by its mail, or new.\<close>

definition google_account ::
  "auth_env \<Rightarrow> security_config \<Rightarrow> string \<Rightarrow> string \<Rightarrow> auth_db \<Rightarrow> member auth_result \<times> auth_db" where
  "google_account env config sub email db =
     (case findByGoogleSub db sub of
        Some m \<Rightarrow> (Inr m, db)
      | None \<Rightarrow>
          (case findByEmail env db email of
             Some m \<Rightarrow>
               (case assertAccountAccess db (m_id m) of
                  Some e \<Rightarrow> (Inl e, db)
                | None \<Rightarrow> (case linkGoogleIdentity env m sub db of (m', db') \<Rightarrow> (Inr m', db')))
           | None \<Rightarrow>
               if unitRestriction config then (Inl (Unauthorized AccessNotApproved), db)
               else if \<not> isEmailDomainAllowed config email then (Inl (Unauthorized DomainNotAllowed), db)
               else createGoogleUser env email sub (defaultPassword config) db))"

definition googleLogin :: "auth_env \<Rightarrow> string \<Rightarrow> auth_db \<Rightarrow> sign_in auth_result \<times> auth_db" where
  "googleLogin env idToken db =
     (case getConfig db of (config, db1) \<Rightarrow>
        if \<not> googleSignInEnabled config then (Inl (Unauthorized GoogleDisabled), db1)
        else (case verifyGoogleIdToken env idToken of
            Inl e \<Rightarrow> (Inl e, db1)
          | Inr p \<Rightarrow>
              if trim (gp_sub p) = [] then (Inl (Unauthorized GoogleToken), db1)
              else (case google_account env config (trim (gp_sub p)) (lower_ascii (trim (the (gp_email p)))) db1 of
                  (Inl e, db2) \<Rightarrow> (Inl e, db2)
                | (Inr m, db2) \<Rightarrow>
                    if \<not> m_active m then (Inl (Unauthorized Deactivated), db2)
                    else (case account_guard env db2 m of
                        Some e \<Rightarrow> (Inl e, db2)
                      | None \<Rightarrow> mfa_step env False config m (recordLogin env (m_id m) db2)))))"

definition resendMfaCode :: "auth_env \<Rightarrow> string \<Rightarrow> auth_db \<Rightarrow> challenge auth_result \<times> auth_db" where
  "resendMfaCode env token db =
     (case and_then (mfaUserIdFromToken env token) (findOne db) of
        Inl e \<Rightarrow> (Inl e, db)
      | Inr m \<Rightarrow>
          if \<not> m_active m then (Inl (Unauthorized AccountGone), db)
          else (case getConfig db of (config, db1) \<Rightarrow>
            (case checkRequiresMfa env db1 (mfaTestMode config) of
               Inl e \<Rightarrow> (Inl e, db1)
             | Inr required \<Rightarrow>
                 if \<not> required then (Inl (Unauthorized MfaSettingsChanged), db1)
                 else startMfaChallenge env m (mfaTestMode config) True (Some token) db1)))"

text \<open>\<open>sendMfaCode\<close> for a signed-in user; the mail is published without waiting for the queue.\<close>

definition sendMfaCode :: "auth_env \<Rightarrow> nat \<Rightarrow> string \<Rightarrow> auth_db \<Rightarrow> unit auth_result \<times> auth_db" where
  "sendMfaCode env n code db =
     (case findOne db n of
        Inl e \<Rightarrow> (Inl e, db)
      | Inr m \<Rightarrow>
          (case assertAccountAccess db (m_id m) of
             Some e \<Rightarrow> (Inl e, db)
           | None \<Rightarrow>
               if mfa_locked (au_now env) m then (Inl (MfaFailure MFA_ACCOUNT_LOCKED), db)
               else updateMfaCode env n code (au_now env + MFA_CODE_TTL_MS) False db))"

record verified_session =
  vs_tokens :: tokens
  vs_passwordChange :: bool
  vs_deviceToken :: "string option"

text \<open>After the code is consumed; an error of \<open>addTrustedDevice\<close> is the error of the call.\<close>

definition verified_result ::
  "auth_env \<Rightarrow> nat \<Rightarrow> bool \<Rightarrow> string option \<Rightarrow> auth_db \<Rightarrow> verified_session auth_result \<times> auth_db" where
  "verified_result env n remember incoming db =
     (case findOne db n of
        Inl e \<Rightarrow> (Inl e, db)
      | Inr m \<Rightarrow>
          if \<not> m_active m then (Inl (Unauthorized AccountGone), db)
          else (case getConfig db of (config, db1) \<Rightarrow>
            (case generateTokens env db1 m of
               Inl e \<Rightarrow> (Inl e, db1)
             | Inr ts \<Rightarrow>
                 let change = au_compare env (defaultPassword config) (passwordHash m);
                     device = (case incoming of Some t \<Rightarrow> t | None \<Rightarrow> au_uuid env)
                 in if \<not> remember
                    then (Inr \<lparr>vs_tokens = ts, vs_passwordChange = change, vs_deviceToken = None\<rparr>, db1)
                    else (case addTrustedDevice env (m_id m) device (mfaLastVerifiedAt m) db1 of
                        (r, db2) \<Rightarrow> (and_then r (\<lambda>_.
                           Inr \<lparr>vs_tokens = ts, vs_passwordChange = change, vs_deviceToken = Some device\<rparr>), db2)))))"

definition verifyMfaCode ::
  "auth_env \<Rightarrow> string \<Rightarrow> string \<Rightarrow> bool \<Rightarrow> string option \<Rightarrow> auth_db \<Rightarrow> verified_session auth_result \<times> auth_db" where
  "verifyMfaCode env token code remember incoming db =
     (case mfaUserIdFromToken env token of
        Inl e \<Rightarrow> (Inl e, db)
      | Inr n \<Rightarrow>
          (case assertAccountAccess db n of
             Some e \<Rightarrow> (Inl e, db)
           | None \<Rightarrow>
               (case consumeMfaChallenge env n code db of
                  (Inl e, db1) \<Rightarrow> (Inl e, db1)
                | (Inr _, db1) \<Rightarrow> verified_result env n remember incoming db1)))"

section \<open>Passwords\<close>

text \<open>Both buffers are padded with zero bytes to the longer length and compared byte by byte.\<close>

definition padded :: "nat \<Rightarrow> string \<Rightarrow> string" where
  "padded n s = s @ replicate (n - length s) (CHR 0x00)"

definition timingSafeStringEquals :: "string \<Rightarrow> string \<Rightarrow> bool" where
  "timingSafeStringEquals a b =
     (let len = max (length a) (length b)
      in foldr (\<lambda>(x, y) same. same \<and> x = y) (zip (padded len a) (padded len b)) True \<and> length a = length b)"

definition with_password :: "auth_env \<Rightarrow> nat \<Rightarrow> string \<Rightarrow> auth_db \<Rightarrow> auth_db" where
  "with_password env n password db =
     (case find_member db n of
        Some m \<Rightarrow> save_member env (m\<lparr>passwordHash := au_hash env password\<rparr>) db | None \<Rightarrow> db)"

definition changePassword :: "auth_env \<Rightarrow> nat \<Rightarrow> string \<Rightarrow> string \<Rightarrow> auth_db \<Rightarrow> unit auth_result \<times> auth_db" where
  "changePassword env n current new db =
     (if timingSafeStringEquals current new then (Inl (Malformed SamePassword), db)
      else (case findOne db n of
          Inl e \<Rightarrow> (Inl e, db)
        | Inr m \<Rightarrow>
            if \<not> au_compare env current (passwordHash m) then (Inl (Malformed WrongPassword), db)
            else (Inr (), with_password env (m_id m) new db)))"

definition reauthenticate :: "auth_env \<Rightarrow> nat \<Rightarrow> string \<Rightarrow> auth_db \<Rightarrow> unit auth_result" where
  "reauthenticate env n password db =
     (if trim password = [] then Inl (Malformed PasswordMissing)
      else and_then (findOne db n) (\<lambda>m.
        if authProvider m = GOOGLE then Inl (Malformed GooglePassword)
        else if \<not> au_compare env password (passwordHash m) then Inl (Unauthorized WrongPassword)
        else Inr ()))"

definition resetPassword :: "auth_env \<Rightarrow> nat \<Rightarrow> auth_db \<Rightarrow> unit auth_result \<times> auth_db" where
  "resetPassword env n db =
     (case findOne db n of
        Inl e \<Rightarrow> (Inl e, db)
      | Inr m \<Rightarrow>
          (case getConfig db of (config, db1) \<Rightarrow>
             (Inr (), with_password env n
                (if defaultPassword config = [] then ''Changeme123!@#'' else defaultPassword config) db1)))"

text \<open>\<open>DELETE /users/:id\<close> deactivates the account.\<close>

definition remove_user :: "auth_env \<Rightarrow> nat \<Rightarrow> auth_db \<Rightarrow> unit auth_result \<times> auth_db" where
  "remove_user env n db =
     (case findOne db n of
        Inl e \<Rightarrow> (Inl e, db)
      | Inr m \<Rightarrow> (Inr (), save_member env (m\<lparr>m_active := False\<rparr>) db))"

section \<open>Generated passwords\<close>

definition lowers :: string where "lowers = ''abcdefghijklmnopqrstuvwxyz''"
definition uppers :: string where "uppers = ''ABCDEFGHIJKLMNOPQRSTUVWXYZ''"
definition nums :: string where "nums = ''0123456789''"
definition specials :: string where "specials = ''@$!%*?&_-#''"

text \<open>The four look-aheads \<open>(?=.*[...])\<close>; the dot stops at a line break.\<close>

definition first_line :: "string \<Rightarrow> string" where
  "first_line s = takeWhile (\<lambda>c. c \<noteq> CHR 0x0A \<and> c \<noteq> CHR 0x0D) s"

definition isValidStrongPassword :: "string \<Rightarrow> bool" where
  "isValidStrongPassword pwd \<longleftrightarrow> 12 \<le> length pwd
     \<and> list_all (\<lambda>cls. list_ex (\<lambda>c. c \<in> set cls) (first_line pwd)) [lowers, uppers, nums, specials]"

text \<open>\<open>str[Math.floor(Math.random() * str.length)]\<close>; a draw is an index reduced to the length.\<close>

definition randomChar :: "nat \<Rightarrow> string \<Rightarrow> string" where
  "randomChar r s = [s ! (r mod length s)]"

definition fallback_characters :: "nat list \<Rightarrow> string" where
  "fallback_characters rs =
     randomChar (rs ! 0) uppers @ randomChar (rs ! 1) lowers @ randomChar (rs ! 2) nums @ randomChar (rs ! 3) specials
     @ concat (map (\<lambda>i. randomChar (rs ! (4 + i)) (lowers @ uppers @ nums @ specials)) [0..<10])"

text \<open>\<open>sort\<close> with a random comparison: some rearrangement, which is a parameter.\<close>

definition generateFallbackPassword :: "(string \<Rightarrow> string) \<Rightarrow> nat list \<Rightarrow> string" where
  "generateFallbackPassword shuffle rs = shuffle (fallback_characters rs)"

definition rawWords :: "string list" where
  "rawWords = [
     ''apple'', ''orange'', ''banana'', ''grape'', ''mango'', ''lemon'', ''peach'', ''cherry'', ''plum'', ''kiwi'',
     ''tiger'', ''lion'', ''bear'', ''wolf'', ''eagle'', ''shark'', ''whale'', ''dolphin'', ''hawk'', ''owl'',
     ''ocean'', ''river'', ''mountain'', ''forest'', ''desert'', ''valley'', ''canyon'', ''island'', ''volcano'', ''cave'',
     ''planet'', ''star'', ''galaxy'', ''comet'', ''meteor'', ''nebula'', ''cosmos'', ''orbit'', ''moon'', ''sun'',
     ''guitar'', ''piano'', ''violin'', ''drum'', ''flute'', ''trumpet'', ''cello'', ''harp'', ''banjo'', ''chimes'',
     ''breeze'', ''storm'', ''cloud'', ''rain'', ''snow'', ''thunder'', ''lightning'', ''frost'', ''mist'', ''haze'',
     ''copper'', ''silver'', ''gold'', ''platinum'', ''iron'', ''steel'', ''bronze'', ''brass'', ''zinc'', ''nickel'',
     ''sapphire'', ''ruby'', ''emerald'', ''diamond'', ''opal'', ''jade'', ''topaz'', ''quartz'', ''garnet'', ''pearl'',
     ''coffee'', ''tea'', ''water'', ''juice'', ''milk'', ''wine'', ''cider'', ''cocoa'', ''nectar'', ''syrup'',
     ''circle'', ''square'', ''triangle'', ''sphere'', ''cube'', ''pyramid'', ''prism'', ''cone'', ''cylinder'', ''spiral'']"

definition phrase_words :: "string list" where
  "phrase_words = filter (\<lambda>w. 5 \<le> length w) rawWords"

definition capitalized :: "string \<Rightarrow> string" where
  "capitalized w = (case w of [] \<Rightarrow> [] | c # cs \<Rightarrow>
     (if CHR ''a'' \<le> c \<and> c \<le> CHR ''z'' then char_of (of_char c - 32 :: nat) else c) # cs)"

fun joined :: "string list \<Rightarrow> string" where
  "joined [] = []"
| "joined [w] = w"
| "joined (w # ws) = w @ ''-'' @ joined ws"

definition generateFallbackPassphrase :: "nat list \<Rightarrow> string" where
  "generateFallbackPassphrase rs =
     (let w = map (\<lambda>i. phrase_words ! (rs ! i mod length phrase_words)) [0, 1, 2];
          cap = rs ! 3 mod 3;
          w = w[cap := capitalized (w ! cap)];
          num = [nums ! (rs ! 4 mod 10)];
          pos = rs ! 5 mod 3
      in if pos = 0 then num @ ''-'' @ joined w
         else if pos = 1 then joined w @ ''-'' @ num
         else joined (w[1 := w ! 1 @ num]))"

text \<open>\<open>answer\<close> is what the outside generator returned, if anything.\<close>

definition generated :: "string option \<Rightarrow> string \<Rightarrow> string" where
  "generated answer fallback =
     (case answer of Some s \<Rightarrow> if isValidStrongPassword (trim s) then trim s else fallback | None \<Rightarrow> fallback)"

end
