(* ===== verification/SignInFacts.thy ===== *)
theory SignInFacts
  imports Sessions
begin

text \<open>
  The second factor as a small machine: its state is a code with its expiry, two counters and a lock.
  Every handler moves the state of every account by one step of the machine.
\<close>

section \<open>The machine\<close>

record factor =
  f_code :: "string option"
  f_attempts :: nat
  f_challenge :: nat
  f_lock :: "date option"

definition factor_of :: "member \<Rightarrow> factor" where
  "factor_of m = \<lparr>f_code = mfaCode m, f_attempts = mfaAttempts m, f_challenge = mfaChallengeAttempts m,
     f_lock = mfaLockedUntil m\<rparr>"

definition fresh_factor :: factor where
  "fresh_factor = \<lparr>f_code = None, f_attempts = 0, f_challenge = 0, f_lock = None\<rparr>"

definition locked_at :: "date \<Rightarrow> factor \<Rightarrow> bool" where
  "locked_at now f \<longleftrightarrow> (case f_lock f of Some l \<Rightarrow> now < l | None \<Rightarrow> False)"

definition issued :: "string \<Rightarrow> bool \<Rightarrow> factor \<Rightarrow> factor" where
  "issued c resend f = f\<lparr>f_code := Some c, f_challenge := (if resend then f_challenge f else 0),
     f_attempts := (if f_lock f = None then f_attempts f else 0), f_lock := None\<rparr>"

definition failed :: "date \<Rightarrow> factor \<Rightarrow> factor" where
  "failed now f =
     (let a = Suc (f_attempts f); k = Suc (f_challenge f)
      in f\<lparr>f_attempts := a, f_challenge := k, f_lock := (if 9 \<le> a then Some (now + lock_ms) else None),
           f_code := (if 9 \<le> a \<or> 3 \<le> k then None else f_code f)\<rparr>)"

definition factor_ok :: "factor \<Rightarrow> bool" where
  "factor_ok f \<longleftrightarrow> (case f_lock f of Some _ \<Rightarrow> f_code f = None \<and> f_attempts f = 9 | None \<Rightarrow> f_attempts f < 9)
     \<and> (f_code f \<noteq> None \<longrightarrow> f_challenge f < 3)"

datatype (plugins only: code) move = Quiet | Wrong | Cleared

inductive factor_step :: "date \<Rightarrow> move \<Rightarrow> factor \<Rightarrow> factor \<Rightarrow> bool" for now where
  stay: "factor_step now Quiet f f"
| issue: "\<not> locked_at now f \<Longrightarrow> (resend \<Longrightarrow> f_code f \<noteq> None) \<Longrightarrow> factor_step now Quiet f (issued c resend f)"
| wrong: "\<not> locked_at now f \<Longrightarrow> f_code f \<noteq> None \<Longrightarrow> factor_step now Wrong f (failed now f)"
| clear: "factor_step now Cleared f fresh_factor"

inductive_cases factor_stepE: "factor_step now l f f'"

lemma factor_step_ok:
  assumes "factor_step now l f f'" "factor_ok f"
  shows "factor_ok f'"
  using assms
proof (cases rule: factor_step.cases)
  case (issue resend c)
  then show ?thesis using assms(2) by (cases resend) (auto simp: factor_ok_def issued_def split: option.splits)
next
  case wrong
  then show ?thesis using assms(2) by (auto simp: factor_ok_def failed_def Let_def split: option.splits)
qed (simp_all add: factor_ok_def fresh_factor_def)

section \<open>The columns follow the machine\<close>

lemma factor_of_updates [simp]:
  "factor_of (m\<lparr>lastLogin := x\<rparr>) = factor_of m" "factor_of (m\<lparr>m_updatedAt := d\<rparr>) = factor_of m"
  "factor_of (m\<lparr>passwordHash := h\<rparr>) = factor_of m" "factor_of (m\<lparr>m_active := b\<rparr>) = factor_of m"
  "factor_of (m\<lparr>googleSub := s, authProvider := p, m_updatedAt := d\<rparr>) = factor_of m"
  "factor_of (recovered m) = fresh_factor" "factor_of (verified now m) = fresh_factor"
  by (simp_all add: factor_of_def fresh_factor_def recovered_def verified_def)

lemma locked_factor: "locked_at now (factor_of m) = mfa_locked now m"
  by (simp add: locked_at_def mfa_locked_def factor_of_def)

lemma factor_with_code: "factor_of (with_code c x resend m) = issued c resend (factor_of m)"
  by (simp add: factor_of_def with_code_def issued_def Let_def)

lemma factor_failed:
  assumes "factor_ok (factor_of m)" "mfaCode m \<noteq> None"
  shows "factor_of (failed_guess now m) = failed now (factor_of m)"
  using assms by (auto simp: factor_of_def failed_guess_def failed_def factor_ok_def Let_def split: option.splits)

section \<open>What a handler does to the accounts\<close>

text \<open>The factor of an account; an id without an account has the factor a new account gets.\<close>

definition factor_at :: "auth_db \<Rightarrow> nat \<Rightarrow> factor" where
  "factor_at db n = (case find_member db n of Some m \<Rightarrow> factor_of m | None \<Rightarrow> fresh_factor)"

definition factors_ok :: "auth_db \<Rightarrow> bool" where
  "factors_ok db \<longleftrightarrow> (\<forall>n. factor_ok (factor_at db n))"

text \<open>\<open>tracked now l db db'\<close>: every account moved as \<open>l\<close> says.\<close>

definition tracked :: "date \<Rightarrow> (nat \<Rightarrow> move) \<Rightarrow> auth_db \<Rightarrow> auth_db \<Rightarrow> bool" where
  "tracked now l db db' \<longleftrightarrow> (\<forall>n. factor_ok (factor_at db n) \<longrightarrow> factor_step now (l n) (factor_at db n) (factor_at db' n))"

abbreviation kept :: "auth_db \<Rightarrow> auth_db \<Rightarrow> bool" where
  "kept db db' \<equiv> factor_at db' = factor_at db"

abbreviation quiet :: "nat \<Rightarrow> move" where "quiet \<equiv> \<lambda>_. Quiet"

lemma kept_tracked: "kept a b \<Longrightarrow> tracked now quiet a b"
  by (simp add: tracked_def factor_step.stay)

lemma tracked_kept: "kept a b \<Longrightarrow> kept c d \<Longrightarrow> tracked now l a c = tracked now l b d"
  by (simp add: tracked_def)

lemma tracked_ok: "tracked now l db db' \<Longrightarrow> factors_ok db \<Longrightarrow> factors_ok db'"
  unfolding tracked_def factors_ok_def using factor_step_ok by blast

lemma factor_at_same_users: "ad_users db' = ad_users db \<Longrightarrow> factor_at db' = factor_at db"
  by (simp add: factor_at_def find_member_def fun_eq_iff)

lemma find_save_member:
  "find_member (save_member env m db) n =
     (if n = m_id m then Some (m\<lparr>m_updatedAt := au_now env\<rparr>) else find_member db n)"
  using find_row_save_same [of m_id "ad_users db" "m\<lparr>m_updatedAt := au_now env\<rparr>"]
    find_row_save_other [of n m_id "m\<lparr>m_updatedAt := au_now env\<rparr>" "ad_users db"]
  by (auto simp: save_member_def find_member_def)

lemma factor_at_save: "factor_at (save_member env m db) = (factor_at db)(m_id m := factor_of m)"
  by (simp add: factor_at_def find_save_member fun_eq_iff)

lemma find_member_id: "find_member db n = Some m \<Longrightarrow> m_id m = n"
  using find_row_Some [of m_id "ad_users db" n m] by (simp add: find_member_def)

lemma factor_at_found: "find_member db n = Some m \<Longrightarrow> factor_at db n = factor_of m"
  by (simp add: factor_at_def)

lemma factor_at_resave:
  "find_member db n = Some m \<Longrightarrow> m_id m' = n \<Longrightarrow> factor_of m' = factor_of m \<Longrightarrow> kept db (save_member env m' db)"
  by (simp add: factor_at_save factor_at_found fun_eq_iff)

lemma changed_ids [simp]:
  "m_id (with_code c x r m) = m_id m" "m_id (failed_guess now m) = m_id m" "m_id (verified now m) = m_id m"
  "m_id (recovered m) = m_id m"
  by (simp_all add: with_code_def failed_guess_def verified_def recovered_def Let_def)

lemma getConfig_users: "ad_users (snd (getConfig db)) = ad_users db"
  by (simp add: getConfig_def split: option.split)

lemma getConfig_kept [simp]: "factor_at (snd (getConfig db)) = factor_at db"
  by (rule factor_at_same_users) (rule getConfig_users)

lemma updateConfig_kept [simp]: "factor_at (snd (updateConfig dto db)) = factor_at db"
proof (rule factor_at_same_users)
  show "ad_users (snd (updateConfig dto db)) = ad_users db"
    by (simp add: updateConfig_def case_prod_beta getConfig_users split: option.split)
qed

lemma recordLogin_kept [simp]: "factor_at (recordLogin env n db) = factor_at db"
  by (cases "find_member db n") (simp_all add: recordLogin_def factor_at_resave [of db n] find_member_id)

lemma revoke_kept [simp]: "factor_at (revoke jti x db) = factor_at db"
  by (rule factor_at_same_users) (simp add: revoke_def)

lemma logout_kept [simp]: "factor_at (logout env t db) = factor_at db"
  by (simp add: logout_def split: option.split)

lemma refresh_kept [simp]: "factor_at (snd (refresh env t db)) = factor_at db"
  by (simp add: refresh_def split: sum.split prod.split)

lemma with_password_kept [simp]: "factor_at (with_password env n pw db) = factor_at db"
  by (cases "find_member db n") (simp_all add: with_password_def factor_at_resave [of db n] find_member_id)

lemma password_handlers_kept [simp]:
  "factor_at (snd (changePassword env n old new db)) = factor_at db"
  "factor_at (snd (resetPassword env n db)) = factor_at db"
proof -
  show "factor_at (snd (changePassword env n old new db)) = factor_at db"
    by (simp add: changePassword_def split: sum.split)
  show "factor_at (snd (resetPassword env n db)) = factor_at db"
    by (simp add: resetPassword_def case_prod_beta split: sum.split)
qed

lemma findOne_Inr: "findOne db n = Inr m \<Longrightarrow> find_member db n = Some m"
  by (simp add: findOne_def split: option.splits)

lemma remove_user_kept [simp]: "factor_at (snd (remove_user env n db)) = factor_at db"
  by (simp add: remove_user_def split: sum.split)
    (auto dest!: findOne_Inr simp: factor_at_resave [of db n] find_member_id)

lemma addTrustedDevice_kept [simp]: "factor_at (snd (addTrustedDevice env n t v db)) = factor_at db"
  by (rule factor_at_same_users) (simp add: addTrustedDevice_def)

section \<open>Issuing and consuming codes\<close>

lemma guard_locked: "code_guard now resend m = None \<Longrightarrow> \<not> mfa_locked now m \<and> (resend \<longrightarrow> mfaCode m \<noteq> None)"
  by (simp add: code_guard_def first_error_None_iff del: first_error.simps)

lemma updateMfaCode_tracked: "tracked (au_now env) quiet db (snd (updateMfaCode env n c x resend db))"
proof (cases "find_member db n")
  case (Some m)
  have id: "m_id m = n" by (rule find_member_id [OF Some])
  show ?thesis
  proof (cases "code_guard (au_now env) resend m")
    case None
    from guard_locked [OF None] have g: "\<not> locked_at (au_now env) (factor_of m)" "resend \<Longrightarrow> f_code (factor_of m) \<noteq> None"
      by (simp_all add: locked_factor) (simp add: factor_of_def)
    then show ?thesis
      using Some None id by (auto simp: tracked_def updateMfaCode_def factor_at_save factor_at_found factor_with_code
        intro: factor_step.stay factor_step.issue)
  qed (simp add: updateMfaCode_def Some kept_tracked)
qed (simp add: updateMfaCode_def kept_tracked)

text \<open>The move a consumption makes on the account it is for.\<close>

definition consumption :: "auth_env \<Rightarrow> auth_db \<Rightarrow> nat \<Rightarrow> string \<Rightarrow> move" where
  "consumption env db n code =
     (case find_member db n of
        None \<Rightarrow> Quiet
      | Some m \<Rightarrow> if challenge_guard (au_now env) m \<noteq> None then Quiet
                  else if mfaCode m \<noteq> Some code then Wrong else Cleared)"

lemma challenge_open: "challenge_guard now m = None \<Longrightarrow> \<not> mfa_locked now m \<and> mfaCode m \<noteq> None"
  by (simp add: challenge_guard_def first_error_None_iff del: first_error.simps)

lemma consume_tracked:
  "tracked (au_now env) (quiet(n := consumption env db n code)) db (snd (consumeMfaChallenge env n code db))"
proof (cases "find_member db n")
  case (Some m)
  have id: "m_id m = n" by (rule find_member_id [OF Some])
  show ?thesis
  proof (cases "challenge_guard (au_now env) m")
    case None
    from challenge_open [OF None] have g: "\<not> locked_at (au_now env) (factor_of m)" "f_code (factor_of m) \<noteq> None" "mfaCode m \<noteq> None"
      by (simp_all add: locked_factor) (simp add: factor_of_def)
    show ?thesis
    proof (cases "mfaCode m = Some code")
      case True
      then show ?thesis
        using Some None id by (auto simp: tracked_def consumeMfaChallenge_def consumption_def factor_at_save
          factor_at_found intro: factor_step.stay factor_step.clear)
    next
      case False
      then show ?thesis
        using Some None id g by (auto simp: tracked_def consumeMfaChallenge_def consumption_def factor_at_save
          factor_at_found factor_failed intro: factor_step.stay factor_step.wrong)
    qed
  qed (simp add: consumeMfaChallenge_def consumption_def Some kept_tracked fun_upd_idem)
qed (simp add: consumeMfaChallenge_def consumption_def kept_tracked fun_upd_idem)

lemma commit_unlock_tracked:
  assumes "find_member db target = Some m"
  shows "tracked (au_now env) (quiet(target := Cleared)) db (commit_unlock env m actor dto db)"
proof -
  have id: "m_id m = target" by (rule find_member_id [OF assms])
  have "factor_at (commit_unlock env m actor dto db) = factor_at (save_member env (recovered m) db)"
    by (rule factor_at_same_users) (simp add: commit_unlock_def Let_def)
  then show ?thesis using id by (auto simp: tracked_def factor_at_save intro: factor_step.stay factor_step.clear)
qed

lemma unlock_cases:
  assumes "unlockMfa env target actor dto db = (r, db')"
  obtains "r \<noteq> Inr True" "db' = db"
  | m a where "r = Inr True" "find_member db target = Some m" "find_member db actor = Some a"
      "unlock_fields target actor dto = None"
      "assertMfaRecoveryAuthority (Some a) m (find_role db (m_role a)) (find_role db (m_role m)) = None"
      "mfaRecoveryRequired (au_now env) m" "mfaRecoveryVersion env m = Inr (ul_version dto)"
      "db' = commit_unlock env m actor dto db"
proof (cases "r = Inr True")
  case True
  from assms [unfolded True] show thesis
    by (auto simp: unlockMfa_def Let_def assertMfaRecoveryAuthority_def [of None] intro!: that(2) [OF True]
      split: option.splits sum.splits if_splits)
next
  case False
  with assms have "db' = db" by (auto simp: unlockMfa_def Let_def split: option.splits sum.splits if_splits)
  with False show thesis by (rule that(1))
qed

lemma unlock_tracked:
  assumes "unlockMfa env target actor dto db = (r, db')"
  shows "tracked (au_now env) (\<lambda>n. if n = target \<and> r = Inr True then Cleared else Quiet) db db'"
  using assms
proof (cases rule: unlock_cases)
  case 1
  then show ?thesis by (simp add: kept_tracked)
next
  case (2 m a)
  have "(\<lambda>n. if n = target \<and> r = Inr True then Cleared else Quiet) = quiet(target := Cleared)" using 2(1) by auto
  with 2 commit_unlock_tracked show ?thesis by metis
qed

end
