(* ===== verification/AuthSystem.thy ===== *)
theory AuthSystem
  imports SignInFacts
begin

text \<open>
  The users service as a transition system over its requests, the move each request makes on the second
  factor of each account, and the bound on the codes that can be tried.
\<close>

section \<open>Requests\<close>

datatype (plugins only: code) auth_request =
    Login string string "string option"
  | GoogleLogin string
  | ResendMfa string
  | SendMfa nat string
  | VerifyMfa string string bool "string option"
  | Refresh string
  | Logout string
  | ChangePassword nat string string
  | ResetPassword nat
  | RemoveUser nat
  | UnlockMfa nat nat unlock_dto
  | UpdateConfig config_dto

fun auth_perform :: "auth_env \<Rightarrow> auth_request \<Rightarrow> auth_db \<Rightarrow> auth_db" where
  "auth_perform env (Login email password device) db = snd (login env email password device db)"
| "auth_perform env (GoogleLogin token) db = snd (googleLogin env token db)"
| "auth_perform env (ResendMfa token) db = snd (resendMfaCode env token db)"
| "auth_perform env (SendMfa n code) db = snd (sendMfaCode env n code db)"
| "auth_perform env (VerifyMfa token code remember device) db = snd (verifyMfaCode env token code remember device db)"
| "auth_perform env (Refresh token) db = snd (refresh env token db)"
| "auth_perform env (Logout token) db = logout env token db"
| "auth_perform env (ChangePassword n old new) db = snd (changePassword env n old new db)"
| "auth_perform env (ResetPassword n) db = snd (resetPassword env n db)"
| "auth_perform env (RemoveUser n) db = snd (remove_user env n db)"
| "auth_perform env (UnlockMfa target actor dto) db = snd (unlockMfa env target actor dto db)"
| "auth_perform env (UpdateConfig dto) db = snd (updateConfig dto db)"

text \<open>What a request does to the second factor of the account \<open>n\<close>.\<close>

definition verify_move :: "auth_env \<Rightarrow> auth_db \<Rightarrow> string \<Rightarrow> string \<Rightarrow> nat \<Rightarrow> move" where
  "verify_move env db token code n =
     (if mfaUserIdFromToken env token = Inr n \<and> assertAccountAccess db n = None
      then consumption env db n code else Quiet)"

fun request_move :: "auth_env \<Rightarrow> auth_request \<Rightarrow> auth_db \<Rightarrow> nat \<Rightarrow> move" where
  "request_move env (VerifyMfa token code remember device) db n = verify_move env db token code n"
| "request_move env (UnlockMfa target actor dto) db n =
     (if n = target \<and> fst (unlockMfa env target actor dto db) = Inr True then Cleared else Quiet)"
| "request_move env _ db n = Quiet"

section \<open>Every request is tracked\<close>

lemma startMfaChallenge_db:
  obtains "snd (startMfaChallenge env m test resend given db) = db"
  | c x where "snd (startMfaChallenge env m test resend given db) = snd (updateMfaCode env (m_id m) c x resend db)"
proof (cases "assertAccountAccess db (m_id m)")
  case None
  show thesis
  proof (cases "draw_code (au_draws env) (mfaCode m)")
    case (Inr code)
    have "snd (startMfaChallenge env m test resend given db)
        = snd (updateMfaCode env (m_id m) code (au_now env + MFA_CODE_TTL_MS) resend db)"
      by (simp add: startMfaChallenge_def None Inr Let_def split: prod.split sum.split)
    then show thesis by (rule that(2))
  qed (rule that(1), simp add: startMfaChallenge_def None)
qed (rule that(1), simp add: startMfaChallenge_def)

lemma startMfaChallenge_tracked:
  "tracked (au_now env) quiet db (snd (startMfaChallenge env m test resend given db))"
  by (rule startMfaChallenge_db [of env m test resend given db]) (simp_all add: updateMfaCode_tracked kept_tracked)

lemma mfa_step_tracked: "tracked (au_now env) quiet db (snd (mfa_step env trusted config m db))"
  using startMfaChallenge_tracked [of env db m "mfaTestMode config" False None]
  by (simp add: mfa_step_def kept_tracked case_prod_beta split: sum.split)

lemma login_tracked: "tracked (au_now env) quiet db (snd (login env email pw device db))"
proof -
  have "tracked (au_now env) quiet db (snd (mfa_step env t c m (snd (getConfig (recordLogin env n db)))))" for t c m n
    using mfa_step_tracked [of env "snd (getConfig (recordLogin env n db))" t c m]
    by (simp add: tracked_def)
  then show ?thesis by (simp add: login_def kept_tracked case_prod_beta split: option.split)
qed

section \<open>The rows stay a table\<close>

definition auth_ok :: "auth_db \<Rightarrow> bool" where
  "auth_ok db \<longleftrightarrow> table_ok m_id (ad_users db) \<and> factors_ok db"

lemma table_save_member [simp]: "table_ok m_id (ad_users db) \<Longrightarrow> table_ok m_id (ad_users (save_member env m db))"
  by (simp add: save_member_def table_ok_save_row)

lemma table_updateMfaCode: "table_ok m_id (ad_users db) \<Longrightarrow> table_ok m_id (ad_users (snd (updateMfaCode env n c x r db)))"
  by (simp add: updateMfaCode_def split: option.split)

lemma table_startMfaChallenge:
  "table_ok m_id (ad_users db) \<Longrightarrow> table_ok m_id (ad_users (snd (startMfaChallenge env m t r g db)))"
  by (rule startMfaChallenge_db [of env m t r g db]) (simp_all add: table_updateMfaCode)

lemma table_mfa_step:
  "table_ok m_id (ad_users db) \<Longrightarrow> table_ok m_id (ad_users (snd (mfa_step env t c m db)))"
  by (simp add: mfa_step_def case_prod_beta table_startMfaChallenge split: sum.split)

lemma table_recordLogin: "table_ok m_id (ad_users db) \<Longrightarrow> table_ok m_id (ad_users (recordLogin env n db))"
  by (simp add: recordLogin_def split: option.split)

lemma table_google_account:
  "table_ok m_id (ad_users db) \<Longrightarrow> table_ok m_id (ad_users (snd (google_account env config sub email db)))"
  by (simp add: google_account_def createGoogleUser_def linkGoogleIdentity_def Let_def table_ok_save_row split: option.split)

lemma google_account_kept:
  assumes "find_member db (au_freshId env) = None" "table_ok m_id (ad_users db)"
  shows "factor_at (snd (google_account env config sub email db)) = factor_at db"
proof -
  have "factor_at (db\<lparr>ad_users := save_row m_id (ad_users db) m\<rparr>) = factor_at db"
    if m: "m_id m = au_freshId env" "factor_of m = fresh_factor" for m
  proof
    fix n show "factor_at (db\<lparr>ad_users := save_row m_id (ad_users db) m\<rparr>) n = factor_at db n"
      using find_row_save_same [of m_id "ad_users db" m] find_row_save_other [of n m_id m "ad_users db"] m assms(1)
      by (cases "n = m_id m") (simp_all add: factor_at_def find_member_def)
  qed
  then have new: "factor_at (snd (createGoogleUser env email sub pw db)) = factor_at db" for pw
    by (simp add: createGoogleUser_def Let_def factor_of_def fresh_factor_def)
  have link: "factor_at (snd (linkGoogleIdentity env m sub db)) = factor_at db" if "findByEmail env db email = Some m" for m
  proof -
    have "m \<in> set (ad_users db)" using that by (auto simp: findByEmail_def find_Some_iff)
    from find_row_table_ok [OF assms(2) this] have "find_member db (m_id m) = Some m" by (simp add: find_member_def)
    then show ?thesis unfolding linkGoogleIdentity_def Let_def snd_conv
      by (rule factor_at_resave) (simp_all add: factor_of_def)
  qed
  show ?thesis by (simp add: google_account_def new link case_prod_beta split: option.split)
qed

lemma googleLogin_tracked:
  assumes "find_member db (au_freshId env) = None" "table_ok m_id (ad_users db)"
  shows "tracked (au_now env) quiet db (snd (googleLogin env token db))
    \<and> table_ok m_id (ad_users (snd (googleLogin env token db)))"
proof -
  define c where "c = fst (getConfig db)"
  define db1 where "db1 = snd (getConfig db)"
  have users: "ad_users db1 = ad_users db" by (simp add: db1_def getConfig_users)
  have db1: "factor_at db1 = factor_at db" "find_member db1 (au_freshId env) = None" "table_ok m_id (ad_users db1)"
    using assms by (simp_all add: factor_at_same_users [OF users] find_member_def users)
  have g: "factor_at (snd (google_account env config sub email db1)) = factor_at db1"
    "table_ok m_id (ad_users (snd (google_account env config sub email db1)))" for config sub email
    by (simp_all add: google_account_kept [OF db1(2,3)] table_google_account [OF db1(3)])
  have step: "tracked (au_now env) quiet db (snd (mfa_step env t cf m (recordLogin env n d)))
      \<and> table_ok m_id (ad_users (snd (mfa_step env t cf m (recordLogin env n d))))"
    if "d = snd (google_account env config sub email db1)" for t cf m n d config sub email
    using mfa_step_tracked [of env "recordLogin env n d" t cf m] g [of config sub email] db1(1) that
    by (simp add: tracked_def table_mfa_step table_recordLogin)
  have stop: "tracked (au_now env) quiet db d \<and> table_ok m_id (ad_users d)"
    if "d = db1 \<or> (\<exists>config sub email. d = snd (google_account env config sub email db1))" for d
    using that g db1 by (auto intro!: kept_tracked)
  show ?thesis
  proof (cases "googleSignInEnabled c")
    case False
    then show ?thesis using stop [of db1] by (simp add: googleLogin_def case_prod_beta c_def db1_def)
  next
    case on: True
    show ?thesis
    proof (cases "verifyGoogleIdToken env token")
      case (Inl e)
      then show ?thesis using stop [of db1] on by (simp add: googleLogin_def case_prod_beta c_def db1_def)
    next
      case (Inr p)
      define acc where "acc = google_account env c (trim (gp_sub p)) (lower_ascii (trim (the (gp_email p)))) db1"
      have acc: "tracked (au_now env) quiet db (snd acc) \<and> table_ok m_id (ad_users (snd acc))"
        "tracked (au_now env) quiet db (snd (mfa_step env t cf m (recordLogin env n (snd acc))))
         \<and> table_ok m_id (ad_users (snd (mfa_step env t cf m (recordLogin env n (snd acc)))))" for t cf m n
        using stop [of "snd acc"] step [of "snd acc"] by (auto simp: acc_def)
      show ?thesis
        using on Inr acc stop [of db1]
        by (simp add: googleLogin_def case_prod_beta c_def [symmetric] db1_def [symmetric] acc_def [symmetric]
          split: prod.split sum.split option.split)
    qed
  qed
qed

lemma resend_tracked: "tracked (au_now env) quiet db (snd (resendMfaCode env token db))"
proof -
  have "tracked (au_now env) quiet db (snd (startMfaChallenge env m t r g (snd (getConfig db))))" for m t r g
    using startMfaChallenge_tracked [of env "snd (getConfig db)" m t r g] by (simp add: tracked_def)
  then show ?thesis by (simp add: resendMfaCode_def kept_tracked case_prod_beta split: sum.split)
qed

lemma send_tracked: "tracked (au_now env) quiet db (snd (sendMfaCode env n code db))"
  by (simp add: sendMfaCode_def kept_tracked updateMfaCode_tracked split: sum.split option.split)

lemma verified_result_kept: "factor_at (snd (verified_result env n r i db)) = factor_at db"
  by (simp add: verified_result_def case_prod_beta Let_def split: sum.split)

lemma verify_tracked:
  "tracked (au_now env) (verify_move env db token code) db (snd (verifyMfaCode env token code r i db))"
proof (cases "mfaUserIdFromToken env token")
  case (Inr n)
  show ?thesis
  proof (cases "assertAccountAccess db n")
    case None
    have l: "verify_move env db token code = quiet(n := consumption env db n code)"
      by (auto simp: verify_move_def Inr None fun_eq_iff)
    have "factor_at (snd (verifyMfaCode env token code r i db)) = factor_at (snd (consumeMfaChallenge env n code db))"
      by (simp add: verifyMfaCode_def Inr None verified_result_kept split: prod.split sum.split)
    then show ?thesis using consume_tracked [of env n db code] by (simp add: l tracked_def)
  next
    case (Some e)
    then have "verify_move env db token code = quiet" by (auto simp: verify_move_def Inr fun_eq_iff)
    then show ?thesis by (simp add: verifyMfaCode_def Inr Some kept_tracked)
  qed
qed (simp add: verify_move_def [abs_def] verifyMfaCode_def kept_tracked)

text \<open>An id for a new account is one no account has.\<close>

definition fresh_account :: "auth_env \<Rightarrow> auth_db \<Rightarrow> bool" where
  "fresh_account env db \<longleftrightarrow> find_member db (au_freshId env) = None"

lemma request_move_quiet:
  "request_move env (Login e p d) db = quiet" "request_move env (GoogleLogin t) db = quiet"
  "request_move env (ResendMfa t) db = quiet" "request_move env (SendMfa n c) db = quiet"
  "request_move env (Refresh t) db = quiet" "request_move env (Logout t) db = quiet"
  "request_move env (ChangePassword n old new) db = quiet" "request_move env (ResetPassword n) db = quiet"
  "request_move env (RemoveUser n) db = quiet" "request_move env (UpdateConfig cd) db = quiet"
  by (simp_all add: fun_eq_iff)

lemma auth_perform_tracked:
  assumes "fresh_account env db" "table_ok m_id (ad_users db)"
  shows "tracked (au_now env) (request_move env q db) db (auth_perform env q db)"
proof (cases q)
  case (UnlockMfa target actor dto)
  obtain r db' where u: "unlockMfa env target actor dto db = (r, db')" by fastforce
  have "request_move env q db = (\<lambda>n. if n = target \<and> r = Inr True then Cleared else Quiet)"
    by (simp add: UnlockMfa u fun_eq_iff)
  with unlock_tracked [OF u] show ?thesis by (simp add: UnlockMfa u)
next
  case (VerifyMfa token code remember device)
  then have "request_move env q db = verify_move env db token code" by (simp add: fun_eq_iff)
  with verify_tracked show ?thesis by (simp add: VerifyMfa)
qed (use assms googleLogin_tracked in \<open>simp_all add: request_move_quiet login_tracked resend_tracked send_tracked
      kept_tracked fresh_account_def\<close>)

lemma table_handlers:
  assumes "table_ok m_id (ad_users db)"
  shows "table_ok m_id (ad_users (snd (login env e p d db)))" "table_ok m_id (ad_users (snd (resendMfaCode env t db)))"
    "table_ok m_id (ad_users (snd (sendMfaCode env n c db)))" "table_ok m_id (ad_users (snd (verifyMfaCode env t c r i db)))"
    "table_ok m_id (ad_users (snd (refresh env t db)))" "table_ok m_id (ad_users (logout env t db))"
    "table_ok m_id (ad_users (with_password env n new db))" "table_ok m_id (ad_users (snd (remove_user env n db)))"
    "table_ok m_id (ad_users (snd (unlockMfa env n a dto db)))" "table_ok m_id (ad_users (snd (updateConfig cd db)))"
proof -
  have c: "ad_users (snd (updateConfig cd db)) = ad_users db"
    by (simp add: updateConfig_def case_prod_beta getConfig_users split: option.split)
  have rv: "ad_users (revoke j x db) = ad_users db" for j x by (simp add: revoke_def)
  have u: "ad_users (snd (verified_result env n r i d)) = ad_users d" for n d
    by (simp add: verified_result_def case_prod_beta Let_def getConfig_users addTrustedDevice_def split: sum.split)
  have cm: "table_ok m_id (ad_users (snd (consumeMfaChallenge env n c db)))" for n
    using assms by (simp add: consumeMfaChallenge_def split: option.split)
  show "table_ok m_id (ad_users (snd (login env e p d db)))"
    using assms by (simp add: login_def case_prod_beta table_mfa_step getConfig_users table_recordLogin split: option.split)
  show "table_ok m_id (ad_users (snd (resendMfaCode env t db)))"
    using assms by (simp add: resendMfaCode_def case_prod_beta table_startMfaChallenge getConfig_users split: sum.split)
  show "table_ok m_id (ad_users (snd (sendMfaCode env n c db)))"
    using assms by (simp add: sendMfaCode_def table_updateMfaCode split: sum.split option.split)
  show "table_ok m_id (ad_users (snd (verifyMfaCode env t c r i db)))"
  proof -
    have "table_ok m_id (ad_users d)" if "consumeMfaChallenge env k c db = (x, d)" for k x d
      using cm [of k] that by simp
    then show ?thesis using assms by (simp add: verifyMfaCode_def u split: sum.split option.split prod.split)
  qed
  show "table_ok m_id (ad_users (snd (refresh env t db)))"
    using assms by (simp add: refresh_def rv split: sum.split prod.split)
  show "table_ok m_id (ad_users (logout env t db))" using assms by (simp add: logout_def rv split: option.split)
  show "table_ok m_id (ad_users (with_password env n new db))" using assms by (simp add: with_password_def split: option.split)
  show "table_ok m_id (ad_users (snd (remove_user env n db)))" using assms by (simp add: remove_user_def split: sum.split)
  show "table_ok m_id (ad_users (snd (unlockMfa env n a dto db)))"
    using assms by (cases rule: unlock_cases [OF prod.collapse [symmetric], of env n a dto db]) (simp_all add: commit_unlock_def Let_def)
  show "table_ok m_id (ad_users (snd (updateConfig cd db)))" using assms c by simp
qed

lemma auth_perform_ok:
  assumes "auth_ok db" "fresh_account env db"
  shows "auth_ok (auth_perform env q db)"
proof -
  have t: "table_ok m_id (ad_users db)" and f: "factors_ok db" using assms(1) by (simp_all add: auth_ok_def)
  have "table_ok m_id (ad_users (auth_perform env q db))"
    using table_handlers [OF t] googleLogin_tracked [OF _ t] assms(2)
    by (cases q) (simp_all add: fresh_account_def changePassword_def resetPassword_def case_prod_beta t
      split: sum.split, (simp add: with_password_def getConfig_users find_member_def t split: option.split)?)
  then show ?thesis using tracked_ok [OF auth_perform_tracked [OF assms(2) t] f] by (simp add: auth_ok_def)
qed

section \<open>Runs\<close>

fun auth_run :: "(auth_env \<times> auth_request) list \<Rightarrow> auth_db \<Rightarrow> auth_db" where
  "auth_run [] db = db"
| "auth_run ((env, q) # qs) db = auth_run qs (auth_perform env q db)"

text \<open>A schedule of requests in the order of their times, with fresh ids for new accounts.\<close>

fun timely :: "date \<Rightarrow> (auth_env \<times> auth_request) list \<Rightarrow> auth_db \<Rightarrow> date \<Rightarrow> bool" where
  "timely t [] db end \<longleftrightarrow> t \<le> end"
| "timely t ((env, q) # qs) db end \<longleftrightarrow>
     t \<le> au_now env \<and> fresh_account env db \<and> timely (au_now env) qs (auth_perform env q db) end"

fun wrong_codes :: "nat \<Rightarrow> (auth_env \<times> auth_request) list \<Rightarrow> auth_db \<Rightarrow> nat" where
  "wrong_codes n [] db = 0"
| "wrong_codes n ((env, q) # qs) db =
     (if request_move env q db n = Wrong then 1 else 0) + wrong_codes n qs (auth_perform env q db)"

fun never_cleared :: "nat \<Rightarrow> (auth_env \<times> auth_request) list \<Rightarrow> auth_db \<Rightarrow> bool" where
  "never_cleared n [] db \<longleftrightarrow> True"
| "never_cleared n ((env, q) # qs) db \<longleftrightarrow>
     request_move env q db n \<noteq> Cleared \<and> never_cleared n qs (auth_perform env q db)"

text \<open>How many wrong codes can still be tried from a state at \<open>t\<close> until \<open>end\<close>.\<close>

definition guess_budget :: "factor \<Rightarrow> date \<Rightarrow> date \<Rightarrow> int" where
  "guess_budget f t end =
     (case f_lock f of
        Some l \<Rightarrow> if end < max l t then 0 else 9 * ((end - max l t) div lock_ms + 1)
      | None \<Rightarrow> 9 - int (f_attempts f) + 9 * ((end - t) div lock_ms))"

lemma locks_mono: "t \<le> t' \<Longrightarrow> (end - t') div lock_ms \<le> (end - t) div lock_ms"
  by (rule zdiv_mono1) (simp_all add: lock_ms_def)

lemma locks_nonneg: "t \<le> end \<Longrightarrow> 0 \<le> (end - t) div lock_ms"
  by (simp add: pos_imp_zdiv_nonneg_iff lock_ms_def)

lemma locks_after_lock: "(end - (t + lock_ms)) div lock_ms = (end - t) div lock_ms - 1"
  by (simp add: lock_ms_def)

lemma budget_later:
  assumes "factor_ok f" "t \<le> t'" "t' \<le> end"
  shows "guess_budget f t' end \<le> guess_budget f t end"
proof (cases "f_lock f")
  case None
  then show ?thesis using locks_mono [OF assms(2), of "end"] by (simp add: guess_budget_def)
next
  case (Some l)
  define a b where "a = max l t" and "b = max l t'"
  have ab: "a \<le> b" using assms(2) by (simp add: a_def b_def)
  show ?thesis using locks_mono [OF ab, of "end"] locks_nonneg [of a "end"] ab
    unfolding guess_budget_def Some option.case a_def [symmetric] b_def [symmetric] by auto
qed

lemma budget_quiet:
  assumes "factor_step now Quiet f f'" "factor_ok f" "t \<le> now" "now \<le> end"
  shows "guess_budget f' now end \<le> guess_budget f t end"
  using assms(1)
proof (cases rule: factor_step.cases)
  case stay
  with budget_later [OF assms(2-4)] show ?thesis by simp
next
  case (issue resend c)
  show ?thesis
  proof (cases "f_lock f")
    case None
    then show ?thesis using issue locks_mono [OF assms(3), of "end"] by (simp add: guess_budget_def issued_def)
  next
    case (Some l)
    then have "max l t \<le> now" using issue assms(3) by (simp add: locked_at_def)
    moreover from this have "\<not> end < max l t" using assms(4) by linarith
    ultimately show ?thesis
      using issue Some locks_mono [of "max l t" now "end"] by (simp add: guess_budget_def issued_def)
  qed
qed

lemma budget_wrong:
  assumes "factor_step now Wrong f f'" "factor_ok f" "t \<le> now" "now \<le> end"
  shows "1 + guess_budget f' now end \<le> guess_budget f t end"
  using assms(1)
proof (cases rule: factor_step.cases)
  case wrong
  have unlocked: "f_lock f = None" "f_attempts f < 9" using assms(2) wrong by (auto simp: factor_ok_def split: option.splits)
  note m = locks_mono [OF assms(3), of "end"] and p = locks_nonneg [OF assms(4)]
  show ?thesis
  proof (cases "9 \<le> Suc (f_attempts f)")
    case True
    then have "int (f_attempts f) = 8" using unlocked(2) by simp
    then show ?thesis using wrong unlocked True m p locks_after_lock [of "end" now]
      by (simp add: guess_budget_def failed_def Let_def max_def lock_ms_def)
  next
    case False
    then show ?thesis using wrong unlocked m by (simp add: guess_budget_def failed_def Let_def)
  qed
qed

lemma timely_end: "timely t qs db end \<Longrightarrow> t \<le> end"
proof (induction qs arbitrary: t db)
  case (Cons eq qs)
  then show ?case by (cases eq) (auto dest: order_trans)
qed simp

lemma wrong_codes_budget:
  assumes "auth_ok db" "timely t qs db end" "never_cleared n qs db"
  shows "int (wrong_codes n qs db) \<le> guess_budget (factor_at db n) t end"
  using assms
proof (induction qs arbitrary: db t)
  case Nil
  then have ok: "factor_ok (factor_at db n)" "t \<le> end" by (simp_all add: auth_ok_def factors_ok_def)
  show ?case
  proof (cases "f_lock (factor_at db n)")
    case None
    then show ?thesis using ok locks_nonneg [OF ok(2)] by (simp add: guess_budget_def factor_ok_def)
  next
    case (Some l)
    define a where "a = max l t"
    show ?thesis using locks_nonneg [of a "end"]
      unfolding guess_budget_def Some option.case a_def [symmetric] by auto
  qed
next
  case (Cons eq qs)
  obtain env q where e: "eq = (env, q)" by fastforce
  have p: "t \<le> au_now env" "fresh_account env db" "timely (au_now env) qs (auth_perform env q db) end"
    "request_move env q db n \<noteq> Cleared" "never_cleared n qs (auth_perform env q db)"
    using Cons.prems(2,3) by (simp_all add: e)
  have ok: "factor_ok (factor_at db n)" using Cons.prems(1) by (simp add: auth_ok_def factors_ok_def)
  have st: "factor_step (au_now env) (request_move env q db n) (factor_at db n) (factor_at (auth_perform env q db) n)"
    using auth_perform_tracked [OF p(2)] Cons.prems(1) ok by (simp add: tracked_def auth_ok_def)
  have ih: "int (wrong_codes n qs (auth_perform env q db))
      \<le> guess_budget (factor_at (auth_perform env q db) n) (au_now env) end"
    by (rule Cons.IH [OF auth_perform_ok [OF Cons.prems(1) p(2)] p(3,5)])
  show ?case
  proof (cases "request_move env q db n")
    case Quiet
    with budget_quiet [OF st [unfolded Quiet] ok p(1) timely_end [OF p(3)]] ih show ?thesis by (simp add: e)
  next
    case Wrong
    with budget_wrong [OF st [unfolded Wrong] ok p(1) timely_end [OF p(3)]] ih show ?thesis by (simp add: e)
  qed (use p(4) in simp)
qed

lemma budget_start:
  assumes "t \<le> end"
  shows "guess_budget f t end \<le> 9 * ((end - t) div lock_ms + 1)"
proof (cases "f_lock f")
  case None
  then show ?thesis by (simp add: guess_budget_def)
next
  case (Some l)
  have "(end - max l t) div lock_ms \<le> (end - t) div lock_ms" by (rule locks_mono) simp
  then show ?thesis using Some locks_nonneg [OF assms] by (simp add: guess_budget_def)
qed

end
