(* ===== verification/SessionProps.thy ===== *)
theory SessionProps
  imports AuthSystem
begin

text \<open>
  The theorems about sign-in: who gets a session, how often a code can be tried, what revokes a token, who
  unlocks an account, and what generated passwords look like; then instances: a super administrator and an end user, a
  mail service that answers, a token library whose tokens name the end user.
\<close>

section \<open>The second factor\<close>

definition new_accounts :: "auth_db \<Rightarrow> bool" where
  "new_accounts db \<longleftrightarrow> table_ok m_id (ad_users db) \<and> (\<forall>m \<in> set (ad_users db). factor_of m = fresh_factor)"

lemma new_accounts_ok: "new_accounts db \<Longrightarrow> auth_ok db"
proof -
  assume "new_accounts db"
  then have "factor_at db n = fresh_factor" for n
    using find_row_Some [of m_id "ad_users db" n]
    by (auto simp: new_accounts_def factor_at_def find_member_def split: option.split)
  with \<open>new_accounts db\<close> show ?thesis
    by (simp add: auth_ok_def new_accounts_def factors_ok_def factor_ok_def fresh_factor_def)
qed

lemma auth_run_ok: "auth_ok db \<Longrightarrow> timely t qs db end \<Longrightarrow> auth_ok (auth_run qs db)"
proof (induction qs arbitrary: t db)
  case (Cons eq qs)
  then show ?case by (cases eq) (auto intro: auth_perform_ok)
qed simp

text \<open>Counters, codes and locks agree. After any run of the users service from accounts without a challenge,
  an account that is locked has no code and nine recorded failures, one that is not locked fewer than nine,
  and a live code fewer than three.\<close>

lemma factor_counters_agree:
  assumes "new_accounts db" "timely t qs db end" "m \<in> set (ad_users (auth_run qs db))"
  shows "(mfaLockedUntil m \<noteq> None \<longrightarrow> mfaCode m = None \<and> mfaAttempts m = 9)
    \<and> (mfaLockedUntil m = None \<longrightarrow> mfaAttempts m < 9) \<and> (mfaCode m \<noteq> None \<longrightarrow> mfaChallengeAttempts m < 3)"
proof -
  have ok: "auth_ok (auth_run qs db)" by (rule auth_run_ok [OF new_accounts_ok [OF assms(1)] assms(2)])
  then have "find_member (auth_run qs db) (m_id m) = Some m"
    using find_row_table_ok [OF _ assms(3), of m_id] by (simp add: auth_ok_def find_member_def)
  with ok have "factor_ok (factor_of m)" by (metis auth_ok_def factor_at_found factors_ok_def)
  then show ?thesis by (auto simp: factor_ok_def factor_of_def split: option.splits)
qed

text \<open>C4: codes cannot be guessed by trying. In any run of requests that contains neither a successful
  verification nor an unlock of the account, the wrong codes that are compared with a stored one are at most
  nine for each quarter of an hour, begun or complete.\<close>

theorem guesses_bounded:
  assumes "auth_ok db" "timely t qs db end" "never_cleared n qs db"
  shows "int (wrong_codes n qs db) \<le> 9 * ((end - t) div (15 * 60 * 1000) + 1)"
  using wrong_codes_budget [OF assms] budget_start [OF timely_end [OF assms(2)], of "factor_at db n"]
  by (simp add: lock_ms_def)

section \<open>Sessions\<close>

lemma generateTokens_Inr: "generateTokens env db m = Inr ts \<Longrightarrow> assertAccountAccess db (m_id m) = None"
  by (simp add: generateTokens_def guarded_Inr_iff)




lemma verify_Inr:
  assumes "verifyMfaCode env token code remember device db = (Inr vs, db')"
  obtains n m db1 where "mfaUserIdFromToken env token = Inr n" "find_member db n = Some m"
    "challenge_guard (au_now env) m = None" "mfaCode m = Some code" "m_active m"
    "find_member db' n = Some ((verified (au_now env) m)\<lparr>m_updatedAt := au_now env\<rparr>)"
proof -
  obtain n where n: "mfaUserIdFromToken env token = Inr n" "assertAccountAccess db n = None"
    using assms by (auto simp: verifyMfaCode_def split: sum.splits option.splits)
  obtain db1 where c: "consumeMfaChallenge env n code db = (Inr (), db1)" "verified_result env n remember device db1 = (Inr vs, db')"
    using assms n by (auto simp: verifyMfaCode_def split: sum.splits prod.splits)
  obtain m where m: "find_member db n = Some m" "challenge_guard (au_now env) m = None" "mfaCode m = Some code"
    "db1 = save_member env (verified (au_now env) m) db"
    using c(1) by (auto simp: consumeMfaChallenge_def split: option.splits if_splits)
  have "ad_users (snd (verified_result env n remember device db1)) = ad_users db1"
    by (simp add: verified_result_def case_prod_beta Let_def getConfig_users addTrustedDevice_def split: sum.split)
  then have "find_member db' n = find_member db1 n" using c(2) by (simp add: find_member_def)
  then have "find_member db' n = Some ((verified (au_now env) m)\<lparr>m_updatedAt := au_now env\<rparr>)"
    using m find_member_id [OF m(1)] by (simp add: find_save_member)
  moreover have "m_active m" using m(2) by (simp add: challenge_guard_def first_error_None_iff del: first_error.simps)
  ultimately show thesis using that n m by blast
qed

text \<open>A code works once, for its account, while it lasts. A verification that answers with a session had the
  stored code of the active account named by the token, not after its expiry and outside a lock; after it,
  every verification for that account is refused until a new code is issued.\<close>

lemma code_works_once:
  assumes "verifyMfaCode env token code remember device db = (Inr vs, db')"
  shows "\<exists>n m. mfaUserIdFromToken env token = Inr n \<and> find_member db n = Some m \<and> m_active m
    \<and> mfaCode m = Some code \<and> (\<exists>x. mfaExpiresAt m = Some x \<and> au_now env \<le> x) \<and> \<not> mfa_locked (au_now env) m
    \<and> (\<forall>env' token' code' remember' device'. mfaUserIdFromToken env' token' = Inr n \<longrightarrow>
         (\<exists>e. verifyMfaCode env' token' code' remember' device' db' = (Inl e, db')))"
proof -
  obtain n m where v: "mfaUserIdFromToken env token = Inr n" "find_member db n = Some m"
    "challenge_guard (au_now env) m = None" "mfaCode m = Some code" "m_active m"
    "find_member db' n = Some ((verified (au_now env) m)\<lparr>m_updatedAt := au_now env\<rparr>)"
    using verify_Inr [OF assms] by blast
  have x: "(\<exists>x. mfaExpiresAt m = Some x \<and> au_now env \<le> x) \<and> \<not> mfa_locked (au_now env) m"
    using v(3) by (auto simp: challenge_guard_def first_error_None_iff simp del: first_error.simps split: option.splits)
  have "\<exists>e. verifyMfaCode env' token' code' r' d' db' = (Inl e, db')" if "mfaUserIdFromToken env' token' = Inr n" for env' token' code' r' d'
  proof (cases "assertAccountAccess db' n")
    case None
    have "challenge_guard (au_now env') ((verified (au_now env) m)\<lparr>m_updatedAt := au_now env\<rparr>)
        = Some (MfaFailure MFA_CHALLENGE_UNAVAILABLE)"
      using v(5) by (simp add: challenge_guard_def verified_def mfa_locked_def)
    then show ?thesis using that None v(6) by (simp add: verifyMfaCode_def consumeMfaChallenge_def)
  qed (simp add: verifyMfaCode_def that)
  with v x show ?thesis by blast
qed

section \<open>Revocation\<close>

lemma revoked_revoke: "revoked (revoke j x db) k \<longleftrightarrow> revoked db k \<or> k = j"
  by (auto simp: revoke_def revoked_def)

lemma blacklist_same: "ad_blacklist db' = ad_blacklist db \<Longrightarrow> revoked db' k = revoked db k"
  by (simp add: revoked_def)

lemma blacklist_simps [simp]:
  "ad_blacklist (save_member env m db) = ad_blacklist db" "ad_blacklist (snd (getConfig db)) = ad_blacklist db"
  "ad_blacklist (recordLogin env n db) = ad_blacklist db" "ad_blacklist (with_password env n pw db) = ad_blacklist db"
  "ad_blacklist (snd (updateMfaCode env n c x r db)) = ad_blacklist db"
  "ad_blacklist (snd (consumeMfaChallenge env n c db)) = ad_blacklist db"
  "ad_blacklist (snd (addTrustedDevice env n t v db)) = ad_blacklist db"
  by (simp_all add: save_member_def getConfig_def recordLogin_def with_password_def updateMfaCode_def
    consumeMfaChallenge_def addTrustedDevice_def split: option.split)

lemma blacklist_challenge [simp]:
  "ad_blacklist (snd (startMfaChallenge env m t r g db)) = ad_blacklist db"
  "ad_blacklist (snd (mfa_step env b c m db)) = ad_blacklist db"
proof -
  show s: "ad_blacklist (snd (startMfaChallenge env m t r g db)) = ad_blacklist db" for m t r g
    by (rule startMfaChallenge_db [of env m t r g db]) simp_all
  show "ad_blacklist (snd (mfa_step env b c m db)) = ad_blacklist db"
    by (simp add: mfa_step_def case_prod_beta s split: sum.split)
qed

lemma revoked_challenge: "revoked (snd (startMfaChallenge env m t r g db)) k = revoked db k"
  by (simp add: revoked_def)

lemma google_blacklist [simp]: "ad_blacklist (snd (google_account env c sub email db)) = ad_blacklist db"
  by (simp add: google_account_def createGoogleUser_def linkGoogleIdentity_def Let_def split: option.split)

lemma verified_blacklist [simp]: "ad_blacklist (snd (verified_result env n r i db)) = ad_blacklist db"
  by (simp add: verified_result_def case_prod_beta Let_def split: sum.split)

lemma googleLogin_blacklist: "ad_blacklist (snd (googleLogin env token db)) = ad_blacklist db"
  by (simp add: googleLogin_def case_prod_beta split: sum.split option.split prod.split)

lemma verify_blacklist: "ad_blacklist (snd (verifyMfaCode env t c r i db)) = ad_blacklist db"
proof -
  have "ad_blacklist d = ad_blacklist db" if "consumeMfaChallenge env n c db = (x, d)" for n x d
    using that by (metis blacklist_simps(6) snd_conv)
  then show ?thesis by (simp add: verifyMfaCode_def split: sum.split option.split prod.split)
qed

lemma updateConfig_blacklist: "ad_blacklist (snd (updateConfig cd db)) = ad_blacklist db"
  by (simp add: updateConfig_def case_prod_beta split: option.split)

lemma revoked_perform: "revoked db k \<Longrightarrow> revoked (auth_perform env q db) k"
proof (cases q)
  case (UnlockMfa target actor dto)
  then show "revoked db k \<Longrightarrow> revoked (auth_perform env q db) k"
    by (cases rule: unlock_cases [OF prod.collapse [symmetric], of env target actor dto db])
      (simp_all add: commit_unlock_def Let_def revoked_def)
qed (simp_all add: revoked_def login_def resendMfaCode_def sendMfaCode_def changePassword_def resetPassword_def
    remove_user_def googleLogin_blacklist verify_blacklist updateConfig_blacklist case_prod_beta refresh_def
    logout_def revoke_def split: option.split sum.split)

lemma revoked_run: "revoked db k \<Longrightarrow> revoked (auth_run qs db) k"
proof (induction qs arbitrary: db)
  case (Cons eq qs)
  then show ?case by (cases eq) (simp add: revoked_perform)
qed simp

lemma validate_revoked:
  assumes "revoked db j" "cl_jti c = Some j"
  shows "\<exists>e. validate db c = Inl e"
  using assms by (auto simp: validate_def split: option.split)

text \<open>C6: refresh tokens rotate. A refresh token that was exchanged is refused ever after, whatever happens in
  between, and with it every request that carries the access token issued beside it.\<close>

theorem refresh_token_rotates:
  assumes "refresh env token db = (Inr ts, db')" "au_verifyRefresh env' token = au_verifyRefresh env token"
  shows "(\<exists>e. refresh env' token (auth_run qs db') = (Inl e, auth_run qs db'))
    \<and> (\<exists>c j. au_verifyRefresh env token = Some c \<and> cl_jti c = Some j \<and> \<not> revoked db j
         \<and> (\<forall>access. cl_jti access = Some j \<longrightarrow> (\<exists>e. validate (auth_run qs db') access = Inl e)))"
proof -
  obtain m j x where c: "refresh_checks env db token = Inr (m, j, x)" "db' = revoke j x db"
    using assms(1) by (auto simp: refresh_def split: sum.splits prod.splits)
  then obtain cl where cl: "au_verifyRefresh env token = Some cl" "cl_jti cl = Some j" "\<not> revoked db j"
    by (auto simp: refresh_checks_def and_then_Inr_iff guarded_Inr_iff split: option.splits if_splits)
  have r: "revoked (auth_run qs db') j" by (rule revoked_run) (simp add: c(2) revoked_revoke)
  then have "refresh env' token (auth_run qs db') = (Inl (Unauthorized RefreshInvalid), auth_run qs db')"
    using cl(1,2) assms(2) by (simp add: refresh_def refresh_checks_def refresh_error_def)
  with cl validate_revoked [OF r] show ?thesis by blast
qed

text \<open>A logout is final. After it no request with that access token, and no refresh with the token issued
  beside it, is answered, whatever happens in between.\<close>

lemma logout_is_final:
  assumes "au_decode env token = Some c" "cl_jti c = Some j"
  shows "(\<exists>e. validate (auth_run qs (logout env token db)) c = Inl e)
    \<and> (\<forall>env' other r. au_verifyRefresh env' other = Some r \<longrightarrow> cl_jti r = Some j \<longrightarrow>
         (\<exists>e. fst (refresh env' other (auth_run qs (logout env token db))) = Inl e))"
proof -
  have r: "revoked (auth_run qs (logout env token db)) j"
    by (rule revoked_run) (simp add: logout_def assms revoked_revoke)
  with validate_revoked [OF r assms(2)] show ?thesis by (simp add: refresh_def refresh_checks_def)
qed

text \<open>The ticketing service does not ask whether a token is revoked.\<close>

lemma ticketing_ignores_revocation: "ticketing_validate (logout env token db) c = ticketing_validate db c"
proof -
  have "decideAccountAccess (revoke j x db) n = decideAccountAccess db n" for j x n
    by (simp add: decideAccountAccess_def revoke_def find_member_def evaluateApproval_def find_role_def unit_approved_def
      split: option.split)
  then show ?thesis
    by (simp add: ticketing_validate_def logout_def assertAccountAccess_def Let_def split: option.split)
qed

section \<open>Recovery\<close>

text \<open>Who unlocks whom. An unlock that changes an account was made by another active account with a
  management capability, on the state it had seen, with a reason; a super administrator is unlocked by a
  super administrator only, and who merely views accounts unlocks end users only. It clears the counters,
  the code and the lock, forgets every trusted device of the account and leaves an audit entry.\<close>

lemma unlock_needs_authority:
  assumes "unlockMfa env target actor dto db = (Inr True, db')"
  shows "\<exists>m a. find_member db target = Some m \<and> find_member db actor = Some a \<and> actor \<noteq> target
    \<and> m_active a \<and> m_active m
    \<and> (\<exists>r. find_role db (m_role a) = Some r
         \<and> (isUserManagementRolesManage r \<or> isUserManagementAdmin r \<or> isUserManagementView r \<and> m_role m = USER))
    \<and> (m_role m = SUPER_ADMIN \<longrightarrow> m_role a = SUPER_ADMIN)
    \<and> mfaRecoveryVersion env m = Inr (ul_version dto)
    \<and> factor_at db' target = fresh_factor \<and> (\<forall>d \<in> set (ad_devices db'). dev_userId d \<noteq> target)
    \<and> (\<exists>u. ad_audit db' = ad_audit db @ [u] \<and> un_actor u = actor \<and> un_target u = target \<and> 10 \<le> length (un_reason u))"
  using assms
proof (cases rule: unlock_cases)
  case (2 m a)
  have id: "m_id m = target" "m_id a = actor" using find_member_id 2 by blast+
  have dev: "\<forall>d \<in> set (ad_devices db'). dev_userId d \<noteq> target"
    "ad_audit db' = ad_audit db @ [\<lparr>un_actor = actor, un_target = target, un_reason = trim (ul_reason dto)\<rparr>]"
    by (simp_all add: 2(8) commit_unlock_def Let_def id save_member_def)
  have "factor_at db' = factor_at (save_member env (recovered m) db)"
    unfolding 2(8) by (rule factor_at_same_users) (simp add: commit_unlock_def Let_def)
  then have "factor_at db' target = fresh_factor" by (simp add: factor_at_save id)
  moreover have "10 \<le> length (trim (ul_reason dto))"
    using 2(4) by (simp add: unlock_fields_def Let_def first_error_None_iff del: first_error.simps)
  moreover have "m_active a \<and> m_active m \<and> actor \<noteq> target \<and> (m_role m = SUPER_ADMIN \<longrightarrow> m_role a = SUPER_ADMIN)
      \<and> (\<exists>r. find_role db (m_role a) = Some r
         \<and> (isUserManagementRolesManage r \<or> isUserManagementAdmin r \<or> isUserManagementView r \<and> m_role m = USER))"
    using 2(5) by (auto simp: assertMfaRecoveryAuthority_def Let_def first_error_None_iff id role_flag_def
      simp del: first_error.simps split: option.splits)
  ultimately show ?thesis using 2 dev by auto
qed simp

section \<open>Passwords\<close>

text \<open>The timing-safe comparison is equality.\<close>

lemma timing_safe_is_equality: "timingSafeStringEquals a b \<longleftrightarrow> a = b"
proof -
  have f: "foldr (\<lambda>(x, y) same. same \<and> x = y) ps True \<longleftrightarrow> list_all (\<lambda>(x, y). x = y) ps" for ps :: "(char \<times> char) list"
    by (induction ps) auto
  have z: "length xs = length ys \<Longrightarrow> list_all (\<lambda>(x, y). x = y) (zip xs ys) \<longleftrightarrow> xs = ys" for xs ys :: string
    by (induction xs ys rule: list_induct2) auto
  show ?thesis
    by (auto simp: timingSafeStringEquals_def Let_def f z padded_def max_def)
qed

definition password_chars :: "char set" where
  "password_chars = set lowers \<union> set uppers \<union> set nums \<union> set specials"

lemma first_line_chars: "set s \<subseteq> password_chars \<Longrightarrow> first_line s = s"
proof -
  assume "set s \<subseteq> password_chars"
  moreover have "CHR 0x0A \<notin> password_chars" "CHR 0x0D \<notin> password_chars"
    by (simp_all add: password_chars_def lowers_def uppers_def nums_def specials_def)
  ultimately have "\<forall>c \<in> set s. c \<noteq> CHR 0x0A \<and> c \<noteq> CHR 0x0D" by blast
  then show "first_line s = s" by (simp add: first_line_def)
qed

lemma strong_password:
  assumes "set s \<subseteq> password_chars" "12 \<le> length s"
    "\<exists>c \<in> set s. c \<in> set lowers" "\<exists>c \<in> set s. c \<in> set uppers" "\<exists>c \<in> set s. c \<in> set nums" "\<exists>c \<in> set s. c \<in> set specials"
  shows "isValidStrongPassword s"
  using assms by (simp add: isValidStrongPassword_def first_line_chars list_ex_iff)

lemma class_nonempty [simp]: "lowers \<noteq> []" "uppers \<noteq> []" "nums \<noteq> []" "specials \<noteq> []"
  by (simp_all add: lowers_def uppers_def nums_def specials_def)

lemma randomChar_set: "s \<noteq> [] \<Longrightarrow> set (randomChar r s) \<subseteq> set s \<and> length (randomChar r s) = 1"
  by (simp add: randomChar_def)

lemma fallback_characters_strong:
  assumes "set pw = set (fallback_characters rs)" "length pw = length (fallback_characters rs)"
  shows "isValidStrongPassword pw"
proof (rule strong_password)
  let ?all = "lowers @ uppers @ nums @ specials"
  have all: "?all \<noteq> []" by simp
  have in4: "lowers ! (i mod length lowers) \<in> set lowers" "uppers ! (i mod length uppers) \<in> set uppers"
    "nums ! (i mod length nums) \<in> set nums" "specials ! (i mod length specials) \<in> set specials" for i
    by (simp_all add: nth_mem)
  have s: "set pw = {uppers ! (rs ! 0 mod length uppers), lowers ! (rs ! 1 mod length lowers),
      nums ! (rs ! 2 mod length nums), specials ! (rs ! 3 mod length specials)}
      \<union> (\<Union>i \<in> {0..<10}. set (randomChar (rs ! (4 + i)) ?all))"
    unfolding assms(1) fallback_characters_def by (auto simp: randomChar_def)
  have "set (randomChar r ?all) \<subseteq> password_chars" for r
    using randomChar_set [OF all, of r] by (auto simp: password_chars_def)
  then show "set pw \<subseteq> password_chars" using in4 unfolding s by (auto simp: password_chars_def)
  show "\<exists>c \<in> set pw. c \<in> set lowers" "\<exists>c \<in> set pw. c \<in> set uppers" "\<exists>c \<in> set pw. c \<in> set nums"
    "\<exists>c \<in> set pw. c \<in> set specials"
    using in4 unfolding s by auto
  have "length (concat (map (\<lambda>i. randomChar (f i) ?all) xs)) = length xs" for f and xs :: "nat list"
    by (induction xs) (simp_all add: randomChar_def)
  then show "12 \<le> length pw" unfolding assms(2) fallback_characters_def by (simp add: randomChar_def)
qed

lemma lowers_member:
  "CHR ''a'' \<in> set lowers" "CHR ''b'' \<in> set lowers" "CHR ''c'' \<in> set lowers" "CHR ''d'' \<in> set lowers"
  "CHR ''e'' \<in> set lowers" "CHR ''f'' \<in> set lowers" "CHR ''g'' \<in> set lowers" "CHR ''h'' \<in> set lowers"
  "CHR ''i'' \<in> set lowers" "CHR ''j'' \<in> set lowers" "CHR ''k'' \<in> set lowers" "CHR ''l'' \<in> set lowers"
  "CHR ''m'' \<in> set lowers" "CHR ''n'' \<in> set lowers" "CHR ''o'' \<in> set lowers" "CHR ''p'' \<in> set lowers"
  "CHR ''q'' \<in> set lowers" "CHR ''r'' \<in> set lowers" "CHR ''s'' \<in> set lowers" "CHR ''t'' \<in> set lowers"
  "CHR ''u'' \<in> set lowers" "CHR ''v'' \<in> set lowers" "CHR ''w'' \<in> set lowers" "CHR ''x'' \<in> set lowers"
  "CHR ''y'' \<in> set lowers" "CHR ''z'' \<in> set lowers"
  by (simp_all add: lowers_def)

lemma phrase_words_lower: "w \<in> set phrase_words \<Longrightarrow> 5 \<le> length w \<and> set w \<subseteq> set lowers"
proof -
  have "list_all (list_all (\<lambda>c. c \<in> set lowers)) rawWords"
    by (simp only: rawWords_def list.pred_inject lowers_member simp_thms)
  then show "w \<in> set phrase_words \<Longrightarrow> 5 \<le> length w \<and> set w \<subseteq> set lowers"
    by (auto simp: phrase_words_def list_all_iff)
qed

lemma capitalized_word:
  assumes "5 \<le> length w" "set w \<subseteq> set lowers"
  shows "length (capitalized w) = length w" "set (capitalized w) \<subseteq> set lowers \<union> set uppers"
    "\<exists>c \<in> set (capitalized w). c \<in> set uppers" "\<exists>c \<in> set (capitalized w). c \<in> set lowers"
proof -
  obtain c d cs where w: "w = c # d # cs" using assms(1) by (cases w; cases "tl w") auto
  have "map (\<lambda>c. char_of (of_char c - 32 :: nat)) lowers = uppers"
    by (simp add: lowers_def uppers_def char_of_eq_iff)
  then have "(\<lambda>c. char_of (of_char c - 32 :: nat)) ` set lowers = set uppers" by (metis set_map)
  moreover have "list_all (\<lambda>c. CHR ''a'' \<le> c \<and> c \<le> CHR ''z'') lowers"
    by (simp add: lowers_def less_eq_char_def)
  ultimately have "CHR ''a'' \<le> c \<and> c \<le> CHR ''z'' \<and> char_of (of_char c - 32 :: nat) \<in> set uppers"
    using assms(2) w by (auto simp: list_all_iff)
  with w assms(2) show "length (capitalized w) = length w" "set (capitalized w) \<subseteq> set lowers \<union> set uppers"
    "\<exists>c \<in> set (capitalized w). c \<in> set uppers" "\<exists>c \<in> set (capitalized w). c \<in> set lowers"
    by (auto simp: capitalized_def)
qed

text \<open>Words of which one is capitalised and one digit, with the dashes between them.\<close>

lemma phrase_strong:
  assumes "d \<in> set nums" "set p = set a \<union> set b \<union> set c \<union> {CHR ''-'', d}" "length a + length b + length c + 2 \<le> length p"
    "5 \<le> length a" "5 \<le> length b" "5 \<le> length c"
    "set a \<union> set b \<union> set c \<subseteq> set lowers \<union> set uppers"
    "\<exists>x \<in> set a \<union> set b \<union> set c. x \<in> set uppers" "\<exists>x \<in> set a \<union> set b \<union> set c. x \<in> set lowers"
  shows "isValidStrongPassword p"
proof (rule strong_password)
  have dash: "CHR ''-'' \<in> set specials" by (simp add: specials_def)
  show "set p \<subseteq> password_chars" using assms(1,2,7) dash by (auto simp: password_chars_def)
  show "\<exists>c \<in> set p. c \<in> set lowers" "\<exists>c \<in> set p. c \<in> set uppers" "\<exists>c \<in> set p. c \<in> set nums" "\<exists>c \<in> set p. c \<in> set specials"
    using assms(1,2,8,9) dash by auto
qed (use assms in simp)

lemma passphrase_strong: "isValidStrongPassword (generateFallbackPassphrase rs)"
proof -
  define n where "n = length phrase_words"
  have "''apple'' \<in> set phrase_words" by (simp add: phrase_words_def rawWords_def)
  then have "phrase_words \<noteq> []" by auto
  then have mem: "phrase_words ! (i mod n) \<in> set phrase_words" for i by (simp add: n_def)
  define a b c where "a = phrase_words ! (rs ! 0 mod n)" and "b = phrase_words ! (rs ! 1 mod n)"
    and "c = phrase_words ! (rs ! 2 mod n)"
  note w = phrase_words_lower [OF mem, of "rs ! 0", folded a_def] phrase_words_lower [OF mem, of "rs ! 1", folded b_def]
    phrase_words_lower [OF mem, of "rs ! 2", folded c_def]
  define d where "d = nums ! (rs ! 4 mod 10)"
  have "length nums = 10" by (simp add: nums_def)
  then have d: "d \<in> set nums" by (simp add: d_def nth_mem)
  obtain x y z where xyz: "[a, b, c][rs ! 3 mod 3 := capitalized ([a, b, c] ! (rs ! 3 mod 3))] = [x, y, z]"
    "5 \<le> length x" "5 \<le> length y" "5 \<le> length z" "set x \<union> set y \<union> set z \<subseteq> set lowers \<union> set uppers"
    "\<exists>u \<in> set x \<union> set y \<union> set z. u \<in> set uppers" "\<exists>u \<in> set x \<union> set y \<union> set z. u \<in> set lowers"
  proof -
    have "rs ! 3 mod 3 < 3" by simp
    then consider "rs ! 3 mod 3 = 0" | "rs ! 3 mod 3 = 1" | "rs ! 3 mod 3 = 2" by linarith
    then show thesis
    proof cases
      case 1 show thesis by (rule that [of "capitalized a" b c]) (use 1 w capitalized_word [of a] in auto)
    next
      case 2 show thesis by (rule that [of a "capitalized b" c]) (use 2 w capitalized_word [of b] in auto)
    next
      case 3 show thesis by (rule that [of a b "capitalized c"]) (use 3 w capitalized_word [of c] in auto)
    qed
  qed
  have g: "generateFallbackPassphrase rs =
      (if rs ! 5 mod 3 = 0 then [d] @ ''-'' @ joined [x, y, z]
       else if rs ! 5 mod 3 = 1 then joined [x, y, z] @ ''-'' @ [d] else joined [x, y @ [d], z])"
    using xyz(1) by (simp add: generateFallbackPassphrase_def Let_def n_def a_def b_def c_def d_def)
  show ?thesis unfolding g by (rule phrase_strong [OF d _ _ xyz(2-7)]) auto
qed

text \<open>Generated passwords pass the check. Whatever the random source draws and however the characters are
  shuffled, the fallback password and the fallback passphrase satisfy the policy for strong passwords, and so
  does what is returned when an outside generator is asked first.\<close>

lemma generated_passwords_strong:
  assumes "mset (shuffle (fallback_characters rs)) = mset (fallback_characters rs)"
  shows "isValidStrongPassword (generateFallbackPassword shuffle rs) \<and> isValidStrongPassword (generateFallbackPassphrase rs')
    \<and> isValidStrongPassword (generated answer (generateFallbackPassword shuffle rs))
    \<and> isValidStrongPassword (generated answer (generateFallbackPassphrase rs'))"
proof -
  have "isValidStrongPassword (generateFallbackPassword shuffle rs)"
    unfolding generateFallbackPassword_def
    by (rule fallback_characters_strong) (use assms in \<open>auto dest: mset_eq_setD mset_eq_length\<close>)
  with passphrase_strong show ?thesis by (auto simp: generated_def split: option.split)
qed

section \<open>Instances\<close>

definition user_claims :: "bool \<Rightarrow> string option \<Rightarrow> claims" where
  "user_claims temp jti = \<lparr>cl_sub = 2, cl_role = USER, cl_jti = jti, cl_isTemp = temp, cl_exp = 9000\<rparr>"

definition demo_auth :: auth_env where
  "demo_auth = \<lparr>au_now = 5000, au_compare = (\<lambda>p h. p = h), au_hash = (\<lambda>p. p), au_sameText = (\<lambda>a b. a = b),
     au_sign = (\<lambda>_. ''access''), au_signRefresh = (\<lambda>_. ''refresh''),
     au_verify = (\<lambda>_. Some (user_claims True None)), au_verifyRefresh = (\<lambda>_. Some (user_claims False (Some ''j''))),
     au_decode = (\<lambda>_. Some (user_claims False (Some ''j''))), au_accessTtl = 1000, au_refreshTtl = 2000,
     au_googleClient = False, au_google = (\<lambda>_. None), au_draws = [''123456''], au_uuid = ''k'', au_freshId = 50,
     au_mailQueued = True, au_authEmails = Some True, au_recoveryDigest = (\<lambda>_. replicate 64 (CHR ''a'')),
     au_secret = True, au_auditDatabase = True\<rparr>"

definition demo_member :: "nat \<Rightarrow> user_role \<Rightarrow> string \<Rightarrow> member" where
  "demo_member n role email = \<lparr>m_id = n, m_email = email, passwordHash = ''pw'', mfaCode = None, mfaExpiresAt = None,
     mfaLastVerifiedAt = None, mfaAttempts = 0, mfaChallengeAttempts = 0, mfaLockedUntil = None, m_staffId = None,
     authProvider = LOCAL, googleSub = None, m_role = role, m_active = True, m_units = [], lastLogin = None,
     m_updatedAt = 1000\<rparr>"

definition demo_accounts :: "member list \<Rightarrow> auth_db" where
  "demo_accounts ms = \<lparr>ad_users = demo_member 1 SUPER_ADMIN ''admin'' # ms,
     ad_devices = [\<lparr>dev_userId = 2, deviceToken = ''phone'', dev_expiresAt = 8000\<rparr>], ad_blacklist = [],
     ad_config = Some default_security_config,
     ad_roles = [\<lparr>rr_role = SUPER_ADMIN, isSecuritySettingsAccess = True, isUserManagementRolesManage = True,
                  isUserManagementAdmin = True, isUserManagementView = True\<rparr>],
     ad_units = [], ad_audit = [], ad_vapt = False\<rparr>"

definition end_user :: member where
  "end_user = demo_member 2 USER ''user''"

definition challenged :: member where
  "challenged = end_user\<lparr>mfaCode := Some ''123456'', mfaExpiresAt := Some 6000, mfaAttempts := 1,
     mfaChallengeAttempts := 1\<rparr>"

definition unlock_request :: unlock_dto where
  "unlock_request = \<lparr>ul_reason = ''identity checked'', ul_identityVerified = True,
     ul_version = replicate 64 (CHR ''a'')\<rparr>"

text \<open>A login, then a wrong code.\<close>

definition demo_requests :: "(auth_env \<times> auth_request) list" where
  "demo_requests = [(demo_auth, Login ''user'' ''pw'' None), (demo_auth, VerifyMfa ''t'' ''000000'' False None)]"

lemma result_Inr: "(case p of (Inl _, _) \<Rightarrow> False | (Inr _, _) \<Rightarrow> True) \<Longrightarrow> (\<And>x d. p = (Inr x, d) \<Longrightarrow> R) \<Longrightarrow> R"
  by (cases p; cases "fst p") auto

lemma demo_timely: "timely 5000 demo_requests (demo_accounts [end_user]) 6000"
  by code_simp

lemma guesses_bounded_witness:
  "wrong_codes 2 demo_requests (demo_accounts [end_user]) = 1
     \<and> int (wrong_codes 2 demo_requests (demo_accounts [end_user])) \<le> 9"
proof -
  have "list_all (\<lambda>m. factor_of m = fresh_factor) (ad_users (demo_accounts [end_user]))" by code_simp
  moreover have "table_ok m_id (ad_users (demo_accounts [end_user]))"
    by (simp add: table_ok_def demo_accounts_def end_user_def demo_member_def)
  ultimately have ok: "auth_ok (demo_accounts [end_user])"
    by (intro new_accounts_ok) (simp add: new_accounts_def list_all_iff)
  have "never_cleared 2 demo_requests (demo_accounts [end_user])" by code_simp
  from guesses_bounded [OF ok demo_timely this] have "int (wrong_codes 2 demo_requests (demo_accounts [end_user])) \<le> 9" by simp
  moreover have "wrong_codes 2 demo_requests (demo_accounts [end_user]) = 1" by code_simp
  ultimately show ?thesis by blast
qed


lemma refresh_token_rotates_witness:
  "\<exists>ts db' e. refresh demo_auth ''r'' (demo_accounts [end_user]) = (Inr ts, db')
     \<and> refresh demo_auth ''r'' (auth_run demo_requests db') = (Inl e, auth_run demo_requests db')"
proof -
  have "case refresh demo_auth ''r'' (demo_accounts [end_user]) of (Inl _, _) \<Rightarrow> False | (Inr _, _) \<Rightarrow> True" by code_simp
  then obtain ts db' where r: "refresh demo_auth ''r'' (demo_accounts [end_user]) = (Inr ts, db')" by (rule result_Inr)
  from refresh_token_rotates [OF r refl] r show ?thesis by blast
qed

end
