(* ===== verification/Duty.thy ===== *)
theory Duty
  imports Attendance "HOL-Library.Product_Lexorder"
begin

text \<open>
  The duty rosters (\<^verbatim>\<open>duty.entity.ts\<close> and the readers of \<^verbatim>\<open>duty.service.ts\<close>): the shared roster, exceptions,
  meeting reservations with their relievers, the coverage of a day's duties and the log of duties rendered;
  who is eligible, in which order the roster is served, which technicians are blocked for tickets.  The
  bodies of requests have passed the DTO validation of \<^verbatim>\<open>duty.controller.ts\<close>: names are values of the
  enumerations.  A time of a meeting is a \<open>clock\<close>; one out of range stands for a text that is no time.
\<close>

section \<open>Data\<close>

text \<open>In the order of \<open>DUTY_PRIORITY\<close>.\<close>

datatype (plugins only: code) duty_type = OD | ROC | CONFERENCE | OPCEN

datatype (plugins only: code) duty_period = AM | PM | WHOLE_DAY

datatype (plugins only: code) exception_type =
    TRAVEL_ORDER | EXAM | ASSISTANCE | PACD | CANVASS | DUE_TO_TA | OTHER_COMMITMENT

datatype (plugins only: code) reservation_status =
    MEETING_SCHEDULED | MEETING_CONFIRMED | MEETING_COMPLETED | MEETING_CANCELLED

datatype (plugins only: code) coverage_status =
    COVERAGE_ACTIVE | COVERAGE_RELEASED | COVERAGE_COMPLETED | COVERAGE_CANCELLED | INTERVENTION_REQUIRED

datatype (plugins only: code) log_source = MANUAL_LOG | AUTOMATIC_LOG | MANAGEMENT_OVERRIDE

record roster_member =
  rm_id :: nat
  rm_userId :: nat
  rm_dutyType :: duty_type
  sortOrder :: int
  rm_isActive :: bool
  odOnly :: bool
  rm_createdAt :: date

record duty_log =
  dl_id :: nat
  dl_date :: day
  dl_userId :: nat
  dl_type :: duty_type
  dl_period :: duty_period
  dl_coverageId :: "nat option"
  dl_reservationId :: "nat option"
  dl_remarks :: "string option"
  dl_source :: log_source
  dl_createdById :: "nat option"

record duty_exception =
  ex_id :: nat
  ex_date :: day
  ex_userId :: nat
  ex_dutyType :: "duty_type option"
  ex_type :: exception_type
  ex_remarks :: "string option"
  ex_createdById :: "nat option"

record reservation =
  rs_id :: nat
  rs_date :: day
  rs_venue :: duty_type
  rs_start :: "clock option"
  rs_end :: "clock option"
  rs_purpose :: "string option"
  rs_remarks :: "string option"
  rs_status :: reservation_status
  rs_createdById :: nat

record reliever =
  rl_reservationId :: nat
  rl_userId :: nat
  rl_reason :: string
  rl_createdById :: nat

record coverage =
  cv_id :: nat
  cv_date :: day
  cv_type :: duty_type
  cv_period :: duty_period
  cv_reservationId :: "nat option"
  primaryUserId :: nat
  assignedUserId :: "nat option"
  isSubstitute :: bool
  substitutionReason :: "string option"
  cv_status :: coverage_status
  previousAttendanceStatus :: "attendance_status option"
  previousAttendanceNotes :: "string option"
  attendanceOverridden :: bool
  releasedAt :: "date option"

text \<open>The attendance row with its notes, and the configuration with the roster's switch.\<close>

record duty_attendance = attendance +
  att_notes :: "string option"

record duty_config = ticketing_config +
  odOverrideEnabled :: bool

text \<open>\<open>dd_nextId\<close> is the generator of ids.\<close>

record duty_db =
  dd_roster :: "roster_member list"
  dd_logs :: "duty_log list"
  dd_exceptions :: "duty_exception list"
  dd_reservations :: "reservation list"
  dd_relievers :: "reliever list"
  dd_coverages :: "coverage list"
  dd_attendance :: "duty_attendance list"
  dd_tickets :: "ticket list"
  dd_users :: "account list"
  dd_config :: "duty_config option"
  dd_nextId :: nat

type_synonym duty_actor = "nat \<times> user_role"

text \<open>A body's field that may be left out keeps the stored value.\<close>

definition keep_or :: "'a option \<Rightarrow> 'a \<Rightarrow> 'a" where
  "keep_or new old = (case new of Some x \<Rightarrow> x | None \<Rightarrow> old)"

section \<open>Reading\<close>

definition isDutyAdmin :: "env \<Rightarrow> duty_actor \<Rightarrow> bool" where
  "isDutyAdmin env actor = has_capability (env_caps env) CapDutyAdmin (snd actor)"

definition isManualLog :: "duty_log \<Rightarrow> bool" where
  "isManualLog row \<longleftrightarrow> dl_source row = MANUAL_LOG \<and> dl_coverageId row = None"

definition find_coverage :: "duty_db \<Rightarrow> nat \<Rightarrow> coverage option" where
  "find_coverage db n = find_row cv_id (dd_coverages db) n"

definition find_reservation :: "duty_db \<Rightarrow> nat \<Rightarrow> reservation option" where
  "find_reservation db n = find_row rs_id (dd_reservations db) n"

definition relievers_of :: "duty_db \<Rightarrow> nat \<Rightarrow> reliever list" where
  "relievers_of db n = filter (\<lambda>r. rl_reservationId r = n) (dd_relievers db)"

definition isOdOverrideEnabled :: "duty_db \<Rightarrow> bool" where
  "isOdOverrideEnabled db = (case dd_config db of Some c \<Rightarrow> odOverrideEnabled c | None \<Rightarrow> False)"

definition usersById :: "env \<Rightarrow> duty_db \<Rightarrow> nat \<Rightarrow> account option" where
  "usersById env db n = find_row acc_id
     (filter (\<lambda>u. acc_active u \<and> acc_role u \<noteq> SUPER_ADMIN \<and> acc_role u \<noteq> USER \<and> isTechnician (env_caps env) (acc_role u))
        (dd_users db)) n"

definition active_tickets :: "duty_db \<Rightarrow> nat \<Rightarrow> nat" where
  "active_tickets db n =
     count_rows (\<lambda>t. assignedToId t = Some n \<and> status t \<in> {ASSIGNED, IN_PROGRESS, PAUSE}) (dd_tickets db)"

definition find_attendance :: "duty_db \<Rightarrow> nat \<Rightarrow> day \<Rightarrow> duty_attendance option" where
  "find_attendance db n d = List.find (\<lambda>a. att_userId a = n \<and> att_date a = d) (dd_attendance db)"

section \<open>Attendance eligibility\<close>

definition timeToMinutes :: "clock option \<Rightarrow> int" where
  "timeToMinutes c = (case c of Some c \<Rightarrow> int (clock_hh c) * 60 + int (clock_mm c) | None \<Rightarrow> 0)"

definition minutes_of :: "date \<Rightarrow> int" where
  "minutes_of t = timeToMinutes (Some (getManilaTimeString t))"

definition config_minutes :: "duty_config option \<Rightarrow> (duty_config \<Rightarrow> clock) \<Rightarrow> int" where
  "config_minutes config f = timeToMinutes (map_option f config)"

definition isCww :: "duty_config option \<Rightarrow> bool" where
  "isCww config = (case config of Some c \<Rightarrow> scheduleMode c = CWW | None \<Rightarrow> False)"

definition office_start :: "duty_config option \<Rightarrow> int" where
  "office_start config =
     (if isCww config then config_minutes config cwwClockinStart else config_minutes config officeClockin)"

definition office_end :: "duty_config option \<Rightarrow> int" where
  "office_end config =
     (if isCww config then config_minutes config cwwClockoutEnd else config_minutes config officeClockout)"

definition isAttendanceRecordEligible ::
  "env \<Rightarrow> duty_attendance option \<Rightarrow> duty_config option \<Rightarrow> day \<Rightarrow> bool \<Rightarrow> bool" where
  "isAttendanceRecordEligible env found config d allowLate =
     (case found of
        None \<Rightarrow> False
      | Some a \<Rightarrow>
          if att_status a \<noteq> PRESENT then False
          else if d \<noteq> env_today env then True
          else if minutes_of (env_now env) < office_start config \<or> office_end config < minutes_of (env_now env) then False
          else (case clockInTime a of
              None \<Rightarrow> isManualOverride a
            | Some clockIn \<Rightarrow>
                let clockInMinutes = minutes_of clockIn;
                    cwwWindowEnd = config_minutes config cwwClockinEnd
                in if \<not> allowLate \<and> isCww config \<and> cwwWindowEnd < clockInMinutes then False
                   else if \<not> allowLate \<and> \<not> isCww config \<and> config_minutes config officeClockin < clockInMinutes then False
                   else if isCww config \<and> clockInMinutes \<le> cwwWindowEnd
                   then if clockInMinutes < config_minutes config cwwClockinStart
                        then minutes_of (env_now env) \<le> config_minutes config cwwClockoutStart
                        else env_now env \<le> clockIn + 11 * 60 * 60 * 1000
                   else True))"

definition isAttendanceEligible :: "env \<Rightarrow> duty_db \<Rightarrow> nat \<Rightarrow> day \<Rightarrow> bool \<Rightarrow> bool" where
  "isAttendanceEligible env db n d allowLate =
     isAttendanceRecordEligible env (find_attendance db n d) (dd_config db) d allowLate"

section \<open>Meetings\<close>

definition meetingSlot :: "clock option \<Rightarrow> clock option \<Rightarrow> duty_period result" where
  "meetingSlot startTime endTime =
     (if startTime = None \<and> endTime = None then Inr WHOLE_DAY
      else if startTime = None \<or> endTime = None then Inl (BadRequest (Meeting MeetingTimes))
      else let s = timeToMinutes startTime; e = timeToMinutes endTime
           in if e \<le> s then Inl (BadRequest (Meeting MeetingTimes))
              else if s < 12 * 60 \<and> e \<le> 12 * 60 then Inr AM
              else if 12 * 60 \<le> s \<and> e \<le> 24 * 60 then Inr PM
              else Inl (BadRequest (Meeting MeetingCrossesNoon)))"

text \<open>Stored meetings have a slot: \<open>saveReservation\<close> writes no other (\<open>slots_ok\<close> is an invariant).  The
  readers of stored meetings are therefore total; the value for a meeting without a slot is arbitrary.\<close>

definition reservationPeriod :: "reservation \<Rightarrow> duty_period" where
  "reservationPeriod r = (case meetingSlot (rs_start r) (rs_end r) of Inr p \<Rightarrow> p | Inl _ \<Rightarrow> WHOLE_DAY)"

definition slots_ok :: "duty_db \<Rightarrow> bool" where
  "slots_ok db \<longleftrightarrow> (\<forall>r \<in> set (dd_reservations db). \<exists>p. meetingSlot (rs_start r) (rs_end r) = Inr p)"

definition periodsOverlap :: "duty_period \<Rightarrow> duty_period \<Rightarrow> bool" where
  "periodsOverlap l r \<longleftrightarrow> l = WHOLE_DAY \<or> r = WHOLE_DAY \<or> l = r"

definition open_meeting :: "reservation \<Rightarrow> bool" where
  "open_meeting r \<longleftrightarrow> rs_status r \<noteq> MEETING_CANCELLED \<and> rs_status r \<noteq> MEETING_COMPLETED"

definition slot_rank :: "duty_period \<Rightarrow> nat" where
  "slot_rank p = (case p of WHOLE_DAY \<Rightarrow> 0 | AM \<Rightarrow> 1 | PM \<Rightarrow> 2)"

text \<open>The texts of times compare as the times; a missing one is the empty text.\<close>

definition start_key :: "reservation \<Rightarrow> int" where
  "start_key r = (case rs_start r of Some c \<Rightarrow> clock_seconds c | None \<Rightarrow> -1)"

definition selectedReservation :: "reservation list \<Rightarrow> duty_type \<Rightarrow> reservation option" where
  "selectedReservation rs ty =
     (case sort_key (\<lambda>r. (slot_rank (reservationPeriod r), start_key r)) (filter (\<lambda>r. rs_venue r = ty \<and> open_meeting r) rs) of
        [] \<Rightarrow> None | r # _ \<Rightarrow> Some r)"

section \<open>The rotation\<close>

definition type_index :: "duty_type \<Rightarrow> nat" where
  "type_index t = (case t of OD \<Rightarrow> 0 | ROC \<Rightarrow> 1 | CONFERENCE \<Rightarrow> 2 | OPCEN \<Rightarrow> 3)"

definition sharedRosterMembers :: "env \<Rightarrow> duty_db \<Rightarrow> roster_member list" where
  "sharedRosterMembers env db =
     (let rows = sort_key (\<lambda>m. (sortOrder m, rm_createdAt m)) (filter rm_isActive (dd_roster db));
          canonical = filter (\<lambda>m. rm_dutyType m = OD) rows;
          source = (if canonical \<noteq> [] then canonical else sort_key (\<lambda>m. (type_index (rm_dutyType m), sortOrder m)) rows);
          unique = foldl (\<lambda>acc m. if usersById env db (rm_userId m) \<noteq> None \<and> rm_userId m \<notin> set (map rm_userId acc)
                                  then acc @ [m] else acc) [] source
      in sort_key (\<lambda>m. (sortOrder m, rm_userId m)) unique)"

text \<open>The latest day up to \<open>d\<close> on which the member rendered the duty.\<close>

definition last_duty :: "duty_db \<Rightarrow> nat \<Rightarrow> duty_type \<Rightarrow> day \<Rightarrow> day option" where
  "last_duty db n ty d =
     map_option dl_date (oldest_by (\<lambda>l. - dl_date l)
       (filter (\<lambda>l. dl_userId l = n \<and> dl_type l = ty \<and> dl_date l \<le> d) (dd_logs db)))"

record rotation_row =
  ro_userId :: nat
  ro_type :: duty_type
  ro_sortOrder :: int
  daysSince :: int
  ro_excluded :: bool
  ro_next :: bool

definition duty_excluded :: "duty_db \<Rightarrow> nat \<Rightarrow> duty_type \<Rightarrow> day \<Rightarrow> bool" where
  "duty_excluded db n ty d \<longleftrightarrow> list_ex (\<lambda>e. ex_date e = d \<and> ex_userId e = n
     \<and> (ex_dutyType e = None \<or> ex_dutyType e = Some ty)) (dd_exceptions db)"

definition rotation_row_of :: "duty_db \<Rightarrow> day \<Rightarrow> duty_type \<Rightarrow> roster_member \<Rightarrow> rotation_row" where
  "rotation_row_of db d ty m =
     \<lparr>ro_userId = rm_userId m, ro_type = ty, ro_sortOrder = sortOrder m,
      daysSince = (case last_duty db (rm_userId m) ty d of Some l \<Rightarrow> d - l | None \<Rightarrow> 9999),
      ro_excluded = duty_excluded db (rm_userId m) ty d, ro_next = False\<rparr>"

definition serves :: "bool \<Rightarrow> duty_type \<Rightarrow> roster_member \<Rightarrow> bool" where
  "serves override ty m \<longleftrightarrow> \<not> override \<or> (if ty = OD then odOnly m else \<not> odOnly m)"

text \<open>The order among candidates: longest without this duty first.\<close>

definition turn_key :: "rotation_row \<Rightarrow> int \<times> int \<times> nat" where
  "turn_key r = (- daysSince r, ro_sortOrder r, ro_userId r)"

definition mark_next :: "rotation_row list \<Rightarrow> rotation_row list" where
  "mark_next rows =
     (case sort_key turn_key (filter (\<lambda>r. \<not> ro_excluded r) rows) of
        [] \<Rightarrow> rows
      | n # _ \<Rightarrow> map (\<lambda>r. if ro_userId r = ro_userId n then r\<lparr>ro_next := True\<rparr> else r) rows)"

text \<open>The rows of one duty, and \<open>getRotation\<close> for one duty: a rotation of all duties is that of each in
  the order of priority.\<close>

definition rotation_rows :: "env \<Rightarrow> duty_db \<Rightarrow> day \<Rightarrow> duty_type \<Rightarrow> rotation_row list" where
  "rotation_rows env db d ty =
     map (rotation_row_of db d ty) (filter (serves (isOdOverrideEnabled db) ty) (sharedRosterMembers env db))"

definition getRotation :: "env \<Rightarrow> duty_db \<Rightarrow> day \<Rightarrow> duty_type \<Rightarrow> rotation_row list" where
  "getRotation env db d ty =
     sort_key (\<lambda>r. (if ro_next r then 0 else 1 :: nat, - daysSince r, ro_sortOrder r)) (mark_next (rotation_rows env db d ty))"

section \<open>Coverage\<close>

text \<open>The ids of accounts are positive, so that \<open>if (userId)\<close> asks whether there is one.\<close>

definition coverageCandidateUserId :: "coverage \<Rightarrow> nat option" where
  "coverageCandidateUserId c =
     (case cv_status c of
        COVERAGE_ACTIVE \<Rightarrow> assignedUserId c
      | INTERVENTION_REQUIRED \<Rightarrow> Some (primaryUserId c)
      | _ \<Rightarrow> None)"

definition live_coverage :: "coverage \<Rightarrow> bool" where
  "live_coverage c \<longleftrightarrow> cv_status c = COVERAGE_ACTIVE \<or> cv_status c = INTERVENTION_REQUIRED"

definition isCurrentOd :: "env \<Rightarrow> duty_db \<Rightarrow> nat \<Rightarrow> bool" where
  "isCurrentOd env db n \<longleftrightarrow>
     (let d = env_today env
      in list_ex (\<lambda>c. cv_date c = d \<and> cv_type c = OD \<and> assignedUserId c = Some n \<and> cv_status c = COVERAGE_ACTIVE) (dd_coverages db)
       \<or> list_ex (\<lambda>l. dl_date l = d \<and> dl_type l = OD \<and> dl_userId l = n) (dd_logs db)
       \<or> (case getRotation env db d OD of r # _ \<Rightarrow> ro_userId r = n | [] \<Rightarrow> False))"

definition canSchedule :: "env \<Rightarrow> duty_db \<Rightarrow> duty_actor \<Rightarrow> bool" where
  "canSchedule env db actor \<longleftrightarrow> isDutyAdmin env actor \<or> isCurrentOd env db (fst actor)"

definition assertDutyRead :: "env \<Rightarrow> duty_db \<Rightarrow> duty_actor \<Rightarrow> bool" where
  "assertDutyRead env db actor \<longleftrightarrow> isDutyAdmin env actor
     \<or> has_capability (env_caps env) CapDutyViewer (snd actor) \<or> canSchedule env db actor"

text \<open>\<open>blockedTechnicianIds\<close>: who gets no automatic assignment on a day.\<close>

definition active_meetings :: "duty_db \<Rightarrow> day \<Rightarrow> bool \<Rightarrow> reservation list" where
  "active_meetings db d includeCompleted = filter (\<lambda>r. rs_date r = d \<and> rs_status r \<noteq> MEETING_CANCELLED
     \<and> (includeCompleted \<or> rs_status r \<noteq> MEETING_COMPLETED)) (dd_reservations db)"

definition meeting_relievers :: "duty_db \<Rightarrow> day \<Rightarrow> bool \<Rightarrow> reliever list" where
  "meeting_relievers db d includeCompleted =
     filter (\<lambda>l. rl_reservationId l \<in> set (map rs_id (active_meetings db d includeCompleted))) (dd_relievers db)"

definition blockedTechnicianIds :: "duty_db \<Rightarrow> day \<Rightarrow> nat list" where
  "blockedTechnicianIds db d =
     (let meetings = active_meetings db d False;
          relievers = meeting_relievers db d False;
          scheduled = map rs_venue meetings;
          overridden = map rs_venue (filter (\<lambda>r. list_ex (\<lambda>l. rl_reservationId l = rs_id r) relievers) meetings);
          rows = filter (\<lambda>c. cv_date c = d \<and> live_coverage c \<and> (cv_type c = OD \<or> cv_type c \<in> set scheduled)
                    \<and> cv_type c \<notin> set overridden) (dd_coverages db)
      in remdups (List.map_filter coverageCandidateUserId rows @ map rl_userId relievers))"

end
