(* ===== verification/DutyCoverage.thy ===== *)
theory DutyCoverage
  imports Duty "HOL-Library.Char_ord"
begin

text \<open>
  The coverage of a day's duties in \<^verbatim>\<open>duty.service.ts\<close>: reconciliation, activation, release, completion and
  the routine at the end of the day.  Live events and notifications are left out.  A new coverage is refused
  by the database when its day, duty and period are taken (\<open>@Unique\<close> of \<open>DutyDailyCoverage\<close>).
\<close>

section \<open>Rows\<close>

definition save_coverage :: "coverage \<Rightarrow> duty_db \<Rightarrow> duty_db" where
  "save_coverage c db = db\<lparr>dd_coverages := save_row cv_id (dd_coverages db) c\<rparr>"

definition save_reservation :: "reservation \<Rightarrow> duty_db \<Rightarrow> duty_db" where
  "save_reservation r db = db\<lparr>dd_reservations := save_row rs_id (dd_reservations db) r\<rparr>"

definition duty_att_key :: "duty_attendance \<Rightarrow> nat \<times> day" where
  "duty_att_key a = (att_userId a, att_date a)"

definition update_attendance :: "nat \<Rightarrow> day \<Rightarrow> (duty_attendance \<Rightarrow> duty_attendance) \<Rightarrow> duty_db \<Rightarrow> duty_db" where
  "update_attendance n d f db =
     (case find_attendance db n d of
        Some a \<Rightarrow> db\<lparr>dd_attendance := save_row duty_att_key (dd_attendance db) (f a)\<rparr> | None \<Rightarrow> db)"

definition duty_name :: "duty_type \<Rightarrow> string" where
  "duty_name ty = (case ty of OD \<Rightarrow> ''OD'' | ROC \<Rightarrow> ''ROC'' | CONFERENCE \<Rightarrow> ''CONFERENCE'' | OPCEN \<Rightarrow> ''OPCEN'')"

definition period_name :: "duty_period \<Rightarrow> string" where
  "period_name p = (case p of AM \<Rightarrow> ''AM'' | PM \<Rightarrow> ''PM'' | WHOLE_DAY \<Rightarrow> ''WHOLE DAY'')"

definition duty_note :: "duty_type \<Rightarrow> string" where
  "duty_note ty = duty_name ty @ '' DUTY''"

definition put_on_duty :: "duty_type \<Rightarrow> duty_attendance \<Rightarrow> duty_attendance" where
  "put_on_duty ty a = a\<lparr>att_status := OUT_OF_OFFICE, att_notes := Some (duty_note ty), isManualOverride := True\<rparr>"

definition duty_restored_row :: "coverage \<Rightarrow> duty_attendance \<Rightarrow> duty_attendance" where
  "duty_restored_row c a = a\<lparr>att_status := (case previousAttendanceStatus c of Some s \<Rightarrow> s | None \<Rightarrow> PRESENT),
     att_notes := previousAttendanceNotes c\<rparr>"

definition restoreAttendance :: "coverage \<Rightarrow> duty_db \<Rightarrow> duty_db" where
  "restoreAttendance c db =
     (case assignedUserId c of
        Some n \<Rightarrow> if attendanceOverridden c then update_attendance n (cv_date c) (duty_restored_row c) db else db
      | None \<Rightarrow> db)"

text \<open>\<open>String(notes).endsWith(' DUTY')\<close>.\<close>

definition ends_with_duty :: "string option \<Rightarrow> bool" where
  "ends_with_duty s = (case s of Some x \<Rightarrow> take 5 (rev x) = rev '' DUTY'' | None \<Rightarrow> False)"

definition isActiveCoverageAttendanceEligible :: "env \<Rightarrow> duty_db \<Rightarrow> coverage \<Rightarrow> nat \<Rightarrow> bool" where
  "isActiveCoverageAttendanceEligible env db c n =
     (if attendanceOverridden c
         \<and> (case find_attendance db n (cv_date c) of
              Some a \<Rightarrow> att_status a = OUT_OF_OFFICE \<and> ends_with_duty (att_notes a) | None \<Rightarrow> False)
      then True else isAttendanceEligible env db n (cv_date c) False)"

definition find_slot :: "duty_db \<Rightarrow> day \<Rightarrow> duty_type \<Rightarrow> duty_period \<Rightarrow> coverage option" where
  "find_slot db d ty p = List.find (\<lambda>c. cv_date c = d \<and> cv_type c = ty \<and> cv_period c = p) (dd_coverages db)"

section \<open>Reconciliation\<close>

definition prior_coverages :: "duty_db \<Rightarrow> day \<Rightarrow> duty_type \<Rightarrow> duty_period \<Rightarrow> coverage list" where
  "prior_coverages db d ty p = filter (\<lambda>c. cv_date c = d \<and> type_index (cv_type c) < type_index ty \<and> live_coverage c
     \<and> periodsOverlap (cv_period c) p) (dd_coverages db)"

text \<open>\<open>reservedByPriorDuty\<close>: later rows overwrite earlier ones in the map.\<close>

definition reserved_by :: "coverage list \<Rightarrow> nat \<Rightarrow> coverage option" where
  "reserved_by prior n = List.find (\<lambda>c. coverageCandidateUserId c = Some n) (rev prior)"

text \<open>Relievers named by the management replace the coverage.\<close>

definition relieved :: "coverage option \<Rightarrow> duty_db \<Rightarrow> duty_db" where
  "relieved cur db =
     (case cur of
        None \<Rightarrow> db
      | Some c \<Rightarrow>
          save_coverage (c\<lparr>cv_status := COVERAGE_CANCELLED, assignedUserId := None, isSubstitute := False,
              substitutionReason := Some ''Replaced by a management-requested immediate reliever.'',
              attendanceOverridden := False\<rparr>)
            (if attendanceOverridden c then restoreAttendance c db else db))"

definition yield_to_prior :: "coverage list \<Rightarrow> day \<Rightarrow> coverage \<Rightarrow> duty_db \<Rightarrow> coverage \<times> duty_db" where
  "yield_to_prior prior d c db =
     (case coverageCandidateUserId c of
        None \<Rightarrow> (c, db)
      | Some n \<Rightarrow>
          (case reserved_by prior n of
             None \<Rightarrow> (c, db)
           | Some q \<Rightarrow>
               let db1 = (if attendanceOverridden c then update_attendance n d (put_on_duty (cv_type q)) db else db);
                   c1 = c\<lparr>cv_status := COVERAGE_CANCELLED, assignedUserId := None, attendanceOverridden := False\<rparr>
               in (c1, save_coverage c1 db1)))"

text \<open>The coverage of an assigned technician with an exception or without attendance is cancelled, and the
  variable that holds it is set to \<open>null\<close>.\<close>

definition drop_ineligible :: "env \<Rightarrow> day \<Rightarrow> coverage \<Rightarrow> duty_db \<Rightarrow> coverage option \<times> duty_db" where
  "drop_ineligible env d c db =
     (case assignedUserId c of
        None \<Rightarrow> (Some c, db)
      | Some n \<Rightarrow>
          if cv_status c = COVERAGE_ACTIVE
             \<and> (list_ex (\<lambda>e. ex_date e = d \<and> ex_userId e = n) (dd_exceptions db)
                \<or> \<not> isActiveCoverageAttendanceEligible env db c n)
          then (None, save_coverage (c\<lparr>cv_status := COVERAGE_CANCELLED\<rparr>) (restoreAttendance c db))
          else (Some c, db))"

definition return_substitute :: "coverage \<Rightarrow> duty_db \<Rightarrow> coverage \<times> duty_db" where
  "return_substitute c db =
     (if cv_status c = COVERAGE_ACTIVE \<and> isSubstitute c
      then let c1 = c\<lparr>assignedUserId := None, isSubstitute := False, substitutionReason := None,
                     attendanceOverridden := False, cv_status := INTERVENTION_REQUIRED\<rparr>
           in (c1, save_coverage c1 (restoreAttendance c db))
      else (c, db))"

definition pending_coverage ::
  "nat \<Rightarrow> day \<Rightarrow> duty_type \<Rightarrow> duty_period \<Rightarrow> nat option \<Rightarrow> nat \<Rightarrow> coverage" where
  "pending_coverage n d ty p meeting user =
     \<lparr>cv_id = n, cv_date = d, cv_type = ty, cv_period = p, cv_reservationId = meeting, primaryUserId = user,
      assignedUserId = None, isSubstitute = False, substitutionReason = None, cv_status = INTERVENTION_REQUIRED,
      previousAttendanceStatus = None, previousAttendanceNotes = None, attendanceOverridden = False,
      releasedAt = None\<rparr>"

definition duty_candidates ::
  "env \<Rightarrow> duty_db \<Rightarrow> day \<Rightarrow> duty_type \<Rightarrow> nat list \<Rightarrow> rotation_row list \<Rightarrow> rotation_row list" where
  "duty_candidates env db d ty taken rotation =
     filter (\<lambda>r. isAttendanceEligible env db (ro_userId r) d False \<and> ro_userId r \<notin> set taken) rotation"

text \<open>The next in the rotation becomes the primary technician of a pending coverage.  \<open>cur\<close> is the row that
  is reused.\<close>

definition propose ::
  "env \<Rightarrow> day \<Rightarrow> duty_type \<Rightarrow> duty_period \<Rightarrow> nat list \<Rightarrow> nat option \<Rightarrow> coverage option \<Rightarrow> duty_db
    \<Rightarrow> coverage option result \<times> duty_db" where
  "propose env d ty p taken meeting cur db =
     (let rotation = filter (\<lambda>r. \<not> ro_excluded r) (getRotation env db d ty)
      in if rotation = [] then (Inl (BadRequest (Duty NoRosterMembers)), db)
         else (case duty_candidates env db d ty taken rotation of
             [] \<Rightarrow> (Inr None, case cur of
                 Some c \<Rightarrow> if cv_status c = INTERVENTION_REQUIRED
                           then save_coverage (c\<lparr>cv_status := COVERAGE_CANCELLED\<rparr>) db else db
               | None \<Rightarrow> db)
           | r # _ \<Rightarrow>
               (case cur of
                  Some c \<Rightarrow> let c1 = pending_coverage (cv_id c) d ty p meeting (ro_userId r)
                            in (Inr (Some c1), save_coverage c1 db)
                | None \<Rightarrow>
                    if find_slot db d ty p \<noteq> None then (Inl InternalServerError, db)
                    else let c1 = pending_coverage (dd_nextId db) d ty p meeting (ro_userId r)
                         in (Inr (Some c1), save_coverage c1 (db\<lparr>dd_nextId := dd_nextId db + 1\<rparr>)))))"

definition keep_current ::
  "env \<Rightarrow> day \<Rightarrow> coverage list \<Rightarrow> coverage \<Rightarrow> duty_db \<Rightarrow> coverage option \<times> duty_db" where
  "keep_current env d prior c db =
     (case yield_to_prior prior d c db of
        (c1, db1) \<Rightarrow>
          (case drop_ineligible env d c1 db1 of
             (None, db2) \<Rightarrow> (None, db2)
           | (Some c2, db2) \<Rightarrow> (case return_substitute c2 db2 of (c3, db3) \<Rightarrow> (Some c3, db3))))"

definition reconcile_period ::
  "env \<Rightarrow> day \<Rightarrow> duty_type \<Rightarrow> nat list \<Rightarrow> duty_period \<Rightarrow> reservation list \<Rightarrow> duty_db \<Rightarrow> coverage option result \<times> duty_db" where
  "reconcile_period env d ty excludedUserIds p meetings db =
     (let prior = prior_coverages db d ty p;
          taken = List.map_filter coverageCandidateUserId prior @ excludedUserIds;
          meeting = (case meetings of [] \<Rightarrow> None | r # _ \<Rightarrow> Some (rs_id r));
          cur = find_slot db d ty p
      in if list_ex (\<lambda>r. relievers_of db (rs_id r) \<noteq> []) meetings then (Inr None, relieved cur db)
         else (case cur of
             None \<Rightarrow> propose env d ty p taken meeting None db
           | Some c \<Rightarrow>
               (case keep_current env d prior c db of
                  (None, db1) \<Rightarrow> propose env d ty p taken meeting None db1
                | (Some c1, db1) \<Rightarrow>
                    if cv_status c1 = COVERAGE_ACTIVE then (Inr (Some c1), db1)
                    else propose env d ty p taken meeting (Some c1) db1)))"

definition meetings_on :: "duty_db \<Rightarrow> day \<Rightarrow> duty_type \<Rightarrow> reservation list" where
  "meetings_on db d ty = filter (\<lambda>r. rs_date r = d \<and> rs_venue r = ty) (dd_reservations db)"

definition reconcileCoverage ::
  "env \<Rightarrow> day \<Rightarrow> duty_type \<Rightarrow> nat list \<Rightarrow> duty_period option \<Rightarrow> duty_db \<Rightarrow> coverage option result \<times> duty_db" where
  "reconcileCoverage env d ty excludedUserIds requested db =
     (if ty = OD then reconcile_period env d ty excludedUserIds WHOLE_DAY [] db
      else let all = meetings_on db d ty;
               period = (case requested of Some p \<Rightarrow> Some p | None \<Rightarrow> map_option reservationPeriod (selectedReservation all ty))
           in (case period of
                 None \<Rightarrow> (Inr None, db)
               | Some p \<Rightarrow>
                   let meetings = filter (\<lambda>r. open_meeting r \<and> reservationPeriod r = p) all
                   in if meetings = [] then (Inr None, db)
                      else reconcile_period env d ty excludedUserIds p meetings db))"

text \<open>Left-over absences that no active coverage accounts for.\<close>

definition upper_ascii :: "string \<Rightarrow> string" where
  "upper_ascii s = map (\<lambda>c. if CHR ''a'' \<le> c \<and> c \<le> CHR ''z'' then char_of (of_char c - 32 :: nat) else c) s"

definition orphaned :: "duty_db \<Rightarrow> day \<Rightarrow> duty_attendance \<Rightarrow> bool" where
  "orphaned db d a \<longleftrightarrow> att_date a = d \<and> att_status a = OUT_OF_OFFICE
     \<and> (case att_notes a of Some s \<Rightarrow> upper_ascii (trim s) \<in> set (map duty_note [OD, ROC, CONFERENCE, OPCEN]) | None \<Rightarrow> False)
     \<and> \<not> list_ex (\<lambda>c. cv_date c = d \<and> cv_status c = COVERAGE_ACTIVE \<and> assignedUserId c = Some (att_userId a)
           \<and> attendanceOverridden c) (dd_coverages db)"

definition restoreOrphanedDutyAttendance :: "day \<Rightarrow> duty_db \<Rightarrow> duty_db" where
  "restoreOrphanedDutyAttendance d db =
     db\<lparr>dd_attendance := map (\<lambda>a. if orphaned db d a
          then a\<lparr>att_status := PRESENT, att_notes := None, isManualOverride := False\<rparr> else a) (dd_attendance db)\<rparr>"

fun reconcile_types :: "env \<Rightarrow> day \<Rightarrow> duty_type list \<Rightarrow> duty_db \<Rightarrow> unit result \<times> duty_db" where
  "reconcile_types env d [] db = (Inr (), db)"
| "reconcile_types env d (ty # tys) db =
     (case reconcileCoverage env d ty [] None db of
        (Inl e, db1) \<Rightarrow> (Inl e, db1)
      | (Inr _, db1) \<Rightarrow> reconcile_types env d tys db1)"

definition reconcileToday :: "env \<Rightarrow> duty_db \<Rightarrow> unit result \<times> duty_db" where
  "reconcileToday env db =
     (if minutes_of (env_now env) < office_start (dd_config db) then (Inr (), db)
      else reconcile_types env (env_today env) [OD, ROC, CONFERENCE, OPCEN]
             (restoreOrphanedDutyAttendance (env_today env) db))"

section \<open>Activation and release\<close>

definition activation_guard :: "env \<Rightarrow> duty_actor \<Rightarrow> coverage option \<Rightarrow> nat \<Rightarrow> duty_db \<Rightarrow> http_error option" where
  "activation_guard env actor found user db =
     (if \<not> isDutyAdmin env actor then Some (Forbidden (Duty DutyAdminRequired))
      else (case found of
          None \<Rightarrow> Some (NotFound (Duty CoverageNotFound))
        | Some c \<Rightarrow> first_error [
            (cv_status c \<noteq> INTERVENTION_REQUIRED, BadRequest (Duty CoverageNotPending)),
            (list_ex (\<lambda>q. cv_date q = cv_date c \<and> live_coverage q \<and> cv_id q \<noteq> cv_id c
                \<and> coverageCandidateUserId q = Some user \<and> periodsOverlap (cv_period q) (cv_period c)) (dd_coverages db),
             BadRequest (Duty CoverageConflict)),
            (0 < active_tickets db user, BadRequest (Duty CoverageTickets)),
            ((case find_attendance db user (cv_date c) of Some a \<Rightarrow> att_status a \<noteq> PRESENT | None \<Rightarrow> True),
             BadRequest (Duty CoverageAttendance))]))"

definition activated :: "coverage \<Rightarrow> nat \<Rightarrow> duty_attendance \<Rightarrow> coverage" where
  "activated c user a = c\<lparr>assignedUserId := Some user, isSubstitute := (user \<noteq> primaryUserId c),
     substitutionReason := (if user \<noteq> primaryUserId c
        then Some ''Duty Administrator selected a substitute after ticket reassignment.'' else None),
     previousAttendanceStatus := Some (att_status a), previousAttendanceNotes := att_notes a,
     attendanceOverridden := True, cv_status := COVERAGE_ACTIVE\<rparr>"

definition activateCoverage :: "env \<Rightarrow> duty_actor \<Rightarrow> nat \<Rightarrow> nat \<Rightarrow> duty_db \<Rightarrow> coverage result \<times> duty_db" where
  "activateCoverage env actor n user db =
     (case activation_guard env actor (find_coverage db n) user db of
        Some e \<Rightarrow> (Inl e, db)
      | None \<Rightarrow>
          let c = the (find_coverage db n); a = the (find_attendance db user (cv_date c))
          in (Inr (activated c user a),
              save_coverage (activated c user a) (update_attendance user (cv_date c) (put_on_duty (cv_type c)) db)))"

definition append_log :: "duty_log \<Rightarrow> duty_db \<Rightarrow> duty_db" where
  "append_log l db = db\<lparr>dd_logs := dd_logs db @ [l\<lparr>dl_id := dd_nextId db\<rparr>], dd_nextId := dd_nextId db + 1\<rparr>"

definition recordCompletedCoverage :: "coverage \<Rightarrow> duty_db \<Rightarrow> duty_db" where
  "recordCompletedCoverage c db =
     (case assignedUserId c of
        None \<Rightarrow> db
      | Some n \<Rightarrow>
          if list_ex (\<lambda>l. dl_coverageId l = Some (cv_id c) \<and> dl_userId l = n) (dd_logs db) then db
          else append_log \<lparr>dl_id = 0, dl_date = cv_date c, dl_userId = n, dl_type = cv_type c, dl_period = cv_period c,
                 dl_coverageId = Some (cv_id c), dl_reservationId = cv_reservationId c,
                 dl_remarks = Some (duty_name (cv_type c) @ '' '' @ period_name (cv_period c) @ '' duty completed''),
                 dl_source = AUTOMATIC_LOG, dl_createdById = None\<rparr> db)"

text \<open>The log of a reliever.\<close>

definition record_reliever :: "reservation \<Rightarrow> string \<Rightarrow> nat \<Rightarrow> reliever \<Rightarrow> duty_db \<Rightarrow> duty_db" where
  "record_reliever r remark createdBy l db =
     (if list_ex (\<lambda>x. dl_reservationId x = Some (rs_id r) \<and> dl_userId x = rl_userId l) (dd_logs db) then db
      else append_log \<lparr>dl_id = 0, dl_date = rs_date r, dl_userId = rl_userId l, dl_type = rs_venue r,
             dl_period = reservationPeriod r, dl_coverageId = None, dl_reservationId = Some (rs_id r),
             dl_remarks = Some (remark @ rl_reason l), dl_source = MANAGEMENT_OVERRIDE, dl_createdById = Some createdBy\<rparr> db)"

text \<open>After a meeting's duty ends the next meeting of the day at the venue is prepared.\<close>

definition prepare_next :: "env \<Rightarrow> day \<Rightarrow> duty_type \<Rightarrow> duty_db \<Rightarrow> unit result \<times> duty_db" where
  "prepare_next env d ty db =
     (case selectedReservation (meetings_on db d ty) ty of
        None \<Rightarrow> (Inr (), db)
      | Some next \<Rightarrow>
          (case reconcileCoverage env d ty [] (Some (reservationPeriod next)) db of
             (Inl e, db1) \<Rightarrow> (Inl e, db1) | (Inr _, db1) \<Rightarrow> (Inr (), db1)))"

definition complete_meeting :: "nat option \<Rightarrow> duty_db \<Rightarrow> duty_db" where
  "complete_meeting n db =
     (case n of
        None \<Rightarrow> db
      | Some n \<Rightarrow>
          (case find_reservation db n of
             Some r \<Rightarrow> if rs_status r = MEETING_CANCELLED then db else save_reservation (r\<lparr>rs_status := MEETING_COMPLETED\<rparr>) db
           | None \<Rightarrow> db))"

definition release_meeting :: "env \<Rightarrow> coverage \<Rightarrow> duty_db \<Rightarrow> unit result \<times> duty_db" where
  "release_meeting env c db =
     (let db1 = restoreAttendance c (recordCompletedCoverage c db);
          db2 = save_coverage (c\<lparr>cv_status := COVERAGE_COMPLETED, releasedAt := Some (env_now env)\<rparr>) db1
      in prepare_next env (cv_date c) (cv_type c) (complete_meeting (cv_reservationId c) db2))"

text \<open>The \<open>catch\<close> of \<open>releaseCoverage\<close>.\<close>

definition keep_officer :: "coverage \<Rightarrow> duty_db \<Rightarrow> duty_db" where
  "keep_officer c db =
     save_coverage (c\<lparr>cv_status := COVERAGE_ACTIVE, releasedAt := None\<rparr>)
       (case assignedUserId c of Some n \<Rightarrow> update_attendance n (cv_date c) (put_on_duty (cv_type c)) db | None \<Rightarrow> db)"

definition release_officer :: "env \<Rightarrow> coverage \<Rightarrow> duty_db \<Rightarrow> unit result \<times> duty_db" where
  "release_officer env c db =
     (if (case assignedUserId c of Some n \<Rightarrow> 0 < active_tickets db n | None \<Rightarrow> False)
      then (Inl (BadRequest (Duty CoverageTickets)), db)
      else let db1 = save_coverage (c\<lparr>cv_status := COVERAGE_RELEASED, releasedAt := Some (env_now env)\<rparr>) (restoreAttendance c db)
           in (case reconcileCoverage env (cv_date c) (cv_type c)
                      (case assignedUserId c of Some n \<Rightarrow> [n] | None \<Rightarrow> []) None db1 of
                 (Inl (BadRequest x), db2) \<Rightarrow> (Inl (BadRequest x), keep_officer c db2)
               | (Inl _, db2) \<Rightarrow> (Inl (BadRequest (Duty ReplacementFailed)), keep_officer c db2)
               | (Inr (Some q), db2) \<Rightarrow>
                   if cv_status q = INTERVENTION_REQUIRED then (Inr (), recordCompletedCoverage c db2)
                   else (Inl (BadRequest (Duty NoReplacement)), keep_officer c db2)
               | (Inr None, db2) \<Rightarrow> (Inl (BadRequest (Duty NoReplacement)), keep_officer c db2)))"

definition releaseCoverage :: "env \<Rightarrow> duty_actor \<Rightarrow> nat \<Rightarrow> duty_db \<Rightarrow> unit result \<times> duty_db" where
  "releaseCoverage env actor n db =
     (if \<not> isDutyAdmin env actor then (Inl (Forbidden (Duty DutyAdminRequired)), db)
      else (case find_coverage db n of
          None \<Rightarrow> (Inl (NotFound (Duty CoverageNotFound)), db)
        | Some c \<Rightarrow>
            if cv_status c \<noteq> COVERAGE_ACTIVE then (Inl (BadRequest (Duty CoverageNotActive)), db)
            else if cv_type c \<noteq> OD then release_meeting env c db
            else release_officer env c db))"

definition completion_guard :: "env \<Rightarrow> duty_actor \<Rightarrow> reservation option \<Rightarrow> duty_db \<Rightarrow> http_error option" where
  "completion_guard env actor found db =
     (if \<not> isDutyAdmin env actor then Some (Forbidden (Duty DutyAdminRequired))
      else (case found of
          None \<Rightarrow> Some (NotFound (Meeting MeetingNotFound))
        | Some r \<Rightarrow> first_error [
            (rs_status r = MEETING_CANCELLED, BadRequest (Meeting MeetingCancelled)),
            (rs_status r \<noteq> MEETING_COMPLETED \<and> rs_date r \<noteq> env_today env, BadRequest (Meeting MeetingNotToday)),
            (rs_status r \<noteq> MEETING_COMPLETED \<and> relievers_of db (rs_id r) = [], BadRequest (Meeting MeetingNoReliever))]))"

definition completeReservation :: "env \<Rightarrow> duty_actor \<Rightarrow> nat \<Rightarrow> duty_db \<Rightarrow> unit result \<times> duty_db" where
  "completeReservation env actor n db =
     (case completion_guard env actor (find_reservation db n) db of
        Some e \<Rightarrow> (Inl e, db)
      | None \<Rightarrow>
          let r = the (find_reservation db n)
          in if rs_status r = MEETING_COMPLETED then (Inr (), db)
             else prepare_next env (rs_date r) (rs_venue r)
               (save_reservation (r\<lparr>rs_status := MEETING_COMPLETED\<rparr>)
                 (fold (record_reliever r ''Immediate reliever duty completed: '' (fst actor)) (relievers_of db n) db)))"

section \<open>The end of the day\<close>

definition meeting_rendered :: "reservation \<Rightarrow> bool" where
  "meeting_rendered r \<longleftrightarrow> rs_status r = MEETING_CONFIRMED \<or> rs_status r = MEETING_COMPLETED"

definition finalize_reliever :: "env \<Rightarrow> reservation list \<Rightarrow> reliever \<Rightarrow> duty_db \<Rightarrow> duty_db" where
  "finalize_reliever env meetings l db =
     (case find_row rs_id meetings (rl_reservationId l) of
        None \<Rightarrow> db
      | Some r \<Rightarrow>
          if meeting_rendered r
             \<and> (case find_attendance db (rl_userId l) (env_today env) of Some a \<Rightarrow> att_status a = PRESENT | None \<Rightarrow> False)
             \<and> active_tickets db (rl_userId l) = 0
          then record_reliever r ''Immediate reliever: '' (rl_createdById l) l db else db)"

definition finalize_coverage :: "coverage \<Rightarrow> duty_db \<Rightarrow> duty_db" where
  "finalize_coverage c db =
     (let meeting = (case cv_reservationId c of Some n \<Rightarrow> find_reservation db n | None \<Rightarrow> None);
          occurred = (cv_type c = OD \<or> (case meeting of Some r \<Rightarrow> meeting_rendered r | None \<Rightarrow> False));
          finished = (assignedUserId c \<noteq> None \<and> occurred);
          db1 = (if finished
                 then complete_meeting (cv_reservationId c)
                   (save_coverage (c\<lparr>cv_status := COVERAGE_COMPLETED\<rparr>) (recordCompletedCoverage c db))
                 else db)
      in if attendanceOverridden c \<and> (finished \<or> cv_status c \<noteq> COVERAGE_RELEASED) then restoreAttendance c db1 else db1)"

definition finalizeToday :: "env \<Rightarrow> duty_db \<Rightarrow> duty_db" where
  "finalizeToday env db =
     (if minutes_of (env_now env) < office_end (dd_config db) then db
      else let d = env_today env;
               db1 = fold (finalize_reliever env (active_meetings db d True)) (meeting_relievers db d True) db
           in fold finalize_coverage
                (filter (\<lambda>c. cv_date c = d \<and> (cv_status c = COVERAGE_ACTIVE \<or> cv_status c = COVERAGE_RELEASED)) (dd_coverages db1)) db1)"

end
