(* ===== verification/DutyRequests.thy ===== *)
theory DutyRequests
  imports DutyCoverage
begin

text \<open>
  The requests of \<^verbatim>\<open>duty.controller.ts\<close> that edit logs, exceptions, the roster, meetings and relievers, and the
  skip of a pending technician, as \<^verbatim>\<open>duty.service.ts\<close> handles them.  A field of a body is \<open>None\<close> when it is left
  out (or \<open>null\<close>, where the source takes the stored value for both); texts that may be cleared have a second
  \<open>option\<close>.
\<close>

text \<open>\<open>new Set(ids)\<close> keeps the first of equal elements.\<close>

fun remdups_first :: "nat list \<Rightarrow> nat list" where
  "remdups_first [] = []"
| "remdups_first (x # xs) = x # filter (\<lambda>y. y \<noteq> x) (remdups_first xs)"

text \<open>The value of the body, else of the stored row.\<close>

definition body_or :: "'b option \<Rightarrow> ('r \<Rightarrow> 'b) \<Rightarrow> 'r option \<Rightarrow> 'b option" where
  "body_or new get found = (case new of Some x \<Rightarrow> Some x | None \<Rightarrow> map_option get found)"

definition text_or :: "'b option option \<Rightarrow> ('r \<Rightarrow> 'b option) \<Rightarrow> 'r option \<Rightarrow> 'b option" where
  "text_or new get found = (case new of Some x \<Rightarrow> x | None \<Rightarrow> (case found of Some r \<Rightarrow> get r | None \<Rightarrow> None))"

definition target_row :: "('r \<Rightarrow> nat) \<Rightarrow> 'r list \<Rightarrow> nat option \<Rightarrow> 'r option" where
  "target_row key rows target = (case target of Some n \<Rightarrow> find_row key rows n | None \<Rightarrow> None)"

definition fresh_if :: "'r option \<Rightarrow> duty_db \<Rightarrow> duty_db" where
  "fresh_if found db = (case found of Some _ \<Rightarrow> db | None \<Rightarrow> db\<lparr>dd_nextId := dd_nextId db + 1\<rparr>)"

section \<open>Logs\<close>

record log_dto =
  ld_date :: "day option"
  ld_userId :: "nat option"
  ld_type :: "duty_type option"
  ld_period :: "duty_period option"
  ld_remarks :: "string option option"

definition log_guard :: "env \<Rightarrow> duty_actor \<Rightarrow> log_dto \<Rightarrow> nat option \<Rightarrow> duty_log option \<Rightarrow> duty_db \<Rightarrow> http_error option" where
  "log_guard env actor dto target found db = first_error [
     (\<not> isDutyAdmin env actor, Forbidden (Duty DutyAdminRequired)),
     (target \<noteq> None \<and> found = None, NotFound (Duty DutyLogNotFound)),
     ((case found of Some r \<Rightarrow> \<not> isManualLog r | None \<Rightarrow> False), BadRequest (Duty DutyLogAutomatic)),
     (body_or (ld_type dto) dl_type found = None, BadRequest (Duty DutyTypeInvalid)),
     ((case body_or (ld_userId dto) dl_userId found of Some n \<Rightarrow> usersById env db n = None | None \<Rightarrow> True),
      BadRequest (Duty DutyStaff)),
     (body_or (ld_date dto) dl_date found = None, InternalServerError)]"

definition saved_log :: "duty_actor \<Rightarrow> log_dto \<Rightarrow> duty_log option \<Rightarrow> nat \<Rightarrow> duty_log" where
  "saved_log actor dto found freshId =
     \<lparr>dl_id = (case found of Some r \<Rightarrow> dl_id r | None \<Rightarrow> freshId),
      dl_date = the (body_or (ld_date dto) dl_date found), dl_userId = the (body_or (ld_userId dto) dl_userId found),
      dl_type = the (body_or (ld_type dto) dl_type found),
      dl_period = keep_or (body_or (ld_period dto) dl_period found) WHOLE_DAY,
      dl_coverageId = (case found of Some r \<Rightarrow> dl_coverageId r | None \<Rightarrow> None),
      dl_reservationId = (case found of Some r \<Rightarrow> dl_reservationId r | None \<Rightarrow> None),
      dl_remarks = text_or (ld_remarks dto) dl_remarks found,
      dl_source = (case found of Some r \<Rightarrow> dl_source r | None \<Rightarrow> MANUAL_LOG),
      dl_createdById = (case found of Some r \<Rightarrow> (case dl_createdById r of Some n \<Rightarrow> Some n | None \<Rightarrow> Some (fst actor))
                        | None \<Rightarrow> Some (fst actor))\<rparr>"

definition saveAssignment ::
  "env \<Rightarrow> duty_actor \<Rightarrow> log_dto \<Rightarrow> nat option \<Rightarrow> duty_db \<Rightarrow> duty_log result \<times> duty_db" where
  "saveAssignment env actor dto target db =
     (let found = target_row dl_id (dd_logs db) target
      in case log_guard env actor dto target found db of
           Some e \<Rightarrow> (Inl e, db)
         | None \<Rightarrow>
             let row = saved_log actor dto found (dd_nextId db)
             in (Inr row, (fresh_if found db)\<lparr>dd_logs := save_row dl_id (dd_logs db) row\<rparr>))"

definition deleteAssignment :: "env \<Rightarrow> duty_actor \<Rightarrow> nat \<Rightarrow> duty_db \<Rightarrow> unit result \<times> duty_db" where
  "deleteAssignment env actor n db =
     (let found = find_row dl_id (dd_logs db) n
      in case first_error [
           (\<not> isDutyAdmin env actor, Forbidden (Duty DutyAdminRequired)),
           (found = None, NotFound (Duty DutyLogNotFound)),
           ((case found of Some r \<Rightarrow> \<not> isManualLog r | None \<Rightarrow> False), BadRequest (Duty DutyLogAutomatic))] of
           Some e \<Rightarrow> (Inl e, db)
         | None \<Rightarrow> (Inr (), db\<lparr>dd_logs := filter (\<lambda>l. dl_id l \<noteq> n) (dd_logs db)\<rparr>))"

section \<open>Exceptions\<close>

record exception_dto =
  ed_date :: "day option"
  ed_userId :: "nat option"
  ed_dutyType :: "duty_type option option"
  ed_type :: "exception_type option"
  ed_remarks :: "string option option"

definition exception_duplicate :: "duty_db \<Rightarrow> duty_exception option \<Rightarrow> day \<Rightarrow> nat \<Rightarrow> duty_type option \<Rightarrow> bool" where
  "exception_duplicate db found d n ty \<longleftrightarrow> list_ex (\<lambda>e. ex_date e = d \<and> ex_userId e = n
     \<and> Some (ex_id e) \<noteq> map_option ex_id found \<and> ex_dutyType e = ty) (dd_exceptions db)"

definition exception_guard ::
  "env \<Rightarrow> duty_actor \<Rightarrow> exception_dto \<Rightarrow> nat option \<Rightarrow> duty_exception option \<Rightarrow> duty_db \<Rightarrow> http_error option" where
  "exception_guard env actor dto target found db =
     (let d = body_or (ed_date dto) ex_date found; n = body_or (ed_userId dto) ex_userId found
      in first_error [
        (\<not> isDutyAdmin env actor, Forbidden (Duty DutyAdminRequired)),
        (target \<noteq> None \<and> found = None, NotFound (Duty DutyExceptionNotFound)),
        (\<not> list_ex (\<lambda>m. Some (rm_userId m) = n) (sharedRosterMembers env db), BadRequest (Duty DutyExceptionRoster)),
        (d \<noteq> None \<and> exception_duplicate db found (the d) (the n) (text_or (ed_dutyType dto) ex_dutyType found),
         BadRequest (Duty DutyExceptionDuplicate)),
        (body_or (ed_type dto) ex_type found = None, BadRequest (Duty DutyTypeInvalid)),
        (d = None, InternalServerError)])"

definition saved_exception :: "duty_actor \<Rightarrow> exception_dto \<Rightarrow> duty_exception option \<Rightarrow> nat \<Rightarrow> duty_exception" where
  "saved_exception actor dto found freshId =
     \<lparr>ex_id = (case found of Some r \<Rightarrow> ex_id r | None \<Rightarrow> freshId),
      ex_date = the (body_or (ed_date dto) ex_date found), ex_userId = the (body_or (ed_userId dto) ex_userId found),
      ex_dutyType = text_or (ed_dutyType dto) ex_dutyType found, ex_type = the (body_or (ed_type dto) ex_type found),
      ex_remarks = text_or (ed_remarks dto) ex_remarks found,
      ex_createdById = (case found of Some r \<Rightarrow> (case ex_createdById r of Some n \<Rightarrow> Some n | None \<Rightarrow> Some (fst actor))
                        | None \<Rightarrow> Some (fst actor))\<rparr>"

text \<open>An exception of today is followed by a reconciliation, whose error is the error of the request.\<close>

definition then_reconcile :: "env \<Rightarrow> bool \<Rightarrow> 'a \<Rightarrow> duty_db \<Rightarrow> 'a result \<times> duty_db" where
  "then_reconcile env today x db =
     (if today then (case reconcileToday env db of (Inl e, db1) \<Rightarrow> (Inl e, db1) | (Inr _, db1) \<Rightarrow> (Inr x, db1))
      else (Inr x, db))"

definition saveException ::
  "env \<Rightarrow> duty_actor \<Rightarrow> exception_dto \<Rightarrow> nat option \<Rightarrow> duty_db \<Rightarrow> duty_exception result \<times> duty_db" where
  "saveException env actor dto target db =
     (let found = target_row ex_id (dd_exceptions db) target
      in case exception_guard env actor dto target found db of
           Some e \<Rightarrow> (Inl e, db)
         | None \<Rightarrow>
             let row = saved_exception actor dto found (dd_nextId db)
             in then_reconcile env (ex_date row = env_today env) row
                  ((fresh_if found db)\<lparr>dd_exceptions := save_row ex_id (dd_exceptions db) row\<rparr>))"

definition deleteException :: "env \<Rightarrow> duty_actor \<Rightarrow> nat \<Rightarrow> duty_db \<Rightarrow> unit result \<times> duty_db" where
  "deleteException env actor n db =
     (let found = find_row ex_id (dd_exceptions db) n
      in case first_error [
           (\<not> isDutyAdmin env actor, Forbidden (Duty DutyAdminRequired)),
           (found = None, NotFound (Duty DutyExceptionNotFound))] of
           Some e \<Rightarrow> (Inl e, db)
         | None \<Rightarrow> then_reconcile env (ex_date (the found) = env_today env) ()
                     (db\<lparr>dd_exceptions := filter (\<lambda>e. ex_id e \<noteq> n) (dd_exceptions db)\<rparr>))"

text \<open>A skip is an exception for the pending duty.\<close>

definition skip_dto :: "coverage \<Rightarrow> nat \<Rightarrow> duty_db \<Rightarrow> exception_dto" where
  "skip_dto c user db =
     \<lparr>ed_date = Some (cv_date c), ed_userId = Some user, ed_dutyType = Some (Some (cv_type c)),
      ed_type = Some (if 0 < active_tickets db user then DUE_TO_TA else OTHER_COMMITMENT),
      ed_remarks = Some (Some (if 0 < active_tickets db user
        then ''Technician chose to continue active tickets instead of taking the scheduled duty.''
        else ''Technician was manually skipped due to other work commitments.''))\<rparr>"

definition skip_guard :: "env \<Rightarrow> duty_actor \<Rightarrow> coverage option \<Rightarrow> nat \<Rightarrow> duty_db \<Rightarrow> http_error option" where
  "skip_guard env actor found user db =
     (if \<not> isDutyAdmin env actor then Some (Forbidden (Duty DutyAdminRequired))
      else (case found of
          None \<Rightarrow> Some (NotFound (Duty CoverageNotFound))
        | Some c \<Rightarrow> first_error [
            (cv_status c \<noteq> INTERVENTION_REQUIRED, BadRequest (Duty CoverageNotPending)),
            (cv_date c \<noteq> env_today env, BadRequest (Duty CoverageToday)),
            (\<not> list_ex (\<lambda>r. ro_userId r = user \<and> \<not> ro_excluded r) (getRotation env db (cv_date c) (cv_type c))
               \<or> \<not> isAttendanceEligible env db user (cv_date c) False, BadRequest (Duty CoverageCandidate))]))"

definition skipCoverage :: "env \<Rightarrow> duty_actor \<Rightarrow> nat \<Rightarrow> nat \<Rightarrow> duty_db \<Rightarrow> duty_exception result \<times> duty_db" where
  "skipCoverage env actor n user db =
     (case skip_guard env actor (find_coverage db n) user db of
        Some e \<Rightarrow> (Inl e, db)
      | None \<Rightarrow> saveException env actor (skip_dto (the (find_coverage db n)) user db) None db)"

section \<open>The roster\<close>

definition roster_guard :: "env \<Rightarrow> duty_actor \<Rightarrow> nat list \<Rightarrow> nat list \<Rightarrow> bool \<Rightarrow> duty_db \<Rightarrow> http_error option" where
  "roster_guard env actor selected odOnlyIds override db = first_error [
     (\<not> isDutyAdmin env actor, Forbidden (Duty DutyAdminRequired)),
     (\<not> list_all (\<lambda>n. n \<in> set selected) odOnlyIds, BadRequest (Duty RosterOdOnly)),
     (override \<and> odOnlyIds = [], BadRequest (Duty RosterNoOdOnly)),
     (override \<and> list_all (\<lambda>n. n \<in> set odOnlyIds) selected, BadRequest (Duty RosterNoVenue)),
     (\<not> list_all (\<lambda>n. usersById env db n \<noteq> None) selected, BadRequest (Duty RosterStaff))]"

text \<open>One row per selected account; a row of the account with another duty type makes the insert fail
  (\<open>@Unique(['userId'])\<close>).\<close>

fun write_roster :: "date \<Rightarrow> nat list \<Rightarrow> int \<Rightarrow> nat list \<Rightarrow> duty_db \<Rightarrow> unit result \<times> duty_db" where
  "write_roster now odOnlyIds i [] db = (Inr (), db)"
| "write_roster now odOnlyIds i (n # ns) db =
     (case List.find (\<lambda>m. rm_dutyType m = OD \<and> rm_userId m = n) (dd_roster db) of
        Some m \<Rightarrow> write_roster now odOnlyIds (i + 1) ns
          (db\<lparr>dd_roster := save_row rm_id (dd_roster db)
             (m\<lparr>sortOrder := i, rm_isActive := True, odOnly := (n \<in> set odOnlyIds)\<rparr>)\<rparr>)
      | None \<Rightarrow>
          if list_ex (\<lambda>m. rm_userId m = n) (dd_roster db) then (Inl InternalServerError, db)
          else write_roster now odOnlyIds (i + 1) ns
            (db\<lparr>dd_roster := dd_roster db @ [\<lparr>rm_id = dd_nextId db, rm_userId = n, rm_dutyType = OD, sortOrder = i,
                  rm_isActive = True, odOnly = (n \<in> set odOnlyIds), rm_createdAt = now\<rparr>],
               dd_nextId := dd_nextId db + 1\<rparr>))"

definition switch_override :: "bool option \<Rightarrow> duty_db \<Rightarrow> duty_db" where
  "switch_override new db =
     (case new of
        None \<Rightarrow> db
      | Some b \<Rightarrow> db\<lparr>dd_config := Some ((case dd_config db of Some c \<Rightarrow> c
          | None \<Rightarrow> ticketing_config.extend default_config \<lparr>odOverrideEnabled = False\<rparr>)\<lparr>odOverrideEnabled := b\<rparr>)\<rparr>)"

definition replaceRoster ::
  "env \<Rightarrow> duty_actor \<Rightarrow> nat list \<Rightarrow> nat list option \<Rightarrow> bool option \<Rightarrow> duty_db \<Rightarrow> unit result \<times> duty_db" where
  "replaceRoster env actor userIds odOnlyUserIds override db =
     (let selected = remdups_first (filter (\<lambda>n. 0 < n) userIds);
          odOnlyIds = filter (\<lambda>n. 0 < n) (case odOnlyUserIds of Some ns \<Rightarrow> ns
            | None \<Rightarrow> map rm_userId (filter odOnly (sharedRosterMembers env db)))
      in case roster_guard env actor selected odOnlyIds (keep_or override (isOdOverrideEnabled db)) db of
           Some e \<Rightarrow> (Inl e, db)
         | None \<Rightarrow>
             (case write_roster (env_now env) odOnlyIds 0 selected
                     (db\<lparr>dd_roster := map (\<lambda>m. m\<lparr>rm_isActive := False\<rparr>) (dd_roster db)\<rparr>) of
                (Inl e, db1) \<Rightarrow> (Inl e, db1)
              | (Inr _, db1) \<Rightarrow> (Inr (), switch_override override db1)))"

section \<open>Meetings\<close>

record meeting_dto =
  md_venue :: "duty_type option"
  md_date :: "day option"
  md_status :: "reservation_status option"
  md_start :: "clock option option"
  md_end :: "clock option option"
  md_purpose :: "string option option"
  md_remarks :: "string option option"

definition hasDutyLogs :: "duty_db \<Rightarrow> reservation \<Rightarrow> bool" where
  "hasDutyLogs db r \<longleftrightarrow> list_ex (\<lambda>l. dl_reservationId l = Some (rs_id r)) (dd_logs db)"

definition hasActiveDuty :: "env \<Rightarrow> duty_db \<Rightarrow> reservation \<Rightarrow> bool" where
  "hasActiveDuty env db r \<longleftrightarrow>
     list_ex (\<lambda>c. cv_reservationId c = Some (rs_id r) \<and> cv_status c = COVERAGE_ACTIVE) (dd_coverages db)
     \<or> rs_date r = env_today env \<and> rs_status r = MEETING_CONFIRMED \<and> relievers_of db (rs_id r) \<noteq> []"

definition purposeOnly :: "duty_db \<Rightarrow> reservation \<Rightarrow> bool" where
  "purposeOnly db r \<longleftrightarrow> hasDutyLogs db r \<or> rs_status r = MEETING_COMPLETED"

definition differs :: "'a option \<Rightarrow> 'a \<Rightarrow> bool" where
  "differs new old = (case new of Some x \<Rightarrow> x \<noteq> old | None \<Rightarrow> False)"

text \<open>Fields of the body, other than the purpose and the remarks, that differ from the stored meeting.\<close>

definition changes_schedule :: "meeting_dto \<Rightarrow> reservation \<Rightarrow> bool" where
  "changes_schedule dto r \<longleftrightarrow> differs (md_venue dto) (rs_venue r) \<or> differs (md_date dto) (rs_date r)
     \<or> differs (md_status dto) (rs_status r) \<or> differs (md_start dto) (rs_start r) \<or> differs (md_end dto) (rs_end r)"

definition edit_guard :: "env \<Rightarrow> duty_actor \<Rightarrow> meeting_dto \<Rightarrow> reservation \<Rightarrow> duty_db \<Rightarrow> http_error option" where
  "edit_guard env actor dto r db = first_error [
     (\<not> isDutyAdmin env actor \<and> rs_date r < env_today env, Forbidden (Meeting MeetingHistorical)),
     (purposeOnly db r \<and> (changes_schedule dto r \<or> differs (md_remarks dto) (rs_remarks r)),
      BadRequest (Meeting MeetingPurposeOnly)),
     (\<not> purposeOnly db r \<and> hasActiveDuty env db r \<and> changes_schedule dto r, BadRequest (Meeting MeetingActiveDuty)),
     (\<not> purposeOnly db r \<and> rs_status r = MEETING_CANCELLED \<and> differs (md_status dto) (rs_status r),
      BadRequest (Meeting MeetingReopened))]"

definition valid_time :: "clock \<Rightarrow> bool" where
  "valid_time c \<longleftrightarrow> clock_hh c < 24 \<and> clock_mm c < 60 \<and> clock_ss c < 60"

definition meeting_status :: "env \<Rightarrow> meeting_dto \<Rightarrow> reservation option \<Rightarrow> day \<Rightarrow> reservation_status" where
  "meeting_status env dto found d =
     (case body_or (md_status dto) rs_status found of
        Some s \<Rightarrow> s | None \<Rightarrow> if d = env_today env then MEETING_CONFIRMED else MEETING_SCHEDULED)"

definition schedule_guard ::
  "env \<Rightarrow> duty_actor \<Rightarrow> reservation option \<Rightarrow> duty_type option \<Rightarrow> day \<Rightarrow> reservation_status \<Rightarrow> clock option
    \<Rightarrow> clock option \<Rightarrow> http_error option" where
  "schedule_guard env actor found venue d st startTime endTime = first_error [
     (venue = None \<or> venue = Some OD, BadRequest (Duty DutyTypeInvalid)),
     (\<not> isDutyAdmin env actor \<and> d < env_today env, BadRequest (Meeting MeetingPast)),
     (st = MEETING_COMPLETED \<and> map_option rs_status found \<noteq> Some st, BadRequest (Meeting MeetingFinish)),
     ((startTime = None) \<noteq> (endTime = None), BadRequest (Meeting MeetingTimes)),
     ((case (startTime, endTime) of
         (Some s, Some e) \<Rightarrow> \<not> valid_time s \<or> \<not> valid_time e \<or> clock_seconds e \<le> clock_seconds s | _ \<Rightarrow> False),
      BadRequest (Meeting MeetingTimes))]"

definition slot_taken :: "duty_db \<Rightarrow> reservation option \<Rightarrow> duty_type \<Rightarrow> day \<Rightarrow> duty_period \<Rightarrow> bool" where
  "slot_taken db found venue d slot \<longleftrightarrow> list_ex (\<lambda>r. Some (rs_id r) \<noteq> map_option rs_id found
     \<and> rs_status r \<noteq> MEETING_CANCELLED \<and> periodsOverlap slot (reservationPeriod r)) (meetings_on db d venue)"

definition saved_meeting ::
  "duty_actor \<Rightarrow> meeting_dto \<Rightarrow> reservation option \<Rightarrow> nat \<Rightarrow> duty_type \<Rightarrow> day \<Rightarrow> reservation_status \<Rightarrow> clock option
    \<Rightarrow> clock option \<Rightarrow> reservation" where
  "saved_meeting actor dto found freshId venue d st startTime endTime =
     \<lparr>rs_id = (case found of Some r \<Rightarrow> rs_id r | None \<Rightarrow> freshId), rs_date = d, rs_venue = venue, rs_start = startTime,
      rs_end = endTime, rs_purpose = text_or (md_purpose dto) rs_purpose found,
      rs_remarks = text_or (md_remarks dto) rs_remarks found, rs_status = st,
      rs_createdById = (case found of Some r \<Rightarrow> rs_createdById r | None \<Rightarrow> fst actor)\<rparr>"

text \<open>A meeting that moves to another day or venue loses its relievers.\<close>

definition store_meeting :: "reservation option \<Rightarrow> reservation \<Rightarrow> duty_db \<Rightarrow> duty_db" where
  "store_meeting found row db =
     (let db1 = (fresh_if found db)\<lparr>dd_reservations := save_row rs_id (dd_reservations db) row\<rparr>
      in case found of
           Some r \<Rightarrow> if rs_date r \<noteq> rs_date row \<or> rs_venue r \<noteq> rs_venue row
                     then db1\<lparr>dd_relievers := filter (\<lambda>l. rl_reservationId l \<noteq> rs_id row) (dd_relievers db1)\<rparr> else db1
         | None \<Rightarrow> db1)"

definition write_meeting ::
  "env \<Rightarrow> duty_actor \<Rightarrow> meeting_dto \<Rightarrow> reservation option \<Rightarrow> duty_db \<Rightarrow> reservation result \<times> duty_db" where
  "write_meeting env actor dto found db =
     (case body_or (md_date dto) rs_date found of
        None \<Rightarrow> (Inl InternalServerError, db)
      | Some d \<Rightarrow>
          let venue = body_or (md_venue dto) rs_venue found; st = meeting_status env dto found d;
              startTime = text_or (md_start dto) rs_start found; endTime = text_or (md_end dto) rs_end found
          in (case schedule_guard env actor found venue d st startTime endTime of
                Some e \<Rightarrow> (Inl e, db)
              | None \<Rightarrow>
                  (case meetingSlot startTime endTime of
                     Inl e \<Rightarrow> (Inl e, db)
                   | Inr slot \<Rightarrow>
                       if slot_taken db found (the venue) d slot then (Inl (BadRequest (Meeting MeetingTaken)), db)
                       else let row = saved_meeting actor dto found (dd_nextId db) (the venue) d st startTime endTime
                            in then_reconcile env (d = env_today env \<and> st \<noteq> MEETING_CANCELLED) row
                                 (store_meeting found row db))))"

definition saveReservation ::
  "env \<Rightarrow> duty_actor \<Rightarrow> meeting_dto \<Rightarrow> nat option \<Rightarrow> duty_db \<Rightarrow> reservation result \<times> duty_db" where
  "saveReservation env actor dto target db =
     (if \<not> canSchedule env db actor then (Inl (Forbidden (Meeting MeetingScheduler)), db)
      else (case target_row rs_id (dd_reservations db) target of
          None \<Rightarrow> if target \<noteq> None then (Inl (NotFound (Meeting MeetingNotFound)), db)
                  else write_meeting env actor dto None db
        | Some r \<Rightarrow>
            (case edit_guard env actor dto r db of
               Some e \<Rightarrow> (Inl e, db)
             | None \<Rightarrow>
                 if purposeOnly db r
                 then let row = r\<lparr>rs_purpose := text_or (md_purpose dto) rs_purpose (Some r)\<rparr>
                      in (Inr row, save_reservation row db)
                 else write_meeting env actor dto (Some r) db)))"

definition deleteReservation :: "env \<Rightarrow> duty_actor \<Rightarrow> nat \<Rightarrow> duty_db \<Rightarrow> unit result \<times> duty_db" where
  "deleteReservation env actor n db =
     (if \<not> isDutyAdmin env actor then (Inl (Forbidden (Duty DutyAdminRequired)), db)
      else (case find_reservation db n of
          None \<Rightarrow> (Inr (), db)
        | Some r \<Rightarrow>
            if purposeOnly db r \<or> hasActiveDuty env db r then (Inl (BadRequest (Meeting MeetingDelete)), db)
            else (Inr (), db\<lparr>dd_relievers := filter (\<lambda>l. rl_reservationId l \<noteq> n) (dd_relievers db),
                        dd_reservations := filter (\<lambda>x. rs_id x \<noteq> n) (dd_reservations db)\<rparr>)))"

section \<open>Relievers\<close>

definition reliever_conflict :: "duty_db \<Rightarrow> reservation \<Rightarrow> nat list \<Rightarrow> bool" where
  "reliever_conflict db r users \<longleftrightarrow>
     list_ex (\<lambda>c. cv_date c = rs_date r \<and> live_coverage c \<and> cv_type c \<noteq> rs_venue r
         \<and> periodsOverlap (cv_period c) (reservationPeriod r)
         \<and> (case coverageCandidateUserId c of Some n \<Rightarrow> n \<in> set users | None \<Rightarrow> False)) (dd_coverages db)
     \<or> list_ex (\<lambda>q. rs_date q = rs_date r \<and> rs_id q \<noteq> rs_id r \<and> rs_status q \<noteq> MEETING_CANCELLED \<and> rs_venue q \<noteq> rs_venue r
         \<and> periodsOverlap (reservationPeriod q) (reservationPeriod r)
         \<and> list_ex (\<lambda>l. rl_userId l \<in> set users) (relievers_of db (rs_id q))) (dd_reservations db)"

definition reliever_guard ::
  "env \<Rightarrow> duty_actor \<Rightarrow> reservation option \<Rightarrow> nat list \<Rightarrow> string \<Rightarrow> duty_db \<Rightarrow> http_error option" where
  "reliever_guard env actor found users why db =
     (if \<not> isDutyAdmin env actor then Some (Forbidden (Duty DutyAdminRequired))
      else (case found of
          None \<Rightarrow> Some (NotFound (Meeting MeetingNotFound))
        | Some r \<Rightarrow>
            let roster = sharedRosterMembers env db
            in first_error ([
              (\<not> open_meeting r, BadRequest (Meeting RelieverStatus)),
              (rs_date r < env_today env, BadRequest (Meeting RelieverPast)),
              (length (trim why) < 3, BadRequest (Meeting RelieverReason)),
              (users = [], BadRequest (Meeting RelieverNone))]
              @ concat (map (\<lambda>n. [
                  (\<not> list_ex (\<lambda>m. rm_userId m = n) roster, BadRequest (Meeting RelieverRoster)),
                  (isOdOverrideEnabled db \<and> list_ex (\<lambda>m. rm_userId m = n \<and> odOnly m) roster,
                   BadRequest (Meeting RelieverOdOnly))]) users)
              @ [(reliever_conflict db r users, BadRequest (Meeting RelieverBusy))]
              @ (if rs_date r = env_today env
                 then concat (map (\<lambda>n. [
                   (\<not> isAttendanceEligible env db n (rs_date r) True, BadRequest (Meeting RelieverAttendance)),
                   (0 < active_tickets db n, BadRequest (Meeting RelieverTickets))]) users)
                 else []))))"

text \<open>A change of today's relievers reconciles the venue.\<close>

definition reconcile_venue :: "env \<Rightarrow> bool \<Rightarrow> reservation \<Rightarrow> duty_db \<Rightarrow> unit result \<times> duty_db" where
  "reconcile_venue env doIt r db =
     (if doIt then (case reconcileCoverage env (rs_date r) (rs_venue r) [] None db of
          (Inl e, db1) \<Rightarrow> (Inl e, db1) | (Inr _, db1) \<Rightarrow> (Inr (), db1))
      else (Inr (), db))"

definition replaceMeetingRelievers ::
  "env \<Rightarrow> duty_actor \<Rightarrow> nat \<Rightarrow> nat list \<Rightarrow> string \<Rightarrow> duty_db \<Rightarrow> unit result \<times> duty_db" where
  "replaceMeetingRelievers env actor n userIds why db =
     (let users = remdups_first (filter (\<lambda>k. 0 < k) userIds); found = find_reservation db n
      in case reliever_guard env actor found users why db of
           Some e \<Rightarrow> (Inl e, db)
         | None \<Rightarrow>
             reconcile_venue env (rs_date (the found) = env_today env) (the found)
               (db\<lparr>dd_relievers := filter (\<lambda>l. rl_reservationId l \<noteq> n) (dd_relievers db)
                  @ map (\<lambda>k. \<lparr>rl_reservationId = n, rl_userId = k, rl_reason = trim why, rl_createdById = fst actor\<rparr>) users\<rparr>))"

definition clearMeetingRelievers :: "env \<Rightarrow> duty_actor \<Rightarrow> nat \<Rightarrow> duty_db \<Rightarrow> unit result \<times> duty_db" where
  "clearMeetingRelievers env actor n db =
     (if \<not> isDutyAdmin env actor then (Inl (Forbidden (Duty DutyAdminRequired)), db)
      else (case find_reservation db n of
          None \<Rightarrow> (Inl (NotFound (Meeting MeetingNotFound)), db)
        | Some r \<Rightarrow> reconcile_venue env (rs_date r = env_today env \<and> rs_status r \<noteq> MEETING_CANCELLED) r
                     (db\<lparr>dd_relievers := filter (\<lambda>l. rl_reservationId l \<noteq> n) (dd_relievers db)\<rparr>)))"

end
