(* ===== verification/DutyFacts.thy ===== *)
theory DutyFacts
  imports DutyRequests
begin

text \<open>
  What the duty handlers keep: the slots of the coverages, the tables a reconciliation does not touch, the
  invariant of the duty tables and its preservation by every request.
\<close>

named_theorems duty_frame "what the writers of coverages leave as it was"

section \<open>Slots\<close>

definition cv_slot :: "coverage \<Rightarrow> day \<times> duty_type \<times> duty_period" where
  "cv_slot c = (cv_date c, cv_type c, cv_period c)"

definition slots :: "duty_db \<Rightarrow> (nat \<times> day \<times> duty_type \<times> duty_period) list" where
  "slots db = map (\<lambda>c. (cv_id c, cv_slot c)) (dd_coverages db)"

definition stored :: "duty_db \<Rightarrow> coverage \<Rightarrow> bool" where
  "stored db c \<longleftrightarrow> (cv_id c, cv_slot c) \<in> set (slots db)"

text \<open>A coverage has a row of its own, and each duty of a day and period one coverage.\<close>

definition slots_unique :: "duty_db \<Rightarrow> bool" where
  "slots_unique db \<longleftrightarrow> distinct (map fst (slots db)) \<and> distinct (map snd (slots db))
     \<and> (\<forall>s \<in> set (slots db). fst s < dd_nextId db)"

lemma map_save_row:
  "distinct (map key rows) \<Longrightarrow> (key r, f r) \<in> set (map (\<lambda>x. (key x, f x)) rows)
    \<Longrightarrow> map (\<lambda>x. (key x, f x)) (save_row key rows r) = map (\<lambda>x. (key x, f x)) rows"
  by (induction rows) (auto simp: image_iff)

lemma slots_save:
  assumes "slots_unique db" "stored db c"
  shows "slots (save_coverage c db) = slots db"
proof -
  have "distinct (map cv_id (dd_coverages db))" using assms(1) by (simp add: slots_unique_def slots_def comp_def)
  then show ?thesis using assms(2) map_save_row [of cv_id "dd_coverages db" c cv_slot]
    by (simp add: slots_def save_coverage_def stored_def)
qed

text \<open>The tables the coverage handlers leave alone.\<close>

definition frame :: "duty_db \<Rightarrow> duty_db \<Rightarrow> bool" where
  "frame db db' \<longleftrightarrow> dd_reservations db' = dd_reservations db \<and> dd_logs db' = dd_logs db
     \<and> dd_roster db' = dd_roster db \<and> dd_relievers db' = dd_relievers db \<and> dd_exceptions db' = dd_exceptions db
     \<and> dd_tickets db' = dd_tickets db \<and> dd_users db' = dd_users db \<and> dd_config db' = dd_config db
     \<and> dd_nextId db \<le> dd_nextId db'"

lemma frame_refl [simp]: "frame db db"
  by (simp add: frame_def)

lemma frame_trans: "frame db db1 \<Longrightarrow> frame db1 db2 \<Longrightarrow> frame db db2"
  by (simp add: frame_def)

lemma frame_update_attendance [duty_frame]: "frame db (update_attendance n d f db)" "slots (update_attendance n d f db) = slots db"
  "dd_nextId (update_attendance n d f db) = dd_nextId db" "dd_coverages (update_attendance n d f db) = dd_coverages db"
  by (auto simp: update_attendance_def frame_def slots_def split: option.split)

lemma frame_restoreAttendance [duty_frame]: "frame db (restoreAttendance c db)" "slots (restoreAttendance c db) = slots db"
  "dd_nextId (restoreAttendance c db) = dd_nextId db" "dd_coverages (restoreAttendance c db) = dd_coverages db"
  by (auto simp: restoreAttendance_def duty_frame split: option.split)

lemma frame_save_coverage [duty_frame]: "frame db (save_coverage c db)" "dd_nextId (save_coverage c db) = dd_nextId db"
  by (simp_all add: save_coverage_def frame_def)

lemma frame_writes [simp]:
  "frame db (save_coverage c db1) \<longleftrightarrow> frame db db1" "frame db (update_attendance n d f db1) \<longleftrightarrow> frame db db1"
  "frame db (restoreAttendance c db1) \<longleftrightarrow> frame db db1"
  by (auto simp: frame_def save_coverage_def update_attendance_def restoreAttendance_def split: option.split)

lemma frame_bump [simp]: "frame db db1 \<Longrightarrow> frame db (db1\<lparr>dd_nextId := Suc (dd_nextId db1)\<rparr>)"
  by (simp add: frame_def)

text \<open>A step that keeps slots, and one that may add a slot that was free.\<close>

definition same_slots :: "duty_db \<Rightarrow> duty_db \<Rightarrow> bool" where
  "same_slots db db' \<longleftrightarrow> frame db db' \<and> slots db' = slots db \<and> dd_nextId db' = dd_nextId db"

definition slots_kept :: "duty_db \<Rightarrow> duty_db \<Rightarrow> bool" where
  "slots_kept db db' \<longleftrightarrow> frame db db' \<and> (slots_unique db \<longrightarrow> slots_unique db' \<and> set (slots db) \<subseteq> set (slots db'))"

lemma same_slots_refl [simp]: "same_slots db db"
  by (simp add: same_slots_def)

lemma same_slots_trans: "same_slots db db1 \<Longrightarrow> same_slots db1 db2 \<Longrightarrow> same_slots db db2"
  using frame_trans by (auto simp: same_slots_def)

lemma same_slots_unique: "same_slots db db' \<Longrightarrow> slots_unique db \<Longrightarrow> slots_unique db'"
  by (simp add: same_slots_def slots_unique_def)

lemma same_slots_kept: "same_slots db db' \<Longrightarrow> slots_kept db db'"
  by (metis order_refl slots_kept_def same_slots_unique same_slots_def)

lemma same_slots_stored: "same_slots db db' \<Longrightarrow> stored db c \<Longrightarrow> stored db' c"
  by (simp add: same_slots_def stored_def)

lemma slots_kept_refl [simp]: "slots_kept db db"
  by (simp add: slots_kept_def)

lemma slots_kept_trans: "slots_kept db db1 \<Longrightarrow> slots_kept db1 db2 \<Longrightarrow> slots_kept db db2"
  unfolding slots_kept_def using frame_trans by blast

lemma slots_kept_stored: "slots_kept db db' \<Longrightarrow> slots_unique db \<Longrightarrow> stored db c \<Longrightarrow> stored db' c"
  by (auto simp: slots_kept_def stored_def)

lemma same_update_attendance: "same_slots db (update_attendance n d f db)"
  by (simp add: same_slots_def duty_frame)

lemma same_restoreAttendance: "same_slots db (restoreAttendance c db)"
  by (simp add: same_slots_def duty_frame)

lemma same_save_coverage: "slots_unique db \<Longrightarrow> stored db c \<Longrightarrow> same_slots db (save_coverage c db)"
  by (simp add: same_slots_def duty_frame slots_save)

lemma same_then_save:
  assumes "slots_unique db" "same_slots db db1" "stored db c"
  shows "same_slots db (save_coverage c db1)"
  using assms same_save_coverage [of db1 c] same_slots_unique same_slots_stored same_slots_trans by blast

lemma stored_update [simp]:
  "stored db (c\<lparr>cv_status := s\<rparr>) = stored db c" "stored db (c\<lparr>assignedUserId := a\<rparr>) = stored db c"
  "stored db (c\<lparr>isSubstitute := b\<rparr>) = stored db c" "stored db (c\<lparr>substitutionReason := t\<rparr>) = stored db c"
  "stored db (c\<lparr>attendanceOverridden := b\<rparr>) = stored db c" "stored db (c\<lparr>releasedAt := r\<rparr>) = stored db c"
  "stored db (c\<lparr>previousAttendanceStatus := ps\<rparr>) = stored db c" "stored db (c\<lparr>previousAttendanceNotes := t\<rparr>) = stored db c"
  by (simp_all add: stored_def cv_slot_def)

lemma stored_member: "c \<in> set (dd_coverages db) \<Longrightarrow> stored db c"
  by (auto simp: stored_def slots_def)

lemma find_slot_Some: "find_slot db d ty p = Some c \<Longrightarrow> c \<in> set (dd_coverages db) \<and> cv_slot c = (d, ty, p)"
  by (auto simp: find_slot_def cv_slot_def find_Some_iff)

lemma find_slot_None: "find_slot db d ty p = None \<Longrightarrow> c \<in> set (dd_coverages db) \<Longrightarrow> cv_slot c \<noteq> (d, ty, p)"
  by (auto simp: find_slot_def cv_slot_def find_None_iff)

section \<open>Reconciliation\<close>

lemma same_relieved: "slots_unique db \<Longrightarrow> (\<And>c. cur = Some c \<Longrightarrow> stored db c) \<Longrightarrow> same_slots db (relieved cur db)"
  by (auto simp: relieved_def same_then_save same_restoreAttendance split: option.split)

lemma same_yield:
  assumes "slots_unique db" "stored db c" "yield_to_prior prior d c db = (c1, db1)"
  shows "same_slots db db1 \<and> stored db1 c1"
proof -
  have "same_slots db (save_coverage (c\<lparr>cv_status := COVERAGE_CANCELLED, assignedUserId := None, attendanceOverridden := False\<rparr>)
      (if attendanceOverridden c then update_attendance n d f db else db))" (is "same_slots db (?db n f)") for n f
    using assms(1,2) by (intro same_then_save) (simp_all add: same_update_attendance)
  then have "same_slots db (?db n f) \<and> stored (?db n f) c" for n f
    using assms(2) same_slots_stored by blast
  then show ?thesis
    using assms by (auto simp: yield_to_prior_def Let_def split: option.splits)
qed

lemma same_drop:
  assumes "slots_unique db" "stored db c" "drop_ineligible env d c db = (r, db1)"
  shows "same_slots db db1 \<and> (\<forall>c1. r = Some c1 \<longrightarrow> c1 = c)"
  using assms by (auto simp: drop_ineligible_def same_then_save same_restoreAttendance split: option.splits if_splits)

lemma same_return:
  assumes "slots_unique db" "stored db c" "return_substitute c db = (c1, db1)"
  shows "same_slots db db1 \<and> stored db1 c1"
proof -
  have "same_slots db (save_coverage (c\<lparr>assignedUserId := None, isSubstitute := False, substitutionReason := None,
      attendanceOverridden := False, cv_status := INTERVENTION_REQUIRED\<rparr>) (restoreAttendance c db))" (is "same_slots db ?db")
    using assms(1,2) by (intro same_then_save) (simp_all add: same_restoreAttendance)
  then have "same_slots db ?db \<and> stored ?db c" using assms(2) same_slots_stored by blast
  then show ?thesis
    using assms by (auto simp: return_substitute_def Let_def split: if_splits)
qed

lemma same_keep_current:
  assumes "slots_unique db" "stored db c" "keep_current env d prior c db = (r, db1)"
  shows "same_slots db db1 \<and> (\<forall>c1. r = Some c1 \<longrightarrow> stored db1 c1)"
proof -
  obtain c1 d1 where y: "yield_to_prior prior d c db = (c1, d1)" by fastforce
  note s1 = same_yield [OF assms(1,2) y]
  have u1: "slots_unique d1" using s1 assms(1) same_slots_unique by blast
  obtain r2 d2 where dr: "drop_ineligible env d c1 d1 = (r2, d2)" by fastforce
  note s2 = same_drop [OF u1 _ dr]
  have s12: "same_slots db d2" using s1 s2 same_slots_trans by blast
  show ?thesis
  proof (cases r2)
    case None
    then show ?thesis using assms(3) s12 by (simp add: keep_current_def y dr)
  next
    case (Some c2)
    have u2: "slots_unique d2" using s12 assms(1) same_slots_unique by blast
    have st2: "stored d2 c2" using Some s1 s2 same_slots_stored by blast
    obtain c3 d3 where re: "return_substitute c2 d2 = (c3, d3)" by fastforce
    from same_return [OF u2 st2 re] s12 same_slots_trans have "same_slots db d3 \<and> stored d3 c3" by blast
    then show ?thesis using assms(3) Some by (auto simp: keep_current_def y dr re)
  qed
qed

lemma unique_insert:
  assumes "slots_unique db" "find_slot db d ty p = None"
  shows "slots_unique (save_coverage (pending_coverage (dd_nextId db) d ty p m u) (db\<lparr>dd_nextId := dd_nextId db + 1\<rparr>))
    \<and> set (slots db) \<subseteq> set (slots (save_coverage (pending_coverage (dd_nextId db) d ty p m u)
        (db\<lparr>dd_nextId := dd_nextId db + 1\<rparr>)))"
proof -
  have new: "dd_nextId db \<notin> cv_id ` set (dd_coverages db)" using assms(1) by (auto simp: slots_unique_def slots_def)
  have ins: "key r \<notin> key ` set rows \<Longrightarrow> save_row key rows r = rows @ [r]" for key :: "coverage \<Rightarrow> nat" and r rows
    by (induction rows) auto
  have "slots (save_coverage (pending_coverage (dd_nextId db) d ty p m u) (db\<lparr>dd_nextId := dd_nextId db + 1\<rparr>))
      = slots db @ [(dd_nextId db, d, ty, p)]"
    using ins [of cv_id "pending_coverage (dd_nextId db) d ty p m u" "dd_coverages db"] new
    by (simp add: slots_def save_coverage_def pending_coverage_def cv_slot_def)
  then show ?thesis
    using assms(1) find_slot_None [OF assms(2)] new
    by (fastforce simp: slots_unique_def save_coverage_def slots_def)
qed

lemma stored_pending:
  "stored db c \<Longrightarrow> cv_slot c = (d, ty, p) \<Longrightarrow> stored db (pending_coverage (cv_id c) d ty p m u)"
  by (simp add: stored_def pending_coverage_def cv_slot_def)

lemma propose_kept:
  assumes "\<And>c. cur = Some c \<Longrightarrow> slots_unique db \<Longrightarrow> stored db c \<and> cv_slot c = (d, ty, p)"
    "propose env d ty p taken meeting cur db = (r, db1)"
  shows "slots_kept db db1"
proof -
  have k: "slots_kept db (save_coverage x db)" if "slots_unique db \<Longrightarrow> stored db x" for x
    using that same_slots_kept [OF same_save_coverage [of db x]] by (cases "slots_unique db") (auto simp: slots_kept_def)
  have n: "slots_kept db (save_coverage (pending_coverage (dd_nextId db) d ty p m u) (db\<lparr>dd_nextId := dd_nextId db + 1\<rparr>))"
    if "find_slot db d ty p = None" for m u
    using that unique_insert by (auto simp: slots_kept_def)
  show ?thesis
    using assms n by (auto simp: propose_def Let_def intro!: k stored_pending split: list.splits option.splits if_splits)
qed

lemma slot_keep_current:
  assumes "keep_current env d prior c db = (Some c1, db1)"
  shows "cv_slot c1 = cv_slot c"
  using assms by (auto simp: keep_current_def yield_to_prior_def drop_ineligible_def return_substitute_def Let_def cv_slot_def
      split: option.splits if_splits prod.splits)

lemma frame_keep_current: "keep_current env d prior c db = (r, db1) \<Longrightarrow> frame db db1"
  by (auto simp: keep_current_def yield_to_prior_def drop_ineligible_def return_substitute_def Let_def
      split: option.splits if_splits prod.splits)

lemma keep_current_kept:
  assumes "c \<in> set (dd_coverages db)" "keep_current env d prior c db = (r, db1)"
  shows "slots_kept db db1"
  using same_slots_kept [OF conjunct1 [OF same_keep_current [OF _ stored_member [OF assms(1)] assms(2)]]]
    frame_keep_current [OF assms(2)]
  by (cases "slots_unique db") (auto simp: slots_kept_def)

lemma relieved_kept:
  assumes "\<And>c. cur = Some c \<Longrightarrow> c \<in> set (dd_coverages db)"
  shows "slots_kept db (relieved cur db)"
proof -
  have "frame db (relieved cur db)"
    by (auto simp: relieved_def split: option.split)
  then show ?thesis
    using same_slots_kept [OF same_relieved [of db cur]] assms stored_member
    by (cases "slots_unique db") (auto simp: slots_kept_def)
qed

lemma reconcile_period_kept:
  assumes "reconcile_period env d ty excl p meetings db = (r, db1)"
  shows "slots_kept db db1"
proof (cases "list_ex (\<lambda>r. relievers_of db (rs_id r) \<noteq> []) meetings")
  case True
  then show ?thesis
    using assms relieved_kept [of "find_slot db d ty p" db] by (auto simp: reconcile_period_def Let_def dest: find_slot_Some)
next
  case False
  show ?thesis
  proof (cases "find_slot db d ty p")
    case None
    then show ?thesis using assms False by (auto simp: reconcile_period_def Let_def intro: propose_kept [of None])
  next
    case (Some c)
    have mem: "c \<in> set (dd_coverages db)" "cv_slot c = (d, ty, p)" using find_slot_Some [OF Some] by auto
    obtain k db2 where kc: "keep_current env d (prior_coverages db d ty p) c db = (k, db2)" by fastforce
    note k1 = keep_current_kept [OF mem(1) kc]
    show ?thesis
    proof (cases k)
      case None
      obtain r' where "propose env d ty p (List.map_filter coverageCandidateUserId (prior_coverages db d ty p) @ excl)
          (case meetings of [] \<Rightarrow> None | r # _ \<Rightarrow> Some (rs_id r)) None db2 = (r', db1)"
        using assms False Some kc None by (auto simp: reconcile_period_def Let_def)
      from propose_kept [OF _ this] k1 slots_kept_trans show ?thesis by blast
    next
      case c1: (Some c1)
      have sl: "cv_slot c1 = (d, ty, p)" using slot_keep_current kc c1 mem(2) by metis
      show ?thesis
      proof (cases "cv_status c1 = COVERAGE_ACTIVE")
        case True
        then show ?thesis using assms False Some kc c1 k1 by (auto simp: reconcile_period_def Let_def)
      next
        case nact: False
        obtain r' where pr: "propose env d ty p (List.map_filter coverageCandidateUserId (prior_coverages db d ty p) @ excl)
            (case meetings of [] \<Rightarrow> None | r # _ \<Rightarrow> Some (rs_id r)) (Some c1) db2 = (r', db1)"
          using assms False Some kc c1 nact by (auto simp: reconcile_period_def Let_def)
        show ?thesis
        proof (cases "slots_unique db")
          case True
          from same_keep_current [OF True stored_member [OF mem(1)] kc] c1 have "stored db2 c1" by blast
          with propose_kept [OF _ pr] sl k1 slots_kept_trans show ?thesis by blast
        next
          case nu: False
          have "frame db2 db1" using pr
            by (auto simp: propose_def Let_def split: list.splits option.splits if_splits)
          with k1 frame_trans nu show ?thesis by (auto simp: slots_kept_def)
        qed
      qed
    qed
  qed
qed

lemma reconcileCoverage_kept: "reconcileCoverage env d ty excl requested db = (r, db1) \<Longrightarrow> slots_kept db db1"
  by (auto simp: reconcileCoverage_def Let_def intro: reconcile_period_kept split: if_splits option.splits)

lemma reconcile_types_kept: "reconcile_types env d tys db = (r, db1) \<Longrightarrow> slots_kept db db1"
proof (induction tys arbitrary: db)
  case (Cons ty tys)
  then show ?case
    by (auto split: prod.splits sum.splits dest!: reconcileCoverage_kept intro: slots_kept_trans)
qed simp

lemma orphaned_kept: "slots_kept db (restoreOrphanedDutyAttendance d db)"
  by (rule same_slots_kept) (simp add: same_slots_def frame_def slots_def restoreOrphanedDutyAttendance_def)

lemma reconcileToday_kept: "reconcileToday env db = (r, db1) \<Longrightarrow> slots_kept db db1"
  using slots_kept_trans [OF orphaned_kept reconcile_types_kept]
  by (auto simp: reconcileToday_def simp del: reconcile_types.simps split: if_splits)

lemma then_reconcile_kept: "slots_kept db (snd (then_reconcile env b x db))"
  by (auto simp: then_reconcile_def dest: reconcileToday_kept split: prod.split sum.split)

lemma reconcile_venue_kept: "slots_kept db (snd (reconcile_venue env b r db))"
  by (auto simp: reconcile_venue_def dest: reconcileCoverage_kept split: prod.split sum.split)

lemma prepare_next_kept: "slots_kept db (snd (prepare_next env d ty db))"
  by (auto simp: prepare_next_def dest: reconcileCoverage_kept split: option.split prod.split sum.split)

end
