(* ===== verification/DutyInvariant.thy ===== *)
theory DutyInvariant
  imports DutyFacts
begin

text \<open>
  The invariant of the duty tables over all requests and routines: one coverage per duty, day and period;
  meetings of a venue never overlap; duties rendered are logged once.
\<close>

section \<open>Meetings\<close>

definition meeting_slot :: "reservation \<Rightarrow> duty_period result" where
  "meeting_slot r = meetingSlot (rs_start r) (rs_end r)"

definition clash :: "reservation \<Rightarrow> reservation \<Rightarrow> bool" where
  "clash r q \<longleftrightarrow> rs_id r \<noteq> rs_id q \<and> rs_date r = rs_date q \<and> rs_venue r = rs_venue q
     \<and> rs_status r \<noteq> MEETING_CANCELLED \<and> rs_status q \<noteq> MEETING_CANCELLED
     \<and> periodsOverlap (reservationPeriod r) (reservationPeriod q)"

definition meetings_ok :: "duty_db \<Rightarrow> bool" where
  "meetings_ok db \<longleftrightarrow> distinct (map rs_id (dd_reservations db)) \<and> (\<forall>r \<in> set (dd_reservations db). rs_id r < dd_nextId db)
     \<and> slots_ok db \<and> (\<forall>r \<in> set (dd_reservations db). \<forall>q \<in> set (dd_reservations db). \<not> clash r q)"

lemma clash_sym: "clash r q = clash q r"
  by (auto simp: clash_def periodsOverlap_def)

lemma set_save_row_distinct:
  "distinct (map key rows) \<Longrightarrow> set (save_row key rows r) = insert r {x \<in> set rows. key x \<noteq> key r}"
  by (induction rows) (auto simp: image_iff)

text \<open>A write of a meeting that clashes with none of the others.\<close>

lemma meetings_save:
  assumes "meetings_ok db" "rs_id r < n" "dd_nextId db \<le> n" "\<exists>p. meeting_slot r = Inr p"
    "\<forall>q \<in> set (dd_reservations db). \<not> clash r q"
  shows "meetings_ok (db\<lparr>dd_nextId := n, dd_reservations := save_row rs_id (dd_reservations db) r\<rparr>)"
proof -
  have d: "distinct (map rs_id (dd_reservations db))" using assms(1) by (simp add: meetings_ok_def)
  have s: "set (save_row rs_id (dd_reservations db) r) = insert r {x \<in> set (dd_reservations db). rs_id x \<noteq> rs_id r}"
    by (rule set_save_row_distinct [OF d])
  have "\<not> clash r r" by (simp add: clash_def)
  moreover have "distinct (map rs_id (save_row rs_id (dd_reservations db) r))"
    using table_ok_save_row d by (simp add: table_ok_def)
  ultimately show ?thesis
    using assms by (auto simp: meetings_ok_def slots_ok_def s clash_sym meeting_slot_def)
qed

lemma meetings_status:
  assumes "meetings_ok db" "r \<in> set (dd_reservations db)" "rs_status r \<noteq> MEETING_CANCELLED \<or> s = MEETING_CANCELLED"
    "r' = r\<lparr>rs_status := s, rs_purpose := t\<rparr>"
  shows "meetings_ok (save_reservation r' db)"
proof -
  have "\<not> clash r q" if "q \<in> set (dd_reservations db)" for q using assms(1,2) that by (auto simp: meetings_ok_def)
  then have "\<not> clash r' q" if "q \<in> set (dd_reservations db)" for q
    using that assms(3) unfolding assms(4) by (auto simp: clash_def reservationPeriod_def)
  then have "meetings_ok (db\<lparr>dd_nextId := dd_nextId db, dd_reservations := save_row rs_id (dd_reservations db) r'\<rparr>)"
    using assms by (intro meetings_save) (auto simp: meetings_ok_def slots_ok_def meeting_slot_def)
  then show ?thesis by (simp add: save_reservation_def)
qed

lemma find_reservation_Some: "find_reservation db n = Some r \<Longrightarrow> r \<in> set (dd_reservations db) \<and> rs_id r = n"
  unfolding find_reservation_def by (rule find_row_Some)

lemma meetings_complete: "meetings_ok db \<Longrightarrow> meetings_ok (complete_meeting n db)"
proof -
  assume ok: "meetings_ok db"
  have "meetings_ok (save_reservation (r\<lparr>rs_status := MEETING_COMPLETED\<rparr>) db)"
    if "find_reservation db k = Some r" "rs_status r \<noteq> MEETING_CANCELLED" for k r
    using meetings_status [OF ok _ _ refl, of r MEETING_COMPLETED "rs_purpose r"] find_reservation_Some [OF that(1)] that(2) by simp
  with ok show ?thesis by (auto simp: complete_meeting_def split: option.split)
qed

text \<open>Handlers that leave the meetings alone.\<close>

definition same_meetings :: "duty_db \<Rightarrow> duty_db \<Rightarrow> bool" where
  "same_meetings db db' \<longleftrightarrow> dd_reservations db' = dd_reservations db \<and> dd_nextId db \<le> dd_nextId db'"

lemma same_meetings_ok: "same_meetings db db' \<Longrightarrow> meetings_ok db \<Longrightarrow> meetings_ok db'"
  by (auto simp: same_meetings_def meetings_ok_def slots_ok_def intro: order_less_le_trans)

lemma frame_same_meetings: "frame db db' \<Longrightarrow> same_meetings db db'"
  by (simp add: frame_def same_meetings_def)

section \<open>Logs\<close>

definition log_key :: "duty_log \<Rightarrow> (nat \<times> nat) option" where
  "log_key l = (case dl_coverageId l of Some c \<Rightarrow> Some (c, dl_userId l) | None \<Rightarrow> None)"

definition reliever_key :: "duty_log \<Rightarrow> (nat \<times> nat) option" where
  "reliever_key l = (if dl_source l = MANAGEMENT_OVERRIDE
     then (case dl_reservationId l of Some r \<Rightarrow> Some (r, dl_userId l) | None \<Rightarrow> None) else None)"

definition once :: "('a \<Rightarrow> 'k option) \<Rightarrow> 'a list \<Rightarrow> bool" where
  "once key xs \<longleftrightarrow> distinct (List.map_filter key xs)"

definition logs_ok :: "duty_db \<Rightarrow> bool" where
  "logs_ok db \<longleftrightarrow> distinct (map dl_id (dd_logs db)) \<and> (\<forall>l \<in> set (dd_logs db). dl_id l < dd_nextId db)
     \<and> once log_key (dd_logs db) \<and> once reliever_key (dd_logs db)"

lemma in_map_filter: "k \<in> set (List.map_filter key xs) \<longleftrightarrow> (\<exists>x \<in> set xs. key x = Some k)"
  by (induction xs) (auto simp: List.map_filter_simps split: option.splits)

lemma map_filter_append: "List.map_filter key (xs @ ys) = List.map_filter key xs @ List.map_filter key ys"
  by (induction xs) (auto simp: List.map_filter_simps split: option.splits)

lemma once_append: "once key xs \<Longrightarrow> (\<And>k. key x = Some k \<Longrightarrow> \<forall>y \<in> set xs. key y \<noteq> Some k) \<Longrightarrow> once key (xs @ [x])"
  by (auto simp: once_def map_filter_append List.map_filter_simps in_map_filter split: option.split)

lemma once_filter: "once key xs \<Longrightarrow> once key (filter P xs)"
proof (induction xs)
  case (Cons x xs)
  then show ?case by (auto simp: once_def List.map_filter_simps in_map_filter split: option.splits)
qed simp

lemma once_save_row:
  assumes "once key rows" "key r = None" "\<And>x. x \<in> set rows \<Longrightarrow> i x = i r \<Longrightarrow> key x = None"
  shows "once key (save_row i rows r)"
proof -
  have "List.map_filter key (save_row i rows r) = List.map_filter key rows"
    using assms(2,3) by (induction rows) (auto simp: List.map_filter_simps split: option.split)
  with assms(1) show ?thesis by (simp add: once_def)
qed

lemma logs_append:
  assumes "logs_ok db" "\<And>k. log_key l = Some k \<Longrightarrow> \<forall>x \<in> set (dd_logs db). log_key x \<noteq> Some k"
    "\<And>k. reliever_key l = Some k \<Longrightarrow> \<forall>x \<in> set (dd_logs db). reliever_key x \<noteq> Some k"
  shows "logs_ok (append_log l db)"
proof -
  have "log_key (l\<lparr>dl_id := n\<rparr>) = log_key l" "reliever_key (l\<lparr>dl_id := n\<rparr>) = reliever_key l" for n
    by (simp_all add: log_key_def reliever_key_def split: option.split)
  then show ?thesis
    using assms by (auto simp: logs_ok_def append_log_def less_Suc_eq intro!: once_append)
qed

lemma logs_record_coverage: "logs_ok db \<Longrightarrow> logs_ok (recordCompletedCoverage c db)"
  by (auto simp: recordCompletedCoverage_def log_key_def reliever_key_def list_ex_iff split: option.splits intro!: logs_append)

lemma logs_record_reliever: "logs_ok db \<Longrightarrow> logs_ok (record_reliever r t by l db)"
  by (auto simp: record_reliever_def log_key_def reliever_key_def list_ex_iff split: option.splits if_splits intro!: logs_append)

lemma fold_keeps: "(\<And>x s. P s \<Longrightarrow> P (f x s)) \<Longrightarrow> P s \<Longrightarrow> P (fold f xs s)"
  by (induction xs arbitrary: s) auto

definition same_logs :: "duty_db \<Rightarrow> duty_db \<Rightarrow> bool" where
  "same_logs db db' \<longleftrightarrow> dd_logs db' = dd_logs db \<and> dd_nextId db \<le> dd_nextId db'"

lemma same_logs_ok: "same_logs db db' \<Longrightarrow> logs_ok db \<Longrightarrow> logs_ok db'"
  by (auto simp: same_logs_def logs_ok_def intro: order_less_le_trans)

lemma frame_same_logs: "frame db db' \<Longrightarrow> same_logs db db'"
  by (simp add: frame_def same_logs_def)

section \<open>The invariant\<close>

definition duty_ok :: "duty_db \<Rightarrow> bool" where
  "duty_ok db \<longleftrightarrow> slots_unique db \<and> meetings_ok db \<and> logs_ok db"

lemma slots_kept_ok: "slots_kept db db' \<Longrightarrow> duty_ok db \<Longrightarrow> duty_ok db'"
  by (auto simp: duty_ok_def slots_kept_def intro: same_meetings_ok same_logs_ok frame_same_meetings frame_same_logs)

definition same_coverages :: "duty_db \<Rightarrow> duty_db \<Rightarrow> bool" where
  "same_coverages db db' \<longleftrightarrow> dd_coverages db' = dd_coverages db \<and> dd_nextId db \<le> dd_nextId db'"

lemma same_coverages_unique: "same_coverages db db' \<Longrightarrow> slots_unique db \<Longrightarrow> slots_unique db'"
  by (auto simp: same_coverages_def slots_unique_def slots_def intro: order_less_le_trans)

lemma edited_ok:
  assumes "duty_ok db" "same_coverages db db'"
    "meetings_ok db \<Longrightarrow> meetings_ok db'" "logs_ok db \<Longrightarrow> logs_ok db'"
  shows "duty_ok db'"
  using assms same_coverages_unique by (auto simp: duty_ok_def)

lemma quiet_edit_ok: "duty_ok db \<Longrightarrow> same_coverages db db' \<Longrightarrow> same_meetings db db' \<Longrightarrow> same_logs db db' \<Longrightarrow> duty_ok db'"
  by (auto intro: edited_ok same_meetings_ok same_logs_ok)

lemma meetings_edit_ok:
  "duty_ok db \<Longrightarrow> same_coverages db db' \<Longrightarrow> same_logs db db' \<Longrightarrow> (meetings_ok db \<Longrightarrow> meetings_ok db') \<Longrightarrow> duty_ok db'"
  by (auto intro: edited_ok same_logs_ok)

lemma logs_edit_ok:
  "duty_ok db \<Longrightarrow> same_coverages db db' \<Longrightarrow> same_meetings db db' \<Longrightarrow> (logs_ok db \<Longrightarrow> logs_ok db') \<Longrightarrow> duty_ok db'"
  by (auto intro: edited_ok same_meetings_ok)

lemmas same_defs = same_coverages_def same_meetings_def same_logs_def

lemma save_coverage_ok:
  assumes "duty_ok db" "stored db c"
  shows "duty_ok (save_coverage c db)"
proof -
  have "slots_unique db" using assms(1) by (simp add: duty_ok_def)
  from slots_kept_ok [OF same_slots_kept [OF same_save_coverage [OF this assms(2)]] assms(1)] show ?thesis .
qed

lemma restoreAttendance_ok: "duty_ok db \<Longrightarrow> duty_ok (restoreAttendance c db)"
  using slots_kept_ok same_slots_kept same_restoreAttendance by blast

lemma update_attendance_ok: "duty_ok db \<Longrightarrow> duty_ok (update_attendance n d f db)"
  using slots_kept_ok same_slots_kept same_update_attendance by blast

lemma coverages_writes [simp]:
  "dd_coverages (update_attendance n d f db) = dd_coverages db" "dd_coverages (restoreAttendance c db) = dd_coverages db"
  "dd_coverages (recordCompletedCoverage c db) = dd_coverages db" "dd_coverages (record_reliever r t by l db) = dd_coverages db"
  "dd_coverages (append_log g db) = dd_coverages db" "dd_coverages (save_reservation r db) = dd_coverages db"
  "dd_coverages (complete_meeting k db) = dd_coverages db"
  by (simp_all add: duty_frame recordCompletedCoverage_def record_reliever_def append_log_def save_reservation_def
      complete_meeting_def split: option.split)

lemma stored_writes [simp]:
  "stored (update_attendance n d f db) c = stored db c" "stored (restoreAttendance q db) c = stored db c"
  "stored (recordCompletedCoverage q db) c = stored db c" "stored (complete_meeting k db) c = stored db c"
  by (simp_all add: stored_def slots_def)

lemma same_record:
  "same_coverages db (recordCompletedCoverage c db)" "same_meetings db (recordCompletedCoverage c db)"
  "same_coverages db (record_reliever r t by l db)" "same_meetings db (record_reliever r t by l db)"
  "same_coverages db (complete_meeting k db)" "same_logs db (complete_meeting k db)"
  by (auto simp: same_defs recordCompletedCoverage_def record_reliever_def append_log_def complete_meeting_def
      save_reservation_def split: option.split)

lemma record_ok: "duty_ok db \<Longrightarrow> duty_ok (recordCompletedCoverage c db)"
  by (erule edited_ok [OF _ same_record(1)]) (simp_all add: same_meetings_ok [OF same_record(2)] logs_record_coverage)

lemma record_reliever_ok: "duty_ok db \<Longrightarrow> duty_ok (record_reliever r t by l db)"
  by (erule edited_ok [OF _ same_record(3)]) (simp_all add: same_meetings_ok [OF same_record(4)] logs_record_reliever)

lemma complete_ok: "duty_ok db \<Longrightarrow> duty_ok (complete_meeting k db)"
  by (erule edited_ok [OF _ same_record(5)]) (simp_all add: same_logs_ok [OF same_record(6)] meetings_complete)

section \<open>The handlers\<close>

lemma kept_ok: "duty_ok db \<Longrightarrow> slots_kept db (snd p) \<Longrightarrow> p = (r, db') \<Longrightarrow> duty_ok db'"
  using slots_kept_ok by auto

lemma find_coverage_stored: "find_coverage db n = Some c \<Longrightarrow> stored db c"
  unfolding find_coverage_def by (rule stored_member) (auto dest: find_row_Some)

lemma prepare_next_ok: "duty_ok db \<Longrightarrow> duty_ok (snd (prepare_next env d ty db))"
  by (rule slots_kept_ok [OF prepare_next_kept])

lemma then_reconcile_ok: "duty_ok db \<Longrightarrow> duty_ok (snd (then_reconcile env b x db))"
  by (rule slots_kept_ok [OF then_reconcile_kept])

lemma reconcile_venue_ok: "duty_ok db \<Longrightarrow> duty_ok (snd (reconcile_venue env b r db))"
  by (rule slots_kept_ok [OF reconcile_venue_kept])

lemma activateCoverage_ok: "duty_ok db \<Longrightarrow> duty_ok (snd (activateCoverage env actor n user db))"
proof -
  assume ok: "duty_ok db"
  have "duty_ok (save_coverage (activated c user a) (update_attendance user d f db))" if "find_coverage db n = Some c" for c a d f
    by (intro save_coverage_ok update_attendance_ok ok) (simp add: activated_def find_coverage_stored [OF that])
  moreover have "\<exists>c. find_coverage db n = Some c" if "activation_guard env actor (find_coverage db n) user db = None"
    using that by (auto simp: activation_guard_def split: option.splits if_splits)
  ultimately show ?thesis using ok by (auto simp: activateCoverage_def Let_def split: option.split)
qed

lemma release_meeting_ok:
  assumes "duty_ok db" "stored db c"
  shows "duty_ok (snd (release_meeting env c db))"
  unfolding release_meeting_def Let_def
  by (intro prepare_next_ok complete_ok save_coverage_ok restoreAttendance_ok record_ok assms(1)) (simp add: assms(2))

lemma stored_save: "slots_unique db \<Longrightarrow> stored db q \<Longrightarrow> stored db c \<Longrightarrow> stored (save_coverage q db) c"
  using same_slots_stored [OF same_save_coverage] by blast

lemma keep_officer_ok: "duty_ok db \<Longrightarrow> stored db c \<Longrightarrow> duty_ok (keep_officer c db)"
  unfolding keep_officer_def
  by (rule save_coverage_ok) (auto simp: update_attendance_ok split: option.split)

lemma release_officer_ok:
  assumes "duty_ok db" "stored db c"
  shows "duty_ok (snd (release_officer env c db))"
proof -
  let ?db1 = "save_coverage (c\<lparr>cv_status := COVERAGE_RELEASED, releasedAt := Some (env_now env)\<rparr>) (restoreAttendance c db)"
  have ok1: "duty_ok ?db1" by (intro save_coverage_ok restoreAttendance_ok assms(1)) (simp add: assms(2))
  have "duty_ok (restoreAttendance c db)" by (rule restoreAttendance_ok [OF assms(1)])
  then have st1: "stored ?db1 c" by (intro stored_save) (simp_all add: duty_ok_def assms(2))
  have u1: "slots_unique ?db1" using ok1 by (simp add: duty_ok_def)
  have "duty_ok db2 \<and> stored db2 c" if "reconcileCoverage env d ty ex None ?db1 = (r, db2)" for d ty ex r db2
    using slots_kept_ok [OF reconcileCoverage_kept [OF that] ok1] slots_kept_stored [OF reconcileCoverage_kept [OF that] u1 st1] by blast
  then show ?thesis
    using assms(1) by (auto simp: release_officer_def Let_def keep_officer_ok record_ok
        split: prod.split sum.split option.split http_error.split)
qed

lemma releaseCoverage_ok: "duty_ok db \<Longrightarrow> duty_ok (snd (releaseCoverage env actor n db))"
  by (auto simp: releaseCoverage_def find_coverage_stored release_meeting_ok release_officer_ok split: option.split)

lemma save_status_ok:
  assumes "duty_ok db" "r \<in> set (dd_reservations db)" "rs_status r \<noteq> MEETING_CANCELLED \<or> s = MEETING_CANCELLED"
  shows "duty_ok (save_reservation (r\<lparr>rs_status := s, rs_purpose := t\<rparr>) db)"
  using assms meetings_status [OF _ assms(2,3) refl]
  by (intro meetings_edit_ok [OF assms(1)]) (simp_all add: same_defs save_reservation_def)

lemma reservations_record [simp]:
  "dd_reservations (record_reliever r t by l db) = dd_reservations db"
  by (simp add: record_reliever_def append_log_def)

lemma completeReservation_ok:
  assumes "duty_ok db"
  shows "duty_ok (snd (completeReservation env actor n db))"
proof -
  have f: "duty_ok (fold (record_reliever r who t) ls db) \<and> dd_reservations (fold (record_reliever r who t) ls db) = dd_reservations db" for r who t ls
    by (rule fold_keeps) (auto simp: record_reliever_ok assms)
  have "duty_ok (save_reservation (r\<lparr>rs_status := MEETING_COMPLETED\<rparr>) (fold (record_reliever r who t) ls db))"
    if "find_reservation db n = Some r" "rs_status r \<noteq> MEETING_CANCELLED" for r who t ls
    using save_status_ok [of "fold (record_reliever r who t) ls db" r MEETING_COMPLETED "rs_purpose r"] f
      find_reservation_Some [OF that(1)] that(2) by simp
  moreover have "\<exists>r. find_reservation db n = Some r \<and> rs_status r \<noteq> MEETING_CANCELLED"
    if "completion_guard env actor (find_reservation db n) db = None"
    using that by (auto simp: completion_guard_def split: option.splits if_splits)
  ultimately show ?thesis
    using assms by (auto simp: completeReservation_def Let_def prepare_next_ok split: option.split)
qed

lemma finalize_reliever_ok: "duty_ok db \<Longrightarrow> duty_ok (finalize_reliever env ms l db)"
  by (auto simp: finalize_reliever_def record_reliever_ok split: option.split)

lemma finalize_coverage_ok:
  assumes "duty_ok db \<and> set (slots db) = S" "(cv_id c, cv_slot c) \<in> S"
  shows "duty_ok (finalize_coverage c db) \<and> set (slots (finalize_coverage c db)) = S"
proof -
  have st: "stored db c" using assms by (simp add: stored_def)
  let ?db1 = "complete_meeting (cv_reservationId c)
    (save_coverage (c\<lparr>cv_status := COVERAGE_COMPLETED\<rparr>) (recordCompletedCoverage c db))"
  have r: "duty_ok (recordCompletedCoverage c db)" by (rule record_ok) (simp add: assms)
  have ok: "duty_ok ?db1" by (intro complete_ok save_coverage_ok r) (simp add: st)
  have "slots (save_coverage (c\<lparr>cv_status := COVERAGE_COMPLETED\<rparr>) (recordCompletedCoverage c db)) = slots (recordCompletedCoverage c db)"
    using r st by (intro slots_save) (simp_all add: duty_ok_def)
  then have "slots ?db1 = slots db" by (simp add: slots_def)
  with ok assms(1) show ?thesis
    by (auto simp: finalize_coverage_def Let_def restoreAttendance_ok duty_frame)
qed

lemma finalizeToday_ok: "duty_ok db \<Longrightarrow> duty_ok (finalizeToday env db)"
proof -
  assume ok: "duty_ok db"
  define db1 where "db1 = fold (finalize_reliever env (active_meetings db (env_today env) True))
    (meeting_relievers db (env_today env) True) db"
  have ok1: "duty_ok db1" unfolding db1_def by (rule fold_keeps) (auto simp: finalize_reliever_ok ok)
  have "duty_ok (fold finalize_coverage cs d) \<and> set (slots (fold finalize_coverage cs d)) = set (slots db1)"
    if "\<forall>c \<in> set cs. (cv_id c, cv_slot c) \<in> set (slots db1)" "duty_ok d \<and> set (slots d) = set (slots db1)" for cs d
    using that
  proof (induction cs arbitrary: d)
    case (Cons c cs)
    have "duty_ok (finalize_coverage c d) \<and> set (slots (finalize_coverage c d)) = set (slots db1)"
      by (rule finalize_coverage_ok) (use Cons.prems in auto)
    with Cons show ?case by simp
  qed simp
  then have "duty_ok (fold finalize_coverage (filter P (dd_coverages db1)) db1)" for P
    using ok1 by (auto simp: slots_def)
  then show ?thesis using ok by (simp add: finalizeToday_def Let_def db1_def [symmetric])
qed

end
