(* ===== verification/DutySystem.thy ===== *)
theory DutySystem
  imports DutyInvariant
begin

text \<open>The requests of the duty service as a transition system, and its invariant.\<close>

section \<open>Requests that edit tables\<close>

lemma fresh_if_same: "same_coverages db (fresh_if f db)" "same_meetings db (fresh_if f db)" "same_logs db (fresh_if f db)"
  by (simp_all add: same_defs fresh_if_def split: option.split)

lemma target_row_Some: "target_row key rows t = Some r \<Longrightarrow> r \<in> set rows"
  by (auto simp: target_row_def dest: find_row_Some split: option.splits)

lemma saved_log_keys:
  assumes "\<And>r. found = Some r \<Longrightarrow> isManualLog r"
  shows "log_key (saved_log actor dto found n) = None" "reliever_key (saved_log actor dto found n) = None"
  using assms by (auto simp: saved_log_def log_key_def reliever_key_def isManualLog_def split: option.split)

lemma logs_save:
  assumes ok: "logs_ok db" and found: "found = target_row dl_id (dd_logs db) t" and man: "\<And>r. found = Some r \<Longrightarrow> isManualLog r"
  shows "logs_ok ((fresh_if found db)\<lparr>dd_logs := save_row dl_id (dd_logs db) (saved_log actor dto found (dd_nextId db))\<rparr>)"
proof -
  let ?row = "saved_log actor dto found (dd_nextId db)"
  have d: "distinct (map dl_id (dd_logs db))" and b: "\<forall>l \<in> set (dd_logs db). dl_id l < dd_nextId db"
    using ok by (simp_all add: logs_ok_def)
  have k: "log_key x = None \<and> reliever_key x = None" if "x \<in> set (dd_logs db)" "dl_id x = dl_id ?row" for x
  proof (cases found)
    case None
    with that b show ?thesis by (auto simp: saved_log_def)
  next
    case (Some r)
    then have "r \<in> set (dd_logs db)" using found by (auto dest: target_row_Some)
    with that d Some have "x = r" by (auto simp: saved_log_def distinct_map inj_on_def)
    with man [OF Some] show ?thesis by (simp add: isManualLog_def log_key_def reliever_key_def)
  qed
  have id: "dl_id ?row < dd_nextId (fresh_if found db)"
    using b found target_row_Some [of dl_id "dd_logs db" t] by (auto simp: saved_log_def fresh_if_def split: option.split)
  have "dd_nextId db \<le> dd_nextId (fresh_if found db)" by (simp add: fresh_if_def split: option.split)
  with b id have "\<forall>l \<in> set (save_row dl_id (dd_logs db) ?row). dl_id l < dd_nextId (fresh_if found db)"
    using set_save_row_subset [of dl_id "dd_logs db" ?row] by fastforce
  moreover have "distinct (map dl_id (save_row dl_id (dd_logs db) ?row))"
    using table_ok_save_row [of dl_id "dd_logs db" ?row] d by (simp add: table_ok_def)
  moreover have "log_key ?row = None" "reliever_key ?row = None" by (rule saved_log_keys, erule man)+
  ultimately show ?thesis
    using ok k by (auto simp: logs_ok_def intro!: once_save_row)
qed

lemma saveAssignment_ok: "duty_ok db \<Longrightarrow> duty_ok (snd (saveAssignment env actor dto t db))"
proof -
  assume ok: "duty_ok db"
  let ?found = "target_row dl_id (dd_logs db) t"
  have "duty_ok ((fresh_if ?found db)\<lparr>dd_logs := save_row dl_id (dd_logs db) (saved_log actor dto ?found (dd_nextId db))\<rparr>)"
    if "log_guard env actor dto t ?found db = None"
  proof (rule logs_edit_ok [OF ok])
    have "\<And>r. ?found = Some r \<Longrightarrow> isManualLog r" using that by (simp add: log_guard_def split: if_splits)
    then show "logs_ok db \<Longrightarrow> logs_ok ((fresh_if ?found db)\<lparr>dd_logs := save_row dl_id (dd_logs db) (saved_log actor dto ?found (dd_nextId db))\<rparr>)"
      by - (rule logs_save [OF _ refl], assumption, blast)
  qed (simp_all add: same_defs fresh_if_def split: option.split)
  with ok show ?thesis by (simp add: saveAssignment_def Let_def split: option.split)
qed

lemma deleteAssignment_ok: "duty_ok db \<Longrightarrow> duty_ok (snd (deleteAssignment env actor n db))"
proof -
  assume ok: "duty_ok db"
  have "duty_ok (db\<lparr>dd_logs := filter P (dd_logs db)\<rparr>)" for P
    by (rule logs_edit_ok [OF ok]) (auto simp: same_defs logs_ok_def distinct_map inj_on_def intro: once_filter)
  with ok show ?thesis by (simp add: deleteAssignment_def Let_def split: option.split)
qed

lemma quiet_then_reconcile:
  "duty_ok db \<Longrightarrow> same_coverages db db' \<Longrightarrow> same_meetings db db' \<Longrightarrow> same_logs db db'
    \<Longrightarrow> duty_ok (snd (then_reconcile env b x db'))"
  by (rule then_reconcile_ok) (rule quiet_edit_ok)

lemma saveException_ok: "duty_ok db \<Longrightarrow> duty_ok (snd (saveException env actor dto t db))"
proof -
  assume ok: "duty_ok db"
  have H: "duty_ok (snd (then_reconcile env b x ((fresh_if f db)\<lparr>dd_exceptions := es\<rparr>)))"
    for b es and f :: "duty_exception option" and x :: duty_exception
    by (rule quiet_then_reconcile [OF ok]) (simp_all add: same_defs fresh_if_def split: option.split)
  show ?thesis using ok by (simp add: saveException_def Let_def H split: option.split)
qed

lemma deleteException_ok: "duty_ok db \<Longrightarrow> duty_ok (snd (deleteException env actor n db))"
proof -
  assume ok: "duty_ok db"
  have "duty_ok (snd (then_reconcile env b () (db\<lparr>dd_exceptions := es\<rparr>)))" for b es
    by (rule quiet_then_reconcile [OF ok]) (simp_all add: same_defs)
  with ok show ?thesis by (simp add: deleteException_def Let_def split: option.split)
qed

lemma skipCoverage_ok: "duty_ok db \<Longrightarrow> duty_ok (snd (skipCoverage env actor n user db))"
  by (simp add: skipCoverage_def saveException_ok split: option.split)

lemma write_roster_same:
  "same_coverages db (snd (write_roster now od i ns db)) \<and> same_meetings db (snd (write_roster now od i ns db))
    \<and> same_logs db (snd (write_roster now od i ns db))"
proof (induction ns arbitrary: i db)
  case (Cons n ns)
  let ?w = "\<lambda>db'. snd (write_roster now od (i + 1) ns db')"
  have "same_coverages db (?w db') \<and> same_meetings db (?w db') \<and> same_logs db (?w db')"
    if "dd_coverages db' = dd_coverages db" "dd_reservations db' = dd_reservations db" "dd_logs db' = dd_logs db"
      "dd_nextId db \<le> dd_nextId db'" for db'
    using Cons.IH [of db' "i + 1"] that by (auto simp: same_defs)
  then show ?case by (auto simp: same_defs split: option.split)
qed (simp add: same_defs)

lemma replaceRoster_ok: "duty_ok db \<Longrightarrow> duty_ok (snd (replaceRoster env actor ids od ov db))"
proof -
  assume ok: "duty_ok db"
  have "duty_ok (switch_override s db2) \<and> duty_ok db2"
    if "write_roster now odi 0 sel (db\<lparr>dd_roster := ms\<rparr>) = (r, db2)" for now odi sel ms r db2 s
  proof -
    have "same_coverages db db2 \<and> same_meetings db db2 \<and> same_logs db db2"
      using write_roster_same [of "db\<lparr>dd_roster := ms\<rparr>" now odi 0 sel] that by (simp add: same_defs)
    then have "duty_ok db2" using quiet_edit_ok [OF ok] by blast
    moreover from this have "duty_ok (switch_override s db2)"
      by (rule quiet_edit_ok) (simp_all add: same_defs switch_override_def split: option.split)
    ultimately show ?thesis by blast
  qed
  with ok show ?thesis by (auto simp: replaceRoster_def Let_def split: option.split prod.split sum.split)
qed

section \<open>Meetings\<close>

lemma period_of_slot: "meeting_slot r = Inr p \<Longrightarrow> reservationPeriod r = p"
  by (simp add: meeting_slot_def reservationPeriod_def)

lemma write_meeting_ok:
  assumes ok: "duty_ok db" and found: "\<And>r. found = Some r \<Longrightarrow> r \<in> set (dd_reservations db)"
  shows "duty_ok (snd (write_meeting env actor dto found db))"
proof -
  have "duty_ok (store_meeting found row db)"
    if row: "row = saved_meeting actor dto found (dd_nextId db) venue d st s e" "meetingSlot s e = Inr slot"
      "\<not> slot_taken db found venue d slot" for row venue d st s e slot
  proof -
    let ?db1 = "(fresh_if found db)\<lparr>dd_reservations := save_row rs_id (dd_reservations db) row\<rparr>"
    have m: "meetings_ok db" using ok by (simp add: duty_ok_def)
    have p: "meeting_slot row = Inr slot" using row(1,2) by (simp add: meeting_slot_def saved_meeting_def)
    have clash: "\<not> clash row q" if q: "q \<in> set (dd_reservations db)" for q
    proof
      assume c: "clash row q"
      then have "Some (rs_id q) \<noteq> map_option rs_id found" using row(1) by (cases found) (auto simp: clash_def saved_meeting_def)
      with c q row(1) period_of_slot [OF p] have "slot_taken db found venue d slot"
        by (auto simp: slot_taken_def meetings_on_def list_ex_iff clash_def saved_meeting_def)
      with row(3) show False by blast
    qed
    have "rs_id row < dd_nextId (fresh_if found db)"
      using m row(1) found by (auto simp: saved_meeting_def fresh_if_def meetings_ok_def split: option.split)
    then have "meetings_ok (db\<lparr>dd_nextId := dd_nextId (fresh_if found db), dd_reservations := save_row rs_id (dd_reservations db) row\<rparr>)"
      using p clash by (intro meetings_save [OF m]) (auto simp: fresh_if_def split: option.split)
    moreover have "db\<lparr>dd_nextId := dd_nextId (fresh_if found db), dd_reservations := rs\<rparr> = (fresh_if found db)\<lparr>dd_reservations := rs\<rparr>" for rs
      by (simp add: fresh_if_def split: option.split)
    ultimately have "meetings_ok ?db1" by simp
    then have "duty_ok ?db1"
      by (intro meetings_edit_ok [OF ok]) (simp_all add: same_defs fresh_if_def split: option.split)
    moreover have "duty_ok (?db1\<lparr>dd_relievers := ls\<rparr>)" if "duty_ok ?db1" for ls
      using that by (rule quiet_edit_ok) (simp_all add: same_defs)
    ultimately show ?thesis by (cases found) (simp_all add: store_meeting_def Let_def)
  qed
  then show ?thesis
    using ok by (simp add: write_meeting_def Let_def then_reconcile_ok split: option.split sum.split)
qed

lemma saveReservation_ok: "duty_ok db \<Longrightarrow> duty_ok (snd (saveReservation env actor dto t db))"
proof -
  assume ok: "duty_ok db"
  have "duty_ok (save_reservation (r\<lparr>rs_purpose := x\<rparr>) db)" if "r \<in> set (dd_reservations db)" for r x
    using save_status_ok [OF ok that, of "rs_status r" x] by simp
  then show ?thesis
    using ok target_row_Some [of rs_id "dd_reservations db" t]
    by (auto simp: saveReservation_def Let_def intro!: write_meeting_ok split: option.split)
qed

lemma deleteReservation_ok: "duty_ok db \<Longrightarrow> duty_ok (snd (deleteReservation env actor n db))"
proof -
  assume ok: "duty_ok db"
  have "duty_ok (db\<lparr>dd_relievers := ls, dd_reservations := filter P (dd_reservations db)\<rparr>)" for ls P
    by (rule meetings_edit_ok [OF ok]) (auto simp: same_defs meetings_ok_def slots_ok_def distinct_map inj_on_def)
  with ok show ?thesis by (simp add: deleteReservation_def split: option.split)
qed

lemma relievers_ok: "duty_ok db \<Longrightarrow> duty_ok (snd (reconcile_venue env b r (db\<lparr>dd_relievers := ls\<rparr>)))"
  by (rule reconcile_venue_ok) (erule quiet_edit_ok, simp_all add: same_defs)

lemma replaceMeetingRelievers_ok: "duty_ok db \<Longrightarrow> duty_ok (snd (replaceMeetingRelievers env actor n ids why db))"
  by (simp add: replaceMeetingRelievers_def Let_def relievers_ok split: option.split)

lemma clearMeetingRelievers_ok: "duty_ok db \<Longrightarrow> duty_ok (snd (clearMeetingRelievers env actor n db))"
  by (simp add: clearMeetingRelievers_def relievers_ok split: option.split)

section \<open>Runs\<close>

datatype (plugins only: code) duty_request =
    SaveLog duty_actor log_dto "nat option"
  | DeleteLog duty_actor nat
  | SaveException duty_actor exception_dto "nat option"
  | DeleteException duty_actor nat
  | ReplaceRoster duty_actor "nat list" "nat list option" "bool option"
  | SaveMeeting duty_actor meeting_dto "nat option"
  | DeleteMeeting duty_actor nat
  | ReplaceRelievers duty_actor nat "nat list" string
  | ClearRelievers duty_actor nat
  | CompleteMeeting duty_actor nat
  | Activate duty_actor nat nat
  | Skip duty_actor nat nat
  | Release duty_actor nat
  | ReconcileDay
  | FinalizeDay

fun duty_perform :: "env \<Rightarrow> duty_request \<Rightarrow> duty_db \<Rightarrow> duty_db" where
  "duty_perform env (SaveLog a dto t) db = snd (saveAssignment env a dto t db)"
| "duty_perform env (DeleteLog a n) db = snd (deleteAssignment env a n db)"
| "duty_perform env (SaveException a dto t) db = snd (saveException env a dto t db)"
| "duty_perform env (DeleteException a n) db = snd (deleteException env a n db)"
| "duty_perform env (ReplaceRoster a ids od ov) db = snd (replaceRoster env a ids od ov db)"
| "duty_perform env (SaveMeeting a dto t) db = snd (saveReservation env a dto t db)"
| "duty_perform env (DeleteMeeting a n) db = snd (deleteReservation env a n db)"
| "duty_perform env (ReplaceRelievers a n ids why) db = snd (replaceMeetingRelievers env a n ids why db)"
| "duty_perform env (ClearRelievers a n) db = snd (clearMeetingRelievers env a n db)"
| "duty_perform env (CompleteMeeting a n) db = snd (completeReservation env a n db)"
| "duty_perform env (Activate a n u) db = snd (activateCoverage env a n u db)"
| "duty_perform env (Skip a n u) db = snd (skipCoverage env a n u db)"
| "duty_perform env (Release a n) db = snd (releaseCoverage env a n db)"
| "duty_perform env ReconcileDay db = snd (reconcileToday env db)"
| "duty_perform env FinalizeDay db = finalizeToday env db"

lemma reconcileToday_ok: "duty_ok db \<Longrightarrow> duty_ok (snd (reconcileToday env db))"
  using slots_kept_ok [OF reconcileToday_kept [OF prod.collapse [symmetric]]] by blast

lemma duty_perform_ok: "duty_ok db \<Longrightarrow> duty_ok (duty_perform env q db)"
  by (cases q) (simp_all add: saveAssignment_ok deleteAssignment_ok saveException_ok deleteException_ok replaceRoster_ok
      saveReservation_ok deleteReservation_ok replaceMeetingRelievers_ok clearMeetingRelievers_ok completeReservation_ok
      activateCoverage_ok skipCoverage_ok releaseCoverage_ok reconcileToday_ok finalizeToday_ok)

text \<open>What changes besides: attendance, tickets and accounts belong to others.\<close>

definition duty_platform :: "duty_db \<Rightarrow> duty_db \<Rightarrow> bool" where
  "duty_platform db db' \<longleftrightarrow> dd_coverages db' = dd_coverages db \<and> dd_reservations db' = dd_reservations db
     \<and> dd_logs db' = dd_logs db \<and> dd_nextId db' = dd_nextId db"

inductive duty_step :: "duty_db \<Rightarrow> duty_db \<Rightarrow> bool" where
  duty_request: "duty_step db (duty_perform env q db)"
| duty_outside: "duty_platform db db' \<Longrightarrow> duty_step db db'"

inductive_cases duty_stepE: "duty_step db db'"

definition duty_initial :: "duty_db \<Rightarrow> bool" where
  "duty_initial db \<longleftrightarrow> dd_coverages db = [] \<and> dd_reservations db = [] \<and> dd_logs db = []"

definition duty_reachable :: "duty_db \<Rightarrow> bool" where
  "duty_reachable db \<longleftrightarrow> (\<exists>db0. duty_initial db0 \<and> duty_step\<^sup>*\<^sup>* db0 db)"

lemma duty_step_ok: "duty_step db db' \<Longrightarrow> duty_ok db \<Longrightarrow> duty_ok db'"
  by (erule duty_stepE) (auto simp: duty_perform_ok duty_platform_def same_defs intro: quiet_edit_ok)

lemma duty_initial_ok: "duty_initial db \<Longrightarrow> duty_ok db"
  by (simp add: duty_initial_def duty_ok_def slots_unique_def slots_def meetings_ok_def slots_ok_def logs_ok_def once_def
      List.map_filter_simps)

lemma duty_reachable_ok: "duty_reachable db \<Longrightarrow> duty_ok db"
proof -
  have "duty_ok db'" if "duty_step\<^sup>*\<^sup>* db0 db'" "duty_ok db0" for db0 db'
    using that by (induction rule: rtranclp_induct) (auto intro: duty_step_ok)
  then show "duty_reachable db \<Longrightarrow> duty_ok db" by (auto simp: duty_reachable_def duty_initial_ok)
qed

end
