(* ===== verification/DutyProps.thy ===== *)
theory DutyProps
  imports DutySystem Samples
begin

text \<open>
  The theorems about duties; then instances: a morning with two technicians on the roster, both clocked in before
  eight.
\<close>

section \<open>Consistency\<close>

lemma once_eq: "once key xs \<Longrightarrow> x \<in> set xs \<Longrightarrow> y \<in> set xs \<Longrightarrow> key x = Some k \<Longrightarrow> key y = Some k \<Longrightarrow> x = y"
proof (induction xs)
  case (Cons a xs)
  have "x \<in> set xs \<Longrightarrow> k \<in> set (List.map_filter key xs)" "y \<in> set xs \<Longrightarrow> k \<in> set (List.map_filter key xs)"
    using Cons.prems(4,5) by (auto simp: in_map_filter)
  with Cons show ?case by (auto simp: once_def List.map_filter_simps split: option.splits)
qed simp

text \<open>C37: the duty tables stay consistent. In every state that requests and routines lead to, a duty has one coverage
  per day and period, two meetings of a venue that are not cancelled never overlap, and a person has one log
  entry for a coverage and one for being the reliever of a meeting.\<close>

theorem duty_tables_consistent:
  assumes "duty_reachable db"
  shows "(\<forall>c \<in> set (dd_coverages db). \<forall>q \<in> set (dd_coverages db).
        cv_date c = cv_date q \<and> cv_type c = cv_type q \<and> cv_period c = cv_period q \<longrightarrow> c = q)
    \<and> (\<forall>r \<in> set (dd_reservations db). \<forall>q \<in> set (dd_reservations db). rs_date r = rs_date q \<and> rs_venue r = rs_venue q
        \<and> rs_status r \<noteq> MEETING_CANCELLED \<and> rs_status q \<noteq> MEETING_CANCELLED
        \<and> periodsOverlap (reservationPeriod r) (reservationPeriod q) \<longrightarrow> r = q)
    \<and> (\<forall>l \<in> set (dd_logs db). \<forall>k \<in> set (dd_logs db). dl_userId l = dl_userId k
        \<and> (dl_coverageId l \<noteq> None \<and> dl_coverageId l = dl_coverageId k
           \<or> dl_source l = MANAGEMENT_OVERRIDE \<and> dl_source k = MANAGEMENT_OVERRIDE
             \<and> dl_reservationId l \<noteq> None \<and> dl_reservationId l = dl_reservationId k) \<longrightarrow> l = k)"
proof -
  have ok: "duty_ok db" by (rule duty_reachable_ok [OF assms])
  have c: "\<forall>c \<in> set (dd_coverages db). \<forall>q \<in> set (dd_coverages db). cv_slot c = cv_slot q \<longrightarrow> c = q"
    using ok by (auto simp: duty_ok_def slots_unique_def slots_def comp_def distinct_map inj_on_def)
  have "r = q" if "r \<in> set (dd_reservations db)" "q \<in> set (dd_reservations db)" "rs_id r = rs_id q" for r q
    using ok that by (auto simp: duty_ok_def meetings_ok_def distinct_map inj_on_def)
  moreover have "\<not> clash r q" if "r \<in> set (dd_reservations db)" "q \<in> set (dd_reservations db)" for r q
    using ok that by (auto simp: duty_ok_def meetings_ok_def)
  ultimately have m: "\<forall>r \<in> set (dd_reservations db). \<forall>q \<in> set (dd_reservations db). rs_date r = rs_date q \<and> rs_venue r = rs_venue q
        \<and> rs_status r \<noteq> MEETING_CANCELLED \<and> rs_status q \<noteq> MEETING_CANCELLED
        \<and> periodsOverlap (reservationPeriod r) (reservationPeriod q) \<longrightarrow> r = q"
    unfolding clash_def by blast
  have l: "once log_key (dd_logs db)" "once reliever_key (dd_logs db)" using ok by (simp_all add: duty_ok_def logs_ok_def)
  have "l = k" if mem: "l \<in> set (dd_logs db)" "k \<in> set (dd_logs db)" and usr: "dl_userId l = dl_userId k" and
    ids: "dl_coverageId l \<noteq> None \<and> dl_coverageId l = dl_coverageId k
       \<or> dl_source l = MANAGEMENT_OVERRIDE \<and> dl_source k = MANAGEMENT_OVERRIDE
         \<and> dl_reservationId l \<noteq> None \<and> dl_reservationId l = dl_reservationId k" for l k
    using ids
  proof
    assume "dl_coverageId l \<noteq> None \<and> dl_coverageId l = dl_coverageId k"
    then obtain c where "dl_coverageId l = Some c" "dl_coverageId k = Some c" by (metis option.exhaust)
    then have "log_key l = Some (c, dl_userId l)" "log_key k = Some (c, dl_userId l)"
      using usr by (simp_all add: log_key_def)
    then show ?thesis by (rule once_eq [OF l(1) mem])
  next
    assume "dl_source l = MANAGEMENT_OVERRIDE \<and> dl_source k = MANAGEMENT_OVERRIDE
         \<and> dl_reservationId l \<noteq> None \<and> dl_reservationId l = dl_reservationId k"
    then obtain c where "dl_reservationId l = Some c" "dl_reservationId k = Some c" "dl_source l = MANAGEMENT_OVERRIDE" "dl_source k = MANAGEMENT_OVERRIDE"
      by (metis option.exhaust)
    then have "reliever_key l = Some (c, dl_userId l)" "reliever_key k = Some (c, dl_userId l)"
      using usr by (simp_all add: reliever_key_def)
    then show ?thesis by (rule once_eq [OF l(2) mem])
  qed
  with c m show ?thesis unfolding cv_slot_def by blast
qed

section \<open>Whose turn it is\<close>

lemma rotation_frame: "frame db db' \<Longrightarrow> getRotation env db' = getRotation env db \<and> rotation_rows env db' = rotation_rows env db"
proof -
  assume f: "frame db db'"
  have "usersById env db' = usersById env db" using f by (simp add: frame_def usersById_def fun_eq_iff)
  then have "rotation_rows env db' = rotation_rows env db"
    using f by (simp add: fun_eq_iff frame_def rotation_rows_def sharedRosterMembers_def rotation_row_of_def last_duty_def
        duty_excluded_def isOdOverrideEnabled_def Let_def)
  then show ?thesis by (simp add: getRotation_def fun_eq_iff)
qed

lemma row_days:
  "r \<in> set (rotation_rows env db d ty) \<Longrightarrow> s \<in> set (rotation_rows env db d ty) \<Longrightarrow> ro_userId r = ro_userId s
    \<Longrightarrow> daysSince r = daysSince s \<and> ro_excluded r = ro_excluded s"
  by (auto simp: rotation_rows_def rotation_row_of_def)

lemma sort_key_head: "sort_key f xs = x # ys \<Longrightarrow> x \<in> set xs \<and> (\<forall>y \<in> set xs. f x \<le> f y)"
proof -
  assume s: "sort_key f xs = x # ys"
  have "sorted (map f (sort_key f xs))" "set (sort_key f xs) = set xs" by simp_all
  with s show ?thesis by (metis list.set_intros(1) list.simps(9) set_ConsD sorted_simps(2) order_refl image_eqI list.set_map)
qed

text \<open>The rows of the rotation are the roster's rows, the next one marked.\<close>

lemma rotation_member:
  assumes "r \<in> set (getRotation env db d ty)"
  obtains s where "s \<in> set (rotation_rows env db d ty)" "ro_userId r = ro_userId s" "daysSince r = daysSince s"
    "ro_excluded r = ro_excluded s" "ro_sortOrder r = ro_sortOrder s"
    "ro_next r \<Longrightarrow> \<forall>q \<in> set (rotation_rows env db d ty). \<not> ro_excluded q \<longrightarrow> daysSince q \<le> daysSince r"
proof -
  let ?rows = "rotation_rows env db d ty"
  have fresh: "\<not> ro_next q" if "q \<in> set ?rows" for q using that by (auto simp: rotation_rows_def rotation_row_of_def)
  have "r \<in> set (mark_next ?rows)" using assms by (simp add: getRotation_def)
  then show thesis
  proof (cases "sort_key turn_key (filter (\<lambda>r. \<not> ro_excluded r) ?rows)")
    case Nil
    with \<open>r \<in> set (mark_next ?rows)\<close> that [of r] fresh show thesis by (auto simp: mark_next_def)
  next
    case (Cons n ns)
    from sort_key_head [OF Cons] have n: "n \<in> set ?rows" "\<forall>q \<in> set ?rows. \<not> ro_excluded q \<longrightarrow> daysSince q \<le> daysSince n"
      by (auto simp: turn_key_def less_eq_prod_def)
    from \<open>r \<in> set (mark_next ?rows)\<close> Cons obtain s where s: "s \<in> set ?rows"
      "r = (if ro_userId s = ro_userId n then s\<lparr>ro_next := True\<rparr> else s)" by (auto simp: mark_next_def)
    have "ro_next r \<Longrightarrow> daysSince r = daysSince n" using s fresh row_days [OF s(1) n(1)] by (auto split: if_splits)
    with that [of s] s n(2) show thesis by (auto split: if_splits)
  qed
qed

lemma rotation_covers:
  assumes "s \<in> set (rotation_rows env db d ty)"
  obtains r where "r \<in> set (getRotation env db d ty)" "ro_userId r = ro_userId s" "daysSince r = daysSince s" "ro_excluded r = ro_excluded s"
proof (cases "sort_key turn_key (filter (\<lambda>r. \<not> ro_excluded r) (rotation_rows env db d ty))")
  case Nil
  with that [of s] assms show thesis by (auto simp: getRotation_def mark_next_def)
next
  case (Cons n ns)
  with assms have "(if ro_userId s = ro_userId n then s\<lparr>ro_next := True\<rparr> else s) \<in> set (getRotation env db d ty)"
    by (auto simp: getRotation_def mark_next_def)
  from that [OF this] show thesis by (cases "ro_userId s = ro_userId n") auto
qed

lemma sorted_filter_head:
  assumes "sorted (map f xs)" "filter P xs = x # ys" "y \<in> set xs" "P y"
  shows "f x \<le> f y"
proof -
  have "y \<in> set (filter P xs)" using assms(3,4) by simp
  then have "y \<in> set (x # ys)" by (simp add: assms(2) del: set_filter)
  moreover have "sorted (map f (x # ys))" using sorted_filter [OF assms(1), of P] assms(2) by simp
  ultimately show ?thesis by auto
qed

lemma candidate_waited_longest:
  assumes c: "duty_candidates env db1 d ty taken (filter (\<lambda>r. \<not> ro_excluded r) (getRotation env db d ty)) = r # rs"
    and s: "s \<in> set (rotation_rows env db d ty)" "\<not> ro_excluded s" "isAttendanceEligible env db1 (ro_userId s) d False"
      "ro_userId s \<notin> set taken"
  shows "daysSince s \<le> daysSince r"
proof -
  let ?P = "\<lambda>r. \<not> ro_excluded r \<and> isAttendanceEligible env db1 (ro_userId r) d False \<and> ro_userId r \<notin> set taken"
  let ?key = "\<lambda>r. (if ro_next r then 0 else 1 :: nat, - daysSince r, ro_sortOrder r)"
  have f: "filter ?P (getRotation env db d ty) = r # rs" using c by (simp add: duty_candidates_def conj_commute conj_assoc)
  obtain t where t: "t \<in> set (getRotation env db d ty)" "ro_userId t = ro_userId s" "daysSince t = daysSince s" "ro_excluded t = ro_excluded s"
    by (rule rotation_covers [OF s(1)])
  have "sorted (map ?key (getRotation env db d ty))" by (simp add: getRotation_def)
  from sorted_filter_head [OF this f t(1)] t s have k: "?key r \<le> ?key t" by simp
  have "r \<in> set (getRotation env db d ty)" using f by (metis filter_eq_ConsD in_set_conv_decomp)
  then obtain q where q: "ro_next r \<Longrightarrow> \<forall>q \<in> set (rotation_rows env db d ty). \<not> ro_excluded q \<longrightarrow> daysSince q \<le> daysSince r"
    by (rule rotation_member) blast
  show ?thesis
  proof (cases "ro_next r")
    case True
    with q s show ?thesis by blast
  next
    case False
    with k t(3) show ?thesis by (auto simp: less_eq_prod_def split: if_splits)
  qed
qed

lemma propose_Some:
  assumes "propose env d ty p taken meeting cur db = (Inr (Some c), db1)"
  obtains r rs where "duty_candidates env db d ty taken (filter (\<lambda>r. \<not> ro_excluded r) (getRotation env db d ty)) = r # rs"
    "primaryUserId c = ro_userId r" "cv_period c = p" "cv_status c = INTERVENTION_REQUIRED" "dd_attendance db1 = dd_attendance db"
    "dd_config db1 = dd_config db"
  using assms by (auto simp: propose_def Let_def pending_coverage_def save_coverage_def split: if_splits list.splits option.splits)

lemma reconcile_pending:
  assumes "reconcileCoverage env d ty ex req db = (Inr (Some c), db')" "cv_status c = INTERVENTION_REQUIRED"
  obtains db1 p meeting cur where "frame db db1"
    "propose env d ty p (List.map_filter coverageCandidateUserId (prior_coverages db d ty p) @ ex) meeting cur db1 = (Inr (Some c), db')"
proof -
  obtain p ms where p: "reconcile_period env d ty ex p ms db = (Inr (Some c), db')"
    using assms(1) by (auto simp: reconcileCoverage_def Let_def split: if_splits option.splits)
  show thesis
  proof (cases "find_slot db d ty p")
    case None
    with p that [of db p] show thesis by (auto simp: reconcile_period_def Let_def split: if_splits)
  next
    case (Some q)
    obtain k db2 where kc: "keep_current env d (prior_coverages db d ty p) q db = (k, db2)" by fastforce
    from frame_keep_current [OF kc] p Some kc assms(2) that [of db2 p] show thesis
      by (auto simp: reconcile_period_def Let_def split: if_splits option.splits)
  qed
qed

text \<open>Duty goes to who has waited longest. When a reconciliation proposes a coverage, its primary technician is on
  the roster for that duty, has no exception for it that day, is present and on time, is not taken by a duty of
  higher priority in an overlapping period nor excluded by the caller; and no other such technician has gone more
  days without that duty.\<close>

lemma primary_waited_longest:
  assumes "reconcileCoverage env d ty ex req db = (Inr (Some c), db')" "cv_status c = INTERVENTION_REQUIRED"
  shows "\<exists>r \<in> set (rotation_rows env db d ty). ro_userId r = primaryUserId c \<and> \<not> ro_excluded r
    \<and> isAttendanceEligible env db' (primaryUserId c) d False \<and> primaryUserId c \<notin> set ex
    \<and> (\<forall>q \<in> set (prior_coverages db d ty (cv_period c)). coverageCandidateUserId q \<noteq> Some (primaryUserId c))
    \<and> (\<forall>s \<in> set (rotation_rows env db d ty). \<not> ro_excluded s \<and> isAttendanceEligible env db' (ro_userId s) d False
        \<and> ro_userId s \<notin> set ex
        \<and> (\<forall>q \<in> set (prior_coverages db d ty (cv_period c)). coverageCandidateUserId q \<noteq> Some (ro_userId s))
        \<longrightarrow> daysSince s \<le> daysSince r)"
proof -
  obtain db1 p meeting cur where f: "frame db db1" and pr:
    "propose env d ty p (List.map_filter coverageCandidateUserId (prior_coverages db d ty p) @ ex) meeting cur db1 = (Inr (Some c), db')"
    by (rule reconcile_pending [OF assms])
  let ?taken = "List.map_filter coverageCandidateUserId (prior_coverages db d ty p) @ ex"
  obtain r rs where r: "duty_candidates env db1 d ty ?taken (filter (\<lambda>r. \<not> ro_excluded r) (getRotation env db d ty)) = r # rs"
    "primaryUserId c = ro_userId r" "cv_period c = p" "dd_attendance db' = dd_attendance db1" "dd_config db' = dd_config db1"
    by (rule propose_Some [OF pr]) (use rotation_frame [OF f] in auto)
  have el: "isAttendanceEligible env db' n d False = isAttendanceEligible env db1 n d False" for n
    by (simp add: isAttendanceEligible_def find_attendance_def r(4,5))
  have tk: "n \<in> set ?taken \<longleftrightarrow> n \<in> set ex \<or> (\<exists>q \<in> set (prior_coverages db d ty p). coverageCandidateUserId q = Some n)" for n
    by (auto simp: in_map_filter)
  have "r \<in> set (duty_candidates env db1 d ty ?taken (filter (\<lambda>r. \<not> ro_excluded r) (getRotation env db d ty)))"
    by (simp add: r(1))
  then have m: "r \<in> set (getRotation env db d ty)" "\<not> ro_excluded r" "isAttendanceEligible env db1 (ro_userId r) d False" "ro_userId r \<notin> set ?taken"
    by (auto simp: duty_candidates_def simp del: set_append)
  from m(1) obtain t where t: "t \<in> set (rotation_rows env db d ty)" "ro_userId r = ro_userId t" "daysSince r = daysSince t" "ro_excluded r = ro_excluded t"
    by (rule rotation_member) blast
  have "daysSince s \<le> daysSince t" if "s \<in> set (rotation_rows env db d ty)" "\<not> ro_excluded s"
    "isAttendanceEligible env db' (ro_userId s) d False" "ro_userId s \<notin> set ?taken" for s
    using candidate_waited_longest [OF r(1)] that el t(3) by simp
  then show ?thesis
    using t m r(2,3) el tk by (intro bexI [OF _ t(1)]) auto
qed

section \<open>Activation\<close>

lemma find_attendance_row: "find_attendance db n d = find_row duty_att_key (dd_attendance db) (n, d)"
  by (simp add: find_attendance_def find_row_def duty_att_key_def)

lemma find_update_attendance:
  assumes "find_attendance db n d = Some a" "duty_att_key (f a) = (n, d)"
  shows "find_attendance (update_attendance n d f db) n d = Some (f a)"
  using assms find_row_save_same [of duty_att_key "dd_attendance db" "f a"]
  by (simp add: find_attendance_row update_attendance_def)

lemma activateCoverage_Inr:
  assumes "activateCoverage env actor n user db = (Inr c, db')"
  obtains q a where "find_coverage db n = Some q" "find_attendance db user (cv_date q) = Some a" "c = activated q user a"
    "db' = save_coverage c (update_attendance user (cv_date q) (put_on_duty (cv_type q)) db)"
    "activation_guard env actor (Some q) user db = None" "att_status a = PRESENT"
proof -
  have g: "activation_guard env actor (find_coverage db n) user db = None"
    using assms by (simp add: activateCoverage_def split: option.splits)
  then obtain q where q: "find_coverage db n = Some q" by (auto simp: activation_guard_def split: option.splits if_splits)
  with g obtain a where "find_attendance db user (cv_date q) = Some a" "att_status a = PRESENT"
    by (auto simp: activation_guard_def split: option.splits if_splits)
  with that q g assms show thesis by (auto simp: activateCoverage_def Let_def)
qed

lemma find_coverage_save: "find_coverage (save_coverage c db) (cv_id c) = Some c"
  by (simp add: find_coverage_def save_coverage_def find_row_save_same)

lemma find_attendance_save [simp]: "find_attendance (save_coverage c db) = find_attendance db"
  by (simp add: find_attendance_def save_coverage_def fun_eq_iff)

text \<open>C38: an activation takes a free person. Only a duty administrator activates, only a pending coverage, only
  someone present with no active ticket whom no other coverage of the day claims in an overlapping period; the
  coverage is then active for that person, and the person out of office on that duty.\<close>

theorem activation_takes_free_person:
  assumes "activateCoverage env actor n user db = (Inr c, db')"
  shows "isDutyAdmin env actor \<and> active_tickets db user = 0
    \<and> (\<exists>q. find_coverage db n = Some q \<and> cv_status q = INTERVENTION_REQUIRED \<and> cv_slot c = cv_slot q)
    \<and> find_coverage db' n = Some c \<and> cv_status c = COVERAGE_ACTIVE \<and> assignedUserId c = Some user
    \<and> (\<forall>q \<in> set (dd_coverages db). cv_id q \<noteq> n \<and> cv_date q = cv_date c \<and> coverageCandidateUserId q = Some user
        \<longrightarrow> \<not> periodsOverlap (cv_period q) (cv_period c))
    \<and> (\<exists>a. find_attendance db user (cv_date c) = Some a \<and> att_status a = PRESENT
        \<and> find_attendance db' user (cv_date c) = Some (put_on_duty (cv_type c) a))"
  using assms
proof (rule activateCoverage_Inr)
  fix q a
  assume q: "find_coverage db n = Some q" "find_attendance db user (cv_date q) = Some a" "c = activated q user a"
    "db' = save_coverage c (update_attendance user (cv_date q) (put_on_duty (cv_type q)) db)"
    "activation_guard env actor (Some q) user db = None" "att_status a = PRESENT"
  have id: "cv_id q = n" using q(1) find_row_Some unfolding find_coverage_def by fast
  have key: "duty_att_key (put_on_duty (cv_type q) a) = (user, cv_date q)"
    using q(2) by (auto simp: duty_att_key_def put_on_duty_def find_attendance_row dest!: find_row_Some)
  have live: "live_coverage x" if "coverageCandidateUserId x = Some u" for x u
    using that by (cases "cv_status x") (simp_all add: coverageCandidateUserId_def live_coverage_def)
  have same: "cv_id c = n" "cv_date c = cv_date q" "cv_type c = cv_type q" "cv_period c = cv_period q" "cv_status c = COVERAGE_ACTIVE"
    "assignedUserId c = Some user" by (simp_all add: q(3) activated_def id)
  have "find_coverage db' n = Some c" using find_coverage_save [of c] same(1) by (simp add: q(4))
  moreover have "find_attendance db' user (cv_date c) = Some (put_on_duty (cv_type c) a)"
    using find_update_attendance [where f = "put_on_duty (cv_type q)", OF q(2) key] by (simp add: q(4) same)
  moreover have "isDutyAdmin env actor" "cv_status q = INTERVENTION_REQUIRED" "active_tickets db user = 0"
    "\<forall>x \<in> set (dd_coverages db). cv_id x \<noteq> n \<and> cv_date x = cv_date c \<and> coverageCandidateUserId x = Some user
        \<longrightarrow> \<not> periodsOverlap (cv_period x) (cv_period c)"
    using q(5) live id same by (auto simp: activation_guard_def list_ex_iff split: if_splits)
  ultimately show ?thesis using q(1,2,6) same by (auto simp: cv_slot_def)
qed

text \<open>Duty gives the attendance back. Restoring the attendance of an activated coverage returns the person's row
  with the status, the notes and the clock-in it had; but the row stays marked as set by hand.\<close>

lemma duty_attendance_restored:
  assumes "activateCoverage env actor n user db = (Inr c, db')"
  shows "\<exists>a b. find_attendance db user (cv_date c) = Some a
    \<and> find_attendance (restoreAttendance c db') user (cv_date c) = Some b
    \<and> att_status b = att_status a \<and> att_notes b = att_notes a \<and> clockInTime b = clockInTime a \<and> isManualOverride b"
  using assms
proof (rule activateCoverage_Inr)
  fix q a
  assume q: "find_coverage db n = Some q" "find_attendance db user (cv_date q) = Some a" "c = activated q user a"
    "db' = save_coverage c (update_attendance user (cv_date q) (put_on_duty (cv_type q)) db)"
  have k: "duty_att_key (put_on_duty (cv_type q) a) = (user, cv_date q)" "duty_att_key (duty_restored_row c (put_on_duty (cv_type q) a)) = (user, cv_date q)"
    using q(2) by (auto simp: duty_att_key_def put_on_duty_def duty_restored_row_def find_attendance_row dest!: find_row_Some)
  have "find_attendance db' user (cv_date q) = Some (put_on_duty (cv_type q) a)"
    using find_update_attendance [where f = "put_on_duty (cv_type q)", OF q(2) k(1)] by (simp add: q(4))
  from find_update_attendance [where f = "duty_restored_row c", OF this k(2)]
  have "find_attendance (restoreAttendance c db') user (cv_date q) = Some (duty_restored_row c (put_on_duty (cv_type q) a))"
    by (simp add: restoreAttendance_def q(3) activated_def)
  moreover have "cv_date c = cv_date q" by (simp add: q(3) activated_def)
  ultimately show ?thesis
    using q(2) by (intro exI [of _ a] exI [of _ "duty_restored_row c (put_on_duty (cv_type q) a)"])
      (simp add: duty_restored_row_def put_on_duty_def q(3) activated_def)
qed

section \<open>Two defects of the reconciliation\<close>

lemma no_prior_of_od [simp]: "prior_coverages db d OD p = []"
  by (simp add: prior_coverages_def type_index_def)

lemma yield_none [simp]: "yield_to_prior [] d c db = (c, db)"
  by (simp add: yield_to_prior_def reserved_by_def split: option.split)

text \<open>C39: a lost officer is not replaced in the same run. When the officer of the day in office loses the duty by an
  exception or an absence and somebody else could take over, the reconciliation cancels the coverage and then
  fails: the new row repeats day, duty and period of the cancelled one, which the table forbids.\<close>

theorem lost_officer_fails:
  assumes "find_slot db d OD WHOLE_DAY = Some c" "cv_status c = COVERAGE_ACTIVE" "assignedUserId c = Some n"
    and "list_ex (\<lambda>e. ex_date e = d \<and> ex_userId e = n) (dd_exceptions db) \<or> \<not> isActiveCoverageAttendanceEligible env db c n"
    and "db1 = save_coverage (c\<lparr>cv_status := COVERAGE_CANCELLED\<rparr>) (restoreAttendance c db)"
    and "\<exists>r \<in> set (getRotation env db d OD). \<not> ro_excluded r \<and> isAttendanceEligible env db1 (ro_userId r) d False \<and> ro_userId r \<notin> set ex"
  shows "reconcileCoverage env d OD ex None db = (Inl InternalServerError, db1)"
proof -
  have k: "keep_current env d [] c db = (None, db1)"
    using assms(2-5) by (simp add: keep_current_def drop_ineligible_def)
  have f: "frame db db1" by (simp add: assms(5))
  have "c\<lparr>cv_status := COVERAGE_CANCELLED\<rparr> \<in> set (dd_coverages db1)" by (simp add: assms(5) save_coverage_def in_save_row)
  moreover have "cv_slot (c\<lparr>cv_status := COVERAGE_CANCELLED\<rparr>) = (d, OD, WHOLE_DAY)"
    using find_slot_Some [OF assms(1)] by (simp add: cv_slot_def)
  ultimately have s: "find_slot db1 d OD WHOLE_DAY \<noteq> None" using find_slot_None by blast
  obtain r where r: "r \<in> set (getRotation env db1 d OD)" "\<not> ro_excluded r" "isAttendanceEligible env db1 (ro_userId r) d False" "ro_userId r \<notin> set ex"
    using assms(6) rotation_frame [OF f] by auto
  then have "filter (\<lambda>r. \<not> ro_excluded r) (getRotation env db1 d OD) \<noteq> []"
    "duty_candidates env db1 d OD ex (filter (\<lambda>r. \<not> ro_excluded r) (getRotation env db1 d OD)) \<noteq> []"
    by (auto simp: duty_candidates_def filter_empty_conv)
  with s have "propose env d OD WHOLE_DAY ex None None db1 = (Inl InternalServerError, db1)"
    by (auto simp: propose_def Let_def split: list.split)
  then show ?thesis
    using assms(1) k by (simp add: reconcileCoverage_def reconcile_period_def Let_def List.map_filter_simps)
qed

lemma find_coverage_other_fields: "find_coverage (save_coverage x db) n = (if n = cv_id x then Some x else find_coverage db n)"
  by (simp add: find_coverage_def save_coverage_def find_row_save_same find_row_save_other)

text \<open>A substitute chosen by hand does not last. After an administrator activates the officer's coverage for
  someone other than the primary technician, the next reconciliation of that duty, whenever it runs, leaves that
  coverage inactive.\<close>

lemma substitute_undone:
  assumes "slots_unique db" "activateCoverage env actor n user db = (Inr c, db')" "cv_slot c = (d, OD, WHOLE_DAY)"
    and "user \<noteq> primaryUserId c"
  shows "\<exists>q. find_coverage (snd (reconcileCoverage env' d OD ex None db')) n = Some q \<and> cv_status q \<noteq> COVERAGE_ACTIVE"
  using assms(2)
proof (rule activateCoverage_Inr)
  fix q a
  assume q: "find_coverage db n = Some q" "c = activated q user a"
    "db' = save_coverage c (update_attendance user (cv_date q) (put_on_duty (cv_type q)) db)"
  have id: "cv_id c = n" using q(1,2) find_row_Some unfolding find_coverage_def activated_def by fastforce
  have sub: "isSubstitute c" "cv_status c = COVERAGE_ACTIVE" "assignedUserId c = Some user"
    using assms(4) by (auto simp: q(2) activated_def)
  have u0: "slots_unique (update_attendance user (cv_date q) (put_on_duty (cv_type q)) db)"
    using same_slots_unique [OF same_update_attendance assms(1)] .
  have "stored (update_attendance user (cv_date q) (put_on_duty (cv_type q)) db) c"
    using find_coverage_stored [OF q(1)] by (simp add: q(2) activated_def)
  from same_slots_unique [OF same_save_coverage [OF u0 this] u0] have u: "slots_unique db'" by (simp add: q(3))
  have cin: "c \<in> set (dd_coverages db')" by (simp add: q(3) save_coverage_def in_save_row)
  have fs: "find_slot db' d OD WHOLE_DAY = Some c"
  proof (cases "find_slot db' d OD WHOLE_DAY")
    case None
    with find_slot_None cin assms(3) show ?thesis by blast
  next
    case (Some x)
    with find_slot_Some [OF Some] u cin assms(3) show ?thesis
      by (auto simp: slots_unique_def slots_def comp_def distinct_map inj_on_def)
  qed
  have fin: "\<exists>q. find_coverage (snd (propose env' d OD WHOLE_DAY ex None cur db2)) n = Some q \<and> cv_status q \<noteq> COVERAGE_ACTIVE"
    if "find_coverage db2 n = Some x" "cv_status x \<noteq> COVERAGE_ACTIVE" "cur = None \<or> cur = Some x" "n < dd_nextId db2" for cur db2 x
    using that find_row_Some [of cv_id "dd_coverages db2" n x]
    by (auto simp: propose_def Let_def find_coverage_other_fields pending_coverage_def find_coverage_def [of "db2\<lparr>dd_nextId := k\<rparr>" for k]
        find_coverage_def [of db2] split: list.split option.split)
  have nx: "n < dd_nextId db'" using u cin id by (auto simp: slots_unique_def slots_def)
  show ?thesis
  proof (cases "fst (drop_ineligible env' d c db')")
    case None
    then have "keep_current env' d [] c db' = (None, save_coverage (c\<lparr>cv_status := COVERAGE_CANCELLED\<rparr>) (restoreAttendance c db'))"
      using sub by (auto simp: keep_current_def drop_ineligible_def split: if_splits)
    then show ?thesis
      using fs fin [of "save_coverage (c\<lparr>cv_status := COVERAGE_CANCELLED\<rparr>) (restoreAttendance c db')" _ None] nx id
      by (simp add: reconcileCoverage_def reconcile_period_def Let_def find_coverage_other_fields duty_frame List.map_filter_simps)
  next
    case (Some y)
    then have "drop_ineligible env' d c db' = (Some c, db')" by (auto simp: drop_ineligible_def split: option.splits if_splits)
    then obtain x where "keep_current env' d [] c db' = (Some x, save_coverage x (restoreAttendance c db'))"
      "cv_status x = INTERVENTION_REQUIRED" "cv_id x = n"
      using sub id by (auto simp: keep_current_def return_substitute_def Let_def)
    then show ?thesis
      using fs fin [of "save_coverage x (restoreAttendance c db')" x "Some x"] nx
      by (simp add: reconcileCoverage_def reconcile_period_def Let_def find_coverage_other_fields duty_frame List.map_filter_simps)
  qed
qed

section \<open>Duties and tickets\<close>

text \<open>Who is on duty gets no tickets. With the duty service's answer as the blocked list, automatic assignment
  never reaches the officer of the day, pending or active, nor a reliever of a meeting of the day.\<close>

lemma on_duty_gets_no_tickets:
  assumes "env_blocked env = blockedTechnicianIds ddb" "u \<in> set (getAutoAssignmentTechnicians env db p d)"
    and "\<forall>r \<in> set (active_meetings ddb d False). rs_venue r \<noteq> OD"
  shows "(\<forall>c \<in> set (dd_coverages ddb). cv_date c = d \<and> cv_type c = OD \<longrightarrow> coverageCandidateUserId c \<noteq> Some (acc_id u))
    \<and> (\<forall>l \<in> set (meeting_relievers ddb d False). rl_userId l \<noteq> acc_id u)"
proof -
  have b: "acc_id u \<notin> set (blockedTechnicianIds ddb d)"
    using getAutoAssignmentTechnicians_member [OF assms(2)] by (simp add: assms(1))
  have "live_coverage c" if "coverageCandidateUserId c = Some n" for c n
    using that by (cases "cv_status c") (simp_all add: coverageCandidateUserId_def live_coverage_def)
  then have "acc_id u \<in> set (blockedTechnicianIds ddb d)"
    if "c \<in> set (dd_coverages ddb)" "cv_date c = d" "cv_type c = OD" "coverageCandidateUserId c = Some (acc_id u)" for c
    using that assms(3) by (auto simp: blockedTechnicianIds_def Let_def in_map_filter intro!: exI [of _ c] bexI [of _ c])
  moreover have "rl_userId l \<in> set (blockedTechnicianIds ddb d)" if "l \<in> set (meeting_relievers ddb d False)" for l
    using that by (auto simp: blockedTechnicianIds_def Let_def)
  ultimately show ?thesis using b by metis
qed

section \<open>Instances\<close>

definition duty_env :: env where
  "duty_env = demo_env\<lparr>env_caps := (\<lambda>r. if r = admin_role then Some [CapDutyAdmin] else demo_caps r)\<rparr>"

definition duty_row :: "nat \<Rightarrow> duty_attendance" where
  "duty_row n = \<lparr>att_userId = n, att_date = 0, att_status = PRESENT, clockInTime = Some (-300000),
     isManualOverride = False, att_notes = None\<rparr>"

definition roster_row :: "nat \<Rightarrow> roster_member" where
  "roster_row n = \<lparr>rm_id = n, rm_userId = n, rm_dutyType = OD, sortOrder = int n, rm_isActive = True, odOnly = False,
     rm_createdAt = 0\<rparr>"

definition morning :: duty_db where
  "morning = \<lparr>dd_roster = [roster_row 2, roster_row 4], dd_logs = [], dd_exceptions = [], dd_reservations = [],
     dd_relievers = [], dd_coverages = [], dd_attendance = [duty_row 2, duty_row 4], dd_tickets = [], dd_users = demo_users,
     dd_config = Some (ticketing_config.extend default_config \<lparr>odOverrideEnabled = False\<rparr>), dd_nextId = 10\<rparr>"

definition pending_od :: coverage where
  "pending_od = pending_coverage 10 0 OD WHOLE_DAY None 2"

definition pending_morning :: duty_db where
  "pending_morning = morning\<lparr>dd_coverages := [pending_od], dd_nextId := 11\<rparr>"

definition active_od :: coverage where
  "active_od = activated pending_od 2 (duty_row 2)"

definition lost_morning :: duty_db where
  "lost_morning = morning\<lparr>dd_coverages := [active_od], dd_nextId := 11,
     dd_exceptions := [\<lparr>ex_id = 8, ex_date = 0, ex_userId = 2, ex_dutyType = Some ROC, ex_type = EXAM, ex_remarks = None,
       ex_createdById = None\<rparr>]\<rparr>"

lemma pair_Inr: "(case p of (Inl _, _) \<Rightarrow> False | (Inr _, _) \<Rightarrow> True) \<Longrightarrow> \<exists>x d. p = (Inr x, d)"
  by (cases p; cases "fst p") auto

lemma duty_tables_consistent_witness:
  "\<exists>c. c \<in> set (dd_coverages (duty_perform duty_env ReconcileDay morning)) \<and> cv_type c = OD \<and> primaryUserId c = 2"
proof -
  let ?db = "duty_perform duty_env ReconcileDay morning"
  have "duty_initial morning" by (simp add: duty_initial_def morning_def)
  then have r: "duty_reachable ?db"
    unfolding duty_reachable_def using duty_request [of morning duty_env ReconcileDay] by blast
  have "list_ex (\<lambda>c. cv_type c = OD \<and> primaryUserId c = 2) (dd_coverages ?db)" by code_simp
  then obtain c where c: "c \<in> set (dd_coverages ?db)" "cv_type c = OD" "primaryUserId c = 2" by (auto simp: list_ex_iff)
  with duty_tables_consistent [OF r] show ?thesis by blast
qed

lemma activate_morning: "\<exists>c db'. activateCoverage duty_env (1, admin_role) 10 4 pending_morning = (Inr c, db')"
proof -
  have "case activateCoverage duty_env (1, admin_role) 10 4 pending_morning of (Inl _, _) \<Rightarrow> False | (Inr _, _) \<Rightarrow> True" by code_simp
  then show ?thesis by (rule pair_Inr)
qed

lemma activation_takes_free_person_witness:
  "\<exists>c db'. activateCoverage duty_env (1, admin_role) 10 4 pending_morning = (Inr c, db') \<and> assignedUserId c = Some 4
     \<and> active_tickets pending_morning 4 = 0"
proof -
  from activate_morning obtain c db' where a: "activateCoverage duty_env (1, admin_role) 10 4 pending_morning = (Inr c, db')" by blast
  from activation_takes_free_person [OF a] a show ?thesis by blast
qed

lemma lost_officer_fails_witness:
  "fst (reconcileCoverage duty_env 0 OD [] None lost_morning) = Inl InternalServerError"
proof -
  let ?db1 = "save_coverage (active_od\<lparr>cv_status := COVERAGE_CANCELLED\<rparr>) (restoreAttendance active_od lost_morning)"
  have "find_slot lost_morning 0 OD WHOLE_DAY = Some active_od"
    by (simp add: find_slot_def lost_morning_def active_od_def activated_def pending_od_def pending_coverage_def)
  moreover have "list_ex (\<lambda>e. ex_date e = 0 \<and> ex_userId e = 2) (dd_exceptions lost_morning)" by (simp add: lost_morning_def)
  moreover have "list_ex (\<lambda>r. \<not> ro_excluded r \<and> isAttendanceEligible duty_env ?db1 (ro_userId r) 0 False \<and> ro_userId r \<notin> set [])
      (getRotation duty_env lost_morning 0 OD)" by code_simp
  ultimately have "reconcileCoverage duty_env 0 OD [] None lost_morning = (Inl InternalServerError, ?db1)"
    by (intro lost_officer_fails [of _ _ active_od 2]) (auto simp: list_ex_iff active_od_def activated_def)
  then show ?thesis by simp
qed

end
