(* ===== verification/Periods.thy ===== *)
theory Periods
  imports ManilaTime Uploads
begin

text \<open>
  Reporting periods of documents: the suffixes of file names (\<^verbatim>\<open>reportorial-doc-type.service.ts\<close> and
  \<open>buildExpectedFileBase\<close> of \<^verbatim>\<open>document.service.ts\<close>), the buckets of the repository, and the deadlines of
  \<^verbatim>\<open>metrics.service.ts\<close>.  The regular expressions of the source are written out as matchers.  Servers run in
  the Manila time zone, so that \<open>new Date(y, m, d)\<close> is Manila midnight.
\<close>

section \<open>Numbers and texts\<close>

definition is_digit :: "char \<Rightarrow> bool" where
  "is_digit c \<longleftrightarrow> 48 \<le> (of_char c :: nat) \<and> (of_char c :: nat) \<le> 57"

definition digits :: "string \<Rightarrow> bool" where
  "digits s \<longleftrightarrow> list_all is_digit s"

definition digit_value :: "char \<Rightarrow> nat" where
  "digit_value c = of_char c - 48"

definition digit_char :: "nat \<Rightarrow> char" where
  "digit_char n = char_of (48 + n)"

text \<open>\<open>Number.parseInt\<close> of a text of digits, \<open>String(n)\<close> and \<open>padStart(2, '0')\<close>.\<close>

definition parse_nat :: "string \<Rightarrow> nat" where
  "parse_nat s = foldl (\<lambda>n c. 10 * n + digit_value c) 0 s"

fun show_nat :: "nat \<Rightarrow> string" where
  "show_nat n = (if n < 10 then [digit_char n] else show_nat (n div 10) @ [digit_char (n mod 10)])"

declare show_nat.simps [simp del]

definition pad2 :: "string \<Rightarrow> string" where
  "pad2 s = replicate (2 - length s) (CHR ''0'') @ s"

definition js_parseInt :: "string \<Rightarrow> int option" where
  "js_parseInt s =
     (let t = dropWhile js_space s; neg = (take 1 t = ''-'');
          ds = takeWhile is_digit (if neg \<or> take 1 t = ''+'' then drop 1 t else t)
      in if ds = [] then None else Some ((if neg then -1 else 1) * int (parse_nat ds)))"

definition upper_char :: "char \<Rightarrow> char" where
  "upper_char c = (let n = of_char c :: nat
     in if 97 \<le> n \<and> n \<le> 122 \<or> 224 \<le> n \<and> n \<le> 254 \<and> n \<noteq> 247 then char_of (n - 32) else c)"

definition toUpperCase :: "string \<Rightarrow> string" where
  "toUpperCase s = map upper_char s"

definition is_alphanumeric :: "char \<Rightarrow> bool" where
  "is_alphanumeric c \<longleftrightarrow> (let n = of_char c :: nat in 48 \<le> n \<and> n \<le> 57 \<or> 65 \<le> n \<and> n \<le> 90 \<or> 97 \<le> n \<and> n \<le> 122)"

section \<open>The civil calendar\<close>

text \<open>The day of a date of the proleptic Gregorian calendar and its year and month: \<open>new Date(y, m, d)\<close>, where
  years of two digits are of the twentieth century and months outside the year carry over, and
  \<open>getFullYear\<close>, \<open>getMonth\<close>.\<close>

definition days_from_civil :: "int \<Rightarrow> int \<Rightarrow> int \<Rightarrow> day" where
  "days_from_civil y m d =
     (let y' = (if m \<le> 2 then y - 1 else y); yoe = y' mod 400;
          doy = (153 * (if 2 < m then m - 3 else m + 9) + 2) div 5 + d - 1
      in y' div 400 * 146097 + yoe * 365 + yoe div 4 - yoe div 100 + doy - 719468)"

definition civil_year_month :: "day \<Rightarrow> int \<times> int" where
  "civil_year_month d =
     (let z = d + 719468; doe = z mod 146097;
          yoe = (doe - doe div 1460 + doe div 36524 - doe div 146096) div 365;
          doy = doe - (365 * yoe + yoe div 4 - yoe div 100);
          mp = (5 * doy + 2) div 153; m = (if mp < 10 then mp + 3 else mp - 9)
      in (yoe + z div 146097 * 400 + (if m \<le> 2 then 1 else 0), m))"

definition js_date :: "int \<Rightarrow> int \<Rightarrow> int \<Rightarrow> date" where
  "js_date y monthIndex d =
     (let y' = (if 0 \<le> y \<and> y \<le> 99 then 1900 + y else y)
      in manila_midnight (days_from_civil (y' + monthIndex div 12) (monthIndex mod 12 + 1) 1 + d - 1))"

definition getFullYear :: "date \<Rightarrow> int" where
  "getFullYear now = fst (civil_year_month (getManilaDateString now))"

definition getMonth :: "date \<Rightarrow> int" where
  "getMonth now = snd (civil_year_month (getManilaDateString now)) - 1"

section \<open>Matchers\<close>

text \<open>\<^verbatim>\<open>/^(\d{4})-(\d{1,2})$/\<close>, \<^verbatim>\<open>/^(\d{4})(\d{2})$/\<close>, \<^verbatim>\<open>/^(\d{4})(\d{2})-(\d{2})$/\<close>,
  \<^verbatim>\<open>/^(\d{4})-?Q([1-4])$/i\<close>, \<^verbatim>\<open>/^Q([1-4])$/i\<close>, \<^verbatim>\<open>/^(\d{1,2})$/\<close> and \<^verbatim>\<open>/^\d{4}$/\<close>.\<close>

definition year_dash_month :: "string \<Rightarrow> (string \<times> string) option" where
  "year_dash_month s =
     (let m = drop 5 s
      in if digits (take 4 s) \<and> take 1 (drop 4 s) = ''-'' \<and> digits m \<and> (length m = 1 \<or> length m = 2)
         then Some (take 4 s, m) else None)"

definition compact_month :: "string \<Rightarrow> (string \<times> string) option" where
  "compact_month s = (if length s = 6 \<and> digits s then Some (take 4 s, drop 4 s) else None)"

definition compact_range :: "string \<Rightarrow> (string \<times> string \<times> string) option" where
  "compact_range s =
     (if length s = 9 \<and> digits (take 6 s) \<and> take 1 (drop 6 s) = ''-'' \<and> digits (drop 7 s)
      then Some (take 4 s, take 2 (drop 4 s), drop 7 s) else None)"

definition quarter_only :: "string \<Rightarrow> nat option" where
  "quarter_only s =
     (case s of
        [q, c] \<Rightarrow> if (q = CHR ''Q'' \<or> q = CHR ''q'') \<and> c \<in> set ''1234'' then Some (digit_value c) else None
      | _ \<Rightarrow> None)"

definition year_quarter :: "string \<Rightarrow> (string \<times> nat) option" where
  "year_quarter s =
     (let r = drop 4 s; r' = (if take 1 r = ''-'' then drop 1 r else r)
      in if digits (take 4 s) \<and> length (take 4 s) = 4 then map_option (Pair (take 4 s)) (quarter_only r') else None)"

definition month_only :: "string \<Rightarrow> bool" where
  "month_only s \<longleftrightarrow> digits s \<and> (length s = 1 \<or> length s = 2)"

definition year_only :: "string \<Rightarrow> bool" where
  "year_only s \<longleftrightarrow> digits s \<and> length s = 4"

section \<open>Suffixes of file names\<close>

datatype (plugins only: code) frequency = MONTHLY | QUARTERLY | ANNUAL | CUSTOM | OTHER_FREQUENCY

record reportorial_type =
  rt_id :: nat
  rt_unit :: nat
  base_name :: string
  display_name :: string
  rt_description :: "string option"
  submission_frequency :: frequency
  rt_active :: bool

text \<open>The two months of a quarter, as \<open>MM-MM\<close>.\<close>

definition quarter_months :: "nat \<Rightarrow> string" where
  "quarter_months q = pad2 (show_nat ((q - 1) * 3 + 1)) @ ''-'' @ pad2 (show_nat (q * 3))"

definition computePeriodSuffix :: "frequency \<Rightarrow> date \<Rightarrow> string" where
  "computePeriodSuffix f now =
     (let year = show_nat (nat (getFullYear now)); month = nat (getMonth now) + 1
      in case f of
           MONTHLY \<Rightarrow> year @ pad2 (show_nat month)
         | QUARTERLY \<Rightarrow> year @ quarter_months ((month + 2) div 3)
         | _ \<Rightarrow> year)"

text \<open>\<^verbatim>\<open>/^[Qq]?([1-4])$/\<close>.\<close>

definition quarter_token :: "string \<Rightarrow> nat option" where
  "quarter_token s = (case s of [c] \<Rightarrow> if c \<in> set ''1234'' then Some (digit_value c) else None | _ \<Rightarrow> quarter_only s)"

definition computePeriodSuffixFromParts :: "frequency \<Rightarrow> string \<Rightarrow> string \<Rightarrow> date \<Rightarrow> string" where
  "computePeriodSuffixFromParts f yearStr periodStr now =
     (let year = (if yearStr = [] then show_nat (nat (getFullYear now)) else yearStr); month = nat (getMonth now) + 1
      in case f of
           MONTHLY \<Rightarrow> year @ pad2 (if periodStr = [] then show_nat month else periodStr)
         | QUARTERLY \<Rightarrow> year @ quarter_months (case quarter_token periodStr of Some q \<Rightarrow> q | None \<Rightarrow> (month + 2) div 3)
         | _ \<Rightarrow> year)"

definition computeExpectedFilename :: "reportorial_type \<Rightarrow> date \<Rightarrow> string" where
  "computeExpectedFilename rt now = base_name rt @ ''_'' @ computePeriodSuffix (submission_frequency rt) now"

definition computeExpectedFilenameFromParts :: "reportorial_type \<Rightarrow> string \<Rightarrow> string \<Rightarrow> date \<Rightarrow> string" where
  "computeExpectedFilenameFromParts rt yearStr periodStr now =
     base_name rt @ ''_'' @ computePeriodSuffixFromParts (submission_frequency rt) yearStr periodStr now"

text \<open>The assignments of document types to focal persons, and the file names these must use.\<close>

record doc_assignment =
  as_id :: nat
  as_user :: nat
  as_unit :: nat
  as_document_type :: string
  report_name :: "string option"
  filename_prefix :: "string option"
  as_frequency :: frequency
  submission_month :: "nat option"
  as_active :: bool

definition getMonthlySuffix :: "string \<Rightarrow> string \<Rightarrow> string result" where
  "getMonthlySuffix period year =
     (case year_dash_month (trim period) of
        Some (y, m) \<Rightarrow> Inr (y @ pad2 m)
      | None \<Rightarrow> if month_only (trim period) then Inr (year @ pad2 (trim period)) else Inl (BadRequest (Doc DocPeriod)))"

definition getQuarterlySuffix :: "string \<Rightarrow> string \<Rightarrow> string result" where
  "getQuarterlySuffix period year =
     (case year_quarter (trim period) of
        Some (y, q) \<Rightarrow> Inr (y @ ''Q'' @ show_nat q)
      | None \<Rightarrow>
          (case quarter_only (trim period) of
             Some q \<Rightarrow> Inr (year @ ''Q'' @ show_nat q) | None \<Rightarrow> Inl (BadRequest (Doc DocPeriod))))"

definition getAnnualSuffix :: "string \<Rightarrow> string result" where
  "getAnnualSuffix year = (if year_only year then Inr year else Inl (BadRequest (Doc DocPeriod)))"

definition buildExpectedFileBase :: "doc_assignment \<Rightarrow> string \<Rightarrow> string \<Rightarrow> string result" where
  "buildExpectedFileBase a period year =
     (let prefix = toUpperCase (trim (case filename_prefix a of Some p \<Rightarrow> p | None \<Rightarrow> []))
      in if prefix = [] then Inr []
         else (case as_frequency a of
             MONTHLY \<Rightarrow> and_then (getMonthlySuffix period year) (\<lambda>s. Inr (prefix @ s))
           | QUARTERLY \<Rightarrow> and_then (getQuarterlySuffix period year) (\<lambda>s. Inr (prefix @ s))
           | ANNUAL \<Rightarrow> and_then (getAnnualSuffix year) (\<lambda>s. Inr (prefix @ s))
           | _ \<Rightarrow> Inr (prefix @ year @ toUpperCase (filter is_alphanumeric period))))"

section \<open>Buckets of the repository\<close>

text \<open>The key and the rank of a period; the label for display is left out.\<close>

record bucket =
  bk_key :: string
  bk_sort :: nat

definition quarter_bucket :: "nat \<Rightarrow> bucket" where
  "quarter_bucket q = \<lparr>bk_key = ''q'' @ show_nat q, bk_sort = 100 + q\<rparr>"

definition parsePeriodBucket :: "string \<Rightarrow> bucket" where
  "parsePeriodBucket period =
     (let p = trim period
      in case compact_month p of
           Some (_, m) \<Rightarrow> \<lparr>bk_key = ''month-'' @ m, bk_sort = parse_nat m\<rparr>
         | None \<Rightarrow>
             (case compact_range p of
                Some (_, m, _) \<Rightarrow> quarter_bucket ((parse_nat m + 2) div 3)
              | None \<Rightarrow>
                  (case year_quarter p of
                     Some (_, q) \<Rightarrow> quarter_bucket q
                   | None \<Rightarrow>
                       if year_only p \<or> p = [] then \<lparr>bk_key = ''annual'', bk_sort = 999\<rparr>
                       else \<lparr>bk_key = ''other-'' @ p, bk_sort = 998\<rparr>)))"

section \<open>Deadlines\<close>

text \<open>The part of a rule that says when a report is due.  A field that is absent is \<open>None\<close>;
  \<open>deadline_date\<close> is the instant its text denotes, \<open>None\<close> also for a text that denotes none.\<close>

record deadline_rule =
  deadline_date :: "date option"
  deadline_day :: "int option"
  deadline_month_offset :: "int option"
  rule_frequency :: "frequency option"
  rule_submission_month :: "int option"
  custom_period_regex :: string
  year_group :: "nat option"
  month_group :: "nat option"
  fallback_month :: "int option"

definition clamp :: "int \<Rightarrow> int \<Rightarrow> int \<Rightarrow> int" where
  "clamp lo hi x = min (max x lo) hi"

fun has_quarter :: "string \<Rightarrow> bool" where
  "has_quarter [] = False"
| "has_quarter (c # cs) = (quarter_only (c # take 1 cs) \<noteq> None \<or> has_quarter cs)"

definition inferSubmissionFrequency :: "string \<Rightarrow> frequency" where
  "inferSubmissionFrequency period =
     (let p = trim period
      in if has_quarter p then QUARTERLY
         else if compact_range p \<noteq> None then QUARTERLY
         else if compact_month p \<noteq> None then MONTHLY
         else if year_dash_month p \<noteq> None then MONTHLY
         else ANNUAL)"

definition month_index :: "string \<Rightarrow> int" where
  "month_index m = clamp 0 11 (int (parse_nat m) - 1)"

text \<open>\<open>parsePeriod\<close>: the year and the index of the month at whose end a period ends.  \<open>regex\<close> is
  \<open>String.match\<close> with a pattern of the rule: its groups, or \<open>None\<close> for a pattern that is invalid or does
  not match.  The month of a custom period may be no number.\<close>

definition quarterly_base :: "string \<Rightarrow> int \<Rightarrow> (int \<times> int) option" where
  "quarterly_base p fallbackYear =
     (case compact_range p of
        Some (y, _, m) \<Rightarrow> Some (int (parse_nat y), month_index m)
      | None \<Rightarrow>
          (case year_quarter p of
             Some (y, q) \<Rightarrow> Some (int (parse_nat y), int q * 3 - 1)
           | None \<Rightarrow> map_option (\<lambda>q. (fallbackYear, int q * 3 - 1)) (quarter_only p)))"

definition monthly_base :: "string \<Rightarrow> int \<Rightarrow> (int \<times> int) option" where
  "monthly_base p fallbackYear =
     (case compact_month p of
        Some (y, m) \<Rightarrow> Some (int (parse_nat y), month_index m)
      | None \<Rightarrow>
          (case year_dash_month p of
             Some (y, m) \<Rightarrow> Some (int (parse_nat y), month_index m)
           | None \<Rightarrow> if month_only p then Some (fallbackYear, month_index p) else None))"

definition annual_base :: "deadline_rule \<Rightarrow> string \<Rightarrow> int \<Rightarrow> int \<times> int" where
  "annual_base r p fallbackYear =
     (let month = (case rule_submission_month r of Some m \<Rightarrow> clamp 1 12 m | None \<Rightarrow> 12)
      in if year_only p then (int (parse_nat p), month - 1) else (fallbackYear, month - 1))"

text \<open>\<open>match[group]\<close>, or the fallback for a group that is absent or empty.\<close>

definition group_or :: "string option list \<Rightarrow> nat \<Rightarrow> int \<Rightarrow> int option" where
  "group_or groups n fallback =
     (case (if n < length groups then groups ! n else None) of
        Some s \<Rightarrow> if s = [] then Some fallback else js_parseInt s
      | None \<Rightarrow> Some fallback)"

definition custom_base ::
  "(string \<Rightarrow> string \<Rightarrow> string option list option) \<Rightarrow> deadline_rule \<Rightarrow> string \<Rightarrow> int \<Rightarrow> int \<times> int option" where
  "custom_base regex r p fallbackYear =
     (let fallbackMonthIndex = (case fallback_month r of Some m \<Rightarrow> clamp 0 11 (m - 1) | None \<Rightarrow> 11);
          pattern = trim (custom_period_regex r)
      in case (if pattern = [] then None else regex pattern p) of
           Some groups \<Rightarrow>
             ((case group_or groups (case year_group r of Some n \<Rightarrow> n | None \<Rightarrow> 1) fallbackYear of
                 Some y \<Rightarrow> y | None \<Rightarrow> fallbackYear),
              map_option (\<lambda>m. clamp 0 11 (m - 1))
                (group_or groups (case month_group r of Some n \<Rightarrow> n | None \<Rightarrow> 2) (fallbackMonthIndex + 1)))
         | None \<Rightarrow> (fallbackYear, Some fallbackMonthIndex))"

definition parsePeriod ::
  "(string \<Rightarrow> string \<Rightarrow> string option list option) \<Rightarrow> deadline_rule \<Rightarrow> frequency \<Rightarrow> string \<Rightarrow> int
    \<Rightarrow> (int \<times> int option) option" where
  "parsePeriod regex r f period fallbackYear =
     (let p = trim period
      in case f of
           QUARTERLY \<Rightarrow> map_option (map_prod id Some) (quarterly_base p fallbackYear)
         | MONTHLY \<Rightarrow> map_option (map_prod id Some) (monthly_base p fallbackYear)
         | ANNUAL \<Rightarrow> Some (map_prod id Some (annual_base r p fallbackYear))
         | CUSTOM \<Rightarrow> Some (custom_base regex r p fallbackYear)
         | OTHER_FREQUENCY \<Rightarrow> None)"

text \<open>\<open>calculateDeadline\<close>; \<open>None\<close> is \<open>Invalid Date\<close>.\<close>

definition calculateDeadline ::
  "(string \<Rightarrow> string \<Rightarrow> string option list option) \<Rightarrow> deadline_rule \<Rightarrow> string \<Rightarrow> string \<Rightarrow> date \<Rightarrow> date option" where
  "calculateDeadline regex r period year now =
     (let safeYear = (case js_parseInt year of Some y \<Rightarrow> y | None \<Rightarrow> getFullYear now);
          d = (case deadline_day r of Some x \<Rightarrow> clamp 1 28 x | None \<Rightarrow> 5);
          offset = (case deadline_month_offset r of Some x \<Rightarrow> x | None \<Rightarrow> 1);
          f = (case rule_frequency r of Some x \<Rightarrow> x | None \<Rightarrow> inferSubmissionFrequency period)
      in case deadline_date r of
           Some t \<Rightarrow> Some t
         | None \<Rightarrow>
             (case parsePeriod regex r f period safeYear of
                Some (y, m) \<Rightarrow> map_option (\<lambda>m. js_date y (m + offset) d) m
              | None \<Rightarrow>
                  (case quarter_only (trim period) of
                     Some q \<Rightarrow> Some (js_date safeYear (int q * 3 - 1 + offset) d)
                   | None \<Rightarrow>
                       (case year_dash_month (trim period) of
                          Some (y, m) \<Rightarrow> Some (js_date (int (parse_nat y)) (int (parse_nat m) - 1 + offset) d)
                        | None \<Rightarrow> Some (js_date (safeYear + 1) 0 d)))))"

end
