(* ===== verification/MetricEngines.thy ===== *)
theory MetricEngines
  imports Periods
begin

text \<open>
  The four engines of automatic checks (\<^verbatim>\<open>metrics/engines\<close>).  Each gets the text extracted from a document and
  the rule and criteria of a template, and answers with a status, a score between 0 and 1 and its evidence;
  the message texts and the snippets around keywords are left out.  The fixed regular expressions are written
  out; expressions an administrator enters are matched by a parameter, \<open>regex_test\<close>, whose \<open>None\<close> is the
  error of an invalid expression.  Numbers are exact rationals.
\<close>

datatype (plugins only: code) metric_status = PASS | FAIL | WARNING | METRIC_ERROR

datatype (plugins only: code) comparison = GTE | LTE | GT | LT | EQ

record keyword_result =
  kr_keyword :: string
  extracted :: "rat option"
  expected :: "rat option"
  kr_comparison :: comparison
  kr_matches :: bool

datatype (plugins only: code) evidence =
    NoEvidence
  | SectionEvidence (found_sections: "string list") (missing_sections: "string list")
  | KeywordEvidence "(string \<times> nat) list" nat
  | PropertyEvidence string bool "keyword_result list"
  | DateEvidence date date int bool

record check_result =
  cr_status :: metric_status
  cr_score :: rat
  cr_evidence :: evidence

definition verdict :: "bool \<Rightarrow> bool option \<Rightarrow> metric_status" where
  "verdict holds wanted = (if Some holds = wanted then PASS else FAIL)"

section \<open>Matching texts\<close>

text \<open>Equality of characters with and without the flag \<open>i\<close>.\<close>

definition same_char :: "bool \<Rightarrow> char \<Rightarrow> char \<Rightarrow> bool" where
  "same_char caseSensitive a b \<longleftrightarrow> (if caseSensitive then a = b else upper_char a = upper_char b)"

fun starts_with :: "bool \<Rightarrow> string \<Rightarrow> string \<Rightarrow> bool" where
  "starts_with cs [] xs = True"
| "starts_with cs (k # ks) [] = False"
| "starts_with cs (k # ks) (x # xs) = (same_char cs k x \<and> starts_with cs ks xs)"

definition nonblank :: "string list \<Rightarrow> string list" where
  "nonblank = filter (\<lambda>s. trim s \<noteq> [])"

section \<open>Sections\<close>

text \<open>\<^verbatim>\<open>\s*\<close> followed by \<open>P\<close>: some prefix of white space.\<close>

fun spaces_then :: "(string \<Rightarrow> bool) \<Rightarrow> string \<Rightarrow> bool" where
  "spaces_then P [] = P []"
| "spaces_then P (x # xs) = (P (x # xs) \<or> js_space x \<and> spaces_then P xs)"

definition line_end :: "char \<Rightarrow> bool" where
  "line_end c \<longleftrightarrow> (of_char c :: nat) = 10 \<or> (of_char c :: nat) = 13"

text \<open>\<^verbatim>\<open>(\s*[:\-]|\s*$)\<close> with the flag \<open>m\<close>.\<close>

definition heading_end :: "string \<Rightarrow> bool" where
  "heading_end xs \<longleftrightarrow> spaces_then (\<lambda>r. take 1 r = '':'' \<or> take 1 r = ''-'') xs
     \<or> spaces_then (\<lambda>r. r = [] \<or> line_end (hd r)) xs"

definition heading :: "string \<Rightarrow> string \<Rightarrow> bool" where
  "heading name xs \<longleftrightarrow> spaces_then (\<lambda>r. starts_with False name r \<and> heading_end (drop (length name) r)) xs"

text \<open>\<^verbatim>\<open>(^|\n)\s*NAME...\<close>: at a line start, or after a line feed that is part of the match.\<close>

fun has_heading :: "string \<Rightarrow> bool \<Rightarrow> string \<Rightarrow> bool" where
  "has_heading name atStart [] = (atStart \<and> heading name [])"
| "has_heading name atStart (x # xs) =
     (atStart \<and> heading name (x # xs) \<or> x = CHR 0x0A \<and> heading name xs \<or> has_heading name (line_end x) xs)"

definition section_present :: "string \<Rightarrow> string \<Rightarrow> bool" where
  "section_present text name = has_heading (trim name) True text"

definition section_check :: "string \<Rightarrow> string list \<Rightarrow> bool option \<Rightarrow> check_result" where
  "section_check text required allPresent =
     (let names = nonblank required;
          found = filter (section_present text) names; missing = filter (\<lambda>s. \<not> section_present text s) names
      in if names = [] then \<lparr>cr_status = METRIC_ERROR, cr_score = 0, cr_evidence = SectionEvidence [] []\<rparr>
         else \<lparr>cr_status = verdict (missing = []) allPresent,
               cr_score = of_nat (length found) / of_nat (length names), cr_evidence = SectionEvidence found missing\<rparr>)"

section \<open>Keywords\<close>

definition is_word :: "char option \<Rightarrow> bool" where
  "is_word c = (case c of Some c \<Rightarrow> is_alphanumeric c \<or> c = CHR ''_'' | None \<Rightarrow> False)"

definition first_char :: "string \<Rightarrow> char option" where
  "first_char xs = (case xs of x # _ \<Rightarrow> Some x | [] \<Rightarrow> None)"

text \<open>The keyword at the start of \<open>xs\<close>, between word boundaries when asked for; \<open>prev\<close> is the character
  before \<open>xs\<close>.\<close>

definition keyword_at :: "bool \<Rightarrow> bool \<Rightarrow> string \<Rightarrow> char option \<Rightarrow> string \<Rightarrow> bool" where
  "keyword_at cs wordBoundary kw prev xs \<longleftrightarrow> starts_with cs kw xs
     \<and> (wordBoundary \<longrightarrow> is_word prev \<noteq> is_word (first_char xs)
         \<and> is_word (Some (last (take (length kw) xs))) \<noteq> is_word (first_char (drop (length kw) xs)))"

text \<open>\<open>text.match(/.../g).length\<close>: from left to right, a match ends where the next may start.\<close>

function count_keyword :: "bool \<Rightarrow> bool \<Rightarrow> string \<Rightarrow> char option \<Rightarrow> string \<Rightarrow> nat" where
  "count_keyword cs wb kw prev [] = 0"
| "count_keyword cs wb kw prev (x # xs) =
     (if keyword_at cs wb kw prev (x # xs)
      then 1 + count_keyword cs wb kw (Some (last (take (length kw) (x # xs)))) (drop (length kw - 1) xs)
      else count_keyword cs wb kw (Some x) xs)"
  by pat_completeness auto
termination by (relation "measure (\<lambda>(_, _, _, _, xs). length xs)") auto

record keyword_rules =
  kw_keywords :: "string list"
  kw_min_count :: "int option"
  kw_case_sensitive :: bool
  kw_word_boundary :: bool

definition keyword_check :: "string \<Rightarrow> keyword_rules \<Rightarrow> int option \<Rightarrow> check_result" where
  "keyword_check text rule minMatches =
     (let keywords = nonblank (kw_keywords rule);
          minimum = (case minMatches of Some n \<Rightarrow> n | None \<Rightarrow> (case kw_min_count rule of Some n \<Rightarrow> n | None \<Rightarrow> 1));
          matches = map (\<lambda>k. (k, count_keyword (kw_case_sensitive rule) (kw_word_boundary rule) (trim k) None text)) keywords;
          total = sum_list (map snd matches)
      in if keywords = [] then \<lparr>cr_status = METRIC_ERROR, cr_score = 0, cr_evidence = KeywordEvidence [] 0\<rparr>
         else \<lparr>cr_status = (if minimum \<le> int total then PASS else FAIL),
               cr_score = min (of_nat total / of_int (max minimum 1)) 1, cr_evidence = KeywordEvidence matches total\<rparr>)"

section \<open>Properties\<close>

text \<open>\<^verbatim>\<open>-?\d[\d,]*(?:\.\d+)?\<close> at the start of a text: the text matched.\<close>

definition match_number :: "string \<Rightarrow> string option" where
  "match_number xs =
     (let sign = (if take 1 xs = ''-'' then ''-'' else []); r = drop (length sign) xs;
          whole = takeWhile (\<lambda>c. is_digit c \<or> c = CHR '','') r; rest = drop (length whole) r;
          fraction = (if take 1 rest = ''.'' then takeWhile is_digit (drop 1 rest) else [])
      in if r \<noteq> [] \<and> is_digit (hd r)
         then Some (sign @ whole @ (if fraction = [] then [] else ''.'' @ fraction)) else None)"

text \<open>\<open>Number(text)\<close> after the commas are removed.\<close>

definition number_value :: "string \<Rightarrow> rat" where
  "number_value s =
     (let neg = (take 1 s = ''-''); t = filter (\<lambda>c. c \<noteq> CHR '','') (if neg then drop 1 s else s);
          whole = takeWhile is_digit t; fraction = drop (length whole + 1) t
      in (if neg then -1 else 1)
         * (of_nat (parse_nat whole) + of_nat (parse_nat fraction) / of_nat (10 ^ length fraction)))"

text \<open>\<^verbatim>\<open>KEYWORD[^\d-]{0,24}(NUMBER)\<close>: the first keyword with a number at most 24 characters behind it.\<close>

fun keyword_number :: "string \<Rightarrow> string \<Rightarrow> rat option" where
  "keyword_number kw [] = None"
| "keyword_number kw (x # xs) =
     (let rest = drop (length kw) (x # xs); gap = takeWhile (\<lambda>c. \<not> is_digit c \<and> c \<noteq> CHR ''-'') rest
      in case (if starts_with False kw (x # xs) \<and> length gap \<le> 24 then match_number (drop (length gap) rest) else None) of
           Some s \<Rightarrow> Some (number_value s)
         | None \<Rightarrow> keyword_number kw xs)"

text \<open>All numbers of a text with their positions.\<close>

function number_matches :: "nat \<Rightarrow> string \<Rightarrow> (nat \<times> rat) list" where
  "number_matches i [] = []"
| "number_matches i (x # xs) =
     (case match_number (x # xs) of
        Some s \<Rightarrow> (i, number_value s) # number_matches (i + length s) (drop (length s - 1) xs)
      | None \<Rightarrow> number_matches (i + 1) xs)"
  by pat_completeness auto
termination by (relation "measure (\<lambda>(_, xs). length xs)") auto

fun index_of :: "string \<Rightarrow> string \<Rightarrow> nat option" where
  "index_of kw [] = (if kw = [] then Some 0 else None)"
| "index_of kw (x # xs) = (if starts_with False kw (x # xs) then Some 0 else map_option Suc (index_of kw xs))"

text \<open>The number that belongs to a keyword: the one behind it, else the nearest in the window around it.\<close>

definition extract_number :: "string \<Rightarrow> nat \<Rightarrow> string \<Rightarrow> rat option" where
  "extract_number text windowChars kw =
     (case index_of kw text of
        None \<Rightarrow> None
      | Some i \<Rightarrow>
          let half = windowChars div 2; contextStart = i - half;
              ctx = drop contextStart (take (i + length kw + half) text)
          in (case keyword_number kw ctx of
                Some n \<Rightarrow> Some n
              | None \<Rightarrow> map_option snd
                  (oldest_by (\<lambda>(j, _). \<bar>int j - int (i - contextStart)\<bar>) (number_matches 0 ctx))))"

record property_rule =
  number_extraction :: bool
  pr_field :: string
  pr_pattern :: string
  expected_value :: "string option"
  pr_keyword :: string
  pr_keywords :: "string list"
  pr_comparison :: "comparison option"
  pr_comparisons :: "comparison option list"
  expected_number :: "rat option"
  expected_numbers :: "rat option list"
  window_chars :: nat

text \<open>Names that are no comparison are filtered out before the list is indexed.\<close>

definition nth_or :: "'a list \<Rightarrow> nat \<Rightarrow> 'a option" where
  "nth_or xs n = (if n < length xs then Some (xs ! n) else None)"

definition compares :: "comparison \<Rightarrow> rat \<Rightarrow> rat \<Rightarrow> bool" where
  "compares c a b = (case c of GTE \<Rightarrow> b \<le> a | LTE \<Rightarrow> a \<le> b | GT \<Rightarrow> b < a | LT \<Rightarrow> a < b | EQ \<Rightarrow> a = b)"

definition keyword_result_of :: "string \<Rightarrow> property_rule \<Rightarrow> nat \<Rightarrow> string \<Rightarrow> keyword_result" where
  "keyword_result_of text rule i kw =
     (let x = extract_number text (if window_chars rule = 0 then 120 else window_chars rule) kw;
          e = (case nth_or (expected_numbers rule) i of Some (Some n) \<Rightarrow> Some n | _ \<Rightarrow> expected_number rule);
          c = (case nth_or (List.map_filter id (pr_comparisons rule)) i of
                 Some c \<Rightarrow> c | None \<Rightarrow> (case pr_comparison rule of Some c \<Rightarrow> c | None \<Rightarrow> GTE))
      in \<lparr>kr_keyword = kw, extracted = x, expected = e, kr_comparison = c,
          kr_matches = (case (x, e) of (Some a, Some b) \<Rightarrow> compares c a b | _ \<Rightarrow> False)\<rparr>)"

definition rule_keywords :: "property_rule \<Rightarrow> string list" where
  "rule_keywords rule =
     (let configured = filter (\<lambda>s. s \<noteq> []) (map trim (pr_keywords rule)); single = trim (pr_keyword rule)
      in if configured \<noteq> [] then configured else if single \<noteq> [] then [single] else [])"

definition property_check ::
  "(string \<Rightarrow> string \<Rightarrow> bool option) \<Rightarrow> (string \<Rightarrow> string) \<Rightarrow> string \<Rightarrow> property_rule \<Rightarrow> bool option \<Rightarrow> check_result option" where
  "property_check regex_test metadata text rule matchesPattern =
     (let actual = metadata (pr_field rule); keywords = rule_keywords rule;
          result = (\<lambda>holds checks. \<lparr>cr_status = verdict holds matchesPattern, cr_score = (if holds then 1 else 0),
                      cr_evidence = PropertyEvidence actual holds checks\<rparr>)
      in if number_extraction rule
         then if keywords = []
              then Some \<lparr>cr_status = METRIC_ERROR, cr_score = 0, cr_evidence = PropertyEvidence actual False []\<rparr>
              else let checks = map (\<lambda>(i, kw). keyword_result_of text rule i kw) (enumerate 0 keywords)
                   in Some (result (list_all kr_matches checks) checks)
         else if pr_pattern rule \<noteq> []
         then map_option (\<lambda>holds. result holds []) (regex_test (pr_pattern rule) actual)
         else Some (result (expected_value rule = Some actual) []))"

section \<open>Dates\<close>

text \<open>\<open>Invalid Date\<close> has no ISO text: its check throws.\<close>

definition date_check :: "date \<Rightarrow> date option \<Rightarrow> int option \<Rightarrow> bool option \<Rightarrow> check_result option" where
  "date_check submitted due max_days_late within_deadline =
     map_option (\<lambda>deadline.
       let maxDaysLate = max 0 (case max_days_late of Some n \<Rightarrow> n | None \<Rightarrow> 0);
           daysLate = (submitted - deadline) div day_ms;
           withinDeadline = (daysLate \<le> maxDaysLate)
       in \<lparr>cr_status = verdict withinDeadline within_deadline,
           cr_score = (if daysLate \<le> 0 then 1
                       else if daysLate \<le> maxDaysLate then 1 - of_int daysLate / of_int (maxDaysLate * 2) else 0),
           cr_evidence = DateEvidence submitted deadline daysLate withinDeadline\<rparr>) due"

end
