(* ===== verification/DocStore.thy ===== *)
theory DocStore
  imports MetricEngines Roles
begin

text \<open>
  The tables of the compliance service (\<^verbatim>\<open>documents/entities\<close>, \<^verbatim>\<open>reviews/entities\<close>, \<^verbatim>\<open>metrics/entities\<close>): documents
  with their versions, reviews and references, the assignments of report types to focal persons, the templates
  of automatic checks with their results.  Also here: the jobs of the processing queue and the timers that watch
  them.  The forms of the requests carry all their text fields, which may be empty; a column
  that may be \<open>null\<close> because a form leaves it empty has the empty text.
\<close>

section \<open>Documents\<close>

datatype (plugins only: code) document_status = DOC_PENDING | DOC_PROCESSING | DOC_READY | DOC_FAILED

record document =
  doc_id :: nat
  doc_title :: string
  document_type :: string
  doc_period :: string
  doc_year :: string
  reportorial_doc_type_id :: "nat option"
  doc_status :: document_status
  current_version :: nat
  doc_text :: "string option"
  doc_unit :: nat
  uploaded_by :: nat
  doc_created_at :: date
  is_deleted :: bool

datatype (plugins only: code) preview = PdfPreview "byte list" | HtmlPreview "byte list"

record doc_version =
  ver_id :: nat
  ver_document :: nat
  version_number :: nat
  file_name :: string
  mime_pdf :: bool
  file_blob :: "byte list"
  checksum :: string
  preview_blob :: "preview option"
  ver_text :: "string option"
  change_notes :: "string option"
  ver_uploader :: nat
  ver_created_at :: date

section \<open>Reviews\<close>

datatype (plugins only: code) review_decision = COMPLIANT | NON_COMPLIANT | NEEDS_REVISION

record finding =
  fd_category :: string
  fd_description :: "string option"

text \<open>A review without reviewer is one of the automatic checks; the lines of its remarks are left out.\<close>

record doc_review =
  rv_id :: nat
  rv_document :: nat
  rv_version :: nat
  decision :: review_decision
  rv_remarks :: "string option"
  rv_findings :: "finding list"
  reviewer_id :: "nat option"
  reviewed_at :: date

record doc_reference =
  rf_source :: nat
  rf_target :: nat
  relationship_type :: string
  rf_created_by :: "nat option"

record version_comparison =
  vc_document :: nat
  version_a :: nat
  version_b :: nat
  compared_by :: nat
  diff_output :: "(int \<times> string) list"

section \<open>Automatic checks\<close>

text \<open>The JSON columns of a template, by its type: the rule and the criterion for passing.\<close>

datatype (plugins only: code) metric_rule =
    SectionRule "string list" "bool option"
  | KeywordRule keyword_rules "int option"
  | PropertyRule property_rule "bool option"
  | DateRule deadline_rule "int option" "bool option"

record metric_template =
  mt_id :: nat
  mt_name :: string
  mt_rule :: metric_rule
  weight :: nat
  mt_active :: bool

record metric_applicability =
  ma_metric :: nat
  ma_unit :: "nat option"
  ma_document_type :: "string option"
  ma_reportorial :: "nat option"

record metric_result =
  mr_id :: nat
  mr_version :: nat
  mr_template :: nat
  execution_id :: nat
  mr_status :: metric_status
  mr_score :: rat
  mr_evidence :: evidence
  computed_at :: date

section \<open>State\<close>

text \<open>Jobs of the queue, what the service still has to start after it has answered, and timers that have been set.\<close>

datatype (plugins only: code) task =
    KickProcess nat nat | KickMetrics nat
  | ProcessJob nat nat | MetricsJob nat
  | ProcessWatchdog nat nat | MetricsWatchdog nat

record doc_db =
  dc_documents :: "document list"
  dc_versions :: "doc_version list"
  dc_reviews :: "doc_review list"
  dc_references :: "doc_reference list"
  dc_comparisons :: "version_comparison list"
  dc_assignments :: "doc_assignment list"
  dc_types :: "reportorial_type list"
  dc_templates :: "metric_template list"
  dc_applicability :: "metric_applicability list"
  dc_results :: "metric_result list"
  dc_issuanceLinks :: "(nat \<times> nat) list"
  dc_tasks :: "task list"
  dc_nextId :: nat

text \<open>What a handler reads of the outside: the time, the capabilities, whether the queue can be reached and accepts
  jobs, and the libraries that extract text and convert (mammoth, pdf-parse; \<open>None\<close> when they throw), the hash
  of a file, the regular expressions of rules, the difference of two texts, the export of a Google document.\<close>

record doc_env =
  de_now :: date
  de_caps :: capability_cache
  de_queue :: bool
  de_docxText :: "byte list \<Rightarrow> string option"
  de_pdfText :: "byte list \<Rightarrow> string option"
  de_docxHtml :: "byte list \<Rightarrow> byte list option"
  calculateChecksum :: "byte list \<Rightarrow> string"
  de_regexTest :: "string \<Rightarrow> string \<Rightarrow> bool option"
  de_regexMatch :: "string \<Rightarrow> string \<Rightarrow> string option list option"
  diff_main :: "string \<Rightarrow> string \<Rightarrow> (int \<times> string) list"
  de_export :: "string \<Rightarrow> byte list option"

definition find_document :: "doc_db \<Rightarrow> nat \<Rightarrow> document option" where
  "find_document db n = find_row doc_id (dc_documents db) n"

text \<open>\<open>findOne({ where: { id, is_deleted: false } })\<close>.\<close>

definition live_document :: "doc_db \<Rightarrow> nat \<Rightarrow> document option" where
  "live_document db n = find_row doc_id (filter (\<lambda>d. \<not> is_deleted d) (dc_documents db)) n"

definition find_version :: "doc_db \<Rightarrow> nat \<Rightarrow> doc_version option" where
  "find_version db n = find_row ver_id (dc_versions db) n"

definition versions_of :: "doc_db \<Rightarrow> nat \<Rightarrow> doc_version list" where
  "versions_of db n = filter (\<lambda>v. ver_document v = n) (dc_versions db)"

definition current_of :: "doc_db \<Rightarrow> document \<Rightarrow> doc_version option" where
  "current_of db d = List.find (\<lambda>v. version_number v = current_version d) (versions_of db (doc_id d))"

text \<open>\<open>documentRepo.update(id, ...)\<close> and \<open>versionRepo.update(id, ...)\<close>: nothing happens without the row.\<close>

definition update_document :: "nat \<Rightarrow> (document \<Rightarrow> document) \<Rightarrow> doc_db \<Rightarrow> doc_db" where
  "update_document n f db = db\<lparr>dc_documents := map (\<lambda>d. if doc_id d = n then f d else d) (dc_documents db)\<rparr>"

definition update_version :: "nat \<Rightarrow> (doc_version \<Rightarrow> doc_version) \<Rightarrow> doc_db \<Rightarrow> doc_db" where
  "update_version n f db = db\<lparr>dc_versions := map (\<lambda>v. if ver_id v = n then f v else v) (dc_versions db)\<rparr>"

definition add_task :: "task \<Rightarrow> doc_db \<Rightarrow> doc_db" where
  "add_task t db = db\<lparr>dc_tasks := dc_tasks db @ [t]\<rparr>"

text \<open>\<open>findOne({ where: { document_id }, order: { reviewed_at: 'DESC' } })\<close>; of reviews at the same time the
  database may give any, here the last written.\<close>

definition latest_review :: "doc_db \<Rightarrow> nat \<Rightarrow> doc_review option" where
  "latest_review db n = oldest_by (\<lambda>r. - reviewed_at r) (rev (filter (\<lambda>r. rv_document r = n) (dc_reviews db)))"

definition insert_review :: "doc_review \<Rightarrow> doc_db \<Rightarrow> doc_db" where
  "insert_review r db = db\<lparr>dc_reviews := dc_reviews db @ [r\<lparr>rv_id := dc_nextId db\<rparr>], dc_nextId := dc_nextId db + 1\<rparr>"

definition returned_review :: "doc_review option \<Rightarrow> bool" where
  "returned_review r = (case r of Some r \<Rightarrow> decision r = NEEDS_REVISION \<or> decision r = NON_COMPLIANT | None \<Rightarrow> False)"

end
