(* ===== verification/Metrics.thy ===== *)
theory Metrics
  imports DocStore
begin

text \<open>
  The service of automatic checks (\<^verbatim>\<open>metrics.service.ts\<close>): which templates apply to a document, their execution on
  a version, the aggregate score, and the automatic review of a version that fails.  A template's type and its
  JSON columns agree, so that the branch for an unknown type is not reached.
\<close>

section \<open>Templates\<close>

definition find_template :: "doc_db \<Rightarrow> nat \<Rightarrow> metric_template option" where
  "find_template db n = find_row mt_id (dc_templates db) n"

text \<open>\<open>null\<close> in a column of the applicability stands for every unit or every type.\<close>

definition applies :: "nat \<Rightarrow> string \<Rightarrow> nat option \<Rightarrow> metric_applicability \<Rightarrow> bool" where
  "applies unit ty reportorial a \<longleftrightarrow>
     ma_reportorial a = None \<and> (ma_unit a = Some unit \<and> ma_document_type a = Some ty
       \<or> ma_unit a = Some unit \<and> ma_document_type a = None
       \<or> ma_unit a = None \<and> ma_document_type a = Some ty
       \<or> ma_unit a = None \<and> ma_document_type a = None)
     \<or> truthy reportorial \<and> ma_reportorial a = reportorial"

fun first_of_each :: "nat list \<Rightarrow> metric_template list \<Rightarrow> metric_template list" where
  "first_of_each seen [] = []"
| "first_of_each seen (t # ts) =
     (if mt_id t \<in> set seen then first_of_each seen ts else t # first_of_each (mt_id t # seen) ts)"

definition getApplicableMetrics :: "doc_db \<Rightarrow> nat \<Rightarrow> string \<Rightarrow> nat option \<Rightarrow> metric_template list" where
  "getApplicableMetrics db unit ty reportorial =
     first_of_each [] (filter mt_active
       (List.map_filter (\<lambda>a. find_template db (ma_metric a)) (filter (applies unit ty reportorial) (dc_applicability db))))"

section \<open>Execution\<close>

definition metadata_of :: "doc_version \<Rightarrow> document \<Rightarrow> string \<Rightarrow> string" where
  "metadata_of v d name =
     (if name = ''fileName'' then file_name v else if name = ''documentType'' then document_type d
      else if name = ''period'' then doc_period d else if name = ''year'' then doc_year d
      else if name = ''title'' then doc_title d else [])"

definition run_check :: "doc_env \<Rightarrow> doc_version \<Rightarrow> document \<Rightarrow> metric_rule \<Rightarrow> check_result option" where
  "run_check env v d rule =
     (let text = (case doc_text d of Some s \<Rightarrow> s | None \<Rightarrow> [])
      in case rule of
           SectionRule required allPresent \<Rightarrow> Some (section_check text required allPresent)
         | KeywordRule r minMatches \<Rightarrow> Some (keyword_check text r minMatches)
         | PropertyRule r wanted \<Rightarrow> property_check (de_regexTest env) (metadata_of v d) text r wanted
         | DateRule r maxDays wanted \<Rightarrow>
             date_check (ver_created_at v)
               (calculateDeadline (de_regexMatch env) r (doc_period d) (doc_year d) (de_now env)) maxDays wanted)"

text \<open>A check that throws is recorded as an error.\<close>

definition result_row :: "doc_env \<Rightarrow> doc_version \<Rightarrow> document \<Rightarrow> nat \<Rightarrow> metric_template \<Rightarrow> metric_result" where
  "result_row env v d execution t =
     (let (st, sc, ev) = (case run_check env v d (mt_rule t) of
          Some r \<Rightarrow> (cr_status r, cr_score r, cr_evidence r) | None \<Rightarrow> (METRIC_ERROR, 0, NoEvidence))
      in \<lparr>mr_id = 0, mr_version = ver_id v, mr_template = mt_id t, execution_id = execution, mr_status = st,
          mr_score = sc, mr_evidence = ev, computed_at = de_now env\<rparr>)"

fun insert_results :: "metric_result list \<Rightarrow> doc_db \<Rightarrow> doc_db" where
  "insert_results [] db = db"
| "insert_results (r # rs) db =
     insert_results rs (db\<lparr>dc_results := dc_results db @ [r\<lparr>mr_id := dc_nextId db\<rparr>], dc_nextId := dc_nextId db + 1\<rparr>)"

definition computeMetrics :: "doc_env \<Rightarrow> nat \<Rightarrow> doc_db \<Rightarrow> metric_result list result \<times> doc_db" where
  "computeMetrics env n db =
     (case find_version db n of
        None \<Rightarrow> (Inl (NotFound (Doc DocVersionNotFound)), db)
      | Some v \<Rightarrow>
          (case find_document db (ver_document v) of
             None \<Rightarrow> (Inl InternalServerError, db)
           | Some d \<Rightarrow>
               let results = map (result_row env v d (dc_nextId db))
                     (getApplicableMetrics db (doc_unit d) (document_type d) (reportorial_doc_type_id d))
               in (Inr results, insert_results results (db\<lparr>dc_nextId := dc_nextId db + 1\<rparr>))))"

section \<open>The aggregate\<close>

record aggregate =
  total_score :: rat
  passed :: nat
  failed :: nat
  warnings :: nat
  errors :: nat

text \<open>The weight of a result whose template is loaded; 0 and a template that is not loaded count as 1.\<close>

definition weight_of :: "metric_template option \<Rightarrow> nat" where
  "weight_of t = (case t of Some t \<Rightarrow> if weight t = 0 then 1 else weight t | None \<Rightarrow> 1)"

definition calculateAggregateScore :: "(metric_result \<times> metric_template option) list \<Rightarrow> aggregate" where
  "calculateAggregateScore rs =
     (let totalWeightedScore = sum_list (map (\<lambda>(r, t). mr_score r * of_nat (weight_of t)) rs);
          totalWeight = sum_list (map (\<lambda>(r, t). weight_of t) rs);
          count = (\<lambda>st. length (filter (\<lambda>(r, t). mr_status r = st) rs))
      in \<lparr>total_score = (if totalWeight = 0 then 0
            else of_int (js_round (totalWeightedScore / of_nat totalWeight * 100)) / 100),
          passed = count PASS, failed = count FAIL, warnings = count WARNING, errors = count METRIC_ERROR\<rparr>)"

section \<open>The automatic review\<close>

text \<open>The results just saved have no \<open>metric_template\<close>: neither the weights nor the names of the checks are
  seen here.\<close>

definition unloaded :: "metric_result list \<Rightarrow> (metric_result \<times> metric_template option) list" where
  "unloaded rs = map (\<lambda>r. (r, None)) rs"

definition failed_result :: "metric_result \<Rightarrow> bool" where
  "failed_result r \<longleftrightarrow> mr_status r = FAIL \<or> mr_status r = METRIC_ERROR"

definition auto_findings :: "metric_result list \<Rightarrow> finding list" where
  "auto_findings rs = map (\<lambda>r. \<lparr>fd_category = ''Automated Check'', fd_description = None\<rparr>) (filter failed_result rs)"

definition auto_remarks :: string where
  "auto_remarks = ''Automated checks flagged this submission for revision:''"

definition is_auto_review :: "nat \<Rightarrow> nat \<Rightarrow> doc_review \<Rightarrow> bool" where
  "is_auto_review d v r \<longleftrightarrow> rv_document r = d \<and> rv_version r = v \<and> reviewer_id r = None"

fun update_first :: "('a \<Rightarrow> bool) \<Rightarrow> ('a \<Rightarrow> 'a) \<Rightarrow> 'a list \<Rightarrow> 'a list" where
  "update_first P f [] = []"
| "update_first P f (x # xs) = (if P x then f x # xs else x # update_first P f xs)"

definition write_auto_review :: "doc_env \<Rightarrow> nat \<Rightarrow> nat \<Rightarrow> metric_result list \<Rightarrow> doc_db \<Rightarrow> doc_db" where
  "write_auto_review env d v rs db =
     (if list_ex (is_auto_review d v) (dc_reviews db)
      then db\<lparr>dc_reviews := update_first (is_auto_review d v)
                (\<lambda>r. r\<lparr>decision := NEEDS_REVISION, rv_remarks := Some auto_remarks, rv_findings := auto_findings rs\<rparr>)
                (dc_reviews db)\<rparr>
      else insert_review \<lparr>rv_id = 0, rv_document = d, rv_version = v, decision = NEEDS_REVISION,
             rv_remarks = Some auto_remarks, rv_findings = auto_findings rs, reviewer_id = None,
             reviewed_at = de_now env\<rparr> db)"

definition computeMetricsAndAutoReview ::
  "doc_env \<Rightarrow> nat \<Rightarrow> doc_db \<Rightarrow> (metric_result list \<times> aggregate) result \<times> doc_db" where
  "computeMetricsAndAutoReview env n db =
     (case computeMetrics env n db of
        (Inl e, db1) \<Rightarrow> (Inl e, db1)
      | (Inr rs, db1) \<Rightarrow>
          let a = calculateAggregateScore (unloaded rs)
          in (Inr (rs, a),
              if 0 < failed a \<or> 0 < errors a
              then (case find_version db1 n of Some v \<Rightarrow> write_auto_review env (ver_document v) n rs db1 | None \<Rightarrow> db1)
              else db1))"

section \<open>Results of a version\<close>

definition getMetricResults :: "doc_db \<Rightarrow> nat \<Rightarrow> (metric_result \<times> metric_template option) list" where
  "getMetricResults db n =
     (let rows = filter (\<lambda>r. mr_version r = n) (dc_results db)
      in case oldest_by (\<lambda>r. - computed_at r) (rev rows) of
           None \<Rightarrow> []
         | Some latest \<Rightarrow>
             map (\<lambda>r. (r, find_template db (mr_template r)))
               (sort_key (\<lambda>r. - computed_at r) (filter (\<lambda>r. execution_id r = execution_id latest) rows)))"

definition getDocumentMetrics :: "doc_db \<Rightarrow> nat \<Rightarrow> (metric_result \<times> metric_template option) list \<times> aggregate" where
  "getDocumentMetrics db n =
     (let rs = (case live_document db n of
          None \<Rightarrow> []
        | Some d \<Rightarrow> (case current_of db d of None \<Rightarrow> [] | Some v \<Rightarrow> getMetricResults db (ver_id v)))
      in (rs, calculateAggregateScore rs))"

section \<open>Administration of templates\<close>

record applicability_dto =
  ad_unit :: "nat option"
  ad_document_type :: "string option"
  ad_reportorial :: "nat option"

definition zero_none :: "nat option \<Rightarrow> nat option" where
  "zero_none x = (if truthy x then x else None)"

definition applicability_row :: "nat \<Rightarrow> applicability_dto \<Rightarrow> metric_applicability" where
  "applicability_row n a =
     \<lparr>ma_metric = n, ma_unit = zero_none (ad_unit a), ma_document_type = ad_document_type a,
      ma_reportorial = zero_none (ad_reportorial a)\<rparr>"

definition createMetricTemplate ::
  "string \<Rightarrow> metric_rule \<Rightarrow> nat option \<Rightarrow> applicability_dto list \<Rightarrow> doc_db \<Rightarrow> doc_db" where
  "createMetricTemplate name rule w apps db =
     db\<lparr>dc_templates := dc_templates db @ [\<lparr>mt_id = dc_nextId db, mt_name = name, mt_rule = rule,
          weight = (case w of Some n \<Rightarrow> n | None \<Rightarrow> 1), mt_active = True\<rparr>],
        dc_applicability := dc_applicability db @ map (applicability_row (dc_nextId db)) apps,
        dc_nextId := dc_nextId db + 1\<rparr>"

record template_dto =
  td_name :: "string option"
  td_rule :: "metric_rule option"
  td_weight :: "nat option"
  td_active :: "bool option"
  td_applicability :: "applicability_dto list option"

definition or_stored :: "'a option \<Rightarrow> 'a \<Rightarrow> 'a" where
  "or_stored new old = (case new of Some x \<Rightarrow> x | None \<Rightarrow> old)"

definition updateMetricTemplate :: "nat \<Rightarrow> template_dto \<Rightarrow> doc_db \<Rightarrow> doc_db" where
  "updateMetricTemplate n dto db =
     (let db1 = db\<lparr>dc_templates := map (\<lambda>t. if mt_id t = n
            then t\<lparr>mt_name := or_stored (td_name dto) (mt_name t), mt_rule := or_stored (td_rule dto) (mt_rule t),
                   weight := or_stored (td_weight dto) (weight t), mt_active := or_stored (td_active dto) (mt_active t)\<rparr>
            else t) (dc_templates db)\<rparr>
      in case td_applicability dto of
           None \<Rightarrow> db1
         | Some apps \<Rightarrow> db1\<lparr>dc_applicability :=
             filter (\<lambda>a. ma_metric a \<noteq> n) (dc_applicability db1) @ map (applicability_row n) apps\<rparr>)"

definition deleteMetricTemplate :: "nat \<Rightarrow> doc_db \<Rightarrow> doc_db" where
  "deleteMetricTemplate n db =
     db\<lparr>dc_templates := map (\<lambda>t. if mt_id t = n then t\<lparr>mt_active := False\<rparr> else t) (dc_templates db)\<rparr>"

end
