(* ===== verification/Documents.thy ===== *)
theory Documents
  imports Metrics
begin

text \<open>
  Uploads, versions and the processing of documents (\<^verbatim>\<open>document.service.ts\<close>, \<^verbatim>\<open>version.service.ts\<close>,
  \<^verbatim>\<open>document.processor.ts\<close>).  A handler is one step; what it starts without waiting (\<open>void ...\<close>, jobs of the
  queue, timers) is a task that runs later, in any order.  The bytes on disk repeat the blobs of the tables and
  are left out, as is the generation of previews by the queue.
\<close>

section \<open>Files\<close>

text \<open>\<open>path.basename\<close>: the last part of a path.\<close>

definition path_basename :: "string \<Rightarrow> string" where
  "path_basename s =
     rev (takeWhile (\<lambda>c. c \<noteq> CHR ''/'') (dropWhile (\<lambda>c. c = CHR ''/'') (rev s)))"

definition safe_name :: "string \<Rightarrow> string" where
  "safe_name s = take 180 (map (\<lambda>c. if c \<in> set [CHR 0x0D, CHR 0x0A, CHR 0x22, CHR 0x5C, CHR ''/''] then CHR ''_'' else c)
     (path_basename s))"

definition ends_with :: "string \<Rightarrow> string \<Rightarrow> bool" where
  "ends_with suffix s \<longleftrightarrow> length suffix \<le> length s \<and> drop (length s - length suffix) s = suffix"

definition isDocx :: "string \<Rightarrow> bool" where "isDocx name = ends_with ''.docx'' (toLowerCase name)"
definition isPdf :: "string \<Rightarrow> bool" where "isPdf name = ends_with ''.pdf'' (toLowerCase name)"

definition bytes_of :: "string \<Rightarrow> byte list" where
  "bytes_of s = map (\<lambda>c. of_char c) s"

fun includes_bytes :: "byte list \<Rightarrow> byte list \<Rightarrow> bool" where
  "includes_bytes [] part = (part = [])"
| "includes_bytes (b # bs) part = (take (length part) (b # bs) = part \<or> includes_bytes bs part)"

definition isPdfSignature :: "byte list \<Rightarrow> bool" where
  "isPdfSignature bs \<longleftrightarrow> ascii (subarray bs 0 5) = ''%PDF-''"

definition isDocxSignature :: "byte list \<Rightarrow> bool" where
  "isDocxSignature bs \<longleftrightarrow> subarray bs 0 4 = [0x50, 0x4B, 0x03, 0x04]
     \<and> includes_bytes bs (bytes_of ''[Content_Types].xml'') \<and> includes_bytes bs (bytes_of ''word/'')"

definition valid_document :: "string \<Rightarrow> byte list \<Rightarrow> bool" where
  "valid_document name bs \<longleftrightarrow> (isPdf name \<or> isDocx name) \<and> (isPdf name \<longrightarrow> isPdfSignature bs)
     \<and> (isDocx name \<longrightarrow> isDocxSignature bs)"

text \<open>\<^verbatim>\<open>/\.(docx|pdf)$/i\<close> removed.\<close>

definition strip_extension :: "string \<Rightarrow> string" where
  "strip_extension s = (if isDocx s then take (length s - 5) s else if isPdf s then take (length s - 4) s else s)"

definition extractInitialText :: "doc_env \<Rightarrow> string \<Rightarrow> byte list \<Rightarrow> string" where
  "extractInitialText env original bs =
     (if isDocx original then (case de_docxText env bs of Some s \<Rightarrow> s | None \<Rightarrow> []) else [])"

text \<open>\<^verbatim>\<open>trim().replace(/\s+/g, ' ')\<close>.\<close>

fun collapse_spaces :: "string \<Rightarrow> string" where
  "collapse_spaces [] = []"
| "collapse_spaces [c] = [if js_space c then CHR '' '' else c]"
| "collapse_spaces (a # b # cs) =
     (if js_space a \<and> js_space b then collapse_spaces (b # cs)
      else (if js_space a then CHR '' '' else a) # collapse_spaces (b # cs))"

definition normalizeDocumentType :: "string \<Rightarrow> string" where
  "normalizeDocumentType s = collapse_spaces (trim s)"

section \<open>Submissions of focal persons\<close>

record upload_dto =
  ud_title :: string
  ud_document_type :: string
  ud_period :: string
  ud_year :: string
  ud_unit :: nat
  ud_uploader :: nat
  ud_role :: user_role
  ud_reportorial :: "nat option"
  ud_name :: string
  ud_file :: "byte list"

text \<open>A returned document makes room for its next submission, another one is in the way.\<close>

definition same_cycle :: "upload_dto \<Rightarrow> string \<Rightarrow> document \<Rightarrow> bool" where
  "same_cycle dto ty d \<longleftrightarrow> doc_unit d = ud_unit dto \<and> document_type d = ty \<and> doc_period d = ud_period dto
     \<and> doc_year d = ud_year dto \<and> uploaded_by d = ud_uploader dto \<and> \<not> is_deleted d"

definition same_reportorial :: "upload_dto \<Rightarrow> nat \<Rightarrow> string \<Rightarrow> string \<Rightarrow> document \<Rightarrow> bool" where
  "same_reportorial dto n period year d \<longleftrightarrow> doc_unit d = ud_unit dto \<and> reportorial_doc_type_id d = Some n
     \<and> doc_period d = period \<and> doc_year d = year \<and> uploaded_by d = ud_uploader dto \<and> \<not> is_deleted d"

definition make_room :: "document option \<Rightarrow> doc_db \<Rightarrow> unit result \<times> doc_db" where
  "make_room found db =
     (case found of
        None \<Rightarrow> (Inr (), db)
      | Some d \<Rightarrow>
          if returned_review (latest_review db (doc_id d))
          then (Inr (), update_document (doc_id d) (\<lambda>d. d\<lparr>is_deleted := True\<rparr>) db)
          else (Inl (Conflict (Doc DocSubmitted)), db))"

definition find_assignment :: "upload_dto \<Rightarrow> string \<Rightarrow> doc_db \<Rightarrow> doc_assignment option" where
  "find_assignment dto ty db = List.find (\<lambda>a. as_user a = ud_uploader dto \<and> as_unit a = ud_unit dto
     \<and> as_document_type a = ty \<and> as_active a) (dc_assignments db)"

definition validateFocalSubmission :: "upload_dto \<Rightarrow> string \<Rightarrow> string \<Rightarrow> doc_db \<Rightarrow> unit result \<times> doc_db" where
  "validateFocalSubmission dto ty fileName db =
     (case find_assignment dto ty db of
        None \<Rightarrow> (Inl (BadRequest (Doc DocNoAssignment)), db)
      | Some a \<Rightarrow>
          (case make_room (List.find (same_cycle dto ty) (dc_documents db)) db of
             (Inl e, db1) \<Rightarrow> (Inl e, db1)
           | (Inr _, db1) \<Rightarrow>
               (case buildExpectedFileBase a (ud_period dto) (ud_year dto) of
                  Inl e \<Rightarrow> (Inl e, db1)
                | Inr base \<Rightarrow>
                    if base \<noteq> [] \<and> toUpperCase (strip_extension fileName) \<noteq> base
                    then (Inl (BadRequest (Doc DocFileName)), db1) else (Inr (), db1))))"

section \<open>Upload\<close>

definition current_year :: "doc_env \<Rightarrow> string" where
  "current_year env = show_nat (nat (getFullYear (de_now env)))"

text \<open>The parts of the request name the period, else today does.\<close>

definition has_parts :: "upload_dto \<Rightarrow> reportorial_type \<Rightarrow> bool" where
  "has_parts dto rt \<longleftrightarrow> ud_year dto \<noteq> [] \<and> (ud_period dto \<noteq> [] \<or> submission_frequency rt = ANNUAL)"

definition expected_name :: "doc_env \<Rightarrow> upload_dto \<Rightarrow> reportorial_type \<Rightarrow> string" where
  "expected_name env dto rt =
     (if has_parts dto rt then computeExpectedFilenameFromParts rt (ud_year dto) (ud_period dto) (de_now env)
      else computeExpectedFilename rt (de_now env))"

definition period_suffix :: "doc_env \<Rightarrow> upload_dto \<Rightarrow> reportorial_type \<Rightarrow> string" where
  "period_suffix env dto rt =
     (if has_parts dto rt
      then computePeriodSuffixFromParts (submission_frequency rt) (ud_year dto) (ud_period dto) (de_now env)
      else computePeriodSuffix (submission_frequency rt) (de_now env))"

text \<open>What is stored of a report: title, type, period and year.\<close>

record filing =
  fl_title :: string
  fl_type :: string
  fl_period :: string
  fl_year :: string

definition reportorial_filing :: "doc_env \<Rightarrow> upload_dto \<Rightarrow> string \<Rightarrow> doc_db \<Rightarrow> filing result" where
  "reportorial_filing env dto name db =
     (let year = (if ud_year dto = [] then current_year env else ud_year dto)
      in if \<not> truthy (ud_reportorial dto)
         then Inr \<lparr>fl_title = ud_title dto, fl_type = normalizeDocumentType (ud_document_type dto),
                   fl_period = ud_period dto, fl_year = year\<rparr>
         else (case find_row rt_id (dc_types db) (number (ud_reportorial dto)) of
             None \<Rightarrow> Inl (BadRequest (Doc DocTypeInvalid))
           | Some rt \<Rightarrow>
               if strip_extension name \<noteq> expected_name env dto rt then Inl (BadRequest (Doc DocFileName))
               else Inr \<lparr>fl_title = display_name rt, fl_type = display_name rt, fl_period = period_suffix env dto rt,
                         fl_year = year\<rparr>))"

definition room_for_report :: "doc_env \<Rightarrow> upload_dto \<Rightarrow> filing \<Rightarrow> doc_db \<Rightarrow> unit result \<times> doc_db" where
  "room_for_report env dto fl db =
     (if isFocal (de_caps env) (ud_role dto) \<and> truthy (ud_reportorial dto)
      then make_room (List.find (same_reportorial dto (number (ud_reportorial dto)) (fl_period fl) (fl_year fl))
             (dc_documents db)) db
      else (Inr (), db))"

definition new_document :: "doc_env \<Rightarrow> upload_dto \<Rightarrow> filing \<Rightarrow> string \<Rightarrow> nat \<Rightarrow> document" where
  "new_document env dto fl text n =
     \<lparr>doc_id = n, doc_title = fl_title fl, document_type = fl_type fl, doc_period = fl_period fl, doc_year = fl_year fl,
      reportorial_doc_type_id = zero_none (ud_reportorial dto), doc_status = DOC_PENDING, current_version = 1,
      doc_text = Some text, doc_unit = ud_unit dto, uploaded_by = ud_uploader dto, doc_created_at = de_now env,
      is_deleted = False\<rparr>"

definition new_version ::
  "doc_env \<Rightarrow> nat \<Rightarrow> nat \<Rightarrow> nat \<Rightarrow> string \<Rightarrow> byte list \<Rightarrow> string \<Rightarrow> string option \<Rightarrow> nat \<Rightarrow> doc_version" where
  "new_version env n d k name file text notes user =
     \<lparr>ver_id = n, ver_document = d, version_number = k, file_name = name, mime_pdf = isPdf name, file_blob = file,
      checksum = calculateChecksum env file, preview_blob = (if isPdf name then Some (PdfPreview file) else None),
      ver_text = Some text, change_notes = notes, ver_uploader = user, ver_created_at = de_now env\<rparr>"

text \<open>Text that was extracted at once makes the document ready; else its processing is started.\<close>

definition store_document :: "doc_env \<Rightarrow> upload_dto \<Rightarrow> filing \<Rightarrow> string \<Rightarrow> doc_db \<Rightarrow> document \<times> doc_db" where
  "store_document env dto fl name db =
     (let text = extractInitialText env (ud_name dto) (ud_file dto); n = dc_nextId db; v = n + 1;
          d = new_document env dto fl text n;
          db1 = db\<lparr>dc_documents := dc_documents db @ [d],
                   dc_versions := dc_versions db @ [new_version env v n 1 name (ud_file dto) text None (ud_uploader dto)],
                   dc_nextId := n + 2\<rparr>
      in if trim text \<noteq> []
         then (d\<lparr>doc_status := DOC_READY\<rparr>,
               add_task (KickMetrics v) (update_document n (\<lambda>d. d\<lparr>doc_status := DOC_READY\<rparr>) db1))
         else (d, add_task (KickProcess n v) db1))"

definition uploadDocument :: "doc_env \<Rightarrow> upload_dto \<Rightarrow> doc_db \<Rightarrow> document result \<times> doc_db" where
  "uploadDocument env dto db =
     (let name = safe_name (ud_name dto); ty = normalizeDocumentType (ud_document_type dto)
      in if \<not> valid_document name (ud_file dto) then (Inl (BadRequest (Doc DocFileType)), db)
         else (case (if isFocal (de_caps env) (ud_role dto) \<and> \<not> truthy (ud_reportorial dto)
                     then validateFocalSubmission dto ty name db else (Inr (), db)) of
             (Inl e, db1) \<Rightarrow> (Inl e, db1)
           | (Inr _, db1) \<Rightarrow>
               (case reportorial_filing env dto name db1 of
                  Inl e \<Rightarrow> (Inl e, db1)
                | Inr fl \<Rightarrow>
                    (case room_for_report env dto fl db1 of
                       (Inl e, db2) \<Rightarrow> (Inl e, db2)
                     | (Inr _, db2) \<Rightarrow>
                         let (d, db3) = store_document env dto fl name db2 in (Inr d, db3)))))"

text \<open>\<^verbatim>\<open>/\/document\/d\/([a-zA-Z0-9_-]+)/\<close> on the path of a URL of \<open>docs.google.com\<close>; the host and the path of the
  URL are what \<open>new URL\<close> finds.\<close>

fun google_doc_path :: "string \<Rightarrow> string option" where
  "google_doc_path [] = None"
| "google_doc_path (c # cs) =
     (let ident = takeWhile (\<lambda>c. is_alphanumeric c \<or> c = CHR ''_'' \<or> c = CHR ''-'') (drop 12 (c # cs))
      in if take 12 (c # cs) = ''/document/d/'' \<and> ident \<noteq> [] then Some ident else google_doc_path cs)"

definition extractGoogleDocId :: "(string \<times> string) option \<Rightarrow> string option" where
  "extractGoogleDocId url =
     (case url of Some (host, path) \<Rightarrow> if host = ''docs.google.com'' then google_doc_path path else None | None \<Rightarrow> None)"

definition google_file_name :: "string \<Rightarrow> string \<Rightarrow> string" where
  "google_file_name given ident =
     (let name = trim given
      in if name = [] then ''google-doc-'' @ ident @ ''.docx'' else if isDocx name then name else name @ ''.docx'')"

definition uploadGoogleDoc ::
  "doc_env \<Rightarrow> upload_dto \<Rightarrow> (string \<times> string) option \<Rightarrow> string \<Rightarrow> doc_db \<Rightarrow> document result \<times> doc_db" where
  "uploadGoogleDoc env dto url given db =
     (case extractGoogleDocId url of
        None \<Rightarrow> (Inl (BadRequest (Doc DocGoogleUrl)), db)
      | Some ident \<Rightarrow>
          (case de_export env ident of
             None \<Rightarrow> (Inl (BadRequest (Doc DocGoogleExport)), db)
           | Some bytes \<Rightarrow>
               if 50 * 1024 * 1024 < length bytes then (Inl (BadRequest (Doc DocGoogleSize)), db)
               else uploadDocument env (dto\<lparr>ud_name := google_file_name given ident, ud_file := bytes\<rparr>) db))"

section \<open>Versions\<close>

definition latest_version :: "doc_db \<Rightarrow> nat \<Rightarrow> doc_version option" where
  "latest_version db n = oldest_by (\<lambda>v. - int (version_number v)) (versions_of db n)"

definition createVersion ::
  "doc_env \<Rightarrow> nat \<Rightarrow> nat \<Rightarrow> string option \<Rightarrow> string \<Rightarrow> byte list \<Rightarrow> doc_db \<Rightarrow> doc_version result \<times> doc_db" where
  "createVersion env n user notes original file db =
     (let name = safe_name original; latest = latest_version db n
      in case live_document db n of
           None \<Rightarrow> (Inl (NotFound (Doc DocNotFound)), db)
         | Some d \<Rightarrow>
             if \<not> valid_document name file then (Inl (BadRequest (Doc DocFileType)), db)
             else if (case latest of Some v \<Rightarrow> checksum v = calculateChecksum env file | None \<Rightarrow> False)
             then (Inl (BadRequest (Doc DocIdentical)), db)
             else let k = (case latest of Some v \<Rightarrow> version_number v + 1 | None \<Rightarrow> 1);
                      text = extractInitialText env original file;
                      v = new_version env (dc_nextId db) n k name file text notes user;
                      db1 = db\<lparr>dc_versions := dc_versions db @ [v], dc_nextId := dc_nextId db + 1\<rparr>;
                      db2 = update_document n
                        (\<lambda>d. d\<lparr>current_version := k, doc_status := DOC_READY, doc_text := Some text\<rparr>) db1
                  in (Inr v, if de_queue env then add_task (ProcessJob n (ver_id v)) db2 else db2))"

text \<open>Reading a version: \<open>actor\<close> is the id, the role and the units of who asks.\<close>

definition version_access :: "doc_env \<Rightarrow> nat \<times> user_role \<times> nat list \<Rightarrow> document option \<Rightarrow> bool" where
  "version_access env actor found =
     (case actor of (n, role, units) \<Rightarrow>
        has_capability (de_caps env) CapDocumentsAccess role
        \<or> (case found of Some d \<Rightarrow> uploaded_by d = n \<or> doc_unit d \<in> set units | None \<Rightarrow> False))"

definition getVersionWithBlobs :: "doc_env \<Rightarrow> nat \<Rightarrow> nat \<times> user_role \<times> nat list \<Rightarrow> doc_db \<Rightarrow> doc_version result" where
  "getVersionWithBlobs env n actor db =
     (case find_version db n of
        None \<Rightarrow> Inl (NotFound (Doc DocVersionNotFound))
      | Some v \<Rightarrow>
          if version_access env actor (find_document db (ver_document v)) then Inr v
          else Inl (Forbidden (Doc DocAccess)))"

definition downloadVersion :: "doc_env \<Rightarrow> nat \<Rightarrow> nat \<times> user_role \<times> nat list \<Rightarrow> doc_db \<Rightarrow> (byte list \<times> string) result" where
  "downloadVersion env n actor db =
     and_then (getVersionWithBlobs env n actor db) (\<lambda>v. Inr (file_blob v, file_name v))"

text \<open>A preview made on demand is kept.\<close>

definition getPreview :: "doc_env \<Rightarrow> nat \<Rightarrow> nat \<times> user_role \<times> nat list \<Rightarrow> doc_db \<Rightarrow> preview result \<times> doc_db" where
  "getPreview env n actor db =
     (case getVersionWithBlobs env n actor db of
        Inl e \<Rightarrow> (Inl e, db)
      | Inr v \<Rightarrow>
          (case preview_blob v of
             Some p \<Rightarrow> (Inr p, db)
           | None \<Rightarrow>
               if mime_pdf v \<or> isPdf (file_name v) then (Inr (PdfPreview (file_blob v)), db)
               else (case de_docxHtml env (file_blob v) of
                   Some html \<Rightarrow> (Inr (HtmlPreview html),
                                 update_version n (\<lambda>v. v\<lparr>preview_blob := Some (HtmlPreview html)\<rparr>) db)
                 | None \<Rightarrow> (Inl (NotFound (Doc DocPreview)), db))))"

section \<open>Processing\<close>

definition extracted_text :: "doc_env \<Rightarrow> doc_version \<Rightarrow> string" where
  "extracted_text env v =
     (case (if mime_pdf v \<or> isPdf (file_name v) then de_pdfText env (file_blob v) else de_docxText env (file_blob v)) of
        Some s \<Rightarrow> s | None \<Rightarrow> [])"

definition set_status :: "nat \<Rightarrow> document_status \<Rightarrow> doc_db \<Rightarrow> doc_db" where
  "set_status n s = update_document n (\<lambda>d. d\<lparr>doc_status := s\<rparr>)"

text \<open>What the processing in line and the job of the queue share: the text of the version becomes the text of the
  document, which is ready.\<close>

definition store_text :: "doc_env \<Rightarrow> nat \<Rightarrow> doc_version \<Rightarrow> doc_db \<Rightarrow> doc_db" where
  "store_text env n v db =
     (let text = extracted_text env v
      in update_version (ver_id v) (\<lambda>v. v\<lparr>ver_text := Some text\<rparr>)
           (update_document n (\<lambda>d. d\<lparr>doc_text := Some text, doc_status := DOC_READY\<rparr>) db))"

definition metrics_only :: "doc_env \<Rightarrow> nat \<Rightarrow> doc_db \<Rightarrow> unit result \<times> doc_db" where
  "metrics_only env v db =
     (case computeMetricsAndAutoReview env v db of (Inl e, db1) \<Rightarrow> (Inl e, db1) | (Inr _, db1) \<Rightarrow> (Inr (), db1))"

definition processDocumentInline :: "doc_env \<Rightarrow> nat \<Rightarrow> nat \<Rightarrow> doc_db \<Rightarrow> unit result \<times> doc_db" where
  "processDocumentInline env n v db =
     (let db1 = set_status n DOC_PROCESSING db
      in case find_version db1 v of
           None \<Rightarrow> (Inl (NotFound (Doc DocVersionNotFound)), db1)
         | Some r \<Rightarrow> metrics_only env v (store_text env n r db1))"

definition enqueueMetricsOrFallback :: "doc_env \<Rightarrow> nat \<Rightarrow> doc_db \<Rightarrow> unit result \<times> doc_db" where
  "enqueueMetricsOrFallback env v db =
     (if de_queue env then (Inr (), add_task (MetricsWatchdog v) (add_task (MetricsJob v) db))
      else metrics_only env v db)"

definition enqueueProcessOrFallback :: "doc_env \<Rightarrow> nat \<Rightarrow> nat \<Rightarrow> doc_db \<Rightarrow> unit result \<times> doc_db" where
  "enqueueProcessOrFallback env n v db =
     (if de_queue env then (Inr (), add_task (ProcessWatchdog n v) (add_task (ProcessJob n v) db))
      else processDocumentInline env n v db)"

text \<open>\<open>handleDocumentProcessing\<close>: an error leaves the document failed.\<close>

definition handleDocumentProcessing :: "doc_env \<Rightarrow> nat \<Rightarrow> nat \<Rightarrow> doc_db \<Rightarrow> doc_db" where
  "handleDocumentProcessing env n v db =
     (let db1 = set_status n DOC_PROCESSING db
      in case find_version db1 v of
           None \<Rightarrow> set_status n DOC_FAILED db1
         | Some r \<Rightarrow> add_task (MetricsJob v) (store_text env n r db1))"

text \<open>The tasks that run later, each with its own handling of errors.\<close>

fun run_task :: "doc_env \<Rightarrow> task \<Rightarrow> doc_db \<Rightarrow> doc_db" where
  "run_task env (KickProcess n v) db =
     (case enqueueProcessOrFallback env n v db of (Inl _, db1) \<Rightarrow> set_status n DOC_FAILED db1 | (Inr _, db1) \<Rightarrow> db1)"
| "run_task env (KickMetrics v) db = snd (enqueueMetricsOrFallback env v db)"
| "run_task env (ProcessJob n v) db = handleDocumentProcessing env n v db"
| "run_task env (MetricsJob v) db = snd (metrics_only env v db)"
| "run_task env (ProcessWatchdog n v) db =
     (case find_document db n of
        Some d \<Rightarrow> if \<not> is_deleted d \<and> doc_status d = DOC_PENDING then snd (processDocumentInline env n v db) else db
      | None \<Rightarrow> db)"
| "run_task env (MetricsWatchdog v) db =
     (if getMetricResults db v \<noteq> [] then db else snd (metrics_only env v db))"

text \<open>The recovery at start-up, and the reprocessing an administrator asks for.\<close>

definition recover :: "doc_env \<Rightarrow> document \<Rightarrow> doc_version \<Rightarrow> doc_db \<Rightarrow> unit result \<times> doc_db" where
  "recover env d v db =
     (if doc_text d \<noteq> None then enqueueMetricsOrFallback env (ver_id v) (set_status (doc_id d) DOC_READY db)
      else enqueueProcessOrFallback env (doc_id d) (ver_id v) db)"

definition stuck_documents :: "doc_db \<Rightarrow> document list" where
  "stuck_documents db = filter (\<lambda>d. (doc_status d = DOC_PENDING \<or> doc_status d = DOC_PROCESSING) \<and> \<not> is_deleted d)
     (dc_documents db)"

definition onModuleInit :: "doc_env \<Rightarrow> doc_db \<Rightarrow> doc_db" where
  "onModuleInit env db =
     fold (\<lambda>(d, found) db1. case found of Some v \<Rightarrow> snd (recover env d v db1) | None \<Rightarrow> db1)
       (map (\<lambda>d. (d, current_of db d)) (stuck_documents db)) db"

definition reprocessDocument :: "doc_env \<Rightarrow> nat \<Rightarrow> doc_db \<Rightarrow> unit result \<times> doc_db" where
  "reprocessDocument env n db =
     (case find_document db n of
        None \<Rightarrow> (Inl (NotFound (Doc DocNotFound)), db)
      | Some d \<Rightarrow>
          (case current_of db d of
             None \<Rightarrow> (Inl (BadRequest (Doc DocVersionNotFound)), db)
           | Some v \<Rightarrow>
               if doc_text d \<noteq> None then enqueueMetricsOrFallback env (ver_id v) (set_status n DOC_READY db)
               else enqueueProcessOrFallback env n (ver_id v) (set_status n DOC_PENDING db)))"

end
