(* ===== verification/DocWorkflow.thy ===== *)
theory DocWorkflow
  imports Documents "HOL-Library.Product_Lexorder"
begin

text \<open>
  The workflow of submitted documents: reviews (\<^verbatim>\<open>review.service.ts\<close>), return, archive, deletion, references,
  assignments and the repository (\<^verbatim>\<open>document.service.ts\<close>), the types of reports
  (\<^verbatim>\<open>reportorial-doc-type.service.ts\<close>) and the comparison of versions (\<^verbatim>\<open>comparison.service.ts\<close>).
\<close>

section \<open>Reviews\<close>

record review_dto =
  rd_decision :: review_decision
  rd_remarks :: "string option"
  rd_findings :: "finding list"
  rd_reviewer :: nat

definition sends_back :: "review_decision \<Rightarrow> bool" where
  "sends_back x \<longleftrightarrow> x = NEEDS_REVISION \<or> x = NON_COMPLIANT"

definition review_guard :: "review_dto \<Rightarrow> document option \<Rightarrow> doc_version option \<Rightarrow> http_error option" where
  "review_guard dto found version =
     (case found of
        None \<Rightarrow> Some (NotFound (Doc DocNotFound))
      | Some d \<Rightarrow> first_error [
          (sends_back (rd_decision dto) \<and> blank (rd_remarks dto), BadRequest (Doc DocRemarks)),
          (sends_back (rd_decision dto) \<and> doc_status d \<noteq> DOC_PENDING \<and> doc_status d \<noteq> DOC_READY,
           BadRequest (Doc DocProcessing)),
          (version = None, NotFound (Doc DocVersionNotFound))])"

definition current_version_of :: "doc_db \<Rightarrow> document option \<Rightarrow> doc_version option" where
  "current_version_of db found = (case found of Some d \<Rightarrow> current_of db d | None \<Rightarrow> None)"

definition manual_review :: "doc_env \<Rightarrow> nat \<Rightarrow> nat \<Rightarrow> review_dto \<Rightarrow> doc_review" where
  "manual_review env d v dto =
     \<lparr>rv_id = 0, rv_document = d, rv_version = v, decision = rd_decision dto, rv_remarks = rd_remarks dto,
      rv_findings = rd_findings dto, reviewer_id = Some (rd_reviewer dto), reviewed_at = de_now env\<rparr>"

definition submitReview :: "doc_env \<Rightarrow> nat \<Rightarrow> review_dto \<Rightarrow> doc_db \<Rightarrow> doc_review result \<times> doc_db" where
  "submitReview env n dto db =
     (let found = live_document db n; version = current_version_of db found
      in case review_guard dto found version of
           Some e \<Rightarrow> (Inl e, db)
         | None \<Rightarrow>
             let r = manual_review env n (ver_id (the version)) dto
             in (Inr (r\<lparr>rv_id := dc_nextId db\<rparr>),
                 set_status n (if rd_decision dto = COMPLIANT then DOC_READY else DOC_PENDING) (insert_review r db)))"

text \<open>\<open>uploader\<close> is neither a column nor a relation of \<open>Document\<close>: a document that was read from its repository
  has none, and the role of the uploader is \<open>undefined\<close>.\<close>

definition uploader_role :: "document \<Rightarrow> user_role option" where
  "uploader_role d = None"

definition uploader_deletes :: "doc_env \<Rightarrow> document \<Rightarrow> bool" where
  "uploader_deletes env d =
     (case uploader_role d of Some role \<Rightarrow> has_capability (de_caps env) CapDocumentsDelete role | None \<Rightarrow> False)"

definition return_guard :: "doc_env \<Rightarrow> string \<Rightarrow> document option \<Rightarrow> doc_version option \<Rightarrow> http_error option" where
  "return_guard env remarks found version =
     (if trim remarks = [] then Some (BadRequest (Doc DocRemarks))
      else (case found of
          None \<Rightarrow> Some (NotFound (Doc DocNotFound))
        | Some d \<Rightarrow> first_error [
            (uploader_deletes env d, BadRequest (Doc DocHardDelete)),
            (doc_status d = DOC_PROCESSING \<or> doc_status d = DOC_FAILED, BadRequest (Doc DocProcessing)),
            (version = None, NotFound (Doc DocVersionNotFound))]))"

definition returnDocumentForRevision :: "doc_env \<Rightarrow> nat \<Rightarrow> string \<Rightarrow> nat \<Rightarrow> doc_db \<Rightarrow> doc_review result \<times> doc_db" where
  "returnDocumentForRevision env n remarks returnedBy db =
     (let found = live_document db n; version = current_version_of db found
      in case return_guard env remarks found version of
           Some e \<Rightarrow> (Inl e, db)
         | None \<Rightarrow>
             let r = manual_review env n (ver_id (the version))
                   \<lparr>rd_decision = NEEDS_REVISION, rd_remarks = Some (trim remarks), rd_findings = [], rd_reviewer = returnedBy\<rparr>
             in (Inr (r\<lparr>rv_id := dc_nextId db\<rparr>), set_status n DOC_PENDING (insert_review r db)))"

section \<open>Archive and deletion\<close>

definition archive_guard :: "document option \<Rightarrow> nat \<Rightarrow> doc_review option \<Rightarrow> http_error option" where
  "archive_guard found actor latest =
     (case found of
        None \<Rightarrow> Some (NotFound (Doc DocNotFound))
      | Some d \<Rightarrow> first_error [
          (uploaded_by d \<noteq> actor, BadRequest (Doc DocNotOwner)),
          (\<not> returned_review latest, BadRequest (Doc DocNotReturned))])"

definition archiveDocument :: "nat \<Rightarrow> nat \<Rightarrow> doc_db \<Rightarrow> unit result \<times> doc_db" where
  "archiveDocument n actor db =
     (case archive_guard (live_document db n) actor (latest_review db n) of
        Some e \<Rightarrow> (Inl e, db)
      | None \<Rightarrow> (Inr (), update_document n (\<lambda>d. d\<lparr>is_deleted := True\<rparr>) db))"

definition linked_count :: "doc_db \<Rightarrow> nat \<Rightarrow> nat" where
  "linked_count db n = count_rows (\<lambda>(d, _). d = n) (dc_issuanceLinks db)
     + count_rows (\<lambda>r. rf_source r = n) (dc_references db) + count_rows (\<lambda>r. rf_target r = n) (dc_references db)"

text \<open>\<open>compliance_status\<close>: the latest decision, \<open>None\<close> for \<open>'pending'\<close>.\<close>

definition compliance_status :: "doc_db \<Rightarrow> nat \<Rightarrow> review_decision option" where
  "compliance_status db n = map_option decision (latest_review db n)"

text \<open>The rows that hang on a document go with it (\<open>onDelete: 'CASCADE'\<close>).\<close>

definition remove_document :: "nat \<Rightarrow> doc_db \<Rightarrow> doc_db" where
  "remove_document n db =
     db\<lparr>dc_documents := filter (\<lambda>d. doc_id d \<noteq> n) (dc_documents db),
        dc_versions := filter (\<lambda>v. ver_document v \<noteq> n) (dc_versions db),
        dc_reviews := filter (\<lambda>r. rv_document r \<noteq> n) (dc_reviews db),
        dc_references := filter (\<lambda>r. rf_source r \<noteq> n \<and> rf_target r \<noteq> n) (dc_references db),
        dc_comparisons := filter (\<lambda>c. vc_document c \<noteq> n) (dc_comparisons db),
        dc_results := filter (\<lambda>r. \<not> list_ex (\<lambda>v. ver_id v = mr_version r \<and> ver_document v = n) (dc_versions db)) (dc_results db)\<rparr>"

definition deleteDocument :: "doc_env \<Rightarrow> nat \<Rightarrow> doc_db \<Rightarrow> unit result \<times> doc_db" where
  "deleteDocument env n db =
     (case live_document db n of
        None \<Rightarrow> (Inl (NotFound (Doc DocNotFound)), db)
      | Some d \<Rightarrow>
          if 0 < linked_count db n then (Inl (BadRequest (Doc DocLinked)), db)
          else if uploader_deletes env d then (Inr (), remove_document n db)
          else if compliance_status db n \<noteq> Some COMPLIANT then (Inl (BadRequest (Doc DocNotCompliant)), db)
          else (Inr (), update_document n (\<lambda>d. d\<lparr>is_deleted := True\<rparr>) db))"

section \<open>References\<close>

definition link_guard :: "doc_db \<Rightarrow> nat \<Rightarrow> nat \<Rightarrow> http_error option" where
  "link_guard db s t =
     (if s = t then Some (BadRequest (Doc DocSelfReference))
      else (case (live_document db s, live_document db t) of
          (Some a, Some b) \<Rightarrow> first_error [
            (doc_status a \<noteq> DOC_READY \<or> doc_status b \<noteq> DOC_READY, BadRequest (Doc DocNotReady)),
            (list_ex (\<lambda>r. rf_source r = s \<and> rf_target r = t) (dc_references db), Conflict (Doc DocReferenceExists))]
        | _ \<Rightarrow> Some (NotFound (Doc DocNotFound))))"

definition linkDocumentReference :: "nat \<Rightarrow> nat \<Rightarrow> nat option \<Rightarrow> string \<Rightarrow> doc_db \<Rightarrow> doc_reference result \<times> doc_db" where
  "linkDocumentReference s t user kind db =
     (case link_guard db s t of
        Some e \<Rightarrow> (Inl e, db)
      | None \<Rightarrow>
          let r = \<lparr>rf_source = s, rf_target = t,
                   relationship_type = (if trim kind = [] then ''references'' else trim kind), rf_created_by = zero_none user\<rparr>
          in (Inr r, db\<lparr>dc_references := dc_references db @ [r]\<rparr>))"

definition unlinkDocumentReference :: "nat \<Rightarrow> nat \<Rightarrow> doc_db \<Rightarrow> unit result \<times> doc_db" where
  "unlinkDocumentReference s t db =
     (let P = (\<lambda>r. rf_source r = s \<and> rf_target r = t)
      in if list_ex P (dc_references db) then (Inr (), db\<lparr>dc_references := filter (\<lambda>r. \<not> P r) (dc_references db)\<rparr>)
         else (Inl (NotFound (Doc DocReferenceNotFound)), db))"

section \<open>Assignments\<close>

record assignment_dto =
  sd_user :: nat
  sd_unit :: "nat option"
  sd_type :: "string option"
  sd_report_name :: "string option"
  sd_prefix :: "string option"
  sd_frequency :: "frequency option"
  sd_month :: "nat option"
  sd_active :: "bool option"

definition assignment_key :: "doc_assignment \<Rightarrow> nat \<times> nat \<times> string" where
  "assignment_key a = (as_user a, as_unit a, as_document_type a)"

definition createAssignment :: "assignment_dto \<Rightarrow> doc_db \<Rightarrow> doc_assignment result \<times> doc_db" where
  "createAssignment dto db =
     (let a = \<lparr>as_id = dc_nextId db, as_user = sd_user dto, as_unit = or_stored (sd_unit dto) 0,
               as_document_type = normalizeDocumentType (or_stored (sd_type dto) []), report_name = sd_report_name dto,
               filename_prefix = map_option (\<lambda>s. toUpperCase (trim s)) (sd_prefix dto),
               as_frequency = or_stored (sd_frequency dto) MONTHLY, submission_month = sd_month dto,
               as_active = or_stored (sd_active dto) True\<rparr>
      in if list_ex (\<lambda>b. assignment_key b = assignment_key a) (dc_assignments db)
         then (Inl (Conflict (Doc DocAssignmentExists)), db)
         else (Inr a, db\<lparr>dc_assignments := dc_assignments db @ [a], dc_nextId := dc_nextId db + 1\<rparr>))"

text \<open>The table refuses a second assignment of a person, unit and type (\<open>uq_assignment_user_unit_type\<close>).\<close>

definition edited_assignment :: "assignment_dto \<Rightarrow> doc_assignment \<Rightarrow> doc_assignment" where
  "edited_assignment dto a =
     a\<lparr>as_unit := or_stored (sd_unit dto) (as_unit a),
       as_document_type := (case sd_type dto of Some s \<Rightarrow> normalizeDocumentType s | None \<Rightarrow> as_document_type a),
       report_name := (case sd_report_name dto of Some s \<Rightarrow> Some s | None \<Rightarrow> report_name a),
       filename_prefix := (case sd_prefix dto of Some s \<Rightarrow> Some (toUpperCase (trim s)) | None \<Rightarrow> filename_prefix a),
       as_frequency := or_stored (sd_frequency dto) (as_frequency a),
       submission_month := (case sd_month dto of Some m \<Rightarrow> Some m | None \<Rightarrow> submission_month a),
       as_active := or_stored (sd_active dto) (as_active a)\<rparr>"

definition updateAssignment :: "nat \<Rightarrow> assignment_dto \<Rightarrow> doc_db \<Rightarrow> doc_assignment result \<times> doc_db" where
  "updateAssignment n dto db =
     (case find_row as_id (dc_assignments db) n of
        None \<Rightarrow> (Inl (NotFound (Doc DocAssignmentNotFound)), db)
      | Some a \<Rightarrow>
          let b = edited_assignment dto a
          in if list_ex (\<lambda>x. as_id x \<noteq> n \<and> assignment_key x = assignment_key b) (dc_assignments db)
             then (Inl InternalServerError, db)
             else (Inr b, db\<lparr>dc_assignments := save_row as_id (dc_assignments db) b\<rparr>))"

definition deleteDocAssignment :: "nat \<Rightarrow> doc_db \<Rightarrow> unit result \<times> doc_db" where
  "deleteDocAssignment n db =
     (if list_ex (\<lambda>a. as_id a = n) (dc_assignments db)
      then (Inr (), db\<lparr>dc_assignments := filter (\<lambda>a. as_id a \<noteq> n) (dc_assignments db)\<rparr>)
      else (Inl (NotFound (Doc DocAssignmentNotFound)), db))"

text \<open>What a focal person still has to submit; the error of a period of the wrong form ends the request.\<close>

definition submitted :: "doc_db \<Rightarrow> nat \<Rightarrow> doc_assignment \<Rightarrow> string \<Rightarrow> string \<Rightarrow> bool" where
  "submitted db user a period year \<longleftrightarrow> list_ex (\<lambda>d. doc_unit d = as_unit a \<and> document_type d = as_document_type a
     \<and> doc_period d = period \<and> doc_year d = year \<and> uploaded_by d = user \<and> \<not> is_deleted d) (dc_documents db)"

fun upload_options ::
  "doc_db \<Rightarrow> nat \<Rightarrow> string \<Rightarrow> string \<Rightarrow> doc_assignment list \<Rightarrow> (doc_assignment \<times> string) list result" where
  "upload_options db user period year [] = Inr []"
| "upload_options db user period year (a # as) =
     (if submitted db user a period year then upload_options db user period year as
      else and_then (buildExpectedFileBase a period year)
             (\<lambda>base. and_then (upload_options db user period year as) (\<lambda>os. Inr ((a, base) # os))))"

definition getAvailableUploadOptions ::
  "doc_db \<Rightarrow> nat \<Rightarrow> string \<Rightarrow> string \<Rightarrow> (doc_assignment \<times> string) list result" where
  "getAvailableUploadOptions db user period year =
     upload_options db user period year (rev (filter (\<lambda>a. as_user a = user \<and> as_active a) (dc_assignments db)))"

section \<open>Types of reports\<close>

definition createReportorialType ::
  "nat \<Rightarrow> string \<Rightarrow> string \<Rightarrow> string option \<Rightarrow> frequency \<Rightarrow> doc_db \<Rightarrow> reportorial_type result \<times> doc_db" where
  "createReportorialType unit base display about f db =
     (if list_ex (\<lambda>t. rt_unit t = unit \<and> base_name t = base \<and> rt_active t) (dc_types db)
      then (Inl (Conflict (Doc DocTypeExists)), db)
      else let t = \<lparr>rt_id = dc_nextId db, rt_unit = unit, base_name = base, display_name = display,
                    rt_description = about, submission_frequency = f, rt_active = True\<rparr>
           in (Inr t, db\<lparr>dc_types := dc_types db @ [t], dc_nextId := dc_nextId db + 1\<rparr>))"

definition updateReportorialType ::
  "nat \<Rightarrow> string option \<Rightarrow> string option \<Rightarrow> string option \<Rightarrow> frequency option \<Rightarrow> bool option \<Rightarrow> doc_db
    \<Rightarrow> reportorial_type result \<times> doc_db" where
  "updateReportorialType n base display about f active db =
     (case find_row rt_id (dc_types db) n of
        None \<Rightarrow> (Inl (NotFound (Doc DocTypeNotFound)), db)
      | Some t \<Rightarrow>
          let u = t\<lparr>base_name := or_stored base (base_name t), display_name := or_stored display (display_name t),
                    rt_description := (case about of Some s \<Rightarrow> Some s | None \<Rightarrow> rt_description t),
                    submission_frequency := or_stored f (submission_frequency t),
                    rt_active := or_stored active (rt_active t)\<rparr>
          in (Inr u, db\<lparr>dc_types := save_row rt_id (dc_types db) u\<rparr>))"

definition removeReportorialType :: "nat \<Rightarrow> doc_db \<Rightarrow> unit result \<times> doc_db" where
  "removeReportorialType n db =
     (case find_row rt_id (dc_types db) n of
        None \<Rightarrow> (Inl (NotFound (Doc DocTypeNotFound)), db)
      | Some t \<Rightarrow> (Inr (), db\<lparr>dc_types := save_row rt_id (dc_types db) (t\<lparr>rt_active := False\<rparr>)\<rparr>))"

section \<open>The repository\<close>

text \<open>The approved documents, by year and bucket.  \<open>Number(year)\<close> orders the years; texts that are no number do
  not occur in the column.\<close>

definition repository_documents :: "doc_env \<Rightarrow> user_role \<Rightarrow> nat \<Rightarrow> doc_db \<Rightarrow> document list" where
  "repository_documents env role actor db =
     filter (\<lambda>d. compliance_status db (doc_id d) = Some COMPLIANT)
       (sort_key (\<lambda>d. (- int (parse_nat (doc_year d)), - doc_created_at d))
         (filter (\<lambda>d. \<not> is_deleted d \<and> doc_status d = DOC_READY
            \<and> (isFocal (de_caps env) role \<and> actor \<noteq> 0 \<longrightarrow> uploaded_by d = actor)) (dc_documents db)))"

definition shelf_year :: "document \<Rightarrow> string" where
  "shelf_year d = (if doc_year d = [] then show_nat (nat (getFullYear (doc_created_at d))) else doc_year d)"

definition shelf :: "document list \<Rightarrow> string \<Rightarrow> string \<Rightarrow> document list" where
  "shelf ds year key = filter (\<lambda>d. shelf_year d = year \<and> bk_key (parsePeriodBucket (doc_period d)) = key) ds"

fun first_keys :: "'k list \<Rightarrow> 'k list" where
  "first_keys [] = []"
| "first_keys (k # ks) = k # filter (\<lambda>x. x \<noteq> k) (first_keys ks)"

text \<open>A bucket has the rank of its first document.\<close>

definition year_buckets :: "document list \<Rightarrow> string \<Rightarrow> (string \<times> document list) list" where
  "year_buckets ds year =
     (let keys = first_keys (map (\<lambda>d. bk_key (parsePeriodBucket (doc_period d))) (filter (\<lambda>d. shelf_year d = year) ds));
          buckets = map (\<lambda>k. (k, shelf ds year k)) keys
      in sort_key (\<lambda>(k, ds). bk_sort (parsePeriodBucket (doc_period (hd ds)))) buckets)"

definition getRepository :: "doc_env \<Rightarrow> user_role \<Rightarrow> nat \<Rightarrow> doc_db \<Rightarrow> (string \<times> (string \<times> document list) list) list" where
  "getRepository env role actor db =
     (let ds = repository_documents env role actor db;
          years = sort_key (\<lambda>y. - int (parse_nat y)) (first_keys (map shelf_year ds))
      in map (\<lambda>y. (y, year_buckets ds y)) years)"

section \<open>Comparison of versions\<close>

record diff_stats =
  additions :: nat
  deletions :: nat
  unchanged :: nat
  changePercentage :: rat

definition calculateDiffStats :: "(int \<times> string) list \<Rightarrow> diff_stats" where
  "calculateDiffStats chunks =
     (let amount = (\<lambda>P. sum_list (map (\<lambda>(k, s). length s) (filter (\<lambda>(k, s). P k) chunks)));
          a = amount (\<lambda>k. k = 1); d = amount (\<lambda>k. k = -1); u = amount (\<lambda>k. k \<noteq> 1 \<and> k \<noteq> -1);
          p = (if a + d + u = 0 then 0 else of_nat (a + d) / of_nat (a + d + u) * 100)
      in \<lparr>additions = a, deletions = d, unchanged = u, changePercentage = of_int (js_round (p * 100)) / 100\<rparr>)"

definition compareVersions ::
  "doc_env \<Rightarrow> nat \<Rightarrow> nat \<Rightarrow> nat \<Rightarrow> doc_db \<Rightarrow> (version_comparison \<times> diff_stats) result \<times> doc_db" where
  "compareVersions env a b user db =
     (case (find_version db a, find_version db b) of
        (Some va, Some vb) \<Rightarrow>
          if ver_document va \<noteq> ver_document vb then (Inl (NotFound (Doc DocVersionsDiffer)), db)
          else let text = (\<lambda>v. case ver_text v of Some s \<Rightarrow> s | None \<Rightarrow> []);
                   chunks = diff_main env (text va) (text vb);
                   c = \<lparr>vc_document = ver_document va, version_a = a, version_b = b, compared_by = user, diff_output = chunks\<rparr>
               in (Inr (c, calculateDiffStats chunks), db\<lparr>dc_comparisons := dc_comparisons db @ [c]\<rparr>)
      | _ \<Rightarrow> (Inl (NotFound (Doc DocVersionNotFound)), db))"

end
