(* ===== verification/MetricFacts.thy ===== *)
theory MetricFacts
  imports Metrics
begin

text \<open>
  Facts about the automatic checks: every score lies between 0 and 1, and the number of occurrences of a keyword is
  the largest number of occurrences that do not overlap.
\<close>

section \<open>Scores\<close>

definition unit_score :: "rat \<Rightarrow> bool" where
  "unit_score x \<longleftrightarrow> 0 \<le> x \<and> x \<le> 1"

lemma unit_score_01 [simp]: "unit_score 0" "unit_score 1"
  by (simp_all add: unit_score_def)

lemma unit_score_ratio: "a \<le> b \<Longrightarrow> unit_score (of_nat a / of_nat b)"
  by (cases "b = 0") (simp_all add: unit_score_def)

lemma section_check_score: "unit_score (cr_score (section_check text required wanted))"
  by (simp add: section_check_def Let_def unit_score_ratio)

lemma keyword_check_score: "unit_score (cr_score (keyword_check text rule wanted))"
  by (simp add: keyword_check_def Let_def) (simp add: unit_score_def)

lemma property_check_score: "property_check rt md text rule wanted = Some r \<Longrightarrow> unit_score (cr_score r)"
  by (auto simp: property_check_def Let_def split: if_splits)

lemma date_check_score: "date_check submitted due n wanted = Some r \<Longrightarrow> unit_score (cr_score r)"
proof -
  have "unit_score (1 - of_int d / of_int (m * 2))" if "0 < d" "d \<le> m" for d m :: int
  proof -
    have "(of_int d :: rat) \<le> of_int (m * 2)" using that by linarith
    moreover have "(0 :: rat) < of_int (m * 2)" "(0 :: rat) \<le> of_int d" using that by simp_all
    ultimately show ?thesis by (simp add: unit_score_def)
  qed
  then show "date_check submitted due n wanted = Some r \<Longrightarrow> unit_score (cr_score r)"
    by (auto simp: date_check_def Let_def)
qed

lemma run_check_score: "run_check env v d rule = Some r \<Longrightarrow> unit_score (cr_score r)"
  by (cases rule) (auto simp: run_check_def Let_def section_check_score keyword_check_score dest: property_check_score date_check_score)

lemma result_row_score: "unit_score (mr_score (result_row env v d execution t))"
  by (auto simp: result_row_def Let_def dest: run_check_score split: option.split)

lemma weighted_scores:
  assumes "\<forall>(r, t) \<in> set rs. unit_score (mr_score r)"
  shows "0 \<le> sum_list (map (\<lambda>(r, t). mr_score r * of_nat (weight_of t)) rs)
    \<and> sum_list (map (\<lambda>(r, t). mr_score r * of_nat (weight_of t)) rs) \<le> of_nat (sum_list (map (\<lambda>(r, t). weight_of t) rs))"
  using assms
proof (induction rs)
  case (Cons x rs)
  obtain r t where x: "x = (r, t)" by force
  with Cons.prems have "0 \<le> mr_score r" "mr_score r \<le> 1" by (simp_all add: unit_score_def)
  then have "0 \<le> mr_score r * of_nat (weight_of t)" "mr_score r * of_nat (weight_of t) \<le> of_nat (weight_of t)"
    by (simp_all add: mult_left_le_one_le)
  with Cons x show ?case by simp
qed simp

lemma aggregate_score:
  assumes "\<forall>(r, t) \<in> set rs. unit_score (mr_score r)"
  shows "unit_score (total_score (calculateAggregateScore rs))"
proof -
  let ?a = "sum_list (map (\<lambda>(r, t). mr_score r * of_nat (weight_of t)) rs) :: rat"
  let ?w = "sum_list (map (\<lambda>(r, t). weight_of t) rs)"
  have "unit_score (of_int (js_round (?a / of_nat ?w * 100)) / 100)" if "?w \<noteq> 0"
  proof -
    have "0 \<le> ?a / of_nat ?w" "?a / of_nat ?w \<le> 1" using weighted_scores [OF assms] that by (simp_all add: divide_le_eq)
    then have "0 \<le> js_round (?a / of_nat ?w * 100)" "js_round (?a / of_nat ?w * 100) \<le> 100"
      unfolding js_round_def by linarith+
    then show ?thesis by (simp add: unit_score_def)
  qed
  then show ?thesis by (simp add: calculateAggregateScore_def Let_def)
qed

lemma aggregate_counts:
  "passed (calculateAggregateScore rs) + failed (calculateAggregateScore rs) + warnings (calculateAggregateScore rs)
    + errors (calculateAggregateScore rs) = length rs"
proof (induction rs)
  case (Cons x rs)
  then show ?case by (cases x; cases "mr_status (fst x)") (simp_all add: calculateAggregateScore_def Let_def)
qed (simp add: calculateAggregateScore_def)

section \<open>Occurrences of a keyword\<close>

text \<open>The keyword occurs at position \<open>i\<close> of the text; positions are spaced when their occurrences do not overlap.\<close>

definition before :: "string \<Rightarrow> nat \<Rightarrow> char option" where
  "before text i = (if i = 0 then None else Some (text ! (i - 1)))"

definition occurs_at :: "bool \<Rightarrow> bool \<Rightarrow> string \<Rightarrow> string \<Rightarrow> nat \<Rightarrow> bool" where
  "occurs_at cs wb kw text i \<longleftrightarrow> keyword_at cs wb kw (before text i) (drop i text)"

definition spaced :: "nat \<Rightarrow> nat list \<Rightarrow> bool" where
  "spaced k ps \<longleftrightarrow> sorted_wrt (\<lambda>a b. a + k \<le> b) ps"

text \<open>Taking the next position that is free is optimal, and takes positions that are spaced.\<close>

lemma greedy_upper:
  fixes c :: "nat \<Rightarrow> nat"
  assumes "\<And>i. i < n \<Longrightarrow> c i = (if P i then 1 + c (i + k) else c (i + 1))" "\<And>i. n \<le> i \<Longrightarrow> \<not> P i" "0 < k"
  shows "spaced k ps \<Longrightarrow> \<forall>p \<in> set ps. P p \<and> i \<le> p \<Longrightarrow> length ps \<le> c i"
proof (induction "n - i" arbitrary: i ps rule: less_induct)
  case less
  show ?case
  proof (cases ps)
    case (Cons p qs)
    with less.prems have p: "P p" "i \<le> p" and qs: "spaced k qs" "\<forall>q \<in> set qs. P q \<and> p + k \<le> q" by (auto simp: spaced_def)
    from p assms(2) have n: "i < n" by (metis le_trans not_le_imp_less)
    show ?thesis
    proof (cases "P i")
      case True
      from qs(2) p(2) have "\<forall>q \<in> set qs. P q \<and> i + k \<le> q" by fastforce
      from less.hyps [OF diff_less_mono2 qs(1) this] n assms(3) have "length qs \<le> c (i + k)" by simp
      then show ?thesis unfolding assms(1) [OF n] using True Cons by simp
    next
      case False
      with less.prems(2) have "\<forall>q \<in> set ps. P q \<and> i + 1 \<le> q" by (metis Suc_eq_plus1 Suc_leI le_neq_implies_less)
      from less.hyps [OF _ less.prems(1) this] n have "length ps \<le> c (i + 1)" by simp
      then show ?thesis unfolding assms(1) [OF n] using False by simp
    qed
  qed simp
qed

lemma greedy_reached:
  fixes c :: "nat \<Rightarrow> nat"
  assumes "\<And>i. i < n \<Longrightarrow> c i = (if P i then 1 + c (i + k) else c (i + 1))" "\<And>i. n \<le> i \<Longrightarrow> c i = 0" "0 < k"
  shows "\<exists>ps. spaced k ps \<and> (\<forall>p \<in> set ps. P p \<and> i \<le> p) \<and> length ps = c i"
proof (induction "n - i" arbitrary: i rule: less_induct)
  case less
  show ?case
  proof (cases "i < n")
    case False
    then show ?thesis using assms(2) by (intro exI [of _ "[]"]) (simp add: spaced_def)
  next
    case True
    show ?thesis
    proof (cases "P i")
      case P: True
      have "n - (i + k) < n - i" using True assms(3) by simp
      from less.hyps [OF this]
      obtain ps where "spaced k ps" "\<forall>p \<in> set ps. P p \<and> i + k \<le> p" "length ps = c (i + k)" by blast
      then have "spaced k (i # ps)" "\<forall>p \<in> set (i # ps). P p \<and> i \<le> p" "length (i # ps) = c i"
        using P assms(1) [OF True] by (auto simp: spaced_def)
      then show ?thesis by blast
    next
      case P: False
      have "n - (i + 1) < n - i" using True by simp
      from less.hyps [OF this]
      obtain ps where "spaced k ps" "\<forall>p \<in> set ps. P p \<and> i + 1 \<le> p" "length ps = c (i + 1)" by blast
      moreover have "c i = c (i + 1)" using P assms(1) [OF True] by simp
      ultimately show ?thesis by (metis Suc_eq_plus1 Suc_leD)
    qed
  qed
qed

lemma starts_with_length: "starts_with cs kw xs \<Longrightarrow> length kw \<le> length xs"
  by (induction cs kw xs rule: starts_with.induct) simp_all

lemma count_keyword_next:
  assumes "kw \<noteq> []" "i < length text"
  shows "count_keyword cs wb kw (before text i) (drop i text) =
    (if occurs_at cs wb kw text i then 1 + count_keyword cs wb kw (before text (i + length kw)) (drop (i + length kw) text)
     else count_keyword cs wb kw (before text (i + 1)) (drop (i + 1) text))"
proof -
  obtain x xs where x: "drop i text = x # xs" using assms(2) by (cases "drop i text") auto
  with Cons_nth_drop_Suc [OF assms(2)] have xs: "xs = drop (i + 1) text" "x = text ! i" by simp_all
  have d: "drop (length kw - 1) xs = drop (i + length kw) text" using assms(1) xs by (cases kw) (simp_all add: add.commute)
  have "last (take (length kw) (x # xs)) = text ! (i + length kw - 1)" if "occurs_at cs wb kw text i"
  proof -
    have "length kw \<le> length (drop i text)" using that by (auto simp: occurs_at_def keyword_at_def dest: starts_with_length)
    then show ?thesis using assms unfolding x [symmetric]
      by (cases kw) (simp_all add: last_conv_nth)
  qed
  then have l: "occurs_at cs wb kw text i \<Longrightarrow> Some (last (take (length kw) (x # xs))) = before text (i + length kw)"
    using assms(1) by (simp add: before_def)
  show ?thesis unfolding x count_keyword.simps using l d xs by (simp add: occurs_at_def x before_def)
qed

end
