(* ===== verification/DocFacts.thy ===== *)
theory DocFacts
  imports DocWorkflow MetricFacts "HOL-Library.Sublist"
begin

text \<open>
  What every operation keeps of the tables of the compliance service: \<open>docs_ok\<close>, the consistency of documents,
  versions, reviews, references and assignments, and \<open>history\<close>, what is never taken back.  Both are stated of
  projections of the rows, so that an operation that touches other columns keeps them by rewriting.
\<close>

section \<open>The invariant\<close>

definition doc_shape :: "document \<Rightarrow> nat \<times> nat" where
  "doc_shape d = (doc_id d, current_version d)"

definition ver_shape :: "doc_version \<Rightarrow> nat \<times> nat \<times> nat" where
  "ver_shape v = (ver_id v, ver_document v, version_number v)"

definition rev_shape :: "doc_review \<Rightarrow> nat \<times> nat \<times> nat option" where
  "rev_shape r = (rv_document r, rv_version r, reviewer_id r)"

definition ref_shape :: "doc_reference \<Rightarrow> nat \<times> nat" where
  "ref_shape r = (rf_source r, rf_target r)"

text \<open>Every version number up to the current one occurs once.\<close>

definition versions_ok :: "(nat \<times> nat) list \<Rightarrow> (nat \<times> nat \<times> nat) list \<Rightarrow> nat \<Rightarrow> bool" where
  "versions_ok ds vs next \<longleftrightarrow> distinct (map fst ds) \<and> distinct (map fst vs) \<and> distinct (map snd vs)
     \<and> (\<forall>d c. (d, c) \<in> set ds \<longrightarrow> d < next) \<and> (\<forall>v x. (v, x) \<in> set vs \<longrightarrow> v < next)
     \<and> (\<forall>v d k. (v, d, k) \<in> set vs \<longrightarrow> (\<exists>c. (d, c) \<in> set ds \<and> 1 \<le> k \<and> k \<le> c))
     \<and> (\<forall>d c. (d, c) \<in> set ds \<longrightarrow> 1 \<le> c) \<and> (\<forall>d c k. (d, c) \<in> set ds \<longrightarrow> 1 \<le> k \<longrightarrow> k \<le> c \<longrightarrow> (\<exists>v. (v, d, k) \<in> set vs))"

definition reviews_ok :: "(nat \<times> nat \<times> nat) list \<Rightarrow> (nat \<times> nat \<times> nat option) list \<Rightarrow> bool" where
  "reviews_ok vs rs \<longleftrightarrow> (\<forall>d v w. (d, v, w) \<in> set rs \<longrightarrow> (\<exists>k. (v, d, k) \<in> set vs))
     \<and> distinct (filter (\<lambda>(_, _, w). w = None) rs)"

definition references_ok :: "(nat \<times> nat) list \<Rightarrow> (nat \<times> nat) list \<Rightarrow> bool" where
  "references_ok ds refs \<longleftrightarrow> distinct refs
     \<and> (\<forall>s t. (s, t) \<in> set refs \<longrightarrow> s \<noteq> t \<and> s \<in> fst ` set ds \<and> t \<in> fst ` set ds)"

definition ver_fixed :: "doc_version \<Rightarrow> nat \<times> nat \<times> nat \<times> string \<times> byte list \<times> string \<times> nat \<times> date" where
  "ver_fixed v = (ver_id v, ver_document v, version_number v, file_name v, file_blob v, checksum v, ver_uploader v,
     ver_created_at v)"

text \<open>Every stored file is of the kind its name says.\<close>

definition files_ok :: "(nat \<times> nat \<times> nat \<times> string \<times> byte list \<times> string \<times> nat \<times> date) list \<Rightarrow> bool" where
  "files_ok vs \<longleftrightarrow> list_all (\<lambda>(_, _, _, name, file, _). valid_document name file) vs"

definition scores_ok :: "metric_result list \<Rightarrow> bool" where
  "scores_ok rs \<longleftrightarrow> list_all (\<lambda>r. unit_score (mr_score r)) rs"

definition docs_ok :: "doc_db \<Rightarrow> bool" where
  "docs_ok db \<longleftrightarrow> versions_ok (map doc_shape (dc_documents db)) (map ver_shape (dc_versions db)) (dc_nextId db)
     \<and> reviews_ok (map ver_shape (dc_versions db)) (map rev_shape (dc_reviews db))
     \<and> references_ok (map doc_shape (dc_documents db)) (map ref_shape (dc_references db))
     \<and> distinct (map assignment_key (dc_assignments db)) \<and> distinct (map as_id (dc_assignments db))
     \<and> (\<forall>a \<in> set (dc_assignments db). as_id a < dc_nextId db)
     \<and> files_ok (map ver_fixed (dc_versions db)) \<and> scores_ok (dc_results db)"

section \<open>History\<close>

definition doc_fixed :: "document \<Rightarrow> nat \<times> string \<times> string \<times> string \<times> string \<times> nat option \<times> nat \<times> nat \<times> date" where
  "doc_fixed d = (doc_id d, doc_title d, document_type d, doc_period d, doc_year d, reportorial_doc_type_id d, doc_unit d,
     uploaded_by d, doc_created_at d)"

definition is_manual :: "doc_review \<Rightarrow> bool" where
  "is_manual r \<longleftrightarrow> reviewer_id r \<noteq> None"

definition archived_ids :: "doc_db \<Rightarrow> nat set" where
  "archived_ids db = doc_id ` {d \<in> set (dc_documents db). is_deleted d}"

definition history :: "doc_db \<Rightarrow> doc_db \<Rightarrow> bool" where
  "history db db' \<longleftrightarrow> prefix (map doc_fixed (dc_documents db)) (map doc_fixed (dc_documents db'))
     \<and> prefix (map ver_fixed (dc_versions db)) (map ver_fixed (dc_versions db'))
     \<and> prefix (filter is_manual (dc_reviews db)) (filter is_manual (dc_reviews db'))
     \<and> prefix (dc_results db) (dc_results db') \<and> archived_ids db \<subseteq> archived_ids db' \<and> dc_nextId db \<le> dc_nextId db'"

lemma history_refl [simp]: "history db db"
  by (simp add: history_def)

lemma history_trans: "history a b \<Longrightarrow> history b c \<Longrightarrow> history a c"
  unfolding history_def by (meson order_trans prefix_order.trans subset_trans)

section \<open>Sound changes\<close>

definition sound :: "doc_db \<Rightarrow> doc_db \<Rightarrow> bool" where
  "sound db db' \<longleftrightarrow> (docs_ok db \<longrightarrow> docs_ok db') \<and> history db db'"

lemma sound_refl [simp]: "sound db db"
  by (simp add: sound_def)

lemma sound_trans: "sound a b \<Longrightarrow> sound b c \<Longrightarrow> sound a c"
  using history_trans by (auto simp: sound_def)

lemma sound_transI: "sound b c \<Longrightarrow> sound a b \<Longrightarrow> sound a c"
  by (rule sound_trans)

lemma versions_ok_next: "versions_ok ds vs m \<Longrightarrow> m \<le> n \<Longrightarrow> versions_ok ds vs n"
  unfolding versions_ok_def by (meson order_less_le_trans)

lemma versions_okD:
  assumes "versions_ok ds vs n"
  shows "(d, c) \<in> set ds \<Longrightarrow> 1 \<le> k \<Longrightarrow> k \<le> c \<Longrightarrow> \<exists>v. (v, d, k) \<in> set vs" "(d, c) \<in> set ds \<Longrightarrow> 1 \<le> c \<and> d < n"
    "(v, x) \<in> set vs \<Longrightarrow> v < n" "(v, d, k) \<in> set vs \<Longrightarrow> \<exists>c. (d, c) \<in> set ds \<and> 1 \<le> k \<and> k \<le> c"
    "distinct (map fst ds)" "distinct (map fst vs)" "distinct (map snd vs)"
  using assms unfolding versions_ok_def by blast+

text \<open>A quiet change touches no column that \<open>docs_ok\<close> and \<open>history\<close> read.\<close>

definition quiet :: "doc_db \<Rightarrow> doc_db \<Rightarrow> bool" where
  "quiet db db' \<longleftrightarrow> map doc_shape (dc_documents db') = map doc_shape (dc_documents db)
     \<and> map doc_fixed (dc_documents db') = map doc_fixed (dc_documents db)
     \<and> map ver_shape (dc_versions db') = map ver_shape (dc_versions db)
     \<and> map ver_fixed (dc_versions db') = map ver_fixed (dc_versions db)
     \<and> map rev_shape (dc_reviews db') = map rev_shape (dc_reviews db)
     \<and> filter is_manual (dc_reviews db') = filter is_manual (dc_reviews db)
     \<and> dc_references db' = dc_references db \<and> dc_assignments db' = dc_assignments db
     \<and> (scores_ok (dc_results db) \<longrightarrow> scores_ok (dc_results db'))
     \<and> prefix (dc_results db) (dc_results db') \<and> archived_ids db \<subseteq> archived_ids db' \<and> dc_nextId db \<le> dc_nextId db'"

lemma quiet_sound: "quiet db db' \<Longrightarrow> sound db db'"
  by (auto simp: quiet_def sound_def docs_ok_def history_def intro: versions_ok_next)

lemma quiet_trans: "quiet a b \<Longrightarrow> quiet b c \<Longrightarrow> quiet a c"
  unfolding quiet_def by (intro conjI) (auto intro: prefix_order.trans)

lemma quiet_refl [simp]: "quiet db db"
  by (simp add: quiet_def)

lemma add_task_quiet [simp]: "quiet db (add_task t db)"
  by (simp add: quiet_def add_task_def archived_ids_def)

lemma update_document_archived:
  assumes "\<And>d. doc_id (f d) = doc_id d" "\<And>d. is_deleted d \<Longrightarrow> is_deleted (f d)"
  shows "archived_ids db \<subseteq> archived_ids (update_document n f db)"
proof
  let ?g = "\<lambda>d. if doc_id d = n then f d else d"
  fix k assume "k \<in> archived_ids db"
  then obtain d where d: "d \<in> set (dc_documents db)" "is_deleted d" "doc_id d = k" by (auto simp: archived_ids_def)
  then have "?g d \<in> set (dc_documents (update_document n f db))" by (simp add: update_document_def)
  moreover have "is_deleted (?g d)" "doc_id (?g d) = k" using d assms by simp_all
  ultimately show "k \<in> archived_ids (update_document n f db)" unfolding archived_ids_def by blast
qed

lemma update_document_quiet:
  assumes "\<And>d. doc_shape (f d) = doc_shape d" "\<And>d. doc_fixed (f d) = doc_fixed d" "\<And>d. is_deleted d \<Longrightarrow> is_deleted (f d)"
  shows "quiet db (update_document n f db)"
proof -
  have "doc_id (f d) = doc_id d" for d using assms(1) [of d] by (simp add: doc_shape_def)
  from update_document_archived [of f, OF this assms(3)] have "archived_ids db \<subseteq> archived_ids (update_document n f db)" .
  with assms(1,2) show ?thesis by (simp add: quiet_def update_document_def comp_def)
qed

lemma update_version_quiet:
  assumes "\<And>v. ver_shape (f v) = ver_shape v" "\<And>v. ver_fixed (f v) = ver_fixed v"
  shows "quiet db (update_version n f db)"
  using assms by (simp add: quiet_def update_version_def archived_ids_def comp_def)

lemma set_status_quiet [simp]: "quiet db (set_status n s db)"
  unfolding set_status_def by (rule update_document_quiet) (simp_all add: doc_shape_def doc_fixed_def)

lemma archive_quiet: "quiet db (update_document n (\<lambda>d. d\<lparr>is_deleted := True\<rparr>) db)"
  by (rule update_document_quiet) (simp_all add: doc_shape_def doc_fixed_def)

lemma store_text_quiet: "quiet db (store_text env n v db)"
  unfolding store_text_def Let_def
  by (rule quiet_trans [OF update_document_quiet update_version_quiet])
    (simp_all add: doc_shape_def doc_fixed_def ver_shape_def ver_fixed_def)

lemma make_room_quiet: "make_room found db = (x, db') \<Longrightarrow> quiet db db'"
  by (auto simp: make_room_def archive_quiet split: option.splits if_splits)

lemma validateFocalSubmission_quiet: "validateFocalSubmission dto ty name db = (x, db') \<Longrightarrow> quiet db db'"
  by (auto simp: validateFocalSubmission_def split: option.splits prod.splits sum.splits if_splits dest: make_room_quiet)

lemma insert_results_frame:
  "dc_documents (insert_results rs db) = dc_documents db \<and> dc_versions (insert_results rs db) = dc_versions db
   \<and> dc_reviews (insert_results rs db) = dc_reviews db \<and> dc_references (insert_results rs db) = dc_references db
   \<and> dc_assignments (insert_results rs db) = dc_assignments db \<and> dc_templates (insert_results rs db) = dc_templates db
   \<and> prefix (dc_results db) (dc_results (insert_results rs db)) \<and> dc_nextId db \<le> dc_nextId (insert_results rs db)"
proof (induction rs arbitrary: db)
  case (Cons r rs)
  let ?db = "db\<lparr>dc_results := dc_results db @ [r\<lparr>mr_id := dc_nextId db\<rparr>], dc_nextId := dc_nextId db + 1\<rparr>"
  have "prefix (dc_results db) (dc_results ?db)" by simp
  then show ?case using Cons.IH [of ?db] by (auto dest: append_prefixD)
qed simp

lemma insert_results_scores:
  "scores_ok rs \<Longrightarrow> scores_ok (dc_results db) \<Longrightarrow> scores_ok (dc_results (insert_results rs db))"
  by (induction rs arbitrary: db) (simp_all add: scores_ok_def)

lemma computeMetrics_results:
  assumes "computeMetrics env n db = (x, db')"
  shows "db' = db \<and> (\<exists>e. x = Inl e)
    \<or> (\<exists>rs. scores_ok rs \<and> x = Inr rs \<and> db' = insert_results rs (db\<lparr>dc_nextId := dc_nextId db + 1\<rparr>))"
  using assms by (auto simp: computeMetrics_def Let_def scores_ok_def list.pred_map list_all_iff result_row_score split: option.splits)

lemma computeMetrics_quiet: "computeMetrics env n db = (x, db') \<Longrightarrow> quiet db db'"
proof -
  assume "computeMetrics env n db = (x, db')"
  from computeMetrics_results [OF this]
  consider "db' = db" | rs where "scores_ok rs" "db' = insert_results rs (db\<lparr>dc_nextId := dc_nextId db + 1\<rparr>)" by blast
  then show ?thesis
  proof cases
    case 2
    with insert_results_frame [of rs "db\<lparr>dc_nextId := dc_nextId db + 1\<rparr>"]
      insert_results_scores [of rs "db\<lparr>dc_nextId := dc_nextId db + 1\<rparr>"] show ?thesis
      by (simp add: quiet_def archived_ids_def)
  qed simp
qed

section \<open>The automatic review\<close>

lemma update_first_map:
  "(\<And>x. P x \<Longrightarrow> g (f x) = g x) \<Longrightarrow> map g (update_first P f xs) = map g xs"
  by (induction xs) auto

lemma update_first_filter:
  "(\<And>x. P x \<Longrightarrow> \<not> Q x \<and> \<not> Q (f x)) \<Longrightarrow> filter Q (update_first P f xs) = filter Q xs"
  by (induction xs) auto

lemma find_version_Some: "find_version db n = Some v \<Longrightarrow> v \<in> set (dc_versions db) \<and> ver_id v = n"
  unfolding find_version_def by (rule find_row_Some)

lemma insert_review_sound:
  assumes "docs_ok db \<Longrightarrow> \<exists>k. (rv_version r, rv_document r, k) \<in> set (map ver_shape (dc_versions db))"
    and "reviewer_id r = None \<Longrightarrow> \<not> list_ex (is_auto_review (rv_document r) (rv_version r)) (dc_reviews db)"
  shows "sound db (insert_review r db)"
proof -
  have new: "distinct (filter (\<lambda>(_, _, w). w = None) (map rev_shape (dc_reviews db) @ [rev_shape r]))"
    if "distinct (filter (\<lambda>(_, _, w). w = None) (map rev_shape (dc_reviews db)))"
    using that assms(2) by (fastforce simp: rev_shape_def list_ex_iff is_auto_review_def)
  have s: "rev_shape (r\<lparr>rv_id := k\<rparr>) = rev_shape r" for k by (simp add: rev_shape_def)
  have "docs_ok (insert_review r db)" if "docs_ok db"
  proof -
    have "reviews_ok (map ver_shape (dc_versions db)) (map rev_shape (dc_reviews db) @ [rev_shape r])"
      using that assms(1) [OF that] new by (auto simp: docs_ok_def reviews_ok_def rev_shape_def)
    with that s show ?thesis
      by (auto simp: docs_ok_def insert_review_def intro: versions_ok_next)
  qed
  moreover have "history db (insert_review r db)"
    by (simp add: history_def insert_review_def archived_ids_def)
  ultimately show ?thesis by (simp add: sound_def)
qed

lemma write_auto_review_sound:
  assumes "find_version db n = Some v"
  shows "sound db (write_auto_review env (ver_document v) n rs db)"
proof (cases "list_ex (is_auto_review (ver_document v) n) (dc_reviews db)")
  case True
  then have "quiet db (write_auto_review env (ver_document v) n rs db)"
    by (simp add: write_auto_review_def quiet_def archived_ids_def)
      (intro conjI update_first_map update_first_filter; simp add: rev_shape_def is_auto_review_def is_manual_def)
  then show ?thesis by (rule quiet_sound)
next
  case False
  have "(n, ver_document v, version_number v) \<in> set (map ver_shape (dc_versions db))"
    using find_version_Some [OF assms] by (auto simp: ver_shape_def image_iff intro!: bexI [of _ v])
  with False show ?thesis
    unfolding write_auto_review_def by (simp add: if_not_P) (rule insert_review_sound; auto)
qed

lemma computeMetricsAndAutoReview_sound: "computeMetricsAndAutoReview env n db = (x, db') \<Longrightarrow> sound db db'"
proof -
  assume c: "computeMetricsAndAutoReview env n db = (x, db')"
  obtain y db1 where m: "computeMetrics env n db = (y, db1)" by fastforce
  have "sound db1 db'"
    using c m write_auto_review_sound
    by (auto simp: computeMetricsAndAutoReview_def Let_def split: sum.splits if_splits option.splits)
  then show ?thesis by (rule sound_transI) (rule quiet_sound [OF computeMetrics_quiet [OF m]])
qed

lemma metrics_only_sound: "sound db (snd (metrics_only env v db))"
proof (cases "computeMetricsAndAutoReview env v db")
  case (Pair x db')
  from computeMetricsAndAutoReview_sound [OF this] Pair show ?thesis
    by (cases x) (simp_all add: metrics_only_def)
qed

lemma one_auto_review:
  assumes "distinct (filter (\<lambda>(_, _, w). w = None) (map rev_shape rs))"
  shows "length (filter (is_auto_review d v) rs) \<le> 1"
  using assms
proof (induction rs)
  case (Cons r rs)
  have "filter (is_auto_review d v) rs = []" if "is_auto_review d v r"
  proof -
    have new: "(d, v, None) \<notin> set (map rev_shape rs)" using Cons.prems that
      by (simp add: is_auto_review_def rev_shape_def)
    have "\<not> is_auto_review d v s" if "s \<in> set rs" for s
    proof
      assume "is_auto_review d v s"
      then have "rev_shape s = (d, v, None)" by (simp add: is_auto_review_def rev_shape_def)
      with that new show False by (metis image_eqI list.set_map)
    qed
    then show ?thesis by (simp add: filter_empty_conv)
  qed
  moreover have "length (filter (is_auto_review d v) rs) \<le> 1" using Cons by (auto split: if_splits)
  ultimately show ?case by simp
qed simp

section \<open>Processing\<close>

lemma processDocumentInline_sound: "sound db (snd (processDocumentInline env n v db))"
proof (cases "find_version (set_status n DOC_PROCESSING db) v")
  case None
  then show ?thesis by (simp add: processDocumentInline_def Let_def quiet_sound)
next
  case (Some r)
  have "quiet db (store_text env n r (set_status n DOC_PROCESSING db))"
    by (rule quiet_trans [OF set_status_quiet store_text_quiet])
  from sound_trans [OF quiet_sound [OF this] metrics_only_sound] Some show ?thesis
    by (simp add: processDocumentInline_def Let_def)
qed

lemma enqueueMetrics_sound: "sound db (snd (enqueueMetricsOrFallback env v db))"
  using quiet_sound [OF quiet_trans [OF add_task_quiet add_task_quiet]] metrics_only_sound
  by (simp add: enqueueMetricsOrFallback_def)

lemma enqueueProcess_sound: "sound db (snd (enqueueProcessOrFallback env n v db))"
  using quiet_sound [OF quiet_trans [OF add_task_quiet add_task_quiet]] processDocumentInline_sound
  by (simp add: enqueueProcessOrFallback_def)

lemma handleDocumentProcessing_sound: "sound db (handleDocumentProcessing env n v db)"
proof (cases "find_version (set_status n DOC_PROCESSING db) v")
  case None
  then show ?thesis
    by (simp add: handleDocumentProcessing_def Let_def quiet_sound quiet_trans [OF set_status_quiet set_status_quiet])
next
  case (Some r)
  then show ?thesis
    by (simp add: handleDocumentProcessing_def Let_def)
      (intro quiet_sound quiet_trans [OF set_status_quiet quiet_trans [OF store_text_quiet add_task_quiet]])
qed

lemma run_task_sound: "sound db (run_task env t db)"
proof (cases t)
  case (KickProcess n v)
  obtain x db1 where e: "enqueueProcessOrFallback env n v db = (x, db1)" by fastforce
  have "sound db db1" using enqueueProcess_sound [of db env n v] e by simp
  then show ?thesis
    using KickProcess e sound_trans [OF \<open>sound db db1\<close> quiet_sound [OF set_status_quiet]] by (cases x) simp_all
qed (simp_all add: enqueueMetrics_sound handleDocumentProcessing_sound metrics_only_sound processDocumentInline_sound
    split: option.split)

lemma recover_sound: "sound db (snd (recover env d v db))"
  by (simp add: recover_def enqueueProcess_sound sound_trans [OF quiet_sound [OF set_status_quiet] enqueueMetrics_sound])

lemma fold_sound: "(\<And>x db. x \<in> set xs \<Longrightarrow> sound db (f x db)) \<Longrightarrow> sound db (fold f xs db)"
  by (induction xs arbitrary: db) (auto intro: sound_trans)

lemma onModuleInit_sound: "sound db (onModuleInit env db)"
  unfolding onModuleInit_def by (rule fold_sound) (auto simp: recover_sound split: option.split)

lemma reprocessDocument_sound: "sound db (snd (reprocessDocument env n db))"
  by (auto simp: reprocessDocument_def sound_trans [OF quiet_sound [OF set_status_quiet] enqueueMetrics_sound]
      sound_trans [OF quiet_sound [OF set_status_quiet] enqueueProcess_sound] split: option.split)

end
