(* ===== verification/DocSystem.thy ===== *)
theory DocSystem
  imports DocFacts
begin

text \<open>
  The requests to the compliance service, their effect on the tables, and runs: requests and pending tasks in any
  order, each task possibly more than once (the queue delivers a job at least once).
\<close>

section \<open>Documents and versions\<close>

lemma live_document_Some: "live_document db n = Some d \<Longrightarrow> d \<in> set (dc_documents db) \<and> doc_id d = n \<and> \<not> is_deleted d"
  unfolding live_document_def by (auto dest: find_row_Some)

lemma versions_ok_new:
  assumes "versions_ok ds vs n"
  shows "versions_ok (ds @ [(n, 1)]) (vs @ [(n + 1, n, 1)]) (n + 2)"
proof -
  note D = versions_okD [OF assms]
  have lt: "d < n" if "(d, c) \<in> set ds" for d c using D(2) [OF that] by simp
  note vlt = D(3) and own = D(4)
  have a: "n \<notin> fst ` set ds" using lt by fastforce
  have b: "Suc n \<notin> fst ` set vs" using vlt by fastforce
  have c: "(n, k) \<notin> snd ` set vs" for k using own lt by fastforce
  show ?thesis
    unfolding versions_ok_def
  proof (intro conjI allI impI)
    fix d c assume "(d, c) \<in> set (ds @ [(n, 1)])"
    with lt [of d c] D(2) [of d c] show "d < n + 2" "1 \<le> c" by auto
  next
    fix v x assume "(v, x) \<in> set (vs @ [(n + 1, n, 1)])"
    with vlt [of v x] show "v < n + 2" by auto
  next
    fix v d k assume "(v, d, k) \<in> set (vs @ [(n + 1, n, 1)])"
    with own [of v d k] show "\<exists>c. (d, c) \<in> set (ds @ [(n, 1)]) \<and> 1 \<le> k \<and> k \<le> c" by auto
  next
    fix e f k assume "(e, f) \<in> set (ds @ [(n, 1)])" "1 \<le> k" "k \<le> f"
    with D(1) [of e f k] show "\<exists>v. (v, e, k) \<in> set (vs @ [(n + 1, n, 1)])" by auto
  qed (use a b c D(5-7) in simp_all)
qed

lemma reviews_ok_append: "reviews_ok vs rs \<Longrightarrow> reviews_ok (vs @ ws) rs"
  by (fastforce simp: reviews_ok_def)

lemma store_document_sound:
  assumes genuine: "valid_document name (ud_file dto)"
  shows "sound db (snd (store_document env dto fl name db))"
proof -
  let ?n = "dc_nextId db"
  let ?text = "extractInitialText env (ud_name dto) (ud_file dto)"
  let ?d = "new_document env dto fl ?text ?n"
  let ?v = "new_version env (?n + 1) ?n 1 name (ud_file dto) ?text None (ud_uploader dto)"
  let ?db1 = "db\<lparr>dc_documents := dc_documents db @ [?d], dc_versions := dc_versions db @ [?v], dc_nextId := ?n + 2\<rparr>"
  have sh: "doc_shape ?d = (?n, 1)" "ver_shape ?v = (?n + 1, ?n, 1)"
    by (simp_all add: doc_shape_def ver_shape_def new_document_def new_version_def)
  have "docs_ok ?db1" if "docs_ok db"
  proof -
    have "versions_ok (map doc_shape (dc_documents db) @ [(?n, 1)]) (map ver_shape (dc_versions db) @ [(?n + 1, ?n, 1)]) (?n + 2)"
      using versions_ok_new that by (simp add: docs_ok_def)
    moreover have "reviews_ok (map ver_shape (dc_versions db) @ [x]) (map rev_shape (dc_reviews db))" for x
      using that unfolding docs_ok_def by (blast intro: reviews_ok_append)
    moreover have "references_ok (map doc_shape (dc_documents db) @ [x]) (map ref_shape (dc_references db))" for x
      using that by (auto simp: docs_ok_def references_ok_def)
    moreover have "files_ok [ver_fixed ?v]" using genuine by (simp add: files_ok_def ver_fixed_def new_version_def)
    ultimately show ?thesis using that by (auto simp: docs_ok_def sh files_ok_def simp del: One_nat_def)
  qed
  moreover have "history db ?db1" by (auto simp: history_def archived_ids_def)
  ultimately have "sound db ?db1" by (simp add: sound_def)
  moreover have "quiet ?db1 (snd (store_document env dto fl name db))"
    unfolding set_status_def [symmetric] store_document_def Let_def
    by (auto intro: quiet_trans [OF set_status_quiet add_task_quiet])
  ultimately show ?thesis using sound_trans quiet_sound by blast
qed

lemma uploadDocument_sound: "sound db (snd (uploadDocument env dto db))"
proof -
  let ?name = "safe_name (ud_name dto)" and ?ty = "normalizeDocumentType (ud_document_type dto)"
  obtain x db1 where v: "(if isFocal (de_caps env) (ud_role dto) \<and> \<not> truthy (ud_reportorial dto)
      then validateFocalSubmission dto ?ty ?name db else (Inr (), db)) = (x, db1)" by fastforce
  then have q: "quiet db db1" by (auto dest: validateFocalSubmission_quiet split: if_splits)
  show ?thesis
  proof (cases "valid_document ?name (ud_file dto) \<and> x = Inr () \<and> (\<exists>fl. reportorial_filing env dto ?name db1 = Inr fl)")
    case False
    with v q show ?thesis by (cases x; cases "reportorial_filing env dto ?name db1") (auto simp: uploadDocument_def Let_def quiet_sound)
  next
    case True
    then obtain fl where fl: "reportorial_filing env dto ?name db1 = Inr fl" by blast
    obtain y db2 where r: "room_for_report env dto fl db1 = (y, db2)" by fastforce
    then have "quiet db1 db2" by (auto simp: room_for_report_def dest: make_room_quiet split: if_splits)
    with q have "quiet db db2" by (rule quiet_trans)
    moreover have "snd (uploadDocument env dto db) = (case y of Inl _ \<Rightarrow> db2 | Inr _ \<Rightarrow> snd (store_document env dto fl ?name db2))"
      using True v fl r by (cases x; cases y) (simp_all add: uploadDocument_def Let_def split_def)
    ultimately show ?thesis using sound_trans [OF quiet_sound store_document_sound] True by (auto simp: quiet_sound split: sum.split)
  qed
qed

lemma uploadGoogleDoc_sound: "sound db (snd (uploadGoogleDoc env dto url given db))"
  by (simp add: uploadGoogleDoc_def uploadDocument_sound split: option.split)

text \<open>The latest version is the current one.\<close>

lemma latest_is_current:
  assumes "docs_ok db" "live_document db n = Some d"
  obtains v where "latest_version db n = Some v" "version_number v = current_version d" "ver_document v = n" "v \<in> set (dc_versions db)"
proof -
  have ok: "versions_ok (map doc_shape (dc_documents db)) (map ver_shape (dc_versions db)) (dc_nextId db)"
    using assms(1) by (simp add: docs_ok_def)
  have d: "d \<in> set (dc_documents db)" "doc_id d = n" using live_document_Some [OF assms(2)] by auto
  then have dm: "(n, current_version d) \<in> set (map doc_shape (dc_documents db))" by (auto simp: doc_shape_def image_iff intro!: bexI [of _ d])
  from versions_okD(1) [OF ok dm] versions_okD(2) [OF ok dm]
  obtain x where "(x, n, current_version d) \<in> set (map ver_shape (dc_versions db))" by blast
  then obtain w where w: "w \<in> set (versions_of db n)" "version_number w = current_version d"
    by (auto simp: ver_shape_def versions_of_def)
  then obtain v where v: "latest_version db n = Some v" unfolding latest_version_def
    by (metis oldest_by_None_iff empty_iff list.set(1) not_Some_eq)
  from oldest_by_Some [OF v [unfolded latest_version_def]] w
  have vn: "v \<in> set (versions_of db n)" "version_number w \<le> version_number v" by auto
  then have "(ver_id v, n, version_number v) \<in> set (map ver_shape (dc_versions db))"
    by (auto simp: versions_of_def ver_shape_def image_iff intro!: bexI [of _ v])
  from versions_okD(4) [OF ok this]
  obtain c where c: "(n, c) \<in> set (map doc_shape (dc_documents db))" "version_number v \<le> c" by blast
  have "c = current_version d"
    by (rule eq_key_imp_eq_value [OF versions_okD(5) [OF ok] c(1) dm])
  with c(2) vn w(2) that [OF v] show thesis by (simp add: versions_of_def)
qed

lemma versions_ok_bump:
  assumes ok: "versions_ok ds vs n" and m: "(d, c) \<in> set ds"
  shows "versions_ok (map (\<lambda>(i, k). if i = d then (i, c + 1) else (i, k)) ds) (vs @ [(n, d, c + 1)]) (n + 1)"
proof -
  let ?f = "\<lambda>(i, k). if i = d then (i, c + 1) else (i, k)"
  have fst: "map fst (map ?f ds) = map fst ds" by (auto simp: comp_def split_def)
  note D = versions_okD [OF ok]
  have uniq: "k = c" if "(d, k) \<in> set ds" for k by (rule eq_key_imp_eq_value [OF D(5) that m])
  have mem: "(i, k) \<in> set (map ?f ds) \<longleftrightarrow> (if i = d then k = c + 1 else (i, k) \<in> set ds)" for i k
    using m by (force simp: image_iff split: if_splits)
  have new: "(d, c + 1) \<notin> snd ` set vs" using D(4) uniq by fastforce
  have n: "n \<notin> fst ` set vs" using D(3) by fastforce
  show ?thesis
    unfolding versions_ok_def mem fst
  proof (intro conjI allI impI)
    fix i k assume "if i = d then k = c + 1 else (i, k) \<in> set ds"
    with D(2) [of i k] D(2) [OF m] show "i < n + 1" "1 \<le> k" by (auto split: if_splits)
  next
    fix v x assume "(v, x) \<in> set (vs @ [(n, d, c + 1)])"
    with D(3) [of v x] show "v < n + 1" by auto
  next
    fix v i k assume "(v, i, k) \<in> set (vs @ [(n, d, c + 1)])"
    with D(4) [of v i k] uniq show "\<exists>x. (if i = d then x = c + 1 else (i, x) \<in> set ds) \<and> 1 \<le> k \<and> k \<le> x"
      by (cases "i = d") force+
  next
    fix i x k assume "if i = d then x = c + 1 else (i, x) \<in> set ds" "1 \<le> k" "k \<le> x"
    with D(1) [of i x k] D(1) [OF m, of k] show "\<exists>v. (v, i, k) \<in> set (vs @ [(n, d, c + 1)])"
      by (cases "i = d") (force simp: le_Suc_eq)+
  qed (use D(5-7) new n in simp_all)
qed

lemma createVersion_sound: "sound db (snd (createVersion env n user notes original file db))"
proof (cases "createVersion env n user notes original file db")
  case (Pair x db')
  show ?thesis
  proof (cases x)
    case (Inl e)
    with Pair have "db' = db" by (auto simp: createVersion_def Let_def split: option.splits if_splits)
    with Pair show ?thesis by simp
  next
    case (Inr v)
    with Pair obtain d where d: "live_document db n = Some d" and genuine: "valid_document (safe_name original) file" by (auto simp: createVersion_def Let_def split: option.splits if_splits)
    define k where "k = (case latest_version db n of Some v \<Rightarrow> version_number v + 1 | None \<Rightarrow> 1)"
    define initial where "initial = extractInitialText env original file"
    let ?v = "new_version env (dc_nextId db) n k (safe_name original) file initial notes user"
    let ?db1 = "db\<lparr>dc_versions := dc_versions db @ [?v], dc_nextId := dc_nextId db + 1\<rparr>"
    let ?f = "\<lambda>d. d\<lparr>current_version := k, doc_status := DOC_READY, doc_text := Some initial\<rparr>"
    let ?db2 = "update_document n ?f ?db1"
    have db': "db' = (if de_queue env then add_task (ProcessJob n (dc_nextId db)) ?db2 else ?db2)"
      using Pair Inr d by (auto simp: createVersion_def Let_def k_def initial_def new_version_def split: if_splits)
    have "docs_ok ?db2" if ok: "docs_ok db"
    proof -
      obtain w where w: "latest_version db n = Some w" "version_number w = current_version d" by (rule latest_is_current [OF ok d])
      then have k: "k = current_version d + 1" by (simp add: k_def)
      have m: "(n, current_version d) \<in> set (map doc_shape (dc_documents db))"
        using live_document_Some [OF d] by (auto simp: doc_shape_def image_iff intro!: bexI [of _ d])
      have "versions_ok (map doc_shape (dc_documents db)) (map ver_shape (dc_versions db)) (dc_nextId db)"
        using ok by (simp add: docs_ok_def)
      from versions_ok_bump [OF this m]
      have v: "versions_ok (map (\<lambda>(i, j). if i = n then (i, k) else (i, j)) (map doc_shape (dc_documents db)))
          (map ver_shape (dc_versions db) @ [ver_shape ?v]) (dc_nextId db + 1)"
        unfolding k ver_shape_def new_version_def by (simp add: comp_def)
      have shapes: "map doc_shape (dc_documents ?db2) = map (\<lambda>(i, j). if i = n then (i, k) else (i, j)) (map doc_shape (dc_documents db))"
        by (auto simp: update_document_def doc_shape_def)
      have "fst ` set (map doc_shape (dc_documents ?db2)) = fst ` set (map doc_shape (dc_documents db))"
        unfolding shapes set_map image_image by (rule image_cong) (auto split: prod.split)
      then have refs: "references_ok (map doc_shape (dc_documents ?db2)) rs = references_ok (map doc_shape (dc_documents db)) rs" for rs
        by (simp add: references_ok_def)
      have fr: "dc_versions ?db2 = dc_versions db @ [?v]" "dc_nextId ?db2 = dc_nextId db + 1" "dc_reviews ?db2 = dc_reviews db"
        "dc_references ?db2 = dc_references db" "dc_assignments ?db2 = dc_assignments db" by (simp_all add: update_document_def)
      have "versions_ok (map doc_shape (dc_documents ?db2)) (map ver_shape (dc_versions ?db2)) (dc_nextId ?db2)"
        using v unfolding shapes fr by simp
      moreover have "reviews_ok (map ver_shape (dc_versions ?db2)) (map rev_shape (dc_reviews ?db2))"
        using ok unfolding docs_ok_def fr map_append by (blast intro: reviews_ok_append)
      moreover have "\<forall>a \<in> set (dc_assignments db). as_id a < dc_nextId db + 1" using ok by (auto simp: docs_ok_def)
      moreover have "files_ok (map ver_fixed (dc_versions ?db2))"
        using ok genuine unfolding fr by (simp add: docs_ok_def files_ok_def ver_fixed_def new_version_def)
      moreover have "dc_results ?db2 = dc_results db" by (simp add: update_document_def)
      ultimately show ?thesis using ok refs unfolding docs_ok_def fr by simp
    qed
    moreover have "history db ?db2"
    proof -
      have "archived_ids ?db1 \<subseteq> archived_ids ?db2" by (rule update_document_archived) simp_all
      moreover have "archived_ids ?db1 = archived_ids db" by (simp add: archived_ids_def)
      moreover have fr: "dc_versions ?db2 = dc_versions db @ [?v]" "dc_nextId ?db2 = dc_nextId db + 1" "dc_reviews ?db2 = dc_reviews db"
        "dc_results ?db2 = dc_results db" by (simp_all add: update_document_def)
      moreover have "map doc_fixed (dc_documents ?db2) = map doc_fixed (dc_documents db)"
        by (auto simp: update_document_def doc_fixed_def)
      ultimately show ?thesis unfolding history_def fr by simp
    qed
    ultimately have "sound db ?db2" by (simp add: sound_def)
    then show ?thesis using Pair db' sound_trans [OF _ quiet_sound [OF add_task_quiet]] by auto
  qed
qed

lemma getPreview_sound: "sound db (snd (getPreview env n actor db))"
  by (auto simp: getPreview_def intro!: quiet_sound update_version_quiet simp: ver_shape_def ver_fixed_def split: sum.split option.split)

section \<open>Workflow\<close>

lemma current_of_Some: "current_of db d = Some v \<Longrightarrow> v \<in> set (dc_versions db) \<and> ver_document v = doc_id d \<and> version_number v = current_version d"
  by (auto simp: current_of_def versions_of_def find_Some_iff dest!: nth_mem)

lemma manual_review_sound:
  assumes "live_document db n = Some d" "current_of db d = Some v"
  shows "sound db (insert_review (manual_review env n (ver_id v) dto) db)"
proof (rule insert_review_sound)
  have "(ver_id v, n, version_number v) \<in> set (map ver_shape (dc_versions db))"
    using current_of_Some [OF assms(2)] live_document_Some [OF assms(1)]
    by (auto simp: ver_shape_def image_iff intro!: bexI [of _ v])
  then show "\<exists>k. (rv_version (manual_review env n (ver_id v) dto), rv_document (manual_review env n (ver_id v) dto), k)
      \<in> set (map ver_shape (dc_versions db))" by (auto simp: manual_review_def)
qed (simp add: manual_review_def)

lemma submitReview_sound: "sound db (snd (submitReview env n dto db))"
proof (cases "review_guard dto (live_document db n) (current_version_of db (live_document db n))")
  case None
  then obtain d v where d: "live_document db n = Some d" "current_of db d = Some v"
    by (auto simp: review_guard_def current_version_of_def split: option.splits if_splits)
  from sound_trans [OF manual_review_sound [OF d] quiet_sound [OF set_status_quiet]] None d show ?thesis
    by (simp add: submitReview_def Let_def current_version_of_def)
qed (simp add: submitReview_def)

lemma returnDocument_sound: "sound db (snd (returnDocumentForRevision env n remarks user db))"
proof (cases "return_guard env remarks (live_document db n) (current_version_of db (live_document db n))")
  case None
  then obtain d v where d: "live_document db n = Some d" "current_of db d = Some v"
    by (auto simp: return_guard_def current_version_of_def split: option.splits if_splits)
  from sound_trans [OF manual_review_sound [OF d] quiet_sound [OF set_status_quiet]] None d show ?thesis
    by (simp add: returnDocumentForRevision_def Let_def current_version_of_def)
qed (simp add: returnDocumentForRevision_def)

lemma archiveDocument_sound: "sound db (snd (archiveDocument n actor db))"
  by (simp add: archiveDocument_def quiet_sound archive_quiet split: option.split)

text \<open>No deletion removes a row: the role of the uploader is never known.\<close>

lemma no_hard_delete [simp]: "\<not> uploader_deletes env d"
  by (simp add: uploader_deletes_def uploader_role_def)

lemma deleteDocument_sound: "sound db (snd (deleteDocument env n db))"
  by (simp add: deleteDocument_def quiet_sound archive_quiet split: option.split)

lemma live_in_shapes: "live_document db n = Some d \<Longrightarrow> n \<in> fst ` set (map doc_shape (dc_documents db))"
  using live_document_Some [of db n d] by (auto simp: doc_shape_def image_iff intro!: bexI [of _ d])

lemma references_ok_add:
  "references_ok ds rs \<Longrightarrow> s \<noteq> t \<Longrightarrow> (s, t) \<notin> set rs \<Longrightarrow> s \<in> fst ` set ds \<Longrightarrow> t \<in> fst ` set ds \<Longrightarrow> references_ok ds (rs @ [(s, t)])"
  by (auto simp: references_ok_def)

lemma linkDocumentReference_sound: "sound db (snd (linkDocumentReference s t user kind db))"
proof (cases "link_guard db s t")
  case None
  then obtain a b where l: "s \<noteq> t" "live_document db s = Some a" "live_document db t = Some b"
    "\<not> list_ex (\<lambda>r. rf_source r = s \<and> rf_target r = t) (dc_references db)"
    by (auto simp: link_guard_def split: option.splits if_splits)
  then have "(s, t) \<notin> set (map ref_shape (dc_references db))" by (auto simp: list_ex_iff ref_shape_def)
  note add = references_ok_add [OF _ l(1) this live_in_shapes [OF l(2)] live_in_shapes [OF l(3)]]
  obtain r where r: "snd (linkDocumentReference s t user kind db) = db\<lparr>dc_references := dc_references db @ [r]\<rparr>" "ref_shape r = (s, t)"
    using None by (auto simp: linkDocumentReference_def Let_def ref_shape_def)
  show ?thesis unfolding r(1) using add by (simp add: sound_def docs_ok_def history_def archived_ids_def r(2))
qed (simp add: linkDocumentReference_def)

lemma references_ok_filter: "references_ok ds (map ref_shape rs) \<Longrightarrow> references_ok ds (map ref_shape (filter P rs))"
  by (auto simp: references_ok_def distinct_map_filter)

lemma unlinkDocumentReference_sound: "sound db (snd (unlinkDocumentReference s t db))"
  by (simp add: unlinkDocumentReference_def Let_def sound_def docs_ok_def history_def archived_ids_def references_ok_filter)

section \<open>Assignments, types, templates and comparisons\<close>

lemma createAssignment_sound: "sound db (snd (createAssignment dto db))"
  by (auto simp: createAssignment_def Let_def sound_def docs_ok_def history_def archived_ids_def list_ex_iff
      dest: less_not_refl3 intro: versions_ok_next less_SucI)

lemma distinct_save_row:
  "distinct (map f xs) \<Longrightarrow> distinct (map key xs) \<Longrightarrow> (\<And>x. x \<in> set xs \<Longrightarrow> key x \<noteq> key b \<Longrightarrow> f x \<noteq> f b)
    \<Longrightarrow> distinct (map f (save_row key xs b))"
proof (induction xs)
  case (Cons x xs)
  have d: "distinct (map f xs)" "distinct (map key xs)" "f x \<notin> f ` set xs" "key x \<notin> key ` set xs" using Cons.prems(1,2) by simp_all
  have o: "y \<in> set xs \<Longrightarrow> key y \<noteq> key b \<Longrightarrow> f y \<noteq> f b" for y using Cons.prems(3) by simp
  show ?case
  proof (cases "key x = key b")
    case True
    have "f b \<notin> f ` set xs"
    proof
      assume "f b \<in> f ` set xs"
      then obtain y where y: "y \<in> set xs" "f y = f b" by (metis imageE)
      with d(4) True have "key y \<noteq> key b" by (metis imageI)
      with o [OF y(1)] y(2) show False by simp
    qed
    with True d(1) show ?thesis by simp
  next
    case False
    have "f x \<noteq> f b" using Cons.prems(3) [of x] False by simp
    with d(3) set_save_row_subset [of key xs b] have "f x \<notin> f ` set (save_row key xs b)" by blast
    with Cons.IH [OF d(1,2) o] False show ?thesis by simp
  qed
qed simp

lemma updateAssignment_sound: "sound db (snd (updateAssignment n dto db))"
proof (cases "find_row as_id (dc_assignments db) n")
  case (Some a)
  let ?b = "edited_assignment dto a"
  let ?db = "db\<lparr>dc_assignments := save_row as_id (dc_assignments db) ?b\<rparr>"
  have a: "a \<in> set (dc_assignments db)" "as_id a = n" using find_row_Some [OF Some] by simp_all
  have id: "as_id ?b = n" using a by (simp add: edited_assignment_def)
  show ?thesis
  proof (cases "list_ex (\<lambda>x. as_id x \<noteq> n \<and> assignment_key x = assignment_key ?b) (dc_assignments db)")
    case False
    then have free: "x \<in> set (dc_assignments db) \<Longrightarrow> as_id x \<noteq> as_id ?b \<Longrightarrow> assignment_key x \<noteq> assignment_key ?b" for x
      unfolding list_ex_iff id by blast
    have "docs_ok ?db" if ok: "docs_ok db"
    proof -
      have d: "distinct (map assignment_key (dc_assignments db))" "distinct (map as_id (dc_assignments db))"
        and lt: "\<forall>x \<in> set (dc_assignments db). as_id x < dc_nextId db" using ok unfolding docs_ok_def by blast+
      have "distinct (map assignment_key (save_row as_id (dc_assignments db) ?b))" by (rule distinct_save_row [OF d free])
      moreover have "distinct (map as_id (save_row as_id (dc_assignments db) ?b))" by (rule distinct_save_row [OF d(2) d(2)])
      moreover have "as_id x < dc_nextId db" if "x \<in> set (save_row as_id (dc_assignments db) ?b)" for x
        using that set_save_row_subset [of as_id "dc_assignments db" ?b] lt a id by (cases "x = ?b") auto
      ultimately show ?thesis using ok by (simp add: docs_ok_def)
    qed
    moreover have "history db ?db" by (simp add: history_def archived_ids_def)
    ultimately show ?thesis using Some False by (simp add: updateAssignment_def Let_def sound_def)
  qed (simp add: updateAssignment_def Let_def Some)
qed (simp add: updateAssignment_def)

lemma deleteDocAssignment_sound: "sound db (snd (deleteDocAssignment n db))"
  by (simp add: deleteDocAssignment_def sound_def docs_ok_def history_def archived_ids_def distinct_map_filter)

lemma other_tables_quiet:
  "quiet db (db\<lparr>dc_types := ts\<rparr>)" "quiet db (db\<lparr>dc_types := ts, dc_nextId := dc_nextId db + 1\<rparr>)"
  "quiet db (db\<lparr>dc_templates := ms\<rparr>)" "quiet db (db\<lparr>dc_templates := ms, dc_applicability := as\<rparr>)"
  "quiet db (db\<lparr>dc_templates := ms, dc_applicability := as, dc_nextId := dc_nextId db + 1\<rparr>)"
  "quiet db (db\<lparr>dc_comparisons := cs\<rparr>)" "quiet db (db\<lparr>dc_issuanceLinks := ls\<rparr>)" "quiet db (db\<lparr>dc_tasks := tasks\<rparr>)"
  by (simp_all add: quiet_def archived_ids_def)

lemma other_requests_sound:
  "sound db (snd (createReportorialType unit base display about f db))"
  "sound db (snd (updateReportorialType n base' display' about f' active db))"
  "sound db (snd (removeReportorialType n db))" "sound db (snd (compareVersions env a b user db))"
  "sound db (createMetricTemplate name rule w apps db)" "sound db (updateMetricTemplate n td db)"
  "sound db (deleteMetricTemplate n db)"
  by (auto simp: createReportorialType_def updateReportorialType_def removeReportorialType_def compareVersions_def
      createMetricTemplate_def updateMetricTemplate_def deleteMetricTemplate_def Let_def
      intro!: quiet_sound [OF other_tables_quiet(1)] quiet_sound [OF other_tables_quiet(2), simplified]
        quiet_sound [OF other_tables_quiet(3)] quiet_sound [OF other_tables_quiet(4)]
        quiet_sound [OF other_tables_quiet(5), simplified] quiet_sound [OF other_tables_quiet(6)] split: option.split)

section \<open>Runs\<close>

datatype (plugins only: code) document_request =
    Upload upload_dto
  | UploadGoogle upload_dto "(string \<times> string) option" string
  | NewVersion nat nat "string option" string "byte list"
  | Preview nat "nat \<times> user_role \<times> nat list"
  | Review nat review_dto
  | Return nat string nat
  | Archive nat nat
  | DeleteDocument nat
  | Reprocess nat
  | Link nat nat "nat option" string
  | Unlink nat nat
  | CreateAssignment assignment_dto
  | UpdateAssignment nat assignment_dto
  | DeleteAssignment nat
  | CreateType nat string string "string option" frequency
  | UpdateType nat "string option" "string option" "string option" "frequency option" "bool option"
  | RemoveType nat
  | Compare nat nat nat
  | CreateTemplate string metric_rule "nat option" "applicability_dto list"
  | UpdateTemplate nat template_dto
  | DeleteTemplate nat
  | Startup

fun document_perform :: "doc_env \<Rightarrow> document_request \<Rightarrow> doc_db \<Rightarrow> doc_db" where
  "document_perform env (Upload dto) db = snd (uploadDocument env dto db)"
| "document_perform env (UploadGoogle dto url given) db = snd (uploadGoogleDoc env dto url given db)"
| "document_perform env (NewVersion n user notes name file) db = snd (createVersion env n user notes name file db)"
| "document_perform env (Preview n actor) db = snd (getPreview env n actor db)"
| "document_perform env (Review n dto) db = snd (submitReview env n dto db)"
| "document_perform env (Return n remarks user) db = snd (returnDocumentForRevision env n remarks user db)"
| "document_perform env (Archive n actor) db = snd (archiveDocument n actor db)"
| "document_perform env (DeleteDocument n) db = snd (deleteDocument env n db)"
| "document_perform env (Reprocess n) db = snd (reprocessDocument env n db)"
| "document_perform env (Link s t user kind) db = snd (linkDocumentReference s t user kind db)"
| "document_perform env (Unlink s t) db = snd (unlinkDocumentReference s t db)"
| "document_perform env (CreateAssignment dto) db = snd (createAssignment dto db)"
| "document_perform env (UpdateAssignment n dto) db = snd (updateAssignment n dto db)"
| "document_perform env (DeleteAssignment n) db = snd (deleteDocAssignment n db)"
| "document_perform env (CreateType unit base display about f) db = snd (createReportorialType unit base display about f db)"
| "document_perform env (UpdateType n base display about f active) db =
     snd (updateReportorialType n base display about f active db)"
| "document_perform env (RemoveType n) db = snd (removeReportorialType n db)"
| "document_perform env (Compare a b user) db = snd (compareVersions env a b user db)"
| "document_perform env (CreateTemplate name rule w apps) db = createMetricTemplate name rule w apps db"
| "document_perform env (UpdateTemplate n dto) db = updateMetricTemplate n dto db"
| "document_perform env (DeleteTemplate n) db = deleteMetricTemplate n db"
| "document_perform env Startup db = onModuleInit env db"

lemma document_perform_sound: "sound db (document_perform env q db)"
  by (cases q) (simp_all add: uploadDocument_sound uploadGoogleDoc_sound createVersion_sound getPreview_sound submitReview_sound
      returnDocument_sound archiveDocument_sound deleteDocument_sound reprocessDocument_sound linkDocumentReference_sound
      unlinkDocumentReference_sound createAssignment_sound updateAssignment_sound deleteDocAssignment_sound
      other_requests_sound onModuleInit_sound)

text \<open>A request, a pending task (done, or to be done again), or a change of the links to issuances, which another
  module keeps.\<close>

inductive document_step :: "doc_db \<Rightarrow> doc_db \<Rightarrow> bool" where
  document_request: "document_step db (document_perform env q db)"
| task_done: "t \<in> set (dc_tasks db) \<Longrightarrow> document_step db (run_task env t (db\<lparr>dc_tasks := remove1 t (dc_tasks db)\<rparr>))"
| task_repeated: "t \<in> set (dc_tasks db) \<Longrightarrow> document_step db (run_task env t db)"
| issuance_links: "document_step db (db\<lparr>dc_issuanceLinks := ls\<rparr>)"

inductive_cases document_stepE: "document_step db db'"

definition documents_initial :: "doc_db \<Rightarrow> bool" where
  "documents_initial db \<longleftrightarrow> dc_documents db = [] \<and> dc_versions db = [] \<and> dc_reviews db = [] \<and> dc_references db = []
     \<and> dc_assignments db = [] \<and> dc_results db = []"

definition documents_reachable :: "doc_db \<Rightarrow> bool" where
  "documents_reachable db \<longleftrightarrow> (\<exists>db0. documents_initial db0 \<and> document_step\<^sup>*\<^sup>* db0 db)"

lemma document_step_sound: "document_step db db' \<Longrightarrow> sound db db'"
  by (erule document_stepE)
    (auto simp: document_perform_sound run_task_sound other_tables_quiet intro: quiet_sound
      sound_trans [OF quiet_sound [OF other_tables_quiet(8)] run_task_sound])

lemma document_run_sound: "document_step\<^sup>*\<^sup>* db db' \<Longrightarrow> sound db db'"
  by (induction rule: rtranclp_induct) (auto intro: sound_trans document_step_sound)

lemma documents_reachable_ok: "documents_reachable db \<Longrightarrow> docs_ok db"
proof -
  have "docs_ok db0" if "documents_initial db0" for db0
    using that by (simp add: documents_initial_def docs_ok_def versions_ok_def reviews_ok_def references_ok_def files_ok_def scores_ok_def)
  then show "documents_reachable db \<Longrightarrow> docs_ok db"
    using document_run_sound by (auto simp: documents_reachable_def sound_def)
qed

end
