(* ===== verification/DocProps.thy ===== *)
theory DocProps
  imports DocSystem "HOL-Library.Multiset"
begin

text \<open>
  The properties of documents, their versions, reviews and automatic checks.
\<close>

section \<open>Consistency\<close>

lemma reachable_versions:
  "documents_reachable db \<Longrightarrow> versions_ok (map doc_shape (dc_documents db)) (map ver_shape (dc_versions db)) (dc_nextId db)"
  by (drule documents_reachable_ok) (simp add: docs_ok_def)

lemma version_shape_iff:
  "(i, n, k) \<in> set (map ver_shape vs) \<longleftrightarrow> (\<exists>v \<in> set vs. ver_id v = i \<and> ver_document v = n \<and> version_number v = k)"
  by (auto simp: ver_shape_def)

lemma document_shape_iff: "(n, k) \<in> set (map doc_shape ds) \<longleftrightarrow> (\<exists>d \<in> set ds. doc_id d = n \<and> current_version d = k)"
  by (auto simp: doc_shape_def)

lemma version_numbers:
  assumes ok: "versions_ok (map doc_shape ds) (map ver_shape vs) next" and d: "d \<in> set ds"
  shows "1 \<le> k \<and> k \<le> current_version d \<longleftrightarrow> (\<exists>!v. v \<in> set vs \<and> ver_document v = doc_id d \<and> version_number v = k)"
proof
  have m: "(doc_id d, current_version d) \<in> set (map doc_shape ds)" unfolding document_shape_iff using d by blast
  assume "1 \<le> k \<and> k \<le> current_version d"
  with versions_okD(1) [OF ok m] obtain v where v: "v \<in> set vs" "ver_document v = doc_id d" "version_number v = k"
    unfolding version_shape_iff by blast
  moreover have "w = v" if w: "w \<in> set vs" "ver_document w = doc_id d" "version_number w = k" for w
  proof -
    have "distinct (map (\<lambda>v. (ver_document v, version_number v)) vs)"
      using versions_okD(7) [OF ok] by (simp add: comp_def ver_shape_def)
    from inj_onD [OF conjunct2 [OF this [unfolded distinct_map]] _ w(1) v(1)] show ?thesis using v w by simp
  qed
  ultimately show "\<exists>!v. v \<in> set vs \<and> ver_document v = doc_id d \<and> version_number v = k" by blast
next
  have m: "(doc_id d, current_version d) \<in> set (map doc_shape ds)" unfolding document_shape_iff using d by blast
  assume "\<exists>!v. v \<in> set vs \<and> ver_document v = doc_id d \<and> version_number v = k"
  then have "\<exists>i. (i, doc_id d, k) \<in> set (map ver_shape vs)" unfolding version_shape_iff by blast
  then obtain i where "(i, doc_id d, k) \<in> set (map ver_shape vs)" by blast
  from versions_okD(4) [OF ok this]
  obtain c where c: "(doc_id d, c) \<in> set (map doc_shape ds)" "1 \<le> k \<and> k \<le> c" by blast
  with eq_key_imp_eq_value [OF versions_okD(5) [OF ok] c(1) m] show "1 \<le> k \<and> k \<le> current_version d" by simp
qed

text \<open>C7: In every reachable state the versions of a document are numbered from 1 to its current version, each once; a
  review is of a version of its document, and a version has at most one automatic review; references are between
  different documents and are unique, as are assignments.\<close>

theorem documents_consistent:
  assumes "documents_reachable db"
  shows "(\<forall>d \<in> set (dc_documents db). \<forall>k. 1 \<le> k \<and> k \<le> current_version d
            \<longleftrightarrow> (\<exists>!v. v \<in> set (dc_versions db) \<and> ver_document v = doc_id d \<and> version_number v = k))
    \<and> (\<forall>r \<in> set (dc_reviews db). \<exists>v \<in> set (dc_versions db). ver_id v = rv_version r \<and> ver_document v = rv_document r)
    \<and> (\<forall>d v. length (filter (is_auto_review d v) (dc_reviews db)) \<le> 1)
    \<and> distinct (map ref_shape (dc_references db)) \<and> (\<forall>r \<in> set (dc_references db). rf_source r \<noteq> rf_target r)
    \<and> distinct (map assignment_key (dc_assignments db))"
proof -
  have ok: "docs_ok db" using assms by (rule documents_reachable_ok)
  have rs: "reviews_ok (map ver_shape (dc_versions db)) (map rev_shape (dc_reviews db))" using ok by (simp add: docs_ok_def)
  have "\<exists>v \<in> set (dc_versions db). ver_id v = rv_version r \<and> ver_document v = rv_document r" if "r \<in> set (dc_reviews db)" for r
  proof -
    have "rev_shape r \<in> set (map rev_shape (dc_reviews db))" using that by simp
    with rs obtain k where "(rv_version r, rv_document r, k) \<in> set (map ver_shape (dc_versions db))"
      unfolding reviews_ok_def rev_shape_def [of r] by blast
    then show ?thesis unfolding version_shape_iff by blast
  qed
  moreover have "length (filter (is_auto_review d v) (dc_reviews db)) \<le> 1" for d v
    by (rule one_auto_review) (use rs in \<open>simp add: reviews_ok_def\<close>)
  moreover have "rf_source r \<noteq> rf_target r" if "r \<in> set (dc_references db)" for r
  proof -
    have "(rf_source r, rf_target r) \<in> set (map ref_shape (dc_references db))" using that by (force simp: ref_shape_def)
    with ok show ?thesis unfolding docs_ok_def references_ok_def by blast
  qed
  ultimately show ?thesis using version_numbers [OF reachable_versions [OF assms]] ok
    unfolding docs_ok_def references_ok_def by blast
qed

text \<open>C35: Every stored version is a file whose name and signature agree, of a document that exists.\<close>

theorem stored_documents_genuine:
  assumes "documents_reachable db" "v \<in> set (dc_versions db)"
  shows "(isPdf (file_name v) \<and> isPdfSignature (file_blob v) \<or> isDocx (file_name v) \<and> isDocxSignature (file_blob v))
    \<and> ver_document v \<in> doc_id ` set (dc_documents db)"
proof -
  have "docs_ok db" using assms(1) by (rule documents_reachable_ok)
  then have "valid_document (file_name v) (file_blob v)"
    using assms(2) by (auto simp: docs_ok_def files_ok_def ver_fixed_def list_all_iff)
  moreover have "(ver_id v, ver_document v, version_number v) \<in> set (map ver_shape (dc_versions db))"
    using assms(2) unfolding version_shape_iff by blast
  from versions_okD(4) [OF reachable_versions [OF assms(1)] this] have "ver_document v \<in> doc_id ` set (dc_documents db)"
    unfolding document_shape_iff by (metis image_eqI)
  ultimately show ?thesis by (auto simp: valid_document_def)
qed


text \<open>C8: Whatever the requests and tasks of a run, the reviews of people, the contents of the versions and the results of
  the checks only grow, the fields a document was filed under do not change, and an archived document stays
  archived.\<close>

theorem human_decisions_stay:
  assumes "document_step\<^sup>*\<^sup>* db db'"
  shows "prefix (filter (\<lambda>r. reviewer_id r \<noteq> None) (dc_reviews db)) (filter (\<lambda>r. reviewer_id r \<noteq> None) (dc_reviews db'))
    \<and> prefix (map ver_fixed (dc_versions db)) (map ver_fixed (dc_versions db'))
    \<and> prefix (map doc_fixed (dc_documents db)) (map doc_fixed (dc_documents db'))
    \<and> prefix (dc_results db) (dc_results db')
    \<and> (\<forall>d \<in> set (dc_documents db). is_deleted d \<longrightarrow> (\<exists>e \<in> set (dc_documents db'). doc_id e = doc_id d \<and> is_deleted e))"
proof -
  have "history db db'" using document_run_sound [OF assms] by (simp add: sound_def)
  moreover have "is_manual = (\<lambda>r. reviewer_id r \<noteq> None)" by (simp add: fun_eq_iff is_manual_def)
  moreover have "\<exists>e \<in> set (dc_documents db'). doc_id e = doc_id d \<and> is_deleted e"
    if "archived_ids db \<subseteq> archived_ids db'" "d \<in> set (dc_documents db)" "is_deleted d" for d
    using that by (force simp: archived_ids_def)
  ultimately show ?thesis by (simp add: history_def)
qed

section \<open>Checks\<close>

text \<open>The number of occurrences of a keyword is the largest number of occurrences that do not overlap.\<close>

lemma keyword_count_maximal:
  assumes "kw \<noteq> []"
  shows "(\<exists>ps. spaced (length kw) ps \<and> (\<forall>p \<in> set ps. occurs_at cs wb kw text p) \<and> length ps = count_keyword cs wb kw None text)
    \<and> (\<forall>ps. spaced (length kw) ps \<and> (\<forall>p \<in> set ps. occurs_at cs wb kw text p) \<longrightarrow> length ps \<le> count_keyword cs wb kw None text)"
proof -
  let ?c = "\<lambda>i. count_keyword cs wb kw (before text i) (drop i text)"
  have outside: "\<not> occurs_at cs wb kw text i" if "length text \<le> i" for i
    using that assms by (cases kw) (simp_all add: occurs_at_def keyword_at_def)
  have "?c 0 = count_keyword cs wb kw None text" by (simp add: before_def)
  moreover have "\<exists>ps. spaced (length kw) ps \<and> (\<forall>p \<in> set ps. occurs_at cs wb kw text p \<and> 0 \<le> p) \<and> length ps = ?c 0"
    by (rule greedy_reached [of "length text"]) (simp_all add: count_keyword_next [OF assms] assms)
  moreover have "spaced (length kw) ps \<Longrightarrow> \<forall>p \<in> set ps. occurs_at cs wb kw text p \<and> 0 \<le> p \<Longrightarrow> length ps \<le> ?c 0" for ps
    by (rule greedy_upper [of "length text"]) (simp_all add: count_keyword_next [OF assms] assms outside)
  ultimately show ?thesis by simp
qed

end
