(* ===== verification/PeriodProps.thy ===== *)
theory PeriodProps
  imports Periods
begin

text \<open>
  What the service writes as a period it reads back: the suffixes of reports, their buckets and their deadlines.
\<close>

lemma digit_not_space: "is_digit c \<Longrightarrow> \<not> js_space c"
  by (auto simp: is_digit_def js_space_def Let_def)

lemma trim_digits:
  assumes "s \<noteq> []" "is_digit (hd s)" "is_digit (last s)"
  shows "trim s = s"
proof -
  have "dropWhile js_space s = s" using assms(1,2) by (cases s) (simp_all add: digit_not_space)
  moreover have "dropWhile js_space (rev s) = rev s"
    using assms(1,3) by (cases s rule: rev_cases) (simp_all add: digit_not_space)
  ultimately show ?thesis by (simp add: trim_def)
qed

definition period_token :: "frequency \<Rightarrow> nat \<Rightarrow> string" where
  "period_token f n = (case f of MONTHLY \<Rightarrow> show_nat n | QUARTERLY \<Rightarrow> ''Q'' @ show_nat n | _ \<Rightarrow> [])"

definition periods_of :: "frequency \<Rightarrow> nat set" where
  "periods_of f = (case f of MONTHLY \<Rightarrow> {1..12} | QUARTERLY \<Rightarrow> {1..4} | ANNUAL \<Rightarrow> {1} | _ \<Rightarrow> {})"

text \<open>The month at whose end a period ends, and its rank in the repository.\<close>

definition period_end :: "frequency \<Rightarrow> nat \<Rightarrow> int" where
  "period_end f n = (case f of MONTHLY \<Rightarrow> int n - 1 | QUARTERLY \<Rightarrow> 3 * int n - 1 | _ \<Rightarrow> 11)"

definition period_rank :: "frequency \<Rightarrow> nat \<Rightarrow> nat" where
  "period_rank f n = (case f of MONTHLY \<Rightarrow> n | QUARTERLY \<Rightarrow> 100 + n | _ \<Rightarrow> 999)"

lemma month_texts:
  "map (\<lambda>n. pad2 (show_nat n)) [1..<13] =
    [''01'', ''02'', ''03'', ''04'', ''05'', ''06'', ''07'', ''08'', ''09'', ''10'', ''11'', ''12'']"
  by code_simp

lemma quarter_texts:
  "map (\<lambda>n. (quarter_token (''Q'' @ show_nat n), quarter_months n)) [1..<5] =
    [(Some 1, ''01-03''), (Some 2, ''04-06''), (Some 3, ''07-09''), (Some 4, ''10-12'')]"
  by code_simp

lemma month_text:
  assumes "n \<in> {1..12}"
  obtains a b where "pad2 (show_nat n) = [a, b]" "is_digit a" "is_digit b" "parse_nat [a, b] = n"
proof -
  have "list_all (\<lambda>n. case pad2 (show_nat n) of [a, b] \<Rightarrow> is_digit a \<and> is_digit b \<and> parse_nat [a, b] = n | _ \<Rightarrow> False) [1..<13]"
    by code_simp
  then have "case pad2 (show_nat n) of [a, b] \<Rightarrow> is_digit a \<and> is_digit b \<and> parse_nat [a, b] = n | _ \<Rightarrow> False"
    using assms by (simp add: list_all_iff)
  then show thesis using that by (auto split: list.splits)
qed

lemma quarter_text:
  assumes "q \<in> {1..4}"
  obtains a b c e where "quarter_months q = [a, b, CHR ''-'', c, e]" "list_all is_digit [a, b, c, e]" "quarter_token (''Q'' @ show_nat q) = Some q"
    "(parse_nat [a, b] + 2) div 3 = q" "int (parse_nat [c, e]) = 3 * int q"
proof -
  let ?P = "\<lambda>n. quarter_token (''Q'' @ show_nat n) = Some n \<and>
      (case quarter_months n of [a, b, x, c, e] \<Rightarrow> list_all is_digit [a, b, c, e] \<and> x = CHR ''-''
        \<and> (parse_nat [a, b] + 2) div 3 = n \<and> parse_nat [c, e] = 3 * n | _ \<Rightarrow> False)"
  have "list_all ?P [1..<5]" by code_simp
  then have "?P q" using assms by (simp add: list_all_iff)
  then show thesis using that by (auto split: list.splits)
qed

lemma year_text:
  assumes "year_only y"
  obtains a b c d where "y = [a, b, c, d]" "list_all is_digit [a, b, c, d]"
proof -
  have "length y = 4" "list_all is_digit y" using assms by (simp_all add: year_only_def digits_def)
  then show thesis using that by (auto simp: numeral_eq_Suc length_Suc_conv)
qed

lemma no_quarter: "list_all (\<lambda>c. is_digit c \<or> c = CHR ''-'') s \<Longrightarrow> \<not> has_quarter s"
proof (induction s)
  case (Cons c cs)
  then have "c \<noteq> CHR ''Q''" "c \<noteq> CHR ''q''" by (auto simp: is_digit_def)
  then have "quarter_only (c # take 1 cs) = None" by (cases cs) (simp_all add: quarter_only_def)
  with Cons show ?case by simp
qed simp

lemmas period_matchers = compact_range_def compact_month_def year_quarter_def year_only_def digits_def Let_def

text \<open>C34: The suffix of a report for a year and period is read back: as its frequency, as the month in which the period
  ends, and as its place in the repository.\<close>

theorem period_suffix_roundtrip:
  assumes "year_only year" "n \<in> periods_of f" "rule_submission_month r = None"
  shows "let s = computePeriodSuffixFromParts f year (period_token f n) now
    in inferSubmissionFrequency s = f \<and> parsePeriod regex r f s fallback = Some (int (parse_nat year), Some (period_end f n))
      \<and> bk_sort (parsePeriodBucket s) = period_rank f n"
proof -
  obtain a b c d where y: "year = [a, b, c, d]" "list_all is_digit [a, b, c, d]" using year_text [OF assms(1)] .
  show ?thesis
  proof (cases f)
    case MONTHLY
    then have "n \<in> {1..12}" using assms(2) by (simp add: periods_of_def)
    then obtain u v where m: "pad2 (show_nat n) = [u, v]" "is_digit u" "is_digit v" "parse_nat [u, v] = n" by (rule month_text)
    have "show_nat n \<noteq> []" by (subst show_nat.simps) simp
    then have s: "computePeriodSuffixFromParts f year (period_token f n) now = [a, b, c, d, u, v]"
      using MONTHLY y m by (simp add: computePeriodSuffixFromParts_def period_token_def)
    have t: "trim [a, b, c, d, u, v] = [a, b, c, d, u, v]" by (rule trim_digits) (use y m in simp_all)
    have "\<not> has_quarter [a, b, c, d, u, v]" by (rule no_quarter) (use y m in simp)
    then show ?thesis unfolding s Let_def using MONTHLY y m t \<open>n \<in> {1..12}\<close>
      by (simp add: inferSubmissionFrequency_def parsePeriod_def parsePeriodBucket_def monthly_base_def month_index_def clamp_def
          period_end_def period_rank_def period_matchers)
  next
    case QUARTERLY
    then have q: "n \<in> {1..4}" using assms(2) by (simp add: periods_of_def)
    then obtain u v w x where m: "quarter_months n = [u, v, CHR ''-'', w, x]" "list_all is_digit [u, v, w, x]"
      "quarter_token (''Q'' @ show_nat n) = Some n" "(parse_nat [u, v] + 2) div 3 = n" "int (parse_nat [w, x]) = 3 * int n"
      by (rule quarter_text)
    have s: "computePeriodSuffixFromParts f year (period_token f n) now = [a, b, c, d, u, v, CHR ''-'', w, x]"
      using QUARTERLY y m by (simp add: computePeriodSuffixFromParts_def period_token_def)
    have t: "trim [a, b, c, d, u, v, CHR ''-'', w, x] = [a, b, c, d, u, v, CHR ''-'', w, x]"
      by (rule trim_digits) (use y m in simp_all)
    have "\<not> has_quarter [a, b, c, d, u, v, CHR ''-'', w, x]" by (rule no_quarter) (use y m in simp)
    then show ?thesis unfolding s Let_def using QUARTERLY y m t q
      by (simp add: inferSubmissionFrequency_def parsePeriod_def parsePeriodBucket_def quarterly_base_def month_index_def clamp_def
          period_end_def period_rank_def quarter_bucket_def period_matchers)
  next
    case ANNUAL
    have s: "computePeriodSuffixFromParts f year (period_token f n) now = [a, b, c, d]"
      using ANNUAL y by (simp add: computePeriodSuffixFromParts_def)
    have t: "trim [a, b, c, d] = [a, b, c, d]" by (rule trim_digits) (use y in simp_all)
    have "\<not> has_quarter [a, b, c, d]" by (rule no_quarter) (use y in simp)
    then show ?thesis unfolding s Let_def using ANNUAL y t assms(3)
      by (simp add: inferSubmissionFrequency_def parsePeriod_def parsePeriodBucket_def annual_base_def year_dash_month_def quarter_only_def
          period_end_def period_rank_def period_matchers)
  qed (use assms(2) in \<open>simp_all add: periods_of_def\<close>)
qed

end
