(* ===== verification/DocFlow.thy ===== *)
theory DocFlow
  imports DocSystem PeriodProps "HOL-Library.Multiset"
begin

text \<open>
  The way of a submission: its upload, the automatic checks, the review, the repository.
\<close>

section \<open>Submission\<close>






text \<open>C12: A resubmission under a wrong file name is refused after the returned document has been archived: the focal
  person is left without it and without a new one.\<close>

theorem rejected_resubmission_archives:
  assumes "isFocal (de_caps env) (ud_role dto)" "\<not> truthy (ud_reportorial dto)"
    "valid_document (safe_name (ud_name dto)) (ud_file dto)"
    "find_assignment dto (normalizeDocumentType (ud_document_type dto)) db = Some a"
    "List.find (same_cycle dto (normalizeDocumentType (ud_document_type dto))) (dc_documents db) = Some d"
    "returned_review (latest_review db (doc_id d))"
    "buildExpectedFileBase a (ud_period dto) (ud_year dto) = Inr base" "base \<noteq> []"
    "toUpperCase (strip_extension (safe_name (ud_name dto))) \<noteq> base"
  shows "fst (uploadDocument env dto db) = Inl (BadRequest (Doc DocFileName))
    \<and> live_document (snd (uploadDocument env dto db)) (doc_id d) = None
    \<and> map doc_id (dc_documents (snd (uploadDocument env dto db))) = map doc_id (dc_documents db)"
proof -
  let ?db = "update_document (doc_id d) (\<lambda>d. d\<lparr>is_deleted := True\<rparr>) db"
  have "uploadDocument env dto db = (Inl (BadRequest (Doc DocFileName)), ?db)"
    using assms by (simp add: uploadDocument_def validateFocalSubmission_def make_room_def Let_def)
  moreover have "live_document ?db (doc_id d) = None"
    by (auto simp: live_document_def find_row_def find_None_iff update_document_def)
  moreover have "map doc_id (dc_documents ?db) = map doc_id (dc_documents db)" by (simp add: update_document_def)
  ultimately show ?thesis by simp
qed

section \<open>Automatic checks\<close>

lemma failed_counts: "0 < failed (calculateAggregateScore (unloaded rs)) \<or> 0 < errors (calculateAggregateScore (unloaded rs))
    \<longleftrightarrow> list_ex failed_result rs"
  by (auto simp: calculateAggregateScore_def unloaded_def Let_def failed_result_def list_ex_iff filter_empty_conv)

lemma filter_update_first:
  "(\<And>x. P x \<Longrightarrow> P (f x)) \<Longrightarrow> filter P (update_first P f xs) = (case filter P xs of [] \<Rightarrow> [] | y # ys \<Rightarrow> f y # ys)"
  by (induction xs) auto

text \<open>C11: A version with a failed check gets exactly one automatic review, which sends it back with a finding for each
  failed check; without a failed check no review changes.\<close>

theorem failing_version_sent_back:
  assumes "documents_reachable db" "find_version db n = Some v" "computeMetricsAndAutoReview env n db = (Inr (rs, a), db')"
  shows "(list_ex failed_result rs \<longrightarrow> (\<exists>r. filter (is_auto_review (ver_document v) n) (dc_reviews db') = [r]
        \<and> decision r = NEEDS_REVISION \<and> length (rv_findings r) = length (filter failed_result rs)))
    \<and> (\<not> list_ex failed_result rs \<longrightarrow> dc_reviews db' = dc_reviews db)
    \<and> filter is_manual (dc_reviews db') = filter is_manual (dc_reviews db)"
proof -
  let ?P = "is_auto_review (ver_document v) n"
  obtain db1 where m: "computeMetrics env n db = (Inr rs, db1)"
    using assms(3) by (auto simp: computeMetricsAndAutoReview_def Let_def split: prod.splits sum.splits)
  from computeMetrics_results [OF m] have "db1 = insert_results rs (db\<lparr>dc_nextId := dc_nextId db + 1\<rparr>)" by auto
  with insert_results_frame [of rs "db\<lparr>dc_nextId := dc_nextId db + 1\<rparr>"]
  have db1: "dc_reviews db1 = dc_reviews db" "dc_versions db1 = dc_versions db" by simp_all
  then have fv: "find_version db1 n = Some v" using assms(2) by (simp add: find_version_def)
  have db': "db' = (if list_ex failed_result rs then write_auto_review env (ver_document v) n rs db1 else db1)"
    using assms(3) m fv failed_counts by (auto simp: computeMetricsAndAutoReview_def Let_def split: if_splits)
  have "distinct (filter (\<lambda>(_, _, w). w = None) (map rev_shape (dc_reviews db)))"
    using documents_reachable_ok [OF assms(1)] by (simp add: docs_ok_def reviews_ok_def)
  then have one: "length (filter ?P (dc_reviews db)) \<le> 1" by (rule one_auto_review)
  have "\<exists>r. filter ?P (dc_reviews (write_auto_review env (ver_document v) n rs db1)) = [r] \<and> decision r = NEEDS_REVISION
      \<and> length (rv_findings r) = length (filter failed_result rs)"
  proof (cases "list_ex ?P (dc_reviews db)")
    case True
    then obtain y where "filter ?P (dc_reviews db) = [y]"
      using one by (cases "filter ?P (dc_reviews db)") (auto simp: filter_empty_conv list_ex_iff)
    moreover have "?P x \<Longrightarrow> ?P (x\<lparr>decision := NEEDS_REVISION, rv_remarks := Some auto_remarks, rv_findings := auto_findings rs\<rparr>)" for x
      by (simp add: is_auto_review_def)
    note filter_update_first [of ?P, OF this]
    ultimately show ?thesis using True db1 by (simp add: write_auto_review_def auto_findings_def)
  next
    case False
    then have "filter ?P (dc_reviews db) = []" by (simp add: filter_empty_conv list_ex_iff)
    then show ?thesis using False db1
      by (simp add: write_auto_review_def insert_review_def is_auto_review_def auto_findings_def)
  qed
  moreover have "filter is_manual (dc_reviews (write_auto_review env (ver_document v) n rs db1)) = filter is_manual (dc_reviews db)"
    using db1 update_first_filter [of ?P is_manual]
    by (simp add: write_auto_review_def insert_review_def is_manual_def is_auto_review_def)
  ultimately show ?thesis using db' db1 by simp
qed

section \<open>Review and repository\<close>

text \<open>C31: The decision of a reviewer becomes the status of the document, and a document that is decided on is on the shelf of
  the repository exactly if it is accepted.\<close>

theorem decision_governs_repository:
  assumes "submitReview env n dto db = (Inr r, db')"
    "\<forall>s \<in> set (dc_reviews db). rv_document s = n \<longrightarrow> reviewed_at s \<le> de_now env" "\<not> isFocal (de_caps env') role"
  shows "compliance_status db' n = Some (rd_decision dto)
    \<and> (n \<in> doc_id ` set (repository_documents env' role actor db') \<longleftrightarrow> rd_decision dto = COMPLIANT)"
proof -
  let ?v = "the (current_version_of db (live_document db n))"
  obtain d where d: "live_document db n = Some d" and db': "db' = set_status n (if rd_decision dto = COMPLIANT then DOC_READY else DOC_PENDING)
      (insert_review (manual_review env n (ver_id ?v) dto) db)"
    using assms(1) by (auto simp: submitReview_def review_guard_def Let_def split: option.splits)
  let ?r = "(manual_review env n (ver_id ?v) dto)\<lparr>rv_id := dc_nextId db\<rparr>"
  have "dc_reviews db' = dc_reviews db @ [?r]" by (simp add: db' set_status_def update_document_def insert_review_def)
  moreover have "oldest_by (\<lambda>r. - reviewed_at r) (rev (filter (\<lambda>r. rv_document r = n) (dc_reviews db))) = Some s
      \<Longrightarrow> reviewed_at s \<le> de_now env" for s using assms(2) by (auto dest: oldest_by_Some)
  ultimately have "latest_review db' n = Some ?r"
    by (auto simp: latest_review_def manual_review_def split: option.split)
  then have status: "compliance_status db' n = Some (rd_decision dto)" by (simp add: compliance_status_def manual_review_def)
  have "n \<in> doc_id ` set (repository_documents env' role actor db')" if "rd_decision dto = COMPLIANT"
  proof -
    from live_document_Some [OF d] have "d\<lparr>doc_status := DOC_READY\<rparr> \<in> set (dc_documents db')"
      using that by (force simp: db' set_status_def update_document_def insert_review_def)
    with status that assms(3) live_document_Some [OF d] show ?thesis
      by (force simp: repository_documents_def image_iff)
  qed
  moreover have "rd_decision dto = COMPLIANT" if "n \<in> doc_id ` set (repository_documents env' role actor db')"
    using that status by (auto simp: repository_documents_def)
  ultimately show ?thesis using status by blast
qed

text \<open>C10: A new version of an accepted document keeps the approval: it is the current version and stands in the
  repository, although no review is of it.\<close>

theorem new_version_keeps_approval:
  assumes "documents_reachable db" "createVersion env n user notes original file db = (Inr v, db')"
    "compliance_status db n = Some COMPLIANT" "\<not> isFocal (de_caps env') role"
  shows "n \<in> doc_id ` set (repository_documents env' role actor db')
    \<and> (\<forall>d \<in> set (dc_documents db'). doc_id d = n \<longrightarrow> current_version d = version_number v)
    \<and> (\<forall>r \<in> set (dc_reviews db'). rv_version r \<noteq> ver_id v)"
proof -
  from assms(2) obtain d where d: "live_document db n = Some d" by (auto simp: createVersion_def Let_def split: option.splits)
  define k where "k = (case latest_version db n of Some v \<Rightarrow> version_number v + 1 | None \<Rightarrow> 1)"
  define f :: "document \<Rightarrow> document" where "f = (\<lambda>d. d\<lparr>current_version := k, doc_status := DOC_READY, doc_text := Some (extractInitialText env original file)\<rparr>)"
  have f: "doc_id (f e) = doc_id e" "is_deleted (f e) = is_deleted e" "current_version (f e) = k" "doc_status (f e) = DOC_READY" for e
    by (simp_all add: f_def)
  have v: "ver_id v = dc_nextId db" "version_number v = k"
    and docs: "dc_documents db' = map (\<lambda>d. if doc_id d = n then f d else d) (dc_documents db)" and revs: "dc_reviews db' = dc_reviews db"
    using assms(2) d by (auto simp: createVersion_def Let_def k_def f_def new_version_def update_document_def add_task_def split: if_splits)
  from live_document_Some [OF d] have "f d \<in> set (dc_documents db')" by (force simp: docs)
  moreover have "compliance_status db' n = Some COMPLIANT" using assms(3) revs by (simp add: compliance_status_def latest_review_def)
  ultimately have "n \<in> doc_id ` set (repository_documents env' role actor db')"
    using assms(4) live_document_Some [OF d] by (force simp: repository_documents_def image_iff f)
  moreover have "rv_version r \<noteq> ver_id v" if "r \<in> set (dc_reviews db')" for r
  proof -
    have ok: "docs_ok db" using assms(1) by (rule documents_reachable_ok)
    have "(rv_document r, rv_version r, reviewer_id r) \<in> set (map rev_shape (dc_reviews db))" using that revs by (force simp: rev_shape_def)
    with ok obtain k where "(rv_version r, rv_document r, k) \<in> set (map ver_shape (dc_versions db))"
      unfolding docs_ok_def reviews_ok_def by blast
    moreover have "versions_ok (map doc_shape (dc_documents db)) (map ver_shape (dc_versions db)) (dc_nextId db)"
      using ok by (simp add: docs_ok_def)
    ultimately show ?thesis using versions_okD(3) v(1) by fastforce
  qed
  moreover have "current_version e = version_number v" if "e \<in> set (dc_documents db')" "doc_id e = n" for e
    using that f v(2) by (auto simp: docs split: if_splits)
  ultimately show ?thesis by blast
qed

lemma first_keys_simps [simp]: "set (first_keys ks) = set ks" "distinct (first_keys ks)"
  by (induction ks) auto

lemma mset_shelves: "distinct ks \<Longrightarrow> f ` set xs \<subseteq> set ks \<Longrightarrow> mset (concat (map (\<lambda>k. filter (\<lambda>x. f x = k) xs) ks)) = mset xs"
proof (induction ks arbitrary: xs)
  case (Cons k ks)
  let ?ys = "filter (\<lambda>x. f x \<noteq> k) xs"
  have "filter (\<lambda>x. f x = j) ?ys = filter (\<lambda>x. f x = j) xs" if "j \<in> set ks" for j
    using that Cons.prems(1) by (auto intro: filter_cong)
  then have e: "map (\<lambda>j. filter (\<lambda>x. f x = j) ?ys) ks = map (\<lambda>j. filter (\<lambda>x. f x = j) xs) ks" by simp
  have "f ` set ?ys \<subseteq> set ks" using Cons.prems(2) by auto
  from Cons.IH [OF _ this] Cons.prems(1)
  have "mset (concat (map (\<lambda>j. filter (\<lambda>x. f x = j) ?ys) ks)) = mset ?ys" by (simp del: filter_filter)
  then show ?case unfolding e by (simp flip: multiset_partition)
qed simp

lemma mset_concat_cong: "mset xs = mset ys \<Longrightarrow> mset (concat (map f xs)) = mset (concat (map f ys))"
proof -
  assume "mset xs = mset ys"
  then have "image_mset (mset \<circ> f) (mset xs) = image_mset (mset \<circ> f) (mset ys)" by simp
  then have "mset (map (mset \<circ> f) xs) = mset (map (mset \<circ> f) ys)" by simp
  then show ?thesis by (simp add: mset_concat flip: sum_mset_sum_list)
qed

lemma year_buckets_mset: "mset (concat (map snd (year_buckets ds year))) = mset (filter (\<lambda>d. shelf_year d = year) ds)"
proof -
  let ?ds = "filter (\<lambda>d. shelf_year d = year) ds" and ?f = "\<lambda>d. bk_key (parsePeriodBucket (doc_period d))"
  let ?bs = "map (\<lambda>k. (k, shelf ds year k)) (first_keys (map ?f ?ds))"
  have "mset (concat (map snd (year_buckets ds year))) = mset (concat (map snd ?bs))"
    by (rule mset_concat_cong) (simp add: year_buckets_def Let_def)
  also have "map snd ?bs = map (\<lambda>k. filter (\<lambda>d. ?f d = k) ?ds) (first_keys (map ?f ?ds))"
    by (simp add: shelf_def comp_def conj_commute)
  also have "mset (concat \<dots>) = mset ?ds" by (rule mset_shelves) simp_all
  finally show ?thesis .
qed

text \<open>The repository shows every live, ready document with an accepting latest review (to a focal person, their own)
  exactly once, on the shelf of its year and period, and no other document.\<close>

lemma repository_shelves_approved:
  "(\<forall>year buckets key ds d. (year, buckets) \<in> set (getRepository env role actor db) \<longrightarrow> (key, ds) \<in> set buckets \<longrightarrow> d \<in> set ds
      \<longrightarrow> shelf_year d = year \<and> bk_key (parsePeriodBucket (doc_period d)) = key)
    \<and> mset (concat (map (\<lambda>(_, buckets). concat (map snd buckets)) (getRepository env role actor db)))
      = mset (filter (\<lambda>d. \<not> is_deleted d \<and> doc_status d = DOC_READY \<and> compliance_status db (doc_id d) = Some COMPLIANT
          \<and> (isFocal (de_caps env) role \<and> actor \<noteq> 0 \<longrightarrow> uploaded_by d = actor)) (dc_documents db))"
proof -
  let ?ds = "repository_documents env role actor db"
  let ?years = "sort_key (\<lambda>y. - int (parse_nat y)) (first_keys (map shelf_year ?ds))"
  have "map (\<lambda>(_, buckets). concat (map snd buckets)) (getRepository env role actor db)
      = map (\<lambda>y. concat (map snd (year_buckets ?ds y))) ?years" by (simp add: getRepository_def Let_def)
  then have "mset (concat (map (\<lambda>(_, buckets). concat (map snd buckets)) (getRepository env role actor db)))
      = sum_list (map (\<lambda>y. mset (concat (map snd (year_buckets ?ds y)))) ?years)"
    by (simp add: mset_concat comp_def)
  also have "\<dots> = mset (concat (map (\<lambda>y. filter (\<lambda>d. shelf_year d = y) ?ds) ?years))"
    unfolding year_buckets_mset by (simp add: mset_concat comp_def)
  also have "\<dots> = mset ?ds" by (rule mset_shelves) simp_all
  also have "\<dots> = mset (filter (\<lambda>d. \<not> is_deleted d \<and> doc_status d = DOC_READY \<and> compliance_status db (doc_id d) = Some COMPLIANT
          \<and> (isFocal (de_caps env) role \<and> actor \<noteq> 0 \<longrightarrow> uploaded_by d = actor)) (dc_documents db))"
    by (simp add: repository_documents_def mset_filter filter_filter_mset conj_ac)
  finally show ?thesis by (auto simp: getRepository_def year_buckets_def shelf_def Let_def)
qed

end
