(* ===== verification/DocWitnesses.thy ===== *)
theory DocWitnesses
  imports DocProps DocFlow Samples
begin

text \<open>
  Instances of the theorems about documents: a focal person hands in the monthly report of January, the check
  for the word \<open>approved\<close> fails on it, and it is handed in again.
\<close>

definition doc_bytes :: "byte list" where
  "doc_bytes = [0x25, 0x50, 0x44, 0x46, 0x2D]"

definition docs_env :: doc_env where
  "docs_env = \<lparr>de_now = 1000, de_caps = (\<lambda>r. if r = admin_role then Some [CapDocumentsAccess] else Some [CapFocal]),
     de_queue = False, de_docxText = (\<lambda>_. None), de_pdfText = (\<lambda>_. Some ''Incidents''), de_docxHtml = (\<lambda>_. None),
     calculateChecksum = (\<lambda>bs. if length bs = 5 then [] else ''a''), de_regexTest = (\<lambda>_ _. None), de_regexMatch = (\<lambda>_ _. None), diff_main = (\<lambda>_ _. []),
     de_export = (\<lambda>_. None)\<rparr>"

definition january :: upload_dto where
  "january = \<lparr>ud_title = ''January'', ud_document_type = ''Incident report'', ud_period = ''1'', ud_year = ''2026'', ud_unit = 3,
     ud_uploader = 7, ud_role = USER, ud_reportorial = None, ud_name = ''INC202601.pdf'', ud_file = doc_bytes\<rparr>"

definition empty_docs :: doc_db where
  "empty_docs = \<lparr>dc_documents = [], dc_versions = [], dc_reviews = [], dc_references = [], dc_comparisons = [],
     dc_assignments = [], dc_types = [], dc_templates = [], dc_applicability = [], dc_results = [], dc_issuanceLinks = [],
     dc_tasks = [], dc_nextId = 1\<rparr>"

definition preparations :: "document_request list" where
  "preparations =
     [CreateTemplate ''Approval''
        (KeywordRule \<lparr>kw_keywords = [''approved''], kw_min_count = None, kw_case_sensitive = False, kw_word_boundary = True\<rparr> None)
        (Some 1) [\<lparr>ad_unit = None, ad_document_type = None, ad_reportorial = None\<rparr>],
      CreateAssignment \<lparr>sd_user = 7, sd_unit = Some 3, sd_type = Some ''Incident report'', sd_report_name = None,
        sd_prefix = Some ''inc'', sd_frequency = Some MONTHLY, sd_month = None, sd_active = None\<rparr>,
      Upload january]"

definition handed_in :: doc_db where
  "handed_in = fold (document_perform docs_env) preparations empty_docs"

definition checked :: doc_db where
  "checked = run_task docs_env (KickProcess 3 4) (handed_in\<lparr>dc_tasks := remove1 (KickProcess 3 4) (dc_tasks handed_in)\<rparr>)"

text \<open>The two states, evaluated once.\<close>

lemma handed_in_value [code]: "handed_in =
    \<lparr>dc_documents = [\<lparr>doc_id = 3, doc_title = ''January'', document_type = ''Incident report'',
     doc_period = ''1'', doc_year = ''2026'', reportorial_doc_type_id = None, doc_status = DOC_PENDING,
     current_version = 1, doc_text = Some [], doc_unit = 3, uploaded_by = 7, doc_created_at = 1000,
     is_deleted = False\<rparr>], dc_versions = [\<lparr>ver_id = 4, ver_document = 3, version_number = 1,
     file_name = ''INC202601.pdf'', mime_pdf = True, file_blob = [37, 80, 68, 70, 45], checksum = [],
     preview_blob = Some (PdfPreview [37, 80, 68, 70, 45]), ver_text = Some [], change_notes = None,
     ver_uploader = 7, ver_created_at = 1000\<rparr>], dc_reviews = [], dc_references = [], dc_comparisons = [],
     dc_assignments = [\<lparr>as_id = 2, as_user = 7, as_unit = 3, as_document_type = ''Incident report'',
     report_name = None, filename_prefix = Some ''INC'', as_frequency = MONTHLY, submission_month = None,
     as_active = True\<rparr>], dc_types = [], dc_templates = [\<lparr>mt_id = 1, mt_name = ''Approval'',
     mt_rule = KeywordRule \<lparr>kw_keywords = [''approved''], kw_min_count = None, kw_case_sensitive = False,
     kw_word_boundary = True\<rparr> None, weight = 1, mt_active = True\<rparr>],
     dc_applicability = [\<lparr>ma_metric = 1, ma_unit = None, ma_document_type = None,
     ma_reportorial = None\<rparr>], dc_results = [], dc_issuanceLinks = [], dc_tasks = [KickProcess 3 4],
     dc_nextId = 5\<rparr>"
  by code_simp

lemma checked_value [code]: "checked =
    \<lparr>dc_documents = [\<lparr>doc_id = 3, doc_title = ''January'', document_type = ''Incident report'',
     doc_period = ''1'', doc_year = ''2026'', reportorial_doc_type_id = None, doc_status = DOC_READY,
     current_version = 1, doc_text = Some ''Incidents'', doc_unit = 3, uploaded_by = 7, doc_created_at = 1000,
     is_deleted = False\<rparr>], dc_versions = [\<lparr>ver_id = 4, ver_document = 3, version_number = 1,
     file_name = ''INC202601.pdf'', mime_pdf = True, file_blob = [37, 80, 68, 70, 45], checksum = [],
     preview_blob = Some (PdfPreview [37, 80, 68, 70, 45]), ver_text = Some ''Incidents'', change_notes = None,
     ver_uploader = 7, ver_created_at = 1000\<rparr>], dc_reviews = [\<lparr>rv_id = 7, rv_document = 3,
     rv_version = 4, decision = NEEDS_REVISION,
     rv_remarks = Some ''Automated checks flagged this submission for revision:'',
     rv_findings = [\<lparr>fd_category = ''Automated Check'', fd_description = None\<rparr>],
     reviewer_id = None, reviewed_at = 1000\<rparr>], dc_references = [], dc_comparisons = [],
     dc_assignments = [\<lparr>as_id = 2, as_user = 7, as_unit = 3, as_document_type = ''Incident report'',
     report_name = None, filename_prefix = Some ''INC'', as_frequency = MONTHLY, submission_month = None,
     as_active = True\<rparr>], dc_types = [], dc_templates = [\<lparr>mt_id = 1, mt_name = ''Approval'',
     mt_rule = KeywordRule \<lparr>kw_keywords = [''approved''], kw_min_count = None, kw_case_sensitive = False,
     kw_word_boundary = True\<rparr> None, weight = 1, mt_active = True\<rparr>],
     dc_applicability = [\<lparr>ma_metric = 1, ma_unit = None, ma_document_type = None,
     ma_reportorial = None\<rparr>], dc_results = [\<lparr>mr_id = 6, mr_version = 4, mr_template = 1,
     execution_id = 5, mr_status = FAIL, mr_score = 0 / rat_of_int 1,
     mr_evidence = KeywordEvidence [(''approved'', 0)] 0, computed_at = 1000\<rparr>], dc_issuanceLinks = [],
     dc_tasks = [], dc_nextId = 8\<rparr>"
  by code_simp

lemma perform_run: "document_step\<^sup>*\<^sup>* db (fold (document_perform env) qs db)"
proof (induction qs arbitrary: db)
  case (Cons q qs)
  from converse_rtranclp_into_rtranclp [of document_step, OF document_request Cons] show ?case by simp
qed simp

lemma handed_in_reachable: "documents_reachable handed_in"
proof -
  have "documents_initial empty_docs" by (simp add: documents_initial_def empty_docs_def)
  then show ?thesis unfolding documents_reachable_def handed_in_def using perform_run by blast
qed

lemma check_step: "document_step handed_in checked"
  unfolding checked_def by (rule task_done) code_simp

lemma checked_reachable: "documents_reachable checked"
proof -
  from handed_in_reachable obtain db0 where "documents_initial db0" "document_step\<^sup>*\<^sup>* db0 handed_in"
    unfolding documents_reachable_def by blast
  with check_step show ?thesis unfolding documents_reachable_def by (meson rtranclp.rtrancl_into_rtrancl)
qed

lemma documents_consistent_witness: "\<exists>!v. v \<in> set (dc_versions checked) \<and> ver_document v = 3 \<and> version_number v = 1"
proof -
  have "list_ex (\<lambda>d. doc_id d = 3 \<and> current_version d = 1) (dc_documents checked)" by code_simp
  then obtain d where "d \<in> set (dc_documents checked)" "doc_id d = 3" "current_version d = 1" by (auto simp: list_ex_iff)
  with documents_consistent [OF checked_reachable] show ?thesis by (metis le_refl)
qed

lemma stored_documents_genuine_witness: "\<exists>v \<in> set (dc_versions checked). isPdf (file_name v) \<and> isPdfSignature (file_blob v)"
proof -
  have "list_ex (\<lambda>v. \<not> isDocx (file_name v)) (dc_versions checked)" by code_simp
  then obtain v where "v \<in> set (dc_versions checked)" "\<not> isDocx (file_name v)" by (auto simp: list_ex_iff)
  with stored_documents_genuine [OF checked_reachable this(1)] show ?thesis by blast
qed


lemma human_decisions_stay_witness: "prefix (dc_results handed_in) (dc_results checked)"
  using human_decisions_stay [OF r_into_rtranclp [of document_step, OF check_step]] by blast


definition misnamed :: upload_dto where
  "misnamed = january\<lparr>ud_name := ''report.pdf''\<rparr>"

lemma rejected_resubmission_archives_witness:
  "live_document checked 3 \<noteq> None \<and> live_document (snd (uploadDocument docs_env misnamed checked)) 3 = None"
proof -
  let ?ty = "normalizeDocumentType (ud_document_type misnamed)"
  have "case find_assignment misnamed ?ty checked of Some a \<Rightarrow> buildExpectedFileBase a (ud_period misnamed) (ud_year misnamed) = Inr ''INC202601''
      | None \<Rightarrow> False" by code_simp
  then obtain a where a: "find_assignment misnamed ?ty checked = Some a"
    "buildExpectedFileBase a (ud_period misnamed) (ud_year misnamed) = Inr ''INC202601''" by (auto split: option.splits)
  have "case List.find (same_cycle misnamed ?ty) (dc_documents checked) of
      Some d \<Rightarrow> doc_id d = 3 \<and> returned_review (latest_review checked (doc_id d)) | None \<Rightarrow> False" by code_simp
  then obtain d where d: "List.find (same_cycle misnamed ?ty) (dc_documents checked) = Some d" "doc_id d = 3"
    "returned_review (latest_review checked (doc_id d))" by (auto split: option.splits)
  have "isFocal (de_caps docs_env) (ud_role misnamed)" "\<not> truthy (ud_reportorial misnamed)"
    "valid_document (safe_name (ud_name misnamed)) (ud_file misnamed)"
    "toUpperCase (strip_extension (safe_name (ud_name misnamed))) \<noteq> ''INC202601''" by code_simp+
  from rejected_resubmission_archives [OF this(1-3) a(1) d(1,3) a(2) _ this(4)] d(2)
  have "live_document (snd (uploadDocument docs_env misnamed checked)) 3 = None" by simp
  moreover have "live_document checked 3 \<noteq> None" by code_simp
  ultimately show ?thesis by blast
qed

lemma failing_version_sent_back_witness:
  "\<exists>rs a db'. computeMetricsAndAutoReview docs_env 4 handed_in = (Inr (rs, a), db')
     \<and> map decision (filter (is_auto_review 3 4) (dc_reviews db')) = [NEEDS_REVISION]"
proof -
  have "case find_version handed_in 4 of Some v \<Rightarrow> ver_document v = 3 | None \<Rightarrow> False" by code_simp
  then obtain v where v: "find_version handed_in 4 = Some v" "ver_document v = 3" by (auto split: option.splits)
  have "case computeMetricsAndAutoReview docs_env 4 handed_in of (Inr (rs, a), db') \<Rightarrow> list_ex failed_result rs | _ \<Rightarrow> False" by code_simp
  then obtain rs a db' where c: "computeMetricsAndAutoReview docs_env 4 handed_in = (Inr (rs, a), db')" "list_ex failed_result rs"
    by (auto split: prod.splits sum.splits)
  from failing_version_sent_back [OF handed_in_reachable v(1) c(1)] c v(2)
  obtain r where "filter (is_auto_review 3 4) (dc_reviews db') = [r]" "decision r = NEEDS_REVISION" by auto
  with c(1) show ?thesis by auto
qed

definition acceptance :: review_dto where
  "acceptance = \<lparr>rd_decision = COMPLIANT, rd_remarks = None, rd_findings = [], rd_reviewer = 1\<rparr>"

lemma decision_governs_repository_witness:
  "\<exists>r db'. submitReview docs_env 3 acceptance checked = (Inr r, db')
     \<and> 3 \<in> doc_id ` set (repository_documents docs_env admin_role 1 db')"
proof -
  have "case submitReview docs_env 3 acceptance checked of (Inl _, _) \<Rightarrow> False | (Inr _, _) \<Rightarrow> True" by code_simp
  then obtain r db' where s: "submitReview docs_env 3 acceptance checked = (Inr r, db')" by (auto split: prod.splits sum.splits)
  have "list_all (\<lambda>s. reviewed_at s \<le> de_now docs_env) (dc_reviews checked)" "\<not> isFocal (de_caps docs_env) admin_role"
    "rd_decision acceptance = COMPLIANT" by code_simp+
  then show ?thesis using decision_governs_repository [OF s, of docs_env admin_role 1] s by (auto simp: list_all_iff)
qed

definition shelved :: doc_db where
  "shelved = snd (submitReview docs_env 3 acceptance checked)"

lemma new_version_keeps_approval_witness:
  "\<exists>v db'. createVersion docs_env 3 7 None ''second.pdf'' (doc_bytes @ [0]) shelved = (Inr v, db')
     \<and> 3 \<in> doc_id ` set (repository_documents docs_env admin_role 1 db') \<and> \<not> list_ex (\<lambda>r. rv_version r = ver_id v) (dc_reviews db')"
proof -
  have "document_step checked (document_perform docs_env (Review 3 acceptance) checked)" by (rule document_request)
  then have "document_step checked shelved" by (simp add: shelved_def)
  with checked_reachable have r: "documents_reachable shelved"
    unfolding documents_reachable_def by (meson rtranclp.rtrancl_into_rtrancl)
  have "case createVersion docs_env 3 7 None ''second.pdf'' (doc_bytes @ [0]) shelved of (Inl _, _) \<Rightarrow> False | (Inr _, _) \<Rightarrow> True"
    by code_simp
  then obtain v db' where c: "createVersion docs_env 3 7 None ''second.pdf'' (doc_bytes @ [0]) shelved = (Inr v, db')"
    by (auto split: prod.splits sum.splits)
  have "compliance_status shelved 3 = Some COMPLIANT" "\<not> isFocal (de_caps docs_env) admin_role" by code_simp+
  from new_version_keeps_approval [OF r c this] c show ?thesis by (auto simp: list_ex_iff)
qed

lemma period_suffix_roundtrip_witness:
  "bk_sort (parsePeriodBucket (computePeriodSuffixFromParts QUARTERLY ''2026'' (period_token QUARTERLY 3) 0)) = 103"
proof -
  let ?r = "\<lparr>deadline_date = None, deadline_day = None, deadline_month_offset = None, rule_frequency = None,
    rule_submission_month = None, custom_period_regex = [], year_group = None, month_group = None, fallback_month = None\<rparr>"
  have "year_only ''2026''" "(3 :: nat) \<in> periods_of QUARTERLY" "rule_submission_month ?r = None"
    by (code_simp, simp add: periods_of_def, simp)
  from period_suffix_roundtrip [OF this] show ?thesis by (simp add: Let_def period_rank_def)
qed

end
