(* ===== verification/Forms.thy ===== *)
theory Forms
  imports Periods Keywords Roles
begin

text \<open>
  What the services of the compliance suite share in reading the fields of a form, and the names of persons
  (\<^verbatim>\<open>shared/utils/person-name.ts\<close>).
\<close>

text \<open>\<open>if (value !== undefined) entity.field = value\<close>, for a column and for a nullable one.\<close>

definition given :: "'a option \<Rightarrow> 'a \<Rightarrow> 'a" where
  "given new old = (case new of Some x \<Rightarrow> x | None \<Rightarrow> old)"

definition given_opt :: "'a option \<Rightarrow> 'a option \<Rightarrow> 'a option" where
  "given_opt new old = (if new = None then old else new)"

lemma given_simps [simp]: "given None x = x" "given (Some y) x = y"
  "given_opt None o' = o'" "given_opt (Some y) o' = Some y"
  by (simp_all add: given_def given_opt_def)

text \<open>\<open>value || fallback\<close>, \<open>value || ''\<close>, \<open>value || null\<close> and \<open>value?.trim() || null\<close>.\<close>

definition text_or :: "string option \<Rightarrow> string \<Rightarrow> string" where
  "text_or s d = (case s of Some x \<Rightarrow> if x = [] then d else x | None \<Rightarrow> d)"

definition or_empty :: "string option \<Rightarrow> string" where
  "or_empty s = (case s of Some t \<Rightarrow> t | None \<Rightarrow> [])"

definition nonempty_text :: "string option \<Rightarrow> string option" where
  "nonempty_text s = (if s = Some [] then None else s)"

definition trimmed :: "string option \<Rightarrow> string option" where
  "trimmed s = (if blank s then None else map_option trim s)"

definition actor_id :: "nat option \<Rightarrow> nat option" where
  "actor_id user = (if truthy user then user else None)"

text \<open>An account as the users service gives it, and \<open>formatPersonName\<close>.\<close>

record person =
  pn_id :: nat
  pn_staffId :: "string option"
  pn_first :: "string option"
  pn_middle :: "string option"
  pn_last :: "string option"
  pn_suffix :: "string option"
  pn_email :: "string option"

fun join_words :: "string list \<Rightarrow> string" where
  "join_words [] = []"
| "join_words [w] = w"
| "join_words (w # ws) = w @ CHR '' '' # join_words ws"

definition formatPersonName :: "person option \<Rightarrow> string \<Rightarrow> string" where
  "formatPersonName p fallback =
     (case p of None \<Rightarrow> fallback
      | Some p \<Rightarrow>
          (let name = join_words (filter (\<lambda>s. s \<noteq> []) (map (trim \<circ> or_empty) [pn_first p, pn_middle p, pn_last p, pn_suffix p]))
           in if name \<noteq> [] then name
              else if trim (or_empty (pn_email p)) \<noteq> [] then trim (or_empty (pn_email p)) else fallback))"

section \<open>Tables with generated ids\<close>

text \<open>The ids of the rows are different and were all given out before \<open>n\<close>.\<close>

definition fresh_table :: "('r \<Rightarrow> nat) \<Rightarrow> 'r list \<Rightarrow> nat \<Rightarrow> bool" where
  "fresh_table key rows n \<longleftrightarrow> table_ok key rows \<and> (\<forall>r \<in> set rows. key r < n)"

named_theorems fresh "tables keep their ids fresh"

lemma fresh_Nil [fresh]: "fresh_table key [] n"
  by (simp add: fresh_table_def table_ok_def)

lemma fresh_mono: "fresh_table key rows n \<Longrightarrow> n \<le> m \<Longrightarrow> fresh_table key rows m"
  by (auto simp: fresh_table_def)

lemma fresh_Suc [fresh]: "fresh_table key rows n \<Longrightarrow> fresh_table key rows (Suc n)"
  by (rule fresh_mono) auto

lemma fresh_save:
  "fresh_table key rows n \<Longrightarrow> key r < m \<Longrightarrow> n \<le> m \<Longrightarrow> fresh_table key (save_row key rows r) m"
  using set_save_row_subset [of key rows r] by (fastforce simp: fresh_table_def table_simps)

lemma fresh_save_same [fresh]: "fresh_table key rows n \<Longrightarrow> key r < n \<Longrightarrow> fresh_table key (save_row key rows r) n"
  by (rule fresh_save) auto

lemma fresh_append [fresh]: "fresh_table key rows n \<Longrightarrow> key r = n \<Longrightarrow> fresh_table key (rows @ [r]) (Suc n)"
  by (auto simp: fresh_table_def table_ok_def)

lemma fresh_filter [fresh]: "fresh_table key rows n \<Longrightarrow> fresh_table key (filter P rows) n"
  by (auto simp: fresh_table_def table_ok_def distinct_map_filter)

lemma fresh_map [fresh]: "(\<And>r. key (f r) = key r) \<Longrightarrow> fresh_table key rows n \<Longrightarrow> fresh_table key (map f rows) n"
  by (auto simp: fresh_table_def table_ok_def comp_def)

lemma fresh_unique: "fresh_table key rows n \<Longrightarrow> r \<in> set rows \<Longrightarrow> s \<in> set rows \<Longrightarrow> key r = key s \<Longrightarrow> r = s"
  by (auto simp: fresh_table_def table_ok_def distinct_map dest: inj_onD)

lemma fresh_less: "fresh_table key rows n \<Longrightarrow> r \<in> set rows \<Longrightarrow> key r < n"
  by (auto simp: fresh_table_def)

lemma find_SomeD: "List.find P xs = Some x \<Longrightarrow> x \<in> set xs \<and> P x"
  by (auto simp: find_Some_iff)

text \<open>The rows of a table after a saved row.\<close>

lemma set_save_row:
  "table_ok key rows \<Longrightarrow> set (save_row key rows r) = insert r {x \<in> set rows. key x \<noteq> key r}"
proof (induction rows)
  case (Cons x xs)
  then have "table_ok key xs" "key x \<notin> key ` set xs" by (auto simp: table_ok_def)
  with Cons.IH show ?case by (cases "key x = key r") (auto simp: image_iff)
qed simp

lemma fresh_set_save: "fresh_table key rows n \<Longrightarrow> set (save_row key rows r) = insert r {x \<in> set rows. key x \<noteq> key r}"
  by (simp add: fresh_table_def set_save_row)

text \<open>A saved row that keeps its value of another column, or that is new with a value not yet used.\<close>

lemma save_row_new: "key r \<notin> key ` set rows \<Longrightarrow> save_row key rows r = rows @ [r]"
  by (induction rows) auto

lemma map_save_row_same:
  "table_ok key rows \<Longrightarrow> find_row key rows (key r) = Some e \<Longrightarrow> g e = g r \<Longrightarrow> map g (save_row key rows r) = map g rows"
proof (induction rows)
  case (Cons x xs)
  then show ?case by (cases "key x = key r") (auto simp: find_row_def table_ok_def)
qed (simp add: find_row_def)

end
