(* ===== verification/Kpi.thy ===== *)
theory Kpi
  imports Forms
begin

text \<open>
  The indicators of the compliance service (\<^verbatim>\<open>kpi/services/kpi.service.ts\<close>, \<^verbatim>\<open>kpi/entities\<close>): the master records,
  the monthly values of the units, the bands of scores and the scoring rules.  Columns of type \<open>float\<close> hold
  exact rationals.  \<open>null\<close> in an optional text of a form is not told from a missing one.  The unit of a value
  is kept by another service: \<open>ke_getUnitById\<close> is its answer, and the virtual property \<open>unit\<close> of a row is
  never filled.  Then the scores: the normalised score of a value, the dashboards of all units, of one unit and of
  its months, and the action plans.  Years, months and units of a query are numbers, \<open>None\<close> for what is no number.
\<close>

section \<open>Rows\<close>

datatype (plugins only: code) kpi_type = MEASUREMENT | YES_NO
datatype (plugins only: code) kpi_direction = HIGHER_IS_BETTER | LOWER_IS_BETTER
datatype (plugins only: code) kpi_frequency = MONTHLY | QUARTERLY | SEMESTRAL | ANNUAL
datatype (plugins only: code) monitoring_status = DRAFT | LOCKED

record kpi_master =
  km_code :: string
  km_name :: string
  km_description :: "string option"
  km_unitId :: nat
  km_type :: kpi_type
  km_unitOfMeasure :: "string option"
  km_direction :: kpi_direction
  km_targetValue :: rat
  km_weight :: rat
  km_frequency :: kpi_frequency
  km_active :: bool

record kpi_monitoring =
  ko_id :: nat
  ko_masterCode :: string
  ko_unitId :: nat
  ko_year :: nat
  ko_month :: nat
  ko_actualValue :: rat
  ko_remarks :: "string option"
  ko_enteredByUserId :: "nat option"
  ko_enteredByStaffId :: "string option"
  ko_enteredByName :: "string option"
  ko_status :: monitoring_status

record kpi_threshold =
  kt_id :: nat
  kt_band :: string
  kt_minScore :: rat
  kt_maxScore :: rat
  kt_color :: "string option"

record kpi_scoring_rule =
  ks_id :: nat
  ks_name :: string
  ks_active :: bool
  ks_capScore :: rat
  ks_floorScore :: rat
  ks_yesScore :: rat
  ks_noScore :: rat

record kpi_db =
  kd_masters :: "kpi_master list"
  kd_rows :: "kpi_monitoring list"
  kd_thresholds :: "kpi_threshold list"
  kd_rules :: "kpi_scoring_rule list"
  kd_nextId :: nat

text \<open>The units of the signed-in user are those of the token, which are numbers in objects.\<close>

record kpi_user =
  ku_id :: nat
  ku_role :: user_role
  ku_units :: "nat list"

text \<open>\<open>ke_rank\<close> is the place of a text in the collation of the database.\<close>

record kpi_env =
  ke_now :: date
  ke_caps :: capability_cache
  ke_getUserById :: "nat \<Rightarrow> person option"
  ke_getUnitById :: "nat \<Rightarrow> string option"
  ke_rank :: "string \<Rightarrow> int"

section \<open>Authority\<close>

definition isKpiManage :: "capability_cache \<Rightarrow> user_role \<Rightarrow> bool" where
  "isKpiManage caps = has_capability caps CapKpiManage"

definition canManage :: "kpi_env \<Rightarrow> kpi_user \<Rightarrow> bool" where
  "canManage env user = isKpiManage (ke_caps env) (ku_role user)"

definition canViewAll :: "kpi_env \<Rightarrow> kpi_user \<Rightarrow> bool" where
  "canViewAll env user = isKpiManage (ke_caps env) (ku_role user)"

definition getAllowedUnitIds :: "kpi_user \<Rightarrow> nat list" where
  "getAllowedUnitIds user = rev (remdups (rev (ku_units user)))"

section \<open>Bands and scoring rules\<close>

definition default_thresholds :: "nat \<Rightarrow> kpi_threshold list" where
  "default_thresholds n =
     [\<lparr>kt_id = n, kt_band = ''green'', kt_minScore = 90, kt_maxScore = 100, kt_color = Some ''success''\<rparr>,
      \<lparr>kt_id = n + 1, kt_band = ''amber'', kt_minScore = 75, kt_maxScore = 8999 / 100, kt_color = Some ''warning''\<rparr>,
      \<lparr>kt_id = n + 2, kt_band = ''red'', kt_minScore = 0, kt_maxScore = 7499 / 100, kt_color = Some ''error''\<rparr>]"

definition default_rule :: "nat \<Rightarrow> kpi_scoring_rule" where
  "default_rule n = \<lparr>ks_id = n, ks_name = ''default'', ks_active = True, ks_capScore = 100, ks_floorScore = 0,
     ks_yesScore = 100, ks_noScore = 0\<rparr>"

definition ensureLookups :: "kpi_db \<Rightarrow> kpi_db" where
  "ensureLookups db =
     (let n = kd_nextId db;
          db1 = (if kd_thresholds db = [] then db\<lparr>kd_thresholds := default_thresholds n, kd_nextId := n + 3\<rparr> else db);
          m = kd_nextId db1
      in if kd_rules db1 = [] then db1\<lparr>kd_rules := [default_rule m], kd_nextId := m + 1\<rparr> else db1)"

definition sorted_thresholds :: "kpi_db \<Rightarrow> kpi_threshold list" where
  "sorted_thresholds db = sort_key (\<lambda>t. - kt_minScore t) (kd_thresholds db)"

definition listThresholds :: "kpi_db \<Rightarrow> kpi_threshold list \<times> kpi_db" where
  "listThresholds db = (sorted_thresholds (ensureLookups db), ensureLookups db)"

definition listScoringRules :: "kpi_db \<Rightarrow> kpi_scoring_rule list \<times> kpi_db" where
  "listScoringRules db = (sort_key (\<lambda>r. - int (ks_id r)) (kd_rules (ensureLookups db)), ensureLookups db)"

record threshold_dto =
  td_band :: string
  td_minScore :: rat
  td_maxScore :: rat
  td_color :: "string option"

text \<open>The column \<open>band\<close> is unique: the database refuses a second row of a band.\<close>

definition upsertThreshold ::
  "kpi_env \<Rightarrow> kpi_user \<Rightarrow> nat option \<Rightarrow> threshold_dto \<Rightarrow> kpi_db \<Rightarrow> kpi_threshold result \<times> kpi_db" where
  "upsertThreshold env user n dto db =
     (if \<not> canManage env user then (Inl (Forbidden (Kpi KpiManage)), db)
      else if truthy n \<and> find_row kt_id (kd_thresholds db) (number n) = None
      then (Inl (NotFound (Kpi KpiThresholdNotFound)), db)
      else let i = (if truthy n then number n else kd_nextId db);
               t = \<lparr>kt_id = i, kt_band = td_band dto, kt_minScore = td_minScore dto, kt_maxScore = td_maxScore dto,
                    kt_color = nonempty_text (td_color dto)\<rparr>
           in if list_ex (\<lambda>u. kt_band u = td_band dto \<and> kt_id u \<noteq> i) (kd_thresholds db) then (Inl InternalServerError, db)
              else (Inr t, db\<lparr>kd_thresholds := save_row kt_id (kd_thresholds db) t,
                              kd_nextId := (if truthy n then kd_nextId db else kd_nextId db + 1)\<rparr>))"

record rule_dto =
  rd_name :: "string option"
  rd_active :: "bool option"
  rd_capScore :: "rat option"
  rd_floorScore :: "rat option"
  rd_yesScore :: "rat option"
  rd_noScore :: "rat option"

text \<open>A new row has the defaults of the columns where the form leaves them open.\<close>

definition upsertScoringRule ::
  "kpi_env \<Rightarrow> kpi_user \<Rightarrow> nat option \<Rightarrow> rule_dto \<Rightarrow> kpi_db \<Rightarrow> kpi_scoring_rule result \<times> kpi_db" where
  "upsertScoringRule env user n dto db =
     (if \<not> canManage env user then (Inl (Forbidden (Kpi KpiManage)), db)
      else case (if truthy n then find_row ks_id (kd_rules db) (number n) else Some (default_rule (kd_nextId db))) of
        None \<Rightarrow> (Inl (NotFound (Kpi KpiRuleNotFound)), db)
      | Some e \<Rightarrow>
          let saved = e\<lparr>ks_name := given (rd_name dto) (ks_name e), ks_active := given (rd_active dto) (ks_active e),
                ks_capScore := given (rd_capScore dto) (ks_capScore e), ks_floorScore := given (rd_floorScore dto) (ks_floorScore e),
                ks_yesScore := given (rd_yesScore dto) (ks_yesScore e), ks_noScore := given (rd_noScore dto) (ks_noScore e)\<rparr>;
              rules = save_row ks_id (kd_rules db) saved;
              db1 = db\<lparr>kd_rules := (if ks_active saved
                    then map (\<lambda>r. if ks_id r \<noteq> ks_id saved then r\<lparr>ks_active := False\<rparr> else r) rules else rules),
                  kd_nextId := (if truthy n then kd_nextId db else kd_nextId db + 1)\<rparr>
          in (Inr saved, db1))"

section \<open>Master records\<close>

definition find_master :: "kpi_db \<Rightarrow> string \<Rightarrow> kpi_master option" where
  "find_master db code = find_row km_code (kd_masters db) code"

definition listKpiMaster :: "kpi_env \<Rightarrow> kpi_user \<Rightarrow> kpi_db \<Rightarrow> kpi_master list" where
  "listKpiMaster env user db =
     (if canViewAll env user then sort_key (\<lambda>m. ke_rank env (km_code m)) (kd_masters db)
      else if getAllowedUnitIds user = [] then []
      else sort_key (\<lambda>m. ke_rank env (km_code m))
             (filter (\<lambda>m. km_unitId m \<in> set (getAllowedUnitIds user)) (kd_masters db)))"

definition ensureUnit :: "kpi_env \<Rightarrow> nat \<Rightarrow> http_error option" where
  "ensureUnit env n = (if ke_getUnitById env n = None then Some (NotFound (Kpi KpiUnitNotFound)) else None)"

record master_dto =
  cd_code :: string
  cd_name :: string
  cd_description :: "string option"
  cd_unitId :: nat
  cd_type :: kpi_type
  cd_unitOfMeasure :: "string option"
  cd_direction :: kpi_direction
  cd_targetValue :: rat
  cd_weight :: rat
  cd_frequency :: "kpi_frequency option"
  cd_active :: "bool option"

definition createKpiMaster :: "kpi_env \<Rightarrow> kpi_user \<Rightarrow> master_dto \<Rightarrow> kpi_db \<Rightarrow> kpi_master result \<times> kpi_db" where
  "createKpiMaster env user dto db =
     (case first_error [
        (\<not> canManage env user, Forbidden (Kpi KpiManage)),
        (ke_getUnitById env (cd_unitId dto) = None, NotFound (Kpi KpiUnitNotFound)),
        (find_master db (cd_code dto) \<noteq> None, BadRequest (Kpi KpiCodeExists))] of
        Some e \<Rightarrow> (Inl e, db)
      | None \<Rightarrow>
          (let m = \<lparr>km_code = cd_code dto, km_name = cd_name dto, km_description = cd_description dto,
                 km_unitId = cd_unitId dto, km_type = cd_type dto, km_unitOfMeasure = cd_unitOfMeasure dto,
                 km_direction = cd_direction dto, km_targetValue = cd_targetValue dto, km_weight = cd_weight dto,
                 km_frequency = given (cd_frequency dto) MONTHLY, km_active = given (cd_active dto) True\<rparr>
           in (Inr m, db\<lparr>kd_masters := save_row km_code (kd_masters db) m\<rparr>)))"

record master_update =
  mu_name :: "string option"
  mu_description :: "string option"
  mu_unitId :: "nat option"
  mu_type :: "kpi_type option"
  mu_unitOfMeasure :: "string option"
  mu_direction :: "kpi_direction option"
  mu_targetValue :: "rat option"
  mu_weight :: "rat option"
  mu_frequency :: "kpi_frequency option"
  mu_active :: "bool option"

definition updateKpiMaster ::
  "kpi_env \<Rightarrow> kpi_user \<Rightarrow> string \<Rightarrow> master_update \<Rightarrow> kpi_db \<Rightarrow> kpi_master result \<times> kpi_db" where
  "updateKpiMaster env user code dto db =
     (if \<not> canManage env user then (Inl (Forbidden (Kpi KpiManage)), db)
      else case find_master db code of
        None \<Rightarrow> (Inl (NotFound (Kpi KpiMasterNotFound)), db)
      | Some k \<Rightarrow>
          (case Option.bind (mu_unitId dto) (ensureUnit env) of
             Some e \<Rightarrow> (Inl e, db)
           | None \<Rightarrow>
               let m = k\<lparr>km_unitId := given (mu_unitId dto) (km_unitId k), km_name := given (mu_name dto) (km_name k),
                     km_description := given_opt (mu_description dto) (km_description k),
                     km_type := given (mu_type dto) (km_type k),
                     km_unitOfMeasure := given_opt (mu_unitOfMeasure dto) (km_unitOfMeasure k),
                     km_direction := given (mu_direction dto) (km_direction k),
                     km_targetValue := given (mu_targetValue dto) (km_targetValue k),
                     km_weight := given (mu_weight dto) (km_weight k),
                     km_frequency := given (mu_frequency dto) (km_frequency k), km_active := given (mu_active dto) (km_active k)\<rparr>
               in (Inr m, db\<lparr>kd_masters := save_row km_code (kd_masters db) m\<rparr>)))"

text \<open>The values of a removed indicator go with it (\<open>onDelete: 'CASCADE'\<close>).\<close>

definition removeKpiMaster :: "kpi_env \<Rightarrow> kpi_user \<Rightarrow> string \<Rightarrow> kpi_db \<Rightarrow> unit result \<times> kpi_db" where
  "removeKpiMaster env user code db =
     (if \<not> canManage env user then (Inl (Forbidden (Kpi KpiManage)), db)
      else if find_master db code = None then (Inl (NotFound (Kpi KpiMasterNotFound)), db)
      else (Inr (), db\<lparr>kd_masters := filter (\<lambda>m. km_code m \<noteq> code) (kd_masters db),
                      kd_rows := filter (\<lambda>r. ko_masterCode r \<noteq> code) (kd_rows db)\<rparr>))"

section \<open>Monitoring\<close>

record monitoring_query =
  mq_year :: "nat option"
  mq_month :: "nat option"
  mq_unitId :: "nat option"
  mq_masterCode :: "string option"

definition listMonitoring :: "kpi_env \<Rightarrow> kpi_user \<Rightarrow> monitoring_query \<Rightarrow> kpi_db \<Rightarrow> kpi_monitoring list result" where
  "listMonitoring env user query db =
     (let allowed = getAllowedUnitIds user;
          found = filter (\<lambda>r. given (map_option (\<lambda>y. ko_year r = y) (mq_year query)) True
              \<and> given (map_option (\<lambda>m. ko_month r = m) (mq_month query)) True
              \<and> given (map_option (\<lambda>c. ko_masterCode r = c) (mq_masterCode query)) True
              \<and> given (map_option (\<lambda>u. ko_unitId r = u) (mq_unitId query))
                  (canViewAll env user \<or> ko_unitId r \<in> set allowed)) (kd_rows db)
      in if \<not> canViewAll env user \<and> allowed = [] then Inr []
         else if \<not> canViewAll env user \<and> given (map_option (\<lambda>u. u \<notin> set allowed) (mq_unitId query)) False
         then Inl (Forbidden (Kpi KpiUnitDenied))
         else Inr (sort_key (\<lambda>r. - int (ko_year r)) (sort_key (\<lambda>r. - int (ko_month r))
                     (sort_key (\<lambda>r. ke_rank env (ko_masterCode r)) found))))"

record monitoring_dto =
  od_masterCode :: string
  od_unitId :: nat
  od_year :: nat
  od_month :: nat
  od_actualValue :: rat
  od_remarks :: "string option"
  od_status :: "monitoring_status option"

definition same_value :: "monitoring_dto \<Rightarrow> kpi_monitoring \<Rightarrow> bool" where
  "same_value dto r \<longleftrightarrow> ko_masterCode r = od_masterCode dto \<and> ko_unitId r = od_unitId dto
     \<and> ko_year r = od_year dto \<and> ko_month r = od_month dto"

text \<open>The author of a value; nobody when the users service cannot be reached.\<close>

definition entered_by :: "kpi_env \<Rightarrow> kpi_user \<Rightarrow> kpi_monitoring \<Rightarrow> kpi_monitoring" where
  "entered_by env user r =
     (let actor = ke_getUserById env (ku_id user); name = formatPersonName actor []
      in r\<lparr>ko_enteredByUserId := map_option pn_id actor, ko_enteredByStaffId := Option.bind actor pn_staffId,
           ko_enteredByName := (if name = [] then None else Some name)\<rparr>)"

definition yes_no_violated :: "kpi_master \<Rightarrow> rat \<Rightarrow> bool" where
  "yes_no_violated m v \<longleftrightarrow> km_type m = YES_NO \<and> v \<noteq> 0 \<and> v \<noteq> 1"

definition is_locked :: "kpi_monitoring \<Rightarrow> bool" where
  "is_locked r \<longleftrightarrow> ko_status r = LOCKED"

definition upsertMonitoring ::
  "kpi_env \<Rightarrow> kpi_user \<Rightarrow> monitoring_dto \<Rightarrow> kpi_db \<Rightarrow> kpi_monitoring result \<times> kpi_db" where
  "upsertMonitoring env user dto db =
     (if \<not> canManage env user then (Inl (Forbidden (Kpi KpiManage)), db)
      else if od_month dto < 1 \<or> 12 < od_month dto then (Inl (BadRequest (Kpi KpiMonth)), db)
      else case find_master db (od_masterCode dto) of
        None \<Rightarrow> (Inl (NotFound (Kpi KpiMasterNotFound)), db)
      | Some m \<Rightarrow>
          if ke_getUnitById env (od_unitId dto) = None then (Inl (NotFound (Kpi KpiUnitNotFound)), db)
          else let existing = List.find (same_value dto) (kd_rows db);
                   n = kd_nextId db;
                   base = given existing \<lparr>ko_id = n, ko_masterCode = od_masterCode dto, ko_unitId = od_unitId dto,
                     ko_year = od_year dto, ko_month = od_month dto, ko_actualValue = 0, ko_remarks = None,
                     ko_enteredByUserId = None, ko_enteredByStaffId = None, ko_enteredByName = None, ko_status = DRAFT\<rparr>;
                   row = (entered_by env user (base\<lparr>ko_actualValue := od_actualValue dto, ko_remarks := od_remarks dto\<rparr>))
                     \<lparr>ko_status := given (od_status dto) DRAFT\<rparr>
               in if given (map_option is_locked existing) False then (Inl (BadRequest (Kpi KpiLocked)), db)
                  else if yes_no_violated m (od_actualValue dto) then (Inl (BadRequest (Kpi KpiYesNo)), db)
                  else (Inr row, db\<lparr>kd_rows := save_row ko_id (kd_rows db) row,
                                    kd_nextId := (if existing = None then n + 1 else n)\<rparr>))"

record monitoring_update =
  ou_actualValue :: "rat option"
  ou_remarks :: "string option"
  ou_status :: "monitoring_status option"

definition updateMonitoring ::
  "kpi_env \<Rightarrow> kpi_user \<Rightarrow> nat \<Rightarrow> monitoring_update \<Rightarrow> kpi_db \<Rightarrow> kpi_monitoring result \<times> kpi_db" where
  "updateMonitoring env user n dto db =
     (if \<not> canManage env user then (Inl (Forbidden (Kpi KpiManage)), db)
      else case find_row ko_id (kd_rows db) n of
        None \<Rightarrow> (Inl (NotFound (Kpi KpiRowNotFound)), db)
      | Some r \<Rightarrow>
          if is_locked r then (Inl (BadRequest (Kpi KpiLocked)), db)
          else let row = r\<lparr>ko_actualValue := given (ou_actualValue dto) (ko_actualValue r),
                     ko_remarks := given_opt (ou_remarks dto) (ko_remarks r),
                     ko_status := given (ou_status dto) (ko_status r)\<rparr>
               in (case find_master db (ko_masterCode r) of
                     None \<Rightarrow> (Inl InternalServerError, db)
                   | Some m \<Rightarrow>
                       if yes_no_violated m (ko_actualValue row) then (Inl (BadRequest (Kpi KpiYesNo)), db)
                       else (Inr (entered_by env user row), db\<lparr>kd_rows := save_row ko_id (kd_rows db) (entered_by env user row)\<rparr>)))"

definition lockMonitoring :: "kpi_env \<Rightarrow> kpi_user \<Rightarrow> nat \<Rightarrow> kpi_db \<Rightarrow> kpi_monitoring result \<times> kpi_db" where
  "lockMonitoring env user n db =
     (if \<not> canManage env user then (Inl (Forbidden (Kpi KpiManage)), db)
      else case find_row ko_id (kd_rows db) n of
        None \<Rightarrow> (Inl (NotFound (Kpi KpiRowNotFound)), db)
      | Some r \<Rightarrow> (Inr (r\<lparr>ko_status := LOCKED\<rparr>), db\<lparr>kd_rows := save_row ko_id (kd_rows db) (r\<lparr>ko_status := LOCKED\<rparr>)\<rparr>))"

section \<open>Scores\<close>

text \<open>\<open>Number(x.toFixed(2))\<close>: halves away from zero.\<close>

definition toFixed2 :: "rat \<Rightarrow> rat" where
  "toFixed2 x = (if x < 0 then - (of_int (js_round (- x * 100)) / 100) else of_int (js_round (x * 100)) / 100)"

definition clamp_score :: "rat \<Rightarrow> rat \<Rightarrow> rat \<Rightarrow> rat" where
  "clamp_score v lo hi = min hi (max lo v)"

definition computeRaw :: "kpi_master \<Rightarrow> rat \<Rightarrow> kpi_scoring_rule \<Rightarrow> rat" where
  "computeRaw k actual rule =
     (if km_type k = YES_NO then (if 1 \<le> actual then ks_yesScore rule else ks_noScore rule)
      else if km_targetValue k \<le> 0 then 0
      else if km_direction k = HIGHER_IS_BETTER then actual / km_targetValue k * 100
      else if actual \<le> 0 then 0
      else km_targetValue k / actual * 100)"

definition normalized_score :: "kpi_scoring_rule \<Rightarrow> kpi_master \<Rightarrow> rat \<Rightarrow> rat" where
  "normalized_score rule k actual = clamp_score (computeRaw k actual rule) (ks_floorScore rule) (ks_capScore rule)"

definition classifyScore :: "rat \<Rightarrow> kpi_threshold list \<Rightarrow> string" where
  "classifyScore score ts =
     (case List.find (\<lambda>t. kt_minScore t \<le> score \<and> score \<le> kt_maxScore t) ts of
        Some t \<Rightarrow> if kt_band t = [] then ''unclassified'' else kt_band t
      | None \<Rightarrow> ''unclassified'')"

text \<open>\<open>findOne({ where: { active: true }, order: { id: 'DESC' } }) || create({ ... })\<close>.\<close>

definition active_rule :: "kpi_db \<Rightarrow> kpi_scoring_rule" where
  "active_rule db = given (oldest_by (\<lambda>r. - int (ks_id r)) (filter ks_active (kd_rules db))) (default_rule 0)"

text \<open>The virtual property \<open>row.unit\<close>, which nothing fills, and the names shown instead.\<close>

definition row_unit_name :: "kpi_monitoring \<Rightarrow> string option" where
  "row_unit_name r = None"

definition unit_label :: "nat \<Rightarrow> string" where
  "unit_label n = ''Unit '' @ show_nat n"

section \<open>Guards of the queries\<close>

definition year_ok :: "int option \<Rightarrow> bool" where
  "year_ok y = (case y of Some y \<Rightarrow> 2000 \<le> y \<and> y \<le> 2100 | None \<Rightarrow> False)"

definition month_ok :: "int option \<Rightarrow> bool" where
  "month_ok m = (case m of Some m \<Rightarrow> 1 \<le> m \<and> m \<le> 12 | None \<Rightarrow> False)"

definition unit_allowed :: "kpi_env \<Rightarrow> kpi_user \<Rightarrow> nat \<Rightarrow> bool" where
  "unit_allowed env user u \<longleftrightarrow> canViewAll env user \<or> u \<in> set (getAllowedUnitIds user)"

definition in_month :: "int \<Rightarrow> int \<Rightarrow> kpi_monitoring \<Rightarrow> bool" where
  "in_month y m r \<longleftrightarrow> int (ko_year r) = y \<and> int (ko_month r) = m"

section \<open>All units\<close>

record unit_group =
  ug_unitId :: nat
  ug_totalWeight :: rat
  ug_weightedSum :: rat
  ug_count :: nat

text \<open>\<open>byUnit.set(id, ...)\<close>: a \<open>Map\<close> keeps the order in which its keys came.\<close>

fun put_group :: "unit_group \<Rightarrow> unit_group list \<Rightarrow> unit_group list" where
  "put_group g [] = [g]"
| "put_group g (h # hs) = (if ug_unitId h = ug_unitId g then g # hs else h # put_group g hs)"

definition group_of :: "unit_group list \<Rightarrow> nat \<Rightarrow> unit_group" where
  "group_of gs u = given (find_row ug_unitId gs u) \<lparr>ug_unitId = u, ug_totalWeight = 0, ug_weightedSum = 0, ug_count = 0\<rparr>"

fun group_rows :: "kpi_db \<Rightarrow> kpi_scoring_rule \<Rightarrow> unit_group list \<Rightarrow> kpi_monitoring list \<Rightarrow> unit_group list" where
  "group_rows db rule gs [] = gs"
| "group_rows db rule gs (r # rs) =
     group_rows db rule
       (case find_master db (ko_masterCode r) of
          None \<Rightarrow> gs
        | Some k \<Rightarrow>
            if \<not> km_active k then gs
            else let current = group_of gs (ko_unitId r)
                 in put_group (current\<lparr>ug_totalWeight := ug_totalWeight current + km_weight k,
                      ug_weightedSum := ug_weightedSum current + normalized_score rule k (ko_actualValue r) * km_weight k,
                      ug_count := ug_count current + 1\<rparr>) gs) rs"

record unit_summary =
  us_unitId :: nat
  us_unitName :: string
  us_score :: rat
  us_kpiCount :: nat
  us_band :: string

record kpi_summary =
  sm_overallScore :: rat
  sm_unitCount :: nat
  sm_rowCount :: nat
  sm_period :: "(int \<times> int) option"
  sm_units :: "unit_summary list"
  sm_thresholds :: "kpi_threshold list"

definition mean_score :: "rat \<Rightarrow> rat \<Rightarrow> rat" where
  "mean_score weightedSum totalWeight = (if 0 < totalWeight then weightedSum / totalWeight else 0)"

definition unit_summary_of :: "kpi_threshold list \<Rightarrow> unit_group \<Rightarrow> unit_summary" where
  "unit_summary_of ts g =
     (let score = mean_score (ug_weightedSum g) (ug_totalWeight g)
      in \<lparr>us_unitId = ug_unitId g, us_unitName = unit_label (ug_unitId g), us_score = toFixed2 score,
          us_kpiCount = ug_count g, us_band = classifyScore score ts\<rparr>)"

definition dashboardSummary :: "kpi_env \<Rightarrow> kpi_user \<Rightarrow> int option \<Rightarrow> int option \<Rightarrow> kpi_db \<Rightarrow> kpi_summary result" where
  "dashboardSummary env user year month db =
     (if \<not> year_ok year then Inl (BadRequest (Kpi KpiYear))
      else if \<not> month_ok month then Inl (BadRequest (Kpi KpiMonth))
      else if \<not> canViewAll env user \<and> getAllowedUnitIds user = []
      then Inr \<lparr>sm_overallScore = 0, sm_unitCount = 0, sm_rowCount = 0, sm_period = None, sm_units = [], sm_thresholds = []\<rparr>
      else let rows = filter (\<lambda>r. in_month (the year) (the month) r \<and> unit_allowed env user (ko_unitId r)) (kd_rows db);
               ts = sorted_thresholds db;
               units = map (unit_summary_of ts) (group_rows db (active_rule db) [] rows);
               overall = (if units = [] then 0 else sum_list (map us_score units) / of_nat (length units))
           in Inr \<lparr>sm_overallScore = toFixed2 overall, sm_unitCount = length units, sm_rowCount = length rows,
                sm_period = Some (the year, the month), sm_units = sort_key (\<lambda>u. - us_score u) units, sm_thresholds = ts\<rparr>)"

section \<open>One unit\<close>

record kpi_detail =
  dt_id :: nat
  dt_code :: string
  dt_name :: string
  dt_type :: kpi_type
  dt_direction :: kpi_direction
  dt_unitOfMeasure :: "string option"
  dt_targetValue :: rat
  dt_actualValue :: rat
  dt_weight :: rat
  dt_normalizedScore :: rat
  dt_status :: monitoring_status
  dt_band :: string
  dt_remarks :: "string option"

record unit_view =
  uv_unitId :: nat
  uv_unitName :: string
  uv_score :: rat
  uv_band :: string
  uv_year :: int
  uv_month :: int
  uv_details :: "kpi_detail list"

text \<open>\<open>rows.filter((row) => Boolean(row.kpiMaster)).map(...)\<close>.\<close>

definition with_masters :: "kpi_db \<Rightarrow> kpi_monitoring list \<Rightarrow> (kpi_monitoring \<times> kpi_master) list" where
  "with_masters db rows =
     List.map_filter (\<lambda>r. map_option (\<lambda>k. (r, k)) (find_master db (ko_masterCode r))) rows"

definition detail_of :: "kpi_scoring_rule \<Rightarrow> kpi_threshold list \<Rightarrow> kpi_monitoring \<times> kpi_master \<Rightarrow> kpi_detail" where
  "detail_of rule ts rk =
     (case rk of (r, k) \<Rightarrow>
        let normalized = normalized_score rule k (ko_actualValue r)
        in \<lparr>dt_id = ko_id r, dt_code = ko_masterCode r, dt_name = km_name k, dt_type = km_type k,
            dt_direction = km_direction k, dt_unitOfMeasure = km_unitOfMeasure k, dt_targetValue = km_targetValue k,
            dt_actualValue = ko_actualValue r, dt_weight = km_weight k, dt_normalizedScore = toFixed2 normalized,
            dt_status = ko_status r, dt_band = classifyScore normalized ts, dt_remarks = ko_remarks r\<rparr>)"

definition unit_name_shown :: "kpi_env \<Rightarrow> nat \<Rightarrow> kpi_monitoring list \<Rightarrow> string" where
  "unit_name_shown env u rows =
     (case (case rows of r # _ \<Rightarrow> row_unit_name r | [] \<Rightarrow> None) of
        Some name \<Rightarrow> name | None \<Rightarrow> given (ke_getUnitById env u) (unit_label u))"

definition dashboardUnit ::
  "kpi_env \<Rightarrow> kpi_user \<Rightarrow> int \<Rightarrow> int option \<Rightarrow> int option \<Rightarrow> kpi_db \<Rightarrow> unit_view result" where
  "dashboardUnit env user unitId year month db =
     (case first_error [
        (unitId \<le> 0, BadRequest (Kpi KpiUnitInvalid)),
        (\<not> year_ok year, BadRequest (Kpi KpiYear)),
        (\<not> month_ok month, BadRequest (Kpi KpiMonth)),
        (\<not> unit_allowed env user (nat unitId), Forbidden (Kpi KpiUnitDenied))] of
        Some e \<Rightarrow> Inl e
      | None \<Rightarrow>
          (let u = nat unitId; ts = sorted_thresholds db;
               rows = filter (\<lambda>r. ko_unitId r = u \<and> in_month (the year) (the month) r) (kd_rows db);
               details = map (detail_of (active_rule db) ts) (with_masters db rows);
               totalWeight = sum_list (map dt_weight details);
               weightedSum = sum_list (map (\<lambda>d. dt_normalizedScore d * dt_weight d) details);
               score = mean_score weightedSum totalWeight
           in Inr \<lparr>uv_unitId = u, uv_unitName = unit_name_shown env u rows, uv_score = toFixed2 score,
                uv_band = classifyScore score ts, uv_year = the year, uv_month = the month, uv_details = details\<rparr>))"

section \<open>The months of a unit\<close>

text \<open>The months from \<open>(y, m)\<close> up to \<open>(ty, tm)\<close>; \<open>k\<close> are in the list already, and the loop breaks once there are
  more than 60.\<close>

function periods_from :: "int \<Rightarrow> int \<Rightarrow> int \<Rightarrow> int \<Rightarrow> nat \<Rightarrow> (int \<times> int) list" where
  "periods_from y m ty tm k =
     (if y < ty \<or> y = ty \<and> m \<le> tm
      then (y, m) # (if 60 < k + 1 then []
                     else periods_from (if 12 < m + 1 then y + 1 else y) (if 12 < m + 1 then 1 else m + 1) ty tm (k + 1))
      else [])"
  by pat_completeness auto
termination by (relation "measure (\<lambda>(_, _, _, _, k). 60 - k)") auto

declare periods_from.simps [simp del]

record kpi_point =
  kq_code :: string
  kq_name :: string
  kq_normalizedScore :: rat
  kq_actualValue :: rat
  kq_band :: string

record time_point =
  tp_year :: int
  tp_month :: int
  tp_unitId :: nat
  tp_unitName :: string
  tp_score :: rat
  tp_band :: string
  tp_hasData :: bool
  tp_scores :: "kpi_point list"

definition point_of :: "kpi_scoring_rule \<Rightarrow> kpi_threshold list \<Rightarrow> kpi_monitoring \<times> kpi_master \<Rightarrow> kpi_point" where
  "point_of rule ts rk =
     (case rk of (r, k) \<Rightarrow>
        let normalized = normalized_score rule k (ko_actualValue r)
        in \<lparr>kq_code = ko_masterCode r, kq_name = km_name k, kq_normalizedScore = toFixed2 normalized,
            kq_actualValue = ko_actualValue r, kq_band = classifyScore normalized ts\<rparr>)"

definition time_point_of ::
  "kpi_db \<Rightarrow> kpi_scoring_rule \<Rightarrow> kpi_threshold list \<Rightarrow> nat \<Rightarrow> string \<Rightarrow> kpi_monitoring list \<Rightarrow> int \<times> int \<Rightarrow> time_point" where
  "time_point_of db rule ts u name rows ym =
     (case ym of (y, m) \<Rightarrow>
        let periodRows = filter (in_month y m) rows;
            joined = with_masters db periodRows;
            totalWeight = sum_list (map (\<lambda>(r, k). km_weight k) joined);
            weightedSum = sum_list (map2 (\<lambda>s (r, k). kq_normalizedScore s * km_weight k) (map (point_of rule ts) joined) joined);
            score = mean_score weightedSum totalWeight
        in \<lparr>tp_year = y, tp_month = m, tp_unitId = u, tp_unitName = name, tp_score = toFixed2 score,
            tp_band = (if periodRows \<noteq> [] then classifyScore score ts else ''unclassified''),
            tp_hasData = (periodRows \<noteq> []), tp_scores = map (point_of rule ts) joined\<rparr>)"

definition dashboardUnitTimeseries ::
  "kpi_env \<Rightarrow> kpi_user \<Rightarrow> int \<Rightarrow> int option \<Rightarrow> int option \<Rightarrow> int option \<Rightarrow> int option \<Rightarrow> kpi_db \<Rightarrow> time_point list result" where
  "dashboardUnitTimeseries env user unitId fromYear fromMonth toYear toMonth db =
     (case first_error [
        (unitId \<le> 0, BadRequest (Kpi KpiUnitInvalid)),
        (\<not> year_ok fromYear, BadRequest (Kpi KpiYear)),
        (\<not> month_ok fromMonth, BadRequest (Kpi KpiMonth)),
        (\<not> year_ok toYear, BadRequest (Kpi KpiYear)),
        (\<not> month_ok toMonth, BadRequest (Kpi KpiMonth)),
        (\<not> unit_allowed env user (nat unitId), Forbidden (Kpi KpiUnitDenied))] of
        Some e \<Rightarrow> Inl e
      | None \<Rightarrow>
          (let u = nat unitId; fy = the fromYear; fm = the fromMonth; ty = the toYear; tm = the toMonth;
               periods = periods_from fy fm ty tm 0;
               rows = filter (\<lambda>r. ko_unitId r = u
                   \<and> (fy < int (ko_year r) \<or> int (ko_year r) = fy \<and> fm \<le> int (ko_month r))
                   \<and> (int (ko_year r) < ty \<or> int (ko_year r) = ty \<and> int (ko_month r) \<le> tm)) (kd_rows db)
           in Inr (if periods = [] then []
                   else map (time_point_of db (active_rule db) (sorted_thresholds db) u (unit_name_shown env u rows) rows) periods)))"

section \<open>Action plans\<close>

datatype (plugins only: code) recommendation = INCIDENT_RESPONSE | DOCUMENT_EVIDENCE | REGULATORY_MAPPING | ROOT_CAUSE

definition keywordRule :: "string \<Rightarrow> recommendation" where
  "keywordRule text =
     (let value = toLowerCase text
      in if includes_text value ''incident'' \<or> includes_text value ''cyber'' \<or> includes_text value ''security''
         then INCIDENT_RESPONSE
         else if includes_text value ''document'' \<or> includes_text value ''review'' \<or> includes_text value ''policy''
         then DOCUMENT_EVIDENCE
         else if includes_text value ''compliance'' \<or> includes_text value ''regulat'' \<or> includes_text value ''issuance''
         then REGULATORY_MAPPING
         else ROOT_CAUSE)"

record plan_item =
  pi_unitId :: nat
  pi_unitName :: string
  pi_kpiCode :: string
  pi_kpiName :: string
  pi_targetValue :: rat
  pi_actualValue :: rat
  pi_normalizedScore :: rat
  pi_band :: string
  pi_high :: bool
  pi_owner :: string
  pi_recommendation :: recommendation
  pi_dueDate :: day
  pi_sourceRemarks :: "string option"

definition plan_item_of ::
  "kpi_env \<Rightarrow> kpi_scoring_rule \<Rightarrow> kpi_threshold list \<Rightarrow> kpi_monitoring \<times> kpi_master \<Rightarrow> plan_item option" where
  "plan_item_of env rule ts rk =
     (case rk of (r, k) \<Rightarrow>
        let normalized = normalized_score rule k (ko_actualValue r); band = classifyScore normalized ts
        in if band = ''green'' then None
           else Some \<lparr>pi_unitId = ko_unitId r, pi_unitName = given (row_unit_name r) (unit_label (ko_unitId r)),
                  pi_kpiCode = ko_masterCode r, pi_kpiName = km_name k, pi_targetValue = km_targetValue k,
                  pi_actualValue = ko_actualValue r, pi_normalizedScore = toFixed2 normalized, pi_band = band,
                  pi_high = (band = ''red''),
                  pi_owner = (case row_unit_name r of Some n \<Rightarrow> n @ '' Process Owner'' | None \<Rightarrow> ''Process Owner''),
                  pi_recommendation = keywordRule (km_name k @ '' '' @ or_empty (km_description k) @ '' '' @ or_empty (ko_remarks r)),
                  pi_dueDate = getManilaDateString (ke_now env + (if band = ''red'' then 15 else 30) * day_ms),
                  pi_sourceRemarks = nonempty_text (ko_remarks r)\<rparr>)"

text \<open>The unit of the query is missing, no number, or a number.\<close>

definition generateActionPlans ::
  "kpi_env \<Rightarrow> kpi_user \<Rightarrow> int option \<Rightarrow> int option \<Rightarrow> int option option \<Rightarrow> kpi_db \<Rightarrow> plan_item list result" where
  "generateActionPlans env user year month unitId db =
     (let wanted = (case unitId of Some (Some u) \<Rightarrow> u | _ \<Rightarrow> 0)
      in case first_error [
        (\<not> year_ok year, BadRequest (Kpi KpiYear)),
        (\<not> month_ok month, BadRequest (Kpi KpiMonth)),
        (unitId \<noteq> None \<and> wanted \<le> 0, BadRequest (Kpi KpiUnitInvalid)),
        (unitId \<noteq> None \<and> \<not> unit_allowed env user (nat wanted), Forbidden (Kpi KpiUnitDenied))] of
        Some e \<Rightarrow> Inl e
      | None \<Rightarrow>
          if unitId = None \<and> \<not> canViewAll env user \<and> getAllowedUnitIds user = [] then Inr []
          else let rows = filter (\<lambda>r. in_month (the year) (the month) r
                    \<and> (if unitId = None then unit_allowed env user (ko_unitId r) else ko_unitId r = nat wanted)) (kd_rows db)
               in Inr (List.map_filter (plan_item_of env (active_rule db) (sorted_thresholds db)) (with_masters db rows)))"

end
