(* ===== verification/KpiFacts.thy ===== *)
theory KpiFacts
  imports Kpi
begin

text \<open>
  The requests to the indicators and their effect: the consistency of the tables, the permanence of locked values,
  and what the scores of the dashboards are made of.
\<close>

section \<open>Requests\<close>

text \<open>A request that changes the tables; the numbers of a form have passed its validation (\<open>Min(0)\<close> for weights).\<close>

datatype (plugins only: code) kpi_request =
    CreateMaster kpi_env kpi_user master_dto
  | UpdateMaster kpi_env kpi_user string master_update
  | RemoveMaster kpi_env kpi_user string
  | UpsertMonitoring kpi_env kpi_user monitoring_dto
  | UpdateMonitoring kpi_env kpi_user nat monitoring_update
  | LockMonitoring kpi_env kpi_user nat
  | UpsertThreshold kpi_env kpi_user "nat option" threshold_dto
  | UpsertRule kpi_env kpi_user "nat option" rule_dto
  | ListLookups

fun kpi_exec :: "kpi_request \<Rightarrow> kpi_db \<Rightarrow> kpi_db" where
  "kpi_exec (CreateMaster env user dto) db = snd (createKpiMaster env user dto db)"
| "kpi_exec (UpdateMaster env user code dto) db = snd (updateKpiMaster env user code dto db)"
| "kpi_exec (RemoveMaster env user code) db = snd (removeKpiMaster env user code db)"
| "kpi_exec (UpsertMonitoring env user dto) db = snd (upsertMonitoring env user dto db)"
| "kpi_exec (UpdateMonitoring env user n dto) db = snd (updateMonitoring env user n dto db)"
| "kpi_exec (LockMonitoring env user n) db = snd (lockMonitoring env user n db)"
| "kpi_exec (UpsertThreshold env user n dto) db = snd (upsertThreshold env user n dto db)"
| "kpi_exec (UpsertRule env user n dto) db = snd (upsertScoringRule env user n dto db)"
| "kpi_exec ListLookups db = ensureLookups db"

fun kpi_request_valid :: "kpi_request \<Rightarrow> bool" where
  "kpi_request_valid (CreateMaster env user dto) = (0 \<le> cd_weight dto)"
| "kpi_request_valid (UpdateMaster env user code dto) = (0 \<le> given (mu_weight dto) 0)"
| "kpi_request_valid _ = True"

definition no_kpis :: kpi_db where
  "no_kpis = \<lparr>kd_masters = [], kd_rows = [], kd_thresholds = [], kd_rules = [], kd_nextId = 1\<rparr>"

definition kpi_run :: "kpi_request list \<Rightarrow> kpi_db \<Rightarrow> kpi_db" where
  "kpi_run rs db = fold kpi_exec rs db"

section \<open>Consistency\<close>

definition value_key :: "kpi_monitoring \<Rightarrow> string \<times> nat \<times> nat \<times> nat" where
  "value_key r = (ko_masterCode r, ko_unitId r, ko_year r, ko_month r)"

definition masters_ok :: "kpi_master list \<Rightarrow> bool" where
  "masters_ok ms \<longleftrightarrow> table_ok km_code ms \<and> (\<forall>m \<in> set ms. 0 \<le> km_weight m)"

definition values_ok :: "string set \<Rightarrow> (string \<times> nat \<times> nat \<times> nat) list \<Rightarrow> bool" where
  "values_ok codes ks \<longleftrightarrow> distinct ks \<and> (\<forall>(c, u, y, m) \<in> set ks. c \<in> codes \<and> 1 \<le> m \<and> m \<le> 12)"

definition kpi_ok :: "kpi_db \<Rightarrow> bool" where
  "kpi_ok db \<longleftrightarrow> masters_ok (kd_masters db) \<and> values_ok (km_code ` set (kd_masters db)) (map value_key (kd_rows db))
     \<and> fresh_table ko_id (kd_rows db) (kd_nextId db) \<and> fresh_table kt_id (kd_thresholds db) (kd_nextId db)
     \<and> fresh_table ks_id (kd_rules db) (kd_nextId db) \<and> distinct (map kt_band (kd_thresholds db))
     \<and> length (filter ks_active (kd_rules db)) \<le> 1"

lemma masters_ok_save:
  "masters_ok ms \<Longrightarrow> 0 \<le> km_weight m \<Longrightarrow> masters_ok (save_row km_code ms m)"
  using set_save_row_subset [of km_code ms m] by (auto simp: masters_ok_def table_simps)

lemma values_ok_insert: "values_ok codes ks \<Longrightarrow> values_ok (insert c codes) ks"
  by (auto simp: values_ok_def)

lemma keys_save_same:
  assumes "fresh_table ko_id rows n" "find_row ko_id rows (ko_id r) = Some e" "value_key e = value_key r"
  shows "map value_key (save_row ko_id rows r) = map value_key rows"
  using assms(1) by (intro map_save_row_same [OF _ assms(2,3)]) (simp add: fresh_table_def)

lemma keys_save_new: "fresh_table ko_id rows n \<Longrightarrow> ko_id r = n \<Longrightarrow> save_row ko_id rows r = rows @ [r]"
  by (rule save_row_new) (auto simp: fresh_table_def)

lemma find_master_Some: "find_master db code = Some m \<Longrightarrow> m \<in> set (kd_masters db) \<and> km_code m = code"
  unfolding find_master_def by (rule find_row_Some)

lemma save_master_ok:
  assumes "kpi_ok db" "0 \<le> km_weight m"
  shows "kpi_ok (db\<lparr>kd_masters := save_row km_code (kd_masters db) m\<rparr>)"
  using assms by (simp add: kpi_ok_def keys_save_row masters_ok_save values_ok_insert)

lemma createKpiMaster_ok: "kpi_ok db \<Longrightarrow> 0 \<le> cd_weight dto \<Longrightarrow> kpi_ok (snd (createKpiMaster env user dto db))"
  by (simp add: createKpiMaster_def Let_def save_master_ok split: option.split del: first_error.simps)

lemma updateKpiMaster_ok:
  assumes "kpi_ok db" "0 \<le> given (mu_weight dto) 0"
  shows "kpi_ok (snd (updateKpiMaster env user code dto db))"
proof (cases "find_master db code")
  case (Some k)
  have "0 \<le> given (mu_weight dto) (km_weight k)"
    using assms find_master_Some [OF Some] by (cases "mu_weight dto") (auto simp: kpi_ok_def masters_ok_def)
  with assms(1) Some show ?thesis by (simp add: updateKpiMaster_def Let_def save_master_ok split: option.split)
qed (use assms in \<open>simp add: updateKpiMaster_def\<close>)

lemma removeKpiMaster_ok: "kpi_ok db \<Longrightarrow> kpi_ok (snd (removeKpiMaster env user code db))"
  by (auto simp: removeKpiMaster_def kpi_ok_def masters_ok_def values_ok_def table_ok_def distinct_map_filter fresh_filter value_key_def)

lemma entered_by_simps [simp]:
  "ko_id (entered_by env user r) = ko_id r" "value_key (entered_by env user r) = value_key r"
  "ko_unitId (entered_by env user r) = ko_unitId r" "ko_year (entered_by env user r) = ko_year r"
  "ko_status (entered_by env user r) = ko_status r" "ko_masterCode (entered_by env user r) = ko_masterCode r"
  "ko_month (entered_by env user r) = ko_month r" "ko_actualValue (entered_by env user r) = ko_actualValue r"
  by (simp_all add: entered_by_def value_key_def Let_def)

lemma same_value_iff: "same_value dto r \<longleftrightarrow> value_key r = (od_masterCode dto, od_unitId dto, od_year dto, od_month dto)"
  by (simp add: same_value_def value_key_def)

lemma upsertMonitoring_ok:
  assumes ok: "kpi_ok db"
  shows "kpi_ok (snd (upsertMonitoring env user dto db))"
proof (cases "fst (upsertMonitoring env user dto db)")
  case (Inl e)
  then have "snd (upsertMonitoring env user dto db) = db"
    by (auto simp: upsertMonitoring_def Let_def split: if_splits option.splits)
  with ok show ?thesis by simp
next
  case (Inr row)
  let ?found = "List.find (same_value dto) (kd_rows db)" and ?n = "kd_nextId db"
  define base where "base = given ?found \<lparr>ko_id = ?n, ko_masterCode = od_masterCode dto, ko_unitId = od_unitId dto,
    ko_year = od_year dto, ko_month = od_month dto, ko_actualValue = 0, ko_remarks = None, ko_enteredByUserId = None,
    ko_enteredByStaffId = None, ko_enteredByName = None, ko_status = DRAFT\<rparr>"
  from Inr have m: "\<not> (od_month dto < 1 \<or> 12 < od_month dto)" "find_master db (od_masterCode dto) \<noteq> None"
    and row: "row = (entered_by env user (base\<lparr>ko_actualValue := od_actualValue dto, ko_remarks := od_remarks dto\<rparr>))
        \<lparr>ko_status := given (od_status dto) DRAFT\<rparr>"
    and db': "snd (upsertMonitoring env user dto db) = db\<lparr>kd_rows := save_row ko_id (kd_rows db) row,
        kd_nextId := (if ?found = None then ?n + 1 else ?n)\<rparr>"
    unfolding upsertMonitoring_def Let_def base_def by (simp_all split: if_splits option.splits)
  have key: "?found = None \<Longrightarrow> ko_id row = ?n" "?found = Some e \<Longrightarrow> ko_id row = ko_id e" for e
    by (simp_all add: row base_def)
  have "value_key base = (od_masterCode dto, od_unitId dto, od_year dto, od_month dto)"
    by (cases ?found) (auto simp: base_def value_key_def same_value_def dest: find_SomeD)
  then have val: "value_key row = (od_masterCode dto, od_unitId dto, od_year dto, od_month dto)"
    by (simp add: row value_key_def)
  have codes: "od_masterCode dto \<in> km_code ` set (kd_masters db)" using m(2) by (force dest: find_master_Some)
  have fr: "fresh_table ko_id (kd_rows db) ?n"
    and vs: "values_ok (km_code ` set (kd_masters db)) (map value_key (kd_rows db))" using ok by (simp_all add: kpi_ok_def)
  show ?thesis
  proof (cases ?found)
    case None
    then have "value_key row \<notin> value_key ` set (kd_rows db)" by (auto simp: find_None_iff same_value_iff val)
    then have "values_ok (km_code ` set (kd_masters db)) (map value_key (kd_rows db @ [row]))"
      using vs codes m(1) by (auto simp: values_ok_def val)
    then show ?thesis using ok None keys_save_new [OF fr key(1) [OF None]] key(1)
      by (simp add: db' kpi_ok_def fresh_Suc fresh_append)
  next
    case (Some e)
    then have e: "e \<in> set (kd_rows db)" "value_key e = value_key row" by (auto simp: find_Some_iff same_value_iff val)
    then have "find_row ko_id (kd_rows db) (ko_id row) = Some e"
      using fr find_row_table_ok [of ko_id "kd_rows db" e] by (simp add: fresh_table_def key(2) [OF Some])
    moreover have "ko_id row < ?n" using fresh_less [OF fr e(1)] key(2) [OF Some] by simp
    ultimately show ?thesis using ok Some e by (simp add: db' kpi_ok_def keys_save_same [OF fr] fresh_save_same)
  qed
qed

lemma save_value_ok:
  assumes "kpi_ok db" "find_row ko_id (kd_rows db) (ko_id r) = Some e" "value_key e = value_key r"
  shows "kpi_ok (db\<lparr>kd_rows := save_row ko_id (kd_rows db) r\<rparr>)"
proof -
  have "ko_id r < kd_nextId db" using assms(1) find_row_Some [OF assms(2)] by (auto simp: kpi_ok_def dest: fresh_less)
  moreover have "fresh_table ko_id (kd_rows db) (kd_nextId db)" using assms(1) by (simp add: kpi_ok_def)
  ultimately show ?thesis using assms(1) keys_save_same [OF _ assms(2,3)] by (simp add: kpi_ok_def fresh_save_same)
qed

lemma updateMonitoring_ok:
  assumes ok: "kpi_ok db"
  shows "kpi_ok (snd (updateMonitoring env user n dto db))"
proof (cases "find_row ko_id (kd_rows db) n")
  case (Some r)
  then have "find_row ko_id (kd_rows db) (ko_id r) = Some r" by (auto dest: find_row_Some)
  then have "kpi_ok (db\<lparr>kd_rows := save_row ko_id (kd_rows db) (entered_by env user
      (r\<lparr>ko_actualValue := a, ko_remarks := m, ko_status := s\<rparr>))\<rparr>)" for a m s
    using ok by (intro save_value_ok [where e = r]) (simp_all add: value_key_def)
  with ok Some show ?thesis by (simp add: updateMonitoring_def Let_def split: option.split)
qed (use ok in \<open>simp add: updateMonitoring_def\<close>)

lemma lockMonitoring_ok:
  assumes ok: "kpi_ok db"
  shows "kpi_ok (snd (lockMonitoring env user n db))"
proof (cases "find_row ko_id (kd_rows db) n")
  case (Some r)
  then have "find_row ko_id (kd_rows db) (ko_id r) = Some r" by (auto dest: find_row_Some)
  then have "kpi_ok (db\<lparr>kd_rows := save_row ko_id (kd_rows db) (r\<lparr>ko_status := LOCKED\<rparr>)\<rparr>)"
    using ok by (intro save_value_ok [where e = r]) (simp_all add: value_key_def)
  with ok Some show ?thesis by (simp add: lockMonitoring_def)
qed (use ok in \<open>simp add: lockMonitoring_def\<close>)

lemma ensureLookups_ok: "kpi_ok db \<Longrightarrow> kpi_ok (ensureLookups db)"
  by (auto simp: kpi_ok_def ensureLookups_def Let_def default_thresholds_def default_rule_def fresh_table_def table_ok_def)

lemma upsertThreshold_ok:
  assumes ok: "kpi_ok db"
  shows "kpi_ok (snd (upsertThreshold env user n dto db))"
proof -
  have bands: "distinct (map kt_band (save_row kt_id ts t))"
    if "table_ok kt_id ts" "distinct (map kt_band ts)" "\<not> list_ex (\<lambda>u. kt_band u = kt_band t \<and> kt_id u \<noteq> kt_id t) ts" for ts t
    using that
  proof (induction ts)
    case (Cons x xs)
    have "distinct (map kt_band (save_row kt_id xs t))" using Cons by (auto simp: table_ok_def)
    moreover have "kt_band x \<noteq> kt_band u" if "u \<in> set (save_row kt_id xs t)" "kt_id x \<noteq> kt_id t" for u
      using that Cons.prems set_save_row_subset [of kt_id xs t] by fastforce
    moreover have "kt_band u \<noteq> kt_band t" if "kt_id x = kt_id t" "u \<in> set xs" for u
    proof -
      have "kt_id u \<noteq> kt_id t" using that Cons.prems(1) by (auto simp: table_ok_def image_iff)
      with that Cons.prems(3) show ?thesis by (auto simp: list_ex_iff)
    qed
    ultimately show ?case using Cons.prems by (fastforce simp: image_iff)
  qed simp
  have fr: "fresh_table kt_id (kd_thresholds db) (kd_nextId db)" and ds: "distinct (map kt_band (kd_thresholds db))"
    using ok by (simp_all add: kpi_ok_def)
  define i where "i = (if truthy n then number n else kd_nextId db)"
  define t where "t = \<lparr>kt_id = i, kt_band = td_band dto, kt_minScore = td_minScore dto, kt_maxScore = td_maxScore dto,
    kt_color = nonempty_text (td_color dto)\<rparr>"
  let ?next = "if truthy n then kd_nextId db else kd_nextId db + 1"
  define db' where "db' = db\<lparr>kd_thresholds := save_row kt_id (kd_thresholds db) t, kd_nextId := ?next\<rparr>"
  have t: "kt_id t = i" "kt_band t = td_band dto" by (simp_all add: t_def)
  have "kpi_ok db'"
    if "\<not> (truthy n \<and> find_row kt_id (kd_thresholds db) (number n) = None)"
      "\<not> list_ex (\<lambda>u. kt_band u = td_band dto \<and> kt_id u \<noteq> i) (kd_thresholds db)"
  proof -
    have "i < ?next"
    proof (cases "truthy n")
      case True
      with that(1) obtain u where "find_row kt_id (kd_thresholds db) (number n) = Some u"
        by (cases "find_row kt_id (kd_thresholds db) (number n)") auto
      from find_row_Some [OF this] True fresh_less [OF fr, of u] show ?thesis by (simp add: i_def)
    qed (simp add: i_def)
    then have "fresh_table kt_id (save_row kt_id (kd_thresholds db) t) ?next"
      using fr t by (intro fresh_save) auto
    moreover have "distinct (map kt_band (save_row kt_id (kd_thresholds db) t))"
      using fr ds that(2) t by (intro bands) (auto simp: fresh_table_def)
    ultimately show ?thesis using ok by (auto simp: db'_def kpi_ok_def fresh_Suc)
  qed
  moreover have "snd (upsertThreshold env user n dto db) =
      (if canManage env user \<and> \<not> (truthy n \<and> find_row kt_id (kd_thresholds db) (number n) = None)
          \<and> \<not> list_ex (\<lambda>u. kt_band u = td_band dto \<and> kt_id u \<noteq> i) (kd_thresholds db) then db' else db)"
    unfolding upsertThreshold_def Let_def i_def [symmetric] t_def [symmetric] db'_def [symmetric]
    by (simp only: snd_conv simp_thms if_distrib [of snd] split: if_split) blast
  ultimately show ?thesis using ok by (simp only: split: if_split) blast
qed

lemma one_active:
  "table_ok ks_id rs \<Longrightarrow> length (filter ks_active (map (\<lambda>r. if ks_id r \<noteq> n then r\<lparr>ks_active := False\<rparr> else r) rs)) \<le> 1"
proof (induction rs)
  case (Cons x xs)
  have "filter ks_active (map (\<lambda>r. if ks_id r \<noteq> n then r\<lparr>ks_active := False\<rparr> else r) xs) = []" if "ks_id x = n"
    using that Cons.prems by (auto simp: table_ok_def filter_empty_conv image_iff)
  with Cons show ?case by (auto simp: table_ok_def simp del: length_filter_map)
qed simp

lemma fewer_active:
  "\<not> ks_active r \<Longrightarrow> length (filter ks_active (save_row ks_id rs r)) \<le> length (filter ks_active rs)"
  by (induction rs) auto

lemma upsertScoringRule_ok:
  assumes ok: "kpi_ok db"
  shows "kpi_ok (snd (upsertScoringRule env user n dto db))"
proof (cases "canManage env user")
  case True
  let ?entity = "if truthy n then find_row ks_id (kd_rules db) (number n) else Some (default_rule (kd_nextId db))"
  let ?next = "if truthy n then kd_nextId db else kd_nextId db + 1"
  have fr: "fresh_table ks_id (kd_rules db) (kd_nextId db)" using ok by (simp add: kpi_ok_def)
  show ?thesis
  proof (cases ?entity)
    case (Some e)
    have lt: "ks_id e < ?next"
      using Some fresh_less [OF fr] by (auto simp: default_rule_def dest: find_row_Some split: if_splits)
    have rules_ok: "kpi_ok (db\<lparr>kd_rules := (if ks_active saved
                    then map (\<lambda>r. if ks_id r \<noteq> ks_id saved then r\<lparr>ks_active := False\<rparr> else r) rules else rules),
                  kd_nextId := ?next\<rparr>)"
      if rules: "rules = save_row ks_id (kd_rules db) saved" and id: "ks_id saved = ks_id e" for saved rules
    proof -
      have r: "fresh_table ks_id rules ?next" unfolding rules using fr lt id by (intro fresh_save) auto
      then have "fresh_table ks_id (map (\<lambda>r. if ks_id r \<noteq> ks_id saved then r\<lparr>ks_active := False\<rparr> else r) rules) ?next"
        by (intro fresh_map) auto
      moreover have "length (filter ks_active rules) \<le> 1" if "\<not> ks_active saved"
        using fewer_active [OF that, of "kd_rules db"] ok by (simp add: rules kpi_ok_def)
      ultimately show ?thesis
        using ok r one_active [of rules "ks_id saved"] by (auto simp: kpi_ok_def fresh_Suc fresh_table_def)
    qed
    define saved where "saved = e\<lparr>ks_name := given (rd_name dto) (ks_name e), ks_active := given (rd_active dto) (ks_active e),
        ks_capScore := given (rd_capScore dto) (ks_capScore e), ks_floorScore := given (rd_floorScore dto) (ks_floorScore e),
        ks_yesScore := given (rd_yesScore dto) (ks_yesScore e), ks_noScore := given (rd_noScore dto) (ks_noScore e)\<rparr>"
    have "snd (upsertScoringRule env user n dto db) = db\<lparr>kd_rules := (if ks_active saved
            then map (\<lambda>r. if ks_id r \<noteq> ks_id saved then r\<lparr>ks_active := False\<rparr> else r) (save_row ks_id (kd_rules db) saved)
            else save_row ks_id (kd_rules db) saved), kd_nextId := ?next\<rparr>"
      using True Some unfolding upsertScoringRule_def Let_def by (simp only: option.case saved_def [symmetric] simp_thms if_True if_False snd_conv)
    note eq = this
    have "ks_id saved = ks_id e" by (simp add: saved_def)
    from rules_ok [OF refl this] show ?thesis unfolding eq .
  qed (use ok True in \<open>simp add: upsertScoringRule_def\<close>)
qed (use ok in \<open>simp add: upsertScoringRule_def\<close>)

lemma kpi_exec_ok: "kpi_ok db \<Longrightarrow> kpi_request_valid r \<Longrightarrow> kpi_ok (kpi_exec r db)"
  by (cases r) (simp_all add: createKpiMaster_ok updateKpiMaster_ok removeKpiMaster_ok upsertMonitoring_ok updateMonitoring_ok
      lockMonitoring_ok upsertThreshold_ok upsertScoringRule_ok ensureLookups_ok)

lemma no_kpis_ok: "kpi_ok no_kpis"
  by (simp add: no_kpis_def kpi_ok_def masters_ok_def values_ok_def table_ok_def fresh_Nil)

lemma kpi_run_ok: "kpi_ok db \<Longrightarrow> list_all kpi_request_valid rs \<Longrightarrow> kpi_ok (kpi_run rs db)"
  unfolding kpi_run_def by (induction rs arbitrary: db) (auto simp: kpi_exec_ok)

section \<open>Locked values\<close>

fun removes :: "string \<Rightarrow> kpi_request \<Rightarrow> bool" where
  "removes code (RemoveMaster env user c) = (c = code)"
| "removes code _ = False"

lemma save_keeps_others: "x \<in> set rows \<Longrightarrow> key x \<noteq> key r \<or> r = x \<Longrightarrow> x \<in> set (save_row key rows r)"
  by (metis in_save_row save_row_other_member)

lemma lock_again: "is_locked r \<Longrightarrow> r\<lparr>ko_status := LOCKED\<rparr> = r"
  by (cases r) (simp add: is_locked_def)

lemma kpi_exec_locked:
  assumes ok: "kpi_ok db" and r: "r \<in> set (kd_rows db)" "is_locked r" and q: "\<not> removes (ko_masterCode r) q"
  shows "r \<in> set (kd_rows (kpi_exec q db))"
proof -
  have same: "s = r" if "s \<in> set (kd_rows db)" "ko_id s = ko_id r" for s
    using ok r(1) that by (auto simp: kpi_ok_def dest: fresh_unique)
  show ?thesis
  proof (cases q)
    case (UpsertMonitoring env user dto)
    have "r \<in> set (kd_rows db') \<and> True" if "upsertMonitoring env user dto db = (Inr row, db')" for row db'
    proof (cases "List.find (same_value dto) (kd_rows db)")
      case None
      with that have "kd_rows db' = save_row ko_id (kd_rows db) row" "ko_id row = kd_nextId db"
        by (auto simp: upsertMonitoring_def Let_def split: if_splits option.splits)
      moreover have "ko_id r < kd_nextId db" using ok r(1) by (auto simp: kpi_ok_def dest: fresh_less)
      ultimately show ?thesis using r(1) by (simp add: save_keeps_others)
    next
      case (Some e)
      with that have "kd_rows db' = save_row ko_id (kd_rows db) row" "ko_id row = ko_id e" "\<not> is_locked e"
        by (auto simp: upsertMonitoring_def Let_def split: if_splits option.splits)
      moreover have "ko_id r \<noteq> ko_id e" using same find_SomeD [OF Some] calculation(3) r(2) by metis
      ultimately show ?thesis using r(1) by (simp add: save_keeps_others)
    qed
    moreover have "snd (upsertMonitoring env user dto db) = db" if "fst (upsertMonitoring env user dto db) = Inl e" for e
      using that by (auto simp: upsertMonitoring_def Let_def split: if_splits option.splits)
    ultimately show ?thesis using r(1) UpsertMonitoring
      by (cases "upsertMonitoring env user dto db"; cases "fst (upsertMonitoring env user dto db)") auto
  next
    case (UpdateMonitoring env user n dto)
    then show ?thesis
    proof (cases "find_row ko_id (kd_rows db) n")
      case (Some s)
      have "ko_id s \<noteq> ko_id r" if "\<not> is_locked s" using that r(2) same find_row_Some [OF Some] by metis
      with Some UpdateMonitoring r(1) show ?thesis
        by (auto simp: updateMonitoring_def Let_def split: option.split intro!: save_keeps_others)
    qed (use r(1) UpdateMonitoring in \<open>simp add: updateMonitoring_def\<close>)
  next
    case (LockMonitoring env user n)
    then show ?thesis
    proof (cases "find_row ko_id (kd_rows db) n")
      case (Some s)
      have "ko_id s \<noteq> ko_id r \<or> s\<lparr>ko_status := LOCKED\<rparr> = r"
        using lock_again [OF r(2)] same find_row_Some [OF Some] by metis
      with Some LockMonitoring r(1) show ?thesis
        by (simp add: lockMonitoring_def) (rule impI, rule save_keeps_others, auto)
    qed (use r(1) LockMonitoring in \<open>simp add: lockMonitoring_def\<close>)
  next
    case (UpsertRule env user n dto)
    then show ?thesis using r(1) by (auto simp: upsertScoringRule_def Let_def split: option.split)
  next
    case (CreateMaster env user dto)
    then show ?thesis using r(1) by (simp add: createKpiMaster_def Let_def del: first_error.simps split: option.split)
  next
    case (UpdateMaster env user code dto)
    then show ?thesis using r(1) by (simp add: updateKpiMaster_def Let_def split: option.split)
  next
    case (RemoveMaster env user code)
    then show ?thesis using r(1) q by (auto simp: removeKpiMaster_def)
  next
    case (UpsertThreshold env user n dto)
    then show ?thesis using r(1) by (simp add: upsertThreshold_def Let_def)
  next
    case ListLookups
    then show ?thesis using r(1) by (simp add: ensureLookups_def Let_def)
  qed
qed

end
