(* ===== verification/KpiProps.thy ===== *)
theory KpiProps
  imports KpiFacts
begin

text \<open>
  The properties of the indicators: consistent tables, locked values, the scores of the dashboards and what a user
  without the management capability can learn; then instances: two indicators of a unit with a value each in March
  2026, one of them locked.
\<close>

section \<open>Rounding\<close>





section \<open>Means\<close>






section \<open>The dashboard of a unit\<close>

definition unit_values :: "kpi_db \<Rightarrow> nat \<Rightarrow> int \<Rightarrow> int \<Rightarrow> (kpi_monitoring \<times> kpi_master) list" where
  "unit_values db u y m = with_masters db (filter (\<lambda>r. ko_unitId r = u \<and> in_month y m r) (kd_rows db))"

definition rounded_mean :: "kpi_scoring_rule \<Rightarrow> (kpi_monitoring \<times> kpi_master) list \<Rightarrow> rat" where
  "rounded_mean rule rks = mean_score
     (sum_list (map (\<lambda>(r, k). toFixed2 (normalized_score rule k (ko_actualValue r)) * km_weight k) rks))
     (sum_list (map (\<lambda>(r, k). km_weight k) rks))"

lemma map2_same: "map2 f (map g xs) xs = map (\<lambda>x. f (g x) x) xs"
  by (induction xs) auto

lemma details_sums:
  "sum_list (map (\<lambda>d. dt_normalizedScore d * dt_weight d) (map (detail_of rule ts) rks))
     = sum_list (map (\<lambda>(r, k). toFixed2 (normalized_score rule k (ko_actualValue r)) * km_weight k) rks)"
  "sum_list (map dt_weight (map (detail_of rule ts) rks)) = sum_list (map (\<lambda>(r, k). km_weight k) rks)"
  by (induction rks) (auto simp: detail_of_def Let_def)

lemma points_sum:
  "sum_list (map2 (\<lambda>s (r, k). kq_normalizedScore s * km_weight k) (map (point_of rule ts) rks) rks)
     = sum_list (map (\<lambda>(r, k). toFixed2 (normalized_score rule k (ko_actualValue r)) * km_weight k) rks)"
  by (induction rks) (auto simp: point_of_def Let_def)

lemma dashboardUnit_Inr:
  assumes "dashboardUnit env user unitId year month db = Inr v"
  shows "uv_details v = map (detail_of (active_rule db) (sorted_thresholds db)) (unit_values db (nat unitId) (the year) (the month))
    \<and> uv_score v = toFixed2 (rounded_mean (active_rule db) (unit_values db (nat unitId) (the year) (the month)))
    \<and> uv_band v = classifyScore (rounded_mean (active_rule db) (unit_values db (nat unitId) (the year) (the month))) (sorted_thresholds db)"
  using assms unfolding dashboardUnit_def Let_def details_sums unit_values_def [symmetric] rounded_mean_def [symmetric]
  by (auto split: if_splits)

lemma dashboardUnit_ok:
  "0 < unitId \<Longrightarrow> year_ok year \<Longrightarrow> month_ok month \<Longrightarrow> unit_allowed env user (nat unitId)
     \<Longrightarrow> \<exists>v. dashboardUnit env user unitId year month db = Inr v"
  by (simp add: dashboardUnit_def Let_def)

section \<open>Groups of a summary\<close>

text \<open>The values with their active indicators.\<close>

definition live_values :: "kpi_db \<Rightarrow> kpi_monitoring list \<Rightarrow> (kpi_monitoring \<times> kpi_master) list" where
  "live_values db rows = filter (\<lambda>(r, k). km_active k) (with_masters db rows)"

definition of_unit :: "nat \<Rightarrow> (kpi_monitoring \<times> kpi_master) list \<Rightarrow> (kpi_monitoring \<times> kpi_master) list" where
  "of_unit u rks = filter (\<lambda>(r, k). ko_unitId r = u) rks"

definition add_values :: "kpi_scoring_rule \<Rightarrow> (kpi_monitoring \<times> kpi_master) list \<Rightarrow> unit_group \<Rightarrow> unit_group" where
  "add_values rule rks g = g\<lparr>ug_totalWeight := ug_totalWeight g + sum_list (map (\<lambda>(r, k). km_weight k) rks),
     ug_weightedSum := ug_weightedSum g + sum_list (map (\<lambda>(r, k). normalized_score rule k (ko_actualValue r) * km_weight k) rks),
     ug_count := ug_count g + length rks\<rparr>"

lemma find_put_group: "find_row ug_unitId (put_group g gs) u = (if u = ug_unitId g then Some g else find_row ug_unitId gs u)"
  by (induction gs) (auto simp: find_row_def)

lemma put_group_keys: "distinct (map ug_unitId gs) \<Longrightarrow> distinct (map ug_unitId (put_group g gs))
    \<and> set (map ug_unitId (put_group g gs)) = insert (ug_unitId g) (set (map ug_unitId gs))"
  by (induction gs) auto

lemma group_of_id [simp]: "ug_unitId (group_of gs u) = u"
  by (cases "find_row ug_unitId gs u") (auto simp: group_of_def dest: find_row_Some)

lemma group_of_put: "group_of (put_group g gs) u = (if u = ug_unitId g then g else group_of gs u)"
  by (simp add: group_of_def find_put_group)

lemma group_rows_spec:
  "group_of (group_rows db rule gs rs) u = add_values rule (of_unit u (live_values db rs)) (group_of gs u)
   \<and> (distinct (map ug_unitId gs) \<longrightarrow> distinct (map ug_unitId (group_rows db rule gs rs))
      \<and> set (map ug_unitId (group_rows db rule gs rs)) = set (map ug_unitId gs) \<union> {u. of_unit u (live_values db rs) \<noteq> []})"
proof (induction rs arbitrary: gs)
  case Nil
  show ?case by (simp add: add_values_def of_unit_def live_values_def with_masters_def map_filter_simps)
next
  case (Cons r rs)
  show ?case
  proof (cases "find_master db (ko_masterCode r)")
    case None
    then show ?thesis using Cons.IH by (simp add: live_values_def with_masters_def map_filter_simps)
  next
    case (Some k)
    then have live: "live_values db (r # rs) = (if km_active k then (r, k) # live_values db rs else live_values db rs)"
      by (simp add: live_values_def with_masters_def map_filter_simps)
    show ?thesis
    proof (cases "km_active k")
      case False
      with Some live Cons.IH show ?thesis by simp
    next
      case True
      define g where "g = (group_of gs (ko_unitId r))\<lparr>ug_totalWeight := ug_totalWeight (group_of gs (ko_unitId r)) + km_weight k,
        ug_weightedSum := ug_weightedSum (group_of gs (ko_unitId r)) + normalized_score rule k (ko_actualValue r) * km_weight k,
        ug_count := ug_count (group_of gs (ko_unitId r)) + 1\<rparr>"
      have eq: "group_rows db rule gs (r # rs) = group_rows db rule (put_group g gs) rs"
        using Some True by (simp add: g_def Let_def)
      have g: "ug_unitId g = ko_unitId r" by (simp add: g_def)
      have of_unit: "of_unit u (live_values db (r # rs))
          = (if ko_unitId r = u then (r, k) # of_unit u (live_values db rs) else of_unit u (live_values db rs))" for u
        using True live by (simp add: of_unit_def)
      have "add_values rule (of_unit u (live_values db rs)) (group_of (put_group g gs) u)
          = add_values rule (of_unit u (live_values db (r # rs))) (group_of gs u)"
        by (auto simp: group_of_put of_unit g add_values_def g_def)
      moreover have "{u. of_unit u (live_values db (r # rs)) \<noteq> []} = insert (ko_unitId r) {u. of_unit u (live_values db rs) \<noteq> []}"
        by (auto simp: of_unit)
      ultimately show ?thesis using Cons.IH [of "put_group g gs"] put_group_keys [of gs g] unfolding eq g by auto
    qed
  qed
qed

lemma unit_groups:
  assumes "g \<in> set (group_rows db rule [] rs)"
  shows "g = add_values rule (of_unit (ug_unitId g) (live_values db rs)) \<lparr>ug_unitId = ug_unitId g, ug_totalWeight = 0, ug_weightedSum = 0, ug_count = 0\<rparr>"
proof -
  let ?gs = "group_rows db rule [] rs"
  have "table_ok ug_unitId ?gs" using group_rows_spec [of db rule "[]" rs 0] by (simp add: table_ok_def)
  from find_row_table_ok [OF this assms] have "group_of ?gs (ug_unitId g) = g" by (simp add: group_of_def)
  moreover have "group_of [] u = \<lparr>ug_unitId = u, ug_totalWeight = 0, ug_weightedSum = 0, ug_count = 0\<rparr>" for u
    by (simp add: group_of_def find_row_def)
  ultimately show ?thesis using group_rows_spec [of db rule "[]" rs "ug_unitId g"] by metis
qed

section \<open>Months\<close>

definition month_number :: "int \<times> int \<Rightarrow> int" where
  "month_number ym = 12 * fst ym + snd ym - 1"

lemma periods_from_numbers:
  assumes "1 \<le> m" "m \<le> 12" "1 \<le> tm" "tm \<le> 12" "k \<le> 60"
  shows "map month_number (periods_from y m ty tm k) = take (61 - k) [month_number (y, m)..month_number (ty, tm)]
    \<and> (\<forall>ym \<in> set (periods_from y m ty tm k). 1 \<le> snd ym \<and> snd ym \<le> 12)"
  using assms
proof (induction y m ty tm k rule: periods_from.induct)
  case (1 y m ty tm k)
  have le: "(y < ty \<or> y = ty \<and> m \<le> tm) = (month_number (y, m) \<le> month_number (ty, tm))"
    using 1(2-5) by (auto simp: month_number_def)
  show ?case
  proof (cases "y < ty \<or> y = ty \<and> m \<le> tm")
    case False
    with le have "[month_number (y, m)..month_number (ty, tm)] = []" by simp
    moreover have "periods_from y m ty tm k = []" using False by (subst periods_from.simps) simp
    ultimately show ?thesis by simp
  next
    case True
    with le have up: "[month_number (y, m)..month_number (ty, tm)]
        = month_number (y, m) # [month_number (y, m) + 1..month_number (ty, tm)]" by (simp add: upto.simps)
    show ?thesis
    proof (cases "60 < k + 1")
      case last: True
      then have "61 - k = 1" using 1(6) by simp
      moreover have "periods_from y m ty tm k = [(y, m)]" using True last by (subst periods_from.simps) simp
      ultimately show ?thesis using 1(2,3) unfolding up by simp
    next
      case False
      define y' where "y' = (if 12 < m + 1 then y + 1 else y)"
      define m' where "m' = (if 12 < m + 1 then 1 else m + 1)"
      have eq: "periods_from y m ty tm k = (y, m) # periods_from y' m' ty tm (k + 1)"
        using True False by (subst periods_from.simps) (simp add: y'_def m'_def)
      have "1 \<le> m'" "m' \<le> 12" "month_number (y', m') = month_number (y, m) + 1"
        using 1(2,3) by (auto simp: m'_def y'_def month_number_def)
      moreover have "61 - k = Suc (61 - (k + 1))" using False by simp
      ultimately show ?thesis
        using 1(1) [OF True False] 1(2-5) False unfolding eq up y'_def [symmetric] m'_def [symmetric] by simp
    qed
  qed
qed

section \<open>Properties\<close>

text \<open>C16: Whatever the requests, the codes of the indicators are different, a unit has at most one value for each indicator and
  month, every value belongs to an indicator and a month of the year, the bands are different, and at most one scoring
  rule is active.\<close>

theorem kpi_tables_consistent:
  assumes "list_all kpi_request_valid rs"
  shows "let db = kpi_run rs no_kpis
    in distinct (map km_code (kd_masters db)) \<and> distinct (map value_key (kd_rows db))
     \<and> (\<forall>r \<in> set (kd_rows db). ko_masterCode r \<in> km_code ` set (kd_masters db) \<and> 1 \<le> ko_month r \<and> ko_month r \<le> 12)
     \<and> distinct (map kt_band (kd_thresholds db)) \<and> length (filter ks_active (kd_rules db)) \<le> 1"
proof -
  have "kpi_ok (kpi_run rs no_kpis)" using kpi_run_ok [OF no_kpis_ok assms] .
  then show ?thesis by (fastforce simp: Let_def kpi_ok_def masters_ok_def table_ok_def values_ok_def value_key_def)
qed

text \<open>C17: A locked value is never changed again: whatever requests follow, it stays as it is, unless its indicator is
  removed.\<close>

theorem locked_value_stays:
  assumes "list_all kpi_request_valid (earlier @ later)" "r \<in> set (kd_rows (kpi_run earlier no_kpis))" "is_locked r"
    and "\<not> list_ex (removes (ko_masterCode r)) later"
  shows "r \<in> set (kd_rows (kpi_run (earlier @ later) no_kpis))"
proof -
  have "kpi_ok db \<Longrightarrow> list_all kpi_request_valid qs \<Longrightarrow> \<not> list_ex (removes (ko_masterCode r)) qs \<Longrightarrow> r \<in> set (kd_rows db)
      \<Longrightarrow> r \<in> set (kd_rows (kpi_run qs db))" for qs db
    by (induction qs arbitrary: db) (auto simp: kpi_run_def kpi_exec_ok kpi_exec_locked assms(3))
  moreover have "kpi_ok (kpi_run earlier no_kpis)" using assms(1) by (intro kpi_run_ok no_kpis_ok) simp
  moreover have "kpi_run (earlier @ later) no_kpis = kpi_run later (kpi_run earlier no_kpis)" by (simp add: kpi_run_def)
  ultimately show ?thesis using assms by simp
qed

text \<open>C20: The summary has one entry for each unit that has a value of an active indicator in the month and that the user
  may see; its score is the weighted mean of the normalised scores, and the entries are sorted by score.\<close>

theorem summary_scores_units:
  assumes "dashboardSummary env user year month db = Inr s"
  shows "let shown = filter (\<lambda>r. in_month (the year) (the month) r \<and> unit_allowed env user (ko_unitId r)) (kd_rows db);
             live = live_values db shown
    in distinct (map us_unitId (sm_units s)) \<and> us_unitId ` set (sm_units s) = {u. of_unit u live \<noteq> []}
     \<and> (\<forall>x \<in> set (sm_units s). us_kpiCount x = length (of_unit (us_unitId x) live)
          \<and> us_score x = toFixed2 (mean_score
              (sum_list (map (\<lambda>(r, k). normalized_score (active_rule db) k (ko_actualValue r) * km_weight k) (of_unit (us_unitId x) live)))
              (sum_list (map (\<lambda>(r, k). km_weight k) (of_unit (us_unitId x) live)))))
     \<and> sorted_wrt (\<lambda>a b. us_score b \<le> us_score a) (sm_units s)
     \<and> sm_unitCount s = length (sm_units s) \<and> sm_rowCount s = length shown"
proof -
  let ?shown = "filter (\<lambda>r. in_month (the year) (the month) r \<and> unit_allowed env user (ko_unitId r)) (kd_rows db)"
  let ?gs = "group_rows db (active_rule db) [] ?shown"
  let ?units = "map (unit_summary_of (sorted_thresholds db)) ?gs"
  show ?thesis
  proof (cases "\<not> canViewAll env user \<and> getAllowedUnitIds user = []")
    case True
    then have "\<not> unit_allowed env user u" for u by (simp add: unit_allowed_def)
    then have "?shown = []" by simp
    with True assms show ?thesis
      by (auto simp: dashboardSummary_def of_unit_def live_values_def with_masters_def map_filter_simps split: if_splits)
  next
    case False
    with assms have s: "sm_units s = sort_key (\<lambda>u. - us_score u) ?units" "sm_unitCount s = length ?units"
      "sm_rowCount s = length ?shown" by (auto simp: dashboardSummary_def Let_def split: if_splits)
    note spec = group_rows_spec [of db "active_rule db" "[]" ?shown]
    have ids: "map us_unitId ?units = map ug_unitId ?gs" by (simp add: unit_summary_of_def Let_def)
    have "mset (map us_unitId (sm_units s)) = mset (map us_unitId ?units)"
      unfolding s(1) by (simp add: multiset.map_comp)
    then have "distinct (map us_unitId (sm_units s))" using spec [of 0] ids by (metis distinct.simps(1) list.map(1) mset_eq_imp_distinct_iff)
    moreover have "us_unitId ` set (sm_units s) = {u. of_unit u (live_values db ?shown) \<noteq> []}"
      using spec [of 0] ids unfolding s(1) by (simp add: image_image unit_summary_of_def Let_def)
    moreover have "us_kpiCount x = length (of_unit (us_unitId x) (live_values db ?shown))
          \<and> us_score x = toFixed2 (mean_score
              (sum_list (map (\<lambda>(r, k). normalized_score (active_rule db) k (ko_actualValue r) * km_weight k)
                (of_unit (us_unitId x) (live_values db ?shown))))
              (sum_list (map (\<lambda>(r, k). km_weight k) (of_unit (us_unitId x) (live_values db ?shown)))))"
      if "x \<in> set (sm_units s)" for x
    proof -
      from that obtain g where g: "g \<in> set ?gs" "x = unit_summary_of (sorted_thresholds db) g" by (auto simp: s(1))
      let ?rks = "of_unit (ug_unitId g) (live_values db ?shown)"
      define z :: unit_group where "z = \<lparr>ug_unitId = ug_unitId g, ug_totalWeight = 0, ug_weightedSum = 0, ug_count = 0\<rparr>"
      have "g = add_values (active_rule db) ?rks z" unfolding z_def by (rule unit_groups [OF g(1)])
      then have "ug_count g = ug_count (add_values (active_rule db) ?rks z)" "ug_totalWeight g = ug_totalWeight (add_values (active_rule db) ?rks z)"
        "ug_weightedSum g = ug_weightedSum (add_values (active_rule db) ?rks z)" by simp_all
      then have "ug_count g = length ?rks" "ug_totalWeight g = sum_list (map (\<lambda>(r, k). km_weight k) ?rks)"
        "ug_weightedSum g = sum_list (map (\<lambda>(r, k). normalized_score (active_rule db) k (ko_actualValue r) * km_weight k) ?rks)"
        unfolding add_values_def z_def by simp_all
      then show ?thesis by (simp add: g(2) unit_summary_of_def Let_def)
    qed
    moreover have "sorted_wrt (\<lambda>a b. us_score b \<le> us_score a) (sm_units s)"
      using sorted_sort_key [of "\<lambda>u. - us_score u" ?units] by (simp add: s(1) sorted_map)
    ultimately show ?thesis using s by (simp add: Let_def)
  qed
qed


text \<open>C21: The time series of a unit lists the months of the range in order, at most 61 of them, and each month that has values
  shows the score, the band and the indicators that the dashboard of the unit shows for that month.\<close>

theorem timeseries_agrees:
  assumes "dashboardUnitTimeseries env user unitId fy fm ty tm db = Inr ps"
  shows "map (\<lambda>p. month_number (tp_year p, tp_month p)) ps
      = take 61 [month_number (the fy, the fm)..month_number (the ty, the tm)]
    \<and> (\<forall>p \<in> set ps. tp_hasData p \<longrightarrow>
        (case dashboardUnit env user unitId (Some (tp_year p)) (Some (tp_month p)) db of
           Inl e \<Rightarrow> False
         | Inr v \<Rightarrow> uv_score v = tp_score p \<and> uv_band v = tp_band p
             \<and> map (\<lambda>d. (dt_code d, dt_normalizedScore d, dt_band d)) (uv_details v)
                = map (\<lambda>k. (kq_code k, kq_normalizedScore k, kq_band k)) (tp_scores p)))"
proof -
  have g: "0 < unitId" "year_ok fy" "month_ok fm" "year_ok ty" "month_ok tm" "unit_allowed env user (nat unitId)"
    using assms by (auto simp: dashboardUnitTimeseries_def Let_def split: if_splits)
  define fy' fm' ty' tm' where [simp]: "fy' = the fy" "fm' = the fm" "ty' = the ty" "tm' = the tm"
  have r: "2000 \<le> fy'" "fy' \<le> 2100" "1 \<le> fm'" "fm' \<le> 12" "2000 \<le> ty'" "ty' \<le> 2100" "1 \<le> tm'" "tm' \<le> 12"
    using g by (auto simp: year_ok_def month_ok_def split: option.splits)
  let ?ms = "periods_from fy' fm' ty' tm' 0"
  define in_range where "in_range = (\<lambda>r :: kpi_monitoring. ko_unitId r = nat unitId
      \<and> (fy' < int (ko_year r) \<or> int (ko_year r) = fy' \<and> fm' \<le> int (ko_month r))
      \<and> (int (ko_year r) < ty' \<or> int (ko_year r) = ty' \<and> int (ko_month r) \<le> tm'))"
  let ?rule = "active_rule db" and ?ts = "sorted_thresholds db"
  obtain name where ps: "ps = map (time_point_of db ?rule ?ts (nat unitId) name (filter in_range (kd_rows db))) ?ms"
    using assms g by (auto simp: dashboardUnitTimeseries_def Let_def in_range_def split: if_splits)
  have nums: "map month_number ?ms = take 61 [month_number (fy', fm')..month_number (ty', tm')]"
    and snds: "\<forall>ym \<in> set ?ms. 1 \<le> snd ym \<and> snd ym \<le> 12"
    using periods_from_numbers [of fm' tm' 0 fy' ty'] r by auto
  have ym: "month_number (tp_year p, tp_month p) = month_number ym" if "p = time_point_of db ?rule ?ts u name rows ym" for p u rows ym
    using that by (auto simp: time_point_of_def Let_def split: prod.split)
  have "map (\<lambda>p. month_number (tp_year p, tp_month p)) ps = map month_number ?ms"
    unfolding ps using ym by simp
  moreover have "case dashboardUnit env user unitId (Some (tp_year p)) (Some (tp_month p)) db of
           Inl e \<Rightarrow> False
         | Inr v \<Rightarrow> uv_score v = tp_score p \<and> uv_band v = tp_band p
             \<and> map (\<lambda>d. (dt_code d, dt_normalizedScore d, dt_band d)) (uv_details v)
                = map (\<lambda>k. (kq_code k, kq_normalizedScore k, kq_band k)) (tp_scores p)"
    if p: "p \<in> set ps" "tp_hasData p" for p
  proof -
    from p obtain y m where ym: "(y, m) \<in> set ?ms" and p': "p = time_point_of db ?rule ?ts (nat unitId) name (filter in_range (kd_rows db)) (y, m)"
      unfolding ps by auto
    have m: "1 \<le> m" "m \<le> 12" using snds ym by auto
    have "month_number (y, m) \<in> set [month_number (fy', fm')..month_number (ty', tm')]"
      using ym nums by (metis image_eqI in_set_takeD set_map)
    then have rng: "fy' < y \<or> y = fy' \<and> fm' \<le> m" "y < ty' \<or> y = ty' \<and> m \<le> tm'" using m r by (auto simp: month_number_def)
    have rows: "filter (in_month y m) (filter in_range (kd_rows db)) = filter (\<lambda>r. ko_unitId r = nat unitId \<and> in_month y m r) (kd_rows db)"
      using rng by (auto simp: in_range_def in_month_def intro!: filter_cong)
    let ?rks = "unit_values db (nat unitId) y m"
    have yp: "tp_year p = y" "tp_month p = m" by (simp_all add: p' time_point_of_def Let_def)
    have "tp_score p = toFixed2 (rounded_mean ?rule ?rks)" "tp_scores p = map (point_of ?rule ?ts) ?rks"
      "tp_band p = classifyScore (rounded_mean ?rule ?rks) ?ts"
      using p(2) unfolding p' time_point_of_def Let_def prod.case rows points_sum unit_values_def rounded_mean_def by simp_all
    moreover have "year_ok (Some y)" "month_ok (Some m)" using rng r m by (auto simp: year_ok_def month_ok_def)
    then obtain v where v: "dashboardUnit env user unitId (Some y) (Some m) db = Inr v" using dashboardUnit_ok g by blast
    ultimately show ?thesis using dashboardUnit_Inr [OF v] unfolding yp v by (simp add: detail_of_def point_of_def Let_def split_def)
  qed
  ultimately show ?thesis using nums by auto
qed

text \<open>C30: What a user sees of the values depends on those of the units they may see only: two states that agree on them give the
  same lists, dashboards and action plans.\<close>

theorem other_units_unseen:
  assumes "kd_masters db' = kd_masters db" "kd_thresholds db' = kd_thresholds db" "kd_rules db' = kd_rules db"
    and "filter (\<lambda>r. unit_allowed env user (ko_unitId r)) (kd_rows db') = filter (\<lambda>r. unit_allowed env user (ko_unitId r)) (kd_rows db)"
  shows "listMonitoring env user q db' = listMonitoring env user q db
    \<and> dashboardSummary env user y m db' = dashboardSummary env user y m db
    \<and> dashboardUnit env user u y m db' = dashboardUnit env user u y m db
    \<and> dashboardUnitTimeseries env user u y m y' m' db' = dashboardUnitTimeseries env user u y m y' m' db
    \<and> generateActionPlans env user y m w db' = generateActionPlans env user y m w db"
proof -
  have rows: "filter P (kd_rows db') = filter P (kd_rows db)" if "\<And>r. P r \<Longrightarrow> unit_allowed env user (ko_unitId r)" for P
  proof -
    have "filter P rs = filter P (filter (\<lambda>r. unit_allowed env user (ko_unitId r)) rs)" for rs
      using that by (auto simp: filter_filter intro!: filter_cong)
    then show ?thesis using assms(4) by metis
  qed
  have fm: "find_master db' = find_master db" using assms(1) by (simp add: fun_eq_iff find_master_def)
  then have wm: "with_masters db' = with_masters db" by (simp add: fun_eq_iff with_masters_def)
  have gr: "group_rows db' rule gs rs = group_rows db rule gs rs" for rule gs rs
    by (induction rs arbitrary: gs) (auto simp: fm split: option.split)
  have st: "sorted_thresholds db' = sorted_thresholds db" "active_rule db' = active_rule db"
    using assms(2,3) by (simp_all add: sorted_thresholds_def active_rule_def)
  have tp: "time_point_of db' = time_point_of db" by (simp add: fun_eq_iff time_point_of_def wm)
  have "listMonitoring env user q db' = listMonitoring env user q db"
  proof (cases "\<not> canViewAll env user \<and> (getAllowedUnitIds user = [] \<or> given (map_option (\<lambda>u. u \<notin> set (getAllowedUnitIds user)) (mq_unitId q)) False)")
    case True
    then show ?thesis by (auto simp: listMonitoring_def Let_def)
  next
    case False
    let ?P = "\<lambda>r. given (map_option (\<lambda>y. ko_year r = y) (mq_year q)) True
        \<and> given (map_option (\<lambda>m. ko_month r = m) (mq_month q)) True
        \<and> given (map_option (\<lambda>c. ko_masterCode r = c) (mq_masterCode q)) True
        \<and> given (map_option (\<lambda>u. ko_unitId r = u) (mq_unitId q)) (canViewAll env user \<or> ko_unitId r \<in> set (getAllowedUnitIds user))"
    have "filter ?P (kd_rows db') = filter ?P (kd_rows db)"
      using False by (intro rows) (cases "mq_unitId q"; auto simp: unit_allowed_def)
    then show ?thesis by (simp only: listMonitoring_def Let_def)
  qed
  moreover have "dashboardSummary env user y m db' = dashboardSummary env user y m db"
    by (simp only: dashboardSummary_def Let_def st gr rows [of "\<lambda>r. in_month (the y) (the m) r \<and> unit_allowed env user (ko_unitId r)"])
  moreover have "dashboardUnit env user u y m db' = dashboardUnit env user u y m db"
  proof (cases "unit_allowed env user (nat u)")
    case True
    then have "filter (\<lambda>r. ko_unitId r = nat u \<and> in_month (the y) (the m) r) (kd_rows db')
        = filter (\<lambda>r. ko_unitId r = nat u \<and> in_month (the y) (the m) r) (kd_rows db)" by (intro rows) auto
    then show ?thesis by (simp only: dashboardUnit_def Let_def st wm)
  qed (simp add: dashboardUnit_def)
  moreover have "dashboardUnitTimeseries env user u y m y' m' db' = dashboardUnitTimeseries env user u y m y' m' db"
  proof (cases "unit_allowed env user (nat u)")
    case True
    let ?P = "\<lambda>r. ko_unitId r = nat u
        \<and> (the y < int (ko_year r) \<or> int (ko_year r) = the y \<and> the m \<le> int (ko_month r))
        \<and> (int (ko_year r) < the y' \<or> int (ko_year r) = the y' \<and> int (ko_month r) \<le> the m')"
    have "filter ?P (kd_rows db') = filter ?P (kd_rows db)" using True by (intro rows) auto
    then show ?thesis by (simp only: dashboardUnitTimeseries_def Let_def st tp)
  qed (simp add: dashboardUnitTimeseries_def)
  moreover have "generateActionPlans env user y m w db' = generateActionPlans env user y m w db"
  proof -
    let ?wanted = "case w of Some (Some u) \<Rightarrow> u | _ \<Rightarrow> 0"
    let ?P = "\<lambda>r. in_month (the y) (the m) r \<and> (if w = None then unit_allowed env user (ko_unitId r) else ko_unitId r = nat ?wanted)"
    show ?thesis
    proof (cases "w \<noteq> None \<and> \<not> unit_allowed env user (nat ?wanted)")
      case True
      then show ?thesis by (simp add: generateActionPlans_def Let_def)
    next
      case False
      then have "filter ?P (kd_rows db') = filter ?P (kd_rows db)" by (intro rows) (auto split: if_splits)
      then show ?thesis by (simp only: generateActionPlans_def Let_def st wm)
    qed
  qed
  ultimately show ?thesis by blast
qed

text \<open>With the bands the service installs, the scores between 74.99 and 75 and those between 89.99 and 90 are in no band; a score of
  at least 89.995 is shown as 90.00 all the same.\<close>

lemma default_bands_gap:
  assumes "0 \<le> score" "score \<le> 100"
  shows "(classifyScore score (fst (listThresholds no_kpis)) = ''unclassified''
      \<longleftrightarrow> 7499 / 100 < score \<and> score < 75 \<or> 8999 / 100 < score \<and> score < 90)
    \<and> (89995 / 1000 \<le> score \<and> score < 90 \<longrightarrow> toFixed2 score = 90)"
proof -
  have ts: "fst (listThresholds no_kpis) = default_thresholds 1"
    by (simp add: listThresholds_def sorted_thresholds_def ensureLookups_def no_kpis_def Let_def default_thresholds_def)
  have "js_round (score * 100) = 9000" if "89995 / 1000 \<le> score" "score < 90"
    using that unfolding js_round_def by (intro floor_unique) auto
  then show ?thesis using assms unfolding ts by (auto simp: classifyScore_def default_thresholds_def toFixed2_def)
qed

section \<open>Instances\<close>

definition kpi_office :: kpi_env where
  "kpi_office = \<lparr>ke_now = 0, ke_caps = (\<lambda>_. Some [CapKpiManage]), ke_getUserById = (\<lambda>_. None),
     ke_getUnitById = (\<lambda>n. if n = 1 then Some ''Records'' else None), ke_rank = (\<lambda>s. int (length s))\<rparr>"

definition manager :: kpi_user where
  "manager = \<lparr>ku_id = 1, ku_role = SUPER_ADMIN, ku_units = [1]\<rparr>"

definition indicator :: "string \<Rightarrow> kpi_type \<Rightarrow> rat \<Rightarrow> master_dto" where
  "indicator code ty goal =
     \<lparr>cd_code = code, cd_name = code, cd_description = None, cd_unitId = 1, cd_type = ty, cd_unitOfMeasure = None,
      cd_direction = HIGHER_IS_BETTER, cd_targetValue = goal, cd_weight = 1, cd_frequency = None, cd_active = None\<rparr>"

definition reading :: "string \<Rightarrow> rat \<Rightarrow> monitoring_dto" where
  "reading code v = \<lparr>od_masterCode = code, od_unitId = 1, od_year = 2026, od_month = 3, od_actualValue = v,
     od_remarks = None, od_status = None\<rparr>"

definition march :: "kpi_request list" where
  "march = [ListLookups, CreateMaster kpi_office manager (indicator ''K1'' MEASUREMENT 50),
     CreateMaster kpi_office manager (indicator ''K2'' YES_NO 1), UpsertMonitoring kpi_office manager (reading ''K1'' 40),
     UpsertMonitoring kpi_office manager (reading ''K2'' 1), LockMonitoring kpi_office manager 5]"

definition stored_value :: "nat \<Rightarrow> string \<Rightarrow> rat \<Rightarrow> monitoring_status \<Rightarrow> kpi_monitoring" where
  "stored_value n code v st = \<lparr>ko_id = n, ko_masterCode = code, ko_unitId = 1, ko_year = 2026, ko_month = 3, ko_actualValue = v,
     ko_remarks = None, ko_enteredByUserId = None, ko_enteredByStaffId = None, ko_enteredByName = None, ko_status = st\<rparr>"

definition stored_master :: "string \<Rightarrow> kpi_type \<Rightarrow> rat \<Rightarrow> kpi_master" where
  "stored_master code ty goal = \<lparr>km_code = code, km_name = code, km_description = None, km_unitId = 1, km_type = ty,
     km_unitOfMeasure = None, km_direction = HIGHER_IS_BETTER, km_targetValue = goal, km_weight = 1, km_frequency = MONTHLY,
     km_active = True\<rparr>"

definition after_march :: kpi_db where
  "after_march = \<lparr>kd_masters = [stored_master ''K1'' MEASUREMENT 50, stored_master ''K2'' YES_NO 1],
     kd_rows = [stored_value 5 ''K1'' 40 LOCKED, stored_value 6 ''K2'' 1 DRAFT], kd_thresholds = default_thresholds 1,
     kd_rules = [default_rule 4], kd_nextId = 7\<rparr>"

lemma manager_can [simp]: "canManage kpi_office manager" "canViewAll kpi_office manager"
  by (simp_all add: canManage_def canViewAll_def isKpiManage_def has_capability_def kpi_office_def manager_def)

lemma march_value: "kpi_run march no_kpis = after_march"
  by code_simp

lemma march_valid: "list_all kpi_request_valid march"
  by (simp add: march_def indicator_def)

lemma kpi_tables_consistent_witness:
  "length (kd_rows (kpi_run march no_kpis)) = 2 \<and> distinct (map value_key (kd_rows (kpi_run march no_kpis)))"
  using kpi_tables_consistent [OF march_valid] by (simp add: Let_def) (simp add: march_value after_march_def)

lemma locked_value_stays_witness:
  "stored_value 5 ''K1'' 40 LOCKED \<in> set (kd_rows (kpi_run (march @ [UpsertMonitoring kpi_office manager (reading ''K1'' 10)]) no_kpis))"
  by (rule locked_value_stays)
    (simp_all add: march_valid [unfolded march_def] march_value after_march_def is_locked_def stored_value_def march_valid)

text \<open>The queries of the office for March.\<close>

lemma summary_exists: "\<exists>s. dashboardSummary kpi_office manager (Some 2026) (Some 3) after_march = Inr s"
  by (simp add: dashboardSummary_def year_ok_def month_ok_def Let_def)

lemma summary_scores_units_witness:
  "\<exists>s. dashboardSummary kpi_office manager (Some 2026) (Some 3) after_march = Inr s \<and> sm_rowCount s = 2
     \<and> distinct (map us_unitId (sm_units s))"
proof -
  from summary_exists obtain s where s: "dashboardSummary kpi_office manager (Some 2026) (Some 3) after_march = Inr s" by blast
  have "filter (\<lambda>r. in_month 2026 3 r \<and> unit_allowed kpi_office manager (ko_unitId r)) (kd_rows after_march) = kd_rows after_march"
    by (simp add: after_march_def stored_value_def in_month_def unit_allowed_def)
  then have "sm_rowCount s = 2" using summary_scores_units [OF s] by (simp add: Let_def) (simp add: after_march_def)
  with s summary_scores_units [OF s] show ?thesis by (simp add: Let_def)
qed




lemma series_exists:
  "\<exists>ps. dashboardUnitTimeseries kpi_office manager 1 (Some 2026) (Some 2) (Some 2026) (Some 4) after_march = Inr ps"
  by (simp add: dashboardUnitTimeseries_def year_ok_def month_ok_def unit_allowed_def Let_def)

lemma timeseries_agrees_witness:
  "\<exists>ps. dashboardUnitTimeseries kpi_office manager 1 (Some 2026) (Some 2) (Some 2026) (Some 4) after_march = Inr ps \<and> length ps = 3"
proof -
  from series_exists obtain ps
    where p: "dashboardUnitTimeseries kpi_office manager 1 (Some 2026) (Some 2) (Some 2026) (Some 4) after_march = Inr ps" by blast
  from timeseries_agrees [OF p] have "map (\<lambda>p. month_number (tp_year p, tp_month p)) ps
      = take 61 [month_number (2026, 2)..month_number (2026, 4)]" by simp
  from arg_cong [OF this, of length] have "length ps = 3" by (simp add: month_number_def)
  with p show ?thesis by blast
qed

definition clerk :: kpi_user where
  "clerk = \<lparr>ku_id = 2, ku_role = USER, ku_units = [1]\<rparr>"

definition guarded_office :: kpi_env where
  "guarded_office = kpi_office\<lparr>ke_caps := (\<lambda>_. None)\<rparr>"

lemma other_units_unseen_witness:
  "dashboardUnit guarded_office clerk 1 (Some 2026) (Some 3)
     (after_march\<lparr>kd_rows := (stored_value 7 ''K1'' 10 DRAFT)\<lparr>ko_unitId := 2\<rparr> # kd_rows after_march\<rparr>)
   = dashboardUnit guarded_office clerk 1 (Some 2026) (Some 3) after_march"
proof -
  have "\<not> unit_allowed guarded_office clerk 2"
    by (simp add: unit_allowed_def canViewAll_def isKpiManage_def has_capability_def guarded_office_def clerk_def getAllowedUnitIds_def)
  then show ?thesis by (intro other_units_unseen [THEN conjunct2, THEN conjunct2, THEN conjunct1]) simp_all
qed

end
