(* ===== verification/Issuances.thy ===== *)
theory Issuances
  imports Documents Forms
begin

text \<open>
  The register of issuances (\<^verbatim>\<open>references/services/issuance.service.ts\<close>, \<^verbatim>\<open>references/entities\<close>): issuances with
  their sources, relationships, domains, lifecycle history and register decisions.  The documents an issuance
  may be linked to are those of \<open>DocStore\<close>.  The body of a request is not validated by a class, so its texts may
  be empty; a field is missing or a value of its type.  The descriptive columns of an issuance that no rule reads
  are kept by name.  The database compares texts exactly, and
  the date a row was added to the register is left out.  After the catalogue come the work on an issuance: linked
  documents, the attachment, duplicates, domains, sources, relationships, assessments with their evidence and corrective
  actions, and the decision on inclusion in the register.
\<close>

section \<open>Rows\<close>

record comp_domain =
  dm_id :: nat
  dm_code :: string
  dm_name :: string
  dm_description :: "string option"
  dm_isActive :: bool
  dm_sortOrder :: int

record attachment =
  at_fileName :: string
  at_mimeType :: string
  at_blob :: "byte list"
  at_uploadedAt :: date

record issuance =
  is_id :: nat
  is_number :: string
  is_title :: string
  is_authority :: string
  is_register :: string
  is_lifecycle :: string
  is_applicability :: string
  is_decision :: string
  is_scope :: string
  is_statusReason :: "string option"
  is_domains :: "nat list"
  is_isAmendment :: bool
  is_amendedNumber :: "string option"
  is_amendmentNotes :: "string option"
  is_sourceUrl :: "string option"
  is_attachment :: "attachment option"
  is_isActive :: bool
  is_details :: "(string \<times> string) list"

record issuance_source =
  so_id :: nat
  so_issuance :: nat
  so_type :: string
  so_url :: "string option"
  so_organization :: "string option"
  so_externalId :: "string option"
  so_fileName :: "string option"
  so_mimeType :: "string option"
  so_fileSize :: "nat option"
  so_sha256 :: "string option"
  so_blob :: "byte list option"
  so_isPrimary :: bool
  so_verified :: "(date \<times> nat option) option"
  so_createdBy :: "nat option"
  so_createdAt :: date
  so_updatedAt :: date

record issuance_relationship =
  rl_id :: nat
  rl_source :: nat
  rl_target :: nat
  rl_type :: string
  rl_notes :: "string option"
  rl_createdBy :: "nat option"

record lifecycle_entry =
  lh_issuance :: nat
  lh_from :: "string option"
  lh_to :: string
  lh_reason :: string
  lh_changedBy :: "nat option"
  lh_changedAt :: date

record issuance_assessment =
  am_id :: nat
  am_issuance :: nat
  am_year :: int
  am_quarter :: "int option"
  am_status :: string
  am_evidenceSummary :: "string option"
  am_gapSummary :: "string option"
  am_readiness :: "string option"
  am_assessedBy :: "nat option"
  am_assessedAt :: date

record assessment_evidence =
  ie_id :: nat
  ie_assessment :: nat
  ie_label :: string
  ie_url :: "string option"
  ie_document :: "nat option"
  ie_version :: "nat option"
  ie_createdBy :: "nat option"

record remediation_action =
  ra_id :: nat
  ra_assessment :: nat
  ra_action :: string
  ra_owner :: "string option"
  ra_targetDate :: "string option"
  ra_status :: string
  ra_completedAt :: "date option"

record issuance_recommendation =
  rc_id :: nat
  rc_issuance :: nat
  rc_status :: string
  rc_decidedBy :: "nat option"
  rc_decidedAt :: "date option"
  rc_note :: "string option"

record register_decision =
  rg_issuance :: nat
  rg_decision :: string
  rg_applicability :: string
  rg_reason :: string
  rg_decidedBy :: "nat option"

record issuance_db =
  ix_issuances :: "issuance list"
  ix_domains :: "comp_domain list"
  ix_sources :: "issuance_source list"
  ix_relationships :: "issuance_relationship list"
  ix_history :: "lifecycle_entry list"
  ix_assessments :: "issuance_assessment list"
  ix_evidence :: "assessment_evidence list"
  ix_actions :: "remediation_action list"
  ix_recommendations :: "issuance_recommendation list"
  ix_decisions :: "register_decision list"
  ix_docs :: doc_db
  ix_nextId :: nat

text \<open>\<open>xe_linksTable\<close>: the table \<open>document_issuances\<close> exists; \<open>xe_sha256\<close>: the hash of a file.\<close>

record issuance_env =
  xe_now :: date
  xe_caps :: capability_cache
  xe_linksTable :: bool
  xe_sha256 :: "byte list \<Rightarrow> string"

section \<open>Texts\<close>

text \<open>\<^verbatim>\<open>replace(/\/$/, '')\<close> and \<open>TRIM(TRAILING '/' FROM ...)\<close>.\<close>

definition drop_slash :: "string \<Rightarrow> string" where
  "drop_slash s = (if s \<noteq> [] \<and> last s = CHR ''/'' then butlast s else s)"

definition drop_slashes :: "string \<Rightarrow> string" where
  "drop_slashes s = rev (dropWhile (\<lambda>c. c = CHR ''/'') (rev s))"

definition PRIMARY_REGISTERS :: "string list" where
  "PRIMARY_REGISTERS = [''legal_regulatory'', ''standards'', ''internal_issuances'', ''internal_operational'']"

definition LIFECYCLE_STATUSES :: "string list" where
  "LIFECYCLE_STATUSES = [''draft'', ''under_review'', ''active'', ''amended'', ''superseded'', ''repealed'', ''revoked'',
     ''expired'', ''retired'']"

definition APPLICABILITY_STATUSES :: "string list" where
  "APPLICABILITY_STATUSES = [''pending_review'', ''applicable'', ''partially_applicable'', ''not_applicable'']"

definition REGISTER_DECISIONS :: "string list" where
  "REGISTER_DECISIONS = [''pending'', ''included'', ''excluded'']"

definition SCOPE_PROFILES :: "string list" where
  "SCOPE_PROFILES = [''core'', ''extended'']"

definition ASSESSMENT_STATUSES :: "string list" where
  "ASSESSMENT_STATUSES = [''not_assessed'', ''compliant'', ''partial'', ''non_compliant'', ''not_applicable'']"

definition READINESS_STATUSES :: "string list" where
  "READINESS_STATUSES = [''not_assessed'', ''ready'', ''needs_update'', ''missing_evidence'']"

definition REMEDIATION_STATUSES :: "string list" where
  "REMEDIATION_STATUSES = [''open'', ''in_progress'', ''completed'', ''cancelled'']"

definition SOURCE_TYPES :: "string list" where
  "SOURCE_TYPES = [''official_external'', ''official_internal'', ''uploaded_copy'', ''google_drive'', ''reference_link'']"

definition RELATIONSHIP_TYPES :: "string list" where
  "RELATIONSHIP_TYPES = [''implements'', ''amends'', ''supersedes'', ''repeals'', ''supplements'', ''clarifies'',
     ''pursuant_to'', ''related_to'']"

text \<open>\<open>assertAllowed\<close>: an empty text passes.\<close>

definition not_allowed :: "string option \<Rightarrow> string list \<Rightarrow> bool" where
  "not_allowed v allowed \<longleftrightarrow> (case v of Some x \<Rightarrow> x \<noteq> [] \<and> x \<notin> set allowed | None \<Rightarrow> False)"

section \<open>Validation\<close>

record issuance_dto =
  di_title :: "string option"
  di_authority :: "string option"
  di_register :: "string option"
  di_lifecycle :: "string option"
  di_applicability :: "string option"
  di_decision :: "string option"
  di_scope :: "string option"
  di_statusReason :: "string option"
  di_domainIds :: "nat list option"
  di_isAmendment :: "bool option"
  di_amendedNumber :: "string option"
  di_amendmentNotes :: "string option"
  di_sourceUrl :: "string option"
  di_details :: "(string \<times> string) list"

definition find_issuance :: "issuance_db \<Rightarrow> nat \<Rightarrow> issuance option" where
  "find_issuance db n = find_row is_id (ix_issuances db) n"

definition find_number :: "issuance_db \<Rightarrow> string \<Rightarrow> issuance option" where
  "find_number db s = find_row is_number (ix_issuances db) s"

definition validateArchitectureFields :: "issuance_dto \<Rightarrow> http_error option" where
  "validateArchitectureFields dto = first_error [
     (not_allowed (di_register dto) PRIMARY_REGISTERS, BadRequest (Issue RegisterInvalid)),
     (not_allowed (di_lifecycle dto) LIFECYCLE_STATUSES, BadRequest (Issue LifecycleInvalid)),
     (not_allowed (di_applicability dto) APPLICABILITY_STATUSES, BadRequest (Issue ApplicabilityInvalid)),
     (not_allowed (di_decision dto) REGISTER_DECISIONS, BadRequest (Issue DecisionInvalid)),
     (not_allowed (di_scope dto) SCOPE_PROFILES, BadRequest (Issue ScopeInvalid)),
     (di_decision dto = Some ''included'' \<and> di_applicability dto = Some ''not_applicable'', BadRequest (Issue NotApplicableIncluded)),
     (text_or (di_lifecycle dto) ''draft'' \<notin> {''draft'', ''under_review'', ''active''} \<and> blank (di_statusReason dto),
      BadRequest (Issue StatusReasonRequired))]"

text \<open>The domains asked for, each active or in use already.\<close>

definition resolveDomains :: "issuance_db \<Rightarrow> nat list option \<Rightarrow> nat list \<Rightarrow> nat list result" where
  "resolveDomains db ids allowedInactive =
     (case ids of None \<Rightarrow> Inr []
      | Some ids \<Rightarrow>
          (let domains = filter (\<lambda>d. dm_id d \<in> set ids) (ix_domains db)
           in if ids = [] then Inr []
              else if length domains \<noteq> length (remdups ids)
                \<or> list_ex (\<lambda>d. \<not> dm_isActive d \<and> dm_id d \<notin> set allowedInactive) domains
              then Inl (BadRequest (Issue DomainsInvalid))
              else Inr (map dm_id domains)))"

definition active_domain :: "issuance_db \<Rightarrow> nat \<Rightarrow> bool" where
  "active_domain db n = list_ex (\<lambda>d. dm_id d = n \<and> dm_isActive d) (ix_domains db)"

definition assertAmendmentTarget :: "issuance_db \<Rightarrow> nat option \<Rightarrow> bool \<Rightarrow> string option \<Rightarrow> http_error option" where
  "assertAmendmentTarget db self isAmendment num =
     (if \<not> isAmendment then None
      else case trimmed num of
        None \<Rightarrow> Some (BadRequest (Issue AmendedNumberRequired))
      | Some s \<Rightarrow>
          (case find_number db s of
             None \<Rightarrow> Some (BadRequest (Issue AmendedNotFound))
           | Some t \<Rightarrow> if self = Some (is_id t) then Some (BadRequest (Issue AmendsItself)) else None))"

text \<open>What inclusion in an official register requires.\<close>

definition inclusion_error :: "string \<Rightarrow> string \<Rightarrow> bool \<Rightarrow> bool \<Rightarrow> http_error option" where
  "inclusion_error lifecycle applicability hasDomain hasSource = first_error [
     (lifecycle \<noteq> ''active'', BadRequest (Issue IncludeNeedsActive)),
     (applicability \<notin> {''applicable'', ''partially_applicable''}, BadRequest (Issue IncludeNeedsApplicable)),
     (\<not> hasDomain, BadRequest (Issue IncludeNeedsDomain)),
     (\<not> hasSource, BadRequest (Issue IncludeNeedsSource))]"

section \<open>Amendments and the primary source\<close>

definition amends_of :: "issuance_db \<Rightarrow> nat \<Rightarrow> issuance_relationship list" where
  "amends_of db n = filter (\<lambda>r. rl_source r = n \<and> rl_type r = ''amends'') (ix_relationships db)"

text \<open>The relationships without the amendments of \<open>n\<close>, but with the one that is kept.\<close>

definition without_amends :: "nat \<Rightarrow> nat option \<Rightarrow> issuance_relationship list \<Rightarrow> issuance_relationship list" where
  "without_amends n t rs = filter (\<lambda>r. \<not> (rl_source r = n \<and> rl_type r = ''amends'') \<or> t = Some (rl_target r)) rs"

definition syncLegacyAmendmentRelationship :: "issuance \<Rightarrow> nat option \<Rightarrow> issuance_db \<Rightarrow> issuance_db" where
  "syncLegacyAmendmentRelationship i user db =
     (if \<not> is_isAmendment i \<or> trimmed (is_amendedNumber i) = None
      then db\<lparr>ix_relationships := without_amends (is_id i) None (ix_relationships db)\<rparr>
      else case find_number db (the (trimmed (is_amendedNumber i))) of
        None \<Rightarrow> db
      | Some t \<Rightarrow>
          if is_id t = is_id i then db
          else let rs = without_amends (is_id i) (Some (is_id t)) (ix_relationships db); notes = nonempty_text (is_amendmentNotes i)
               in (case List.find (\<lambda>r. rl_target r = is_id t) (amends_of db (is_id i)) of
                     None \<Rightarrow> db\<lparr>ix_relationships := rs @ [\<lparr>rl_id = ix_nextId db, rl_source = is_id i, rl_target = is_id t,
                                 rl_type = ''amends'', rl_notes = notes, rl_createdBy = actor_id user\<rparr>],
                               ix_nextId := ix_nextId db + 1\<rparr>
                   | Some e \<Rightarrow>
                       db\<lparr>ix_relationships := (if rl_notes e = notes then rs else save_row rl_id rs (e\<lparr>rl_notes := notes\<rparr>))\<rparr>))"

text \<open>\<open>sourceRepo.update({ issuanceId }, { isPrimary: false })\<close>, for the sources that satisfy \<open>P\<close>.\<close>

definition not_primary :: "(issuance_source \<Rightarrow> bool) \<Rightarrow> nat \<Rightarrow> issuance_db \<Rightarrow> issuance_db" where
  "not_primary P n db =
     db\<lparr>ix_sources := map (\<lambda>s. if so_issuance s = n \<and> P s then s\<lparr>so_isPrimary := False\<rparr> else s) (ix_sources db)\<rparr>"

definition save_source :: "issuance_env \<Rightarrow> issuance_source \<Rightarrow> issuance_db \<Rightarrow> issuance_db" where
  "save_source env s db = db\<lparr>ix_sources := save_row so_id (ix_sources db) (s\<lparr>so_updatedAt := xe_now env\<rparr>)\<rparr>"

definition new_source :: "issuance_env \<Rightarrow> nat \<Rightarrow> string \<Rightarrow> nat \<Rightarrow> issuance_source" where
  "new_source env n ty i =
     \<lparr>so_id = i, so_issuance = n, so_type = ty, so_url = None, so_organization = None, so_externalId = None,
      so_fileName = None, so_mimeType = None, so_fileSize = None, so_sha256 = None, so_blob = None, so_isPrimary = False,
      so_verified = None, so_createdBy = None, so_createdAt = xe_now env, so_updatedAt = xe_now env\<rparr>"

definition source_with_url :: "issuance_db \<Rightarrow> nat \<Rightarrow> string \<Rightarrow> issuance_source option" where
  "source_with_url db n url =
     List.find (\<lambda>s. so_issuance s = n \<and> (case so_url s of
          Some u \<Rightarrow> toLowerCase (drop_slashes u) = toLowerCase url | None \<Rightarrow> False)) (ix_sources db)"

definition syncPrimaryUrlSource :: "issuance_env \<Rightarrow> issuance \<Rightarrow> issuance_db \<Rightarrow> issuance_db" where
  "syncPrimaryUrlSource env i db =
     (case trimmed (is_sourceUrl i) of
        None \<Rightarrow>
          (let db1 = not_primary (\<lambda>s. so_type s \<in> {''official_external'', ''google_drive''}) (is_id i) db
           in case oldest_by (\<lambda>s. - so_createdAt s)
                  (filter (\<lambda>s. so_issuance s = is_id i \<and> so_type s = ''uploaded_copy'') (ix_sources db1)) of
                None \<Rightarrow> db1
              | Some s \<Rightarrow> save_source env (s\<lparr>so_isPrimary := True\<rparr>) (not_primary (\<lambda>_. True) (is_id i) db1))
      | Some url \<Rightarrow>
          (let normalizedUrl = drop_slash url; found = source_with_url db (is_id i) normalizedUrl;
               s = given found (new_source env (is_id i) [] (ix_nextId db));
               ty = (if includes_text normalizedUrl ''drive.google.com'' then ''google_drive'' else ''official_external'');
               db1 = save_source env (s\<lparr>so_type := ty, so_url := Some normalizedUrl, so_organization := Some (is_authority i),
                 so_isPrimary := True\<rparr>) (not_primary (\<lambda>_. True) (is_id i) db)
           in db1\<lparr>ix_nextId := (if found = None then ix_nextId db + 1 else ix_nextId db)\<rparr>))"

section \<open>Catalogue\<close>

definition untouched_columns :: "string list" where
  "untouched_columns = [''compliance_status'', ''evidence_location'', ''gap_summary'', ''action_required'', ''target_date'',
     ''last_review_date'', ''quarterly_readiness'', ''q1_compliance_status'', ''q2_compliance_status'',
     ''q3_compliance_status'', ''q4_compliance_status'']"

definition catalogData :: "issuance_dto \<Rightarrow> (string \<times> string) list" where
  "catalogData dto = filter (\<lambda>(c, v). c \<notin> set untouched_columns) (di_details dto)"

definition detail :: "(string \<times> string) list \<Rightarrow> string \<Rightarrow> string option" where
  "detail ds c = map_of ds c"

fun set_details :: "(string \<times> string) list \<Rightarrow> (string \<times> string) list \<Rightarrow> (string \<times> string) list" where
  "set_details [] ds = ds"
| "set_details ((c, v) # new) ds = set_details new ((c, v) # filter (\<lambda>(d, _). d \<noteq> c) ds)"

definition new_details :: "issuance_dto \<Rightarrow> (string \<times> string) list" where
  "new_details dto =
     (let ds = di_details dto;
          given_or = (\<lambda>c d. (c, text_or (detail ds c) d));
          precision = (\<lambda>c d. (c, text_or (detail ds c) (if detail ds d = None \<or> detail ds d = Some [] then ''unknown'' else ''day'')))
      in set_details ([precision ''issue_date_precision'' ''issue_date'',
             precision ''effectivity_date_precision'' ''effectivity_date'']
           @ map (\<lambda>c. given_or c ''not_assessed'') [''compliance_status'', ''quarterly_readiness'', ''q1_compliance_status'',
               ''q2_compliance_status'', ''q3_compliance_status'', ''q4_compliance_status'']) (catalogData dto))"

definition log_lifecycle ::
  "issuance_env \<Rightarrow> nat \<Rightarrow> string option \<Rightarrow> string \<Rightarrow> string \<Rightarrow> nat option \<Rightarrow> issuance_db \<Rightarrow> issuance_db" where
  "log_lifecycle env n old new reason user db =
     db\<lparr>ix_history := ix_history db @ [\<lparr>lh_issuance = n, lh_from = old, lh_to = new, lh_reason = reason,
        lh_changedBy = actor_id user, lh_changedAt = xe_now env\<rparr>]\<rparr>"

definition save_issuance :: "issuance \<Rightarrow> issuance_db \<Rightarrow> issuance_db" where
  "save_issuance i db = db\<lparr>ix_issuances := save_row is_id (ix_issuances db) i\<rparr>"

definition new_issuance :: "nat \<Rightarrow> string \<Rightarrow> string \<Rightarrow> string \<Rightarrow> issuance_dto \<Rightarrow> nat list \<Rightarrow> issuance" where
  "new_issuance n num title authority dto domains =
     (let lifecycleStatus = text_or (di_lifecycle dto) ''under_review''
      in \<lparr>is_id = n, is_number = num, is_title = title, is_authority = authority,
          is_register = text_or (di_register dto) ''legal_regulatory'', is_lifecycle = lifecycleStatus,
          is_applicability = text_or (di_applicability dto) ''pending_review'', is_decision = text_or (di_decision dto) ''pending'',
          is_scope = text_or (di_scope dto) ''core'', is_statusReason = di_statusReason dto, is_domains = domains,
          is_isAmendment = given (di_isAmendment dto) False, is_amendedNumber = di_amendedNumber dto,
          is_amendmentNotes = di_amendmentNotes dto, is_sourceUrl = di_sourceUrl dto, is_attachment = None,
          is_isActive = (lifecycleStatus = ''active''), is_details = new_details dto\<rparr>)"

definition createIssuance ::
  "issuance_env \<Rightarrow> string \<Rightarrow> string \<Rightarrow> string \<Rightarrow> issuance_dto \<Rightarrow> nat option \<Rightarrow> issuance_db \<Rightarrow> issuance result \<times> issuance_db" where
  "createIssuance env num title authority dto user db =
     (case validateArchitectureFields dto of
        Some e \<Rightarrow> (Inl e, db)
      | None \<Rightarrow>
          (case resolveDomains db (di_domainIds dto) [] of
             Inl e \<Rightarrow> (Inl e, db)
           | Inr domains \<Rightarrow>
               (let n = ix_nextId db; i = new_issuance n num title authority dto domains;
                    target = assertAmendmentTarget db None (is_isAmendment i) (is_amendedNumber i);
                    inclusion = inclusion_error (is_lifecycle i) (is_applicability i) (domains \<noteq> []) (\<not> blank (is_sourceUrl i))
                in case first_error [
                     (target \<noteq> None, the target),
                     (is_decision i = ''included'' \<and> inclusion \<noteq> None, the inclusion),
                     (find_number db num \<noteq> None, Conflict (Issue IssuanceNumberExists))] of
                     Some e \<Rightarrow> (Inl e, db)
                   | None \<Rightarrow>
                       (Inr i, log_lifecycle env n None (is_lifecycle i) (given (trimmed (di_statusReason dto)) ''Issuance created'') user
                          (syncPrimaryUrlSource env i (syncLegacyAmendmentRelationship i user
                            (save_issuance i (db\<lparr>ix_nextId := n + 1\<rparr>))))))))"

text \<open>\<open>Object.assign(issuance, catalogData)\<close> and the fields derived after it.\<close>

definition assign_fields :: "issuance_dto \<Rightarrow> issuance \<Rightarrow> issuance" where
  "assign_fields dto i =
     i\<lparr>is_title := given (di_title dto) (is_title i), is_authority := given (di_authority dto) (is_authority i),
       is_register := given (di_register dto) (is_register i), is_lifecycle := given (di_lifecycle dto) (is_lifecycle i),
       is_applicability := given (di_applicability dto) (is_applicability i),
       is_decision := given (di_decision dto) (is_decision i), is_scope := given (di_scope dto) (is_scope i),
       is_statusReason := given_opt (di_statusReason dto) (is_statusReason i),
       is_isAmendment := given (di_isAmendment dto) (is_isAmendment i),
       is_amendedNumber := given_opt (di_amendedNumber dto) (is_amendedNumber i),
       is_amendmentNotes := given_opt (di_amendmentNotes dto) (is_amendmentNotes i),
       is_sourceUrl := given_opt (di_sourceUrl dto) (is_sourceUrl i),
       is_details := set_details (catalogData dto) (is_details i)\<rparr>"

definition next_decision :: "string \<Rightarrow> string \<Rightarrow> string \<Rightarrow> string" where
  "next_decision previousLifecycle nextLifecycle current =
     (if nextLifecycle \<noteq> ''active'' \<and> current = ''included'' then ''excluded''
      else if nextLifecycle = ''active'' \<and> previousLifecycle \<noteq> ''active'' \<and> current = ''excluded'' then ''pending''
      else current)"

definition has_source :: "issuance_db \<Rightarrow> nat \<Rightarrow> bool" where
  "has_source db n \<longleftrightarrow> count_rows (\<lambda>s. so_issuance s = n) (ix_sources db) \<noteq> 0"

definition updated_issuance :: "issuance_dto \<Rightarrow> nat list \<Rightarrow> issuance \<Rightarrow> issuance" where
  "updated_issuance dto domains old =
     (let nextLifecycle = text_or (di_lifecycle dto) (is_lifecycle old);
          i = (assign_fields dto old)\<lparr>is_domains := domains, is_isActive := (nextLifecycle = ''active'')\<rparr>
      in i\<lparr>is_decision := next_decision (is_lifecycle old) nextLifecycle (is_decision i)\<rparr>)"

definition updateIssuance ::
  "issuance_env \<Rightarrow> nat \<Rightarrow> issuance_dto \<Rightarrow> nat option \<Rightarrow> issuance_db \<Rightarrow> issuance result \<times> issuance_db" where
  "updateIssuance env n dto user db =
     (case validateArchitectureFields dto of
        Some e \<Rightarrow> (Inl e, db)
      | None \<Rightarrow>
          (case find_issuance db n of
             None \<Rightarrow> (Inl (NotFound (Issue IssuanceNotFound)), db)
           | Some old \<Rightarrow>
               (let previousLifecycle = is_lifecycle old; nextLifecycle = text_or (di_lifecycle dto) previousLifecycle
                in if nextLifecycle \<noteq> previousLifecycle \<and> blank (di_statusReason dto)
                   then (Inl (BadRequest (Issue StatusReasonRequired)), db)
                   else case (if di_domainIds dto = None then Inr (is_domains old)
                              else resolveDomains db (di_domainIds dto) (is_domains old)) of
                     Inl e \<Rightarrow> (Inl e, db)
                   | Inr domains \<Rightarrow>
                       (let i = updated_issuance dto domains old;
                            target = assertAmendmentTarget db (Some n) (is_isAmendment i) (is_amendedNumber i);
                            inclusion = inclusion_error (is_lifecycle i) (is_applicability i)
                              (list_ex (active_domain db) (is_domains i)) (has_source db n \<or> \<not> blank (is_sourceUrl i));
                            db1 = syncPrimaryUrlSource env i (syncLegacyAmendmentRelationship i user (save_issuance i db))
                        in case first_error [(target \<noteq> None, the target),
                               (is_decision i = ''included'' \<and> inclusion \<noteq> None, the inclusion)] of
                             Some e \<Rightarrow> (Inl e, db)
                           | None \<Rightarrow>
                               (Inr i, if nextLifecycle \<noteq> previousLifecycle
                                       then log_lifecycle env n (Some previousLifecycle) nextLifecycle
                                         (trim (the (di_statusReason dto))) user db1
                                       else db1)))))"

text \<open>\<open>issuanceRepo.delete(id)\<close>, with the rows that refer to it.\<close>

definition erase_issuance :: "nat \<Rightarrow> issuance_db \<Rightarrow> issuance_db" where
  "erase_issuance n db =
     db\<lparr>ix_issuances := filter (\<lambda>i. is_id i \<noteq> n) (ix_issuances db),
        ix_sources := filter (\<lambda>s. so_issuance s \<noteq> n) (ix_sources db),
        ix_relationships := filter (\<lambda>r. rl_source r \<noteq> n \<and> rl_target r \<noteq> n) (ix_relationships db),
        ix_history := filter (\<lambda>h. lh_issuance h \<noteq> n) (ix_history db),
        ix_assessments := filter (\<lambda>a. am_issuance a \<noteq> n) (ix_assessments db),
        ix_recommendations := filter (\<lambda>r. rc_issuance r \<noteq> n) (ix_recommendations db),
        ix_decisions := filter (\<lambda>d. rg_issuance d \<noteq> n) (ix_decisions db),
        ix_docs := (ix_docs db)\<lparr>dc_issuanceLinks := filter (\<lambda>(d, i). i \<noteq> n) (dc_issuanceLinks (ix_docs db))\<rparr>\<rparr>"

definition deleteIssuance :: "issuance_env \<Rightarrow> nat \<Rightarrow> nat option \<Rightarrow> issuance_db \<Rightarrow> unit result \<times> issuance_db" where
  "deleteIssuance env n user db =
     (case find_issuance db n of
        None \<Rightarrow> (Inl (NotFound (Issue IssuanceNotFound)), db)
      | Some i \<Rightarrow>
          if is_lifecycle i = ''draft'' \<and> count_rows (\<lambda>r. rl_source r = n \<or> rl_target r = n) (ix_relationships db) = 0
             \<and> count_rows (\<lambda>a. am_issuance a = n) (ix_assessments db) = 0
          then (Inr (), erase_issuance n db)
          else if is_lifecycle i = ''retired'' then (Inr (), db)
          else (Inr (), log_lifecycle env n (Some (is_lifecycle i)) ''retired'' ''Retired through the Issuances management workflow'' user
                 (save_issuance (i\<lparr>is_lifecycle := ''retired'', is_decision := ''excluded'',
                    is_statusReason := Some ''Retired through the Issuances management workflow'', is_isActive := False\<rparr>) db)))"

text \<open>The requests of the controller: the register decision is not part of them, and applicability only for those who
  review.\<close>

definition isIssuancesReview :: "capability_cache \<Rightarrow> user_role \<Rightarrow> bool" where
  "isIssuancesReview caps = has_capability caps CapIssuancesReview"

definition create_request ::
  "issuance_env \<Rightarrow> user_role \<Rightarrow> string \<Rightarrow> string \<Rightarrow> string \<Rightarrow> issuance_dto \<Rightarrow> nat option \<Rightarrow> issuance_db \<Rightarrow> issuance result \<times> issuance_db" where
  "create_request env role num title authority dto user db =
     createIssuance env num title authority
       (if isIssuancesReview (xe_caps env) role then dto\<lparr>di_decision := Some ''pending''\<rparr>
        else dto\<lparr>di_applicability := Some ''pending_review'', di_decision := Some ''pending''\<rparr>) user db"

definition update_request ::
  "issuance_env \<Rightarrow> user_role \<Rightarrow> nat \<Rightarrow> issuance_dto \<Rightarrow> nat option \<Rightarrow> issuance_db \<Rightarrow> issuance result \<times> issuance_db" where
  "update_request env role n dto user db =
     updateIssuance env n
       (let payload = dto\<lparr>di_decision := None\<rparr>
        in if isIssuancesReview (xe_caps env) role then payload else payload\<lparr>di_applicability := None\<rparr>) user db"

section \<open>Linked documents\<close>

definition set_links :: "(nat \<times> nat) list \<Rightarrow> issuance_db \<Rightarrow> issuance_db" where
  "set_links ls db = db\<lparr>ix_docs := (ix_docs db)\<lparr>dc_issuanceLinks := ls\<rparr>\<rparr>"

definition issuance_linkDocument :: "issuance_env \<Rightarrow> nat \<Rightarrow> nat \<Rightarrow> issuance_db \<Rightarrow> unit result \<times> issuance_db" where
  "issuance_linkDocument env n d db =
     (if \<not> xe_linksTable env then (Inl (BadRequest (Issue LinksUnavailable)), db)
      else if find_issuance db n = None then (Inl (NotFound (Issue IssuanceNotFound)), db)
      else case live_document (ix_docs db) d of
        None \<Rightarrow> (Inl (NotFound (Issue LinkDocumentNotFound)), db)
      | Some doc \<Rightarrow>
          let links = dc_issuanceLinks (ix_docs db)
          in if doc_status doc \<noteq> DOC_READY then (Inl (BadRequest (Issue LinkDocumentNotReady)), db)
             else (Inr (), if (d, n) \<in> set links then db else set_links (links @ [(d, n)]) db))"

definition unlinkDocument :: "issuance_env \<Rightarrow> nat \<Rightarrow> nat \<Rightarrow> issuance_db \<Rightarrow> unit result \<times> issuance_db" where
  "unlinkDocument env n d db =
     (if \<not> xe_linksTable env then (Inl (BadRequest (Issue LinksUnavailable)), db)
      else (Inr (), set_links (filter (\<lambda>l. l \<noteq> (d, n)) (dc_issuanceLinks (ix_docs db))) db))"

section \<open>Attachment\<close>

definition ole_header :: "byte list" where
  "ole_header = [0xD0, 0xCF, 0x11, 0xE0, 0xA1, 0xB1, 0x1A, 0xE1]"

record issuance_file =
  if_name :: string
  if_buffer :: "byte list"

text \<open>The verified type of an attached file.\<close>

definition ensureAllowedAttachment :: "issuance_file option \<Rightarrow> string result" where
  "ensureAllowedAttachment file =
     (case file of None \<Rightarrow> Inl (BadRequest (Issue AttachmentMissing))
      | Some f \<Rightarrow>
          (let name = toLowerCase (if_name f); b = if_buffer f;
               pdf = ends_with ''.pdf'' name \<and> ascii (take 5 b) = ''%PDF-'';
               docx = ends_with ''.docx'' name \<and> 4 \<le> length b \<and> take 2 b = [0x50, 0x4B];
               doc = ends_with ''.doc'' name \<and> take 8 b = ole_header
           in if \<not> (ends_with ''.pdf'' name \<or> ends_with ''.doc'' name \<or> ends_with ''.docx'' name)
              then Inl (BadRequest (Issue AttachmentType))
              else if \<not> pdf \<and> \<not> docx \<and> \<not> doc then Inl (BadRequest (Issue AttachmentContent))
              else Inr (if pdf then ''application/pdf''
                        else if docx then ''application/vnd.openxmlformats-officedocument.wordprocessingml.document''
                        else ''application/msword'')))"

definition truthy_text :: "string option \<Rightarrow> bool" where
  "truthy_text s \<longleftrightarrow> (case s of Some x \<Rightarrow> x \<noteq> [] | None \<Rightarrow> False)"

definition uploadAttachment ::
  "issuance_env \<Rightarrow> nat \<Rightarrow> issuance_file option \<Rightarrow> issuance_db \<Rightarrow> issuance result \<times> issuance_db" where
  "uploadAttachment env n file db =
     (case ensureAllowedAttachment file of
        Inl e \<Rightarrow> (Inl e, db)
      | Inr mime \<Rightarrow>
          (case find_issuance db n of
             None \<Rightarrow> (Inl (NotFound (Issue IssuanceNotFound)), db)
           | Some old \<Rightarrow>
               (let f = the file; sha = xe_sha256 env (if_buffer f);
                    duplicate = List.find (\<lambda>s. so_sha256 s = Some sha) (ix_sources db);
                    i = old\<lparr>is_attachment := Some \<lparr>at_fileName = if_name f, at_mimeType = mime, at_blob = if_buffer f,
                        at_uploadedAt = xe_now env\<rparr>\<rparr>;
                    db1 = save_issuance i db;
                    db2 = (if truthy_text (is_sourceUrl i) then db1 else not_primary (\<lambda>_. True) n db1);
                    s = given duplicate (new_source env n ''uploaded_copy'' (ix_nextId db))
                in if given (map_option (\<lambda>s. so_issuance s \<noteq> n) duplicate) False
                   then (Inl (Conflict (Issue AttachmentElsewhere)), db)
                   else (Inr i, (save_source env (s\<lparr>so_fileName := Some (if_name f), so_mimeType := Some mime,
                          so_fileSize := Some (length (if_buffer f)), so_sha256 := Some sha, so_blob := Some (if_buffer f),
                          so_isPrimary := (\<not> truthy_text (is_sourceUrl i))\<rparr>) db2)
                        \<lparr>ix_nextId := (if duplicate = None then ix_nextId db + 1 else ix_nextId db)\<rparr>))))"

text \<open>Another source takes the place of the primary one when none is left.\<close>

definition promote_source :: "issuance_env \<Rightarrow> nat \<Rightarrow> issuance_db \<Rightarrow> issuance_db" where
  "promote_source env n db =
     (if count_rows (\<lambda>s. so_issuance s = n \<and> so_isPrimary s) (ix_sources db) \<noteq> 0 then db
      else case oldest_by (\<lambda>s. - so_updatedAt s) (filter (\<lambda>s. so_issuance s = n) (ix_sources db)) of
        None \<Rightarrow> db
      | Some s \<Rightarrow>
          let db1 = save_source env (s\<lparr>so_isPrimary := True\<rparr>) db
          in if truthy_text (so_url s)
             then db1\<lparr>ix_issuances := map (\<lambda>i. if is_id i = n then i\<lparr>is_sourceUrl := so_url s\<rparr> else i) (ix_issuances db)\<rparr>
             else db1)"

definition deleteAttachment :: "issuance_env \<Rightarrow> nat \<Rightarrow> issuance_db \<Rightarrow> unit result \<times> issuance_db" where
  "deleteAttachment env n db =
     (case find_issuance db n of
        None \<Rightarrow> (Inl (NotFound (Issue IssuanceNotFound)), db)
      | Some i \<Rightarrow>
          (case is_attachment i of
             None \<Rightarrow> (Inl (NotFound (Issue AttachmentNotFound)), db)
           | Some a \<Rightarrow>
               (let copy = List.find (\<lambda>s. so_issuance s = n \<and> so_type s = ''uploaded_copy''
                         \<and> so_sha256 s = Some (xe_sha256 env (at_blob a))) (ix_sources db);
                    others = count_rows (\<lambda>s. so_issuance s = n \<and> given (map_option (\<lambda>c. so_id s \<noteq> so_id c) copy) True) (ix_sources db);
                    db1 = save_issuance (i\<lparr>is_attachment := None\<rparr>) db;
                    db2 = (case copy of None \<Rightarrow> db1
                           | Some c \<Rightarrow> db1\<lparr>ix_sources := filter (\<lambda>s. so_id s \<noteq> so_id c) (ix_sources db1)\<rparr>)
                in if at_fileName a = [] then (Inl (NotFound (Issue AttachmentNotFound)), db)
                   else if is_decision i = ''included'' \<and> others = 0 then (Inl (BadRequest (Issue LastSource)), db)
                   else (Inr (), promote_source env n db2))))"

definition getAttachment :: "nat \<Rightarrow> issuance_db \<Rightarrow> attachment result" where
  "getAttachment n db =
     (case find_issuance db n of
        None \<Rightarrow> Inl (NotFound (Issue IssuanceNotFound))
      | Some i \<Rightarrow>
          (case is_attachment i of
             None \<Rightarrow> Inl (NotFound (Issue AttachmentNotFound))
           | Some a \<Rightarrow>
               if at_fileName a = [] then Inl (NotFound (Issue AttachmentNotFound))
               else Inr (a\<lparr>at_mimeType := (if at_mimeType a = [] then ''application/octet-stream'' else at_mimeType a)\<rparr>)))"

section \<open>Duplicates\<close>

text \<open>\<open>normalize('NFKC')\<close> on the characters of HOL strings, as far as letters and digits come of it; everything else it
  changes stays a separator.\<close>

definition nfkc_char :: "char \<Rightarrow> string" where
  "nfkc_char c = (let n = of_char c :: nat
     in if n = 170 then ''a'' else if n = 186 then ''o'' else if n = 185 then ''1'' else if n = 178 then ''2''
        else if n = 179 then ''3'' else if n = 188 then ''1/4'' else if n = 189 then ''1/2'' else if n = 190 then ''3/4'' else [c])"

definition is_slug_char :: "char \<Rightarrow> bool" where
  "is_slug_char c \<longleftrightarrow> (let n = of_char c :: nat in 48 \<le> n \<and> n \<le> 57 \<or> 97 \<le> n \<and> n \<le> 122)"

text \<open>\<^verbatim>\<open>replace(/[^a-z0-9]+/g, sep)\<close>; \<open>again\<close> tells that the last character was a separator too.\<close>

fun slug :: "char \<Rightarrow> bool \<Rightarrow> string \<Rightarrow> string" where
  "slug sep again [] = []"
| "slug sep again (c # cs) =
     (if is_slug_char c then c # slug sep False cs else if again then slug sep True cs else sep # slug sep True cs)"

definition normalizeComparable :: "string \<Rightarrow> string" where
  "normalizeComparable s = trim (slug (CHR '' '') False (toLowerCase (concat (map nfkc_char s))))"

record duplicate_query =
  dq_number :: "string option"
  dq_title :: "string option"
  dq_authority :: "string option"
  dq_url :: "string option"

record duplicate_candidate =
  dc_issuance :: nat
  dc_sameNumber :: bool
  dc_sameUrl :: bool
  dc_sameTitle :: bool
  dc_blocking :: bool

definition comparable_url :: "string option \<Rightarrow> string" where
  "comparable_url s = drop_slash (toLowerCase (trim (or_empty s)))"

definition duplicate_of :: "duplicate_query \<Rightarrow> issuance \<Rightarrow> duplicate_candidate option" where
  "duplicate_of q i =
     (let num = normalizeComparable (or_empty (dq_number q)); title = normalizeComparable (or_empty (dq_title q));
          authority = normalizeComparable (or_empty (dq_authority q)); url = comparable_url (dq_url q);
          sameNumber = (num \<noteq> [] \<and> normalizeComparable (is_number i) = num);
          sameUrl = (url \<noteq> [] \<and> comparable_url (is_sourceUrl i) = url);
          sameTitle = (title \<noteq> [] \<and> normalizeComparable (is_title i) = title
            \<and> (authority = [] \<or> normalizeComparable (is_authority i) = authority))
      in if sameNumber \<or> sameUrl \<or> sameTitle
         then Some \<lparr>dc_issuance = is_id i, dc_sameNumber = sameNumber, dc_sameUrl = sameUrl, dc_sameTitle = sameTitle,
                dc_blocking = (sameNumber \<or> sameTitle)\<rparr>
         else None)"

definition findDuplicateCandidates :: "duplicate_query \<Rightarrow> issuance_db \<Rightarrow> duplicate_candidate list" where
  "findDuplicateCandidates q db = List.map_filter (duplicate_of q) (ix_issuances db)"

section \<open>Domains\<close>

text \<open>\<^verbatim>\<open>replace(/^_|_$/g, '')\<close>.\<close>

definition strip_underscores :: "string \<Rightarrow> string" where
  "strip_underscores s =
     (let t = (if take 1 s = ''_'' then drop 1 s else s) in if t \<noteq> [] \<and> last t = CHR ''_'' then butlast t else t)"

definition domain_code :: "string \<Rightarrow> string" where
  "domain_code s = strip_underscores (slug (CHR ''_'') False (toLowerCase (trim s)))"

definition createDomain ::
  "string \<Rightarrow> string option \<Rightarrow> string option \<Rightarrow> int option \<Rightarrow> issuance_db \<Rightarrow> comp_domain result \<times> issuance_db" where
  "createDomain rawCode name description sortOrder db =
     (let code = domain_code rawCode; n = ix_nextId db; label = trim (or_empty name);
          d = \<lparr>dm_id = n, dm_code = code, dm_name = label, dm_description = trimmed description, dm_isActive = True,
            dm_sortOrder = given sortOrder 0\<rparr>
      in if code = [] \<or> label = [] then (Inl (BadRequest (Issue DomainFields)), db)
         else if list_ex (\<lambda>e. dm_code e = code \<or> dm_name e = label) (ix_domains db) then (Inl (Conflict (Issue DomainExists)), db)
         else (Inr d, db\<lparr>ix_domains := ix_domains db @ [d], ix_nextId := n + 1\<rparr>))"

text \<open>The included issuances that have no other active domain.\<close>

definition depends_on_domain :: "issuance_db \<Rightarrow> nat \<Rightarrow> issuance \<Rightarrow> bool" where
  "depends_on_domain db n i \<longleftrightarrow> n \<in> set (is_domains i) \<and> is_decision i = ''included''
     \<and> \<not> list_ex (\<lambda>d. d \<noteq> n \<and> active_domain db d) (is_domains i)"

record domain_update =
  du_name :: "string option"
  du_description :: "string option"
  du_sortOrder :: "int option"
  du_isActive :: "bool option"

definition updateDomain :: "nat \<Rightarrow> domain_update \<Rightarrow> issuance_db \<Rightarrow> comp_domain result \<times> issuance_db" where
  "updateDomain n dto db =
     (case find_row dm_id (ix_domains db) n of
        None \<Rightarrow> (Inl (NotFound (Issue DomainNotFound)), db)
      | Some d \<Rightarrow>
          (let d' = d\<lparr>dm_name := given (map_option trim (du_name dto)) (dm_name d),
                 dm_description := (if du_description dto = None then dm_description d else trimmed (du_description dto)),
                 dm_sortOrder := given (du_sortOrder dto) (dm_sortOrder d), dm_isActive := given (du_isActive dto) (dm_isActive d)\<rparr>
           in if du_isActive dto = Some False \<and> dm_isActive d \<and> count_rows (depends_on_domain db n) (ix_issuances db) \<noteq> 0
              then (Inl (BadRequest (Issue DomainInUse)), db)
              else (Inr d', db\<lparr>ix_domains := save_row dm_id (ix_domains db) d'\<rparr>)))"

section \<open>Sources\<close>

record source_dto =
  sd_type :: string
  sd_url :: "string option"
  sd_organization :: "string option"
  sd_externalId :: "string option"
  sd_isPrimary :: "bool option"

definition set_source_url :: "nat \<Rightarrow> string \<Rightarrow> issuance_db \<Rightarrow> issuance_db" where
  "set_source_url n url db =
     db\<lparr>ix_issuances := map (\<lambda>i. if is_id i = n then i\<lparr>is_sourceUrl := Some url\<rparr> else i) (ix_issuances db)\<rparr>"

definition addSource ::
  "issuance_env \<Rightarrow> nat \<Rightarrow> source_dto \<Rightarrow> nat option \<Rightarrow> issuance_db \<Rightarrow> issuance_source result \<times> issuance_db" where
  "addSource env n dto user db =
     (let url = drop_slash (trim (or_empty (sd_url dto)));
          primary = (sd_isPrimary dto = Some True \<or> \<not> list_ex (\<lambda>s. so_issuance s = n \<and> so_isPrimary s) (ix_sources db));
          s = (new_source env n (sd_type dto) (ix_nextId db))\<lparr>so_url := Some url, so_organization := trimmed (sd_organization dto),
            so_externalId := trimmed (sd_externalId dto), so_isPrimary := primary, so_createdBy := actor_id user\<rparr>;
          db1 = (if primary then not_primary (\<lambda>_. True) n db else db);
          db2 = (save_source env s db1)\<lparr>ix_nextId := ix_nextId db + 1\<rparr>
      in case first_error [
           (find_issuance db n = None, NotFound (Issue IssuanceNotFound)),
           (not_allowed (Some (sd_type dto)) SOURCE_TYPES, BadRequest (Issue SourceTypeInvalid)),
           (blank (sd_url dto), BadRequest (Issue SourceUrlRequired)),
           (source_with_url db n url \<noteq> None, Conflict (Issue SourceLinked))] of
           Some e \<Rightarrow> (Inl e, db)
         | None \<Rightarrow> (Inr s, if primary then set_source_url n url db2 else db2))"

definition verifySource ::
  "issuance_env \<Rightarrow> nat \<Rightarrow> nat \<Rightarrow> nat option \<Rightarrow> issuance_db \<Rightarrow> issuance_source result \<times> issuance_db" where
  "verifySource env n k user db =
     (if find_issuance db n = None then (Inl (NotFound (Issue IssuanceNotFound)), db)
      else case List.find (\<lambda>s. so_id s = k \<and> so_issuance s = n) (ix_sources db) of
        None \<Rightarrow> (Inl (NotFound (Issue SourceNotFound)), db)
      | Some s \<Rightarrow>
          let s' = s\<lparr>so_verified := Some (xe_now env, actor_id user)\<rparr> in (Inr s', save_source env s' db))"

section \<open>Relationships\<close>

definition set_amendment :: "nat \<Rightarrow> bool \<Rightarrow> string option \<Rightarrow> string option \<Rightarrow> issuance_db \<Rightarrow> issuance_db" where
  "set_amendment n amends num notes db =
     db\<lparr>ix_issuances := map (\<lambda>i. if is_id i = n then i\<lparr>is_isAmendment := amends, is_amendedNumber := num, is_amendmentNotes := notes\<rparr>
        else i) (ix_issuances db)\<rparr>"

definition addRelationship ::
  "nat \<Rightarrow> nat \<Rightarrow> string \<Rightarrow> string option \<Rightarrow> nat option \<Rightarrow> issuance_db \<Rightarrow> issuance_relationship result \<times> issuance_db" where
  "addRelationship n t ty notes user db =
     (let r = \<lparr>rl_id = ix_nextId db, rl_source = n, rl_target = t, rl_type = ty, rl_notes = trimmed notes, rl_createdBy = actor_id user\<rparr>;
          db1 = db\<lparr>ix_relationships := ix_relationships db @ [r], ix_nextId := ix_nextId db + 1\<rparr>
      in case first_error [
           (n = t, BadRequest (Issue RelatedToItself)),
           (not_allowed (Some ty) RELATIONSHIP_TYPES, BadRequest (Issue RelationshipTypeInvalid)),
           (find_issuance db n = None \<or> find_issuance db t = None, NotFound (Issue IssuanceNotFound)),
           (ty = ''amends'' \<and> list_ex (\<lambda>q. rl_target q \<noteq> t) (amends_of db n), Conflict (Issue AlreadyAmends)),
           (list_ex (\<lambda>q. rl_source q = n \<and> rl_target q = t \<and> rl_type q = ty) (ix_relationships db), Conflict (Issue RelationshipExists))] of
           Some e \<Rightarrow> (Inl e, db)
         | None \<Rightarrow>
             (Inr r, if ty = ''amends'' then set_amendment n True (map_option is_number (find_issuance db t)) (trimmed notes) db1 else db1))"

definition removeRelationship :: "nat \<Rightarrow> nat \<Rightarrow> issuance_db \<Rightarrow> unit result \<times> issuance_db" where
  "removeRelationship n k db =
     (case List.find (\<lambda>r. rl_id r = k \<and> rl_source r = n) (ix_relationships db) of
        None \<Rightarrow> (Inl (NotFound (Issue RelationshipNotFound)), db)
      | Some r \<Rightarrow>
          let db1 = db\<lparr>ix_relationships := filter (\<lambda>q. rl_id q \<noteq> k) (ix_relationships db)\<rparr>
          in (Inr (), if rl_type r = ''amends'' then set_amendment n False None None db1 else db1))"

section \<open>Assessments\<close>

record assessment_dto =
  ad_year :: int
  ad_quarter :: "int option"
  ad_status :: string
  ad_evidence :: "string option"
  ad_gap :: "string option"
  ad_readiness :: "string option"

definition saveAssessment ::
  "issuance_env \<Rightarrow> nat \<Rightarrow> assessment_dto \<Rightarrow> nat option \<Rightarrow> issuance_db \<Rightarrow> issuance_assessment result \<times> issuance_db" where
  "saveAssessment env n dto user db =
     (case first_error [
        (find_issuance db n = None, NotFound (Issue IssuanceNotFound)),
        (ad_year dto < 2000 \<or> 2200 < ad_year dto, BadRequest (Issue AssessmentYear)),
        (given (map_option (\<lambda>q. q < 1 \<or> 4 < q) (ad_quarter dto)) False, BadRequest (Issue AssessmentQuarter)),
        (not_allowed (Some (ad_status dto)) ASSESSMENT_STATUSES, BadRequest (Issue AssessmentStatusInvalid)),
        (not_allowed (ad_readiness dto) READINESS_STATUSES, BadRequest (Issue ReadinessInvalid))] of
        Some e \<Rightarrow> (Inl e, db)
      | None \<Rightarrow>
          (let found = List.find (\<lambda>a. am_issuance a = n \<and> am_year a = ad_year dto \<and> am_quarter a = ad_quarter dto) (ix_assessments db);
               a = \<lparr>am_id = given (map_option am_id found) (ix_nextId db), am_issuance = n, am_year = ad_year dto, am_quarter = ad_quarter dto,
                 am_status = text_or (Some (ad_status dto)) ''not_assessed'', am_evidenceSummary = trimmed (ad_evidence dto),
                 am_gapSummary = trimmed (ad_gap dto), am_readiness = trimmed (ad_readiness dto), am_assessedBy = actor_id user,
                 am_assessedAt = xe_now env\<rparr>
           in (Inr a, db\<lparr>ix_assessments := save_row am_id (ix_assessments db) a,
                        ix_nextId := (if found = None then ix_nextId db + 1 else ix_nextId db)\<rparr>)))"

definition assessment_of :: "issuance_db \<Rightarrow> nat \<Rightarrow> nat \<Rightarrow> issuance_assessment option" where
  "assessment_of db n a = List.find (\<lambda>x. am_id x = a \<and> am_issuance x = n) (ix_assessments db)"

record evidence_dto =
  ed_label :: "string option"
  ed_url :: "string option"
  ed_document :: "nat option"
  ed_version :: "nat option"

definition addAssessmentEvidence ::
  "nat \<Rightarrow> nat \<Rightarrow> evidence_dto \<Rightarrow> nat option \<Rightarrow> issuance_db \<Rightarrow> assessment_evidence result \<times> issuance_db" where
  "addAssessmentEvidence n a dto user db =
     (case first_error [
        (assessment_of db n a = None, NotFound (Issue AssessmentNotFound)),
        (blank (ed_label dto), BadRequest (Issue EvidenceLabel)),
        (blank (ed_url dto) \<and> ed_document dto = None, BadRequest (Issue EvidenceTarget)),
        (given (map_option (\<lambda>d. live_document (ix_docs db) d = None) (ed_document dto)) False, BadRequest (Issue EvidenceDocument)),
        (ed_document dto \<noteq> None \<and> ed_version dto \<noteq> None
           \<and> \<not> list_ex (\<lambda>v. ver_id v = the (ed_version dto) \<and> ver_document v = the (ed_document dto)) (dc_versions (ix_docs db)),
         BadRequest (Issue EvidenceVersion)),
        (ed_document dto = None \<and> ed_version dto \<noteq> None, BadRequest (Issue EvidenceVersionAlone))] of
        Some e \<Rightarrow> (Inl e, db)
      | None \<Rightarrow>
          (let e = \<lparr>ie_id = ix_nextId db, ie_assessment = a, ie_label = trim (or_empty (ed_label dto)), ie_url = trimmed (ed_url dto),
                 ie_document = ed_document dto, ie_version = ed_version dto, ie_createdBy = actor_id user\<rparr>
           in (Inr e, db\<lparr>ix_evidence := ix_evidence db @ [e], ix_nextId := ix_nextId db + 1\<rparr>)))"

definition removeAssessmentEvidence :: "nat \<Rightarrow> nat \<Rightarrow> nat \<Rightarrow> issuance_db \<Rightarrow> unit result \<times> issuance_db" where
  "removeAssessmentEvidence n a k db =
     (if assessment_of db n a = None then (Inl (NotFound (Issue AssessmentNotFound)), db)
      else if \<not> list_ex (\<lambda>e. ie_id e = k \<and> ie_assessment e = a) (ix_evidence db) then (Inl (NotFound (Issue EvidenceNotFound)), db)
      else (Inr (), db\<lparr>ix_evidence := filter (\<lambda>e. ie_id e \<noteq> k) (ix_evidence db)\<rparr>))"

definition listAssessmentEvidence :: "nat \<Rightarrow> nat \<Rightarrow> issuance_db \<Rightarrow> assessment_evidence list result" where
  "listAssessmentEvidence n a db =
     (if assessment_of db n a = None then Inl (NotFound (Issue AssessmentNotFound))
      else Inr (rev (filter (\<lambda>e. ie_assessment e = a) (ix_evidence db))))"

section \<open>Corrective actions\<close>

definition listRemediationActions :: "nat \<Rightarrow> nat \<Rightarrow> issuance_db \<Rightarrow> remediation_action list result" where
  "listRemediationActions n a db =
     (if assessment_of db n a = None then Inl (NotFound (Issue AssessmentNotFound))
      else Inr (filter (\<lambda>x. ra_assessment x = a) (ix_actions db)))"

record action_dto =
  ac_action :: "string option"
  ac_owner :: "string option"
  ac_targetDate :: "string option"
  ac_status :: "string option"

definition addRemediationAction ::
  "issuance_env \<Rightarrow> nat \<Rightarrow> nat \<Rightarrow> action_dto \<Rightarrow> issuance_db \<Rightarrow> remediation_action result \<times> issuance_db" where
  "addRemediationAction env n a dto db =
     (let status = text_or (ac_status dto) ''open'';
          x = \<lparr>ra_id = ix_nextId db, ra_assessment = a, ra_action = trim (or_empty (ac_action dto)), ra_owner = trimmed (ac_owner dto),
            ra_targetDate = nonempty_text (ac_targetDate dto), ra_status = status,
            ra_completedAt = (if status = ''completed'' then Some (xe_now env) else None)\<rparr>
      in case first_error [
           (assessment_of db n a = None, NotFound (Issue AssessmentNotFound)),
           (blank (ac_action dto), BadRequest (Issue ActionRequired)),
           (not_allowed (Some status) REMEDIATION_STATUSES, BadRequest (Issue ActionStatusInvalid))] of
           Some e \<Rightarrow> (Inl e, db)
         | None \<Rightarrow> (Inr x, db\<lparr>ix_actions := ix_actions db @ [x], ix_nextId := ix_nextId db + 1\<rparr>))"

text \<open>In an update an empty target date clears the column.\<close>

definition updated_action :: "issuance_env \<Rightarrow> action_dto \<Rightarrow> remediation_action \<Rightarrow> remediation_action" where
  "updated_action env dto x =
     x\<lparr>ra_action := given (map_option trim (ac_action dto)) (ra_action x),
       ra_owner := (if ac_owner dto = None then ra_owner x else trimmed (ac_owner dto)),
       ra_targetDate := (if ac_targetDate dto = None then ra_targetDate x else nonempty_text (ac_targetDate dto)),
       ra_status := given (ac_status dto) (ra_status x),
       ra_completedAt := (if ac_status dto = None then ra_completedAt x
         else if ac_status dto = Some ''completed'' then Some (given (ra_completedAt x) (xe_now env)) else None)\<rparr>"

definition updateRemediationAction ::
  "issuance_env \<Rightarrow> nat \<Rightarrow> nat \<Rightarrow> nat \<Rightarrow> action_dto \<Rightarrow> issuance_db \<Rightarrow> remediation_action result \<times> issuance_db" where
  "updateRemediationAction env n a k dto db =
     (if assessment_of db n a = None then (Inl (NotFound (Issue AssessmentNotFound)), db)
      else case List.find (\<lambda>x. ra_id x = k \<and> ra_assessment x = a) (ix_actions db) of
        None \<Rightarrow> (Inl (NotFound (Issue ActionNotFound)), db)
      | Some x \<Rightarrow>
          (case first_error [
             (ac_action dto \<noteq> None \<and> blank (ac_action dto), BadRequest (Issue ActionRequired)),
             (not_allowed (ac_status dto) REMEDIATION_STATUSES, BadRequest (Issue ActionStatusInvalid))] of
             Some e \<Rightarrow> (Inl e, db)
           | None \<Rightarrow> (Inr (updated_action env dto x), db\<lparr>ix_actions := save_row ra_id (ix_actions db) (updated_action env dto x)\<rparr>)))"

definition removeRemediationAction :: "nat \<Rightarrow> nat \<Rightarrow> nat \<Rightarrow> issuance_db \<Rightarrow> unit result \<times> issuance_db" where
  "removeRemediationAction n a k db =
     (if assessment_of db n a = None then (Inl (NotFound (Issue AssessmentNotFound)), db)
      else if \<not> list_ex (\<lambda>x. ra_id x = k \<and> ra_assessment x = a) (ix_actions db) then (Inl (NotFound (Issue ActionNotFound)), db)
      else (Inr (), db\<lparr>ix_actions := filter (\<lambda>x. ra_id x \<noteq> k) (ix_actions db)\<rparr>))"

section \<open>The register decision\<close>

definition settle_recommendations ::
  "issuance_env \<Rightarrow> nat \<Rightarrow> bool \<Rightarrow> string \<Rightarrow> nat option \<Rightarrow> issuance_db \<Rightarrow> issuance_db" where
  "settle_recommendations env n include reason user db =
     db\<lparr>ix_recommendations := map (\<lambda>r. if rc_issuance r = n \<and> rc_status r = ''pending''
          then r\<lparr>rc_status := (if include then ''accepted'' else ''excluded''), rc_decidedBy := actor_id user,
                 rc_decidedAt := Some (xe_now env), rc_note := Some reason\<rparr> else r) (ix_recommendations db)\<rparr>"

definition decideRegisterInclusion ::
  "issuance_env \<Rightarrow> nat \<Rightarrow> bool \<Rightarrow> string option \<Rightarrow> string option \<Rightarrow> nat list option \<Rightarrow> nat option \<Rightarrow> issuance_db
     \<Rightarrow> issuance result \<times> issuance_db" where
  "decideRegisterInclusion env n include reason applicability domainIds user db =
     (case find_issuance db n of
        None \<Rightarrow> (Inl (NotFound (Issue IssuanceNotFound)), db)
      | Some old \<Rightarrow>
          if blank reason then (Inl (BadRequest (Issue DecisionReasonRequired)), db)
          else if not_allowed applicability APPLICABILITY_STATUSES then (Inl (BadRequest (Issue ApplicabilityInvalid)), db)
          else case (if domainIds = None then Inr (is_domains old) else resolveDomains db domainIds (is_domains old)) of
            Inl e \<Rightarrow> (Inl e, db)
          | Inr domains \<Rightarrow>
              (let text = trim (or_empty reason); choice = (if include then ''included'' else ''excluded'');
                   i = old\<lparr>is_applicability := text_or applicability (is_applicability old), is_domains := domains\<rparr>;
                   failure = inclusion_error (is_lifecycle i) (is_applicability i) (list_ex (active_domain db) domains)
                     (has_source db n \<or> truthy_text (is_sourceUrl i));
                   i' = i\<lparr>is_decision := choice, is_statusReason := Some text\<rparr>;
                   db1 = save_issuance i' db;
                   db2 = db1\<lparr>ix_decisions := ix_decisions db @ [\<lparr>rg_issuance = n, rg_decision = choice,
                     rg_applicability = is_applicability i', rg_reason = text, rg_decidedBy = actor_id user\<rparr>]\<rparr>
               in if include \<and> failure \<noteq> None then (Inl (the failure), db)
                  else (Inr i', settle_recommendations env n include text user db2)))"

end
