(* ===== verification/IssuanceFacts.thy ===== *)
theory IssuanceFacts
  imports Issuances
begin

text \<open>
  What holds of the register of issuances in every state: the ids, the conditions of inclusion, the amendments, the
  lifecycle history, the sources and the assessments (\<open>issuance_ok\<close>); how the two synchronisations that follow a saved
  issuance keep it; and that creating and updating an issuance keep it.
\<close>

section \<open>Ids\<close>

definition ids_ok :: "issuance_db \<Rightarrow> bool" where
  "ids_ok db \<longleftrightarrow> fresh_table is_id (ix_issuances db) (ix_nextId db) \<and> fresh_table dm_id (ix_domains db) (ix_nextId db)
     \<and> fresh_table so_id (ix_sources db) (ix_nextId db) \<and> fresh_table rl_id (ix_relationships db) (ix_nextId db)
     \<and> fresh_table am_id (ix_assessments db) (ix_nextId db) \<and> fresh_table ie_id (ix_evidence db) (ix_nextId db)
     \<and> fresh_table ra_id (ix_actions db) (ix_nextId db) \<and> table_ok is_number (ix_issuances db)"

lemma ids_okD:
  assumes "ids_ok db"
  shows "fresh_table is_id (ix_issuances db) (ix_nextId db)" "fresh_table dm_id (ix_domains db) (ix_nextId db)"
    "fresh_table so_id (ix_sources db) (ix_nextId db)" "fresh_table rl_id (ix_relationships db) (ix_nextId db)"
    "fresh_table am_id (ix_assessments db) (ix_nextId db)" "fresh_table ie_id (ix_evidence db) (ix_nextId db)"
    "fresh_table ra_id (ix_actions db) (ix_nextId db)" "table_ok is_number (ix_issuances db)"
  using assms by (simp_all add: ids_ok_def)

lemma find_issuance_Some: "find_issuance db n = Some i \<Longrightarrow> i \<in> set (ix_issuances db) \<and> is_id i = n"
  unfolding find_issuance_def by (rule find_row_Some)

section \<open>Inclusion in the register\<close>

definition included_ok :: "issuance_db \<Rightarrow> issuance \<Rightarrow> bool" where
  "included_ok db i \<longleftrightarrow> is_lifecycle i = ''active'' \<and> is_applicability i \<in> {''applicable'', ''partially_applicable''}
     \<and> list_ex (active_domain db) (is_domains i) \<and> (has_source db (is_id i) \<or> truthy_text (is_sourceUrl i))"

definition register_row_ok :: "issuance_db \<Rightarrow> issuance \<Rightarrow> bool" where
  "register_row_ok db i \<longleftrightarrow> (is_decision i = ''included'' \<longrightarrow> included_ok db i)
     \<and> (is_lifecycle i = ''active'' \<longrightarrow> is_isActive i) \<and> (is_isActive i \<longrightarrow> is_lifecycle i = ''active'' \<or> is_lifecycle i = [])"

definition register_ok :: "issuance_db \<Rightarrow> bool" where
  "register_ok db \<longleftrightarrow> (\<forall>i \<in> set (ix_issuances db). register_row_ok db i)"

text \<open>A state that offers at least the same active domains and sources.\<close>

definition supports :: "issuance_db \<Rightarrow> issuance_db \<Rightarrow> bool" where
  "supports db db' \<longleftrightarrow> (\<forall>d. active_domain db d \<longrightarrow> active_domain db' d) \<and> (\<forall>n. has_source db n \<longrightarrow> has_source db' n)"

lemma register_row_mono: "register_row_ok db i \<Longrightarrow> supports db db' \<Longrightarrow> register_row_ok db' i"
  by (auto simp: register_row_ok_def included_ok_def supports_def list_ex_iff)

lemma register_okI:
  assumes "register_ok db" "supports db db'"
    and "\<And>i. i \<in> set (ix_issuances db') \<Longrightarrow> i \<in> set (ix_issuances db) \<or> register_row_ok db' i"
  shows "register_ok db'"
  using assms by (auto simp: register_ok_def intro: register_row_mono)

lemma has_source_iff: "has_source db n \<longleftrightarrow> n \<in> so_issuance ` set (ix_sources db)"
  by (auto simp: has_source_def count_rows_def filter_empty_conv)

lemma supports_same:
  "ix_domains db' = ix_domains db \<Longrightarrow> so_issuance ` set (ix_sources db) \<subseteq> so_issuance ` set (ix_sources db') \<Longrightarrow> supports db db'"
  by (auto simp: supports_def has_source_iff active_domain_def)

lemma supports_refl [simp]: "supports db db"
  by (simp add: supports_def)

lemma supports_trans: "supports a b \<Longrightarrow> supports b c \<Longrightarrow> supports a c"
  by (auto simp: supports_def)

section \<open>Amendments\<close>

definition rel_key :: "issuance_relationship \<Rightarrow> nat \<times> nat \<times> string" where
  "rel_key r = (rl_source r, rl_target r, rl_type r)"

definition rel_keys :: "issuance_db \<Rightarrow> (nat \<times> nat \<times> string) list" where
  "rel_keys db = map rel_key (ix_relationships db)"

text \<open>The issuances as far as relationships concern them.\<close>

definition amend_shape :: "issuance \<Rightarrow> nat \<times> string \<times> bool \<times> string option" where
  "amend_shape i = (is_id i, is_number i, is_isAmendment i, is_amendedNumber i)"

definition amend_shapes :: "issuance_db \<Rightarrow> (nat \<times> string \<times> bool \<times> string option) set" where
  "amend_shapes db = amend_shape ` set (ix_issuances db)"

definition relations_ok :: "nat set \<Rightarrow> (nat \<times> nat \<times> string) list \<Rightarrow> bool" where
  "relations_ok ids ks \<longleftrightarrow> distinct ks \<and> (\<forall>(s, t, ty) \<in> set ks. s \<noteq> t \<and> s \<in> ids \<and> t \<in> ids)"

definition amend_targets :: "(nat \<times> nat \<times> string) list \<Rightarrow> nat \<Rightarrow> nat set" where
  "amend_targets ks n = {t. (n, t, ''amends'') \<in> set ks}"

fun amend_row_ok :: "(nat \<times> string \<times> bool \<times> string option) set \<Rightarrow> (nat \<times> nat \<times> string) list
    \<Rightarrow> nat \<times> string \<times> bool \<times> string option \<Rightarrow> bool" where
  "amend_row_ok S ks (n, s, amends, num) =
     (if amends then \<exists>t tn a b. (t, tn, a, b) \<in> S \<and> (num = Some tn \<or> trimmed num = Some tn) \<and> amend_targets ks n = {t}
      else amend_targets ks n = {})"

definition amends_ok :: "(nat \<times> string \<times> bool \<times> string option) set \<Rightarrow> (nat \<times> nat \<times> string) list \<Rightarrow> bool" where
  "amends_ok S ks \<longleftrightarrow> relations_ok (fst ` S) ks \<and> (\<forall>x \<in> S. amend_row_ok S ks x)"

lemma amends_replace:
  assumes ok: "amends_ok S ks" and rel: "relations_ok (fst ` S') ks'"
    and names: "\<And>t tn a b. (t, tn, a, b) \<in> S \<Longrightarrow> \<exists>a b. (t, tn, a, b) \<in> S'"
    and others: "\<And>x. x \<in> S' \<Longrightarrow> fst x \<noteq> n \<Longrightarrow> x \<in> S"
    and targets: "\<And>m. m \<noteq> n \<Longrightarrow> amend_targets ks' m = amend_targets ks m"
    and row: "\<And>x. x \<in> S' \<Longrightarrow> fst x = n \<Longrightarrow> amend_row_ok S' ks' x"
  shows "amends_ok S' ks'"
proof -
  have "amend_row_ok S' ks' x" if x: "x \<in> S'" for x
  proof (cases "fst x = n")
    case False
    obtain m s am num where eq: "x = (m, s, am, num)" by (cases x)
    with False others [OF x] ok have "amend_row_ok S ks (m, s, am, num)" "m \<noteq> n" by (auto simp: amends_ok_def)
    with names targets [of m] show ?thesis unfolding eq by (fastforce split: if_splits)
  qed (use row x in blast)
  with rel show ?thesis by (simp add: amends_ok_def)
qed

text \<open>The relationships after \<open>syncLegacyAmendmentRelationship\<close>.\<close>

definition synced_keys :: "nat \<Rightarrow> nat option \<Rightarrow> (nat \<times> nat \<times> string) list \<Rightarrow> (nat \<times> nat \<times> string) list" where
  "synced_keys n t ks =
     (let ks' = filter (\<lambda>(s, u, ty). \<not> (s = n \<and> ty = ''amends'') \<or> t = Some u) ks
      in case t of None \<Rightarrow> ks' | Some t \<Rightarrow> if (n, t, ''amends'') \<in> set ks then ks' else ks' @ [(n, t, ''amends'')])"

lemma synced_targets:
  "amend_targets (synced_keys n t ks) n = set_option t"
  "m \<noteq> n \<Longrightarrow> amend_targets (synced_keys n t ks) m = amend_targets ks m"
  by (auto simp: synced_keys_def amend_targets_def Let_def split: option.split)

lemma synced_relations_ok:
  assumes "relations_ok ids ks" "t \<noteq> Some n" "n \<in> ids" "set_option t \<subseteq> ids"
  shows "relations_ok ids (synced_keys n t ks)"
  using assms by (auto simp: synced_keys_def relations_ok_def Let_def split: option.split)

lemma syncLegacyAmendmentRelationship_frame [simp]:
  "ix_issuances (syncLegacyAmendmentRelationship i user db) = ix_issuances db"
  "ix_domains (syncLegacyAmendmentRelationship i user db) = ix_domains db"
  "ix_sources (syncLegacyAmendmentRelationship i user db) = ix_sources db"
  "ix_history (syncLegacyAmendmentRelationship i user db) = ix_history db"
  "ix_assessments (syncLegacyAmendmentRelationship i user db) = ix_assessments db"
  "ix_evidence (syncLegacyAmendmentRelationship i user db) = ix_evidence db"
  "ix_actions (syncLegacyAmendmentRelationship i user db) = ix_actions db"
  by (simp_all add: syncLegacyAmendmentRelationship_def Let_def split: option.split)

lemma amends_of_find:
  "(List.find (\<lambda>r. rl_target r = t) (amends_of db n) = None) = ((n, t, ''amends'') \<notin> set (rel_keys db))"
  by (auto simp: find_None_iff amends_of_def rel_keys_def rel_key_def)

lemma without_amends_keys:
  "map rel_key (without_amends n t rs) = filter (\<lambda>(s, u, ty). \<not> (s = n \<and> ty = ''amends'') \<or> t = Some u) (map rel_key rs)"
  by (induction rs) (auto simp: without_amends_def rel_key_def)

lemma without_amends_fresh: "fresh_table rl_id rs n \<Longrightarrow> fresh_table rl_id (without_amends m t rs) n"
  unfolding without_amends_def by (rule fresh_filter)

lemma syncLegacyAmendmentRelationship_keys:
  assumes fr: "fresh_table rl_id (ix_relationships db) (ix_nextId db)"
    and t: "if is_isAmendment i \<and> trimmed (is_amendedNumber i) \<noteq> None
        then find_number db (the (trimmed (is_amendedNumber i))) = Some u \<and> is_id u \<noteq> is_id i \<and> t = Some (is_id u) else t = None"
  shows "rel_keys (syncLegacyAmendmentRelationship i user db) = synced_keys (is_id i) t (rel_keys db)
    \<and> fresh_table rl_id (ix_relationships (syncLegacyAmendmentRelationship i user db)) (ix_nextId (syncLegacyAmendmentRelationship i user db))
    \<and> ix_nextId db \<le> ix_nextId (syncLegacyAmendmentRelationship i user db)"
proof (cases "is_isAmendment i \<and> trimmed (is_amendedNumber i) \<noteq> None")
  case False
  then have "syncLegacyAmendmentRelationship i user db = db\<lparr>ix_relationships := without_amends (is_id i) None (ix_relationships db)\<rparr>"
    "t = None" using t by (auto simp: syncLegacyAmendmentRelationship_def)
  then show ?thesis using fr by (simp add: rel_keys_def synced_keys_def without_amends_keys without_amends_fresh)
next
  case True
  with t have u: "find_number db (the (trimmed (is_amendedNumber i))) = Some u" "is_id u \<noteq> is_id i" "t = Some (is_id u)" by simp_all
  define rs where "rs = without_amends (is_id i) (Some (is_id u)) (ix_relationships db)"
  have keys: "map rel_key rs = filter (\<lambda>(s, u, ty). \<not> (s = is_id i \<and> ty = ''amends'') \<or> t = Some u) (rel_keys db)"
    unfolding rs_def without_amends_keys rel_keys_def u(3) ..
  have frs: "fresh_table rl_id rs (ix_nextId db)" unfolding rs_def by (rule without_amends_fresh [OF fr])
  show ?thesis
  proof (cases "List.find (\<lambda>r. rl_target r = is_id u) (amends_of db (is_id i))")
    case None
    define r where "r = \<lparr>rl_id = ix_nextId db, rl_source = is_id i, rl_target = is_id u,
      rl_type = ''amends'', rl_notes = nonempty_text (is_amendmentNotes i), rl_createdBy = actor_id user\<rparr>"
    have "syncLegacyAmendmentRelationship i user db = db\<lparr>ix_relationships := rs @ [r], ix_nextId := ix_nextId db + 1\<rparr>"
      using True u None by (auto simp: syncLegacyAmendmentRelationship_def Let_def rs_def r_def)
    moreover have "(is_id i, is_id u, ''amends'') \<notin> set (rel_keys db)" using None by (simp add: amends_of_find)
    moreover have "rel_key r = (is_id i, is_id u, ''amends'')" "rl_id r = ix_nextId db" by (simp_all add: r_def rel_key_def)
    ultimately show ?thesis using keys frs u(3) by (simp add: rel_keys_def synced_keys_def fresh_append)
  next
    case (Some e)
    then have e0: "e \<in> set (amends_of db (is_id i))" "rl_target e = is_id u" by (auto dest: find_SomeD)
    then have e: "e \<in> set rs" by (auto simp: amends_of_def rs_def without_amends_def)
    define rs' where "rs' = (if rl_notes e = nonempty_text (is_amendmentNotes i) then rs
      else save_row rl_id rs (e\<lparr>rl_notes := nonempty_text (is_amendmentNotes i)\<rparr>))"
    have "syncLegacyAmendmentRelationship i user db = db\<lparr>ix_relationships := rs'\<rparr>"
      using True u Some by (auto simp: syncLegacyAmendmentRelationship_def Let_def rs_def rs'_def)
    moreover have "find_row rl_id rs (rl_id e) = Some e" using frs e by (simp add: fresh_table_def find_row_table_ok)
    then have "map rel_key rs' = map rel_key rs" unfolding rs'_def
      using frs map_save_row_same [of rl_id rs "e\<lparr>rl_notes := nonempty_text (is_amendmentNotes i)\<rparr>" e rel_key]
      by (auto simp: fresh_table_def rel_key_def)
    moreover have "fresh_table rl_id rs' (ix_nextId db)" unfolding rs'_def
      using frs fresh_less [OF frs e] by (auto intro: fresh_save_same)
    moreover have "(is_id i, is_id u, ''amends'') \<in> set (rel_keys db)" using Some amends_of_find [of "is_id u" db "is_id i"] by simp
    ultimately show ?thesis using keys u(3) by (simp add: rel_keys_def synced_keys_def)
  qed
qed

section \<open>Lifecycle\<close>

text \<open>Each entry starts where the one before ended; an empty status, which an update may store, is the end of no entry.\<close>

fun chain_from :: "string option \<Rightarrow> lifecycle_entry list \<Rightarrow> bool" where
  "chain_from s [] = True"
| "chain_from s (h # hs) = ((lh_from h = s \<or> lh_from h = Some []) \<and> chain_from (Some (lh_to h)) hs)"

lemma chain_append:
  "chain_from s (hs @ [h]) \<longleftrightarrow> chain_from s hs
     \<and> (lh_from h = (if hs = [] then s else Some (lh_to (last hs))) \<or> lh_from h = Some [])"
  by (induction s hs rule: chain_from.induct) auto

definition history_of :: "issuance_db \<Rightarrow> nat \<Rightarrow> lifecycle_entry list" where
  "history_of db n = filter (\<lambda>h. lh_issuance h = n) (ix_history db)"

definition lifecycle_row_ok :: "lifecycle_entry list \<Rightarrow> string \<Rightarrow> bool" where
  "lifecycle_row_ok hs l \<longleftrightarrow> hs \<noteq> [] \<and> lh_from (hd hs) = None \<and> chain_from None hs \<and> (l = lh_to (last hs) \<or> l = [])"

definition lifecycle_ok :: "issuance_db \<Rightarrow> bool" where
  "lifecycle_ok db \<longleftrightarrow> (\<forall>i \<in> set (ix_issuances db). lifecycle_row_ok (history_of db (is_id i)) (is_lifecycle i))
     \<and> (\<forall>h \<in> set (ix_history db). lh_issuance h < ix_nextId db)"

lemma lifecycle_row_log:
  "lifecycle_row_ok hs l \<Longrightarrow> lh_from h = Some l \<Longrightarrow> lh_to h = l' \<Longrightarrow> lifecycle_row_ok (hs @ [h]) l'"
  by (auto simp: lifecycle_row_ok_def chain_append)

lemma history_log:
  "history_of (log_lifecycle env n old new reason user db) m
     = history_of db m @ (if m = n then [\<lparr>lh_issuance = n, lh_from = old, lh_to = new, lh_reason = reason,
        lh_changedBy = actor_id user, lh_changedAt = xe_now env\<rparr>] else [])"
  by (simp add: history_of_def log_lifecycle_def)

section \<open>Sources\<close>

definition sources_ok :: "issuance_source list \<Rightarrow> bool" where
  "sources_ok ss \<longleftrightarrow>
     (\<forall>s \<in> set ss. \<forall>t \<in> set ss. so_isPrimary s \<and> so_isPrimary t \<and> so_issuance s = so_issuance t \<longrightarrow> so_id s = so_id t)
     \<and> (\<forall>s \<in> set ss. \<forall>t \<in> set ss. so_sha256 s \<noteq> None \<and> so_sha256 s = so_sha256 t \<longrightarrow> so_id s = so_id t)"

lemma sources_okD:
  assumes "sources_ok ss" "s \<in> set ss" "t \<in> set ss"
  shows "so_isPrimary s \<Longrightarrow> so_isPrimary t \<Longrightarrow> so_issuance s = so_issuance t \<Longrightarrow> so_id s = so_id t"
    "so_sha256 s \<noteq> None \<Longrightarrow> so_sha256 s = so_sha256 t \<Longrightarrow> so_id s = so_id t"
  using assms unfolding sources_ok_def by blast+

lemma sources_ok_subset: "sources_ok ss \<Longrightarrow> set ts \<subseteq> set ss \<Longrightarrow> sources_ok ts"
  unfolding sources_ok_def by (meson subsetD)

lemma sources_ok_save:
  assumes ok: "sources_ok ss" and fr: "fresh_table so_id ss n"
    and p: "so_isPrimary s \<Longrightarrow> \<forall>x \<in> set ss. so_isPrimary x \<and> so_issuance x = so_issuance s \<longrightarrow> so_id x = so_id s"
    and h: "so_sha256 s \<noteq> None \<Longrightarrow> \<forall>x \<in> set ss. so_sha256 x = so_sha256 s \<longrightarrow> so_id x = so_id s"
  shows "sources_ok (save_row so_id ss s)"
proof -
  have mem: "x = s \<or> x \<in> set ss" if "x \<in> set (save_row so_id ss s)" for x
    using that set_save_row_subset [of so_id ss s] by blast
  have "so_id x = so_id y"
    if "x \<in> set (save_row so_id ss s)" "y \<in> set (save_row so_id ss s)" "so_isPrimary x" "so_isPrimary y" "so_issuance x = so_issuance y" for x y
    using mem [OF that(1)] mem [OF that(2)] that(3-5) p sources_okD(1) [OF ok] by metis
  moreover have "so_id x = so_id y"
    if "x \<in> set (save_row so_id ss s)" "y \<in> set (save_row so_id ss s)" "so_sha256 x \<noteq> None" "so_sha256 x = so_sha256 y" for x y
    using mem [OF that(1)] mem [OF that(2)] that(3,4) h sources_okD(2) [OF ok] by metis
  ultimately show ?thesis unfolding sources_ok_def by blast
qed

definition unprimary :: "(issuance_source \<Rightarrow> bool) \<Rightarrow> nat \<Rightarrow> issuance_source list \<Rightarrow> issuance_source list" where
  "unprimary P n = map (\<lambda>s. if so_issuance s = n \<and> P s then s\<lparr>so_isPrimary := False\<rparr> else s)"

lemma not_primary_eq: "not_primary P n db = db\<lparr>ix_sources := unprimary P n (ix_sources db)\<rparr>"
  by (simp add: not_primary_def unprimary_def)

lemma unprimary_member:
  assumes "x \<in> set (unprimary P n ss)"
  obtains y where "y \<in> set ss" "so_id y = so_id x" "so_issuance y = so_issuance x" "so_sha256 y = so_sha256 x"
    "so_isPrimary x \<Longrightarrow> so_isPrimary y"
  using assms by (auto simp: unprimary_def split: if_splits)

lemma unprimary_fresh: "fresh_table so_id ss m \<Longrightarrow> fresh_table so_id (unprimary P n ss) m"
  unfolding unprimary_def by (rule fresh_map) auto

lemma unprimary_issuances [simp]: "so_issuance ` set (unprimary P n ss) = so_issuance ` set ss"
  unfolding unprimary_def set_map image_image by (rule image_cong) auto

lemma unprimary_ok:
  assumes "sources_ok ss"
  shows "sources_ok (unprimary P n ss)"
  unfolding sources_ok_def by (intro conjI ballI impI; elim unprimary_member) (metis assms sources_okD)+

lemma unprimary_none: "x \<in> set (unprimary (\<lambda>_. True) n ss) \<Longrightarrow> so_issuance x = n \<Longrightarrow> \<not> so_isPrimary x"
  unfolding unprimary_def set_map by (erule imageE) (simp split: if_splits)

text \<open>The sources after a source of an issuance was saved.\<close>

lemma issuances_of_saved:
  assumes "fresh_table so_id ss n" "\<And>x. x \<in> set ss \<Longrightarrow> so_id x = so_id s \<Longrightarrow> so_issuance x = so_issuance s"
  shows "so_issuance ` set (save_row so_id ss s) = insert (so_issuance s) (so_issuance ` set ss)"
proof -
  have "so_issuance x \<in> insert (so_issuance s) (so_issuance ` {x \<in> set ss. so_id x \<noteq> so_id s})" if "x \<in> set ss" for x
    using assms(2) [OF that] that by blast
  then show ?thesis unfolding fresh_set_save [OF assms(1)] by blast
qed

text \<open>The last step of the operations on sources: a source of \<open>n\<close> is saved, as the primary one after the others ceased
  to be.\<close>

lemma save_any:
  assumes fr: "fresh_table so_id ss k" and ok: "sources_ok ss" and s: "so_issuance s = n" "so_id s < m" "k \<le> m"
    and old: "(\<exists>y \<in> set ss. so_id y = so_id s \<and> so_issuance y = n \<and> so_sha256 y = so_sha256 s)
        \<or> so_id s = k \<and> (so_sha256 s = None \<or> so_sha256 s \<notin> so_sha256 ` set ss)"
    and Q: "so_isPrimary s \<Longrightarrow> Q = (\<lambda>_. True)"
  shows "fresh_table so_id (save_row so_id (unprimary Q n ss) s) m
    \<and> sources_ok (save_row so_id (unprimary Q n ss) s)
    \<and> so_issuance ` set (save_row so_id (unprimary Q n ss) s) = insert n (so_issuance ` set ss)"
proof -
  let ?us = "unprimary Q n ss"
  have fs: "fresh_table so_id ?us k" by (rule unprimary_fresh [OF fr])
  have same: "so_issuance x = so_issuance s" if x: "x \<in> set ?us" "so_id x = so_id s" for x
  proof -
    from x(1) obtain z where z: "z \<in> set ss" "so_id z = so_id x" "so_issuance z = so_issuance x" by (rule unprimary_member)
    from old consider (stored) y where "y \<in> set ss" "so_id y = so_id s" "so_issuance y = n" | (added) "so_id s = k" by blast
    then show ?thesis
    proof cases
      case (stored y)
      then show ?thesis using fresh_unique [OF fr z(1), of y] z x(2) s(1) by simp
    next
      case added
      then show ?thesis using fresh_less [OF fr z(1)] z x(2) by simp
    qed
  qed
  have sha: "so_id x = so_id s" if "so_sha256 s \<noteq> None" "x \<in> set ?us" "so_sha256 x = so_sha256 s" for x
  proof -
    from that(2) obtain z where z: "z \<in> set ss" "so_id z = so_id x" "so_sha256 z = so_sha256 x" by (rule unprimary_member)
    from old that(1,3) z obtain y where "y \<in> set ss" "so_id y = so_id s" "so_sha256 y = so_sha256 s" by (metis image_eqI)
    with z that sources_okD(2) [OF ok z(1), of y] show ?thesis by simp
  qed
  have "sources_ok (save_row so_id ?us s)"
    by (rule sources_ok_save [OF unprimary_ok [OF ok] fs]) (use sha unprimary_none s(1) Q in blast)+
  then show ?thesis using fresh_save [OF fs s(2,3)] issuances_of_saved [OF fs same] s(1) by simp
qed

lemmas save_primary = save_any [where Q = "\<lambda>_. True", OF _ _ _ _ _ _ refl]

lemma unprimary_False [simp]: "unprimary (\<lambda>_. False) n ss = ss"
  by (simp add: unprimary_def)

section \<open>Assessments\<close>

definition assessment_key :: "issuance_assessment \<Rightarrow> nat \<times> int \<times> int option" where
  "assessment_key a = (am_issuance a, am_year a, am_quarter a)"

definition assessments_ok :: "issuance_db \<Rightarrow> bool" where
  "assessments_ok db \<longleftrightarrow> distinct (map assessment_key (ix_assessments db))
     \<and> (\<forall>a \<in> set (ix_assessments db). 2000 \<le> am_year a \<and> am_year a \<le> 2200 \<and> given (map_option (\<lambda>q. 1 \<le> q \<and> q \<le> 4) (am_quarter a)) True)
     \<and> (\<forall>e \<in> set (ix_evidence db). ie_assessment e \<in> am_id ` set (ix_assessments db) \<and> (ie_url e \<noteq> None \<or> ie_document e \<noteq> None))
     \<and> (\<forall>x \<in> set (ix_actions db). ra_assessment x \<in> am_id ` set (ix_assessments db)
          \<and> (ra_status x = ''completed'' \<longleftrightarrow> ra_completedAt x \<noteq> None))"

section \<open>The primary source\<close>

lemma syncPrimaryUrlSource_frame [simp]:
  "ix_issuances (syncPrimaryUrlSource env i db) = ix_issuances db"
  "ix_domains (syncPrimaryUrlSource env i db) = ix_domains db"
  "ix_relationships (syncPrimaryUrlSource env i db) = ix_relationships db"
  "ix_history (syncPrimaryUrlSource env i db) = ix_history db"
  "ix_assessments (syncPrimaryUrlSource env i db) = ix_assessments db"
  "ix_evidence (syncPrimaryUrlSource env i db) = ix_evidence db"
  "ix_actions (syncPrimaryUrlSource env i db) = ix_actions db"
  by (simp_all add: syncPrimaryUrlSource_def Let_def not_primary_def save_source_def split: option.split)

lemma syncPrimaryUrlSource_sources:
  fixes env :: issuance_env and i :: issuance and db :: issuance_db
  assumes fr: "fresh_table so_id (ix_sources db) (ix_nextId db)" and ok: "sources_ok (ix_sources db)"
  defines "db' \<equiv> syncPrimaryUrlSource env i db"
  shows "fresh_table so_id (ix_sources db') (ix_nextId db') \<and> sources_ok (ix_sources db') \<and> ix_nextId db \<le> ix_nextId db'
    \<and> so_issuance ` set (ix_sources db) \<subseteq> so_issuance ` set (ix_sources db')
    \<and> (\<not> blank (is_sourceUrl i) \<longrightarrow> is_id i \<in> so_issuance ` set (ix_sources db'))"
proof (cases "trimmed (is_sourceUrl i)")
  case None
  then have bl: "blank (is_sourceUrl i)" by (simp add: trimmed_def blank_def split: option.splits if_splits)
  define ss where "ss = unprimary (\<lambda>s. so_type s \<in> {''official_external'', ''google_drive''}) (is_id i) (ix_sources db)"
  have ss: "fresh_table so_id ss (ix_nextId db)" "sources_ok ss" "so_issuance ` set ss = so_issuance ` set (ix_sources db)"
    using fr ok by (simp_all add: ss_def unprimary_fresh unprimary_ok)
  define found where "found = oldest_by (\<lambda>s. - so_createdAt s) (filter (\<lambda>s. so_issuance s = is_id i \<and> so_type s = ''uploaded_copy'') ss)"
  show ?thesis
  proof (cases found)
    case none: None
    then have "db' = db\<lparr>ix_sources := ss\<rparr>"
      using None unfolding found_def ss_def by (simp add: db'_def syncPrimaryUrlSource_def Let_def not_primary_eq)
    with ss bl show ?thesis by simp
  next
    case (Some s)
    define s' where "s' = s\<lparr>so_isPrimary := True, so_updatedAt := xe_now env\<rparr>"
    have eq: "db' = db\<lparr>ix_sources := save_row so_id (unprimary (\<lambda>_. True) (is_id i) ss) s'\<rparr>"
      using None Some unfolding found_def ss_def s'_def
      by (simp add: db'_def syncPrimaryUrlSource_def Let_def not_primary_eq save_source_def)
    have s: "s \<in> set ss" "so_issuance s = is_id i" using Some oldest_by_Some unfolding found_def by fastforce+
    then have "fresh_table so_id (save_row so_id (unprimary (\<lambda>_. True) (is_id i) ss) s') (ix_nextId db)
        \<and> sources_ok (save_row so_id (unprimary (\<lambda>_. True) (is_id i) ss) s')
        \<and> so_issuance ` set (save_row so_id (unprimary (\<lambda>_. True) (is_id i) ss) s') = insert (is_id i) (so_issuance ` set ss)"
      using fresh_less [OF ss(1) s(1)] by (intro save_primary [OF ss(1,2)]) (auto simp: s'_def)
    then show ?thesis using bl ss(3) unfolding eq by auto
  qed
next
  case (Some url)
  define u where "u = drop_slash url"
  define found where "found = source_with_url db (is_id i) u"
  define m where "m = (if found = None then ix_nextId db + 1 else ix_nextId db)"
  define s where "s = (given found (new_source env (is_id i) [] (ix_nextId db)))
    \<lparr>so_type := (if includes_text u ''drive.google.com'' then ''google_drive'' else ''official_external''),
     so_url := Some u, so_organization := Some (is_authority i), so_isPrimary := True, so_updatedAt := xe_now env\<rparr>"
  have eq: "db' = db\<lparr>ix_sources := save_row so_id (unprimary (\<lambda>_. True) (is_id i) (ix_sources db)) s, ix_nextId := m\<rparr>"
    using Some unfolding u_def found_def s_def m_def
    by (simp add: db'_def syncPrimaryUrlSource_def Let_def not_primary_eq save_source_def)
  have found: "x \<in> set (ix_sources db) \<and> so_issuance x = is_id i" if "found = Some x" for x
    using that by (auto simp: found_def source_with_url_def dest: find_SomeD)
  have "so_issuance s = is_id i" "so_id s < m" "ix_nextId db \<le> m"
    "(\<exists>y \<in> set (ix_sources db). so_id y = so_id s \<and> so_issuance y = is_id i \<and> so_sha256 y = so_sha256 s)
        \<or> so_id s = ix_nextId db \<and> (so_sha256 s = None \<or> so_sha256 s \<notin> so_sha256 ` set (ix_sources db))"
    using found fresh_less [OF fr] by (cases found; auto simp: s_def m_def new_source_def)+
  from save_primary [OF fr ok this] \<open>ix_nextId db \<le> m\<close> show ?thesis unfolding eq by auto
qed

definition issuance_ok :: "issuance_db \<Rightarrow> bool" where
  "issuance_ok db \<longleftrightarrow> ids_ok db \<and> register_ok db \<and> amends_ok (amend_shapes db) (rel_keys db) \<and> lifecycle_ok db
     \<and> sources_ok (ix_sources db) \<and> assessments_ok db"

lemma issuance_okD:
  assumes "issuance_ok db"
  shows "ids_ok db" "register_ok db" "amends_ok (amend_shapes db) (rel_keys db)" "lifecycle_ok db" "sources_ok (ix_sources db)"
    "assessments_ok db"
  using assms by (simp_all add: issuance_ok_def)

section \<open>Changes beside the catalogue\<close>

lemma lifecycle_same:
  assumes "lifecycle_ok db" "(\<lambda>i. (is_id i, is_lifecycle i)) ` set (ix_issuances db') \<subseteq> (\<lambda>i. (is_id i, is_lifecycle i)) ` set (ix_issuances db)"
    "ix_history db' = ix_history db" "ix_nextId db \<le> ix_nextId db'"
  shows "lifecycle_ok db'"
proof -
  have "lifecycle_row_ok (history_of db' (is_id i)) (is_lifecycle i)" if "i \<in> set (ix_issuances db')" for i
  proof -
    from that assms(2) obtain j where "j \<in> set (ix_issuances db)" "is_id j = is_id i" "is_lifecycle j = is_lifecycle i" by force
    with assms(1,3) show ?thesis by (auto simp: lifecycle_ok_def history_of_def)
  qed
  with assms show ?thesis by (auto simp: lifecycle_ok_def)
qed

lemma issuance_ok_work:
  assumes ok: "issuance_ok db"
    and same: "ix_issuances db' = ix_issuances db" "ix_domains db' = ix_domains db" "ix_sources db' = ix_sources db"
      "ix_relationships db' = ix_relationships db" "ix_history db' = ix_history db" "ix_nextId db \<le> ix_nextId db'"
    and new: "fresh_table am_id (ix_assessments db') (ix_nextId db')" "fresh_table ie_id (ix_evidence db') (ix_nextId db')"
      "fresh_table ra_id (ix_actions db') (ix_nextId db')" "assessments_ok db'"
  shows "issuance_ok db'"
proof -
  note D = issuance_okD [OF ok]
  have "ids_ok db'" using D(1) same new unfolding ids_ok_def by (auto intro: fresh_mono)
  moreover have "register_ok db'" by (rule register_okI [OF D(2) supports_same]) (use same in auto)
  moreover have "lifecycle_ok db'" by (rule lifecycle_same [OF D(4)]) (use same in auto)
  moreover have "amend_shapes db' = amend_shapes db" "rel_keys db' = rel_keys db" using same by (simp_all add: amend_shapes_def rel_keys_def)
  ultimately show ?thesis using D same new by (simp add: issuance_ok_def)
qed

text \<open>Sources, domains and columns of issuances that no relationship and no history reads.\<close>

definition row_shape :: "issuance \<Rightarrow> (nat \<times> string \<times> bool \<times> string option) \<times> string" where
  "row_shape i = (amend_shape i, is_lifecycle i)"

lemma same_shapes:
  assumes "map row_shape xs = map row_shape ys"
  shows "map is_id xs = map is_id ys" "map is_number xs = map is_number ys" "amend_shape ` set xs = amend_shape ` set ys"
    "(\<lambda>i. (is_id i, is_lifecycle i)) ` set xs = (\<lambda>i. (is_id i, is_lifecycle i)) ` set ys"
proof -
  have col: "map (f \<circ> row_shape) xs = map (f \<circ> row_shape) ys" for f :: "_ \<Rightarrow> 'b"
    using arg_cong [OF assms, of "map f"] by simp
  show "map is_id xs = map is_id ys" using col [of "\<lambda>x. fst (fst x)"] by (simp add: row_shape_def amend_shape_def comp_def)
  show "map is_number xs = map is_number ys"
    using col [of "\<lambda>x. fst (snd (fst x))"] by (simp add: row_shape_def amend_shape_def comp_def)
  have "map amend_shape xs = map amend_shape ys" using col [of fst] by (simp add: row_shape_def comp_def)
  then show "amend_shape ` set xs = amend_shape ` set ys" by (metis set_map)
  have "map (\<lambda>i. (is_id i, is_lifecycle i)) xs = map (\<lambda>i. (is_id i, is_lifecycle i)) ys"
    using col [of "\<lambda>x. (fst (fst x), snd x)"] by (simp add: row_shape_def amend_shape_def comp_def)
  then show "(\<lambda>i. (is_id i, is_lifecycle i)) ` set xs = (\<lambda>i. (is_id i, is_lifecycle i)) ` set ys" by (metis set_map)
qed

lemma fresh_same:
  assumes "map key xs = map key ys" "fresh_table key ys n"
  shows "fresh_table key xs n"
proof -
  have eq: "key ` set xs = key ` set ys" using arg_cong [OF assms(1), of set] by simp
  have "key x < n" if x: "x \<in> set xs" for x
  proof -
    from eq imageI [OF x, of key] obtain y where "y \<in> set ys" "key x = key y" by (metis imageE)
    with fresh_less [OF assms(2)] show ?thesis by simp
  qed
  with assms show ?thesis by (simp add: fresh_table_def table_ok_def)
qed

lemma issuance_ok_sources:
  assumes ok: "issuance_ok db"
    and rows: "map row_shape (ix_issuances db') = map row_shape (ix_issuances db)"
    and dom: "map dm_id (ix_domains db') = map dm_id (ix_domains db) \<or> fresh_table dm_id (ix_domains db') (ix_nextId db')"
    and same: "ix_relationships db' = ix_relationships db" "ix_history db' = ix_history db"
      "ix_assessments db' = ix_assessments db" "ix_evidence db' = ix_evidence db" "ix_actions db' = ix_actions db" "ix_nextId db \<le> ix_nextId db'"
    and src: "fresh_table so_id (ix_sources db') (ix_nextId db')" "sources_ok (ix_sources db')"
    and reg: "register_ok db'"
  shows "issuance_ok db'"
proof -
  note D = issuance_okD [OF ok] and I = ids_okD [OF issuance_okD(1) [OF ok]] and R = same_shapes [OF rows]
  have "fresh_table is_id (ix_issuances db') (ix_nextId db)" "table_ok is_number (ix_issuances db')"
    using fresh_same [OF R(1) I(1)] I(8) R(2) by (simp_all add: table_ok_def)
  moreover have "fresh_table dm_id (ix_domains db') (ix_nextId db')" using dom fresh_same fresh_mono [OF I(2) same(6)] by blast
  ultimately have "ids_ok db'" using I same src unfolding ids_ok_def by (auto intro: fresh_mono)
  moreover have "lifecycle_ok db'" using lifecycle_same [OF D(4)] R(4) same by simp
  moreover have "amend_shapes db' = amend_shapes db" using R(3) by (simp add: amend_shapes_def)
  moreover have "rel_keys db' = rel_keys db" using same by (simp add: rel_keys_def)
  moreover have "assessments_ok db'" using D(6) same by (simp add: assessments_ok_def)
  ultimately show ?thesis using D src reg by (simp add: issuance_ok_def)
qed

section \<open>Saving an issuance\<close>

lemma shape_others: "amend_shape ` {x \<in> R. is_id x \<noteq> n} = {x \<in> amend_shape ` R. fst x \<noteq> n}"
proof -
  have "fst (amend_shape x) = is_id x" for x by (simp add: amend_shape_def)
  then show ?thesis by (intro set_eqI) (simp add: image_iff, metis)
qed

lemma save_issuance_facts:
  assumes ids: "ids_ok db" and old: "find_issuance db (is_id i) = Some old" "is_number i = is_number old"
  shows "ids_ok (save_issuance i db)" "set (ix_issuances (save_issuance i db)) = insert i {x \<in> set (ix_issuances db). is_id x \<noteq> is_id i}"
    "amend_shapes (save_issuance i db) = insert (amend_shape i) {x \<in> amend_shapes db. fst x \<noteq> is_id i}"
proof -
  note I = ids_okD [OF ids]
  have o: "old \<in> set (ix_issuances db)" "is_id old = is_id i" using find_issuance_Some [OF old(1)] by simp_all
  have "map is_number (save_row is_id (ix_issuances db) i) = map is_number (ix_issuances db)"
    using I(1) old by (intro map_save_row_same [where e = old]) (auto simp: fresh_table_def find_issuance_def)
  moreover have "fresh_table is_id (save_row is_id (ix_issuances db) i) (ix_nextId db)"
    using fresh_less [OF I(1) o(1)] o(2) by (intro fresh_save_same [OF I(1)]) simp
  ultimately show "ids_ok (save_issuance i db)" using ids by (simp add: ids_ok_def save_issuance_def table_ok_def)
  show s: "set (ix_issuances (save_issuance i db)) = insert i {x \<in> set (ix_issuances db). is_id x \<noteq> is_id i}"
    by (simp add: save_issuance_def fresh_set_save [OF I(1)])
  show "amend_shapes (save_issuance i db) = insert (amend_shape i) {x \<in> amend_shapes db. fst x \<noteq> is_id i}"
    unfolding amend_shapes_def s image_insert shape_others ..
qed

lemma save_issuance_frame [simp]:
  "ix_domains (save_issuance i db) = ix_domains db" "ix_sources (save_issuance i db) = ix_sources db"
  "ix_relationships (save_issuance i db) = ix_relationships db" "ix_history (save_issuance i db) = ix_history db"
  "ix_assessments (save_issuance i db) = ix_assessments db" "ix_evidence (save_issuance i db) = ix_evidence db"
  "ix_actions (save_issuance i db) = ix_actions db" "ix_nextId (save_issuance i db) = ix_nextId db"
  by (simp_all add: save_issuance_def)

lemma relations_ok_mono: "relations_ok A ks \<Longrightarrow> A \<subseteq> B \<Longrightarrow> relations_ok B ks"
  by (auto simp: relations_ok_def)

text \<open>The two synchronisations after \<open>issuanceRepo.save(issuance)\<close>.\<close>

lemma after_save:
  fixes env :: issuance_env and i :: issuance and user :: "nat option" and db :: issuance_db
  defines "db' \<equiv> syncPrimaryUrlSource env i (syncLegacyAmendmentRelationship i user db)"
  assumes ids: "ids_ok db" and src: "sources_ok (ix_sources db)" and i: "i \<in> set (ix_issuances db)"
    and before: "amends_ok S (rel_keys db)" "\<And>t tn a b. (t, tn, a, b) \<in> S \<Longrightarrow> \<exists>a b. (t, tn, a, b) \<in> amend_shapes db"
      "\<And>x. x \<in> amend_shapes db \<Longrightarrow> fst x \<noteq> is_id i \<Longrightarrow> x \<in> S"
    and target: "is_isAmendment i \<Longrightarrow> \<exists>s u. trimmed (is_amendedNumber i) = Some s \<and> find_number db s = Some u \<and> is_id u \<noteq> is_id i"
  shows "ids_ok db' \<and> sources_ok (ix_sources db') \<and> amends_ok (amend_shapes db') (rel_keys db') \<and> supports db db'
    \<and> ix_nextId db \<le> ix_nextId db' \<and> (\<not> blank (is_sourceUrl i) \<longrightarrow> has_source db' (is_id i))"
proof -
  note I = ids_okD [OF ids]
  define mid where "mid = syncLegacyAmendmentRelationship i user db"
  obtain t u where t: "if is_isAmendment i \<and> trimmed (is_amendedNumber i) \<noteq> None
        then find_number db (the (trimmed (is_amendedNumber i))) = Some u \<and> is_id u \<noteq> is_id i \<and> t = Some (is_id u) else t = None"
    and am: "is_isAmendment i \<Longrightarrow> find_number db (the (trimmed (is_amendedNumber i))) = Some u \<and> t = Some (is_id u)
        \<and> trimmed (is_amendedNumber i) = Some (is_number u)"
    and nam: "\<not> is_isAmendment i \<Longrightarrow> t = None"
  proof (cases "is_isAmendment i")
    case True
    with target obtain s u where su: "trimmed (is_amendedNumber i) = Some s" "find_number db s = Some u" "is_id u \<noteq> is_id i" by blast
    moreover have "is_number u = s" using su(2) find_row_Some unfolding find_number_def by fastforce
    ultimately show ?thesis using that [of u "Some (is_id u)"] True by simp
  qed (use that [of undefined None] in simp)
  from syncLegacyAmendmentRelationship_keys [OF I(4) t]
  have mid: "rel_keys mid = synced_keys (is_id i) t (rel_keys db)" "fresh_table rl_id (ix_relationships mid) (ix_nextId mid)"
    "ix_nextId db \<le> ix_nextId mid" unfolding mid_def by blast+
  have midsrc: "fresh_table so_id (ix_sources mid) (ix_nextId mid)" "sources_ok (ix_sources mid)"
    using fresh_mono [OF I(3) mid(3)] src by (simp_all add: mid_def)
  note S = syncPrimaryUrlSource_sources [OF midsrc, of env i, folded mid_def]
  have db': "db' = syncPrimaryUrlSource env i mid" by (simp add: db'_def mid_def)
  have fr [simp]: "ix_issuances mid = ix_issuances db" "ix_domains mid = ix_domains db" "ix_sources mid = ix_sources db"
    "ix_assessments mid = ix_assessments db" "ix_evidence mid = ix_evidence db" "ix_actions mid = ix_actions db"
    by (simp_all add: mid_def)
  have le: "ix_nextId db \<le> ix_nextId db'" using S mid(3) unfolding db' by linarith
  have "fresh_table rl_id (ix_relationships mid) (ix_nextId db')" using fresh_mono [OF mid(2)] S unfolding db' by blast
  then have "ids_ok db'"
    using S fresh_mono [OF I(1) le] fresh_mono [OF I(2) le] fresh_mono [OF I(5) le] fresh_mono [OF I(6) le] fresh_mono [OF I(7) le] I(8)
    by (simp add: ids_ok_def db')
  moreover have "amends_ok (amend_shapes db') (rel_keys db')"
  proof -
    have shapes: "amend_shapes db' = amend_shapes db" and keys: "rel_keys db' = synced_keys (is_id i) t (rel_keys db)"
      using mid(1) by (simp_all add: db' amend_shapes_def rel_keys_def)
    have u: "u \<in> set (ix_issuances db)" if "is_isAmendment i"
      using am [OF that] find_row_Some unfolding find_number_def by fastforce
    have idin: "x \<in> set (ix_issuances db) \<Longrightarrow> is_id x \<in> fst ` amend_shapes db" for x
      by (force simp: amend_shapes_def amend_shape_def)
    have ne: "t \<noteq> Some (is_id i)"
    proof (cases "is_isAmendment i")
      case True
      with am [OF True] t show ?thesis by simp
    qed (simp add: nam)
    have tin: "set_option t \<subseteq> fst ` amend_shapes db"
    proof (cases "is_isAmendment i")
      case True
      with am [OF True] idin [OF u [OF True]] show ?thesis by simp
    qed (simp add: nam)
    have sub: "fst ` S \<subseteq> fst ` amend_shapes db" using before(2) by force
    show ?thesis unfolding shapes keys
    proof (rule amends_replace [OF before(1) _ before(2,3), where n = "is_id i"])
      have "relations_ok (fst ` amend_shapes db) (rel_keys db)"
        by (rule relations_ok_mono [OF _ sub]) (use before(1) in \<open>simp add: amends_ok_def\<close>)
      then show "relations_ok (fst ` amend_shapes db) (synced_keys (is_id i) t (rel_keys db))"
        by (rule synced_relations_ok [OF _ ne idin [OF i] tin])
    next
      fix m assume "m \<noteq> is_id i"
      then show "amend_targets (synced_keys (is_id i) t (rel_keys db)) m = amend_targets (rel_keys db) m" by (rule synced_targets)
    next
      fix x assume x: "x \<in> amend_shapes db" "fst x = is_id i"
      then obtain y where y: "y \<in> set (ix_issuances db)" "x = amend_shape y" unfolding amend_shapes_def by blast
      with x(2) have "is_id y = is_id i" by (simp add: amend_shape_def)
      with y fresh_unique [OF I(1) y(1) i] have "x = amend_shape i" by simp
      moreover have "amend_shape u \<in> amend_shapes db" if "is_isAmendment i" using u [OF that] by (simp add: amend_shapes_def)
      ultimately show "amend_row_ok (amend_shapes db) (synced_keys (is_id i) t (rel_keys db)) x"
        using am nam by (cases "is_isAmendment i") (auto simp: amend_shape_def synced_targets)
    qed
  qed
  moreover have "supports db db'" using S by (intro supports_same) (simp_all add: db')
  ultimately show ?thesis using S le by (simp add: db' has_source_iff)
qed

section \<open>Creating an issuance\<close>

lemma log_lifecycle_frame [simp]:
  "ix_issuances (log_lifecycle env n old new reason user db) = ix_issuances db"
  "ix_domains (log_lifecycle env n old new reason user db) = ix_domains db"
  "ix_sources (log_lifecycle env n old new reason user db) = ix_sources db"
  "ix_relationships (log_lifecycle env n old new reason user db) = ix_relationships db"
  "ix_assessments (log_lifecycle env n old new reason user db) = ix_assessments db"
  "ix_evidence (log_lifecycle env n old new reason user db) = ix_evidence db"
  "ix_actions (log_lifecycle env n old new reason user db) = ix_actions db"
  "ix_nextId (log_lifecycle env n old new reason user db) = ix_nextId db"
  by (simp_all add: log_lifecycle_def)

text \<open>A saved issuance whose change of status was logged.\<close>

lemma lifecycle_logged:
  assumes ok: "lifecycle_ok db"
    and rows: "\<And>x. x \<in> set (ix_issuances db1) \<Longrightarrow> x = i \<or> is_id x \<noteq> is_id i \<and> x \<in> set (ix_issuances db)"
    and same: "ix_history db1 = ix_history db" "ix_nextId db \<le> ix_nextId db1" "is_id i < ix_nextId db1"
    and row: "old = None \<and> history_of db (is_id i) = [] \<or> (\<exists>l. old = Some l \<and> lifecycle_row_ok (history_of db (is_id i)) l)"
  shows "lifecycle_ok (log_lifecycle env (is_id i) old (is_lifecycle i) reason user db1)" (is "lifecycle_ok ?db")
proof -
  have hist: "history_of db1 = history_of db" using same(1) by (auto simp: history_of_def)
  have "lifecycle_row_ok (history_of ?db (is_id x)) (is_lifecycle x)" if "x \<in> set (ix_issuances ?db)" for x
  proof -
    from that have "x = i \<or> is_id x \<noteq> is_id i \<and> x \<in> set (ix_issuances db)" unfolding log_lifecycle_frame by (rule rows)
    then show ?thesis
    proof
      assume "x = i"
      with row show ?thesis unfolding history_log hist
        by (auto intro: lifecycle_row_log) (simp add: lifecycle_row_ok_def)
    next
      assume "is_id x \<noteq> is_id i \<and> x \<in> set (ix_issuances db)"
      with ok show ?thesis unfolding history_log hist by (simp add: lifecycle_ok_def)
    qed
  qed
  moreover have "\<forall>h \<in> set (ix_history ?db). lh_issuance h < ix_nextId ?db"
    using ok same by (auto simp: lifecycle_ok_def log_lifecycle_def)
  ultimately show ?thesis by (simp add: lifecycle_ok_def)
qed

lemma assertAmendmentTarget_None:
  "assertAmendmentTarget db self amends num = None
     \<longleftrightarrow> (amends \<longrightarrow> (\<exists>s t. trimmed num = Some s \<and> find_number db s = Some t \<and> self \<noteq> Some (is_id t)))"
  by (auto simp: assertAmendmentTarget_def split: option.splits)

lemma inclusion_error_None:
  "inclusion_error l a d s = None \<longleftrightarrow> l = ''active'' \<and> a \<in> {''applicable'', ''partially_applicable''} \<and> d \<and> s"
  by (auto simp: inclusion_error_def guard_simps)

text \<open>All parts of the invariant but the catalogue's, where a log entry may follow.\<close>

lemma issuance_ok_logged:
  assumes "ids_ok db" "sources_ok (ix_sources db)" "amends_ok (amend_shapes db) (rel_keys db)" "assessments_ok db" "register_ok db"
    and "ix_issuances db' = ix_issuances db" "ix_domains db' = ix_domains db" "ix_sources db' = ix_sources db"
      "ix_relationships db' = ix_relationships db" "ix_assessments db' = ix_assessments db" "ix_evidence db' = ix_evidence db"
      "ix_actions db' = ix_actions db" "ix_nextId db' = ix_nextId db" "lifecycle_ok db'"
  shows "issuance_ok db'"
proof -
  have "register_ok db'" by (rule register_okI [OF assms(5) supports_same]) (use assms in auto)
  then show ?thesis using assms by (simp add: issuance_ok_def ids_ok_def amend_shapes_def rel_keys_def assessments_ok_def)
qed

lemma resolveDomains_active:
  assumes "resolveDomains db ids [] = Inr ds"
  shows "list_ex (active_domain db) ds \<longleftrightarrow> ds \<noteq> []"
proof -
  have "active_domain db d" if "d \<in> set ds" for d
    using assms that by (auto simp: resolveDomains_def Let_def active_domain_def list_ex_iff split: option.splits if_splits) blast
  then show ?thesis by (auto simp: list_ex_iff intro: last_in_set)
qed

lemma createIssuance_cases:
  fixes num dto db title authority
  defines "i \<equiv> \<lambda>domains. new_issuance (ix_nextId db) num title authority dto domains"
  obtains (refused) "snd (createIssuance env num title authority dto user db) = db"
  | (created) domains reason where "resolveDomains db (di_domainIds dto) [] = Inr domains"
      "assertAmendmentTarget db None (is_isAmendment (i domains)) (is_amendedNumber (i domains)) = None"
      "is_decision (i domains) = ''included'' \<Longrightarrow> inclusion_error (is_lifecycle (i domains)) (is_applicability (i domains))
         (domains \<noteq> []) (\<not> blank (is_sourceUrl (i domains))) = None"
      "find_number db num = None"
      "snd (createIssuance env num title authority dto user db)
         = log_lifecycle env (ix_nextId db) None (is_lifecycle (i domains)) reason user (syncPrimaryUrlSource env (i domains)
             (syncLegacyAmendmentRelationship (i domains) user (save_issuance (i domains) (db\<lparr>ix_nextId := ix_nextId db + 1\<rparr>))))"
proof -
  have "snd (createIssuance env num title authority dto user db) = db
    \<or> (\<exists>domains reason. resolveDomains db (di_domainIds dto) [] = Inr domains
      \<and> assertAmendmentTarget db None (is_isAmendment (i domains)) (is_amendedNumber (i domains)) = None
      \<and> (is_decision (i domains) = ''included'' \<longrightarrow> inclusion_error (is_lifecycle (i domains)) (is_applicability (i domains))
         (domains \<noteq> []) (\<not> blank (is_sourceUrl (i domains))) = None)
      \<and> find_number db num = None
      \<and> snd (createIssuance env num title authority dto user db)
         = log_lifecycle env (ix_nextId db) None (is_lifecycle (i domains)) reason user (syncPrimaryUrlSource env (i domains)
             (syncLegacyAmendmentRelationship (i domains) user (save_issuance (i domains) (db\<lparr>ix_nextId := ix_nextId db + 1\<rparr>)))))"
    unfolding i_def createIssuance_def Let_def
    by (split option.split sum.split)+ (auto simp: guard_simps simp del: first_error.simps)
  with refused created show thesis by blast
qed

lemma new_issuance_columns:
  "is_id (new_issuance n num title authority dto ds) = n" "is_number (new_issuance n num title authority dto ds) = num"
  "is_domains (new_issuance n num title authority dto ds) = ds"
  "is_isActive (new_issuance n num title authority dto ds) = (is_lifecycle (new_issuance n num title authority dto ds) = ''active'')"
  by (simp_all add: new_issuance_def Let_def)

lemma fresh_notin: "fresh_table key rows n \<Longrightarrow> n \<notin> key ` set rows"
  unfolding fresh_table_def by (metis imageE less_irrefl)

lemma find_Some_append: "List.find P xs = Some x \<Longrightarrow> List.find P (xs @ ys) = Some x"
  by (induction xs) auto

lemma save_new_issuance:
  assumes ids: "ids_ok db" and i: "is_id i = ix_nextId db" "find_number db (is_number i) = None"
  defines "db0 \<equiv> save_issuance i (db\<lparr>ix_nextId := ix_nextId db + 1\<rparr>)"
  shows "ids_ok db0" "ix_issuances db0 = ix_issuances db @ [i]" "amend_shapes db0 = insert (amend_shape i) (amend_shapes db)"
    "find_number db s = Some t \<Longrightarrow> find_number db0 s = Some t"
proof -
  note I = ids_okD [OF ids]
  have new: "ix_nextId db \<notin> is_id ` set (ix_issuances db)" by (rule fresh_notin [OF I(1)])
  then show rows: "ix_issuances db0 = ix_issuances db @ [i]" unfolding db0_def by (simp add: save_issuance_def save_row_new i(1))
  then show "amend_shapes db0 = insert (amend_shape i) (amend_shapes db)" by (simp add: amend_shapes_def)
  have "is_number i \<notin> is_number ` set (ix_issuances db)"
    using i(2) by (auto simp: find_number_def find_row_def find_None_iff)
  with I(8) rows have "table_ok is_number (ix_issuances db0)" by (simp add: table_ok_def)
  moreover have "fresh_table is_id (ix_issuances db0) (Suc (ix_nextId db))" unfolding rows by (rule fresh_append [OF I(1) i(1)])
  ultimately show "ids_ok db0"
    using fresh_Suc [OF I(2)] fresh_Suc [OF I(3)] fresh_Suc [OF I(4)] fresh_Suc [OF I(5)] fresh_Suc [OF I(6)] fresh_Suc [OF I(7)]
    by (simp add: ids_ok_def db0_def)
  show "find_number db s = Some t \<Longrightarrow> find_number db0 s = Some t"
    unfolding find_number_def find_row_def rows by (rule find_Some_append)
qed

lemma createIssuance_ok:
  assumes ok: "issuance_ok db"
  shows "issuance_ok (snd (createIssuance env num title authority dto user db))"
proof (cases rule: createIssuance_cases [of env num title authority dto user db])
  case refused
  with ok show ?thesis by simp
next
  case (created domains reason)
  note D = issuance_okD [OF ok]
  define i where "i = new_issuance (ix_nextId db) num title authority dto domains"
  define db0 where "db0 = save_issuance i (db\<lparr>ix_nextId := ix_nextId db + 1\<rparr>)"
  define db1 where "db1 = syncPrimaryUrlSource env i (syncLegacyAmendmentRelationship i user db0)"
  have i: "is_id i = ix_nextId db" "is_number i = num" "is_domains i = domains" "is_isActive i = (is_lifecycle i = ''active'')"
    by (simp_all add: i_def new_issuance_columns)
  have "find_number db (is_number i) = None" using created(4) i(2) by simp
  note N = save_new_issuance [OF D(1) i(1) this, folded db0_def]
  have eq: "snd (createIssuance env num title authority dto user db)
      = log_lifecycle env (is_id i) None (is_lifecycle i) reason user db1"
    using created(5) unfolding i(1) by (simp add: i_def db0_def db1_def)
  have fr: "ix_domains db0 = ix_domains db" "ix_sources db0 = ix_sources db" "ix_relationships db0 = ix_relationships db"
    "ix_history db0 = ix_history db" "ix_assessments db0 = ix_assessments db" "ix_evidence db0 = ix_evidence db"
    "ix_actions db0 = ix_actions db" "ix_nextId db0 = Suc (ix_nextId db)"
    by (simp_all add: db0_def)
  have tgt: "\<exists>s u. trimmed (is_amendedNumber i) = Some s \<and> find_number db0 s = Some u \<and> is_id u \<noteq> is_id i" if "is_isAmendment i"
  proof -
    from created(2) that obtain s t where st: "trimmed (is_amendedNumber i) = Some s" "find_number db s = Some t"
      unfolding assertAmendmentTarget_None i_def by blast
    moreover have "is_id t < ix_nextId db" using st(2) find_row_Some fresh_less [OF ids_okD(1) [OF D(1)]] unfolding find_number_def by metis
    ultimately show ?thesis using N(4) i(1) by fastforce
  qed
  have S: "ids_ok db1 \<and> sources_ok (ix_sources db1) \<and> amends_ok (amend_shapes db1) (rel_keys db1) \<and> supports db0 db1
      \<and> ix_nextId db0 \<le> ix_nextId db1 \<and> (\<not> blank (is_sourceUrl i) \<longrightarrow> has_source db1 (is_id i))"
    unfolding db1_def
  proof (rule after_save [OF N(1) _ _ _ _ _ tgt])
    show "amends_ok (amend_shapes db) (rel_keys db0)" using D(3) fr by (simp add: rel_keys_def)
  qed (use D fr N(2,3) in \<open>auto simp: amend_shape_def\<close>)
  have sup: "supports db db1" using S supports_same [of db0 db] fr by (auto intro: supports_trans)
  have rows: "ix_issuances db1 = ix_issuances db @ [i]" using N(2) by (simp add: db1_def)
  have "register_row_ok db1 i"
    using created(3) [folded i_def] S sup i resolveDomains_active [OF created(1)]
    by (auto simp: register_row_ok_def included_ok_def inclusion_error_None supports_def list_ex_iff)
  with rows sup D(2) have reg: "register_ok db1" by (intro register_okI [OF D(2) sup]) auto
  have hist: "ix_history db1 = ix_history db" using fr by (simp add: db1_def)
  have older: "is_id x \<noteq> ix_nextId db" if "x \<in> set (ix_issuances db)" for x
    using fresh_less [OF ids_okD(1) [OF D(1)] that] by simp
  have "history_of db (ix_nextId db) = []" using D(4) by (auto simp: lifecycle_ok_def history_of_def filter_empty_conv)
  then have "lifecycle_ok (log_lifecycle env (is_id i) None (is_lifecycle i) reason user db1)"
    using rows hist S fr(8) i(1) older by (intro lifecycle_logged [OF D(4)]) auto
  moreover have "assessments_ok db1" using D(6) fr by (simp add: assessments_ok_def db1_def)
  ultimately show ?thesis unfolding eq using S reg by (intro issuance_ok_logged [of db1]) auto
qed

section \<open>Updating an issuance\<close>

lemma updated_issuance_columns:
  "is_id (updated_issuance dto ds old) = is_id old" "is_number (updated_issuance dto ds old) = is_number old"
  "is_domains (updated_issuance dto ds old) = ds"
  "is_lifecycle (updated_issuance dto ds old) = given (di_lifecycle dto) (is_lifecycle old)"
  "is_isActive (updated_issuance dto ds old) = (text_or (di_lifecycle dto) (is_lifecycle old) = ''active'')"
  by (simp_all add: updated_issuance_def assign_fields_def Let_def)

lemma updateIssuance_cases:
  fixes dto db
  defines "i \<equiv> \<lambda>old domains. updated_issuance dto domains old"
  obtains (refused) "snd (updateIssuance env n dto user db) = db"
  | (updated) old domains reason where "find_issuance db n = Some old"
      "assertAmendmentTarget db (Some n) (is_isAmendment (i old domains)) (is_amendedNumber (i old domains)) = None"
      "is_decision (i old domains) = ''included'' \<Longrightarrow> inclusion_error (is_lifecycle (i old domains)) (is_applicability (i old domains))
         (list_ex (active_domain db) domains) (has_source db n \<or> \<not> blank (is_sourceUrl (i old domains))) = None"
      "snd (updateIssuance env n dto user db) =
         (let db1 = syncPrimaryUrlSource env (i old domains) (syncLegacyAmendmentRelationship (i old domains) user (save_issuance (i old domains) db))
          in if text_or (di_lifecycle dto) (is_lifecycle old) \<noteq> is_lifecycle old
             then log_lifecycle env n (Some (is_lifecycle old)) (text_or (di_lifecycle dto) (is_lifecycle old)) reason user db1 else db1)"
proof -
  have "snd (updateIssuance env n dto user db) = db
    \<or> (\<exists>old domains reason. find_issuance db n = Some old
      \<and> assertAmendmentTarget db (Some n) (is_isAmendment (i old domains)) (is_amendedNumber (i old domains)) = None
      \<and> (is_decision (i old domains) = ''included'' \<longrightarrow> inclusion_error (is_lifecycle (i old domains)) (is_applicability (i old domains))
         (list_ex (active_domain db) domains) (has_source db n \<or> \<not> blank (is_sourceUrl (i old domains))) = None)
      \<and> snd (updateIssuance env n dto user db) =
         (let db1 = syncPrimaryUrlSource env (i old domains) (syncLegacyAmendmentRelationship (i old domains) user (save_issuance (i old domains) db))
          in if text_or (di_lifecycle dto) (is_lifecycle old) \<noteq> is_lifecycle old
             then log_lifecycle env n (Some (is_lifecycle old)) (text_or (di_lifecycle dto) (is_lifecycle old)) reason user db1 else db1))"
    unfolding i_def updateIssuance_def Let_def
    by (split option.split sum.split if_split)+ (auto simp: guard_simps updated_issuance_columns simp del: first_error.simps)
  with refused updated show thesis by blast
qed

lemma find_number_saved:
  assumes ids: "ids_ok db" and old: "find_issuance db (is_id i) = Some old" "is_number i = is_number old"
    and t: "find_number db s = Some t" "is_id t \<noteq> is_id i"
  shows "find_number (save_issuance i db) s = Some t"
proof -
  note F = save_issuance_facts [OF ids old]
  have "t \<in> set (ix_issuances db)" "is_number t = s" using t(1) find_row_Some unfolding find_number_def by fastforce+
  with F(2) t(2) have "t \<in> set (ix_issuances (save_issuance i db))" by simp
  from find_row_table_ok [OF ids_okD(8) [OF F(1)] this] \<open>is_number t = s\<close> show ?thesis by (simp add: find_number_def)
qed

text \<open>The status of a saved issuance that was not logged.\<close>

lemma lifecycle_saved:
  assumes ok: "lifecycle_ok db"
    and rows: "\<And>x. x \<in> set (ix_issuances db1) \<Longrightarrow> x = i \<or> x \<in> set (ix_issuances db)"
    and same: "ix_history db1 = ix_history db" "ix_nextId db \<le> ix_nextId db1"
    and row: "lifecycle_row_ok (history_of db (is_id i)) (is_lifecycle i)"
  shows "lifecycle_ok db1"
proof -
  have hist: "history_of db1 = history_of db" using same(1) by (auto simp: history_of_def)
  have "lifecycle_row_ok (history_of db1 (is_id x)) (is_lifecycle x)" if "x \<in> set (ix_issuances db1)" for x
    using rows [OF that] ok row unfolding hist by (auto simp: lifecycle_ok_def)
  moreover have "\<forall>h \<in> set (ix_history db1). lh_issuance h < ix_nextId db1"
    using ok same by (auto simp: lifecycle_ok_def)
  ultimately show ?thesis by (simp add: lifecycle_ok_def)
qed

lemma updateIssuance_ok:
  assumes ok: "issuance_ok db"
  shows "issuance_ok (snd (updateIssuance env n dto user db))"
proof (cases rule: updateIssuance_cases [of env n dto user db])
  case refused
  with ok show ?thesis by simp
next
  case (updated old domains reason)
  note D = issuance_okD [OF ok]
  define i where "i = updated_issuance dto domains old"
  define db0 where "db0 = save_issuance i db"
  define db1 where "db1 = syncPrimaryUrlSource env i (syncLegacyAmendmentRelationship i user db0)"
  define following where "following = text_or (di_lifecycle dto) (is_lifecycle old)"
  have o: "old \<in> set (ix_issuances db)" "is_id old = n" using find_issuance_Some [OF updated(1)] by simp_all
  have i: "is_id i = n" "is_number i = is_number old" "is_domains i = domains"
    "is_lifecycle i = given (di_lifecycle dto) (is_lifecycle old)" "is_isActive i = (following = ''active'')"
    by (simp_all add: i_def following_def updated_issuance_columns o)
  have find: "find_issuance db (is_id i) = Some old" using updated(1) i(1) by simp
  note F = save_issuance_facts [OF D(1) find i(2), folded db0_def]
  have fr: "ix_domains db0 = ix_domains db" "ix_sources db0 = ix_sources db" "ix_relationships db0 = ix_relationships db"
    "ix_history db0 = ix_history db" "ix_assessments db0 = ix_assessments db" "ix_evidence db0 = ix_evidence db"
    "ix_actions db0 = ix_actions db" "ix_nextId db0 = ix_nextId db"
    by (simp_all add: db0_def)
  have tgt: "\<exists>s u. trimmed (is_amendedNumber i) = Some s \<and> find_number db0 s = Some u \<and> is_id u \<noteq> is_id i" if "is_isAmendment i"
  proof -
    from updated(2) that obtain s t where st: "trimmed (is_amendedNumber i) = Some s" "find_number db s = Some t" "is_id t \<noteq> is_id i"
      unfolding assertAmendmentTarget_None i_def [symmetric] i(1) by blast
    with find_number_saved [OF D(1) find i(2) st(2,3)] show ?thesis unfolding db0_def by blast
  qed
  have S: "ids_ok db1 \<and> sources_ok (ix_sources db1) \<and> amends_ok (amend_shapes db1) (rel_keys db1) \<and> supports db0 db1
      \<and> ix_nextId db0 \<le> ix_nextId db1 \<and> (\<not> blank (is_sourceUrl i) \<longrightarrow> has_source db1 (is_id i))"
    unfolding db1_def
  proof (rule after_save [OF F(1) _ _ _ _ _ tgt])
    show "amends_ok (amend_shapes db) (rel_keys db0)" using D(3) fr by (simp add: rel_keys_def)
    show "\<exists>a b. (t, tn, a, b) \<in> amend_shapes db0" if x: "(t, tn, a, b) \<in> amend_shapes db" for t tn a b
    proof (cases "t = is_id i")
      case True
      from x obtain y where "y \<in> set (ix_issuances db)" "amend_shape y = (t, tn, a, b)" unfolding amend_shapes_def by force
      with True fresh_unique [OF ids_okD(1) [OF D(1)], of y old] o i(1,2) have "tn = is_number i" by (auto simp: amend_shape_def)
      with True F(3) show ?thesis by (auto simp: amend_shape_def)
    qed (use x F(3) in auto)
  qed (use D fr F(2,3) in \<open>auto simp: amend_shape_def\<close>)
  have sup: "supports db db1" using S supports_same [of db0 db] fr by (auto intro: supports_trans)
  have rows: "x = i \<or> is_id x \<noteq> is_id i \<and> x \<in> set (ix_issuances db)" if "x \<in> set (ix_issuances db1)" for x
    using that F(2) by (auto simp: db1_def)
  have "register_row_ok db1 i"
    unfolding register_row_ok_def
  proof (intro conjI impI)
    assume inc: "is_decision i = ''included''"
    from updated(3) [folded i_def, OF inc] sup S i(1,3) show "included_ok db1 i"
      by (auto simp: included_ok_def inclusion_error_None supports_def list_ex_iff)
  qed (use i(4,5) in \<open>auto simp: following_def text_or_def split: option.splits if_splits\<close>)
  then have reg: "register_ok db1" by (intro register_okI [OF D(2) sup]) (use rows in blast)
  have hist: "ix_history db1 = ix_history db" and le: "ix_nextId db \<le> ix_nextId db1" using fr S by (simp_all add: db1_def)
  have row: "lifecycle_row_ok (history_of db (is_id i)) (is_lifecycle old)" using D(4) o i(1) by (auto simp: lifecycle_ok_def)
  have asm: "assessments_ok db1" using D(6) fr by (simp add: assessments_ok_def db1_def)
  have eq: "snd (updateIssuance env n dto user db)
      = (if following \<noteq> is_lifecycle old then log_lifecycle env n (Some (is_lifecycle old)) following reason user db1 else db1)"
    using updated(4) unfolding Let_def by (simp add: i_def db0_def db1_def following_def)
  show ?thesis
  proof (cases "following = is_lifecycle old")
    case True
    then have "is_lifecycle i \<in> {is_lifecycle old, []}"
      using i(4) by (auto simp: following_def text_or_def split: option.splits if_splits)
    with row have "lifecycle_row_ok (history_of db (is_id i)) (is_lifecycle i)" by (auto simp: lifecycle_row_ok_def)
    then have "lifecycle_ok db1" using lifecycle_saved [OF D(4) _ hist le, of i] rows by blast
    with True eq S reg asm show ?thesis by (simp add: issuance_ok_def)
  next
    case False
    then have "is_lifecycle i = following" using i(4) by (auto simp: following_def text_or_def split: option.splits if_splits)
    moreover have "is_id i < ix_nextId db1" using fresh_less [OF ids_okD(1) [OF D(1)] o(1)] o(2) i(1) le by simp
    ultimately have "lifecycle_ok (log_lifecycle env n (Some (is_lifecycle old)) following reason user db1)"
      using lifecycle_logged [OF D(4) rows hist le, where old = "Some (is_lifecycle old)"] row i(1) by auto
    with False eq S reg asm show ?thesis by (simp, intro issuance_ok_logged [of db1]) auto
  qed
qed

end
