(* ===== verification/IssuanceRequests.thy ===== *)
theory IssuanceRequests
  imports IssuanceFacts
begin

text \<open>
  The other operations on the register of issuances keep \<open>issuance_ok\<close>; the requests together and their runs.
\<close>

section \<open>Columns that inclusion reads\<close>

definition core :: "issuance \<Rightarrow> ((nat \<times> string \<times> bool \<times> string option) \<times> string) \<times> string \<times> string \<times> nat list \<times> bool" where
  "core i = (row_shape i, is_decision i, is_applicability i, is_domains i, is_isActive i)"

lemma core_shapes: "map core xs = map core ys \<Longrightarrow> map row_shape xs = map row_shape ys"
  by (drule arg_cong [where f = "map fst"]) (simp add: core_def comp_def)

text \<open>A change of sources, of the domains and of columns that neither inclusion nor amendments read.\<close>

lemma issuance_ok_core:
  assumes ok: "issuance_ok db"
    and rows: "map core (ix_issuances db') = map core (ix_issuances db)"
    and dom: "ix_domains db' = ix_domains db"
    and same: "ix_relationships db' = ix_relationships db" "ix_history db' = ix_history db"
      "ix_assessments db' = ix_assessments db" "ix_evidence db' = ix_evidence db" "ix_actions db' = ix_actions db" "ix_nextId db \<le> ix_nextId db'"
    and src: "fresh_table so_id (ix_sources db') (ix_nextId db')" "sources_ok (ix_sources db')"
    and url: "\<And>i j. i \<in> set (ix_issuances db) \<Longrightarrow> j \<in> set (ix_issuances db') \<Longrightarrow> is_id j = is_id i \<Longrightarrow> is_decision i = ''included''
      \<Longrightarrow> has_source db' (is_id i) \<or> is_sourceUrl j = is_sourceUrl i \<and> \<not> has_source db (is_id i)"
  shows "issuance_ok db'"
proof (rule issuance_ok_sources [OF ok core_shapes [OF rows] _ same src])
  show "register_ok db'" unfolding register_ok_def
  proof
    fix j assume j: "j \<in> set (ix_issuances db')"
    have "core ` set (ix_issuances db') = core ` set (ix_issuances db)" using arg_cong [OF rows, of set] by simp
    with imageI [OF j, of core] obtain i where i: "i \<in> set (ix_issuances db)" "core j = core i" by auto
    then have eq: "is_id j = is_id i" "is_decision j = is_decision i" "is_lifecycle j = is_lifecycle i" "is_applicability j = is_applicability i"
      "is_domains j = is_domains i" "is_isActive j = is_isActive i" by (simp_all add: core_def row_shape_def amend_shape_def)
    have "register_row_ok db i" using i(1) issuance_okD(2) [OF ok] by (simp add: register_ok_def)
    then show "register_row_ok db' j" using url [OF i(1) j eq(1)]
      unfolding register_row_ok_def included_ok_def eq active_domain_def dom by auto
  qed
qed (simp add: dom)

lemma issuance_ok_sources_only:
  assumes ok: "issuance_ok db" and same: "ix_issuances db' = ix_issuances db" "ix_domains db' = ix_domains db"
      "ix_relationships db' = ix_relationships db" "ix_history db' = ix_history db"
      "ix_assessments db' = ix_assessments db" "ix_evidence db' = ix_evidence db" "ix_actions db' = ix_actions db" "ix_nextId db \<le> ix_nextId db'"
    and src: "fresh_table so_id (ix_sources db') (ix_nextId db')" "sources_ok (ix_sources db')"
      "so_issuance ` set (ix_sources db) \<subseteq> so_issuance ` set (ix_sources db')"
  shows "issuance_ok db'"
proof (rule issuance_ok_core [OF ok _ same(2-8) src(1,2)])
  fix i j assume "i \<in> set (ix_issuances db)" "j \<in> set (ix_issuances db')" "is_id j = is_id i"
  moreover from this have "j = i" using fresh_unique [OF ids_okD(1) [OF issuance_okD(1) [OF ok]]] same(1) by simp
  ultimately show "has_source db' (is_id i) \<or> is_sourceUrl j = is_sourceUrl i \<and> \<not> has_source db (is_id i)"
    using src(3) unfolding has_source_iff by auto
qed (simp add: same)

section \<open>Sources\<close>

lemma verifySource_ok:
  assumes ok: "issuance_ok db"
  shows "issuance_ok (snd (verifySource env n k user db))"
proof (cases "List.find (\<lambda>s. so_id s = k \<and> so_issuance s = n) (ix_sources db)")
  case None
  then show ?thesis using ok by (simp add: verifySource_def)
next
  case (Some s)
  note D = issuance_okD [OF ok] and I = ids_okD [OF issuance_okD(1) [OF ok]]
  have s: "s \<in> set (ix_sources db)" "so_issuance s = n" using find_SomeD [OF Some] by simp_all
  define s' where "s' = s\<lparr>so_verified := Some (xe_now env, actor_id user), so_updatedAt := xe_now env\<rparr>"
  have cols: "so_id s' = so_id s" "so_issuance s' = so_issuance s" "so_isPrimary s' = so_isPrimary s" "so_sha256 s' = so_sha256 s"
    by (simp_all add: s'_def)
  have "sources_ok (save_row so_id (ix_sources db) s')"
    by (rule sources_ok_save [OF D(5) I(3)]) (use sources_okD [OF D(5) _ s(1)] cols in auto)
  moreover have "so_issuance ` set (save_row so_id (ix_sources db) s') = insert (so_issuance s') (so_issuance ` set (ix_sources db))"
    using issuances_of_saved [OF I(3)] fresh_unique [OF I(3) _ s(1)] cols by metis
  moreover have "fresh_table so_id (save_row so_id (ix_sources db) s') (ix_nextId db)"
    using fresh_less [OF I(3) s(1)] cols by (intro fresh_save_same [OF I(3)]) simp
  moreover have "snd (verifySource env n k user db) = db
      \<or> snd (verifySource env n k user db) = db\<lparr>ix_sources := save_row so_id (ix_sources db) s'\<rparr>"
    using Some by (simp add: verifySource_def Let_def save_source_def s'_def)
  ultimately show ?thesis using ok by (elim disjE) (simp, simp, rule issuance_ok_sources_only [OF ok], auto)
qed

text \<open>The row of an issuance whose source column was set has a source.\<close>

lemma url_condition:
  assumes ids: "fresh_table is_id (ix_issuances db) m"
    and rows: "ix_issuances db' = map (\<lambda>i. if is_id i = n then f i else i) (ix_issuances db)" "\<And>i. is_id (f i) = is_id i"
    and src: "has_source db' n" "so_issuance ` set (ix_sources db) \<subseteq> so_issuance ` set (ix_sources db')"
    and i: "i \<in> set (ix_issuances db)" "j \<in> set (ix_issuances db')" "is_id j = is_id i"
  shows "has_source db' (is_id i) \<or> is_sourceUrl j = is_sourceUrl i \<and> \<not> has_source db (is_id i)"
proof (cases "is_id i = n")
  case False
  from i(2) obtain y where "y \<in> set (ix_issuances db)" "j = (if is_id y = n then f y else y)" unfolding rows(1) by auto
  then have "y \<in> set (ix_issuances db)" "is_id y = is_id j" "is_id y \<noteq> n \<Longrightarrow> j = y" using rows(2) by (auto split: if_splits)
  with False i(3) fresh_unique [OF ids _ i(1)] have "j = i" by simp
  then show ?thesis using src(2) unfolding has_source_iff by auto
qed (use src in simp)

lemma addSource_ok:
  assumes ok: "issuance_ok db"
  shows "issuance_ok (snd (addSource env n dto user db))"
proof -
  note D = issuance_okD [OF ok] and I = ids_okD [OF issuance_okD(1) [OF ok]]
  define url where "url = drop_slash (trim (or_empty (sd_url dto)))"
  define primary where "primary = (sd_isPrimary dto = Some True \<or> \<not> list_ex (\<lambda>s. so_issuance s = n \<and> so_isPrimary s) (ix_sources db))"
  define s where "s = (new_source env n (sd_type dto) (ix_nextId db))\<lparr>so_url := Some url, so_organization := trimmed (sd_organization dto),
    so_externalId := trimmed (sd_externalId dto), so_isPrimary := primary, so_createdBy := actor_id user, so_updatedAt := xe_now env\<rparr>"
  define ss where "ss = save_row so_id (unprimary (\<lambda>_. primary) n (ix_sources db)) s"
  have "fresh_table so_id ss (Suc (ix_nextId db)) \<and> sources_ok ss \<and> so_issuance ` set ss = insert n (so_issuance ` set (ix_sources db))"
    unfolding ss_def by (rule save_any [OF I(3) D(5)]) (auto simp: s_def new_source_def)
  then have ss: "fresh_table so_id ss (Suc (ix_nextId db))" "sources_ok ss" "so_issuance ` set ss = insert n (so_issuance ` set (ix_sources db))"
    by blast+
  define db2 where "db2 = db\<lparr>ix_sources := ss, ix_nextId := Suc (ix_nextId db)\<rparr>"
  have un: "unprimary (\<lambda>_. primary) n (ix_sources db) = (if primary then unprimary (\<lambda>_. True) n (ix_sources db) else ix_sources db)"
    by (cases primary) simp_all
  have "snd (addSource env n dto user db) = db \<or> snd (addSource env n dto user db) = (if primary then set_source_url n url db2 else db2)"
    unfolding addSource_def Let_def url_def [symmetric] primary_def [symmetric]
    by (split option.split) (auto simp: db2_def ss_def s_def un save_source_def not_primary_eq simp del: first_error.simps)
  then show ?thesis
  proof
    assume eq: "snd (addSource env n dto user db) = (if primary then set_source_url n url db2 else db2)"
    show ?thesis
    proof (cases primary)
      case True
      have "issuance_ok (set_source_url n url db2)"
      proof (rule issuance_ok_core [OF ok])
        show "map core (ix_issuances (set_source_url n url db2)) = map core (ix_issuances db)"
          by (simp add: set_source_url_def db2_def core_def row_shape_def amend_shape_def)
        fix i j assume ij: "i \<in> set (ix_issuances db)" "j \<in> set (ix_issuances (set_source_url n url db2))" "is_id j = is_id i"
        show "has_source (set_source_url n url db2) (is_id i)
            \<or> is_sourceUrl j = is_sourceUrl i \<and> \<not> has_source db (is_id i)"
          by (rule url_condition [OF I(1) _ _ _ _ ij, where f = "\<lambda>i. i\<lparr>is_sourceUrl := Some url\<rparr>" and n = n])
            (use ss in \<open>auto simp: set_source_url_def db2_def has_source_iff\<close>)
      qed (use ss in \<open>simp_all add: set_source_url_def db2_def\<close>)
      with eq True show ?thesis by simp
    next
      case False
      have "issuance_ok db2" by (rule issuance_ok_sources_only [OF ok]) (use ss in \<open>auto simp: db2_def\<close>)
      with eq False show ?thesis by simp
    qed
  qed (use ok in simp)
qed

section \<open>Attachments\<close>

lemma core_saved:
  assumes "table_ok is_id (ix_issuances db)" "find_issuance db (is_id i) = Some old" "core i = core old"
  shows "map core (save_row is_id (ix_issuances db) i) = map core (ix_issuances db)"
  using assms by (intro map_save_row_same [where e = old]) (simp_all add: find_issuance_def)

lemma uploadAttachment_ok:
  assumes ok: "issuance_ok db"
  shows "issuance_ok (snd (uploadAttachment env n file db))"
proof (cases "ensureAllowedAttachment file")
  case (Inl e)
  with ok show ?thesis by (simp add: uploadAttachment_def)
next
  case (Inr mime)
  note D = issuance_okD [OF ok] and I = ids_okD [OF issuance_okD(1) [OF ok]]
  show ?thesis
  proof (cases "find_issuance db n")
    case None
    with Inr ok show ?thesis by (simp add: uploadAttachment_def)
  next
    case (Some old)
    define f where "f = the file"
    define sha where "sha = xe_sha256 env (if_buffer f)"
    define duplicate where "duplicate = List.find (\<lambda>s. so_sha256 s = Some sha) (ix_sources db)"
    define i where "i = old\<lparr>is_attachment := Some \<lparr>at_fileName = if_name f, at_mimeType = mime, at_blob = if_buffer f,
      at_uploadedAt = xe_now env\<rparr>\<rparr>"
    define primary where "primary = (\<not> truthy_text (is_sourceUrl i))"
    define s where "s = (given duplicate (new_source env n ''uploaded_copy'' (ix_nextId db)))\<lparr>so_fileName := Some (if_name f),
      so_mimeType := Some mime, so_fileSize := Some (length (if_buffer f)), so_sha256 := Some sha, so_blob := Some (if_buffer f),
      so_isPrimary := primary, so_updatedAt := xe_now env\<rparr>"
    define m where "m = (if duplicate = None then ix_nextId db + 1 else ix_nextId db)"
    define ss where "ss = save_row so_id (unprimary (\<lambda>_. primary) n (ix_sources db)) s"
    define db' where "db' = db\<lparr>ix_issuances := save_row is_id (ix_issuances db) i, ix_sources := ss, ix_nextId := m\<rparr>"
    have un: "unprimary (\<lambda>_. primary) n (ix_sources db) = (if primary then unprimary (\<lambda>_. True) n (ix_sources db) else ix_sources db)"
      by (cases primary) simp_all
    have tr: "truthy_text (is_sourceUrl i) = (\<not> primary)" by (simp add: primary_def)
    have eq: "snd (uploadAttachment env n file db) = (if given (map_option (\<lambda>s. so_issuance s \<noteq> n) duplicate) False then db else db')"
      using Inr Some unfolding uploadAttachment_def Let_def f_def [symmetric]
      by (simp add: sha_def [symmetric] duplicate_def [symmetric] i_def [symmetric] tr db'_def ss_def s_def m_def
          un save_source_def save_issuance_def not_primary_eq)
    show ?thesis
    proof (cases "given (map_option (\<lambda>s. so_issuance s \<noteq> n) duplicate) False")
      case True
      with eq ok show ?thesis by simp
    next
      case False
      have dup: "x \<in> set (ix_sources db)" "so_issuance x = n" "so_sha256 x = Some sha" if "duplicate = Some x" for x
        using that False find_SomeD [of _ "ix_sources db" x] unfolding duplicate_def by auto
      have new: "Some sha \<notin> so_sha256 ` set (ix_sources db)" if "duplicate = None"
        using that by (auto simp: duplicate_def find_None_iff)
      have "fresh_table so_id ss m \<and> sources_ok ss \<and> so_issuance ` set ss = insert n (so_issuance ` set (ix_sources db))"
        unfolding ss_def
      proof (rule save_any [OF I(3) D(5)])
        show "(\<exists>y \<in> set (ix_sources db). so_id y = so_id s \<and> so_issuance y = n \<and> so_sha256 y = so_sha256 s)
          \<or> so_id s = ix_nextId db \<and> (so_sha256 s = None \<or> so_sha256 s \<notin> so_sha256 ` set (ix_sources db))"
          using dup new by (cases duplicate) (auto simp: s_def new_source_def)
        show "so_issuance s = n" "so_id s < m" using dup fresh_less [OF I(3)] by (cases duplicate; simp add: s_def m_def new_source_def)+
      qed (auto simp: s_def m_def)
      moreover have "issuance_ok db'" if "fresh_table so_id ss m" "sources_ok ss" "so_issuance ` set ss = insert n (so_issuance ` set (ix_sources db))"
      proof (rule issuance_ok_core [OF ok])
        have o: "is_id old = n" using find_issuance_Some [OF Some] by simp
        then have fi: "find_issuance db (is_id i) = Some old" using Some by (simp add: i_def)
        show "map core (ix_issuances db') = map core (ix_issuances db)"
          unfolding db'_def using core_saved [OF _ fi] I(1)
          by (simp add: fresh_table_def i_def core_def row_shape_def amend_shape_def)
        fix a j assume aj: "a \<in> set (ix_issuances db)" "j \<in> set (ix_issuances db')" "is_id j = is_id a"
        show "has_source db' (is_id a) \<or> is_sourceUrl j = is_sourceUrl a \<and> \<not> has_source db (is_id a)"
        proof (cases "is_id a = n")
          case False
          have "j = i \<or> j \<in> set (ix_issuances db)" using aj(2) set_save_row_subset [of is_id "ix_issuances db" i] by (auto simp: db'_def)
          then have "j = a" using False aj(3) fresh_unique [OF I(1) _ aj(1)] o by (auto simp: i_def)
          then show ?thesis using that(3) by (auto simp: has_source_iff db'_def)
        qed (use that(3) in \<open>simp add: has_source_iff db'_def\<close>)
      qed (use that in \<open>simp_all add: db'_def m_def\<close>)
      ultimately show ?thesis using eq False by auto
    qed
  qed
qed

lemma promote_source_ok:
  assumes ok: "issuance_ok db"
  shows "issuance_ok (promote_source env n db)"
proof -
  note D = issuance_okD [OF ok] and I = ids_okD [OF issuance_okD(1) [OF ok]]
  define found where "found = oldest_by (\<lambda>s. - so_updatedAt s) (filter (\<lambda>s. so_issuance s = n) (ix_sources db))"
  show ?thesis
  proof (cases "count_rows (\<lambda>s. so_issuance s = n \<and> so_isPrimary s) (ix_sources db) \<noteq> 0 \<or> found = None")
    case True
    then have "promote_source env n db = db" by (auto simp: promote_source_def found_def)
    with ok show ?thesis by simp
  next
    case False
    then obtain s where s: "found = Some s" by auto
    then have mem: "s \<in> set (ix_sources db)" "so_issuance s = n" using oldest_by_Some unfolding found_def by fastforce+
    define s' where "s' = s\<lparr>so_isPrimary := True, so_updatedAt := xe_now env\<rparr>"
    define ss where "ss = save_row so_id (ix_sources db) s'"
    define f where "f = (\<lambda>i::issuance. if truthy_text (so_url s) then i\<lparr>is_sourceUrl := so_url s\<rparr> else i)"
    define db' where "db' = db\<lparr>ix_sources := ss, ix_issuances := map (\<lambda>i. if is_id i = n then f i else i) (ix_issuances db)\<rparr>"
    have "map (\<lambda>i. if is_id i = n then f i else i) (ix_issuances db)
        = (if truthy_text (so_url s) then map (\<lambda>i. if is_id i = n then i\<lparr>is_sourceUrl := so_url s\<rparr> else i) (ix_issuances db) else ix_issuances db)"
      unfolding f_def by (cases "truthy_text (so_url s)") (simp_all cong: if_cong)
    then have eq: "promote_source env n db = db'"
      using False s unfolding promote_source_def found_def [symmetric]
      by (simp add: Let_def save_source_def db'_def ss_def s'_def)
    have cols: "so_id s' = so_id s" "so_issuance s' = n" "so_sha256 s' = so_sha256 s" using mem by (simp_all add: s'_def)
    have none: "\<not> (so_issuance x = n \<and> so_isPrimary x)" if "x \<in> set (ix_sources db)" for x
      using False that by (auto simp: count_rows_def filter_empty_conv)
    have ss: "fresh_table so_id ss (ix_nextId db)" unfolding ss_def
      by (rule fresh_save_same [OF I(3)]) (use fresh_less [OF I(3) mem(1)] cols in simp)
    have ok': "sources_ok ss" unfolding ss_def
      by (rule sources_ok_save [OF D(5) I(3)]) (use none cols sources_okD(2) [OF D(5) _ mem(1)] in auto)
    have sub: "so_issuance ` set ss = insert n (so_issuance ` set (ix_sources db))"
      unfolding ss_def using issuances_of_saved [OF I(3), of s'] fresh_unique [OF I(3) _ mem(1)] cols mem(2) by metis
    have ids: "is_id (f i) = is_id i" for i by (simp add: f_def)
    have "issuance_ok db'"
    proof (rule issuance_ok_core [OF ok])
      show "map core (ix_issuances db') = map core (ix_issuances db)"
        by (simp add: db'_def f_def core_def row_shape_def amend_shape_def)
      fix i j assume ij: "i \<in> set (ix_issuances db)" "j \<in> set (ix_issuances db')" "is_id j = is_id i"
      show "has_source db' (is_id i) \<or> is_sourceUrl j = is_sourceUrl i \<and> \<not> has_source db (is_id i)"
        by (rule url_condition [OF I(1) _ ids _ _ ij, where n = n]) (use sub in \<open>auto simp: db'_def has_source_iff\<close>)
    qed (use ss ok' in \<open>simp_all add: db'_def\<close>)
    with eq show ?thesis by simp
  qed
qed

lemma deleteAttachment_ok:
  assumes ok: "issuance_ok db"
  shows "issuance_ok (snd (deleteAttachment env n db))"
proof (cases "find_issuance db n")
  case None
  with ok show ?thesis by (simp add: deleteAttachment_def)
next
  case (Some old)
  note D = issuance_okD [OF ok] and I = ids_okD [OF issuance_okD(1) [OF ok]]
  show ?thesis
  proof (cases "is_attachment old")
    case None
    with Some ok show ?thesis by (simp add: deleteAttachment_def)
  next
    case att: (Some a)
    define copy where "copy = List.find (\<lambda>s. so_issuance s = n \<and> so_type s = ''uploaded_copy''
      \<and> so_sha256 s = Some (xe_sha256 env (at_blob a))) (ix_sources db)"
    define keep where "keep = (\<lambda>s::issuance_source. given (map_option (\<lambda>c. so_id s \<noteq> so_id c) copy) True)"
    define i where "i = old\<lparr>is_attachment := None\<rparr>"
    define db' where "db' = db\<lparr>ix_issuances := save_row is_id (ix_issuances db) i, ix_sources := filter keep (ix_sources db)\<rparr>"
    have mid: "(case copy of None \<Rightarrow> save_issuance i db
        | Some c \<Rightarrow> (save_issuance i db)\<lparr>ix_sources := filter (\<lambda>s. so_id s \<noteq> so_id c) (ix_sources (save_issuance i db))\<rparr>) = db'"
      by (cases copy) (simp_all add: db'_def keep_def save_issuance_def)
    have eq: "snd (deleteAttachment env n db) = db \<or> snd (deleteAttachment env n db) = promote_source env n db'
      \<and> (is_decision old = ''included'' \<longrightarrow> count_rows (\<lambda>s. so_issuance s = n \<and> keep s) (ix_sources db) \<noteq> 0)"
      using Some att unfolding deleteAttachment_def Let_def
      by (simp add: copy_def [symmetric] mid [unfolded i_def]) (simp add: keep_def)
    have o: "old \<in> set (ix_issuances db)" "is_id old = n" using find_issuance_Some [OF Some] by simp_all
    have "issuance_ok db'" if inc: "is_decision old = ''included'' \<Longrightarrow> count_rows (\<lambda>s. so_issuance s = n \<and> keep s) (ix_sources db) \<noteq> 0"
    proof (rule issuance_ok_core [OF ok])
      have "find_issuance db (is_id i) = Some old" using Some o by (simp add: i_def)
      then show "map core (ix_issuances db') = map core (ix_issuances db)"
        unfolding db'_def using core_saved [of db i old] I(1) by (simp add: fresh_table_def i_def core_def row_shape_def amend_shape_def)
      fix x j assume xj: "x \<in> set (ix_issuances db)" "j \<in> set (ix_issuances db')" "is_id j = is_id x" and d: "is_decision x = ''included''"
      show "has_source db' (is_id x) \<or> is_sourceUrl j = is_sourceUrl x \<and> \<not> has_source db (is_id x)"
      proof (cases "is_id x = n")
        case True
        then have "x = old" using fresh_unique [OF I(1) xj(1) o(1)] o(2) by simp
        with inc d obtain s where "s \<in> set (ix_sources db)" "so_issuance s = n" "keep s"
          by (auto simp: count_rows_def filter_empty_conv)
        then have "n \<in> so_issuance ` set (ix_sources db')" unfolding db'_def by force
        with True show ?thesis by (simp add: has_source_iff)
      next
        case False
        have "j = i \<or> j \<in> set (ix_issuances db)" using xj(2) set_save_row_subset [of is_id "ix_issuances db" i] by (auto simp: db'_def)
        then have "j = x" using False xj(3) fresh_unique [OF I(1) _ xj(1)] o by (auto simp: i_def)
        moreover have "keep s" if s: "s \<in> set (ix_sources db)" "so_issuance s = is_id x" for s
        proof (cases copy)
          case (Some c)
          then have c: "c \<in> set (ix_sources db)" "so_issuance c = n" using find_SomeD [of _ "ix_sources db" c] unfolding copy_def by auto
          with s False fresh_unique [OF I(3) s(1) c(1)] show ?thesis by (auto simp: keep_def Some)
        qed (simp add: keep_def)
        ultimately show ?thesis by (auto simp: has_source_iff db'_def)
      qed
    qed (use I(3) sources_ok_subset [OF D(5), of "filter keep (ix_sources db)"] in \<open>simp_all add: db'_def fresh_filter\<close>)
    note kept = this
    from eq show ?thesis
    proof
      assume "snd (deleteAttachment env n db) = promote_source env n db'
        \<and> (is_decision old = ''included'' \<longrightarrow> count_rows (\<lambda>s. so_issuance s = n \<and> keep s) (ix_sources db) \<noteq> 0)"
      then show ?thesis using promote_source_ok [OF kept] by simp
    qed (use ok in simp)
  qed
qed

section \<open>Deleting and retiring\<close>

lemma shapes_saved:
  assumes "table_ok is_id (ix_issuances db)" "find_issuance db (is_id i) = Some old" "amend_shape i = amend_shape old"
  shows "map amend_shape (save_row is_id (ix_issuances db) i) = map amend_shape (ix_issuances db)"
  using assms by (intro map_save_row_same [where e = old]) (simp_all add: find_issuance_def)

lemma retire_ok:
  assumes ok: "issuance_ok db" and old: "find_issuance db n = Some old"
    and i: "amend_shape i = amend_shape old" "is_lifecycle i = ''retired''" "is_decision i = ''excluded''" "\<not> is_isActive i"
  shows "issuance_ok (log_lifecycle env n (Some (is_lifecycle old)) ''retired'' reason user (save_issuance i db))"
proof -
  note D = issuance_okD [OF ok] and I = ids_okD [OF issuance_okD(1) [OF ok]]
  have o: "old \<in> set (ix_issuances db)" "is_id old = n" using find_issuance_Some [OF old] by simp_all
  have id: "is_id i = n" "is_number i = is_number old" using i(1) o by (simp_all add: amend_shape_def)
  have fi: "find_issuance db (is_id i) = Some old" using old id by simp
  note F = save_issuance_facts [OF D(1) fi id(2)]
  have "amend_shapes (save_issuance i db) = amend_shapes db"
    using arg_cong [OF shapes_saved [OF _ fi i(1)], of set] I(1) by (simp add: amend_shapes_def save_issuance_def fresh_table_def)
  then have am: "amends_ok (amend_shapes (save_issuance i db)) (rel_keys (save_issuance i db))" using D(3) by (simp add: rel_keys_def)
  have rows: "x = i \<or> is_id x \<noteq> is_id i \<and> x \<in> set (ix_issuances db)" if "x \<in> set (ix_issuances (save_issuance i db))" for x
    using that unfolding F(2) by auto
  have reg: "register_ok (save_issuance i db)"
  proof (rule register_okI [OF D(2) supports_same])
    fix x assume "x \<in> set (ix_issuances (save_issuance i db))"
    from rows [OF this] show "x \<in> set (ix_issuances db) \<or> register_row_ok (save_issuance i db) x"
      using i(2-4) by (auto simp: register_row_ok_def)
  qed simp_all
  have lt: "is_id i < ix_nextId (save_issuance i db)" using fresh_less [OF I(1) o(1)] o(2) id(1) by simp
  have "lifecycle_row_ok (history_of db (is_id i)) (is_lifecycle old)" using D(4) o id(1) by (auto simp: lifecycle_ok_def)
  then have "lifecycle_ok (log_lifecycle env (is_id i) (Some (is_lifecycle old)) (is_lifecycle i) reason user (save_issuance i db))"
    using lifecycle_logged [OF D(4) rows _ _ lt, where old = "Some (is_lifecycle old)"] by simp
  then have lc: "lifecycle_ok (log_lifecycle env n (Some (is_lifecycle old)) ''retired'' reason user (save_issuance i db))"
    by (simp add: id i)
  have "assessments_ok (save_issuance i db)" using D(6) by (simp add: assessments_ok_def)
  from issuance_ok_logged [OF F(1) _ am this reg] D(5) lc show ?thesis by simp
qed

lemma erase_ok:
  assumes ok: "issuance_ok db" and free: "\<And>r. r \<in> set (ix_relationships db) \<Longrightarrow> rl_source r \<noteq> n \<and> rl_target r \<noteq> n"
    "\<And>a. a \<in> set (ix_assessments db) \<Longrightarrow> am_issuance a \<noteq> n"
  shows "issuance_ok (erase_issuance n db)"
proof -
  note D = issuance_okD [OF ok] and I = ids_okD [OF issuance_okD(1) [OF ok]]
  have same: "ix_relationships (erase_issuance n db) = ix_relationships db" "ix_assessments (erase_issuance n db) = ix_assessments db"
    using free by (simp_all add: erase_issuance_def filter_id_conv)
  have rows: "set (ix_issuances (erase_issuance n db)) = {i \<in> set (ix_issuances db). is_id i \<noteq> n}" by (simp add: erase_issuance_def)
  have "table_ok is_number (filter (\<lambda>i. is_id i \<noteq> n) (ix_issuances db))" using I(8) by (simp add: table_ok_def distinct_map_filter)
  then have "ids_ok (erase_issuance n db)" using I same by (simp add: ids_ok_def) (simp add: erase_issuance_def fresh_filter)
  moreover have "register_ok (erase_issuance n db)" unfolding register_ok_def
  proof
    fix i assume i: "i \<in> set (ix_issuances (erase_issuance n db))"
    then have "register_row_ok db i" "is_id i \<noteq> n" using D(2) rows by (simp_all add: register_ok_def)
    moreover have "active_domain (erase_issuance n db) = active_domain db" by (auto simp: active_domain_def erase_issuance_def)
    moreover have "has_source (erase_issuance n db) (is_id i) = has_source db (is_id i)"
      using \<open>is_id i \<noteq> n\<close> by (auto simp: has_source_iff erase_issuance_def)
    ultimately show "register_row_ok (erase_issuance n db) i" by (simp add: register_row_ok_def included_ok_def)
  qed
  moreover have "amends_ok (amend_shapes (erase_issuance n db)) (rel_keys (erase_issuance n db))"
  proof -
    have keys: "rel_keys (erase_issuance n db) = rel_keys db" by (simp add: rel_keys_def same)
    have shapes: "amend_shapes (erase_issuance n db) = {x \<in> amend_shapes db. fst x \<noteq> n}"
      unfolding amend_shapes_def rows by (rule shape_others)
    have no: "(s, t, ty) \<in> set (rel_keys db) \<Longrightarrow> s \<noteq> n \<and> t \<noteq> n" for s t ty
      using free(1) by (auto simp: rel_keys_def rel_key_def)
    have "relations_ok (fst ` {x \<in> amend_shapes db. fst x \<noteq> n}) (rel_keys db)"
    proof -
      have r: "relations_ok (fst ` amend_shapes db) (rel_keys db)" using D(3) by (simp add: amends_ok_def)
      have "fst ` {x \<in> amend_shapes db. fst x \<noteq> n} = fst ` amend_shapes db - {n}" by auto
      with r no show ?thesis by (auto simp: relations_ok_def)
    qed
    moreover have "amend_row_ok {x \<in> amend_shapes db. fst x \<noteq> n} (rel_keys db) x" if "x \<in> amend_shapes db" for x
    proof -
      obtain m s am num where x: "x = (m, s, am, num)" by (cases x)
      have row: "amend_row_ok (amend_shapes db) (rel_keys db) (m, s, am, num)" using D(3) that unfolding x amends_ok_def by blast
      show ?thesis
      proof (cases am)
        case True
        with row obtain t tn a b where t: "(t, tn, a, b) \<in> amend_shapes db" "num = Some tn \<or> trimmed num = Some tn"
          "amend_targets (rel_keys db) m = {t}" by auto
        then have "(m, t, ''amends'') \<in> set (rel_keys db)" by (auto simp: amend_targets_def)
        with no have "t \<noteq> n" by blast
        then have "(t, tn, a, b) \<in> {x \<in> amend_shapes db. fst x \<noteq> n}" using t(1) by simp
        with t(2,3) True show ?thesis unfolding x amend_row_ok.simps by auto
      next
        case False
        with row show ?thesis unfolding x by simp
      qed
    qed
    ultimately show ?thesis unfolding keys shapes amends_ok_def by blast
  qed
  moreover have "history_of (erase_issuance n db) m = history_of db m" if "m \<noteq> n" for m
    using that by (auto simp: history_of_def erase_issuance_def intro: filter_cong)
  then have "lifecycle_ok (erase_issuance n db)" using D(4) rows by (auto simp: lifecycle_ok_def) (simp add: erase_issuance_def)
  moreover have "sources_ok (ix_sources (erase_issuance n db))"
    by (rule sources_ok_subset [OF D(5)]) (auto simp: erase_issuance_def)
  moreover have "assessments_ok (erase_issuance n db)" using D(6) by (simp add: assessments_ok_def same) (simp add: erase_issuance_def)
  ultimately show ?thesis by (simp add: issuance_ok_def)
qed

lemma deleteIssuance_ok:
  assumes ok: "issuance_ok db"
  shows "issuance_ok (snd (deleteIssuance env n user db))"
proof (cases "find_issuance db n")
  case None
  with ok show ?thesis by (simp add: deleteIssuance_def)
next
  case (Some old)
  have "issuance_ok (erase_issuance n db)"
    if "count_rows (\<lambda>r. rl_source r = n \<or> rl_target r = n) (ix_relationships db) = 0" "count_rows (\<lambda>a. am_issuance a = n) (ix_assessments db) = 0"
    using that by (intro erase_ok [OF ok]) (auto simp: count_rows_def filter_empty_conv)
  moreover have "issuance_ok (log_lifecycle env n (Some (is_lifecycle old)) ''retired'' reason user
      (save_issuance (old\<lparr>is_lifecycle := ''retired'', is_decision := ''excluded'', is_statusReason := st, is_isActive := False\<rparr>) db))" for reason st
    by (rule retire_ok [OF ok Some]) (simp_all add: amend_shape_def)
  ultimately show ?thesis using ok Some by (simp add: deleteIssuance_def)
qed

section \<open>Relationships\<close>

text \<open>A change of relationships and of the columns that name the amended issuance.\<close>

lemma issuance_ok_relations:
  assumes ok: "issuance_ok db"
    and rows: "ix_issuances db' = map f (ix_issuances db)"
    and f: "\<And>i. is_id (f i) = is_id i" "\<And>i. is_number (f i) = is_number i" "\<And>i. is_lifecycle (f i) = is_lifecycle i"
      "\<And>i. is_decision (f i) = is_decision i" "\<And>i. is_applicability (f i) = is_applicability i" "\<And>i. is_domains (f i) = is_domains i"
      "\<And>i. is_sourceUrl (f i) = is_sourceUrl i" "\<And>i. is_isActive (f i) = is_isActive i"
    and same: "ix_domains db' = ix_domains db" "ix_sources db' = ix_sources db" "ix_history db' = ix_history db"
      "ix_assessments db' = ix_assessments db" "ix_evidence db' = ix_evidence db" "ix_actions db' = ix_actions db" "ix_nextId db \<le> ix_nextId db'"
    and rel: "fresh_table rl_id (ix_relationships db') (ix_nextId db')" "amends_ok (amend_shapes db') (rel_keys db')"
  shows "issuance_ok db'"
proof -
  note D = issuance_okD [OF ok] and I = ids_okD [OF issuance_okD(1) [OF ok]]
  have ids: "fresh_table is_id (ix_issuances db') (ix_nextId db)" unfolding rows by (rule fresh_map [OF f(1) I(1)])
  have num: "table_ok is_number (ix_issuances db')" using I(8) by (simp add: rows table_ok_def comp_def f(2))
  have "ids_ok db'" using num fresh_mono [OF ids same(7)] fresh_mono [OF I(2) same(7)] fresh_mono [OF I(3) same(7)]
      fresh_mono [OF I(5) same(7)] fresh_mono [OF I(6) same(7)] fresh_mono [OF I(7) same(7)] rel(1)
    by (simp add: ids_ok_def same)
  moreover have "register_ok db'" unfolding register_ok_def rows set_map
  proof
    fix j assume "j \<in> f ` set (ix_issuances db)"
    then obtain i where i: "i \<in> set (ix_issuances db)" "j = f i" by blast
    then have "register_row_ok db i" using D(2) by (simp add: register_ok_def)
    then show "register_row_ok db' j"
      unfolding i(2) register_row_ok_def included_ok_def f has_source_def active_domain_def same(1,2) .
  qed
  moreover have "lifecycle_ok db'"
    by (rule lifecycle_same [OF D(4)]) (auto simp: rows f same)
  ultimately show ?thesis using D rel(2) same by (simp add: issuance_ok_def assessments_ok_def)
qed

lemma amend_targets_append:
  "amend_targets (ks @ [(n, t, ty)]) m = amend_targets ks m \<union> (if m = n \<and> ty = ''amends'' then {t} else {})"
  by (auto simp: amend_targets_def)

text \<open>The rows after \<open>set_amendment\<close>.\<close>

definition amended_row :: "nat \<Rightarrow> bool \<Rightarrow> string option \<Rightarrow> string option \<Rightarrow> issuance \<Rightarrow> issuance" where
  "amended_row n a num notes i = (if is_id i = n then i\<lparr>is_isAmendment := a, is_amendedNumber := num, is_amendmentNotes := notes\<rparr> else i)"

lemma amended_row_columns [simp]:
  "is_id (amended_row n a num notes i) = is_id i" "is_number (amended_row n a num notes i) = is_number i"
  "is_lifecycle (amended_row n a num notes i) = is_lifecycle i" "is_decision (amended_row n a num notes i) = is_decision i"
  "is_applicability (amended_row n a num notes i) = is_applicability i" "is_domains (amended_row n a num notes i) = is_domains i"
  "is_sourceUrl (amended_row n a num notes i) = is_sourceUrl i" "is_isActive (amended_row n a num notes i) = is_isActive i"
  by (simp_all add: amended_row_def)

lemma set_amendment_eq: "set_amendment n a num notes db = db\<lparr>ix_issuances := map (amended_row n a num notes) (ix_issuances db)\<rparr>"
  by (simp add: set_amendment_def amended_row_def [abs_def])

lemma amended_shape:
  "amend_shape (amended_row n a num notes i) = (if is_id i = n then (n, is_number i, a, num) else amend_shape i)"
  by (simp add: amended_row_def amend_shape_def)

lemma amend_row_okI:
  "(t, tn, a, b) \<in> S \<Longrightarrow> num = Some tn \<Longrightarrow> amend_targets ks n = {t} \<Longrightarrow> amend_row_ok S ks (n, s, True, num)"
  by auto

text \<open>The relationships of all other issuances keep their amendments.\<close>

lemma amends_set_amendment:
  assumes ok: "amends_ok (amend_shapes db) ks" and rel: "relations_ok (fst ` amend_shapes db) ks'"
    and others: "\<And>m. m \<noteq> n \<Longrightarrow> amend_targets ks' m = amend_targets ks m"
    and this_one: "if a then \<exists>t \<in> set (ix_issuances db). num = Some (is_number t) \<and> amend_targets ks' n = {is_id t}
      else amend_targets ks' n = {}"
  shows "amends_ok (amend_shape ` amended_row n a num notes ` set (ix_issuances db)) ks'"
proof -
  let ?S = "amend_shape ` amended_row n a num notes ` set (ix_issuances db)"
  have name: "\<exists>a b. (is_id x, is_number x, a, b) \<in> ?S" if "x \<in> set (ix_issuances db)" for x
    using imageI [OF imageI [OF that], of amend_shape "amended_row n a num notes"]
    unfolding amended_shape by (cases "is_id x = n") (auto simp: amend_shape_def)
  show ?thesis
  proof (rule amends_replace [OF ok, where n = n])
    have "fst ` ?S = fst ` amend_shapes db" by (force simp: amend_shapes_def image_image amended_shape amend_shape_def)
    with rel show "relations_ok (fst ` ?S) ks'" by simp
    show "\<exists>a b. (t, tn, a, b) \<in> ?S" if "(t, tn, a, b) \<in> amend_shapes db" for t tn a b
      using that name by (auto simp: amend_shapes_def amend_shape_def)
    fix x assume "x \<in> ?S"
    then obtain i where i: "i \<in> set (ix_issuances db)" "x = (if is_id i = n then (n, is_number i, a, num) else amend_shape i)"
      by (auto simp: amended_shape)
    show "x \<in> amend_shapes db" if "fst x \<noteq> n" using that i by (auto simp: amend_shapes_def amend_shape_def split: if_splits)
    show "amend_row_ok ?S ks' x" if "fst x = n"
    proof -
      from that i have x: "x = (n, is_number i, a, num)" by (auto simp: amend_shape_def split: if_splits)
      show ?thesis
      proof (cases a)
        case True
        with this_one obtain t where t: "t \<in> set (ix_issuances db)" "num = Some (is_number t)" "amend_targets ks' n = {is_id t}" by auto
        from name [OF t(1)] obtain u v where "(is_id t, is_number t, u, v) \<in> ?S" by blast
        from amend_row_okI [OF this t(2,3)] True show ?thesis unfolding x by simp
      qed (use this_one in \<open>simp add: x\<close>)
    qed
  qed (rule others)
qed

lemma amends_same:
  assumes "amends_ok S ks" "relations_ok (fst ` S) ks'" "\<And>m. amend_targets ks' m = amend_targets ks m"
  shows "amends_ok S ks'"
proof -
  have "amend_row_ok S ks' x = amend_row_ok S ks x" for x by (cases x) (simp add: assms(3))
  with assms(1,2) show ?thesis by (simp add: amends_ok_def)
qed

lemma addRelationship_ok:
  assumes ok: "issuance_ok db"
  shows "issuance_ok (snd (addRelationship n t ty notes user db))"
proof -
  note D = issuance_okD [OF ok] and I = ids_okD [OF issuance_okD(1) [OF ok]]
  define r where "r = \<lparr>rl_id = ix_nextId db, rl_source = n, rl_target = t, rl_type = ty, rl_notes = trimmed notes, rl_createdBy = actor_id user\<rparr>"
  define db1 where "db1 = db\<lparr>ix_relationships := ix_relationships db @ [r], ix_nextId := ix_nextId db + 1\<rparr>"
  define num where "num = map_option is_number (find_issuance db t)"
  have eq: "snd (addRelationship n t ty notes user db) = db
    \<or> snd (addRelationship n t ty notes user db) = (if ty = ''amends'' then set_amendment n True num (trimmed notes) db1 else db1)
      \<and> n \<noteq> t \<and> find_issuance db n \<noteq> None \<and> find_issuance db t \<noteq> None
      \<and> (ty = ''amends'' \<longrightarrow> \<not> list_ex (\<lambda>q. rl_target q \<noteq> t) (amends_of db n))
      \<and> \<not> list_ex (\<lambda>q. rl_source q = n \<and> rl_target q = t \<and> rl_type q = ty) (ix_relationships db)"
    unfolding addRelationship_def Let_def r_def [symmetric] db1_def [symmetric] num_def
    by (split option.split) (auto simp: guard_simps simp del: first_error.simps)
  show ?thesis
  proof (cases "snd (addRelationship n t ty notes user db) = db")
    case False
    with eq obtain u v where e: "snd (addRelationship n t ty notes user db)
          = (if ty = ''amends'' then set_amendment n True num (trimmed notes) db1 else db1)"
      and uv: "n \<noteq> t" "find_issuance db n = Some v" "find_issuance db t = Some u"
      and only: "ty = ''amends'' \<Longrightarrow> \<not> list_ex (\<lambda>q. rl_target q \<noteq> t) (amends_of db n)"
      and new: "\<not> list_ex (\<lambda>q. rl_source q = n \<and> rl_target q = t \<and> rl_type q = ty) (ix_relationships db)" by blast
    have mem: "u \<in> set (ix_issuances db)" "is_id u = t" "v \<in> set (ix_issuances db)" "is_id v = n"
      using find_issuance_Some [OF uv(2)] find_issuance_Some [OF uv(3)] by simp_all
    have ids: "t \<in> fst ` amend_shapes db" "n \<in> fst ` amend_shapes db"
      using imageI [OF imageI [OF mem(1)], of fst amend_shape] imageI [OF imageI [OF mem(3)], of fst amend_shape] mem(2,4)
      by (simp_all add: amend_shapes_def amend_shape_def)
    define ks where "ks = rel_keys db @ [(n, t, ty)]"
    have keys: "rel_keys db1 = ks" by (simp add: ks_def db1_def rel_keys_def rel_key_def r_def)
    have "(n, t, ty) \<notin> set (rel_keys db)" using new by (auto simp: rel_keys_def rel_key_def list_ex_iff)
    then have rel: "relations_ok (fst ` amend_shapes db) ks"
      using D(3) ids uv(1) by (auto simp: amends_ok_def relations_ok_def ks_def)
    have fr: "fresh_table rl_id (ix_relationships db @ [r]) (Suc (ix_nextId db))"
      by (rule fresh_append [OF I(4)]) (simp add: r_def)
    show ?thesis
    proof (cases "ty = ''amends''")
      case True
      have "amend_targets ks n = {t}"
      proof -
        have "s = t" if "(n, s, ''amends'') \<in> set (rel_keys db)" for s
          using only [OF True] that by (auto simp: list_ex_iff amends_of_def rel_keys_def rel_key_def)
        then show ?thesis using True by (auto simp: ks_def amend_targets_append) (auto simp: amend_targets_def)
      qed
      moreover have "num = Some (is_number u)" by (simp add: num_def uv(3))
      ultimately have "amends_ok (amend_shape ` amended_row n True num (trimmed notes) ` set (ix_issuances db)) ks"
        using mem by (intro amends_set_amendment [OF D(3) rel]) (auto simp: ks_def amend_targets_append)
      then have "issuance_ok (set_amendment n True num (trimmed notes) db1)"
        using fr keys unfolding set_amendment_eq
        by (intro issuance_ok_relations [OF ok, where f = "amended_row n True num (trimmed notes)"])
          (simp_all add: db1_def amend_shapes_def rel_keys_def)
      with e True show ?thesis by simp
    next
      case False
      then have "amend_targets ks m = amend_targets (rel_keys db) m" for m by (simp add: ks_def amend_targets_append)
      with rel have "amends_ok (amend_shapes db) ks"
        by (intro amends_same [OF D(3)])
      then have "issuance_ok db1" using fr keys
        by (intro issuance_ok_relations [OF ok, where f = "\<lambda>i. i"]) (simp_all add: db1_def amend_shapes_def rel_keys_def)
      with e False show ?thesis by simp
    qed
  qed (use ok in simp)
qed

lemma removed_keys:
  assumes "distinct (map rel_key rs)" "fresh_table rl_id rs m" "r \<in> set rs"
  shows "set (map rel_key (filter (\<lambda>q. rl_id q \<noteq> rl_id r) rs)) = set (map rel_key rs) - {rel_key r}"
proof -
  have "rl_id q = rl_id r \<longleftrightarrow> q = r" if "q \<in> set rs" for q using fresh_unique [OF assms(2) that assms(3)] by blast
  then have "set (filter (\<lambda>q. rl_id q \<noteq> rl_id r) rs) = set rs - {r}" by auto
  moreover have "inj_on rel_key (set rs)" using assms(1) by (simp add: distinct_map)
  from inj_on_image_set_diff [OF this, of "set rs" "{r}"] assms(3) have "rel_key ` (set rs - {r}) = rel_key ` set rs - {rel_key r}" by simp
  ultimately show ?thesis by (simp only: set_map)
qed

lemma removeRelationship_ok:
  assumes ok: "issuance_ok db"
  shows "issuance_ok (snd (removeRelationship n k db))"
proof (cases "List.find (\<lambda>r. rl_id r = k \<and> rl_source r = n) (ix_relationships db)")
  case None
  with ok show ?thesis by (simp add: removeRelationship_def)
next
  case (Some r)
  note D = issuance_okD [OF ok] and I = ids_okD [OF issuance_okD(1) [OF ok]]
  have r: "r \<in> set (ix_relationships db)" "rl_id r = k" "rl_source r = n" using find_SomeD [OF Some] by simp_all
  define rs where "rs = filter (\<lambda>q. rl_id q \<noteq> k) (ix_relationships db)"
  define db1 where "db1 = db\<lparr>ix_relationships := rs\<rparr>"
  define ks where "ks = map rel_key rs"
  have R: "relations_ok (fst ` amend_shapes db) (rel_keys db)" using D(3) by (simp add: amends_ok_def)
  then have dist: "distinct (map rel_key (ix_relationships db))" by (simp add: relations_ok_def rel_keys_def)
  have keys: "set ks = set (rel_keys db) - {(n, rl_target r, rl_type r)}"
    using removed_keys [OF dist I(4) r(1)] r(2,3) by (simp add: ks_def rs_def rel_keys_def rel_key_def)
  have "distinct ks" using dist by (simp add: ks_def rs_def distinct_map_filter)
  with keys R have rel: "relations_ok (fst ` amend_shapes db) ks" by (auto simp: relations_ok_def)
  have fr: "fresh_table rl_id rs (ix_nextId db)" unfolding rs_def by (rule fresh_filter [OF I(4)])
  have eq: "snd (removeRelationship n k db) = (if rl_type r = ''amends'' then set_amendment n False None None db1 else db1)"
    using Some by (simp add: removeRelationship_def db1_def rs_def Let_def)
  have nth: "amend_targets ks m = amend_targets (rel_keys db) m - (if m = n \<and> rl_type r = ''amends'' then {rl_target r} else {})" for m
    unfolding amend_targets_def keys by auto
  show ?thesis
  proof (cases "rl_type r = ''amends''")
    case True
    have "rel_key r \<in> set (rel_keys db)" using r(1) by (simp add: rel_keys_def)
    then have tgt: "rl_target r \<in> amend_targets (rel_keys db) n" using r(3) True by (simp add: amend_targets_def rel_key_def)
    then have "(n, rl_target r, ''amends'') \<in> set (rel_keys db)" by (simp add: amend_targets_def)
    with R have "n \<in> fst ` amend_shapes db" unfolding relations_ok_def by blast
    then obtain v where v: "v \<in> set (ix_issuances db)" "is_id v = n" by (auto simp: amend_shapes_def amend_shape_def)
    then have "amend_row_ok (amend_shapes db) (rel_keys db) (amend_shape v)" using D(3) by (auto simp: amends_ok_def amend_shapes_def)
    with tgt have "amend_targets (rel_keys db) n = {rl_target r}" using v(2) by (auto simp: amend_shape_def split: if_splits)
    then have none: "amend_targets ks n = {}" using True by (simp add: nth)
    have "amends_ok (amend_shape ` amended_row n False None None ` set (ix_issuances db)) ks"
      by (rule amends_set_amendment [OF D(3) rel]) (use none in \<open>simp_all add: nth\<close>)
    then have "issuance_ok (set_amendment n False None None db1)"
      using fr unfolding set_amendment_eq
      by (intro issuance_ok_relations [OF ok, where f = "amended_row n False None None"])
        (simp_all add: db1_def amend_shapes_def rel_keys_def ks_def)
    with eq True show ?thesis by simp
  next
    case False
    have "amends_ok (amend_shapes db) ks" by (rule amends_same [OF D(3) rel]) (simp add: nth False)
    then have "issuance_ok db1" using fr
      by (intro issuance_ok_relations [OF ok, where f = "\<lambda>i. i"]) (simp_all add: db1_def amend_shapes_def rel_keys_def ks_def)
    with eq False show ?thesis by simp
  qed
qed

section \<open>Domains\<close>

lemma createDomain_ok:
  assumes ok: "issuance_ok db"
  shows "issuance_ok (snd (createDomain code name description so db))"
proof -
  note D = issuance_okD [OF ok] and I = ids_okD [OF issuance_okD(1) [OF ok]]
  have "issuance_ok (db\<lparr>ix_domains := ix_domains db @ [d], ix_nextId := Suc (ix_nextId db)\<rparr>)" (is "issuance_ok ?db")
    if d: "dm_id d = ix_nextId db" for d
  proof (rule issuance_ok_sources [OF ok])
    show "map dm_id (ix_domains ?db) = map dm_id (ix_domains db) \<or> fresh_table dm_id (ix_domains ?db) (ix_nextId ?db)"
      using fresh_append [OF I(2) d] by simp
    show "register_ok ?db"
      by (rule register_okI [OF D(2)]) (auto simp: supports_def active_domain_def has_source_def)
  qed (use fresh_Suc [OF I(3)] D(5) in simp_all)
  then show ?thesis using ok by (simp add: createDomain_def Let_def)
qed

lemma updateDomain_ok:
  assumes ok: "issuance_ok db"
  shows "issuance_ok (snd (updateDomain n dto db))"
proof (cases "find_row dm_id (ix_domains db) n")
  case None
  with ok show ?thesis by (simp add: updateDomain_def)
next
  case (Some d)
  note D = issuance_okD [OF ok] and I = ids_okD [OF issuance_okD(1) [OF ok]]
  have d: "d \<in> set (ix_domains db)" "dm_id d = n" using find_row_Some [OF Some] by simp_all
  define d' where "d' = d\<lparr>dm_name := given (map_option trim (du_name dto)) (dm_name d),
    dm_description := (if du_description dto = None then dm_description d else trimmed (du_description dto)),
    dm_sortOrder := given (du_sortOrder dto) (dm_sortOrder d), dm_isActive := given (du_isActive dto) (dm_isActive d)\<rparr>"
  define db' where "db' = db\<lparr>ix_domains := save_row dm_id (ix_domains db) d'\<rparr>"
  have eq: "snd (updateDomain n dto db)
      = (if du_isActive dto = Some False \<and> dm_isActive d \<and> count_rows (depends_on_domain db n) (ix_issuances db) \<noteq> 0 then db else db')"
    by (simp add: updateDomain_def Let_def db'_def d'_def Some)
  have d': "dm_id d' = n" "dm_isActive d' = given (du_isActive dto) (dm_isActive d)" using d by (simp_all add: d'_def)
  have doms: "set (ix_domains db') = insert d' {x \<in> set (ix_domains db). dm_id x \<noteq> n}"
    using fresh_set_save [OF I(2), of d'] d' by (simp add: db'_def)
  have other: "active_domain db' m = active_domain db m" if "m \<noteq> n" for m
    using that d' doms by (auto simp: active_domain_def list_ex_iff)
  have uniq: "x = d" if "x \<in> set (ix_domains db)" "dm_id x = n" for x
    by (rule fresh_unique [OF I(2) that(1) d(1)]) (simp add: that d)
  have here: "active_domain db n = dm_isActive d" unfolding active_domain_def list_ex_iff using uniq d by blast
  have here': "active_domain db' n = dm_isActive d'" unfolding active_domain_def list_ex_iff doms using d' by auto
  have "issuance_ok db'" if free: "\<not> (du_isActive dto = Some False \<and> dm_isActive d \<and> count_rows (depends_on_domain db n) (ix_issuances db) \<noteq> 0)"
  proof (rule issuance_ok_sources [OF ok])
    have "fresh_table dm_id (save_row dm_id (ix_domains db) d') (ix_nextId db)"
      using fresh_less [OF I(2) d(1)] d d' by (intro fresh_save_same [OF I(2)]) simp
    then show "map dm_id (ix_domains db') = map dm_id (ix_domains db) \<or> fresh_table dm_id (ix_domains db') (ix_nextId db')"
      by (simp add: db'_def)
    show "register_ok db'" unfolding register_ok_def
    proof
      fix i assume "i \<in> set (ix_issuances db')"
      then have i: "i \<in> set (ix_issuances db)" by (simp add: db'_def)
      with D(2) have row: "register_row_ok db i" by (simp add: register_ok_def)
      have src: "has_source db' = has_source db" by (auto simp: has_source_def db'_def)
      have "list_ex (active_domain db') (is_domains i)" if inc: "is_decision i = ''included''"
      proof (cases "dm_isActive d \<longrightarrow> dm_isActive d'")
        case True
        with other here here' have "active_domain db m \<Longrightarrow> active_domain db' m" for m by (cases "m = n") auto
        with row inc show ?thesis by (auto simp: register_row_ok_def included_ok_def list_ex_iff)
      next
        case False
        then have "du_isActive dto = Some False" "dm_isActive d" using d'(2) by (auto simp: given_def split: option.splits)
        with free i have "\<not> depends_on_domain db n i" by (auto simp: count_rows_def filter_empty_conv)
        moreover have "list_ex (active_domain db) (is_domains i)" using row inc by (simp add: register_row_ok_def included_ok_def)
        ultimately obtain m where "m \<in> set (is_domains i)" "m \<noteq> n" "active_domain db m"
          using inc unfolding depends_on_domain_def list_ex_iff by blast
        then show ?thesis using other unfolding list_ex_iff by blast
      qed
      with row show "register_row_ok db' i" by (simp add: register_row_ok_def included_ok_def src)
    qed
  qed (use I(3) D(5) in \<open>simp_all add: db'_def\<close>)
  with eq ok show ?thesis by auto
qed

section \<open>Register decisions\<close>

lemma decideRegisterInclusion_ok:
  assumes ok: "issuance_ok db"
  shows "issuance_ok (snd (decideRegisterInclusion env n include reason applicability domainIds user db))"
proof (cases "find_issuance db n")
  case None
  with ok show ?thesis by (simp add: decideRegisterInclusion_def)
next
  case (Some old)
  note D = issuance_okD [OF ok] and I = ids_okD [OF issuance_okD(1) [OF ok]]
  let ?choice = "if include then ''included'' else ''excluded''" and ?text = "trim (or_empty reason)"
  define i where "i = (\<lambda>domains. old\<lparr>is_applicability := text_or applicability (is_applicability old), is_domains := domains,
    is_decision := ?choice, is_statusReason := Some ?text\<rparr>)"
  define failure where "failure = (\<lambda>domains. inclusion_error (is_lifecycle old) (text_or applicability (is_applicability old))
    (list_ex (active_domain db) domains) (has_source db n \<or> truthy_text (is_sourceUrl old)))"
  define db' where "db' = (\<lambda>domains. settle_recommendations env n include ?text user ((save_issuance (i domains) db)
    \<lparr>ix_decisions := ix_decisions db @ [\<lparr>rg_issuance = n, rg_decision = ?choice,
        rg_applicability = is_applicability (i domains), rg_reason = ?text, rg_decidedBy = actor_id user\<rparr>]\<rparr>))"
  define r where "r = (if domainIds = None then Inr (is_domains old) else resolveDomains db domainIds (is_domains old))"
  have cases: "snd (decideRegisterInclusion env n include reason applicability domainIds user db) = db
    \<or> (\<exists>domains. snd (decideRegisterInclusion env n include reason applicability domainIds user db) = db' domains
        \<and> (include \<longrightarrow> failure domains = None))"
  proof (cases r)
    case (Inl e)
    then show ?thesis using Some by (simp add: decideRegisterInclusion_def Let_def r_def [symmetric])
  next
    case (Inr domains)
    have "snd (decideRegisterInclusion env n include reason applicability domainIds user db) = db
      \<or> snd (decideRegisterInclusion env n include reason applicability domainIds user db) = db' domains
        \<and> (include \<longrightarrow> failure domains = None)"
      using Some Inr unfolding decideRegisterInclusion_def Let_def failure_def db'_def i_def
      by (simp add: r_def [symmetric] save_issuance_def)
    then show ?thesis by blast
  qed
  have o: "old \<in> set (ix_issuances db)" "is_id old = n" using find_issuance_Some [OF Some] by simp_all
  have "issuance_ok (db' domains)" if f: "include \<Longrightarrow> failure domains = None" for domains
  proof (rule issuance_ok_sources [OF ok])
    have id: "is_id (i domains) = n" "is_number (i domains) = is_number old" using o by (simp_all add: i_def)
    then have fi: "find_issuance db (is_id (i domains)) = Some old" using Some by simp
    have "map row_shape (save_row is_id (ix_issuances db) (i domains)) = map row_shape (ix_issuances db)"
      using fi I(1) by (intro map_save_row_same [where e = old])
        (simp_all add: find_issuance_def fresh_table_def row_shape_def amend_shape_def i_def)
    then show "map row_shape (ix_issuances (db' domains)) = map row_shape (ix_issuances db)"
      by (simp add: db'_def settle_recommendations_def save_issuance_def)
    show "register_ok (db' domains)"
    proof (rule register_okI [OF D(2) supports_same])
      fix x assume "x \<in> set (ix_issuances (db' domains))"
      then have "x = i domains \<or> x \<in> set (ix_issuances db)"
        using set_save_row_subset [of is_id "ix_issuances db" "i domains"]
        by (auto simp: db'_def settle_recommendations_def save_issuance_def)
      moreover have "register_row_ok (db' domains) (i domains)"
      proof -
        have "register_row_ok db old" using D(2) o(1) by (simp add: register_ok_def)
        moreover have "active_domain (db' domains) = active_domain db" "has_source (db' domains) = has_source db"
          by (auto simp: db'_def settle_recommendations_def active_domain_def has_source_def)
        ultimately show ?thesis using f o(2)
          by (auto simp: register_row_ok_def included_ok_def i_def failure_def inclusion_error_None)
      qed
      ultimately show "x \<in> set (ix_issuances db) \<or> register_row_ok (db' domains) x" by blast
    qed (simp_all add: db'_def settle_recommendations_def)
  qed (use I(3) D(5) in \<open>simp_all add: db'_def settle_recommendations_def\<close>)
  with cases ok show ?thesis by auto
qed

section \<open>Assessments\<close>

lemma saveAssessment_ok:
  assumes ok: "issuance_ok db"
  shows "issuance_ok (snd (saveAssessment env n dto user db))"
proof -
  note D = issuance_okD [OF ok] and I = ids_okD [OF issuance_okD(1) [OF ok]]
  define found where "found = List.find (\<lambda>a. am_issuance a = n \<and> am_year a = ad_year dto \<and> am_quarter a = ad_quarter dto) (ix_assessments db)"
  define a where "a = \<lparr>am_id = given (map_option am_id found) (ix_nextId db), am_issuance = n, am_year = ad_year dto, am_quarter = ad_quarter dto,
    am_status = text_or (Some (ad_status dto)) ''not_assessed'', am_evidenceSummary = trimmed (ad_evidence dto),
    am_gapSummary = trimmed (ad_gap dto), am_readiness = trimmed (ad_readiness dto), am_assessedBy = actor_id user,
    am_assessedAt = xe_now env\<rparr>"
  define as where "as = save_row am_id (ix_assessments db) a"
  define m where "m = (if found = None then ix_nextId db + 1 else ix_nextId db)"
  define db' where "db' = db\<lparr>ix_assessments := as, ix_nextId := m\<rparr>"
  have cases: "snd (saveAssessment env n dto user db) = db \<or> snd (saveAssessment env n dto user db) = db'
      \<and> 2000 \<le> ad_year dto \<and> ad_year dto \<le> 2200 \<and> given (map_option (\<lambda>q. 1 \<le> q \<and> q \<le> 4) (ad_quarter dto)) True"
    unfolding saveAssessment_def Let_def db'_def as_def m_def a_def found_def [symmetric]
    by (split option.split) (auto simp: guard_simps given_def simp del: first_error.simps split: option.splits)
  have key: "assessment_key a = (n, ad_year dto, ad_quarter dto)" by (simp add: a_def assessment_key_def)
  have st: "fresh_table am_id as m \<and> distinct (map assessment_key as) \<and> am_id ` set (ix_assessments db) \<subseteq> am_id ` set as"
  proof (cases found)
    case None
    then have id: "am_id a = ix_nextId db" "m = Suc (ix_nextId db)" by (simp_all add: a_def m_def)
    then have as: "as = ix_assessments db @ [a]" using save_row_new [of am_id a "ix_assessments db"] fresh_notin [OF I(5)] by (simp add: as_def)
    have "assessment_key a \<notin> set (map assessment_key (ix_assessments db))"
      using None unfolding key by (auto simp: found_def find_None_iff assessment_key_def)
    then show ?thesis using fresh_append [OF I(5) id(1)] D(6) by (simp add: as id(2) assessments_ok_def) blast
  next
    case (Some e)
    then have e: "e \<in> set (ix_assessments db)" "assessment_key e = assessment_key a"
      using find_SomeD [of _ "ix_assessments db" e] unfolding key by (auto simp: found_def assessment_key_def)
    have id: "am_id a = am_id e" "m = ix_nextId db" using Some by (simp_all add: a_def m_def)
    have "find_row am_id (ix_assessments db) (am_id a) = Some e"
      using I(5) e(1) id by (simp add: fresh_table_def find_row_table_ok)
    then have "map assessment_key as = map assessment_key (ix_assessments db)" "map am_id as = map am_id (ix_assessments db)"
      unfolding as_def using I(5) e(2) id by (auto simp: fresh_table_def intro!: map_save_row_same)
    moreover have "fresh_table am_id as m" unfolding as_def id(2)
      by (rule fresh_save_same [OF I(5)]) (use fresh_less [OF I(5) e(1)] id in simp)
    ultimately show ?thesis using D(6) by (simp add: assessments_ok_def) (metis list.set_map order_refl)
  qed
  have "issuance_ok db'" if y: "2000 \<le> ad_year dto" "ad_year dto \<le> 2200" "given (map_option (\<lambda>q. 1 \<le> q \<and> q \<le> 4) (ad_quarter dto)) True"
  proof (rule issuance_ok_work [OF ok])
    have le: "ix_nextId db \<le> m" by (simp add: m_def)
    then show "fresh_table ie_id (ix_evidence db') (ix_nextId db')" "fresh_table ra_id (ix_actions db') (ix_nextId db')"
      using fresh_mono [OF I(6)] fresh_mono [OF I(7)] by (simp_all add: db'_def)
    have mem: "x = a \<or> x \<in> set (ix_assessments db)" if "x \<in> set as" for x
      using that set_save_row_subset [of am_id "ix_assessments db" a] by (auto simp: as_def)
    have cols: "am_year a = ad_year dto" "am_quarter a = ad_quarter dto" by (simp_all add: a_def)
    have "2000 \<le> am_year x \<and> am_year x \<le> 2200 \<and> given (map_option (\<lambda>q. 1 \<le> q \<and> q \<le> 4) (am_quarter x)) True" if "x \<in> set as" for x
      using mem [OF that] y D(6) unfolding assessments_ok_def by (elim disjE) (simp_all add: cols)
    with st D(6) show "assessments_ok db'" unfolding assessments_ok_def by (simp add: db'_def) blast
  qed (use st in \<open>simp_all add: db'_def m_def\<close>)
  with cases ok show ?thesis by auto
qed

lemma assessment_of_mem: "assessment_of db n a \<noteq> None \<Longrightarrow> a \<in> am_id ` set (ix_assessments db)"
  by (auto simp: assessment_of_def dest: find_SomeD)

lemma blank_trimmed: "trimmed s = None \<longleftrightarrow> blank s"
  by (auto simp: trimmed_def blank_def split: option.splits)

text \<open>A change of evidence or corrective actions of existing assessments.\<close>

lemma issuance_ok_notes:
  assumes ok: "issuance_ok db"
    and same: "ix_issuances db' = ix_issuances db" "ix_domains db' = ix_domains db" "ix_sources db' = ix_sources db"
      "ix_relationships db' = ix_relationships db" "ix_history db' = ix_history db" "ix_assessments db' = ix_assessments db"
      "ix_nextId db \<le> ix_nextId db'"
    and ids: "fresh_table ie_id (ix_evidence db') (ix_nextId db')" "fresh_table ra_id (ix_actions db') (ix_nextId db')"
    and ev: "\<And>e. e \<in> set (ix_evidence db') \<Longrightarrow> e \<in> set (ix_evidence db)
      \<or> ie_assessment e \<in> am_id ` set (ix_assessments db) \<and> (ie_url e \<noteq> None \<or> ie_document e \<noteq> None)"
    and ac: "\<And>x. x \<in> set (ix_actions db') \<Longrightarrow> x \<in> set (ix_actions db)
      \<or> ra_assessment x \<in> am_id ` set (ix_assessments db) \<and> (ra_status x = ''completed'' \<longleftrightarrow> ra_completedAt x \<noteq> None)"
  shows "issuance_ok db'"
proof (rule issuance_ok_work [OF ok same(1-5) same(7)])
  note D = issuance_okD [OF ok] and I = ids_okD [OF issuance_okD(1) [OF ok]]
  show "fresh_table am_id (ix_assessments db') (ix_nextId db')" using fresh_mono [OF I(5) same(7)] same(6) by simp
  show "assessments_ok db'" unfolding assessments_ok_def same(6)
  proof (intro conjI ballI)
    fix e assume "e \<in> set (ix_evidence db')"
    from ev [OF this] D(6) show "ie_assessment e \<in> am_id ` set (ix_assessments db)" "ie_url e \<noteq> None \<or> ie_document e \<noteq> None"
      unfolding assessments_ok_def by blast+
  next
    fix x assume "x \<in> set (ix_actions db')"
    from ac [OF this] D(6) show "ra_assessment x \<in> am_id ` set (ix_assessments db)" "(ra_status x = ''completed'') = (ra_completedAt x \<noteq> None)"
      unfolding assessments_ok_def by blast+
  qed (use D(6) in \<open>simp_all add: assessments_ok_def\<close>)
qed (rule ids)+

lemma addAssessmentEvidence_ok:
  assumes ok: "issuance_ok db"
  shows "issuance_ok (snd (addAssessmentEvidence n a dto user db))"
proof -
  note I = ids_okD [OF issuance_okD(1) [OF ok]]
  define e where "e = \<lparr>ie_id = ix_nextId db, ie_assessment = a, ie_label = trim (or_empty (ed_label dto)), ie_url = trimmed (ed_url dto),
    ie_document = ed_document dto, ie_version = ed_version dto, ie_createdBy = actor_id user\<rparr>"
  define db' where "db' = db\<lparr>ix_evidence := ix_evidence db @ [e], ix_nextId := ix_nextId db + 1\<rparr>"
  have cases: "snd (addAssessmentEvidence n a dto user db) = db \<or> snd (addAssessmentEvidence n a dto user db) = db'
      \<and> assessment_of db n a \<noteq> None \<and> \<not> (blank (ed_url dto) \<and> ed_document dto = None)"
    unfolding addAssessmentEvidence_def Let_def db'_def e_def
    by (split option.split) (auto simp: guard_simps simp del: first_error.simps)
  have "issuance_ok db'" if g: "assessment_of db n a \<noteq> None" "\<not> (blank (ed_url dto) \<and> ed_document dto = None)"
  proof (rule issuance_ok_notes [OF ok])
    fix f assume "f \<in> set (ix_evidence db')"
    then show "f \<in> set (ix_evidence db)
      \<or> ie_assessment f \<in> am_id ` set (ix_assessments db) \<and> (ie_url f \<noteq> None \<or> ie_document f \<noteq> None)"
      using assessment_of_mem [OF g(1)] g(2) by (auto simp: db'_def e_def blank_trimmed simp flip: not_None_eq)
  qed (use fresh_append [OF I(6), of e] fresh_Suc [OF I(7)] in \<open>simp_all add: db'_def e_def\<close>)
  with cases ok show ?thesis by auto
qed

lemma removeAssessmentEvidence_ok:
  assumes ok: "issuance_ok db"
  shows "issuance_ok (snd (removeAssessmentEvidence n a k db))"
proof -
  note I = ids_okD [OF issuance_okD(1) [OF ok]]
  have "issuance_ok (db\<lparr>ix_evidence := filter (\<lambda>e. ie_id e \<noteq> k) (ix_evidence db)\<rparr>)"
    by (rule issuance_ok_notes [OF ok]) (use I(6,7) in \<open>auto simp: fresh_filter\<close>)
  with ok show ?thesis by (simp add: removeAssessmentEvidence_def)
qed

lemma addRemediationAction_ok:
  assumes ok: "issuance_ok db"
  shows "issuance_ok (snd (addRemediationAction env n a dto db))"
proof -
  note I = ids_okD [OF issuance_okD(1) [OF ok]]
  let ?status = "text_or (ac_status dto) ''open''"
  define x where "x = \<lparr>ra_id = ix_nextId db, ra_assessment = a, ra_action = trim (or_empty (ac_action dto)), ra_owner = trimmed (ac_owner dto),
    ra_targetDate = nonempty_text (ac_targetDate dto), ra_status = ?status,
    ra_completedAt = (if ?status = ''completed'' then Some (xe_now env) else None)\<rparr>"
  define db' where "db' = db\<lparr>ix_actions := ix_actions db @ [x], ix_nextId := ix_nextId db + 1\<rparr>"
  have cases: "snd (addRemediationAction env n a dto db) = db \<or> snd (addRemediationAction env n a dto db) = db' \<and> assessment_of db n a \<noteq> None"
    unfolding addRemediationAction_def Let_def db'_def x_def
    by (split option.split) (auto simp: guard_simps simp del: first_error.simps)
  have "issuance_ok db'" if g: "assessment_of db n a \<noteq> None"
  proof (rule issuance_ok_notes [OF ok])
    fix y assume "y \<in> set (ix_actions db')"
    then show "y \<in> set (ix_actions db)
      \<or> ra_assessment y \<in> am_id ` set (ix_assessments db) \<and> (ra_status y = ''completed'' \<longleftrightarrow> ra_completedAt y \<noteq> None)"
      using assessment_of_mem [OF g] by (auto simp: db'_def x_def split: if_splits)
  qed (use fresh_append [OF I(7), of x] fresh_Suc [OF I(6)] in \<open>simp_all add: db'_def x_def\<close>)
  with cases ok show ?thesis by auto
qed

lemma updateRemediationAction_ok:
  assumes ok: "issuance_ok db"
  shows "issuance_ok (snd (updateRemediationAction env n a k dto db))"
proof (cases "List.find (\<lambda>x. ra_id x = k \<and> ra_assessment x = a) (ix_actions db)")
  case None
  with ok show ?thesis by (simp add: updateRemediationAction_def)
next
  case (Some x)
  note D = issuance_okD [OF ok] and I = ids_okD [OF issuance_okD(1) [OF ok]]
  have x: "x \<in> set (ix_actions db)" using find_SomeD [OF Some] by simp
  define y where "y = updated_action env dto x"
  define db' where "db' = db\<lparr>ix_actions := save_row ra_id (ix_actions db) y\<rparr>"
  have cases: "snd (updateRemediationAction env n a k dto db) = db \<or> snd (updateRemediationAction env n a k dto db) = db'"
    using Some unfolding updateRemediationAction_def db'_def y_def by (simp del: first_error.simps split: option.split)
  have old: "ra_assessment x \<in> am_id ` set (ix_assessments db)" "(ra_status x = ''completed'') = (ra_completedAt x \<noteq> None)"
    using D(6) x unfolding assessments_ok_def by blast+
  have y: "ra_id y = ra_id x" "ra_assessment y = ra_assessment x" by (simp_all add: y_def updated_action_def)
  have "(ra_status y = ''completed'') = (ra_completedAt y \<noteq> None)"
    using old(2) by (cases "ac_status dto") (simp_all add: y_def updated_action_def)
  with y old(1) have new: "ra_assessment y \<in> am_id ` set (ix_assessments db) \<and> (ra_status y = ''completed'' \<longleftrightarrow> ra_completedAt y \<noteq> None)"
    by simp
  have "issuance_ok db'"
  proof (rule issuance_ok_notes [OF ok])
    fix z assume "z \<in> set (ix_actions db')"
    then have "z = y \<or> z \<in> set (ix_actions db)" using set_save_row_subset [of ra_id "ix_actions db" y] by (auto simp: db'_def)
    with new show "z \<in> set (ix_actions db)
      \<or> ra_assessment z \<in> am_id ` set (ix_assessments db) \<and> (ra_status z = ''completed'' \<longleftrightarrow> ra_completedAt z \<noteq> None)" by blast
  next
    have "fresh_table ra_id (save_row ra_id (ix_actions db) y) (ix_nextId db)"
      by (rule fresh_save_same [OF I(7)]) (use fresh_less [OF I(7) x] y in simp)
    then show "fresh_table ra_id (ix_actions db') (ix_nextId db')" by (simp add: db'_def)
  qed (use I(6) in \<open>simp_all add: db'_def\<close>)
  with cases ok show ?thesis by auto
qed

lemma removeRemediationAction_ok:
  assumes ok: "issuance_ok db"
  shows "issuance_ok (snd (removeRemediationAction n a k db))"
proof -
  note I = ids_okD [OF issuance_okD(1) [OF ok]]
  have "issuance_ok (db\<lparr>ix_actions := filter (\<lambda>x. ra_id x \<noteq> k) (ix_actions db)\<rparr>)"
    by (rule issuance_ok_notes [OF ok]) (use I(6,7) in \<open>auto simp: fresh_filter\<close>)
  with ok show ?thesis by (simp add: removeRemediationAction_def)
qed

section \<open>Linked documents\<close>

lemma set_links_ok:
  assumes ok: "issuance_ok db"
  shows "issuance_ok (set_links ls db)"
proof -
  note I = ids_okD [OF issuance_okD(1) [OF ok]]
  show ?thesis by (rule issuance_ok_notes [OF ok]) (use I(6,7) in \<open>auto simp: set_links_def\<close>)
qed

lemma issuance_linkDocument_ok: "issuance_ok db \<Longrightarrow> issuance_ok (snd (issuance_linkDocument env n d db))"
  by (simp add: issuance_linkDocument_def Let_def set_links_ok split: option.split)

lemma unlinkDocument_ok: "issuance_ok db \<Longrightarrow> issuance_ok (snd (unlinkDocument env n d db))"
  by (simp add: unlinkDocument_def set_links_ok)

section \<open>Requests\<close>

text \<open>Every request carries what its handler reads of the outside.  \<open>Create\<close> and \<open>Update\<close> are the methods of the service,
  of which the controller's requests \<open>create_request\<close> and \<open>update_request\<close> are instances.\<close>

datatype (plugins only: code) issuance_request =
    CreateIssuance issuance_env string string string issuance_dto "nat option"
  | UpdateIssuance issuance_env nat issuance_dto "nat option"
  | DeleteIssuance issuance_env nat "nat option"
  | UploadAttachment issuance_env nat "issuance_file option"
  | DeleteAttachment issuance_env nat
  | LinkDocument issuance_env nat nat
  | UnlinkDocument issuance_env nat nat
  | CreateDomain string "string option" "string option" "int option"
  | UpdateDomain nat domain_update
  | AddSource issuance_env nat source_dto "nat option"
  | VerifySource issuance_env nat nat "nat option"
  | AddRelationship nat nat string "string option" "nat option"
  | RemoveRelationship nat nat
  | SaveAssessment issuance_env nat assessment_dto "nat option"
  | AddEvidence nat nat evidence_dto "nat option"
  | RemoveEvidence nat nat nat
  | AddAction issuance_env nat nat action_dto
  | UpdateAction issuance_env nat nat nat action_dto
  | RemoveAction nat nat nat
  | DecideInclusion issuance_env nat bool "string option" "string option" "nat list option" "nat option"

fun issuance_exec :: "issuance_request \<Rightarrow> issuance_db \<Rightarrow> issuance_db" where
  "issuance_exec (CreateIssuance env num title authority dto user) db = snd (createIssuance env num title authority dto user db)"
| "issuance_exec (UpdateIssuance env n dto user) db = snd (updateIssuance env n dto user db)"
| "issuance_exec (DeleteIssuance env n user) db = snd (deleteIssuance env n user db)"
| "issuance_exec (UploadAttachment env n f) db = snd (uploadAttachment env n f db)"
| "issuance_exec (DeleteAttachment env n) db = snd (deleteAttachment env n db)"
| "issuance_exec (LinkDocument env n d) db = snd (issuance_linkDocument env n d db)"
| "issuance_exec (UnlinkDocument env n d) db = snd (unlinkDocument env n d db)"
| "issuance_exec (CreateDomain code name description so) db = snd (createDomain code name description so db)"
| "issuance_exec (UpdateDomain n dto) db = snd (updateDomain n dto db)"
| "issuance_exec (AddSource env n dto user) db = snd (addSource env n dto user db)"
| "issuance_exec (VerifySource env n k user) db = snd (verifySource env n k user db)"
| "issuance_exec (AddRelationship n t ty notes user) db = snd (addRelationship n t ty notes user db)"
| "issuance_exec (RemoveRelationship n k) db = snd (removeRelationship n k db)"
| "issuance_exec (SaveAssessment env n dto user) db = snd (saveAssessment env n dto user db)"
| "issuance_exec (AddEvidence n a dto user) db = snd (addAssessmentEvidence n a dto user db)"
| "issuance_exec (RemoveEvidence n a k) db = snd (removeAssessmentEvidence n a k db)"
| "issuance_exec (AddAction env n a dto) db = snd (addRemediationAction env n a dto db)"
| "issuance_exec (UpdateAction env n a k dto) db = snd (updateRemediationAction env n a k dto db)"
| "issuance_exec (RemoveAction n a k) db = snd (removeRemediationAction n a k db)"
| "issuance_exec (DecideInclusion env n include reason applicability ids user) db
     = snd (decideRegisterInclusion env n include reason applicability ids user db)"

definition issuance_run :: "issuance_request list \<Rightarrow> issuance_db \<Rightarrow> issuance_db" where
  "issuance_run rs db = fold issuance_exec rs db"

definition no_issuances :: "doc_db \<Rightarrow> issuance_db" where
  "no_issuances docs = \<lparr>ix_issuances = [], ix_domains = [], ix_sources = [], ix_relationships = [], ix_history = [],
     ix_assessments = [], ix_evidence = [], ix_actions = [], ix_recommendations = [], ix_decisions = [], ix_docs = docs,
     ix_nextId = 1\<rparr>"

lemmas issuance_handlers_ok = createIssuance_ok updateIssuance_ok deleteIssuance_ok uploadAttachment_ok deleteAttachment_ok
  issuance_linkDocument_ok unlinkDocument_ok createDomain_ok updateDomain_ok addSource_ok verifySource_ok addRelationship_ok
  removeRelationship_ok saveAssessment_ok addAssessmentEvidence_ok removeAssessmentEvidence_ok addRemediationAction_ok
  updateRemediationAction_ok removeRemediationAction_ok decideRegisterInclusion_ok

lemma issuance_exec_ok: "issuance_ok db \<Longrightarrow> issuance_ok (issuance_exec r db)"
  by (cases r) (simp_all add: issuance_handlers_ok)

lemma no_issuances_ok: "issuance_ok (no_issuances docs)"
  by (simp add: no_issuances_def issuance_ok_def ids_ok_def fresh_Nil table_ok_def register_ok_def amends_ok_def relations_ok_def
      amend_shapes_def rel_keys_def lifecycle_ok_def sources_ok_def assessments_ok_def)

lemma issuance_run_ok: "issuance_ok (issuance_run rs (no_issuances docs))"
proof -
  have "issuance_ok db \<Longrightarrow> issuance_ok (fold issuance_exec rs db)" for db
    by (induction rs arbitrary: db) (simp_all add: issuance_exec_ok)
  then show ?thesis by (simp add: issuance_run_def no_issuances_ok)
qed

end
