(* ===== verification/IssuanceProps.thy ===== *)
theory IssuanceProps
  imports IssuanceRequests
begin

text \<open>
  The properties of the register of issuances: inclusion, amendments, lifecycle, sources and assessments, and what no
  request takes away; then instances: an act, an act that amends it, and a decision to include the first.
\<close>

section \<open>Requests keep issuances and their trail\<close>

text \<open>No request but a deletion takes an issuance or an entry of its history away.\<close>

definition keeps_trail :: "issuance_db \<Rightarrow> issuance_db \<Rightarrow> bool" where
  "keeps_trail db db' \<longleftrightarrow> is_id ` set (ix_issuances db) \<subseteq> is_id ` set (ix_issuances db') \<and> (\<exists>hs. ix_history db' = ix_history db @ hs)"

lemma keeps_trailI:
  assumes "is_id ` set (ix_issuances db) \<subseteq> is_id ` set (ix_issuances db')" "ix_history db' = ix_history db"
  shows "keeps_trail db db'"
  using assms by (simp add: keeps_trail_def)

lemma keeps_trail_refl: "keeps_trail db db"
  by (rule keeps_trailI) simp_all

lemma keeps_trail_trans: "keeps_trail a b \<Longrightarrow> keeps_trail b c \<Longrightarrow> keeps_trail a c"
  unfolding keeps_trail_def by (metis append.assoc subset_trans)

lemma keeps_trail_save: "keeps_trail db (save_issuance i db)"
  by (rule keeps_trailI) (auto simp: save_issuance_def keys_save_row)

lemma keeps_trail_log: "keeps_trail a b \<Longrightarrow> keeps_trail a (log_lifecycle env n old new reason user b)"
  by (auto simp: keeps_trail_def log_lifecycle_def)

lemma keeps_trail_sync:
  "keeps_trail a b \<Longrightarrow> keeps_trail a (syncPrimaryUrlSource env i (syncLegacyAmendmentRelationship i user b))"
  by (simp add: keeps_trail_def)

lemma keeps_trail_same: "ix_issuances db' = ix_issuances db \<Longrightarrow> ix_history db' = ix_history db \<Longrightarrow> keeps_trail db db'"
  by (rule keeps_trailI) simp_all

lemma keeps_trail_changed:
  assumes "ix_issuances db' = map (\<lambda>i. if is_id i = n then f i else i) (ix_issuances db)" "\<And>i. is_id (f i) = is_id i"
    "ix_history db' = ix_history db"
  shows "keeps_trail db db'"
proof (rule keeps_trailI)
  have "map is_id (ix_issuances db') = map is_id (ix_issuances db)" by (simp add: assms(1,2) comp_def if_distrib [of is_id] cong: if_cong)
  then show "is_id ` set (ix_issuances db) \<subseteq> is_id ` set (ix_issuances db')" by (metis list.set_map order_refl)
qed (rule assms)

lemma createIssuance_trail: "keeps_trail db (snd (createIssuance env num title authority dto user db))"
proof (cases rule: createIssuance_cases [of env num title authority dto user db])
  case (created domains reason)
  have "keeps_trail db (save_issuance i (db\<lparr>ix_nextId := m\<rparr>))" for i m
    using keeps_trail_save [of "db\<lparr>ix_nextId := m\<rparr>" i] by (simp add: keeps_trail_def)
  then show ?thesis unfolding created(5) by (intro keeps_trail_log keeps_trail_sync)
qed (simp add: keeps_trail_refl)

lemma updateIssuance_trail: "keeps_trail db (snd (updateIssuance env n dto user db))"
proof (cases rule: updateIssuance_cases [of env n dto user db])
  case (updated old domains reason)
  show ?thesis unfolding updated(4) Let_def by (simp add: keeps_trail_log keeps_trail_sync keeps_trail_save)
qed (simp add: keeps_trail_refl)

lemma attachment_trail:
  "keeps_trail db (snd (uploadAttachment env n f db))" "keeps_trail db (snd (deleteAttachment env n db))"
proof -
  have P: "keeps_trail a (promote_source env n b)" if "keeps_trail a b" for a b
  proof -
    have "keeps_trail b (promote_source env n b)"
    proof (cases "oldest_by (\<lambda>s. - so_updatedAt s) (filter (\<lambda>s. so_issuance s = n) (ix_sources b))")
      case None
      then show ?thesis by (simp add: promote_source_def keeps_trail_refl)
    next
      case (Some s)
      have "keeps_trail b ((save_source env s' b)\<lparr>ix_issuances := map (\<lambda>i. if is_id i = n then i\<lparr>is_sourceUrl := u\<rparr> else i) (ix_issuances b)\<rparr>)"
        for s' u by (rule keeps_trail_changed [where n = n and f = "\<lambda>i. i\<lparr>is_sourceUrl := u\<rparr>"]) (simp_all add: save_source_def)
      moreover have "keeps_trail b (save_source env s' b)" for s' by (rule keeps_trail_same) (simp_all add: save_source_def)
      ultimately show ?thesis using Some by (simp add: promote_source_def Let_def keeps_trail_refl)
    qed
    with that show ?thesis by (rule keeps_trail_trans)
  qed
  have "keeps_trail db ((save_issuance i db)\<lparr>ix_sources := ss\<rparr>)" for i ss
    by (rule keeps_trail_trans [OF keeps_trail_save keeps_trail_same]) simp_all
  then show "keeps_trail db (snd (deleteAttachment env n db))"
    unfolding deleteAttachment_def Let_def by (simp add: keeps_trail_refl keeps_trail_save P split: option.split)
  show "keeps_trail db (snd (uploadAttachment env n f db))"
    unfolding uploadAttachment_def Let_def
    by (auto simp: keeps_trail_refl keeps_trail_def save_issuance_def save_source_def not_primary_def keys_save_row
        split: option.split sum.split)
qed

fun deletes :: "issuance_request \<Rightarrow> nat \<Rightarrow> bool" where
  "deletes (DeleteIssuance env n user) m = (n = m)"
| "deletes _ m = False"

lemma other_handlers_trail:
  "keeps_trail db (snd (issuance_linkDocument env n d db))" "keeps_trail db (snd (unlinkDocument env n d db))"
  "keeps_trail db (snd (createDomain code name description so db))" "keeps_trail db (snd (updateDomain n ddto db))"
  "keeps_trail db (snd (verifySource env n k user db))" "keeps_trail db (snd (saveAssessment env n adto user db))"
  "keeps_trail db (snd (addAssessmentEvidence n a edto user db))" "keeps_trail db (snd (removeAssessmentEvidence n a k db))"
  "keeps_trail db (snd (addRemediationAction env n a rdto db))" "keeps_trail db (snd (updateRemediationAction env n a k rdto db))"
  "keeps_trail db (snd (removeRemediationAction n a k db))"
  by (simp_all add: issuance_linkDocument_def unlinkDocument_def createDomain_def updateDomain_def verifySource_def saveAssessment_def
      addAssessmentEvidence_def removeAssessmentEvidence_def addRemediationAction_def updateRemediationAction_def
      removeRemediationAction_def Let_def keeps_trail_refl keeps_trail_same set_links_def save_source_def
      del: first_error.simps split: option.split)

lemma set_source_url_trail: "keeps_trail db db' \<Longrightarrow> keeps_trail db (set_source_url n url db')"
  by (erule keeps_trail_trans, rule keeps_trail_changed [where n = n and f = "\<lambda>i. i\<lparr>is_sourceUrl := Some url\<rparr>"])
    (simp_all add: set_source_url_def)

lemma set_amendment_trail: "keeps_trail db db' \<Longrightarrow> keeps_trail db (set_amendment n a num notes db')"
  by (erule keeps_trail_trans, rule keeps_trail_changed
      [where n = n and f = "\<lambda>i. i\<lparr>is_isAmendment := a, is_amendedNumber := num, is_amendmentNotes := notes\<rparr>"])
    (simp_all add: set_amendment_def)

lemma addSource_trail: "keeps_trail db (snd (addSource env n dto user db))"
  unfolding addSource_def Let_def
  by (split option.split)
    (auto simp: keeps_trail_refl save_source_def not_primary_def intro!: set_source_url_trail keeps_trail_same simp del: first_error.simps)

lemma relationship_trail:
  "keeps_trail db (snd (addRelationship n t ty notes user db))" "keeps_trail db (snd (removeRelationship n k db))"
proof -
  show "keeps_trail db (snd (addRelationship n t ty notes user db))" unfolding addRelationship_def Let_def
    by (split option.split) (auto simp: keeps_trail_refl intro!: set_amendment_trail keeps_trail_same simp del: first_error.simps)
  show "keeps_trail db (snd (removeRelationship n k db))" unfolding removeRelationship_def Let_def
    by (split option.split) (auto simp: keeps_trail_refl intro!: set_amendment_trail keeps_trail_same)
qed

lemma decision_trail: "keeps_trail db (snd (decideRegisterInclusion env n include reason applicability ids user db))"
  unfolding decideRegisterInclusion_def Let_def
  by (auto simp: keeps_trail_refl keeps_trail_def save_issuance_def settle_recommendations_def keys_save_row
      split: option.split sum.split)

lemmas handlers_trail = createIssuance_trail updateIssuance_trail attachment_trail other_handlers_trail addSource_trail
  relationship_trail decision_trail

text \<open>What a deletion does to the issuances it does not erase.\<close>

lemma deleteIssuance_trail:
  assumes "find_issuance db m = Some i" "issuance_ok db"
    and "m \<noteq> n \<or> is_lifecycle i \<noteq> ''draft'' \<or> list_ex (\<lambda>r. rl_source r = m \<or> rl_target r = m) (ix_relationships db)
      \<or> list_ex (\<lambda>a. am_issuance a = m) (ix_assessments db)"
  shows "m \<in> is_id ` set (ix_issuances (snd (deleteIssuance env n user db)))
    \<and> (\<exists>hs. history_of (snd (deleteIssuance env n user db)) m = history_of db m @ hs)"
proof -
  have i: "i \<in> set (ix_issuances db)" "is_id i = m" using find_issuance_Some [OF assms(1)] by simp_all
  have kept: ?thesis if "keeps_trail db (snd (deleteIssuance env n user db))"
    using that i by (auto simp: keeps_trail_def history_of_def)
  show ?thesis
  proof (cases "m = n")
    case True
    with assms(1,3) have "keeps_trail db (snd (deleteIssuance env n user db))"
      by (auto simp: deleteIssuance_def count_rows_def filter_empty_conv list_ex_iff keeps_trail_refl keeps_trail_log keeps_trail_save)
    with kept show ?thesis .
  next
    case False
    have "keeps_trail db (snd (deleteIssuance env n user db)) \<or> snd (deleteIssuance env n user db) = erase_issuance n db"
      by (simp add: deleteIssuance_def keeps_trail_refl keeps_trail_log keeps_trail_save split: option.split)
    then show ?thesis
    proof
      assume eq: "snd (deleteIssuance env n user db) = erase_issuance n db"
      have "history_of (erase_issuance n db) m = history_of db m"
        using False by (auto simp: history_of_def erase_issuance_def intro: filter_cong)
      moreover have "i \<in> set (ix_issuances (erase_issuance n db))" using i False by (simp add: erase_issuance_def)
      ultimately show ?thesis unfolding eq using i(2) by auto
    qed (rule kept)
  qed
qed

section \<open>Properties\<close>

text \<open>C13: Whatever requests came, an issuance that is included in the register is active and applicable, at least in part, and
  has an active domain and a source.\<close>

theorem register_sound:
  "let db = issuance_run rs (no_issuances docs)
   in \<forall>i \<in> set (ix_issuances db). is_decision i = ''included'' \<longrightarrow> is_lifecycle i = ''active'' \<and> is_isActive i
     \<and> is_applicability i \<in> {''applicable'', ''partially_applicable''}
     \<and> (\<exists>d \<in> set (ix_domains db). dm_id d \<in> set (is_domains i) \<and> dm_isActive d)
     \<and> ((\<exists>s \<in> set (ix_sources db). so_issuance s = is_id i) \<or> truthy_text (is_sourceUrl i))"
proof -
  have "register_ok (issuance_run rs (no_issuances docs))" by (rule issuance_okD(2) [OF issuance_run_ok])
  then have "register_row_ok (issuance_run rs (no_issuances docs)) i"
    if "i \<in> set (ix_issuances (issuance_run rs (no_issuances docs)))" for i using that by (simp add: register_ok_def)
  then show ?thesis
    unfolding Let_def register_row_ok_def included_ok_def has_source_iff active_domain_def list_ex_iff image_iff by metis
qed



text \<open>C32: An issuance has at most one primary source, a file is a source of one issuance only, an issuance has one assessment
  for a year and quarter, and exactly the completed corrective actions have a date of completion.\<close>

theorem sources_and_assessments_unique:
  "let db = issuance_run rs (no_issuances docs)
   in (\<forall>s \<in> set (ix_sources db). \<forall>t \<in> set (ix_sources db). so_isPrimary s \<and> so_isPrimary t \<and> so_issuance s = so_issuance t \<longrightarrow> s = t)
    \<and> (\<forall>s \<in> set (ix_sources db). \<forall>t \<in> set (ix_sources db). so_sha256 s \<noteq> None \<and> so_sha256 s = so_sha256 t \<longrightarrow> s = t)
    \<and> distinct (map (\<lambda>a. (am_issuance a, am_year a, am_quarter a)) (ix_assessments db))
    \<and> (\<forall>x \<in> set (ix_actions db). ra_status x = ''completed'' \<longleftrightarrow> ra_completedAt x \<noteq> None)"
proof -
  let ?db = "issuance_run rs (no_issuances docs)"
  note D = issuance_okD [OF issuance_run_ok [of rs docs]]
  have same: "s = t" if "s \<in> set (ix_sources ?db)" "t \<in> set (ix_sources ?db)" "so_id s = so_id t" for s t
    by (rule fresh_unique [OF ids_okD(3) [OF D(1)] that])
  have "distinct (map (\<lambda>a. (am_issuance a, am_year a, am_quarter a)) (ix_assessments ?db))"
    using D(6) by (simp add: assessments_ok_def assessment_key_def [abs_def])
  moreover have "\<forall>x \<in> set (ix_actions ?db). ra_status x = ''completed'' \<longleftrightarrow> ra_completedAt x \<noteq> None"
    using D(6) unfolding assessments_ok_def by blast
  ultimately show ?thesis unfolding Let_def using same sources_okD [OF D(5)] by blast
qed

text \<open>C22: No request takes an issuance or an entry of its lifecycle history away, except the deletion of a draft that has no
  relationship and no assessment.\<close>

theorem issuance_trail_stays:
  assumes "i \<in> set (ix_issuances (issuance_run rs (no_issuances docs)))"
    and "deletes r (is_id i) \<Longrightarrow> is_lifecycle i \<noteq> ''draft''
      \<or> list_ex (\<lambda>q. rl_source q = is_id i \<or> rl_target q = is_id i) (ix_relationships (issuance_run rs (no_issuances docs)))
      \<or> list_ex (\<lambda>a. am_issuance a = is_id i) (ix_assessments (issuance_run rs (no_issuances docs)))"
  shows "let db = issuance_run rs (no_issuances docs); db' = issuance_run (rs @ [r]) (no_issuances docs)
    in is_id i \<in> is_id ` set (ix_issuances db') \<and> (\<exists>hs. history_of db' (is_id i) = history_of db (is_id i) @ hs)"
proof -
  let ?db = "issuance_run rs (no_issuances docs)"
  have ok: "issuance_ok ?db" by (rule issuance_run_ok)
  have find: "find_issuance ?db (is_id i) = Some i"
    using find_row_table_ok [OF _ assms(1), of is_id] ids_okD(1) [OF issuance_okD(1) [OF ok]]
    by (simp add: find_issuance_def fresh_table_def)
  have run: "issuance_run (rs @ [r]) (no_issuances docs) = issuance_exec r ?db" by (simp add: issuance_run_def)
  have kept: "is_id i \<in> is_id ` set (ix_issuances db') \<and> (\<exists>hs. history_of db' (is_id i) = history_of ?db (is_id i) @ hs)"
    if "keeps_trail ?db db'" for db'
    using that assms(1) by (auto simp: keeps_trail_def history_of_def)
  show ?thesis unfolding Let_def run
  proof (cases r)
    case (DeleteIssuance env n user)
    with assms(2) deleteIssuance_trail [OF find ok, of n env user]
    show "is_id i \<in> is_id ` set (ix_issuances (issuance_exec r ?db))
      \<and> (\<exists>hs. history_of (issuance_exec r ?db) (is_id i) = history_of ?db (is_id i) @ hs)" by auto
  qed (use kept handlers_trail in auto)
qed

lemma createIssuance_Inr:
  "createIssuance env num title authority dto user db = (Inr i, db') \<Longrightarrow> \<exists>ds. i = new_issuance (ix_nextId db) num title authority dto ds"
  by (auto simp: createIssuance_def Let_def simp del: first_error.simps split: option.splits sum.splits)

lemma updateIssuance_Inr:
  "updateIssuance env n dto user db = (Inr i, db') \<Longrightarrow> \<exists>old ds. find_issuance db n = Some old \<and> i = updated_issuance dto ds old"
  by (auto simp: updateIssuance_def Let_def simp del: first_error.simps split: option.splits sum.splits if_splits)

text \<open>C23: The requests of the web interface that create and update issuances include nothing in the register: a new issuance is
  pending, an updated one is included only if it was before, and only a reviewer sets the applicability.\<close>

theorem only_decisions_include:
  "(\<forall>i db'. create_request env role num title authority dto user db = (Inr i, db') \<longrightarrow>
      is_decision i = ''pending'' \<and> (isIssuancesReview (xe_caps env) role \<or> is_applicability i = ''pending_review''))
   \<and> (\<forall>i db'. update_request env role n dto user db = (Inr i, db') \<longrightarrow>
      (\<exists>old. find_issuance db n = Some old \<and> (is_decision i = ''included'' \<longrightarrow> is_decision old = ''included'')
         \<and> (isIssuancesReview (xe_caps env) role \<or> is_applicability i = is_applicability old)))"
proof (intro conjI allI impI)
  fix i db' assume "create_request env role num title authority dto user db = (Inr i, db')"
  from createIssuance_Inr [OF this [unfolded create_request_def]] obtain ds where "i = new_issuance (ix_nextId db) num title authority
    (if isIssuancesReview (xe_caps env) role then dto\<lparr>di_decision := Some ''pending''\<rparr>
     else dto\<lparr>di_applicability := Some ''pending_review'', di_decision := Some ''pending''\<rparr>) ds" by blast
  then show "is_decision i = ''pending''" "isIssuancesReview (xe_caps env) role \<or> is_applicability i = ''pending_review''"
    by (cases "isIssuancesReview (xe_caps env) role"; simp add: new_issuance_def Let_def text_or_def)+
next
  fix i db' assume "update_request env role n dto user db = (Inr i, db')"
  from updateIssuance_Inr [OF this [unfolded update_request_def]] obtain old ds where old: "find_issuance db n = Some old"
    "i = updated_issuance (let payload = dto\<lparr>di_decision := None\<rparr> in if isIssuancesReview (xe_caps env) role then payload
        else payload\<lparr>di_applicability := None\<rparr>) ds old" by blast
  then show "\<exists>old. find_issuance db n = Some old \<and> (is_decision i = ''included'' \<longrightarrow> is_decision old = ''included'')
      \<and> (isIssuancesReview (xe_caps env) role \<or> is_applicability i = is_applicability old)"
    by (simp add: updated_issuance_def assign_fields_def next_decision_def Let_def)
qed

section \<open>Instances\<close>

definition register_env :: issuance_env where
  "register_env = \<lparr>xe_now = 5000, xe_caps = (\<lambda>_. None), xe_linksTable = True, xe_sha256 = (\<lambda>b. replicate (length b) CHR ''x'')\<rparr>"

definition plain_dto :: issuance_dto where
  "plain_dto = \<lparr>di_title = None, di_authority = None, di_register = None, di_lifecycle = Some ''active'',
     di_applicability = Some ''applicable'', di_decision = None, di_scope = None, di_statusReason = None, di_domainIds = Some [1],
     di_isAmendment = None, di_amendedNumber = None, di_amendmentNotes = None, di_sourceUrl = Some ''http://a/'', di_details = []\<rparr>"

definition sample_register :: "issuance_request list" where
  "sample_register = [CreateDomain ''Privacy'' (Some ''Privacy'') None None,
     CreateIssuance register_env ''RA 1'' ''Act'' ''Congress'' plain_dto None,
     CreateIssuance register_env ''RA 2'' ''Amendment'' ''Congress''
       (plain_dto\<lparr>di_isAmendment := Some True, di_amendedNumber := Some ''RA 1''\<rparr>) None,
     DecideInclusion register_env 2 True (Some ''core duty'') None None None,
     UpdateIssuance register_env 4 (plain_dto\<lparr>di_lifecycle := Some ''expired'', di_statusReason := Some ''sunset''\<rparr>) None]"

definition no_docs :: doc_db where
  "no_docs = \<lparr>dc_documents = [], dc_versions = [], dc_reviews = [], dc_references = [], dc_comparisons = [],
     dc_assignments = [], dc_types = [], dc_templates = [], dc_applicability = [], dc_results = [], dc_issuanceLinks = [],
     dc_tasks = [], dc_nextId = 1\<rparr>"

abbreviation sample_db :: issuance_db where "sample_db \<equiv> issuance_run sample_register (no_issuances no_docs)"

lemma sample_issuances:
  "map (\<lambda>i. (is_id i, is_decision i, is_lifecycle i, is_isAmendment i)) (ix_issuances sample_db)
    = [(2, ''included'', ''active'', False), (4, ''pending'', ''expired'', True)]"
  by code_simp

lemma sample_rows:
  "\<exists>i \<in> set (ix_issuances sample_db). is_id i = 2 \<and> is_decision i = ''included'' \<and> \<not> is_isAmendment i"
  "\<exists>i \<in> set (ix_issuances sample_db). is_id i = 4 \<and> is_lifecycle i = ''expired'' \<and> is_isAmendment i"
proof -
  have "(2, ''included'', ''active'', False) \<in> (\<lambda>i. (is_id i, is_decision i, is_lifecycle i, is_isAmendment i)) ` set (ix_issuances sample_db)"
    "(4, ''pending'', ''expired'', True) \<in> (\<lambda>i. (is_id i, is_decision i, is_lifecycle i, is_isAmendment i)) ` set (ix_issuances sample_db)"
    unfolding set_map [symmetric] sample_issuances by simp_all
  then show "\<exists>i \<in> set (ix_issuances sample_db). is_id i = 2 \<and> is_decision i = ''included'' \<and> \<not> is_isAmendment i"
    "\<exists>i \<in> set (ix_issuances sample_db). is_id i = 4 \<and> is_lifecycle i = ''expired'' \<and> is_isAmendment i" by force+
qed

lemma register_sound_witness:
  "\<exists>i \<in> set (ix_issuances sample_db). is_id i = 2 \<and> is_isActive i \<and> is_applicability i \<in> {''applicable'', ''partially_applicable''}"
  using sample_rows(1) register_sound [of sample_register no_docs] unfolding Let_def by blast



lemma sources_and_assessments_unique_witness:
  "length (filter so_isPrimary (ix_sources sample_db)) = 2
    \<and> distinct (map (\<lambda>a. (am_issuance a, am_year a, am_quarter a)) (ix_assessments sample_db))"
proof -
  have "length (filter so_isPrimary (ix_sources sample_db)) = 2" by code_simp
  with sources_and_assessments_unique [of sample_register no_docs] show ?thesis unfolding Let_def by blast
qed

lemma issuance_trail_stays_witness:
  "2 \<in> is_id ` set (ix_issuances (issuance_run (sample_register @ [DeleteIssuance register_env 2 None]) (no_issuances no_docs)))"
proof -
  from sample_rows(1) obtain i where i: "i \<in> set (ix_issuances sample_db)" "is_id i = 2" "is_decision i = ''included''" by blast
  with issuance_okD(2) [OF issuance_run_ok [of sample_register no_docs]]
  have "is_lifecycle i \<noteq> ''draft''" by (auto simp: register_ok_def register_row_ok_def included_ok_def)
  with issuance_trail_stays [OF i(1), of "DeleteIssuance register_env 2 None"] i(2) show ?thesis by (simp add: Let_def)
qed

lemma only_decisions_include_witness:
  "case create_request register_env USER ''RA 3'' ''Act'' ''Congress'' (plain_dto\<lparr>di_domainIds := None\<rparr>) None (no_issuances no_docs) of
     (Inr i, _) \<Rightarrow> is_applicability i = ''pending_review'' | _ \<Rightarrow> False"
proof -
  have "case create_request register_env USER ''RA 3'' ''Act'' ''Congress'' (plain_dto\<lparr>di_domainIds := None\<rparr>) None (no_issuances no_docs) of
     (Inr i, _) \<Rightarrow> True | _ \<Rightarrow> False" by code_simp
  moreover have "\<not> isIssuancesReview (xe_caps register_env) USER"
    by (simp add: isIssuancesReview_def has_capability_def register_env_def)
  ultimately show ?thesis
    using only_decisions_include [of register_env USER "''RA 3''" "''Act''" "''Congress''" "plain_dto\<lparr>di_domainIds := None\<rparr>" None
        "no_issuances no_docs"] by (auto split: prod.splits sum.splits)
qed

end
