(* ===== verification/Spec2Isabelle.thy ===== *)
theory Spec2Isabelle
  imports Witnesses SessionProps DutyProps DocWitnesses KpiProps IssuanceProps
begin

text \<open>
  Verification library of services of the compliance hub: the ticketing service, under
  \<^verbatim>\<open>src/backend/src/modules/tickets\<close>, the sign-in of the users service, under
  \<^verbatim>\<open>src/backend/src/modules/auth\<close> and \<^verbatim>\<open>users\<close>, and the compliance service for documents, under \<^verbatim>\<open>documents\<close>,
  \<^verbatim>\<open>reviews\<close> and \<^verbatim>\<open>metrics\<close> of the same directory, with its indicators, under \<^verbatim>\<open>kpi\<close>, and its register of issuances,
  under \<^verbatim>\<open>references\<close>.  The ticketing service keeps IT support tickets in SQL tables and measures
  the time spent on them by a clock that runs in working hours only.  Requests arrive through handlers of
  \<^verbatim>\<open>ticket.service.ts\<close>, \<^verbatim>\<open>attendance.service.ts\<close> and \<^verbatim>\<open>ticket-settings.service.ts\<close>; a scheduler
  (\<^verbatim>\<open>ticket-cron.service.ts\<close>) stops and resumes the clocks, closes and reopens tickets and finalises the
  attendance of the day.  Handlers that touch one ticket run under a lock, so the library takes a whole
  handler as one step.

  \<^bold>\<open>State.\<close>  \<open>db\<close> (Store) holds one list of rows per table, in the order of insertion: tickets, escalations,
  events, justifications, categories, issue types, the configuration row, office days, attendance, focals,
  accounts, comments, resolution-time overrides and keyword rules.  \<open>env\<close> holds what a handler only reads:
  the time (one reading per handler), the cached capabilities, the users service (\<open>env_getUserById\<close>), the duty
  service's blocked accounts (\<open>env_blocked\<close>), the next generated id and the text of ids.  A handler is a function
  \<open>env \<Rightarrow> arguments \<Rightarrow> db \<Rightarrow> result \<times> db\<close>: the result is an error of \<open>http_error\<close> with its reason or the value,
  and the tables that are returned with an error contain what was written before the throw.  The scheduler's
  memory and the state of the clock-record connection are \<open>cron_state\<close> (Cron).

  \<^bold>\<open>Theories.\<close>
  \<^item> Prelude: errors and reasons, guards, JavaScript helpers, tables as lists with a key, least elements.
  \<^item> Roles, ManilaTime, Calendar: \<^verbatim>\<open>role-capabilities.http-client.ts\<close>, the Manila wall clock, office days.
  \<^item> SlaClock, SlaClockFacts: \<open>calculateSlaDeadline\<close> and \<open>calculateBusinessSeconds\<close>, and the proof that both
    agree with a count of working seconds, by an abstract walk over blocks stated as a locale.
  \<^item> Tickets, SlaPause, Interruptions: the ticket entity, \<^verbatim>\<open>ticket-sla-pause.ts\<close>, \<^verbatim>\<open>ticket-interruptions.ts\<close>.
  \<^item> Store, Attendance, SlaProjection, Access, Queue: tables and events, the assignment pools, what a reader is
    shown, who reads what, promotion of waiting work.
  \<^item> UpdateRules, UpdateTicket, UpdateFacts, UpdateProps: \<open>updateTicket\<close>.
  \<^item> Assignment, AssignmentFacts, Uploads, Escalations, EscalationFacts, Schedule, ScheduleFacts, PauseNeutral:
    assignment, image checks, escalations and cancellation, the work schedule.
  \<^item> Comments, Corrections, CorrectionFacts, Keywords, Creation, CreationFacts: comments and images, the three
    corrections, ratings, keyword routing, creation.
  \<^item> Cron, CronFacts, AttendanceRecords: the scheduled tasks, attendance and its synchronisation.
  \<^item> Invariant, Evolution, History: the invariant \<open>db_wf\<close> of the tables and the relation \<open>evolves\<close> between the
    tables before and after a handler (outcomes are final, log and evidence only grow), for every handler.
  \<^item> System: the requests, the transition relation \<open>step\<close>, runs and reachable states, the ledger.
  \<^item> ClockProps, WorkProps, RecordProps, RoutineProps: the properties by subject; Samples and Witnesses: their
    instances on concrete tables.

  \<^item> Accounts, SignIn, Sessions: accounts, security configuration and access policy; second factor, recovery, trusted
    devices, tokens; the handlers of \<^verbatim>\<open>auth.service.ts\<close>.  The state is \<open>auth_db\<close>, what a handler reads of
    the outside (clock, bcrypt, token library, Google, random source) is \<open>auth_env\<close>.
  \<^item> Duty, DutyCoverage, DutyRequests: the duty rosters of \<^verbatim>\<open>duty.service.ts\<close>: rotation, coverage of a day's duties,
    meetings and relievers.  The state is \<open>duty_db\<close>; \<open>blockedTechnicianIds\<close> of it is the value of \<open>env_blocked\<close>.
  \<^item> DutyFacts, DutyInvariant, DutySystem, DutyProps: what every operation keeps of the duty tables,
    runs of requests and routines, the properties and their instances.
  \<^item> SignInFacts, AuthSystem, SessionProps: the second factor as a small machine that every
    request tracks, runs of requests, the properties and their instances.

  \<^item> Periods, PeriodProps: reporting periods, file names, deadlines.
  \<^item> MetricEngines, DocStore, Metrics, Documents, DocWorkflow: the four engines of automatic checks; the tables of the
    compliance service (\<open>doc_db\<close>) and what a handler reads of the outside (\<open>doc_env\<close>); execution of checks; uploads,
    versions and processing; reviews, archive, references, assignments, repository, comparison.  What a handler
    starts and does not wait for (jobs of the queue, timers) is a \<open>task\<close> in the tables, which a run may do later, in
    any order and more than once.
  \<^item> MetricFacts, DocFacts, DocSystem, DocProps, DocFlow, DocWitnesses: what every operation keeps (\<open>docs_ok\<close>) and never
    takes back (\<open>history\<close>), runs, the properties and their instances.

  \<^item> Forms: what the other services of the compliance suite share: fields of a form, names of persons, tables with
    generated ids.
  \<^item> Kpi, KpiFacts, KpiProps: \<^verbatim>\<open>kpi/services/kpi.service.ts\<close>.  The state is \<open>kpi_db\<close>; \<open>kpi_env\<close> holds the clock,
    the capabilities, the users and units services and the collation of texts.  Requests (\<open>kpi_request\<close>) run one
    after the other; the queries (lists, dashboards, time series, action plans) are functions of the state.

  \<^item> Issuances, IssuanceFacts, IssuanceRequests, IssuanceProps: \<^verbatim>\<open>references/services/issuance.service.ts\<close> and the
    create and update bodies of \<^verbatim>\<open>references/controllers/issuance.controller.ts\<close>.  The state is \<open>issuance_db\<close>
    (\<^verbatim>\<open>references/entities\<close>); \<open>issuance_env\<close> holds the clock, the capabilities, the presence of the link table and the
    hash of a file.  Every operation keeps the invariant \<open>issuance_ok\<close>; \<open>issuance_run\<close> runs requests one after the other.

  \<^bold>\<open>What the theorems show.\<close>  The clock: the two loops compute the reference count, a deadline is the first
  instant at which the budget is spent, schedule pauses are neutral.  The handlers: what each requires and
  stores, on every branch the theorem names; decisions that are final (escalations, ratings, claims, terminal
  statuses); no lost update; errors that leave no trace.  The whole: every reachable state satisfies the
  invariant and every run is a run of the ledger.  Sign-in: who gets a session, how many codes can be tried,
  that exchanged and logged-out tokens stay refused, who unlocks whom, what generated passwords look like.  Duties: one coverage per slot, one meeting per venue and
  period, whose turn it is, who may be activated, and who on duty gets no tickets.  Indicators: one value per
  indicator, unit and month, locked values that stay, what the dashboards compute and how they agree, what a user of one
  unit cannot learn.  Issuances: what an issuance in the register is, amendments that agree with relationships, a
  lifecycle history without gaps, unique sources and assessments, what may be removed, and that only decisions include.  Documents: numbered versions, one
  submission per cycle, what a failed check and a decision lead to, what the repository shows, and that no run takes
  back a decision.

  \<^bold>\<open>Bounds and fuel.\<close>  The loops of the source carry their own bounds: 200000 iterations for a deadline, five a
  day and ten for a measurement.  The bounds are part of the model; \<open>sla_deadline_returns\<close> and
  \<open>business_seconds_reference\<close> show that they are enough, the first for every budget within the working
  seconds of 39999 days, the second always.  Milliseconds are integers and hours exact rationals where the
  source has doubles.  The other loops run over lists.

  \<^bold>\<open>Parameters.\<close>  The users service, the duty service, generated ids, the view of clock records and the capability
  cache are not part of this code; the models take them as arguments and assume nothing of them, except that a
  request is given an id that no ticket has.  For documents the parameters are the extraction of text (mammoth,
  pdf-parse), the hash of a file, the regular expressions of administrators, the difference of two texts and the export
  of Google documents; nothing is assumed of them.  Ids of the compliance service are a counter.  Servers run in the Manila time zone.  A runtime may format the
  first hour of a day as 24 (\<open>env_h24\<close>); theorems on the clock exclude that hour with \<open>hours_readable\<close>.

  \<^bold>\<open>Not modelled.\<close>  Mails, notifications and live events (except the recipients of comment notifications),
  files on disk, the knowledge base, listing queries, statistics and report builders, settings CRUD, rating
  invitations, the duty service's dashboard and lists, tickets for requesters without an account, failures of locks and of the
  database, the administration of accounts, the lists and the preview job of the compliance service, texts of messages,
  the lists of issuances, the other services of the platform (means of verification, incidents) and the web client.  The change of accounts, configuration, calendar and rules by these parts is the step \<open>platform\<close>,
  which may change them in any way.
\<close>

section \<open>The service as a whole\<close>

text \<open>C1: every reachable ticket is sound. Whatever sequence of requests, scheduled runs and changes of the
  surrounding platform leads to the tables from an empty installation, a ticket in progress has a started
  clock and is in no queue, a finished one has no pause marker, a resolved one has a resolution time, a
  duplicate names its original, a cancelled one its time, and no accumulated pause is negative.\<close>

theorem reachable_tickets_sound:
  assumes "reachable (st, db)" "t \<in> set (db_tickets db)"
  shows "(status t = IN_PROGRESS \<longrightarrow> slaStartedAt t \<noteq> None \<and> \<not> isSlaWaiting t)
    \<and> (status t \<in> {RESOLVED, CLOSED, DUPLICATE, CANCELLED} \<longrightarrow> slaPausedAt t = None \<and> \<not> isSlaWaiting t)
    \<and> (status t \<in> {RESOLVED, CLOSED} \<longrightarrow> resolvedAt t \<noteq> None)
    \<and> (status t = DUPLICATE \<longrightarrow> duplicateOfId t \<noteq> None)
    \<and> (status t = CANCELLED \<longrightarrow> cancelledAt t \<noteq> None)
    \<and> 0 \<le> accumulatedPauseSeconds t"
proof -
  from reachable_wf [OF assms(1)] assms(2) have "ticket_wf t" by (simp add: db_wf_def)
  then show ?thesis unfolding ticket_wf_def by blast
qed

text \<open>Ids are unique. In every reachable state no two tickets and no two escalations share an id, so a ticket
  looked up by its id is the ticket itself.\<close>

lemma reachable_ids_unique:
  assumes "reachable (st, db)" "t \<in> set (db_tickets db)"
  shows "distinct (map ticket_id (db_tickets db)) \<and> distinct (map esc_id (db_escalations db))
    \<and> find_ticket db (ticket_id t) = Some t"
proof -
  from reachable_wf [OF assms(1)] have wf: "db_wf db" by simp
  with find_own [OF wf assms(2)] show ?thesis by (simp add: db_wf_def db_ok_def table_ok_def)
qed

text \<open>C2: the service refines a ledger. Read as the outcomes of the closed and cancelled tickets, the event log
  and the evidence of corrected resolution times, every run of the service is a run of the ledger: an outcome
  once entered stays, and log and evidence are only appended to.\<close>

theorem service_refines_ledger:
  assumes "runs (st, db) (st', db')" "db_wf db"
  shows "ledger_move (ledger_of db) (ledger_of db')"
  using evolves_ledger service.run_rel [OF assms(1)] assms(2) by simp

text \<open>C40: a refused request leaves no trace. For the requests that check everything before they write (creation,
  escalation, its return and its proof, cancellation, comment, image replacement, rating, attendance), an
  error answer means the tables are exactly as before.\<close>

theorem refused_request_no_trace:
  assumes "checks_first q" "refusal env dtr q db = Some e"
  shows "perform env dtr q db = db"
  using assms by (rule refused_frame)

section \<open>A first request\<close>

text \<open>The request the theorems about runs are instantiated at: a user files a ticket in a fresh installation.\<close>

definition first_filed :: db where
  "first_filed = perform demo_env synced_status (CreateTicket False filing 3 (Some USER) []) (demo_db [])"

lemma request_step: "fresh_id env db \<Longrightarrow> step (idle_cron, db) (idle_cron, perform env synced_status q db)"
  using step.request [of env db idle_cron q] by (simp add: idle_cron_def del: perform.simps)

lemma filing_reachable: "reachable (idle_cron, first_filed)"
proof -
  have "initial (demo_db [])" by (simp add: initial_def demo_db_def)
  then have "reachable (idle_cron, demo_db [])" by (auto simp: reachable_def)
  moreover have "fresh_id demo_env (demo_db [])" by (simp add: fresh_id_def find_ticket_def find_row_def demo_db_def)
  ultimately show ?thesis unfolding first_filed_def by (rule reachable_step [OF _ request_step])
qed

lemma filing_stored: "\<exists>t. t \<in> set (db_tickets first_filed) \<and> ticket_id t = 90"
proof -
  have "map ticket_id (db_tickets first_filed) = [90]" by code_simp
  then have "90 \<in> set (map ticket_id (db_tickets first_filed))" by simp
  then show ?thesis by (metis (mono_tags) image_iff list.set_map)
qed

lemma reachable_tickets_sound_witness:
  "\<exists>t. t \<in> set (db_tickets first_filed) \<and> ticket_id t = 90 \<and> 0 \<le> accumulatedPauseSeconds t"
  using filing_stored reachable_tickets_sound [OF filing_reachable] by blast

lemma service_refines_ledger_witness:
  "ledger_move (ledger_of (demo_db [running_ticket 11 2]))
     (ledger_of (perform demo_env synced_status (UpdateTicket 11 resolve_update 2 tech_role) (demo_db [running_ticket 11 2])))"
proof -
  have "fresh_id demo_env (demo_db [running_ticket 11 2])"
    by (simp add: fresh_id_def find_ticket_def find_row_def demo_db_def running_ticket_def assigned_ticket_def
        blank_ticket_def demo_env_def)
  then have "runs (idle_cron, demo_db [running_ticket 11 2]) (idle_cron,
      perform demo_env synced_status (UpdateTicket 11 resolve_update 2 tech_role) (demo_db [running_ticket 11 2]))"
    by (intro r_into_rtranclp request_step)
  then show ?thesis by (rule service_refines_ledger) (rule demo_db_wf(1))
qed

lemma refused_request_no_trace_witness:
  "perform demo_env synced_status (CancelTicket 11 empty_cancel 1) (demo_db [running_ticket 11 2])
     = demo_db [running_ticket 11 2]"
proof -
  have "refusal demo_env synced_status (CancelTicket 11 empty_cancel 1) (demo_db [running_ticket 11 2]) \<noteq> None"
    by code_simp
  then obtain e where
    "refusal demo_env synced_status (CancelTicket 11 empty_cancel 1) (demo_db [running_ticket 11 2]) = Some e" by blast
  from refused_request_no_trace [OF _ this] show ?thesis by (simp del: perform.simps)
qed

end
